(* ===== verification/Prelude.thy ===== *)
theory Prelude
  imports Main "HOL-Library.AList"
begin

text \<open>
  Shared vocabulary of the development: the result monad (an error on the left, a value
  on the right), the primitives of a table of rows addressed by an integer key, and small
  facts on lists and options. The collections \<open>res_simps\<close>, \<open>table_simps\<close> and
  \<open>table_intros\<close> are what the component proofs hand to the simplifier.
\<close>

named_theorems res_simps "when a sequence of fallible steps succeeds or fails"
named_theorems table_simps "reading a table after writing it"
named_theorems table_intros "well-formedness of tables is kept"

section \<open>Results\<close>

type_synonym ('e, 'a) result = "'e + 'a"

text \<open>Sequencing: the first \<open>raise\<close> ends the computation.\<close>

definition rbind :: "('e, 'a) result \<Rightarrow> ('a \<Rightarrow> ('e, 'b) result) \<Rightarrow> ('e, 'b) result" where
  "rbind r f = (case r of Inl e \<Rightarrow> Inl e | Inr x \<Rightarrow> f x)"

text \<open>\<open>if not b: raise e\<close>\<close>

definition ensure :: "bool \<Rightarrow> 'e \<Rightarrow> ('e, unit) result" where
  "ensure b e = (if b then Inr () else Inl e)"

text \<open>\<open>if x is None: raise e\<close>\<close>

definition some_or :: "'a option \<Rightarrow> 'e \<Rightarrow> ('e, 'a) result" where
  "some_or x e = (case x of None \<Rightarrow> Inl e | Some y \<Rightarrow> Inr y)"

fun rmap :: "('a \<Rightarrow> ('e, 'b) result) \<Rightarrow> 'a list \<Rightarrow> ('e, 'b list) result" where
  "rmap f [] = Inr []"
| "rmap f (x # xs) = rbind (f x) (\<lambda>y. rbind (rmap f xs) (\<lambda>ys. Inr (y # ys)))"

fun rfold :: "('a \<Rightarrow> 's \<Rightarrow> ('e, 's) result) \<Rightarrow> 'a list \<Rightarrow> 's \<Rightarrow> ('e, 's) result" where
  "rfold f [] s = Inr s"
| "rfold f (x # xs) s = rbind (f x s) (rfold f xs)"

definition is_ok :: "('e, 'a) result \<Rightarrow> bool" where
  "is_ok r = (case r of Inl _ \<Rightarrow> False | Inr _ \<Rightarrow> True)"

lemma rbind_Inl [simp]: "rbind (Inl e) f = Inl e"
  by (simp add: rbind_def)

lemma rbind_Inr [simp]: "rbind (Inr x) f = f x"
  by (simp add: rbind_def)

lemma rbind_eq_Inr [res_simps]: "rbind r f = Inr y \<longleftrightarrow> (\<exists>x. r = Inr x \<and> f x = Inr y)"
  by (cases r) auto

lemma rbind_eq_Inl [res_simps]:
  "rbind r f = Inl e \<longleftrightarrow> r = Inl e \<or> (\<exists>x. r = Inr x \<and> f x = Inl e)"
  by (cases r) auto

text \<open>Elimination rules for a computation that succeeded.\<close>

lemma rbind_pairE:
  "rbind r (\<lambda>(a, b). g a b) = Inr y \<Longrightarrow> (\<And>a b. r = Inr (a, b) \<Longrightarrow> g a b = Inr y \<Longrightarrow> P) \<Longrightarrow> P"
  by (cases r) auto

lemma rbind_tripleE:
  "rbind r (\<lambda>(a, b, c). g a b c) = Inr y \<Longrightarrow> (\<And>a b c. r = Inr (a, b, c) \<Longrightarrow> g a b c = Inr y \<Longrightarrow> P) \<Longrightarrow> P"
  by (cases r) auto

lemma rbindE: "rbind r g = Inr y \<Longrightarrow> (\<And>a. r = Inr a \<Longrightarrow> g a = Inr y \<Longrightarrow> P) \<Longrightarrow> P"
  by (cases r) auto

lemma Inr_tripleE: "Inr (a, b, c) = Inr (x, y, z) \<Longrightarrow> (a = x \<Longrightarrow> b = y \<Longrightarrow> c = z \<Longrightarrow> P) \<Longrightarrow> P"
  by simp

lemma if_InrE: "(if b then Inl er else x) = Inr y \<Longrightarrow> (\<not> b \<Longrightarrow> x = Inr y \<Longrightarrow> P) \<Longrightarrow> P"
  by (simp split: if_splits)

lemma Inr_E: "Inr x = Inr y \<Longrightarrow> (y = x \<Longrightarrow> P) \<Longrightarrow> P"
  by simp

lemma rbind_assoc: "rbind (rbind r f) g = rbind r (\<lambda>x. rbind (f x) g)"
  by (cases r) auto

lemma ensure_eq_Inr [res_simps]: "ensure b e = Inr u \<longleftrightarrow> b"
  by (simp add: ensure_def)

lemma ensure_eq_Inl [res_simps]: "ensure b e = Inl d \<longleftrightarrow> \<not> b \<and> d = e"
  by (auto simp add: ensure_def)

lemma some_or_eq_Inr [res_simps]: "some_or x e = Inr y \<longleftrightarrow> x = Some y"
  by (cases x) (auto simp: some_or_def)

lemma some_or_eq_Inl [res_simps]: "some_or x e = Inl d \<longleftrightarrow> x = None \<and> d = e"
  by (cases x) (auto simp: some_or_def)

lemma ensure_simps [simp]: "ensure True e = Inr ()" "ensure False e = Inl e"
  by (simp_all add: ensure_def)

lemma some_or_simps [simp]: "some_or (Some y) e = Inr y" "some_or None e = Inl e"
  by (simp_all add: some_or_def)

lemma is_ok_simps [simp]: "is_ok (Inr x)" "\<not> is_ok (Inl e)"
  by (simp_all add: is_ok_def)

lemma is_ok_iff: "is_ok r \<longleftrightarrow> (\<exists>x. r = Inr x)"
  by (cases r) auto

lemma rmap_eq_Inr:
  "rmap f xs = Inr ys \<longleftrightarrow> length ys = length xs \<and> (\<forall>i < length xs. f (xs ! i) = Inr (ys ! i))"
proof (induction xs arbitrary: ys)
  case Nil
  then show ?case by auto
next
  case (Cons x xs)
  show ?case
    by (cases ys) (auto simp: res_simps Cons.IH nth_Cons split: nat.splits)
qed

lemma rmap_set:
  assumes "rmap f xs = Inr ys" "y \<in> set ys"
  shows "\<exists>x \<in> set xs. f x = Inr y"
  using assms unfolding rmap_eq_Inr by (metis in_set_conv_nth)

text \<open>An invariant kept by each step of a fold is kept by the fold.\<close>

lemma rfold_invariant:
  assumes "rfold f xs s = Inr s'" "P s"
    and "\<And>x t t'. x \<in> set xs \<Longrightarrow> P t \<Longrightarrow> f x t = Inr t' \<Longrightarrow> P t'"
  shows "P s'"
  using assms
proof (induction xs arbitrary: s)
  case Nil
  then show ?case by simp
next
  case (Cons x xs)
  then obtain t where "f x s = Inr t" "rfold f xs t = Inr s'"
    by (auto simp: res_simps)
  moreover have "P t"
    using Cons.prems(2) Cons.prems(3) [of x s t] \<open>f x s = Inr t\<close> by simp
  ultimately show ?case
    using Cons.IH [of t] Cons.prems(3) by (meson list.set_intros(2))
qed

section \<open>Tables\<close>

text \<open>
  A table is the list of its rows in the order of their keys. \<open>tb_get\<close> is
  \<open>db.get(Model, id)\<close>, \<open>tb_put\<close> the flush of an attribute assignment, \<open>tb_del\<close> is
  \<open>db.delete\<close> and \<open>next_id\<close> the key the engine gives to the next row.
\<close>

definition tb_get :: "('r \<Rightarrow> int) \<Rightarrow> int \<Rightarrow> 'r list \<Rightarrow> 'r option" where
  "tb_get key k rows = find (\<lambda>r. key r = k) rows"

definition tb_put :: "('r \<Rightarrow> int) \<Rightarrow> 'r \<Rightarrow> 'r list \<Rightarrow> 'r list" where
  "tb_put key r rows = map (\<lambda>x. if key x = key r then r else x) rows"

definition tb_del :: "('r \<Rightarrow> int) \<Rightarrow> int \<Rightarrow> 'r list \<Rightarrow> 'r list" where
  "tb_del key k rows = filter (\<lambda>r. key r \<noteq> k) rows"

definition next_id :: "('r \<Rightarrow> int) \<Rightarrow> 'r list \<Rightarrow> int" where
  "next_id key rows = 1 + foldr (\<lambda>r m. max (key r) m) rows 0"

definition tb_wf :: "('r \<Rightarrow> int) \<Rightarrow> 'r list \<Rightarrow> bool" where
  "tb_wf key rows = (distinct (map key rows) \<and> list_all (\<lambda>r. 0 < key r) rows)"

lemma next_id_pos [simp]: "0 < next_id key rows"
  by (induction rows) (auto simp: next_id_def max_def)

lemma next_id_gt: "r \<in> set rows \<Longrightarrow> key r < next_id key rows"
  by (induction rows) (auto simp: next_id_def max_def)

lemma next_id_fresh [simp]: "next_id key rows \<notin> key ` set rows"
proof
  assume "next_id key rows \<in> key ` set rows"
  then obtain r where "r \<in> set rows" "key r = next_id key rows" by auto
  then show False using next_id_gt [of r rows key] by simp
qed

lemma tb_get_Nil [simp]: "tb_get key k [] = None"
  by (simp add: tb_get_def)

lemma tb_get_Cons [simp]:
  "tb_get key k (r # rows) = (if key r = k then Some r else tb_get key k rows)"
  by (simp add: tb_get_def)

lemma tb_get_SomeD: "tb_get key k rows = Some r \<Longrightarrow> r \<in> set rows \<and> key r = k"
  by (induction rows) (auto split: if_splits)

lemma tb_get_None_iff: "tb_get key k rows = None \<longleftrightarrow> k \<notin> key ` set rows"
  by (induction rows) auto

lemma tb_get_Some_iff:
  assumes "distinct (map key rows)"
  shows "tb_get key k rows = Some r \<longleftrightarrow> r \<in> set rows \<and> key r = k"
  using assms by (induction rows) (auto simp: image_iff)

lemma tb_get_put [table_simps]:
  "tb_get key k (tb_put key r rows) =
    (if k = key r then (if k \<in> key ` set rows then Some r else None) else tb_get key k rows)"
  by (induction rows) (auto simp: tb_put_def)

lemma tb_get_append [table_simps]:
  "tb_get key k (xs @ ys) = (case tb_get key k xs of Some r \<Rightarrow> Some r | None \<Rightarrow> tb_get key k ys)"
  by (induction xs) auto

lemma tb_get_del [table_simps]:
  "tb_get key k (tb_del key j rows) = (if k = j then None else tb_get key k rows)"
  by (induction rows) (auto simp: tb_del_def)

lemma map_key_put [table_simps]: "map key (tb_put key r rows) = map key rows"
  by (simp add: tb_put_def)

lemma length_tb_put [table_simps]: "length (tb_put key r rows) = length rows"
  by (simp add: tb_put_def)

lemma set_tb_put:
  assumes "x \<in> set (tb_put key r rows)"
  shows "x = r \<or> (x \<in> set rows \<and> key x \<noteq> key r)"
  using assms by (auto simp: tb_put_def split: if_splits)

lemma set_tb_del [table_simps]: "set (tb_del key k rows) = {r \<in> set rows. key r \<noteq> k}"
  by (auto simp: tb_del_def)

lemma tb_put_absent: "key r \<notin> key ` set rows \<Longrightarrow> tb_put key r rows = rows"
  by (induction rows) (auto simp: tb_put_def)

lemma tb_wf_put [table_intros]: "tb_wf key rows \<Longrightarrow> tb_wf key (tb_put key r rows)"
  by (auto simp: tb_wf_def tb_put_def list_all_iff comp_def if_distrib cong: if_cong)

lemma tb_wf_del [table_intros]: "tb_wf key rows \<Longrightarrow> tb_wf key (tb_del key k rows)"
  by (auto simp: tb_wf_def tb_del_def list_all_iff distinct_map_filter)

lemma tb_wf_insert [table_intros]:
  "tb_wf key rows \<Longrightarrow> key r = next_id key rows \<Longrightarrow> tb_wf key (rows @ [r])"
  using next_id_pos [of key rows] next_id_fresh [of key rows]
  by (auto simp: tb_wf_def list_all_iff)

section \<open>Lists and options\<close>

definition the_or :: "'a \<Rightarrow> 'a option \<Rightarrow> 'a" where
  "the_or d x = (case x of None \<Rightarrow> d | Some y \<Rightarrow> y)"

lemma the_or_simps [simp]: "the_or d None = d" "the_or d (Some y) = y"
  by (simp_all add: the_or_def)

text \<open>The first element of a list, or \<open>None\<close>: \<open>query.first()\<close>.\<close>

fun first_of :: "'a list \<Rightarrow> 'a option" where
  "first_of [] = None"
| "first_of (x # _) = Some x"

lemma first_of_Some: "first_of xs = Some x \<Longrightarrow> x \<in> set xs"
  by (cases xs) auto

lemma first_of_None [simp]: "first_of xs = None \<longleftrightarrow> xs = []"
  by (cases xs) auto

lemma first_of_filter_Some:
  "first_of (filter P xs) = Some x \<Longrightarrow> x \<in> set xs \<and> P x"
  using first_of_Some [of "filter P xs"] by fastforce

lemma count_filter_map_le:
  assumes "\<And>x. x \<in> set xs \<Longrightarrow> P (f x) \<Longrightarrow> P x"
  shows "length (filter P (map f xs)) \<le> length (filter P xs)"
  using assms by (induction xs) (auto simp: le_SucI)

end
