(* ===== verification/PyText.thy ===== *)
theory PyText
  imports Prelude
begin

text \<open>
  The operations of Python's \<open>str\<close> and \<open>int\<close> the program uses. A \<open>str\<close> is a HOL
  \<open>string\<close>, so the text ranges over the code points below 256 (ASCII and Latin-1); within
  that range the predicates are CPython's, the corner cases included: \<open>isspace\<close> accepts
  0x1c-0x1f, 0x85 and 0xa0, \<open>isdigit\<close> accepts the superscripts that \<open>int\<close> rejects,
  \<open>splitlines\<close> breaks at eight characters besides CR LF, and \<open>int\<close> takes surrounding
  white space, a sign and single underscores but no more than 4300 digits.
\<close>

named_theorems text_simps "strip, split and join"

section \<open>Characters\<close>

definition code :: "char \<Rightarrow> int" where
  "code c = of_char c"

definition is_space :: "char \<Rightarrow> bool" where
  "is_space c = (c \<in> {CHR 0x20, CHR 0x09, CHR 0x0A, CHR 0x0B, CHR 0x0C, CHR 0x0D,
     CHR 0x1C, CHR 0x1D, CHR 0x1E, CHR 0x1F, CHR 0x85, CHR 0xA0})"

text \<open>The white space \<open>int(str)\<close> skips: the C locale's, and the two of Latin-1.\<close>

definition is_int_space :: "char \<Rightarrow> bool" where
  "is_int_space c = (c \<in> {CHR 0x20, CHR 0x09, CHR 0x0A, CHR 0x0B, CHR 0x0C, CHR 0x0D,
     CHR 0x85, CHR 0xA0})"

definition is_break :: "char \<Rightarrow> bool" where
  "is_break c = (c \<in> {CHR 0x0A, CHR 0x0B, CHR 0x0C, CHR 0x0D,
     CHR 0x1C, CHR 0x1D, CHR 0x1E, CHR 0x85})"

definition is_dec :: "char \<Rightarrow> bool" where
  "is_dec c = (48 \<le> code c \<and> code c \<le> 57)"

definition is_digit :: "char \<Rightarrow> bool" where
  "is_digit c = (is_dec c \<or> c \<in> {CHR 0xB2, CHR 0xB3, CHR 0xB9})"

definition is_lower_az :: "char \<Rightarrow> bool" where
  "is_lower_az c = (97 \<le> code c \<and> code c \<le> 122)"

definition is_upper_az :: "char \<Rightarrow> bool" where
  "is_upper_az c = (65 \<le> code c \<and> code c \<le> 90)"

definition is_alnum :: "char \<Rightarrow> bool" where
  "is_alnum c = (is_dec c \<or> is_lower_az c \<or> is_upper_az c)"

definition is_hex :: "char \<Rightarrow> bool" where
  "is_hex c = (is_dec c \<or> (97 \<le> code c \<and> code c \<le> 102) \<or> (65 \<le> code c \<and> code c \<le> 70))"

definition is_control :: "char \<Rightarrow> bool" where
  "is_control c = (code c < 0x20 \<or> code c = 0x7F)"

definition lower_char :: "char \<Rightarrow> char" where
  "lower_char c = (if is_upper_az c \<or> (192 \<le> code c \<and> code c \<le> 222 \<and> code c \<noteq> 215)
     then char_of (code c + 32) else c)"

section \<open>Text\<close>

definition strip_by :: "(char \<Rightarrow> bool) \<Rightarrow> string \<Rightarrow> string" where
  "strip_by P s = rev (dropWhile P (rev (dropWhile P s)))"

definition strip :: "string \<Rightarrow> string" where
  "strip s = strip_by is_space s"

definition rstrip :: "string \<Rightarrow> string" where
  "rstrip s = rev (dropWhile is_space (rev s))"

definition lower :: "string \<Rightarrow> string" where
  "lower s = map lower_char s"

definition starts_with :: "string \<Rightarrow> string \<Rightarrow> bool" where
  "starts_with s p = (take (length p) s = p)"

definition ends_with :: "string \<Rightarrow> string \<Rightarrow> bool" where
  "ends_with s p = starts_with (rev s) (rev p)"

fun has_sub :: "string \<Rightarrow> string \<Rightarrow> bool" where
  "has_sub p [] = (p = [])"
| "has_sub p (c # cs) = (starts_with (c # cs) p \<or> has_sub p cs)"

fun join :: "string \<Rightarrow> string list \<Rightarrow> string" where
  "join sep [] = []"
| "join sep [x] = x"
| "join sep (x # y # ys) = x @ sep @ join sep (y # ys)"

fun split_on :: "char \<Rightarrow> string \<Rightarrow> string list" where
  "split_on d [] = [[]]"
| "split_on d (c # cs) = (if c = d then [] # split_on d cs
     else (case split_on d cs of [] \<Rightarrow> [[c]] | l # ls \<Rightarrow> (c # l) # ls))"

text \<open>\<open>s.split(d, 1)\<close> and \<open>s.rsplit(d, 1)\<close> where \<open>d\<close> occurs in \<open>s\<close>.\<close>

definition split_first :: "char \<Rightarrow> string \<Rightarrow> string \<times> string" where
  "split_first d s = (takeWhile (\<lambda>c. c \<noteq> d) s, drop 1 (dropWhile (\<lambda>c. c \<noteq> d) s))"

definition split_last :: "char \<Rightarrow> string \<Rightarrow> string \<times> string" where
  "split_last d s = (case split_first d (rev s) of (a, b) \<Rightarrow> (rev b, rev a))"

definition count_char :: "char \<Rightarrow> string \<Rightarrow> int" where
  "count_char d s = int (length (filter (\<lambda>c. c = d) s))"

definition drop_lf :: "string \<Rightarrow> string" where
  "drop_lf cs = (case cs of [] \<Rightarrow> [] | d # ds \<Rightarrow> if d = CHR 0x0A then ds else cs)"

lemma length_drop_lf: "length (drop_lf cs) \<le> length cs"
  by (auto simp: drop_lf_def split: list.splits)

function split_lines :: "string \<Rightarrow> string list" where
  "split_lines [] = []"
| "split_lines (c # cs) =
     (if is_break c then [] # split_lines (if c = CHR 0x0D then drop_lf cs else cs)
      else (case split_lines cs of [] \<Rightarrow> [[c]] | l # ls \<Rightarrow> (c # l) # ls))"
  by pat_completeness auto

termination
  by (relation "measure length") (auto simp: less_Suc_eq_le length_drop_lf)

definition is_digit_text :: "string \<Rightarrow> bool" where
  "is_digit_text s = (s \<noteq> [] \<and> list_all is_digit s)"

definition is_dec_text :: "string \<Rightarrow> bool" where
  "is_dec_text s = (s \<noteq> [] \<and> list_all is_dec s)"

definition utf8_length :: "string \<Rightarrow> int" where
  "utf8_length s = sum_list (map (\<lambda>c. if code c < 128 then 1 else 2) s)"

section \<open>Integers and their decimal text\<close>

definition digit_value :: "char \<Rightarrow> int" where
  "digit_value c = code c - 48"

definition digit_char :: "int \<Rightarrow> char" where
  "digit_char n = char_of (48 + n)"

fun dec_value :: "int \<Rightarrow> string \<Rightarrow> int" where
  "dec_value acc [] = acc"
| "dec_value acc (c # cs) = dec_value (10 * acc + digit_value c) cs"

fun digits_ok :: "bool \<Rightarrow> string \<Rightarrow> bool" where
  "digits_ok p [] = p"
| "digits_ok p (c # cs) =
     (if is_dec c then digits_ok True cs else c = CHR ''_'' \<and> p \<and> digits_ok False cs)"

definition max_int_digits :: nat where
  "max_int_digits = 4300"

definition parse_unsigned :: "string \<Rightarrow> int option" where
  "parse_unsigned s = (let ds = filter is_dec s in
     if digits_ok False s \<and> length ds \<le> max_int_digits then Some (dec_value 0 ds) else None)"

definition py_int :: "string \<Rightarrow> int option" where
  "py_int s = (case strip_by is_int_space s of
      [] \<Rightarrow> None
    | c # cs \<Rightarrow> if c = CHR ''-'' then map_option uminus (parse_unsigned cs)
               else if c = CHR ''+'' then parse_unsigned cs
               else parse_unsigned (c # cs))"

function show_nat :: "int \<Rightarrow> string" where
  "show_nat n = (if n < 10 then [digit_char n] else show_nat (n div 10) @ [digit_char (n mod 10)])"
  by auto

termination
  by (relation "measure nat") auto

declare show_nat.simps [simp del]

definition show_int :: "int \<Rightarrow> string" where
  "show_int n = (if n < 0 then CHR ''-'' # show_nat (- n) else show_nat n)"

section \<open>Facts on text\<close>

definition trimmed :: "string \<Rightarrow> bool" where
  "trimmed s = (s = [] \<or> (\<not> is_space (hd s) \<and> \<not> is_space (last s)))"

lemma dropWhile_id: "xs = [] \<or> \<not> P (hd xs) \<Longrightarrow> dropWhile P xs = xs"
  by (cases xs) auto

lemma strip_by_id: "s = [] \<or> (\<not> P (hd s) \<and> \<not> P (last s)) \<Longrightarrow> strip_by P s = s"
  by (auto simp: strip_by_def dropWhile_id hd_rev)

lemma strip_trimmed [text_simps]: "trimmed s \<Longrightarrow> strip s = s"
  by (simp add: trimmed_def strip_def strip_by_id)

lemma trimmed_Nil [simp]: "trimmed []"
  by (simp add: trimmed_def)

lemma hd_dropWhile_not: "dropWhile P xs \<noteq> [] \<Longrightarrow> \<not> P (hd (dropWhile P xs))"
  by (rule hd_dropWhile)

lemma trimmed_strip [text_simps]: "trimmed (strip s)"
proof -
  define t where "t = dropWhile is_space s"
  define u where "u = dropWhile is_space (rev t)"
  have st: "strip s = rev u" by (simp add: strip_def strip_by_def t_def u_def)
  show ?thesis
  proof (cases "u = []")
    case False
    then have "\<not> is_space (last (rev u))"
      using hd_dropWhile_not [of is_space "rev t"] by (simp add: u_def last_rev)
    moreover have "hd (rev u) = hd t"
    proof -
      obtain v where "rev t = v @ u" unfolding u_def by (metis takeWhile_dropWhile_id)
      then have "t = rev u @ rev v" by (metis rev_append rev_rev_ident)
      then show ?thesis using False by simp
    qed
    moreover have "t \<noteq> []" using False by (auto simp: u_def)
    ultimately show ?thesis
      using hd_dropWhile_not [of is_space s] by (simp add: st trimmed_def t_def)
  qed (simp add: st)
qed

lemma strip_strip [text_simps]: "strip (strip s) = strip s"
  by (simp add: text_simps)

lemma set_strip_subset: "set (strip s) \<subseteq> set s"
  unfolding strip_def strip_by_def by (auto dest!: set_dropWhileD)

lemma strip_Cons_space: "is_space c \<Longrightarrow> strip (c # s) = strip s"
  by (simp add: strip_def strip_by_def)

lemma split_on_no: "d \<notin> set x \<Longrightarrow> split_on d x = [x]"
  by (induction x) auto

lemma split_on_neq_Nil [simp]: "split_on d s \<noteq> []"
  by (induction s) (auto split: list.splits)

lemma split_on_append:
  assumes "d \<notin> set x"
  shows "split_on d (x @ d # y) = x # split_on d y"
  using assms by (induction x) auto

lemma split_first_append: "d \<notin> set x \<Longrightarrow> split_first d (x @ d # y) = (x, y)"
  by (auto simp: split_first_def dropWhile_append)

lemma split_last_append: "d \<notin> set y \<Longrightarrow> split_last d (x @ d # y) = (x, y)"
  using split_first_append [of d "rev y" "rev x"] by (simp add: split_last_def)

lemma split_lines_append:
  assumes "list_all (\<lambda>c. \<not> is_break c) x"
  shows "split_lines (x @ CHR 0x0A # y) = x # split_lines y"
  using assms by (induction x) (auto simp: is_break_def)

lemma split_lines_single:
  assumes "list_all (\<lambda>c. \<not> is_break c) x" "x \<noteq> []"
  shows "split_lines x = [x]"
  using assms by (induction x rule: induct_list012) auto

text \<open>Lines without a line break survive joining with a newline and splitting again.\<close>

lemma split_lines_join [text_simps]:
  assumes "list_all (list_all (\<lambda>c. \<not> is_break c)) ls" "ls \<noteq> []"
  shows "split_lines (join ''\<newline>'' ls @ ''\<newline>'') = ls"
  using assms
proof (induction "''\<newline>''" ls rule: join.induct)
  case (2 x)
  then show ?case using split_lines_append [of x "[]"] by simp
next
  case (3 x y ys)
  then show ?case using split_lines_append [of x] by simp
qed simp

lemma join_snoc: "join sep (ls @ [l]) = (if ls = [] then l else join sep ls @ sep @ l)"
  by (induction sep ls rule: join.induct) auto

lemma join_all: "list_all P sep \<Longrightarrow> list_all (list_all P) ls \<Longrightarrow> list_all P (join sep ls)"
  by (induction sep ls rule: join.induct) auto

lemma join_last: "ls \<noteq> [] \<Longrightarrow> last ls \<noteq> [] \<Longrightarrow> last (join sep ls) = last (last ls) \<and> join sep ls \<noteq> []"
  by (induction sep ls rule: join.induct) auto

lemma hd_join: "x \<noteq> [] \<Longrightarrow> hd (join sep (x # xs)) = hd x"
  by (cases xs) auto

lemma starts_with_append [simp]: "starts_with (p @ s) p"
  by (simp add: starts_with_def)

lemma starts_with_Cons: "starts_with (c # s) [d] \<longleftrightarrow> c = d"
  by (simp add: starts_with_def)

lemma starts_with_Nil [simp]: "starts_with [] (d # p) \<longleftrightarrow> False"
  by (simp add: starts_with_def)

lemma starts_with_empty [simp]: "starts_with s []"
  by (simp add: starts_with_def)

lemma starts_withE: "starts_with s p \<Longrightarrow> \<exists>t. s = p @ t"
  by (metis append_take_drop_id starts_with_def)

section \<open>Facts on integers\<close>

lemma code_char_of: "0 \<le> n \<Longrightarrow> n < 256 \<Longrightarrow> code (char_of n) = n"
  by (simp add: code_def)

lemma code_bounds: "0 \<le> code c" "code c < 256"
proof -
  have "code c = code c mod 256" by (simp add: code_def)
  then show "0 \<le> code c" "code c < 256"
    using pos_mod_sign [of 256 "code c"] pos_mod_bound [of 256 "code c"] by simp_all
qed

lemma code_digit_char: "0 \<le> n \<Longrightarrow> n < 10 \<Longrightarrow> code (digit_char n) = 48 + n"
  by (simp add: digit_char_def code_char_of)

lemma digit_char_simps [simp]:
  assumes "0 \<le> n" "n < 10"
  shows "is_dec (digit_char n)" "digit_value (digit_char n) = n"
  using assms by (simp_all add: is_dec_def digit_value_def code_digit_char)

lemma show_nat_dec: "0 \<le> n \<Longrightarrow> list_all is_dec (show_nat n)"
  by (induction n rule: show_nat.induct) (subst show_nat.simps, auto)

lemma show_nat_neq_Nil [simp]: "show_nat n \<noteq> []"
  by (subst show_nat.simps) auto

lemma dec_value_append: "dec_value a (xs @ [c]) = 10 * dec_value a xs + digit_value c"
  by (induction xs arbitrary: a) auto

lemma dec_value_show_nat: "0 \<le> n \<Longrightarrow> dec_value 0 (show_nat n) = n"
proof (induction n rule: show_nat.induct)
  case (1 n)
  show ?case
    by (subst show_nat.simps) (use 1 in \<open>auto simp: dec_value_append\<close>)
qed

lemma digits_ok_dec: "list_all is_dec s \<Longrightarrow> digits_ok p s \<longleftrightarrow> p \<or> s \<noteq> []"
  by (induction s arbitrary: p) auto

lemma dec_not_space: "is_dec c \<Longrightarrow> \<not> is_space c" "is_dec c \<Longrightarrow> \<not> is_int_space c"
  "is_dec c \<Longrightarrow> \<not> is_break c" "is_dec c \<Longrightarrow> c \<notin> {CHR ''-'', CHR ''+'', CHR '','', CHR '':'', CHR ''_'', CHR ''='', CHR '']''}"
  by (auto simp: is_dec_def is_space_def is_int_space_def is_break_def code_def)

lemma length_show_nat:
  "0 \<le> n \<Longrightarrow> n < 10 ^ k \<Longrightarrow> 0 < k \<Longrightarrow> length (show_nat n) \<le> k"
proof (induction n arbitrary: k rule: show_nat.induct)
  case (1 n)
  show ?case
  proof (cases "n < 10")
    case False
    obtain j where k: "k = Suc j" using \<open>0 < k\<close> by (cases k) auto
    have j: "0 < j" using 1(3) False k by (cases j) auto
    have "n div 10 < 10 ^ j" using 1(3) k by simp
    then have "length (show_nat (n div 10)) \<le> j"
      using 1(1) [of j] 1(2) False j by simp
    then show ?thesis using False k by (subst show_nat.simps) simp
  next
    case True
    then show ?thesis using \<open>0 < k\<close> by (subst show_nat.simps) simp
  qed
qed

lemma list_all_hd_last: "list_all P xs \<Longrightarrow> xs \<noteq> [] \<Longrightarrow> P (hd xs) \<and> P (last xs)"
  by (simp add: list_all_iff)

lemma parse_unsigned_show_nat:
  assumes "0 \<le> n" "n < 10 ^ max_int_digits"
  shows "parse_unsigned (show_nat n) = Some n"
proof -
  have d: "list_all is_dec (show_nat n)" using assms show_nat_dec by simp
  then have f: "filter is_dec (show_nat n) = show_nat n" by (simp add: list_all_iff)
  have "0 < max_int_digits" by (simp add: max_int_digits_def)
  then have l: "length (show_nat n) \<le> max_int_digits" by (rule length_show_nat [OF assms])
  show ?thesis
    unfolding parse_unsigned_def Let_def f
    by (simp only: digits_ok_dec [OF d] dec_value_show_nat [OF assms(1)] l) simp
qed

text \<open>\<open>int(str(n)) == n\<close>, for the integers CPython converts.\<close>

lemma py_int_show_int [text_simps]:
  assumes "\<bar>n\<bar> < 10 ^ max_int_digits"
  shows "py_int (show_int n) = Some n"
proof (cases "n < 0")
  case True
  have l: "is_dec (last (show_nat (- n)))"
    using list_all_hd_last [OF show_nat_dec [of "- n"]] True by simp
  have "strip_by is_int_space (CHR ''-'' # show_nat (- n)) = CHR ''-'' # show_nat (- n)"
    using dec_not_space [OF l] by (intro strip_by_id) (auto simp: is_int_space_def)
  then show ?thesis
    using True assms parse_unsigned_show_nat [of "- n"] by (simp add: py_int_def show_int_def)
next
  case False
  then have h: "is_dec (hd (show_nat n))" "is_dec (last (show_nat n))"
    using list_all_hd_last [OF show_nat_dec [of n]] by simp_all
  obtain c cs where c: "show_nat n = c # cs" by (cases "show_nat n") auto
  have "strip_by is_int_space (show_nat n) = show_nat n"
    using h dec_not_space by (intro strip_by_id) auto
  then show ?thesis
    using False assms h c dec_not_space(4) [of c] parse_unsigned_show_nat [of n]
    by (simp add: py_int_def show_int_def)
qed

lemma show_int_chars: "c \<in> set (show_int n) \<Longrightarrow> is_dec c \<or> c = CHR ''-''"
  using show_nat_dec [of n] show_nat_dec [of "- n"]
  by (auto simp: show_int_def list_all_iff split: if_splits)

lemma show_int_neq_Nil [simp]: "show_int n \<noteq> []"
  by (simp add: show_int_def)

lemma trimmed_show_int [simp]: "trimmed (show_int n)"
proof -
  have "\<not> is_space c" if "c \<in> set (show_int n)" for c
    using show_int_chars [OF that]
  proof
    assume "is_dec c"
    then show ?thesis by (rule dec_not_space)
  next
    assume "c = CHR ''-''"
    then show ?thesis by (simp add: is_space_def)
  qed
  then show ?thesis by (simp add: trimmed_def)
qed

end
