(* ===== verification/Json.thy ===== *)
theory Json
  imports PyText
begin

text \<open>
  JSON values as Python holds them after decoding, with the operations the program applies
  to them: dictionary access and update, truth value, \<open>str\<close>, \<open>int\<close> and the size of a
  serialised value. An object keeps the insertion order of its keys. A float is carried by
  its \<open>repr\<close> text, which is all the program observes of one.
\<close>

datatype json =
    JNull
  | JBool bool
  | JInt int
  | JFloat string
  | JStr string
  | JList "json list"
  | JObj "(string \<times> json) list"

type_synonym fields = "(string \<times> json) list"

section \<open>Dictionaries\<close>

text \<open>\<open>d.get(k)\<close>: \<open>None\<close> for an absent key.\<close>

definition dget :: "fields \<Rightarrow> string \<Rightarrow> json" where
  "dget d k = (case map_of d k of None \<Rightarrow> JNull | Some v \<Rightarrow> v)"

definition dhas :: "fields \<Rightarrow> string \<Rightarrow> bool" where
  "dhas d k = (map_of d k \<noteq> None)"

definition dset :: "string \<Rightarrow> json \<Rightarrow> fields \<Rightarrow> fields" where
  "dset k v d = AList.update k v d"

definition ddel :: "string \<Rightarrow> fields \<Rightarrow> fields" where
  "ddel k d = AList.delete k d"

text \<open>\<open>value if isinstance(value, dict) else {}\<close>\<close>

definition json_object :: "json \<Rightarrow> fields" where
  "json_object v = (case v of JObj d \<Rightarrow> d | _ \<Rightarrow> [])"

definition read_string_list :: "json \<Rightarrow> string list" where
  "read_string_list v = (case v of
      JList xs \<Rightarrow> concat (map (\<lambda>x. case x of JStr s \<Rightarrow> [s] | _ \<Rightarrow> []) xs)
    | _ \<Rightarrow> [])"

lemma dget_simps [simp]:
  "dget [] k = JNull"
  "dget ((j, v) # d) k = (if j = k then v else dget d k)"
  by (auto simp: dget_def)

lemma dget_dset [simp]: "dget (dset k v d) j = (if j = k then v else dget d j)"
  by (simp add: dget_def dset_def update_conv')

lemma dget_ddel [simp]: "dget (ddel k d) j = (if j = k then JNull else dget d j)"
  by (auto simp: dget_def ddel_def delete_conv')

lemma dhas_dset [simp]: "dhas (dset k v d) j \<longleftrightarrow> j = k \<or> dhas d j"
  by (simp add: dhas_def dset_def update_conv')

lemma distinct_dset [simp]: "distinct (map fst d) \<Longrightarrow> distinct (map fst (dset k v d))"
  by (simp add: dset_def distinct_update)

section \<open>Truth value and text\<close>

definition float_zero :: "string \<Rightarrow> bool" where
  "float_zero t = (t = ''0.0'' \<or> t = ''-0.0'')"

definition float_finite :: "string \<Rightarrow> bool" where
  "float_finite t = (t \<notin> {''nan'', ''inf'', ''-inf''})"

text \<open>\<open>int(x) != 0\<close> for a finite float: the part before the point of a fixed-point
  \<open>repr\<close> has a digit that is not zero, or the exponent is positive.\<close>

definition float_int_nonzero :: "string \<Rightarrow> bool" where
  "float_int_nonzero t =
     (if CHR ''e'' \<in> set t then has_sub ''e+'' t
      else list_ex (\<lambda>c. is_dec c \<and> c \<noteq> CHR ''0'') (takeWhile (\<lambda>c. c \<noteq> CHR ''.'') t))"

fun truthy :: "json \<Rightarrow> bool" where
  "truthy JNull = False"
| "truthy (JBool b) = b"
| "truthy (JInt n) = (n \<noteq> 0)"
| "truthy (JFloat t) = (\<not> float_zero t)"
| "truthy (JStr s) = (s \<noteq> [])"
| "truthy (JList xs) = (xs \<noteq> [])"
| "truthy (JObj d) = (d \<noteq> [])"

definition hex_digit :: "int \<Rightarrow> char" where
  "hex_digit n = (if n < 10 then char_of (48 + n) else char_of (87 + n))"

definition repr_char :: "char \<Rightarrow> char \<Rightarrow> string" where
  "repr_char q c =
     (if c = q \<or> c = CHR 0x5C then [CHR 0x5C, c]
      else if c = CHR 0x0A then [CHR 0x5C, CHR ''n'']
      else if c = CHR 0x0D then [CHR 0x5C, CHR ''r'']
      else if c = CHR 0x09 then [CHR 0x5C, CHR ''t'']
      else if code c < 0x20 \<or> (0x7F \<le> code c \<and> code c \<le> 0xA0) \<or> code c = 0xAD
        then [CHR 0x5C, CHR ''x'', hex_digit (code c div 16), hex_digit (code c mod 16)]
      else [c])"

definition repr_str :: "string \<Rightarrow> string" where
  "repr_str s = (let q = (if CHR 0x27 \<in> set s \<and> CHR 0x22 \<notin> set s then CHR 0x22 else CHR 0x27) in
     [q] @ concat (map (repr_char q) s) @ [q])"

fun repr :: "json \<Rightarrow> string" where
  "repr JNull = ''None''"
| "repr (JBool b) = (if b then ''True'' else ''False'')"
| "repr (JInt n) = show_int n"
| "repr (JFloat t) = t"
| "repr (JStr s) = repr_str s"
| "repr (JList xs) = ''['' @ join '', '' (map repr xs) @ '']''"
| "repr (JObj d) = ''{'' @ join '', '' (map (\<lambda>(k, v). repr_str k @ '': '' @ repr v) d) @ ''}''"

text \<open>\<open>str(value)\<close>\<close>

definition py_str :: "json \<Rightarrow> string" where
  "py_str v = (case v of JStr s \<Rightarrow> s | _ \<Rightarrow> repr v)"

text \<open>\<open>str(value or "")\<close>\<close>

definition str_or_empty :: "json \<Rightarrow> string" where
  "str_or_empty v = (if truthy v then py_str v else [])"

definition jopt_str :: "string option \<Rightarrow> json" where
  "jopt_str x = (case x of None \<Rightarrow> JNull | Some s \<Rightarrow> JStr s)"

definition jopt_int :: "int option \<Rightarrow> json" where
  "jopt_int x = (case x of None \<Rightarrow> JNull | Some n \<Rightarrow> JInt n)"

text \<open>Equality of Python values where one side is an integer: \<open>True == 1\<close> holds.\<close>

definition json_eq_int :: "json \<Rightarrow> int \<Rightarrow> bool" where
  "json_eq_int v n = (case v of JInt m \<Rightarrow> m = n | JBool b \<Rightarrow> (if b then 1 else 0) = n
     | JFloat t \<Rightarrow> t = show_int n @ ''.0'' \<or> (n = 0 \<and> float_zero t) | _ \<Rightarrow> False)"

section \<open>Size of the serialised value\<close>

text \<open>
  The length in bytes of \<open>json.dumps(value, ensure_ascii=False, separators=(",", ":"))\<close>.
\<close>

definition dump_char_length :: "char \<Rightarrow> int" where
  "dump_char_length c =
     (if c \<in> {CHR 0x22, CHR 0x5C, CHR 0x08, CHR 0x09, CHR 0x0A, CHR 0x0C, CHR 0x0D} then 2
      else if code c < 0x20 then 6
      else if code c < 0x80 then 1 else 2)"

definition dump_str_length :: "string \<Rightarrow> int" where
  "dump_str_length s = 2 + sum_list (map dump_char_length s)"

definition dump_float_length :: "string \<Rightarrow> int" where
  "dump_float_length t = (if t = ''nan'' then 3 else if t = ''inf'' then 8
     else if t = ''-inf'' then 9 else int (length t))"

fun dump_length :: "json \<Rightarrow> int" where
  "dump_length JNull = 4"
| "dump_length (JBool b) = (if b then 4 else 5)"
| "dump_length (JInt n) = int (length (show_int n))"
| "dump_length (JFloat t) = dump_float_length t"
| "dump_length (JStr s) = dump_str_length s"
| "dump_length (JList xs) = 2 + max 0 (int (length xs) - 1) + sum_list (map dump_length xs)"
| "dump_length (JObj d) = 2 + max 0 (int (length d) - 1)
     + sum_list (map (\<lambda>(k, v). dump_str_length k + 1 + dump_length v) d)"

section \<open>Shape\<close>

fun json_nodes :: "json \<Rightarrow> int" where
  "json_nodes (JList xs) = 1 + sum_list (map json_nodes xs)"
| "json_nodes (JObj d) = 1 + sum_list (map (\<lambda>(k, v). json_nodes v) d)"
| "json_nodes _ = 1"

fun json_depth :: "json \<Rightarrow> int" where
  "json_depth (JList xs) = (if xs = [] then 0 else 1 + Max (set (map json_depth xs)))"
| "json_depth (JObj d) = (if d = [] then 0 else 1 + Max (set (map (\<lambda>(k, v). json_depth v) d)))"
| "json_depth _ = 0"

text \<open>Every node of the value satisfies a predicate.\<close>

fun json_all :: "(json \<Rightarrow> bool) \<Rightarrow> json \<Rightarrow> bool" where
  "json_all P (JList xs) = (P (JList xs) \<and> list_all (json_all P) xs)"
| "json_all P (JObj d) = (P (JObj d) \<and> list_all (\<lambda>(k, v). json_all P v) d)"
| "json_all P v = P v"

lemma json_nodes_pos [simp]: "0 < json_nodes v"
proof (induction v)
  case (JList xs)
  then have "0 \<le> sum_list (map json_nodes xs)" by (intro sum_list_nonneg) fastforce
  then show ?case by simp
next
  case (JObj d)
  then have "0 \<le> sum_list (map (\<lambda>(k, v). json_nodes v) d)" by (intro sum_list_nonneg) fastforce
  then show ?case by simp
qed simp_all

lemma json_depth_nonneg [simp]: "0 \<le> json_depth v"
proof (induction v)
  case (JList xs)
  show ?case
  proof (cases xs)
    case (Cons x ys)
    have "json_depth x \<le> Max (set (map json_depth xs))"
      by (rule Max_ge) (auto simp: Cons)
    moreover have "0 \<le> json_depth x" using JList [of x] Cons by simp
    ultimately have "0 \<le> 1 + Max (set (map json_depth xs))" by linarith
    then show ?thesis by (simp add: Cons)
  qed simp
next
  case (JObj d)
  show ?case
  proof (cases d)
    case (Cons kv ys)
    obtain k v where kv: "kv = (k, v)" by (cases kv)
    have "json_depth v \<le> Max (set (map (\<lambda>(k, v). json_depth v) d))"
      by (rule Max_ge) (auto simp: Cons kv)
    moreover have "0 \<le> json_depth v" using JObj [of kv v] Cons kv by simp
    ultimately have "0 \<le> 1 + Max (set (map (\<lambda>(k, v). json_depth v) d))" by linarith
    then show ?thesis by (simp add: Cons)
  qed simp
qed simp_all

lemma json_depth_JList_le:
  assumes "\<forall>v \<in> set vs. d + 1 + json_depth v \<le> m" "d \<le> m"
  shows "d + json_depth (JList vs) \<le> m"
proof (cases "vs = []")
  case False
  then have "Max (set (map json_depth vs)) \<le> m - (d + 1)"
    by (intro Max.boundedI) (use assms(1) in force)+
  then have "d + (1 + Max (set (map json_depth vs))) \<le> m" by linarith
  then show ?thesis using False by (simp only: json_depth.simps if_False)
qed (use assms in simp)

lemma json_depth_JObj_le:
  assumes "\<forall>(k, v) \<in> set kvs. d + 1 + json_depth v \<le> m" "d \<le> m"
  shows "d + json_depth (JObj kvs) \<le> m"
proof (cases "kvs = []")
  case False
  then have "Max (set (map (\<lambda>(k, v). json_depth v) kvs)) \<le> m - (d + 1)"
    by (intro Max.boundedI) (use assms(1) in force)+
  then have "d + (1 + Max (set (map (\<lambda>(k, v). json_depth v) kvs))) \<le> m" by linarith
  then show ?thesis using False by (simp only: json_depth.simps if_False)
qed (use assms in simp)

end
