(* ===== verification/JsonLimits.thy ===== *)
theory JsonLimits
  imports Json
begin

text \<open>
  The three validators that bound the JSON an agent or an operator may send:
  \<open>validate_agent_result_json\<close> (main.py), \<open>_validate_metadata_json\<close> and
  \<open>_validate_plugin_payload\<close> (schemas.py). Each walks the value with a shared node budget, the
  mutable one-element list of the source, which is threaded through the calls here. The
  locale \<open>tree_validator\<close> states what such a walk promises; it is interpreted on each.
\<close>

section \<open>The validators\<close>

definition key_has_control :: "string \<Rightarrow> bool" where
  "key_has_control k = list_ex is_control k"

function (sequential) validate_agent_result_json :: "int \<Rightarrow> json \<Rightarrow> int \<Rightarrow> (string, int) result"
  and validate_agent_result_items :: "int \<Rightarrow> json list \<Rightarrow> int \<Rightarrow> (string, int) result"
  and validate_agent_result_fields :: "int \<Rightarrow> fields \<Rightarrow> int \<Rightarrow> (string, int) result" where
  "validate_agent_result_json depth v budget =
     (let left = budget - 1 in
      if left < 0 \<or> 16 < depth then Inl ''agent task result is too deeply nested or too large''
      else case v of
        JObj d \<Rightarrow>
          if 2000 < length d then Inl ''agent task result object has too many fields''
          else validate_agent_result_fields (depth + 1) d left
      | JList xs \<Rightarrow>
          if 2000 < length xs then Inl ''agent task result array has too many items''
          else validate_agent_result_items (depth + 1) xs left
      | JStr s \<Rightarrow>
          if 1048576 < utf8_length s then Inl ''agent task result string is too large'' else Inr left
      | JInt n \<Rightarrow>
          if 128 < length (show_int \<bar>n\<bar>) then Inl ''agent task result integer is too large'' else Inr left
      | JFloat t \<Rightarrow>
          if \<not> float_finite t then Inl ''agent task result contains a non-finite number'' else Inr left
      | JNull \<Rightarrow> Inr left
      | JBool b \<Rightarrow> Inr left)"
| "validate_agent_result_items depth [] budget = Inr budget"
| "validate_agent_result_items depth (v # vs) budget =
     rbind (validate_agent_result_json depth v budget) (\<lambda>left. validate_agent_result_items depth vs left)"
| "validate_agent_result_fields depth [] budget = Inr budget"
| "validate_agent_result_fields depth ((k, v) # d) budget =
     (if 256 < length k \<or> key_has_control k then Inl ''agent task result field name is invalid''
      else rbind (validate_agent_result_json depth v budget)
             (\<lambda>left. validate_agent_result_fields depth d left))"
  by pat_completeness auto

termination
  by (relation "measure (\<lambda>x. case x of Inl (_, v, _) \<Rightarrow> 2 * size v | Inr (Inl (_, vs, _)) \<Rightarrow> 2 * size_list size vs + 1
      | Inr (Inr (_, d, _)) \<Rightarrow> 2 * size_list (size_prod (\<lambda>_. 0) size) d + 1)") auto

function (sequential) validate_metadata_json :: "int \<Rightarrow> json \<Rightarrow> int \<Rightarrow> (string, int) result"
  and validate_metadata_items :: "int \<Rightarrow> json list \<Rightarrow> int \<Rightarrow> (string, int) result"
  and validate_metadata_fields :: "int \<Rightarrow> fields \<Rightarrow> int \<Rightarrow> (string, int) result" where
  "validate_metadata_json depth v budget =
     (let left = budget - 1 in
      if left < 0 \<or> 8 < depth then Inl ''agent metadata is too deeply nested or too large''
      else case v of
        JObj d \<Rightarrow>
          if 256 < length d then Inl ''agent metadata object has too many fields''
          else validate_metadata_fields (depth + 1) d left
      | JList xs \<Rightarrow>
          if 256 < length xs then Inl ''agent metadata array has too many items''
          else validate_metadata_items (depth + 1) xs left
      | JStr s \<Rightarrow>
          if 8192 < utf8_length s \<or> list_ex is_control s
          then Inl ''agent metadata string is invalid or too large'' else Inr left
      | JInt n \<Rightarrow>
          if 128 < length (show_int \<bar>n\<bar>) then Inl ''agent metadata integer is too large'' else Inr left
      | JFloat t \<Rightarrow>
          if \<not> float_finite t then Inl ''agent metadata contains a non-finite number'' else Inr left
      | JNull \<Rightarrow> Inr left
      | JBool b \<Rightarrow> Inr left)"
| "validate_metadata_items depth [] budget = Inr budget"
| "validate_metadata_items depth (v # vs) budget =
     rbind (validate_metadata_json depth v budget) (\<lambda>left. validate_metadata_items depth vs left)"
| "validate_metadata_fields depth [] budget = Inr budget"
| "validate_metadata_fields depth ((k, v) # d) budget =
     (if 128 < length k \<or> key_has_control k then Inl ''agent metadata field name is invalid''
      else rbind (validate_metadata_json depth v budget)
             (\<lambda>left. validate_metadata_fields depth d left))"
  by pat_completeness auto

termination
  by (relation "measure (\<lambda>x. case x of Inl (_, v, _) \<Rightarrow> 2 * size v | Inr (Inl (_, vs, _)) \<Rightarrow> 2 * size_list size vs + 1
      | Inr (Inr (_, d, _)) \<Rightarrow> 2 * size_list (size_prod (\<lambda>_. 0) size) d + 1)") auto

text \<open>The plugin payload has a second budget, of UTF-8 bytes in strings.\<close>

function (sequential) validate_plugin_payload :: "int \<Rightarrow> json \<Rightarrow> int \<times> int \<Rightarrow> (string, int \<times> int) result"
  and validate_plugin_items :: "int \<Rightarrow> json list \<Rightarrow> int \<times> int \<Rightarrow> (string, int \<times> int) result"
  and validate_plugin_fields :: "int \<Rightarrow> fields \<Rightarrow> int \<times> int \<Rightarrow> (string, int \<times> int) result" where
  "validate_plugin_payload depth v budgets =
     (case budgets of (budget, bytes) \<Rightarrow>
      (let left = budget - 1 in
      if left < 0 \<or> 8 < depth then Inl ''plugin payload is too deeply nested or too large''
      else case v of
        JObj d \<Rightarrow>
          if 2000 < length d then Inl ''plugin payload object has too many fields''
          else validate_plugin_fields (depth + 1) d (left, bytes)
      | JList xs \<Rightarrow>
          if 256 < length xs then Inl ''plugin payload array has too many items''
          else validate_plugin_items (depth + 1) xs (left, bytes)
      | JStr s \<Rightarrow>
          if 524288 < utf8_length s \<or> list_ex (\<lambda>c. code c = 0 \<or> code c = 0x7F) s
          then Inl ''plugin payload string is invalid or too large''
          else if bytes - utf8_length s < 0 then Inl ''plugin payload is too large''
          else Inr (left, bytes - utf8_length s)
      | JInt n \<Rightarrow>
          if 128 < length (show_int \<bar>n\<bar>) then Inl ''plugin payload integer is too large''
          else Inr (left, bytes)
      | JFloat t \<Rightarrow>
          if \<not> float_finite t then Inl ''plugin payload contains a non-finite number''
          else Inr (left, bytes)
      | JNull \<Rightarrow> Inr (left, bytes)
      | JBool b \<Rightarrow> Inr (left, bytes)))"
| "validate_plugin_items depth [] budgets = Inr budgets"
| "validate_plugin_items depth (v # vs) budgets =
     rbind (validate_plugin_payload depth v budgets) (\<lambda>left. validate_plugin_items depth vs left)"
| "validate_plugin_fields depth [] budgets = Inr budgets"
| "validate_plugin_fields depth ((k, v) # d) budgets =
     (if 128 < length k \<or> key_has_control k then Inl ''plugin payload field name is invalid''
      else rbind (validate_plugin_payload depth v budgets)
             (\<lambda>left. validate_plugin_fields depth d left))"
  by pat_completeness auto

termination
  by (relation "measure (\<lambda>x. case x of Inl (_, v, _) \<Rightarrow> 2 * size v | Inr (Inl (_, vs, _)) \<Rightarrow> 2 * size_list size vs + 1
      | Inr (Inr (_, d, _)) \<Rightarrow> 2 * size_list (size_prod (\<lambda>_. 0) size) d + 1)") auto

definition agent_result_budget :: int where "agent_result_budget = 10000"
definition metadata_budget :: int where "metadata_budget = 2048"
definition plugin_budgets :: "int \<times> int" where "plugin_budgets = (12000, 3 * 1024 * 1024)"

section \<open>The interface of a budgeted walk\<close>

text \<open>
  A walk with budgets of type \<open>'b\<close>, of which \<open>left\<close> reads the nodes that remain: it enters a
  node only within the depth limit and with a node left, spends exactly one, and visits the
  children in order.
\<close>

locale tree_validator =
  fixes check :: "int \<Rightarrow> json \<Rightarrow> 'b \<Rightarrow> (string, 'b) result"
    and check_items :: "int \<Rightarrow> json list \<Rightarrow> 'b \<Rightarrow> (string, 'b) result"
    and check_fields :: "int \<Rightarrow> fields \<Rightarrow> 'b \<Rightarrow> (string, 'b) result"
    and left :: "'b \<Rightarrow> int"
    and spend :: "json \<Rightarrow> 'b \<Rightarrow> 'b"
    and node_ok :: "json \<Rightarrow> 'b \<Rightarrow> bool"
    and key_ok :: "string \<Rightarrow> bool"
    and max_depth :: int
  assumes check_iff: "check d v b = Inr b' \<longleftrightarrow>
      1 \<le> left b \<and> d \<le> max_depth \<and> node_ok v b \<and>
      (case v of JList vs \<Rightarrow> check_items (d + 1) vs (spend v b) = Inr b'
       | JObj kvs \<Rightarrow> check_fields (d + 1) kvs (spend v b) = Inr b'
       | _ \<Rightarrow> b' = spend v b)"
    and items_Nil: "check_items d [] b = Inr b' \<longleftrightarrow> b' = b"
    and items_Cons: "check_items d (v # vs) b = Inr b' \<longleftrightarrow>
      (\<exists>c. check d v b = Inr c \<and> check_items d vs c = Inr b')"
    and fields_Nil: "check_fields d [] b = Inr b' \<longleftrightarrow> b' = b"
    and fields_Cons: "check_fields d ((k, v) # kvs) b = Inr b' \<longleftrightarrow>
      key_ok k \<and> (\<exists>c. check d v b = Inr c \<and> check_fields d kvs c = Inr b')"
    and left_spend: "left (spend v b) = left b - 1"
begin

lemma items_bounds:
  assumes "\<forall>v \<in> set vs. \<forall>c c'. check d v c = Inr c' \<longrightarrow>
      left c' = left c - json_nodes v \<and> 0 \<le> left c' \<and> d + json_depth v \<le> max_depth"
    and "check_items d vs b = Inr b'" "0 \<le> left b"
  shows "left b' = left b - sum_list (map json_nodes vs) \<and> 0 \<le> left b' \<and>
      (\<forall>v \<in> set vs. d + json_depth v \<le> max_depth)"
  using assms
proof (induction vs arbitrary: b)
  case (Cons v vs)
  then obtain c where c: "check d v b = Inr c" "check_items d vs c = Inr b'"
    by (auto simp: items_Cons)
  have v: "left c = left b - json_nodes v \<and> 0 \<le> left c \<and> d + json_depth v \<le> max_depth"
    by (rule Cons.prems(1) [rule_format, OF _ c(1)]) simp
  have "left b' = left c - sum_list (map json_nodes vs) \<and> 0 \<le> left b' \<and>
      (\<forall>v \<in> set vs. d + json_depth v \<le> max_depth)"
    by (rule Cons.IH [OF _ c(2)]) (use Cons.prems(1) v in \<open>meson list.set_intros(2)\<close>)+
  then show ?case using v by simp
qed (simp add: items_Nil)

lemma fields_bounds:
  assumes "\<forall>v \<in> snd ` set kvs. \<forall>c c'. check d v c = Inr c' \<longrightarrow>
      left c' = left c - json_nodes v \<and> 0 \<le> left c' \<and> d + json_depth v \<le> max_depth"
    and "check_fields d kvs b = Inr b'" "0 \<le> left b"
  shows "left b' = left b - sum_list (map (\<lambda>(k, v). json_nodes v) kvs) \<and> 0 \<le> left b' \<and>
      (\<forall>(k, v) \<in> set kvs. d + json_depth v \<le> max_depth)"
  using assms
proof (induction kvs arbitrary: b)
  case (Cons kv kvs)
  obtain k v where kv: "kv = (k, v)" by (cases kv)
  with Cons.prems obtain c where c: "check d v b = Inr c" "check_fields d kvs c = Inr b'"
    by (auto simp: fields_Cons)
  have v: "left c = left b - json_nodes v \<and> 0 \<le> left c \<and> d + json_depth v \<le> max_depth"
    by (rule Cons.prems(1) [rule_format, OF _ c(1)]) (simp add: kv)
  have "left b' = left c - sum_list (map (\<lambda>(k, v). json_nodes v) kvs) \<and> 0 \<le> left b' \<and>
      (\<forall>(k, v) \<in> set kvs. d + json_depth v \<le> max_depth)"
  proof (rule Cons.IH [OF _ c(2)])
    have "snd ` set kvs \<subseteq> snd ` set (kv # kvs)" by auto
    then show "\<forall>v \<in> snd ` set kvs. \<forall>c c'. check d v c = Inr c' \<longrightarrow>
        left c' = left c - json_nodes v \<and> 0 \<le> left c' \<and> d + json_depth v \<le> max_depth"
      using Cons.prems(1) by (meson subsetD)
  qed (use v in simp)
  then show ?case using v kv by simp
qed (simp add: fields_Nil)

text \<open>An accepted value spent its number of nodes and fits the depth limit.\<close>

lemma accepted_bounds:
  "check d v b = Inr b' \<Longrightarrow>
    left b' = left b - json_nodes v \<and> 0 \<le> left b' \<and> d + json_depth v \<le> max_depth"
proof (induction v arbitrary: d b b')
  case (JList vs)
  then have h: "1 \<le> left b" "d \<le> max_depth" "check_items (d + 1) vs (spend (JList vs) b) = Inr b'"
    by (simp_all add: check_iff)
  have "left b' = left (spend (JList vs) b) - sum_list (map json_nodes vs) \<and> 0 \<le> left b' \<and>
      (\<forall>v \<in> set vs. d + 1 + json_depth v \<le> max_depth)"
    by (rule items_bounds [OF _ h(3)]) (use JList.IH h(1) left_spend in \<open>blast | simp\<close>)+
  then show ?case
    using json_depth_JList_le [OF _ h(2)] by (simp add: left_spend)
next
  case (JObj kvs)
  then have h: "1 \<le> left b" "d \<le> max_depth" "check_fields (d + 1) kvs (spend (JObj kvs) b) = Inr b'"
    by (simp_all add: check_iff)
  have "left b' = left (spend (JObj kvs) b) - sum_list (map (\<lambda>(k, v). json_nodes v) kvs) \<and> 0 \<le> left b' \<and>
      (\<forall>(k, v) \<in> set kvs. d + 1 + json_depth v \<le> max_depth)"
  proof (rule fields_bounds [OF _ h(3)])
    show "\<forall>v \<in> snd ` set kvs. \<forall>c c'. check (d + 1) v c = Inr c' \<longrightarrow>
        left c' = left c - json_nodes v \<and> 0 \<le> left c' \<and> d + 1 + json_depth v \<le> max_depth"
    proof (intro ballI allI impI)
      fix v c c'
      assume "v \<in> snd ` set kvs" "check (d + 1) v c = Inr c'"
      then show "left c' = left c - json_nodes v \<and> 0 \<le> left c' \<and> d + 1 + json_depth v \<le> max_depth"
        using JObj.IH by (metis imageE snds.intros prod.collapse)
    qed
  qed (use h(1) in \<open>simp add: left_spend\<close>)
  then show ?case
    using json_depth_JObj_le [OF _ h(2)] by (simp add: left_spend)
qed (simp_all add: check_iff left_spend)

end

text \<open>
  A walk whose only budget is the node count and whose test of a node looks at that node
  alone rejects nothing else: the bounds and the tests are exactly the language accepted.
\<close>

locale exact_validator =
  tree_validator check check_items check_fields "\<lambda>b. b" "\<lambda>v b. b - 1" "\<lambda>v b. shape_ok v" key_ok max_depth
  for check :: "int \<Rightarrow> json \<Rightarrow> int \<Rightarrow> (string, int) result"
    and check_items :: "int \<Rightarrow> json list \<Rightarrow> int \<Rightarrow> (string, int) result"
    and check_fields :: "int \<Rightarrow> fields \<Rightarrow> int \<Rightarrow> (string, int) result"
    and shape_ok :: "json \<Rightarrow> bool"
    and key_ok :: "string \<Rightarrow> bool"
    and max_depth :: int +
  assumes shape_keys: "shape_ok (JObj kvs) \<Longrightarrow> list_all (\<lambda>(k, v). key_ok k) kvs"
begin

lemma items_complete:
  assumes "\<forall>v \<in> set vs. \<forall>c. json_nodes v \<le> c \<longrightarrow> (\<exists>c'. check d v c = Inr c')"
    and "sum_list (map json_nodes vs) \<le> b"
  shows "\<exists>b'. check_items d vs b = Inr b'"
  using assms
proof (induction vs arbitrary: b)
  case (Cons v vs)
  have n: "0 \<le> sum_list (map json_nodes vs)"
    by (intro sum_list_nonneg) (auto simp: less_imp_le)
  then obtain c where c: "check d v b = Inr c"
    using Cons.prems by (auto dest: spec [of _ b])
  then have "c = b - json_nodes v" using accepted_bounds by blast
  then show ?case
    using Cons.IH [of c] Cons.prems c by (auto simp: items_Cons)
qed (simp add: items_Nil)

lemma fields_complete:
  assumes "\<forall>v \<in> snd ` set kvs. \<forall>c. json_nodes v \<le> c \<longrightarrow> (\<exists>c'. check d v c = Inr c')"
    and "list_all (\<lambda>(k, v). key_ok k) kvs"
    and "sum_list (map (\<lambda>(k, v). json_nodes v) kvs) \<le> b"
  shows "\<exists>b'. check_fields d kvs b = Inr b'"
  using assms
proof (induction kvs arbitrary: b)
  case (Cons kv kvs)
  obtain k v where kv: "kv = (k, v)" by (cases kv)
  have n: "0 \<le> sum_list (map (\<lambda>(k, v). json_nodes v) kvs)"
    by (intro sum_list_nonneg) (auto simp: less_imp_le)
  then obtain c where c: "check d v b = Inr c"
    using Cons.prems kv by (auto dest: spec [of _ b])
  then have "c = b - json_nodes v" using accepted_bounds by blast
  then show ?case
    using Cons.IH [of c] Cons.prems c kv by (auto simp: fields_Cons)
qed (simp add: fields_Nil)

lemma accepts_if:
  "json_all shape_ok v \<Longrightarrow> json_nodes v \<le> b \<Longrightarrow> d + json_depth v \<le> max_depth \<Longrightarrow>
    \<exists>b'. check d v b = Inr b'"
proof (induction v arbitrary: d b)
  case (JList vs)
  have depth: "d + 1 + json_depth v \<le> max_depth" if "v \<in> set vs" for v
  proof -
    have "json_depth v \<le> Max (set (map json_depth vs))" using that by (intro Max_ge) auto
    moreover have "json_depth (JList vs) = 1 + Max (set (map json_depth vs))"
      using that by (auto simp: neq_Nil_conv)
    ultimately show ?thesis using JList.prems(3) by linarith
  qed
  have "0 \<le> sum_list (map json_nodes vs)"
    by (intro sum_list_nonneg) (auto simp: less_imp_le)
  moreover have "\<exists>b'. check_items (d + 1) vs (b - 1) = Inr b'"
    by (rule items_complete)
      (use JList depth in \<open>auto simp: list_all_iff\<close>)
  moreover have "d \<le> max_depth"
    using JList.prems(3) json_depth_nonneg [of "JList vs"] by linarith
  ultimately show ?case using JList.prems by (simp add: check_iff)
next
  case (JObj kvs)
  have depth: "d + 1 + json_depth v \<le> max_depth" if "(k, v) \<in> set kvs" for k v
  proof -
    have "json_depth v \<le> Max (set (map (\<lambda>(k, v). json_depth v) kvs))"
      using that by (intro Max_ge) force+
    moreover have "json_depth (JObj kvs) = 1 + Max (set (map (\<lambda>(k, v). json_depth v) kvs))"
      using that by (auto simp: neq_Nil_conv)
    ultimately show ?thesis using JObj.prems(3) by linarith
  qed
  have "0 \<le> sum_list (map (\<lambda>(k, v). json_nodes v) kvs)"
    by (intro sum_list_nonneg) (auto simp: less_imp_le)
  moreover have "\<exists>b'. check_fields (d + 1) kvs (b - 1) = Inr b'"
  proof (rule fields_complete)
    show "\<forall>v \<in> snd ` set kvs. \<forall>c. json_nodes v \<le> c \<longrightarrow> (\<exists>c'. check (d + 1) v c = Inr c')"
    proof (intro ballI allI impI)
      fix v c assume v: "v \<in> snd ` set kvs" "json_nodes v \<le> c"
      then obtain k where k: "(k, v) \<in> set kvs" by force
      have "json_all shape_ok v" using JObj.prems(1) k by (auto simp: list_all_iff)
      then show "\<exists>c'. check (d + 1) v c = Inr c'"
        using JObj.IH [OF k, of v] v depth [OF k] by simp
    qed
  qed (use JObj.prems shape_keys in simp_all)
  moreover have "d \<le> max_depth"
    using JObj.prems(3) json_depth_nonneg [of "JObj kvs"] by linarith
  ultimately show ?case using JObj.prems by (simp add: check_iff)
qed (auto simp: check_iff)

lemma items_shape:
  assumes "\<forall>v \<in> set vs. \<forall>c c'. check d v c = Inr c' \<longrightarrow> json_all shape_ok v"
    and "check_items d vs b = Inr b'"
  shows "list_all (json_all shape_ok) vs"
  using assms by (induction vs arbitrary: b) (auto simp: items_Cons)

lemma fields_shape:
  assumes "\<forall>v \<in> snd ` set kvs. \<forall>c c'. check d v c = Inr c' \<longrightarrow> json_all shape_ok v"
    and "check_fields d kvs b = Inr b'"
  shows "list_all (\<lambda>(k, v). json_all shape_ok v) kvs"
  using assms by (induction kvs arbitrary: b) (auto simp: fields_Cons)

lemma accepted_shape: "check d v b = Inr b' \<Longrightarrow> json_all shape_ok v"
proof (induction v arbitrary: d b b')
  case (JList vs)
  then have "check_items (d + 1) vs (b - 1) = Inr b'" "shape_ok (JList vs)"
    by (simp_all add: check_iff)
  moreover have "list_all (json_all shape_ok) vs"
    by (rule items_shape [OF _ calculation(1)]) (use JList.IH in blast)
  ultimately show ?case by simp
next
  case (JObj kvs)
  then have "check_fields (d + 1) kvs (b - 1) = Inr b'" "shape_ok (JObj kvs)"
    by (simp_all add: check_iff)
  moreover have "list_all (\<lambda>(k, v). json_all shape_ok v) kvs"
    by (rule fields_shape [OF _ calculation(1)]) (use JObj.IH in \<open>fastforce\<close>)
  ultimately show ?case by simp
qed (simp_all add: check_iff)

lemma accepts_iff:
  "(\<exists>b'. check 0 v b = Inr b') \<longleftrightarrow>
    json_all shape_ok v \<and> json_nodes v \<le> b \<and> json_depth v \<le> max_depth"
  using accepted_bounds [of 0 v b] accepted_shape [of 0 v b] accepts_if [of v b 0] by force

end

section \<open>What one node may be\<close>

definition agent_result_shape_ok :: "json \<Rightarrow> bool" where
  "agent_result_shape_ok v = (case v of
      JObj d \<Rightarrow> length d \<le> 2000 \<and> list_all (\<lambda>(k, v). length k \<le> 256 \<and> \<not> key_has_control k) d
    | JList xs \<Rightarrow> length xs \<le> 2000
    | JStr s \<Rightarrow> utf8_length s \<le> 1048576
    | JInt n \<Rightarrow> length (show_int \<bar>n\<bar>) \<le> 128
    | JFloat t \<Rightarrow> float_finite t
    | _ \<Rightarrow> True)"

definition metadata_shape_ok :: "json \<Rightarrow> bool" where
  "metadata_shape_ok v = (case v of
      JObj d \<Rightarrow> length d \<le> 256 \<and> list_all (\<lambda>(k, v). length k \<le> 128 \<and> \<not> key_has_control k) d
    | JList xs \<Rightarrow> length xs \<le> 256
    | JStr s \<Rightarrow> utf8_length s \<le> 8192 \<and> \<not> list_ex is_control s
    | JInt n \<Rightarrow> length (show_int \<bar>n\<bar>) \<le> 128
    | JFloat t \<Rightarrow> float_finite t
    | _ \<Rightarrow> True)"

definition plugin_node_ok :: "json \<Rightarrow> int \<times> int \<Rightarrow> bool" where
  "plugin_node_ok v b = (case v of
      JObj d \<Rightarrow> length d \<le> 2000
    | JList xs \<Rightarrow> length xs \<le> 256
    | JStr s \<Rightarrow> utf8_length s \<le> 524288 \<and> \<not> list_ex (\<lambda>c. code c = 0 \<or> code c = 0x7F) s \<and>
        utf8_length s \<le> snd b
    | JInt n \<Rightarrow> length (show_int \<bar>n\<bar>) \<le> 128
    | JFloat t \<Rightarrow> float_finite t
    | _ \<Rightarrow> True)"

definition plugin_spend :: "json \<Rightarrow> int \<times> int \<Rightarrow> int \<times> int" where
  "plugin_spend v b = (fst b - 1, case v of JStr s \<Rightarrow> snd b - utf8_length s | _ \<Rightarrow> snd b)"

lemma agent_result_fields_keys:
  "validate_agent_result_fields d kvs b = Inr b' \<Longrightarrow>
    list_all (\<lambda>(k, v). length k \<le> 256 \<and> \<not> key_has_control k) kvs"
  by (induction kvs arbitrary: b) (auto simp: res_simps split: if_splits)

lemma metadata_fields_keys:
  "validate_metadata_fields d kvs b = Inr b' \<Longrightarrow>
    list_all (\<lambda>(k, v). length k \<le> 128 \<and> \<not> key_has_control k) kvs"
  by (induction kvs arbitrary: b) (auto simp: res_simps split: if_splits)

interpretation agent_result: exact_validator validate_agent_result_json
  validate_agent_result_items validate_agent_result_fields agent_result_shape_ok
  "\<lambda>k. length k \<le> 256 \<and> \<not> key_has_control k" 16
proof
  show "(validate_agent_result_json d v b = Inr b') =
      (1 \<le> b \<and> d \<le> 16 \<and> agent_result_shape_ok v \<and>
      (case v of JList vs \<Rightarrow> validate_agent_result_items (d + 1) vs (b - 1) = Inr b'
       | JObj kvs \<Rightarrow> validate_agent_result_fields (d + 1) kvs (b - 1) = Inr b'
       | _ \<Rightarrow> b' = b - 1))" for d v b b'
    using agent_result_fields_keys [of "d + 1" _ "b - 1" b']
    by (cases v) (auto simp: agent_result_shape_ok_def Let_def split: if_splits)
  show "list_all (\<lambda>(k, v). length k \<le> 256 \<and> \<not> key_has_control k) kvs"
    if "agent_result_shape_ok (JObj kvs)" for kvs
    using that by (simp add: agent_result_shape_ok_def)
qed (auto simp: res_simps simp del: validate_agent_result_json.simps)

interpretation metadata: exact_validator validate_metadata_json
  validate_metadata_items validate_metadata_fields metadata_shape_ok
  "\<lambda>k. length k \<le> 128 \<and> \<not> key_has_control k" 8
proof
  show "(validate_metadata_json d v b = Inr b') =
      (1 \<le> b \<and> d \<le> 8 \<and> metadata_shape_ok v \<and>
      (case v of JList vs \<Rightarrow> validate_metadata_items (d + 1) vs (b - 1) = Inr b'
       | JObj kvs \<Rightarrow> validate_metadata_fields (d + 1) kvs (b - 1) = Inr b'
       | _ \<Rightarrow> b' = b - 1))" for d v b b'
    using metadata_fields_keys [of "d + 1" _ "b - 1" b']
    by (cases v) (auto simp: metadata_shape_ok_def Let_def split: if_splits)
  show "list_all (\<lambda>(k, v). length k \<le> 128 \<and> \<not> key_has_control k) kvs"
    if "metadata_shape_ok (JObj kvs)" for kvs
    using that by (simp add: metadata_shape_ok_def)
qed (auto simp: res_simps simp del: validate_metadata_json.simps)

interpretation plugin: tree_validator validate_plugin_payload validate_plugin_items
  validate_plugin_fields fst plugin_spend plugin_node_ok
  "\<lambda>k. length k \<le> 128 \<and> \<not> key_has_control k" 8
proof
  show "(validate_plugin_payload d v b = Inr b') =
      (1 \<le> fst b \<and> d \<le> 8 \<and> plugin_node_ok v b \<and>
      (case v of JList vs \<Rightarrow> validate_plugin_items (d + 1) vs (plugin_spend v b) = Inr b'
       | JObj kvs \<Rightarrow> validate_plugin_fields (d + 1) kvs (plugin_spend v b) = Inr b'
       | _ \<Rightarrow> b' = plugin_spend v b))" for d v and b b' :: "int \<times> int"
    by (cases v; cases b) (auto simp: plugin_node_ok_def plugin_spend_def Let_def split: if_splits)
qed (auto simp: res_simps plugin_spend_def simp del: validate_plugin_payload.simps)

section \<open>Properties\<close>

text \<open>C21: \<open>validate_agent_result_json\<close> accepts exactly the results that have at most 10000
  nodes and nesting depth 16 and whose nodes each respect the limits on fields, items, key
  texts, string bytes, integer digits and finiteness; nothing else is rejected.\<close>

theorem agent_result_json_exact:
  "is_ok (validate_agent_result_json 0 v agent_result_budget) \<longleftrightarrow>
    json_all agent_result_shape_ok v \<and> json_nodes v \<le> 10000 \<and> json_depth v \<le> 16"
  using agent_result.accepts_iff [of v agent_result_budget]
  by (simp only: is_ok_iff agent_result_budget_def)

text \<open>the same for the platform metadata of an agent: at most 2048 nodes, depth 8, and the
  per-node limits, control characters in strings excluded.\<close>

theorem metadata_json_exact:
  "is_ok (validate_metadata_json 0 v metadata_budget) \<longleftrightarrow>
    json_all metadata_shape_ok v \<and> json_nodes v \<le> 2048 \<and> json_depth v \<le> 8"
  using metadata.accepts_iff [of v metadata_budget]
  by (simp only: is_ok_iff metadata_budget_def)

text \<open>The UTF-8 bytes in the string values of a payload.\<close>

fun json_string_bytes :: "json \<Rightarrow> int" where
  "json_string_bytes (JStr s) = utf8_length s"
| "json_string_bytes (JList xs) = sum_list (map json_string_bytes xs)"
| "json_string_bytes (JObj d) = sum_list (map (\<lambda>(k, v). json_string_bytes v) d)"
| "json_string_bytes _ = 0"

lemma plugin_items_bytes:
  assumes "\<forall>v \<in> set vs. \<forall>c c'. validate_plugin_payload d v c = Inr c' \<longrightarrow> 0 \<le> snd c \<longrightarrow>
      snd c' = snd c - json_string_bytes v \<and> 0 \<le> snd c'"
    and "validate_plugin_items d vs b = Inr b'" "0 \<le> snd b"
  shows "snd b' = snd b - sum_list (map json_string_bytes vs) \<and> 0 \<le> snd b'"
  using assms
proof (induction vs arbitrary: b)
  case (Cons v vs)
  then obtain c where c: "validate_plugin_payload d v b = Inr c" "validate_plugin_items d vs c = Inr b'"
    by (auto simp only: plugin.items_Cons)
  have "snd c = snd b - json_string_bytes v \<and> 0 \<le> snd c"
    by (rule Cons.prems(1) [rule_format, OF _ c(1) Cons.prems(3)]) simp
  with Cons.IH [OF _ c(2)] Cons.prems(1) show ?case
    by (simp del: validate_plugin_payload.simps)
qed simp

lemma plugin_fields_bytes:
  assumes "\<forall>v \<in> snd ` set kvs. \<forall>c c'. validate_plugin_payload d v c = Inr c' \<longrightarrow> 0 \<le> snd c \<longrightarrow>
      snd c' = snd c - json_string_bytes v \<and> 0 \<le> snd c'"
    and "validate_plugin_fields d kvs b = Inr b'" "0 \<le> snd b"
  shows "snd b' = snd b - sum_list (map (\<lambda>(k, v). json_string_bytes v) kvs) \<and> 0 \<le> snd b'"
  using assms
proof (induction kvs arbitrary: b)
  case (Cons kv kvs)
  obtain k v where kv: "kv = (k, v)" by (cases kv)
  with Cons.prems obtain c where c: "validate_plugin_payload d v b = Inr c"
    "validate_plugin_fields d kvs c = Inr b'"
    by (auto simp only: plugin.fields_Cons)
  have "snd c = snd b - json_string_bytes v \<and> 0 \<le> snd c"
    by (rule Cons.prems(1) [rule_format, OF _ c(1) Cons.prems(3)]) (simp add: kv)
  with Cons.IH [OF _ c(2)] Cons.prems(1) kv show ?case
    by (simp del: validate_plugin_payload.simps)
qed simp

lemma plugin_payload_bytes:
  "validate_plugin_payload d v b = Inr b' \<Longrightarrow> 0 \<le> snd b \<Longrightarrow>
    snd b' = snd b - json_string_bytes v \<and> 0 \<le> snd b'"
proof (induction v arbitrary: d b b')
  case (JList vs)
  have "validate_plugin_items (d + 1) vs (plugin_spend (JList vs) b) = Inr b'"
    using JList.prems(1) by (simp only: plugin.check_iff json.case)
  moreover have "\<forall>v \<in> set vs. \<forall>c c'. validate_plugin_payload (d + 1) v c = Inr c' \<longrightarrow>
      0 \<le> snd c \<longrightarrow> snd c' = snd c - json_string_bytes v \<and> 0 \<le> snd c'"
    using JList.IH by blast
  ultimately show ?case
    using plugin_items_bytes [of vs "d + 1" "plugin_spend (JList vs) b" b'] JList.prems(2)
    by (simp add: plugin_spend_def)
next
  case (JObj kvs)
  have "validate_plugin_fields (d + 1) kvs (plugin_spend (JObj kvs) b) = Inr b'"
    using JObj.prems(1) by (simp only: plugin.check_iff json.case)
  moreover have "\<forall>v \<in> snd ` set kvs. \<forall>c c'. validate_plugin_payload (d + 1) v c = Inr c' \<longrightarrow>
      0 \<le> snd c \<longrightarrow> snd c' = snd c - json_string_bytes v \<and> 0 \<le> snd c'"
  proof (intro ballI allI impI)
    fix v c c'
    assume v: "v \<in> snd ` set kvs" and r: "validate_plugin_payload (d + 1) v c = Inr c'" "0 \<le> snd c"
    obtain kv where "kv \<in> set kvs" "v \<in> Basic_BNFs.snds kv"
      using v by (metis imageE snds.intros)
    then show "snd c' = snd c - json_string_bytes v \<and> 0 \<le> snd c'"
      using JObj.IH r by blast
  qed
  ultimately show ?case
    using plugin_fields_bytes [of kvs "d + 1" "plugin_spend (JObj kvs) b" b'] JObj.prems(2)
    by (simp add: plugin_spend_def)
qed (auto simp: plugin.check_iff plugin_spend_def plugin_node_ok_def
  simp del: validate_plugin_payload.simps)

text \<open>A plugin payload that passes \<open>_validate_plugin_payload\<close> has at most 12000 nodes, depth
  8, and at most 3 MiB of UTF-8 text in its strings all together.\<close>

theorem plugin_payload_bounded:
  assumes "validate_plugin_payload 0 v plugin_budgets = Inr b"
  shows "json_nodes v \<le> 12000 \<and> json_depth v \<le> 8 \<and> json_string_bytes v \<le> 3 * 1024 * 1024"
  using plugin.accepted_bounds [OF assms] plugin_payload_bytes [OF assms]
  by (simp add: plugin_budgets_def)

end
