(* ===== verification/IpAddress.thy ===== *)
theory IpAddress
  imports PyText
begin

text \<open>
  What the program uses of Python's \<open>ipaddress\<close> (3.12): reading an IPv4 or IPv6 literal,
  a scope id included, its compressed text, and whether a text is a network in CIDR form.
  Addresses are the integers the library keeps.
\<close>

datatype ip_addr = IPv4 int | IPv6 int "string option"

fun ip_version :: "ip_addr \<Rightarrow> int" where
  "ip_version (IPv4 _) = 4"
| "ip_version (IPv6 _ _) = 6"

section \<open>IPv4\<close>

text \<open>\<open>_parse_octet\<close>: one to three ASCII digits, no leading zero, at most 255.\<close>

definition parse_octet :: "string \<Rightarrow> int option" where
  "parse_octet s = (if is_dec_text s \<and> length s \<le> 3 \<and> (s = ''0'' \<or> hd s \<noteq> CHR ''0'')
      \<and> dec_value 0 s \<le> 255 then Some (dec_value 0 s) else None)"

definition parse_ipv4 :: "string \<Rightarrow> int option" where
  "parse_ipv4 s = (case map parse_octet (split_on (CHR ''.'') s) of
      [Some a, Some b, Some c, Some d] \<Rightarrow> Some (((a * 256 + b) * 256 + c) * 256 + d)
    | _ \<Rightarrow> None)"

definition show_ipv4 :: "int \<Rightarrow> string" where
  "show_ipv4 n = join ''.'' [show_nat (n div 16777216 mod 256), show_nat (n div 65536 mod 256),
     show_nat (n div 256 mod 256), show_nat (n mod 256)]"

section \<open>IPv6\<close>

definition hex_value :: "char \<Rightarrow> int" where
  "hex_value c = (if is_dec c then code c - 48 else if code c < 97 then code c - 55 else code c - 87)"

fun hex_number :: "int \<Rightarrow> string \<Rightarrow> int" where
  "hex_number acc [] = acc"
| "hex_number acc (c # cs) = hex_number (16 * acc + hex_value c) cs"

definition parse_hextet :: "string \<Rightarrow> int option" where
  "parse_hextet s = (if s \<noteq> [] \<and> list_all is_hex s \<and> length s \<le> 4
     then Some (hex_number 0 s) else None)"

fun parse_hextets :: "string list \<Rightarrow> int list option" where
  "parse_hextets [] = Some []"
| "parse_hextets (p # ps) = (case parse_hextet p of None \<Rightarrow> None
     | Some h \<Rightarrow> (case parse_hextets ps of None \<Rightarrow> None | Some hs \<Rightarrow> Some (h # hs)))"

definition hex_char :: "int \<Rightarrow> char" where
  "hex_char n = (if n < 10 then char_of (48 + n) else char_of (87 + n))"

function show_hex :: "int \<Rightarrow> string" where
  "show_hex n = (if n < 16 then [hex_char n] else show_hex (n div 16) @ [hex_char (n mod 16)])"
  by auto

termination
  by (relation "measure nat") auto

declare show_hex.simps [simp del]

text \<open>An IPv4 tail stands for the last two hextets.\<close>

definition expand_ipv4_tail :: "string list \<Rightarrow> string list option" where
  "expand_ipv4_tail parts = (if CHR ''.'' \<in> set (last parts)
     then (case parse_ipv4 (last parts) of None \<Rightarrow> None
       | Some n \<Rightarrow> Some (butlast parts @ [show_hex (n div 65536 mod 65536), show_hex (n mod 65536)]))
     else Some parts)"

text \<open>The positions, the two ends apart, at which a part is empty (a double colon).\<close>

definition skip_positions :: "string list \<Rightarrow> nat list" where
  "skip_positions parts = filter (\<lambda>i. parts ! i = []) [1 ..< length parts - 1]"

definition hextets_of_parts :: "string list \<Rightarrow> int list option" where
  "hextets_of_parts parts = (case skip_positions parts of
      [] \<Rightarrow> if length parts = 8 \<and> hd parts \<noteq> [] \<and> last parts \<noteq> [] then parse_hextets parts else None
    | [k] \<Rightarrow>
        (let hi = (if hd parts = [] then k - 1 else k);
             lo = (if last parts = [] then length parts - k - 2 else length parts - k - 1) in
         if (hd parts = [] \<and> hi \<noteq> 0) \<or> (last parts = [] \<and> lo \<noteq> 0) \<or> 8 < hi + lo + 1 then None
         else case (parse_hextets (take hi parts), parse_hextets (drop (length parts - lo) parts)) of
             (Some hs, Some ls) \<Rightarrow> Some (hs @ replicate (8 - (hi + lo)) 0 @ ls)
           | _ \<Rightarrow> None)
    | _ \<Rightarrow> None)"

definition parse_ipv6_int :: "string \<Rightarrow> int option" where
  "parse_ipv6_int s = (let parts = split_on (CHR '':'') s in
     if s = [] \<or> length parts < 3 then None
     else case expand_ipv4_tail parts of None \<Rightarrow> None
       | Some ps \<Rightarrow> if 9 < length ps then None
           else map_option (foldl (\<lambda>acc h. acc * 65536 + h) 0) (hextets_of_parts ps))"

text \<open>\<open>_split_scope_id\<close>: a percent sign must be followed by a nonempty zone without another.\<close>

definition split_scope :: "string \<Rightarrow> (string \<times> string option) option" where
  "split_scope s = (if CHR ''%'' \<notin> set s then Some (s, None)
     else case split_first (CHR ''%'') s of (a, z) \<Rightarrow>
       if z = [] \<or> CHR ''%'' \<in> set z then None else Some (a, Some z))"

definition parse_ipv6 :: "string \<Rightarrow> (int \<times> string option) option" where
  "parse_ipv6 s = (case split_scope s of None \<Rightarrow> None
     | Some (a, z) \<Rightarrow> map_option (\<lambda>n. (n, z)) (parse_ipv6_int a))"

text \<open>\<open>ipaddress.ip_address\<close>; \<open>None\<close> is its \<open>ValueError\<close>.\<close>

definition ip_address :: "string \<Rightarrow> ip_addr option" where
  "ip_address s = (if CHR ''/'' \<in> set s then None
     else case parse_ipv4 s of Some n \<Rightarrow> Some (IPv4 n)
       | None \<Rightarrow> map_option (\<lambda>(n, z). IPv6 n z) (parse_ipv6 s))"

section \<open>Compressed text\<close>

definition hextets_of :: "int \<Rightarrow> int list" where
  "hextets_of n = map (\<lambda>i. n div 2 ^ (112 - 16 * i) mod 65536) [0, 1, 2, 3, 4, 5, 6, 7]"

text \<open>The longest run of zero hextets, the first of those of equal length: (start, length).\<close>

definition zero_run :: "int list \<Rightarrow> nat \<Rightarrow> nat" where
  "zero_run hs i = length (takeWhile (\<lambda>h. h = 0) (drop i hs))"

definition best_run :: "int list \<Rightarrow> nat \<times> nat" where
  "best_run hs = foldl (\<lambda>(s, l) i. if l < zero_run hs i then (i, zero_run hs i) else (s, l))
     (0, 0) [0 ..< length hs]"

definition show_ipv6 :: "int \<Rightarrow> string" where
  "show_ipv6 n = (let hs = hextets_of n; (s, l) = best_run hs in
     if 1 < l then join '':'' (map show_hex (take s hs)) @ ''::'' @ join '':'' (map show_hex (drop (s + l) hs))
     else join '':'' (map show_hex hs))"

fun compressed :: "ip_addr \<Rightarrow> string" where
  "compressed (IPv4 n) = show_ipv4 n"
| "compressed (IPv6 n None) = show_ipv6 n"
| "compressed (IPv6 n (Some z)) = show_ipv6 n @ ''%'' @ z"

section \<open>Networks\<close>

definition prefix_text_ok :: "int \<Rightarrow> string \<Rightarrow> bool" where
  "prefix_text_ok maxlen s = (is_dec_text s \<and> length s \<le> max_int_digits \<and> dec_value 0 s \<le> maxlen)"

definition is_netmask :: "int \<Rightarrow> bool" where
  "is_netmask m = list_ex (\<lambda>p. m = 2 ^ 32 - 2 ^ p) [0 ..< 33]"

definition netmask_text_ok :: "string \<Rightarrow> bool" where
  "netmask_text_ok s = (prefix_text_ok 32 s \<or>
     (case parse_ipv4 s of None \<Rightarrow> False | Some m \<Rightarrow> is_netmask m \<or> is_netmask (2 ^ 32 - 1 - m)))"

text \<open>\<open>ipaddress.ip_network(s, strict=False)\<close> does not raise, for a text with a slash.\<close>

definition ip_network_ok :: "string \<Rightarrow> bool" where
  "ip_network_ok s = (case split_on (CHR ''/'') s of
      [a, m] \<Rightarrow> (parse_ipv4 a \<noteq> None \<and> netmask_text_ok m) \<or>
               (parse_ipv6 a \<noteq> None \<and> prefix_text_ok 128 m)
    | _ \<Rightarrow> False)"

section \<open>Facts\<close>

lemma parse_octet_bounds: "parse_octet s = Some a \<Longrightarrow> 0 \<le> a \<and> a \<le> 255"
proof -
  have *: "0 \<le> acc \<Longrightarrow> list_all is_dec s \<Longrightarrow> 0 \<le> dec_value acc s" for acc
    by (induction s arbitrary: acc) (auto simp: is_dec_def digit_value_def)
  show "parse_octet s = Some a \<Longrightarrow> 0 \<le> a \<and> a \<le> 255"
    using * [of 0] by (auto simp: parse_octet_def is_dec_text_def split: if_splits)
qed

lemma parse_ipv4_bounds: "parse_ipv4 s = Some n \<Longrightarrow> 0 \<le> n \<and> n < 2 ^ 32"
proof -
  assume "parse_ipv4 s = Some n"
  then obtain a b c d where p: "map parse_octet (split_on (CHR ''.'') s) = [Some a, Some b, Some c, Some d]"
    and n: "n = ((a * 256 + b) * 256 + c) * 256 + d"
    by (auto simp: parse_ipv4_def split: list.splits option.splits)
  from p have "\<forall>x \<in> {a, b, c, d}. \<exists>t. parse_octet t = Some x"
    by (auto simp: map_eq_Cons_conv)
  then have "0 \<le> a \<and> a \<le> 255" "0 \<le> b \<and> b \<le> 255" "0 \<le> c \<and> c \<le> 255" "0 \<le> d \<and> d \<le> 255"
    using parse_octet_bounds by auto
  then show ?thesis by (simp add: n)
qed

lemma show_nat_lead: "0 < n \<Longrightarrow> hd (show_nat n) \<noteq> CHR ''0''"
proof (induction n rule: show_nat.induct)
  case (1 n)
  show ?case
  proof (cases "n < 10")
    case True
    then have "code (hd (show_nat n)) = 48 + n"
      using 1 by (subst show_nat.simps) (simp add: code_digit_char)
    then show ?thesis using 1 by (auto simp: code_def)
  next
    case False
    then show ?thesis using 1 by (subst show_nat.simps) (simp add: hd_append)
  qed
qed

lemma parse_octet_show: "0 \<le> n \<Longrightarrow> n \<le> 255 \<Longrightarrow> parse_octet (show_nat n) = Some n"
proof -
  assume n: "0 \<le> n" "n \<le> 255"
  have l: "length (show_nat n) \<le> 3" using n by (intro length_show_nat) auto
  have z: "show_nat n = ''0'' \<or> hd (show_nat n) \<noteq> CHR ''0''"
  proof (cases "n = 0")
    case True
    then show ?thesis by (subst show_nat.simps) (simp add: digit_char_def char_of_def)
  qed (use n show_nat_lead in simp)
  show ?thesis
    using n l z show_nat_dec [of n] by (simp add: parse_octet_def is_dec_text_def dec_value_show_nat)
qed

lemma dot_notin_show_nat: "0 \<le> n \<Longrightarrow> CHR ''.'' \<notin> set (show_nat n)"
  using show_nat_dec [of n] by (auto simp: list_all_iff is_dec_def code_def)

text \<open>An IPv4 address is read back from its text.\<close>

lemma parse_show_ipv4 [text_simps]:
  assumes "0 \<le> n" "n < 2 ^ 32"
  shows "parse_ipv4 (show_ipv4 n) = Some n"
proof -
  let ?b = "\<lambda>k. n div 2 ^ k mod 256"
  have b: "0 \<le> m mod 256" "m mod 256 \<le> 255" for m :: int by auto
  have s: "show_ipv4 n = show_nat (n div 16777216 mod 256) @ CHR ''.'' # show_nat (n div 65536 mod 256)
      @ CHR ''.'' # show_nat (n div 256 mod 256) @ CHR ''.'' # show_nat (n mod 256)"
    by (simp add: show_ipv4_def)
  have sp: "split_on (CHR ''.'') (show_ipv4 n) = [show_nat (n div 16777216 mod 256),
      show_nat (n div 65536 mod 256), show_nat (n div 256 mod 256), show_nat (n mod 256)]"
    unfolding s by (simp add: split_on_append split_on_no dot_notin_show_nat)
  have sum: "((n div 16777216 mod 256 * 256 + n div 65536 mod 256) * 256 + n div 256 mod 256) * 256
      + n mod 256 = n"
  proof -
    have "n div 16777216 mod 256 = n div 16777216"
      using assms by (intro mod_pos_pos_trivial) (auto simp: pos_imp_zdiv_nonneg_iff)
    moreover have "n div 65536 = n div 256 div 256" "n div 16777216 = n div 256 div 256 div 256"
      by (simp_all add: zdiv_zmult2_eq [symmetric])
    ultimately show ?thesis by (simp only: div_mult_mod_eq)
  qed
  show ?thesis
    unfolding parse_ipv4_def sp by (simp only: list.map parse_octet_show b list.case option.case sum)
qed

lemma show_ipv4_chars:
  assumes "c \<in> set (show_ipv4 n)"
  shows "is_dec c \<or> c = CHR ''.''"
proof -
  have "list_all is_dec (show_nat (m mod 256))" for m by (rule show_nat_dec) simp
  then show ?thesis using assms unfolding show_ipv4_def by (auto simp: list_all_iff)
qed

end
