(* ===== verification/WgConfig.thy ===== *)
theory WgConfig
  imports IpAddress Json "HOL-Library.List_Lexorder" "HOL-Library.Char_ord" "HOL-Library.Product_Lexorder"
begin

text \<open>
  The wg-quick text format (\<open>packages/link42_wireguard\<close>): the line parser that keeps what it
  does not understand as extras and warnings, and the renderer with its fixed field order.
  The renderer reads the dictionaries built by \<open>wireguard_service.py\<close>, given here as records;
  list-valued columns are lists of texts.
\<close>

section \<open>Parser\<close>

record parsed_peer =
  pp_public_key :: "string option"
  pp_preshared_key :: "string option"
  pp_allowed_ips :: "string list"
  pp_endpoint :: "string option"
  pp_persistent_keepalive :: "int option"
  pp_extras :: "(string \<times> string) list"
  pp_warnings :: "string list"

record parsed_interface =
  pi_name :: string
  pi_private_key :: "string option"
  pi_addresses :: "string list"
  pi_listen_port :: "int option"
  pi_dns :: "string list"
  pi_mtu :: "int option"
  pi_table :: "string option"
  pi_fwmark :: "string option"
  pi_pre_up :: "string list"
  pi_post_up :: "string list"
  pi_pre_down :: "string list"
  pi_post_down :: "string list"
  pi_peers :: "parsed_peer list"
  pi_extras :: "(string \<times> string) list"
  pi_warnings :: "string list"

definition new_parsed_peer :: parsed_peer where
  "new_parsed_peer = \<lparr>pp_public_key = None, pp_preshared_key = None, pp_allowed_ips = [],
     pp_endpoint = None, pp_persistent_keepalive = None, pp_extras = [], pp_warnings = []\<rparr>"

definition new_parsed_interface :: "string \<Rightarrow> parsed_interface" where
  "new_parsed_interface name = \<lparr>pi_name = name, pi_private_key = None, pi_addresses = [],
     pi_listen_port = None, pi_dns = [], pi_mtu = None, pi_table = None, pi_fwmark = None,
     pi_pre_up = [], pi_post_up = [], pi_pre_down = [], pi_post_down = [], pi_peers = [],
     pi_extras = [], pi_warnings = []\<rparr>"

definition interface_fields :: "string list" where
  "interface_fields = [''privatekey'', ''address'', ''listenport'', ''dns'', ''mtu'', ''table'', ''fwmark'',
     ''preup'', ''postup'', ''predown'', ''postdown'']"

definition peer_fields :: "string list" where
  "peer_fields = [''publickey'', ''presharedkey'', ''allowedips'', ''endpoint'', ''persistentkeepalive'']"

definition at_line :: "int \<Rightarrow> string \<Rightarrow> string" where
  "at_line line_no msg = ''Line '' @ show_int line_no @ '': '' @ msg"

definition split_csv :: "string \<Rightarrow> string list" where
  "split_csv value = filter (\<lambda>s. s \<noteq> []) (map strip (split_on (CHR '','') value))"

definition invalid_integer :: "string \<Rightarrow> int \<Rightarrow> string" where
  "invalid_integer field line_no = at_line line_no (''invalid integer for '' @ field)"

text \<open>The integer, and the warnings to add.\<close>

definition parse_int_field :: "string \<Rightarrow> string \<Rightarrow> int \<Rightarrow> int option \<times> string list" where
  "parse_int_field value field line_no = (case py_int value of
      None \<Rightarrow> (None, [invalid_integer field line_no])
    | Some n \<Rightarrow> (Some n, []))"

definition apply_interface_field ::
  "parsed_interface \<Rightarrow> string \<Rightarrow> string \<Rightarrow> string \<Rightarrow> int \<Rightarrow> parsed_interface" where
  "apply_interface_field p normalized original_key value line_no =
     (if normalized \<notin> set interface_fields then
        p\<lparr>pi_extras := AList.update original_key value (pi_extras p),
          pi_warnings := pi_warnings p @
            [at_line line_no (''preserved unsupported Interface field '' @ original_key)]\<rparr>
      else if normalized = ''privatekey'' then p\<lparr>pi_private_key := Some value\<rparr>
      else if normalized = ''address'' then p\<lparr>pi_addresses := pi_addresses p @ split_csv value\<rparr>
      else if normalized = ''listenport'' then
        (case parse_int_field value ''ListenPort'' line_no of
          (n, ws) \<Rightarrow> p\<lparr>pi_listen_port := n, pi_warnings := pi_warnings p @ ws\<rparr>)
      else if normalized = ''dns'' then p\<lparr>pi_dns := pi_dns p @ split_csv value\<rparr>
      else if normalized = ''mtu'' then
        (case parse_int_field value ''MTU'' line_no of
          (n, ws) \<Rightarrow> p\<lparr>pi_mtu := n, pi_warnings := pi_warnings p @ ws\<rparr>)
      else if normalized = ''table'' then p\<lparr>pi_table := Some value\<rparr>
      else if normalized = ''fwmark'' then p\<lparr>pi_fwmark := Some value\<rparr>
      else if normalized = ''preup'' then p\<lparr>pi_pre_up := pi_pre_up p @ [value]\<rparr>
      else if normalized = ''postup'' then p\<lparr>pi_post_up := pi_post_up p @ [value]\<rparr>
      else if normalized = ''predown'' then p\<lparr>pi_pre_down := pi_pre_down p @ [value]\<rparr>
      else p\<lparr>pi_post_down := pi_post_down p @ [value]\<rparr>)"

definition apply_peer_field ::
  "parsed_peer \<Rightarrow> string \<Rightarrow> string \<Rightarrow> string \<Rightarrow> int \<Rightarrow> parsed_peer" where
  "apply_peer_field p normalized original_key value line_no =
     (if normalized \<notin> set peer_fields then
        p\<lparr>pp_extras := AList.update original_key value (pp_extras p),
          pp_warnings := pp_warnings p @
            [at_line line_no (''preserved unsupported Peer field '' @ original_key)]\<rparr>
      else if normalized = ''publickey'' then p\<lparr>pp_public_key := Some value\<rparr>
      else if normalized = ''presharedkey'' then p\<lparr>pp_preshared_key := Some value\<rparr>
      else if normalized = ''allowedips'' then p\<lparr>pp_allowed_ips := pp_allowed_ips p @ split_csv value\<rparr>
      else if normalized = ''endpoint'' then p\<lparr>pp_endpoint := Some value\<rparr>
      else (case parse_int_field value ''PersistentKeepalive'' line_no of
          (n, ws) \<Rightarrow> p\<lparr>pp_persistent_keepalive := n, pp_warnings := pp_warnings p @ ws\<rparr>))"

text \<open>
  The state of the loop: the interface so far, the section name, and whether there is a
  current peer, which is then the last of the list.
\<close>

record parse_state =
  ps_parsed :: parsed_interface
  ps_section :: "string option"
  ps_in_peer :: bool

definition add_warning :: "int \<Rightarrow> string \<Rightarrow> parsed_interface \<Rightarrow> parsed_interface" where
  "add_warning line_no msg p = p\<lparr>pi_warnings := pi_warnings p @ [at_line line_no msg]\<rparr>"

definition update_last :: "('a \<Rightarrow> 'a) \<Rightarrow> 'a list \<Rightarrow> 'a list" where
  "update_last f xs = (if xs = [] then [] else butlast xs @ [f (last xs)])"

definition open_section :: "int \<Rightarrow> string \<Rightarrow> parse_state \<Rightarrow> parse_state" where
  "open_section line_no line st =
     (let section = lower (strip (butlast (tl line))); p = ps_parsed st in
      if section = ''peer'' then
        \<lparr>ps_parsed = p\<lparr>pi_peers := pi_peers p @ [new_parsed_peer]\<rparr>, ps_section = Some section, ps_in_peer = True\<rparr>
      else if section = ''interface'' then
        \<lparr>ps_parsed = p, ps_section = Some section, ps_in_peer = False\<rparr>
      else
        \<lparr>ps_parsed = add_warning line_no (''unsupported section ['' @ section @ '']'') p,
         ps_section = Some section, ps_in_peer = False\<rparr>)"

definition assign_field :: "int \<Rightarrow> string \<Rightarrow> parse_state \<Rightarrow> parse_state" where
  "assign_field line_no line st =
     (case split_first (CHR ''='') line of (k, v) \<Rightarrow>
      (let key = strip k; value = strip v; normalized = lower key; p = ps_parsed st in
       if ps_section st = Some ''interface'' then
         st\<lparr>ps_parsed := apply_interface_field p normalized key value line_no\<rparr>
       else if ps_section st = Some ''peer'' \<and> ps_in_peer st then
         st\<lparr>ps_parsed := p\<lparr>pi_peers :=
              update_last (\<lambda>q. apply_peer_field q normalized key value line_no) (pi_peers p)\<rparr>\<rparr>
       else st\<lparr>ps_parsed := add_warning line_no ''key outside supported section'' p\<rparr>))"

definition parse_line :: "int \<Rightarrow> string \<Rightarrow> parse_state \<Rightarrow> parse_state" where
  "parse_line line_no raw_line st =
     (let line = strip raw_line in
      if line = [] \<or> hd line = CHR ''#'' \<or> hd line = CHR '';'' then st
      else if hd line = CHR ''['' \<and> last line = CHR '']'' then open_section line_no line st
      else if CHR ''='' \<notin> set line then
        st\<lparr>ps_parsed := add_warning line_no ''ignored malformed line'' (ps_parsed st)\<rparr>
      else assign_field line_no line st)"

fun parse_lines :: "int \<Rightarrow> string list \<Rightarrow> parse_state \<Rightarrow> parse_state" where
  "parse_lines n [] st = st"
| "parse_lines n (l # ls) st = parse_lines (n + 1) ls (parse_line n l st)"

definition parse_wg_quick :: "string \<Rightarrow> string \<Rightarrow> parsed_interface" where
  "parse_wg_quick content name = ps_parsed (parse_lines 1 (split_lines content)
     \<lparr>ps_parsed = new_parsed_interface name, ps_section = None, ps_in_peer = False\<rparr>)"

definition jstrs :: "string list \<Rightarrow> json" where
  "jstrs xs = JList (map JStr xs)"

definition parsed_peer_to_dict :: "parsed_peer \<Rightarrow> json" where
  "parsed_peer_to_dict p = JObj
     [(''public_key'', jopt_str (pp_public_key p)),
      (''preshared_key'', jopt_str (pp_preshared_key p)),
      (''allowed_ips'', jstrs (pp_allowed_ips p)),
      (''endpoint'', jopt_str (pp_endpoint p)),
      (''persistent_keepalive'', jopt_int (pp_persistent_keepalive p)),
      (''extras'', JObj (map (\<lambda>(k, v). (k, JStr v)) (pp_extras p))),
      (''warnings'', jstrs (pp_warnings p))]"

definition parsed_interface_to_dict :: "parsed_interface \<Rightarrow> fields" where
  "parsed_interface_to_dict p =
     [(''name'', JStr (pi_name p)),
      (''private_key'', jopt_str (pi_private_key p)),
      (''addresses'', jstrs (pi_addresses p)),
      (''listen_port'', jopt_int (pi_listen_port p)),
      (''dns'', jstrs (pi_dns p)),
      (''mtu'', jopt_int (pi_mtu p)),
      (''table'', jopt_str (pi_table p)),
      (''fwmark'', jopt_str (pi_fwmark p)),
      (''pre_up'', jstrs (pi_pre_up p)),
      (''post_up'', jstrs (pi_post_up p)),
      (''pre_down'', jstrs (pi_pre_down p)),
      (''post_down'', jstrs (pi_post_down p)),
      (''extras'', JObj (map (\<lambda>(k, v). (k, JStr v)) (pi_extras p))),
      (''warnings'', jstrs (pi_warnings p)),
      (''peers'', JList (map parsed_peer_to_dict (pi_peers p)))]"

section \<open>Renderer\<close>

record render_iface =
  ri_private_key :: "string option"
  ri_tunnel_ips :: "string list"
  ri_listen_port :: "int option"
  ri_dns :: "string list"
  ri_mtu :: "int option"
  ri_table_name :: "string option"
  ri_fwmark :: "string option"
  ri_pre_up :: "string list"
  ri_post_up :: "string list"
  ri_pre_down :: "string list"
  ri_post_down :: "string list"
  ri_custom_config :: json

record render_peer =
  rp_name :: "string option"
  rp_public_key :: "string option"
  rp_preshared_key :: "string option"
  rp_endpoint_host :: "string option"
  rp_endpoint_port :: "int option"
  rp_allowed_ips :: "string list"
  rp_persistent_keepalive :: "int option"
  rp_custom_config :: json

text \<open>The lines each \<open>_append\<close> helper adds.\<close>

definition append_line :: "string \<Rightarrow> string option \<Rightarrow> string list" where
  "append_line key value = (case value of None \<Rightarrow> [] | Some v \<Rightarrow>
     if v = [] then [] else [key @ '' = '' @ v])"

definition append_int :: "string \<Rightarrow> int option \<Rightarrow> string list" where
  "append_int key value = append_line key (map_option show_int value)"

definition append_csv :: "string \<Rightarrow> string list \<Rightarrow> string list" where
  "append_csv key values = (let vs = filter (\<lambda>v. v \<noteq> []) values in
     if vs = [] then [] else [key @ '' = '' @ join '', '' vs])"

definition append_many :: "string \<Rightarrow> string list \<Rightarrow> string list" where
  "append_many key values = concat (map (\<lambda>v. append_line key (Some v)) values)"

definition append_raw :: "json \<Rightarrow> string list" where
  "append_raw value = (if truthy value
     then filter (\<lambda>l. l \<noteq> []) (map rstrip (split_lines (py_str value))) else [])"

definition format_endpoint :: "string \<Rightarrow> int \<Rightarrow> string" where
  "format_endpoint host port = (let host_text = strip host in
     case ip_address host_text of
       None \<Rightarrow> host_text @ '':'' @ show_int port
     | Some a \<Rightarrow>
         if ip_version a = 6 then ''['' @ compressed a @ '']:'' @ show_int port
         else compressed a @ '':'' @ show_int port)"

definition endpoint_lines :: "render_peer \<Rightarrow> string list" where
  "endpoint_lines p = (case (rp_endpoint_host p, rp_endpoint_port p) of
      (Some host, Some port) \<Rightarrow>
        if host \<noteq> [] \<and> port \<noteq> 0 then append_line ''Endpoint'' (Some (format_endpoint host port)) else []
    | _ \<Rightarrow> [])"

definition peer_lines :: "render_peer \<Rightarrow> string list" where
  "peer_lines p = [[], ''[Peer]''] @
     append_raw (rp_custom_config p) @
     append_line ''PublicKey'' (rp_public_key p) @
     append_line ''PresharedKey'' (rp_preshared_key p) @
     append_csv ''AllowedIPs'' (rp_allowed_ips p) @
     endpoint_lines p @
     append_int ''PersistentKeepalive'' (rp_persistent_keepalive p)"

definition interface_lines :: "render_iface \<Rightarrow> string list" where
  "interface_lines i = [''[Interface]''] @
     append_raw (ri_custom_config i) @
     append_line ''PrivateKey'' (ri_private_key i) @
     append_csv ''Address'' (ri_tunnel_ips i) @
     append_int ''ListenPort'' (ri_listen_port i) @
     append_csv ''DNS'' (ri_dns i) @
     append_int ''MTU'' (ri_mtu i) @
     append_line ''Table'' (ri_table_name i) @
     append_line ''FwMark'' (ri_fwmark i) @
     append_many ''PreUp'' (ri_pre_up i) @
     append_many ''PostUp'' (ri_post_up i) @
     append_many ''PreDown'' (ri_pre_down i) @
     append_many ''PostDown'' (ri_post_down i)"

definition peer_sort_key :: "render_peer \<Rightarrow> string \<times> string" where
  "peer_sort_key p = (the_or [] (rp_name p), the_or [] (rp_public_key p))"

definition sorted_peers :: "render_peer list \<Rightarrow> render_peer list" where
  "sorted_peers ps = sort_key peer_sort_key ps"

definition render_wg_quick :: "render_iface \<Rightarrow> render_peer list \<Rightarrow> string" where
  "render_wg_quick i ps = rstrip (join [CHR 0x0A]
     (interface_lines i @ concat (map peer_lines (sorted_peers ps)))) @ [CHR 0x0A]"

end
