(* ===== verification/WgRoundTrip.thy ===== *)
theory WgRoundTrip
  imports WgConfig
begin

text \<open>
  Rendering a wg-quick configuration and parsing it again. For an interface and peers whose
  values are clean texts, the parser reads back each field, the peers in rendering order,
  without a warning.
\<close>

section \<open>Clean values\<close>

definition clean :: "string \<Rightarrow> bool" where
  "clean v = (trimmed v \<and> list_all (\<lambda>c. \<not> is_break c) v)"

definition opt_clean :: "string option \<Rightarrow> bool" where
  "opt_clean x = (case x of None \<Rightarrow> True | Some v \<Rightarrow> clean v)"

definition clean_item :: "string \<Rightarrow> bool" where
  "clean_item v = (clean v \<and> CHR '','' \<notin> set v)"

definition int_ok :: "int option \<Rightarrow> bool" where
  "int_ok x = (case x of None \<Rightarrow> True | Some n \<Rightarrow> \<bar>n\<bar> < 10 ^ max_int_digits)"

definition nonempty :: "string option \<Rightarrow> string option" where
  "nonempty x = (if x = Some [] then None else x)"

lemma show_int_no_break: "list_all (\<lambda>c. \<not> is_break c) (show_int n)"
proof -
  have "\<not> is_break c" if "c \<in> set (show_int n)" for c
    using show_int_chars [OF that]
  proof
    assume "is_dec c" then show ?thesis by (rule dec_not_space)
  next
    assume "c = CHR ''-''" then show ?thesis by (simp add: is_break_def)
  qed
  then show ?thesis by (simp add: list_all_iff)
qed

lemma clean_show_int [simp]: "clean (show_int n)"
  by (simp add: clean_def show_int_no_break)

lemma opt_clean_simps [simp]: "opt_clean None" "opt_clean (Some v) = clean v"
  by (simp_all add: opt_clean_def)

section \<open>One line\<close>

definition key_ok :: "string \<Rightarrow> bool" where
  "key_ok k = (k \<noteq> [] \<and> trimmed k \<and> hd k \<notin> {CHR ''#'', CHR '';'', CHR ''[''} \<and> CHR ''='' \<notin> set k \<and>
     list_all (\<lambda>c. \<not> is_break c) k)"

definition assign_key :: "int \<Rightarrow> string \<Rightarrow> string \<Rightarrow> parse_state \<Rightarrow> parse_state" where
  "assign_key n k v st = (let p = ps_parsed st in
     if ps_section st = Some ''interface'' then
       st\<lparr>ps_parsed := apply_interface_field p (lower k) k v n\<rparr>
     else if ps_section st = Some ''peer'' \<and> ps_in_peer st then
       st\<lparr>ps_parsed := p\<lparr>pi_peers := update_last (\<lambda>q. apply_peer_field q (lower k) k v n) (pi_peers p)\<rparr>\<rparr>
     else st\<lparr>ps_parsed := add_warning n ''key outside supported section'' p\<rparr>)"

lemma is_space_blank [simp]: "is_space (CHR '' '')"
  by (simp add: is_space_def)

lemma strip_append_blank: "trimmed k \<Longrightarrow> strip (k @ '' '') = k"
proof (cases "k = []")
  case True
  then show ?thesis by (simp add: strip_def strip_by_def)
next
  case False
  moreover assume "trimmed k"
  ultimately have "dropWhile is_space (k @ '' '') = k @ '' ''"
    "dropWhile is_space (rev k) = rev k"
    by (auto simp: trimmed_def dropWhile_id hd_rev)
  then show ?thesis by (simp add: strip_def strip_by_def)
qed

lemma trimmed_line: "key_ok k \<Longrightarrow> trimmed v \<Longrightarrow> v \<noteq> [] \<Longrightarrow> trimmed (k @ '' = '' @ v)"
  by (auto simp: key_ok_def trimmed_def)

lemma parse_line_assign:
  assumes "key_ok k" "trimmed v" "v \<noteq> []"
  shows "parse_line n (k @ '' = '' @ v) st = assign_key n k v st"
proof -
  have s: "strip (k @ '' = '' @ v) = k @ '' = '' @ v"
    using trimmed_line [OF assms] by (rule strip_trimmed)
  have "split_first (CHR ''='') ((k @ '' '') @ CHR ''='' # ('' '' @ v)) = (k @ '' '', '' '' @ v)"
    using assms(1) by (intro split_first_append) (simp add: key_ok_def)
  then have f: "split_first (CHR ''='') (k @ '' = '' @ v) = (k @ '' '', '' '' @ v)" by simp
  have b: "strip ('' '' @ v) = v" using assms(2) by (simp add: strip_Cons_space strip_trimmed)
  have a: "strip (k @ '' '') = k" using assms(1) strip_append_blank by (simp add: key_ok_def)
  have "assign_field n (k @ '' = '' @ v) st = assign_key n k v st"
    unfolding assign_field_def f prod.case Let_def a b assign_key_def ..
  then show ?thesis
    using assms(1) unfolding parse_line_def s by (simp add: key_ok_def)
qed

lemma parse_lines_append:
  "parse_lines n (xs @ ys) st = parse_lines (n + int (length xs)) ys (parse_lines n xs st)"
  by (induction xs arbitrary: n st) (auto simp: algebra_simps)

lemma parse_append_line:
  assumes "key_ok k" "opt_clean x"
  shows "parse_lines n (append_line k x) st =
    (case nonempty x of None \<Rightarrow> st | Some v \<Rightarrow> assign_key n k v st)"
  using assms parse_line_assign [OF assms(1)]
  by (cases x) (auto simp: append_line_def nonempty_def clean_def)

lemma split_on_comma_join:
  assumes "CHR '','' \<notin> set x"
  shows "split_on (CHR '','') (join '', '' (x # y # ys)) =
    x # split_on (CHR '','') (CHR '' '' # join '', '' (y # ys))"
proof -
  have "join '', '' (x # y # ys) = x @ CHR '','' # CHR '' '' # join '', '' (y # ys)" by simp
  then show ?thesis using split_on_append [OF assms] by simp
qed

lemma strip_split_blank:
  "map strip (split_on (CHR '','') (CHR '' '' # s)) = map strip (split_on (CHR '','') s)"
  by (cases "split_on (CHR '','') s") (simp_all add: strip_Cons_space)

lemma strip_split_join:
  assumes "\<forall>v \<in> set vs. clean_item v" "vs \<noteq> []"
  shows "map strip (split_on (CHR '','') (join '', '' vs)) = vs"
  using assms
proof (induction vs rule: induct_list012)
  case (2 x)
  then show ?case by (simp add: split_on_no clean_item_def clean_def strip_trimmed)
next
  case (3 x y ys)
  then have x: "CHR '','' \<notin> set x" "strip x = x"
    by (simp_all add: clean_item_def clean_def strip_trimmed)
  show ?case
    unfolding split_on_comma_join [OF x(1)] list.map strip_split_blank x(2)
    using 3 by simp
qed simp

lemma split_csv_join:
  assumes "\<forall>v \<in> set vs. clean_item v \<and> v \<noteq> []"
  shows "split_csv (join '', '' vs) = vs"
proof (cases "vs = []")
  case True
  then show ?thesis by (simp add: split_csv_def strip_def strip_by_def)
next
  case False
  then have "map strip (split_on (CHR '','') (join '', '' vs)) = vs"
    using assms by (intro strip_split_join) auto
  then show ?thesis using assms by (simp add: split_csv_def filter_id_conv)
qed

lemma join_clean:
  assumes "\<forall>v \<in> set vs. clean_item v \<and> v \<noteq> []" "vs \<noteq> []"
  shows "clean (join '', '' vs) \<and> join '', '' vs \<noteq> []"
  using assms
proof (induction vs rule: induct_list012)
  case (3 x y ys)
  then have "clean (join '', '' (y # ys))" "join '', '' (y # ys) \<noteq> []" "clean x" "x \<noteq> []"
    by (auto simp: clean_item_def)
  then show ?case by (auto simp: clean_def trimmed_def is_break_def)
qed (auto simp: clean_item_def)

lemma parse_append_csv:
  assumes "key_ok k" "\<forall>v \<in> set vs. clean_item v"
  shows "parse_lines n (append_csv k vs) st =
    (let ws = filter (\<lambda>v. v \<noteq> []) vs in if ws = [] then st else assign_key n k (join '', '' ws) st)"
proof -
  let ?ws = "filter (\<lambda>v. v \<noteq> []) vs"
  have "\<forall>v \<in> set ?ws. clean_item v \<and> v \<noteq> []" using assms(2) by simp
  then show ?thesis
    using join_clean [of ?ws] parse_line_assign [OF assms(1)]
    by (simp add: append_csv_def Let_def clean_def)
qed

section \<open>Interface fields\<close>

definition in_interface :: "parse_state \<Rightarrow> bool" where
  "in_interface st = (ps_section st = Some ''interface'')"

definition set_iface :: "(parsed_interface \<Rightarrow> parsed_interface) \<Rightarrow> parse_state \<Rightarrow> parse_state" where
  "set_iface f st = st\<lparr>ps_parsed := f (ps_parsed st)\<rparr>"

lemma set_iface_simps [simp]:
  "ps_parsed (set_iface f st) = f (ps_parsed st)"
  "in_interface (set_iface f st) = in_interface st"
  "set_iface f (set_iface g st) = set_iface (\<lambda>p. f (g p)) st"
  by (simp_all add: set_iface_def in_interface_def)

lemma lower_key_simps [simp]:
  "lower ''PrivateKey'' = ''privatekey''" "lower ''Address'' = ''address''"
  "lower ''ListenPort'' = ''listenport''" "lower ''DNS'' = ''dns''" "lower ''MTU'' = ''mtu''"
  "lower ''Table'' = ''table''" "lower ''FwMark'' = ''fwmark''" "lower ''PreUp'' = ''preup''"
  "lower ''PostUp'' = ''postup''" "lower ''PreDown'' = ''predown''" "lower ''PostDown'' = ''postdown''"
  "lower ''PublicKey'' = ''publickey''" "lower ''PresharedKey'' = ''presharedkey''"
  "lower ''AllowedIPs'' = ''allowedips''" "lower ''Endpoint'' = ''endpoint''"
  "lower ''PersistentKeepalive'' = ''persistentkeepalive''"
  by code_simp+

lemma key_ok_simps [simp]:
  "key_ok ''PrivateKey''" "key_ok ''Address''" "key_ok ''ListenPort''" "key_ok ''DNS''" "key_ok ''MTU''"
  "key_ok ''Table''" "key_ok ''FwMark''" "key_ok ''PreUp''" "key_ok ''PostUp''" "key_ok ''PreDown''"
  "key_ok ''PostDown''" "key_ok ''PublicKey''" "key_ok ''PresharedKey''" "key_ok ''AllowedIPs''"
  "key_ok ''Endpoint''" "key_ok ''PersistentKeepalive''"
  by code_simp+

lemma assign_in_interface:
  "in_interface st \<Longrightarrow> assign_key n k v st = set_iface (\<lambda>p. apply_interface_field p (lower k) k v n) st"
  by (simp add: assign_key_def in_interface_def set_iface_def Let_def)

lemma set_iface_id: "f (ps_parsed st) = ps_parsed st \<Longrightarrow> set_iface f st = st"
  by (simp add: set_iface_def)

lemma parse_private_key:
  assumes "in_interface st" "opt_clean x" "pi_private_key (ps_parsed st) = None"
  shows "parse_lines n (append_line ''PrivateKey'' x) st = set_iface (\<lambda>p. p\<lparr>pi_private_key := nonempty x\<rparr>) st"
  using assms by (cases "nonempty x")
    (auto simp: parse_append_line assign_in_interface apply_interface_field_def interface_fields_def
      intro!: set_iface_id [symmetric])

lemma parse_table:
  assumes "in_interface st" "opt_clean x" "pi_table (ps_parsed st) = None"
  shows "parse_lines n (append_line ''Table'' x) st = set_iface (\<lambda>p. p\<lparr>pi_table := nonempty x\<rparr>) st"
  using assms by (cases "nonempty x")
    (auto simp: parse_append_line assign_in_interface apply_interface_field_def interface_fields_def
      intro!: set_iface_id [symmetric])

lemma parse_fwmark:
  assumes "in_interface st" "opt_clean x" "pi_fwmark (ps_parsed st) = None"
  shows "parse_lines n (append_line ''FwMark'' x) st = set_iface (\<lambda>p. p\<lparr>pi_fwmark := nonempty x\<rparr>) st"
  using assms by (cases "nonempty x")
    (auto simp: parse_append_line assign_in_interface apply_interface_field_def interface_fields_def
      intro!: set_iface_id [symmetric])

lemma nonempty_simps [simp]:
  "nonempty None = None" "v \<noteq> [] \<Longrightarrow> nonempty (Some v) = Some v" "nonempty (Some []) = None"
  by (simp_all add: nonempty_def)

lemma nonempty_show_int [simp]: "nonempty (map_option show_int x) = map_option show_int x"
  by (cases x) (auto simp: nonempty_def)

lemma opt_clean_show_int [simp]: "opt_clean (map_option show_int x)"
  by (cases x) auto

lemma parse_listen_port:
  assumes "in_interface st" "int_ok x" "pi_listen_port (ps_parsed st) = None"
  shows "parse_lines n (append_int ''ListenPort'' x) st = set_iface (\<lambda>p. p\<lparr>pi_listen_port := x\<rparr>) st"
  using assms by (cases x)
    (auto simp: append_int_def parse_append_line assign_in_interface apply_interface_field_def
      interface_fields_def int_ok_def parse_int_field_def py_int_show_int intro!: set_iface_id [symmetric])

lemma parse_mtu:
  assumes "in_interface st" "int_ok x" "pi_mtu (ps_parsed st) = None"
  shows "parse_lines n (append_int ''MTU'' x) st = set_iface (\<lambda>p. p\<lparr>pi_mtu := x\<rparr>) st"
  using assms by (cases x)
    (auto simp: append_int_def parse_append_line assign_in_interface apply_interface_field_def
      interface_fields_def int_ok_def parse_int_field_def py_int_show_int intro!: set_iface_id [symmetric])

definition present :: "string list \<Rightarrow> string list" where
  "present vs = filter (\<lambda>v. v \<noteq> []) vs"

lemma parse_address:
  assumes "in_interface st" "\<forall>v \<in> set vs. clean_item v" "pi_addresses (ps_parsed st) = []"
  shows "parse_lines n (append_csv ''Address'' vs) st = set_iface (\<lambda>p. p\<lparr>pi_addresses := present vs\<rparr>) st"
  using assms split_csv_join [of "present vs"]
  by (auto simp: parse_append_csv Let_def assign_in_interface apply_interface_field_def interface_fields_def
      present_def set_iface_def)

lemma parse_dns:
  assumes "in_interface st" "\<forall>v \<in> set vs. clean_item v" "pi_dns (ps_parsed st) = []"
  shows "parse_lines n (append_csv ''DNS'' vs) st = set_iface (\<lambda>p. p\<lparr>pi_dns := present vs\<rparr>) st"
  using assms split_csv_join [of "present vs"]
  by (auto simp: parse_append_csv Let_def assign_in_interface apply_interface_field_def interface_fields_def
      present_def set_iface_def)

lemma parse_many:
  assumes "key_ok k" "\<And>p v m. apply_interface_field p (lower k) k v m = upd (\<lambda>xs. xs @ [v]) p"
    and "\<And>f g p. upd f (upd g p) = upd (\<lambda>xs. f (g xs)) p" "\<And>p. upd (\<lambda>xs. xs) p = p"
    and "in_interface st" "\<forall>v \<in> set vs. clean v"
  shows "parse_lines n (append_many k vs) st = set_iface (upd (\<lambda>xs. xs @ present vs)) st"
  using assms(5,6)
proof (induction vs arbitrary: n st)
  case (Cons v vs)
  have one: "parse_lines n (append_line k (Some v)) st =
      set_iface (upd (\<lambda>xs. xs @ present [v])) st"
    using Cons.prems assms(1,2,4)
    by (auto simp: parse_append_line nonempty_def present_def assign_in_interface set_iface_def)
  have "in_interface (set_iface (upd (\<lambda>xs. xs @ present [v])) st)" using Cons.prems by simp
  from Cons.IH [OF this] show ?case
    using Cons.prems by (simp add: append_many_def parse_lines_append one assms(3) present_def)
qed (simp add: append_many_def present_def assms(4) set_iface_def)

lemma parse_pre_up:
  assumes "in_interface st" "\<forall>v \<in> set vs. clean v" "pi_pre_up (ps_parsed st) = []"
  shows "parse_lines n (append_many ''PreUp'' vs) st = set_iface (\<lambda>p. p\<lparr>pi_pre_up := present vs\<rparr>) st"
  using parse_many [of "''PreUp''" "\<lambda>f p. p\<lparr>pi_pre_up := f (pi_pre_up p)\<rparr>" st vs n] assms
  by (simp add: apply_interface_field_def interface_fields_def set_iface_def)

lemma parse_post_up:
  assumes "in_interface st" "\<forall>v \<in> set vs. clean v" "pi_post_up (ps_parsed st) = []"
  shows "parse_lines n (append_many ''PostUp'' vs) st = set_iface (\<lambda>p. p\<lparr>pi_post_up := present vs\<rparr>) st"
  using parse_many [of "''PostUp''" "\<lambda>f p. p\<lparr>pi_post_up := f (pi_post_up p)\<rparr>" st vs n] assms
  by (simp add: apply_interface_field_def interface_fields_def set_iface_def)

lemma parse_pre_down:
  assumes "in_interface st" "\<forall>v \<in> set vs. clean v" "pi_pre_down (ps_parsed st) = []"
  shows "parse_lines n (append_many ''PreDown'' vs) st = set_iface (\<lambda>p. p\<lparr>pi_pre_down := present vs\<rparr>) st"
  using parse_many [of "''PreDown''" "\<lambda>f p. p\<lparr>pi_pre_down := f (pi_pre_down p)\<rparr>" st vs n] assms
  by (simp add: apply_interface_field_def interface_fields_def set_iface_def)

lemma parse_post_down:
  assumes "in_interface st" "\<forall>v \<in> set vs. clean v" "pi_post_down (ps_parsed st) = []"
  shows "parse_lines n (append_many ''PostDown'' vs) st = set_iface (\<lambda>p. p\<lparr>pi_post_down := present vs\<rparr>) st"
  using parse_many [of "''PostDown''" "\<lambda>f p. p\<lparr>pi_post_down := f (pi_post_down p)\<rparr>" st vs n] assms
  by (simp add: apply_interface_field_def interface_fields_def set_iface_def)

lemmas parse_interface_lines = parse_private_key parse_table parse_fwmark parse_listen_port parse_mtu
  parse_address parse_dns parse_pre_up parse_post_up parse_pre_down parse_post_down

section \<open>The interface section\<close>

definition render_iface_ok :: "render_iface \<Rightarrow> bool" where
  "render_iface_ok i = (opt_clean (ri_private_key i) \<and> list_all clean_item (ri_tunnel_ips i) \<and>
     int_ok (ri_listen_port i) \<and> list_all clean_item (ri_dns i) \<and> int_ok (ri_mtu i) \<and>
     opt_clean (ri_table_name i) \<and> opt_clean (ri_fwmark i) \<and> list_all clean (ri_pre_up i) \<and>
     list_all clean (ri_post_up i) \<and> list_all clean (ri_pre_down i) \<and> list_all clean (ri_post_down i) \<and>
     \<not> truthy (ri_custom_config i))"

text \<open>What reading the rendered interface section gives.\<close>

definition read_interface :: "string \<Rightarrow> render_iface \<Rightarrow> parsed_interface" where
  "read_interface name i = \<lparr>pi_name = name, pi_private_key = nonempty (ri_private_key i),
     pi_addresses = present (ri_tunnel_ips i), pi_listen_port = ri_listen_port i,
     pi_dns = present (ri_dns i), pi_mtu = ri_mtu i, pi_table = nonempty (ri_table_name i),
     pi_fwmark = nonempty (ri_fwmark i), pi_pre_up = present (ri_pre_up i),
     pi_post_up = present (ri_post_up i), pi_pre_down = present (ri_pre_down i),
     pi_post_down = present (ri_post_down i), pi_peers = [], pi_extras = [], pi_warnings = []\<rparr>"

lemma strip_section [simp]: "strip ''[Interface]'' = ''[Interface]''" "strip ''[Peer]'' = ''[Peer]''"
  "strip ''Interface'' = ''Interface''" "strip ''Peer'' = ''Peer''" "strip [] = []"
  "lower ''Interface'' = ''interface''" "lower ''Peer'' = ''peer''"
  by code_simp+

lemma parse_interface_section:
  assumes "render_iface_ok i"
  shows "parse_lines 1 (interface_lines i)
      \<lparr>ps_parsed = new_parsed_interface name, ps_section = None, ps_in_peer = False\<rparr> =
    \<lparr>ps_parsed = read_interface name i, ps_section = Some ''interface'', ps_in_peer = False\<rparr>"
proof -
  let ?s0 = "\<lparr>ps_parsed = new_parsed_interface name, ps_section = None, ps_in_peer = False\<rparr>"
  let ?s1 = "\<lparr>ps_parsed = new_parsed_interface name, ps_section = Some ''interface'', ps_in_peer = False\<rparr>"
  have h: "parse_lines n [''[Interface]''] ?s0 = ?s1" for n
    by (simp add: parse_line_def open_section_def Let_def)
  have c: "append_raw (ri_custom_config i) = []"
    using assms by (simp add: append_raw_def render_iface_ok_def)
  have "in_interface ?s1" by (simp add: in_interface_def)
  then show ?thesis
    using assms unfolding interface_lines_def c append_Nil parse_lines_append h
    by (simp add: parse_interface_lines new_parsed_interface_def render_iface_ok_def list_all_iff)
      (simp add: set_iface_def read_interface_def)
qed

section \<open>Peer sections\<close>

definition in_peer :: "parse_state \<Rightarrow> bool" where
  "in_peer st = (ps_section st = Some ''peer'' \<and> ps_in_peer st \<and> pi_peers (ps_parsed st) \<noteq> [])"

definition last_peer :: "parse_state \<Rightarrow> parsed_peer" where
  "last_peer st = last (pi_peers (ps_parsed st))"

definition set_peer :: "(parsed_peer \<Rightarrow> parsed_peer) \<Rightarrow> parse_state \<Rightarrow> parse_state" where
  "set_peer f st = st\<lparr>ps_parsed := (ps_parsed st)\<lparr>pi_peers := update_last f (pi_peers (ps_parsed st))\<rparr>\<rparr>"

lemma update_last_simps [simp]:
  "xs \<noteq> [] \<Longrightarrow> last (update_last f xs) = f (last xs)"
  "update_last f xs = [] \<longleftrightarrow> xs = []"
  "update_last f (update_last g xs) = update_last (\<lambda>x. f (g x)) xs"
  "update_last f (xs @ [x]) = xs @ [f x]"
  by (auto simp: update_last_def)

lemma set_peer_simps [simp]:
  "in_peer st \<Longrightarrow> last_peer (set_peer f st) = f (last_peer st)"
  "in_peer (set_peer f st) = in_peer st"
  "set_peer f (set_peer g st) = set_peer (\<lambda>p. f (g p)) st"
  by (simp_all add: set_peer_def in_peer_def last_peer_def)

lemma set_peer_id: "f (last_peer st) = last_peer st \<Longrightarrow> set_peer f st = st"
  by (cases "pi_peers (ps_parsed st) = []") (auto simp: set_peer_def last_peer_def update_last_def)

lemma set_peer_cong: "f (last_peer st) = g (last_peer st) \<Longrightarrow> set_peer f st = set_peer g st"
  by (auto simp: set_peer_def last_peer_def update_last_def)

lemma assign_in_peer:
  "in_peer st \<Longrightarrow> assign_key n k v st = set_peer (\<lambda>p. apply_peer_field p (lower k) k v n) st"
  by (auto simp: assign_key_def in_peer_def set_peer_def Let_def)

lemma parse_public_key:
  assumes "in_peer st" "opt_clean x" "pp_public_key (last_peer st) = None"
  shows "parse_lines n (append_line ''PublicKey'' x) st = set_peer (\<lambda>p. p\<lparr>pp_public_key := nonempty x\<rparr>) st"
  using assms by (cases "nonempty x")
    (auto simp: parse_append_line assign_in_peer apply_peer_field_def peer_fields_def
      intro!: set_peer_id [symmetric])

lemma parse_preshared_key:
  assumes "in_peer st" "opt_clean x" "pp_preshared_key (last_peer st) = None"
  shows "parse_lines n (append_line ''PresharedKey'' x) st = set_peer (\<lambda>p. p\<lparr>pp_preshared_key := nonempty x\<rparr>) st"
  using assms by (cases "nonempty x")
    (auto simp: parse_append_line assign_in_peer apply_peer_field_def peer_fields_def
      intro!: set_peer_id [symmetric])

lemma parse_endpoint:
  assumes "in_peer st" "clean v" "v \<noteq> []" "pp_endpoint (last_peer st) = None"
  shows "parse_lines n (append_line ''Endpoint'' (Some v)) st = set_peer (\<lambda>p. p\<lparr>pp_endpoint := Some v\<rparr>) st"
  using assms by (auto simp: parse_append_line assign_in_peer apply_peer_field_def peer_fields_def)

lemma parse_keepalive:
  assumes "in_peer st" "int_ok x" "pp_persistent_keepalive (last_peer st) = None"
  shows "parse_lines n (append_int ''PersistentKeepalive'' x) st =
    set_peer (\<lambda>p. p\<lparr>pp_persistent_keepalive := x\<rparr>) st"
  using assms by (cases x)
    (auto simp: append_int_def parse_append_line assign_in_peer apply_peer_field_def peer_fields_def
      int_ok_def parse_int_field_def py_int_show_int intro!: set_peer_id [symmetric])

lemma parse_allowed_ips:
  assumes "in_peer st" "\<forall>v \<in> set vs. clean_item v" "pp_allowed_ips (last_peer st) = []"
  shows "parse_lines n (append_csv ''AllowedIPs'' vs) st = set_peer (\<lambda>p. p\<lparr>pp_allowed_ips := present vs\<rparr>) st"
proof (cases "present vs = []")
  case True
  then show ?thesis
    using assms by (auto simp: parse_append_csv present_def intro!: set_peer_id [symmetric])
next
  case False
  have "split_csv (join '', '' (present vs)) = present vs"
    using assms(2) by (intro split_csv_join) (auto simp: present_def)
  then show ?thesis
    using assms False
    by (auto simp: parse_append_csv assign_in_peer apply_peer_field_def peer_fields_def present_def Let_def
        intro!: set_peer_cong)
qed

definition has_endpoint :: "render_peer \<Rightarrow> bool" where
  "has_endpoint p = (the_or [] (rp_endpoint_host p) \<noteq> [] \<and> the_or 0 (rp_endpoint_port p) \<noteq> 0)"

definition endpoint_text :: "render_peer \<Rightarrow> string option" where
  "endpoint_text p = (if has_endpoint p
     then Some (format_endpoint (the_or [] (rp_endpoint_host p)) (the_or 0 (rp_endpoint_port p))) else None)"

definition render_peer_ok :: "render_peer \<Rightarrow> bool" where
  "render_peer_ok p = (opt_clean (rp_public_key p) \<and> opt_clean (rp_preshared_key p) \<and>
     list_all clean_item (rp_allowed_ips p) \<and> int_ok (rp_persistent_keepalive p) \<and>
     opt_clean (endpoint_text p) \<and> \<not> truthy (rp_custom_config p))"

definition read_peer :: "render_peer \<Rightarrow> parsed_peer" where
  "read_peer p = \<lparr>pp_public_key = nonempty (rp_public_key p), pp_preshared_key = nonempty (rp_preshared_key p),
     pp_allowed_ips = present (rp_allowed_ips p), pp_endpoint = endpoint_text p,
     pp_persistent_keepalive = rp_persistent_keepalive p, pp_extras = [], pp_warnings = []\<rparr>"

lemma format_endpoint_neq_Nil [simp]: "format_endpoint h p \<noteq> []"
  by (auto simp: format_endpoint_def Let_def split: option.splits)

lemma endpoint_lines_text: "endpoint_lines p = append_line ''Endpoint'' (endpoint_text p)"
  by (auto simp: endpoint_lines_def endpoint_text_def has_endpoint_def append_line_def split: option.splits)

lemma parse_endpoint_lines:
  assumes "in_peer st" "opt_clean (endpoint_text p)" "pp_endpoint (last_peer st) = None"
  shows "parse_lines n (endpoint_lines p) st = set_peer (\<lambda>q. q\<lparr>pp_endpoint := endpoint_text p\<rparr>) st"
proof (cases "endpoint_text p")
  case None
  then show ?thesis
    using assms by (auto simp: endpoint_lines_text append_line_def intro!: set_peer_id [symmetric])
next
  case (Some v)
  then have "v \<noteq> []" by (auto simp: endpoint_text_def split: if_splits)
  then show ?thesis using assms Some parse_endpoint by (simp add: endpoint_lines_text)
qed

lemmas parse_peer_lines = parse_public_key parse_preshared_key parse_endpoint_lines parse_keepalive parse_allowed_ips

lemma parse_peer_section:
  assumes "render_peer_ok p"
  shows "parse_lines n (peer_lines p) st =
    \<lparr>ps_parsed = (ps_parsed st)\<lparr>pi_peers := pi_peers (ps_parsed st) @ [read_peer p]\<rparr>,
     ps_section = Some ''peer'', ps_in_peer = True\<rparr>"
proof -
  let ?s1 = "\<lparr>ps_parsed = (ps_parsed st)\<lparr>pi_peers := pi_peers (ps_parsed st) @ [new_parsed_peer]\<rparr>,
     ps_section = Some ''peer'', ps_in_peer = True\<rparr>"
  have h: "parse_lines m [[], ''[Peer]''] st = ?s1" for m
    by (simp add: parse_line_def open_section_def Let_def)
  have c: "append_raw (rp_custom_config p) = []"
    using assms by (simp add: append_raw_def render_peer_ok_def)
  have l: "peer_lines p = [[], ''[Peer]''] @ append_line ''PublicKey'' (rp_public_key p) @
     append_line ''PresharedKey'' (rp_preshared_key p) @ append_csv ''AllowedIPs'' (rp_allowed_ips p) @
     endpoint_lines p @ append_int ''PersistentKeepalive'' (rp_persistent_keepalive p)"
    by (simp add: peer_lines_def c)
  have "in_peer ?s1" "last_peer ?s1 = new_parsed_peer" by (simp_all add: in_peer_def last_peer_def)
  then show ?thesis
    using assms unfolding l parse_lines_append h
    by (simp add: parse_peer_lines new_parsed_peer_def render_peer_ok_def list_all_iff) (simp add: set_peer_def read_peer_def)
qed

lemma parse_peer_sections:
  assumes "\<forall>p \<in> set ps. render_peer_ok p"
  shows "ps_parsed (parse_lines n (concat (map peer_lines ps)) st) =
    (ps_parsed st)\<lparr>pi_peers := pi_peers (ps_parsed st) @ map read_peer ps\<rparr>"
  using assms
  by (induction ps arbitrary: n st) (simp_all add: parse_lines_append parse_peer_section)

section \<open>Lines and text\<close>

definition line_ok :: "string \<Rightarrow> bool" where
  "line_ok l = list_all (\<lambda>c. \<not> is_break c) l"

lemma line_ok_append_line: "key_ok k \<Longrightarrow> opt_clean x \<Longrightarrow> list_all line_ok (append_line k x)"
  by (cases x) (auto simp: append_line_def line_ok_def key_ok_def clean_def is_break_def)

lemma line_ok_append_csv:
  assumes "key_ok k" "list_all clean_item vs"
  shows "list_all line_ok (append_csv k vs)"
  using assms join_clean [of "filter (\<lambda>v. v \<noteq> []) vs"]
  by (auto simp: append_csv_def Let_def line_ok_def key_ok_def clean_def is_break_def list_all_iff)

lemma line_ok_append_int: "key_ok k \<Longrightarrow> list_all line_ok (append_int k x)"
  by (simp add: append_int_def line_ok_append_line)

lemma line_ok_append_many: "key_ok k \<Longrightarrow> list_all clean vs \<Longrightarrow> list_all line_ok (append_many k vs)"
  by (induction vs) (auto simp: append_many_def line_ok_append_line)

lemmas line_ok_appends = line_ok_append_line line_ok_append_csv line_ok_append_int line_ok_append_many

lemma line_ok_sections [simp]: "line_ok ''[Interface]''" "line_ok ''[Peer]''" "line_ok []"
  by code_simp+

lemma line_ok_interface: "render_iface_ok i \<Longrightarrow> list_all line_ok (interface_lines i)"
  by (simp add: interface_lines_def render_iface_ok_def append_raw_def line_ok_appends)

lemma line_ok_peer: "render_peer_ok p \<Longrightarrow> list_all line_ok (peer_lines p)"
  by (simp add: peer_lines_def render_peer_ok_def append_raw_def line_ok_appends endpoint_lines_text)

text \<open>No line but the blank one before a peer is empty, and none ends in white space.\<close>

definition line_end_ok :: "string \<Rightarrow> bool" where
  "line_end_ok l = (l \<noteq> [] \<and> \<not> is_space (last l))"

lemma line_end_append_line: "opt_clean x \<Longrightarrow> list_all line_end_ok (append_line k x)"
  by (cases x) (auto simp: append_line_def line_end_ok_def clean_def trimmed_def)

lemma line_end_append_csv: "list_all clean_item vs \<Longrightarrow> list_all line_end_ok (append_csv k vs)"
  using join_clean [of "filter (\<lambda>v. v \<noteq> []) vs"]
  by (auto simp: append_csv_def Let_def line_end_ok_def clean_def trimmed_def list_all_iff)

lemma line_end_append_int: "list_all line_end_ok (append_int k x)"
  by (simp add: append_int_def line_end_append_line)

lemma line_end_append_many: "list_all clean vs \<Longrightarrow> list_all line_end_ok (append_many k vs)"
  by (induction vs) (auto simp: append_many_def line_end_append_line)

lemmas line_end_appends = line_end_append_line line_end_append_csv line_end_append_int line_end_append_many

lemma line_end_sections [simp]: "line_end_ok ''[Interface]''" "line_end_ok ''[Peer]''"
  by (simp_all add: line_end_ok_def is_space_def)

lemma line_end_interface: "render_iface_ok i \<Longrightarrow> list_all line_end_ok (interface_lines i)"
  by (simp add: interface_lines_def render_iface_ok_def append_raw_def line_end_appends)

lemma line_end_peer: "render_peer_ok p \<Longrightarrow> list_all line_end_ok (tl (peer_lines p)) \<and> tl (peer_lines p) \<noteq> []"
  by (simp add: peer_lines_def render_peer_ok_def append_raw_def line_end_appends endpoint_lines_text)

lemma last_line_end_ok:
  assumes "render_iface_ok i" "\<forall>p \<in> set ps. render_peer_ok p"
  shows "line_end_ok (last (interface_lines i @ concat (map peer_lines ps)))"
proof (cases ps rule: rev_cases)
  case Nil
  have "interface_lines i \<noteq> []" by (simp add: interface_lines_def)
  then have "line_end_ok (last (interface_lines i))"
    using list_all_hd_last [OF line_end_interface [OF assms(1)]] by simp
  then show ?thesis using Nil by simp
next
  case (snoc qs p)
  then have "list_all line_end_ok (tl (peer_lines p))" "tl (peer_lines p) \<noteq> []"
    using line_end_peer assms(2) by simp_all
  then have "line_end_ok (last (tl (peer_lines p)))" using list_all_hd_last by blast
  then have "line_end_ok (last (peer_lines p))" by (simp add: last_tl peer_lines_def)
  then show ?thesis using snoc by (simp add: peer_lines_def)
qed

lemma rstrip_id: "s \<noteq> [] \<Longrightarrow> \<not> is_space (last s) \<Longrightarrow> rstrip s = s"
  by (simp add: rstrip_def dropWhile_id hd_rev)

section \<open>Properties\<close>

lemma set_sorted_peers [simp]: "set (sorted_peers ps) = set ps"
  by (simp add: sorted_peers_def)

text \<open>C5: parsing a rendered configuration gives back the interface fields and, in rendering
  order, every peer with its keys, addresses, endpoint and keepalive, and no warning: for
  values without line breaks or outer white space, list items without commas, and no custom
  lines.\<close>

theorem parse_render_wg_quick:
  assumes "render_iface_ok i" "\<forall>p \<in> set ps. render_peer_ok p"
  shows "parse_wg_quick (render_wg_quick i ps) name =
    (read_interface name i)\<lparr>pi_peers := map read_peer (sorted_peers ps)\<rparr>"
proof -
  let ?ls = "interface_lines i @ concat (map peer_lines (sorted_peers ps))"
  have ok: "\<forall>p \<in> set (sorted_peers ps). render_peer_ok p" using assms(2) by simp
  have ne: "?ls \<noteq> []" by (simp add: interface_lines_def)
  have "line_end_ok (last ?ls)" by (rule last_line_end_ok [OF assms(1) ok])
  then have "rstrip (join [CHR 0x0A] ?ls) = join [CHR 0x0A] ?ls"
    using join_last [OF ne] by (intro rstrip_id) (auto simp: line_end_ok_def)
  then have r: "render_wg_quick i ps = join [CHR 0x0A] ?ls @ [CHR 0x0A]" by (simp add: render_wg_quick_def)
  have "list_all line_ok ?ls"
    using line_ok_interface [OF assms(1)] ok line_ok_peer by (auto simp: list_all_iff)
  then have "split_lines (render_wg_quick i ps) = ?ls"
    unfolding r using ne by (intro split_lines_join) (simp_all add: list_all_iff line_ok_def)
  then show ?thesis
    using parse_interface_section [OF assms(1), of name] parse_peer_sections [OF ok]
    by (simp add: parse_wg_quick_def parse_lines_append read_interface_def)
qed

lemma int_ok_small: "\<bar>n\<bar> < 10 ^ 5 \<Longrightarrow> int_ok (Some n)"
proof -
  assume "\<bar>n\<bar> < 10 ^ 5"
  moreover have "(10 :: int) ^ 5 \<le> 10 ^ max_int_digits"
    by (rule power_increasing) (simp_all add: max_int_digits_def)
  ultimately show ?thesis by (simp only: int_ok_def option.case)
qed

lemmas render_ok_defs = render_iface_ok_def render_peer_ok_def clean_item_def clean_def trimmed_def
  is_space_def is_break_def opt_clean_def

theorem parse_render_wg_quick_witness:
  "parse_wg_quick (render_wg_quick
     \<lparr>ri_private_key = Some ''k='', ri_tunnel_ips = [''10.0.0.1/32'', ''fd00::1/64''], ri_listen_port = Some 51820,
       ri_dns = [], ri_mtu = Some 1420, ri_table_name = Some ''off'', ri_fwmark = None, ri_pre_up = [],
       ri_post_up = [''sysctl -w a=1''], ri_pre_down = [], ri_post_down = [], ri_custom_config = JNull\<rparr>
     [\<lparr>rp_name = Some ''b'', rp_public_key = Some ''p='', rp_preshared_key = None, rp_endpoint_host = None,
       rp_endpoint_port = None, rp_allowed_ips = [''0.0.0.0/0''], rp_persistent_keepalive = Some 25,
       rp_custom_config = JNull\<rparr>]) ''wg0'' =
   (read_interface ''wg0''
     \<lparr>ri_private_key = Some ''k='', ri_tunnel_ips = [''10.0.0.1/32'', ''fd00::1/64''], ri_listen_port = Some 51820,
       ri_dns = [], ri_mtu = Some 1420, ri_table_name = Some ''off'', ri_fwmark = None, ri_pre_up = [],
       ri_post_up = [''sysctl -w a=1''], ri_pre_down = [], ri_post_down = [], ri_custom_config = JNull\<rparr>)
     \<lparr>pi_peers := map read_peer (sorted_peers
     [\<lparr>rp_name = Some ''b'', rp_public_key = Some ''p='', rp_preshared_key = None, rp_endpoint_host = None,
       rp_endpoint_port = None, rp_allowed_ips = [''0.0.0.0/0''], rp_persistent_keepalive = Some 25,
       rp_custom_config = JNull\<rparr>])\<rparr>"
  by (rule parse_render_wg_quick)
    (simp_all add: render_ok_defs int_ok_small endpoint_text_def has_endpoint_def)

end
