(* ===== verification/Validators.thy ===== *)
theory Validators
  imports JsonLimits IpAddress "HOL-Library.List_Lexorder" "HOL-Library.Char_ord"
begin

text \<open>
  The field validators of \<open>schemas.py\<close> and \<open>normalize_import_candidate_parsed\<close> of main.py. A
  validator returns the normalised value or the text of its \<open>ValueError\<close>. The texts that pass
  reach wg-quick files and agent commands, so the properties here say which characters cannot.
\<close>

section \<open>Texts and names\<close>

definition is_name_char :: "char \<Rightarrow> bool" where
  "is_name_char c = (is_alnum c \<or> c \<in> {CHR ''_'', CHR ''-''})"

definition label_ok :: "string \<Rightarrow> bool" where
  "label_ok l = (l \<noteq> [] \<and> length l \<le> 63 \<and> is_alnum (hd l) \<and> is_alnum (last l) \<and>
     list_all (\<lambda>c. is_alnum c \<or> c = CHR ''-'') l)"

text \<open>\<open>LOOKING_GLASS_TARGET_HOSTNAME_RE\<close>: labels joined by dots, one trailing dot allowed.\<close>

definition drop_trailing_dot :: "string \<Rightarrow> string" where
  "drop_trailing_dot s = (if s \<noteq> [] \<and> last s = CHR ''.'' then butlast s else s)"

definition hostname_ok :: "string \<Rightarrow> bool" where
  "hostname_ok s = (let body = drop_trailing_dot s in
     body \<noteq> [] \<and> length body \<le> 253 \<and> list_all label_ok (split_on (CHR ''.'') body))"

definition normalize_looking_glass_target :: "string \<Rightarrow> (string, string) result" where
  "normalize_looking_glass_target value = (let cleaned = strip value in
     case ip_address cleaned of
       Some a \<Rightarrow> Inr (compressed a)
     | None \<Rightarrow>
         if hostname_ok cleaned \<and> \<not> has_sub ''..'' cleaned
         then Inr (lower (rev (dropWhile (\<lambda>c. c = CHR ''.'') (rev cleaned))))
         else Inl ''target must be a valid IP address or hostname'')"

definition normalize_bird_protocol_name :: "string \<Rightarrow> (string, string) result" where
  "normalize_bird_protocol_name value = (let cleaned = strip value in
     if cleaned \<noteq> [] \<and> length cleaned \<le> 64 \<and> (is_alnum (hd cleaned) \<or> hd cleaned = CHR ''_'') \<and>
        list_all (\<lambda>c. is_alnum c \<or> c \<in> {CHR ''_'', CHR ''.'', CHR '':'', CHR ''-''}) (tl cleaned)
     then Inr cleaned
     else Inl ''protocol_name must use 1-64 characters: letters, numbers, _, ., :, -'')"

definition asn_error :: string where
  "asn_error = ''asn must be an integer between 1 and 4294967295''"

text \<open>The argument is an integer or a text; \<open>str\<close> of either is given here.\<close>

definition normalize_bgp_asn :: "string \<Rightarrow> (string, int) result" where
  "normalize_bgp_asn value = (let text = strip value in
     if \<not> is_dec_text text then Inl asn_error
     else case py_int text of None \<Rightarrow> Inl asn_error
       | Some n \<Rightarrow> if 1 \<le> n \<and> n \<le> 4294967295 then Inr n else Inl asn_error)"

definition validate_port :: "int option \<Rightarrow> (string, int option) result" where
  "validate_port value = (case value of None \<Rightarrow> Inr None
     | Some n \<Rightarrow> if 1 \<le> n \<and> n \<le> 65535 then Inr (Some n) else Inl ''port must be between 1 and 65535'')"

definition validate_cidr :: "string \<Rightarrow> (string, string) result" where
  "validate_cidr value = (let cidr = strip value in
     if CHR ''/'' \<notin> set cidr then Inl ''CIDR value must contain prefix length''
     else if list_ex (\<lambda>c. is_space c \<or> code c < 0x21 \<or> code c = 0x7F) cidr \<or> CHR ''%'' \<in> set cidr
       then Inl ''CIDR value must not contain control characters or IPv6 zones''
     else if \<not> ip_network_ok cidr then Inl (''invalid CIDR value: '' @ cidr)
     else Inr cidr)"

definition validate_cidrs :: "string list \<Rightarrow> (string, string list) result" where
  "validate_cidrs values = rmap validate_cidr values"

definition validate_ipv4_address :: "string \<Rightarrow> (string, string) result" where
  "validate_ipv4_address value = (let cleaned = strip value in
     case ip_address cleaned of None \<Rightarrow> Inl (''invalid IPv4 address: '' @ cleaned)
     | Some a \<Rightarrow> if ip_version a \<noteq> 4 then Inl ''address must be IPv4'' else Inr cleaned)"

definition validate_ip_address :: "string \<Rightarrow> (string, string) result" where
  "validate_ip_address value = (let cleaned = strip value in
     case ip_address cleaned of None \<Rightarrow> Inl (''invalid IP address: '' @ cleaned) | Some a \<Rightarrow> Inr cleaned)"

definition validate_optional :: "(string \<Rightarrow> (string, string) result) \<Rightarrow> string option \<Rightarrow> (string, string option) result" where
  "validate_optional f value = (case value of None \<Rightarrow> Inr None
     | Some v \<Rightarrow> if strip v = [] then Inr None else rbind (f (strip v)) (\<lambda>r. Inr (Some r)))"

definition validate_optional_ipv4_address :: "string option \<Rightarrow> (string, string option) result" where
  "validate_optional_ipv4_address value = validate_optional validate_ipv4_address value"

definition validate_optional_ip_address :: "string option \<Rightarrow> (string, string option) result" where
  "validate_optional_ip_address value = validate_optional validate_ip_address value"

definition validate_linux_interface_name :: "string \<Rightarrow> (string, string) result" where
  "validate_linux_interface_name value = (let cleaned = strip value in
     if cleaned = [] then Inl ''interface name is required''
     else if 15 < length cleaned then Inl ''interface name must be 15 characters or fewer''
     else if cleaned = ''.'' \<or> cleaned = ''..'' \<or> \<not> list_all (\<lambda>c. is_name_char c \<or> c = CHR ''.'') cleaned
       then Inl ''interface name contains unsupported characters''
     else Inr cleaned)"

definition validate_gre_interface_name :: "string \<Rightarrow> (string, string) result" where
  "validate_gre_interface_name value = (let cleaned = strip value in
     if cleaned = [] then Inl ''interface name is required''
     else if 15 < length cleaned then Inl ''interface name must be 15 characters or fewer''
     else if \<not> list_all is_name_char cleaned then Inl ''interface name contains unsupported characters''
     else Inr cleaned)"

definition validate_gre_outer_address :: "string \<Rightarrow> (string, string) result" where
  "validate_gre_outer_address value = (let cleaned = strip value in
     case ip_address cleaned of
       None \<Rightarrow> Inl (''invalid GRE outer address: '' @ cleaned)
     | Some (IPv6 n (Some z)) \<Rightarrow>
         if z \<noteq> [] \<and> length z \<le> 15 \<and> list_all (\<lambda>c. is_name_char c \<or> c = CHR ''.'') z then Inr cleaned
         else Inl ''GRE IPv6 zone must be a valid interface name''
     | Some _ \<Rightarrow> Inr cleaned)"

definition validate_gre_key :: "string option \<Rightarrow> (string, string option) result" where
  "validate_gre_key value = (case value of None \<Rightarrow> Inr None | Some v \<Rightarrow>
     (let cleaned = strip v in
      if cleaned = [] then Inr None
      else if \<not> is_digit_text cleaned then Inl ''GRE key must be a number''
      else case py_int cleaned of None \<Rightarrow> Inl ''invalid literal for int()''
        | Some n \<Rightarrow> if 0 \<le> n \<and> n \<le> 4294967295 then Inr (Some cleaned)
            else Inl ''GRE key must be between 0 and 4294967295''))"

definition is_endpoint_char :: "char \<Rightarrow> bool" where
  "is_endpoint_char c = (is_alnum c \<or> c \<in> {CHR ''_'', CHR ''.'', CHR '':'', CHR ''%'', CHR ''-'', CHR ''['', CHR '']''})"

definition validate_endpoint_host :: "string option \<Rightarrow> (string, string option) result" where
  "validate_endpoint_host value = (case value of None \<Rightarrow> Inr None | Some v \<Rightarrow>
     (let cleaned = strip v in
      if cleaned = [] then Inr None
      else if 255 < length cleaned \<or> \<not> list_all is_endpoint_char cleaned
        then Inl ''endpoint host contains unsupported characters''
      else Inr (Some cleaned)))"

definition key_text_ok :: "string \<Rightarrow> bool" where
  "key_text_ok v = (v \<noteq> [] \<and> length v \<le> 128 \<and>
     \<not> list_ex (\<lambda>c. is_space c \<or> code c < 0x21 \<or> code c = 0x7F) v)"

definition validate_wireguard_key :: "string option \<Rightarrow> string \<Rightarrow> (string, string option) result" where
  "validate_wireguard_key value label = (case value of None \<Rightarrow> Inr None
     | Some v \<Rightarrow> if key_text_ok v then Inr (Some v) else Inl (label @ '' contains unsupported characters''))"

definition validate_display_text :: "string option \<Rightarrow> string \<Rightarrow> (string, string option) result" where
  "validate_display_text value label = (case value of None \<Rightarrow> Inr None | Some v \<Rightarrow>
     if list_ex is_control (strip v) then Inl (label @ '' must not contain control characters'')
     else Inr (Some (strip v)))"

definition validate_capability :: "string \<Rightarrow> (string, string) result" where
  "validate_capability value = (let cleaned = strip value in
     if cleaned = [] \<or> 128 < length cleaned \<or> list_ex (\<lambda>c. code c < 0x21 \<or> code c = 0x7F) cleaned
     then Inl ''agent capability is invalid'' else Inr cleaned)"

definition validate_capabilities :: "string list \<Rightarrow> (string, string list) result" where
  "validate_capabilities values = rbind (rmap validate_capability values) (\<lambda>cs. Inr (sort (remdups cs)))"

text \<open>\<open>_validate_internal_ipv4s\<close>: IPv4 addresses with a full mask, each once.\<close>

definition ipv4_host_text :: "string \<Rightarrow> string option" where
  "ipv4_host_text value = (case split_on (CHR ''/'') (strip value) of
      [a] \<Rightarrow> map_option show_ipv4 (parse_ipv4 a)
    | [a, m] \<Rightarrow>
        if (is_dec_text m \<and> length m \<le> max_int_digits \<and> dec_value 0 m = 32) \<or> parse_ipv4 m = Some (2 ^ 32 - 1)
        then map_option show_ipv4 (parse_ipv4 a) else None
    | _ \<Rightarrow> None)"

fun validate_internal_ipv4s :: "string list \<Rightarrow> string list \<Rightarrow> (string, string list) result" where
  "validate_internal_ipv4s acc [] = Inr acc"
| "validate_internal_ipv4s acc (v # vs) = (case ipv4_host_text v of
      None \<Rightarrow> Inl ''internal address must be IPv4 /32''
    | Some a \<Rightarrow> (let normalized = a @ ''/32'' in
        if normalized \<in> set acc then Inl ''duplicate internal address''
        else validate_internal_ipv4s (acc @ [normalized]) vs))"

section \<open>Endpoints\<close>

text \<open>The last occurrence of a two-character separator: \<open>s.rsplit(sep, 1)\<close>.\<close>

fun rsplit_pair :: "char \<Rightarrow> char \<Rightarrow> string \<Rightarrow> (string \<times> string) option" where
  "rsplit_pair a b [] = None"
| "rsplit_pair a b (c # cs) = (case rsplit_pair a b cs of
      Some (x, y) \<Rightarrow> Some (c # x, y)
    | None \<Rightarrow> if c = a \<and> cs \<noteq> [] \<and> hd cs = b then Some ([], tl cs) else None)"

definition split_endpoint :: "string option \<Rightarrow> string option \<times> int option" where
  "split_endpoint endpoint = (case endpoint of None \<Rightarrow> (None, None) | Some e \<Rightarrow>
     if e = [] then (None, None)
     else if hd e = CHR ''['' \<and> has_sub '']:'' e then
       (case rsplit_pair (CHR '']'') (CHR '':'') (tl e) of
          None \<Rightarrow> (None, None)
        | Some (host, port_text) \<Rightarrow> (Some host, py_int port_text))
     else if hd e = CHR ''['' \<and> last e = CHR '']'' then (Some (butlast (tl e)), None)
     else if 1 < count_char (CHR '':'') e then (Some e, None)
     else if CHR '':'' \<notin> set e then (Some e, None)
     else (case split_last (CHR '':'') e of (host, port_text) \<Rightarrow> (Some host, py_int port_text)))"

section \<open>Import candidates\<close>

text \<open>
  \<open>normalize_import_candidate_parsed\<close> answers \<open>None\<close> for a \<open>TypeError\<close> or \<open>ValueError\<close> (here
  \<open>Refused\<close>); any other exception leaves the function (\<open>Crashed\<close>).
\<close>

datatype import_fault = Refused | Crashed

text \<open>
  \<open>_validate_wireguard_key\<close> applied to a JSON value that need not be text. Iterating a list
  or a dictionary calls \<open>isspace\<close> on its items or keys, and \<open>ord\<close> accepts one-character texts.
\<close>

fun key_items_ok :: "json list \<Rightarrow> (import_fault, unit) result" where
  "key_items_ok [] = Inr ()"
| "key_items_ok (v # vs) = (case v of
      JStr s \<Rightarrow>
        if s \<noteq> [] \<and> list_all is_space s then Inl Refused
        else if length s \<noteq> 1 then Inl Refused
        else if code (hd s) < 0x21 \<or> code (hd s) = 0x7F then Inl Refused
        else key_items_ok vs
    | _ \<Rightarrow> Inl Crashed)"

definition json_key :: "json \<Rightarrow> (import_fault, json) result" where
  "json_key v = (case v of
      JNull \<Rightarrow> Inr JNull
    | JStr s \<Rightarrow> if key_text_ok s then Inr v else Inl Refused
    | JList xs \<Rightarrow> if xs = [] \<or> 128 < length xs then Inl Refused
        else rbind (key_items_ok xs) (\<lambda>_. Inr v)
    | JObj d \<Rightarrow> if d = [] \<or> 128 < length d then Inl Refused
        else rbind (key_items_ok (map (\<lambda>(k, _). JStr k) d)) (\<lambda>_. Inr v)
    | _ \<Rightarrow> Inl Refused)"

text \<open>\<open>value.get(key, [])\<close>\<close>

definition dget_list :: "fields \<Rightarrow> string \<Rightarrow> json" where
  "dget_list d k = (if dhas d k then dget d k else JList [])"

definition plain_text :: "nat \<Rightarrow> json \<Rightarrow> (import_fault, string) result" where
  "plain_text max_length v = (case v of
      JStr s \<Rightarrow> if length s \<le> max_length \<and> \<not> list_ex is_control s then Inr s else Inl Refused
    | _ \<Rightarrow> Inl Refused)"

definition text_list :: "fields \<Rightarrow> string \<Rightarrow> nat \<Rightarrow> (import_fault, string list) result" where
  "text_list d key max_length = (case dget_list d key of
      JList xs \<Rightarrow> if 128 < length xs then Inl Refused else rmap (plain_text max_length) xs
    | _ \<Rightarrow> Inl Refused)"

definition optional_int :: "fields \<Rightarrow> string \<Rightarrow> int \<Rightarrow> int \<Rightarrow> (import_fault, int option) result" where
  "optional_int d key lo hi = (case dget d key of
      JNull \<Rightarrow> Inr None
    | JInt n \<Rightarrow> if lo \<le> n \<and> n \<le> hi then Inr (Some n) else Inl Refused
    | _ \<Rightarrow> Inl Refused)"

definition optional_text :: "nat \<Rightarrow> json \<Rightarrow> (import_fault, string option) result" where
  "optional_text max_length v = (if v = JNull then Inr None
     else rbind (plain_text max_length v) (\<lambda>s. Inr (Some s)))"

definition refuse :: "('e, 'a) result \<Rightarrow> (import_fault, 'a) result" where
  "refuse r = (case r of Inl _ \<Rightarrow> Inl Refused | Inr x \<Rightarrow> Inr x)"

definition warning_list :: "json \<Rightarrow> (import_fault, json list) result" where
  "warning_list v = (case v of
      JList xs \<Rightarrow>
        if list_all (\<lambda>x. case x of JStr s \<Rightarrow> length s \<le> 500 | _ \<Rightarrow> False) (take 100 xs)
        then Inr (take 100 xs) else Inl Refused
    | _ \<Rightarrow> Inl Refused)"

definition string_items_only :: "json \<Rightarrow> nat \<Rightarrow> (import_fault, string list) result" where
  "string_items_only v max_items = (case v of
      JList xs \<Rightarrow>
        if max_items < length xs then Inl Refused
        else rmap (\<lambda>x. case x of JStr s \<Rightarrow> Inr s | _ \<Rightarrow> Inl Refused) xs
    | _ \<Rightarrow> Inl Refused)"

definition candidate_endpoint_ok :: "string option \<Rightarrow> bool" where
  "candidate_endpoint_ok endpoint = (case split_endpoint endpoint of (host, port) \<Rightarrow>
     is_ok (validate_endpoint_host host) \<and>
     (case port of None \<Rightarrow> True | Some p \<Rightarrow> 1 \<le> p \<and> p \<le> 65535))"

definition object_or_empty :: "json \<Rightarrow> json" where
  "object_or_empty v = JObj (json_object v)"

definition normalize_candidate_peer :: "json \<Rightarrow> (import_fault, json) result" where
  "normalize_candidate_peer v = (case v of
      JObj d \<Rightarrow>
        rbind (json_key (dget d ''public_key'')) (\<lambda>public_key.
        rbind (json_key (dget d ''preshared_key'')) (\<lambda>preshared_key.
        rbind (string_items_only (dget_list d ''allowed_ips'') 256) (\<lambda>allowed.
        rbind (refuse (validate_cidrs allowed)) (\<lambda>allowed_ips.
        rbind (optional_text 255 (dget d ''endpoint'')) (\<lambda>endpoint.
        rbind (ensure (endpoint = None \<or> candidate_endpoint_ok endpoint) Refused) (\<lambda>_.
        rbind (optional_int d ''persistent_keepalive'' 0 65535) (\<lambda>keepalive.
        rbind (warning_list (dget_list d ''warnings'')) (\<lambda>warnings.
          Inr (JObj [(''public_key'', public_key), (''preshared_key'', preshared_key),
            (''allowed_ips'', JList (map JStr allowed_ips)), (''endpoint'', jopt_str endpoint),
            (''persistent_keepalive'', jopt_int keepalive),
            (''extras'', object_or_empty (dget d ''extras'')), (''warnings'', JList warnings)])))))))))
    | _ \<Rightarrow> Inl Refused)"

definition normalize_import_candidate_parsed :: "json \<Rightarrow> (import_fault, fields) result" where
  "normalize_import_candidate_parsed v = (case v of
      JObj d \<Rightarrow>
        rbind (case dget d ''name'' of JStr s \<Rightarrow> refuse (validate_linux_interface_name s) | _ \<Rightarrow> Inl Refused) (\<lambda>name.
        rbind (json_key (dget d ''private_key'')) (\<lambda>private_key.
        rbind (text_list d ''addresses'' 128) (\<lambda>raw_addresses.
        rbind (refuse (validate_cidrs raw_addresses)) (\<lambda>addresses.
        rbind (text_list d ''dns'' 255) (\<lambda>dns.
        rbind (text_list d ''pre_up'' 4096) (\<lambda>pre_up.
        rbind (text_list d ''post_up'' 4096) (\<lambda>post_up.
        rbind (text_list d ''pre_down'' 4096) (\<lambda>pre_down.
        rbind (text_list d ''post_down'' 4096) (\<lambda>post_down.
        rbind (optional_int d ''listen_port'' 1 65535) (\<lambda>listen_port.
        rbind (optional_int d ''mtu'' 576 9000) (\<lambda>mtu.
        rbind (optional_text 64 (dget d ''table'')) (\<lambda>table.
        rbind (optional_text 64 (dget d ''fwmark'')) (\<lambda>fwmark.
        rbind (case dget_list d ''peers'' of
            JList ps \<Rightarrow> if 128 < length ps then Inl Refused else rmap normalize_candidate_peer ps
          | _ \<Rightarrow> Inl Refused) (\<lambda>peers.
        rbind (warning_list (dget_list d ''warnings'')) (\<lambda>warnings.
          Inr [(''name'', JStr name), (''private_key'', private_key),
            (''addresses'', JList (map JStr addresses)), (''listen_port'', jopt_int listen_port),
            (''dns'', JList (map JStr dns)), (''mtu'', jopt_int mtu), (''table'', jopt_str table),
            (''fwmark'', jopt_str fwmark), (''pre_up'', JList (map JStr pre_up)),
            (''post_up'', JList (map JStr post_up)), (''pre_down'', JList (map JStr pre_down)),
            (''post_down'', JList (map JStr post_down)), (''extras'', object_or_empty (dget d ''extras'')),
            (''warnings'', JList warnings), (''peers'', JList peers)])))))))))))))))
    | _ \<Rightarrow> Inl Refused)"

end
