(* ===== verification/Models.thy ===== *)
theory Models
  imports Json
begin

text \<open>
  The tables of \<open>apps/api/link42_api/models.py\<close>: one record per mapped class, with the
  columns in the order of the class, and the database as a record of tables. A nullable
  column is an option, a JSON column a \<open>json\<close> (a typed list where the code only ever stores
  one), a datetime the number of microseconds since the epoch. The \<open>created_at\<close> and
  \<open>updated_at\<close> columns of the mixin, written by the database and read by no decision modelled
  here, are left out, and so are the columns that are stored and displayed only.
\<close>

type_synonym time = int

definition seconds :: "int \<Rightarrow> time" where
  "seconds n = n * 1000000"

section \<open>Rows\<close>

record node =
  nd_id :: int
  nd_name :: string
  nd_hostname :: "string option"
  nd_region :: "string option"
  nd_management_ip :: "string option"
  nd_public_ip :: "string option"
  nd_endpoint_ips :: json
  nd_topology_endpoint :: "string option"
  nd_github_proxy_url :: "string option"
  nd_status :: string
  nd_agent_token_hash :: string
  nd_agent_version :: "string option"
  nd_agent_protocol_version :: "int option"
  nd_agent_capabilities :: "string list"
  nd_agent_platform :: json
  nd_agent_update_status :: "string option"
  nd_agent_last_error :: "string option"
  nd_middleware_install_status :: "string option"
  nd_last_seen_at :: "time option"

record iface =
  if_id :: int
  if_node_id :: int
  if_name :: string
  if_tunnel_ips :: "string list"
  if_listen_port :: "int option"
  if_private_key_value :: "string option"
  if_public_key :: "string option"
  if_mtu :: "int option"
  if_fwmark :: "string option"
  if_table_name :: "string option"
  if_dns :: "string list"
  if_pre_up :: "string list"
  if_post_up :: "string list"
  if_pre_down :: "string list"
  if_post_down :: "string list"
  if_source :: string
  if_managed :: bool
  if_enabled :: bool
  if_deployed_config :: "string option"
  if_runtime_status :: string
  if_import_path :: "string option"
  if_extras :: json
  if_warnings :: json

record peer =
  pr_id :: int
  pr_interface_id :: int
  pr_peer_node_id :: "int option"
  pr_peer_interface_id :: "int option"
  pr_name :: "string option"
  pr_public_key :: string
  pr_preshared_key_value :: "string option"
  pr_endpoint_host :: "string option"
  pr_endpoint_port :: "int option"
  pr_allowed_ips :: "string list"
  pr_persistent_keepalive :: "int option"
  pr_source :: string
  pr_enabled :: bool
  pr_extras :: json
  pr_warnings :: json

record conn =
  co_id :: int
  co_protocol_type :: string
  co_name :: string
  co_source :: string
  co_managed :: bool
  co_status :: string
  co_extras :: json

record endpoint =
  ep_id :: int
  ep_connection_id :: int
  ep_node_id :: int
  ep_role :: string
  ep_interface_name :: string
  ep_tunnel_ips :: "string list"
  ep_mtu :: "int option"
  ep_routes :: "string list"
  ep_runtime_status :: string
  ep_deployed_config :: "json option"
  ep_protocol_config :: json
  ep_extras :: json

record candidate =
  ic_id :: int
  ic_node_id :: int
  ic_path :: string
  ic_interface_name :: string
  ic_parsed :: json
  ic_warnings :: json
  ic_imported :: bool

datatype plan_status = PDraft | PConfirmed | PSucceeded | PFailed | PCancelled

record plan =
  pl_id :: int
  pl_title :: string
  pl_status :: plan_status
  pl_affected_node_ids :: "int list"
  pl_diff :: string
  pl_payload :: json
  pl_confirmed_at :: "time option"

datatype task_status = Pending | Running | Succeeded | Failed | Cancelled

record task =
  tk_id :: int
  tk_node_id :: int
  tk_change_plan_id :: "int option"
  tk_type :: string
  tk_payload :: json
  tk_queue :: string
  tk_priority :: int
  tk_status :: task_status
  tk_result :: "json option"
  tk_started_at :: "time option"
  tk_finished_at :: "time option"
  tk_deadline_at :: "time option"
  tk_dedup_key :: "string option"

record api_key =
  ak_id :: int
  ak_name :: string
  ak_token_prefix :: string
  ak_token_hash :: string
  ak_token_hint :: string
  ak_scopes :: "string list"
  ak_enabled :: bool
  ak_expires_at :: "time option"
  ak_last_used_at :: "time option"
  ak_last_used_ip :: "string option"
  ak_revoked_at :: "time option"

datatype query_status = QQueued | QRunning | QSucceeded | QFailed | QCancelled | QExpired

record lg_query =
  lq_id :: int
  lq_public_id :: string
  lq_api_key_id :: int
  lq_node_id :: int
  lq_operation :: string
  lq_request :: json
  lq_request_fingerprint :: string
  lq_status :: query_status
  lq_agent_task_id :: "int option"
  lq_result :: "json option"
  lq_error_code :: "string option"
  lq_error_message :: "string option"
  lq_started_at :: "time option"
  lq_finished_at :: "time option"
  lq_deadline_at :: "time option"
  lq_expires_at :: "time option"
  lq_created_at :: time

record monitor =
  mo_id :: int
  mo_node_id :: int
  mo_interface_id :: "int option"
  mo_connection_endpoint_id :: "int option"
  mo_name :: string
  mo_target_host :: string
  mo_interval_seconds :: int
  mo_retention_days :: int
  mo_enabled :: bool
  mo_next_due_at :: "time option"
  mo_last_checked_at :: "time option"

text \<open>A latency is kept in microseconds; the column is a float of milliseconds.\<close>

record sample =
  sa_id :: int
  sa_monitor_id :: int
  sa_checked_at :: time
  sa_success :: bool
  sa_latency :: "int option"
  sa_error :: "string option"

record port_setting =
  ps_id :: int
  ps_node_id :: int
  ps_range_start :: "int option"
  ps_range_end :: "int option"

record port_entry =
  pe_id :: int
  pe_node_id :: int
  pe_protocol :: string
  pe_port :: int
  pe_purpose :: string
  pe_source :: string
  pe_detected_process :: "string option"
  pe_detected_pid :: "string option"
  pe_detected_source :: "string option"

record db =
  db_nodes :: "node list"
  db_ifaces :: "iface list"
  db_peers :: "peer list"
  db_conns :: "conn list"
  db_endpoints :: "endpoint list"
  db_candidates :: "candidate list"
  db_plans :: "plan list"
  db_tasks :: "task list"
  db_keys :: "api_key list"
  db_queries :: "lg_query list"
  db_monitors :: "monitor list"
  db_samples :: "sample list"
  db_settings :: "(string \<times> string) list"
  db_port_settings :: "port_setting list"
  db_port_entries :: "port_entry list"

definition empty_db :: db where
  "empty_db = \<lparr>db_nodes = [], db_ifaces = [], db_peers = [], db_conns = [], db_endpoints = [],
     db_candidates = [], db_plans = [], db_tasks = [], db_keys = [], db_queries = [],
     db_monitors = [], db_samples = [], db_settings = [], db_port_settings = [],
     db_port_entries = []\<rparr>"

section \<open>Failed requests\<close>

text \<open>
  An \<open>HTTPException\<close> with its status code and its detail. Details written in Chinese are
  given in English. A handler that raises leaves the database as it was (the session is
  rolled back), unless it committed before, which the model then says.
\<close>

datatype http_error = HTTP int string

type_synonym 'a reply = "(http_error, 'a) result"

section \<open>Access by key\<close>

definition get_node :: "int \<Rightarrow> db \<Rightarrow> node option" where
  "get_node k d = tb_get nd_id k (db_nodes d)"

definition put_node :: "node \<Rightarrow> db \<Rightarrow> db" where
  "put_node r d = d\<lparr>db_nodes := tb_put nd_id r (db_nodes d)\<rparr>"

definition get_iface :: "int \<Rightarrow> db \<Rightarrow> iface option" where
  "get_iface k d = tb_get if_id k (db_ifaces d)"

definition put_iface :: "iface \<Rightarrow> db \<Rightarrow> db" where
  "put_iface r d = d\<lparr>db_ifaces := tb_put if_id r (db_ifaces d)\<rparr>"

definition put_peer :: "peer \<Rightarrow> db \<Rightarrow> db" where
  "put_peer r d = d\<lparr>db_peers := tb_put pr_id r (db_peers d)\<rparr>"

definition get_conn :: "int \<Rightarrow> db \<Rightarrow> conn option" where
  "get_conn k d = tb_get co_id k (db_conns d)"

definition put_conn :: "conn \<Rightarrow> db \<Rightarrow> db" where
  "put_conn r d = d\<lparr>db_conns := tb_put co_id r (db_conns d)\<rparr>"

definition get_endpoint :: "int \<Rightarrow> db \<Rightarrow> endpoint option" where
  "get_endpoint k d = tb_get ep_id k (db_endpoints d)"

definition put_endpoint :: "endpoint \<Rightarrow> db \<Rightarrow> db" where
  "put_endpoint r d = d\<lparr>db_endpoints := tb_put ep_id r (db_endpoints d)\<rparr>"

definition get_candidate :: "int \<Rightarrow> db \<Rightarrow> candidate option" where
  "get_candidate k d = tb_get ic_id k (db_candidates d)"

definition get_plan :: "int \<Rightarrow> db \<Rightarrow> plan option" where
  "get_plan k d = tb_get pl_id k (db_plans d)"

definition put_plan :: "plan \<Rightarrow> db \<Rightarrow> db" where
  "put_plan r d = d\<lparr>db_plans := tb_put pl_id r (db_plans d)\<rparr>"

definition get_task :: "int \<Rightarrow> db \<Rightarrow> task option" where
  "get_task k d = tb_get tk_id k (db_tasks d)"

definition put_task :: "task \<Rightarrow> db \<Rightarrow> db" where
  "put_task r d = d\<lparr>db_tasks := tb_put tk_id r (db_tasks d)\<rparr>"

definition get_query :: "int \<Rightarrow> db \<Rightarrow> lg_query option" where
  "get_query k d = tb_get lq_id k (db_queries d)"

definition put_query :: "lg_query \<Rightarrow> db \<Rightarrow> db" where
  "put_query r d = d\<lparr>db_queries := tb_put lq_id r (db_queries d)\<rparr>"

definition get_monitor :: "int \<Rightarrow> db \<Rightarrow> monitor option" where
  "get_monitor k d = tb_get mo_id k (db_monitors d)"

definition put_monitor :: "monitor \<Rightarrow> db \<Rightarrow> db" where
  "put_monitor r d = d\<lparr>db_monitors := tb_put mo_id r (db_monitors d)\<rparr>"

definition get_setting :: "string \<Rightarrow> db \<Rightarrow> string option" where
  "get_setting k d = map_of (db_settings d) k"

definition put_setting :: "string \<Rightarrow> string \<Rightarrow> db \<Rightarrow> db" where
  "put_setting k v d = d\<lparr>db_settings := AList.update k v (db_settings d)\<rparr>"

definition del_setting :: "string \<Rightarrow> db \<Rightarrow> db" where
  "del_setting k d = d\<lparr>db_settings := AList.delete k (db_settings d)\<rparr>"

text \<open>
  A JSON value used as a primary key. The controller writes integers there; a boolean is an
  integer in Python, anything else finds no row.
\<close>

definition row_key :: "json \<Rightarrow> int option" where
  "row_key v = (case v of JInt n \<Rightarrow> Some n | JBool b \<Rightarrow> Some (if b then 1 else 0) | _ \<Rightarrow> None)"

text \<open>\<open>payload[k].as_integer() == n\<close> in a query.\<close>

definition payload_int :: "json \<Rightarrow> string \<Rightarrow> int \<Rightarrow> bool" where
  "payload_int v k n = (case v of JObj d \<Rightarrow> row_key (dget d k) = Some n | _ \<Rightarrow> False)"

section \<open>Stores\<close>

text \<open>
  A store is a table reached through a reader and a writer of single rows. The writer
  replaces the row of the same key, if there is one, and touches no other row.
\<close>

locale store =
  fixes key :: "'r \<Rightarrow> int"
    and rows :: "db \<Rightarrow> 'r list"
    and get :: "int \<Rightarrow> db \<Rightarrow> 'r option"
    and put :: "'r \<Rightarrow> db \<Rightarrow> db"
  assumes get_rows: "get k d = tb_get key k (rows d)"
    and rows_put: "rows (put r d) = tb_put key r (rows d)"
begin

lemma get_put: "get k (put r d) =
    (if k = key r then (if get k d = None then None else Some r) else get k d)"
  by (auto simp: get_rows rows_put table_simps tb_get_None_iff)

lemma get_put_same: "get (key r) d \<noteq> None \<Longrightarrow> get (key r) (put r d) = Some r"
  by (simp add: get_put)

lemma get_put_other: "k \<noteq> key r \<Longrightarrow> get k (put r d) = get k d"
  by (simp add: get_put)

lemma get_SomeD: "get k d = Some r \<Longrightarrow> r \<in> set (rows d) \<and> key r = k"
  using tb_get_SomeD [of key k "rows d" r] by (simp add: get_rows)

lemma get_key: "get k d = Some r \<Longrightarrow> key r = k"
  using get_SomeD by blast

lemma keys_put: "map key (rows (put r d)) = map key (rows d)"
  by (simp add: rows_put map_key_put)

lemma in_rows_put: "x \<in> set (rows (put r d)) \<Longrightarrow> x = r \<or> x \<in> set (rows d)"
  using set_tb_put [of x key r "rows d"] by (auto simp: rows_put)

lemma get_if_in:
  "distinct (map key (rows d)) \<Longrightarrow> r \<in> set (rows d) \<Longrightarrow> get (key r) d = Some r"
  by (simp add: get_rows tb_get_Some_iff)

end

interpretation nodes: store nd_id db_nodes get_node put_node
  by unfold_locales (simp_all add: get_node_def put_node_def)

interpretation ifaces: store if_id db_ifaces get_iface put_iface
  by unfold_locales (simp_all add: get_iface_def put_iface_def)

interpretation conns: store co_id db_conns get_conn put_conn
  by unfold_locales (simp_all add: get_conn_def put_conn_def)

interpretation endpoints: store ep_id db_endpoints get_endpoint put_endpoint
  by unfold_locales (simp_all add: get_endpoint_def put_endpoint_def)

interpretation plans: store pl_id db_plans get_plan put_plan
  by unfold_locales (simp_all add: get_plan_def put_plan_def)

interpretation tasks: store tk_id db_tasks get_task put_task
  by unfold_locales (simp_all add: get_task_def put_task_def)

interpretation queries: store lq_id db_queries get_query put_query
  by unfold_locales (simp_all add: get_query_def put_query_def)

interpretation monitors: store mo_id db_monitors get_monitor put_monitor
  by unfold_locales (simp_all add: get_monitor_def put_monitor_def)

text \<open>Writing one table leaves the others.\<close>

lemma put_frames [simp]:
  "db_tasks (put_node n d) = db_tasks d" "db_plans (put_node n d) = db_plans d"
  "db_nodes (put_task t d) = db_nodes d" "db_plans (put_task t d) = db_plans d"
  "db_nodes (put_plan p d) = db_nodes d" "db_tasks (put_plan p d) = db_tasks d"
  "db_tasks (put_iface i d) = db_tasks d" "db_plans (put_iface i d) = db_plans d"
  "db_tasks (put_peer r d) = db_tasks d" "db_plans (put_peer r d) = db_plans d"
  "db_tasks (put_conn c d) = db_tasks d" "db_plans (put_conn c d) = db_plans d"
  "db_tasks (put_endpoint e d) = db_tasks d" "db_plans (put_endpoint e d) = db_plans d"
  "db_tasks (put_query q d) = db_tasks d" "db_plans (put_query q d) = db_plans d"
  "db_tasks (put_monitor m d) = db_tasks d" "db_plans (put_monitor m d) = db_plans d"
  "db_tasks (put_setting k v d) = db_tasks d" "db_tasks (del_setting k d) = db_tasks d"
  by (simp_all add: put_node_def put_task_def put_plan_def put_iface_def put_peer_def put_conn_def
      put_endpoint_def put_query_def put_monitor_def put_setting_def del_setting_def)

text \<open>Identities of the rows of a well-formed database are positive and unique.\<close>

definition db_wf :: "db \<Rightarrow> bool" where
  "db_wf d = (tb_wf nd_id (db_nodes d) \<and> tb_wf if_id (db_ifaces d) \<and> tb_wf pr_id (db_peers d) \<and>
     tb_wf co_id (db_conns d) \<and> tb_wf ep_id (db_endpoints d) \<and> tb_wf pl_id (db_plans d) \<and>
     tb_wf tk_id (db_tasks d) \<and> tb_wf lq_id (db_queries d) \<and> tb_wf mo_id (db_monitors d) \<and>
     tb_wf sa_id (db_samples d))"

end
