(* ===== verification/ConnTypes.thy ===== *)
theory ConnTypes
  imports Models "HOL-Library.List_Lexorder" "HOL-Library.Char_ord"
begin

text \<open>
  The task names of the two connection back ends with what an agent must offer to run a
  task (\<open>packages/link42_common/connection_types.py\<close>), and the controller's side of it: the
  version order, \<open>agent_satisfies_task\<close>, and the state an agent keeps up to date with every
  call it makes (\<open>update_agent_metadata\<close>, \<open>touch_node_heartbeat\<close>, \<open>require_agent\<close> of main.py).
\<close>

section \<open>Task names\<close>

record task_set =
  ts_import_scan :: "string option"
  ts_apply_config :: string
  ts_read_config :: string
  ts_status :: string
  ts_start :: string
  ts_stop :: string
  ts_delete_config :: string

definition wireguard_tasks :: task_set where
  "wireguard_tasks = \<lparr>
     ts_import_scan = Some ''wireguard.import_scan'',
     ts_apply_config = ''wireguard.apply_config'',
     ts_read_config = ''wireguard.read_config'',
     ts_status = ''wireguard.status'',
     ts_start = ''wireguard.start_interface'',
     ts_stop = ''wireguard.stop_interface'',
     ts_delete_config = ''wireguard.delete_config''\<rparr>"

definition gre_tasks :: task_set where
  "gre_tasks = \<lparr>
     ts_import_scan = None,
     ts_apply_config = ''gre.apply_config'',
     ts_read_config = ''gre.read_config'',
     ts_status = ''gre.status'',
     ts_start = ''gre.start_interface'',
     ts_stop = ''gre.stop_interface'',
     ts_delete_config = ''gre.delete_config''\<rparr>"

lemma wireguard_task_names [simp]:
  "ts_import_scan wireguard_tasks = Some ''wireguard.import_scan''"
  "ts_apply_config wireguard_tasks = ''wireguard.apply_config''"
  "ts_read_config wireguard_tasks = ''wireguard.read_config''"
  "ts_status wireguard_tasks = ''wireguard.status''"
  "ts_start wireguard_tasks = ''wireguard.start_interface''"
  "ts_stop wireguard_tasks = ''wireguard.stop_interface''"
  "ts_delete_config wireguard_tasks = ''wireguard.delete_config''"
  by (simp_all add: wireguard_tasks_def)

lemma gre_task_names [simp]:
  "ts_import_scan gre_tasks = None"
  "ts_apply_config gre_tasks = ''gre.apply_config''"
  "ts_read_config gre_tasks = ''gre.read_config''"
  "ts_status gre_tasks = ''gre.status''"
  "ts_start gre_tasks = ''gre.start_interface''"
  "ts_stop gre_tasks = ''gre.stop_interface''"
  "ts_delete_config gre_tasks = ''gre.delete_config''"
  by (simp_all add: gre_tasks_def)

record requirement =
  rq_min_agent_version :: string
  rq_capabilities :: "string list"

definition task_requirements :: "(string \<times> requirement) list" where
  "task_requirements = [
     (''wireguard.import_scan'', \<lparr>rq_min_agent_version = ''0.1.0'', rq_capabilities = [''wg_quick_import'']\<rparr>),
     (''wireguard.apply_config'', \<lparr>rq_min_agent_version = ''0.1.0'', rq_capabilities = [''wireguard'']\<rparr>),
     (''wireguard.read_config'', \<lparr>rq_min_agent_version = ''0.1.0'', rq_capabilities = [''wireguard'']\<rparr>),
     (''wireguard.status'', \<lparr>rq_min_agent_version = ''0.1.0'', rq_capabilities = [''wireguard'']\<rparr>),
     (''wireguard.start_interface'', \<lparr>rq_min_agent_version = ''0.1.0'', rq_capabilities = [''wireguard'']\<rparr>),
     (''wireguard.stop_interface'', \<lparr>rq_min_agent_version = ''0.1.0'', rq_capabilities = [''wireguard'']\<rparr>),
     (''wireguard.delete_config'', \<lparr>rq_min_agent_version = ''0.1.0'', rq_capabilities = [''wireguard'']\<rparr>),
     (''gre.apply_config'', \<lparr>rq_min_agent_version = ''0.6.0'', rq_capabilities = [''gre'']\<rparr>),
     (''gre.read_config'', \<lparr>rq_min_agent_version = ''0.6.0'', rq_capabilities = [''gre'']\<rparr>),
     (''gre.status'', \<lparr>rq_min_agent_version = ''0.6.0'', rq_capabilities = [''gre'']\<rparr>),
     (''gre.start_interface'', \<lparr>rq_min_agent_version = ''0.6.0'', rq_capabilities = [''gre'']\<rparr>),
     (''gre.stop_interface'', \<lparr>rq_min_agent_version = ''0.6.0'', rq_capabilities = [''gre'']\<rparr>),
     (''gre.delete_config'', \<lparr>rq_min_agent_version = ''0.6.0'', rq_capabilities = [''gre'']\<rparr>),
     (''middleware.install'', \<lparr>rq_min_agent_version = ''0.2.0'', rq_capabilities = [''middleware.install'']\<rparr>),
     (''middleware.udp2raw.apply'', \<lparr>rq_min_agent_version = ''0.2.0'', rq_capabilities = [''middleware.udp2raw'']\<rparr>),
     (''middleware.udp2raw.start'', \<lparr>rq_min_agent_version = ''0.2.0'', rq_capabilities = [''middleware.udp2raw'']\<rparr>),
     (''middleware.udp2raw.stop'', \<lparr>rq_min_agent_version = ''0.2.0'', rq_capabilities = [''middleware.udp2raw'']\<rparr>),
     (''middleware.udp2raw.delete'', \<lparr>rq_min_agent_version = ''0.2.0'', rq_capabilities = [''middleware.udp2raw'']\<rparr>),
     (''middleware.udp2raw.status'', \<lparr>rq_min_agent_version = ''0.2.0'', rq_capabilities = [''middleware.udp2raw'']\<rparr>),
     (''middleware.mimic.apply'', \<lparr>rq_min_agent_version = ''0.5.2'', rq_capabilities = [''middleware.mimic'']\<rparr>),
     (''middleware.mimic.start'', \<lparr>rq_min_agent_version = ''0.5.2'', rq_capabilities = [''middleware.mimic'']\<rparr>),
     (''middleware.mimic.stop'', \<lparr>rq_min_agent_version = ''0.5.2'', rq_capabilities = [''middleware.mimic'']\<rparr>),
     (''middleware.mimic.delete'', \<lparr>rq_min_agent_version = ''0.5.2'', rq_capabilities = [''middleware.mimic'']\<rparr>),
     (''middleware.mimic.status'', \<lparr>rq_min_agent_version = ''0.5.2'', rq_capabilities = [''middleware.mimic'']\<rparr>),
     (''node_plugin.bird.list'', \<lparr>rq_min_agent_version = ''0.5.8'', rq_capabilities = [''node_plugin.bird'']\<rparr>),
     (''node_plugin.bird.read'', \<lparr>rq_min_agent_version = ''0.5.8'', rq_capabilities = [''node_plugin.bird'']\<rparr>),
     (''node_plugin.bird.validate'', \<lparr>rq_min_agent_version = ''0.5.8'', rq_capabilities = [''node_plugin.bird'']\<rparr>),
     (''node_plugin.bird.apply'', \<lparr>rq_min_agent_version = ''0.5.9'', rq_capabilities = [''node_plugin.bird'']\<rparr>),
     (''node_plugin.bird.apply_many'', \<lparr>rq_min_agent_version = ''0.5.9'', rq_capabilities = [''node_plugin.bird'']\<rparr>),
     (''node_plugin.bird.status'', \<lparr>rq_min_agent_version = ''0.5.8'', rq_capabilities = [''node_plugin.bird'']\<rparr>),
     (''node_plugin.port_inventory.scan'', \<lparr>rq_min_agent_version = ''0.5.10'', rq_capabilities = [''node_plugin.port_inventory'']\<rparr>),
     (''looking_glass.bird.route_lookup'', \<lparr>rq_min_agent_version = ''0.6.0'', rq_capabilities = [''looking_glass.bird.route_lookup'']\<rparr>),
     (''looking_glass.bird.routes_by_origin_as'', \<lparr>rq_min_agent_version = ''0.6.6'', rq_capabilities = [''looking_glass.bird.routes_by_origin_as'']\<rparr>),
     (''looking_glass.bird.protocols'', \<lparr>rq_min_agent_version = ''0.6.6'', rq_capabilities = [''looking_glass.bird.protocols'']\<rparr>),
     (''looking_glass.bird.protocol_detail'', \<lparr>rq_min_agent_version = ''0.6.6'', rq_capabilities = [''looking_glass.bird.protocols'']\<rparr>),
     (''looking_glass.ping'', \<lparr>rq_min_agent_version = ''0.6.4'', rq_capabilities = [''looking_glass.ping'']\<rparr>),
     (''looking_glass.traceroute'', \<lparr>rq_min_agent_version = ''0.6.4'', rq_capabilities = [''looking_glass.traceroute'']\<rparr>),
     (''agent.self_upgrade'', \<lparr>rq_min_agent_version = ''0.2.0'', rq_capabilities = [''agent.self_upgrade'']\<rparr>)]"

definition connection_type_for_task :: "string \<Rightarrow> string option" where
  "connection_type_for_task task_type = (let prefix = takeWhile (\<lambda>c. c \<noteq> CHR ''.'') task_type in
     if prefix = ''wireguard'' then Some ''wireguard''
     else if prefix = ''gre'' then Some ''gre'' else None)"

section \<open>Versions\<close>

definition version_part :: "string \<Rightarrow> int" where
  "version_part s = (case py_int s of None \<Rightarrow> 0 | Some n \<Rightarrow> n)"

definition parse_version :: "string option \<Rightarrow> int \<times> int \<times> int" where
  "parse_version value = (case value of None \<Rightarrow> (0, 1, 0) | Some v \<Rightarrow>
     if v = [] then (0, 1, 0)
     else (case map version_part (take 3 (split_on (CHR ''.'') (takeWhile (\<lambda>c. c \<noteq> CHR ''-'') v))) of
         [a, b, c] \<Rightarrow> (a, b, c)
       | [a, b] \<Rightarrow> (a, b, 0)
       | [a] \<Rightarrow> (a, 0, 0)
       | _ \<Rightarrow> (0, 0, 0)))"

definition version_less :: "int \<times> int \<times> int \<Rightarrow> int \<times> int \<times> int \<Rightarrow> bool" where
  "version_less u v = (case (u, v) of ((a, b, c), (x, y, z)) \<Rightarrow>
     a < x \<or> (a = x \<and> (b < y \<or> (b = y \<and> c < z))))"

section \<open>What an agent can run\<close>

definition node_capabilities :: "node \<Rightarrow> string list" where
  "node_capabilities n = nd_agent_capabilities n @
     (if nd_agent_version n = None then [''wireguard'', ''wg_quick_import''] else [])"

definition agent_satisfies_task :: "node \<Rightarrow> string \<Rightarrow> bool" where
  "agent_satisfies_task n task_type = (case map_of task_requirements task_type of
      None \<Rightarrow> True
    | Some rq \<Rightarrow>
        \<not> version_less (parse_version (nd_agent_version n)) (parse_version (Some (rq_min_agent_version rq))) \<and>
        list_all (\<lambda>c. List.member (node_capabilities n) c) (rq_capabilities rq))"

definition require_task_supported :: "node \<Rightarrow> string \<Rightarrow> unit reply" where
  "require_task_supported n task_type =
     ensure (agent_satisfies_task n task_type) (HTTP 409 (''agent does not support task: '' @ task_type))"

definition node_uses_openwrt_uci :: "node option \<Rightarrow> bool" where
  "node_uses_openwrt_uci n = (case n of None \<Rightarrow> False | Some n \<Rightarrow>
     dget (json_object (nd_agent_platform n)) ''service_manager'' = JStr ''openwrt-uci'' \<or>
     List.member (nd_agent_capabilities n) ''service:openwrt-uci'')"

section \<open>Agent calls\<close>

text \<open>
  What every call of an agent carries. \<open>verify_token\<close> compares a token with a stored hash;
  it is a parameter here and below.
\<close>

record agent_call =
  ac_node_id :: int
  ac_token :: string
  ac_agent_version :: "string option"
  ac_protocol_version :: "int option"
  ac_capabilities :: "string list option"
  ac_platform :: "fields option"

definition require_agent :: "(string \<Rightarrow> string \<Rightarrow> bool) \<Rightarrow> int \<Rightarrow> string \<Rightarrow> db \<Rightarrow> node reply" where
  "require_agent verify_token node_id token d = (case get_node node_id d of
      None \<Rightarrow> Inl (HTTP 401 ''invalid agent credentials'')
    | Some n \<Rightarrow> if verify_token token (nd_agent_token_hash n) then Inr n
        else Inl (HTTP 401 ''invalid agent credentials''))"

definition is_node_online :: "int \<Rightarrow> time \<Rightarrow> node \<Rightarrow> bool" where
  "is_node_online offline_after now n = (case nd_last_seen_at n of None \<Rightarrow> False
     | Some seen \<Rightarrow> nd_status n = ''online'' \<and> now - seen \<le> seconds offline_after)"

definition refresh_node_runtime_status :: "int \<Rightarrow> time \<Rightarrow> node \<Rightarrow> node" where
  "refresh_node_runtime_status offline_after now n =
     (if nd_status n = ''online'' \<and> \<not> is_node_online offline_after now n
      then n\<lparr>nd_status := ''offline''\<rparr> else n)"

definition node_runtime_status :: "int \<Rightarrow> time \<Rightarrow> node \<Rightarrow> string" where
  "node_runtime_status offline_after now n =
     (if nd_status n = ''online'' \<and> \<not> is_node_online offline_after now n
      then ''offline'' else nd_status n)"

definition touch_node_heartbeat :: "time \<Rightarrow> node \<Rightarrow> node" where
  "touch_node_heartbeat now n = n\<lparr>nd_status := ''online'', nd_last_seen_at := Some now\<rparr>"

definition sorted_set :: "string list \<Rightarrow> string list" where
  "sorted_set xs = sort (remdups xs)"

definition update_agent_capabilities :: "string list option \<Rightarrow> node \<Rightarrow> node" where
  "update_agent_capabilities caps n = (case caps of None \<Rightarrow> n
     | Some cs \<Rightarrow> n\<lparr>nd_agent_capabilities := sorted_set cs,
         nd_middleware_install_status :=
           (if List.member cs ''middleware.mimic'' then Some ''mimic_ready''
            else if nd_middleware_install_status n = Some ''mimic_ready'' then None
            else nd_middleware_install_status n)\<rparr>)"

definition update_agent_platform :: "fields option \<Rightarrow> node \<Rightarrow> node" where
  "update_agent_platform platform n = (case platform of None \<Rightarrow> n
     | Some p \<Rightarrow> n\<lparr>nd_agent_platform := JObj
         (if List.member (nd_agent_capabilities n) ''middleware.mimic'' then ddel ''mimic_reboot_required'' p
          else if nd_middleware_install_status n = Some ''mimic_reboot_required''
            then dset ''mimic_reboot_required'' (JBool True) p
          else p)\<rparr>)"

definition update_settled :: "string option \<Rightarrow> bool" where
  "update_settled s = (s \<in> {None, Some ''queued'', Some ''staged'', Some ''restarting'',
     Some ''healthy'', Some ''failed'', Some ''rolled_back''})"

definition update_agent_metadata :: "agent_call \<Rightarrow> node \<Rightarrow> node" where
  "update_agent_metadata call n =
     (let previous = nd_agent_version n;
          n1 = (if the_or [] (ac_agent_version call) \<noteq> []
                then n\<lparr>nd_agent_version := ac_agent_version call\<rparr> else n);
          n2 = (if ac_protocol_version call \<noteq> None
                then n1\<lparr>nd_agent_protocol_version := ac_protocol_version call\<rparr> else n1);
          n3 = update_agent_platform (ac_platform call)
                 (update_agent_capabilities (ac_capabilities call) n2) in
      if update_settled (nd_agent_update_status n3) \<and>
         (the_or [] previous = [] \<or> previous \<noteq> ac_agent_version call \<or>
          nd_agent_update_status n3 \<in> {None, Some ''healthy''})
      then n3\<lparr>nd_agent_update_status := Some ''ok'', nd_agent_last_error := None\<rparr>
      else n3)"

text \<open>The three calls' common prelude: identify, record the metadata, mark online.\<close>

definition agent_seen :: "(string \<Rightarrow> string \<Rightarrow> bool) \<Rightarrow> time \<Rightarrow> agent_call \<Rightarrow> db \<Rightarrow> (node \<times> db) reply" where
  "agent_seen verify_token now call d =
     rbind (require_agent verify_token (ac_node_id call) (ac_token call) d) (\<lambda>n.
       let n' = touch_node_heartbeat now (update_agent_metadata call n) in Inr (n', put_node n' d))"

definition agent_heartbeat :: "(string \<Rightarrow> string \<Rightarrow> bool) \<Rightarrow> time \<Rightarrow> agent_call \<Rightarrow> db \<Rightarrow> (string \<times> db) reply" where
  "agent_heartbeat verify_token now call d =
     rbind (agent_seen verify_token now call d) (\<lambda>(n, d'). Inr (''ok'', d'))"

record agent_register_call = agent_call +
  ac_hostname :: "string option"
  ac_management_ip :: "string option"
  ac_public_ip :: "string option"

definition or_text :: "string option \<Rightarrow> string option \<Rightarrow> string option" where
  "or_text x y = (if the_or [] x \<noteq> [] then x else y)"

definition agent_register ::
  "(string \<Rightarrow> string \<Rightarrow> bool) \<Rightarrow> time \<Rightarrow> agent_register_call \<Rightarrow> db \<Rightarrow> (string \<times> db) reply" where
  "agent_register verify_token now call d =
     rbind (require_agent verify_token (ac_node_id call) (ac_token call) d) (\<lambda>n.
       let n1 = n\<lparr>nd_hostname := or_text (ac_hostname call) (nd_hostname n),
                  nd_management_ip := or_text (ac_management_ip call) (nd_management_ip n),
                  nd_public_ip := or_text (ac_public_ip call) (nd_public_ip n)\<rparr>;
           n2 = touch_node_heartbeat now (update_agent_metadata (agent_call.truncate call) n1) in
       Inr (''registered'', put_node n2 d))"

section \<open>Facts\<close>

lemma require_agent_Inr [res_simps]:
  "require_agent v k t d = Inr n \<longleftrightarrow> get_node k d = Some n \<and> v t (nd_agent_token_hash n)"
  by (auto simp: require_agent_def split: option.splits)

lemma update_agent_parts [simp]:
  "nd_id (update_agent_platform x n) = nd_id n" "nd_agent_token_hash (update_agent_platform x n) = nd_agent_token_hash n"
  "nd_agent_capabilities (update_agent_platform x n) = nd_agent_capabilities n"
  "nd_id (update_agent_capabilities cs n) = nd_id n" "nd_agent_token_hash (update_agent_capabilities cs n) = nd_agent_token_hash n"
  "nd_agent_capabilities (update_agent_capabilities cs n) = (case cs of None \<Rightarrow> nd_agent_capabilities n | Some xs \<Rightarrow> sorted_set xs)"
  by (simp_all add: update_agent_platform_def update_agent_capabilities_def split: option.split)

lemma update_agent_metadata_id [simp]:
  "nd_id (update_agent_metadata call n) = nd_id n"
  "nd_agent_token_hash (update_agent_metadata call n) = nd_agent_token_hash n"
  by (simp_all add: update_agent_metadata_def Let_def)

lemma touch_node_heartbeat_simps [simp]:
  "nd_id (touch_node_heartbeat now n) = nd_id n"
  "nd_status (touch_node_heartbeat now n) = ''online''"
  "nd_last_seen_at (touch_node_heartbeat now n) = Some now"
  "nd_agent_capabilities (touch_node_heartbeat now n) = nd_agent_capabilities n"
  "nd_agent_version (touch_node_heartbeat now n) = nd_agent_version n"
  by (simp_all add: touch_node_heartbeat_def)

lemma agent_seen_Inr:
  assumes "agent_seen v now call d = Inr (n', d')"
  shows "\<exists>n. get_node (ac_node_id call) d = Some n \<and> v (ac_token call) (nd_agent_token_hash n) \<and>
     n' = touch_node_heartbeat now (update_agent_metadata call n) \<and> d' = put_node n' d \<and>
     nd_id n' = ac_node_id call"
  using assms by (auto simp: agent_seen_def res_simps Let_def dest: nodes.get_key)

lemma update_agent_capabilities_kept:
  "nd_agent_capabilities (update_agent_metadata call n) =
    (case ac_capabilities call of None \<Rightarrow> nd_agent_capabilities n | Some cs \<Rightarrow> sorted_set cs)"
  by (cases "ac_capabilities call") (simp_all add: update_agent_metadata_def Let_def)

lemma set_sorted_set [simp]: "set (sorted_set xs) = set xs"
  by (simp add: sorted_set_def)

lemma version_less_irrefl [simp]: "\<not> version_less v v"
  by (auto simp: version_less_def split: prod.splits)

lemma version_less_trans:
  "version_less u v \<Longrightarrow> version_less v w \<Longrightarrow> version_less u w"
  by (auto simp: version_less_def split: prod.splits)

end
