(* ===== verification/TaskEngine.thy ===== *)
theory TaskEngine
  imports ConnTypes "HOL-Library.Product_Lexorder"
begin

text \<open>
  The life of an agent task inside the controller (main.py): the recovery of tasks whose
  agent went silent or whose deadline passed, the readiness of a task that depends on
  another, the aggregation of task states into the state of a change plan, and the poll by
  which an agent claims its next tasks. The order \<open>task_evolves\<close> says which changes of a task
  are legal at all.
\<close>

section \<open>Legal changes of a task\<close>

text \<open>pending, then running, then one of three final states, which are never left.\<close>

fun status_le :: "task_status \<Rightarrow> task_status \<Rightarrow> bool" where
  "status_le Pending t = True"
| "status_le Running t = (t \<noteq> Pending)"
| "status_le s t = (s = t)"

definition terminal :: "task_status \<Rightarrow> bool" where
  "terminal s = (s = Succeeded \<or> s = Failed \<or> s = Cancelled)"

definition task_evolves :: "task \<Rightarrow> task \<Rightarrow> bool" where
  "task_evolves t u = (tk_id u = tk_id t \<and> tk_node_id u = tk_node_id t \<and> tk_type u = tk_type t \<and>
     tk_change_plan_id u = tk_change_plan_id t \<and> status_le (tk_status t) (tk_status u) \<and>
     (tk_status t \<noteq> Pending \<longrightarrow> tk_payload u = tk_payload t) \<and>
     (terminal (tk_status t) \<longrightarrow> tk_result u = tk_result t))"

definition tasks_evolve :: "db \<Rightarrow> db \<Rightarrow> bool" where
  "tasks_evolve d d' = (\<forall>k t. get_task k d = Some t \<longrightarrow> (\<exists>u. get_task k d' = Some u \<and> task_evolves t u))"

lemma status_le_refl [simp]: "status_le s s"
  by (cases s) auto

lemma status_le_trans: "status_le s t \<Longrightarrow> status_le t u \<Longrightarrow> status_le s u"
  by (cases s; cases t; cases u) auto

lemma status_le_terminal: "terminal s \<Longrightarrow> status_le s t \<longleftrightarrow> t = s"
  by (cases s) (auto simp: terminal_def)

lemma terminal_simps [simp]:
  "terminal Succeeded" "terminal Failed" "terminal Cancelled" "\<not> terminal Pending" "\<not> terminal Running"
  by (simp_all add: terminal_def)

lemma task_evolves_refl [simp]: "task_evolves t t"
  by (simp add: task_evolves_def)

lemma task_evolves_trans: "task_evolves t u \<Longrightarrow> task_evolves u v \<Longrightarrow> task_evolves t v"
  by (cases "tk_status t"; cases "tk_status u") (auto simp: task_evolves_def)

lemma tasks_evolve_refl [simp]: "tasks_evolve d d"
  by (simp add: tasks_evolve_def)

lemma tasks_evolve_trans: "tasks_evolve d e \<Longrightarrow> tasks_evolve e f \<Longrightarrow> tasks_evolve d f"
  unfolding tasks_evolve_def using task_evolves_trans by blast

lemma tasks_evolve_same: "db_tasks d' = db_tasks d \<Longrightarrow> tasks_evolve d d'"
  by (simp add: tasks_evolve_def get_task_def)

lemma tasks_evolve_put:
  assumes "get_task k d = Some t0" "task_evolves t0 t"
  shows "tasks_evolve d (put_task t d)"
proof -
  have k: "tk_id t = k" using assms tasks.get_key by (auto simp: task_evolves_def)
  show ?thesis
    unfolding tasks_evolve_def
  proof (intro allI impI)
    fix j u assume "get_task j d = Some u"
    then show "\<exists>v. get_task j (put_task t d) = Some v \<and> task_evolves u v"
      using assms k by (cases "j = k") (auto simp: tasks.get_put)
  qed
qed

definition tasks_wf :: "db \<Rightarrow> bool" where
  "tasks_wf d = tb_wf tk_id (db_tasks d)"

lemma tasks_wf_put [table_intros]: "tasks_wf d \<Longrightarrow> tasks_wf (put_task t d)"
  by (simp add: tasks_wf_def put_task_def tb_wf_put)

lemma tasks_wf_same: "db_tasks d' = db_tasks d \<Longrightarrow> tasks_wf d' = tasks_wf d"
  by (simp add: tasks_wf_def)

text \<open>
  An operation that only lets tasks evolve: the contract every controller operation on tasks
  meets. Sequences of such operations meet it, and a final state survives them.
\<close>

locale task_op =
  fixes run :: "db \<Rightarrow> db"
  assumes run_wf: "tasks_wf d \<Longrightarrow> tasks_wf (run d)"
    and run_evolves: "tasks_wf d \<Longrightarrow> tasks_evolve d (run d)"
begin

lemma final_kept:
  assumes "tasks_wf d" "get_task k d = Some t" "terminal (tk_status t)"
  shows "\<exists>u. get_task k (run d) = Some u \<and> tk_status u = tk_status t \<and> tk_result u = tk_result t"
  using run_evolves [of d] assms
  by (force simp: tasks_evolve_def task_evolves_def status_le_terminal)

lemma no_task_lost: "tasks_wf d \<Longrightarrow> get_task k d \<noteq> None \<Longrightarrow> get_task k (run d) \<noteq> None"
  using run_evolves [of d] by (force simp: tasks_evolve_def)

lemma not_restarted:
  assumes "tasks_wf d" "get_task k d = Some t" "tk_status t \<noteq> Pending" "get_task k (run d) = Some u"
  shows "tk_status u \<noteq> Pending"
  using run_evolves [of d] assms
  by (cases "tk_status t") (force simp: tasks_evolve_def task_evolves_def)+

lemma iterated: "tasks_wf d \<Longrightarrow> tasks_wf ((run ^^ n) d) \<and> tasks_evolve d ((run ^^ n) d)"
proof (induction n)
  case (Suc n)
  then show ?case
    using run_wf [of "(run ^^ n) d"] run_evolves [of "(run ^^ n) d"] tasks_evolve_trans by simp blast
qed simp

end

section \<open>Plans\<close>

definition tasks_by_id :: "task list \<Rightarrow> task list" where
  "tasks_by_id ts = sort_key tk_id ts"

definition plan_tasks :: "int \<Rightarrow> db \<Rightarrow> task list" where
  "plan_tasks k d = tasks_by_id (filter (\<lambda>t. tk_change_plan_id t = Some k) (db_tasks d))"

definition aggregate_status :: "task list \<Rightarrow> plan_status \<Rightarrow> plan_status" where
  "aggregate_status ts s =
     (if list_ex (\<lambda>t. tk_status t \<in> {Failed, Cancelled}) ts then PFailed
      else if ts \<noteq> [] \<and> list_all (\<lambda>t. tk_status t = Succeeded) ts then PSucceeded
      else if s \<noteq> PFailed then PConfirmed else s)"

definition update_change_plan_task_status :: "plan \<Rightarrow> db \<Rightarrow> db" where
  "update_change_plan_task_status p d =
     put_plan (p\<lparr>pl_status := aggregate_status (plan_tasks (pl_id p) d) (pl_status p)\<rparr>) d"

text \<open>\<open>plan = db.get(ChangePlan, id); if plan is not None: update(plan)\<close>\<close>

definition refresh_plan :: "int \<Rightarrow> db \<Rightarrow> db" where
  "refresh_plan k d = (case get_plan k d of None \<Rightarrow> d | Some p \<Rightarrow> update_change_plan_task_status p d)"

definition refresh_plan_opt :: "int option \<Rightarrow> db \<Rightarrow> db" where
  "refresh_plan_opt k d = (case k of None \<Rightarrow> d | Some k \<Rightarrow> refresh_plan k d)"

definition refresh_plans :: "int list \<Rightarrow> db \<Rightarrow> db" where
  "refresh_plans ks d = fold refresh_plan ks d"

text \<open>The task a plan shows: the first failed, cancelled, running or pending one, else the last.\<close>

definition status_task :: "task list \<Rightarrow> task option" where
  "status_task ts = (if ts = [] then None else
     case concat (map (\<lambda>s. filter (\<lambda>t. tk_status t = s) ts) [Failed, Cancelled, Running, Pending]) of
       t # _ \<Rightarrow> Some t | [] \<Rightarrow> Some (last ts))"

section \<open>Recovery\<close>

definition fail_task :: "time \<Rightarrow> json \<Rightarrow> task \<Rightarrow> task" where
  "fail_task now result t =
     t\<lparr>tk_status := Failed, tk_finished_at := Some now, tk_result := Some result\<rparr>"

definition agent_task_running_timeout :: time where
  "agent_task_running_timeout = seconds 7200"

definition timed_out_result :: json where
  "timed_out_result = JObj [(''error'', JStr ''agent task timed out after 7200 seconds''),
     (''timeout_seconds'', JInt 7200)]"

definition overdue_result :: "task \<Rightarrow> json" where
  "overdue_result t = JObj
     [(''error_code'', JStr (if tk_queue t = ''query'' then ''query_timeout'' else ''task_timeout'')),
      (''error'', JStr ''task deadline expired before agent polling'')]"

text \<open>
  One conditional update: the row is changed only if it still has the state it was selected
  for. The accumulator holds the number of rows changed and the plans they belong to.
\<close>

type_synonym recovery = "db \<times> int \<times> int list"

definition close_task :: "(task \<Rightarrow> bool) \<Rightarrow> (task \<Rightarrow> task) \<Rightarrow> task \<Rightarrow> recovery \<Rightarrow> recovery" where
  "close_task still close t acc = (case acc of (d, count, plans) \<Rightarrow>
     (case get_task (tk_id t) d of
        None \<Rightarrow> acc
      | Some u \<Rightarrow> if still u
          then (put_task (close u) d, count + 1,
            (case tk_change_plan_id u of None \<Rightarrow> plans | Some p \<Rightarrow> List.insert p plans))
          else acc))"

text \<open>Select, close one by one in the order of the ids, then refresh the plans concerned.\<close>

definition close_tasks :: "(task \<Rightarrow> bool) \<Rightarrow> (task \<Rightarrow> bool) \<Rightarrow> (task \<Rightarrow> task) \<Rightarrow> db \<Rightarrow> int \<times> db" where
  "close_tasks selected still close d =
     (case fold (close_task still close) (tasks_by_id (filter selected (db_tasks d))) (d, 0, []) of
        (d1, count, plans) \<Rightarrow> (count, refresh_plans plans d1))"

definition for_node :: "int option \<Rightarrow> task \<Rightarrow> bool" where
  "for_node node_id t = (case node_id of None \<Rightarrow> True | Some n \<Rightarrow> tk_node_id t = n)"

definition stale_running :: "time \<Rightarrow> task \<Rightarrow> bool" where
  "stale_running now t = (tk_status t = Running \<and>
     (case tk_started_at t of None \<Rightarrow> False | Some s \<Rightarrow> s < now - agent_task_running_timeout))"

definition expire_stale_running_agent_tasks :: "int option \<Rightarrow> time \<Rightarrow> db \<Rightarrow> int \<times> db" where
  "expire_stale_running_agent_tasks node_id now d =
     close_tasks (\<lambda>t. stale_running now t \<and> for_node node_id t) (\<lambda>u. tk_status u = Running)
       (fail_task now timed_out_result) d"

definition overdue_pending :: "time \<Rightarrow> task \<Rightarrow> bool" where
  "overdue_pending now t = (tk_status t = Pending \<and>
     (case tk_deadline_at t of None \<Rightarrow> False | Some s \<Rightarrow> s \<le> now))"

definition expire_overdue_pending_agent_tasks :: "int option \<Rightarrow> time \<Rightarrow> db \<Rightarrow> int \<times> db" where
  "expire_overdue_pending_agent_tasks node_id now d =
     close_tasks (\<lambda>t. overdue_pending now t \<and> for_node node_id t) (overdue_pending now)
       (\<lambda>u. fail_task now (overdue_result u) u) d"

section \<open>Dependencies\<close>

text \<open>
  \<open>int(raw_value)\<close> on a JSON value, \<open>None\<close> standing for the exceptions the callers catch. A
  float below 1 in magnitude or with a fixed-point \<open>repr\<close> is truncated; larger ones, whose
  text has an exponent, are out of the range of row identities and are not converted.
\<close>

definition json_int :: "json \<Rightarrow> int option" where
  "json_int v = (case v of
      JInt n \<Rightarrow> Some n
    | JBool b \<Rightarrow> Some (if b then 1 else 0)
    | JStr s \<Rightarrow> py_int s
    | JFloat t \<Rightarrow> if \<not> float_finite t \<or> has_sub ''e+'' t then None
        else if CHR ''e'' \<in> set t then Some 0
        else py_int (takeWhile (\<lambda>c. c \<noteq> CHR ''.'') t)
    | _ \<Rightarrow> None)"

definition payload_of :: "task \<Rightarrow> fields" where
  "payload_of t = json_object (tk_payload t)"

definition task_dependency_id :: "task \<Rightarrow> int option" where
  "task_dependency_id t = (let raw = dget (payload_of t) ''depends_on_task_id'' in
     if raw = JNull \<or> raw = JStr [] then None
     else case json_int raw of None \<Rightarrow> None | Some k \<Rightarrow> if 0 < k then Some k else None)"

definition max_agent_task_dependency_depth :: nat where
  "max_agent_task_dependency_depth = 64"

definition dependency_error :: "string \<Rightarrow> int \<Rightarrow> json" where
  "dependency_error msg dep = JObj [(''error'', JStr msg), (''dependency_task_id'', JInt dep)]"

definition not_found_text :: "int \<Rightarrow> string" where
  "not_found_text k = ''dependency task '' @ show_int k @ '' was not found''"

definition other_node_text :: "int \<Rightarrow> string" where
  "other_node_text k = ''dependency task '' @ show_int k @ '' belongs to another node''"

text \<open>
  The walk along the chain of dependencies: at most 64 tasks, each of the same node and none
  met before. \<open>None\<close> is a sound chain, \<open>Some\<close> the failure recorded with the task.
\<close>

fun walk_dependencies :: "nat \<Rightarrow> db \<Rightarrow> task \<Rightarrow> int \<Rightarrow> int list \<Rightarrow> task \<Rightarrow> json option" where
  "walk_dependencies 0 d t dep seen cursor =
     Some (dependency_error ''agent task dependency chain is too deep'' dep)"
| "walk_dependencies (Suc n) d t dep seen cursor =
     (if tk_id cursor \<in> set seen
      then Some (dependency_error ''agent task dependency cycle detected'' dep)
      else case task_dependency_id cursor of
        None \<Rightarrow> None
      | Some k \<Rightarrow> (case get_task k d of
          None \<Rightarrow> Some (dependency_error (not_found_text k) dep)
        | Some c \<Rightarrow>
            if tk_node_id c \<noteq> tk_node_id t then Some (dependency_error (other_node_text k) dep)
            else walk_dependencies n d t dep (tk_id cursor # seen) c))"

definition status_text :: "task_status \<Rightarrow> string" where
  "status_text s = (case s of Pending \<Rightarrow> ''pending'' | Running \<Rightarrow> ''running''
     | Succeeded \<Rightarrow> ''succeeded'' | Failed \<Rightarrow> ''failed'' | Cancelled \<Rightarrow> ''cancelled'')"

definition continue_after_failure :: "task \<Rightarrow> bool" where
  "continue_after_failure t =
     (tk_type t \<in> {ts_stop wireguard_tasks, ts_stop gre_tasks, ''middleware.udp2raw.delete'', ''middleware.mimic.delete''} \<and>
      dget (payload_of t) ''continue_after_dependency_failure'' = JBool True)"

definition dependency_failed_result :: "task \<Rightarrow> int \<Rightarrow> json" where
  "dependency_failed_result u dep = JObj
     [(''error'', JStr (''dependency task '' @ show_int dep @ '' ended with status '' @ status_text (tk_status u))),
      (''dependency_task_id'', JInt dep),
      (''dependency_status'', JStr (status_text (tk_status u))),
      (''dependency_result'', the_or JNull (tk_result u))]"

datatype readiness = Ready | Waiting | Broken json

definition dependency_readiness :: "db \<Rightarrow> task \<Rightarrow> readiness" where
  "dependency_readiness d t = (case task_dependency_id t of
      None \<Rightarrow> Ready
    | Some dep \<Rightarrow> (case get_task dep d of
        None \<Rightarrow> Broken (dependency_error (not_found_text dep) dep)
      | Some u \<Rightarrow>
          if tk_node_id u \<noteq> tk_node_id t then Broken (dependency_error (other_node_text dep) dep)
          else (case walk_dependencies max_agent_task_dependency_depth d t dep [tk_id t] u of
              Some e \<Rightarrow> Broken e
            | None \<Rightarrow>
                if tk_status u = Succeeded \<or> (continue_after_failure t \<and> tk_status u \<in> {Failed, Cancelled})
                then Ready
                else if tk_status u \<in> {Failed, Cancelled} then Broken (dependency_failed_result u dep)
                else Waiting)))"

definition is_task_ready_for_poll :: "time \<Rightarrow> task \<Rightarrow> db \<Rightarrow> bool \<times> db" where
  "is_task_ready_for_poll now t d = (case dependency_readiness d t of
      Ready \<Rightarrow> (True, d)
    | Waiting \<Rightarrow> (False, d)
    | Broken r \<Rightarrow> (False, refresh_plan_opt (tk_change_plan_id t) (put_task (fail_task now r t) d)))"

section \<open>Poll\<close>

definition agent_task_poll_batch_size :: nat where "agent_task_poll_batch_size = 5"
definition agent_task_poll_scan_limit :: nat where "agent_task_poll_scan_limit = 50"
definition max_agent_task_payload_bytes :: int where "max_agent_task_payload_bytes = 2 * 1024 * 1024"

definition is_object :: "json \<Rightarrow> bool" where
  "is_object v = (case v of JObj _ \<Rightarrow> True | _ \<Rightarrow> False)"

definition poll_order :: "task \<Rightarrow> bool \<times> int \<times> int" where
  "poll_order t = (tk_queue t = ''query'', tk_priority t, tk_id t)"

definition poll_candidates :: "int \<Rightarrow> db \<Rightarrow> task list" where
  "poll_candidates node_id d = take agent_task_poll_scan_limit
     (sort_key poll_order (filter (\<lambda>t. tk_node_id t = node_id \<and> tk_status t = Pending) (db_tasks d)))"

definition oversize_result :: json where
  "oversize_result = JObj [(''error'', JStr ''agent task payload exceeds response size limit''),
     (''max_bytes'', JInt max_agent_task_payload_bytes)]"

definition claim_task :: "time \<Rightarrow> task \<Rightarrow> task" where
  "claim_task now t = t\<lparr>tk_status := Running, tk_started_at := Some now\<rparr>"

datatype verdict = Skip | Reject json | Claim

text \<open>The checks of one candidate, in the order of the loop body; \<open>snd\<close> is the database
  after the dependency check.\<close>

definition poll_check :: "node \<Rightarrow> time \<Rightarrow> task \<Rightarrow> db \<Rightarrow> verdict \<times> db" where
  "poll_check n now t d =
     (if \<not> agent_satisfies_task n (tk_type t) then (Skip, d)
      else if \<not> is_object (tk_payload t)
        then (Reject (JObj [(''error'', JStr ''agent task payload must be an object'')]), d)
      else (case is_task_ready_for_poll now t d of (ready, d1) \<Rightarrow>
        if \<not> ready then (Skip, d1)
        else if max_agent_task_payload_bytes < dump_length (tk_payload t) then (Reject oversize_result, d1)
        else (Claim, d1)))"

text \<open>One turn of the loop: the claimed tasks so far, the plans to refresh, the database. The
  candidate is read again through its identity, as the session does, and a claim changes the
  row only if it is still pending.\<close>

type_synonym poll_state = "task list \<times> int list \<times> db"

definition poll_step :: "node \<Rightarrow> time \<Rightarrow> int \<Rightarrow> poll_state \<Rightarrow> poll_state" where
  "poll_step n now k acc = (case acc of (claimed, plans, d) \<Rightarrow>
     (case get_task k d of None \<Rightarrow> acc
      | Some t \<Rightarrow> (case poll_check n now t d of
          (Skip, d1) \<Rightarrow> (claimed, plans, d1)
        | (Reject r, d1) \<Rightarrow> (claimed,
             (case tk_change_plan_id t of None \<Rightarrow> plans | Some p \<Rightarrow> List.insert p plans),
             put_task (fail_task now r t) d1)
        | (Claim, d1) \<Rightarrow>
            if tk_status t = Pending
            then (claimed @ [claim_task now t], plans, put_task (claim_task now t) d1)
            else (claimed, plans, d1))))"

fun poll_loop :: "node \<Rightarrow> time \<Rightarrow> int list \<Rightarrow> poll_state \<Rightarrow> poll_state" where
  "poll_loop n now [] acc = acc"
| "poll_loop n now (k # ks) acc =
     (let acc' = poll_step n now k acc in
      if agent_task_poll_batch_size \<le> length (fst acc') then acc' else poll_loop n now ks acc')"

definition agent_poll :: "(string \<Rightarrow> string \<Rightarrow> bool) \<Rightarrow> time \<Rightarrow> agent_call \<Rightarrow> db \<Rightarrow> (task list \<times> db) reply" where
  "agent_poll verify_token now call d =
     rbind (agent_seen verify_token now call d) (\<lambda>(n, d1).
       let d2 = snd (expire_stale_running_agent_tasks (Some (ac_node_id call)) now d1);
           d3 = snd (expire_overdue_pending_agent_tasks (Some (ac_node_id call)) now d2);
           (claimed, plans, d4) = poll_loop n now (map tk_id (poll_candidates (ac_node_id call) d3)) ([], [], d3) in
       Inr (claimed, refresh_plans plans d4))"

end
