(* ===== verification/Samples.thy ===== *)
theory Samples
  imports TaskEngine
begin

text \<open>
  Small concrete rows and databases on which the properties are applied: two online nodes and
  a few tasks of one of them, the second waiting for the first.
\<close>

definition sample_node :: "int \<Rightarrow> node" where
  "sample_node k = \<lparr>nd_id = k, nd_name = ''n'', nd_hostname = None, nd_region = None,
     nd_management_ip = None, nd_public_ip = None, nd_endpoint_ips = JList [],
     nd_topology_endpoint = None, nd_github_proxy_url = None, nd_status = ''online'',
     nd_agent_token_hash = ''h'', nd_agent_version = Some ''9.0.0'', nd_agent_protocol_version = Some 9,
     nd_agent_capabilities = [''gre'', ''gre.ipv6.encaplimit'', ''wireguard'', ''wg_quick_import''],
     nd_agent_platform = JObj [], nd_agent_update_status = None, nd_agent_last_error = None,
     nd_middleware_install_status = None, nd_last_seen_at = Some 0\<rparr>"

definition sample_task :: "int \<Rightarrow> string \<Rightarrow> fields \<Rightarrow> task_status \<Rightarrow> task" where
  "sample_task k ty p s = \<lparr>tk_id = k, tk_node_id = 1, tk_change_plan_id = None, tk_type = ty,
     tk_payload = JObj p, tk_queue = ''change'', tk_priority = 100, tk_status = s,
     tk_result = None, tk_started_at = None, tk_finished_at = None, tk_deadline_at = None,
     tk_dedup_key = None\<rparr>"

definition sample_call :: agent_call where
  "sample_call = \<lparr>ac_node_id = 1, ac_token = ''t'', ac_agent_version = Some ''9.0.0'',
     ac_protocol_version = Some 9, ac_capabilities = None, ac_platform = None\<rparr>"

definition sample_db :: "task list \<Rightarrow> db" where
  "sample_db ts = empty_db\<lparr>db_nodes := [sample_node 1, sample_node 2], db_tasks := ts\<rparr>"

definition chain_db :: db where
  "chain_db = sample_db [
     sample_task 1 ''wireguard.apply_config'' [(''interface_id'', JInt 1)] Succeeded,
     sample_task 2 ''wireguard.start_interface'' [(''depends_on_task_id'', JInt 1)] Pending,
     sample_task 3 ''wireguard.status'' [(''depends_on_task_id'', JInt 2)] Pending]"

text \<open>The answer of a successful call.\<close>

definition ok_value :: "('e, 'a) result \<Rightarrow> 'a" where
  "ok_value r = projr r"

lemma ok_value_Inr: "is_ok r \<Longrightarrow> r = Inr (ok_value r)"
  by (cases r) (auto simp: ok_value_def is_ok_def)

definition sample_poll :: "db \<Rightarrow> task list \<times> db" where
  "sample_poll d = ok_value (agent_poll (\<lambda>_ _. True) 5 sample_call d)"

end
