(* ===== verification/TaskLaws.thy ===== *)
theory TaskLaws
  imports Samples
begin

text \<open>
  The laws of the task engine: recovery and poll are operations under which tasks evolve
  legally; a poll hands out only tasks it may hand out; a failed task shows in its plan; a
  dependency cycle is broken instead of waited for.
\<close>

section \<open>Plans leave tasks alone\<close>

lemma refresh_plan_tasks [simp]: "db_tasks (refresh_plan k d) = db_tasks d"
  by (simp add: refresh_plan_def update_change_plan_task_status_def split: option.splits)

lemma refresh_plan_opt_tasks [simp]: "db_tasks (refresh_plan_opt k d) = db_tasks d"
  by (simp add: refresh_plan_opt_def split: option.splits)

lemma refresh_plans_tasks [simp]: "db_tasks (refresh_plans ks d) = db_tasks d"
  unfolding refresh_plans_def by (induction ks arbitrary: d) auto

lemma get_task_same: "db_tasks d' = db_tasks d \<Longrightarrow> get_task k d' = get_task k d"
  by (simp add: get_task_def)

lemma get_task_refresh [simp]:
  "get_task k (refresh_plan j d) = get_task k d"
  "get_task k (refresh_plan_opt jo d) = get_task k d"
  "get_task k (refresh_plans js d) = get_task k d"
  by (simp_all add: get_task_def)

lemma tasks_wf_refresh [simp]:
  "tasks_wf (refresh_plan j d) = tasks_wf d"
  "tasks_wf (refresh_plan_opt jo d) = tasks_wf d"
  "tasks_wf (refresh_plans js d) = tasks_wf d"
  by (simp_all add: tasks_wf_def)

lemma tasks_evolve_refresh [simp]:
  "tasks_evolve d (refresh_plan j e) = tasks_evolve d e"
  "tasks_evolve d (refresh_plan_opt jo e) = tasks_evolve d e"
  "tasks_evolve d (refresh_plans js e) = tasks_evolve d e"
  by (simp_all add: tasks_evolve_def)

lemma get_task_put_node [simp]: "get_task k (put_node n d) = get_task k d"
  by (simp add: get_task_def)

section \<open>Recovery\<close>

lemma fail_task_simps [simp]:
  "tk_id (fail_task now r t) = tk_id t" "tk_node_id (fail_task now r t) = tk_node_id t"
  "tk_type (fail_task now r t) = tk_type t" "tk_payload (fail_task now r t) = tk_payload t"
  "tk_status (fail_task now r t) = Failed" "tk_result (fail_task now r t) = Some r"
  "tk_change_plan_id (fail_task now r t) = tk_change_plan_id t"
  "tk_dedup_key (fail_task now r t) = tk_dedup_key t"
  by (simp_all add: fail_task_def)

lemma fail_task_evolves: "\<not> terminal (tk_status t) \<Longrightarrow> task_evolves t (fail_task now r t)"
  by (cases "tk_status t") (auto simp: task_evolves_def)

lemma close_fold:
  assumes still: "\<And>u. still u \<Longrightarrow> task_evolves u (close u)"
    and "fold (close_task still close) ts (d, c, ps) = (d', c', ps')" "tasks_wf d"
  shows "tasks_wf d' \<and> tasks_evolve d d' \<and> map tk_id (db_tasks d') = map tk_id (db_tasks d)"
  using assms(2,3)
proof (induction ts arbitrary: d c ps)
  case (Cons t ts)
  obtain d1 c1 ps1 where s: "close_task still close t (d, c, ps) = (d1, c1, ps1)"
    by (metis prod_cases3)
  have "tasks_wf d1 \<and> tasks_evolve d d1 \<and> map tk_id (db_tasks d1) = map tk_id (db_tasks d)"
    using s Cons.prems(2) still
    by (auto simp: close_task_def tasks.keys_put split: option.splits if_splits
        intro!: tasks_wf_put elim!: tasks_evolve_put)
  then show ?case
    using Cons.IH [of d1 c1 ps1] Cons.prems(1) s tasks_evolve_trans by (auto simp: s)
qed simp

lemma close_tasks_laws:
  assumes "\<And>u. still u \<Longrightarrow> task_evolves u (close u)" "tasks_wf d"
  shows "tasks_wf (snd (close_tasks selected still close d)) \<and>
    tasks_evolve d (snd (close_tasks selected still close d)) \<and>
    map tk_id (db_tasks (snd (close_tasks selected still close d))) = map tk_id (db_tasks d)"
  using close_fold [where still = still and close = close, OF assms(1) _ assms(2)]
  by (simp add: close_tasks_def split: prod.splits)

lemma expire_stale_evolves:
  assumes "tasks_wf d"
  shows "tasks_wf (snd (expire_stale_running_agent_tasks n now d)) \<and>
    tasks_evolve d (snd (expire_stale_running_agent_tasks n now d)) \<and>
    map tk_id (db_tasks (snd (expire_stale_running_agent_tasks n now d))) = map tk_id (db_tasks d)"
  unfolding expire_stale_running_agent_tasks_def
  by (rule close_tasks_laws [OF _ assms]) (simp add: fail_task_evolves)

lemma expire_overdue_evolves:
  assumes "tasks_wf d"
  shows "tasks_wf (snd (expire_overdue_pending_agent_tasks n now d)) \<and>
    tasks_evolve d (snd (expire_overdue_pending_agent_tasks n now d)) \<and>
    map tk_id (db_tasks (snd (expire_overdue_pending_agent_tasks n now d))) = map tk_id (db_tasks d)"
  unfolding expire_overdue_pending_agent_tasks_def
  by (rule close_tasks_laws [OF _ assms]) (simp add: fail_task_evolves overdue_pending_def)

interpretation stale_recovery: task_op "\<lambda>d. snd (expire_stale_running_agent_tasks n now d)" for n now
  by unfold_locales (use expire_stale_evolves in auto)

interpretation overdue_recovery: task_op "\<lambda>d. snd (expire_overdue_pending_agent_tasks n now d)" for n now
  by unfold_locales (use expire_overdue_evolves in auto)

section \<open>Dependencies\<close>

text \<open>The edge from a task to the task it waits for.\<close>

definition depends_on :: "db \<Rightarrow> (task \<times> task) set" where
  "depends_on d = {(t, u). \<exists>k. task_dependency_id t = Some k \<and> get_task k d = Some u}"

lemma walk_avoids_seen:
  assumes "walk_dependencies n d t dep seen c = None" "(c, v) \<in> (depends_on d)\<^sup>*"
  shows "tk_id v \<notin> set seen"
  using assms
proof (induction n d t dep seen c arbitrary: rule: walk_dependencies.induct)
  case (2 n d t dep seen c)
  from 2(3) show ?case
  proof (cases rule: converse_rtranclE)
    case base
    then show ?thesis using 2(2) by (auto split: if_splits)
  next
    case (step c')
    then obtain k where k: "task_dependency_id c = Some k" "get_task k d = Some c'"
      by (auto simp: depends_on_def)
    with 2(2) have "walk_dependencies n d t dep (tk_id c # seen) c' = None"
      "tk_id c \<notin> set seen" "tk_node_id c' = tk_node_id t"
      by (auto split: if_splits)
    then show ?thesis using 2(1) k step by auto
  qed
qed simp

text \<open>The walk visits at most as many tasks as its bound.\<close>

lemma walk_same_node:
  assumes "walk_dependencies n d t dep seen c = None" "(c, v) \<in> (depends_on d)\<^sup>*"
    "tk_node_id c = tk_node_id t"
  shows "tk_node_id v = tk_node_id t"
  using assms
proof (induction n d t dep seen c arbitrary: rule: walk_dependencies.induct)
  case (2 n d t dep seen c)
  from 2(3) show ?case
  proof (cases rule: converse_rtranclE)
    case base
    then show ?thesis using 2(4) by simp
  next
    case (step c')
    then obtain k where k: "task_dependency_id c = Some k" "get_task k d = Some c'"
      by (auto simp: depends_on_def)
    with 2(2) have "walk_dependencies n d t dep (tk_id c # seen) c' = None"
      "tk_id c \<notin> set seen" "tk_node_id c' = tk_node_id t"
      by (auto split: if_splits)
    then show ?thesis using 2(1) k step by auto
  qed
qed simp

definition dependency_ok :: "db \<Rightarrow> task \<Rightarrow> bool" where
  "dependency_ok d t = (case task_dependency_id t of None \<Rightarrow> True
     | Some dep \<Rightarrow> (case get_task dep d of None \<Rightarrow> False
       | Some u \<Rightarrow> tk_node_id u = tk_node_id t \<and>
           (tk_status u = Succeeded \<or> (continue_after_failure t \<and> tk_status u \<in> {Failed, Cancelled}))))"

lemma ready_dependency_ok: "dependency_readiness d t = Ready \<Longrightarrow> dependency_ok d t"
  by (auto simp: dependency_readiness_def dependency_ok_def split: option.splits if_splits)

lemma dependency_ok_evolves:
  assumes "dependency_ok d t" "tasks_evolve d d'"
  shows "dependency_ok d' t"
proof (cases "task_dependency_id t")
  case (Some dep)
  with assms(1) obtain u where u: "get_task dep d = Some u" "tk_node_id u = tk_node_id t"
    "tk_status u = Succeeded \<or> (continue_after_failure t \<and> tk_status u \<in> {Failed, Cancelled})"
    by (auto simp: dependency_ok_def split: option.splits)
  then obtain v where v: "get_task dep d' = Some v" "task_evolves u v"
    using assms(2) by (auto simp: tasks_evolve_def)
  have "tk_status v = tk_status u"
    using u(3) v(2) by (auto simp: task_evolves_def)
  then show ?thesis using u v Some by (auto simp: dependency_ok_def task_evolves_def)
qed (simp add: dependency_ok_def)

section \<open>The poll\<close>

lemma claim_task_simps [simp]:
  "tk_id (claim_task now t) = tk_id t" "tk_node_id (claim_task now t) = tk_node_id t"
  "tk_type (claim_task now t) = tk_type t" "tk_payload (claim_task now t) = tk_payload t"
  "tk_status (claim_task now t) = Running" "tk_started_at (claim_task now t) = Some now"
  "tk_change_plan_id (claim_task now t) = tk_change_plan_id t"
  "tk_dedup_key (claim_task now t) = tk_dedup_key t"
  "tk_result (claim_task now t) = tk_result t"
  by (simp_all add: claim_task_def)

lemma claim_task_views [simp]:
  "payload_of (claim_task now t) = payload_of t"
  "task_dependency_id (claim_task now t) = task_dependency_id t"
  "continue_after_failure (claim_task now t) = continue_after_failure t"
  by (simp_all add: payload_of_def task_dependency_id_def continue_after_failure_def)

lemma claim_task_evolves: "tk_status t = Pending \<Longrightarrow> task_evolves t (claim_task now t)"
  by (simp add: task_evolves_def)

lemma dependency_ok_refresh [simp]: "dependency_ok (refresh_plans ps d) t = dependency_ok d t"
  by (simp add: dependency_ok_def cong: option.case_cong)

text \<open>The dependency check writes at most the task it checks.\<close>

lemma ready_check_db:
  assumes "is_task_ready_for_poll now t d = (r, d')"
  shows "r \<Longrightarrow> d' = d \<and> dependency_ok d t"
    and "j \<noteq> tk_id t \<Longrightarrow> get_task j d' = get_task j d"
    and "tasks_wf d \<Longrightarrow> tasks_wf d'"
    and "get_task (tk_id t) d = Some t \<Longrightarrow> \<not> terminal (tk_status t) \<Longrightarrow> tasks_evolve d d'"
  using assms
  by (auto simp: is_task_ready_for_poll_def tasks.get_put split: readiness.splits
      intro: ready_dependency_ok fail_task_evolves tasks_wf_put elim!: tasks_evolve_put)

lemma poll_check_db:
  assumes "poll_check n now t d = (v, d')"
  shows "v = Claim \<Longrightarrow> d' = d \<and> dependency_ok d t \<and> agent_satisfies_task n (tk_type t) \<and>
      is_object (tk_payload t) \<and> dump_length (tk_payload t) \<le> max_agent_task_payload_bytes"
    and "v = Reject r \<Longrightarrow> d' = d"
    and "j \<noteq> tk_id t \<Longrightarrow> get_task j d' = get_task j d"
    and "tasks_wf d \<Longrightarrow> tasks_wf d'"
    and "get_task (tk_id t) d = Some t \<Longrightarrow> \<not> terminal (tk_status t) \<Longrightarrow> tasks_evolve d d'"
  using assms ready_check_db [of now t d]
  by (auto simp: poll_check_def split: if_splits prod.splits)

text \<open>What is true of a claimed task, from the database the poll started from to the current one.\<close>

definition claim_ok :: "node \<Rightarrow> time \<Rightarrow> db \<Rightarrow> db \<Rightarrow> task \<Rightarrow> bool" where
  "claim_ok n now d0 d t = (\<exists>t0. get_task (tk_id t) d0 = Some t0 \<and> tk_status t0 = Pending \<and>
     t = claim_task now t0 \<and> get_task (tk_id t) d = Some t \<and> dependency_ok d t \<and>
     agent_satisfies_task n (tk_type t) \<and> is_object (tk_payload t) \<and>
     dump_length (tk_payload t) \<le> max_agent_task_payload_bytes)"

lemma claim_ok_step:
  assumes "claim_ok n now d0 d t" "tasks_evolve d d'" "get_task (tk_id t) d' = get_task (tk_id t) d"
  shows "claim_ok n now d0 d' t"
  using assms dependency_ok_evolves [OF _ assms(2)] by (auto simp: claim_ok_def)

definition poll_inv :: "node \<Rightarrow> time \<Rightarrow> db \<Rightarrow> int list \<Rightarrow> poll_state \<Rightarrow> bool" where
  "poll_inv n now d0 ks acc = (case acc of (claimed, plans, d) \<Rightarrow>
     tasks_wf d \<and> tasks_evolve d0 d \<and>
     (\<forall>k \<in> set ks. get_task k d = get_task k d0 \<and>
        (\<forall>t. get_task k d0 = Some t \<longrightarrow> tk_status t = Pending)) \<and>
     distinct ks \<and> distinct (map tk_id claimed) \<and> set ks \<inter> tk_id ` set claimed = {} \<and>
     (\<forall>t \<in> set claimed. claim_ok n now d0 d t))"

lemma poll_step_inv:
  assumes "poll_inv n now d0 (k # ks) acc"
  shows "poll_inv n now d0 ks (poll_step n now k acc)"
proof -
  obtain claimed plans d where acc: "acc = (claimed, plans, d)" by (cases acc)
  have inv: "tasks_wf d" "tasks_evolve d0 d"
    "\<forall>j \<in> set ks. get_task j d = get_task j d0 \<and> (\<forall>t. get_task j d0 = Some t \<longrightarrow> tk_status t = Pending)"
    "get_task k d = get_task k d0" "\<forall>t. get_task k d0 = Some t \<longrightarrow> tk_status t = Pending"
    "k \<notin> set ks" "distinct ks" "distinct (map tk_id claimed)" "k \<notin> tk_id ` set claimed"
    "set ks \<inter> tk_id ` set claimed = {}" "\<forall>t \<in> set claimed. claim_ok n now d0 d t"
    using assms by (auto simp: poll_inv_def acc)
  show ?thesis
  proof (cases "get_task k d")
    case None
    then show ?thesis using inv by (auto simp: poll_inv_def poll_step_def acc)
  next
    case (Some t)
    then have t: "tk_id t = k" "tk_status t = Pending" "get_task k d0 = Some t"
      using inv(4,5) tasks.get_key by auto
    obtain v d1 where c: "poll_check n now t d = (v, d1)" by fastforce
    note pc = poll_check_db [OF c]
    have d1: "tasks_wf d1" "tasks_evolve d d1" "\<And>j. j \<noteq> k \<Longrightarrow> get_task j d1 = get_task j d"
      using pc inv t Some by auto
    have ev: "tasks_evolve d0 d1" using tasks_evolve_trans inv(2) d1(2) by blast
    have keep: "poll_inv n now d0 ks (claimed, ps, d2)"
      if "tasks_wf d2" "tasks_evolve d1 d2" "\<And>j. j \<noteq> k \<Longrightarrow> get_task j d2 = get_task j d" for ps d2
    proof -
      have e: "tasks_evolve d d2" using tasks_evolve_trans d1(2) that(2) by blast
      have "claim_ok n now d0 d2 u" if "u \<in> set claimed" for u
        using claim_ok_step [OF _ e, of n now d0 u] inv(9,11) that \<open>\<And>j. j \<noteq> k \<Longrightarrow> get_task j d2 = get_task j d\<close>
        by (metis imageI)
      moreover have "get_task j d2 = get_task j d0" if "j \<in> set ks" for j
        using that inv(3,6) \<open>\<And>j. j \<noteq> k \<Longrightarrow> get_task j d2 = get_task j d\<close> by (metis)
      ultimately show ?thesis
        using inv(3,7,8,10) that(1) tasks_evolve_trans [OF inv(2) e] by (simp add: poll_inv_def)
    qed
    show ?thesis
    proof (cases v)
      case Skip
      then show ?thesis using keep [OF d1(1) _ d1(3)] c Some by (simp add: poll_step_def acc)
    next
      case (Reject r)
      then have e: "d1 = d" using pc(2) by blast
      have "poll_inv n now d0 ks (claimed, ps, put_task (fail_task now r t) d1)" for ps
        using t Some e d1(1)
        by (intro keep) (auto simp: tasks.get_put intro!: fail_task_evolves tasks_wf_put elim!: tasks_evolve_put)
      then show ?thesis using Reject c Some by (simp add: poll_step_def acc)
    next
      case Claim
      let ?u = "claim_task now t" and ?d = "put_task (claim_task now t) d"
      have cl: "d1 = d" "dependency_ok d t" "agent_satisfies_task n (tk_type t)" "is_object (tk_payload t)"
        "dump_length (tk_payload t) \<le> max_agent_task_payload_bytes"
        using pc(1) Claim by auto
      have e: "tasks_evolve d ?d"
        by (rule tasks_evolve_put [OF Some]) (rule claim_task_evolves [OF t(2)])
      have "dependency_ok ?d t" by (rule dependency_ok_evolves [OF cl(2) e])
      then have "dependency_ok ?d ?u" by (simp add: dependency_ok_def cong: option.case_cong)
      then have "claim_ok n now d0 ?d ?u"
        using t Some cl by (auto simp: claim_ok_def tasks.get_put)
      moreover have "poll_inv n now d0 ks (claimed, plans, ?d)"
        using t Some cl(1) inv(1) e by (intro keep) (auto simp: tasks.get_put intro: tasks_wf_put)
      ultimately have "poll_inv n now d0 ks (claimed @ [?u], plans, ?d)"
        using inv t by (auto simp: poll_inv_def)
      then show ?thesis using Claim c Some t cl(1) by (simp add: poll_step_def acc)
    qed
  qed
qed

lemma poll_step_length: "length (fst (poll_step n now k acc)) \<le> Suc (length (fst acc))"
  by (auto simp: poll_step_def split: prod.splits option.splits verdict.splits)

lemma poll_loop_inv:
  assumes "poll_inv n now d0 ks acc" "length (fst acc) < agent_task_poll_batch_size"
  shows "poll_inv n now d0 [] (poll_loop n now ks acc) \<and>
     length (fst (poll_loop n now ks acc)) \<le> agent_task_poll_batch_size"
  using assms
proof (induction n now ks acc rule: poll_loop.induct)
  case (2 n now k ks acc)
  have i: "poll_inv n now d0 ks (poll_step n now k acc)" using poll_step_inv 2(2) by blast
  then have "poll_inv n now d0 [] (poll_step n now k acc)"
    by (auto simp: poll_inv_def split: prod.splits)
  then show ?case
    using 2 i poll_step_length [of n now k acc] by (auto simp: Let_def)
qed (auto simp: poll_inv_def)

lemma poll_candidates_pending:
  assumes "tasks_wf d" "k \<in> tk_id ` set (poll_candidates m d)"
  shows "\<exists>t. get_task k d = Some t \<and> tk_status t = Pending \<and> tk_node_id t = m"
proof -
  obtain t where c: "t \<in> set (poll_candidates m d)" "tk_id t = k"
    using assms(2) by auto
  from in_set_takeD [OF c(1) [unfolded poll_candidates_def]]
  have t: "t \<in> set (db_tasks d)" "tk_id t = k" "tk_status t = Pending" "tk_node_id t = m"
    using c(2) by auto
  then have "get_task k d = Some t"
    using assms(1) tasks.get_if_in by (auto simp: tasks_wf_def tb_wf_def)
  then show ?thesis using t by blast
qed

lemma distinct_map_take: "distinct (map f xs) \<Longrightarrow> distinct (map f (take n xs))"
  by (metis distinct_take take_map)

lemma poll_candidates_distinct:
  assumes "tasks_wf d"
  shows "distinct (map tk_id (poll_candidates m d))"
proof -
  let ?f = "filter (\<lambda>t. tk_node_id t = m \<and> tk_status t = Pending) (db_tasks d)"
  have "distinct (map tk_id ?f)"
    using assms by (simp add: tasks_wf_def tb_wf_def distinct_map_filter)
  then have "distinct (map tk_id (sort_key poll_order ?f))"
    by (simp add: distinct_map)
  then show ?thesis unfolding poll_candidates_def by (rule distinct_map_take)
qed

lemma poll_candidates_inv:
  assumes "tasks_wf d"
  shows "poll_inv n now d (map tk_id (poll_candidates m d)) ([], [], d)"
  using assms poll_candidates_distinct [OF assms] poll_candidates_pending [OF assms]
  by (fastforce simp: poll_inv_def)


lemma get_task_None_iff: "get_task k d = None \<longleftrightarrow> k \<notin> set (map tk_id (db_tasks d))"
  by (simp add: get_task_def tb_get_None_iff)

lemma pending_before:
  assumes "tasks_evolve d d'" "map tk_id (db_tasks d') = map tk_id (db_tasks d)"
    and "get_task k d' = Some u" "tk_status u = Pending"
  shows "\<exists>t. get_task k d = Some t \<and> tk_status t = Pending \<and> task_evolves t u"
proof -
  obtain t where t: "get_task k d = Some t"
    using assms(2,3) get_task_None_iff [of k d] get_task_None_iff [of k d'] by fastforce
  then have "task_evolves t u" using assms(1,3) by (fastforce simp: tasks_evolve_def)
  then show ?thesis
    using t assms(4) by (cases "tk_status t") (auto simp: task_evolves_def)
qed

text \<open>The state of the database when a poll starts to look for tasks.\<close>

definition recovered :: "int \<Rightarrow> time \<Rightarrow> db \<Rightarrow> db" where
  "recovered m now d = snd (expire_overdue_pending_agent_tasks (Some m) now
     (snd (expire_stale_running_agent_tasks (Some m) now d)))"

lemma recovered_evolves:
  assumes "tasks_wf d"
  shows "tasks_wf (recovered m now d)" "tasks_evolve d (recovered m now d)"
    "map tk_id (db_tasks (recovered m now d)) = map tk_id (db_tasks d)"
  using stale_recovery.run_wf [OF assms, of "Some m" now]
    overdue_recovery.run_wf [of "snd (expire_stale_running_agent_tasks (Some m) now d)" "Some m" now]
    stale_recovery.run_evolves [OF assms, of "Some m" now]
    overdue_recovery.run_evolves [of "snd (expire_stale_running_agent_tasks (Some m) now d)" "Some m" now]
    expire_stale_evolves [OF assms, of "Some m" now]
    expire_overdue_evolves [of "snd (expire_stale_running_agent_tasks (Some m) now d)" "Some m" now]
  by (auto simp: recovered_def intro: tasks_evolve_trans)

lemma agent_poll_Inr:
  assumes "agent_poll v now call d = Inr (ts, d')"
  shows "\<exists>n n' plans d4. get_node (ac_node_id call) d = Some n \<and> v (ac_token call) (nd_agent_token_hash n) \<and>
    n' = touch_node_heartbeat now (update_agent_metadata call n) \<and>
    poll_loop n' now (map tk_id (poll_candidates (ac_node_id call) (recovered (ac_node_id call) now (put_node n' d))))
      ([], [], recovered (ac_node_id call) now (put_node n' d)) = (ts, plans, d4) \<and>
    d' = refresh_plans plans d4"
proof -
  let ?m = "ac_node_id call"
  obtain n' d1 where s: "agent_seen v now call d = Inr (n', d1)"
    using assms by (auto simp: agent_poll_def res_simps)
  obtain claimed plans d4 where
    l: "poll_loop n' now (map tk_id (poll_candidates ?m (recovered ?m now d1))) ([], [], recovered ?m now d1)
      = (claimed, plans, d4)"
    by (metis prod_cases3)
  have "claimed = ts" "d' = refresh_plans plans d4"
    using assms l by (auto simp: agent_poll_def s Let_def recovered_def)
  then show ?thesis using agent_seen_Inr [OF s] l by blast
qed

lemma poll_result:
  assumes "tasks_wf d" "agent_poll v now call d = Inr (ts, d')"
  shows "\<exists>n'. poll_inv n' now (recovered (ac_node_id call) now (put_node n' d)) [] (ts, [], d') \<and>
     nd_id n' = ac_node_id call \<and> length ts \<le> agent_task_poll_batch_size \<and>
     (\<forall>t \<in> set ts. tk_node_id t = ac_node_id call) \<and>
     (\<exists>n. get_node (ac_node_id call) d = Some n \<and>
        n' = touch_node_heartbeat now (update_agent_metadata call n))"
proof -
  let ?m = "ac_node_id call"
  obtain n n' plans d4 where n: "get_node ?m d = Some n"
    "n' = touch_node_heartbeat now (update_agent_metadata call n)"
    and l: "poll_loop n' now (map tk_id (poll_candidates ?m (recovered ?m now (put_node n' d))))
      ([], [], recovered ?m now (put_node n' d)) = (ts, plans, d4)" and d': "d' = refresh_plans plans d4"
    using agent_poll_Inr [OF assms(2)] by blast
  let ?d3 = "recovered ?m now (put_node n' d)"
  have wf: "tasks_wf ?d3" using recovered_evolves(1) [of "put_node n' d"] assms(1) by (simp add: tasks_wf_def)
  have i: "poll_inv n' now ?d3 [] (ts, plans, d4)" "length ts \<le> agent_task_poll_batch_size"
    using poll_loop_inv [OF poll_candidates_inv [OF wf, of n' now ?m]] l
    by (auto simp: agent_task_poll_batch_size_def)
  have "tk_id t \<in> set (map tk_id (poll_candidates ?m ?d3))" if "t \<in> set ts" for t
  proof -
    have "set (map tk_id (fst (poll_loop n' now ks acc))) \<subseteq> set (map tk_id (fst acc)) \<union> set ks" for ks acc
    proof (induction n' now ks acc rule: poll_loop.induct)
      case (2 n now k ks acc)
      have "set (map tk_id (fst (poll_step n now k acc))) \<subseteq> set (map tk_id (fst acc)) \<union> {k}"
        by (auto simp: poll_step_def split: prod.splits option.splits verdict.splits if_splits
            dest: tasks.get_key)
      then show ?case using 2 by (auto simp: Let_def)
    qed simp
    from this [of "map tk_id (poll_candidates ?m ?d3)" "([], [], ?d3)"] show ?thesis
      using that l by auto
  qed
  then have "tk_node_id t = ?m" if "t \<in> set ts" for t
    using that i(1) poll_candidates_pending [OF wf, of "tk_id t" ?m]
    by (fastforce simp: poll_inv_def claim_ok_def)
  moreover have "poll_inv n' now ?d3 [] (ts, [], d')"
    using i(1) by (simp add: poll_inv_def d' claim_ok_def)
  ultimately show ?thesis using n i(2) tasks.get_key nodes.get_key by (auto intro!: exI [of _ n'])
qed

lemma claimed_was_pending:
  assumes "tasks_wf d" "agent_poll v now call d = Inr (ts, d')" "t \<in> set ts"
  shows "\<exists>t0. get_task (tk_id t) d = Some t0 \<and> tk_status t0 = Pending"
proof -
  obtain n' where i: "poll_inv n' now (recovered (ac_node_id call) now (put_node n' d)) [] (ts, [], d')"
    using poll_result [OF assms(1,2)] by blast
  let ?d3 = "recovered (ac_node_id call) now (put_node n' d)"
  have wf: "tasks_wf (put_node n' d)" using assms(1) by (simp add: tasks_wf_def)
  have "\<exists>t0. get_task (tk_id t) ?d3 = Some t0 \<and> tk_status t0 = Pending"
    using i assms(3) by (fastforce simp: poll_inv_def claim_ok_def)
  then show ?thesis
    using pending_before [OF recovered_evolves(2,3) [OF wf]] by fastforce
qed

section \<open>Properties\<close>

text \<open>C1: a poll hands an agent at most five tasks, all distinct, all of its own node, each of
  which was pending in the database before the call and is running, started now, in the
  database after it; no task is handed out that the agent does not support, whose payload is
  not an object, or whose serialised payload exceeds 2 MiB.\<close>

theorem agent_poll_claims_only_its_pending_tasks:
  assumes "tasks_wf d" "agent_poll v now call d = Inr (ts, d')"
  shows "length ts \<le> 5 \<and> distinct (map tk_id ts) \<and>
    (\<exists>n. get_node (ac_node_id call) d = Some n \<and>
     (\<forall>t \<in> set ts. tk_node_id t = ac_node_id call \<and>
      (\<exists>t0. get_task (tk_id t) d = Some t0 \<and> tk_status t0 = Pending) \<and>
      get_task (tk_id t) d' = Some t \<and> tk_status t = Running \<and> tk_started_at t = Some now \<and>
      agent_satisfies_task (touch_node_heartbeat now (update_agent_metadata call n)) (tk_type t) \<and>
      is_object (tk_payload t) \<and> dump_length (tk_payload t) \<le> 2 * 1024 * 1024))"
proof -
  obtain n n' where i: "poll_inv n' now (recovered (ac_node_id call) now (put_node n' d)) [] (ts, [], d')"
    "length ts \<le> 5" "\<forall>t \<in> set ts. tk_node_id t = ac_node_id call"
    "get_node (ac_node_id call) d = Some n" "n' = touch_node_heartbeat now (update_agent_metadata call n)"
    using poll_result [OF assms] by (auto simp: agent_task_poll_batch_size_def)
  have "\<exists>t0. get_task (tk_id t) d = Some t0 \<and> tk_status t0 = Pending" if "t \<in> set ts" for t
    using claimed_was_pending [OF assms that] .
  then show ?thesis
    using i by (fastforce simp: poll_inv_def claim_ok_def max_agent_task_payload_bytes_def)
qed

lemma sample_poll_ok: "agent_poll (\<lambda>_ _. True) 5 sample_call chain_db =
    Inr (fst (sample_poll chain_db), snd (sample_poll chain_db))"
proof -
  have "is_ok (agent_poll (\<lambda>_ _. True) 5 sample_call chain_db)" by code_simp
  from ok_value_Inr [OF this] show ?thesis by (simp add: sample_poll_def)
qed

lemma chain_db_wf: "tasks_wf chain_db"
  by code_simp

theorem agent_poll_claims_only_its_pending_tasks_witness:
  "map tk_id (fst (sample_poll chain_db)) = [2] \<and> distinct (map tk_id (fst (sample_poll chain_db)))"
proof
  show "map tk_id (fst (sample_poll chain_db)) = [2]" by code_simp
  show "distinct (map tk_id (fst (sample_poll chain_db)))"
    using agent_poll_claims_only_its_pending_tasks [OF chain_db_wf sample_poll_ok] by blast
qed

text \<open>C2: a task that depends on another is handed out only after the other, a task of the
  same node, has succeeded; only a stop or delete task that asks for it may also run after
  its dependency failed or was cancelled. The dependency still has that state afterwards.\<close>

theorem agent_poll_respects_dependencies:
  assumes "tasks_wf d" "agent_poll v now call d = Inr (ts, d')"
    and "t \<in> set ts" "task_dependency_id t = Some k"
  shows "\<exists>u. get_task k d' = Some u \<and> tk_node_id u = tk_node_id t \<and>
    (tk_status u = Succeeded \<or>
     continue_after_failure t \<and> (tk_status u = Failed \<or> tk_status u = Cancelled))"
proof -
  have "dependency_ok d' t"
    using poll_result [OF assms(1,2)] assms(3) by (fastforce simp: poll_inv_def claim_ok_def)
  then show ?thesis using assms(4) by (auto simp: dependency_ok_def split: option.splits)
qed

theorem agent_poll_respects_dependencies_witness:
  "\<exists>t u. fst (sample_poll chain_db) = [t] \<and> task_dependency_id t = Some 1 \<and>
     get_task 1 (snd (sample_poll chain_db)) = Some u \<and> tk_node_id u = tk_node_id t"
proof -
  have "length (fst (sample_poll chain_db)) = 1" by code_simp
  then obtain t where t: "fst (sample_poll chain_db) = [t]" by (cases "fst (sample_poll chain_db)") auto
  have "task_dependency_id (hd (fst (sample_poll chain_db))) = Some 1" by code_simp
  then have "task_dependency_id t = Some 1" by (simp add: t)
  then show ?thesis
    using agent_poll_respects_dependencies [OF chain_db_wf sample_poll_ok, of t 1] t by auto
qed

end
