(* ===== verification/WgService.thy ===== *)
theory WgService
  imports WgRoundTrip ConnTypes Validators
begin

text \<open>
  \<open>wireguard_service.py\<close> and \<open>task_identity.py\<close>: what an interface row is rendered to, the
  secrets an imported configuration hands on, the payload of a deployment, and the identity by which a late task result is matched to its
  configuration.
\<close>

section \<open>Rendering a row\<close>

definition iface_peers :: "iface \<Rightarrow> db \<Rightarrow> peer list" where
  "iface_peers i d = filter (\<lambda>p. pr_interface_id p = if_id i) (db_peers d)"

definition set_text :: "string option \<Rightarrow> bool" where
  "set_text x = (the_or [] x \<noteq> [])"

definition inherited_secrets ::
  "iface \<Rightarrow> peer list \<Rightarrow> string option \<times> (string \<times> string) list" where
  "inherited_secrets i ps =
     (if set_text (if_private_key_value i) \<and> list_all (\<lambda>p. set_text (pr_preshared_key_value p)) ps then (None, [])
      else if \<not> set_text (if_deployed_config i) then (None, [])
      else let parsed = parse_wg_quick (the_or [] (if_deployed_config i)) (if_name i) in
        (pi_private_key parsed,
         fold (\<lambda>q m. if set_text (pp_public_key q) \<and> set_text (pp_preshared_key q)
             then AList.update (the_or [] (pp_public_key q)) (the_or [] (pp_preshared_key q)) m else m)
           (pi_peers parsed) []))"

definition interface_to_render_dict :: "iface \<Rightarrow> peer list \<Rightarrow> render_iface" where
  "interface_to_render_dict i ps = \<lparr>
     ri_private_key = or_text (if_private_key_value i) (fst (inherited_secrets i ps)),
     ri_tunnel_ips = if_tunnel_ips i, ri_listen_port = if_listen_port i, ri_dns = if_dns i,
     ri_mtu = if_mtu i, ri_table_name = if_table_name i, ri_fwmark = if_fwmark i,
     ri_pre_up = if_pre_up i, ri_post_up = if_post_up i, ri_pre_down = if_pre_down i,
     ri_post_down = if_post_down i,
     ri_custom_config = dget (json_object (if_extras i)) ''custom_config''\<rparr>"

definition peer_to_render_dict :: "iface \<Rightarrow> peer list \<Rightarrow> peer \<Rightarrow> render_peer" where
  "peer_to_render_dict i ps p = \<lparr>
     rp_name = pr_name p, rp_public_key = Some (pr_public_key p),
     rp_preshared_key = or_text (pr_preshared_key_value p) (map_of (snd (inherited_secrets i ps)) (pr_public_key p)),
     rp_endpoint_host = pr_endpoint_host p, rp_endpoint_port = pr_endpoint_port p,
     rp_allowed_ips = pr_allowed_ips p, rp_persistent_keepalive = pr_persistent_keepalive p,
     rp_custom_config = dget (json_object (pr_extras p)) ''custom_config''\<rparr>"

definition render_interface_config :: "iface \<Rightarrow> db \<Rightarrow> string" where
  "render_interface_config i d = (let ps = iface_peers i d in
     render_wg_quick (interface_to_render_dict i ps)
       (map (peer_to_render_dict i ps) (filter pr_enabled ps)))"

definition count_enabled_peers :: "iface \<Rightarrow> db \<Rightarrow> nat" where
  "count_enabled_peers i d = length (filter pr_enabled (iface_peers i d))"

section \<open>Deployment payloads\<close>

text \<open>\<open>if previous and previous != interface.name\<close> on the JSON of the extras.\<close>

definition previous_name_entry :: "iface \<Rightarrow> fields" where
  "previous_name_entry i = (let v = dget (json_object (if_extras i)) ''previous_interface_name'' in
     if truthy v \<and> v \<noteq> JStr (if_name i) then [(''previous_interface_name'', v)] else [])"

definition build_apply_plan :: "iface \<Rightarrow> db \<Rightarrow> fields" where
  "build_apply_plan i d =
     [(''interface_id'', JInt (if_id i)),
      (''node_id'', JInt (if_node_id i)),
      (''interface_name'', JStr (if_name i)),
      (''config'', JStr (render_interface_config i d)),
      (''managed'', JBool (if_managed i)),
      (''import_path'', jopt_str (if_import_path i))] @ previous_name_entry i"

definition build_apply_payload_from_config :: "iface \<Rightarrow> string \<Rightarrow> fields" where
  "build_apply_payload_from_config i config =
     [(''interface_id'', JInt (if_id i)),
      (''node_id'', JInt (if_node_id i)),
      (''interface_name'', JStr (if_name i)),
      (''config'', JStr config),
      (''managed'', JBool True),
      (''import_path'', jopt_str (if_import_path i))] @ previous_name_entry i"

text \<open>\<open>WireGuardConnectionDriver.build_apply_payload\<close>\<close>

definition build_apply_payload :: "iface \<Rightarrow> bool \<Rightarrow> db \<Rightarrow> fields" where
  "build_apply_payload i enable_on_boot d =
     dset ''auto_start'' (JBool True)
       (dset ''enable_on_boot'' (JBool enable_on_boot)
         (dset ''managed'' (JBool True) (build_apply_plan i d)))"

section \<open>Configuration identity\<close>

text \<open>
  \<open>config_identity\<close> gives a row a token when it has none. The token of \<open>uuid4\<close> is a
  parameter; the row comes back with the token stored.
\<close>

definition identity_token :: "json \<Rightarrow> string option" where
  "identity_token extras = (let ex = json_object extras;
       t = (if truthy (dget ex ''config_instance'') then dget ex ''config_instance'' else dget ex ''ipam_incarnation'') in
     case t of JStr s \<Rightarrow> if s = [] then None else Some s | _ \<Rightarrow> None)"

definition with_identity :: "string \<Rightarrow> json \<Rightarrow> json" where
  "with_identity fresh extras = (case identity_token extras of
      Some _ \<Rightarrow> extras
    | None \<Rightarrow> JObj (dset ''config_instance'' (JStr fresh) (json_object extras)))"

definition identity_text :: "string \<Rightarrow> int \<Rightarrow> json \<Rightarrow> string" where
  "identity_text prefix k extras =
     prefix @ '':'' @ show_int k @ '':'' @ the_or [] (identity_token extras)"

definition iface_identity :: "string \<Rightarrow> iface \<Rightarrow> string \<times> iface" where
  "iface_identity fresh i = (let ex = with_identity fresh (if_extras i) in
     (identity_text ''wg'' (if_id i) ex, i\<lparr>if_extras := ex\<rparr>))"

definition endpoint_identity :: "string \<Rightarrow> endpoint \<Rightarrow> string \<times> endpoint" where
  "endpoint_identity fresh e = (let ex = with_identity fresh (ep_extras e) in
     (identity_text ''gre'' (ep_id e) ex, e\<lparr>ep_extras := ex\<rparr>))"

text \<open>\<open>payload.get("config_identity") or payload.get("ipam_owner")\<close>\<close>

definition payload_identity :: "task \<Rightarrow> json" where
  "payload_identity t = (let p = json_object (tk_payload t); c = dget p ''config_identity'' in
     if truthy c then c else dget p ''ipam_owner'')"

definition task_targets_iface :: "string \<Rightarrow> task \<Rightarrow> iface option \<Rightarrow> bool" where
  "task_targets_iface fresh t i = (case i of None \<Rightarrow> False | Some i \<Rightarrow>
     if_node_id i = tk_node_id t \<and>
     (\<not> truthy (payload_identity t) \<or> payload_identity t = JStr (fst (iface_identity fresh i))))"

definition task_targets_endpoint :: "string \<Rightarrow> task \<Rightarrow> endpoint option \<Rightarrow> bool" where
  "task_targets_endpoint fresh t e = (case e of None \<Rightarrow> False | Some e \<Rightarrow>
     ep_node_id e = tk_node_id t \<and>
     (\<not> truthy (payload_identity t) \<or> payload_identity t = JStr (fst (endpoint_identity fresh e))))"

section \<open>Facts\<close>

lemma identity_token_stable [simp]: "identity_token (with_identity fresh ex) = Some t \<Longrightarrow>
    with_identity fresh' (with_identity fresh ex) = with_identity fresh ex"
  by (simp add: with_identity_def)

lemma with_identity_token:
  assumes "fresh \<noteq> []"
  shows "identity_token (with_identity fresh ex) = Some (the_or fresh (identity_token ex))"
  using assms by (cases "identity_token ex") (auto simp: with_identity_def identity_token_def json_object_def)

lemma rsplit_pair_None: "b \<notin> set s \<Longrightarrow> rsplit_pair a b s = None"
  by (induction s) auto

lemma rsplit_pair_append:
  assumes "b \<notin> set p" "a \<noteq> b"
  shows "rsplit_pair a b (h @ a # b # p) = Some (h, p)"
proof (induction h)
  case Nil
  then show ?case using rsplit_pair_None [OF assms(1)] assms(2) by (cases p) auto
qed simp

lemma has_sub_prefix: "has_sub p (p @ y)"
proof (cases "p @ y")
  case (Cons c cs)
  then have "starts_with (c # cs) p" by (metis starts_with_append)
  then show ?thesis using Cons by simp
qed simp

lemma has_sub_append: "has_sub p (x @ p @ y)"
  by (induction x) (simp_all add: has_sub_prefix)

lemma show_int_no_colon [simp]: "CHR '':'' \<notin> set (show_int n)" "CHR '']'' \<notin> set (show_int n)"
  using show_int_chars [of _ n] dec_not_space(4) by blast+

lemma py_int_port: "\<bar>p\<bar> < 10 ^ 5 \<Longrightarrow> py_int (show_int p) = Some p"
  using int_ok_small [of p] by (simp add: int_ok_def py_int_show_int)

lemma count_char_none: "d \<notin> set s \<Longrightarrow> length (filter (\<lambda>c. c = d) s) = 0"
  by (induction s) auto

text \<open>The host as \<open>format_endpoint\<close> writes it.\<close>

definition endpoint_host_text :: "string \<Rightarrow> string" where
  "endpoint_host_text host = (case ip_address (strip host) of None \<Rightarrow> strip host | Some a \<Rightarrow> compressed a)"

definition plain_host :: "string \<Rightarrow> bool" where
  "plain_host host = (host \<noteq> [] \<and> hd host \<noteq> CHR ''['' \<and> CHR '':'' \<notin> set host)"

lemma split_plain:
  assumes "plain_host h" "\<bar>p\<bar> < 10 ^ 5"
  shows "split_endpoint (Some (h @ '':'' @ show_int p)) = (Some h, Some p)"
proof -
  have "split_last (CHR '':'') (h @ CHR '':'' # show_int p) = (h, show_int p)"
    by (rule split_last_append) simp
  moreover have "count_char (CHR '':'') (h @ CHR '':'' # show_int p) = 1"
    using assms(1) count_char_none [of "CHR '':''" h] count_char_none [of "CHR '':''" "show_int p"]
    by (simp add: count_char_def plain_host_def del: length_0_conv)
  ultimately show ?thesis
    using assms py_int_port by (simp add: split_endpoint_def plain_host_def)
qed

lemma split_bracketed:
  assumes "\<bar>p\<bar> < 10 ^ 5"
  shows "split_endpoint (Some (''['' @ h @ '']:'' @ show_int p)) = (Some h, Some p)"
proof -
  have "has_sub '']:'' ((CHR ''['' # h) @ '']:'' @ show_int p)" by (rule has_sub_append)
  moreover have "rsplit_pair (CHR '']'') (CHR '':'') (h @ CHR '']'' # CHR '':'' # show_int p) = Some (h, show_int p)"
    by (rule rsplit_pair_append) simp_all
  ultimately show ?thesis using py_int_port [OF assms] by (simp add: split_endpoint_def)
qed

lemma plain_ipv4: "plain_host (show_ipv4 n)"
proof -
  have "show_ipv4 n \<noteq> []" by (simp add: show_ipv4_def)
  moreover have "c \<notin> {CHR ''['', CHR '':''}" if "c \<in> set (show_ipv4 n)" for c
    using show_ipv4_chars [OF that] by (auto simp: is_dec_def code_def)
  ultimately show ?thesis unfolding plain_host_def using hd_in_set by blast
qed

section \<open>Properties\<close>

text \<open>The import reads back the endpoint the renderer writes: splitting the rendered text
  gives the host, an IP address in its compressed form and IPv6 without its brackets, and the
  port; for a host that is an IP literal, or a name without a colon or leading bracket.\<close>

theorem split_format_endpoint:
  assumes "ip_address (strip h) \<noteq> None \<or> plain_host (strip h)" "\<bar>p\<bar> < 10 ^ 5"
  shows "split_endpoint (Some (format_endpoint h p)) = (Some (endpoint_host_text h), Some p)"
proof (cases "ip_address (strip h)")
  case None
  then show ?thesis
    using assms split_plain by (simp add: format_endpoint_def endpoint_host_text_def)
next
  case (Some a)
  show ?thesis
  proof (cases a)
    case (IPv4 n)
    then show ?thesis
      using Some split_plain [OF plain_ipv4 assms(2), of n]
      by (simp add: format_endpoint_def endpoint_host_text_def)
  next
    case (IPv6 n z)
    then show ?thesis
      using Some split_bracketed [OF assms(2), of "compressed a"]
      by (simp add: format_endpoint_def endpoint_host_text_def)
  qed
qed

end
