(* ===== verification/InterfaceTasks.thy ===== *)
theory InterfaceTasks
  imports TaskLaws WgService
begin

text \<open>
  The tasks of a WireGuard interface (main.py): creation with the idempotency key that the
  partial unique index enforces, reuse of a pending task, cancellation of superseded
  deployments, the rename chain stop, delete, apply, and the bookkeeping of the interface's
  extras, drafts, import candidates and monitors around it. \<open>now\<close> is \<open>datetime.utcnow()\<close> and
  \<open>fresh\<close> the text \<open>uuid4().hex\<close> gives.
\<close>

section \<open>Extras\<close>

text \<open>\<open>s or t\<close> on texts.\<close>

definition or_default :: "string \<Rightarrow> string \<Rightarrow> string" where
  "or_default s t = (if s = [] then t else s)"

definition set_extra :: "string \<Rightarrow> string option \<Rightarrow> json \<Rightarrow> json" where
  "set_extra key value extras = (let ex = json_object extras;
       cleaned = (case value of None \<Rightarrow> [] | Some v \<Rightarrow> strip v) in
     if cleaned \<noteq> [] then JObj (dset key (JStr cleaned) ex) else JObj (ddel key ex))"

definition set_extra_object :: "string \<Rightarrow> json \<Rightarrow> json \<Rightarrow> json" where
  "set_extra_object key value extras = (let ex = json_object extras in
     if truthy value then JObj (dset key value ex) else JObj (ddel key ex))"

definition record_interface_rename :: "string \<Rightarrow> iface \<Rightarrow> iface" where
  "record_interface_rename next_name i =
     (let previous = dget (json_object (if_extras i)) ''previous_interface_name'' in
      if if_name i = next_name then i
      else if previous = JStr next_name then
        i\<lparr>if_extras := set_extra ''previous_interface_name'' None (if_extras i)\<rparr>
      else if \<not> truthy previous then
        i\<lparr>if_extras := set_extra ''previous_interface_name'' (Some (if_name i)) (if_extras i)\<rparr>
      else i)"

section \<open>Lookups\<close>

definition get_wireguard_config_or_404 :: "int \<Rightarrow> db \<Rightarrow> iface reply" where
  "get_wireguard_config_or_404 k d = some_or (get_iface k d) (HTTP 404 ''wireguard config not found'')"

definition require_online_node :: "int \<Rightarrow> time \<Rightarrow> int \<Rightarrow> db \<Rightarrow> node reply" where
  "require_online_node offline_after now k d = (case get_node k d of
      None \<Rightarrow> Inl (HTTP 404 ''node not found'')
    | Some n \<Rightarrow> if node_runtime_status offline_after now n \<noteq> ''online''
        then Inl (HTTP 409 ''agent is offline'') else Inr n)"

definition ensure_unique_interface_name ::
  "int \<Rightarrow> string \<Rightarrow> int option \<Rightarrow> int option \<Rightarrow> db \<Rightarrow> unit reply" where
  "ensure_unique_interface_name node_id name exclude_iface exclude_endpoint d =
     (if list_ex (\<lambda>i. if_node_id i = node_id \<and> if_name i = name \<and> exclude_iface \<noteq> Some (if_id i)) (db_ifaces d)
      then Inl (HTTP 409 ''interface name already exists on node'')
      else ensure (\<not> list_ex (\<lambda>e. ep_node_id e = node_id \<and> ep_interface_name e = name \<and>
               exclude_endpoint \<noteq> Some (ep_id e)) (db_endpoints d))
             (HTTP 409 ''interface name already exists on node''))"

section \<open>Creating tasks\<close>

definition new_task :: "int \<Rightarrow> int option \<Rightarrow> string \<Rightarrow> json \<Rightarrow> task" where
  "new_task node_id plan ty payload = \<lparr>tk_id = 0, tk_node_id = node_id, tk_change_plan_id = plan,
     tk_type = ty, tk_payload = payload, tk_queue = ''control'', tk_priority = 100,
     tk_status = Pending, tk_result = None, tk_started_at = None, tk_finished_at = None,
     tk_deadline_at = None, tk_dedup_key = None\<rparr>"

text \<open>\<open>db.add(task); db.flush()\<close> for a row that no unique index can refuse.\<close>

definition add_task :: "task \<Rightarrow> db \<Rightarrow> task \<times> db" where
  "add_task t d = (let t' = t\<lparr>tk_id := next_id tk_id (db_tasks d)\<rparr> in
     (t', d\<lparr>db_tasks := db_tasks d @ [t']\<rparr>))"

text \<open>The partial unique index \<open>uq_agent_tasks_pending_dedup_key\<close>: at most one pending task per key.\<close>

definition dedup_conflict :: "task \<Rightarrow> db \<Rightarrow> bool" where
  "dedup_conflict t d = (tk_dedup_key t \<noteq> None \<and>
     list_ex (\<lambda>u. tk_status u = Pending \<and> tk_dedup_key u = tk_dedup_key t) (db_tasks d))"

text \<open>The same insertion in a savepoint; \<open>None\<close> is the \<open>IntegrityError\<close>.\<close>

definition insert_task :: "task \<Rightarrow> db \<Rightarrow> (task \<times> db) option" where
  "insert_task t d = (if dedup_conflict t d then None else Some (add_task t d))"

definition dict_update :: "fields \<Rightarrow> fields \<Rightarrow> fields" where
  "dict_update base extra = fold (\<lambda>(k, v). dset k v) extra base"

text \<open>The payload and type of \<open>create_interface_task\<close>, and the row with its identity stored.\<close>

definition interface_task_payload :: "string \<Rightarrow> iface \<Rightarrow> fields \<Rightarrow> json \<times> iface" where
  "interface_task_payload fresh i extra = (case iface_identity fresh i of (identity, i') \<Rightarrow>
     (JObj (dset ''config_identity'' (JStr identity)
        (dict_update [(''node_id'', JInt (if_node_id i)), (''interface_id'', JInt (if_id i)),
           (''interface_name'', JStr (if_name i))] extra)), i'))"

definition interface_task_dedup_key :: "int \<Rightarrow> string \<Rightarrow> string" where
  "interface_task_dedup_key interface_id ty = ''interface:'' @ show_int interface_id @ '':'' @ ty"

definition iface_task :: "int \<Rightarrow> string \<Rightarrow> task_status list \<Rightarrow> task \<Rightarrow> bool" where
  "iface_task interface_id ty statuses t = (tk_type t = ty \<and> tk_status t \<in> set statuses \<and>
     payload_int (tk_payload t) ''interface_id'' interface_id)"

definition get_interface_task :: "int \<Rightarrow> string \<Rightarrow> task_status list \<Rightarrow> db \<Rightarrow> task option" where
  "get_interface_task interface_id ty statuses d =
     first_of (tasks_by_id (filter (iface_task interface_id ty statuses) (db_tasks d)))"

definition has_active_interface_task :: "db \<Rightarrow> int \<Rightarrow> string \<Rightarrow> bool" where
  "has_active_interface_task d interface_id ty = (get_interface_task interface_id ty [Pending, Running] d \<noteq> None)"

definition replace_payload :: "json \<Rightarrow> task \<Rightarrow> task" where
  "replace_payload p t = t\<lparr>tk_payload := p\<rparr>"

text \<open>
  \<open>enqueue_interface_task_once_with_task\<close>: whether something changed, the task taking part, and
  the database. The source's optional task is never absent.
\<close>

definition enqueue_interface_task ::
  "string \<Rightarrow> time \<Rightarrow> iface \<Rightarrow> string \<Rightarrow> fields \<Rightarrow> bool \<Rightarrow> bool \<Rightarrow> db \<Rightarrow> (bool \<times> task \<times> db) reply" where
  "enqueue_interface_task fresh now i ty extra update_pending queue_after_running d0 =
     (let d = snd (expire_stale_running_agent_tasks (Some (if_node_id i)) now d0);
          (payload, i') = interface_task_payload fresh i extra in
      case get_interface_task (if_id i) ty [Pending] d of
        Some t \<Rightarrow>
          if update_pending
          then let t' = replace_payload payload t in Inr (True, t', put_task t' (put_iface i' d))
          else Inr (False, t, d)
      | None \<Rightarrow>
          (case (queue_after_running, get_interface_task (if_id i) ty [Running] d) of
            (False, Some r) \<Rightarrow> Inr (False, r, d)
          | _ \<Rightarrow>
              rbind (case get_node (if_node_id i) d of None \<Rightarrow> Inr () | Some n \<Rightarrow> require_task_supported n ty) (\<lambda>_.
                let t = (new_task (if_node_id i) None ty payload)
                          \<lparr>tk_dedup_key := Some (interface_task_dedup_key (if_id i) ty)\<rparr>;
                    d1 = put_iface i' d in
                case insert_task t d1 of
                  Some (t', d2) \<Rightarrow> Inr (True, t', d2)
                | None \<Rightarrow>
                    (case get_interface_task (if_id i) ty [Pending, Running] d1 of
                      None \<Rightarrow> Inl (HTTP 500 ''integrity error'')
                    | Some e \<Rightarrow>
                        if update_pending \<and> tk_status e = Pending
                        then let e' = replace_payload payload e in Inr (True, e', put_task e' d1)
                        else Inr (False, e, d1)))))"

text \<open>The row again, after a call that may have stored an identity in it.\<close>

definition reload_iface :: "iface \<Rightarrow> db \<Rightarrow> iface" where
  "reload_iface i d = the_or i (get_iface (if_id i) d)"

section \<open>Cancelling tasks\<close>

definition cancel_task :: "time \<Rightarrow> string \<Rightarrow> task \<Rightarrow> task" where
  "cancel_task now reason t = t\<lparr>tk_status := Cancelled,
     tk_result := Some (JObj [(''status'', JStr ''cancelled''), (''reason'', JStr reason)]),
     tk_finished_at := Some now\<rparr>"

definition cancel_pending_interface_tasks :: "time \<Rightarrow> int \<Rightarrow> string \<Rightarrow> string \<Rightarrow> db \<Rightarrow> int \<times> db" where
  "cancel_pending_interface_tasks now interface_id ty reason d =
     close_tasks (iface_task interface_id ty [Pending]) (\<lambda>u. tk_status u = Pending) (cancel_task now reason) d"

definition superseded_text :: string where
  "superseded_text = ''interface deployment superseded by stop or delete''"

definition cancel_pending_interface_deployment_tasks :: "time \<Rightarrow> iface \<Rightarrow> db \<Rightarrow> int \<times> db" where
  "cancel_pending_interface_deployment_tasks now i d =
     (case cancel_pending_interface_tasks now (if_id i) (ts_apply_config wireguard_tasks) superseded_text d of
        (n, d1) \<Rightarrow> (case cancel_pending_interface_tasks now (if_id i) (ts_start wireguard_tasks) superseded_text d1 of
          (m, d2) \<Rightarrow> (n + m, d2)))"

definition running_interface_deployment_task_id :: "iface \<Rightarrow> db \<Rightarrow> int option" where
  "running_interface_deployment_task_id i d = map_option tk_id (first_of (rev (tasks_by_id (filter
     (\<lambda>t. tk_node_id t = if_node_id i \<and> tk_status t = Running \<and>
        tk_type t \<in> {ts_apply_config wireguard_tasks, ts_start wireguard_tasks} \<and>
        payload_int (tk_payload t) ''interface_id'' (if_id i)) (db_tasks d)))))"

text \<open>The payload of a stop: behind a running deployment, and whatever becomes of it.\<close>

definition stop_after :: "int option \<Rightarrow> fields" where
  "stop_after running = (case running of None \<Rightarrow> []
     | Some k \<Rightarrow> [(''depends_on_task_id'', JInt k), (''continue_after_dependency_failure'', JBool True)])"

section \<open>Related rows\<close>

definition mark_import_candidate_available_for_interface :: "iface \<Rightarrow> db \<Rightarrow> bool \<times> db" where
  "mark_import_candidate_available_for_interface i d =
     (if if_source i \<noteq> ''imported'' \<or> the_or [] (if_import_path i) = [] then (False, d)
      else case first_of (filter (\<lambda>c. ic_node_id c = if_node_id i \<and> Some (ic_path c) = if_import_path i \<and>
             ic_imported c) (db_candidates d)) of
        None \<Rightarrow> (False, d)
      | Some c \<Rightarrow> (True, d\<lparr>db_candidates := tb_put ic_id (c\<lparr>ic_imported := False\<rparr>) (db_candidates d)\<rparr>))"

definition draft_of_interface :: "int \<Rightarrow> plan \<Rightarrow> bool" where
  "draft_of_interface interface_id p = (pl_status p = PDraft \<and>
     payload_int (dget (json_object (pl_payload p)) ''task_payload'') ''interface_id'' interface_id)"

definition cancel_draft_interface_change_plans :: "int \<Rightarrow> db \<Rightarrow> db" where
  "cancel_draft_interface_change_plans interface_id d = d\<lparr>db_plans := map (\<lambda>p.
     if draft_of_interface interface_id p then p\<lparr>pl_status := PCancelled\<rparr> else p) (db_plans d)\<rparr>"

definition delete_link_monitors_where :: "(monitor \<Rightarrow> bool) \<Rightarrow> db \<Rightarrow> db" where
  "delete_link_monitors_where P d =
     (let ids = map mo_id (filter P (db_monitors d)) in
      d\<lparr>db_samples := filter (\<lambda>s. sa_monitor_id s \<notin> set ids) (db_samples d),
        db_monitors := filter (\<lambda>m. \<not> P m) (db_monitors d)\<rparr>)"

definition existing_interface_names :: "int \<Rightarrow> db \<Rightarrow> string list" where
  "existing_interface_names node_id d = remdups (map if_name (filter (\<lambda>i. if_node_id i = node_id) (db_ifaces d)))"

definition should_offer_import_candidate :: "candidate \<Rightarrow> string list \<Rightarrow> bool" where
  "should_offer_import_candidate c names = (\<not> ic_imported c \<and> ic_interface_name c \<notin> set names)"

definition should_delete_node_config_file :: "iface \<Rightarrow> bool" where
  "should_delete_node_config_file i = (if_managed i \<or> if_source i \<noteq> ''imported'')"

text \<open>
  \<open>db.delete(interface)\<close> and its flush: its peers go with it; a peer of another interface that
  names it keeps it through the foreign key, and the flush fails.
\<close>

definition iface_referenced :: "int \<Rightarrow> db \<Rightarrow> bool" where
  "iface_referenced k d = list_ex (\<lambda>p. pr_peer_interface_id p = Some k \<and> pr_interface_id p \<noteq> k) (db_peers d)"

definition delete_iface_row :: "int \<Rightarrow> db \<Rightarrow> db reply" where
  "delete_iface_row k d = (if iface_referenced k d then Inl (HTTP 500 ''foreign key'')
     else Inr (d\<lparr>db_peers := filter (\<lambda>p. pr_interface_id p \<noteq> k) (db_peers d),
                 db_ifaces := tb_del if_id k (db_ifaces d)\<rparr>))"

section \<open>Deployment\<close>

definition previous_name :: "iface \<Rightarrow> string" where
  "previous_name i = strip (str_or_empty (dget (json_object (if_extras i)) ''previous_interface_name''))"

definition rename_text :: string where
  "rename_text = ''interface rename cleanup must run before apply_config''"

text \<open>
  \<open>enqueue_apply_config\<close>: a renamed interface is first stopped and deleted under its old
  name, each task depending on the one before.
\<close>

definition enqueue_apply_config :: "string \<Rightarrow> time \<Rightarrow> iface \<Rightarrow> bool \<Rightarrow> db \<Rightarrow> (bool \<times> db) reply" where
  "enqueue_apply_config fresh now i enable_on_boot d =
     (let old = previous_name i in
      if old \<noteq> [] \<and> old \<noteq> if_name i then
        (let d1 = snd (cancel_pending_interface_tasks now (if_id i) (ts_apply_config wireguard_tasks) rename_text d);
             name_entry = (''interface_name'', JStr old) in
         rbind (enqueue_interface_task fresh now i (ts_stop wireguard_tasks) [name_entry] True False d1)
           (\<lambda>(_, stop, d2).
         rbind (enqueue_interface_task fresh now (reload_iface i d2) (ts_delete_config wireguard_tasks)
             [name_entry, (''depends_on_task_id'', JInt (tk_id stop))] True False d2)
           (\<lambda>(_, del, d3). let i3 = reload_iface i d3 in
         rbind (enqueue_interface_task fresh now i3 (ts_apply_config wireguard_tasks)
             (dset ''depends_on_task_id'' (JInt (tk_id del)) (build_apply_payload i3 enable_on_boot d3)) True True d3)
           (\<lambda>(changed, _, d4). Inr (changed, d4)))))
      else
        rbind (enqueue_interface_task fresh now i (ts_apply_config wireguard_tasks)
            (build_apply_payload i enable_on_boot d) True True d)
          (\<lambda>(changed, _, d1). Inr (changed, d1)))"

definition queue_replace_interface :: "string \<Rightarrow> time \<Rightarrow> iface \<Rightarrow> db \<Rightarrow> db reply" where
  "queue_replace_interface fresh now i d =
     (let d1 = snd (cancel_pending_interface_deployment_tasks now i d) in
      rbind (enqueue_interface_task fresh now i (ts_stop wireguard_tasks)
          (stop_after (running_interface_deployment_task_id i d1)) True False d1)
        (\<lambda>(_, stop, d2).
      rbind (enqueue_interface_task fresh now (reload_iface i d2) (ts_delete_config wireguard_tasks)
          [(''depends_on_task_id'', JInt (tk_id stop))] True False d2)
        (\<lambda>(_, _, d3).
         let i3 = reload_iface i d3;
             d4 = snd (mark_import_candidate_available_for_interface i3 d3);
             d5 = delete_link_monitors_where (\<lambda>m. mo_interface_id m = Some (if_id i)) d4;
             d6 = cancel_draft_interface_change_plans (if_id i) d5 in
         delete_iface_row (if_id i) d6)))"

definition get_replace_interface :: "int option \<Rightarrow> int \<Rightarrow> db \<Rightarrow> iface option reply" where
  "get_replace_interface k node_id d = (case k of None \<Rightarrow> Inr None
     | Some k \<Rightarrow> (case get_iface k d of
         None \<Rightarrow> Inl (HTTP 404 ''replace interface not found'')
       | Some i \<Rightarrow>
           if if_node_id i \<noteq> node_id then Inl (HTTP 404 ''replace interface not found'')
           else if if_source i \<noteq> ''imported'' \<or> if_managed i
             then Inl (HTTP 400 ''replace interface must be unmanaged imported config'')
           else Inr (Some i)))"

section \<open>Addresses\<close>

definition string_items :: "json \<Rightarrow> string list" where
  "string_items v = read_string_list v"

definition node_endpoint_hosts :: "node \<Rightarrow> string list" where
  "node_endpoint_hosts n = rev (remdups (rev (filter (\<lambda>s. s \<noteq> [])
     (string_items (nd_endpoint_ips n) @ map (the_or []) [nd_public_ip n, nd_management_ip n, nd_hostname n]))))"

definition optional_node_endpoint :: "string option \<Rightarrow> string option" where
  "optional_node_endpoint host = (case host of None \<Rightarrow> None
     | Some h \<Rightarrow> if strip h = [] then None else Some (strip h))"

definition require_managed_link_endpoints ::
  "string option \<Rightarrow> string option \<Rightarrow> (string option \<times> string option) reply" where
  "require_managed_link_endpoints local_host peer_host =
     (let l = optional_node_endpoint local_host; p = optional_node_endpoint peer_host in
      if l = None \<and> p = None then Inl (HTTP 400 ''at least one endpoint address is required'')
      else Inr (l, p))"

end
