(* ===== verification/WgHandlers.thy ===== *)
theory WgHandlers
  imports InterfaceTasks
begin

text \<open>
  The request handlers of WireGuard configurations (main.py): create, update, peers, the
  deployment plan and its confirmation, status and start/stop/delete, import and take-over.
  Each handler is a function from the database to a reply with the new database; an error
  leaves the database unchanged, because the session is closed without a commit.
  \<open>difflib.unified_diff\<close> is the parameter \<open>udiff\<close> (old, new, fromfile, tofile).
\<close>

record env =
  en_now :: time
  en_offline_after :: int
  en_fresh :: string
  en_udiff :: "string \<Rightarrow> string \<Rightarrow> string \<Rightarrow> string \<Rightarrow> string"

section \<open>Interfaces and peers\<close>

record interface_payload =
  ip_name :: string
  ip_tunnel_ips :: "string list"
  ip_listen_port :: "int option"
  ip_private_key :: "string option"
  ip_clear_private_key :: bool
  ip_public_key :: "string option"
  ip_mtu :: "int option"
  ip_table_name :: "string option"
  ip_dns :: "string list"
  ip_custom_config :: "string option"

definition is_ipv6_interface :: "string \<Rightarrow> bool" where
  "is_ipv6_interface value = (parse_ipv6 (takeWhile (\<lambda>c. c \<noteq> CHR ''/'') value) \<noteq> None)"

definition validate_wireguard_ipv6_mtu :: "int option \<Rightarrow> string list list \<Rightarrow> unit reply" where
  "validate_wireguard_ipv6_mtu mtu groups = (case mtu of None \<Rightarrow> Inr () | Some m \<Rightarrow>
     if 1280 \<le> m then Inr ()
     else ensure (\<not> list_ex (list_ex is_ipv6_interface) groups)
            (HTTP 400 ''IPv6 WireGuard MTU must be at least 1280''))"

definition new_iface :: "int \<Rightarrow> string \<Rightarrow> iface" where
  "new_iface node_id name = \<lparr>if_id = 0, if_node_id = node_id, if_name = name, if_tunnel_ips = [],
     if_listen_port = None, if_private_key_value = None, if_public_key = None, if_mtu = None,
     if_fwmark = None, if_table_name = None, if_dns = [], if_pre_up = [], if_post_up = [],
     if_pre_down = [], if_post_down = [], if_source = ''created'', if_managed = True,
     if_enabled = True, if_deployed_config = None, if_runtime_status = ''stopped'',
     if_import_path = None, if_extras = JObj [], if_warnings = JList []\<rparr>"

definition add_iface :: "iface \<Rightarrow> db \<Rightarrow> iface \<times> db" where
  "add_iface i d = (let i' = i\<lparr>if_id := next_id if_id (db_ifaces d)\<rparr> in
     (i', d\<lparr>db_ifaces := db_ifaces d @ [i']\<rparr>))"

definition new_peer :: "int \<Rightarrow> string \<Rightarrow> peer" where
  "new_peer interface_id public_key = \<lparr>pr_id = 0, pr_interface_id = interface_id, pr_peer_node_id = None,
     pr_peer_interface_id = None, pr_name = None, pr_public_key = public_key,
     pr_preshared_key_value = None, pr_endpoint_host = None, pr_endpoint_port = None,
     pr_allowed_ips = [], pr_persistent_keepalive = None, pr_source = ''created'', pr_enabled = True,
     pr_extras = JObj [], pr_warnings = JList []\<rparr>"

definition add_peer :: "peer \<Rightarrow> db \<Rightarrow> peer \<times> db" where
  "add_peer p d = (let p' = p\<lparr>pr_id := next_id pr_id (db_peers d)\<rparr> in
     (p', d\<lparr>db_peers := db_peers d @ [p']\<rparr>))"

definition fill_interface :: "interface_payload \<Rightarrow> iface \<Rightarrow> iface" where
  "fill_interface p i = i\<lparr>if_tunnel_ips := ip_tunnel_ips p, if_listen_port := ip_listen_port p,
     if_public_key := ip_public_key p, if_mtu := ip_mtu p, if_table_name := ip_table_name p,
     if_dns := ip_dns p, if_extras := set_extra ''custom_config'' (ip_custom_config p) (if_extras i)\<rparr>"

definition create_interface :: "env \<Rightarrow> int \<Rightarrow> interface_payload \<Rightarrow> db \<Rightarrow> (iface \<times> db) reply" where
  "create_interface en node_id p d =
     rbind (validate_wireguard_ipv6_mtu (ip_mtu p) [ip_tunnel_ips p]) (\<lambda>_.
     rbind (require_online_node (en_offline_after en) (en_now en) node_id d) (\<lambda>_.
     rbind (ensure_unique_interface_name node_id (ip_name p) None None d) (\<lambda>_.
       Inr (add_iface ((fill_interface p (new_iface node_id (ip_name p)))
              \<lparr>if_private_key_value := ip_private_key p\<rparr>) d))))"

definition update_interface :: "env \<Rightarrow> int \<Rightarrow> interface_payload \<Rightarrow> db \<Rightarrow> (iface \<times> db) reply" where
  "update_interface en k p d =
     rbind (validate_wireguard_ipv6_mtu (ip_mtu p) [ip_tunnel_ips p]) (\<lambda>_.
     rbind (some_or (get_iface k d) (HTTP 404 ''interface not found'')) (\<lambda>i.
     rbind (require_online_node (en_offline_after en) (en_now en) (if_node_id i) d) (\<lambda>_.
     rbind (ensure_unique_interface_name (if_node_id i) (ip_name p) (Some (if_id i)) None d) (\<lambda>_.
       let i1 = (fill_interface p (record_interface_rename (ip_name p) i))
                  \<lparr>if_name := ip_name p,
                   if_private_key_value :=
                     (if set_text (ip_private_key p) then ip_private_key p
                      else if ip_clear_private_key p then None else if_private_key_value i)\<rparr> in
       Inr (i1, put_iface i1 d)))))"

record peer_payload =
  pp_name :: "string option"
  pp_key :: string
  pp_psk :: "string option"
  pp_clear_psk :: bool
  pp_host :: "string option"
  pp_port :: "int option"
  pp_allowed :: "string list"
  pp_keepalive :: "int option"
  pp_custom :: "string option"

definition fill_peer :: "peer_payload \<Rightarrow> peer \<Rightarrow> peer" where
  "fill_peer p q = q\<lparr>pr_name := pp_name p, pr_public_key := pp_key p, pr_endpoint_host := pp_host p,
     pr_endpoint_port := pp_port p, pr_allowed_ips := pp_allowed p, pr_persistent_keepalive := pp_keepalive p,
     pr_enabled := True, pr_extras := set_extra ''custom_config'' (pp_custom p) (pr_extras q)\<rparr>"

definition peers_by_id :: "int \<Rightarrow> db \<Rightarrow> peer list" where
  "peers_by_id k d = sort_key pr_id (filter (\<lambda>p. pr_interface_id p = k) (db_peers d))"

definition keep_first_peer :: "peer list \<Rightarrow> db \<Rightarrow> db" where
  "keep_first_peer ps d = d\<lparr>db_peers := filter (\<lambda>p. pr_id p \<notin> set (map pr_id (tl ps))) (db_peers d)\<rparr>"

definition set_unique_peer :: "env \<Rightarrow> int \<Rightarrow> peer_payload \<Rightarrow> db \<Rightarrow> (peer \<times> db) reply" where
  "set_unique_peer en k p d =
     rbind (get_wireguard_config_or_404 k d) (\<lambda>config.
     rbind (require_online_node (en_offline_after en) (en_now en) (if_node_id config) d) (\<lambda>_.
       case peers_by_id k d of
         q # qs \<Rightarrow>
           (let q' = (fill_peer p q)\<lparr>pr_preshared_key_value :=
                       (if set_text (pp_psk p) then pp_psk p
                        else if pp_clear_psk p then None else pr_preshared_key_value q)\<rparr> in
            Inr (q', keep_first_peer (q # qs) (put_peer q' d)))
       | [] \<Rightarrow> Inr (add_peer ((fill_peer p (new_peer k (pp_key p)))\<lparr>pr_preshared_key_value := pp_psk p\<rparr>) d)))"

text \<open>Reading the peer deletes duplicates of old databases, with a commit of its own.\<close>

definition get_unique_peer :: "int \<Rightarrow> db \<Rightarrow> (peer option \<times> db) reply" where
  "get_unique_peer k d =
     rbind (get_wireguard_config_or_404 k d) (\<lambda>_.
       let ps = peers_by_id k d in
       Inr (first_of ps, if 1 < length ps then keep_first_peer ps d else d))"

definition delete_config_peer :: "int \<Rightarrow> db \<Rightarrow> db reply" where
  "delete_config_peer k d =
     rbind (get_unique_peer k d) (\<lambda>(p, d1). case p of None \<Rightarrow> Inr d1
       | Some p \<Rightarrow> Inr (d1\<lparr>db_peers := tb_del pr_id (pr_id p) (db_peers d1)\<rparr>))"

section \<open>Plans\<close>

definition new_plan :: "string \<Rightarrow> int list \<Rightarrow> string \<Rightarrow> fields \<Rightarrow> plan" where
  "new_plan title nodes diff payload = \<lparr>pl_id = 0, pl_title = title, pl_status = PDraft,
     pl_affected_node_ids = nodes, pl_diff = diff, pl_payload = JObj payload, pl_confirmed_at = None\<rparr>"

definition add_plan :: "plan \<Rightarrow> db \<Rightarrow> plan \<times> db" where
  "add_plan p d = (let p' = p\<lparr>pl_id := next_id pl_id (db_plans d)\<rparr> in
     (p', d\<lparr>db_plans := db_plans d @ [p']\<rparr>))"

definition build_interface_rename_diff :: "env \<Rightarrow> iface \<Rightarrow> string" where
  "build_interface_rename_diff en i = (let old = previous_name i in
     if old = [] \<or> old = if_name i then []
     else en_udiff en (''InterfaceName = '' @ old @ [CHR 0x0A]) (''InterfaceName = '' @ if_name i @ [CHR 0x0A])
            (old @ ''.metadata'') (if_name i @ ''.metadata''))"

definition observed_only :: "iface \<Rightarrow> bool" where
  "observed_only i = (if_source i = ''imported'' \<and> \<not> if_managed i \<and> set_text (if_deployed_config i))"

definition plan_apply :: "env \<Rightarrow> int \<Rightarrow> db \<Rightarrow> (plan \<times> db) reply" where
  "plan_apply en k d =
     rbind (some_or (get_iface k d) (HTTP 404 ''interface not found'')) (\<lambda>i.
     rbind (require_online_node (en_offline_after en) (en_now en) (if_node_id i) d) (\<lambda>_.
     if if_source i = ''managed-node'' then Inl (HTTP 400 ''managed node links are deployed directly'')
     else if count_enabled_peers i d \<noteq> 1
       then Inl (HTTP 400 ''deployable wireguard config must have exactly one enabled peer'')
     else
       let new_config = (if observed_only i then the_or [] (if_deployed_config i) else render_interface_config i d);
           config_diff = en_udiff en (the_or [] (if_deployed_config i)) new_config
             (if_name i @ ''.current'') (if_name i @ ''.link42'');
           rename_diff = build_interface_rename_diff en i;
           diff = config_diff @ (if config_diff \<noteq> [] \<and> rename_diff \<noteq> [] then [CHR 0x0A] else []) @ rename_diff in
       Inr (add_plan (new_plan (''Apply WireGuard interface '' @ if_name i) [if_node_id i] diff
         [(''task_type'', JStr (ts_apply_config wireguard_tasks)), (''task_payload'', JObj (build_apply_plan i d))]) d)))"

definition multi_peer_warning :: string where
  "multi_peer_warning = ''multiple peers''"

definition has_multi_peer_warning :: "iface \<Rightarrow> bool" where
  "has_multi_peer_warning i = list_ex (has_sub multi_peer_warning) (read_string_list (if_warnings i))"

definition take_over_imported_interface :: "env \<Rightarrow> int \<Rightarrow> db \<Rightarrow> (plan \<times> db) reply" where
  "take_over_imported_interface en k d =
     rbind (some_or (get_iface k d) (HTTP 404 ''interface not found'')) (\<lambda>i.
     rbind (require_online_node (en_offline_after en) (en_now en) (if_node_id i) d) (\<lambda>_.
     if if_source i \<noteq> ''imported'' then Inl (HTTP 400 ''only imported interfaces need takeover'')
     else if has_multi_peer_warning i
       then Inl (HTTP 400 ''imported config contains multiple peers and must be split before takeover'')
     else if count_enabled_peers i d \<noteq> 1
       then Inl (HTTP 400 ''imported config must have exactly one enabled peer before takeover'')
     else if set_text (if_deployed_config i) then
       Inr (add_plan ((new_plan (''Take over WireGuard interface '' @ if_name i) [if_node_id i] [] [])
              \<lparr>pl_status := PSucceeded, pl_confirmed_at := Some (en_now en)\<rparr>)
            (put_iface (i\<lparr>if_managed := True\<rparr>) d))
     else
       let new_config = render_interface_config i d in
       Inr (add_plan (new_plan (''Take over WireGuard interface '' @ if_name i) [if_node_id i]
           (en_udiff en [] new_config (if_name i @ ''.imported'') (if_name i @ ''.link42''))
           [(''task_type'', JStr (ts_apply_config wireguard_tasks)),
            (''task_payload'', JObj (build_apply_payload_from_config i new_config)),
            (''post_confirm'', JObj [(''set_interface_managed'', JInt (if_id i))])]) d)))"

section \<open>Status, start, stop, delete\<close>

definition refresh_with :: "(task_set \<Rightarrow> string) \<Rightarrow> env \<Rightarrow> int \<Rightarrow> db \<Rightarrow> db reply" where
  "refresh_with ty en k d =
     rbind (get_wireguard_config_or_404 k d) (\<lambda>i.
     rbind (require_online_node (en_offline_after en) (en_now en) (if_node_id i) d) (\<lambda>_.
     rbind (enqueue_interface_task (en_fresh en) (en_now en) i (ty wireguard_tasks) [] False False d)
       (\<lambda>(_, _, d1). Inr d1)))"

definition refresh_deployed_config :: "env \<Rightarrow> int \<Rightarrow> db \<Rightarrow> db reply" where
  "refresh_deployed_config = refresh_with ts_read_config"

definition refresh_interface_status :: "env \<Rightarrow> int \<Rightarrow> db \<Rightarrow> db reply" where
  "refresh_interface_status = refresh_with ts_status"

definition set_runtime_status :: "string \<Rightarrow> iface \<Rightarrow> db \<Rightarrow> db" where
  "set_runtime_status s i d = put_iface ((reload_iface i d)\<lparr>if_runtime_status := s\<rparr>) d"

definition start_interface :: "env \<Rightarrow> int \<Rightarrow> db \<Rightarrow> db reply" where
  "start_interface en k d =
     rbind (get_wireguard_config_or_404 k d) (\<lambda>i.
     rbind (require_online_node (en_offline_after en) (en_now en) (if_node_id i) d) (\<lambda>n.
     if if_source i = ''managed-node'' then Inl (HTTP 400 ''use managed link operation'')
     else if \<not> set_text (if_deployed_config i) \<and> \<not> node_uses_openwrt_uci (Some n)
       then Inl (HTTP 400 ''wireguard config must be deployed before start'')
     else if if_runtime_status i \<in> {''running'', ''starting''} then Inr d
     else rbind (enqueue_interface_task (en_fresh en) (en_now en) i (ts_start wireguard_tasks) [] False False d)
       (\<lambda>(changed, _, d1). Inr (if changed then set_runtime_status ''starting'' i d1 else d1))))"

definition stop_interface :: "env \<Rightarrow> int \<Rightarrow> db \<Rightarrow> db reply" where
  "stop_interface en k d =
     rbind (get_wireguard_config_or_404 k d) (\<lambda>i.
     rbind (require_online_node (en_offline_after en) (en_now en) (if_node_id i) d) (\<lambda>_.
     if if_source i = ''managed-node'' then Inl (HTTP 400 ''use managed link operation'')
     else if if_runtime_status i \<in> {''stopped'', ''stopping''} then Inr d
     else
       let d1 = snd (cancel_pending_interface_deployment_tasks (en_now en) i d) in
       rbind (enqueue_interface_task (en_fresh en) (en_now en) i (ts_stop wireguard_tasks)
           (stop_after (running_interface_deployment_task_id i d1)) True False d1)
         (\<lambda>(changed, _, d2). Inr (if changed then set_runtime_status ''stopping'' i d2 else d2))))"

definition forget_interface :: "iface \<Rightarrow> db \<Rightarrow> db reply" where
  "forget_interface i d =
     delete_iface_row (if_id i) (cancel_draft_interface_change_plans (if_id i)
       (delete_link_monitors_where (\<lambda>m. mo_interface_id m = Some (if_id i)) d))"

definition delete_interface :: "env \<Rightarrow> int \<Rightarrow> bool \<Rightarrow> db \<Rightarrow> db reply" where
  "delete_interface en k delete_node_config d =
     rbind (get_wireguard_config_or_404 k d) (\<lambda>i.
     if if_source i = ''imported'' \<and> \<not> if_managed i then
       forget_interface i (snd (mark_import_candidate_available_for_interface i d))
     else
       rbind (require_online_node (en_offline_after en) (en_now en) (if_node_id i) d) (\<lambda>_.
       if if_runtime_status i \<in> {''running'', ''starting'', ''stopping''}
       then Inl (HTTP 409 ''wireguard interface must be stopped before delete'')
       else
         let d1 = snd (cancel_pending_interface_deployment_tasks (en_now en) i d);
             d2 = snd (mark_import_candidate_available_for_interface i d1) in
         rbind (if delete_node_config \<and> should_delete_node_config_file i
             then rbind (enqueue_interface_task (en_fresh en) (en_now en) i (ts_delete_config wireguard_tasks) [] False False d2)
                    (\<lambda>(_, _, d3). Inr d3)
             else Inr d2)
           (\<lambda>d3. forget_interface i d3)))"

section \<open>Confirming a plan\<close>

definition identified_payload :: "string \<Rightarrow> iface option \<Rightarrow> fields \<Rightarrow> fields" where
  "identified_payload identity i payload = (case i of
      Some _ \<Rightarrow> dset ''config_identity'' (JStr identity) payload
    | None \<Rightarrow> filter (\<lambda>(k, _). k \<notin> {''config_identity'', ''ipam_owner''}) payload)"

text \<open>
  \<open>create_change_plan_agent_tasks\<close>: one task, or for a renamed interface the chain that
  stops and deletes the old name before it applies the new one.
\<close>

definition create_change_plan_agent_tasks ::
  "env \<Rightarrow> int \<Rightarrow> string \<Rightarrow> fields \<Rightarrow> int \<Rightarrow> db \<Rightarrow> (task list \<times> db) reply" where
  "create_change_plan_agent_tasks en plan_id ty payload0 node_id d =
     (let found = (case row_key (dget payload0 ''interface_id'') of None \<Rightarrow> None
            | Some k \<Rightarrow> if k = 0 then None else get_iface k d);
          (identity, d1) = (case found of None \<Rightarrow> ([], d)
            | Some i \<Rightarrow> (case iface_identity (en_fresh en) i of (t, i') \<Rightarrow> (t, put_iface i' d)));
          payload = identified_payload identity found payload0;
          old = strip (str_or_empty (dget payload ''previous_interface_name'')) in
      if found \<noteq> None \<and> old \<noteq> [] \<and> JStr old \<noteq> dget payload ''interface_name'' \<and>
         ty = ts_apply_config wireguard_tasks then
        rbind (case get_node node_id d1 of None \<Rightarrow> Inr ()
            | Some n \<Rightarrow> rbind (require_task_supported n (ts_stop wireguard_tasks)) (\<lambda>_.
                require_task_supported n (ts_delete_config wireguard_tasks))) (\<lambda>_.
          let previous_payload = [(''node_id'', JInt node_id),
                (''interface_id'', jopt_int (map_option if_id found)),
                (''interface_name'', JStr old), (''config_identity'', JStr identity)];
              (stop, d2) = add_task (new_task node_id (Some plan_id) (ts_stop wireguard_tasks) (JObj previous_payload)) d1;
              (del, d3) = add_task (new_task node_id (Some plan_id) (ts_delete_config wireguard_tasks)
                (JObj (dset ''depends_on_task_id'' (JInt (tk_id stop)) previous_payload))) d2;
              (apply, d4) = add_task (new_task node_id (Some plan_id) ty
                (JObj (dset ''depends_on_task_id'' (JInt (tk_id del)) payload))) d3 in
          Inr ([stop, del, apply], d4))
      else
        let (t, d2) = add_task (new_task node_id (Some plan_id) ty (JObj payload)) d1 in Inr ([t], d2))"

definition plan_task :: "plan \<Rightarrow> (string \<times> fields \<times> int) reply" where
  "plan_task p = (let pp = json_object (pl_payload p) in
     case (dget pp ''task_payload'', dget pp ''task_type'') of
       (JObj payload, JStr ty) \<Rightarrow>
         if payload = [] \<or> ty = [] then Inl (HTTP 400 ''change plan has no task payload'')
         else (case dget payload ''node_id'' of
             JInt n \<Rightarrow> Inr (ty, payload, n)
           | _ \<Rightarrow> Inl (HTTP 400 ''change plan task payload has invalid node id''))
     | _ \<Rightarrow> Inl (HTTP 400 ''change plan has no task payload''))"

text \<open>The interface a plan was made for must still be there, on its node, under its name.\<close>

definition plan_interface_current :: "fields \<Rightarrow> int \<Rightarrow> db \<Rightarrow> unit reply" where
  "plan_interface_current payload node_id d =
     (if \<not> dhas payload ''interface_id'' then Inr ()
      else case dget payload ''interface_id'' of
        JInt k \<Rightarrow>
          (case get_iface k d of
            None \<Rightarrow> Inl (HTTP 409 ''change plan interface has changed or been deleted; generate a new plan'')
          | Some i \<Rightarrow> ensure (if_node_id i = node_id \<and> dget payload ''interface_name'' = JStr (if_name i))
              (HTTP 409 ''change plan interface has changed or been deleted; generate a new plan''))
      | _ \<Rightarrow> Inl (HTTP 400 ''change plan task payload has invalid interface id''))"

definition post_confirm :: "plan \<Rightarrow> db \<Rightarrow> db" where
  "post_confirm p d =
     (let pc = json_object (dget (json_object (pl_payload p)) ''post_confirm'');
          v = dget pc ''set_interface_managed'' in
      if \<not> truthy v then d
      else case row_key v of None \<Rightarrow> d
        | Some k \<Rightarrow> (case get_iface k d of None \<Rightarrow> d | Some i \<Rightarrow> put_iface (i\<lparr>if_managed := True\<rparr>) d))"

definition confirm_change_plan :: "env \<Rightarrow> int \<Rightarrow> db \<Rightarrow> (task list \<times> db) reply" where
  "confirm_change_plan en k d =
     rbind (some_or (get_plan k d) (HTTP 404 ''change plan not found'')) (\<lambda>p.
     if pl_status p \<noteq> PDraft then Inl (HTTP 409 ''change plan is not draft'')
     else if strip (pl_diff p) = [] then Inl (HTTP 400 ''change plan has no diff'')
     else
       rbind (plan_task p) (\<lambda>(ty, payload, node_id).
       rbind (require_online_node (en_offline_after en) (en_now en) node_id d) (\<lambda>n.
       rbind (require_task_supported n ty) (\<lambda>_.
       rbind (plan_interface_current payload node_id d) (\<lambda>_.
         let d1 = put_plan (p\<lparr>pl_status := PConfirmed, pl_confirmed_at := Some (en_now en)\<rparr>) d;
             d2 = post_confirm p d1 in
         create_change_plan_agent_tasks en (pl_id p) ty payload node_id d2)))))"

section \<open>Import\<close>

definition import_scan_type :: string where "import_scan_type = ''wireguard.import_scan''"

definition node_task_active :: "int \<Rightarrow> string \<Rightarrow> task \<Rightarrow> bool" where
  "node_task_active node_id ty t = (tk_node_id t = node_id \<and> tk_type t = ty \<and> tk_status t \<in> {Pending, Running})"

definition request_import_scan :: "env \<Rightarrow> int \<Rightarrow> db \<Rightarrow> (task \<times> db) reply" where
  "request_import_scan en node_id d =
     rbind (require_online_node (en_offline_after en) (en_now en) node_id d) (\<lambda>n.
     if node_uses_openwrt_uci (Some n)
     then Inl (HTTP 409 ''OpenWrt UCI nodes do not support wg-quick import scan'')
     else rbind (require_task_supported n import_scan_type) (\<lambda>_.
       let d1 = snd (expire_stale_running_agent_tasks (Some node_id) (en_now en) d) in
       case first_of (filter (node_task_active node_id import_scan_type) (db_tasks d1)) of
         Some t \<Rightarrow> Inr (t, d)
       | None \<Rightarrow>
           (case insert_task ((new_task node_id None import_scan_type (JObj [(''node_id'', JInt node_id)]))
               \<lparr>tk_dedup_key := Some (''node:'' @ show_int node_id @ '':'' @ import_scan_type)\<rparr>) d1 of
             Some (t, d2) \<Rightarrow> Inr (t, d2)
           | None \<Rightarrow>
               (case first_of (filter (node_task_active node_id import_scan_type) (db_tasks d1)) of
                 None \<Rightarrow> Inl (HTTP 500 ''integrity error'') | Some t \<Rightarrow> Inr (t, d)))))"

definition list_import_candidates :: "int \<Rightarrow> db \<Rightarrow> candidate list reply" where
  "list_import_candidates node_id d =
     rbind (some_or (get_node node_id d) (HTTP 404 ''node not found'')) (\<lambda>_.
       Inr (filter (\<lambda>c. should_offer_import_candidate c (existing_interface_names node_id d))
         (rev (sort_key ic_id (filter (\<lambda>c. ic_node_id c = node_id \<and> \<not> ic_imported c) (db_candidates d))))))"

definition json_text :: "json \<Rightarrow> string option" where
  "json_text v = (case v of JStr s \<Rightarrow> Some s | _ \<Rightarrow> None)"

definition json_num :: "json \<Rightarrow> int option" where
  "json_num v = (case v of JInt n \<Rightarrow> Some n | _ \<Rightarrow> None)"

text \<open>An encrypted text column takes \<open>None\<close> or a text; anything else fails in the bind.\<close>

definition storable_text :: "json \<Rightarrow> bool" where
  "storable_text v = (case v of JNull \<Rightarrow> True | JStr _ \<Rightarrow> True | _ \<Rightarrow> False)"

definition imported_iface :: "candidate \<Rightarrow> fields \<Rightarrow> json list \<Rightarrow> iface" where
  "imported_iface c parsed warnings =
     (new_iface (ic_node_id c) (the_or [] (json_text (dget parsed ''name''))))
       \<lparr>if_tunnel_ips := read_string_list (dget parsed ''addresses''),
        if_listen_port := json_num (dget parsed ''listen_port''),
        if_private_key_value := json_text (dget parsed ''private_key''),
        if_mtu := json_num (dget parsed ''mtu''),
        if_fwmark := json_text (dget parsed ''fwmark''),
        if_table_name := json_text (dget parsed ''table''),
        if_dns := read_string_list (dget parsed ''dns''),
        if_pre_up := read_string_list (dget parsed ''pre_up''),
        if_post_up := read_string_list (dget parsed ''post_up''),
        if_pre_down := read_string_list (dget parsed ''pre_down''),
        if_post_down := read_string_list (dget parsed ''post_down''),
        if_source := ''imported'', if_managed := False,
        if_deployed_config := json_text (dget (json_object (ic_parsed c)) ''raw_config''),
        if_import_path := Some (ic_path c),
        if_extras := dget parsed ''extras'', if_warnings := JList warnings\<rparr>"

definition imported_peer :: "int \<Rightarrow> fields \<Rightarrow> peer" where
  "imported_peer interface_id q =
     (case split_endpoint (json_text (dget q ''endpoint'')) of (host, port) \<Rightarrow>
       (new_peer interface_id (the_or [] (json_text (dget q ''public_key''))))
         \<lparr>pr_preshared_key_value := json_text (dget q ''preshared_key''),
          pr_endpoint_host := host, pr_endpoint_port := port,
          pr_allowed_ips := read_string_list (dget q ''allowed_ips''),
          pr_persistent_keepalive := json_num (dget q ''persistent_keepalive''),
          pr_source := ''imported'', pr_extras := dget q ''extras'', pr_warnings := dget q ''warnings''\<rparr>)"

definition json_items :: "json \<Rightarrow> json list" where
  "json_items v = (case v of JList xs \<Rightarrow> xs | _ \<Rightarrow> [])"

text \<open>
  \<open>import_candidate\<close>: the interface name is checked by the unique constraint of the table
  alone, whose violation is an unhandled error.
\<close>

definition import_candidate :: "int \<Rightarrow> int \<Rightarrow> db \<Rightarrow> (iface \<times> db) reply" where
  "import_candidate node_id candidate_id d =
     rbind (some_or (get_candidate candidate_id d) (HTTP 404 ''import candidate not found'')) (\<lambda>c.
     if ic_node_id c \<noteq> node_id then Inl (HTTP 404 ''import candidate not found'')
     else if ic_imported c then Inl (HTTP 409 ''candidate already imported'')
     else case normalize_import_candidate_parsed (ic_parsed c) of
       Inl Refused \<Rightarrow> Inl (HTTP 409 ''import candidate data is invalid'')
     | Inl Crashed \<Rightarrow> Inl (HTTP 500 ''attribute error'')
     | Inr parsed \<Rightarrow>
         let peers = json_items (dget parsed ''peers'');
             warnings = json_items (dget parsed ''warnings'') @
               (if 1 < length peers then [JStr multi_peer_warning] else []);
             i = imported_iface c parsed warnings;
             d1 = d\<lparr>db_candidates := tb_put ic_id (c\<lparr>ic_imported := True\<rparr>) (db_candidates d)\<rparr> in
         if list_ex (\<lambda>j. if_node_id j = node_id \<and> if_name j = if_name i) (db_ifaces d1)
         then Inl (HTTP 500 ''integrity error'')
         else if \<not> storable_text (dget parsed ''private_key'') \<or>
           list_ex (\<lambda>q. \<not> storable_text (dget (json_object q) ''preshared_key'') \<or>
             \<not> storable_text (dget (json_object q) ''public_key'')) (take 1 peers)
         then Inl (HTTP 500 ''statement error'')
         else case add_iface i d1 of (i', d2) \<Rightarrow>
           Inr (i', fold (\<lambda>q e. snd (add_peer (imported_peer (if_id i') (json_object q)) e)) (take 1 peers) d2))"

end
