(* ===== verification/JsonText.thy ===== *)
theory JsonText
  imports Json IpAddress
begin

text \<open>
  The text of JSON values: what \<open>json.dumps(v, ensure_ascii=False, sort_keys=True, indent=2)\<close>
  writes for a dictionary and what \<open>json.loads\<close> reads. Characters beyond the range of the model
  are refused; a number with a fraction or an exponent keeps its text.
\<close>

section \<open>Writing\<close>

definition dump_char :: "char \<Rightarrow> string" where
  "dump_char c =
     (if c = CHR 0x22 \<or> c = CHR 0x5C then [CHR 0x5C, c]
      else if c = CHR 0x0A then [CHR 0x5C, CHR ''n'']
      else if c = CHR 0x0D then [CHR 0x5C, CHR ''r'']
      else if c = CHR 0x09 then [CHR 0x5C, CHR ''t'']
      else if c = CHR 0x0C then [CHR 0x5C, CHR ''f'']
      else if c = CHR 0x08 then [CHR 0x5C, CHR ''b'']
      else if code c < 0x20
        then [CHR 0x5C, CHR ''u'', CHR ''0'', CHR ''0'', hex_digit (code c div 16), hex_digit (code c mod 16)]
      else [c])"

definition dump_str :: "string \<Rightarrow> string" where
  "dump_str s = [CHR 0x22] @ concat (map dump_char s) @ [CHR 0x22]"

fun dump_text :: "json \<Rightarrow> string" where
  "dump_text JNull = ''null''"
| "dump_text (JBool b) = (if b then ''true'' else ''false'')"
| "dump_text (JInt n) = show_int n"
| "dump_text (JFloat t) = (if t = ''nan'' then ''NaN'' else if t = ''inf'' then ''Infinity''
     else if t = ''-inf'' then ''-Infinity'' else t)"
| "dump_text (JStr s) = dump_str s"
| "dump_text (JList xs) = ''['' @ join '', '' (map dump_text xs) @ '']''"
| "dump_text (JObj d) = ''{'' @ join '', '' (map (\<lambda>(k, v). dump_str k @ '': '' @ dump_text v) d) @ ''}''"

text \<open>A new line at a depth of indentation.\<close>

definition new_line :: "nat \<Rightarrow> string" where
  "new_line depth = CHR 0x0A # replicate (2 * depth) (CHR '' '')"

fun indented :: "nat \<Rightarrow> json \<Rightarrow> string" where
  "indented l (JList xs) = (if xs = [] then ''[]'' else ''['' @ new_line (Suc l) @
     join ('','' @ new_line (Suc l)) (map (indented (Suc l)) xs) @ new_line l @ '']'')"
| "indented l (JObj d) = (if d = [] then ''{}'' else ''{'' @ new_line (Suc l) @
     join ('','' @ new_line (Suc l)) (map (\<lambda>(k, v). dump_str k @ '': '' @ indented (Suc l) v) d) @ new_line l @ ''}'')"
| "indented l v = dump_text v"

section \<open>Reading\<close>

definition json_space :: "char \<Rightarrow> bool" where
  "json_space c = (c \<in> {CHR '' '', CHR 0x09, CHR 0x0A, CHR 0x0D})"

definition skip :: "string \<Rightarrow> string" where
  "skip s = dropWhile json_space s"

text \<open>What stands for an escape, and the text behind it.\<close>

definition unescape :: "string \<Rightarrow> (char \<times> string) option" where
  "unescape s = (case s of [] \<Rightarrow> None | e # r \<Rightarrow>
     if e = CHR 0x22 \<or> e = CHR 0x5C \<or> e = CHR ''/'' then Some (e, r)
     else if e = CHR ''n'' then Some (CHR 0x0A, r) else if e = CHR ''r'' then Some (CHR 0x0D, r)
     else if e = CHR ''t'' then Some (CHR 0x09, r) else if e = CHR ''f'' then Some (CHR 0x0C, r)
     else if e = CHR ''b'' then Some (CHR 0x08, r)
     else if e = CHR ''u'' \<and> 4 \<le> length r \<and> list_all is_hex (take 4 r) \<and> take 2 r = ''00''
       then Some (char_of (hex_value (r ! 2) * 16 + hex_value (r ! 3)), drop 4 r)
     else None)"

lemma unescape_shorter: "unescape s = Some (c, r) \<Longrightarrow> length r < length s"
  by (auto simp: unescape_def split: list.splits if_splits)

text \<open>A text behind its opening quote.\<close>

function read_text :: "string \<Rightarrow> (string \<times> string) option" where
  "read_text [] = None"
| "read_text (c # cs) = (if c = CHR 0x22 then Some ([], cs)
     else if c = CHR 0x5C then (case unescape cs of None \<Rightarrow> None
       | Some (x, r) \<Rightarrow> map_option (\<lambda>(t, u). (x # t, u)) (read_text r))
     else if code c < 0x20 then None
     else map_option (\<lambda>(t, u). (c # t, u)) (read_text cs))"
  by pat_completeness auto

termination
  by (relation "measure length") (auto dest: unescape_shorter intro: less_SucI)

definition read_fraction :: "string \<Rightarrow> string" where
  "read_fraction s = (case s of c # r \<Rightarrow>
     if c = CHR ''.'' \<and> takeWhile is_dec r \<noteq> [] then c # takeWhile is_dec r else [] | [] \<Rightarrow> [])"

definition read_exponent :: "string \<Rightarrow> string" where
  "read_exponent s = (case s of [] \<Rightarrow> [] | e # r \<Rightarrow>
     let sign = (case r of c # _ \<Rightarrow> if c = CHR ''+'' \<or> c = CHR ''-'' then [c] else [] | [] \<Rightarrow> []);
         digits = takeWhile is_dec (drop (length sign) r) in
     if (e = CHR ''e'' \<or> e = CHR ''E'') \<and> digits \<noteq> [] then e # sign @ digits else [])"

text \<open>A number begins with a zero alone or with another digit; \<open>int\<close> refuses more than 4300 digits.\<close>

definition read_number :: "string \<Rightarrow> (json \<times> string) option" where
  "read_number s =
     (let neg = starts_with s ''-''; r = (if neg then tl s else s); ds = takeWhile is_dec r;
          ip = (if starts_with ds ''0'' then ''0'' else ds); r1 = drop (length ip) r;
          f = read_fraction r1; r2 = drop (length f) r1; e = read_exponent r2; r3 = drop (length e) r2 in
      if ip = [] then None
      else if f = [] \<and> e = [] then
        (if max_int_digits < length ip then None
         else Some (JInt (if neg then - dec_value 0 ip else dec_value 0 ip), r3))
      else Some (JFloat ((if neg then ''-'' else []) @ ip @ f @ e), r3))"

definition read_literal :: "string \<Rightarrow> (json \<times> string) option" where
  "read_literal s = (if starts_with s ''null'' then Some (JNull, drop 4 s)
     else if starts_with s ''true'' then Some (JBool True, drop 4 s)
     else if starts_with s ''false'' then Some (JBool False, drop 5 s)
     else if starts_with s ''NaN'' then Some (JFloat ''nan'', drop 3 s)
     else if starts_with s ''Infinity'' then Some (JFloat ''inf'', drop 8 s)
     else if starts_with s ''-Infinity'' then Some (JFloat ''-inf'', drop 9 s)
     else read_number s)"

text \<open>The first argument bounds the values read; the length of the text is enough.\<close>

fun read_value :: "nat \<Rightarrow> string \<Rightarrow> (json \<times> string) option"
  and read_items :: "nat \<Rightarrow> string \<Rightarrow> (json list \<times> string) option"
  and read_members :: "nat \<Rightarrow> string \<Rightarrow> (fields \<times> string) option" where
  "read_value 0 s = None"
| "read_value (Suc n) s = (case s of [] \<Rightarrow> None | c # cs \<Rightarrow>
     if c = CHR 0x22 then map_option (\<lambda>(t, r). (JStr t, r)) (read_text cs)
     else if c = CHR ''['' then
       (if starts_with (skip cs) '']'' then Some (JList [], tl (skip cs))
        else map_option (\<lambda>(xs, r). (JList xs, r)) (read_items n (skip cs)))
     else if c = CHR ''{'' then
       (if starts_with (skip cs) ''}'' then Some (JObj [], tl (skip cs))
        else map_option (\<lambda>(d, r). (JObj (fold (\<lambda>(k, v). dset k v) d []), r)) (read_members n (skip cs)))
     else read_literal s)"
| "read_items 0 s = None"
| "read_items (Suc n) s = (case read_value n s of None \<Rightarrow> None | Some (v, r) \<Rightarrow>
     if starts_with (skip r) '','' then map_option (\<lambda>(vs, u). (v # vs, u)) (read_items n (skip (tl (skip r))))
     else if starts_with (skip r) '']'' then Some ([v], tl (skip r)) else None)"
| "read_members 0 s = None"
| "read_members (Suc n) s = (if \<not> starts_with s [CHR 0x22] then None
     else (case read_text (tl s) of None \<Rightarrow> None | Some (k, r) \<Rightarrow>
       if \<not> starts_with (skip r) '':'' then None
       else (case read_value n (skip (tl (skip r))) of None \<Rightarrow> None | Some (v, u) \<Rightarrow>
         if starts_with (skip u) '','' then map_option (\<lambda>(d, w). ((k, v) # d, w)) (read_members n (skip (tl (skip u))))
         else if starts_with (skip u) ''}'' then Some ([(k, v)], tl (skip u)) else None)))"

definition loads :: "string \<Rightarrow> json option" where
  "loads s = (case read_value (Suc (length s)) (skip s) of None \<Rightarrow> None
     | Some (v, r) \<Rightarrow> if skip r = [] then Some v else None)"

end
