(* ===== verification/LookingGlass.thy ===== *)
theory LookingGlass
  imports WgHandlers JsonText
begin

text \<open>
  The third-party looking glass API of main.py: authentication by integration key, scopes, the
  admission of a query (reuse of a recent identical query, bounded queue of a node), the
  agent task behind a query, and the refresh of a query from its task. The fingerprint hash
  and the random parts of keys and public ids are parameters.
\<close>

section \<open>Queries\<close>

definition looking_glass_query_queue_limit :: nat where "looking_glass_query_queue_limit = 20"
definition looking_glass_queue_timeout :: time where "looking_glass_queue_timeout = seconds 30"
definition looking_glass_total_deadline :: time where "looking_glass_total_deadline = seconds 60"
definition looking_glass_result_retention :: time where "looking_glass_result_retention = seconds 600"
definition looking_glass_cache_window :: time where "looking_glass_cache_window = seconds 5"

definition query_active :: "lg_query \<Rightarrow> bool" where
  "query_active q = (lq_status q = QQueued \<or> lq_status q = QRunning)"

definition past :: "time \<Rightarrow> time option \<Rightarrow> bool" where
  "past now x = (case x of None \<Rightarrow> False | Some t \<Rightarrow> t \<le> now)"

text \<open>\<open>x or y\<close> for values that are never false.\<close>

definition or_some :: "'a option \<Rightarrow> 'a option \<Rightarrow> 'a option" where
  "or_some x y = (case x of None \<Rightarrow> y | Some _ \<Rightarrow> x)"

definition or_json :: "json \<Rightarrow> json \<Rightarrow> json" where
  "or_json x y = (if truthy x then x else y)"

definition query_timed_out :: "time \<Rightarrow> string \<Rightarrow> lg_query \<Rightarrow> lg_query" where
  "query_timed_out now msg q = q\<lparr>lq_status := QFailed, lq_error_code := Some ''query_timeout'',
     lq_error_message := Some msg, lq_finished_at := Some now\<rparr>"

definition queue_wait_text :: string where
  "queue_wait_text = ''query timed out waiting for the agent''"

definition query_from_succeeded :: "time \<Rightarrow> task \<Rightarrow> lg_query \<Rightarrow> lg_query" where
  "query_from_succeeded now t q =
     (let r = json_object (the_or JNull (tk_result t));
          q1 = q\<lparr>lq_started_at := or_some (lq_started_at q) (tk_started_at t),
                 lq_finished_at := or_some (or_some (lq_finished_at q) (tk_finished_at t)) (Some now),
                 lq_result := Some (JObj r)\<rparr> in
      if truthy (dget r ''error_code'')
      then q1\<lparr>lq_status := QFailed, lq_error_code := Some (py_str (dget r ''error_code'')),
              lq_error_message := Some (take 500 (py_str (or_json (dget r ''error'') (JStr ''query failed''))))\<rparr>
      else q1\<lparr>lq_status := QSucceeded, lq_error_code := None, lq_error_message := None\<rparr>)"

definition query_from_ended :: "time \<Rightarrow> task \<Rightarrow> lg_query \<Rightarrow> lg_query" where
  "query_from_ended now t q =
     (let r = json_object (the_or JNull (tk_result t)) in
      q\<lparr>lq_status := (if tk_status t = Failed then QFailed else QCancelled),
        lq_started_at := or_some (lq_started_at q) (tk_started_at t),
        lq_finished_at := or_some (or_some (lq_finished_at q) (tk_finished_at t)) (Some now),
        lq_error_code := Some (py_str (or_json (or_json (dget r ''error_code'') (dget r ''code'')) (JStr (status_text (tk_status t))))),
        lq_error_message := Some (take 500 (py_str (or_json (or_json (dget r ''error'') (dget r ''message'')) (JStr ''query failed''))))\<rparr>)"

definition queue_timeout_result :: json where
  "queue_timeout_result = JObj [(''error_code'', JStr ''query_timeout''),
     (''error'', JStr ''query queue timeout before agent polling'')]"

text \<open>The query after reading the task it stands on, and the task, which is failed here when it
  waited past its own deadline.\<close>

definition query_after_task :: "time \<Rightarrow> task \<Rightarrow> lg_query \<Rightarrow> lg_query \<times> task" where
  "query_after_task now t q = (case tk_status t of
      Pending \<Rightarrow>
        if past now (tk_deadline_at t)
        then (query_timed_out now queue_wait_text q, fail_task now queue_timeout_result t)
        else (q\<lparr>lq_status := QQueued\<rparr>, t)
    | Running \<Rightarrow> (q\<lparr>lq_status := QRunning, lq_started_at := or_some (lq_started_at q) (tk_started_at t)\<rparr>, t)
    | Succeeded \<Rightarrow> (query_from_succeeded now t q, t)
    | _ \<Rightarrow> (query_from_ended now t q, t))"

definition expire_active_query :: "time \<Rightarrow> string \<Rightarrow> lg_query \<Rightarrow> lg_query" where
  "expire_active_query now msg q =
     (if query_active q \<and> past now (lq_deadline_at q) then query_timed_out now msg q else q)"

definition refresh_looking_glass_query_from_task :: "time \<Rightarrow> lg_query \<Rightarrow> db \<Rightarrow> db" where
  "refresh_looking_glass_query_from_task now q d =
     (case (case lq_agent_task_id q of None \<Rightarrow> None | Some k \<Rightarrow> get_task k d) of
        None \<Rightarrow> put_query (expire_active_query now queue_wait_text q) d
      | Some t \<Rightarrow> (case query_after_task now t q of (q1, t1) \<Rightarrow>
          put_query (expire_active_query now ''query timed out'' q1) (put_task t1 d)))"

section \<open>Keys\<close>

definition api_error :: "int \<Rightarrow> string \<Rightarrow> http_error" where
  "api_error status error_code = HTTP status error_code"

definition integration_token_prefix :: "string \<Rightarrow> string option" where
  "integration_token_prefix token = (case split_first (CHR ''_'') token of (a, rest) \<Rightarrow>
     (case split_first (CHR ''_'') rest of (b, c) \<Rightarrow>
       if CHR ''_'' \<notin> set token \<or> CHR ''_'' \<notin> set rest \<or> a \<noteq> ''l42lg'' \<or> b = [] then None
       else Some (a @ ''_'' @ b)))"

definition key_usable :: "time \<Rightarrow> api_key \<Rightarrow> bool" where
  "key_usable now k = (ak_enabled k \<and> ak_revoked_at k = None \<and>
     (case ak_expires_at k of None \<Rightarrow> True | Some t \<Rightarrow> now < t))"

definition put_key :: "api_key \<Rightarrow> db \<Rightarrow> db" where
  "put_key k d = d\<lparr>db_keys := tb_put ak_id k (db_keys d)\<rparr>"

definition get_key :: "int \<Rightarrow> db \<Rightarrow> api_key option" where
  "get_key k d = tb_get ak_id k (db_keys d)"

definition require_looking_glass_api_key ::
  "(string \<Rightarrow> string \<Rightarrow> bool) \<Rightarrow> time \<Rightarrow> string option \<Rightarrow> string option \<Rightarrow> db \<Rightarrow> (api_key \<times> db) reply" where
  "require_looking_glass_api_key verify_token now token ip d =
     rbind (some_or token (api_error 401 ''invalid_api_key'')) (\<lambda>tok.
     rbind (some_or (integration_token_prefix tok) (api_error 401 ''invalid_api_key'')) (\<lambda>prefix.
     rbind (some_or (find (\<lambda>k. ak_token_prefix k = prefix) (db_keys d)) (api_error 401 ''invalid_api_key'')) (\<lambda>k.
     rbind (ensure (key_usable now k \<and> verify_token tok (ak_token_hash k)) (api_error 401 ''invalid_api_key'')) (\<lambda>_.
       let k' = k\<lparr>ak_last_used_at := Some now, ak_last_used_ip := ip\<rparr> in Inr (k', put_key k' d)))))"

definition require_looking_glass_scope :: "api_key \<Rightarrow> string \<Rightarrow> unit reply" where
  "require_looking_glass_scope k scope =
     ensure (List.member (ak_scopes k) scope) (api_error 403 ''permission_denied'')"

text \<open>The scopes of a request to create or change a key.\<close>

definition validate_scopes :: "string list \<Rightarrow> (string, string list) result" where
  "validate_scopes values =
     (let cleaned = sorted_set (filter (\<lambda>s. s \<noteq> []) (map strip values)) in
      if \<not> list_all (\<lambda>s. s \<in> {''looking_glass.nodes.read'', ''looking_glass.bird.route''}) cleaned
      then Inl ''unsupported scopes''
      else if cleaned = [] then Inl ''at least one scope is required''
      else Inr cleaned)"

text \<open>A fresh token: its searchable prefix, the hash of the whole and its last characters.\<close>

record issued =
  is_public :: string
  is_secret :: string

definition issued_prefix :: "issued \<Rightarrow> string" where
  "issued_prefix s = ''l42lg_'' @ is_public s"

definition issued_token :: "issued \<Rightarrow> string" where
  "issued_token s = issued_prefix s @ ''_'' @ is_secret s"

definition token_hint :: "string \<Rightarrow> string" where
  "token_hint token = drop (length token - 10) token"

definition create_looking_glass_token ::
  "(string \<Rightarrow> string) \<Rightarrow> issued \<Rightarrow> string \<Rightarrow> string list \<Rightarrow> time option \<Rightarrow> db \<Rightarrow> (string \<times> api_key) \<times> db" where
  "create_looking_glass_token hash_token s name scopes expires d =
     (let tok = issued_token s;
          k = \<lparr>ak_id = next_id ak_id (db_keys d), ak_name = strip name, ak_token_prefix = issued_prefix s,
               ak_token_hash = hash_token tok, ak_token_hint = token_hint tok, ak_scopes = scopes,
               ak_enabled = True, ak_expires_at = expires, ak_last_used_at = None,
               ak_last_used_ip = None, ak_revoked_at = None\<rparr> in
      ((tok, k), d\<lparr>db_keys := db_keys d @ [k]\<rparr>))"

text \<open>An update names the fields it changes; the expiry may be set to none.\<close>

record token_update =
  tu_name :: "string option"
  tu_scopes :: "string list option"
  tu_enabled :: "bool option"
  tu_expires :: "time option option"

definition update_looking_glass_token :: "int \<Rightarrow> token_update \<Rightarrow> db \<Rightarrow> (api_key \<times> db) reply" where
  "update_looking_glass_token token_id p d =
     rbind (some_or (get_key token_id d) (HTTP 404 ''token not found'')) (\<lambda>k.
       let k' = k\<lparr>ak_name := (case tu_name p of None \<Rightarrow> ak_name k | Some n \<Rightarrow> strip n),
                  ak_scopes := the_or (ak_scopes k) (tu_scopes p),
                  ak_enabled := the_or (ak_enabled k) (tu_enabled p),
                  ak_expires_at := the_or (ak_expires_at k) (tu_expires p)\<rparr> in
       Inr (k', put_key k' d))"

definition rotate_looking_glass_token ::
  "(string \<Rightarrow> string) \<Rightarrow> issued \<Rightarrow> int \<Rightarrow> db \<Rightarrow> ((string \<times> api_key) \<times> db) reply" where
  "rotate_looking_glass_token hash_token s token_id d =
     rbind (some_or (get_key token_id d) (HTTP 404 ''token not found'')) (\<lambda>k.
       let tok = issued_token s;
           k' = k\<lparr>ak_token_prefix := issued_prefix s, ak_token_hash := hash_token tok,
                  ak_token_hint := token_hint tok, ak_enabled := True, ak_revoked_at := None\<rparr> in
       Inr ((tok, k'), put_key k' d))"

definition revoke_looking_glass_token :: "time \<Rightarrow> int \<Rightarrow> db \<Rightarrow> (api_key \<times> db) reply" where
  "revoke_looking_glass_token now token_id d =
     rbind (some_or (get_key token_id d) (HTTP 404 ''token not found'')) (\<lambda>k.
       let k' = k\<lparr>ak_enabled := False, ak_revoked_at := Some now\<rparr> in Inr (k', put_key k' d))"

definition delete_looking_glass_token :: "int \<Rightarrow> db \<Rightarrow> db reply" where
  "delete_looking_glass_token token_id d =
     rbind (some_or (get_key token_id d) (HTTP 404 ''token not found'')) (\<lambda>k.
       Inr (d\<lparr>db_queries := filter (\<lambda>q. lq_api_key_id q \<noteq> token_id) (db_queries d),
              db_keys := tb_del ak_id token_id (db_keys d)\<rparr>))"

section \<open>Submitting a query\<close>

text \<open>\<open>json.dumps(value, ensure_ascii=False, sort_keys=True)\<close> for an object of scalars.\<close>

definition dump_sorted :: "fields \<Rightarrow> string" where
  "dump_sorted d = dump_text (JObj (sort_key fst d))"

text \<open>\<open>re.fullmatch(r"node_(\d+)", value.strip())\<close>; \<open>int\<close> refuses more than 4300 digits.\<close>

definition parse_node_ref :: "string \<Rightarrow> int reply" where
  "parse_node_ref value = (let v = strip value; digits = drop 5 v in
     if \<not> (starts_with v ''node_'' \<and> is_dec_text digits) then Inl (api_error 404 ''node_not_found'')
     else case py_int digits of None \<Rightarrow> Inl (HTTP 500 ''value error'') | Some n \<Rightarrow> Inr n)"

definition node_ref :: "int \<Rightarrow> string" where
  "node_ref k = ''node_'' @ show_int k"

definition fingerprint_text :: "int \<Rightarrow> int \<Rightarrow> string \<Rightarrow> string \<Rightarrow> string" where
  "fingerprint_text api_key_id node_id operation value =
     show_int api_key_id @ '':'' @ show_int node_id @ '':'' @ operation @ '':'' @ value"

definition recent_success :: "time \<Rightarrow> lg_query \<Rightarrow> bool" where
  "recent_success now q = (lq_status q = QSucceeded \<and> now - looking_glass_cache_window \<le> lq_created_at q)"

definition reusable_query :: "time \<Rightarrow> int \<Rightarrow> int \<Rightarrow> string \<Rightarrow> db \<Rightarrow> lg_query option" where
  "reusable_query now key_id node_id fingerprint d = first_of (rev (sort_key lq_id (filter
     (\<lambda>q. lq_api_key_id q = key_id \<and> lq_node_id q = node_id \<and> lq_request_fingerprint q = fingerprint \<and>
        (query_active q \<or> recent_success now q)) (db_queries d))))"

definition node_queries :: "int \<Rightarrow> db \<Rightarrow> task list" where
  "node_queries node_id d = filter (\<lambda>t. tk_node_id t = node_id \<and> tk_queue t = ''query'' \<and>
     (tk_status t = Pending \<or> tk_status t = Running)) (db_tasks d)"

record lg_request =
  lr_operation :: string
  lr_task_type :: string
  lr_payload :: fields
  lr_request :: fields
  lr_fingerprint :: string
  lr_capability :: string

definition query_task :: "time \<Rightarrow> int \<Rightarrow> lg_request \<Rightarrow> task" where
  "query_task now node_id r = (new_task node_id None (lr_task_type r)
     (JObj (dset ''output_limit_bytes'' (JInt (256 * 1024))
        (dset ''command_timeout_seconds'' (JInt 15) (lr_payload r)))))
     \<lparr>tk_queue := ''query'', tk_priority := 50, tk_deadline_at := Some (now + looking_glass_queue_timeout)\<rparr>"

definition new_query :: "time \<Rightarrow> string \<Rightarrow> int \<Rightarrow> int \<Rightarrow> string \<Rightarrow> lg_request \<Rightarrow> lg_query" where
  "new_query now public_id key_id node_id fingerprint r = \<lparr>lq_id = 0, lq_public_id = public_id,
     lq_api_key_id = key_id, lq_node_id = node_id, lq_operation = lr_operation r,
     lq_request = JObj (lr_request r), lq_request_fingerprint = fingerprint, lq_status = QQueued,
     lq_agent_task_id = None, lq_result = None, lq_error_code = None, lq_error_message = None,
     lq_started_at = None, lq_finished_at = None,
     lq_deadline_at = Some (now + looking_glass_total_deadline),
     lq_expires_at = Some (now + looking_glass_result_retention), lq_created_at = now\<rparr>"

text \<open>The unique public id and the partial unique index on active fingerprints.\<close>

definition query_conflict :: "lg_query \<Rightarrow> db \<Rightarrow> bool" where
  "query_conflict q d = list_ex (\<lambda>p. lq_public_id p = lq_public_id q \<or>
     (query_active p \<and> lq_api_key_id p = lq_api_key_id q \<and> lq_node_id p = lq_node_id q \<and>
      lq_request_fingerprint p = lq_request_fingerprint q)) (db_queries d)"

definition add_query :: "lg_query \<Rightarrow> db \<Rightarrow> lg_query \<times> db" where
  "add_query q d = (let q' = q\<lparr>lq_id := next_id lq_id (db_queries d)\<rparr> in
     (q', d\<lparr>db_queries := db_queries d @ [q']\<rparr>))"

text \<open>The end of the admission: the queue length of the node, then task and query together; an
  identical active query that was written meanwhile is answered instead.\<close>

definition admit_query :: "time \<Rightarrow> string \<Rightarrow> int \<Rightarrow> int \<Rightarrow> string \<Rightarrow> lg_request \<Rightarrow> db \<Rightarrow> (lg_query \<times> db) reply" where
  "admit_query now public_id key_id node_id fingerprint r d =
     (let d1 = snd (expire_overdue_pending_agent_tasks (Some node_id) now d);
          d2 = snd (expire_stale_running_agent_tasks (Some node_id) now d1) in
      if looking_glass_query_queue_limit \<le> length (node_queries node_id d2)
      then Inl (api_error 429 ''query_queue_full'')
      else let (t, d3) = add_task (query_task now node_id r) d2;
               q = (new_query now public_id key_id node_id fingerprint r)\<lparr>lq_agent_task_id := Some (tk_id t)\<rparr> in
        if query_conflict q d3 then
          (case reusable_query now key_id node_id fingerprint d2 of
             None \<Rightarrow> Inl (HTTP 500 ''integrity error'')
           | Some p \<Rightarrow> (let d4 = refresh_looking_glass_query_from_task now p d2 in
               Inr (the_or p (get_query (lq_id p) d4), d4)))
        else Inr (add_query q d3))"

text \<open>\<open>fp\<close> is the hash of the fingerprint text.\<close>

definition create_looking_glass_query_task ::
  "(string \<Rightarrow> string) \<Rightarrow> env \<Rightarrow> string \<Rightarrow> api_key \<Rightarrow> lg_request \<Rightarrow> db \<Rightarrow> (lg_query \<times> db) reply" where
  "create_looking_glass_query_task fp en ref k r d =
     rbind (parse_node_ref ref) (\<lambda>node_id.
     rbind (some_or (get_node node_id d) (api_error 404 ''node_not_found'')) (\<lambda>n.
     rbind (ensure (is_node_online (en_offline_after en) (en_now en) n) (api_error 409 ''node_offline'')) (\<lambda>_.
     rbind (ensure (List.member (nd_agent_capabilities n) (lr_capability r)) (api_error 409 ''capability_missing'')) (\<lambda>_.
       let now = en_now en;
           fingerprint = fp (fingerprint_text (ak_id k) node_id (lr_operation r) (lr_fingerprint r)) in
       case reusable_query now (ak_id k) node_id fingerprint d of
         None \<Rightarrow> admit_query now (en_fresh en) (ak_id k) node_id fingerprint r d
       | Some p \<Rightarrow>
           (let d1 = refresh_looking_glass_query_from_task now p d;
                p1 = the_or p (get_query (lq_id p) d1) in
            if query_active p1 \<or> recent_success now p1 then Inr (p1, d1)
            else admit_query now (en_fresh en) (ak_id k) node_id fingerprint r d1)))))"

section \<open>The operations\<close>

definition route_scope :: string where "route_scope = ''looking_glass.bird.route''"

definition route_lookup_request :: "string \<Rightarrow> lg_request" where
  "route_lookup_request ip = \<lparr>lr_operation = ''bird.route_lookup'',
     lr_task_type = ''looking_glass.bird.route_lookup'', lr_payload = [(''ip'', JStr ip)],
     lr_request = [(''ip'', JStr ip), (''normalized_ip'', JStr ip)], lr_fingerprint = ip,
     lr_capability = ''looking_glass.bird.route_lookup''\<rparr>"

definition origin_as_request :: "int \<Rightarrow> lg_request" where
  "origin_as_request asn = \<lparr>lr_operation = ''bird.routes_by_origin_as'',
     lr_task_type = ''looking_glass.bird.routes_by_origin_as'', lr_payload = [(''asn'', JInt asn)],
     lr_request = [(''asn'', JInt asn)], lr_fingerprint = show_int asn,
     lr_capability = ''looking_glass.bird.routes_by_origin_as''\<rparr>"

definition protocols_request :: lg_request where
  "protocols_request = \<lparr>lr_operation = ''bird.protocols'', lr_task_type = ''looking_glass.bird.protocols'',
     lr_payload = [], lr_request = [], lr_fingerprint = ''bird.protocols'',
     lr_capability = ''looking_glass.bird.protocols''\<rparr>"

definition protocol_detail_request :: "string \<Rightarrow> lg_request" where
  "protocol_detail_request name = \<lparr>lr_operation = ''bird.protocol_detail'',
     lr_task_type = ''looking_glass.bird.protocol_detail'', lr_payload = [(''protocol_name'', JStr name)],
     lr_request = [(''protocol_name'', JStr name)], lr_fingerprint = name,
     lr_capability = ''looking_glass.bird.protocols''\<rparr>"

definition ping_request :: "string \<Rightarrow> int \<Rightarrow> int \<Rightarrow> lg_request" where
  "ping_request target count timeout = (let p = [(''target'', JStr target), (''count'', JInt count),
       (''per_probe_timeout_seconds'', JInt timeout)] in
     \<lparr>lr_operation = ''ping'', lr_task_type = ''looking_glass.ping'', lr_payload = p, lr_request = p,
      lr_fingerprint = dump_sorted p, lr_capability = ''looking_glass.ping''\<rparr>)"

definition traceroute_request :: "string \<Rightarrow> int \<Rightarrow> int \<Rightarrow> int \<Rightarrow> lg_request" where
  "traceroute_request target max_hops wait queries = (let p = [(''target'', JStr target),
       (''max_hops'', JInt max_hops), (''wait_seconds'', JInt wait), (''queries'', JInt queries)] in
     \<lparr>lr_operation = ''traceroute'', lr_task_type = ''looking_glass.traceroute'', lr_payload = p,
      lr_request = p, lr_fingerprint = dump_sorted p, lr_capability = ''looking_glass.traceroute''\<rparr>)"

definition submit_looking_glass ::
  "(string \<Rightarrow> string) \<Rightarrow> env \<Rightarrow> string \<Rightarrow> api_key \<Rightarrow> lg_request \<Rightarrow> db \<Rightarrow> (lg_query \<times> db) reply" where
  "submit_looking_glass fp en ref k r d =
     rbind (require_looking_glass_scope k route_scope) (\<lambda>_. create_looking_glass_query_task fp en ref k r d)"

text \<open>Reading a query. The answer 410 follows a commit, so the new database comes with the reply.\<close>

definition get_looking_glass_query :: "time \<Rightarrow> api_key \<Rightarrow> string \<Rightarrow> db \<Rightarrow> (http_error, lg_query) result \<times> db" where
  "get_looking_glass_query now k query_id d =
     (case require_looking_glass_scope k route_scope of
        Inl e \<Rightarrow> (Inl e, d)
      | Inr _ \<Rightarrow>
          (case find (\<lambda>q. lq_public_id q = query_id \<and> lq_api_key_id q = ak_id k) (db_queries d) of
             None \<Rightarrow> (Inl (api_error 404 ''query_not_found''), d)
           | Some q \<Rightarrow>
               if past now (lq_expires_at q)
               then (Inl (api_error 410 ''result_expired''), put_query (q\<lparr>lq_status := QExpired\<rparr>) d)
               else (let d1 = refresh_looking_glass_query_from_task now q d in
                 (Inr (the_or q (get_query (lq_id q) d1)), d1))))"

end
