(* ===== verification/GreController.thy ===== *)
theory GreController
  imports WgHandlers
begin

text \<open>
  GRE connections in the controller: the request schemas of schemas.py with their field
  validators, the cross-field checks, the task payload of an endpoint and its identity, the
  idempotent creation of endpoint tasks, and the handlers that create, edit, start, stop,
  refresh and delete a connection (main.py). A connection has one endpoint on each managed node.
\<close>

section \<open>Requests\<close>

record gre_payload =
  gp_peer_node_id :: int
  gp_local_interface_name :: string
  gp_peer_interface_name :: string
  gp_local_outer_ip :: string
  gp_peer_outer_ip :: string
  gp_local_bind_ip :: "string option"
  gp_local_remote_ip :: "string option"
  gp_peer_bind_ip :: "string option"
  gp_peer_remote_ip :: "string option"
  gp_local_tunnel_ips :: "string list"
  gp_peer_tunnel_ips :: "string list"
  gp_local_routes :: "string list"
  gp_peer_routes :: "string list"
  gp_mtu :: "int option"
  gp_gre_key :: "string option"
  gp_ttl :: "int option"
  gp_pmtudisc :: bool
  gp_encaplimit :: "int option"
  gp_risk_accepted :: bool

record manual_payload =
  mp_interface_name :: string
  mp_peer_interface_name :: "string option"
  mp_outer_local_ip :: string
  mp_outer_remote_ip :: string
  mp_tunnel_ips :: "string list"
  mp_peer_tunnel_ips :: "string list"
  mp_routes :: "string list"
  mp_mtu :: "int option"
  mp_gre_key :: "string option"
  mp_ttl :: "int option"
  mp_pmtudisc :: bool
  mp_encaplimit :: "int option"
  mp_risk_accepted :: bool

definition in_range :: "int \<Rightarrow> int \<Rightarrow> string \<Rightarrow> int option \<Rightarrow> (string, int option) result" where
  "in_range lo hi msg v = (case v of None \<Rightarrow> Inr None
     | Some n \<Rightarrow> if lo \<le> n \<and> n \<le> hi then Inr (Some n) else Inl msg)"

definition list_size :: "nat \<Rightarrow> nat \<Rightarrow> string list \<Rightarrow> (string, unit) result" where
  "list_size lo hi xs = ensure (lo \<le> length xs \<and> length xs \<le> hi) ''list length''"

definition name_size :: "string \<Rightarrow> (string, unit) result" where
  "name_size s = ensure (1 \<le> length s \<and> length s \<le> 15) ''string length''"

definition optional_outer :: "string option \<Rightarrow> (string, string option) result" where
  "optional_outer v = (case v of None \<Rightarrow> Inr None
     | Some s \<Rightarrow> if strip s = [] then Inr None
         else rbind (validate_gre_outer_address s) (\<lambda>r. Inr (Some r)))"

text \<open>\<open>GreManagedConnectionCreate\<close>: every field validated, the cleaned request returned.\<close>

definition validate_gre_request :: "gre_payload \<Rightarrow> (string, gre_payload) result" where
  "validate_gre_request p =
     rbind (name_size (gp_local_interface_name p)) (\<lambda>_.
     rbind (validate_gre_interface_name (gp_local_interface_name p)) (\<lambda>local_name.
     rbind (name_size (gp_peer_interface_name p)) (\<lambda>_.
     rbind (validate_gre_interface_name (gp_peer_interface_name p)) (\<lambda>peer_name.
     rbind (validate_gre_outer_address (gp_local_outer_ip p)) (\<lambda>local_outer.
     rbind (validate_gre_outer_address (gp_peer_outer_ip p)) (\<lambda>peer_outer.
     rbind (optional_outer (gp_local_bind_ip p)) (\<lambda>local_bind.
     rbind (optional_outer (gp_local_remote_ip p)) (\<lambda>local_remote.
     rbind (optional_outer (gp_peer_bind_ip p)) (\<lambda>peer_bind.
     rbind (optional_outer (gp_peer_remote_ip p)) (\<lambda>peer_remote.
     rbind (list_size 1 128 (gp_local_tunnel_ips p)) (\<lambda>_.
     rbind (validate_cidrs (gp_local_tunnel_ips p)) (\<lambda>local_tunnel.
     rbind (list_size 1 128 (gp_peer_tunnel_ips p)) (\<lambda>_.
     rbind (validate_cidrs (gp_peer_tunnel_ips p)) (\<lambda>peer_tunnel.
     rbind (list_size 0 256 (gp_local_routes p)) (\<lambda>_.
     rbind (validate_cidrs (gp_local_routes p)) (\<lambda>local_routes.
     rbind (list_size 0 256 (gp_peer_routes p)) (\<lambda>_.
     rbind (validate_cidrs (gp_peer_routes p)) (\<lambda>peer_routes.
     rbind (in_range 576 9000 ''MTU must be between 576 and 9000'' (gp_mtu p)) (\<lambda>mtu.
     rbind (validate_gre_key (gp_gre_key p)) (\<lambda>key.
     rbind (in_range 1 255 ''TTL must be between 1 and 255'' (gp_ttl p)) (\<lambda>ttl.
     rbind (in_range 0 255 ''encaplimit must be between 0 and 255'' (gp_encaplimit p)) (\<lambda>encaplimit.
       Inr (p\<lparr>gp_local_interface_name := local_name, gp_peer_interface_name := peer_name,
         gp_local_outer_ip := local_outer, gp_peer_outer_ip := peer_outer,
         gp_local_bind_ip := local_bind, gp_local_remote_ip := local_remote,
         gp_peer_bind_ip := peer_bind, gp_peer_remote_ip := peer_remote,
         gp_local_tunnel_ips := local_tunnel, gp_peer_tunnel_ips := peer_tunnel,
         gp_local_routes := local_routes, gp_peer_routes := peer_routes,
         gp_mtu := mtu, gp_gre_key := key, gp_ttl := ttl, gp_encaplimit := encaplimit\<rparr>)))))))))))))))))))))))"

definition validate_manual_request :: "manual_payload \<Rightarrow> (string, manual_payload) result" where
  "validate_manual_request p =
     rbind (name_size (mp_interface_name p)) (\<lambda>_.
     rbind (validate_gre_interface_name (mp_interface_name p)) (\<lambda>name.
     rbind (ensure (length (the_or [] (mp_peer_interface_name p)) \<le> 15) ''string length'') (\<lambda>_.
     rbind (validate_optional validate_gre_interface_name (mp_peer_interface_name p)) (\<lambda>peer_name.
     rbind (validate_gre_outer_address (mp_outer_local_ip p)) (\<lambda>outer_local.
     rbind (validate_gre_outer_address (mp_outer_remote_ip p)) (\<lambda>outer_remote.
     rbind (list_size 1 128 (mp_tunnel_ips p)) (\<lambda>_.
     rbind (validate_cidrs (mp_tunnel_ips p)) (\<lambda>tunnel.
     rbind (list_size 0 128 (mp_peer_tunnel_ips p)) (\<lambda>_.
     rbind (validate_cidrs (mp_peer_tunnel_ips p)) (\<lambda>peer_tunnel.
     rbind (list_size 0 256 (mp_routes p)) (\<lambda>_.
     rbind (validate_cidrs (mp_routes p)) (\<lambda>routes.
     rbind (in_range 576 9000 ''MTU must be between 576 and 9000'' (mp_mtu p)) (\<lambda>mtu.
     rbind (validate_gre_key (mp_gre_key p)) (\<lambda>key.
     rbind (in_range 1 255 ''TTL must be between 1 and 255'' (mp_ttl p)) (\<lambda>ttl.
     rbind (in_range 0 255 ''encaplimit must be between 0 and 255'' (mp_encaplimit p)) (\<lambda>encaplimit.
       Inr (p\<lparr>mp_interface_name := name, mp_peer_interface_name := peer_name,
         mp_outer_local_ip := outer_local, mp_outer_remote_ip := outer_remote,
         mp_tunnel_ips := tunnel, mp_peer_tunnel_ips := peer_tunnel, mp_routes := routes,
         mp_mtu := mtu, mp_gre_key := key, mp_ttl := ttl, mp_encaplimit := encaplimit\<rparr>)))))))))))))))))"

section \<open>Cross-field checks\<close>

record outer_mapping =
  om_local_bind :: string
  om_local_remote :: string
  om_peer_bind :: string
  om_peer_remote :: string

definition or_else :: "string option \<Rightarrow> string \<Rightarrow> string" where
  "or_else x y = (if the_or [] x \<noteq> [] then the_or [] x else y)"

definition gre_outer_mapping :: "gre_payload \<Rightarrow> outer_mapping" where
  "gre_outer_mapping p = \<lparr>
     om_local_bind = or_else (gp_local_bind_ip p) (gp_local_outer_ip p),
     om_local_remote = or_else (gp_local_remote_ip p) (gp_peer_outer_ip p),
     om_peer_bind = or_else (gp_peer_bind_ip p) (gp_peer_outer_ip p),
     om_peer_remote = or_else (gp_peer_remote_ip p) (gp_local_outer_ip p)\<rparr>"

text \<open>A text that is no address raises \<open>ValueError\<close> out of the handler.\<close>

definition address_version :: "string \<Rightarrow> int reply" where
  "address_version s = (case ip_address s of None \<Rightarrow> Inl (HTTP 500 ''value error'') | Some a \<Rightarrow> Inr (ip_version a))"

definition gre_outer_ip_version :: "string list \<Rightarrow> int reply" where
  "gre_outer_ip_version values =
     rbind (rmap address_version (filter (\<lambda>v. v \<noteq> []) values)) (\<lambda>versions.
       case remdups versions of [v] \<Rightarrow> Inr v
       | _ \<Rightarrow> Inl (HTTP 400 ''gre outer addresses must use the same IP version''))"

definition gre_effective_mtu :: "int option \<Rightarrow> int \<Rightarrow> int" where
  "gre_effective_mtu mtu version = (case mtu of Some m \<Rightarrow> m | None \<Rightarrow> if version = 6 then 1456 else 1476)"

definition outer_values :: "outer_mapping \<Rightarrow> string list" where
  "outer_values m = [om_local_bind m, om_local_remote m, om_peer_bind m, om_peer_remote m]"

definition gre_option_checks :: "int \<Rightarrow> int option \<Rightarrow> bool \<Rightarrow> int option \<Rightarrow> unit reply" where
  "gre_option_checks version ttl pmtudisc encaplimit =
     (if version = 4 \<and> ttl \<noteq> None \<and> \<not> pmtudisc then Inl (HTTP 400 ''gre ttl requires pmtu discovery'')
      else if version = 4 \<and> encaplimit \<noteq> None
        then Inl (HTTP 400 ''encaplimit is only supported by GRE over IPv6'')
      else Inr ())"

definition validate_gre_payload :: "gre_payload \<Rightarrow> unit reply" where
  "validate_gre_payload p =
     (let m = gre_outer_mapping p in
      if \<not> gp_risk_accepted p then Inl (HTTP 400 ''gre risk must be accepted'')
      else if gp_local_outer_ip p = gp_peer_outer_ip p
        then Inl (HTTP 400 ''gre outer addresses must be different'')
      else rbind (gre_outer_ip_version (outer_values m)) (\<lambda>version.
        if om_local_bind m = om_local_remote m \<or> om_peer_bind m = om_peer_remote m
        then Inl (HTTP 400 ''gre endpoint local and remote addresses must be different'')
        else gre_option_checks version (gp_ttl p) (gp_pmtudisc p) (gp_encaplimit p)))"

definition validate_manual_gre_payload :: "manual_payload \<Rightarrow> unit reply" where
  "validate_manual_gre_payload p =
     (if \<not> mp_risk_accepted p then Inl (HTTP 400 ''gre risk must be accepted'')
      else if mp_outer_local_ip p = mp_outer_remote_ip p
        then Inl (HTTP 400 ''gre endpoint local and remote addresses must be different'')
      else rbind (gre_outer_ip_version [mp_outer_local_ip p, mp_outer_remote_ip p]) (\<lambda>version.
        gre_option_checks version (mp_ttl p) (mp_pmtudisc p) (mp_encaplimit p)))"

definition require_gre_supported :: "node \<Rightarrow> int \<Rightarrow> unit reply" where
  "require_gre_supported n version =
     rbind (require_task_supported n (ts_apply_config gre_tasks)) (\<lambda>_.
       ensure (\<not> (version = 6 \<and> \<not> List.member (nd_agent_capabilities n) ''gre.ipv6.encaplimit''))
         (HTTP 409 ''agent does not support GRE over IPv6 encaplimit control''))"

section \<open>Endpoints and their tasks\<close>

definition gre_protocol_config :: "string \<Rightarrow> string \<Rightarrow> gre_payload \<Rightarrow> json" where
  "gre_protocol_config local remote p = JObj
     [(''outer_local_ip'', JStr local), (''outer_remote_ip'', JStr remote),
      (''key'', jopt_str (gp_gre_key p)), (''ttl'', jopt_int (gp_ttl p)),
      (''pmtudisc'', JBool (gp_pmtudisc p)), (''encaplimit'', jopt_int (gp_encaplimit p))]"

definition manual_gre_protocol_config :: "manual_payload \<Rightarrow> json" where
  "manual_gre_protocol_config p = JObj
     [(''outer_local_ip'', JStr (mp_outer_local_ip p)), (''outer_remote_ip'', JStr (mp_outer_remote_ip p)),
      (''key'', jopt_str (mp_gre_key p)), (''ttl'', jopt_int (mp_ttl p)),
      (''pmtudisc'', JBool (mp_pmtudisc p)), (''encaplimit'', jopt_int (mp_encaplimit p)),
      (''peer_interface_name'', jopt_str (mp_peer_interface_name p)),
      (''peer_tunnel_ips'', jstrs (mp_peer_tunnel_ips p))]"

definition endpoint_previous_name :: "endpoint \<Rightarrow> string" where
  "endpoint_previous_name e = strip (str_or_empty (dget (json_object (ep_extras e)) ''previous_interface_name''))"

definition gre_task_payload :: "string \<Rightarrow> endpoint \<Rightarrow> fields \<times> endpoint" where
  "gre_task_payload fresh e =
     (let base = dict_update
            [(''node_id'', JInt (ep_node_id e)), (''connection_id'', JInt (ep_connection_id e)),
             (''connection_endpoint_id'', JInt (ep_id e)), (''interface_name'', JStr (ep_interface_name e)),
             (''tunnel_ips'', jstrs (ep_tunnel_ips e)), (''routes'', jstrs (ep_routes e)),
             (''mtu'', jopt_int (ep_mtu e))]
            (json_object (ep_protocol_config e));
          old = endpoint_previous_name e;
          named = (if old \<noteq> [] \<and> old \<noteq> ep_interface_name e
            then dset ''previous_interface_name'' (JStr old) base else base) in
      case endpoint_identity fresh e of (identity, e') \<Rightarrow>
        (dset ''config_identity'' (JStr identity) named, e'))"

definition endpoint_task :: "int \<Rightarrow> string list \<Rightarrow> task_status \<Rightarrow> task \<Rightarrow> bool" where
  "endpoint_task endpoint_id tys s t = (tk_type t \<in> set tys \<and> tk_status t = s \<and>
     payload_int (tk_payload t) ''connection_endpoint_id'' endpoint_id)"

definition first_endpoint_task :: "int \<Rightarrow> string list \<Rightarrow> task_status \<Rightarrow> db \<Rightarrow> task option" where
  "first_endpoint_task endpoint_id tys s d =
     first_of (tasks_by_id (filter (endpoint_task endpoint_id tys s) (db_tasks d)))"

definition last_endpoint_task :: "int \<Rightarrow> string list \<Rightarrow> task_status \<Rightarrow> db \<Rightarrow> task option" where
  "last_endpoint_task endpoint_id tys s d =
     first_of (rev (tasks_by_id (filter (endpoint_task endpoint_id tys s) (db_tasks d))))"

definition endpoint_dedup_key :: "int \<Rightarrow> string \<Rightarrow> string" where
  "endpoint_dedup_key endpoint_id ty = ''endpoint:'' @ show_int endpoint_id @ '':'' @ ty"

definition setdefault :: "string \<Rightarrow> json \<Rightarrow> fields \<Rightarrow> fields" where
  "setdefault k v d = (if dhas d k then d else dset k v d)"

definition insert_endpoint_task :: "endpoint \<Rightarrow> string \<Rightarrow> fields \<Rightarrow> bool \<Rightarrow> db \<Rightarrow> (task \<times> db) reply" where
  "insert_endpoint_task e ty payload update_pending d =
     (let key = endpoint_dedup_key (ep_id e) ty;
          t = (new_task (ep_node_id e) None ty (JObj payload))\<lparr>tk_dedup_key := Some key\<rparr> in
      case insert_task t d of
        Some (t', d') \<Rightarrow> Inr (t', d')
      | None \<Rightarrow>
          (case first_of (tasks_by_id (filter (\<lambda>u. tk_dedup_key u = Some key \<and> tk_status u = Pending) (db_tasks d))) of
            None \<Rightarrow> Inl (HTTP 500 ''integrity error'')
          | Some u \<Rightarrow>
              if update_pending then let u' = replace_payload (JObj payload) u in Inr (u', put_task u' d)
              else Inr (u, d)))"

text \<open>
  \<open>create_connection_endpoint_task\<close>: a pending task of the type is reused or refreshed; a
  running one is reused, or the new task is queued behind it.
\<close>

definition create_connection_endpoint_task ::
  "string \<Rightarrow> endpoint \<Rightarrow> string \<Rightarrow> fields \<Rightarrow> bool \<Rightarrow> bool \<Rightarrow> db \<Rightarrow> (task \<times> db) reply" where
  "create_connection_endpoint_task fresh e ty extra update_pending queue_after_running d0 =
     rbind (case get_node (ep_node_id e) d0 of None \<Rightarrow> Inr () | Some n \<Rightarrow> require_task_supported n ty) (\<lambda>_.
       case gre_task_payload fresh e of (base, e') \<Rightarrow>
       let payload = dict_update base extra; d = put_endpoint e' d0 in
       (case first_endpoint_task (ep_id e) [ty] Pending d of
          Some t \<Rightarrow>
            if update_pending then let t' = replace_payload (JObj payload) t in Inr (t', put_task t' d)
            else Inr (t, d)
        | None \<Rightarrow>
            (case last_endpoint_task (ep_id e) [ty] Running d of
              Some r \<Rightarrow>
                if \<not> queue_after_running then Inr (r, d)
                else insert_endpoint_task e ty (setdefault ''depends_on_task_id'' (JInt (tk_id r)) payload) update_pending d
            | None \<Rightarrow> insert_endpoint_task e ty payload update_pending d)))"

definition reload_endpoint :: "endpoint \<Rightarrow> db \<Rightarrow> endpoint" where
  "reload_endpoint e d = the_or e (get_endpoint (ep_id e) d)"

definition set_endpoint_status :: "string \<Rightarrow> endpoint \<Rightarrow> db \<Rightarrow> db" where
  "set_endpoint_status s e d = put_endpoint ((reload_endpoint e d)\<lparr>ep_runtime_status := s\<rparr>) d"

definition depends_entry :: "task option \<Rightarrow> fields" where
  "depends_entry t = (case t of None \<Rightarrow> [] | Some t \<Rightarrow> [(''depends_on_task_id'', JInt (tk_id t))])"

definition enqueue_gre_apply_and_start :: "string \<Rightarrow> endpoint \<Rightarrow> db \<Rightarrow> db reply" where
  "enqueue_gre_apply_and_start fresh e d =
     (let running = last_endpoint_task (ep_id e)
            [ts_apply_config gre_tasks, ts_start gre_tasks, ts_stop gre_tasks] Running d in
      rbind (create_connection_endpoint_task fresh e (ts_apply_config gre_tasks) (depends_entry running) True True d)
        (\<lambda>(apply, d1).
      rbind (create_connection_endpoint_task fresh (reload_endpoint e d1) (ts_start gre_tasks)
          (depends_entry (Some apply)) True True d1)
        (\<lambda>(_, d2). Inr (set_endpoint_status ''starting'' e d2))))"

definition cancel_gre_task :: "time \<Rightarrow> task \<Rightarrow> task" where
  "cancel_gre_task now t = t\<lparr>tk_status := Cancelled, tk_finished_at := Some now,
     tk_result := Some (JObj [(''reason'', JStr ''GRE deployment superseded by stop or delete'')])\<rparr>"

definition cancel_pending_gre_deployment_tasks :: "time \<Rightarrow> int \<Rightarrow> db \<Rightarrow> int \<times> db" where
  "cancel_pending_gre_deployment_tasks now endpoint_id d =
     close_tasks (endpoint_task endpoint_id [ts_apply_config gre_tasks, ts_start gre_tasks] Pending)
       (\<lambda>u. tk_status u = Pending) (cancel_gre_task now) d"

definition running_gre_deployment_task_id :: "int \<Rightarrow> db \<Rightarrow> int option" where
  "running_gre_deployment_task_id endpoint_id d = map_option tk_id
     (last_endpoint_task endpoint_id [ts_apply_config gre_tasks, ts_start gre_tasks] Running d)"

definition set_endpoint_extra_value :: "string \<Rightarrow> string option \<Rightarrow> endpoint \<Rightarrow> endpoint" where
  "set_endpoint_extra_value key value e = e\<lparr>ep_extras := set_extra key value (ep_extras e)\<rparr>"

definition record_endpoint_rename :: "string \<Rightarrow> endpoint \<Rightarrow> endpoint" where
  "record_endpoint_rename next_name e =
     (let previous = dget (json_object (ep_extras e)) ''previous_interface_name'' in
      if ep_interface_name e = next_name then e
      else if previous = JStr next_name then set_endpoint_extra_value ''previous_interface_name'' None e
      else if \<not> truthy previous
        then set_endpoint_extra_value ''previous_interface_name'' (Some (ep_interface_name e)) e
      else e)"

definition conn_endpoints :: "int \<Rightarrow> db \<Rightarrow> endpoint list" where
  "conn_endpoints k d = sort_key ep_id (filter (\<lambda>e. ep_connection_id e = k) (db_endpoints d))"

definition role_order :: "endpoint \<Rightarrow> int" where
  "role_order e = (if ep_role e = ''local'' then 0 else 1)"

definition gre_connection_status :: "int \<Rightarrow> db \<Rightarrow> string" where
  "gre_connection_status k d = (let ss = map ep_runtime_status (conn_endpoints k d) in
     if List.member ss ''failed'' then ''failed''
     else if ss \<noteq> [] \<and> list_all (\<lambda>s. s = ''running'') ss then ''running''
     else if list_ex (\<lambda>s. s \<in> {''starting'', ''stopping''}) ss then ''changing''
     else ''stopped'')"

section \<open>Handlers\<close>

definition parse_connection_ref :: "string \<Rightarrow> (string \<times> int) reply" where
  "parse_connection_ref value =
     (case split_first (CHR '':'') value of (protocol, raw_id) \<Rightarrow>
      if CHR '':'' \<notin> set value \<or> protocol \<notin> {''wireguard'', ''gre''} then Inl (HTTP 404 ''connection not found'')
      else (case py_int raw_id of None \<Rightarrow> Inl (HTTP 404 ''connection not found'') | Some k \<Rightarrow> Inr (protocol, k)))"

definition gre_ref :: "string \<Rightarrow> int reply" where
  "gre_ref value = rbind (parse_connection_ref value) (\<lambda>(protocol, k).
     if protocol \<noteq> ''gre'' then Inl (HTTP 400 ''use wireguard API for WireGuard connections'') else Inr k)"

definition get_gre_connection_or_404 :: "int \<Rightarrow> db \<Rightarrow> conn reply" where
  "get_gre_connection_or_404 k d = (case get_conn k d of
      None \<Rightarrow> Inl (HTTP 404 ''connection not found'')
    | Some c \<Rightarrow> if co_protocol_type c = ''gre'' then Inr c else Inl (HTTP 404 ''connection not found''))"

definition add_conn :: "conn \<Rightarrow> db \<Rightarrow> conn \<times> db" where
  "add_conn c d = (let c' = c\<lparr>co_id := next_id co_id (db_conns d)\<rparr> in
     (c', d\<lparr>db_conns := db_conns d @ [c']\<rparr>))"

text \<open>The unique constraint on node and interface name.\<close>

definition add_endpoint :: "endpoint \<Rightarrow> db \<Rightarrow> (endpoint \<times> db) reply" where
  "add_endpoint e d =
     (if list_ex (\<lambda>f. ep_node_id f = ep_node_id e \<and> ep_interface_name f = ep_interface_name e) (db_endpoints d)
      then Inl (HTTP 409 ''interface name already exists on node'')
      else let e' = e\<lparr>ep_id := next_id ep_id (db_endpoints d)\<rparr> in
        Inr (e', d\<lparr>db_endpoints := db_endpoints d @ [e']\<rparr>))"

definition new_endpoint :: "int \<Rightarrow> int \<Rightarrow> string \<Rightarrow> string \<Rightarrow> string list \<Rightarrow> int \<Rightarrow> string list \<Rightarrow> json \<Rightarrow> endpoint" where
  "new_endpoint conn_id node_id role name tunnel mtu routes config = \<lparr>ep_id = 0, ep_connection_id = conn_id,
     ep_node_id = node_id, ep_role = role, ep_interface_name = name, ep_tunnel_ips = tunnel, ep_mtu = Some mtu,
     ep_routes = routes, ep_runtime_status = ''starting'', ep_deployed_config = None,
     ep_protocol_config = config, ep_extras = JObj []\<rparr>"

definition new_gre_conn :: "string \<Rightarrow> string \<Rightarrow> conn" where
  "new_gre_conn name source = \<lparr>co_id = 0, co_protocol_type = ''gre'', co_name = name, co_source = source,
     co_managed = True, co_status = ''starting'', co_extras = JObj []\<rparr>"

definition create_managed_connection :: "env \<Rightarrow> int \<Rightarrow> gre_payload \<Rightarrow> db \<Rightarrow> (int \<times> db) reply" where
  "create_managed_connection en node_id p d =
     (if node_id = gp_peer_node_id p then Inl (HTTP 400 ''peer node must be different'') else
      rbind (validate_gre_payload p) (\<lambda>_.
      rbind (require_online_node (en_offline_after en) (en_now en) node_id d) (\<lambda>local_node.
      rbind (require_online_node (en_offline_after en) (en_now en) (gp_peer_node_id p) d) (\<lambda>peer_node.
      let m = gre_outer_mapping p in
      rbind (gre_outer_ip_version (outer_values m)) (\<lambda>version.
      rbind (require_gre_supported local_node version) (\<lambda>_.
      rbind (require_gre_supported peer_node version) (\<lambda>_.
      rbind (ensure_unique_interface_name node_id (gp_local_interface_name p) None None d) (\<lambda>_.
      rbind (ensure_unique_interface_name (gp_peer_node_id p) (gp_peer_interface_name p) None None d) (\<lambda>_.
      let mtu = gre_effective_mtu (gp_mtu p) version;
          (c, d1) = add_conn (new_gre_conn
            (gp_local_interface_name p @ '' <-> '' @ gp_peer_interface_name p) ''managed-node'') d in
      rbind (add_endpoint (new_endpoint (co_id c) node_id ''local'' (gp_local_interface_name p)
          (gp_local_tunnel_ips p) mtu (gp_local_routes p)
          (gre_protocol_config (om_local_bind m) (om_local_remote m) p)) d1) (\<lambda>(el, d2).
      rbind (add_endpoint (new_endpoint (co_id c) (gp_peer_node_id p) ''peer'' (gp_peer_interface_name p)
          (gp_peer_tunnel_ips p) mtu (gp_peer_routes p)
          (gre_protocol_config (om_peer_bind m) (om_peer_remote m) p)) d2) (\<lambda>(er, d3).
      rbind (enqueue_gre_apply_and_start (en_fresh en) el d3) (\<lambda>d4.
      rbind (enqueue_gre_apply_and_start (en_fresh en) (reload_endpoint er d4) d4) (\<lambda>d5.
        Inr (co_id c, d5))))))))))))))"

definition manual_name :: "manual_payload \<Rightarrow> string" where
  "manual_name p = (if the_or [] (mp_peer_interface_name p) \<noteq> []
     then mp_interface_name p @ '' -> '' @ the_or [] (mp_peer_interface_name p) else mp_interface_name p)"

definition create_manual_connection :: "env \<Rightarrow> int \<Rightarrow> manual_payload \<Rightarrow> db \<Rightarrow> (int \<times> db) reply" where
  "create_manual_connection en node_id p d =
     rbind (validate_manual_gre_payload p) (\<lambda>_.
     rbind (require_online_node (en_offline_after en) (en_now en) node_id d) (\<lambda>n.
     rbind (gre_outer_ip_version [mp_outer_local_ip p, mp_outer_remote_ip p]) (\<lambda>version.
     rbind (require_gre_supported n version) (\<lambda>_.
     rbind (ensure_unique_interface_name node_id (mp_interface_name p) None None d) (\<lambda>_.
     let (c, d1) = add_conn (new_gre_conn (manual_name p) ''created'') d in
     rbind (add_endpoint (new_endpoint (co_id c) node_id ''local'' (mp_interface_name p) (mp_tunnel_ips p)
         (gre_effective_mtu (mp_mtu p) version) (mp_routes p) (manual_gre_protocol_config p)) d1) (\<lambda>(e, d2).
     rbind (enqueue_gre_apply_and_start (en_fresh en) e d2) (\<lambda>d3. Inr (co_id c, d3))))))))"

definition edit_endpoint :: "string \<Rightarrow> string list \<Rightarrow> int \<Rightarrow> string list \<Rightarrow> json \<Rightarrow> endpoint \<Rightarrow> endpoint" where
  "edit_endpoint name tunnel mtu routes config e = (record_endpoint_rename name e)
     \<lparr>ep_interface_name := name, ep_tunnel_ips := tunnel, ep_mtu := Some mtu, ep_routes := routes,
      ep_protocol_config := config\<rparr>"

definition update_connection :: "env \<Rightarrow> string \<Rightarrow> gre_payload \<Rightarrow> db \<Rightarrow> db reply" where
  "update_connection en ref p d =
     rbind (gre_ref ref) (\<lambda>k.
     rbind (validate_gre_payload p) (\<lambda>_.
     rbind (get_gre_connection_or_404 k d) (\<lambda>c.
     (case sort_key role_order (conn_endpoints k d) of
       [el, er] \<Rightarrow>
        rbind (require_online_node (en_offline_after en) (en_now en) (ep_node_id el) d) (\<lambda>local_node.
        rbind (require_online_node (en_offline_after en) (en_now en) (ep_node_id er) d) (\<lambda>peer_node.
        let m = gre_outer_mapping p in
        rbind (gre_outer_ip_version (outer_values m)) (\<lambda>version.
        rbind (require_gre_supported local_node version) (\<lambda>_.
        rbind (require_gre_supported peer_node version) (\<lambda>_.
        rbind (ensure_unique_interface_name (ep_node_id el) (gp_local_interface_name p) None (Some (ep_id el)) d) (\<lambda>_.
        rbind (ensure_unique_interface_name (ep_node_id er) (gp_peer_interface_name p) None (Some (ep_id er)) d) (\<lambda>_.
        let mtu = gre_effective_mtu (gp_mtu p) version;
            el1 = edit_endpoint (gp_local_interface_name p) (gp_local_tunnel_ips p) mtu (gp_local_routes p)
              (gre_protocol_config (om_local_bind m) (om_local_remote m) p) el;
            er1 = edit_endpoint (gp_peer_interface_name p) (gp_peer_tunnel_ips p) mtu (gp_peer_routes p)
              (gre_protocol_config (om_peer_bind m) (om_peer_remote m) p) er;
            d1 = put_conn (c\<lparr>co_name := gp_local_interface_name p @ '' <-> '' @ gp_peer_interface_name p,
                            co_status := ''starting''\<rparr>) (put_endpoint er1 (put_endpoint el1 d)) in
        rbind (enqueue_gre_apply_and_start (en_fresh en) el1 d1) (\<lambda>d2.
        enqueue_gre_apply_and_start (en_fresh en) (reload_endpoint er1 d2) d2))))))))
     | _ \<Rightarrow> Inl (HTTP 400 ''use manual GRE API for single-endpoint connections'')))))"

definition update_manual_connection :: "env \<Rightarrow> string \<Rightarrow> manual_payload \<Rightarrow> db \<Rightarrow> db reply" where
  "update_manual_connection en ref p d =
     rbind (gre_ref ref) (\<lambda>k.
     rbind (validate_manual_gre_payload p) (\<lambda>_.
     rbind (get_gre_connection_or_404 k d) (\<lambda>c.
     (case conn_endpoints k d of
       [e] \<Rightarrow>
        if co_source c \<noteq> ''created'' then Inl (HTTP 400 ''connection is not a manual GRE connection'') else
        rbind (require_online_node (en_offline_after en) (en_now en) (ep_node_id e) d) (\<lambda>n.
        rbind (gre_outer_ip_version [mp_outer_local_ip p, mp_outer_remote_ip p]) (\<lambda>version.
        rbind (require_gre_supported n version) (\<lambda>_.
        rbind (ensure_unique_interface_name (ep_node_id e) (mp_interface_name p) None (Some (ep_id e)) d) (\<lambda>_.
        let e1 = edit_endpoint (mp_interface_name p) (mp_tunnel_ips p) (gre_effective_mtu (mp_mtu p) version)
              (mp_routes p) (manual_gre_protocol_config p) e;
            d1 = put_conn (c\<lparr>co_name := manual_name p, co_status := ''starting''\<rparr>) (put_endpoint e1 d) in
        enqueue_gre_apply_and_start (en_fresh en) e1 d1))))
     | _ \<Rightarrow> Inl (HTTP 400 ''connection is not a manual GRE connection'')))))"

text \<open>The loops over the endpoints of a connection; each row is read again in its turn.\<close>

definition for_endpoints :: "(endpoint \<Rightarrow> db \<Rightarrow> db reply) \<Rightarrow> int \<Rightarrow> db \<Rightarrow> db reply" where
  "for_endpoints f k d = rfold (\<lambda>e d. f (reload_endpoint e d) d) (conn_endpoints k d) d"

definition set_conn_status :: "string \<Rightarrow> int \<Rightarrow> db \<Rightarrow> db" where
  "set_conn_status s k d = (case get_conn k d of None \<Rightarrow> d | Some c \<Rightarrow> put_conn (c\<lparr>co_status := s\<rparr>) d)"

definition stored_outer_version :: "endpoint \<Rightarrow> int reply" where
  "stored_outer_version e = (let outer = strip (str_or_empty (dget (json_object (ep_protocol_config e)) ''outer_local_ip'')) in
     if outer = [] then Inr 4 else address_version outer)"

definition start_endpoint :: "env \<Rightarrow> endpoint \<Rightarrow> db \<Rightarrow> db reply" where
  "start_endpoint en e d =
     rbind (require_online_node (en_offline_after en) (en_now en) (ep_node_id e) d) (\<lambda>n.
     rbind (stored_outer_version e) (\<lambda>version.
     rbind (require_gre_supported n version) (\<lambda>_.
     rbind (create_connection_endpoint_task (en_fresh en) e (ts_start gre_tasks) [] False False d) (\<lambda>(_, d1).
       Inr (set_endpoint_status ''starting'' e d1)))))"

definition start_connection :: "env \<Rightarrow> string \<Rightarrow> db \<Rightarrow> db reply" where
  "start_connection en ref d =
     rbind (gre_ref ref) (\<lambda>k. rbind (get_gre_connection_or_404 k d) (\<lambda>_.
     rbind (for_endpoints (start_endpoint en) k d) (\<lambda>d1. Inr (set_conn_status ''starting'' k d1))))"

definition stop_endpoint_task :: "env \<Rightarrow> endpoint \<Rightarrow> db \<Rightarrow> (task \<times> db) reply" where
  "stop_endpoint_task en e d =
     rbind (require_online_node (en_offline_after en) (en_now en) (ep_node_id e) d) (\<lambda>_.
       let d1 = snd (cancel_pending_gre_deployment_tasks (en_now en) (ep_id e) d) in
       create_connection_endpoint_task (en_fresh en) e (ts_stop gre_tasks)
         (stop_after (running_gre_deployment_task_id (ep_id e) d1)) True False d1)"

definition stop_endpoint :: "env \<Rightarrow> endpoint \<Rightarrow> db \<Rightarrow> db reply" where
  "stop_endpoint en e d = rbind (stop_endpoint_task en e d) (\<lambda>(_, d1). Inr (set_endpoint_status ''stopping'' e d1))"

definition stop_connection :: "env \<Rightarrow> string \<Rightarrow> db \<Rightarrow> db reply" where
  "stop_connection en ref d =
     rbind (gre_ref ref) (\<lambda>k. rbind (get_gre_connection_or_404 k d) (\<lambda>_.
     rbind (for_endpoints (stop_endpoint en) k d) (\<lambda>d1. Inr (set_conn_status ''stopping'' k d1))))"

definition refresh_endpoint :: "env \<Rightarrow> endpoint \<Rightarrow> db \<Rightarrow> db reply" where
  "refresh_endpoint en e d =
     rbind (require_online_node (en_offline_after en) (en_now en) (ep_node_id e) d) (\<lambda>_.
     rbind (create_connection_endpoint_task (en_fresh en) e (ts_status gre_tasks) [] False False d)
       (\<lambda>(_, d1). Inr d1))"

definition refresh_connection_status :: "env \<Rightarrow> string \<Rightarrow> db \<Rightarrow> db reply" where
  "refresh_connection_status en ref d =
     rbind (gre_ref ref) (\<lambda>k. rbind (get_gre_connection_or_404 k d) (\<lambda>_. for_endpoints (refresh_endpoint en) k d))"

definition clear_endpoint :: "env \<Rightarrow> endpoint \<Rightarrow> db \<Rightarrow> db reply" where
  "clear_endpoint en e d =
     rbind (stop_endpoint_task en e d) (\<lambda>(stop, d1).
     rbind (create_connection_endpoint_task (en_fresh en) (reload_endpoint e d1) (ts_delete_config gre_tasks)
         (depends_entry (Some stop)) False False d1)
       (\<lambda>(_, d2). Inr d2))"

definition delete_connection :: "env \<Rightarrow> string \<Rightarrow> db \<Rightarrow> db reply" where
  "delete_connection en ref d =
     rbind (gre_ref ref) (\<lambda>k. rbind (get_gre_connection_or_404 k d) (\<lambda>_.
       let ids = map ep_id (conn_endpoints k d) in
       rbind (for_endpoints (clear_endpoint en) k d) (\<lambda>d1.
         let d2 = delete_link_monitors_where
               (\<lambda>m. case mo_connection_endpoint_id m of None \<Rightarrow> False | Some j \<Rightarrow> j \<in> set ids) d1 in
         Inr (d2\<lparr>db_endpoints := filter (\<lambda>e. ep_connection_id e \<noteq> k) (db_endpoints d2),
                 db_conns := tb_del co_id k (db_conns d2)\<rparr>))))"

end
