(* ===== verification/TaskResult.thy ===== *)
theory TaskResult
  imports LookingGlass GreController
begin

text \<open>
  \<open>agent_task_result\<close> of main.py: the one place where the report of an agent ends a task and is
  carried into the rows the task was about: the node, the plan, the import candidates, the
  WireGuard interface, the GRE endpoint and the looking glass query.
\<close>

section \<open>Reading a report\<close>

definition command_result_failed :: "json \<Rightarrow> bool" where
  "command_result_failed v = (case v of
      JObj d \<Rightarrow> dhas d ''returncode'' \<and>
        (case json_int (dget d ''returncode'') of None \<Rightarrow> False | Some n \<Rightarrow> n \<noteq> 0)
    | _ \<Rightarrow> False)"

definition stop_task_result_failed :: "fields \<Rightarrow> bool" where
  "stop_task_result_failed result =
     (command_result_failed (dget result ''down'') \<or> command_result_failed (dget result ''stop''))"

text \<open>The first text under a telling key, else the first one found inside a nested object; the
  recursion goes at most twelve levels down.\<close>

definition own_error :: "fields \<Rightarrow> string option" where
  "own_error d = map_option (take 500) (first_of (filter (\<lambda>s. s \<noteq> [])
     (map (\<lambda>k. strip (str_or_empty (dget d k))) [''error'', ''message'', ''stderr'', ''stdout''])))"

fun error_summary :: "nat \<Rightarrow> fields \<Rightarrow> string option" where
  "error_summary 0 d = own_error d"
| "error_summary (Suc n) d = (case own_error d of Some s \<Rightarrow> Some s
     | None \<Rightarrow> first_of (concat (map (\<lambda>(k, v). case v of
         JObj e \<Rightarrow> (case error_summary n e of Some s \<Rightarrow> [s] | None \<Rightarrow> []) | _ \<Rightarrow> []) d)))"

definition agent_task_error_summary :: "fields \<Rightarrow> string option" where
  "agent_task_error_summary result = error_summary 12 result"

text \<open>\<open>db.get(Model, payload.get(key)) if payload.get(key) else None\<close>\<close>

definition payload_row :: "(int \<Rightarrow> db \<Rightarrow> 'r option) \<Rightarrow> string \<Rightarrow> task \<Rightarrow> db \<Rightarrow> 'r option" where
  "payload_row get key t d = (let v = dget (payload_of t) key in
     if \<not> truthy v then None else case row_key v of None \<Rightarrow> None | Some k \<Rightarrow> get k d)"

definition normalize_agent_task_report :: "db \<Rightarrow> task \<Rightarrow> task_status \<Rightarrow> fields \<Rightarrow> task_status \<times> fields" where
  "normalize_agent_task_report d t status result =
     (if status \<noteq> Succeeded \<or> payload_row get_iface ''interface_id'' t d = None then (status, result)
      else if tk_type t = ts_stop wireguard_tasks \<and> stop_task_result_failed result
        then (Failed, dset ''error'' (JStr ''wireguard stop command failed'') result)
      else (status, result))"

definition newer_state_task :: "string list \<Rightarrow> string \<Rightarrow> int \<Rightarrow> int \<Rightarrow> db \<Rightarrow> bool" where
  "newer_state_task tys key row_id task_id d = list_ex (\<lambda>u. task_id < tk_id u \<and>
     payload_int (tk_payload u) key row_id \<and> tk_type u \<in> set tys \<and> tk_status u \<noteq> Cancelled) (db_tasks d)"

definition has_newer_interface_state_task :: "int \<Rightarrow> int \<Rightarrow> db \<Rightarrow> bool" where
  "has_newer_interface_state_task interface_id task_id d = newer_state_task
     [ts_apply_config wireguard_tasks, ts_start wireguard_tasks, ts_stop wireguard_tasks]
     ''interface_id'' interface_id task_id d"

definition has_newer_endpoint_state_task :: "int \<Rightarrow> int \<Rightarrow> db \<Rightarrow> bool" where
  "has_newer_endpoint_state_task endpoint_id task_id d = newer_state_task
     [ts_apply_config gre_tasks, ts_start gre_tasks, ts_stop gre_tasks]
     ''connection_endpoint_id'' endpoint_id task_id d"

definition confirmed_cleanup :: "json \<Rightarrow> bool" where
  "confirmed_cleanup v = (case v of JObj c \<Rightarrow> \<not> truthy (dget c ''dry_run'') | _ \<Rightarrow> False)"

definition payload_previous_name :: "task \<Rightarrow> string" where
  "payload_previous_name t = strip (str_or_empty (dget (payload_of t) ''previous_interface_name''))"

definition should_clear_previous_interface_name :: "db \<Rightarrow> task \<Rightarrow> fields \<Rightarrow> bool" where
  "should_clear_previous_interface_name d t result =
     (if payload_previous_name t = [] then True
      else case task_dependency_id t of
        Some k \<Rightarrow> (case get_task k d of None \<Rightarrow> False | Some u \<Rightarrow> tk_status u = Succeeded)
      | None \<Rightarrow> confirmed_cleanup (dget result ''rename_cleanup''))"

definition gre_previous_config_cleanup_confirmed :: "task \<Rightarrow> fields \<Rightarrow> bool" where
  "gre_previous_config_cleanup_confirmed t result =
     (payload_previous_name t = [] \<or> confirmed_cleanup (dget result ''previous_config_cleanup''))"

section \<open>The node and the plan\<close>

definition after_upgrade :: "task_status \<Rightarrow> fields \<Rightarrow> node \<Rightarrow> node" where
  "after_upgrade status result n =
     (let s = py_str (or_json (dget result ''status'') (JStr (status_text status))) in
      n\<lparr>nd_agent_update_status := Some s,
        nd_agent_last_error :=
          (if status = Failed \<or> s \<in> {''failed'', ''rolled_back''}
           then Some (py_str (or_json (dget result ''error'') (JObj result))) else None)\<rparr>)"

definition after_middleware_install :: "task_status \<Rightarrow> fields \<Rightarrow> node \<Rightarrow> node" where
  "after_middleware_install status result n =
     (let platform = json_object (nd_agent_platform n) in
      if status = Succeeded then
        (if truthy (dget result ''reboot_required'')
         then n\<lparr>nd_middleware_install_status := Some ''mimic_reboot_required'',
                nd_agent_platform := JObj (dset ''mimic_reboot_required'' (JBool True) platform)\<rparr>
         else n\<lparr>nd_middleware_install_status := Some ''mimic_ready'',
                nd_agent_platform := JObj (ddel ''mimic_reboot_required'' platform)\<rparr>)
      else if status = Failed then n\<lparr>nd_middleware_install_status := Some ''mimic_failed''\<rparr>
      else n)"

definition record_on_node :: "int \<Rightarrow> task \<Rightarrow> task_status \<Rightarrow> fields \<Rightarrow> db \<Rightarrow> db" where
  "record_on_node node_id t status result d = (case get_node node_id d of None \<Rightarrow> d
     | Some n \<Rightarrow>
         if tk_type t = ''agent.self_upgrade'' then put_node (after_upgrade status result n) d
         else if tk_type t = ''middleware.install'' \<and> dget (payload_of t) ''plugin'' = JStr ''mimic''
           then put_node (after_middleware_install status result n) d
         else d)"

section \<open>Import candidates\<close>

text \<open>A scanned entry that is usable, with its normalised parse and its content.\<close>

record scanned =
  sc_path :: string
  sc_name :: string
  sc_parsed :: fields
  sc_content :: string
  sc_warnings :: json

definition scanned_candidate :: "json \<Rightarrow> scanned option reply" where
  "scanned_candidate v = (case v of
      JObj c \<Rightarrow>
        (case normalize_import_candidate_parsed (dget c ''parsed'') of
           Inl Crashed \<Rightarrow> Inl (HTTP 500 ''attribute error'')
         | Inl Refused \<Rightarrow> Inr None
         | Inr parsed \<Rightarrow>
             (case (dget c ''path'', dget c ''content'', dget parsed ''name'') of
                (JStr path, JStr content, JStr name) \<Rightarrow>
                  Inr (if path = [] \<or> 512 < length path \<or> 512 * 1024 < utf8_length content then None
                    else Some \<lparr>sc_path = path, sc_name = name, sc_parsed = parsed,
                      sc_content = content, sc_warnings = dget parsed ''warnings''\<rparr>)
              | _ \<Rightarrow> Inr None))
    | _ \<Rightarrow> Inr None)"

definition candidate_at :: "int \<Rightarrow> string \<Rightarrow> db \<Rightarrow> candidate option" where
  "candidate_at node_id path d = find (\<lambda>c. ic_node_id c = node_id \<and> ic_path c = path) (db_candidates d)"

text \<open>
  One scanned entry. Nothing is flushed inside the loop (the session has \<open>autoflush\<close> off), so
  the search for an existing row sees the table \<open>d0\<close> of its start, and two entries of one path
  add two rows. Rows marked for deletion go away when all is written.
\<close>

definition store_candidate :: "db \<Rightarrow> int \<Rightarrow> string list \<Rightarrow> scanned \<Rightarrow> db \<times> int list \<Rightarrow> db \<times> int list" where
  "store_candidate d0 node_id names s acc = (case acc of (d, dead) \<Rightarrow>
     let parsed = JObj (dset ''raw_config'' (JStr (sc_content s)) (sc_parsed s)) in
     (case candidate_at node_id (sc_path s) d0 of
        Some c \<Rightarrow>
          if sc_name s \<in> set names then (d, if ic_imported c then dead else ic_id c # dead)
          else if ic_imported c then (d, dead)
          else (d\<lparr>db_candidates := tb_put ic_id
                   (c\<lparr>ic_interface_name := sc_name s, ic_parsed := parsed, ic_warnings := sc_warnings s\<rparr>)
                   (db_candidates d)\<rparr>, dead)
      | None \<Rightarrow>
          if sc_name s \<in> set names then (d, dead)
          else (d\<lparr>db_candidates := db_candidates d @
                 [\<lparr>ic_id = next_id ic_id (db_candidates d), ic_node_id = node_id, ic_path = sc_path s,
                   ic_interface_name = sc_name s, ic_parsed = parsed, ic_warnings = sc_warnings s,
                   ic_imported = False\<rparr>]\<rparr>, dead)))"

definition scanned_list :: "fields \<Rightarrow> scanned list reply" where
  "scanned_list result = rbind (rmap scanned_candidate (take 1000 (json_items (dget result ''candidates''))))
     (\<lambda>found. Inr (concat (map (\<lambda>x. case x of None \<Rightarrow> [] | Some s \<Rightarrow> [s]) found)))"

text \<open>At most a thousand entries are read; candidates of paths no longer scanned go away.\<close>

definition record_import_scan :: "int \<Rightarrow> fields \<Rightarrow> db \<Rightarrow> db reply" where
  "record_import_scan node_id result d =
     rbind (scanned_list result) (\<lambda>scans.
       let paths = map sc_path scans;
           names = existing_interface_names node_id d;
           stale = map ic_id (filter (\<lambda>c. ic_node_id c = node_id \<and> \<not> ic_imported c \<and> ic_path c \<notin> set paths)
                     (db_candidates d));
           (d1, dead) = fold (store_candidate d node_id names) scans (d, stale) in
       Inr (d1\<lparr>db_candidates := filter (\<lambda>c. ic_id c \<notin> set dead) (db_candidates d1)\<rparr>))"

section \<open>The configuration a task was about\<close>

text \<open>
  A text column takes what SQLite converts to text; a list or an object fails in the
  statement, and so does an integer beyond 64 bits.
\<close>

definition text_column :: "json \<Rightarrow> string option" where
  "text_column v = (case v of
      JStr s \<Rightarrow> Some s
    | JInt n \<Rightarrow> if - (2 ^ 63) \<le> n \<and> n < 2 ^ 63 then Some (show_int n) else None
    | JBool b \<Rightarrow> Some (if b then ''1'' else ''0'')
    | JFloat t \<Rightarrow> Some t
    | _ \<Rightarrow> None)"

text \<open>\<open>row.runtime_status = result.get("runtime_status") or row.runtime_status\<close>\<close>

definition reported_status_text :: "fields \<Rightarrow> string \<Rightarrow> string reply" where
  "reported_status_text result old = (let v = dget result ''runtime_status'' in
     if truthy v then some_or (text_column v) (HTTP 500 ''statement error'') else Inr old)"

text \<open>\<open>task_targets\<close> with its effect: comparing identities gives the row one when it has none.\<close>

definition identify_iface :: "string \<Rightarrow> task \<Rightarrow> iface \<Rightarrow> iface" where
  "identify_iface fresh t i = (if truthy (payload_identity t) then snd (iface_identity fresh i) else i)"

definition identify_endpoint :: "string \<Rightarrow> task \<Rightarrow> endpoint \<Rightarrow> endpoint" where
  "identify_endpoint fresh t e = (if truthy (payload_identity t) then snd (endpoint_identity fresh e) else e)"

definition uci_without_config :: "fields \<Rightarrow> bool" where
  "uci_without_config result = (dget result ''config_backend'' = JStr ''openwrt-uci'' \<and>
     dget result ''exists'' = JBool False \<and> \<not> truthy (dget result ''config''))"

definition interface_after_task :: "db \<Rightarrow> task \<Rightarrow> fields \<Rightarrow> iface \<Rightarrow> iface reply" where
  "interface_after_task d t result i =
     (if tk_type t = ts_apply_config wireguard_tasks then
        (let config = dget (payload_of t) ''config'' in
         if \<not> storable_text config then Inl (HTTP 500 ''statement error'')
         else let i1 = i\<lparr>if_deployed_config := json_text config, if_runtime_status := ''running''\<rparr> in
           Inr (if should_clear_previous_interface_name d t result
             then i1\<lparr>if_extras := set_extra ''previous_interface_name'' None (if_extras i1)\<rparr> else i1))
      else if tk_type t = ts_read_config wireguard_tasks then
        (if uci_without_config result then Inr i
         else let config = or_json (dget result ''config'') (JStr []) in
           if \<not> storable_text config then Inl (HTTP 500 ''statement error'')
           else Inr (i\<lparr>if_deployed_config := json_text config\<rparr>))
      else if tk_type t = ts_start wireguard_tasks then Inr (i\<lparr>if_runtime_status := ''running''\<rparr>)
      else if tk_type t = ts_stop wireguard_tasks then Inr (i\<lparr>if_runtime_status := ''stopped''\<rparr>)
      else if tk_type t = ts_status wireguard_tasks then
        (if has_newer_interface_state_task (if_id i) (tk_id t) d then Inr i
         else rbind (reported_status_text result (if_runtime_status i)) (\<lambda>s. Inr (i\<lparr>if_runtime_status := s\<rparr>)))
      else Inr i)"

definition record_on_interface :: "string \<Rightarrow> task \<Rightarrow> fields \<Rightarrow> db \<Rightarrow> db reply" where
  "record_on_interface fresh t result d = (case payload_row get_iface ''interface_id'' t d of
      None \<Rightarrow> Inr d
    | Some i \<Rightarrow>
        if if_node_id i \<noteq> tk_node_id t then Inr d
        else let i1 = identify_iface fresh t i in
          if task_targets_iface fresh t (Some i)
          then rbind (interface_after_task d t result i1) (\<lambda>i2. Inr (put_iface i2 d))
          else Inr (put_iface i1 d))"

definition endpoint_after_success :: "db \<Rightarrow> task \<Rightarrow> fields \<Rightarrow> endpoint \<Rightarrow> endpoint reply" where
  "endpoint_after_success d t result e =
     (let p = payload_of t in
      if tk_type t = ts_apply_config gre_tasks
      then Inr (e\<lparr>ep_deployed_config := Some (JObj (filter (\<lambda>(k, v). k \<noteq> ''depends_on_task_id'') p))\<rparr>)
      else if tk_type t = ts_start gre_tasks then
        (let e1 = set_endpoint_extra_value ''last_error'' None (e\<lparr>ep_runtime_status := ''running''\<rparr>) in
         Inr (if dget p ''interface_name'' = JStr (ep_interface_name e) \<and>
               dget p ''previous_interface_name'' = dget (json_object (ep_extras e1)) ''previous_interface_name'' \<and>
               gre_previous_config_cleanup_confirmed t result
           then set_endpoint_extra_value ''previous_interface_name'' None e1 else e1))
      else if tk_type t = ts_stop gre_tasks
      then Inr (set_endpoint_extra_value ''last_error'' None (e\<lparr>ep_runtime_status := ''stopped''\<rparr>))
      else if tk_type t = ts_status gre_tasks then
        (if has_newer_endpoint_state_task (ep_id e) (tk_id t) d then Inr e
         else rbind (reported_status_text result (ep_runtime_status e)) (\<lambda>s. Inr (e\<lparr>ep_runtime_status := s\<rparr>)))
      else if tk_type t = ts_read_config gre_tasks
      then Inr (e\<lparr>ep_deployed_config := Some (or_json (dget result ''config'') (JObj []))\<rparr>)
      else Inr e)"

definition endpoint_after_failure :: "fields \<Rightarrow> endpoint \<Rightarrow> endpoint" where
  "endpoint_after_failure result e =
     set_endpoint_extra_value ''last_error''
       (Some (the_or ''agent task failed'' (agent_task_error_summary result)))
       (e\<lparr>ep_runtime_status := ''failed''\<rparr>)"

definition store_endpoint :: "conn \<Rightarrow> endpoint \<Rightarrow> db \<Rightarrow> db" where
  "store_endpoint c e d = (let d1 = put_endpoint e d in
     put_conn (c\<lparr>co_status := gre_connection_status (co_id c) d1\<rparr>) d1)"

definition record_on_endpoint :: "string \<Rightarrow> task \<Rightarrow> task_status \<Rightarrow> fields \<Rightarrow> db \<Rightarrow> db reply" where
  "record_on_endpoint fresh t status result d =
     (case payload_row get_endpoint ''connection_endpoint_id'' t d of
        None \<Rightarrow> Inr d
      | Some e \<Rightarrow>
          if status = Cancelled \<or> ep_node_id e \<noteq> tk_node_id t then Inr d
          else let e1 = identify_endpoint fresh t e in
            if \<not> task_targets_endpoint fresh t (Some e) then Inr (put_endpoint e1 d)
            else rbind (some_or (get_conn (ep_connection_id e) d) (HTTP 500 ''attribute error'')) (\<lambda>c.
              if co_protocol_type c \<noteq> ''gre'' then Inr (put_endpoint e1 d)
              else if status = Failed then Inr (store_endpoint c (endpoint_after_failure result e1) d)
              else rbind (endpoint_after_success d t result e1) (\<lambda>e2. Inr (store_endpoint c e2 d))))"

section \<open>The handler\<close>

definition record_on_query :: "time \<Rightarrow> int \<Rightarrow> db \<Rightarrow> db" where
  "record_on_query now task_id d = (case find (\<lambda>q. lq_agent_task_id q = Some task_id) (db_queries d) of
      None \<Rightarrow> d
    | Some q \<Rightarrow> refresh_looking_glass_query_from_task now q d)"

text \<open>Everything that follows the write of the final state.\<close>

definition record_effects :: "env \<Rightarrow> int \<Rightarrow> task \<Rightarrow> task_status \<Rightarrow> fields \<Rightarrow> db \<Rightarrow> db reply" where
  "record_effects en node_id t status result d =
     (let d1 = refresh_plan_opt (tk_change_plan_id t) (record_on_node node_id t status result d) in
      rbind (if Some (tk_type t) = ts_import_scan wireguard_tasks \<and> status = Succeeded
          then record_import_scan node_id result d1 else Inr d1) (\<lambda>d2.
      rbind (if status = Succeeded then record_on_interface (en_fresh en) t result d2 else Inr d2) (\<lambda>d3.
      rbind (record_on_endpoint (en_fresh en) t status result d3) (\<lambda>d4.
        Inr (record_on_query (en_now en) (tk_id t) d4)))))"

definition finish_task :: "time \<Rightarrow> task_status \<Rightarrow> fields \<Rightarrow> task \<Rightarrow> task" where
  "finish_task now status result t =
     t\<lparr>tk_status := status, tk_result := Some (JObj result), tk_finished_at := Some now\<rparr>"

text \<open>
  The reply and the database, which an invalid result changes although the answer is an error:
  a running task is then failed and the change committed.
\<close>

definition agent_task_result ::
  "(string \<Rightarrow> string \<Rightarrow> bool) \<Rightarrow> env \<Rightarrow> int \<Rightarrow> int \<Rightarrow> string \<Rightarrow> task_status \<Rightarrow> fields \<Rightarrow> db \<Rightarrow> (http_error, unit) result \<times> db" where
  "agent_task_result verify_token en task_id node_id token status result d =
     (case require_agent verify_token node_id token d of Inl e \<Rightarrow> (Inl e, d) | Inr n \<Rightarrow>
     (case get_task task_id d of None \<Rightarrow> (Inl (HTTP 404 ''task not found''), d) | Some t \<Rightarrow>
      if tk_node_id t \<noteq> node_id then (Inl (HTTP 404 ''task not found''), d)
      else (case validate_agent_result_json 0 (JObj result) agent_result_budget of
        Inl msg \<Rightarrow> (Inl (HTTP 400 msg),
          (if tk_status t = Running
           then refresh_plan_opt (tk_change_plan_id t)
             (put_task (fail_task (en_now en) (JObj [(''error'', JStr msg)]) t) d)
           else d))
      | Inr _ \<Rightarrow>
          (case normalize_agent_task_report d t status result of (status1, result1) \<Rightarrow>
           if tk_status t \<noteq> Running then
             (if tk_status t = status1 then (Inr (), d)
              else (Inl (HTTP 409 (''task is not running: '' @ status_text (tk_status t))), d))
           else (case record_effects en node_id t status1 result1
                   (put_task (finish_task (en_now en) status1 result1 t) d) of
               Inl e \<Rightarrow> (Inl e, d)
             | Inr d1 \<Rightarrow> (Inr (), d1))))))"

end
