(* ===== verification/Safety.thy ===== *)
theory Safety
  imports TaskResult TaskLaws
begin

text \<open>
  The invariant of the task and plan tables that every handler keeps: at most one pending task
  per deduplication key, plans that tell the truth about their tasks, and looking glass tasks
  that belong to no plan. \<open>safe_step\<close> is the contract of an operation: it keeps the invariant
  and lets tasks only evolve. It is first shown for the primitives (writing other tables,
  closing tasks, inserting a task) and composed along the code of each handler.
\<close>

section \<open>The invariant\<close>

definition dedup_unique :: "db \<Rightarrow> bool" where
  "dedup_unique d = (\<forall>t \<in> set (db_tasks d). \<forall>u \<in> set (db_tasks d).
     tk_status t = Pending \<and> tk_status u = Pending \<and> tk_dedup_key t \<noteq> None \<and>
     tk_dedup_key t = tk_dedup_key u \<longrightarrow> tk_id t = tk_id u)"

text \<open>A plan and the tasks it has: a failure shows, success means success of all, and a plan
  never confirmed has no task.\<close>

definition plan_honest :: "task list \<Rightarrow> plan \<Rightarrow> bool" where
  "plan_honest ts p = (\<forall>t \<in> set ts. tk_change_plan_id t = Some (pl_id p) \<longrightarrow>
     (tk_status t \<in> {Failed, Cancelled} \<longrightarrow> pl_status p = PFailed) \<and>
     (pl_status p = PSucceeded \<longrightarrow> tk_status t = Succeeded) \<and>
     pl_status p \<noteq> PDraft \<and> pl_status p \<noteq> PCancelled)"

definition plans_honest :: "int set \<Rightarrow> db \<Rightarrow> bool" where
  "plans_honest S d = (\<forall>p \<in> set (db_plans d). pl_id p \<notin> S \<longrightarrow> plan_honest (db_tasks d) p)"

definition plan_keys_ok :: "db \<Rightarrow> bool" where
  "plan_keys_ok d = (tb_wf pl_id (db_plans d) \<and>
     (\<forall>t \<in> set (db_tasks d). \<forall>k. tk_change_plan_id t = Some k \<longrightarrow> k \<in> pl_id ` set (db_plans d)))"

definition queries_planless :: "db \<Rightarrow> bool" where
  "queries_planless d = (\<forall>q \<in> set (db_queries d). \<forall>k. lq_agent_task_id q = Some k \<longrightarrow>
     (\<exists>t. get_task k d = Some t \<and> tk_change_plan_id t = None))"

definition task_inv :: "db \<Rightarrow> bool" where
  "task_inv d = (tasks_wf d \<and> dedup_unique d \<and> plans_honest {} d \<and> plan_keys_ok d \<and> queries_planless d)"

definition safe_step :: "db \<Rightarrow> db \<Rightarrow> bool" where
  "safe_step d d' = (task_inv d \<longrightarrow> task_inv d' \<and> tasks_evolve d d')"

lemma safe_refl [simp]: "safe_step d d"
  by (simp add: safe_step_def)

lemma safe_trans: "safe_step d e \<Longrightarrow> safe_step e f \<Longrightarrow> safe_step d f"
  unfolding safe_step_def using tasks_evolve_trans by blast

text \<open>Operations that touch neither tasks, plans nor queries.\<close>

definition same_work :: "db \<Rightarrow> db \<Rightarrow> bool" where
  "same_work d d' = (db_tasks d' = db_tasks d \<and> db_plans d' = db_plans d \<and> db_queries d' = db_queries d)"

lemma task_frame:
  assumes "db_tasks e = db_tasks d"
  shows "tasks_wf e = tasks_wf d" "dedup_unique e = dedup_unique d" "get_task k e = get_task k d"
    "db_queries e = db_queries d \<Longrightarrow> queries_planless e = queries_planless d"
  using assms by (simp_all add: tasks_wf_def dedup_unique_def get_task_def queries_planless_def)

text \<open>Writing plans: the other three parts of the invariant stay.\<close>

lemma plan_write_safe:
  assumes "db_tasks e = db_tasks d" "db_queries e = db_queries d"
    and "task_inv d \<Longrightarrow> plans_honest {} e \<and> plan_keys_ok e"
  shows "safe_step d e"
  using assms(3) task_frame [OF assms(1)] assms(2) tasks_evolve_same [OF assms(1)]
  unfolding safe_step_def task_inv_def by blast

lemma same_work_inv: "same_work d d' \<Longrightarrow> task_inv d' \<longleftrightarrow> task_inv d"
  by (simp add: same_work_def task_inv_def tasks_wf_def dedup_unique_def plans_honest_def
      plan_keys_ok_def queries_planless_def get_task_def)

lemma same_work_safe: "same_work d d' \<Longrightarrow> safe_step d d'"
  using same_work_inv [of d d'] tasks_evolve_same [of d' d] unfolding safe_step_def same_work_def by blast

lemma put_same_work [simp]:
  "same_work d (put_node n d)" "same_work d (put_iface i d)" "same_work d (put_peer r d)"
  "same_work d (put_conn c d)" "same_work d (put_endpoint e d)" "same_work d (put_monitor m d)"
  "same_work d (put_key k d)" "same_work d (delete_link_monitors_where P d)"
  by (simp_all add: same_work_def put_node_def put_iface_def put_peer_def put_conn_def put_endpoint_def
      put_monitor_def put_key_def delete_link_monitors_where_def Let_def)

lemma mark_same_work [simp]: "same_work d (snd (mark_import_candidate_available_for_interface i d))"
  unfolding mark_import_candidate_available_for_interface_def
  by (simp add: same_work_def option.case_eq_if)

section \<open>Tasks and plans\<close>

lemma plan_honest_closed:
  assumes "plan_honest ts p" "\<And>u. u \<in> set us \<Longrightarrow> tk_change_plan_id u = Some (pl_id p) \<Longrightarrow>
    (\<exists>t \<in> set ts. tk_change_plan_id t = Some (pl_id p) \<and> status_le (tk_status t) (tk_status u)) \<and>
    (tk_status u \<in> {Failed, Cancelled} \<longrightarrow> pl_status p = PFailed)"
  shows "plan_honest us p"
  unfolding plan_honest_def
proof (intro ballI impI)
  fix u assume u: "u \<in> set us" "tk_change_plan_id u = Some (pl_id p)"
  from assms(2) [OF u] obtain t where t: "t \<in> set ts" "tk_change_plan_id t = Some (pl_id p)"
    and le: "status_le (tk_status t) (tk_status u)"
    and c: "tk_status u \<in> {Failed, Cancelled} \<longrightarrow> pl_status p = PFailed" by fast
  from assms(1) t have h: "pl_status p = PSucceeded \<longrightarrow> tk_status t = Succeeded" "pl_status p \<noteq> PDraft"
    "pl_status p \<noteq> PCancelled" unfolding plan_honest_def by blast+
  then show "(tk_status u \<in> {Failed, Cancelled} \<longrightarrow> pl_status p = PFailed) \<and>
     (pl_status p = PSucceeded \<longrightarrow> tk_status u = Succeeded) \<and> pl_status p \<noteq> PDraft \<and> pl_status p \<noteq> PCancelled"
    using c le by (cases "tk_status t") simp_all
qed

text \<open>One task moved forward: its plan alone may have to be told.\<close>

definition inv_but :: "int set \<Rightarrow> db \<Rightarrow> bool" where
  "inv_but S d = (tasks_wf d \<and> dedup_unique d \<and> plans_honest S d \<and> plan_keys_ok d \<and> queries_planless d \<and>
     (\<forall>k \<in> S. \<exists>t \<in> set (db_tasks d). tk_change_plan_id t = Some k))"

lemma inv_but_empty: "inv_but {} d = task_inv d"
  by (simp add: inv_but_def task_inv_def)

lemma in_tasks_get: "tasks_wf d \<Longrightarrow> t \<in> set (db_tasks d) \<Longrightarrow> get_task (tk_id t) d = Some t"
  using tasks.get_if_in by (auto simp: tasks_wf_def tb_wf_def)

lemma in_tasks_put:
  assumes "u \<in> set (db_tasks (put_task t d))"
  shows "u = t \<or> (u \<in> set (db_tasks d) \<and> tk_id u \<noteq> tk_id t)"
  using set_tb_put [of u tk_id t "db_tasks d"] assms by (simp add: put_task_def)

lemma inv_but_put_task:
  assumes "inv_but S d" "get_task (tk_id t) d = Some t0" "task_evolves t0 t" "tk_dedup_key t = tk_dedup_key t0"
    and "tk_status t = tk_status t0 \<or> \<not> tk_status t \<in> {Failed, Cancelled} \<or> (case tk_change_plan_id t of None \<Rightarrow> True | Some k \<Rightarrow> k \<in> S')" "S \<subseteq> S'"
    and "\<forall>k \<in> S'. k \<in> S \<or> tk_change_plan_id t = Some k"
  shows "inv_but S' (put_task t d)"
proof -
  let ?e = "put_task t d"
  have t0: "t0 \<in> set (db_tasks d)" "tk_id t0 = tk_id t" using tasks.get_SomeD [OF assms(2)] by auto
  have t: "t \<in> set (db_tasks ?e)"
    using assms(1,2) tasks.get_SomeD [of "tk_id t" ?e t] by (auto simp: tasks.get_put)
  have st: "tk_status t = Pending \<longrightarrow> tk_status t0 = Pending"
    using assms(3) by (cases "tk_status t0") (auto simp: task_evolves_def)
  have "dedup_unique ?e"
    unfolding dedup_unique_def
  proof (intro ballI impI)
    fix u v assume u: "u \<in> set (db_tasks ?e)" and v: "v \<in> set (db_tasks ?e)" and
      k: "tk_status u = Pending \<and> tk_status v = Pending \<and> tk_dedup_key u \<noteq> None \<and> tk_dedup_key u = tk_dedup_key v"
    have pre: "\<exists>w \<in> set (db_tasks d). tk_id w = tk_id x \<and> tk_status w = Pending \<and> tk_dedup_key w = tk_dedup_key x"
      if "x \<in> set (db_tasks ?e)" "tk_status x = Pending" for x
      using in_tasks_put [OF that(1)] that(2) t0 st assms(4) by auto
    obtain a where a: "a \<in> set (db_tasks d)" "tk_id a = tk_id u" "tk_status a = Pending" "tk_dedup_key a = tk_dedup_key u"
      using pre [OF u] k by blast
    obtain b where b: "b \<in> set (db_tasks d)" "tk_id b = tk_id v" "tk_status b = Pending" "tk_dedup_key b = tk_dedup_key v"
      using pre [OF v] k by blast
    have "dedup_unique d" using assms(1) by (simp add: inv_but_def)
    then have "tk_id a = tk_id b" using a b k unfolding dedup_unique_def by metis
    then show "tk_id u = tk_id v" using a b by simp
  qed
  moreover have "plans_honest S' ?e"
    unfolding plans_honest_def
  proof (intro ballI impI)
    fix p assume p: "p \<in> set (db_plans ?e)" "pl_id p \<notin> S'"
    then have "plan_honest (db_tasks d) p" using assms(1,6) by (auto simp: inv_but_def plans_honest_def)
    then show "plan_honest (db_tasks ?e) p"
    proof (rule plan_honest_closed)
      fix u assume u: "u \<in> set (db_tasks ?e)" "tk_change_plan_id u = Some (pl_id p)"
      show "(\<exists>t\<in>set (db_tasks d). tk_change_plan_id t = Some (pl_id p) \<and> status_le (tk_status t) (tk_status u)) \<and>
        (tk_status u \<in> {Failed, Cancelled} \<longrightarrow> pl_status p = PFailed)"
        using in_tasks_put [OF u(1)]
      proof
        assume "u = t"
        then have pt: "tk_change_plan_id t = Some (pl_id p)" using u(2) by simp
        then have "tk_status t = tk_status t0 \<or> tk_status t \<notin> {Failed, Cancelled}" using assms(5) p(2) by simp
        moreover have pt0: "tk_change_plan_id t0 = Some (pl_id p)" "status_le (tk_status t0) (tk_status t)"
          using pt assms(3) by (simp_all add: task_evolves_def)
        moreover have "tk_status t0 \<in> {Failed, Cancelled} \<longrightarrow> pl_status p = PFailed"
          using \<open>plan_honest (db_tasks d) p\<close> t0(1) pt0(1) unfolding plan_honest_def by blast
        ultimately show ?thesis using t0(1) \<open>u = t\<close> by metis
      next
        assume "u \<in> set (db_tasks d) \<and> tk_id u \<noteq> tk_id t"
        then show ?thesis
          using u(2) \<open>plan_honest (db_tasks d) p\<close> status_le_refl unfolding plan_honest_def by blast
      qed
    qed
  qed
  moreover have "plan_keys_ok ?e"
  proof -
    have "k \<in> pl_id ` set (db_plans d)" if "u \<in> set (db_tasks ?e)" "tk_change_plan_id u = Some k" for u k
    proof -
      have ok: "\<forall>v \<in> set (db_tasks d). \<forall>k. tk_change_plan_id v = Some k \<longrightarrow> k \<in> pl_id ` set (db_plans d)"
        using assms(1) by (simp add: inv_but_def plan_keys_ok_def)
      have "tk_change_plan_id t0 = tk_change_plan_id t" using assms(3) by (simp add: task_evolves_def)
      then show ?thesis using in_tasks_put [OF that(1)] that(2) ok t0(1) by metis
    qed
    moreover have "tb_wf pl_id (db_plans d)" using assms(1) by (simp add: inv_but_def plan_keys_ok_def)
    ultimately show ?thesis by (auto simp: plan_keys_ok_def)
  qed
  moreover have "queries_planless ?e"
  proof -
    have "\<exists>v. get_task k ?e = Some v \<and> tk_change_plan_id v = None"
      if "get_task k d = Some u" "tk_change_plan_id u = None" for k u
      using that assms(2,3) by (auto simp: tasks.get_put task_evolves_def)
    moreover have "db_queries ?e = db_queries d" by (simp add: put_task_def)
    ultimately show ?thesis using assms(1) unfolding inv_but_def queries_planless_def by metis
  qed
  moreover have "\<exists>u \<in> set (db_tasks ?e). tk_change_plan_id u = Some k" if k: "k \<in> S'" for k
  proof (cases "tk_change_plan_id t = Some k")
    case True
    then show ?thesis using t by blast
  next
    case False
    then have "k \<in> S" using k assms(7) by blast
    then obtain u where u: "u \<in> set (db_tasks d)" "tk_change_plan_id u = Some k"
      using assms(1) unfolding inv_but_def by blast
    have "tasks_wf d" using assms(1) by (simp add: inv_but_def)
    then have "u = t0" if "tk_id u = tk_id t" using in_tasks_get [OF _ u(1)] assms(2) that by simp
    then have "tk_id u \<noteq> tk_id t" using False u(2) assms(3) by (auto simp: task_evolves_def)
    then have "u \<in> set (db_tasks ?e)" using u by (auto simp: put_task_def tb_put_def)
    then show ?thesis using u by blast
  qed
  moreover have "tasks_wf ?e" using assms(1) tasks_wf_put by (simp add: inv_but_def)
  ultimately show ?thesis by (simp only: inv_but_def) blast
qed

lemma aggregate_honest: "plan_honest (db_tasks d) (p\<lparr>pl_status := aggregate_status (plan_tasks (pl_id p) d) s\<rparr>)"
proof -
  let ?ts = "plan_tasks (pl_id p) d"
  have mem: "t \<in> set ?ts \<longleftrightarrow> t \<in> set (db_tasks d) \<and> tk_change_plan_id t = Some (pl_id p)" for t
    by (auto simp: plan_tasks_def tasks_by_id_def)
  show ?thesis
    unfolding plan_honest_def
  proof (intro ballI impI)
    fix t assume t: "t \<in> set (db_tasks d)"
      "tk_change_plan_id t = Some (pl_id (p\<lparr>pl_status := aggregate_status ?ts s\<rparr>))"
    then have "t \<in> set ?ts" by (simp add: mem)
    then show "(tk_status t \<in> {Failed, Cancelled} \<longrightarrow> pl_status (p\<lparr>pl_status := aggregate_status ?ts s\<rparr>) = PFailed) \<and>
       (pl_status (p\<lparr>pl_status := aggregate_status ?ts s\<rparr>) = PSucceeded \<longrightarrow> tk_status t = Succeeded) \<and>
       pl_status (p\<lparr>pl_status := aggregate_status ?ts s\<rparr>) \<noteq> PDraft \<and>
       pl_status (p\<lparr>pl_status := aggregate_status ?ts s\<rparr>) \<noteq> PCancelled"
      by (auto simp: aggregate_status_def list_ex_iff list_all_iff)
  qed
qed

lemma put_plan_frames [simp]:
  "db_queries (put_plan p d) = db_queries d" "db_queries (put_task t d) = db_queries d"
  "get_task k (put_plan p d) = get_task k d" "dedup_unique (put_plan p d) = dedup_unique d"
  "tasks_wf (put_plan p d) = tasks_wf d"
  by (simp_all add: put_plan_def put_task_def get_task_def dedup_unique_def tasks_wf_def)

lemma tb_wf_keys: "tb_wf key rows = (distinct (map key rows) \<and> (\<forall>k \<in> set (map key rows). 0 < k))"
  by (simp add: tb_wf_def list_all_iff)

lemma plan_keys_put [simp]: "plan_keys_ok (put_plan p d) = plan_keys_ok d"
proof -
  have keys: "map pl_id (db_plans (put_plan p d)) = map pl_id (db_plans d)" by (rule plans.keys_put)
  then have i: "pl_id ` set (db_plans (put_plan p d)) = pl_id ` set (db_plans d)" by (metis list.set_map)
  have "tb_wf pl_id (db_plans (put_plan p d)) = tb_wf pl_id (db_plans d)"
    by (simp only: tb_wf_keys keys)
  then show ?thesis using i by (simp add: plan_keys_ok_def)
qed

lemma inv_but_put_plan:
  assumes "inv_but S d" "plan_honest (db_tasks d) p"
  shows "inv_but (S - {pl_id p}) (put_plan p d)"
proof -
  have "plans_honest (S - {pl_id p}) (put_plan p d)"
    unfolding plans_honest_def
  proof (intro ballI impI)
    fix q assume q: "q \<in> set (db_plans (put_plan p d))" "pl_id q \<notin> S - {pl_id p}"
    from set_tb_put [of q pl_id p "db_plans d"] q(1)
    have "q = p \<or> (q \<in> set (db_plans d) \<and> pl_id q \<noteq> pl_id p)" by (simp add: put_plan_def)
    then show "plan_honest (db_tasks (put_plan p d)) q"
      using assms q(2) by (auto simp: inv_but_def plans_honest_def)
  qed
  then show ?thesis using assms(1) by (auto simp: inv_but_def queries_planless_def)
qed

lemma inv_but_refresh_plan: "inv_but S d \<Longrightarrow> inv_but (S - {k}) (refresh_plan k d)"
proof (cases "get_plan k d")
  case None
  assume i: "inv_but S d"
  then have "plan_keys_ok d" "\<forall>k \<in> S. \<exists>t \<in> set (db_tasks d). tk_change_plan_id t = Some k"
    by (simp_all add: inv_but_def)
  moreover have "k \<notin> pl_id ` set (db_plans d)" using None by (simp add: get_plan_def tb_get_None_iff)
  ultimately have "k \<notin> S" unfolding plan_keys_ok_def by blast
  then show ?thesis using i None by (simp add: refresh_plan_def)
next
  case (Some p)
  assume i: "inv_but S d"
  have "pl_id p = k" using plans.get_key [OF Some] .
  then show ?thesis
    using inv_but_put_plan [OF i aggregate_honest [of d p "pl_status p"]] Some
    by (simp add: refresh_plan_def update_change_plan_task_status_def)
qed

lemma inv_but_mono:
  "inv_but S d \<Longrightarrow> S \<subseteq> S' \<Longrightarrow> \<forall>k \<in> S'. \<exists>t \<in> set (db_tasks d). tk_change_plan_id t = Some k \<Longrightarrow> inv_but S' d"
  unfolding inv_but_def plans_honest_def by blast

lemma inv_but_refresh_opt:
  assumes "inv_but S d"
  shows "inv_but S (refresh_plan_opt k d)" "k = Some j \<Longrightarrow> inv_but (S - {j}) (refresh_plan_opt k d)"
proof -
  have "inv_but S (refresh_plan j d)" for j
    by (rule inv_but_mono [OF inv_but_refresh_plan [OF assms, of j]]) (use assms in \<open>auto simp: inv_but_def\<close>)
  then show "inv_but S (refresh_plan_opt k d)" using assms by (cases k) (simp_all add: refresh_plan_opt_def)
  show "k = Some j \<Longrightarrow> inv_but (S - {j}) (refresh_plan_opt k d)"
    using inv_but_refresh_plan [OF assms] by (simp add: refresh_plan_opt_def)
qed

lemma inv_but_refresh_plans: "inv_but S d \<Longrightarrow> inv_but (S - set ks) (refresh_plans ks d)"
proof (induction ks arbitrary: S d)
  case (Cons k ks)
  from Cons.IH [OF inv_but_refresh_plan [OF Cons.prems, of k]]
  have "inv_but (S - {k} - set ks) (refresh_plans (k # ks) d)" by (simp add: refresh_plans_def)
  moreover have "S - {k} - set ks = S - set (k # ks)" by auto
  ultimately show ?case by simp
qed (simp add: refresh_plans_def)

lemma refresh_plan_safe: "safe_step d (refresh_plan k d)"
proof -
  have "task_inv d \<Longrightarrow> task_inv (refresh_plan k d)"
    using inv_but_refresh_plan [of "{}" d k] by (simp add: inv_but_empty)
  then show ?thesis by (simp add: safe_step_def)
qed

text \<open>A closing task: legal, and its plan is in the list of plans to tell.\<close>

definition closing :: "(task \<Rightarrow> bool) \<Rightarrow> (task \<Rightarrow> task) \<Rightarrow> bool" where
  "closing still close = (\<forall>u. still u \<longrightarrow> task_evolves u (close u) \<and> tk_dedup_key (close u) = tk_dedup_key u)"

lemma close_task_inv:
  assumes "closing still close" "inv_but (set ps) d" "close_task still close t (d, c, ps) = (d', c', ps')"
  shows "inv_but (set ps') d'"
proof (cases "get_task (tk_id t) d")
  case None
  then show ?thesis using assms by (simp add: close_task_def)
next
  case (Some u)
  show ?thesis
  proof (cases "still u")
    case True
    have c: "task_evolves u (close u)" "tk_dedup_key (close u) = tk_dedup_key u"
      using assms(1) True by (auto simp: closing_def)
    have id: "tk_id (close u) = tk_id t" "tk_change_plan_id (close u) = tk_change_plan_id u"
      using c(1) tasks.get_key [OF Some] by (simp_all add: task_evolves_def)
    have eq: "d' = put_task (close u) d"
      "ps' = (case tk_change_plan_id u of None \<Rightarrow> ps | Some p \<Rightarrow> List.insert p ps)"
      using assms(3) Some True by (simp_all add: close_task_def)
    have "inv_but (set ps') (put_task (close u) d)"
      by (rule inv_but_put_task [OF assms(2)]) (use Some c id eq(2) in \<open>auto split: option.splits\<close>)
    then show ?thesis using eq(1) by simp
  next
    case False
    then show ?thesis using assms Some by (simp add: close_task_def)
  qed
qed

lemma close_fold_inv:
  assumes "closing still close" "inv_but (set ps) d" "fold (close_task still close) ts (d, c, ps) = (d', c', ps')"
  shows "inv_but (set ps') d'"
  using assms(2,3)
proof (induction ts arbitrary: d c ps)
  case (Cons t ts)
  obtain d1 c1 ps1 where s: "close_task still close t (d, c, ps) = (d1, c1, ps1)" by (metis prod_cases3)
  show ?case
    using Cons.IH [OF close_task_inv [OF assms(1) Cons.prems(1) s]] Cons.prems(2) by (simp add: s)
qed simp

lemma close_tasks_safe:
  assumes "closing still close"
  shows "safe_step d (snd (close_tasks selected still close d))"
  unfolding safe_step_def
proof
  assume i: "task_inv d"
  obtain d1 c ps where f: "fold (close_task still close) (tasks_by_id (filter selected (db_tasks d))) (d, 0, []) = (d1, c, ps)"
    by (metis prod_cases3)
  have "inv_but (set ps) d1"
    by (rule close_fold_inv [OF assms _ f]) (use i in \<open>simp add: inv_but_empty\<close>)
  from inv_but_refresh_plans [OF this, of ps]
  have "task_inv (snd (close_tasks selected still close d))" by (simp add: close_tasks_def f inv_but_empty)
  moreover have "tasks_evolve d (snd (close_tasks selected still close d))"
    using close_tasks_laws [of still close d selected] assms i by (simp add: closing_def task_inv_def)
  ultimately show "task_inv (snd (close_tasks selected still close d)) \<and> tasks_evolve d (snd (close_tasks selected still close d))"
    by simp
qed

section \<open>New tasks and payloads\<close>

definition may_join_plan :: "task \<Rightarrow> db \<Rightarrow> bool" where
  "may_join_plan t d = (case tk_change_plan_id t of None \<Rightarrow> True
     | Some k \<Rightarrow> (\<exists>p. get_plan k d = Some p \<and> pl_status p \<in> {PConfirmed, PFailed}))"

lemma add_task_rows: "db_tasks (snd (add_task t d)) = db_tasks d @ [t\<lparr>tk_id := next_id tk_id (db_tasks d)\<rparr>]"
  "db_plans (snd (add_task t d)) = db_plans d" "db_queries (snd (add_task t d)) = db_queries d"
  by (simp_all add: add_task_def Let_def)

lemma get_task_add:
  "get_task k d = Some t \<Longrightarrow> get_task k (snd (add_task u d)) = Some t"
  by (simp add: get_task_def add_task_rows table_simps)

lemma add_task_evolves: "tasks_evolve d (snd (add_task t d))"
  unfolding tasks_evolve_def using get_task_add task_evolves_refl by blast

lemma add_task_dedup:
  assumes "dedup_unique d" "\<not> dedup_conflict t d"
  shows "dedup_unique (snd (add_task t d))"
  unfolding dedup_unique_def
proof (intro ballI impI)
  let ?n = "t\<lparr>tk_id := next_id tk_id (db_tasks d)\<rparr>"
  fix u v assume m: "u \<in> set (db_tasks (snd (add_task t d)))" "v \<in> set (db_tasks (snd (add_task t d)))"
    and k: "tk_status u = Pending \<and> tk_status v = Pending \<and> tk_dedup_key u \<noteq> None \<and> tk_dedup_key u = tk_dedup_key v"
  have no: "\<not> (w \<in> set (db_tasks d) \<and> tk_status w = Pending \<and> tk_dedup_key w = tk_dedup_key t \<and> tk_dedup_key w \<noteq> None)" for w
    using assms(2) by (auto simp: dedup_conflict_def list_ex_iff)
  have "u \<in> set (db_tasks d) \<or> u = ?n" "v \<in> set (db_tasks d) \<or> v = ?n" using m by (auto simp: add_task_rows)
  then consider "u \<in> set (db_tasks d) \<and> v \<in> set (db_tasks d)" | "u = v"
    using no [of u] no [of v] k by auto
  then show "tk_id u = tk_id v"
    using assms(1) k unfolding dedup_unique_def by cases metis+
qed

lemma add_task_plans:
  assumes "plans_honest {} d" "plan_keys_ok d" "tk_status t = Pending" "may_join_plan t d"
  shows "plans_honest {} (snd (add_task t d))" "plan_keys_ok (snd (add_task t d))"
proof -
  let ?n = "t\<lparr>tk_id := next_id tk_id (db_tasks d)\<rparr>"
  have st: "pl_status p \<in> {PConfirmed, PFailed}"
    if "p \<in> set (db_plans d)" "tk_change_plan_id t = Some (pl_id p)" for p
  proof -
    have "get_plan (pl_id p) d = Some p"
      using plans.get_if_in assms(2) that(1) by (simp add: plan_keys_ok_def tb_wf_def)
    then show ?thesis using assms(4) that(2) by (simp add: may_join_plan_def)
  qed
  show "plans_honest {} (snd (add_task t d))"
    unfolding plans_honest_def plan_honest_def add_task_rows
  proof (intro ballI impI)
    fix p u assume p: "p \<in> set (db_plans d)" and u: "u \<in> set (db_tasks d @ [?n])"
      "tk_change_plan_id u = Some (pl_id p)"
    show "(tk_status u \<in> {Failed, Cancelled} \<longrightarrow> pl_status p = PFailed) \<and>
      (pl_status p = PSucceeded \<longrightarrow> tk_status u = Succeeded) \<and> pl_status p \<noteq> PDraft \<and> pl_status p \<noteq> PCancelled"
    proof (cases "u \<in> set (db_tasks d)")
      case True
      then show ?thesis using assms(1) p u(2) unfolding plans_honest_def plan_honest_def by blast
    next
      case False
      then have "u = ?n" using u(1) by simp
      then show ?thesis using st [OF p] u(2) assms(3) by auto
    qed
  qed
  have "k \<in> pl_id ` set (db_plans d)" if "tk_change_plan_id t = Some k" for k
  proof -
    obtain p where "get_plan k d = Some p" using assms(4) \<open>tk_change_plan_id t = Some k\<close> by (auto simp: may_join_plan_def)
    then show ?thesis using plans.get_SomeD by blast
  qed
  then show "plan_keys_ok (snd (add_task t d))"
    using assms(2) by (simp add: plan_keys_ok_def add_task_rows)
qed

lemma add_task_safe:
  assumes "\<not> dedup_conflict t d" "tk_status t = Pending" "may_join_plan t d"
  shows "safe_step d (snd (add_task t d))"
  unfolding safe_step_def
proof
  assume i: "task_inv d"
  have "tasks_wf (snd (add_task t d))"
    using i by (auto simp: task_inv_def tasks_wf_def add_task_rows intro: tb_wf_insert)
  moreover have "queries_planless (snd (add_task t d))"
    using i get_task_add unfolding task_inv_def queries_planless_def add_task_rows by metis
  ultimately show "task_inv (snd (add_task t d)) \<and> tasks_evolve d (snd (add_task t d))"
    using i add_task_dedup [OF _ assms(1)] add_task_plans [OF _ _ assms(2,3)] add_task_evolves
    by (simp add: task_inv_def)
qed

lemma insert_task_safe:
  assumes "insert_task t d = Some (t', d')" "tk_status t = Pending" "tk_change_plan_id t = None"
  shows "safe_step d d'"
  using assms add_task_safe [of t d]
  by (auto simp: insert_task_def may_join_plan_def split: if_splits)

lemma put_task_safe:
  assumes "t0 \<in> set (db_tasks d)" "task_evolves t0 t" "tk_dedup_key t = tk_dedup_key t0"
    "tk_status t = tk_status t0 \<or> \<not> tk_status t \<in> {Failed, Cancelled}"
  shows "safe_step d (put_task t d)"
  unfolding safe_step_def
proof
  assume i: "task_inv d"
  have g: "get_task (tk_id t) d = Some t0"
    using in_tasks_get [OF _ assms(1)] i assms(2) by (simp add: task_inv_def task_evolves_def)
  have "inv_but {} (put_task t d)"
    by (rule inv_but_put_task [OF _ g assms(2,3)]) (use i assms(4) in \<open>auto simp: inv_but_empty\<close>)
  then show "task_inv (put_task t d) \<and> tasks_evolve d (put_task t d)"
    using tasks_evolve_put [OF g assms(2)] by (simp add: inv_but_empty)
qed

lemma replace_payload_safe:
  assumes "t \<in> set (db_tasks d)" "tk_status t = Pending"
  shows "safe_step d (put_task (replace_payload p t) d)"
  by (rule put_task_safe [OF assms(1)]) (use assms(2) in \<open>simp_all add: replace_payload_def task_evolves_def\<close>)

section \<open>Composing fallible operations\<close>

definition safe_reply :: "db \<Rightarrow> ('x \<Rightarrow> db) \<Rightarrow> 'x reply \<Rightarrow> bool" where
  "safe_reply d out r = (\<forall>x. r = Inr x \<longrightarrow> safe_step d (out x))"

named_theorems safe_rules "how replies compose"

lemma safe_Inl [safe_rules]: "safe_reply d out (Inl e)"
  by (simp add: safe_reply_def)

lemma safe_Inr: "safe_step d (out x) \<Longrightarrow> safe_reply d out (Inr x)"
  by (simp add: safe_reply_def)

lemma safe_guard: "(\<And>x. r = Inr x \<Longrightarrow> safe_reply d out (g x)) \<Longrightarrow> safe_reply d out (rbind r g)"
  by (auto simp: safe_reply_def res_simps)

lemma safe_then:
  "safe_reply d mid r \<Longrightarrow> (\<And>x. r = Inr x \<Longrightarrow> safe_reply (mid x) out (g x)) \<Longrightarrow> safe_reply d out (rbind r g)"
  unfolding safe_reply_def res_simps using safe_trans by blast

lemma safe_from: "safe_step d e \<Longrightarrow> safe_reply e out r \<Longrightarrow> safe_reply d out r"
  unfolding safe_reply_def using safe_trans by blast

lemma safe_if: "(b \<Longrightarrow> safe_reply d out x) \<Longrightarrow> (\<not> b \<Longrightarrow> safe_reply d out y) \<Longrightarrow>
    safe_reply d out (if b then x else y)"
  by simp

lemma safe_replyD: "safe_reply d out r \<Longrightarrow> r = Inr x \<Longrightarrow> safe_step d (out x)"
  by (simp add: safe_reply_def)

end
