(* ===== verification/SafeHandlers.thy ===== *)
theory SafeHandlers
  imports Safety
begin

text \<open>
  Every handler that touches tasks or plans meets the contract \<open>safe_step\<close>: the recovery and
  cancellation of tasks, the idempotent enqueueing of interface and endpoint tasks, the WireGuard
  and GRE handlers, the poll and the result of an agent, and the looking glass queries.
\<close>

section \<open>Closing tasks\<close>

lemma expire_stale_safe [safe_rules]: "safe_step d (snd (expire_stale_running_agent_tasks n now d))"
  unfolding expire_stale_running_agent_tasks_def
  by (rule close_tasks_safe) (simp add: closing_def fail_task_evolves)

lemma expire_overdue_safe [safe_rules]: "safe_step d (snd (expire_overdue_pending_agent_tasks n now d))"
  unfolding expire_overdue_pending_agent_tasks_def
  by (rule close_tasks_safe) (simp add: closing_def overdue_pending_def fail_task_evolves)

lemma cancel_task_evolves: "tk_status t = Pending \<Longrightarrow> task_evolves t (cancel_task now r t)"
  by (simp add: cancel_task_def task_evolves_def)

lemma cancel_pending_safe [safe_rules]: "safe_step d (snd (cancel_pending_interface_tasks now k ty r d))"
  unfolding cancel_pending_interface_tasks_def
  by (rule close_tasks_safe) (simp add: closing_def cancel_task_evolves, simp add: cancel_task_def)

lemma cancel_deployment_safe [safe_rules]:
  "safe_step d (snd (cancel_pending_interface_deployment_tasks now i d))"
  unfolding cancel_pending_interface_deployment_tasks_def
  by (simp add: case_prod_beta) (rule safe_trans [OF cancel_pending_safe cancel_pending_safe])

lemma cancel_gre_safe [safe_rules]: "safe_step d (snd (cancel_pending_gre_deployment_tasks now k d))"
  unfolding cancel_pending_gre_deployment_tasks_def
  by (rule close_tasks_safe) (simp add: closing_def cancel_gre_task_def task_evolves_def)

section \<open>Interface tasks\<close>

lemma get_interface_task_in:
  assumes "get_interface_task k ty ss d = Some t"
  shows "t \<in> set (db_tasks d)" "tk_status t \<in> set ss"
  using assms first_of_Some by (auto simp: get_interface_task_def tasks_by_id_def iface_task_def dest!: first_of_Some)

lemma same_then: "same_work d e \<Longrightarrow> safe_step e f \<Longrightarrow> safe_step d f"
  using safe_trans same_work_safe by blast

lemma put_iface_tasks [simp]: "db_tasks (put_iface i d) = db_tasks d"
  by simp

lemma new_task_fields [simp]:
  "tk_status (new_task n p ty v) = Pending" "tk_change_plan_id (new_task n p ty v) = p"
  "tk_dedup_key (new_task n p ty v) = None"
  by (simp_all add: new_task_def)

lemma enqueue_interface_task_safe:
  "safe_reply d (\<lambda>(_, _, e). e) (enqueue_interface_task fresh now i ty extra up queue d)"
proof -
  let ?d = "snd (expire_stale_running_agent_tasks (Some (if_node_id i)) now d)"
  obtain payload i' where p: "interface_task_payload fresh i extra = (payload, i')" by fastforce
  let ?d1 = "put_iface i' ?d"
  let ?t = "(new_task (if_node_id i) None ty payload)\<lparr>tk_dedup_key := Some (interface_task_dedup_key (if_id i) ty)\<rparr>"
  have ins: "safe_reply ?d (\<lambda>(_, _, e). e)
    (case insert_task ?t ?d1 of
       Some (t', d2) \<Rightarrow> Inr (True, t', d2)
     | None \<Rightarrow> (case get_interface_task (if_id i) ty [Pending, Running] ?d1 of
         None \<Rightarrow> Inl (HTTP 500 ''integrity error'')
       | Some e \<Rightarrow> if up \<and> tk_status e = Pending
           then let e' = replace_payload payload e in Inr (True, e', put_task e' ?d1)
           else Inr (False, e, ?d1)))" (is "safe_reply _ _ ?tail")
  proof (cases "insert_task ?t ?d1")
    case None
    show ?thesis
    proof (cases "get_interface_task (if_id i) ty [Pending, Running] ?d1")
      case (Some e)
      have "safe_step ?d1 (put_task (replace_payload payload e) ?d1)" if "tk_status e = Pending"
        using replace_payload_safe get_interface_task_in [OF Some] that by blast
      then show ?thesis
        using None Some same_then [of ?d ?d1] same_work_safe [of ?d ?d1]
        by (auto simp: Let_def intro!: safe_Inr)
    qed (use None in \<open>simp add: safe_Inl\<close>)
  next
    case (Some td)
    obtain t' d2 where td: "td = (t', d2)" by (cases td)
    have "safe_step ?d1 d2" using insert_task_safe [of ?t ?d1 t' d2] Some td by simp
    then show ?thesis using Some td same_then [of ?d ?d1] by (auto intro!: safe_Inr)
  qed
  show ?thesis
  proof (rule safe_from [OF expire_stale_safe])
    show "safe_reply ?d (\<lambda>(_, _, e). e) (enqueue_interface_task fresh now i ty extra up queue d)"
    proof (cases "get_interface_task (if_id i) ty [Pending] ?d")
      case (Some t)
      have "safe_step ?d1 (put_task (replace_payload payload t) ?d1)"
        using replace_payload_safe [of t ?d1] get_interface_task_in [OF Some] by simp
      then show ?thesis
        using Some same_then [of ?d ?d1]
        by (auto simp: enqueue_interface_task_def p Let_def intro!: safe_Inr)
    next
      case None
      let ?run = "get_interface_task (if_id i) ty [Running] ?d"
      let ?supported = "case get_node (if_node_id i) ?d of None \<Rightarrow> Inr () | Some n \<Rightarrow> require_task_supported n ty"
      have "enqueue_interface_task fresh now i ty extra up queue d =
          (if \<not> queue \<and> ?run \<noteq> None then Inr (False, the ?run, ?d) else rbind ?supported (\<lambda>_. ?tail))"
        unfolding enqueue_interface_task_def p Let_def prod.case None option.case
        by (cases queue; cases ?run) simp_all
      then show ?thesis using ins by (simp add: safe_guard safe_Inr)
    qed
  qed
qed

lemma safe_enqueue:
  assumes "\<And>c t e. safe_reply e out (g c t e)"
  shows "safe_reply d out (rbind (enqueue_interface_task fresh now i ty extra up queue d) (\<lambda>(c, t, e). g c t e))"
  by (rule safe_then [OF enqueue_interface_task_safe]) (simp add: assms split: prod.split)

lemma set_runtime_status_safe [safe_rules]: "safe_step d (set_runtime_status s i d)"
  by (simp add: set_runtime_status_def same_work_safe)

lemma enqueue_apply_config_safe: "safe_reply d snd (enqueue_apply_config fresh now i b d)"
  unfolding enqueue_apply_config_def Let_def
  by (rule safe_if, rule safe_from [OF cancel_pending_safe])
    (rule safe_enqueue | rule safe_Inr | simp only: snd_conv safe_refl)+

text \<open>Deleting an interface cancels its drafts, which have no task.\<close>

lemma plan_honest_cancelled:
  "plan_honest ts p \<Longrightarrow> pl_status p = PDraft \<Longrightarrow> plan_honest ts (p\<lparr>pl_status := PCancelled\<rparr>)"
  unfolding plan_honest_def by simp

lemma cancel_drafts_safe [safe_rules]: "safe_step d (cancel_draft_interface_change_plans k d)"
proof -
  let ?f = "\<lambda>p. if draft_of_interface k p then p\<lparr>pl_status := PCancelled\<rparr> else p"
  let ?e = "cancel_draft_interface_change_plans k d"
  have frames: "db_tasks ?e = db_tasks d" "db_queries ?e = db_queries d" "db_plans ?e = map ?f (db_plans d)"
    by (simp_all add: cancel_draft_interface_change_plans_def)
  have keys: "map pl_id (db_plans ?e) = map pl_id (db_plans d)" by (simp add: frames)
  have img: "pl_id ` set (db_plans ?e) = pl_id ` set (db_plans d)" using keys by (metis list.set_map)
  show ?thesis
  proof (rule plan_write_safe [OF frames(1,2)])
    assume i: "task_inv d"
    have "plan_honest (db_tasks d) (?f p)" if "p \<in> set (db_plans d)" for p
    proof -
      have "plan_honest (db_tasks d) p" using i that by (simp add: task_inv_def plans_honest_def)
      then show ?thesis using plan_honest_cancelled by (simp add: draft_of_interface_def)
    qed
    then have "\<forall>q \<in> ?f ` set (db_plans d). plan_honest (db_tasks d) q" by fast
    then have "plans_honest {} ?e" unfolding plans_honest_def frames list.set_map by fast
    moreover have "tb_wf pl_id (db_plans ?e) = tb_wf pl_id (db_plans d)" by (simp only: tb_wf_keys keys)
    then have "plan_keys_ok ?e" using i unfolding task_inv_def plan_keys_ok_def frames(1) img by blast
    ultimately show "plans_honest {} ?e \<and> plan_keys_ok ?e" by blast
  qed
qed

lemma delete_iface_row_safe: "safe_reply d (\<lambda>e. e) (delete_iface_row k d)"
  unfolding delete_iface_row_def
  by (rule safe_if) (auto simp: same_work_def intro!: safe_Inl safe_Inr same_work_safe)

lemma mark_safe [safe_rules]: "safe_step d (snd (mark_import_candidate_available_for_interface i d))"
  by (simp add: same_work_safe)

lemma delete_monitors_safe [safe_rules]: "safe_step d (delete_link_monitors_where P d)"
  by (simp add: same_work_safe)

lemma forget_interface_safe: "safe_reply d (\<lambda>e. e) (forget_interface i d)"
  unfolding forget_interface_def
  by (rule safe_from [OF safe_trans [OF delete_monitors_safe cancel_drafts_safe] delete_iface_row_safe])

lemma queue_replace_safe: "safe_reply d (\<lambda>e. e) (queue_replace_interface fresh now i d)"
  unfolding queue_replace_interface_def Let_def
  by (rule safe_from [OF cancel_deployment_safe], rule safe_enqueue, rule safe_enqueue,
      rule safe_from [OF mark_safe], rule safe_from [OF delete_monitors_safe],
      rule safe_from [OF cancel_drafts_safe], rule delete_iface_row_safe)

section \<open>WireGuard handlers\<close>

lemma start_interface_safe: "safe_reply d (\<lambda>e. e) (start_interface en k d)"
  unfolding start_interface_def
  by (rule safe_Inl | rule safe_if | rule safe_enqueue | rule safe_guard
      | (rule safe_Inr, simp add: set_runtime_status_safe))+

lemma refresh_with_safe: "safe_reply d (\<lambda>e. e) (refresh_with ty en k d)"
  unfolding refresh_with_def by (rule safe_enqueue | rule safe_guard | (rule safe_Inr, rule safe_refl))+

lemma stop_interface_safe: "safe_reply d (\<lambda>e. e) (stop_interface en k d)"
  unfolding stop_interface_def Let_def
  by (rule safe_Inl | rule safe_if | rule safe_from [OF cancel_deployment_safe safe_enqueue] | rule safe_guard
      | (rule safe_Inr, simp add: set_runtime_status_safe))+

lemma delete_interface_safe: "safe_reply d (\<lambda>e. e) (delete_interface en k b d)"
  unfolding delete_interface_def Let_def
proof (rule safe_guard, rule safe_if)
  fix i show "safe_reply d (\<lambda>e. e) (forget_interface i (snd (mark_import_candidate_available_for_interface i d)))"
    by (rule safe_from [OF mark_safe forget_interface_safe])
next
  fix i
  let ?d = "snd (mark_import_candidate_available_for_interface i
    (snd (cancel_pending_interface_deployment_tasks (en_now en) i d)))"
  have s: "safe_step d ?d" by (rule safe_trans [OF cancel_deployment_safe mark_safe])
  show "safe_reply d (\<lambda>e. e)
     (rbind (require_online_node (en_offline_after en) (en_now en) (if_node_id i) d) (\<lambda>_.
       if if_runtime_status i \<in> {''running'', ''starting'', ''stopping''}
       then Inl (HTTP 409 ''wireguard interface must be stopped before delete'')
       else rbind (if b \<and> should_delete_node_config_file i
             then rbind (enqueue_interface_task (en_fresh en) (en_now en) i (ts_delete_config wireguard_tasks) [] False False ?d)
                    (\<lambda>(_, _, d3). Inr d3)
             else Inr ?d) (\<lambda>d3. forget_interface i d3)))"
    by (rule safe_guard, rule safe_if, rule safe_Inl, rule safe_from [OF s],
        rule safe_then [OF _ forget_interface_safe], rule safe_if)
      (rule safe_enqueue | (rule safe_Inr, rule safe_refl))+
qed

section \<open>Plans\<close>

lemma add_plan_safe [safe_rules]: "safe_step d (snd (add_plan p d))"
proof -
  let ?n = "p\<lparr>pl_id := next_id pl_id (db_plans d)\<rparr>" and ?e = "snd (add_plan p d)"
  have frames: "db_tasks ?e = db_tasks d" "db_queries ?e = db_queries d" "db_plans ?e = db_plans d @ [?n]"
    by (simp_all add: add_plan_def Let_def)
  show ?thesis
  proof (rule plan_write_safe [OF frames(1,2)])
    assume i: "task_inv d"
    then have keys: "plan_keys_ok d" by (simp add: task_inv_def)
    have "tk_change_plan_id t \<noteq> Some (pl_id ?n)" if "t \<in> set (db_tasks d)" for t
      using keys that next_id_fresh [of pl_id "db_plans d"] by (force simp: plan_keys_ok_def)
    then have "plan_honest (db_tasks d) ?n" unfolding plan_honest_def by blast
    then have "plans_honest {} ?e" using i by (simp add: plans_honest_def frames task_inv_def)
    moreover have "plan_keys_ok ?e"
      using keys by (auto simp: plan_keys_ok_def frames intro: tb_wf_insert)
    ultimately show "plans_honest {} ?e \<and> plan_keys_ok ?e" by blast
  qed
qed

lemma plan_apply_safe: "safe_reply d snd (plan_apply en k d)"
  unfolding plan_apply_def Let_def
  by (rule safe_Inl | rule safe_if | rule safe_guard | (rule safe_Inr, rule add_plan_safe))+

lemma take_over_safe: "safe_reply d snd (take_over_imported_interface en k d)"
  unfolding take_over_imported_interface_def Let_def
  by (rule safe_Inl | rule safe_if | rule safe_guard
      | (rule safe_Inr, (rule add_plan_safe | rule same_then [OF put_same_work(2) add_plan_safe])))+

lemma get_plan_add [simp]: "get_plan k (snd (add_task t d)) = get_plan k d"
  by (simp add: get_plan_def add_task_rows)

lemma add_plan_task_safe:
  "may_join_plan (new_task n (Some k) ty v) d \<Longrightarrow> safe_step d (snd (add_task (new_task n (Some k) ty v) d))"
  by (rule add_task_safe) (simp_all add: dedup_conflict_def)

definition plan_open :: "int \<Rightarrow> db \<Rightarrow> bool" where
  "plan_open k d = (\<exists>p. get_plan k d = Some p \<and> pl_status p \<in> {PConfirmed, PFailed})"

lemma safe_add_plan_task:
  "safe_step d e \<Longrightarrow> plan_open k e \<Longrightarrow> safe_step d (snd (add_task (new_task n (Some k) ty v) e))"
  using safe_trans add_plan_task_safe by (simp add: plan_open_def may_join_plan_def)

lemma plan_open_add [simp]: "plan_open k (snd (add_task t d)) = plan_open k d"
  by (simp add: plan_open_def)

lemma create_plan_tasks_safe:
  assumes "plan_open plan_id d"
  shows "safe_reply d snd (create_change_plan_agent_tasks en plan_id ty payload node_id d)"
proof -
  let ?found = "case row_key (dget payload ''interface_id'') of None \<Rightarrow> None
            | Some k \<Rightarrow> if k = 0 then None else get_iface k d"
  let ?r = "case ?found of None \<Rightarrow> ([], d)
            | Some i \<Rightarrow> (fst (iface_identity (en_fresh en) i), put_iface (snd (iface_identity (en_fresh en) i)) d)"
  have "snd ?r = d \<or> (\<exists>i. snd ?r = put_iface i d)"
    by (cases ?found) auto
  then have s: "safe_step d (snd ?r)" and o: "plan_open plan_id (snd ?r)"
    using assms by (auto simp: plan_open_def get_plan_def put_iface_def same_work_def intro!: same_work_safe)
  show ?thesis
    unfolding create_change_plan_agent_tasks_def Let_def case_prod_beta
    by (rule safe_if, rule safe_guard)
      (rule safe_Inr, simp only: snd_conv, intro safe_add_plan_task, simp_all only: plan_open_add o s)+
qed

lemma put_plan_safe:
  assumes "task_inv d \<Longrightarrow> plan_honest (db_tasks d) p"
  shows "safe_step d (put_plan p d)"
proof -
  have "task_inv d \<Longrightarrow> task_inv (put_plan p d)"
    using inv_but_put_plan [of "{}" d p] assms by (simp add: inv_but_empty)
  then show ?thesis by (simp add: safe_step_def tasks_evolve_def)
qed

lemma draft_has_no_task:
  assumes "task_inv d" "get_plan k d = Some p" "pl_status p = PDraft" "t \<in> set (db_tasks d)"
  shows "tk_change_plan_id t \<noteq> Some (pl_id p)"
proof -
  have "plan_honest (db_tasks d) p"
    using assms(1) plans.get_SomeD [OF assms(2)] by (simp add: task_inv_def plans_honest_def)
  then show ?thesis using assms(3,4) unfolding plan_honest_def by blast
qed

lemma post_confirm_same: "same_work d (post_confirm p d)"
  unfolding post_confirm_def Let_def by (simp add: same_work_def put_iface_def option.case_eq_if)

lemma confirm_change_plan_safe: "safe_reply d snd (confirm_change_plan en k d)"
  unfolding confirm_change_plan_def Let_def case_prod_beta
proof (rule safe_guard, rule safe_if, rule safe_Inl, rule safe_if, rule safe_Inl,
    rule safe_guard, rule safe_guard, rule safe_guard, rule safe_guard)
  fix p and x :: "string \<times> fields \<times> int"
  assume "some_or (get_plan k d) (HTTP 404 ''change plan not found'') = Inr p" and dr: "\<not> pl_status p \<noteq> PDraft"
  then have p: "get_plan k d = Some p" by (simp only: some_or_eq_Inr)
  let ?q = "p\<lparr>pl_status := PConfirmed, pl_confirmed_at := Some (en_now en)\<rparr>"
  have h: "plan_honest (db_tasks d) ?q" if "task_inv d"
    using draft_has_no_task [OF that p] dr unfolding plan_honest_def by simp
  have "get_plan (pl_id p) (put_plan ?q d) = Some ?q"
    using p plans.get_key [OF p] by (simp add: plans.get_put)
  then have o: "plan_open (pl_id p) (post_confirm p (put_plan ?q d))"
    using post_confirm_same [of "put_plan ?q d" p] by (simp add: plan_open_def get_plan_def same_work_def)
  show "safe_reply d snd (create_change_plan_agent_tasks en (pl_id p) (fst x) (fst (snd x)) (snd (snd x))
      (post_confirm p (put_plan ?q d)))"
    by (rule safe_from [OF put_plan_safe [OF h]], assumption,
        rule safe_from [OF same_work_safe [OF post_confirm_same]], rule create_plan_tasks_safe [OF o])
qed

section \<open>Import\<close>

lemma request_import_scan_safe: "safe_reply d snd (request_import_scan en k d)"
proof -
  let ?d = "snd (expire_stale_running_agent_tasks (Some k) (en_now en) d)"
  have ins: "safe_step d d2" if "insert_task (new_task k None import_scan_type v\<lparr>tk_dedup_key := key\<rparr>) ?d = Some (t, d2)" for v key t d2
    using safe_trans [OF expire_stale_safe insert_task_safe [OF that]] by simp
  show ?thesis
    unfolding request_import_scan_def Let_def
    by (rule safe_guard, rule safe_if, rule safe_Inl, rule safe_guard)
      (auto simp: safe_reply_def ins split: option.splits)
qed

lemma add_rows_same [simp]: "same_work d (snd (add_iface i d))" "same_work d (snd (add_peer r d))"
  by (simp_all add: add_iface_def add_peer_def same_work_def Let_def)

lemma same_work_trans: "same_work d e \<Longrightarrow> same_work e f \<Longrightarrow> same_work d f"
  by (simp add: same_work_def)

lemma same_work_fold: "(\<And>x e. same_work e (f x e)) \<Longrightarrow> same_work d (fold f xs d)"
proof (induction xs arbitrary: d)
  case (Cons x xs)
  then show ?case using same_work_trans [of d "f x d" "fold f xs (f x d)"] by simp
qed (simp add: same_work_def)

lemma import_candidate_safe: "safe_reply d snd (import_candidate n k d)"
proof -
  have same: "same_work d (fold (\<lambda>q e. snd (add_peer (g q) e)) qs (snd (add_iface i (d\<lparr>db_candidates := cs\<rparr>))))"
    for g i qs cs
    by (rule same_work_trans [OF same_work_trans [of _ "d\<lparr>db_candidates := cs\<rparr>"] same_work_fold])
      (simp_all, simp add: same_work_def)
  have cases: "safe_reply d snd (case r of Inl Refused \<Rightarrow> Inl x | Inl Crashed \<Rightarrow> Inl y | Inr v \<Rightarrow> g v)"
    if "\<And>v. safe_reply d snd (g v)" for r :: "(import_fault, fields) result" and x y and g :: "fields \<Rightarrow> (iface \<times> db) reply"
    using that by (auto simp: safe_Inl split: sum.split import_fault.split)
  show ?thesis
    unfolding import_candidate_def Let_def case_prod_beta
    by (rule safe_guard, rule safe_if, rule safe_Inl, rule safe_if, rule safe_Inl, rule cases,
        rule safe_if, rule safe_Inl, rule safe_if, rule safe_Inl, rule safe_Inr, simp only: snd_conv,
        rule same_work_safe [OF same])
qed

section \<open>The poll\<close>

lemma inv_but_fail:
  assumes "inv_but S d" "get_task (tk_id t) d = Some t" "tk_status t = Pending \<or> tk_status t = Running"
    and "S' = (case tk_change_plan_id t of None \<Rightarrow> S | Some k \<Rightarrow> insert k S)"
  shows "inv_but S' (put_task (fail_task now r t) d)"
  by (rule inv_but_put_task [OF assms(1), of _ t])
    (use assms fail_task_evolves [of t now r] in \<open>auto split: option.splits\<close>)

lemma ready_check_inv:
  assumes "is_task_ready_for_poll now t d = (b, d')" "inv_but S d" "get_task (tk_id t) d = Some t"
    "tk_status t = Pending"
  shows "inv_but S d'"
proof (cases "dependency_readiness d t")
  case (Broken r)
  let ?S = "case tk_change_plan_id t of None \<Rightarrow> S | Some k \<Rightarrow> insert k S" and ?e = "put_task (fail_task now r t) d"
  have i: "inv_but ?S ?e" by (rule inv_but_fail [OF assms(2,3)]) (use assms(4) in auto)
  have d': "d' = refresh_plan_opt (tk_change_plan_id t) ?e" using assms(1) Broken by (simp add: is_task_ready_for_poll_def)
  show ?thesis
  proof (cases "tk_change_plan_id t")
    case (Some k)
    have "inv_but (insert k S - {k}) d'" using inv_but_refresh_opt(2) [OF i Some] Some d' by simp
    moreover have "db_tasks d' = db_tasks ?e" by (simp add: d')
    ultimately show ?thesis
      using i Some by (auto simp: inv_but_def[of "insert k S" ?e] intro!: inv_but_mono [of "insert k S - {k}" d' S])
  qed (use i d' in \<open>simp add: refresh_plan_opt_def\<close>)
qed (use assms in \<open>simp_all add: is_task_ready_for_poll_def\<close>)

lemma poll_step_safe:
  assumes "inv_but (set ps) d" "\<And>t. get_task k d = Some t \<Longrightarrow> tk_status t = Pending"
    and "poll_step n now k (ts, ps, d) = (ts', ps', d')"
  shows "inv_but (set ps') d'"
proof (cases "get_task k d")
  case None
  then show ?thesis using assms by (simp add: poll_step_def)
next
  case (Some t)
  have g: "get_task (tk_id t) d = Some t" "tk_status t = Pending" using Some tasks.get_key assms(2) by auto
  obtain v d1 where c: "poll_check n now t d = (v, d1)" by fastforce
  have i: "inv_but (set ps) d1"
    using c assms(1) ready_check_inv [OF _ assms(1) g] by (auto simp: poll_check_def split: if_splits prod.splits)
  show ?thesis
  proof (cases v)
    case Skip
    then show ?thesis using assms(3) Some c i by (simp add: poll_step_def)
  next
    case (Reject r)
    then have "d1 = d" using poll_check_db(2) [OF c] by blast
    then show ?thesis
      using assms(3) Some c Reject inv_but_fail [OF assms(1) g(1)] g(2) by (auto simp: poll_step_def split: option.splits)
  next
    case Claim
    then have e: "d1 = d" using poll_check_db(1) [OF c] by blast
    have "inv_but (set ps) (put_task (claim_task now t) d)"
      by (rule inv_but_put_task [OF assms(1), of _ t]) (use g claim_task_evolves in auto)
    then show ?thesis using assms(3) Some c Claim e g by (simp add: poll_step_def)
  qed
qed

lemma poll_loop_safe:
  assumes "inv_but (set (fst (snd acc))) (snd (snd acc))" "poll_inv n now d0 ks acc"
  shows "inv_but (set (fst (snd (poll_loop n now ks acc)))) (snd (snd (poll_loop n now ks acc)))"
  using assms
proof (induction n now ks acc rule: poll_loop.induct)
  case (2 n now k ks acc)
  obtain ts ps d where acc: "acc = (ts, ps, d)" by (metis prod_cases3)
  obtain ts' ps' d' where s: "poll_step n now k acc = (ts', ps', d')" by (metis prod_cases3)
  have "inv_but (set ps') d'"
    by (rule poll_step_safe [of ps d k n now ts ts' ps' d']) (use 2(2,3) acc s in \<open>auto simp: poll_inv_def\<close>)
  then show ?case using 2(1) s poll_step_inv [OF 2(3)] by (auto simp: Let_def)
qed simp

lemma recovered_safe: "safe_step d (recovered m now d)"
  unfolding recovered_def by (rule safe_trans [OF expire_stale_safe expire_overdue_safe])

lemma agent_poll_safe: "safe_reply d snd (agent_poll v now call d)"
proof -
  have "safe_step d d'" if p: "agent_poll v now call d = Inr (ts, d')" for ts d'
  proof -
    obtain n' n plans d4 where l: "poll_loop n' now
        (map tk_id (poll_candidates (ac_node_id call) (recovered (ac_node_id call) now (put_node n' d))))
        ([], [], recovered (ac_node_id call) now (put_node n' d)) = (ts, plans, d4)" and d': "d' = refresh_plans plans d4"
      using agent_poll_Inr [OF p] by blast
    let ?d3 = "recovered (ac_node_id call) now (put_node n' d)"
    have s: "safe_step d ?d3" using same_then [OF put_same_work(1) recovered_safe] .
    show ?thesis
      unfolding safe_step_def
    proof
      assume "task_inv d"
      then have i: "task_inv ?d3" "tasks_evolve d ?d3" using s by (simp_all add: safe_step_def)
      then have wf: "tasks_wf ?d3" by (simp add: task_inv_def)
      note inv = poll_candidates_inv [OF wf, of n' now "ac_node_id call"]
      have "inv_but (set plans) d4"
        using poll_loop_safe [OF _ inv] i(1) l by (simp add: inv_but_empty)
      from inv_but_refresh_plans [OF this, of plans] have "task_inv d'" by (simp add: d' inv_but_empty)
      moreover have "tasks_evolve ?d3 d4"
        using poll_loop_inv [OF inv] l by (auto simp: poll_inv_def agent_task_poll_batch_size_def)
      ultimately show "task_inv d' \<and> tasks_evolve d d'"
        using tasks_evolve_trans [OF i(2)] by (simp add: d')
    qed
  qed
  then show ?thesis by (auto simp: safe_reply_def)
qed

section \<open>Queries\<close>

lemma put_query_safe:
  assumes "q0 \<in> set (db_queries d)" "lq_agent_task_id q = lq_agent_task_id q0"
  shows "safe_step d (put_query q d)"
proof -
  let ?e = "put_query q d"
  have f: "db_tasks ?e = db_tasks d" "db_plans ?e = db_plans d" by simp_all
  have "queries_planless ?e" if i: "queries_planless d"
    unfolding queries_planless_def
  proof (intro ballI allI impI)
    fix p k assume p: "p \<in> set (db_queries ?e)" "lq_agent_task_id p = Some k"
    have "p = q \<or> p \<in> set (db_queries d)" using queries.in_rows_put [OF p(1)] .
    then obtain r where "r \<in> set (db_queries d)" "lq_agent_task_id r = Some k" using p(2) assms by auto
    then show "\<exists>t. get_task k ?e = Some t \<and> tk_change_plan_id t = None"
      using i unfolding queries_planless_def task_frame(3) [OF f(1)] by blast
  qed
  then show ?thesis
    using task_frame [OF f(1)] f tasks_evolve_same [OF f(1)]
    by (simp add: safe_step_def task_inv_def plans_honest_def plan_keys_ok_def)
qed

lemma fail_planless_safe:
  assumes "get_task (tk_id t) d = Some t" "tk_status t = Pending" "tk_change_plan_id t = None"
  shows "safe_step d (put_task (fail_task now r t) d)"
  unfolding safe_step_def
proof
  assume "task_inv d"
  then have "inv_but {} (put_task (fail_task now r t) d)"
    using inv_but_fail [of "{}" d t "{}" now r] assms by (simp add: inv_but_empty)
  then show "task_inv (put_task (fail_task now r t) d) \<and> tasks_evolve d (put_task (fail_task now r t) d)"
    using tasks_evolve_put [OF assms(1) fail_task_evolves] assms(2) by (simp add: inv_but_empty)
qed

lemma query_link_kept [simp]:
  "lq_agent_task_id (query_timed_out now m q) = lq_agent_task_id q"
  "lq_agent_task_id (expire_active_query now m q) = lq_agent_task_id q"
  "lq_agent_task_id (query_from_succeeded now t q) = lq_agent_task_id q"
  "lq_agent_task_id (query_from_ended now t q) = lq_agent_task_id q"
  "lq_agent_task_id (fst (query_after_task now t q)) = lq_agent_task_id q"
  by (simp_all add: query_timed_out_def expire_active_query_def query_from_succeeded_def query_from_ended_def
      query_after_task_def Let_def split: task_status.split)

lemma query_after_task_task:
  "snd (query_after_task now t q) =
     (if tk_status t = Pending \<and> past now (tk_deadline_at t) then fail_task now queue_timeout_result t else t)"
  by (simp add: query_after_task_def split: task_status.split)

lemma refresh_query_safe:
  assumes "q \<in> set (db_queries d)"
  shows "safe_step d (refresh_looking_glass_query_from_task now q d)"
proof (cases "case lq_agent_task_id q of None \<Rightarrow> None | Some k \<Rightarrow> get_task k d")
  case None
  then show ?thesis
    using put_query_safe [OF assms, of "expire_active_query now queue_wait_text q"]
    by (simp add: refresh_looking_glass_query_from_task_def)
next
  case (Some t)
  then obtain k where k: "lq_agent_task_id q = Some k" "get_task k d = Some t" by (auto split: option.splits)
  then have g: "get_task (tk_id t) d = Some t" using tasks.get_key by blast
  let ?r = "query_after_task now t q"
  let ?q = "expire_active_query now ''query timed out'' (fst ?r)"
  have eq: "refresh_looking_glass_query_from_task now q d = put_query ?q (put_task (snd ?r) d)"
    unfolding refresh_looking_glass_query_from_task_def Some by (simp add: case_prod_beta)
  have 1: "safe_step d (put_task (snd ?r) d)" if "task_inv d"
  proof (cases "tk_status t = Pending \<and> past now (tk_deadline_at t)")
    case True
    have "tk_change_plan_id t = None"
      using that k assms unfolding task_inv_def queries_planless_def by fastforce
    then show ?thesis using fail_planless_safe [OF g] True by (simp add: query_after_task_task)
  next
    case False
    have "t \<in> set (db_tasks d)" using tasks.get_SomeD [OF g] by blast
    then have "safe_step d (put_task t d)" by (rule put_task_safe) (simp_all add: task_evolves_refl)
    moreover have "snd ?r = t" unfolding query_after_task_task by (rule if_not_P [OF False])
    ultimately show ?thesis by (simp only:)
  qed
  have "safe_step (put_task (snd ?r) d) (put_query ?q (put_task (snd ?r) d))"
    by (rule put_query_safe [of q]) (use assms in simp_all)
  then show ?thesis
    using safe_trans 1 unfolding eq safe_step_def by blast
qed

end
