(* ===== verification/SafeResult.thy ===== *)
theory SafeResult
  imports SafeHandlers
begin

text \<open>
  The invariant of the task and plan tables under the looking glass submissions and under
  \<open>agent_task_result\<close>, the report that ends a task.
\<close>

section \<open>Looking glass submissions\<close>

lemma record_on_query_safe: "safe_step d (record_on_query now k d)"
proof (cases "find (\<lambda>q. lq_agent_task_id q = Some k) (db_queries d)")
  case (Some q)
  then have "q \<in> set (db_queries d)" by (auto simp: find_Some_iff)
  then show ?thesis using refresh_query_safe Some by (simp add: record_on_query_def)
qed (simp add: record_on_query_def)

lemma reusable_query_in: "reusable_query now a b c d = Some q \<Longrightarrow> q \<in> set (db_queries d)"
  by (auto simp: reusable_query_def dest!: first_of_Some)

lemma add_query_safe:
  assumes "\<And>k. lq_agent_task_id q = Some k \<Longrightarrow> \<exists>t. get_task k d = Some t \<and> tk_change_plan_id t = None"
  shows "safe_step d (snd (add_query q d))"
proof -
  let ?e = "snd (add_query q d)" and ?n = "q\<lparr>lq_id := next_id lq_id (db_queries d)\<rparr>"
  have f: "db_tasks ?e = db_tasks d" "db_plans ?e = db_plans d" "db_queries ?e = db_queries d @ [?n]"
    by (simp_all add: add_query_def Let_def)
  have "queries_planless ?e" if "queries_planless d"
    using that assms unfolding queries_planless_def task_frame(3) [OF f(1)] f(3) by auto
  then show ?thesis
    using task_frame [OF f(1)] f tasks_evolve_same [OF f(1)]
    by (simp add: safe_step_def task_inv_def plans_honest_def plan_keys_ok_def)
qed

lemma safe_option:
  "(r = None \<Longrightarrow> safe_reply d out x) \<Longrightarrow> (\<And>p. r = Some p \<Longrightarrow> safe_reply d out (g p)) \<Longrightarrow>
    safe_reply d out (case r of None \<Rightarrow> x | Some p \<Rightarrow> g p)"
  by (cases r) simp_all

lemma added_task_found:
  assumes "tasks_wf d"
  shows "get_task (tk_id (fst (add_task t d))) (snd (add_task t d)) = Some (fst (add_task t d))"
proof -
  have "tb_get tk_id (next_id tk_id (db_tasks d)) (db_tasks d) = None" by (simp add: tb_get_None_iff)
  then show ?thesis by (simp add: add_task_def get_task_def Let_def tb_get_append)
qed

lemma query_task_simps [simp]:
  "tk_status (query_task now node r) = Pending" "tk_change_plan_id (query_task now node r) = None"
  "tk_dedup_key (query_task now node r) = None"
  by (simp_all add: query_task_def)

lemma add_query_task_safe:
  "safe_step d (snd (add_query (q\<lparr>lq_agent_task_id := Some (tk_id (fst (add_task (query_task now node r) d)))\<rparr>)
     (snd (add_task (query_task now node r) d))))"
proof -
  let ?td = "add_task (query_task now node r) d"
  let ?q = "q\<lparr>lq_agent_task_id := Some (tk_id (fst ?td))\<rparr>"
  have s: "safe_step d (snd ?td)"
    by (rule add_task_safe) (simp_all add: dedup_conflict_def may_join_plan_def)
  have p: "tk_change_plan_id (fst ?td) = None" by (simp add: add_task_def Let_def)
  have "safe_step (snd ?td) (snd (add_query ?q (snd ?td)))" if "tasks_wf d"
    by (rule add_query_safe) (use added_task_found [OF that] p in auto)
  then show ?thesis using s safe_trans unfolding safe_step_def task_inv_def by blast
qed

lemma admit_query_safe: "safe_reply d snd (admit_query now pid key node fpr r d)"
proof -
  let ?d2 = "snd (expire_stale_running_agent_tasks (Some node) now (snd (expire_overdue_pending_agent_tasks (Some node) now d)))"
  have s2: "safe_step d ?d2" by (rule safe_trans [OF expire_overdue_safe expire_stale_safe])
  show ?thesis
    unfolding admit_query_def Let_def case_prod_beta
    by (rule safe_from [OF s2], rule safe_if, rule safe_Inl, rule safe_if, rule safe_option, rule safe_Inl,
        rule safe_Inr, simp only: snd_conv, rule refresh_query_safe, erule reusable_query_in,
        rule safe_Inr, rule add_query_task_safe)
qed

lemma submit_looking_glass_safe: "safe_reply d snd (submit_looking_glass fp en ref k r d)"
proof -
  have refreshed: "safe_reply d snd (admit_query now pid a b c r (refresh_looking_glass_query_from_task now p d))"
    if "p \<in> set (db_queries d)" for now pid a b c p
    by (rule safe_from [OF refresh_query_safe [OF that] admit_query_safe])
  show ?thesis
    unfolding submit_looking_glass_def create_looking_glass_query_task_def Let_def
    by (rule safe_guard, rule safe_guard, rule safe_guard, rule safe_guard, rule safe_guard, rule safe_option,
        rule admit_query_safe, rule safe_if, rule safe_Inr, simp only: snd_conv, rule refresh_query_safe,
        erule reusable_query_in, rule refreshed, erule reusable_query_in)
qed

lemma get_looking_glass_query_safe: "safe_step d (snd (get_looking_glass_query now k qid d))"
proof -
  have "safe_step d (put_query (q\<lparr>lq_status := QExpired\<rparr>) d)" "safe_step d (refresh_looking_glass_query_from_task now q d)"
    if "find (\<lambda>q. lq_public_id q = qid \<and> lq_api_key_id q = ak_id k) (db_queries d) = Some q" for q
    using that put_query_safe [of q d "q\<lparr>lq_status := QExpired\<rparr>"] refresh_query_safe [of q d now]
    by (auto simp: find_Some_iff)
  then show ?thesis
    unfolding get_looking_glass_query_def Let_def by (auto split: sum.split option.split)
qed

section \<open>The report of an agent\<close>

lemma finish_task_evolves:
  "tk_status t = Running \<Longrightarrow> terminal status \<Longrightarrow> task_evolves t (finish_task now status result t)"
  by (cases status) (simp_all add: finish_task_def task_evolves_def)

lemma normalize_terminal:
  "terminal status \<Longrightarrow> terminal (fst (normalize_agent_task_report d t status result))"
  by (simp add: normalize_agent_task_report_def)

text \<open>The write of the final state leaves at most the plan of the task to be told.\<close>

lemma finish_inv_but:
  assumes "task_inv d" "get_task (tk_id t) d = Some t" "tk_status t = Running" "terminal status"
  shows "inv_but (set_option (tk_change_plan_id t)) (put_task (finish_task now status result t) d)"
proof -
  let ?u = "finish_task now status result t"
  have u: "tk_id ?u = tk_id t" "tk_dedup_key ?u = tk_dedup_key t" "tk_change_plan_id ?u = tk_change_plan_id t"
    by (simp_all add: finish_task_def)
  show ?thesis
    by (rule inv_but_put_task [of "{}" d ?u t])
      (use assms u finish_task_evolves in \<open>auto simp: inv_but_empty split: option.splits\<close>)
qed

lemma told_inv:
  assumes "inv_but (set_option k) d"
  shows "task_inv (refresh_plan_opt k d)"
proof (cases k)
  case (Some j)
  then show ?thesis using inv_but_refresh_opt(2) [OF assms Some] by (simp add: inv_but_empty)
qed (use assms in \<open>simp add: refresh_plan_opt_def inv_but_empty\<close>)

lemma same_work_inv_but: "same_work d d' \<Longrightarrow> inv_but S d' = inv_but S d"
  by (simp add: same_work_def inv_but_def tasks_wf_def dedup_unique_def plans_honest_def
      plan_keys_ok_def queries_planless_def get_task_def)

lemma same_work_refl [simp]: "same_work d d"
  by (simp add: same_work_def)

lemma record_on_node_same: "same_work d (record_on_node n t status result d)"
  unfolding record_on_node_def by (cases "get_node n d") simp_all

lemma store_candidate_same:
  "same_work d (fst acc) \<Longrightarrow> same_work d (fst (store_candidate d0 n names s acc))"
  unfolding store_candidate_def Let_def case_prod_beta
  by (simp add: same_work_def split: option.split)

lemma store_candidates_same: "same_work d (fst acc) \<Longrightarrow> same_work d (fst (fold (store_candidate d0 n names) scans acc))"
  by (induction scans arbitrary: acc) (simp_all add: store_candidate_same)

lemma record_import_scan_same: "record_import_scan n result d = Inr d' \<Longrightarrow> same_work d d'"
  unfolding record_import_scan_def Let_def case_prod_beta res_simps
  using store_candidates_same [of d "(d, _)"] by (fastforce simp: same_work_def)

lemma record_on_interface_same: "record_on_interface fresh t result d = Inr d' \<Longrightarrow> same_work d d'"
  unfolding record_on_interface_def Let_def
  by (auto simp: res_simps split: option.splits if_splits)

lemma store_endpoint_same: "same_work d (store_endpoint c e d)"
  unfolding store_endpoint_def Let_def
  by (rule same_work_trans [of _ "put_endpoint e d"]) simp_all

lemma record_on_endpoint_same: "record_on_endpoint fresh t status result d = Inr d' \<Longrightarrow> same_work d d'"
  unfolding record_on_endpoint_def Let_def
  by (auto simp: res_simps store_endpoint_same split: option.splits if_splits)

lemma record_effects_inv:
  assumes "inv_but (set_option (tk_change_plan_id t)) d" "record_effects en n t status result d = Inr d'"
  shows "task_inv d'" "tasks_evolve d d'"
proof -
  let ?d0 = "record_on_node n t status result d"
  let ?d1 = "refresh_plan_opt (tk_change_plan_id t) ?d0"
  have 0: "same_work d ?d0" by (rule record_on_node_same)
  have 1: "task_inv ?d1" by (rule told_inv) (simp add: same_work_inv_but [OF 0] assms(1))
  have e1: "tasks_evolve d ?d1" using 0 by (simp add: same_work_def tasks_evolve_same)
  obtain d2 d3 d4 where
      s2: "(if Some (tk_type t) = ts_import_scan wireguard_tasks \<and> status = Succeeded
            then record_import_scan n result ?d1 else Inr ?d1) = Inr d2"
    and s3: "(if status = Succeeded then record_on_interface (en_fresh en) t result d2 else Inr d2) = Inr d3"
    and s4: "record_on_endpoint (en_fresh en) t status result d3 = Inr d4"
    and d': "d' = record_on_query (en_now en) (tk_id t) d4"
    using assms(2) unfolding record_effects_def Let_def by (auto simp only: res_simps sum.inject)
  have "same_work ?d1 d2" using s2 record_import_scan_same by (metis Inr_inject same_work_refl)
  moreover have "same_work d2 d3" using s3 record_on_interface_same by (metis Inr_inject same_work_refl)
  ultimately have 4: "same_work ?d1 d4" using same_work_trans record_on_endpoint_same [OF s4] by blast
  then have "safe_step ?d1 d'" using safe_trans [OF same_work_safe record_on_query_safe] d' by blast
  then show "task_inv d'" "tasks_evolve d d'"
    using 1 e1 tasks_evolve_trans unfolding safe_step_def by blast+
qed

lemma rejected_report_safe:
  assumes "get_task (tk_id t) d = Some t" "tk_status t = Running"
  shows "safe_step d (refresh_plan_opt (tk_change_plan_id t) (put_task (fail_task now r t) d))"
  unfolding safe_step_def
proof
  let ?e = "put_task (fail_task now r t) d"
  assume "task_inv d"
  then have "inv_but (set_option (tk_change_plan_id t)) ?e"
    by (intro inv_but_fail [of "{}"]) (use assms in \<open>auto simp: inv_but_empty split: option.split\<close>)
  moreover have "tasks_evolve d ?e" using tasks_evolve_put [OF assms(1) fail_task_evolves] assms(2) by simp
  ultimately show "task_inv (refresh_plan_opt (tk_change_plan_id t) ?e) \<and>
      tasks_evolve d (refresh_plan_opt (tk_change_plan_id t) ?e)"
    using told_inv by simp
qed

text \<open>What a report can do to the database: nothing, failing the task, or ending it with all
  that follows.\<close>

lemma agent_task_result_db:
  assumes "agent_task_result v en k n tok status result d = (r, d')"
  obtains "d' = d"
  | t msg where "get_task k d = Some t" "tk_node_id t = n" "tk_status t = Running"
      "d' = refresh_plan_opt (tk_change_plan_id t) (put_task (fail_task (en_now en) (JObj [(''error'', JStr msg)]) t) d)"
      "r = Inl (HTTP 400 msg)"
  | t status' result' where "get_task k d = Some t" "tk_node_id t = n" "tk_status t = Running"
      "normalize_agent_task_report d t status result = (status', result')"
      "record_effects en n t status' result' (put_task (finish_task (en_now en) status' result' t) d) = Inr d'"
      "r = Inr ()"
  using assms unfolding agent_task_result_def
  by (simp only: split: sum.splits option.splits if_splits prod.splits) blast+

lemma agent_task_result_safe:
  assumes "terminal status"
  shows "safe_step d (snd (agent_task_result v en k n tok status result d))"
proof -
  obtain r d' where a: "agent_task_result v en k n tok status result d = (r, d')" by fastforce
  from a have "safe_step d d'"
  proof (cases rule: agent_task_result_db)
    case 1
    then show ?thesis by simp
  next
    case (2 t msg)
    then have "get_task (tk_id t) d = Some t" using tasks.get_key by blast
    then show ?thesis using rejected_report_safe 2 by blast
  next
    case (3 t status' result')
    then have g: "get_task (tk_id t) d = Some t" using tasks.get_key by blast
    have f: "terminal status'" using normalize_terminal [OF assms, of d t result] 3 by simp
    let ?e = "put_task (finish_task (en_now en) status' result' t) d"
    have "tasks_evolve d ?e" using tasks_evolve_put [OF g finish_task_evolves] 3 f by blast
    then show ?thesis
      using record_effects_inv [OF finish_inv_but [OF _ g 3(3) f] 3(5)] tasks_evolve_trans
      unfolding safe_step_def by blast
  qed
  then show ?thesis by (simp add: a)
qed

end
