(* ===== verification/Monitors.thy ===== *)
theory Monitors
  imports WgHandlers
begin

text \<open>
  Link monitors (main.py): creating and editing a target, the poll by which the agent claims the
  targets that are due, and the upload of results with its duplicate check, its clamping of
  timestamps and the retention of samples. Times are microseconds, as SQLite stores them.
\<close>

section \<open>Targets\<close>

record monitor_payload =
  mn_target_host :: string
  mn_name :: "string option"
  mn_interval_seconds :: int
  mn_retention_days :: int
  mn_enabled :: bool

definition validate_monitor_payload :: "monitor_payload \<Rightarrow> (string, monitor_payload) result" where
  "validate_monitor_payload p =
     rbind (ensure (1 \<le> length (mn_target_host p) \<and> length (mn_target_host p) \<le> 255) ''string length'') (\<lambda>_.
     rbind (ensure (ip_address (strip (mn_target_host p)) \<noteq> None) ''monitor target must be an IPv4 or IPv6 address'') (\<lambda>_.
     rbind (ensure (length (the_or [] (mn_name p)) \<le> 80) ''string length'') (\<lambda>_.
     rbind (ensure (1 \<le> mn_interval_seconds p \<and> mn_interval_seconds p \<le> 300)
         ''interval_seconds must be between 1 and 300'') (\<lambda>_.
     rbind (ensure (1 \<le> mn_retention_days p \<and> mn_retention_days p \<le> 90)
         ''retention_days must be between 1 and 90'') (\<lambda>_.
       Inr (p\<lparr>mn_target_host := strip (mn_target_host p)\<rparr>))))))"

definition monitor_name :: "monitor_payload \<Rightarrow> string \<Rightarrow> string" where
  "monitor_name p dflt = strip (if set_text (mn_name p) then the_or [] (mn_name p) else dflt)"

definition fill_monitor :: "time \<Rightarrow> monitor_payload \<Rightarrow> string \<Rightarrow> monitor \<Rightarrow> monitor" where
  "fill_monitor now p name m = m\<lparr>mo_name := name, mo_target_host := mn_target_host p,
     mo_interval_seconds := mn_interval_seconds p, mo_retention_days := mn_retention_days p,
     mo_enabled := mn_enabled p, mo_next_due_at := (if mn_enabled p then Some now else None)\<rparr>"

definition new_monitor :: "int \<Rightarrow> int option \<Rightarrow> int option \<Rightarrow> monitor" where
  "new_monitor node_id interface_id endpoint_id = \<lparr>mo_id = 0, mo_node_id = node_id,
     mo_interface_id = interface_id, mo_connection_endpoint_id = endpoint_id, mo_name = [],
     mo_target_host = [], mo_interval_seconds = 10, mo_retention_days = 7, mo_enabled = True,
     mo_next_due_at = None, mo_last_checked_at = None\<rparr>"

definition add_monitor :: "monitor \<Rightarrow> db \<Rightarrow> monitor \<times> db" where
  "add_monitor m d = (let m' = m\<lparr>mo_id := next_id mo_id (db_monitors d)\<rparr> in
     (m', d\<lparr>db_monitors := db_monitors d @ [m']\<rparr>))"

definition upsert_monitor :: "time \<Rightarrow> monitor_payload \<Rightarrow> string \<Rightarrow> monitor option \<Rightarrow> monitor \<Rightarrow> db \<Rightarrow> monitor \<times> db" where
  "upsert_monitor now p name existing fresh_row d = (case existing of
      None \<Rightarrow> add_monitor (fill_monitor now p name fresh_row) d
    | Some m \<Rightarrow> (let m' = fill_monitor now p name m in (m', put_monitor m' d)))"

definition upsert_interface_link_monitor :: "env \<Rightarrow> int \<Rightarrow> monitor_payload \<Rightarrow> db \<Rightarrow> (monitor \<times> db) reply" where
  "upsert_interface_link_monitor en k p d =
     rbind (some_or (get_iface k d) (HTTP 404 ''interface not found'')) (\<lambda>i.
     rbind (require_online_node (en_offline_after en) (en_now en) (if_node_id i) d) (\<lambda>_.
       Inr (upsert_monitor (en_now en) p (monitor_name p (if_name i @ '' latency''))
         (find (\<lambda>m. mo_interface_id m = Some k) (db_monitors d))
         (new_monitor (if_node_id i) (Some (if_id i)) None) d)))"

definition upsert_connection_endpoint_link_monitor :: "env \<Rightarrow> int \<Rightarrow> monitor_payload \<Rightarrow> db \<Rightarrow> (monitor \<times> db) reply" where
  "upsert_connection_endpoint_link_monitor en k p d =
     rbind (some_or (get_endpoint k d) (HTTP 404 ''connection endpoint not found'')) (\<lambda>e.
     rbind (require_online_node (en_offline_after en) (en_now en) (ep_node_id e) d) (\<lambda>_.
       Inr (upsert_monitor (en_now en) p (monitor_name p (ep_interface_name e @ '' latency''))
         (find (\<lambda>m. mo_connection_endpoint_id m = Some k) (db_monitors d))
         (new_monitor (ep_node_id e) None (Some (ep_id e))) d)))"

definition update_link_monitor :: "env \<Rightarrow> int \<Rightarrow> monitor_payload \<Rightarrow> db \<Rightarrow> (monitor \<times> db) reply" where
  "update_link_monitor en k p d =
     rbind (some_or (get_monitor k d) (HTTP 404 ''link monitor not found'')) (\<lambda>m.
     rbind (require_online_node (en_offline_after en) (en_now en) (mo_node_id m) d) (\<lambda>_.
       let m' = fill_monitor (en_now en) p (monitor_name p (mo_name m)) m in Inr (m', put_monitor m' d)))"

definition delete_link_monitor :: "int \<Rightarrow> db \<Rightarrow> db reply" where
  "delete_link_monitor k d =
     rbind (some_or (get_monitor k d) (HTTP 404 ''link monitor not found'')) (\<lambda>_.
       Inr (delete_link_monitors_where (\<lambda>m. mo_id m = k) d))"

definition parse_monitor_window :: "string option \<Rightarrow> time reply" where
  "parse_monitor_window value = (let key = (if set_text value then the_or [] value else ''1h'') in
     if key = ''1h'' then Inr (seconds 3600)
     else if key = ''6h'' then Inr (seconds 21600)
     else if key = ''1d'' then Inr (seconds 86400)
     else if key = ''7d'' then Inr (seconds 604800)
     else if key = ''30d'' then Inr (seconds 2592000)
     else Inl (HTTP 422 ''invalid monitor window''))"

text \<open>The newest samples of the window, at most twenty thousand, oldest first.\<close>

definition window_samples :: "time \<Rightarrow> time \<Rightarrow> int \<Rightarrow> db \<Rightarrow> sample list" where
  "window_samples now window k d = rev (take 20000 (rev (sort_key sa_checked_at (filter
     (\<lambda>s. sa_monitor_id s = k \<and> now - window \<le> sa_checked_at s) (db_samples d)))))"

section \<open>The poll\<close>

definition monitor_due :: "time \<Rightarrow> monitor \<Rightarrow> bool" where
  "monitor_due now m = (mo_enabled m \<and> (case mo_next_due_at m of None \<Rightarrow> True | Some t \<Rightarrow> t \<le> now))"

definition claim_monitor :: "time \<Rightarrow> monitor \<Rightarrow> monitor" where
  "claim_monitor now m = m\<lparr>mo_next_due_at := Some (now + seconds (mo_interval_seconds m))\<rparr>"

definition due_monitors :: "int \<Rightarrow> time \<Rightarrow> db \<Rightarrow> monitor list" where
  "due_monitors node_id now d = take 10 (sort_key mo_id
     (filter (\<lambda>m. mo_node_id m = node_id \<and> monitor_due now m) (db_monitors d)))"

definition claim_step :: "time \<Rightarrow> monitor \<Rightarrow> monitor list \<times> db \<Rightarrow> monitor list \<times> db" where
  "claim_step now c acc = (case acc of (ms, d) \<Rightarrow> (case get_monitor (mo_id c) d of
      None \<Rightarrow> acc
    | Some m \<Rightarrow> if monitor_due now m
        then (ms @ [claim_monitor now m], put_monitor (claim_monitor now m) d) else acc))"

definition agent_link_monitor_poll ::
  "(string \<Rightarrow> string \<Rightarrow> bool) \<Rightarrow> time \<Rightarrow> agent_call \<Rightarrow> db \<Rightarrow> (monitor list \<times> db) reply" where
  "agent_link_monitor_poll verify_token now call d =
     rbind (agent_seen verify_token now call d) (\<lambda>(n, d1).
       Inr (fold (claim_step now) (due_monitors (ac_node_id call) now d1) ([], d1)))"

section \<open>Results\<close>

record probe =
  pb_monitor_id :: int
  pb_checked_at :: "time option"
  pb_success :: bool
  pb_latency :: "int option"
  pb_error :: "string option"

text \<open>
  The accumulator of the upload: the new samples, the latest time per monitor, the explicit times
  seen and the number of generated times. \<open>d\<close> is the database before the upload.
\<close>

record upload =
  up_samples :: "sample list"
  up_latest :: "(int \<times> time) list"
  up_seen :: "(int \<times> time) list"
  up_generated :: int

definition probe_time :: "time \<Rightarrow> int \<Rightarrow> upload \<Rightarrow> probe \<Rightarrow> time" where
  "probe_time now batch u b = (case pb_checked_at b of
      Some t \<Rightarrow> min t now
    | None \<Rightarrow> now - (batch + 1) + up_generated u)"

definition new_sample :: "int \<Rightarrow> time \<Rightarrow> probe \<Rightarrow> sample" where
  "new_sample k t b = \<lparr>sa_id = 0, sa_monitor_id = k, sa_checked_at = t, sa_success = pb_success b,
     sa_latency = (if pb_success b then pb_latency b else None), sa_error = pb_error b\<rparr>"

definition later :: "time \<Rightarrow> time option \<Rightarrow> time" where
  "later t x = (case x of None \<Rightarrow> t | Some s \<Rightarrow> if s < t then t else s)"

definition already_sampled :: "int \<Rightarrow> time \<Rightarrow> db \<Rightarrow> bool" where
  "already_sampled k t d = list_ex (\<lambda>s. sa_monitor_id s = k \<and> sa_checked_at s = t) (db_samples d)"

definition upload_step :: "time \<Rightarrow> int \<Rightarrow> int \<Rightarrow> db \<Rightarrow> probe \<Rightarrow> upload \<Rightarrow> upload" where
  "upload_step now batch node_id d b u = (case get_monitor (pb_monitor_id b) d of
      None \<Rightarrow> u
    | Some m \<Rightarrow>
        if mo_node_id m \<noteq> node_id then u
        else let t = probe_time now batch u b; k = mo_id m;
                 u1 = (if pb_checked_at b = None then u\<lparr>up_generated := up_generated u + 1\<rparr> else u) in
          if pb_checked_at b \<noteq> None \<and> ((k, t) \<in> set (up_seen u) \<or> already_sampled k t d) then u1
          else u1\<lparr>up_seen := (if pb_checked_at b \<noteq> None then (k, t) # up_seen u1 else up_seen u1),
                  up_samples := up_samples u1 @ [new_sample k t b],
                  up_latest := AList.update k (later t (map_of (up_latest u1) k)) (up_latest u1)\<rparr>)"

definition add_sample :: "sample \<Rightarrow> db \<Rightarrow> db" where
  "add_sample s d = d\<lparr>db_samples := db_samples d @ [s\<lparr>sa_id := next_id sa_id (db_samples d)\<rparr>]\<rparr>"

definition touch_monitor :: "int \<times> time \<Rightarrow> db \<Rightarrow> db" where
  "touch_monitor kt d = (case get_monitor (fst kt) d of None \<Rightarrow> d
     | Some m \<Rightarrow> put_monitor (m\<lparr>mo_last_checked_at := Some (later (snd kt) (mo_last_checked_at m))\<rparr>) d)"

text \<open>
  The deletion of old samples is a statement of its own, executed before the new samples, which
  the session still holds, are written: what an upload itself brings is not cut by it.
\<close>

definition expired_sample :: "time \<Rightarrow> upload \<Rightarrow> db \<Rightarrow> sample \<Rightarrow> bool" where
  "expired_sample now u d s = (sa_monitor_id s \<in> set (map fst (up_latest u)) \<and>
     (case get_monitor (sa_monitor_id s) d of None \<Rightarrow> False
      | Some m \<Rightarrow> sa_checked_at s < now - seconds (86400 * mo_retention_days m)))"

definition run_upload :: "time \<Rightarrow> int \<Rightarrow> probe list \<Rightarrow> db \<Rightarrow> upload" where
  "run_upload now node_id bs d = fold (upload_step now (int (length bs)) node_id d) bs
     \<lparr>up_samples = [], up_latest = [], up_seen = [], up_generated = 0\<rparr>"

definition agent_link_monitor_result ::
  "(string \<Rightarrow> string \<Rightarrow> bool) \<Rightarrow> time \<Rightarrow> int \<Rightarrow> string \<Rightarrow> probe list \<Rightarrow> db \<Rightarrow> db reply" where
  "agent_link_monitor_result verify_token now node_id token bs d =
     rbind (require_agent verify_token node_id token d) (\<lambda>_.
       let u = run_upload now node_id bs d;
           d1 = fold touch_monitor (up_latest u) d;
           d2 = d1\<lparr>db_samples := filter (\<lambda>s. \<not> expired_sample now u d s) (db_samples d1)\<rparr> in
       Inr (fold add_sample (up_samples u) d2))"

end
