(* ===== verification/SafeGre.thy ===== *)
theory SafeGre
  imports SafeResult Monitors
begin

text \<open>
  The invariant of the task and plan tables under the GRE handlers: the idempotent enqueueing of
  endpoint tasks and the loops over the endpoints of a connection.
\<close>

section \<open>Endpoint tasks\<close>

lemma tasks_by_id_in: "first_of (tasks_by_id (filter P ts)) = Some t \<Longrightarrow> t \<in> set ts \<and> P t"
  by (auto simp: tasks_by_id_def dest!: first_of_Some)

lemma insert_endpoint_task_safe: "safe_reply d snd (insert_endpoint_task e ty payload up d)"
proof -
  let ?key = "endpoint_dedup_key (ep_id e) ty"
  let ?t = "(new_task (ep_node_id e) None ty (JObj payload))\<lparr>tk_dedup_key := Some ?key\<rparr>"
  show ?thesis
  proof (cases "insert_task ?t d")
    case (Some td)
    have "safe_step d (snd td)" using insert_task_safe [of ?t d "fst td" "snd td"] Some by simp
    then show ?thesis
      unfolding insert_endpoint_task_def Let_def Some by (simp add: case_prod_beta safe_Inr)
  next
    case None
    show ?thesis
      unfolding insert_endpoint_task_def Let_def None option.case
    proof (rule safe_option, rule safe_Inl, rule safe_if)
      fix u assume "first_of (tasks_by_id (filter (\<lambda>u. tk_dedup_key u = Some ?key \<and> tk_status u = Pending) (db_tasks d))) = Some u"
      then have "u \<in> set (db_tasks d)" "tk_status u = Pending" using tasks_by_id_in by blast+
      then show "safe_reply d snd (Inr (replace_payload (JObj payload) u, put_task (replace_payload (JObj payload) u) d))"
        by (intro safe_Inr) (simp only: snd_conv replace_payload_safe)
    qed (rule safe_Inr, simp)
  qed
qed

lemma endpoint_task_safe: "safe_reply d snd (create_connection_endpoint_task fresh e ty extra up queue d)"
proof -
  let ?e' = "snd (gre_task_payload fresh e)"
  have s: "safe_step d (put_endpoint ?e' d)" by (simp add: same_work_safe)
  show ?thesis
    unfolding create_connection_endpoint_task_def Let_def case_prod_beta
  proof (rule safe_guard, rule safe_from [OF s], rule safe_option, rule safe_option)
    fix t assume "first_endpoint_task (ep_id e) [ty] Pending (put_endpoint ?e' d) = Some t"
    then have t: "t \<in> set (db_tasks (put_endpoint ?e' d))" "tk_status t = Pending"
      unfolding first_endpoint_task_def by (auto dest!: tasks_by_id_in simp: endpoint_task_def)
    show "safe_reply (put_endpoint ?e' d) snd
        (if up then Inr (replace_payload (JObj (dict_update (fst (gre_task_payload fresh e)) extra)) t,
           put_task (replace_payload (JObj (dict_update (fst (gre_task_payload fresh e)) extra)) t) (put_endpoint ?e' d))
         else Inr (t, put_endpoint ?e' d))"
      by (rule safe_if; rule safe_Inr; simp only: snd_conv replace_payload_safe [OF t] safe_refl)
  qed (rule insert_endpoint_task_safe safe_if | (rule safe_Inr, simp))+
qed

lemma safe_endpoint_task:
  assumes "\<And>t e. safe_reply e out (g t e)"
  shows "safe_reply d out (rbind (create_connection_endpoint_task fresh e ty extra up queue d) (\<lambda>(t, e). g t e))"
  by (rule safe_then [OF endpoint_task_safe]) (simp add: assms split: prod.split)

lemma set_endpoint_status_safe: "safe_step d (set_endpoint_status s e d)"
  by (simp add: set_endpoint_status_def same_work_safe)

lemma enqueue_gre_safe: "safe_reply d (\<lambda>e. e) (enqueue_gre_apply_and_start fresh e d)"
  unfolding enqueue_gre_apply_and_start_def Let_def
  by (rule safe_endpoint_task, rule safe_endpoint_task, rule safe_Inr, rule set_endpoint_status_safe)

section \<open>Connections\<close>

lemma rfold_safe: "(\<And>x e. safe_reply e (\<lambda>e. e) (f x e)) \<Longrightarrow> safe_reply d (\<lambda>e. e) (rfold f xs d)"
proof (induction xs arbitrary: d)
  case (Cons x xs)
  show ?case using safe_then [OF Cons.prems Cons.IH [OF Cons.prems]] by simp
qed (simp add: safe_Inr)

lemma for_endpoints_safe: "(\<And>x e. safe_reply e (\<lambda>e. e) (f x e)) \<Longrightarrow> safe_reply d (\<lambda>e. e) (for_endpoints f k d)"
  unfolding for_endpoints_def by (rule rfold_safe)

lemma add_conn_same [simp]: "same_work d (snd (add_conn c d))"
  by (simp add: add_conn_def same_work_def Let_def)

lemma add_endpoint_safe: "safe_reply d snd (add_endpoint e d)"
  unfolding add_endpoint_def Let_def
  by (rule safe_if, rule safe_Inl, rule safe_Inr, rule same_work_safe, simp add: same_work_def)

lemma safe_add_endpoint:
  assumes "\<And>t e. safe_reply e out (g t e)"
  shows "safe_reply d out (rbind (add_endpoint x d) (\<lambda>(t, e). g t e))"
  by (rule safe_then [OF add_endpoint_safe]) (simp add: assms split: prod.split)

lemma create_managed_connection_safe: "safe_reply d snd (create_managed_connection en n p d)"
  unfolding create_managed_connection_def Let_def
  by (rule safe_if, rule safe_Inl, (rule safe_guard)+, subst case_prod_beta,
      rule safe_from [OF same_work_safe [OF add_conn_same]],
      rule safe_add_endpoint, rule safe_add_endpoint, rule safe_then [OF enqueue_gre_safe],
      rule safe_then [OF enqueue_gre_safe], rule safe_Inr, simp)

lemma create_manual_connection_safe: "safe_reply d snd (create_manual_connection en n p d)"
  unfolding create_manual_connection_def Let_def
  by ((rule safe_guard)+, subst case_prod_beta, rule safe_from [OF same_work_safe [OF add_conn_same]],
      rule safe_add_endpoint, rule safe_then [OF enqueue_gre_safe], rule safe_Inr, simp)

lemma safe_two:
  "(\<And>a b. safe_reply d out (g a b)) \<Longrightarrow> safe_reply d out x \<Longrightarrow>
    safe_reply d out (case xs of [a, b] \<Rightarrow> g a b | _ \<Rightarrow> x)"
  by (simp split: list.split)

lemma safe_one:
  "(\<And>a. safe_reply d out (g a)) \<Longrightarrow> safe_reply d out x \<Longrightarrow>
    safe_reply d out (case xs of [a] \<Rightarrow> g a | _ \<Rightarrow> x)"
  by (simp split: list.split)

lemma update_connection_safe: "safe_reply d (\<lambda>e. e) (update_connection en ref p d)"
proof -
  have enq: "safe_reply d (\<lambda>e. e) (rbind (enqueue_gre_apply_and_start f el
      (put_conn c (put_endpoint er (put_endpoint el d)))) (\<lambda>d2. enqueue_gre_apply_and_start f (h d2) d2))"
    for f el er c h
    by (rule same_work_safe [THEN safe_from], rule same_work_trans [OF same_work_trans], rule put_same_work(5),
        rule put_same_work(5), rule put_same_work(4), rule safe_then [OF enqueue_gre_safe enqueue_gre_safe])
  show ?thesis
    unfolding update_connection_def Let_def
    by (rule safe_guard, rule safe_guard, rule safe_guard, rule safe_two,
        rule safe_guard, rule safe_guard, rule safe_guard, rule safe_guard, rule safe_guard, rule safe_guard, rule safe_guard,
        rule enq, rule safe_Inl)
qed

lemma update_manual_connection_safe: "safe_reply d (\<lambda>e. e) (update_manual_connection en ref p d)"
proof -
  have enq: "safe_reply d (\<lambda>e. e) (enqueue_gre_apply_and_start f e (put_conn c (put_endpoint e d)))" for f e c
    by (rule same_work_safe [THEN safe_from], rule same_work_trans, rule put_same_work(5),
        rule put_same_work(4), rule enqueue_gre_safe)
  show ?thesis
    unfolding update_manual_connection_def Let_def
    by (rule safe_guard, rule safe_guard, rule safe_guard, rule safe_one, rule safe_if, rule safe_Inl,
        rule safe_guard, rule safe_guard, rule safe_guard, rule safe_guard, rule enq, rule safe_Inl)
qed

lemma set_conn_status_safe: "safe_step d (set_conn_status s k d)"
  by (auto simp: set_conn_status_def intro!: same_work_safe split: option.split)

lemma start_connection_safe: "safe_reply d (\<lambda>e. e) (start_connection en ref d)"
proof -
  have one: "safe_reply e (\<lambda>e. e) (start_endpoint en x e)" for x e
    unfolding start_endpoint_def
    by (rule safe_guard, rule safe_guard, rule safe_guard, rule safe_endpoint_task, rule safe_Inr,
        rule set_endpoint_status_safe)
  show ?thesis
    unfolding start_connection_def
    by (rule safe_guard, rule safe_guard, rule safe_then [OF for_endpoints_safe [OF one]], rule safe_Inr, rule set_conn_status_safe)
qed

lemma stop_endpoint_task_safe: "safe_reply d snd (stop_endpoint_task en e d)"
  unfolding stop_endpoint_task_def Let_def
  by (rule safe_guard, rule safe_from [OF cancel_gre_safe endpoint_task_safe])

lemma safe_stop_endpoint:
  assumes "\<And>t e. safe_reply e out (g t e)"
  shows "safe_reply d out (rbind (stop_endpoint_task en x d) (\<lambda>(t, e). g t e))"
  by (rule safe_then [OF stop_endpoint_task_safe]) (simp add: assms split: prod.split)

lemma stop_connection_safe: "safe_reply d (\<lambda>e. e) (stop_connection en ref d)"
proof -
  have one: "safe_reply e (\<lambda>e. e) (stop_endpoint en x e)" for x e
    unfolding stop_endpoint_def by (rule safe_stop_endpoint, rule safe_Inr, rule set_endpoint_status_safe)
  show ?thesis
    unfolding stop_connection_def
    by (rule safe_guard, rule safe_guard, rule safe_then [OF for_endpoints_safe [OF one]], rule safe_Inr,
        rule set_conn_status_safe)
qed

lemma refresh_connection_status_safe: "safe_reply d (\<lambda>e. e) (refresh_connection_status en ref d)"
proof -
  have one: "safe_reply e (\<lambda>e. e) (refresh_endpoint en x e)" for x e
    unfolding refresh_endpoint_def by (rule safe_guard, rule safe_endpoint_task, rule safe_Inr, rule safe_refl)
  show ?thesis
    unfolding refresh_connection_status_def
    by (rule safe_guard, rule safe_guard, rule for_endpoints_safe [OF one])
qed

lemma delete_connection_safe: "safe_reply d (\<lambda>e. e) (delete_connection en ref d)"
proof -
  have one: "safe_reply e (\<lambda>e. e) (clear_endpoint en x e)" for x e
    unfolding clear_endpoint_def
    by (rule safe_stop_endpoint, rule safe_endpoint_task, rule safe_Inr, rule safe_refl)
  have rows: "safe_step e (delete_link_monitors_where P e\<lparr>db_endpoints := es, db_conns := cs\<rparr>)" for e P es cs
    using put_same_work(8) [of e P] by (intro same_work_safe) (simp add: same_work_def)
  show ?thesis
    unfolding delete_connection_def Let_def
    by (rule safe_guard, rule safe_guard, rule safe_then [OF for_endpoints_safe [OF one]], rule safe_Inr, rule rows)
qed

section \<open>Handlers that leave tasks, plans and queries alone\<close>

lemma same_reply: "(\<And>x. r = Inr x \<Longrightarrow> same_work d (out x)) \<Longrightarrow> safe_reply d out r"
  by (simp add: safe_reply_def same_work_safe)

lemma keep_first_same [simp]: "same_work d (keep_first_peer ps e) = same_work d e"
  by (simp add: keep_first_peer_def same_work_def)

lemma create_interface_safe: "safe_reply d snd (create_interface en n p d)"
  unfolding create_interface_def
  by (rule same_reply) (auto simp: res_simps simp flip: fun_upd_def)

lemma update_interface_safe: "safe_reply d snd (update_interface en k p d)"
  unfolding update_interface_def Let_def by (rule same_reply) (auto simp: res_simps)

lemma add_rows_pair: "add_peer q d = (a, e) \<Longrightarrow> same_work d e" "add_monitor m d = (b, e) \<Longrightarrow> same_work d e"
  by (metis add_rows_same(2) snd_conv, auto simp: add_monitor_def same_work_def Let_def)

lemma set_unique_peer_safe: "safe_reply d snd (set_unique_peer en k p d)"
  unfolding set_unique_peer_def Let_def
  by (rule same_reply) (auto simp: res_simps dest: add_rows_pair(1) split: list.splits)

lemma delete_config_peer_safe: "safe_reply d (\<lambda>e. e) (delete_config_peer k d)"
  unfolding delete_config_peer_def get_unique_peer_def Let_def
  by (rule same_reply) (auto simp: res_simps same_work_def keep_first_peer_def split: option.splits)

lemma agent_seen_same: "agent_seen v now call d = Inr (n, d') \<Longrightarrow> same_work d d'"
  by (auto simp: agent_seen_def res_simps Let_def)

lemma agent_heartbeat_safe: "safe_reply d snd (agent_heartbeat v now call d)"
  unfolding agent_heartbeat_def
  by (rule same_reply) (auto simp: res_simps dest: agent_seen_same)

lemma agent_register_safe: "safe_reply d snd (agent_register v now r d)"
  unfolding agent_register_def Let_def by (rule same_reply) (auto simp: res_simps)

lemma upsert_monitor_same: "upsert_monitor now p name ex m d = (a, e) \<Longrightarrow> same_work d e"
  by (auto simp: upsert_monitor_def Let_def dest: add_rows_pair(2) split: option.splits)

lemma monitor_edits_safe:
  "safe_reply d snd (upsert_interface_link_monitor en k mp d)"
  "safe_reply d snd (upsert_connection_endpoint_link_monitor en k mp d)"
  "safe_reply d snd (update_link_monitor en k mp d)"
  "safe_reply d (\<lambda>e. e) (delete_link_monitor k d)"
  unfolding upsert_interface_link_monitor_def upsert_connection_endpoint_link_monitor_def
    update_link_monitor_def delete_link_monitor_def Let_def
  by (rule same_reply, auto simp: res_simps dest: upsert_monitor_same)+

lemma claim_step_same: "same_work d (snd acc) \<Longrightarrow> same_work d (snd (claim_step now c acc))"
  unfolding claim_step_def case_prod_beta
  by (auto intro: same_work_trans [OF _ put_same_work(6)] split: option.split)

lemma claims_same: "same_work d (snd acc) \<Longrightarrow> same_work d (snd (fold (claim_step now) ms acc))"
  by (induction ms arbitrary: acc) (simp_all add: claim_step_same)

lemma agent_link_monitor_poll_safe: "safe_reply d snd (agent_link_monitor_poll v now call d)"
proof (rule same_reply)
  fix x assume "agent_link_monitor_poll v now call d = Inr x"
  then obtain n e where "agent_seen v now call d = Inr (n, e)"
    and x: "x = fold (claim_step now) (due_monitors (ac_node_id call) now e) ([], e)"
    unfolding agent_link_monitor_poll_def by (auto simp: res_simps)
  then show "same_work d (snd x)" by (simp add: claims_same agent_seen_same)
qed

lemma touch_monitor_same: "same_work d (touch_monitor kt d)"
  unfolding touch_monitor_def by (simp split: option.split)

lemma agent_link_monitor_result_safe: "safe_reply d (\<lambda>e. e) (agent_link_monitor_result v now n tok bs d)"
proof -
  have "same_work d (fold add_sample ss ((fold touch_monitor kts d)\<lparr>db_samples := os\<rparr>))" for ss kts os
    by (rule same_work_trans [OF same_work_trans [OF same_work_fold [OF touch_monitor_same]] same_work_fold])
      (simp_all add: same_work_def add_sample_def)
  then show ?thesis
    unfolding agent_link_monitor_result_def Let_def by (intro same_reply) (auto simp: res_simps)
qed

section \<open>Keys\<close>

lemma require_key_safe: "safe_reply d snd (require_looking_glass_api_key v now tok ip d)"
  unfolding require_looking_glass_api_key_def Let_def by (rule same_reply) (auto simp: res_simps)

lemma token_edits_safe:
  "safe_step d (snd (create_looking_glass_token h s name scopes ex d))"
  "safe_reply d snd (update_looking_glass_token k tu d)"
  "safe_reply d snd (rotate_looking_glass_token h s k d)"
  "safe_reply d snd (revoke_looking_glass_token now k d)"
  unfolding create_looking_glass_token_def update_looking_glass_token_def rotate_looking_glass_token_def
    revoke_looking_glass_token_def Let_def
  by (rule same_work_safe, simp add: same_work_def) (rule same_reply, auto simp: res_simps)+

lemma queries_subset_safe:
  assumes "db_tasks e = db_tasks d" "db_plans e = db_plans d" "set (db_queries e) \<subseteq> set (db_queries d)"
  shows "safe_step d e"
proof -
  have "queries_planless d \<Longrightarrow> queries_planless e"
    using assms(3) unfolding queries_planless_def task_frame(3) [OF assms(1)] by blast
  then show ?thesis
    using task_frame [OF assms(1)] assms(1,2) tasks_evolve_same [OF assms(1)]
    by (simp add: safe_step_def task_inv_def plans_honest_def plan_keys_ok_def)
qed

lemma delete_token_safe: "safe_reply d (\<lambda>e. e) (delete_looking_glass_token k d)"
  unfolding delete_looking_glass_token_def
  by (rule safe_guard, rule safe_Inr, rule queries_subset_safe) auto

end
