(* ===== verification/Middleware.thy ===== *)
theory Middleware
  imports WgHandlers
begin

text \<open>
  The middleware of a managed link (main.py and schemas.py): the udp2raw tunnel or the mimic
  filter put between the two WireGuard endpoints. The accepted configurations, their normal form
  kept in the extras of both interfaces, the endpoints of the peers, and the payloads of the
  tasks for both nodes. A middleware is a dictionary; \<open>None\<close> is its absence.
\<close>

section \<open>Accepted configurations\<close>

record udp2raw_payload =
  up_enabled :: bool
  up_server_side :: string
  up_server_listen_host :: string
  up_server_connect_host :: "string option"
  up_server_listen_port :: "int option"
  up_server_forward_host :: "string option"
  up_server_forward_port :: "int option"
  up_client_listen_host :: string
  up_client_listen_port :: "int option"
  up_raw_mode :: string
  up_cipher_mode :: string
  up_auth_mode :: string
  up_password :: "string option"
  up_auto_rule :: bool

record mimic_payload =
  mp_enabled :: bool
  mp_local_bind :: "string option"
  mp_peer_bind :: "string option"
  mp_xdp_mode :: string
  mp_link_type :: string
  mp_handshake_interval :: "int option"
  mp_keepalive_interval :: "int option"
  mp_padding :: "int option"

text \<open>A blank address is kept as it is; the zone of an IPv6 address must be an interface name.\<close>

definition validate_udp2raw_ip :: "string \<Rightarrow> (string, string) result" where
  "validate_udp2raw_ip value =
     (if strip value = [] then Inr value
      else case ip_address (strip value) of
        None \<Rightarrow> Inl ''udp2raw ip fields must be IPv4 or IPv6 addresses, not domain names''
      | Some (IPv6 n (Some z)) \<Rightarrow> rbind (validate_linux_interface_name z) (\<lambda>_. Inr (strip value))
      | Some _ \<Rightarrow> Inr (strip value))"

definition validate_optional_udp2raw_ip :: "string option \<Rightarrow> (string, string option) result" where
  "validate_optional_udp2raw_ip value = (case value of None \<Rightarrow> Inr None
     | Some v \<Rightarrow> rbind (validate_udp2raw_ip v) (\<lambda>r. Inr (Some r)))"

definition validate_password :: "string option \<Rightarrow> (string, unit) result" where
  "validate_password value = ensure (\<not> list_ex (\<lambda>c. code c < 32 \<or> code c = 127) (the_or [] value))
     ''udp2raw password must not contain control characters''"

definition udp2raw_config :: "udp2raw_payload \<Rightarrow> (string, udp2raw_payload) result" where
  "udp2raw_config p =
     rbind (ensure (List.member [''local'', ''peer''] (up_server_side p)) ''server_side must be local or peer'') (\<lambda>_.
     rbind (validate_udp2raw_ip (up_server_listen_host p)) (\<lambda>listen.
     rbind (validate_optional_udp2raw_ip (up_server_connect_host p)) (\<lambda>connect.
     rbind (validate_port (up_server_listen_port p)) (\<lambda>_.
     rbind (validate_optional_udp2raw_ip (up_server_forward_host p)) (\<lambda>forward.
     rbind (validate_port (up_server_forward_port p)) (\<lambda>_.
     rbind (validate_udp2raw_ip (up_client_listen_host p)) (\<lambda>client.
     rbind (validate_port (up_client_listen_port p)) (\<lambda>_.
     rbind (ensure (List.member [''faketcp'', ''udp'', ''icmp''] (up_raw_mode p))
       ''raw_mode must be faketcp, udp, or icmp'') (\<lambda>_.
     rbind (ensure (List.member [''xor'', ''aes128cbc'', ''none''] (up_cipher_mode p))
       ''cipher_mode must be xor, aes128cbc, or none'') (\<lambda>_.
     rbind (ensure (List.member [''hmac_sha1'', ''md5'', ''crc32'', ''simple'', ''none''] (up_auth_mode p))
       ''auth_mode must be hmac_sha1, md5, crc32, simple, or none'') (\<lambda>_.
     rbind (validate_password (up_password p)) (\<lambda>_.
       Inr (p\<lparr>up_server_listen_host := listen, up_server_connect_host := connect,
              up_server_forward_host := forward, up_client_listen_host := client\<rparr>)))))))))))))"

definition validate_bind_interface :: "string option \<Rightarrow> (string, string option) result" where
  "validate_bind_interface value = (case value of None \<Rightarrow> Inr None | Some v \<Rightarrow>
     if strip v = [] then Inr value
     else rbind (validate_linux_interface_name (strip v)) (\<lambda>r. Inr (Some r)))"

definition mimic_config :: "mimic_payload \<Rightarrow> (string, mimic_payload) result" where
  "mimic_config p =
     rbind (validate_bind_interface (mp_local_bind p)) (\<lambda>l.
     rbind (validate_bind_interface (mp_peer_bind p)) (\<lambda>r.
     rbind (ensure (List.member [''auto'', ''native'', ''skb''] (mp_xdp_mode p))
       ''xdp_mode must be auto, native, or skb'') (\<lambda>_.
     rbind (ensure (0 \<le> the_or 0 (mp_handshake_interval p)) ''mimic numeric options must be non-negative'') (\<lambda>_.
     rbind (ensure (0 \<le> the_or 0 (mp_keepalive_interval p)) ''mimic numeric options must be non-negative'') (\<lambda>_.
     rbind (ensure (0 \<le> the_or 0 (mp_padding p) \<and> the_or 0 (mp_padding p) \<le> 16)
       ''mimic padding must be between 0 and 16'') (\<lambda>_.
       Inr (p\<lparr>mp_local_bind := l, mp_peer_bind := r\<rparr>)))))))"

section \<open>Normal form\<close>

definition require_udp2raw_ip :: "string \<Rightarrow> string \<Rightarrow> string reply" where
  "require_udp2raw_ip value field_name = (if ip_address value = None
     then Inl (HTTP 400 (field_name @ '' must be an IP address for udp2raw'')) else Inr value)"

definition require_mimic_ip :: "string \<Rightarrow> string \<Rightarrow> string reply" where
  "require_mimic_ip value field_name = (if ip_address value = None
     then Inl (HTTP 400 (field_name @ '' must be an IP address for mimic'')) else Inr value)"

definition require_optional_udp2raw_ip :: "string option \<Rightarrow> string \<Rightarrow> string option reply" where
  "require_optional_udp2raw_ip value field_name = (if the_or [] value = [] then Inr None
     else rbind (require_udp2raw_ip (strip (the_or [] value)) field_name) (\<lambda>v. Inr (Some v)))"

text \<open>\<open>token\<close> is the password \<open>generate_token\<close> makes up when none is given.\<close>

definition normalize_udp2raw_config :: "string \<Rightarrow> udp2raw_payload option \<Rightarrow> fields option reply" where
  "normalize_udp2raw_config token payload = (case payload of None \<Rightarrow> Inr None | Some p \<Rightarrow>
     if \<not> up_enabled p then Inr None
     else rbind (some_or (up_server_listen_port p) (HTTP 400 ''udp2raw server listen port is required'')) (\<lambda>server_port.
       rbind (some_or (up_client_listen_port p) (HTTP 400 ''udp2raw client listen port is required'')) (\<lambda>client_port.
       rbind (require_udp2raw_ip (or_default (strip (up_server_listen_host p)) ''0.0.0.0'') ''udp2raw server listen host'')
         (\<lambda>server_listen.
       rbind (require_optional_udp2raw_ip (up_server_connect_host p) ''udp2raw server connect host'') (\<lambda>connect.
       rbind (require_optional_udp2raw_ip (up_server_forward_host p) ''udp2raw server forward host'') (\<lambda>forward.
       rbind (require_udp2raw_ip (or_default (strip (up_client_listen_host p)) ''127.0.0.1'') ''udp2raw client listen host'')
         (\<lambda>client_listen.
       Inr (Some [(''type'', JStr ''udp2raw''), (''enabled'', JBool True), (''server_side'', JStr (up_server_side p)),
         (''server_listen_host'', JStr server_listen), (''server_connect_host'', jopt_str connect),
         (''server_listen_port'', JInt server_port), (''server_forward_host'', jopt_str forward),
         (''server_forward_port'', jopt_int (up_server_forward_port p)),
         (''client_listen_host'', JStr client_listen), (''client_listen_port'', JInt client_port),
         (''raw_mode'', JStr (up_raw_mode p)), (''cipher_mode'', JStr (up_cipher_mode p)),
         (''auth_mode'', JStr (up_auth_mode p)),
         (''password'', JStr (if set_text (up_password p) then the_or [] (up_password p) else token)),
         (''auto_rule'', JBool (up_auto_rule p))]))))))))"

definition normalize_mimic_config :: "mimic_payload option \<Rightarrow> fields option reply" where
  "normalize_mimic_config payload = (case payload of None \<Rightarrow> Inr None | Some p \<Rightarrow>
     if \<not> mp_enabled p then Inr None
     else if \<not> set_text (mp_local_bind p) then Inl (HTTP 400 ''mimic local bind interface is required'')
     else if \<not> set_text (mp_peer_bind p) then Inl (HTTP 400 ''mimic peer bind interface is required'')
     else Inr (Some [(''type'', JStr ''mimic''), (''enabled'', JBool True),
       (''local_bind_interface'', JStr (strip (the_or [] (mp_local_bind p)))),
       (''peer_bind_interface'', JStr (strip (the_or [] (mp_peer_bind p)))),
       (''xdp_mode'', JStr (mp_xdp_mode p)), (''link_type'', JStr (mp_link_type p)),
       (''handshake_interval'', jopt_int (mp_handshake_interval p)),
       (''keepalive_interval'', jopt_int (mp_keepalive_interval p)),
       (''padding'', jopt_int (mp_padding p))]))"

definition normalize_middleware_config ::
  "string \<Rightarrow> udp2raw_payload option \<Rightarrow> mimic_payload option \<Rightarrow> fields option reply" where
  "normalize_middleware_config token udp2raw_payload mimic_payload =
     rbind (normalize_udp2raw_config token udp2raw_payload) (\<lambda>u.
     rbind (normalize_mimic_config mimic_payload) (\<lambda>m.
     if u \<noteq> None \<and> m \<noteq> None then Inl (HTTP 400 ''only one middleware can be enabled'')
     else Inr (if u \<noteq> None then u else m)))"

definition managed_link_middleware :: "iface \<Rightarrow> fields option" where
  "managed_link_middleware i = (case dget (json_object (if_extras i)) ''middleware'' of
      JObj m \<Rightarrow> if truthy (dget m ''enabled'') then Some m else None
    | _ \<Rightarrow> None)"

definition is_type :: "string \<Rightarrow> fields option \<Rightarrow> bool" where
  "is_type ty m = (case m of None \<Rightarrow> False | Some m \<Rightarrow> dget m ''type'' = JStr ty)"

section \<open>Ports\<close>

definition server_is_local :: "fields \<Rightarrow> bool" where
  "server_is_local m = (dget m ''server_side'' = JStr ''local'')"

definition validate_udp2raw_port_conflicts :: "fields option \<Rightarrow> int option \<Rightarrow> int option \<Rightarrow> unit reply" where
  "validate_udp2raw_port_conflicts middleware local_port peer_port =
     (if \<not> is_type ''udp2raw'' middleware then Inr ()
      else let m = the middleware;
          server_port = (if server_is_local m then local_port else peer_port);
          client_port = (if server_is_local m then peer_port else local_port) in
        if server_port = None then Inl (HTTP 400 ''udp2raw server side requires WireGuard listen port'')
        else if jopt_int client_port = dget m ''client_listen_port'' then
          Inl (HTTP 400 ''udp2raw client listen port conflicts with WireGuard listen port on the same node'')
        else ensure (\<not> (dget m ''raw_mode'' = JStr ''udp'' \<and> jopt_int server_port = dget m ''server_listen_port''))
          (HTTP 400 ''udp2raw UDP server port conflicts with WireGuard listen port on the same node''))"

section \<open>What a node can run\<close>

definition require_all_tasks :: "node \<Rightarrow> string list \<Rightarrow> unit reply" where
  "require_all_tasks n types = rfold (\<lambda>ty _. require_task_supported n ty) types ()"

definition require_udp2raw_supported :: "node \<Rightarrow> unit reply" where
  "require_udp2raw_supported n = require_all_tasks n [''middleware.install'', ''middleware.udp2raw.apply'']"

definition require_udp2raw_mode_supported :: "node \<Rightarrow> string \<Rightarrow> unit reply" where
  "require_udp2raw_mode_supported n raw_mode =
     rbind (require_udp2raw_supported n) (\<lambda>_.
     ensure (\<not> (raw_mode = ''icmp'' \<and> \<not> List.member (nd_agent_capabilities n) ''middleware.udp2raw.icmp''))
       (HTTP 409 ''agent does not support udp2raw ICMP mode''))"

text \<open>The digits at the head of a text, a dot, and digits; anything else is version zero. The text
  is short, so that \<open>int\<close> takes all its digits.\<close>

definition parse_kernel_major_minor :: "json \<Rightarrow> int \<times> int" where
  "parse_kernel_major_minor value =
     (let s = str_or_empty value; a = takeWhile is_dec s; rest = dropWhile is_dec s;
          b = takeWhile is_dec (tl rest) in
      if a \<noteq> [] \<and> starts_with rest ''.'' \<and> b \<noteq> [] then (dec_value 0 a, dec_value 0 b) else (0, 0))"

definition or_json :: "json \<Rightarrow> json \<Rightarrow> json" where
  "or_json u v = (if truthy u then u else v)"

definition node_supports_mimic_platform :: "node \<Rightarrow> (string, unit) result" where
  "node_supports_mimic_platform n =
     (let platform = json_object (nd_agent_platform n);
          kernel = parse_kernel_major_minor (or_json (dget platform ''kernel_version'') (dget platform ''kernel'')) in
      if truthy (dget platform ''is_openwrt'') \<or> node_uses_openwrt_uci (Some n)
      then Inl ''mimic is not supported on OpenWrt nodes''
      else if lower (py_str (or_json (dget platform ''os'') (JStr ''linux''))) \<noteq> ''linux''
      then Inl ''mimic requires Linux nodes''
      else if lower (str_or_empty (dget platform ''service_manager'')) \<noteq> ''systemd''
      then Inl ''mimic requires systemd managed Linux nodes''
      else ensure (6 < fst kernel \<or> (fst kernel = 6 \<and> 1 < snd kernel)) ''mimic requires Linux kernel newer than 6.1'')"

definition require_mimic_platform :: "node \<Rightarrow> unit reply" where
  "require_mimic_platform n = (case node_supports_mimic_platform n of
     Inl reason \<Rightarrow> Inl (HTTP 409 reason) | Inr _ \<Rightarrow> Inr ())"

definition require_mimic_supported :: "node \<Rightarrow> unit reply" where
  "require_mimic_supported n =
     rbind (require_mimic_platform n) (\<lambda>_. require_task_supported n ''middleware.mimic.apply'')"

definition require_mimic_install_supported :: "node \<Rightarrow> unit reply" where
  "require_mimic_install_supported n =
     rbind (require_mimic_platform n) (\<lambda>_.
     rbind (require_task_supported n ''middleware.install'') (\<lambda>_.
     ensure (List.member (nd_agent_capabilities n) ''middleware.install.mimic'')
       (HTTP 409 ''node does not support installing mimic'')))"

section \<open>Endpoints of the peers\<close>

definition set_endpoint :: "string option \<Rightarrow> int option \<Rightarrow> peer \<Rightarrow> peer" where
  "set_endpoint host port p = p\<lparr>pr_endpoint_host := host, pr_endpoint_port := port\<rparr>"

definition or_port :: "int option \<Rightarrow> int option \<Rightarrow> int option" where
  "or_port x y = (if the_or 0 x = 0 then y else x)"

text \<open>The peer row towards a side: its host, and the port given for it or that it listens on.\<close>

definition direct_endpoint :: "string option \<Rightarrow> int option \<Rightarrow> iface \<Rightarrow> peer \<Rightarrow> peer" where
  "direct_endpoint host port target p =
     set_endpoint host (if set_text host then or_port port (if_listen_port target) else None) p"

definition apply_udp2raw_to_peers :: "fields \<Rightarrow> iface \<Rightarrow> iface \<Rightarrow> peer \<Rightarrow> peer \<Rightarrow> (peer \<times> peer) reply" where
  "apply_udp2raw_to_peers m local_iface peer_iface local_peer peer_peer =
     (let client = set_endpoint (json_text (dget m ''client_listen_host'')) (json_num (dget m ''client_listen_port''));
          no_endpoint = set_endpoint None None;
          server = (if dget m ''server_side'' = JStr ''peer'' then peer_iface else local_iface) in
      if if_listen_port server = None then Inl (HTTP 400 ''udp2raw server side requires WireGuard listen port'')
      else if dget m ''server_side'' = JStr ''peer'' then Inr (client local_peer, no_endpoint peer_peer)
      else Inr (no_endpoint local_peer, client peer_peer))"

definition apply_middleware_to_peers ::
  "fields option \<Rightarrow> iface \<Rightarrow> iface \<Rightarrow> peer \<Rightarrow> peer \<Rightarrow> string option \<Rightarrow> string option \<Rightarrow>
     int option \<Rightarrow> int option \<Rightarrow> (peer \<times> peer) reply" where
  "apply_middleware_to_peers middleware local_iface peer_iface local_peer peer_peer
       local_endpoint peer_endpoint local_port peer_port =
     (if is_type ''udp2raw'' middleware
      then apply_udp2raw_to_peers (the middleware) local_iface peer_iface local_peer peer_peer
      else Inr (direct_endpoint peer_endpoint peer_port peer_iface local_peer,
                direct_endpoint local_endpoint local_port local_iface peer_peer))"

section \<open>Tasks\<close>

text \<open>The name both nodes give the instance: the two interface numbers in order.\<close>

definition udp2raw_instance_name :: "iface \<Rightarrow> iface \<Rightarrow> string" where
  "udp2raw_instance_name i j = ''link42-'' @ show_int (min (if_id i) (if_id j)) @ ''-'' @ show_int (max (if_id i) (if_id j))"

definition is_unspecified :: "ip_addr \<Rightarrow> bool" where
  "is_unspecified a = (case a of IPv4 n \<Rightarrow> n = 0 | IPv6 n _ \<Rightarrow> n = 0)"

definition any_host :: "ip_addr \<Rightarrow> string" where
  "any_host outer = (if ip_version outer = 6 then ''::'' else ''0.0.0.0'')"

type_synonym task_order = "iface \<times> string \<times> fields"

text \<open>The address the server listens on: an unspecified one becomes that of the family the client
  connects with, and the very address in ICMP mode.\<close>

definition udp2raw_listen_host :: "fields \<Rightarrow> string \<Rightarrow> ip_addr \<Rightarrow> string reply" where
  "udp2raw_listen_host m connect outer =
     rbind (require_udp2raw_ip (or_default (str_or_empty (dget m ''server_listen_host'')) (any_host outer))
       ''udp2raw server listen host'') (\<lambda>listen.
     let ip = the (ip_address listen) in
     if is_unspecified ip then Inr (if dget m ''raw_mode'' = JStr ''icmp'' then connect else any_host outer)
     else if ip_version ip \<noteq> ip_version outer
     then Inl (HTTP 400 ''udp2raw server listen address must match outer IP version'')
     else Inr listen)"

definition udp2raw_endpoint_payloads ::
  "fields \<Rightarrow> iface \<Rightarrow> iface \<Rightarrow> string option \<Rightarrow> string option \<Rightarrow> task_order list reply" where
  "udp2raw_endpoint_payloads m local_iface peer_iface local_endpoint peer_endpoint =
     (let peer_serves = (dget m ''server_side'' = JStr ''peer'');
          server = (if peer_serves then peer_iface else local_iface);
          client = (if peer_serves then local_iface else peer_iface);
          public = the_or [] (if peer_serves then peer_endpoint else local_endpoint);
          given = str_or_empty (dget m ''server_connect_host'') in
      if if_listen_port server = None then Inl (HTTP 400 ''udp2raw server side requires WireGuard listen port'')
      else if public = [] \<and> given = [] then Inl (HTTP 400 ''udp2raw server endpoint address is required'')
      else
        rbind (require_udp2raw_ip (or_default given public) ''udp2raw server connect host'') (\<lambda>connect.
        rbind (udp2raw_listen_host m connect (the (ip_address connect))) (\<lambda>listen.
        rbind (require_udp2raw_ip (or_default (str_or_empty (dget m ''server_forward_host'')) ''127.0.0.1'')
          ''udp2raw server forward host'') (\<lambda>forward.
        let common = [(''plugin'', JStr ''udp2raw''), (''instance'', JStr (udp2raw_instance_name local_iface peer_iface)),
              (''raw_mode'', dget m ''raw_mode''), (''cipher_mode'', dget m ''cipher_mode''),
              (''auth_mode'', or_json (dget m ''auth_mode'') (JStr ''md5'')), (''password'', dget m ''password''),
              (''auto_rule'', dget m ''auto_rule'')] in
        Inr [(server, ''middleware.udp2raw.apply'', common @ [(''mode'', JStr ''server''),
               (''listen_host'', JStr listen), (''listen_port'', dget m ''server_listen_port''),
               (''remote_host'', JStr forward),
               (''remote_port'', or_json (dget m ''server_forward_port'') (jopt_int (if_listen_port server)))]),
             (client, ''middleware.udp2raw.apply'', common @ [(''mode'', JStr ''client''),
               (''listen_host'', dget m ''client_listen_host''), (''listen_port'', dget m ''client_listen_port''),
               (''remote_host'', JStr connect), (''remote_port'', dget m ''server_listen_port'')])]))))"

definition mimic_filter :: "fields \<Rightarrow> fields \<Rightarrow> string \<Rightarrow> string \<Rightarrow> string \<Rightarrow> iface \<Rightarrow> int option \<Rightarrow> fields" where
  "mimic_filter m common bind_key host peer_host i peer_port = common @
     [(''bind_interface'', dget m bind_key), (''local_host'', JStr host), (''local_port'', jopt_int (if_listen_port i)),
      (''peer_host'', JStr peer_host), (''peer_port'', jopt_int peer_port), (''filter_origin'', JStr ''remote'')]"

definition mimic_endpoint_payloads ::
  "fields \<Rightarrow> iface \<Rightarrow> iface \<Rightarrow> string option \<Rightarrow> string option \<Rightarrow> int option \<Rightarrow> int option \<Rightarrow> task_order list reply" where
  "mimic_endpoint_payloads m local_iface peer_iface local_endpoint peer_endpoint local_port peer_port =
     (if \<not> set_text local_endpoint \<or> \<not> set_text peer_endpoint
      then Inl (HTTP 400 ''mimic requires endpoint address on both sides'')
      else if if_listen_port local_iface = None \<or> if_listen_port peer_iface = None
      then Inl (HTTP 400 ''mimic requires WireGuard listen port on both sides'')
      else
        let common = [(''plugin'', JStr ''mimic''), (''instance'', JStr (udp2raw_instance_name local_iface peer_iface)),
              (''xdp_mode'', dget m ''xdp_mode''), (''link_type'', dget m ''link_type''),
              (''handshake_interval'', dget m ''handshake_interval''),
              (''keepalive_interval'', dget m ''keepalive_interval''), (''padding'', dget m ''padding'')] in
        rbind (require_mimic_ip (the_or [] peer_endpoint) ''mimic peer endpoint'') (\<lambda>peer_host.
        rbind (require_mimic_ip (the_or [] local_endpoint) ''mimic local endpoint'') (\<lambda>local_host.
        Inr [(local_iface, ''middleware.mimic.apply'', mimic_filter m common ''local_bind_interface''
               local_host peer_host local_iface (or_port peer_port (if_listen_port peer_iface))),
             (peer_iface, ''middleware.mimic.apply'', mimic_filter m common ''peer_bind_interface''
               peer_host local_host peer_iface (or_port local_port (if_listen_port local_iface)))])))"

definition middleware_task_payloads :: "fields \<Rightarrow> iface \<Rightarrow> iface \<Rightarrow> string \<Rightarrow> task_order list reply" where
  "middleware_task_payloads m local_iface peer_iface action =
     (let instance_name = JStr (udp2raw_instance_name local_iface peer_iface);
          local_serves = (or_json (dget m ''server_side'') (JStr ''peer'') = JStr ''local'') in
      if is_type ''udp2raw'' (Some m) then
        Inr [(local_iface, ''middleware.udp2raw.'' @ action, [(''plugin'', JStr ''udp2raw''), (''instance'', instance_name),
               (''mode'', JStr (if local_serves then ''server'' else ''client''))]),
             (peer_iface, ''middleware.udp2raw.'' @ action, [(''plugin'', JStr ''udp2raw''), (''instance'', instance_name),
               (''mode'', JStr (if local_serves then ''client'' else ''server''))])]
      else if is_type ''mimic'' (Some m) then
        Inr [(local_iface, ''middleware.mimic.'' @ action, [(''plugin'', JStr ''mimic''), (''instance'', instance_name),
               (''bind_interface'', dget m ''local_bind_interface'')]),
             (peer_iface, ''middleware.mimic.'' @ action, [(''plugin'', JStr ''mimic''), (''instance'', instance_name),
               (''bind_interface'', dget m ''peer_bind_interface'')])]
      else Inl (HTTP 400 ''unsupported middleware type''))"

section \<open>Enqueueing\<close>

text \<open>\<open>enqueue_interface_task_once_with_task\<close> on the row as it is now.\<close>

definition enqueue_order :: "env \<Rightarrow> bool \<Rightarrow> bool \<Rightarrow> task_order \<Rightarrow> db \<Rightarrow> (bool \<times> task \<times> db) reply" where
  "enqueue_order en update_pending queue_after_running ord d = (case ord of (i, ty, payload) \<Rightarrow>
     enqueue_interface_task (en_fresh en) (en_now en) (reload_iface i d) ty payload update_pending queue_after_running d)"

fun enqueue_orders :: "env \<Rightarrow> bool \<Rightarrow> bool \<Rightarrow> task_order list \<Rightarrow> db \<Rightarrow> (task list \<times> db) reply" where
  "enqueue_orders en up after [] d = Inr ([], d)"
| "enqueue_orders en up after (ord # ords) d =
     rbind (enqueue_order en up after ord d) (\<lambda>(_, t, d1).
     rbind (enqueue_orders en up after ords d1) (\<lambda>(ts, d2). Inr (t # ts, d2)))"

definition require_on_node :: "(node \<Rightarrow> unit reply) \<Rightarrow> iface \<Rightarrow> db \<Rightarrow> unit reply" where
  "require_on_node check i d = (case get_node (if_node_id i) d of None \<Rightarrow> Inr () | Some n \<Rightarrow> check n)"

definition install_udp2raw_on :: "env \<Rightarrow> fields \<Rightarrow> iface \<Rightarrow> db \<Rightarrow> db reply" where
  "install_udp2raw_on en m i d =
     rbind (require_on_node (\<lambda>n. require_udp2raw_mode_supported n
         (py_str (or_json (dget m ''raw_mode'') (JStr ''faketcp'')))) i d) (\<lambda>_.
     rbind (enqueue_order en False False (i, ''middleware.install'', [(''plugin'', JStr ''udp2raw'')]) d) (\<lambda>(_, _, d1). Inr d1))"

definition enqueue_udp2raw_tasks ::
  "env \<Rightarrow> fields \<Rightarrow> iface \<Rightarrow> iface \<Rightarrow> string option \<Rightarrow> string option \<Rightarrow> db \<Rightarrow> db reply" where
  "enqueue_udp2raw_tasks en m local_iface peer_iface local_endpoint peer_endpoint d =
     rbind (install_udp2raw_on en m local_iface d) (\<lambda>d1.
     rbind (install_udp2raw_on en m peer_iface d1) (\<lambda>d2.
     rbind (udp2raw_endpoint_payloads m local_iface peer_iface local_endpoint peer_endpoint) (\<lambda>orders.
     rbind (enqueue_orders en True True orders d2) (\<lambda>(_, d3). Inr d3))))"

definition enqueue_mimic_tasks ::
  "env \<Rightarrow> fields \<Rightarrow> iface \<Rightarrow> iface \<Rightarrow> string option \<Rightarrow> string option \<Rightarrow> int option \<Rightarrow> int option \<Rightarrow> db \<Rightarrow> db reply" where
  "enqueue_mimic_tasks en m local_iface peer_iface local_endpoint peer_endpoint local_port peer_port d =
     rbind (require_on_node require_mimic_supported local_iface d) (\<lambda>_.
     rbind (require_on_node require_mimic_supported peer_iface d) (\<lambda>_.
     rbind (mimic_endpoint_payloads m local_iface peer_iface local_endpoint peer_endpoint local_port peer_port) (\<lambda>orders.
     rbind (enqueue_orders en False False orders d) (\<lambda>(_, d1). Inr d1))))"

definition enqueue_middleware_tasks ::
  "env \<Rightarrow> fields option \<Rightarrow> iface \<Rightarrow> iface \<Rightarrow> string option \<Rightarrow> string option \<Rightarrow> int option \<Rightarrow> int option \<Rightarrow> db \<Rightarrow> db reply" where
  "enqueue_middleware_tasks en middleware local_iface peer_iface local_endpoint peer_endpoint local_port peer_port d =
     (case middleware of None \<Rightarrow> Inr d | Some m \<Rightarrow>
        if is_type ''udp2raw'' middleware
        then enqueue_udp2raw_tasks en m local_iface peer_iface local_endpoint peer_endpoint d
        else if is_type ''mimic'' middleware
        then enqueue_mimic_tasks en m local_iface peer_iface local_endpoint peer_endpoint local_port peer_port d
        else Inl (HTTP 400 ''unsupported middleware type''))"

text \<open>The old middleware is stopped and then deleted; each deletion waits for the stop on its own
  node, whatever became of it.\<close>

definition after_stop :: "task \<Rightarrow> task_order \<Rightarrow> task_order" where
  "after_stop stop ord = (case ord of (i, ty, payload) \<Rightarrow>
     (i, ty, dset ''continue_after_dependency_failure'' (JBool True)
       (dset ''depends_on_task_id'' (JInt (tk_id stop)) payload)))"

definition enqueue_middleware_removal :: "env \<Rightarrow> fields \<Rightarrow> iface \<Rightarrow> iface \<Rightarrow> db \<Rightarrow> db reply" where
  "enqueue_middleware_removal en m local_iface peer_iface d =
     rbind (middleware_task_payloads m local_iface peer_iface ''stop'') (\<lambda>stops.
     rbind (enqueue_orders en True False stops d) (\<lambda>(stop_tasks, d1).
     rbind (middleware_task_payloads m local_iface peer_iface ''delete'') (\<lambda>deletes.
     rbind (enqueue_orders en True False (map2 after_stop stop_tasks deletes) d1) (\<lambda>(_, d2). Inr d2))))"

definition enqueue_middleware_cleanup_tasks ::
  "env \<Rightarrow> fields option \<Rightarrow> fields option \<Rightarrow> iface \<Rightarrow> iface \<Rightarrow> db \<Rightarrow> db reply" where
  "enqueue_middleware_cleanup_tasks en old new_middleware local_iface peer_iface d =
     (case old of None \<Rightarrow> Inr d | Some m \<Rightarrow>
        if old = new_middleware then Inr d else enqueue_middleware_removal en m local_iface peer_iface d)"

end
