(* ===== verification/ManagedLinks.thy ===== *)
theory ManagedLinks
  imports Middleware
begin

text \<open>
  The links between two managed nodes (main.py): a WireGuard interface on each, the peers that
  point at each other, an optional middleware, and the tasks for both agents. Creation may take
  the place of imported interfaces, whose files are removed first.
\<close>

record link_payload =
  lk_local_name :: string
  lk_peer_name :: "string option"
  lk_local_tunnel :: "string list"
  lk_peer_tunnel :: "string list"
  lk_local_allowed :: "string list option"
  lk_peer_allowed :: "string list option"
  lk_local_host :: "string option"
  lk_local_endpoint_port :: "int option"
  lk_peer_host :: "string option"
  lk_peer_endpoint_port :: "int option"
  lk_local_port :: "int option"
  lk_peer_port :: "int option"
  lk_mtu :: "int option"
  lk_table :: "string option"
  lk_keepalive :: "int option"
  lk_local_custom :: "string option"
  lk_local_peer_custom :: "string option"
  lk_peer_custom :: "string option"
  lk_peer_peer_custom :: "string option"
  lk_udp2raw :: "udp2raw_payload option"
  lk_mimic :: "mimic_payload option"

record link_create = link_payload +
  lc_peer_node :: int
  lc_replace_local :: "int option"
  lc_replace_peer :: "int option"
  lc_force :: bool

text \<open>The key pairs, the preshared key and the password that are generated.\<close>

record link_keys =
  ky_local :: "string \<times> string"
  ky_peer :: "string \<times> string"
  ky_preshared :: string
  ky_token :: string

section \<open>Rows\<close>

definition middleware_json :: "fields option \<Rightarrow> json" where
  "middleware_json m = (case m of None \<Rightarrow> JNull | Some m \<Rightarrow> JObj m)"

text \<open>The name of the peer's interface defaults to that of the local one.\<close>

definition peer_name :: "'a link_payload_scheme \<Rightarrow> string" where
  "peer_name p = or_default (the_or [] (lk_peer_name p)) (lk_local_name p)"

definition fill_side :: "'a link_payload_scheme \<Rightarrow> string \<Rightarrow> string list \<Rightarrow> int option \<Rightarrow> string option \<Rightarrow>
    fields option \<Rightarrow> iface \<Rightarrow> iface" where
  "fill_side p name tunnel port custom m i = i\<lparr>if_name := name, if_tunnel_ips := tunnel, if_listen_port := port,
     if_mtu := lk_mtu p, if_table_name := lk_table p, if_managed := True, if_source := ''managed-node'',
     if_extras := set_extra_object ''middleware'' (middleware_json m) (set_extra ''custom_config'' custom (if_extras i))\<rparr>"

definition fill_local :: "'a link_payload_scheme \<Rightarrow> fields option \<Rightarrow> iface \<Rightarrow> iface" where
  "fill_local p = fill_side p (lk_local_name p) (lk_local_tunnel p) (lk_local_port p) (lk_local_custom p)"

definition fill_peer_side :: "'a link_payload_scheme \<Rightarrow> fields option \<Rightarrow> iface \<Rightarrow> iface" where
  "fill_peer_side p = fill_side p (peer_name p) (lk_peer_tunnel p) (lk_peer_port p) (lk_peer_custom p)"

definition fill_link_peer :: "'a link_payload_scheme \<Rightarrow> string list option \<Rightarrow> string list \<Rightarrow> string option \<Rightarrow> peer \<Rightarrow> peer" where
  "fill_link_peer p allowed tunnel custom q = q\<lparr>
     pr_allowed_ips := (if the_or [] allowed = [] then tunnel else the_or [] allowed),
     pr_persistent_keepalive := lk_keepalive p, pr_source := ''managed-node'',
     pr_extras := set_extra ''custom_config'' custom (pr_extras q)\<rparr>"

definition fill_local_peer :: "'a link_payload_scheme \<Rightarrow> peer \<Rightarrow> peer" where
  "fill_local_peer p = fill_link_peer p (lk_local_allowed p) (lk_peer_tunnel p) (lk_local_peer_custom p)"

definition fill_peer_peer :: "'a link_payload_scheme \<Rightarrow> peer \<Rightarrow> peer" where
  "fill_peer_peer p = fill_link_peer p (lk_peer_allowed p) (lk_local_tunnel p) (lk_peer_peer_custom p)"

definition new_link_iface :: "int \<Rightarrow> string \<times> string \<Rightarrow> iface" where
  "new_link_iface node_id keys = (new_iface node_id [])\<lparr>if_private_key_value := Some (fst keys),
     if_public_key := Some (snd keys), if_runtime_status := ''starting''\<rparr>"

definition new_link_peer :: "iface \<Rightarrow> iface \<Rightarrow> string \<Rightarrow> string \<Rightarrow> string \<Rightarrow> peer" where
  "new_link_peer owner other node_name public preshared = (new_peer (if_id owner) public)
     \<lparr>pr_peer_node_id := Some (if_node_id other), pr_peer_interface_id := Some (if_id other),
      pr_name := Some node_name, pr_preshared_key_value := Some preshared\<rparr>"

section \<open>Replaced interfaces\<close>

definition endpoint_points_to_node :: "string option \<Rightarrow> node \<Rightarrow> bool" where
  "endpoint_points_to_node host n = (set_text host \<and> the_or [] host \<in> set (node_endpoint_hosts n))"

text \<open>The peer of a replaced interface; superfluous ones are deleted, with a commit.\<close>

definition replaced_peer :: "iface option \<Rightarrow> db \<Rightarrow> peer option \<times> db" where
  "replaced_peer r d = (case r of None \<Rightarrow> (None, d)
     | Some i \<Rightarrow> (case get_unique_peer (if_id i) d of Inl _ \<Rightarrow> (None, d) | Inr x \<Rightarrow> x))"

definition points_elsewhere :: "peer option \<Rightarrow> node \<Rightarrow> bool" where
  "points_elsewhere q n = (case q of None \<Rightarrow> False | Some q \<Rightarrow> \<not> endpoint_points_to_node (pr_endpoint_host q) n)"

text \<open>The task that removes the old file, by node, for the deployment to wait for.\<close>

definition replace_side :: "env \<Rightarrow> iface option \<Rightarrow> db \<Rightarrow> ((int \<times> int) list \<times> db) reply" where
  "replace_side en r d = (case r of None \<Rightarrow> Inr ([], d) | Some i \<Rightarrow>
     rbind (queue_replace_interface (en_fresh en) (en_now en) i d) (\<lambda>d1.
       Inr (case get_interface_task (if_id i) (ts_delete_config wireguard_tasks) [Pending, Running] d1 of
           None \<Rightarrow> [] | Some t \<Rightarrow> [(if_node_id i, tk_id t)], d1)))"

definition wait_for :: "int \<Rightarrow> task \<Rightarrow> task" where
  "wait_for k t = replace_payload (JObj (dset ''depends_on_task_id'' (JInt k) (payload_of t))) t"

definition deploy_side :: "env \<Rightarrow> (int \<times> int) list \<Rightarrow> iface \<Rightarrow> db \<Rightarrow> db reply" where
  "deploy_side en cleanup i d =
     rbind (enqueue_apply_config (en_fresh en) (en_now en) (reload_iface i d) True d) (\<lambda>(_, d1).
     Inr (case (map_of cleanup (if_node_id i), get_interface_task (if_id i) (ts_apply_config wireguard_tasks) [Pending] d1) of
         (Some k, Some t) \<Rightarrow> put_task (wait_for k t) d1
       | _ \<Rightarrow> d1))"

section \<open>Creation\<close>

definition create_link_rows ::
  "link_keys \<Rightarrow> int \<Rightarrow> link_create \<Rightarrow> node \<Rightarrow> node \<Rightarrow> fields option \<Rightarrow> string option \<times> string option \<Rightarrow> db \<Rightarrow>
     (iface \<times> iface \<times> db) reply" where
  "create_link_rows ky node_id p local_node peer_node m endpoints d =
     (let (local_iface, d1) = add_iface (fill_local p m (new_link_iface node_id (ky_local ky))) d;
          (peer_iface, d2) = add_iface (fill_peer_side p m (new_link_iface (lc_peer_node p) (ky_peer ky))) d1 in
      rbind (apply_middleware_to_peers m local_iface peer_iface
          (fill_local_peer p (new_link_peer local_iface peer_iface (nd_name peer_node) (snd (ky_peer ky)) (ky_preshared ky)))
          (fill_peer_peer p (new_link_peer peer_iface local_iface (nd_name local_node) (snd (ky_local ky)) (ky_preshared ky)))
          (fst endpoints) (snd endpoints) (lk_local_endpoint_port p) (lk_peer_endpoint_port p))
        (\<lambda>(local_peer, peer_peer).
          Inr (local_iface, peer_iface, snd (add_peer peer_peer (snd (add_peer local_peer d2))))))"

definition create_link_on ::
  "env \<Rightarrow> link_keys \<Rightarrow> int \<Rightarrow> link_create \<Rightarrow> node \<Rightarrow> node \<Rightarrow> iface option \<Rightarrow> iface option \<Rightarrow> db \<Rightarrow>
     (iface \<times> iface \<times> db) reply" where
  "create_link_on en ky node_id p local_node peer_node replace_local replace_peer d =
     rbind (normalize_middleware_config (ky_token ky) (lk_udp2raw p) (lk_mimic p)) (\<lambda>m.
     rbind (validate_udp2raw_port_conflicts m (lk_local_port p) (lk_peer_port p)) (\<lambda>_.
     rbind (require_managed_link_endpoints (lk_local_host p) (lk_peer_host p)) (\<lambda>endpoints.
     rbind (ensure_unique_interface_name node_id (lk_local_name p) (map_option if_id replace_local) None d) (\<lambda>_.
     rbind (ensure_unique_interface_name (lc_peer_node p) (peer_name p) (map_option if_id replace_peer) None d) (\<lambda>_.
     rbind (replace_side en replace_local d) (\<lambda>(cleanup_local, d1).
     rbind (replace_side en replace_peer d1) (\<lambda>(cleanup_peer, d2).
     rbind (create_link_rows ky node_id p local_node peer_node m endpoints d2) (\<lambda>(local_iface, peer_iface, d3).
     rbind (enqueue_middleware_tasks en m local_iface peer_iface (fst endpoints) (snd endpoints)
         (lk_local_endpoint_port p) (lk_peer_endpoint_port p) d3) (\<lambda>d4.
     rbind (deploy_side en (cleanup_peer @ cleanup_local) local_iface d4) (\<lambda>d5.
     rbind (deploy_side en (cleanup_peer @ cleanup_local) peer_iface d5) (\<lambda>d6.
       Inr (local_iface, peer_iface, d6))))))))))))"

definition link_nodes ::
  "env \<Rightarrow> int \<Rightarrow> link_create \<Rightarrow> db \<Rightarrow> (node \<times> node \<times> iface option \<times> iface option) reply" where
  "link_nodes en node_id p d =
     rbind (ensure (node_id \<noteq> lc_peer_node p) (HTTP 400 ''peer node must be different'')) (\<lambda>_.
     rbind (validate_wireguard_ipv6_mtu (lk_mtu p) [lk_local_tunnel p, lk_peer_tunnel p]) (\<lambda>_.
     rbind (require_online_node (en_offline_after en) (en_now en) node_id d) (\<lambda>local_node.
     rbind (require_online_node (en_offline_after en) (en_now en) (lc_peer_node p) d) (\<lambda>peer_node.
     rbind (get_replace_interface (lc_replace_local p) node_id d) (\<lambda>replace_local.
     rbind (get_replace_interface (lc_replace_peer p) (lc_peer_node p) d) (\<lambda>replace_peer.
       Inr (local_node, peer_node, replace_local, replace_peer)))))))"

text \<open>What is committed before a refusal is the deletion of superfluous peers.\<close>

definition create_managed_link ::
  "env \<Rightarrow> link_keys \<Rightarrow> int \<Rightarrow> link_create \<Rightarrow> db \<Rightarrow> (iface \<times> iface) reply \<times> db" where
  "create_managed_link en ky node_id p d =
     (case link_nodes en node_id p d of
        Inl e \<Rightarrow> (Inl e, d)
      | Inr (local_node, peer_node, replace_local, replace_peer) \<Rightarrow>
         (let (local_q, d1) = replaced_peer replace_local d;
              (peer_q, d2) = replaced_peer replace_peer d1 in
          if points_elsewhere local_q peer_node \<and> \<not> lc_force p
          then (Inl (HTTP 409 ''local imported endpoint does not point to peer node''), d2)
          else if points_elsewhere peer_q local_node \<and> \<not> lc_force p
          then (Inl (HTTP 409 ''peer imported endpoint does not point to local node''), d2)
          else case create_link_on en ky node_id p local_node peer_node replace_local replace_peer d2 of
            Inl e \<Rightarrow> (Inl e, d2)
          | Inr (local_iface, peer_iface, d3) \<Rightarrow> (Inr (local_iface, peer_iface), d3)))"

section \<open>The two sides of a link\<close>

definition link_peer_of :: "iface \<Rightarrow> (int \<Rightarrow> bool) \<Rightarrow> db \<Rightarrow> peer option" where
  "link_peer_of i ok d = first_of (filter (\<lambda>q. (case pr_peer_interface_id q of None \<Rightarrow> False | Some k \<Rightarrow> ok k) \<and>
     pr_source q = ''managed-node'') (iface_peers i d))"

definition get_managed_link_bundle :: "int \<Rightarrow> db \<Rightarrow> (iface \<times> iface \<times> peer \<times> peer) reply" where
  "get_managed_link_bundle k d =
     rbind (some_or (get_iface k d) (HTTP 404 ''interface not found'')) (\<lambda>i.
     rbind (some_or (link_peer_of i (\<lambda>k. k \<noteq> 0) d) (HTTP 400 ''wireguard config is not a managed node link'')) (\<lambda>q.
     rbind (some_or (get_iface (the_or 0 (pr_peer_interface_id q)) d) (HTTP 404 ''peer interface not found'')) (\<lambda>j.
     rbind (some_or (link_peer_of j (\<lambda>k. k = if_id i) d) (HTTP 400 ''managed node link is incomplete'')) (\<lambda>r.
       Inr (i, j, q, r)))))"

definition require_both_online :: "env \<Rightarrow> iface \<Rightarrow> iface \<Rightarrow> db \<Rightarrow> (node \<times> node) reply" where
  "require_both_online en i j d =
     rbind (require_online_node (en_offline_after en) (en_now en) (if_node_id i) d) (\<lambda>m.
     rbind (require_online_node (en_offline_after en) (en_now en) (if_node_id j) d) (\<lambda>n. Inr (m, n)))"

section \<open>Change\<close>

definition redeploy_side :: "env \<Rightarrow> iface \<Rightarrow> db \<Rightarrow> db reply" where
  "redeploy_side en i d =
     rbind (enqueue_apply_config (en_fresh en) (en_now en) (reload_iface i d) True d) (\<lambda>(changed, d1).
       Inr (if changed then set_runtime_status ''starting'' i d1 else d1))"

definition update_managed_link :: "env \<Rightarrow> string \<Rightarrow> int \<Rightarrow> link_payload \<Rightarrow> db \<Rightarrow> db reply" where
  "update_managed_link en token k p d =
     rbind (validate_wireguard_ipv6_mtu (lk_mtu p) [lk_local_tunnel p, lk_peer_tunnel p]) (\<lambda>_.
     rbind (get_managed_link_bundle k d) (\<lambda>(i, j, q, r).
     rbind (require_both_online en i j d) (\<lambda>_.
     rbind (normalize_middleware_config token (lk_udp2raw p) (lk_mimic p)) (\<lambda>m.
     rbind (validate_udp2raw_port_conflicts m (lk_local_port p) (lk_peer_port p)) (\<lambda>_.
     rbind (require_managed_link_endpoints (lk_local_host p) (lk_peer_host p)) (\<lambda>(local_endpoint, peer_endpoint).
     rbind (ensure_unique_interface_name (if_node_id i) (lk_local_name p) (Some (if_id i)) None d) (\<lambda>_.
     rbind (ensure_unique_interface_name (if_node_id j) (peer_name p) (Some (if_id j)) None d) (\<lambda>_.
       let i1 = fill_local p m (record_interface_rename (lk_local_name p) i);
           j1 = fill_peer_side p m (record_interface_rename (peer_name p) j) in
     rbind (apply_middleware_to_peers m i1 j1 (fill_local_peer p q) (fill_peer_peer p r) local_endpoint peer_endpoint
         (lk_local_endpoint_port p) (lk_peer_endpoint_port p)) (\<lambda>(q1, r1).
       let d1 = put_peer r1 (put_peer q1 (put_iface j1 (put_iface i1 d))) in
     rbind (enqueue_middleware_cleanup_tasks en (managed_link_middleware i) m i1 j1 d1) (\<lambda>d2.
     rbind (enqueue_middleware_tasks en m i1 j1 local_endpoint peer_endpoint
         (lk_local_endpoint_port p) (lk_peer_endpoint_port p) d2) (\<lambda>d3.
     rbind (redeploy_side en i1 d3) (\<lambda>d4.
     rbind (redeploy_side en j1 d4) (\<lambda>d5. Inr d5)))))))))))))"

section \<open>Start, stop, delete\<close>

definition enqueue_middleware_action :: "env \<Rightarrow> iface \<Rightarrow> iface \<Rightarrow> string \<Rightarrow> db \<Rightarrow> db reply" where
  "enqueue_middleware_action en i j action d = (case managed_link_middleware i of None \<Rightarrow> Inr d
     | Some m \<Rightarrow> rbind (middleware_task_payloads m i j action) (\<lambda>orders.
         rbind (enqueue_orders en False False orders d) (\<lambda>(_, d1). Inr d1)))"

definition start_side :: "env \<Rightarrow> iface \<Rightarrow> db \<Rightarrow> db reply" where
  "start_side en i d =
     (if if_runtime_status i \<in> {''running'', ''starting''} then Inr d
      else rbind (enqueue_interface_task (en_fresh en) (en_now en) (reload_iface i d) (ts_start wireguard_tasks) [] False False d)
        (\<lambda>(changed, _, d1). Inr (if changed then set_runtime_status ''starting'' i d1 else d1)))"

definition start_managed_link :: "env \<Rightarrow> int \<Rightarrow> db \<Rightarrow> db reply" where
  "start_managed_link en k d =
     rbind (get_managed_link_bundle k d) (\<lambda>(i, j, _, _).
     rbind (require_both_online en i j d) (\<lambda>_.
     rbind (enqueue_middleware_action en i j ''start'' d) (\<lambda>d1.
     rbind (start_side en i d1) (\<lambda>d2. start_side en j d2))))"

definition stop_side :: "env \<Rightarrow> iface \<Rightarrow> db \<Rightarrow> db reply" where
  "stop_side en i d =
     (if if_runtime_status i \<in> {''stopped'', ''stopping''} then Inr d
      else let d1 = snd (cancel_pending_interface_deployment_tasks (en_now en) i d) in
        rbind (enqueue_interface_task (en_fresh en) (en_now en) (reload_iface i d1) (ts_stop wireguard_tasks)
            (stop_after (running_interface_deployment_task_id i d1)) True False d1)
          (\<lambda>(changed, _, d2). Inr (if changed then set_runtime_status ''stopping'' i d2 else d2)))"

definition stop_managed_link :: "env \<Rightarrow> int \<Rightarrow> db \<Rightarrow> db reply" where
  "stop_managed_link en k d =
     rbind (get_managed_link_bundle k d) (\<lambda>(i, j, _, _).
     rbind (require_both_online en i j d) (\<lambda>_.
     rbind (stop_side en i d) (\<lambda>d1.
     rbind (stop_side en j d1) (\<lambda>d2. enqueue_middleware_action en i j ''stop'' d2))))"

definition clean_side :: "env \<Rightarrow> bool \<Rightarrow> iface \<Rightarrow> db \<Rightarrow> db reply" where
  "clean_side en delete_node_config i d =
     (let d1 = snd (cancel_pending_interface_deployment_tasks (en_now en) i d);
          d2 = snd (mark_import_candidate_available_for_interface i d1) in
      if delete_node_config \<and> should_delete_node_config_file i
      then rbind (enqueue_interface_task (en_fresh en) (en_now en) (reload_iface i d2) (ts_delete_config wireguard_tasks) [] False False d2)
        (\<lambda>(_, _, d3). Inr d3)
      else Inr d2)"

definition delete_peer_rows :: "int list \<Rightarrow> db \<Rightarrow> db" where
  "delete_peer_rows ks d = d\<lparr>db_peers := filter (\<lambda>q. pr_id q \<notin> set ks) (db_peers d)\<rparr>"

text \<open>Both rows in one flush, with the peers they still have; a peer of a third interface that
  names one of them makes it fail.\<close>

definition delete_iface_rows :: "int list \<Rightarrow> db \<Rightarrow> db reply" where
  "delete_iface_rows ks d =
     (if list_ex (\<lambda>q. (case pr_peer_interface_id q of None \<Rightarrow> False | Some k \<Rightarrow> k \<in> set ks) \<and>
          pr_interface_id q \<notin> set ks) (db_peers d) then Inl (HTTP 500 ''foreign key'')
      else Inr (d\<lparr>db_peers := filter (\<lambda>q. pr_interface_id q \<notin> set ks) (db_peers d),
                  db_ifaces := filter (\<lambda>i. if_id i \<notin> set ks) (db_ifaces d)\<rparr>))"

definition delete_managed_link :: "env \<Rightarrow> int \<Rightarrow> bool \<Rightarrow> db \<Rightarrow> db reply" where
  "delete_managed_link en k delete_node_config d =
     rbind (get_managed_link_bundle k d) (\<lambda>(i, j, q, r).
     rbind (require_both_online en i j d) (\<lambda>_.
     if if_runtime_status i \<in> {''running'', ''starting'', ''stopping''} \<or>
        if_runtime_status j \<in> {''running'', ''starting'', ''stopping''}
     then Inl (HTTP 409 ''wireguard interface must be stopped before delete'')
     else
       rbind (case managed_link_middleware i of
           Some m \<Rightarrow> if delete_node_config then enqueue_middleware_removal en m i j d else Inr d
         | None \<Rightarrow> Inr d) (\<lambda>d1.
       rbind (clean_side en delete_node_config i d1) (\<lambda>d2.
       rbind (clean_side en delete_node_config j d2) (\<lambda>d3.
         let ks = [if_id i, if_id j];
             d4 = delete_link_monitors_where (\<lambda>m. case mo_interface_id m of None \<Rightarrow> False | Some k \<Rightarrow> k \<in> set ks) d3;
             d5 = delete_peer_rows [pr_id q, pr_id r] d4;
             d6 = cancel_draft_interface_change_plans (if_id j) (cancel_draft_interface_change_plans (if_id i) d5) in
         delete_iface_rows ks d6)))))"

end
