(* ===== verification/NodeTasks.thy ===== *)
theory NodeTasks
  imports Middleware LookingGlass
begin

text \<open>
  What the controller does with a node as a whole (node_plugins/*.py and main.py): the actions of
  the node plugins, the installation of mimic, the upgrade of the agent, the port inventory and
  the deletion of a node.
\<close>

section \<open>Canonical JSON\<close>

text \<open>\<open>json.dumps(v, ensure_ascii=False, sort_keys=True, separators=(",", ":"))\<close>: the keys are
  sorted first, and then the text is written.\<close>

fun sort_fields :: "json \<Rightarrow> json" where
  "sort_fields (JList xs) = JList (map sort_fields xs)"
| "sort_fields (JObj d) = JObj (sort_key fst (map (\<lambda>(k, v). (k, sort_fields v)) d))"
| "sort_fields v = v"

fun dumps :: "json \<Rightarrow> string" where
  "dumps JNull = ''null''"
| "dumps (JBool b) = (if b then ''true'' else ''false'')"
| "dumps (JInt n) = show_int n"
| "dumps (JFloat t) = dump_text (JFloat t)"
| "dumps (JStr s) = dump_str s"
| "dumps (JList xs) = ''['' @ join '','' (map dumps xs) @ '']''"
| "dumps (JObj d) = ''{'' @ join '','' (map (\<lambda>(k, v). dump_str k @ '':'' @ dumps v) d) @ ''}''"

section \<open>Plugins\<close>

record node_plugin =
  np_type :: string
  np_min_agent_version :: string
  np_capabilities :: "string list"
  np_actions :: "(string \<times> string) list"

definition bird_plugin :: node_plugin where
  "bird_plugin = \<lparr>np_type = ''bird'', np_min_agent_version = ''0.5.8'', np_capabilities = [''node_plugin.bird''],
     np_actions = map (\<lambda>a. (a, ''node_plugin.bird.'' @ a)) [''list'', ''read'', ''validate'', ''apply'', ''apply_many'', ''status'']\<rparr>"

definition port_inventory_plugin :: node_plugin where
  "port_inventory_plugin = \<lparr>np_type = ''port-inventory'', np_min_agent_version = ''0.5.10'',
     np_capabilities = [''node_plugin.port_inventory''], np_actions = [(''scan'', ''node_plugin.port_inventory.scan'')]\<rparr>"

definition get_node_plugin :: "string \<Rightarrow> node_plugin option" where
  "get_node_plugin ty = map_of [(''bird'', bird_plugin), (''port-inventory'', port_inventory_plugin)] ty"

definition parse_semver :: "string option \<Rightarrow> int \<times> int \<times> int" where
  "parse_semver value = (if \<not> set_text value then (0, 0, 0)
     else case map version_part (take 3 (split_on (CHR ''.'') (takeWhile (\<lambda>c. c \<noteq> CHR ''-'') (the_or [] value)))) of
         [a, b, c] \<Rightarrow> (a, b, c)
       | [a, b] \<Rightarrow> (a, b, 0)
       | [a] \<Rightarrow> (a, 0, 0)
       | _ \<Rightarrow> (0, 0, 0))"

text \<open>\<open>max(versions, key=parse_semver)\<close>: the first of the greatest.\<close>

definition max_version :: "string \<Rightarrow> string list \<Rightarrow> string" where
  "max_version v vs = foldl (\<lambda>m w. if version_less (parse_semver (Some m)) (parse_semver (Some w)) then w else m) v vs"

definition task_min_version :: "string \<Rightarrow> string list" where
  "task_min_version ty = (case map_of task_requirements ty of None \<Rightarrow> []
     | Some rq \<Rightarrow> [or_default (rq_min_agent_version rq) ''0.0.0''])"

definition required_min_version :: "node_plugin \<Rightarrow> string" where
  "required_min_version pl =
     max_version (np_min_agent_version pl) (concat (map (\<lambda>(_, ty). task_min_version ty) (np_actions pl)))"

text \<open>\<open>status_for_node\<close>: whether the version suffices, and the capabilities that are missing.\<close>

definition status_for_node :: "node_plugin \<Rightarrow> node \<Rightarrow> bool \<times> string list" where
  "status_for_node pl n =
     (\<not> version_less (parse_semver (nd_agent_version n)) (parse_semver (Some (required_min_version pl))),
      filter (\<lambda>c. \<not> List.member (nd_agent_capabilities n) c) (np_capabilities pl))"

definition required_string :: "fields \<Rightarrow> string \<Rightarrow> (string, string) result" where
  "required_string payload key = (let value = strip (str_or_empty (dget payload key)) in
     if value = [] then Inl (key @ '' is required'') else Inr value)"

definition required_raw_string :: "fields \<Rightarrow> string \<Rightarrow> (string, json) result" where
  "required_raw_string payload key = (case dget payload key of
     JStr s \<Rightarrow> Inr (JStr s) | _ \<Rightarrow> Inl (key @ '' must be a string''))"

definition optional_string :: "fields \<Rightarrow> string \<Rightarrow> json" where
  "optional_string payload key = (let value = strip (str_or_empty (dget payload key)) in
     if value = [] then JNull else JStr value)"

definition resource_key_of :: "fields \<Rightarrow> (string, json) result" where
  "resource_key_of payload = rbind (required_string payload ''resource_key'') (\<lambda>s. Inr (JStr (take 500 s)))"

definition clean_change :: "json \<Rightarrow> (string, json) result" where
  "clean_change item = (case item of
      JObj entry \<Rightarrow>
        rbind (resource_key_of entry) (\<lambda>key.
        rbind (required_raw_string entry ''content'') (\<lambda>content.
        Inr (JObj [(''resource_key'', key), (''content'', content), (''base_sha256'', optional_string entry ''base_sha256'')])))
    | _ \<Rightarrow> Inl ''file entry must be an object'')"

definition required_resource_changes :: "fields \<Rightarrow> (string, json) result" where
  "required_resource_changes payload = (case dget payload ''files'' of
      JList items \<Rightarrow> if items = [] then Inl ''files are required'' else rbind (rmap clean_change items) (\<lambda>xs. Inr (JList xs))
    | _ \<Rightarrow> Inl ''files are required'')"

definition reload_flag :: "fields \<Rightarrow> json" where
  "reload_flag payload = JBool (if dhas payload ''reload'' then truthy (dget payload ''reload'') else True)"

definition bird_validate_payload :: "string \<Rightarrow> fields \<Rightarrow> (string, fields) result" where
  "bird_validate_payload action payload =
     (if List.member [''list'', ''status''] action then Inr []
      else if action = ''read'' then rbind (resource_key_of payload) (\<lambda>key. Inr [(''resource_key'', key)])
      else if action = ''validate'' then
        rbind (resource_key_of payload) (\<lambda>key.
        rbind (required_raw_string payload ''content'') (\<lambda>content.
        Inr [(''resource_key'', key), (''content'', content)]))
      else if action = ''apply'' then
        rbind (resource_key_of payload) (\<lambda>key.
        rbind (required_raw_string payload ''content'') (\<lambda>content.
        Inr [(''resource_key'', key), (''content'', content), (''base_sha256'', optional_string payload ''base_sha256''),
          (''reload'', reload_flag payload)]))
      else if action = ''apply_many'' then
        rbind (required_resource_changes payload) (\<lambda>files. Inr [(''files'', files), (''reload'', reload_flag payload)])
      else Inl ''plugin action not found'')"

definition is_port :: "int \<Rightarrow> bool" where
  "is_port n = (1 \<le> n \<and> n \<le> 65535)"

definition port_inventory_validate_payload :: "string \<Rightarrow> fields \<Rightarrow> (string, fields) result" where
  "port_inventory_validate_payload action payload =
     (if action \<noteq> ''scan'' then Inl ''plugin action not found''
      else case (dget payload ''range_start'', dget payload ''range_end'') of
        (JInt a, JInt b) \<Rightarrow>
          if \<not> is_port a \<or> \<not> is_port b then Inl ''port range must be between 1 and 65535''
          else if b < a then Inl ''range_start must be less than or equal to range_end''
          else Inr [(''range_start'', JInt a), (''range_end'', JInt b)]
      | _ \<Rightarrow> Inl ''port range must be integers'')"

definition validate_payload :: "node_plugin \<Rightarrow> string \<Rightarrow> fields \<Rightarrow> (string, fields) result" where
  "validate_payload pl action payload =
     (if map_of (np_actions pl) action = None then Inl ''plugin action not found''
      else if np_type pl = ''bird'' then bird_validate_payload action payload
      else port_inventory_validate_payload action payload)"

definition build_task :: "node_plugin \<Rightarrow> string \<Rightarrow> fields \<Rightarrow> int \<Rightarrow> fields" where
  "build_task pl action payload node_id = dict_update payload
     [(''plugin_type'', JStr (np_type pl)), (''action'', JStr action), (''node_id'', JInt node_id)]"

text \<open>\<open>sha\<close> is the hexadecimal SHA-256 of the UTF-8 bytes of a text.\<close>

definition plugin_dedup_key :: "(string \<Rightarrow> string) \<Rightarrow> int \<Rightarrow> string \<Rightarrow> fields \<Rightarrow> string" where
  "plugin_dedup_key sha node_id ty payload =
     ''plugin:'' @ show_int node_id @ '':'' @ ty @ '':'' @ sha (dumps (sort_fields (JObj payload)))"

definition pending_with_key :: "string \<Rightarrow> db \<Rightarrow> task option" where
  "pending_with_key key d = first_of (filter (\<lambda>t. tk_dedup_key t = Some key \<and> tk_status t = Pending) (db_tasks d))"

definition as_bad_request :: "(string, 'a) result \<Rightarrow> 'a reply" where
  "as_bad_request r = (case r of Inl e \<Rightarrow> Inl (HTTP 400 e) | Inr x \<Rightarrow> Inr x)"

definition request_node_plugin_action ::
  "(string \<Rightarrow> string) \<Rightarrow> env \<Rightarrow> int \<Rightarrow> string \<Rightarrow> string \<Rightarrow> fields \<Rightarrow> db \<Rightarrow> (task \<times> db) reply" where
  "request_node_plugin_action sha en node_id plugin_type action payload d =
     rbind (some_or (get_node node_id d) (HTTP 404 ''node not found'')) (\<lambda>n.
     rbind (some_or (get_node_plugin plugin_type) (HTTP 404 ''plugin not found'')) (\<lambda>pl.
     rbind (some_or (map_of (np_actions pl) action) (HTTP 404 ''plugin action not found'')) (\<lambda>ty.
     rbind (ensure (node_runtime_status (en_offline_after en) (en_now en) n = ''online'') (HTTP 409 ''node is offline'')) (\<lambda>_.
     rbind (ensure (fst (status_for_node pl n)) (HTTP 409 ''agent does not support plugin version'')) (\<lambda>_.
     rbind (ensure (snd (status_for_node pl n) = []) (HTTP 409 ''plugin is not supported by this node'')) (\<lambda>_.
     rbind (as_bad_request (validate_payload pl action payload)) (\<lambda>cleaned.
     rbind (require_task_supported n ty) (\<lambda>_.
       let task_payload = build_task pl action cleaned (nd_id n);
           key = plugin_dedup_key sha node_id ty task_payload in
       case insert_task ((new_task node_id None ty (JObj task_payload))\<lparr>tk_dedup_key := Some key\<rparr>) d of
         Some (t, d1) \<Rightarrow> Inr (t, d1)
       | None \<Rightarrow> (case pending_with_key key d of
           None \<Rightarrow> Inl (HTTP 500 ''integrity error'') | Some t \<Rightarrow> Inr (t, d))))))))))"

section \<open>Tasks of a node\<close>

definition active_node_task :: "int \<Rightarrow> string \<Rightarrow> db \<Rightarrow> task option" where
  "active_node_task node_id ty d = first_of (filter (node_task_active node_id ty) (db_tasks d))"

text \<open>\<open>None\<close>: nothing to install. What the early return wrote is lost, because it does not commit.\<close>

definition install_node_middleware ::
  "env \<Rightarrow> int \<Rightarrow> string \<Rightarrow> db \<Rightarrow> (task option \<times> db) reply" where
  "install_node_middleware en node_id plugin d =
     rbind (require_online_node (en_offline_after en) (en_now en) node_id d) (\<lambda>n.
     if plugin \<noteq> ''mimic'' then Inl (HTTP 404 ''middleware plugin not found'')
     else if List.member (nd_agent_capabilities n) ''middleware.mimic'' then Inr (None, d)
     else rbind (require_mimic_install_supported n) (\<lambda>_.
       let payload = [(''plugin'', JStr ''mimic''), (''source'', JStr ''github_latest''), (''repo'', JStr ''hack3ric/mimic''),
             (''allow_prerelease'', JBool False), (''github_proxy_url'', jopt_str (nd_github_proxy_url n))] in
       case insert_task ((new_task node_id None ''middleware.install'' (JObj payload))
           \<lparr>tk_dedup_key := Some (''node:'' @ show_int node_id @ '':middleware.install:mimic'')\<rparr>) d of
         Some (t, d1) \<Rightarrow> Inr (Some t, put_node (n\<lparr>nd_middleware_install_status := Some ''mimic_installing''\<rparr>) d1)
       | None \<Rightarrow> (case active_node_task node_id ''middleware.install'' d of
           None \<Rightarrow> Inl (HTTP 500 ''integrity error'') | Some t \<Rightarrow> Inr (Some t, d))))"

section \<open>Agent upgrades\<close>

text \<open>An asset of the release manifest, and the manifest: the latest version and the assets of each
  version by platform.\<close>

record asset =
  as_path :: string
  as_sha256 :: string
  as_size :: "int option"
  as_install_mode :: string

record manifest =
  mf_latest :: "string option"
  mf_releases :: "(string \<times> (string \<times> asset) list) list"

definition normalize_agent_arch :: "string \<Rightarrow> string option" where
  "normalize_agent_arch value = (if value = [] then None else
     let arch = lower value in
     Some (if List.member [''x86_64'', ''amd64''] arch then ''x64''
       else if List.member [''aarch64'', ''arm64''] arch then ''arm64'' else arch))"

definition json_or :: "json \<Rightarrow> string \<Rightarrow> string" where
  "json_or v s = (if truthy v then py_str v else s)"

definition agent_platform_candidates :: "node \<Rightarrow> string list" where
  "agent_platform_candidates n =
     (let platform = json_object (nd_agent_platform n);
          os = lower (json_or (dget platform ''os'') ''linux'');
          arch = the_or ''x64'' (normalize_agent_arch (str_or_empty (dget platform ''arch'')));
          glibc = dget platform ''glibc'' in
      (if lower (str_or_empty (dget platform ''service_manager'')) = ''openwrt-uci''
       then [''openwrt-source'', ''openwrt-'' @ arch @ ''-musl''] else []) @
      (if truthy glibc then [os @ ''-'' @ arch @ ''-glibc'' @ py_str glibc, os @ ''-'' @ arch @ ''-glibc''] else []) @
      [os @ ''-'' @ arch])"

text \<open>An exact match of a candidate first, then the first asset whose key begins with one.\<close>

definition select_agent_release_asset :: "node \<Rightarrow> (string \<times> asset) list \<Rightarrow> (string \<times> asset) option" where
  "select_agent_release_asset n assets =
     (let candidates = agent_platform_candidates n in
      case first_of (filter (\<lambda>c. map_of assets c \<noteq> None) candidates) of
        Some c \<Rightarrow> map_option (Pair c) (map_of assets c)
      | None \<Rightarrow> first_of (concat (map (\<lambda>c. filter (\<lambda>(key, _). starts_with key c) assets) candidates)))"

text \<open>\<open>url_ok\<close> checks and trims the configured address of the controller.\<close>

definition controller_url_for_agent :: "(string \<Rightarrow> string option) \<Rightarrow> db \<Rightarrow> string" where
  "controller_url_for_agent url_ok d = (case url_ok (the_or [] (get_setting ''controller_url'' d)) of
     None \<Rightarrow> [] | Some u \<Rightarrow> rev (dropWhile (\<lambda>c. c = CHR ''/'') (rev u)))"

datatype upgrade_mode = Unavailable string | Manual string | NoUpgrade | SelfUpgrade string asset

text \<open>\<open>has_asset\<close> tells whether the file of an asset is there, \<open>own_version\<close> is the version of the
  controller's own agent. The command for a manual upgrade is left out.\<close>

definition build_agent_upgrade_plan ::
  "(string \<Rightarrow> string option) \<Rightarrow> (asset \<Rightarrow> bool) \<Rightarrow> manifest \<Rightarrow> string \<Rightarrow> env \<Rightarrow> node \<Rightarrow> db \<Rightarrow> string option \<Rightarrow> bool \<Rightarrow>
     string \<times> upgrade_mode" where
  "build_agent_upgrade_plan url_ok has_asset mf own_version en n d target force =
     (let version = or_default (the_or [] target) (or_default (the_or [] (mf_latest mf)) own_version) in
      (version,
       if controller_url_for_agent url_ok d = [] then Unavailable ''controller address is not configured''
       else case map_of (mf_releases mf) version of
         None \<Rightarrow> Unavailable ''no release of the target version''
       | Some assets \<Rightarrow>
          (case select_agent_release_asset n assets of
             None \<Rightarrow> Unavailable ''no asset for the platform''
           | Some (key, a) \<Rightarrow>
               if key = [] then Unavailable ''no asset for the platform''
               else if or_default (as_install_mode a) ''binary'' \<noteq> (if node_uses_openwrt_uci (Some n) then ''source'' else ''binary'')
               then Unavailable ''asset does not match the service back end''
               else if \<not> has_asset a then Unavailable ''asset file is missing''
               else if \<not> is_node_online (en_offline_after en) (en_now en) n then Manual ''node is offline''
               else if \<not> force \<and> set_text (nd_agent_version n) \<and>
                 \<not> version_less (parse_version (nd_agent_version n)) (parse_version (Some version)) then NoUpgrade
               else if \<not> List.member (nd_agent_capabilities n) ''agent.self_upgrade'' then Manual ''agent cannot upgrade itself''
               else SelfUpgrade key a)))"

definition upgrade_payload :: "string \<Rightarrow> string \<Rightarrow> string \<Rightarrow> asset \<Rightarrow> fields" where
  "upgrade_payload url version key a =
     [(''target_version'', JStr version),
      (''download_url'', JStr (url @ ''/api/agent/releases/'' @ version @ ''/download?platform='' @ key)),
      (''sha256'', JStr (as_sha256 a)), (''size'', jopt_int (as_size a)), (''upgrade_mode'', JStr (as_install_mode a)),
      (''binary_args'', JList [JStr ''--version'']), (''install_path'', JStr ''/usr/local/bin/link42-agent''),
      (''rollback'', JBool True)]"

definition upgrade_type :: string where "upgrade_type = ''agent.self_upgrade''"

text \<open>A task found active is answered without a commit, so the recovery before it is not kept.\<close>

definition request_agent_upgrade ::
  "(string \<Rightarrow> string option) \<Rightarrow> (asset \<Rightarrow> bool) \<Rightarrow> manifest \<Rightarrow> string \<Rightarrow> env \<Rightarrow> int \<Rightarrow> string option \<Rightarrow> bool \<Rightarrow> db \<Rightarrow>
     (task \<times> db) reply" where
  "request_agent_upgrade url_ok has_asset mf own_version en node_id target force d =
     rbind (some_or (get_node node_id d) (HTTP 404 ''node not found'')) (\<lambda>n.
     (case build_agent_upgrade_plan url_ok has_asset mf own_version en n d target force of
        (version, SelfUpgrade key a) \<Rightarrow>
          if version = [] then Inl (HTTP 409 ''agent self upgrade is not available'')
          else let d1 = snd (expire_stale_running_agent_tasks (Some node_id) (en_now en) d) in
          (case active_node_task node_id upgrade_type d1 of
             Some t \<Rightarrow> Inr (t, d)
           | None \<Rightarrow>
              rbind (require_task_supported n upgrade_type) (\<lambda>_.
              case insert_task ((new_task node_id None upgrade_type
                  (JObj (upgrade_payload (controller_url_for_agent url_ok d1) version key a)))
                  \<lparr>tk_dedup_key := Some (''node:'' @ show_int node_id @ '':'' @ upgrade_type)\<rparr>) d1 of
                Some (t, d2) \<Rightarrow>
                  Inr (t, put_node (n\<lparr>nd_agent_update_status := Some ''queued'', nd_agent_last_error := None\<rparr>) d2)
              | None \<Rightarrow> (case active_node_task node_id upgrade_type d1 of
                  None \<Rightarrow> Inl (HTTP 500 ''integrity error'') | Some t \<Rightarrow> Inr (t, d))))
      | (_, Unavailable reason) \<Rightarrow> Inl (HTTP 409 reason)
      | (_, Manual reason) \<Rightarrow> Inl (HTTP 409 reason)
      | (_, NoUpgrade) \<Rightarrow> Inl (HTTP 409 ''agent is up to date'')))"

section \<open>Port inventory\<close>

record port_payload =
  po_protocol :: string
  po_port :: int
  po_purpose :: string
  po_source :: string
  po_detected_process :: "string option"
  po_detected_pid :: "string option"
  po_detected_source :: "string option"

definition upper_char :: "char \<Rightarrow> char" where
  "upper_char c = (if is_lower_az c then char_of (code c - 32) else c)"

definition port_entry_payload :: "port_payload \<Rightarrow> (string, port_payload) result" where
  "port_entry_payload p =
     rbind (ensure (List.member [''TCP'', ''UDP''] (map upper_char (po_protocol p))) ''String should match pattern'') (\<lambda>_.
     rbind (validate_port (Some (po_port p))) (\<lambda>_. Inr (p\<lparr>po_protocol := map upper_char (po_protocol p)\<rparr>)))"

definition port_setting_of :: "int \<Rightarrow> db \<Rightarrow> port_setting option" where
  "port_setting_of node_id d = first_of (filter (\<lambda>s. ps_node_id s = node_id) (db_port_settings d))"

definition port_inventory_setting_for_node :: "int \<Rightarrow> db \<Rightarrow> port_setting \<times> db" where
  "port_inventory_setting_for_node node_id d = (case port_setting_of node_id d of
      Some s \<Rightarrow> (s, d)
    | None \<Rightarrow> (let s = \<lparr>ps_id = next_id ps_id (db_port_settings d), ps_node_id = node_id, ps_range_start = None, ps_range_end = None\<rparr> in
        (s, d\<lparr>db_port_settings := db_port_settings d @ [s]\<rparr>)))"

definition outside_range :: "port_setting option \<Rightarrow> int \<Rightarrow> bool" where
  "outside_range s port = (case s of None \<Rightarrow> False | Some s \<Rightarrow>
     (case (ps_range_start s, ps_range_end s) of (Some a, Some b) \<Rightarrow> \<not> (a \<le> port \<and> port \<le> b) | _ \<Rightarrow> False))"

definition validate_port_inventory_entry :: "int \<Rightarrow> string \<Rightarrow> int \<Rightarrow> int option \<Rightarrow> db \<Rightarrow> unit reply" where
  "validate_port_inventory_entry node_id protocol port exclude d =
     (if outside_range (port_setting_of node_id d) port then Inl (HTTP 400 ''port is outside configured range'')
      else ensure (\<not> list_ex (\<lambda>e. pe_node_id e = node_id \<and> pe_protocol e = protocol \<and> pe_port e = port \<and>
          exclude \<noteq> Some (pe_id e)) (db_port_entries d)) (HTTP 409 ''port entry already exists''))"

definition update_port_inventory_range :: "int \<Rightarrow> int \<Rightarrow> int \<Rightarrow> db \<Rightarrow> db reply" where
  "update_port_inventory_range node_id range_start range_end d =
     rbind (some_or (get_node node_id d) (HTTP 404 ''node not found'')) (\<lambda>_.
     if range_end < range_start then Inl (HTTP 400 ''range_start must be less than or equal to range_end'')
     else case port_inventory_setting_for_node node_id d of (s, d1) \<Rightarrow>
       Inr (d1\<lparr>db_port_settings := tb_put ps_id
         (s\<lparr>ps_range_start := Some range_start, ps_range_end := Some range_end\<rparr>) (db_port_settings d1)\<rparr>))"

definition create_port_inventory_entry :: "int \<Rightarrow> port_payload \<Rightarrow> db \<Rightarrow> (port_entry \<times> db) reply" where
  "create_port_inventory_entry node_id p d =
     rbind (some_or (get_node node_id d) (HTTP 404 ''node not found'')) (\<lambda>_.
     rbind (validate_port_inventory_entry node_id (po_protocol p) (po_port p) None d) (\<lambda>_.
       let e = \<lparr>pe_id = next_id pe_id (db_port_entries d), pe_node_id = node_id, pe_protocol = po_protocol p,
           pe_port = po_port p, pe_purpose = po_purpose p, pe_source = po_source p,
           pe_detected_process = po_detected_process p, pe_detected_pid = po_detected_pid p,
           pe_detected_source = po_detected_source p\<rparr> in
       Inr (e, d\<lparr>db_port_entries := db_port_entries d @ [e]\<rparr>)))"

text \<open>The fields that a patch carries; an absent one keeps its value.\<close>

record port_patch =
  pt_protocol :: "string option"
  pt_port :: "int option"
  pt_purpose :: "string option"
  pt_source :: "string option"
  pt_detected_process :: "string option option"
  pt_detected_pid :: "string option option"
  pt_detected_source :: "string option option"

definition patch_entry :: "port_patch \<Rightarrow> port_entry \<Rightarrow> port_entry" where
  "patch_entry p e = e\<lparr>pe_protocol := the_or (pe_protocol e) (pt_protocol p), pe_port := the_or (pe_port e) (pt_port p),
     pe_purpose := the_or (pe_purpose e) (pt_purpose p), pe_source := the_or (pe_source e) (pt_source p),
     pe_detected_process := the_or (pe_detected_process e) (pt_detected_process p),
     pe_detected_pid := the_or (pe_detected_pid e) (pt_detected_pid p),
     pe_detected_source := the_or (pe_detected_source e) (pt_detected_source p)\<rparr>"

definition get_port_entry :: "int \<Rightarrow> int \<Rightarrow> db \<Rightarrow> port_entry reply" where
  "get_port_entry node_id k d = (case tb_get pe_id k (db_port_entries d) of
      None \<Rightarrow> Inl (HTTP 404 ''port entry not found'')
    | Some e \<Rightarrow> if pe_node_id e \<noteq> node_id then Inl (HTTP 404 ''port entry not found'') else Inr e)"

definition update_port_inventory_entry :: "int \<Rightarrow> int \<Rightarrow> port_patch \<Rightarrow> db \<Rightarrow> (port_entry \<times> db) reply" where
  "update_port_inventory_entry node_id k p d =
     rbind (get_port_entry node_id k d) (\<lambda>e.
     let e1 = patch_entry p e in
     rbind (validate_port_inventory_entry node_id (pe_protocol e1) (pe_port e1) (Some (pe_id e)) d) (\<lambda>_.
       Inr (e1, d\<lparr>db_port_entries := tb_put pe_id e1 (db_port_entries d)\<rparr>)))"

definition delete_port_inventory_entry :: "int \<Rightarrow> int \<Rightarrow> db \<Rightarrow> db reply" where
  "delete_port_inventory_entry node_id k d =
     rbind (get_port_entry node_id k d) (\<lambda>e. Inr (d\<lparr>db_port_entries := tb_del pe_id k (db_port_entries d)\<rparr>))"

section \<open>Deletion of a node\<close>

definition node_has_connections :: "int \<Rightarrow> db \<Rightarrow> bool" where
  "node_has_connections k d = (list_ex (\<lambda>i. if_node_id i = k) (db_ifaces d) \<or>
     list_ex (\<lambda>e. ep_node_id e = k) (db_endpoints d) \<or>
     list_ex (\<lambda>q. pr_peer_node_id q = Some k) (db_peers d))"

definition delete_node :: "int \<Rightarrow> db \<Rightarrow> db reply" where
  "delete_node k d =
     rbind (some_or (get_node k d) (HTTP 404 ''node not found'')) (\<lambda>n.
     if node_has_connections k d then Inl (HTTP 409 ''node has connections'')
     else let d1 = delete_link_monitors_where (\<lambda>m. mo_node_id m = k) d in
       Inr (d1\<lparr>db_queries := filter (\<lambda>q. lq_node_id q \<noteq> k) (db_queries d1),
               db_candidates := filter (\<lambda>c. ic_node_id c \<noteq> k) (db_candidates d1),
               db_port_entries := filter (\<lambda>e. pe_node_id e \<noteq> k) (db_port_entries d1),
               db_port_settings := filter (\<lambda>s. ps_node_id s \<noteq> k) (db_port_settings d1),
               db_tasks := filter (\<lambda>t. tk_node_id t \<noteq> k) (db_tasks d1),
               db_nodes := tb_del nd_id k (db_nodes d1)\<rparr>))"

definition rotate_agent_token :: "(string \<Rightarrow> string) \<Rightarrow> string \<Rightarrow> int \<Rightarrow> db \<Rightarrow> (string \<times> db) reply" where
  "rotate_agent_token hash token k d =
     rbind (some_or (get_node k d) (HTTP 404 ''node not found'')) (\<lambda>n.
       Inr (token, put_node (n\<lparr>nd_agent_token_hash := hash token\<rparr>) d))"

end
