(* ===== verification/SafeLinks.thy ===== *)
theory SafeLinks
  imports SafeHandlers ManagedLinks NodeTasks
begin

text \<open>
  The handlers of managed links, plugins, upgrades and the port inventory meet the contract
  \<open>safe_step\<close>: they keep the invariant of tasks and plans and let tasks only evolve.
\<close>

section \<open>Orders\<close>

lemma enqueue_order_safe: "safe_reply d (\<lambda>(_, _, e). e) (enqueue_order en up after ord d)"
  unfolding enqueue_order_def by (cases ord) (simp add: enqueue_interface_task_safe)

lemma enqueue_orders_safe: "safe_reply d snd (enqueue_orders en up after ords d)"
proof (induction ords arbitrary: d)
  case (Cons ord ords)
  show ?case
    unfolding enqueue_orders.simps
  proof (rule safe_then [OF enqueue_order_safe])
    fix x :: "bool \<times> task \<times> db"
    obtain c t e where x: "x = (c, t, e)" by (rule prod_cases3)
    have "safe_reply e snd (rbind (enqueue_orders en up after ords e) (\<lambda>(ts, d2). Inr (t # ts, d2)))"
      by (rule safe_then [OF Cons.IH]) (auto intro: safe_Inr)
    then show "safe_reply (case x of (_, _, e) \<Rightarrow> e) snd
      (case x of (_, t, d1) \<Rightarrow> rbind (enqueue_orders en up after ords d1) (\<lambda>(ts, d2). Inr (t # ts, d2)))"
      by (simp add: x)
  qed
qed (simp add: safe_Inr)

lemma safe_orders:
  "(\<And>ts e. safe_reply e out (g ts e)) \<Longrightarrow>
   safe_reply d out (rbind (enqueue_orders en up after ords d) (\<lambda>(ts, e). g ts e))"
  by (rule safe_then [OF enqueue_orders_safe]) (simp split: prod.split)

lemma safe_one_order:
  "(\<And>e. safe_reply e out (g e)) \<Longrightarrow>
   safe_reply d out (rbind (enqueue_order en up after ord d) (\<lambda>(_, _, e). g e))"
  by (rule safe_then [OF enqueue_order_safe]) (simp split: prod.split)

lemma safe_plain_then:
  "safe_reply d (\<lambda>e. e) r \<Longrightarrow> (\<And>e. safe_reply e out (g e)) \<Longrightarrow> safe_reply d out (rbind r g)"
  by (rule safe_then)

lemma safe_stay: "safe_reply d (\<lambda>e. e) (Inr d)"
  by (rule safe_Inr) simp

lemma safe_option_case:
  "(m = None \<Longrightarrow> safe_reply d out x) \<Longrightarrow> (\<And>v. m = Some v \<Longrightarrow> safe_reply d out (f v)) \<Longrightarrow>
   safe_reply d out (case m of None \<Rightarrow> x | Some v \<Rightarrow> f v)"
  by (cases m) simp_all

lemma safe_pair_then:
  "safe_reply d snd r \<Longrightarrow> (\<And>x e. safe_reply e out (g x e)) \<Longrightarrow> safe_reply d out (rbind r (\<lambda>(x, e). g x e))"
  by (rule safe_then, assumption) (simp split: prod.split)

lemma safe_triple_then:
  "safe_reply d (\<lambda>(_, _, e). e) r \<Longrightarrow> (\<And>x y e. safe_reply e out (g x y e)) \<Longrightarrow>
   safe_reply d out (rbind r (\<lambda>(x, y, e). g x y e))"
  by (rule safe_then, assumption) (simp split: prod.split)

section \<open>Middleware\<close>

lemma install_udp2raw_on_safe: "safe_reply d (\<lambda>e. e) (install_udp2raw_on en m i d)"
  unfolding install_udp2raw_on_def by (rule safe_guard, rule safe_one_order, rule safe_stay)

lemma enqueue_udp2raw_tasks_safe: "safe_reply d (\<lambda>e. e) (enqueue_udp2raw_tasks en m i j le pe d)"
  unfolding enqueue_udp2raw_tasks_def
  by (rule safe_plain_then [OF install_udp2raw_on_safe])+ (rule safe_guard, rule safe_orders, rule safe_stay)

lemma enqueue_mimic_tasks_safe: "safe_reply d (\<lambda>e. e) (enqueue_mimic_tasks en m i j le pe lp pp d)"
  unfolding enqueue_mimic_tasks_def by (rule safe_guard, rule safe_guard, rule safe_guard, rule safe_orders, rule safe_stay)

lemma enqueue_middleware_tasks_safe: "safe_reply d (\<lambda>e. e) (enqueue_middleware_tasks en mw i j le pe lp pp d)"
  unfolding enqueue_middleware_tasks_def
  by (rule safe_option_case, rule safe_stay)
    (simp add: enqueue_udp2raw_tasks_safe enqueue_mimic_tasks_safe safe_Inl)

lemma enqueue_middleware_removal_safe: "safe_reply d (\<lambda>e. e) (enqueue_middleware_removal en m i j d)"
  unfolding enqueue_middleware_removal_def
  by (rule safe_guard, rule safe_orders, rule safe_guard, rule safe_orders, rule safe_stay)

lemma enqueue_middleware_cleanup_safe: "safe_reply d (\<lambda>e. e) (enqueue_middleware_cleanup_tasks en old new i j d)"
  unfolding enqueue_middleware_cleanup_tasks_def
  by (rule safe_option_case, rule safe_stay) (simp add: safe_stay enqueue_middleware_removal_safe)

lemma enqueue_middleware_action_safe: "safe_reply d (\<lambda>e. e) (enqueue_middleware_action en i j action d)"
  unfolding enqueue_middleware_action_def
  by (rule safe_option_case, rule safe_stay) (rule safe_guard, rule safe_orders, rule safe_stay)

section \<open>Managed links\<close>

lemma replaced_peer_safe: "safe_step d (snd (replaced_peer r d))"
proof (cases r)
  case (Some i)
  show ?thesis
  proof (cases "get_unique_peer (if_id i) d")
    case (Inr x)
    then have "same_work d (snd x)"
      by (auto simp: get_unique_peer_def res_simps Let_def keep_first_peer_def same_work_def split: if_splits)
    then show ?thesis using Some Inr by (simp add: replaced_peer_def same_work_safe)
  qed (use Some in \<open>simp add: replaced_peer_def\<close>)
qed (simp add: replaced_peer_def)

lemma replace_side_safe: "safe_reply d snd (replace_side en r d)"
  unfolding replace_side_def
  by (rule safe_option_case) (rule safe_Inr, simp, rule safe_then [OF queue_replace_safe], rule safe_Inr, simp)

lemma deploy_side_safe: "safe_reply d (\<lambda>e. e) (deploy_side en cleanup i d)"
  unfolding deploy_side_def
proof (rule safe_then [OF enqueue_apply_config_safe])
  fix x :: "bool \<times> db"
  obtain c e where x: "x = (c, e)" by (rule prod.exhaust)
  let ?t = "get_interface_task (if_id i) (ts_apply_config wireguard_tasks) [Pending] e"
  have "safe_step e (put_task (wait_for k t) e)" if "?t = Some t" for k t
    unfolding wait_for_def using replace_payload_safe get_interface_task_in [OF that] by simp
  then have "safe_step e (case (map_of cleanup (if_node_id i), ?t) of (Some k, Some t) \<Rightarrow> put_task (wait_for k t) e | _ \<Rightarrow> e)"
    by (simp split: option.split)
  then show "safe_reply (snd x) (\<lambda>e. e) (case x of (_, d1) \<Rightarrow>
      Inr (case (map_of cleanup (if_node_id i), get_interface_task (if_id i) (ts_apply_config wireguard_tasks) [Pending] d1) of
         (Some k, Some t) \<Rightarrow> put_task (wait_for k t) d1 | _ \<Rightarrow> d1))"
    unfolding x snd_conv prod.case by (rule safe_Inr)
qed

lemma redeploy_side_safe: "safe_reply d (\<lambda>e. e) (redeploy_side en i d)"
  unfolding redeploy_side_def
  by (rule safe_then [OF enqueue_apply_config_safe])
    (auto intro!: safe_Inr set_runtime_status_safe simp del: if_split split: if_split)

lemma create_link_rows_safe: "safe_reply d (\<lambda>(_, _, e). e) (create_link_rows ky n p ln pn m ends d)"
  unfolding create_link_rows_def Let_def add_iface_def prod.case
  by (rule safe_guard) (auto simp: add_peer_def Let_def same_work_def intro!: safe_Inr same_work_safe)

lemma create_link_on_safe: "safe_reply d (\<lambda>(_, _, e). e) (create_link_on en ky n p ln pn rl rp d)"
proof -
  have tail: "safe_reply e (\<lambda>(_, _, e). e)
      (rbind (create_link_rows ky n p ln pn m ends e) (\<lambda>(i, j, e3).
       rbind (enqueue_middleware_tasks en m i j (fst ends) (snd ends) (lk_local_endpoint_port p) (lk_peer_endpoint_port p) e3) (\<lambda>e4.
       rbind (deploy_side en cl i e4) (\<lambda>e5. rbind (deploy_side en cl j e5) (\<lambda>e6. Inr (i, j, e6))))))" for e m ends cl
    by (rule safe_triple_then [OF create_link_rows_safe], rule safe_plain_then [OF enqueue_middleware_tasks_safe],
        (rule safe_plain_then [OF deploy_side_safe])+, rule safe_Inr) simp
  have sides: "safe_reply e (\<lambda>(_, _, e). e) (rbind (replace_side en rl e) (\<lambda>(cl, e1). rbind (replace_side en rp e1) (\<lambda>(cp, e2). g cl cp e2)))"
    if "\<And>cl cp e2. safe_reply e2 (\<lambda>(_, _, e). e) (g cl cp e2)" for e g
    by (rule safe_pair_then [OF replace_side_safe])+ (rule that)
  show ?thesis
    unfolding create_link_on_def by (rule sides tail | rule safe_guard)+
qed

lemma create_managed_link_safe: "safe_step d (snd (create_managed_link en ky n p d))"
proof (cases "link_nodes en n p d")
  case (Inr x)
  obtain ln pn rl rp where x: "x = (ln, pn, rl, rp)" by (rule prod_cases4)
  obtain lq d1 where l: "replaced_peer rl d = (lq, d1)" by (rule prod.exhaust)
  obtain pq d2 where r: "replaced_peer rp d1 = (pq, d2)" by (rule prod.exhaust)
  have s: "safe_step d d2"
    using safe_trans [OF replaced_peer_safe [of d rl]] replaced_peer_safe [of d1 rp] l r by simp
  show ?thesis
  proof (cases "create_link_on en ky n p ln pn rl rp d2")
    case (Inl e)
    then show ?thesis using Inr x l r s by (simp add: create_managed_link_def)
  next
    case made: (Inr y)
    obtain i j e where y: "y = (i, j, e)" by (rule prod_cases3)
    have "safe_step d2 e" using safe_replyD [OF create_link_on_safe made] by (simp add: y)
    then show ?thesis using Inr x l r made y safe_trans [OF s] s by (simp add: create_managed_link_def)
  qed
qed (simp add: create_managed_link_def)

lemma update_managed_link_safe: "safe_reply d (\<lambda>e. e) (update_managed_link en tok k p d)"
proof -
  have tail: "safe_reply d (\<lambda>e. e)
      (rbind (enqueue_middleware_cleanup_tasks en old m i j e) (\<lambda>d2.
       rbind (enqueue_middleware_tasks en m i j le pe lp pp d2) (\<lambda>d3.
       rbind (redeploy_side en i d3) (\<lambda>d4. rbind (redeploy_side en j d4) (\<lambda>d5. Inr d5)))))"
    if "same_work d e" for e old m i j le pe lp pp
    by (rule safe_from [OF same_work_safe [OF that]], rule safe_plain_then [OF enqueue_middleware_cleanup_safe],
        rule safe_plain_then [OF enqueue_middleware_tasks_safe], (rule safe_plain_then [OF redeploy_side_safe])+, rule safe_stay)
  have same: "same_work d (put_peer r1 (put_peer q1 (put_iface j1 (put_iface i1 d))))" for r1 q1 j1 i1
    by (simp add: same_work_def put_peer_def put_iface_def)
  show ?thesis
    unfolding update_managed_link_def Let_def case_prod_beta by (rule tail [OF same] | rule safe_guard)+
qed

lemma start_side_safe: "safe_reply d (\<lambda>e. e) (start_side en i d)"
  unfolding start_side_def
  by (rule safe_if, rule safe_stay) (rule safe_enqueue, rule safe_Inr, simp add: set_runtime_status_safe)

lemma stop_side_safe: "safe_reply d (\<lambda>e. e) (stop_side en i d)"
  unfolding stop_side_def Let_def
  by (rule safe_if, rule safe_stay)
    (rule safe_from [OF cancel_deployment_safe], rule safe_enqueue, rule safe_Inr, simp add: set_runtime_status_safe)

lemma start_managed_link_safe: "safe_reply d (\<lambda>e. e) (start_managed_link en k d)"
  unfolding start_managed_link_def case_prod_beta
  by (rule safe_guard, rule safe_guard, rule safe_plain_then [OF enqueue_middleware_action_safe],
      rule safe_plain_then [OF start_side_safe], rule start_side_safe)

lemma stop_managed_link_safe: "safe_reply d (\<lambda>e. e) (stop_managed_link en k d)"
  unfolding stop_managed_link_def case_prod_beta
  by (rule safe_guard, rule safe_guard, (rule safe_plain_then [OF stop_side_safe])+, rule enqueue_middleware_action_safe)

lemma clean_side_safe: "safe_reply d (\<lambda>e. e) (clean_side en b i d)"
  unfolding clean_side_def Let_def
  by (rule safe_from [OF safe_trans [OF cancel_deployment_safe mark_safe]], rule safe_if)
    (rule safe_enqueue, rule safe_stay, rule safe_stay)

lemma delete_iface_rows_safe: "safe_reply d (\<lambda>e. e) (delete_iface_rows ks d)"
  unfolding delete_iface_rows_def
  by (rule safe_if) (auto simp: same_work_def intro!: safe_Inl safe_Inr same_work_safe)

lemma delete_peer_rows_safe: "safe_step d (delete_peer_rows ks d)"
  by (rule same_work_safe) (simp add: delete_peer_rows_def same_work_def)

lemma delete_managed_link_safe: "safe_reply d (\<lambda>e. e) (delete_managed_link en k b d)"
proof -
  have rows: "safe_reply e (\<lambda>e. e) (delete_iface_rows ks (cancel_draft_interface_change_plans j
      (cancel_draft_interface_change_plans i (delete_peer_rows qs (delete_link_monitors_where P e)))))" for e ks i j qs P
    by (rule safe_from [OF delete_monitors_safe], rule safe_from [OF delete_peer_rows_safe],
        rule safe_from [OF cancel_drafts_safe], rule safe_from [OF cancel_drafts_safe], rule delete_iface_rows_safe)
  have head: "safe_reply d (\<lambda>e. e) (case mw of Some m \<Rightarrow> if b then enqueue_middleware_removal en m i j d else Inr d | None \<Rightarrow> Inr d)"
    for mw i j
    by (cases mw) (simp_all add: safe_stay enqueue_middleware_removal_safe)
  show ?thesis
    unfolding delete_managed_link_def Let_def case_prod_beta
    by (rule safe_guard, rule safe_guard, rule safe_if, rule safe_Inl, rule safe_plain_then [OF head],
        (rule safe_plain_then [OF clean_side_safe])+, rule rows)
qed

section \<open>Nodes\<close>

lemma safe_insert:
  assumes "tk_status t = Pending" "tk_change_plan_id t = None"
    and "\<And>u e. safe_step d e \<Longrightarrow> safe_reply d out (f u e)" "safe_reply d out x"
  shows "safe_reply d out (case insert_task t d of Some (u, e) \<Rightarrow> f u e | None \<Rightarrow> x)"
  using assms insert_task_safe [of t d] by (cases "insert_task t d") (auto split: prod.split)

lemma plugin_action_safe: "safe_reply d snd (request_node_plugin_action sha en n ty a p d)"
proof -
  have none: "safe_reply d snd (case pending_with_key key d of
      None \<Rightarrow> Inl (HTTP 500 ''integrity error'') | Some t \<Rightarrow> Inr (t, d))" for key
    by (cases "pending_with_key key d") (simp_all add: safe_Inl safe_Inr)
  have some: "safe_step d e \<Longrightarrow> safe_reply d snd (Inr (u, e))" for u e by (rule safe_Inr) simp
  have task: "tk_status ((new_task m None y v)\<lparr>tk_dedup_key := key\<rparr>) = Pending"
    "tk_change_plan_id ((new_task m None y v)\<lparr>tk_dedup_key := key\<rparr>) = None" for m y v key by simp_all
  show ?thesis
    unfolding request_node_plugin_action_def Let_def
    by (rule safe_insert [OF task some none] | rule safe_guard)+
qed

lemma install_middleware_safe: "safe_reply d snd (install_node_middleware en n pl d)"
proof -
  have none: "safe_reply d snd (case active_node_task m y d of
      None \<Rightarrow> Inl (HTTP 500 ''integrity error'') | Some t \<Rightarrow> Inr (Some t, d))" for m y
    by (cases "active_node_task m y d") (simp_all add: safe_Inl safe_Inr)
  have some: "safe_step d e \<Longrightarrow> safe_reply d snd (Inr (Some u, put_node m e))" for u m e
    by (rule safe_Inr) (simp add: safe_trans [OF _ same_work_safe])
  have task: "tk_status ((new_task m None y v)\<lparr>tk_dedup_key := key\<rparr>) = Pending"
    "tk_change_plan_id ((new_task m None y v)\<lparr>tk_dedup_key := key\<rparr>) = None" for m y v key by simp_all
  show ?thesis
    unfolding install_node_middleware_def Let_def
    by (rule safe_guard, rule safe_if, rule safe_Inl, rule safe_if, rule safe_Inr, simp, rule safe_guard,
        rule safe_insert [OF task some none])
qed

lemma agent_upgrade_safe: "safe_reply d snd (request_agent_upgrade url_ok has mf own en n target force d)"
proof -
  let ?d = "snd (expire_stale_running_agent_tasks (Some n) (en_now en) d)"
  have keep: "safe_reply d snd (Inr (t, d))" for t :: task by (rule safe_Inr) simp
  have none: "safe_reply d snd (case active_node_task m y e of
      None \<Rightarrow> Inl (HTTP 500 ''integrity error'') | Some t \<Rightarrow> Inr (t, d))" for m y e
    by (cases "active_node_task m y e") (simp_all add: safe_Inl keep)
  have step: "safe_reply d snd (case insert_task t ?d of
      Some (u, e) \<Rightarrow> Inr (u, put_node m e)
    | None \<Rightarrow> (case active_node_task k y ?d of None \<Rightarrow> Inl (HTTP 500 ''integrity error'') | Some t \<Rightarrow> Inr (t, d)))"
    if "tk_status t = Pending" "tk_change_plan_id t = None" for t m k y
  proof (cases "insert_task t ?d")
    case None
    then show ?thesis using none by simp
  next
    case (Some ue)
    obtain u e where ue: "ue = (u, e)" by (rule prod.exhaust)
    have "safe_step d e" using safe_trans [OF expire_stale_safe insert_task_safe [of t ?d u e]] Some ue that by simp
    then have "safe_step d (put_node m e)" by (rule safe_trans) (simp add: same_work_safe)
    then show ?thesis using Some ue by (simp add: safe_Inr)
  qed
  show ?thesis
    unfolding request_agent_upgrade_def Let_def
  proof (rule safe_guard)
    fix m
    obtain version mode where pl: "build_agent_upgrade_plan url_ok has mf own en m d target force = (version, mode)"
      by (rule prod.exhaust)
    show "safe_reply d snd
     (case build_agent_upgrade_plan url_ok has mf own en m d target force of
        (version, SelfUpgrade key a) \<Rightarrow>
          if version = [] then Inl (HTTP 409 ''agent self upgrade is not available'')
          else (case active_node_task n upgrade_type ?d of
             Some t \<Rightarrow> Inr (t, d)
           | None \<Rightarrow>
              rbind (require_task_supported m upgrade_type) (\<lambda>_.
              case insert_task ((new_task n None upgrade_type
                  (JObj (upgrade_payload (controller_url_for_agent url_ok ?d) version key a)))
                  \<lparr>tk_dedup_key := Some (''node:'' @ show_int n @ '':'' @ upgrade_type)\<rparr>) ?d of
                Some (t, d2) \<Rightarrow>
                  Inr (t, put_node (m\<lparr>nd_agent_update_status := Some ''queued'', nd_agent_last_error := None\<rparr>) d2)
              | None \<Rightarrow> (case active_node_task n upgrade_type ?d of
                  None \<Rightarrow> Inl (HTTP 500 ''integrity error'') | Some t \<Rightarrow> Inr (t, d))))
      | (_, Unavailable reason) \<Rightarrow> Inl (HTTP 409 reason)
      | (_, Manual reason) \<Rightarrow> Inl (HTTP 409 reason)
      | (_, NoUpgrade) \<Rightarrow> Inl (HTTP 409 ''agent is up to date''))"
    proof (cases mode)
      case (SelfUpgrade key a)
      show ?thesis
        unfolding pl SelfUpgrade prod.case upgrade_mode.case
        by (rule safe_if, rule safe_Inl, rule safe_option_case, rule safe_guard, rule step, simp, simp, rule keep)
    qed (simp_all add: pl safe_Inl)
  qed
qed

lemma port_inventory_safe:
  "safe_reply d (\<lambda>e. e) (update_port_inventory_range n a b d)"
  "safe_reply d snd (create_port_inventory_entry n p d)"
  "safe_reply d snd (update_port_inventory_entry n k pt d)"
  "safe_reply d (\<lambda>e. e) (delete_port_inventory_entry n k d)"
  unfolding update_port_inventory_range_def create_port_inventory_entry_def update_port_inventory_entry_def
    delete_port_inventory_entry_def Let_def
  by ((rule safe_guard)+, (rule safe_if, rule safe_Inl)?, (simp split: prod.split)?, (intro allI impI)?, rule safe_Inr, rule same_work_safe,
      auto simp: same_work_def port_inventory_setting_for_node_def Let_def split: option.splits)+

end
