(* ===== verification/Protocol.thy ===== *)
theory Protocol
  imports SafeGre SafeLinks
begin

text \<open>
  The controller as a transition system: one rule per modelled handler, from the databases
  without tasks, plans and queries. Its invariant \<open>task_inv\<close> holds in every reachable state, and
  along every run tasks only evolve.
\<close>

section \<open>Transition systems\<close>

locale transition_system =
  fixes init :: "'s \<Rightarrow> bool" and step :: "'s \<Rightarrow> 's \<Rightarrow> bool"
    and inv :: "'s \<Rightarrow> bool" and le :: "'s \<Rightarrow> 's \<Rightarrow> bool"
  assumes init_inv: "init s \<Longrightarrow> inv s"
    and step_inv: "inv s \<Longrightarrow> step s t \<Longrightarrow> inv t"
    and step_le: "inv s \<Longrightarrow> step s t \<Longrightarrow> le s t"
    and le_refl: "le s s"
    and le_trans: "le s t \<Longrightarrow> le t u \<Longrightarrow> le s u"
begin

lemma run_inv_le: "rtranclp step s t \<Longrightarrow> inv s \<Longrightarrow> inv t \<and> le s t"
proof (induction rule: rtranclp_induct)
  case base
  then show ?case by (simp add: le_refl)
next
  case (step t u)
  then show ?case using step_inv step_le le_trans by blast
qed

lemma from_init_inv: "init i \<Longrightarrow> rtranclp step i s \<Longrightarrow> inv s"
  using run_inv_le init_inv by blast

lemma from_init_le: "init i \<Longrightarrow> rtranclp step i s \<Longrightarrow> rtranclp step s t \<Longrightarrow> le s t"
  using run_inv_le from_init_inv by blast

end

section \<open>The steps of the controller\<close>

text \<open>
  A committed request is a step; one whose reply is an error leaves the database as it was, but
  for those that commit before they refuse. The last rule stands for the operations on other
  tables: the rows of nodes, sessions and settings. The deletion of a node, which takes its tasks
  with it, is not a step: a run is one between such deletions.
\<close>

inductive controller_step :: "db \<Rightarrow> db \<Rightarrow> bool" where
  heartbeat: "agent_heartbeat v now call d = Inr (s, d') \<Longrightarrow> controller_step d d'"
| register: "agent_register v now reg d = Inr (s, d') \<Longrightarrow> controller_step d d'"
| poll: "agent_poll v now call d = Inr (ts, d') \<Longrightarrow> controller_step d d'"
| report: "agent_task_result v en k n tok status result d = (r, d') \<Longrightarrow> terminal status \<Longrightarrow> controller_step d d'"
| monitor_poll: "agent_link_monitor_poll v now call d = Inr (ms, d') \<Longrightarrow> controller_step d d'"
| monitor_result: "agent_link_monitor_result v now n tok bs d = Inr d' \<Longrightarrow> controller_step d d'"
| interface_create: "create_interface en n ip d = Inr (i, d') \<Longrightarrow> controller_step d d'"
| interface_update: "update_interface en k ip d = Inr (i, d') \<Longrightarrow> controller_step d d'"
| interface_start: "start_interface en k d = Inr d' \<Longrightarrow> controller_step d d'"
| interface_stop: "stop_interface en k d = Inr d' \<Longrightarrow> controller_step d d'"
| interface_refresh: "refresh_with ty en k d = Inr d' \<Longrightarrow> controller_step d d'"
| interface_delete: "delete_interface en k b d = Inr d' \<Longrightarrow> controller_step d d'"
| interface_import: "import_candidate n k d = Inr (i, d') \<Longrightarrow> controller_step d d'"
| import_scan: "request_import_scan en n d = Inr (t, d') \<Longrightarrow> controller_step d d'"
| peer_set: "set_unique_peer en k pp d = Inr (q, d') \<Longrightarrow> controller_step d d'"
| peer_delete: "delete_config_peer k d = Inr d' \<Longrightarrow> controller_step d d'"
| plan: "plan_apply en k d = Inr (p, d') \<Longrightarrow> controller_step d d'"
| take_over: "take_over_imported_interface en k d = Inr (p, d') \<Longrightarrow> controller_step d d'"
| plan_confirm: "confirm_change_plan en k d = Inr (ts, d') \<Longrightarrow> controller_step d d'"
| gre_create: "create_managed_connection en n gp d = Inr (k, d') \<Longrightarrow> controller_step d d'"
| gre_create_manual: "create_manual_connection en n mp d = Inr (k, d') \<Longrightarrow> controller_step d d'"
| gre_update: "update_connection en ref gp d = Inr d' \<Longrightarrow> controller_step d d'"
| gre_update_manual: "update_manual_connection en ref mp d = Inr d' \<Longrightarrow> controller_step d d'"
| gre_start: "start_connection en ref d = Inr d' \<Longrightarrow> controller_step d d'"
| gre_stop: "stop_connection en ref d = Inr d' \<Longrightarrow> controller_step d d'"
| gre_refresh: "refresh_connection_status en ref d = Inr d' \<Longrightarrow> controller_step d d'"
| gre_delete: "delete_connection en ref d = Inr d' \<Longrightarrow> controller_step d d'"
| monitor_set: "upsert_interface_link_monitor en k mo d = Inr (m, d') \<Longrightarrow> controller_step d d'"
| monitor_set_gre: "upsert_connection_endpoint_link_monitor en k mo d = Inr (m, d') \<Longrightarrow> controller_step d d'"
| monitor_update: "update_link_monitor en k mo d = Inr (m, d') \<Longrightarrow> controller_step d d'"
| monitor_delete: "delete_link_monitor k d = Inr d' \<Longrightarrow> controller_step d d'"
| key_create: "create_looking_glass_token h s name scopes ex d = (tk, d') \<Longrightarrow> controller_step d d'"
| key_update: "update_looking_glass_token k tu d = Inr (key, d') \<Longrightarrow> controller_step d d'"
| key_rotate: "rotate_looking_glass_token h s k d = Inr (tk, d') \<Longrightarrow> controller_step d d'"
| key_revoke: "revoke_looking_glass_token now k d = Inr (key, d') \<Longrightarrow> controller_step d d'"
| key_delete: "delete_looking_glass_token k d = Inr d' \<Longrightarrow> controller_step d d'"
| key_use: "require_looking_glass_api_key v now tk ip d = Inr (key, d') \<Longrightarrow> controller_step d d'"
| query: "submit_looking_glass fp en ref key lr d = Inr (q, d') \<Longrightarrow> controller_step d d'"
| query_read: "get_looking_glass_query now key qid d = (rq, d') \<Longrightarrow> controller_step d d'"
| link_create: "create_managed_link en ky n lc d = (rl, d') \<Longrightarrow> controller_step d d'"
| link_update: "update_managed_link en pw k lp d = Inr d' \<Longrightarrow> controller_step d d'"
| link_start: "start_managed_link en k d = Inr d' \<Longrightarrow> controller_step d d'"
| link_stop: "stop_managed_link en k d = Inr d' \<Longrightarrow> controller_step d d'"
| link_delete: "delete_managed_link en k b d = Inr d' \<Longrightarrow> controller_step d d'"
| plugin: "request_node_plugin_action sha en n pty act payload d = Inr (t, d') \<Longrightarrow> controller_step d d'"
| mimic_install: "install_node_middleware en n pty d = Inr (rt, d') \<Longrightarrow> controller_step d d'"
| upgrade: "request_agent_upgrade url_ok has_asset mf own en n target force d = Inr (t, d') \<Longrightarrow> controller_step d d'"
| port_range: "update_port_inventory_range n a e d = Inr d' \<Longrightarrow> controller_step d d'"
| port_create: "create_port_inventory_entry n po d = Inr (pe, d') \<Longrightarrow> controller_step d d'"
| port_update: "update_port_inventory_entry n k pt d = Inr (pe, d') \<Longrightarrow> controller_step d d'"
| port_delete: "delete_port_inventory_entry n k d = Inr d' \<Longrightarrow> controller_step d d'"
| elsewhere: "same_work d d' \<Longrightarrow> controller_step d d'"

definition quiet :: "db \<Rightarrow> bool" where
  "quiet d = (db_tasks d = [] \<and> db_plans d = [] \<and> db_queries d = [])"

definition reachable :: "db \<Rightarrow> bool" where
  "reachable d = (\<exists>i. quiet i \<and> rtranclp controller_step i d)"

lemma safe_pair: "safe_reply d snd r \<Longrightarrow> r = Inr (x, d') \<Longrightarrow> safe_step d d'"
  by (simp add: safe_reply_def)

lemma safe_plain: "safe_reply d (\<lambda>e. e) r \<Longrightarrow> r = Inr d' \<Longrightarrow> safe_step d d'"
  by (simp add: safe_reply_def)

lemma report_safe:
  "agent_task_result v en k n tok status result d = (r, d') \<Longrightarrow> terminal status \<Longrightarrow> safe_step d d'"
  using agent_task_result_safe [of status d v en k n tok result] by simp

lemma key_create_safe: "create_looking_glass_token h s name scopes ex d = (tk, d') \<Longrightarrow> safe_step d d'"
  using token_edits_safe(1) [of d h s name scopes ex] by simp

lemma query_read_safe: "get_looking_glass_query now key qid d = (rq, d') \<Longrightarrow> safe_step d d'"
  using get_looking_glass_query_safe [of d now key qid] by simp

lemma link_create_safe: "create_managed_link en ky n lc d = (rl, d') \<Longrightarrow> safe_step d d'"
  using create_managed_link_safe [of d en ky n lc] by simp

lemmas pair_handlers_safe =
  agent_heartbeat_safe [THEN safe_pair] agent_register_safe [THEN safe_pair] agent_poll_safe [THEN safe_pair]
  agent_link_monitor_poll_safe [THEN safe_pair] create_interface_safe [THEN safe_pair]
  update_interface_safe [THEN safe_pair] import_candidate_safe [THEN safe_pair]
  request_import_scan_safe [THEN safe_pair] set_unique_peer_safe [THEN safe_pair]
  plan_apply_safe [THEN safe_pair] take_over_safe [THEN safe_pair] confirm_change_plan_safe [THEN safe_pair]
  create_managed_connection_safe [THEN safe_pair] create_manual_connection_safe [THEN safe_pair]
  monitor_edits_safe(1-3) [THEN safe_pair] token_edits_safe(2-4) [THEN safe_pair]
  require_key_safe [THEN safe_pair] submit_looking_glass_safe [THEN safe_pair]
  plugin_action_safe [THEN safe_pair] install_middleware_safe [THEN safe_pair] agent_upgrade_safe [THEN safe_pair]
  port_inventory_safe(2,3) [THEN safe_pair]

lemmas plain_handlers_safe =
  agent_link_monitor_result_safe [THEN safe_plain] start_interface_safe [THEN safe_plain]
  stop_interface_safe [THEN safe_plain] refresh_with_safe [THEN safe_plain]
  delete_interface_safe [THEN safe_plain] delete_config_peer_safe [THEN safe_plain]
  update_connection_safe [THEN safe_plain] update_manual_connection_safe [THEN safe_plain]
  start_connection_safe [THEN safe_plain] stop_connection_safe [THEN safe_plain]
  refresh_connection_status_safe [THEN safe_plain] delete_connection_safe [THEN safe_plain]
  monitor_edits_safe(4) [THEN safe_plain] delete_token_safe [THEN safe_plain]
  update_managed_link_safe [THEN safe_plain] start_managed_link_safe [THEN safe_plain]
  stop_managed_link_safe [THEN safe_plain] delete_managed_link_safe [THEN safe_plain]
  port_inventory_safe(1,4) [THEN safe_plain]

lemma controller_step_safe: "controller_step d d' \<Longrightarrow> safe_step d d'"
  by (erule controller_step.cases; hypsubst)
    (erule pair_handlers_safe plain_handlers_safe same_work_safe key_create_safe query_read_safe link_create_safe
      | rule report_safe, assumption, assumption)+

interpretation controller: transition_system quiet controller_step task_inv tasks_evolve
proof
  show "quiet s \<Longrightarrow> task_inv s" for s
    by (simp add: quiet_def task_inv_def tasks_wf_def dedup_unique_def plans_honest_def plan_keys_ok_def
        queries_planless_def tb_wf_def)
  show "task_inv s \<Longrightarrow> controller_step s t \<Longrightarrow> task_inv t" for s t
    using controller_step_safe unfolding safe_step_def by blast
  show "task_inv s \<Longrightarrow> controller_step s t \<Longrightarrow> tasks_evolve s t" for s t
    using controller_step_safe unfolding safe_step_def by blast
  show "tasks_evolve s s" for s by simp
  show "tasks_evolve s t \<Longrightarrow> tasks_evolve t u \<Longrightarrow> tasks_evolve s u" for s t u by (rule tasks_evolve_trans)
qed

lemma reachable_inv: "reachable d \<Longrightarrow> task_inv d"
  unfolding reachable_def using controller.from_init_inv by blast

lemma reachable_start: "quiet d \<Longrightarrow> reachable d"
  unfolding reachable_def by blast

lemma reachable_step: "reachable d \<Longrightarrow> controller_step d e \<Longrightarrow> reachable e"
  unfolding reachable_def by (meson rtranclp.rtrancl_into_rtrancl)

end
