(* ===== verification/Scenario.thy ===== *)
theory Scenario
  imports Protocol
begin

text \<open>
  A run of the controller on concrete rows: an interface with one peer is planned, the plan is
  confirmed, the agent polls its task and reports a failure. The properties of reachable states
  are applied to the states of this run.
\<close>

definition sample_env :: env where
  "sample_env = \<lparr>en_now = 5, en_offline_after = 90, en_fresh = ''id'', en_udiff = \<lambda>_ _ _ _. ''diff''\<rparr>"

definition sample_iface :: iface where
  "sample_iface = (new_iface 1 ''wg0'')\<lparr>if_id := 1, if_source := ''imported'', if_managed := False,
     if_deployed_config := Some ''[Interface]''\<rparr>"

definition sample_peer :: peer where
  "sample_peer = (new_peer 1 ''k'')\<lparr>pr_id := 1\<rparr>"

definition planned_world :: "db" where
  "planned_world = empty_db\<lparr>db_nodes := [sample_node 1, sample_node 2], db_ifaces := [sample_iface],
     db_peers := [sample_peer]\<rparr>"

definition run1 :: db where "run1 = snd (ok_value (plan_apply sample_env 1 planned_world))"
definition run2 :: db where "run2 = snd (ok_value (confirm_change_plan sample_env 1 run1))"
definition run3 :: db where "run3 = snd (ok_value (agent_poll (\<lambda>_ _. True) 5 sample_call run2))"
definition run4 :: db where
  "run4 = snd (agent_task_result (\<lambda>_ _. True) sample_env 1 1 ''t'' Failed [(''error'', JStr ''no'')] run3)"

definition scan1 :: db where "scan1 = snd (ok_value (request_import_scan sample_env 1 planned_world))"

definition run5 :: db where
  "run5 = snd (ok_value (agent_heartbeat (\<lambda>_ _. True) 6 sample_call run4))"

text \<open>A world with one running task, reported by its agent.\<close>

definition working_world :: db where
  "working_world = planned_world\<lparr>db_tasks :=
     [sample_task 1 ''wireguard.start_interface'' [(''interface_id'', JInt 1)] Running]\<rparr>"

text \<open>The run evaluated once: which requests succeed, and the tasks and plans at the end.\<close>

definition run_log :: "bool list \<times> (int \<times> task_status \<times> int option) list \<times> (int \<times> plan_status) list" where
  "run_log =
     (let r1 = plan_apply sample_env 1 planned_world;
          r2 = confirm_change_plan sample_env 1 (snd (ok_value r1));
          r3 = agent_poll (\<lambda>_ _. True) 5 sample_call (snd (ok_value r2));
          r4 = agent_task_result (\<lambda>_ _. True) sample_env 1 1 ''t'' Failed [(''error'', JStr ''no'')]
                 (snd (ok_value r3));
          d4 = snd r4;
          r5 = agent_heartbeat (\<lambda>_ _. True) 6 sample_call d4 in
      ([is_ok r1, is_ok r2, is_ok r3, is_ok r5, is_ok (fst r4)], map (\<lambda>t. (tk_id t, tk_status t, tk_change_plan_id t)) (db_tasks d4),
       map (\<lambda>p. (pl_id p, pl_status p)) (db_plans d4)))"

lemma run_log_value: "run_log = ([True, True, True, True, True], [(1, Failed, Some 1)], [(1, PFailed)])"
  by code_simp

lemma run_evaluated:
  "is_ok (plan_apply sample_env 1 planned_world)" "is_ok (confirm_change_plan sample_env 1 run1)"
  "is_ok (agent_poll (\<lambda>_ _. True) 5 sample_call run2)" "is_ok (agent_heartbeat (\<lambda>_ _. True) 6 sample_call run4)"
  "is_ok (fst (agent_task_result (\<lambda>_ _. True) sample_env 1 1 ''t'' Failed [(''error'', JStr ''no'')] run3))"
  "map (\<lambda>t. (tk_id t, tk_status t, tk_change_plan_id t)) (db_tasks run4) = [(1, Failed, Some 1)]"
  "map (\<lambda>p. (pl_id p, pl_status p)) (db_plans run4) = [(1, PFailed)]"
  using run_log_value [unfolded run_log_def Let_def, folded run1_def, folded run2_def, folded run3_def, folded run4_def]
  by (simp_all only: prod.inject list.inject simp_thms)

lemma reachable_planned: "reachable planned_world"
  by (rule reachable_start) (simp add: quiet_def planned_world_def empty_db_def)

lemma ok_pair: "is_ok r \<Longrightarrow> r = Inr (fst (ok_value r), snd (ok_value r))"
  using ok_value_Inr by fastforce

lemma reachable_run2: "reachable run2"
proof -
  have "controller_step planned_world run1"
    unfolding run1_def by (rule controller_step.plan [OF ok_pair [OF run_evaluated(1)]])
  moreover have "controller_step run1 run2"
    unfolding run2_def by (rule controller_step.plan_confirm [OF ok_pair [OF run_evaluated(2)]])
  ultimately show ?thesis using reachable_step reachable_planned by blast
qed

lemma reachable_run3: "reachable run3"
proof -
  have "controller_step run2 run3"
    unfolding run3_def by (rule controller_step.poll [OF ok_pair [OF run_evaluated(3)]])
  then show ?thesis using reachable_step reachable_run2 by blast
qed

lemma reachable_run4: "reachable run4"
proof -
  have "controller_step run3 run4"
    unfolding run4_def by (rule controller_step.report [OF prod.collapse [symmetric]]) simp
  then show ?thesis using reachable_step reachable_run3 by blast
qed

section \<open>Properties\<close>

text \<open>C3: whatever sequence of requests the controller serves, no two pending tasks carry the
  same deduplication key, so an operation requested twice is queued once.\<close>

theorem one_pending_task_per_key:
  assumes "reachable d" "t \<in> set (db_tasks d)" "u \<in> set (db_tasks d)"
    and "tk_status t = Pending" "tk_status u = Pending"
    and "tk_dedup_key t = Some key" "tk_dedup_key u = Some key"
  shows "t = u"
proof -
  have i: "tasks_wf d" "dedup_unique d"
    using reachable_inv [OF assms(1)] unfolding task_inv_def by blast+
  have "tk_id t = tk_id u"
    by (rule i(2) [unfolded dedup_unique_def, rule_format, OF assms(2,3)]) (simp only: assms option.distinct, simp)
  then have "get_task (tk_id t) d = Some u" using in_tasks_get [OF i(1) assms(3)] by (simp only:)
  then show ?thesis using in_tasks_get [OF i(1) assms(2)] by (simp only: option.inject)
qed

lemma scan_evaluated:
  "is_ok (request_import_scan sample_env 1 planned_world)"
  "map (\<lambda>t. (tk_status t, tk_dedup_key t)) (db_tasks scan1) = [(Pending, Some ''node:1:wireguard.import_scan'')]"
  by code_simp+

theorem one_pending_task_per_key_witness:
  "\<exists>t. db_tasks scan1 = [t] \<and> (\<forall>u \<in> set (db_tasks scan1). u = t)"
proof -
  obtain t where t: "db_tasks scan1 = [t]" "tk_status t = Pending" "tk_dedup_key t = Some ''node:1:wireguard.import_scan''"
    using scan_evaluated(2) by (auto simp: map_eq_Cons_conv)
  have "controller_step planned_world scan1"
    unfolding scan1_def by (rule controller_step.import_scan [OF ok_pair [OF scan_evaluated(1)]])
  then have r: "reachable scan1" using reachable_step reachable_planned by blast
  have "u = t" if "u \<in> set (db_tasks scan1)" for u
    by (rule one_pending_task_per_key [OF r that, of t]) (use that t in auto)
  then show ?thesis using t(1) by blast
qed

text \<open>C14: in every reachable state a plan tells the truth about its tasks: a task of it that
  failed or was cancelled makes it failed, a succeeded plan has only succeeded tasks, and a plan
  that is still a draft, or was cancelled, has no task.\<close>

theorem plans_tell_of_their_tasks:
  assumes "reachable d" "p \<in> set (db_plans d)" "t \<in> set (db_tasks d)" "tk_change_plan_id t = Some (pl_id p)"
  shows "(tk_status t = Failed \<or> tk_status t = Cancelled \<longrightarrow> pl_status p = PFailed) \<and>
    (pl_status p = PSucceeded \<longrightarrow> tk_status t = Succeeded) \<and>
    pl_status p \<noteq> PDraft \<and> pl_status p \<noteq> PCancelled"
proof -
  have "plan_honest (db_tasks d) p"
    using reachable_inv [OF assms(1)] assms(2) by (simp add: task_inv_def plans_honest_def)
  then show ?thesis using assms(3,4) unfolding plan_honest_def by blast
qed

theorem plans_tell_of_their_tasks_witness: "\<exists>p. db_plans run4 = [p] \<and> pl_status p = PFailed"
proof -
  obtain t where t: "db_tasks run4 = [t]" "tk_status t = Failed" "tk_change_plan_id t = Some 1"
    using run_evaluated(6) by (auto simp: map_eq_Cons_conv)
  obtain p where p: "db_plans run4 = [p]" "pl_id p = 1"
    using run_evaluated(7) by (auto simp: map_eq_Cons_conv)
  have "pl_status p = PFailed"
    using plans_tell_of_their_tasks [OF reachable_run4, of p t] t p by simp
  then show ?thesis using p by blast
qed



end
