(* ===== verification/ReportLaws.thy ===== *)
theory ReportLaws
  imports Scenario
begin

text \<open>
  The laws of \<open>agent_task_result\<close>: a report may be sent again, a refused report changes nothing,
  and a report reaches only the configuration its task was about.
\<close>

section \<open>What the parts of a report leave alone\<close>

text \<open>The interfaces, and the keys and token hashes of the nodes.\<close>

definition agents_of :: "db \<Rightarrow> (int \<times> string) list" where
  "agents_of d = map (\<lambda>n. (nd_id n, nd_agent_token_hash n)) (db_nodes d)"

lemma ifaces_frames [simp]:
  "db_ifaces (put_node n d) = db_ifaces d" "db_ifaces (put_task t d) = db_ifaces d"
  "db_ifaces (put_plan p d) = db_ifaces d" "db_ifaces (put_endpoint e d) = db_ifaces d"
  "db_ifaces (put_conn c d) = db_ifaces d" "db_ifaces (put_query q d) = db_ifaces d"
  by (simp_all add: put_node_def put_task_def put_plan_def put_endpoint_def put_conn_def put_query_def)

lemma nodes_frames [simp]:
  "db_nodes (put_iface i d) = db_nodes d" "db_nodes (put_endpoint e d) = db_nodes d"
  "db_nodes (put_conn c d) = db_nodes d" "db_nodes (put_query q d) = db_nodes d"
  by (simp_all add: put_iface_def put_endpoint_def put_conn_def put_query_def)

lemma refresh_frames [simp]:
  "db_ifaces (refresh_plan_opt k d) = db_ifaces d" "db_nodes (refresh_plan_opt k d) = db_nodes d"
  by (auto simp: refresh_plan_opt_def refresh_plan_def update_change_plan_task_status_def split: option.split)

lemma query_frames [simp]:
  "db_ifaces (record_on_query now k d) = db_ifaces d" "db_nodes (record_on_query now k d) = db_nodes d"
  by (auto simp: record_on_query_def refresh_looking_glass_query_from_task_def split: option.split prod.split)

lemma scan_fold_frames [simp]:
  "db_ifaces (fst (fold (store_candidate d0 n names) scans acc)) = db_ifaces (fst acc)"
  "db_nodes (fst (fold (store_candidate d0 n names) scans acc)) = db_nodes (fst acc)"
  by (induction scans arbitrary: acc)
    (simp_all add: store_candidate_def Let_def split: prod.split option.split)

lemma scan_frames:
  "record_import_scan n result d = Inr d' \<Longrightarrow> db_ifaces d' = db_ifaces d \<and> db_nodes d' = db_nodes d"
  unfolding record_import_scan_def Let_def case_prod_beta res_simps by fastforce

lemma store_endpoint_frames [simp]:
  "db_ifaces (store_endpoint c e d) = db_ifaces d" "db_nodes (store_endpoint c e d) = db_nodes d"
  by (simp_all add: store_endpoint_def Let_def)

lemma endpoint_frames:
  "record_on_endpoint fresh t status result d = Inr d' \<Longrightarrow> db_ifaces d' = db_ifaces d \<and> db_nodes d' = db_nodes d"
  unfolding record_on_endpoint_def Let_def
  by (auto simp: res_simps split: option.splits if_splits)

lemma record_on_node_ifaces [simp]: "db_ifaces (record_on_node n t status result d) = db_ifaces d"
  unfolding record_on_node_def by (cases "get_node n d") simp_all

lemma after_node_keys [simp]:
  "nd_id (after_upgrade status result n) = nd_id n" "nd_id (after_middleware_install status result n) = nd_id n"
  "nd_agent_token_hash (after_upgrade status result n) = nd_agent_token_hash n"
  "nd_agent_token_hash (after_middleware_install status result n) = nd_agent_token_hash n"
  by (simp_all add: after_upgrade_def after_middleware_install_def Let_def)

lemma get_node_put_same:
  assumes "get_node n d = Some m" "nd_id m' = nd_id m" "nd_agent_token_hash m' = nd_agent_token_hash m"
    and "get_node k d = Some a"
  shows "\<exists>b. get_node k (put_node m' d) = Some b \<and> nd_agent_token_hash b = nd_agent_token_hash a"
  using assms nodes.get_key [OF assms(1)] by (auto simp: nodes.get_put)

lemma record_on_node_keeps:
  assumes "get_node k d = Some a"
  shows "\<exists>b. get_node k (record_on_node n t status result d) = Some b \<and> nd_agent_token_hash b = nd_agent_token_hash a"
proof (cases "get_node n d")
  case (Some m)
  note kept = get_node_put_same [OF Some after_node_keys(1,3) assms] get_node_put_same [OF Some after_node_keys(2,4) assms]
  show ?thesis
    unfolding record_on_node_def Some option.case
    by (simp only: split: if_split) (intro conjI impI kept, simp_all only: assms option.inject, blast)
qed (use assms in \<open>simp add: record_on_node_def\<close>)

lemma get_node_same: "db_nodes e = db_nodes d \<Longrightarrow> get_node k e = get_node k d"
  by (simp add: get_node_def)

lemma get_iface_same: "db_ifaces e = db_ifaces d \<Longrightarrow> get_iface k e = get_iface k d"
  by (simp add: get_iface_def)

section \<open>The interface of a report\<close>

text \<open>The row a successful report may change, and when it may.\<close>

lemma identify_iface_simps [simp]:
  "if_id (identify_iface f t i) = if_id i" "if_node_id (identify_iface f t i) = if_node_id i"
  "if_runtime_status (identify_iface f t i) = if_runtime_status i"
  "if_deployed_config (identify_iface f t i) = if_deployed_config i" "if_name (identify_iface f t i) = if_name i"
  by (simp_all add: identify_iface_def iface_identity_def Let_def)

lemma interface_after_task_id:
  "interface_after_task d t result i = Inr i' \<Longrightarrow> if_id i' = if_id i"
  unfolding interface_after_task_def Let_def
  by (auto simp: res_simps split: if_splits)

lemma payload_iface: "payload_row get_iface key t d = Some i \<Longrightarrow> get_iface (if_id i) d = Some i"
  by (auto simp: payload_row_def Let_def ifaces.get_key split: if_splits option.splits)

lemma record_on_interface_reach:
  assumes "record_on_interface fresh t result d = Inr d'" "get_iface k d = Some i"
  shows "\<exists>i'. get_iface k d' = Some i' \<and>
    (i' \<noteq> i \<longrightarrow> payload_row get_iface ''interface_id'' t d = Some i \<and> if_node_id i = tk_node_id t) \<and>
    (if_runtime_status i' \<noteq> if_runtime_status i \<or> if_deployed_config i' \<noteq> if_deployed_config i \<longrightarrow>
       task_targets_iface fresh t (Some i))"
proof (cases "payload_row get_iface ''interface_id'' t d")
  case None
  then show ?thesis using assms by (simp add: record_on_interface_def)
next
  case (Some j)
  have j: "get_iface (if_id j) d = Some j" using payload_iface [OF Some] .
  have other: "get_iface k (put_iface x d) = Some i" if "if_id x = if_id j" "k \<noteq> if_id j" for x
    using that assms(2) by (simp add: ifaces.get_put)
  have this_one: "i = j \<and> get_iface k (put_iface x d) = Some x" if "if_id x = if_id j" "k = if_id j" for x
    using that assms(2) j by (simp add: ifaces.get_put)
  consider "if_node_id j \<noteq> tk_node_id t" "d' = d"
    | x where "if_node_id j = tk_node_id t" "task_targets_iface fresh t (Some j)" "if_id x = if_id j" "d' = put_iface x d"
    | "if_node_id j = tk_node_id t" "d' = put_iface (identify_iface fresh t j) d"
    using assms(1) interface_after_task_id unfolding record_on_interface_def Some option.case Let_def
    by (fastforce simp: res_simps split: if_splits)
  then show ?thesis
  proof cases
    case 1
    then show ?thesis using assms(2) by simp
  next
    case (2 x)
    then show ?thesis using other [of x] this_one [of x] Some by (cases "k = if_id j") auto
  next
    case 3
    then show ?thesis using other [of "identify_iface fresh t j"] this_one [of "identify_iface fresh t j"] Some
      by (cases "k = if_id j") auto
  qed
qed

lemma record_on_interface_keys:
  "record_on_interface fresh t result d = Inr d' \<Longrightarrow>
    map if_id (db_ifaces d') = map if_id (db_ifaces d) \<and> db_nodes d' = db_nodes d"
  unfolding record_on_interface_def Let_def
  by (auto simp: res_simps ifaces.keys_put split: option.splits if_splits)

lemma payload_row_same: "db_ifaces e = db_ifaces d \<Longrightarrow> payload_row get_iface key t e = payload_row get_iface key t d"
  by (simp add: payload_row_def get_iface_def Let_def split: option.split)

lemma record_effects_reach:
  assumes "record_effects en n t status result d = Inr d'"
  shows "map if_id (db_ifaces d') = map if_id (db_ifaces d)"
    "get_node k d = Some a \<Longrightarrow> \<exists>b. get_node k d' = Some b \<and> nd_agent_token_hash b = nd_agent_token_hash a"
    "get_iface j d = Some i \<Longrightarrow> \<exists>i'. get_iface j d' = Some i' \<and>
      (i' \<noteq> i \<longrightarrow> status = Succeeded \<and> payload_row get_iface ''interface_id'' t d = Some i \<and> if_node_id i = tk_node_id t) \<and>
      (if_runtime_status i' \<noteq> if_runtime_status i \<or> if_deployed_config i' \<noteq> if_deployed_config i \<longrightarrow>
         task_targets_iface (en_fresh en) t (Some i))"
proof -
  let ?d1 = "refresh_plan_opt (tk_change_plan_id t) (record_on_node n t status result d)"
  obtain d2 d3 d4 where
      s2: "(if Some (tk_type t) = ts_import_scan wireguard_tasks \<and> status = Succeeded
            then record_import_scan n result ?d1 else Inr ?d1) = Inr d2"
    and s3: "(if status = Succeeded then record_on_interface (en_fresh en) t result d2 else Inr d2) = Inr d3"
    and s4: "record_on_endpoint (en_fresh en) t status result d3 = Inr d4"
    and d': "d' = record_on_query (en_now en) (tk_id t) d4"
    using assms unfolding record_effects_def Let_def by (auto simp only: res_simps sum.inject)
  have 2: "db_ifaces d2 = db_ifaces d" "db_nodes d2 = db_nodes (record_on_node n t status result d)"
    using s2 scan_frames [of n result ?d1 d2] by (auto split: if_splits)
  have 3: "map if_id (db_ifaces d3) = map if_id (db_ifaces d2)" "db_nodes d3 = db_nodes d2"
    using s3 record_on_interface_keys by (auto split: if_splits)
  have 4: "db_ifaces d' = db_ifaces d3" "db_nodes d' = db_nodes d3"
    using endpoint_frames [OF s4] d' by simp_all
  show "map if_id (db_ifaces d') = map if_id (db_ifaces d)" by (simp only: 2 3 4)
  show "get_node k d = Some a \<Longrightarrow> \<exists>b. get_node k d' = Some b \<and> nd_agent_token_hash b = nd_agent_token_hash a"
    using record_on_node_keeps get_node_same 2 3 4 by metis
  assume g: "get_iface j d = Some i"
  then have g2: "get_iface j d2 = Some i" by (simp only: get_iface_same [OF 2(1)])
  have "\<exists>i'. get_iface j d3 = Some i' \<and>
      (i' \<noteq> i \<longrightarrow> status = Succeeded \<and> payload_row get_iface ''interface_id'' t d2 = Some i \<and> if_node_id i = tk_node_id t) \<and>
      (if_runtime_status i' \<noteq> if_runtime_status i \<or> if_deployed_config i' \<noteq> if_deployed_config i \<longrightarrow>
         task_targets_iface (en_fresh en) t (Some i))"
  proof (cases "status = Succeeded")
    case True
    then have "record_on_interface (en_fresh en) t result d2 = Inr d3" using s3 unfolding if_P [OF True] by blast
    from record_on_interface_reach [OF this g2] show ?thesis using True by blast
  next
    case False
    then show ?thesis using s3 g2 unfolding if_not_P [OF False] by (simp only: sum.inject) blast
  qed
  then show "\<exists>i'. get_iface j d' = Some i' \<and>
      (i' \<noteq> i \<longrightarrow> status = Succeeded \<and> payload_row get_iface ''interface_id'' t d = Some i \<and> if_node_id i = tk_node_id t) \<and>
      (if_runtime_status i' \<noteq> if_runtime_status i \<or> if_deployed_config i' \<noteq> if_deployed_config i \<longrightarrow>
         task_targets_iface (en_fresh en) t (Some i))"
    by (simp only: get_iface_same [OF 4(1)] payload_row_same [OF 2(1)])
qed

section \<open>Properties\<close>


lemma started_evaluated:
  "map_option if_runtime_status (get_iface 1 working_world) = Some ''stopped''"
  "map_option if_runtime_status (get_iface 1
     (snd (agent_task_result (\<lambda>_ _. True) sample_env 1 1 ''t'' Succeeded [] working_world))) = Some ''running''"
  by code_simp+


lemma agent_task_result_recorded:
  "agent_task_result v en k n tok status result d = (Inr (), d') \<longleftrightarrow>
    (\<exists>m t u. require_agent v n tok d = Inr m \<and> get_task k d = Some t \<and> tk_node_id t = n \<and>
      validate_agent_result_json 0 (JObj result) agent_result_budget = Inr u \<and>
      (case normalize_agent_task_report d t status result of (status', result') \<Rightarrow>
        (if tk_status t = Running
         then record_effects en n t status' result' (put_task (finish_task (en_now en) status' result' t) d) = Inr d'
         else tk_status t = status' \<and> d' = d)))"
  unfolding agent_task_result_def
  by (auto split: sum.splits option.splits prod.splits)

lemma normalize_same:
  assumes "map if_id (db_ifaces e) = map if_id (db_ifaces d)" "tk_type u = tk_type t" "tk_payload u = tk_payload t"
  shows "normalize_agent_task_report e u status result = normalize_agent_task_report d t status result"
proof -
  have "get_iface k e = None \<longleftrightarrow> get_iface k d = None" for k
    using assms(1) by (simp add: get_iface_def tb_get_None_iff flip: set_map)
  then have "payload_row get_iface key u e = None \<longleftrightarrow> payload_row get_iface key t d = None" for key
    using assms(3) by (auto simp: payload_row_def payload_of_def Let_def split: option.split)
  then show ?thesis unfolding normalize_agent_task_report_def assms(2) by (simp only:)
qed

text \<open>C29: an agent that repeats a report, because the answer was lost, gets the same answer and
  changes nothing.\<close>

theorem report_may_be_repeated:
  assumes "reachable d" "terminal status"
    and "agent_task_result v en k n tok status result d = (Inr (), d1)"
  shows "agent_task_result v en' k n tok status result d1 = (Inr (), d1)"
proof -
  obtain m t u status' result' where m: "get_node n d = Some m" "v tok (nd_agent_token_hash m)"
    and t: "get_task k d = Some t" "tk_node_id t = n"
    and ok: "validate_agent_result_json 0 (JObj result) agent_result_budget = Inr u"
    and norm: "normalize_agent_task_report d t status result = (status', result')"
    and how: "if tk_status t = Running
         then record_effects en n t status' result' (put_task (finish_task (en_now en) status' result' t) d) = Inr d1
         else tk_status t = status' \<and> d1 = d"
    using assms(3) unfolding agent_task_result_recorded require_agent_Inr by blast
  show ?thesis
  proof (cases "tk_status t = Running")
    case False
    then show ?thesis
      unfolding agent_task_result_recorded require_agent_Inr using m t ok norm how by auto
  next
    case True
    let ?f = "finish_task (en_now en) status' result' t" and ?e = "put_task (finish_task (en_now en) status' result' t) d"
    have eff: "record_effects en n t status' result' ?e = Inr d1" using how True by simp
    have g: "get_task (tk_id t) d = Some t" using t(1) tasks.get_key by blast
    have f: "terminal status'" using normalize_terminal [OF assms(2), of d t result] norm by simp
    have "tasks_evolve ?e d1"
      by (rule record_effects_inv(2) [OF finish_inv_but [OF reachable_inv [OF assms(1)] g True f] eff])
    moreover have "get_task k ?e = Some ?f"
      using t(1) tasks.get_key [OF t(1)] by (simp add: tasks.get_put finish_task_def)
    ultimately obtain w where w: "get_task k d1 = Some w" "task_evolves ?f w" unfolding tasks_evolve_def by blast
    then have w2: "tk_status w = status'" "tk_status w \<noteq> Running" "tk_type w = tk_type t" "tk_payload w = tk_payload t" "tk_node_id w = n"
      using f t(2) by (auto simp: task_evolves_def finish_task_def status_le_terminal)
    obtain m' where m': "get_node n d1 = Some m'" "nd_agent_token_hash m' = nd_agent_token_hash m"
      using record_effects_reach(2) [OF eff, of n m] m(1) by (auto simp: get_node_same [of ?e d])
    have "map if_id (db_ifaces d1) = map if_id (db_ifaces d)"
      using record_effects_reach(1) [OF eff] by simp
    then have "normalize_agent_task_report d1 w status result = (status', result')"
      using normalize_same [OF _ w2(3,4)] norm by simp
    then show ?thesis
      unfolding agent_task_result_recorded require_agent_Inr using m(2) m' w(1) w2 ok by auto
  qed
qed

theorem report_may_be_repeated_witness:
  "agent_task_result (\<lambda>_ _. True) sample_env 1 1 ''t'' Failed [(''error'', JStr ''no'')] run4 = (Inr (), run4)"
proof (rule report_may_be_repeated [OF reachable_run3])
  let ?r = "agent_task_result (\<lambda>_ _. True) sample_env 1 1 ''t'' Failed [(''error'', JStr ''no'')] run3"
  have "fst ?r = Inr ()" using run_evaluated(5) by (cases "fst ?r") (simp_all add: is_ok_def)
  then show "?r = (Inr (), run4)" unfolding run4_def by (metis prod.collapse)
qed simp

text \<open>C28: a refused report leaves the database as it was, with one exception: a result that cannot
  be stored fails the running task it was for, so the task does not stay running for ever.\<close>

theorem refused_report_changes_nothing:
  assumes "agent_task_result v en k n tok status result d = (Inl e, d')"
  shows "d' = d \<or> (\<exists>t msg. e = HTTP 400 msg \<and> validate_agent_result_json 0 (JObj result) agent_result_budget = Inl msg \<and>
    get_task k d = Some t \<and> tk_node_id t = n \<and> tk_status t = Running \<and>
    d' = refresh_plan_opt (tk_change_plan_id t) (put_task (fail_task (en_now en) (JObj [(''error'', JStr msg)]) t) d))"
  using assms unfolding agent_task_result_def
  by (auto split: sum.splits option.splits prod.splits if_splits)

theorem refused_report_changes_nothing_witness:
  "snd (agent_task_result (\<lambda>_ _. True) sample_env 2 1 ''t'' Succeeded [] chain_db) = chain_db"
proof -
  let ?r = "agent_task_result (\<lambda>_ _. True) sample_env 2 1 ''t'' Succeeded [] chain_db"
  have "\<not> is_ok (fst ?r)" by code_simp
  then obtain e where "?r = (Inl e, snd ?r)" by (cases "fst ?r") (simp_all add: is_ok_def prod_eq_iff)
  from refused_report_changes_nothing [OF this]
  have "snd ?r = chain_db \<or> (\<exists>t. get_task 2 chain_db = Some t \<and> tk_status t = Running)" by blast
  moreover have "map_option tk_status (get_task 2 chain_db) = Some Pending" by code_simp
  ultimately show ?thesis by auto
qed

end
