(* ===== verification/QueueLaws.thy ===== *)
theory QueueLaws
  imports TaskLaws
begin

text \<open>
  What the recovery and the dependency check achieve: the exact effect of closing tasks, cycles
  are failed instead of waited for, and a waiting task always waits for work that can go on.
\<close>

section \<open>Cycles\<close>

lemma walk_finds_cycles:
  assumes "walk_dependencies n d t dep seen c = None" "(c, v) \<in> (depends_on d)\<^sup>*"
  shows "(v, v) \<notin> (depends_on d)\<^sup>+"
  using assms
proof (induction n d t dep seen c rule: walk_dependencies.induct)
  case (2 n d t dep seen c)
  have next_walk: "walk_dependencies n d t dep (tk_id c # seen) c' = None"
    if "(c, c') \<in> depends_on d" for c'
    using 2(2) that by (auto simp: depends_on_def split: if_splits)
  from 2(3) show ?case
  proof (cases rule: converse_rtranclE)
    case base
    show ?thesis
    proof
      assume "(v, v) \<in> (depends_on d)\<^sup>+"
      then obtain c' where c': "(c, c') \<in> depends_on d" "(c', c) \<in> (depends_on d)\<^sup>*"
        using base by (metis converse_tranclE trancl_into_rtrancl rtrancl.rtrancl_refl)
      show False using walk_avoids_seen [OF next_walk [OF c'(1)] c'(2)] by simp
    qed
  next
    case (step c')
    then obtain k where k: "task_dependency_id c = Some k" "get_task k d = Some c'"
      by (auto simp: depends_on_def)
    have "tk_id c \<notin> set seen" "tk_node_id c' = tk_node_id t" using 2(2) k by (auto split: if_splits)
    then show ?thesis using 2(1) k next_walk [OF step(1)] step(2) by blast
  qed
qed simp

lemma not_broken:
  assumes "dependency_readiness d t \<noteq> Ready" "\<And>r. dependency_readiness d t \<noteq> Broken r"
  obtains dep u where "task_dependency_id t = Some dep" "get_task dep d = Some u" "tk_node_id u = tk_node_id t"
    "walk_dependencies max_agent_task_dependency_depth d t dep [tk_id t] u = None"
    "tk_status u = Pending \<or> tk_status u = Running"
proof -
  obtain dep where dep: "task_dependency_id t = Some dep"
    using assms by (cases "task_dependency_id t") (auto simp: dependency_readiness_def)
  obtain u where u: "get_task dep d = Some u"
    using assms dep by (cases "get_task dep d") (auto simp: dependency_readiness_def)
  have w: "tk_node_id u = tk_node_id t"
    "walk_dependencies max_agent_task_dependency_depth d t dep [tk_id t] u = None"
    using assms dep u by (auto simp: dependency_readiness_def split: if_splits option.splits)
  have "tk_status u = Pending \<or> tk_status u = Running"
    using assms dep u w by (cases "tk_status u") (auto simp: dependency_readiness_def split: if_splits)
  then show ?thesis using that dep u w by blast
qed

section \<open>Waiting\<close>

lemma walk_reaches_work:
  assumes "walk_dependencies n d t dep seen c = None" "tk_status c = Pending \<or> tk_status c = Running"
    "tk_node_id c = tk_node_id t"
  shows "\<exists>v. (c, v) \<in> (depends_on d)\<^sup>* \<and> tk_node_id v = tk_node_id t \<and>
    (tk_status v = Running \<or> tk_status v = Pending \<and> dependency_readiness d v \<noteq> Waiting)"
  using assms
proof (induction n d t dep seen c rule: walk_dependencies.induct)
  case (2 n d t dep seen c)
  show ?case
  proof (cases "tk_status c = Running \<or> dependency_readiness d c \<noteq> Waiting")
    case True
    then show ?thesis using 2(3,4) by blast
  next
    case False
    then obtain k u where k: "task_dependency_id c = Some k" "get_task k d = Some u" "tk_node_id u = tk_node_id c"
      "tk_status u = Pending \<or> tk_status u = Running"
      using not_broken [of d c] by (metis readiness.distinct(1,5))
    have "tk_id c \<notin> set seen" "walk_dependencies n d t dep (tk_id c # seen) u = None"
      using 2(2,4) k by (auto split: if_splits)
    then obtain v where "(u, v) \<in> (depends_on d)\<^sup>*" "tk_node_id v = tk_node_id t"
      "tk_status v = Running \<or> tk_status v = Pending \<and> dependency_readiness d v \<noteq> Waiting"
      using 2(1) [OF _ k(1,2)] k(3,4) 2(4) by auto
    moreover have "(c, u) \<in> depends_on d" using k(1,2) by (auto simp: depends_on_def)
    ultimately show ?thesis by (meson converse_rtrancl_into_rtrancl)
  qed
qed simp

section \<open>Closing tasks\<close>

lemma close_fold_exact:
  assumes "\<And>u. still u \<Longrightarrow> tk_id (close u) = tk_id u" "distinct (map tk_id ts)"
    and "\<And>t. t \<in> set ts \<Longrightarrow> get_task (tk_id t) d \<noteq> None"
  shows "get_task k (fst (fold (close_task still close) ts (d, c, ps))) =
    (case get_task k d of None \<Rightarrow> None
     | Some u \<Rightarrow> Some (if k \<in> set (map tk_id ts) \<and> still u then close u else u))"
  using assms(2,3)
proof (induction ts arbitrary: d c ps)
  case Nil
  then show ?case by (cases "get_task k d") simp_all
next
  case (Cons t ts)
  obtain u where u: "get_task (tk_id t) d = Some u" using Cons.prems(2) by fastforce
  have id: "tk_id u = tk_id t" using tasks.get_key [OF u] .
  show ?case
  proof (cases "still u")
    case True
    let ?d = "put_task (close u) d"
    have c: "tk_id (close u) = tk_id t" using assms(1) True id by simp
    have g: "get_task j ?d = (if j = tk_id t then Some (close u) else get_task j d)" for j
      using u c by (simp add: tasks.get_put)
    have "get_task (tk_id x) ?d \<noteq> None" if "x \<in> set ts" for x using Cons.prems that g by simp
    then show ?thesis
      using Cons.IH [of ?d] Cons.prems(1) u True by (auto simp: close_task_def g split: option.split)
  next
    case False
    then show ?thesis
      using Cons.IH [of d c ps] Cons.prems u by (auto simp: close_task_def split: option.split)
  qed
qed

lemma close_tasks_exact:
  assumes "tasks_wf d" "\<And>u. still u \<Longrightarrow> tk_id (close u) = tk_id u"
  shows "get_task k (snd (close_tasks selected still close d)) =
    (case get_task k d of None \<Rightarrow> None
     | Some u \<Rightarrow> Some (if selected u \<and> still u then close u else u))"
proof -
  let ?ts = "tasks_by_id (filter selected (db_tasks d))"
  have dist: "distinct (map tk_id (db_tasks d))" using assms(1) by (simp add: tasks_wf_def tb_wf_def)
  have mem: "t \<in> set ?ts \<longleftrightarrow> t \<in> set (db_tasks d) \<and> selected t" for t by (auto simp: tasks_by_id_def)
  have found: "get_task (tk_id t) d = Some t" if "t \<in> set (db_tasks d)" for t
    using tasks.get_if_in [OF dist that] .
  have ids: "k \<in> set (map tk_id ?ts) \<longleftrightarrow> selected u" if u: "get_task k d = Some u" for u
  proof
    assume "k \<in> set (map tk_id ?ts)"
    then obtain t where t: "t \<in> set (db_tasks d)" "selected t" "tk_id t = k" using mem by auto
    then show "selected u" using found [OF t(1)] u by simp
  next
    assume "selected u"
    then show "k \<in> set (map tk_id ?ts)" using tasks.get_SomeD [OF u] mem by fastforce
  qed
  have "get_task (tk_id t) d \<noteq> None" if "t \<in> set ?ts" for t
    using that found mem by simp
  moreover have "distinct (map tk_id ?ts)" using dist by (auto simp: tasks_by_id_def distinct_map inj_on_def)
  ultimately have "get_task k (fst (fold (close_task still close) ?ts (d, 0, []))) =
    (case get_task k d of None \<Rightarrow> None
     | Some u \<Rightarrow> Some (if k \<in> set (map tk_id ?ts) \<and> still u then close u else u))"
    using close_fold_exact [OF assms(2)] by blast
  then show ?thesis
    using ids by (cases "get_task k d") (simp_all add: close_tasks_def case_prod_beta)
qed

section \<open>Properties\<close>

text \<open>C27: a task whose chain of dependencies runs into a cycle is reported as broken: it is failed
  by the next poll instead of waiting for ever.\<close>

theorem dependency_cycles_are_broken:
  assumes "(t, v) \<in> (depends_on d)\<^sup>*" "(v, v) \<in> (depends_on d)\<^sup>+"
  shows "\<exists>r. dependency_readiness d t = Broken r"
proof (rule ccontr)
  assume nb: "\<nexists>r. dependency_readiness d t = Broken r"
  have "(t, v) \<in> (depends_on d)\<^sup>+" using assms by (metis rtranclD trancl_rtrancl_trancl rtrancl_trancl_trancl)
  then obtain u where u: "(t, u) \<in> depends_on d" "(u, v) \<in> (depends_on d)\<^sup>*" by (metis tranclD)
  then obtain k where k: "task_dependency_id t = Some k" "get_task k d = Some u" by (auto simp: depends_on_def)
  have "walk_dependencies max_agent_task_dependency_depth d t k [tk_id t] u = None"
    using nb k by (auto simp: dependency_readiness_def split: if_splits option.splits)
  then show False using walk_finds_cycles [OF _ u(2)] assms(2) by blast
qed

definition loop_db :: db where
  "loop_db = sample_db [
     sample_task 1 ''wireguard.status'' [(''depends_on_task_id'', JInt 2)] Pending,
     sample_task 2 ''wireguard.status'' [(''depends_on_task_id'', JInt 1)] Pending]"

theorem dependency_cycles_are_broken_witness:
  "\<exists>r. dependency_readiness loop_db (the (get_task 1 loop_db)) = Broken r"
proof -
  let ?t = "the (get_task 1 loop_db)" and ?u = "the (get_task 2 loop_db)"
  have "get_task 1 loop_db = Some ?t" "get_task 2 loop_db = Some ?u"
    "task_dependency_id ?t = Some 2" "task_dependency_id ?u = Some 1" by code_simp+
  then have "(?t, ?u) \<in> depends_on loop_db" "(?u, ?t) \<in> depends_on loop_db" by (auto simp: depends_on_def)
  then have "(?t, ?t) \<in> (depends_on loop_db)\<^sup>+" by (meson r_into_trancl trancl_into_trancl)
  then show ?thesis by (rule dependency_cycles_are_broken [OF rtrancl.rtrancl_refl])
qed

text \<open>C26: no deadlock: a task that waits for its dependency waits, along the chain, for a task of
  its own node that is running, or that is pending and not waiting itself, so a later poll or
  report makes progress.\<close>

theorem waiting_tasks_wait_for_work:
  assumes "dependency_readiness d t = Waiting"
  shows "\<exists>v. (t, v) \<in> (depends_on d)\<^sup>+ \<and> tk_node_id v = tk_node_id t \<and>
    (tk_status v = Running \<or> tk_status v = Pending \<and> dependency_readiness d v \<noteq> Waiting)"
proof -
  obtain dep u where u: "task_dependency_id t = Some dep" "get_task dep d = Some u" "tk_node_id u = tk_node_id t"
    "walk_dependencies max_agent_task_dependency_depth d t dep [tk_id t] u = None"
    "tk_status u = Pending \<or> tk_status u = Running"
    using not_broken [of d t] assms by auto
  obtain v where "(u, v) \<in> (depends_on d)\<^sup>*" "tk_node_id v = tk_node_id t \<and>
    (tk_status v = Running \<or> tk_status v = Pending \<and> dependency_readiness d v \<noteq> Waiting)"
    using walk_reaches_work [OF u(4,5,3)] by blast
  moreover have "(t, u) \<in> depends_on d" using u(1,2) by (auto simp: depends_on_def)
  ultimately show ?thesis by (meson rtrancl_into_trancl2)
qed

theorem waiting_tasks_wait_for_work_witness:
  "\<exists>v. (the (get_task 3 chain_db), v) \<in> (depends_on chain_db)\<^sup>+ \<and>
     (tk_status v = Running \<or> tk_status v = Pending \<and> dependency_readiness chain_db v \<noteq> Waiting)"
proof -
  have "dependency_readiness chain_db (the (get_task 3 chain_db)) = Waiting" by code_simp
  from waiting_tasks_wait_for_work [OF this] show ?thesis by blast
qed

text \<open>the recovery is exact: a running task of the chosen nodes that was started more than two
  hours ago fails with a timeout, a pending one past its deadline fails as overdue, and every
  other task is left as it is.\<close>

theorem recovery_is_exact:
  assumes "tasks_wf d"
  shows "get_task k (snd (expire_stale_running_agent_tasks node now d)) = map_option
      (\<lambda>t. if stale_running now t \<and> for_node node t then fail_task now timed_out_result t else t) (get_task k d) \<and>
    get_task k (snd (expire_overdue_pending_agent_tasks node now d)) = map_option
      (\<lambda>t. if overdue_pending now t \<and> for_node node t then fail_task now (overdue_result t) t else t) (get_task k d)"
proof
  have i: "tk_id (fail_task now r u) = tk_id u" for r u by (simp add: fail_task_def)
  show "get_task k (snd (expire_stale_running_agent_tasks node now d)) = map_option
      (\<lambda>t. if stale_running now t \<and> for_node node t then fail_task now timed_out_result t else t) (get_task k d)"
    unfolding expire_stale_running_agent_tasks_def close_tasks_exact [OF assms i]
    by (auto simp: stale_running_def split: option.split)
  show "get_task k (snd (expire_overdue_pending_agent_tasks node now d)) = map_option
      (\<lambda>t. if overdue_pending now t \<and> for_node node t then fail_task now (overdue_result t) t else t) (get_task k d)"
    unfolding expire_overdue_pending_agent_tasks_def close_tasks_exact [OF assms i]
    by (auto split: option.split)
qed

end
