(* ===== verification/DeployLaws.thy ===== *)
theory DeployLaws
  imports ReportLaws QueueLaws
begin

text \<open>
  What the handlers queue: stopping an interface supersedes the deployments still pending, and
  starting a GRE endpoint comes after applying its configuration.
\<close>

section \<open>Pending tasks after cancelling and enqueueing\<close>

lemma in_tasks_iff: "tasks_wf d \<Longrightarrow> t \<in> set (db_tasks d) \<longleftrightarrow> get_task (tk_id t) d = Some t"
  using in_tasks_get tasks.get_SomeD by blast

text \<open>The tasks after closing some: old ones, or closed ones.\<close>

lemma in_closed_tasks:
  assumes "tasks_wf d" "\<And>u. still u \<Longrightarrow> tk_id (close u) = tk_id u"
    and "t \<in> set (db_tasks (snd (close_tasks selected still close d)))"
  shows "\<exists>u \<in> set (db_tasks d). t = (if selected u \<and> still u then close u else u)"
proof -
  let ?e = "snd (close_tasks selected still close d)"
  have keys: "map tk_id (db_tasks ?e) = map tk_id (db_tasks d)"
  proof -
    have "map tk_id (db_tasks (fst (fold (close_task still close) ts acc))) = map tk_id (db_tasks (fst acc))" for ts acc
      by (induction ts arbitrary: acc) (simp_all add: close_task_def tasks.keys_put split: prod.split option.split)
    then show ?thesis by (simp add: close_tasks_def case_prod_beta)
  qed
  have wf: "tasks_wf ?e" using assms(1) unfolding tasks_wf_def tb_wf_keys keys .
  have "get_task (tk_id t) ?e = Some t" using in_tasks_iff [OF wf] assms(3) by blast
  then have "(case get_task (tk_id t) d of None \<Rightarrow> None
     | Some u \<Rightarrow> Some (if selected u \<and> still u then close u else u)) = Some t"
    by (subst (asm) close_tasks_exact [OF assms(1), of still close]) (use assms(2) in auto)
  then obtain u where "get_task (tk_id t) d = Some u" "(if selected u \<and> still u then close u else u) = t"
    by (cases "get_task (tk_id t) d") auto
  then show ?thesis using tasks.get_SomeD by blast
qed

lemma still_pending:
  assumes "tasks_wf d" "\<And>u. still u \<Longrightarrow> tk_id (close u) = tk_id u" "\<And>u. tk_status (close u) \<noteq> Pending"
    and "t \<in> set (db_tasks (snd (close_tasks selected still close d)))" "tk_status t = Pending"
  shows "t \<in> set (db_tasks d)" "\<not> (selected t \<and> still t)"
proof -
  obtain u where u: "u \<in> set (db_tasks d)" "t = (if selected u \<and> still u then close u else u)"
    using in_closed_tasks [OF assms(1,2,4)] by blast
  have "\<not> (selected u \<and> still u)" using u(2) assms(3) [of u] assms(5) by (metis (full_types))
  then show "t \<in> set (db_tasks d)" "\<not> (selected t \<and> still t)" using u by auto
qed

lemma close_tasks_wf:
  assumes "tasks_wf d" "closing still close"
  shows "tasks_wf (snd (close_tasks selected still close d))"
  using close_tasks_laws [of still close d selected] assms by (simp add: closing_def)

text \<open>No task of the given types is pending for the interface.\<close>

definition none_pending :: "int \<Rightarrow> string set \<Rightarrow> db \<Rightarrow> bool" where
  "none_pending k tys d = (\<forall>t \<in> set (db_tasks d). tk_status t = Pending \<and>
     payload_int (tk_payload t) ''interface_id'' k \<longrightarrow> tk_type t \<notin> tys)"

lemma none_pendingI:
  "(\<And>t. t \<in> set (db_tasks d) \<Longrightarrow> tk_status t = Pending \<Longrightarrow> t \<in> set (db_tasks e) \<or> tk_type t \<notin> tys) \<Longrightarrow>
    none_pending k tys e \<Longrightarrow> none_pending k tys d"
  unfolding none_pending_def by blast

lemma cancel_task_simps [simp]: "tk_id (cancel_task now r u) = tk_id u" "tk_status (cancel_task now r u) = Cancelled"
  by (simp_all add: cancel_task_def)

lemma cancel_clears:
  assumes "tasks_wf d"
  shows "none_pending k {ty} (snd (cancel_pending_interface_tasks now k ty r d))"
  unfolding none_pending_def
proof (intro ballI impI)
  fix t assume t: "t \<in> set (db_tasks (snd (cancel_pending_interface_tasks now k ty r d)))"
    and p: "tk_status t = Pending \<and> payload_int (tk_payload t) ''interface_id'' k"
  have "\<not> (iface_task k ty [Pending] t \<and> tk_status t = Pending)"
    by (rule still_pending(2) [OF assms _ _ t [unfolded cancel_pending_interface_tasks_def]]) (use p in simp_all)
  then show "tk_type t \<notin> {ty}" using p by (simp add: iface_task_def)
qed

lemma cancel_keeps_cleared:
  assumes "tasks_wf d" "none_pending k tys d"
  shows "none_pending k tys (snd (cancel_pending_interface_tasks now j ty r d))"
proof (rule none_pendingI [OF _ assms(2)])
  fix t assume "t \<in> set (db_tasks (snd (cancel_pending_interface_tasks now j ty r d)))" "tk_status t = Pending"
  then have "t \<in> set (db_tasks d)"
    unfolding cancel_pending_interface_tasks_def by (rule still_pending(1) [OF assms(1), rotated 2]) simp_all
  then show "t \<in> set (db_tasks d) \<or> tk_type t \<notin> tys" ..
qed

lemma cancel_wf: "tasks_wf d \<Longrightarrow> tasks_wf (snd (cancel_pending_interface_tasks now j ty r d))"
  unfolding cancel_pending_interface_tasks_def
  by (rule close_tasks_wf) (simp_all add: closing_def cancel_task_evolves, simp add: cancel_task_def)

lemma cancel_deployment_clears:
  assumes "tasks_wf d"
  shows "none_pending (if_id i) {ts_apply_config wireguard_tasks, ts_start wireguard_tasks}
    (snd (cancel_pending_interface_deployment_tasks now i d))"
    "tasks_wf (snd (cancel_pending_interface_deployment_tasks now i d))"
proof -
  let ?d1 = "snd (cancel_pending_interface_tasks now (if_id i) (ts_apply_config wireguard_tasks) superseded_text d)"
  let ?d2 = "snd (cancel_pending_interface_tasks now (if_id i) (ts_start wireguard_tasks) superseded_text ?d1)"
  have e: "snd (cancel_pending_interface_deployment_tasks now i d) = ?d2"
    by (simp add: cancel_pending_interface_deployment_tasks_def case_prod_beta)
  have "none_pending (if_id i) {ts_apply_config wireguard_tasks} ?d2"
    by (rule cancel_keeps_cleared [OF cancel_wf [OF assms] cancel_clears [OF assms]])
  moreover have "none_pending (if_id i) {ts_start wireguard_tasks} ?d2" by (rule cancel_clears [OF cancel_wf [OF assms]])
  ultimately show "none_pending (if_id i) {ts_apply_config wireguard_tasks, ts_start wireguard_tasks}
    (snd (cancel_pending_interface_deployment_tasks now i d))"
    unfolding e none_pending_def by blast
  show "tasks_wf (snd (cancel_pending_interface_deployment_tasks now i d))"
    unfolding e by (intro cancel_wf assms)
qed

text \<open>Enqueueing a task of one type leaves every other pending task as it was.\<close>

lemma stale_in:
  assumes "tasks_wf d" "t \<in> set (db_tasks (snd (expire_stale_running_agent_tasks n now d)))" "tk_status t = Pending"
  shows "t \<in> set (db_tasks d)"
  using assms(2,3) unfolding expire_stale_running_agent_tasks_def
  by (rule still_pending(1) [OF assms(1), rotated 2]) simp_all

lemma get_interface_task_type:
  "get_interface_task k ty ss d = Some t \<Longrightarrow> t \<in> set (db_tasks d) \<and> tk_type t = ty \<and> tk_status t \<in> set ss"
  by (auto simp: get_interface_task_def tasks_by_id_def iface_task_def dest!: first_of_Some)

text \<open>What an enqueued task is, and that the tasks of other types are left.\<close>

definition queued :: "string \<Rightarrow> db \<Rightarrow> task \<Rightarrow> db \<Rightarrow> bool" where
  "queued ty d t d' = (t \<in> set (db_tasks d') \<and> tk_type t = ty \<and> (tk_status t = Pending \<or> tk_status t = Running) \<and>
     (\<forall>u \<in> set (db_tasks d'). u \<in> set (db_tasks d) \<or> tk_type u = ty))"

lemma queued_found: "t \<in> set (db_tasks d) \<Longrightarrow> tk_type t = ty \<Longrightarrow> tk_status t = Pending \<or> tk_status t = Running \<Longrightarrow> queued ty d t d"
  by (simp add: queued_def)

lemma queued_frame: "db_tasks e = db_tasks d \<Longrightarrow> queued ty e t d' = queued ty d t d'" "db_tasks e' = db_tasks d' \<Longrightarrow> queued ty d t e' = queued ty d t d'"
  by (simp_all add: queued_def)

lemma queued_replaced:
  assumes "t \<in> set (db_tasks d)" "tk_type t = ty" "tk_status t = Pending"
  shows "queued ty d (replace_payload p t) (put_task (replace_payload p t) d)"
proof -
  let ?r = "replace_payload p t"
  have r: "tk_id ?r = tk_id t" "tk_type ?r = ty" "tk_status ?r = Pending" using assms by (simp_all add: replace_payload_def)
  have "?r \<in> set (db_tasks (put_task ?r d))"
    using assms(1) r(1) by (force simp: put_task_def tb_put_def image_iff)
  moreover have "u \<in> set (db_tasks d) \<or> tk_type u = ty" if "u \<in> set (db_tasks (put_task ?r d))" for u
    using in_tasks_put [OF that] r(2) by blast
  ultimately show ?thesis using r unfolding queued_def by blast
qed

lemma queued_inserted:
  assumes "insert_task t d = Some (t', d')" "tk_type t = ty" "tk_status t = Pending"
  shows "queued ty d t' d'"
  using assms by (auto simp: insert_task_def queued_def add_task_def Let_def split: if_splits)

lemma enqueue_interface_task_queued:
  assumes "enqueue_interface_task fresh now i ty extra up queue d0 = Inr (c, t, d')"
  shows "queued ty (snd (expire_stale_running_agent_tasks (Some (if_node_id i)) now d0)) t d'"
proof -
  let ?d = "snd (expire_stale_running_agent_tasks (Some (if_node_id i)) now d0)"
  obtain payload i' where p: "interface_task_payload fresh i extra = (payload, i')" by fastforce
  let ?d1 = "put_iface i' ?d"
  let ?t = "(new_task (if_node_id i) None ty payload)\<lparr>tk_dedup_key := Some (interface_task_dedup_key (if_id i) ty)\<rparr>"
  have t: "tk_type ?t = ty" "tk_status ?t = Pending" by (simp_all add: new_task_def)
  have frame: "queued ty ?d x e = queued ty ?d1 x e" for x e by (rule queued_frame(1)) simp
  show ?thesis
  proof (cases "get_interface_task (if_id i) ty [Pending] ?d")
    case (Some e)
    note e = get_interface_task_type [OF Some]
    have "t = (if up then replace_payload payload e else e) \<and>
        d' = (if up then put_task (replace_payload payload e) ?d1 else ?d)"
      using assms unfolding enqueue_interface_task_def Let_def p prod.case Some option.case
      by (cases up) auto
    then show ?thesis
      using e queued_found [of e ?d] queued_replaced [of e ?d1] by (cases up) (simp_all add: frame)
  next
    case None
    let ?run = "get_interface_task (if_id i) ty [Running] ?d"
    let ?supported = "case get_node (if_node_id i) ?d of None \<Rightarrow> Inr () | Some n \<Rightarrow> require_task_supported n ty"
    let ?tail = "case insert_task ?t ?d1 of
       Some (t', d2) \<Rightarrow> Inr (True, t', d2)
     | None \<Rightarrow> (case get_interface_task (if_id i) ty [Pending, Running] ?d1 of
         None \<Rightarrow> Inl (HTTP 500 ''integrity error'')
       | Some e \<Rightarrow> if up \<and> tk_status e = Pending
           then let e' = replace_payload payload e in Inr (True, e', put_task e' ?d1)
           else Inr (False, e, ?d1))"
    have eq: "enqueue_interface_task fresh now i ty extra up queue d0 =
        (if \<not> queue \<and> ?run \<noteq> None then Inr (False, the ?run, ?d) else rbind ?supported (\<lambda>_. ?tail))"
      unfolding enqueue_interface_task_def p Let_def prod.case None option.case
      by (cases queue; cases ?run) simp_all
    show ?thesis
    proof (cases "\<not> queue \<and> ?run \<noteq> None")
      case True
      then obtain e where e: "?run = Some e" by blast
      have "Inr (False, the ?run, ?d) = (Inr (c, t, d') :: (bool \<times> task \<times> db) reply)"
        using assms unfolding eq if_P [OF True] .
      then have "t = e" "d' = ?d" using e by simp_all
      then show ?thesis using get_interface_task_type [OF e] queued_found by simp
    next
      case False
      then have tail: "?tail = Inr (c, t, d')"
        using assms unfolding eq if_not_P [OF False] by (simp only: res_simps) blast
      show ?thesis
      proof (cases "insert_task ?t ?d1")
        case (Some td)
        then have "insert_task ?t ?d1 = Some (t, d')" using tail by (cases td) simp
        then show ?thesis unfolding frame by (rule queued_inserted [OF _ t])
      next
        case None
        then obtain e where e: "get_interface_task (if_id i) ty [Pending, Running] ?d1 = Some e"
          using tail by (cases "get_interface_task (if_id i) ty [Pending, Running] ?d1") simp_all
        note et = get_interface_task_type [OF e]
        show ?thesis
        proof (cases "up \<and> tk_status e = Pending")
          case True
          then have "t = replace_payload payload e" "d' = put_task (replace_payload payload e) ?d1"
            using tail None e by (auto simp: Let_def)
          then show ?thesis unfolding frame using queued_replaced et True by blast
        next
          case False
          then have "t = e \<and> d' = ?d1" using tail None e by (auto simp: Let_def split: if_splits)
          then show ?thesis unfolding frame using queued_found [of e ?d1 ty] et by simp
        qed
      qed
    qed
  qed
qed

section \<open>Stopping an interface\<close>

lemma queued_keeps_cleared:
  assumes "queued ty e t d'" "none_pending k tys d" "ty \<notin> tys"
    and "\<And>u. u \<in> set (db_tasks e) \<Longrightarrow> tk_status u = Pending \<Longrightarrow> u \<in> set (db_tasks d)"
  shows "none_pending k tys d'"
  unfolding none_pending_def
proof (intro ballI impI)
  fix u assume u: "u \<in> set (db_tasks d')" "tk_status u = Pending \<and> payload_int (tk_payload u) ''interface_id'' k"
  have "u \<in> set (db_tasks e) \<or> tk_type u = ty" using assms(1) u(1) unfolding queued_def by blast
  then show "tk_type u \<notin> tys"
  proof
    assume "u \<in> set (db_tasks e)"
    then have "u \<in> set (db_tasks d)" using assms(4) u(2) by blast
    then show ?thesis using assms(2) u(2) unfolding none_pending_def by blast
  qed (use assms(3) in simp)
qed

text \<open>when a running interface is stopped, the deployments of it that no agent has claimed yet
  are cancelled: no apply or start task stays pending behind the stop, and a stop task is
  queued or under way.\<close>

theorem stop_supersedes_deployments:
  assumes "tasks_wf d" "get_iface k d = Some i" "if_runtime_status i \<notin> {''stopped'', ''stopping''}"
    and "stop_interface en k d = Inr d'"
  shows "(\<forall>t \<in> set (db_tasks d'). tk_status t = Pending \<and> payload_int (tk_payload t) ''interface_id'' k \<longrightarrow>
      tk_type t \<noteq> ''wireguard.apply_config'' \<and> tk_type t \<noteq> ''wireguard.start_interface'') \<and>
    (\<exists>t \<in> set (db_tasks d'). tk_type t = ''wireguard.stop_interface'' \<and> (tk_status t = Pending \<or> tk_status t = Running))"
proof -
  let ?d1 = "snd (cancel_pending_interface_deployment_tasks (en_now en) i d)"
  obtain c t d2 where q: "enqueue_interface_task (en_fresh en) (en_now en) i (ts_stop wireguard_tasks)
      (stop_after (running_interface_deployment_task_id i ?d1)) True False ?d1 = Inr (c, t, d2)"
    and d': "db_tasks d' = db_tasks d2"
  proof -
    have found: "get_wireguard_config_or_404 k d = Inr i" by (simp add: get_wireguard_config_or_404_def assms(2))
    let ?rest = "rbind (enqueue_interface_task (en_fresh en) (en_now en) i (ts_stop wireguard_tasks)
      (stop_after (running_interface_deployment_task_id i ?d1)) True False ?d1)
      (\<lambda>(changed, _, d2). Inr (if changed then set_runtime_status ''stopping'' i d2 else d2))"
    have "(if if_source i = ''managed-node'' then Inl (HTTP 400 ''use managed link operation'') else ?rest) = Inr d'"
      using assms(4) unfolding stop_interface_def found rbind_Inr Let_def if_not_P [OF assms(3)]
      by (simp only: rbind_eq_Inr) blast
    then have "?rest = Inr d'" by (simp split: if_splits)
    then obtain x where x: "enqueue_interface_task (en_fresh en) (en_now en) i (ts_stop wireguard_tasks)
        (stop_after (running_interface_deployment_task_id i ?d1)) True False ?d1 = Inr x"
      "(case x of (changed, _, d2) \<Rightarrow> Inr (if changed then set_runtime_status ''stopping'' i d2 else d2)) = (Inr d' :: db reply)"
      unfolding rbind_eq_Inr by blast
    obtain c t d2 where "x = (c, t, d2)" by (metis prod_cases3)
    moreover have "db_tasks (set_runtime_status s i d2) = db_tasks d2" for s by (simp add: set_runtime_status_def)
    ultimately show ?thesis using that [of c t d2] x by (cases c) auto
  qed
  have k: "if_id i = k" using ifaces.get_key [OF assms(2)] .
  note cl = cancel_deployment_clears [OF assms(1), where i = i and now = "en_now en"]
  note qd = enqueue_interface_task_queued [OF q]
  have "ts_stop wireguard_tasks \<notin> {ts_apply_config wireguard_tasks, ts_start wireguard_tasks}" by simp
  then have "none_pending k {ts_apply_config wireguard_tasks, ts_start wireguard_tasks} d2"
    by (rule queued_keeps_cleared [OF qd cl(1) [unfolded k]]) (rule stale_in [OF cl(2)])
  then have "none_pending k {ts_apply_config wireguard_tasks, ts_start wireguard_tasks} d'"
    unfolding none_pending_def d' .
  then have "\<forall>t \<in> set (db_tasks d'). tk_status t = Pending \<and> payload_int (tk_payload t) ''interface_id'' k \<longrightarrow>
      tk_type t \<noteq> ts_apply_config wireguard_tasks \<and> tk_type t \<noteq> ts_start wireguard_tasks"
    unfolding none_pending_def by blast
  moreover have "t \<in> set (db_tasks d') \<and> tk_type t = ts_stop wireguard_tasks \<and> (tk_status t = Pending \<or> tk_status t = Running)"
    using qd unfolding queued_def d' by blast
  ultimately show ?thesis unfolding wireguard_task_names by blast
qed

section \<open>Starting a GRE endpoint\<close>

text \<open>The task made by \<open>create_connection_endpoint_task\<close> with \<open>update_pending\<close> and
  \<open>queue_after_running\<close>, as a fresh or a refreshed pending task.\<close>

definition endpoint_payload :: "fields \<Rightarrow> fields \<Rightarrow> bool" where
  "endpoint_payload extra p = (\<exists>base. p = dict_update base extra \<or>
     (\<exists>v. p = setdefault ''depends_on_task_id'' v (dict_update base extra)))"

definition made :: "int \<Rightarrow> string \<Rightarrow> fields \<Rightarrow> db \<Rightarrow> task \<Rightarrow> db \<Rightarrow> bool" where
  "made k ty extra d t d' = (tasks_wf d' \<and> tk_type t = ty \<and> tk_status t = Pending \<and> t \<in> set (db_tasks d') \<and>
     (\<exists>p. tk_payload t = JObj p \<and> endpoint_payload extra p) \<and>
     (\<forall>u \<in> set (db_tasks d). tk_type u \<noteq> ty \<longrightarrow> u \<in> set (db_tasks d')) \<and>
     (\<forall>u \<in> set (db_tasks d'). u \<in> set (db_tasks d) \<or> tk_type u = ty \<and>
        (tk_dedup_key u = Some (endpoint_dedup_key k ty) \<or>
         (\<exists>w \<in> set (db_tasks d). tk_status w = Pending \<and> tk_type w = ty \<and> tk_dedup_key w = tk_dedup_key u))))"

text \<open>A pending task of the endpoint has the type its deduplication key was made for.\<close>

definition keys_typed :: "int \<Rightarrow> string \<Rightarrow> db \<Rightarrow> bool" where
  "keys_typed k ty d = (\<forall>u \<in> set (db_tasks d).
     tk_status u = Pending \<and> tk_dedup_key u = Some (endpoint_dedup_key k ty) \<longrightarrow> tk_type u = ty)"

lemma made_replaced:
  assumes "u \<in> set (db_tasks d)" "tk_type u = ty" "tk_status u = Pending" "tasks_wf d" "endpoint_payload extra p"
  shows "made k ty extra d (replace_payload (JObj p) u) (put_task (replace_payload (JObj p) u) d)"
proof -
  let ?r = "replace_payload (JObj p) u"
  have r: "tk_id ?r = tk_id u" "tk_type ?r = ty" "tk_status ?r = Pending" "tk_payload ?r = JObj p"
    "tk_dedup_key ?r = tk_dedup_key u"
    using assms(2,3) by (simp_all add: replace_payload_def)
  have "?r \<in> set (db_tasks (put_task ?r d))" using assms(1) r(1) by (force simp: put_task_def tb_put_def image_iff)
  moreover have "x \<in> set (db_tasks (put_task ?r d))" if x: "x \<in> set (db_tasks d)" "tk_type x \<noteq> ty" for x
  proof -
    have "tk_id x \<noteq> tk_id u"
    proof
      assume "tk_id x = tk_id u"
      then have "Some x = Some u"
        using in_tasks_get [OF assms(4) x(1)] in_tasks_get [OF assms(4) assms(1)] by (simp only:)
      then show False using x(2) assms(2) by (simp only: option.inject)
    qed
    then show ?thesis using x(1) r(1) by (force simp: put_task_def tb_put_def image_iff)
  qed
  moreover have "x \<in> set (db_tasks d) \<or> tk_type x = ty \<and>
      (\<exists>w \<in> set (db_tasks d). tk_status w = Pending \<and> tk_type w = ty \<and> tk_dedup_key w = tk_dedup_key x)"
    if "x \<in> set (db_tasks (put_task ?r d))" for x
    using in_tasks_put [OF that] assms(1-3) r by metis
  moreover have "tasks_wf (put_task ?r d)" using assms(4) by (rule tasks_wf_put)
  ultimately show ?thesis using r assms(5) unfolding made_def by blast
qed

lemma made_inserted:
  assumes "insert_task t d = Some (t', d')" "tk_type t = ty" "tk_status t = Pending" "tk_payload t = JObj p"
    and "tk_dedup_key t = Some (endpoint_dedup_key k ty)" "tasks_wf d" "endpoint_payload extra p"
  shows "made k ty extra d t' d'"
proof -
  have "t' = t\<lparr>tk_id := next_id tk_id (db_tasks d)\<rparr>" "db_tasks d' = db_tasks d @ [t']"
    using assms(1) by (auto simp: insert_task_def add_task_def Let_def split: if_splits)
  then have "tk_type t' = ty" "tk_status t' = Pending" "tk_payload t' = JObj p" "set (db_tasks d') = insert t' (set (db_tasks d))"
    "tk_dedup_key t' = Some (endpoint_dedup_key k ty)" "tasks_wf d'"
    using assms(2-6) by (auto simp: tasks_wf_def intro: tb_wf_insert)
  then show ?thesis using assms(7) unfolding made_def by simp
qed

lemma made_frame: "db_tasks e = db_tasks d \<Longrightarrow> made k ty extra e t d' = made k ty extra d t d'"
  by (simp add: made_def)

lemma insert_endpoint_task_made:
  assumes "insert_endpoint_task e ty p True d = Inr (t, d')" "tasks_wf d" "keys_typed (ep_id e) ty d" "endpoint_payload extra p"
  shows "made (ep_id e) ty extra d t d'"
proof -
  let ?key = "endpoint_dedup_key (ep_id e) ty"
  let ?t = "(new_task (ep_node_id e) None ty (JObj p))\<lparr>tk_dedup_key := Some ?key\<rparr>"
  have t: "tk_type ?t = ty" "tk_status ?t = Pending" "tk_payload ?t = JObj p" "tk_dedup_key ?t = Some ?key"
    by (simp_all add: new_task_def)
  show ?thesis
  proof (cases "insert_task ?t d")
    case (Some td)
    then have "insert_task ?t d = Some (t, d')" using assms(1) by (cases td) (simp add: insert_endpoint_task_def Let_def)
    then show ?thesis by (rule made_inserted [OF _ t assms(2,4)])
  next
    case None
    let ?found = "first_of (tasks_by_id (filter (\<lambda>u. tk_dedup_key u = Some ?key \<and> tk_status u = Pending) (db_tasks d)))"
    obtain u where u: "?found = Some u"
      using assms(1) None by (cases ?found) (simp_all add: insert_endpoint_task_def Let_def)
    have m: "u \<in> set (db_tasks d)" "tk_dedup_key u = Some ?key" "tk_status u = Pending" using tasks_by_id_in [OF u] by auto
    have "tk_type u = ty" using assms(3) m unfolding keys_typed_def by blast
    moreover have "t = replace_payload (JObj p) u" "d' = put_task (replace_payload (JObj p) u) d"
      using assms(1) None u by (auto simp: insert_endpoint_task_def Let_def)
    ultimately show ?thesis using made_replaced m assms(2,4) by blast
  qed
qed

lemma endpoint_task_made:
  assumes "create_connection_endpoint_task fresh e ty extra True True d0 = Inr (t, d')"
    and "tasks_wf d0" "keys_typed (ep_id e) ty d0"
  shows "made (ep_id e) ty extra d0 t d'"
proof -
  let ?d = "put_endpoint (snd (gre_task_payload fresh e)) d0"
  let ?p = "dict_update (fst (gre_task_payload fresh e)) extra"
  have frame: "made k ty extra d0 t d' = made k ty extra ?d t d'" for k by (rule made_frame) simp
  have wf: "tasks_wf ?d" using assms(2) by (simp add: tasks_wf_def)
  have ty: "keys_typed (ep_id e) ty ?d" using assms(3) by (simp add: keys_typed_def)
  have pl: "endpoint_payload extra ?p" "endpoint_payload extra (setdefault ''depends_on_task_id'' v ?p)" for v
    unfolding endpoint_payload_def by blast+
  have body: "(case first_endpoint_task (ep_id e) [ty] Pending ?d of
      Some u \<Rightarrow> Inr (replace_payload (JObj ?p) u, put_task (replace_payload (JObj ?p) u) ?d)
    | None \<Rightarrow> (case last_endpoint_task (ep_id e) [ty] Running ?d of
        Some r \<Rightarrow> insert_endpoint_task e ty (setdefault ''depends_on_task_id'' (JInt (tk_id r)) ?p) True ?d
      | None \<Rightarrow> insert_endpoint_task e ty ?p True ?d)) = Inr (t, d')"
    using assms(1) unfolding create_connection_endpoint_task_def Let_def case_prod_beta
    by (simp only: rbind_eq_Inr if_True not_True_eq_False if_False) blast
  show ?thesis
  proof (cases "first_endpoint_task (ep_id e) [ty] Pending ?d")
    case (Some u)
    have "u \<in> set (db_tasks ?d) \<and> endpoint_task (ep_id e) [ty] Pending u"
      using tasks_by_id_in Some unfolding first_endpoint_task_def by blast
    then have "u \<in> set (db_tasks ?d)" "tk_type u = ty" "tk_status u = Pending" by (simp_all add: endpoint_task_def)
    moreover have "t = replace_payload (JObj ?p) u \<and> d' = put_task (replace_payload (JObj ?p) u) ?d"
      using body unfolding Some by auto
    ultimately show ?thesis unfolding frame using made_replaced wf pl(1) by blast
  next
    case None
    then show ?thesis
      unfolding frame using body insert_endpoint_task_made [OF _ wf ty pl(1)] insert_endpoint_task_made [OF _ wf ty pl(2)]
      by (cases "last_endpoint_task (ep_id e) [ty] Running ?d") simp_all
  qed
qed

lemma depends_on_entry:
  "endpoint_payload (depends_entry (Some a)) p \<Longrightarrow> dget p ''depends_on_task_id'' = JInt (tk_id a)"
  by (auto simp: endpoint_payload_def depends_entry_def dict_update_def setdefault_def)

lemma dedup_key_inj: "endpoint_dedup_key k ty = endpoint_dedup_key k ty' \<longleftrightarrow> ty = ty'"
  by (simp add: endpoint_dedup_key_def)

text \<open>deploying a GRE endpoint leaves a pending apply task and a pending start task of it, and
  the start depends on the apply, whether the tasks are new or pending ones were refreshed.\<close>

theorem gre_start_follows_apply:
  assumes "tasks_wf d" "keys_typed (ep_id e) ''gre.apply_config'' d" "keys_typed (ep_id e) ''gre.start_interface'' d"
    and "enqueue_gre_apply_and_start fresh e d = Inr d'"
  shows "\<exists>a s. a \<in> set (db_tasks d') \<and> tk_type a = ''gre.apply_config'' \<and> tk_status a = Pending \<and>
    s \<in> set (db_tasks d') \<and> tk_type s = ''gre.start_interface'' \<and> tk_status s = Pending \<and>
    task_dependency_id s = Some (tk_id a)"
proof -
  let ?ap = "ts_apply_config gre_tasks" and ?st = "ts_start gre_tasks"
  obtain x a d1 s d2 where
    1: "create_connection_endpoint_task fresh e ?ap x True True d = Inr (a, d1)"
    and 2: "create_connection_endpoint_task fresh (reload_endpoint e d1) ?st (depends_entry (Some a)) True True d1 = Inr (s, d2)"
    and d': "d' = set_endpoint_status ''starting'' e d2"
    using assms(4) unfolding enqueue_gre_apply_and_start_def Let_def case_prod_beta
    by (simp only: rbind_eq_Inr sum.inject) (metis prod.collapse)
  have ty: "keys_typed (ep_id e) ?ap d" "keys_typed (ep_id e) ?st d" using assms(2,3) by simp_all
  have neq: "?ap \<noteq> ?st" by simp
  note ma = endpoint_task_made [OF 1 assms(1) ty(1)]
  have id: "ep_id (reload_endpoint e d1) = ep_id e"
    by (cases "get_endpoint (ep_id e) d1") (simp_all add: reload_endpoint_def endpoints.get_key)
  have "keys_typed (ep_id e) ?st d1"
    unfolding keys_typed_def
  proof (intro ballI impI)
    fix u assume u: "u \<in> set (db_tasks d1)" "tk_status u = Pending \<and> tk_dedup_key u = Some (endpoint_dedup_key (ep_id e) ?st)"
    consider "u \<in> set (db_tasks d)" | "tk_dedup_key u = Some (endpoint_dedup_key (ep_id e) ?ap)"
      | w where "w \<in> set (db_tasks d)" "tk_status w = Pending" "tk_type w = ?ap" "tk_dedup_key w = tk_dedup_key u"
      using ma u(1) unfolding made_def by blast
    then show "tk_type u = ?st"
    proof cases
      case 1
      then show ?thesis using ty(2) u(2) unfolding keys_typed_def by blast
    next
      case 2
      then show ?thesis using u(2) neq by (simp only: option.inject dedup_key_inj) 
    next
      case (3 w)
      then have "tk_type w = ?st" using ty(2) u(2) unfolding keys_typed_def by (simp only:)
      then show ?thesis using 3(3) neq by (simp only:)
    qed
  qed
  then have ms: "made (ep_id e) ?st (depends_entry (Some a)) d1 s d2"
    using endpoint_task_made [OF 2] ma unfolding id made_def by blast
  obtain p where p: "tk_payload s = JObj p" "dget p ''depends_on_task_id'' = JInt (tk_id a)"
    using ms depends_on_entry unfolding made_def by blast
  have a: "a \<in> set (db_tasks d1)" "tk_type a = ?ap" "tk_status a = Pending" "tasks_wf d1"
    using ma unfolding made_def by blast+
  have "0 < tk_id a" using a(1,4) by (auto simp: tasks_wf_def tb_wf_def list_all_iff)
  then have "task_dependency_id s = Some (tk_id a)"
    using p by (simp add: task_dependency_id_def payload_of_def json_object_def json_int_def)
  moreover have "\<forall>u \<in> set (db_tasks d1). tk_type u \<noteq> ?st \<longrightarrow> u \<in> set (db_tasks d2)" using ms unfolding made_def by blast
  then have "a \<in> set (db_tasks d2)" using a(1,2) neq by simp
  moreover have "s \<in> set (db_tasks d2)" "tk_type s = ?st" "tk_status s = Pending" using ms unfolding made_def by blast+
  moreover have "db_tasks d' = db_tasks d2" by (simp add: d' set_endpoint_status_def)
  ultimately show ?thesis using a(2,3) unfolding gre_task_names by metis
qed

end
