(* ===== verification/AgentText.thy ===== *)
theory AgentText
  imports JsonLimits
begin

text \<open>
  The texts an agent reports: UTF-8 and its bounded cuts. \<open>truncate_task_error\<close> (agent main.py)
  keeps the two texts of a failure within 64 KiB each, \<open>sanitize_error\<close> (link_monitor.py) keeps
  the error of a probe on one line of 500 bytes. Texts hold code points below 256, so a
  character takes one byte or two; a cut may fall between the two, and the decoder drops the
  half that is left.
\<close>

section \<open>UTF-8\<close>

type_synonym bytes = "int list"

definition utf8_char :: "char \<Rightarrow> bytes" where
  "utf8_char c = (if code c < 128 then [code c] else [192 + code c div 64, 128 + code c mod 64])"

definition utf8_encode :: "string \<Rightarrow> bytes" where
  "utf8_encode s = concat (map utf8_char s)"

text \<open>\<open>decode("utf-8", errors="ignore")\<close> for the two forms above.\<close>

fun utf8_decode :: "bytes \<Rightarrow> string" where
  "utf8_decode [] = []"
| "utf8_decode [b] = (if b < 128 then [char_of b] else [])"
| "utf8_decode (b # c # bs) =
     (if b < 128 then char_of b # utf8_decode (c # bs)
      else if 192 \<le> b \<and> b < 196 \<and> 128 \<le> c \<and> c < 192
        then char_of (64 * (b - 192) + (c - 128)) # utf8_decode bs
      else utf8_decode (c # bs))"

text \<open>The slice \<open>xs[:k]\<close>.\<close>

definition py_take :: "int \<Rightarrow> 'a list \<Rightarrow> 'a list" where
  "py_take k xs = (if 0 \<le> k then take (nat k) xs else take (length xs - nat (- k)) xs)"

lemma code_range: "0 \<le> code c" "code c < 256"
proof -
  have "code c = code c mod 256" unfolding code_def by (rule of_char_mod_256 [symmetric])
  then show "0 \<le> code c" "code c < 256" by (metis pos_mod_sign zero_less_numeral, metis pos_mod_bound zero_less_numeral)
qed

lemma char_of_code [simp]: "char_of (code c) = c"
  by (simp add: code_def)

lemma utf8_char_length: "int (length (utf8_char c)) = (if code c < 128 then 1 else 2)"
  by (simp add: utf8_char_def)

lemma utf8_encode_simps [simp]:
  "utf8_encode [] = []" "utf8_encode (c # s) = utf8_char c @ utf8_encode s"
  by (simp_all add: utf8_encode_def)

lemma utf8_length_simps [simp]:
  "utf8_length [] = 0" "utf8_length (c # s) = (if code c < 128 then 1 else 2) + utf8_length s"
  "utf8_length (s @ t) = utf8_length s + utf8_length t"
  by (simp_all add: utf8_length_def)

lemma utf8_encode_length: "int (length (utf8_encode s)) = utf8_length s"
  by (induction s) (simp_all add: utf8_char_length)

lemma utf8_length_nonneg: "0 \<le> utf8_length s"
  using utf8_encode_length [of s] by linarith

lemma utf8_decode_ascii: "code c < 128 \<Longrightarrow> utf8_decode (code c # bs) = c # utf8_decode bs"
  by (cases bs) simp_all

lemma utf8_decode_two:
  assumes "\<not> code c < 128"
  shows "utf8_decode ((192 + code c div 64) # (128 + code c mod 64) # bs) = c # utf8_decode bs"
proof -
  have "code c div 64 < 4" using code_range(2) [of c] by linarith
  moreover have "0 \<le> code c div 64" using code_range(1) [of c] by simp
  moreover have "64 * (code c div 64) + code c mod 64 = code c" by simp
  ultimately show ?thesis by simp
qed

text \<open>A cut of an encoded text decodes to the longest prefix of the text that fits.\<close>

lemma utf8_cut:
  "\<exists>m \<le> length s. utf8_decode (take n (utf8_encode s)) = take m s \<and> utf8_length (take m s) \<le> int n \<and>
     (m < length s \<longrightarrow> int n < utf8_length (take (Suc m) s))"
proof (induction s arbitrary: n)
  case Nil
  show ?case by simp
next
  case (Cons c s)
  show ?case
  proof (cases "code c < 128")
    case True
    show ?thesis
    proof (cases n)
      case 0
      then show ?thesis using True by (intro exI [of _ 0]) (simp add: utf8_char_def)
    next
      case (Suc k)
      obtain m where m: "m \<le> length s" "utf8_decode (take k (utf8_encode s)) = take m s"
        "utf8_length (take m s) \<le> int k" "m < length s \<longrightarrow> int k < utf8_length (take (Suc m) s)"
        using Cons.IH by blast
      show ?thesis using m True Suc
        by (intro exI [of _ "Suc m"]) (simp add: utf8_char_def utf8_decode_ascii)
    qed
  next
    case False
    consider "n < 2" | k where "n = Suc (Suc k)" proof -
      show thesis if "n < 2 \<Longrightarrow> thesis" "\<And>k. n = Suc (Suc k) \<Longrightarrow> thesis" for thesis
        using that by (cases n; cases "n - 1") auto
    qed
    then show ?thesis
    proof cases
      case 1
      have "\<not> 192 + code c div 64 < 128" using code_range(1) [of c] by simp
      then have "utf8_decode (take n (utf8_encode (c # s))) = []"
        using 1 False by (cases n) (simp_all add: utf8_char_def)
      then show ?thesis using 1 False by (intro exI [of _ 0]) simp
    next
      case (2 k)
      obtain m where m: "m \<le> length s" "utf8_decode (take k (utf8_encode s)) = take m s"
        "utf8_length (take m s) \<le> int k" "m < length s \<longrightarrow> int k < utf8_length (take (Suc m) s)"
        using Cons.IH by blast
      have "utf8_decode (take n (utf8_encode (c # s))) = take (Suc m) (c # s)"
        using utf8_decode_two [OF False, of "take k (utf8_encode s)"] m(2) False 2
        by (simp only: utf8_encode_simps utf8_char_def if_False append_Cons append_Nil take_Suc_Cons)
      then show ?thesis using m False 2 by (intro exI [of _ "Suc m"]) simp
    qed
  qed
qed

lemma utf8_round_trip: "utf8_decode (utf8_encode s) = s"
proof (induction s)
  case (Cons c s)
  then show ?case
    by (cases "code c < 128") (simp_all only: utf8_encode_simps utf8_char_def if_True if_False append_Cons append_Nil utf8_decode_ascii utf8_decode_two not_False_eq_True)
qed simp

section \<open>Cut texts\<close>

text \<open>The common part of \<open>truncate_task_error\<close> and \<open>sanitize_error\<close>: cut and mark.\<close>

definition cut_text :: "int \<Rightarrow> string \<Rightarrow> string \<Rightarrow> string" where
  "cut_text max_bytes marker s =
     (let encoded = utf8_encode s in
      if int (length encoded) \<le> max_bytes then s
      else utf8_decode (py_take (max_bytes - int (length (utf8_encode marker))) encoded) @ marker)"

definition truncation_marker :: string where
  "truncation_marker = CHR 0x0A # ''...[truncated by agent]''"

definition truncate_task_error :: "int \<Rightarrow> string \<Rightarrow> string" where
  "truncate_task_error max_bytes value = cut_text max_bytes truncation_marker value"

definition max_task_error_bytes :: int where "max_task_error_bytes = 64 * 1024"

text \<open>\<open>sanitize_error\<close>: \<open>" ".join(text.split())\<close>, then the control characters are dropped;
  below 256 the Unicode category C has the C0 and C1 controls and the soft hyphen.\<close>

function split_words :: "string \<Rightarrow> string list" where
  "split_words s = (case dropWhile is_space s of [] \<Rightarrow> []
     | c # cs \<Rightarrow> (c # takeWhile (\<lambda>x. \<not> is_space x) cs) # split_words (dropWhile (\<lambda>x. \<not> is_space x) cs))"
  by auto

termination
proof (relation "measure length")
  fix s c cs assume "dropWhile is_space s = c # cs"
  then have "length (c # cs) \<le> length s" by (metis length_dropWhile_le)
  moreover have "length (dropWhile (\<lambda>x. \<not> is_space x) cs) \<le> length cs" by (rule length_dropWhile_le)
  ultimately show "(dropWhile (\<lambda>x. \<not> is_space x) cs, s) \<in> measure length" by simp
qed simp

declare split_words.simps [simp del]

definition category_c :: "char \<Rightarrow> bool" where
  "category_c c = (code c < 0x20 \<or> (0x7F \<le> code c \<and> code c < 0xA0) \<or> code c = 0xAD)"

definition printable_char :: "char \<Rightarrow> bool" where
  "printable_char c = (0x20 \<le> code c \<and> code c \<noteq> 0x7F \<and> \<not> category_c c)"

definition sanitize_error :: "int \<Rightarrow> string \<Rightarrow> string" where
  "sanitize_error max_bytes value =
     cut_text max_bytes '' ...[truncated]'' (filter printable_char (join '' '' (split_words value)))"

definition max_probe_error_bytes :: int where "max_probe_error_bytes = 500"

lemma cut_text_spec:
  assumes "utf8_length marker \<le> max_bytes"
  shows "utf8_length (cut_text max_bytes marker s) \<le> max_bytes \<and>
    (if utf8_length s \<le> max_bytes then cut_text max_bytes marker s = s
     else \<exists>m < length s. cut_text max_bytes marker s = take m s @ marker \<and>
       max_bytes < utf8_length (take (Suc m) s) + utf8_length marker)"
proof (cases "utf8_length s \<le> max_bytes")
  case True
  then show ?thesis by (simp add: cut_text_def utf8_encode_length)
next
  case False
  define n where "n = nat (max_bytes - utf8_length marker)"
  have n: "int n = max_bytes - utf8_length marker" using assms by (simp add: n_def)
  obtain m where m: "m \<le> length s" "utf8_decode (take n (utf8_encode s)) = take m s"
    "utf8_length (take m s) \<le> int n" "m < length s \<longrightarrow> int n < utf8_length (take (Suc m) s)"
    using utf8_cut by blast
  have "m \<noteq> length s" using m(3) False n utf8_length_nonneg [of marker] by auto
  then have "m < length s" using m(1) by simp
  moreover have "cut_text max_bytes marker s = take m s @ marker"
    using False assms m(2) by (simp add: cut_text_def utf8_encode_length py_take_def n_def)
  ultimately show ?thesis using False m(3,4) n by auto
qed

end
