(* ===== verification/HttpFront.thy ===== *)
theory HttpFront
  imports AgentText
begin

text \<open>
  The front of the controller (http_security.py): every request body is read in chunks up to
  the limit of its path before a handler sees it. And the size of what an agent posts
  (\<open>AgentClient._post_json\<close>, client.py), so that the two can be compared.
\<close>

section \<open>The limit of a path\<close>

definition login_body_limit :: int where "login_body_limit = 16 * 1024"
definition third_party_body_limit :: int where "third_party_body_limit = 64 * 1024"
definition agent_body_limit :: int where "agent_body_limit = 1024 * 1024"
definition logo_body_limit :: int where "logo_body_limit = 3 * 1024 * 1024"
definition global_body_limit :: int where "global_body_limit = 4 * 1024 * 1024"

definition request_body_limit :: "string \<Rightarrow> int" where
  "request_body_limit path =
     (if path = ''/api/auth/login'' then login_body_limit
      else if path = ''/api/settings/logo'' then logo_body_limit
      else if starts_with path ''/api/agent/'' then agent_body_limit
      else if starts_with path ''/third-party-api/'' then third_party_body_limit
      else global_body_limit)"

section \<open>Reading a body\<close>

text \<open>A message from the server: a piece of the body with its \<open>more_body\<close> flag, or the end of
  the connection. A body is a text of bytes.\<close>

datatype message = Disconnect | Chunk string bool

datatype front = Waiting | Gone | TooLarge | Body string

text \<open>\<open>int(content_length)\<close> on bytes: unlike for a text, only ASCII and only the six white-space
  bytes of C are read.\<close>

definition bytes_int :: "string \<Rightarrow> int option" where
  "bytes_int s = (if list_all (\<lambda>c. code c < 128 \<and> \<not> (28 \<le> code c \<and> code c < 32)) s then py_int s else None)"

fun read_body :: "int \<Rightarrow> string \<Rightarrow> message list \<Rightarrow> front" where
  "read_body limit body [] = Waiting"
| "read_body limit body (Disconnect # ms) = Gone"
| "read_body limit body (Chunk chunk more # ms) =
     (if limit < int (length body) + int (length chunk) then TooLarge
      else if \<not> more then Body (body @ chunk)
      else read_body limit (body @ chunk) ms)"

definition limit_request_body :: "string \<Rightarrow> string option \<Rightarrow> message list \<Rightarrow> front" where
  "limit_request_body path content_length messages =
     (let limit = request_body_limit path;
          declared = (case content_length of None \<Rightarrow> True | Some v \<Rightarrow>
            v = [] \<or> (case bytes_int v of None \<Rightarrow> False | Some n \<Rightarrow> n \<le> limit)) in
      if declared then read_body limit [] messages else TooLarge)"

lemma read_body_chunks:
  "read_body limit body (map (\<lambda>c. Chunk c True) cs @ [Chunk c False]) =
     (if int (length body) + int (length (concat cs)) + int (length c) \<le> limit
      then Body (body @ concat cs @ c) else TooLarge)"
  by (induction cs arbitrary: body) auto

lemma read_body_bound: "read_body limit body ms = Body b \<Longrightarrow> int (length b) \<le> limit"
  by (induction limit body ms rule: read_body.induct) (auto split: if_splits)

section \<open>The size of a posted value\<close>

text \<open>The length of \<open>json.dumps(payload)\<close>, which escapes everything outside ASCII.\<close>

definition ascii_char_length :: "char \<Rightarrow> int" where
  "ascii_char_length c =
     (if c \<in> {CHR 0x22, CHR 0x5C, CHR 0x08, CHR 0x09, CHR 0x0A, CHR 0x0C, CHR 0x0D} then 2
      else if 0x20 \<le> code c \<and> code c < 0x7F then 1 else 6)"

definition ascii_str_length :: "string \<Rightarrow> int" where
  "ascii_str_length s = 2 + sum_list (map ascii_char_length s)"

fun body_length :: "json \<Rightarrow> int" where
  "body_length JNull = 4"
| "body_length (JBool b) = (if b then 4 else 5)"
| "body_length (JInt n) = int (length (show_int n))"
| "body_length (JFloat t) = dump_float_length t"
| "body_length (JStr s) = ascii_str_length s"
| "body_length (JList xs) = 2 + 2 * max 0 (int (length xs) - 1) + sum_list (map body_length xs)"
| "body_length (JObj d) = 2 + 2 * max 0 (int (length d) - 1)
     + sum_list (map (\<lambda>(k, v). ascii_str_length k + 2 + body_length v) d)"

lemma ascii_char_bound: "ascii_char_length c \<le> 6 * (if code c < 128 then 1 else 2)"
  by (simp add: ascii_char_length_def)

lemma ascii_str_bound: "ascii_str_length s \<le> 2 + 6 * utf8_length s"
proof -
  have "sum_list (map ascii_char_length s) \<le> 6 * utf8_length s"
  proof (induction s)
    case (Cons c s)
    then show ?case using ascii_char_bound [of c] by simp
  qed simp
  then show ?thesis by (simp add: ascii_str_length_def)
qed

section \<open>Properties\<close>

text \<open>C36: a request body reaches a handler only whole and within the limit of its path: when the
  chunks fit they are handed on joined in order, and otherwise the request is refused, whatever
  length it declared.\<close>

theorem request_bodies_are_bounded:
  fixes cs :: "string list" and c :: string
  defines "sent \<equiv> concat cs @ c" and "ms \<equiv> map (\<lambda>c. Chunk c True) cs @ [Chunk c False]"
  shows "(limit_request_body path None ms =
      (if int (length sent) \<le> request_body_limit path then Body sent else TooLarge)) \<and>
    limit_request_body path (Some v) ms \<in> {limit_request_body path None ms, TooLarge}"
  by (simp add: limit_request_body_def read_body_chunks sent_def ms_def Let_def split: option.split)

end
