(* ===== verification/Agent.thy ===== *)
theory Agent
  imports HttpFront ConnTypes
begin

text \<open>
  The agent: its client (client.py) with the reports the controller has not confirmed, the
  dispatch of a task to its handler (task_handlers.py, plugins/registry.py), and one round of
  the main loop (main.py). What is outside the process, the network with the controller behind
  it and the machine, is a state of type \<open>'w\<close> threaded through two parameters: \<open>post\<close> sends a
  request, \<open>exec\<close> runs a task.
\<close>

section \<open>Requests\<close>

record agent_config =
  cf_node_id :: int
  cf_token :: string
  cf_poll_interval :: int

record snapshot =
  sn_capabilities :: "string list"
  sn_platform :: fields

record report =
  rp_status :: string
  rp_result :: fields

datatype request =
    Register string snapshot
  | Heartbeat snapshot
  | PollTasks snapshot
  | ReportTask int report
  | PollMonitors snapshot
  | ReportMonitors "json list"

definition agent_version :: string where "agent_version = ''0.6.25''"
definition agent_protocol_version :: int where "agent_protocol_version = 1"

definition auth_payload :: "agent_config \<Rightarrow> fields" where
  "auth_payload cf = [(''node_id'', JInt (cf_node_id cf)), (''token'', JStr (cf_token cf))]"

definition agent_payload :: "snapshot \<Rightarrow> fields" where
  "agent_payload sn =
     [(''agent_version'', JStr agent_version), (''protocol_version'', JInt agent_protocol_version),
      (''capabilities'', JList (map JStr (sn_capabilities sn))), (''platform'', JObj (sn_platform sn))]"

definition request_path :: "request \<Rightarrow> string" where
  "request_path r = (case r of
      Register _ _ \<Rightarrow> ''/api/agent/register''
    | Heartbeat _ \<Rightarrow> ''/api/agent/heartbeat''
    | PollTasks _ \<Rightarrow> ''/api/agent/tasks/poll''
    | ReportTask k _ \<Rightarrow> ''/api/agent/tasks/'' @ show_int k @ ''/result''
    | PollMonitors _ \<Rightarrow> ''/api/agent/link-monitors/poll''
    | ReportMonitors _ \<Rightarrow> ''/api/agent/link-monitors/result'')"

definition request_payload :: "agent_config \<Rightarrow> request \<Rightarrow> fields" where
  "request_payload cf r = (case r of
      Register hostname sn \<Rightarrow> auth_payload cf @ agent_payload sn @ [(''hostname'', JStr hostname)]
    | Heartbeat sn \<Rightarrow> auth_payload cf @ agent_payload sn
    | PollTasks sn \<Rightarrow> auth_payload cf @ agent_payload sn
    | ReportTask k rp \<Rightarrow> auth_payload cf @ [(''status'', JStr (rp_status rp)), (''result'', JObj (rp_result rp))]
    | PollMonitors sn \<Rightarrow> auth_payload cf @ agent_payload sn
    | ReportMonitors rs \<Rightarrow> auth_payload cf @ [(''results'', JList rs)])"

text \<open>What a call gives: \<open>AgentConnectionError\<close>, \<open>AgentHttpError\<close>, or another exception, such as a
  connection lost while the answer is read or an answer without the field that is asked for.\<close>

datatype agent_error = ConnectionError | HttpError int | OtherError

record agent_task =
  at_id :: int
  at_type :: string
  at_payload :: json

record target =
  tg_id :: int
  tg_host :: string
  tg_timeout_ms :: int

datatype response = Done | Tasks "agent_task list" | Targets "target list"

type_synonym 'w post = "request \<Rightarrow> 'w \<Rightarrow> (agent_error, response) result \<times> 'w"

section \<open>Acting on the outside\<close>

record agent =
  ag_outbox :: "(int \<times> report) list"

type_synonym ('w, 'a) act = "agent \<times> 'w \<Rightarrow> (agent_error, 'a) result \<times> (agent \<times> 'w)"

definition give :: "'a \<Rightarrow> ('w, 'a) act" where
  "give x s = (Inr x, s)"

definition abind :: "('w, 'a) act \<Rightarrow> ('a \<Rightarrow> ('w, 'b) act) \<Rightarrow> ('w, 'b) act" where
  "abind m f s = (case m s of (Inl e, s1) \<Rightarrow> (Inl e, s1) | (Inr x, s1) \<Rightarrow> f x s1)"

definition send_request :: "'w post \<Rightarrow> request \<Rightarrow> ('w, response) act" where
  "send_request post r s = (case post r (snd s) of (x, w) \<Rightarrow> (x, (fst s, w)))"

section \<open>Reports\<close>

definition drop_report :: "int \<Rightarrow> agent \<Rightarrow> agent" where
  "drop_report k a = a\<lparr>ag_outbox := AList.delete k (ag_outbox a)\<rparr>"

text \<open>The answers after which a report is not sent again.\<close>

definition final_refusal :: "int \<Rightarrow> bool" where
  "final_refusal c = (400 \<le> c \<and> c < 500 \<and> c \<notin> {401, 403, 408, 429})"

definition send_task_report :: "'w post \<Rightarrow> int \<Rightarrow> report \<Rightarrow> ('w, unit) act" where
  "send_task_report post k rp s = (case s of (a, w) \<Rightarrow>
     (case post (ReportTask k rp) w of
       (Inr _, w1) \<Rightarrow> (Inr (), (drop_report k a, w1))
     | (Inl (HttpError c), w1) \<Rightarrow> (Inl (HttpError c), (if final_refusal c then drop_report k a else a, w1))
     | (Inl e, w1) \<Rightarrow> (Inl e, (a, w1))))"

definition report_task :: "'w post \<Rightarrow> int \<Rightarrow> string \<Rightarrow> fields \<Rightarrow> ('w, unit) act" where
  "report_task post k status result s = (case s of (a, w) \<Rightarrow>
     (let rp = \<lparr>rp_status = status, rp_result = result\<rparr> in
      send_task_report post k rp (a\<lparr>ag_outbox := AList.update k rp (ag_outbox a)\<rparr>, w)))"

text \<open>The loop of \<open>retry_task_reports\<close> runs over a copy of the outbox; only the two exceptions of
  the client are caught.\<close>

fun retry_reports :: "'w post \<Rightarrow> (int \<times> report) list \<Rightarrow> ('w, unit) act" where
  "retry_reports post [] s = (Inr (), s)"
| "retry_reports post ((k, rp) # rs) s = (case send_task_report post k rp s of
      (Inl OtherError, s1) \<Rightarrow> (Inl OtherError, s1)
    | (_, s1) \<Rightarrow> retry_reports post rs s1)"

definition retry_task_reports :: "'w post \<Rightarrow> ('w, unit) act" where
  "retry_task_reports post s = retry_reports post (ag_outbox (fst s)) s"

section \<open>Running a task\<close>

text \<open>A handler raises an exception with its text and the traceback, or returns its result.\<close>

type_synonym failure = "string \<times> string"
type_synonym 'w exec = "agent_task \<Rightarrow> 'w \<Rightarrow> (failure, fields) result \<times> 'w"
type_synonym 'w handler = "string \<Rightarrow> fields \<Rightarrow> 'w \<Rightarrow> (failure, fields) result \<times> 'w"

text \<open>The keys of \<open>TASK_HANDLERS\<close>, and the plugins with their actions.\<close>

definition registered_tasks :: "string list" where
  "registered_tasks =
     [''wireguard.import_scan'', ''wireguard.apply_config'', ''wireguard.read_config'', ''wireguard.status'',
      ''wireguard.start_interface'', ''wireguard.stop_interface'', ''wireguard.delete_config'',
      ''gre.apply_config'', ''gre.read_config'', ''gre.status'', ''gre.start_interface'',
      ''gre.stop_interface'', ''gre.delete_config'',
      ''looking_glass.bird.route_lookup'', ''looking_glass.bird.routes_by_origin_as'',
      ''looking_glass.bird.protocols'', ''looking_glass.bird.protocol_detail'',
      ''looking_glass.ping'', ''looking_glass.traceroute'',
      ''middleware.install'', ''middleware.udp2raw.apply'', ''middleware.udp2raw.start'',
      ''middleware.udp2raw.stop'', ''middleware.udp2raw.delete'', ''middleware.udp2raw.status'',
      ''middleware.mimic.apply'', ''middleware.mimic.start'', ''middleware.mimic.stop'',
      ''middleware.mimic.delete'', ''middleware.mimic.status'', ''agent.self_upgrade'']"

definition agent_node_plugins :: "(string \<times> string list) list" where
  "agent_node_plugins =
     [(''bird'', [''list'', ''read'', ''validate'', ''apply'', ''apply_many'', ''status'']),
      (''port_inventory'', [''scan''])]"

definition plugin_action :: "string \<Rightarrow> (string, string \<times> string) result" where
  "plugin_action task_type = (case split_on CHR ''.'' task_type of
      [head, plugin, action] \<Rightarrow>
        if head \<noteq> ''node_plugin'' then Inl (''invalid node plugin task type: '' @ task_type)
        else (case map_of agent_node_plugins plugin of
            None \<Rightarrow> Inl (''unsupported node plugin: '' @ plugin)
          | Some actions \<Rightarrow> if List.member actions action then Inr (plugin, action)
              else Inl (''unsupported node plugin action: '' @ action))
    | _ \<Rightarrow> Inl (''invalid node plugin task type: '' @ task_type))"

text \<open>\<open>execute_registered_task\<close>: \<open>handle\<close> stands for the functions of the table, \<open>plugin\<close> for the
  \<open>execute\<close> methods of the plugins, \<open>trace\<close> for the text of the traceback.\<close>

definition execute_registered_task ::
  "(string \<Rightarrow> string) \<Rightarrow> 'w handler \<Rightarrow> (string \<Rightarrow> 'w handler) \<Rightarrow> string \<Rightarrow> fields \<Rightarrow> 'w \<Rightarrow> (failure, fields) result \<times> 'w" where
  "execute_registered_task trace handle plugin task_type payload w =
     (if starts_with task_type ''node_plugin.'' then
        (case plugin_action task_type of
          Inl msg \<Rightarrow> (Inl (msg, trace msg), w)
        | Inr (name, action) \<Rightarrow> plugin name action payload w)
      else if List.member registered_tasks task_type then handle task_type payload w
      else (let msg = ''unsupported task type: '' @ task_type in (Inl (msg, trace msg), w)))"

definition execute_task ::
  "(string \<Rightarrow> string) \<Rightarrow> 'w handler \<Rightarrow> (string \<Rightarrow> 'w handler) \<Rightarrow> 'w exec" where
  "execute_task trace handle plugin t w = (case at_payload t of
      JObj payload \<Rightarrow> execute_registered_task trace handle plugin (at_type t) payload w
    | _ \<Rightarrow> (let msg = ''agent task payload must be an object'' in (Inl (msg, trace msg), w)))"

definition failure_result :: "failure \<Rightarrow> fields" where
  "failure_result f =
     [(''error'', JStr (truncate_task_error max_task_error_bytes (fst f))),
      (''traceback'', JStr (truncate_task_error max_task_error_bytes (snd f)))]"

text \<open>The body of the loop over the polled tasks; an exception of the report is swallowed.\<close>

definition outcome :: "(failure, fields) result \<Rightarrow> string \<times> fields" where
  "outcome x = (case x of Inr result \<Rightarrow> (''succeeded'', result) | Inl f \<Rightarrow> (''failed'', failure_result f))"

definition perform_task :: "'w post \<Rightarrow> 'w exec \<Rightarrow> agent_task \<Rightarrow> agent \<times> 'w \<Rightarrow> agent \<times> 'w" where
  "perform_task post exec t s = (case exec t (snd s) of (x, w) \<Rightarrow>
     snd (report_task post (at_id t) (fst (outcome x)) (snd (outcome x)) (fst s, w)))"

definition perform_tasks :: "'w post \<Rightarrow> 'w exec \<Rightarrow> agent_task list \<Rightarrow> agent \<times> 'w \<Rightarrow> agent \<times> 'w" where
  "perform_tasks post exec ts = fold (perform_task post exec) ts"

section \<open>Link monitors\<close>

text \<open>
  The probes run in a pool of threads; their effects on the outside are taken in the order of
  the targets, in which the results are placed. When a probe raises, the report of its failure
  calls \<open>link_monitor.sanitize_error\<close>, a name main.py does not import, so that the whole batch
  ends in an exception.
\<close>

type_synonym 'w prober = "target \<Rightarrow> 'w \<Rightarrow> json option \<times> 'w"

fun probe_all :: "'w prober \<Rightarrow> target list \<Rightarrow> 'w \<Rightarrow> json option list \<times> 'w" where
  "probe_all probe [] w = ([], w)"
| "probe_all probe (t # ts) w =
     (case probe t w of (r, w1) \<Rightarrow> (case probe_all probe ts w1 of (rs, w2) \<Rightarrow> (r # rs, w2)))"

definition probe_link_monitors :: "'w prober \<Rightarrow> target list \<Rightarrow> ('w, json list) act" where
  "probe_link_monitors probe ts s = (case probe_all probe ts (snd s) of (rs, w) \<Rightarrow>
     (if list_all (\<lambda>r. r \<noteq> None) rs then Inr (map the rs) else Inl OtherError, (fst s, w)))"

definition link_monitor_worker_count :: "int \<Rightarrow> string option \<Rightarrow> int" where
  "link_monitor_worker_count n workers =
     (if n \<le> 0 then 0
      else (let configured = (case workers of None \<Rightarrow> 8 | Some v \<Rightarrow> (case py_int v of None \<Rightarrow> 8 | Some k \<Rightarrow> k)) in
        max 1 (min n (if 0 < configured then configured else 1))))"

section \<open>One round\<close>

definition tasks_of :: "response \<Rightarrow> ('w, agent_task list) act" where
  "tasks_of r s = (case r of Tasks ts \<Rightarrow> (Inr ts, s) | _ \<Rightarrow> (Inl OtherError, s))"

definition targets_of :: "response \<Rightarrow> ('w, target list) act" where
  "targets_of r s = (case r of Targets ts \<Rightarrow> (Inr ts, s) | _ \<Rightarrow> (Inl OtherError, s))"

text \<open>New tasks are asked for only when no report is waiting.\<close>

definition fetch_tasks :: "'w post \<Rightarrow> snapshot \<Rightarrow> ('w, agent_task list) act" where
  "fetch_tasks post sn s =
     (if ag_outbox (fst s) \<noteq> [] then (Inr [], s) else abind (send_request post (PollTasks sn)) tasks_of s)"

definition work_round :: "'w post \<Rightarrow> 'w exec \<Rightarrow> snapshot \<Rightarrow> ('w, unit) act" where
  "work_round post exec sn =
     abind (send_request post (Heartbeat sn)) (\<lambda>_.
     abind (retry_task_reports post) (\<lambda>_.
     abind (fetch_tasks post sn) (\<lambda>ts s. (Inr (), perform_tasks post exec ts s))))"

definition monitor_round :: "'w post \<Rightarrow> 'w prober \<Rightarrow> snapshot \<Rightarrow> ('w, unit) act" where
  "monitor_round post probe sn =
     abind (abind (send_request post (PollMonitors sn)) targets_of) (\<lambda>targets.
     abind (probe_link_monitors probe targets) (\<lambda>results.
       if results = [] then give () else abind (send_request post (ReportMonitors results)) (\<lambda>_. give ())))"

definition run_once :: "'w post \<Rightarrow> 'w exec \<Rightarrow> 'w prober \<Rightarrow> snapshot \<Rightarrow> ('w, unit) act" where
  "run_once post exec probe sn = abind (work_round post exec sn) (\<lambda>_. monitor_round post probe sn)"

text \<open>One turn of the endless loop of \<open>main\<close>: the count of failures in a row, which sets the
  pause before the next turn.\<close>

definition main_turn ::
  "'w post \<Rightarrow> 'w exec \<Rightarrow> 'w prober \<Rightarrow> string \<Rightarrow> snapshot \<Rightarrow> nat \<times> agent \<times> 'w \<Rightarrow> nat \<times> agent \<times> 'w" where
  "main_turn post exec probe hostname sn s = (case s of (failures, s0) \<Rightarrow>
     (case abind (send_request post (Register hostname sn)) (\<lambda>_. run_once post exec probe sn) s0 of
       (Inr _, s1) \<Rightarrow> (0, s1)
     | (Inl _, s1) \<Rightarrow> (Suc failures, s1)))"

definition max_retry_backoff_seconds :: int where "max_retry_backoff_seconds = 30"

definition backoff_seconds :: "int \<Rightarrow> nat \<Rightarrow> int" where
  "backoff_seconds poll_interval consecutive_failures =
     min max_retry_backoff_seconds (max 1 poll_interval * 2 ^ min consecutive_failures 6)"

end
