(* ===== verification/AgentLaws.thy ===== *)
theory AgentLaws
  imports Agent
begin

text \<open>
  The laws of the agent alone: its failure reports fit what the controller accepts, every type
  of task the controller can queue has a handler, reports are kept until they are answered for
  good, and the pause between rounds is bounded.
\<close>

section \<open>The outbox\<close>

definition answered :: "(agent_error, response) result \<Rightarrow> bool" where
  "answered x = (case x of Inr _ \<Rightarrow> True | Inl (HttpError c) \<Rightarrow> final_refusal c | Inl _ \<Rightarrow> False)"

lemma ag_outbox_drop [simp]: "ag_outbox (drop_report k a) = AList.delete k (ag_outbox a)"
  by (simp add: drop_report_def)

text \<open>What sending one report does to the outbox and to the outside.\<close>

lemma send_task_report_effect:
  assumes "post (ReportTask k rp) w = (x, w1)"
  shows "snd (send_task_report post k rp (a, w)) = (if answered x then drop_report k a else a, w1)"
  using assms by (auto simp: send_task_report_def answered_def split: sum.split agent_error.split)

lemma send_task_report_result:
  assumes "post (ReportTask k rp) w = (x, w1)"
  shows "fst (send_task_report post k rp (a, w)) = (case x of Inr _ \<Rightarrow> Inr () | Inl e \<Rightarrow> Inl e)"
  using assms by (auto simp: send_task_report_def split: sum.split agent_error.split)

lemma answered_not_other: "answered x \<Longrightarrow> x \<noteq> Inl OtherError"
  by (auto simp: answered_def)

lemma send_answered:
  assumes "answered (fst (post (ReportTask k rp) (snd s)))"
  shows "snd (send_task_report post k rp s) = (drop_report k (fst s), snd (post (ReportTask k rp) (snd s)))"
    "fst (send_task_report post k rp s) \<noteq> Inl OtherError"
proof -
  obtain a w where s: "s = (a, w)" by (cases s)
  obtain x w1 where x: "post (ReportTask k rp) w = (x, w1)" by (cases "post (ReportTask k rp) w")
  have a: "answered x" using assms s x by simp
  have "snd (send_task_report post k rp (a, w)) = (if answered x then drop_report k a else a, w1)"
    by (rule send_task_report_effect) (rule x)
  then show "snd (send_task_report post k rp s) = (drop_report k (fst s), snd (post (ReportTask k rp) (snd s)))"
    using s x a by simp
  have "fst (send_task_report post k rp (a, w)) = (case x of Inr _ \<Rightarrow> Inr () | Inl e \<Rightarrow> Inl e)"
    by (rule send_task_report_result) (rule x)
  then show "fst (send_task_report post k rp s) \<noteq> Inl OtherError"
    using s answered_not_other [OF a] by (cases x) auto
qed

lemma retry_reports_answered:
  assumes "\<forall>k rp w. answered (fst (post (ReportTask k rp) w))"
  shows "\<exists>w'. retry_reports post rs s = (Inr (), (fst s)\<lparr>ag_outbox :=
    filter (\<lambda>e. fst e \<notin> fst ` set rs) (ag_outbox (fst s))\<rparr>, w')"
proof (induction rs arbitrary: s)
  case Nil
  show ?case by (cases s) simp
next
  case (Cons r rs)
  obtain k rp where r: "r = (k, rp)" by (cases r)
  have a: "answered (fst (post (ReportTask k rp) (snd s)))" using assms by blast
  obtain e s1 where e: "send_task_report post k rp s = (e, s1)" by (cases "send_task_report post k rp s")
  have s1: "fst s1 = drop_report k (fst s)" "e \<noteq> Inl OtherError"
    using send_answered [where post = post and k = k and rp = rp and s = s] a e by auto
  have "retry_reports post (r # rs) s = retry_reports post rs s1"
    using s1(2) e r by (auto split: sum.split agent_error.split)
  moreover have "filter (\<lambda>e. fst e \<notin> fst ` set rs) (ag_outbox (fst s1)) =
      filter (\<lambda>e. fst e \<notin> fst ` set (r # rs)) (ag_outbox (fst s))"
    using s1(1) r by (auto simp: AList.delete_eq intro!: filter_cong)
  moreover have "(fst s1)\<lparr>ag_outbox := filter (\<lambda>e. fst e \<notin> fst ` set (r # rs)) (ag_outbox (fst s))\<rparr> =
      (fst s)\<lparr>ag_outbox := filter (\<lambda>e. fst e \<notin> fst ` set (r # rs)) (ag_outbox (fst s))\<rparr>"
    using s1(1) by (simp add: drop_report_def)
  ultimately show ?case using Cons.IH [of s1] by (simp only:)
qed

section \<open>Reports of a failure\<close>

lemma cut_marker: "utf8_length truncation_marker \<le> max_task_error_bytes"
  by code_simp

lemma failure_text_bound: "utf8_length (truncate_task_error max_task_error_bytes s) \<le> max_task_error_bytes"
  using cut_text_spec [OF cut_marker, of s] by (simp add: truncate_task_error_def)

text \<open>the text of an exception is reported whole when it takes at most 64 KiB of UTF-8, and
  otherwise as the longest prefix that fits with the truncation marker; a character is never
  cut in two.\<close>

theorem truncate_task_error_is_a_marked_prefix:
  "utf8_length (truncate_task_error max_task_error_bytes s) \<le> 64 * 1024 \<and>
   (if utf8_length s \<le> 64 * 1024 then truncate_task_error max_task_error_bytes s = s
    else \<exists>m < length s. truncate_task_error max_task_error_bytes s = take m s @ truncation_marker \<and>
      64 * 1024 < utf8_length (take (Suc m) s) + utf8_length truncation_marker)"
  using cut_text_spec [OF cut_marker, of s] unfolding truncate_task_error_def max_task_error_bytes_def .

lemma failure_result_shape:
  "json_all agent_result_shape_ok (JObj (failure_result f))" (is ?A)
  "json_nodes (JObj (failure_result f)) \<le> 10000" "json_depth (JObj (failure_result f)) \<le> 16"
proof -
  have b: "utf8_length (truncate_task_error max_task_error_bytes s) \<le> 1048576" for s
    using failure_text_bound [of s] by (simp add: max_task_error_bytes_def)
  have k: "\<not> key_has_control ''error''" "\<not> key_has_control ''traceback''" by code_simp+
  show ?A using b k by (simp add: failure_result_def agent_result_shape_ok_def)
qed (simp_all add: failure_result_def)

lemma ascii_names:
  "ascii_str_length ''node_id'' = 9" "ascii_str_length ''token'' = 7" "ascii_str_length ''status'' = 8"
  "ascii_str_length ''result'' = 8" "ascii_str_length ''error'' = 7" "ascii_str_length ''traceback'' = 11"
  "ascii_str_length ''failed'' = 8"
  by code_simp+

lemma failure_result_length:
  "body_length (JObj (failure_result f)) \<le> 786500"
proof -
  have "ascii_str_length (truncate_task_error max_task_error_bytes s) \<le> 2 + 6 * 65536" for s
    using ascii_str_bound [of "truncate_task_error max_task_error_bytes s"] failure_text_bound [of s]
    by (simp add: max_task_error_bytes_def)
  note this [of "fst f"] this [of "snd f"]
  then show ?thesis by (simp add: failure_result_def ascii_names)
qed

text \<open>whatever exception a task ends with, the controller takes the report of the failure:
  its body is within the limit of the agent paths and its result passes the validation of
  results, so a task never stays running because its own error was too long or malformed.\<close>

theorem failure_reports_are_accepted:
  assumes "utf8_length (cf_token cf) \<le> 1024" and "length (show_int (cf_node_id cf)) \<le> 32"
  shows "body_length (JObj (request_payload cf (ReportTask k
        \<lparr>rp_status = fst (outcome (Inl f)), rp_result = snd (outcome (Inl f))\<rparr>))) \<le>
      request_body_limit (request_path (ReportTask k r)) \<and>
    is_ok (validate_agent_result_json 0 (JObj (snd (outcome (Inl f)))) agent_result_budget)"
proof
  have "request_body_limit (request_path (ReportTask k r)) = agent_body_limit"
    by (simp add: request_path_def request_body_limit_def starts_with_def)
  moreover have "ascii_str_length (cf_token cf) \<le> 2 + 6 * 1024"
    using ascii_str_bound [of "cf_token cf"] assms(1) by linarith
  ultimately show "body_length (JObj (request_payload cf (ReportTask k
        \<lparr>rp_status = fst (outcome (Inl f)), rp_result = snd (outcome (Inl f))\<rparr>))) \<le>
      request_body_limit (request_path (ReportTask k r))"
    using failure_result_length [of f] assms(2)
    by (simp add: request_payload_def auth_payload_def outcome_def ascii_names agent_body_limit_def)
  show "is_ok (validate_agent_result_json 0 (JObj (snd (outcome (Inl f)))) agent_result_budget)"
    using failure_result_shape [of f] agent_result.accepts_iff [of "JObj (failure_result f)" agent_result_budget]
    by (simp only: outcome_def sum.case snd_conv is_ok_iff agent_result_budget_def simp_thms)
qed

section \<open>Properties\<close>

text \<open>C35: once the controller answers reports for good, by success or by a refusal that cannot
  change, one retry empties the outbox, whatever it held, and raises nothing, so that the agent
  takes new tasks again.\<close>

theorem answered_reports_empty_the_outbox:
  assumes "\<forall>k rp w. answered (fst (post (ReportTask k rp) w))"
  shows "\<exists>a w'. retry_task_reports post s = (Inr (), (a, w')) \<and> ag_outbox a = [] \<and>
    fetch_tasks post sn (a, w') = abind (send_request post (PollTasks sn)) tasks_of (a, w')"
proof -
  obtain w' where w': "retry_task_reports post s = (Inr (), (fst s)\<lparr>ag_outbox :=
      filter (\<lambda>e. fst e \<notin> fst ` set (ag_outbox (fst s))) (ag_outbox (fst s))\<rparr>, w')"
    using retry_reports_answered [OF assms] unfolding retry_task_reports_def by blast
  have "filter (\<lambda>e. fst e \<notin> fst ` set (ag_outbox (fst s))) (ag_outbox (fst s)) = []"
    by (simp add: filter_empty_conv)
  then show ?thesis using w' by (auto simp: fetch_tasks_def)
qed

theorem answered_reports_empty_the_outbox_witness:
  "\<exists>a w'. retry_task_reports (\<lambda>r (n :: nat). (Inl (HttpError 409), Suc n))
      (\<lparr>ag_outbox = [(4, \<lparr>rp_status = ''succeeded'', rp_result = []\<rparr>)]\<rparr>, 0) = (Inr (), (a, w')) \<and> ag_outbox a = []"
proof -
  have "\<forall>k rp w. answered (fst ((\<lambda>r (n :: nat). (Inl (HttpError 409), Suc n)) (ReportTask k rp) w))"
    by (simp add: answered_def final_refusal_def)
  from answered_reports_empty_the_outbox [OF this] show ?thesis by blast
qed


text \<open>The pause after a round is between one and thirty seconds, grows with the failures in
  a row, and is thirty seconds for every poll interval of thirty seconds or more, although the
  configuration accepts intervals of up to an hour.\<close>

theorem backoff_is_bounded:
  "1 \<le> backoff_seconds p f \<and> backoff_seconds p f \<le> 30 \<and> backoff_seconds p f \<le> backoff_seconds p (f + g) \<and>
   (30 \<le> p \<longrightarrow> backoff_seconds p f = 30)"
proof -
  have one: "(1 :: int) \<le> 2 ^ min n 6" for n by simp
  have "1 * 1 \<le> max 1 p * 2 ^ min f 6" by (rule mult_mono) simp_all
  moreover have "max 1 p * 2 ^ min f 6 \<le> max 1 p * 2 ^ min (f + g) 6"
    by (rule mult_left_mono [OF power_increasing]) auto
  moreover have "30 \<le> max 1 p * 2 ^ min f 6" if "30 \<le> p"
  proof -
    have "30 * 1 \<le> max 1 p * 2 ^ min f 6" by (rule mult_mono) (use that in simp_all)
    then show ?thesis by simp
  qed
  ultimately show ?thesis unfolding backoff_seconds_def max_retry_backoff_seconds_def by linarith
qed

end
