(* ===== verification/System.thy ===== *)
theory System
  imports AgentLaws QueueLaws Scenario "HOL-Library.Sublist"
begin

text \<open>
  The controller and one agent together. The abstract machine \<open>system_step\<close> has the database of
  the controller, the tasks an agent holds, its unconfirmed reports and the tasks it has run;
  the main loop of the agent over a network that loses requests and answers refines it. The
  locale \<open>outside\<close> states what the loop needs of the network and the machine; it is interpreted
  on the endpoints of the controller behind a scripted network.
\<close>

section \<open>The abstract machine\<close>

record sys =
  sy_db :: db
  sy_hand :: "int list"
  sy_outbox :: "(int \<times> report) list"
  sy_done :: "int list"

text \<open>A task that has left the queue.\<close>

definition taken :: "int \<Rightarrow> db \<Rightarrow> bool" where
  "taken k d = (\<exists>t. get_task k d = Some t \<and> tk_status t \<noteq> Pending)"

text \<open>The endpoints an agent calls, answering with the status code of a refusal.\<close>

definition text_status :: "string \<Rightarrow> task_status option" where
  "text_status s = (if s = ''succeeded'' then Some Succeeded else if s = ''failed'' then Some Failed
     else if s = ''cancelled'' then Some Cancelled else None)"

definition status_code :: "http_error \<Rightarrow> int" where
  "status_code e = (case e of HTTP c _ \<Rightarrow> c)"

definition agent_call_of :: "agent_config \<Rightarrow> snapshot \<Rightarrow> agent_call" where
  "agent_call_of cf sn = \<lparr>ac_node_id = cf_node_id cf, ac_token = cf_token cf,
     ac_agent_version = Some agent_version, ac_protocol_version = Some agent_protocol_version,
     ac_capabilities = Some (sn_capabilities sn), ac_platform = Some (sn_platform sn)\<rparr>"

definition register_call_of :: "agent_config \<Rightarrow> string \<Rightarrow> snapshot \<Rightarrow> agent_register_call" where
  "register_call_of cf hostname sn = agent_call.extend (agent_call_of cf sn)
     \<lparr>ac_hostname = Some hostname, ac_management_ip = None, ac_public_ip = None\<rparr>"

definition to_wire :: "task \<Rightarrow> agent_task" where
  "to_wire t = \<lparr>at_id = tk_id t, at_type = tk_type t, at_payload = tk_payload t\<rparr>"

definition to_target :: "monitor \<Rightarrow> target" where
  "to_target m = \<lparr>tg_id = mo_id m, tg_host = mo_target_host m,
     tg_timeout_ms = max 1000 (min 3000 (800 * mo_interval_seconds m))\<rparr>"

definition answer_pair :: "('a \<Rightarrow> response) \<Rightarrow> db \<Rightarrow> ('a \<times> db) reply \<Rightarrow> (int, response) result \<times> db" where
  "answer_pair f d r = (case r of Inl e \<Rightarrow> (Inl (status_code e), d) | Inr (x, d1) \<Rightarrow> (Inr (f x), d1))"

text \<open>\<open>schema_ok\<close> is the validation of the body by its pydantic model, \<open>probes\<close> the reading of the
  probe results, \<open>verify\<close> the comparison of a token with its hash.\<close>

record gateway =
  gw_verify :: "string \<Rightarrow> string \<Rightarrow> bool"
  gw_schema_ok :: "request \<Rightarrow> bool"
  gw_probes :: "json list \<Rightarrow> probe list"

definition serve_valid :: "gateway \<Rightarrow> agent_config \<Rightarrow> env \<Rightarrow> request \<Rightarrow> db \<Rightarrow> (int, response) result \<times> db" where
  "serve_valid gw cf en r d = (case r of
        Register hostname sn \<Rightarrow> answer_pair (\<lambda>_. Done) d
          (agent_register (gw_verify gw) (en_now en) (register_call_of cf hostname sn) d)
      | Heartbeat sn \<Rightarrow> answer_pair (\<lambda>_. Done) d
          (agent_heartbeat (gw_verify gw) (en_now en) (agent_call_of cf sn) d)
      | PollTasks sn \<Rightarrow> answer_pair (\<lambda>ts. Tasks (map to_wire ts)) d
          (agent_poll (gw_verify gw) (en_now en) (agent_call_of cf sn) d)
      | ReportTask k rp \<Rightarrow> (case text_status (rp_status rp) of
            None \<Rightarrow> (Inl 422, d)
          | Some status \<Rightarrow> (case agent_task_result (gw_verify gw) en k (cf_node_id cf) (cf_token cf)
                status (rp_result rp) d of
              (Inl e, d1) \<Rightarrow> (Inl (status_code e), d1) | (Inr _, d1) \<Rightarrow> (Inr Done, d1)))
      | PollMonitors sn \<Rightarrow> answer_pair (\<lambda>ms. Targets (map to_target ms)) d
          (agent_link_monitor_poll (gw_verify gw) (en_now en) (agent_call_of cf sn) d)
      | ReportMonitors rs \<Rightarrow> answer_pair (\<lambda>_. Done) d
          (map_sum id (Pair ()) (agent_link_monitor_result (gw_verify gw) (en_now en) (cf_node_id cf)
            (cf_token cf) (gw_probes gw rs) d)))"

definition serve :: "gateway \<Rightarrow> agent_config \<Rightarrow> env \<Rightarrow> request \<Rightarrow> db \<Rightarrow> (int, response) result \<times> db" where
  "serve gw cf en r d =
     (if request_body_limit (request_path r) < body_length (JObj (request_payload cf r)) then (Inl 413, d)
      else if \<not> gw_schema_ok gw r then (Inl 422, d)
      else serve_valid gw cf en r d)"

definition client_answer :: "(int, response) result \<Rightarrow> (agent_error, response) result" where
  "client_answer x = (case x of Inl c \<Rightarrow> Inl (HttpError c) | Inr y \<Rightarrow> Inr y)"

text \<open>The controller serves others, hands tasks to the agent when its outbox is empty, the agent
  runs the next task it holds, and a report leaves the outbox when the controller answered it
  for good.\<close>

inductive system_step :: "gateway \<Rightarrow> agent_config \<Rightarrow> sys \<Rightarrow> sys \<Rightarrow> bool"
  for gw :: gateway and cf :: agent_config where
  others: "controller_step d d' \<Longrightarrow>
    system_step gw cf \<lparr>sy_db = d, sy_hand = h, sy_outbox = out, sy_done = l\<rparr>
      \<lparr>sy_db = d', sy_hand = h, sy_outbox = out, sy_done = l\<rparr>"
| take_work: "agent_poll (gw_verify gw) now (agent_call_of cf sn) d = Inr (ts, d') \<Longrightarrow>
    system_step gw cf \<lparr>sy_db = d, sy_hand = [], sy_outbox = [], sy_done = l\<rparr>
      \<lparr>sy_db = d', sy_hand = map tk_id ts, sy_outbox = [], sy_done = l\<rparr>"
| run_next: "system_step gw cf \<lparr>sy_db = d, sy_hand = k # h, sy_outbox = out, sy_done = l\<rparr>
      \<lparr>sy_db = d, sy_hand = h, sy_outbox = AList.update k rp out, sy_done = l @ [k]\<rparr>"
| confirm: "(k, rp) \<in> set out \<Longrightarrow> serve gw cf en (ReportTask k rp) d = (x, d') \<Longrightarrow> answered (client_answer x) \<Longrightarrow>
    system_step gw cf \<lparr>sy_db = d, sy_hand = h, sy_outbox = out, sy_done = l\<rparr>
      \<lparr>sy_db = d', sy_hand = h, sy_outbox = AList.delete k out, sy_done = l\<rparr>"

definition system_inv :: "sys \<Rightarrow> bool" where
  "system_inv s = (task_inv (sy_db s) \<and> distinct (sy_done s @ sy_hand s) \<and>
     (\<forall>k \<in> set (sy_done s) \<union> set (sy_hand s). taken k (sy_db s)) \<and>
     fst ` set (sy_outbox s) \<subseteq> set (sy_done s) \<and>
     length (sy_outbox s) + length (sy_hand s) \<le> agent_task_poll_batch_size)"

definition system_init :: "sys \<Rightarrow> bool" where
  "system_init s = (reachable (sy_db s) \<and> sy_hand s = [] \<and> sy_outbox s = [] \<and> sy_done s = [])"

definition system_le :: "sys \<Rightarrow> sys \<Rightarrow> bool" where
  "system_le s t = (tasks_evolve (sy_db s) (sy_db t) \<and> prefix (sy_done s) (sy_done t))"

lemma answer_pair_step:
  assumes "answer_pair f d r = (x, d')" "\<And>y. r = Inr (y, d') \<Longrightarrow> controller_step d d'"
  shows "d' = d \<or> controller_step d d'"
  using assms unfolding answer_pair_def by (cases r) (auto split: prod.splits)

lemma text_status_terminal: "text_status v = Some status \<Longrightarrow> terminal status"
  unfolding text_status_def terminal_def by (simp only: option.inject split: if_splits) blast+

lemma report_step:
  assumes "serve_valid gw cf en (ReportTask k rp) d = (x, d')"
  shows "d' = d \<or> controller_step d d'"
proof (cases "text_status (rp_status rp)")
  case None
  then show ?thesis using assms unfolding serve_valid_def
    by (simp only: request.case option.case prod.inject) simp
next
  case (Some status)
  obtain y d1 where y: "agent_task_result (gw_verify gw) en k (cf_node_id cf) (cf_token cf) status (rp_result rp) d = (y, d1)"
    by (rule prod.exhaust)
  then have "d' = d1" using assms Some unfolding serve_valid_def
    by (cases y) (simp_all only: request.case option.case prod.case sum.case prod.inject)
  then show ?thesis using controller_step.report [OF y text_status_terminal [OF Some]] by simp
qed

lemma serve_valid_step:
  assumes a: "serve_valid gw cf en r d = (x, d')"
  shows "d' = d \<or> controller_step d d'"
proof (cases r)
  case (ReportTask k rp)
  then show ?thesis using a report_step by simp
next
  case (ReportMonitors rs)
  have m: "controller_step d e"
    if "map_sum id (Pair ()) (agent_link_monitor_result v now n tok bs d) = Inr (u, e)" for v now n tok bs u e
    using that by (cases "agent_link_monitor_result v now n tok bs d") (auto intro: controller_step.monitor_result)
  show ?thesis using a unfolding serve_valid_def ReportMonitors request.case
    by (rule answer_pair_step) (rule m)
next
  case (Register hostname sn)
  show ?thesis using a unfolding serve_valid_def Register request.case
    by (rule answer_pair_step) (rule controller_step.register)
next
  case (Heartbeat sn)
  show ?thesis using a unfolding serve_valid_def Heartbeat request.case
    by (rule answer_pair_step) (rule controller_step.heartbeat)
next
  case (PollTasks sn)
  show ?thesis using a unfolding serve_valid_def PollTasks request.case
    by (rule answer_pair_step) (rule controller_step.poll)
next
  case (PollMonitors sn)
  show ?thesis using a unfolding serve_valid_def PollMonitors request.case
    by (rule answer_pair_step) (rule controller_step.monitor_poll)
qed

lemma serve_step: "serve gw cf en r d = (x, d') \<Longrightarrow> d' = d \<or> controller_step d d'"
  unfolding serve_def by (simp only: prod.inject split: if_splits) (blast dest: serve_valid_step)+

lemma status_le_taken: "status_le u v \<Longrightarrow> u \<noteq> Pending \<Longrightarrow> v \<noteq> Pending"
  by (cases u) auto

lemma taken_evolves: "taken k d \<Longrightarrow> tasks_evolve d d' \<Longrightarrow> taken k d'"
  unfolding taken_def tasks_evolve_def task_evolves_def using status_le_taken by blast

lemma taken_all: "\<forall>k \<in> K. taken k d \<Longrightarrow> tasks_evolve d d' \<Longrightarrow> \<forall>k \<in> K. taken k d'"
  using taken_evolves by blast

lemma controller_step_inv: "controller_step d d' \<Longrightarrow> task_inv d \<Longrightarrow> task_inv d' \<and> tasks_evolve d d'"
  using controller_step_safe unfolding safe_step_def by blast

lemma update_length: "length (AList.update k v xs) \<le> Suc (length xs)"
  by (induction xs) auto

lemma delete_length: "length (AList.delete k xs) \<le> length xs"
  by (simp add: AList.delete_eq)

text \<open>What a poll hands out was pending and is now taken.\<close>

lemma poll_takes:
  assumes "tasks_wf d" "agent_poll v now call d = Inr (ts, d')"
  shows "distinct (map tk_id ts)" "length ts \<le> agent_task_poll_batch_size"
    "\<forall>k \<in> set (map tk_id ts). \<not> taken k d \<and> taken k d'"
proof -
  obtain n' where i: "poll_inv n' now (recovered (ac_node_id call) now (put_node n' d)) [] (ts, [], d')"
    "length ts \<le> agent_task_poll_batch_size"
    using poll_result [OF assms] by blast
  show "distinct (map tk_id ts)" "length ts \<le> agent_task_poll_batch_size"
    using i by (simp_all add: poll_inv_def)
  have "\<not> taken (tk_id t) d \<and> taken (tk_id t) d'" if "t \<in> set ts" for t
  proof
    show "\<not> taken (tk_id t) d" using claimed_was_pending [OF assms that] by (auto simp: taken_def)
    show "taken (tk_id t) d'" using i(1) that by (auto simp: poll_inv_def claim_ok_def taken_def claim_task_def)
  qed
  then show "\<forall>k \<in> set (map tk_id ts). \<not> taken k d \<and> taken k d'" by simp
qed

interpretation system: transition_system system_init "system_step gw cf" system_inv system_le
proof
  fix s t :: sys
  show "system_inv s" if "system_init s"
    using that reachable_inv by (simp add: system_init_def system_inv_def)
  show "system_inv t" if i: "system_inv s" and st: "system_step gw cf s t"
    using st
  proof cases
    case (others d d' h out l)
    have ev: "task_inv d' \<and> tasks_evolve d d'"
      using others(1) i controller_step_inv [OF others(3)] by (simp add: system_inv_def)
    have "\<forall>k \<in> set l \<union> set h. taken k d'"
      by (rule taken_all [of _ d]) (use others(1) i ev in \<open>simp_all add: system_inv_def\<close>)
    then show ?thesis using others(1,2) i ev by (simp add: system_inv_def)
  next
    case (take_work now sn d ts d' l)
    have c: "controller_step d d'" using take_work(3) by (rule controller_step.poll)
    have wf: "tasks_wf d" using i take_work(1) by (simp add: system_inv_def task_inv_def)
    have ev: "task_inv d' \<and> tasks_evolve d d'"
      using take_work(1) i controller_step_inv [OF c] by (simp add: system_inv_def)
    have old: "\<forall>k \<in> set l. taken k d" using take_work(1) i by (simp add: system_inv_def)
    have "\<forall>k \<in> set l. taken k d'" by (rule taken_all [OF old]) (use ev in blast)
    moreover have "set l \<inter> set (map tk_id ts) = {}" using old poll_takes(3) [OF wf take_work(3)] by blast
    ultimately show ?thesis using take_work(1,2) i ev poll_takes [OF wf take_work(3)]
      by (simp add: system_inv_def ball_Un)
  next
    case (run_next d k h out l rp)
    then show ?thesis using i update_length [of k rp out]
      by (auto simp: system_inv_def dom_update)
  next
    case (confirm k rp out en d x d' h l)
    have "task_inv d" using i confirm(1) by (simp add: system_inv_def)
    then have ev: "task_inv d' \<and> tasks_evolve d d'"
      using serve_step [OF confirm(4)] controller_step_inv by auto
    have "\<forall>k \<in> set l \<union> set h. taken k d'"
      by (rule taken_all [of _ d]) (use confirm(1) i ev in \<open>simp_all add: system_inv_def\<close>)
    moreover have "fst ` set (AList.delete k out) \<subseteq> set l"
      using confirm(1) i by (auto simp: AList.delete_eq system_inv_def)
    ultimately show ?thesis using confirm(1,2) i ev delete_length [of k out]
      by (simp add: system_inv_def)
  qed
  show "system_le s t" if i: "system_inv s" and st: "system_step gw cf s t"
    using st
  proof cases
    case (others d d' h out l)
    then show ?thesis using i controller_step_inv [OF others(3)] by (auto simp: system_inv_def system_le_def)
  next
    case (take_work now sn d ts d' l)
    have c: "controller_step d d'" using take_work(3) by (rule controller_step.poll)
    show ?thesis using take_work(1,2) i controller_step_inv [OF c] by (auto simp: system_inv_def system_le_def)
  next
    case (confirm k rp out en d x d' h l)
    have "task_inv d" using i confirm(1) by (simp add: system_inv_def)
    then have "tasks_evolve d d'" using serve_step [OF confirm(4)] controller_step_inv by auto
    then show ?thesis using confirm(1,2) by (simp add: system_le_def)
  qed (simp add: system_le_def)
  show "system_le s s" for s by (simp add: system_le_def)
  show "system_le s u" if "system_le s t" "system_le t u" for s t u
    using that tasks_evolve_trans unfolding system_le_def by (blast intro: prefix_order.trans)
qed

section \<open>What the loop of the agent needs of the outside\<close>

locale outside =
  fixes post :: "'w post" and exec :: "'w exec" and prober :: "'w prober"
    and good :: "'w \<Rightarrow> bool"
    and view :: "'w \<Rightarrow> int list \<Rightarrow> (int \<times> report) list \<Rightarrow> 's" and step :: "'s \<Rightarrow> 's \<Rightarrow> bool"
  assumes post_good: "good w \<Longrightarrow> post r w = (x, w') \<Longrightarrow> good w'"
    and post_any: "good w \<Longrightarrow> post r w = (x, w') \<Longrightarrow> rtranclp step (view w h out) (view w' h out)"
    and post_poll: "good w \<Longrightarrow> post (PollTasks sn) w = (Inr (Tasks ts), w') \<Longrightarrow>
      rtranclp step (view w [] []) (view w' (map at_id ts) [])"
    and post_report: "good w \<Longrightarrow> post (ReportTask k rp) w = (x, w') \<Longrightarrow> answered x \<Longrightarrow> (k, rp) \<in> set out \<Longrightarrow>
      rtranclp step (view w h out) (view w' h (AList.delete k out))"
    and exec_good: "good w \<Longrightarrow> exec t w = (y, w') \<Longrightarrow> good w'"
    and exec_run: "good w \<Longrightarrow> exec t w = (y, w') \<Longrightarrow>
      rtranclp step (view w (at_id t # h) out) (view w' h (AList.update (at_id t) rp out))"
    and probe_good: "good w \<Longrightarrow> prober g w = (z, w') \<Longrightarrow> good w'"
    and probe_view: "good w \<Longrightarrow> prober g w = (z, w') \<Longrightarrow> view w' h out = view w h out"
begin

text \<open>The agent at the point where it holds the tasks \<open>h\<close>; its outbox has one report per task.\<close>

definition reaches :: "int list \<Rightarrow> agent \<times> 'w \<Rightarrow> int list \<Rightarrow> agent \<times> 'w \<Rightarrow> bool" where
  "reaches h s h' s' = (good (snd s) \<longrightarrow> distinct (map fst (ag_outbox (fst s))) \<longrightarrow>
     good (snd s') \<and> distinct (map fst (ag_outbox (fst s'))) \<and>
     rtranclp step (view (snd s) h (ag_outbox (fst s))) (view (snd s') h' (ag_outbox (fst s'))))"

lemma reaches_refl: "reaches h s h s"
  by (simp add: reaches_def)

lemma reaches_trans: "reaches h s i t \<Longrightarrow> reaches i t j u \<Longrightarrow> reaches h s j u"
  unfolding reaches_def by (meson rtranclp_trans)

lemma send_request_reaches: "send_request post r s = (x, s') \<Longrightarrow> reaches h s h s'"
  unfolding send_request_def reaches_def using post_good post_any by (auto split: prod.splits)

lemma send_report_reaches:
  assumes "send_task_report post k rp s = (x, s')" "(k, rp) \<in> set (ag_outbox (fst s))"
  shows "reaches h s h s'"
proof -
  obtain a w where s: "s = (a, w)" by (cases s)
  obtain y w1 where y: "post (ReportTask k rp) w = (y, w1)" by (cases "post (ReportTask k rp) w")
  have e: "snd (send_task_report post k rp (a, w)) = (if answered y then drop_report k a else a, w1)"
    by (rule send_task_report_effect) (rule y)
  show ?thesis
  proof (cases "answered y")
    case True
    then have s': "s' = (drop_report k a, w1)" using e assms(1) s by simp
    show ?thesis unfolding reaches_def
      using s s' post_good [OF _ y] post_report [OF _ y True] assms(2) by (simp add: distinct_delete)
  next
    case False
    then have s': "s' = (a, w1)" using e assms(1) s by simp
    show ?thesis unfolding reaches_def using s s' post_good [OF _ y] post_any [OF _ y] by simp
  qed
qed

lemma send_report_outbox:
  "send_task_report post k rp s = (x, s') \<Longrightarrow> ag_outbox (fst s') = ag_outbox (fst s) \<or>
    ag_outbox (fst s') = AList.delete k (ag_outbox (fst s))"
  unfolding send_task_report_def by (auto split: prod.splits sum.splits agent_error.splits if_splits)

lemma retry_reports_reaches:
  assumes "retry_reports post rs s = (x, s')" "set rs \<subseteq> set (ag_outbox (fst s))" "distinct (map fst rs)"
  shows "reaches h s h s'"
  using assms
proof (induction rs arbitrary: s)
  case Nil
  then show ?case by (simp add: reaches_refl)
next
  case (Cons r rs)
  obtain k rp where r: "r = (k, rp)" by (cases r)
  obtain y s1 where y: "send_task_report post k rp s = (y, s1)" by (cases "send_task_report post k rp s")
  have one: "reaches h s h s1" by (rule send_report_reaches [OF y]) (use Cons.prems(2) r in simp)
  show ?case
  proof (cases "y = Inl OtherError")
    case True
    then show ?thesis using Cons.prems(1) r y one by simp
  next
    case False
    then have next_reports: "retry_reports post rs s1 = (x, s')"
      using Cons.prems(1) r y by (auto split: sum.splits agent_error.splits)
    have "e \<in> set (ag_outbox (fst s1))" if e: "e \<in> set rs" for e
    proof -
      have "fst e \<noteq> k" "e \<in> set (ag_outbox (fst s))" using e Cons.prems(2,3) r by auto
      then show ?thesis using send_report_outbox [OF y] by (cases e) (auto simp: AList.delete_eq)
    qed
    then have "set rs \<subseteq> set (ag_outbox (fst s1))" by blast
    then have "reaches h s1 h s'" using Cons.IH [OF next_reports] Cons.prems(3) by simp
    then show ?thesis using reaches_trans one by blast
  qed
qed

lemma perform_task_reaches: "reaches (at_id t # h) s h (perform_task post exec t s)"
proof -
  obtain a w where s: "s = (a, w)" by (cases s)
  obtain y w1 where y: "exec t w = (y, w1)" by (cases "exec t w")
  define rp where "rp = \<lparr>rp_status = fst (outcome y), rp_result = snd (outcome y)\<rparr>"
  define a1 where "a1 = a\<lparr>ag_outbox := AList.update (at_id t) rp (ag_outbox a)\<rparr>"
  have "reaches (at_id t # h) s h (a1, w1)"
    unfolding reaches_def a1_def using s exec_good [OF _ y] exec_run [OF _ y] by (simp add: distinct_update)
  moreover have "reaches h (a1, w1) h (snd (send_task_report post (at_id t) rp (a1, w1)))"
    by (rule send_report_reaches [OF prod.collapse [symmetric]])
      (simp add: a1_def map_of_SomeD update_conv' map_of_is_SomeI)
  moreover have "perform_task post exec t s = snd (send_task_report post (at_id t) rp (a1, w1))"
    using s y by (simp add: perform_task_def report_task_def rp_def a1_def Let_def)
  ultimately show ?thesis using reaches_trans by metis
qed

lemma perform_tasks_reaches: "reaches (map at_id ts) s [] (perform_tasks post exec ts s)"
  unfolding perform_tasks_def
proof (induction ts arbitrary: s)
  case (Cons t ts)
  then show ?case using reaches_trans [OF perform_task_reaches] by simp
qed (simp add: reaches_refl)

lemma retry_task_reports_reaches: "retry_task_reports post s = (x, s') \<Longrightarrow> reaches h s h s'"
  using retry_reports_reaches [of "ag_outbox (fst s)" s x s' h]
  unfolding retry_task_reports_def reaches_def by blast

lemma fetch_tasks_reaches:
  assumes "fetch_tasks post sn s = (x, s')"
  shows "reaches [] s (case x of Inr ts \<Rightarrow> map at_id ts | Inl e \<Rightarrow> []) s'"
proof (cases "ag_outbox (fst s) = []")
  case False
  then show ?thesis using assms reaches_refl [of "[]" s] by (auto simp: fetch_tasks_def)
next
  case True
  obtain a w where s: "s = (a, w)" by (cases s)
  obtain y w1 where y: "post (PollTasks sn) w = (y, w1)" by (cases "post (PollTasks sn) w")
  have f: "(x, s') = (case y of Inl e \<Rightarrow> (Inl e, (a, w1)) | Inr r \<Rightarrow> tasks_of r (a, w1))"
    using assms True s y by (simp add: fetch_tasks_def abind_def send_request_def split: sum.split)
  have "reaches [] s [] (a, w1)" by (rule send_request_reaches [of "PollTasks sn" _ y]) (simp add: send_request_def s y)
  moreover have "reaches [] s (map at_id ts) (a, w1)" if "y = Inr (Tasks ts)" for ts
    unfolding reaches_def using True s that post_good [OF _ y] post_poll [of w sn ts w1] y by simp
  ultimately show ?thesis using f
    by (cases y) (auto simp: tasks_of_def split: response.splits)
qed

lemma abind_reaches:
  assumes "abind m f s = (x, s')" "\<And>y s1. m s = (y, s1) \<Longrightarrow> reaches h s h s1"
    and "\<And>y s1 x s2. f y s1 = (x, s2) \<Longrightarrow> reaches h s1 h s2"
  shows "reaches h s h s'"
proof -
  obtain y s1 where y: "m s = (y, s1)" by (cases "m s")
  have one: "reaches h s h s1" using assms(2) [OF y] .
  show ?thesis
  proof (cases y)
    case (Inl e)
    then show ?thesis using assms(1) y one by (simp add: abind_def)
  next
    case (Inr v)
    then have "f v s1 = (x, s')" using assms(1) y by (simp add: abind_def)
    then show ?thesis using assms(3) reaches_trans [OF one] by blast
  qed
qed

lemma take_and_run_reaches:
  assumes "abind (fetch_tasks post sn) (\<lambda>ts s. (Inr (), perform_tasks post exec ts s)) s = (x, s')"
  shows "reaches [] s [] s'"
proof -
  obtain y s1 where y: "fetch_tasks post sn s = (y, s1)" by (cases "fetch_tasks post sn s")
  show ?thesis
  proof (cases y)
    case (Inl e)
    then show ?thesis using assms y fetch_tasks_reaches [OF y] by (simp add: abind_def)
  next
    case (Inr ts)
    then have "s' = perform_tasks post exec ts s1" using assms y by (simp add: abind_def)
    then show ?thesis using reaches_trans [OF _ perform_tasks_reaches] fetch_tasks_reaches [OF y] Inr by auto
  qed
qed

lemma work_round_reaches: "work_round post exec sn s = (x, s') \<Longrightarrow> reaches [] s [] s'"
  unfolding work_round_def
  by (erule abind_reaches, erule send_request_reaches, erule abind_reaches, erule retry_task_reports_reaches,
    erule take_and_run_reaches)

lemma probe_all_good:
  "probe_all prober gs w = (rs, w') \<Longrightarrow> good w \<Longrightarrow> good w' \<and> view w' h out = view w h out"
proof (induction gs arbitrary: w w' rs)
  case (Cons g gs)
  obtain z w1 where z: "prober g w = (z, w1)" by (cases "prober g w")
  obtain qs w2 where q: "probe_all prober gs w1 = (qs, w2)" by (cases "probe_all prober gs w1")
  have "w' = w2" using Cons.prems(1) z q by simp
  then show ?case
    using Cons.IH [OF q probe_good [OF Cons.prems(2) z]] probe_view [OF Cons.prems(2) z] by simp
qed simp

lemma probe_reaches: "probe_link_monitors prober gs s = (x, s') \<Longrightarrow> reaches h s h s'"
  unfolding probe_link_monitors_def reaches_def using probe_all_good by (auto split: prod.splits)

lemma targets_reaches: "targets_of r s = (x, s') \<Longrightarrow> reaches h s h s'"
  unfolding targets_of_def using reaches_refl by (auto split: response.splits)

lemma give_reaches: "give y s = (x, s') \<Longrightarrow> reaches h s h s'"
  unfolding give_def using reaches_refl by simp

lemma monitor_report_reaches:
  "(if results = [] then give () else abind (send_request post (ReportMonitors results)) (\<lambda>_. give ())) s = (x, s') \<Longrightarrow>
    reaches h s h s'"
  by (auto intro: give_reaches elim!: abind_reaches intro: send_request_reaches split: if_splits)

lemma monitor_round_reaches: "monitor_round post prober sn s = (x, s') \<Longrightarrow> reaches h s h s'"
  unfolding monitor_round_def
  by (erule abind_reaches, erule abind_reaches, erule send_request_reaches, erule targets_reaches,
    erule abind_reaches, erule probe_reaches, erule monitor_report_reaches)

lemma main_turn_reaches:
  assumes "main_turn post exec prober hostname sn (f, s) = (f', s')"
  shows "reaches [] s [] s'"
proof -
  obtain x s1 where x: "abind (send_request post (Register hostname sn)) (\<lambda>_. run_once post exec prober sn) s = (x, s1)"
    by (rule prod.exhaust)
  have "reaches [] s [] s1"
    using x unfolding run_once_def
    by (erule_tac abind_reaches, erule_tac send_request_reaches, erule_tac abind_reaches,
      erule_tac work_round_reaches, erule_tac monitor_round_reaches)
  moreover have "s' = s1" using assms x by (auto simp: main_turn_def split: sum.splits)
  ultimately show ?thesis by simp
qed

lemma main_turns_reach: "reaches [] s [] (snd ((main_turn post exec prober hostname sn ^^ n) (f, s)))"
proof (induction n)
  case (Suc n)
  obtain f1 s1 where s1: "(main_turn post exec prober hostname sn ^^ n) (f, s) = (f1, s1)" by (rule prod.exhaust)
  obtain f2 s2 where s2: "main_turn post exec prober hostname sn (f1, s1) = (f2, s2)" by (rule prod.exhaust)
  show ?case using reaches_trans [OF _ main_turn_reaches [OF s2]] Suc s1 s2 by simp
qed (simp add: reaches_refl)

end

end
