(* ===== verification/Network.thy ===== *)
theory Network
  imports System
begin

text \<open>
  The loop of one agent against the endpoints of the controller, over a network that may lose a
  request, lose an answer or cut it short, while others use the controller between any two
  requests. It interprets the locale of System.thy, so every run of the loop is a run of the
  abstract machine.
\<close>

section \<open>A scripted network\<close>

text \<open>One exchange: what others did before it, the clock and the fresh identity of the controller,
  and what becomes of it. A request or an answer may be lost, and an answer may be cut short,
  which the client sees as another exception.\<close>

datatype fate = Delivered | LostRequest | LostAnswer | CutAnswer

record exchange =
  ex_others :: "db \<Rightarrow> db"
  ex_env :: env
  ex_fate :: fate

record world =
  wd_db :: db
  wd_script :: "exchange list"
  wd_done :: "int list"

definition deliver :: "gateway \<Rightarrow> agent_config \<Rightarrow> exchange \<Rightarrow> request \<Rightarrow> db \<Rightarrow> (agent_error, response) result \<times> db" where
  "deliver gw cf e r d = (let d1 = ex_others e d in
     (if ex_fate e = LostRequest then (Inl ConnectionError, d1)
      else (case serve gw cf (ex_env e) r d1 of (x, d2) \<Rightarrow>
        (case ex_fate e of
            LostAnswer \<Rightarrow> (Inl ConnectionError, d2)
          | CutAnswer \<Rightarrow> (Inl OtherError, d2)
          | _ \<Rightarrow> (client_answer x, d2)))))"

definition net_post :: "gateway \<Rightarrow> agent_config \<Rightarrow> world post" where
  "net_post gw cf r w = (case wd_script w of
      [] \<Rightarrow> (Inl ConnectionError, w)
    | e # es \<Rightarrow> (case deliver gw cf e r (wd_db w) of (x, d) \<Rightarrow> (x, w\<lparr>wd_db := d, wd_script := es\<rparr>)))"

text \<open>The machine runs a task once it is asked to; what comes of it may depend on all that was
  run before.\<close>

definition net_exec :: "(agent_task \<Rightarrow> int list \<Rightarrow> (failure, fields) result) \<Rightarrow> world exec" where
  "net_exec machine t w = (machine t (wd_done w), w\<lparr>wd_done := wd_done w @ [at_id t]\<rparr>)"

definition net_probe :: "(target \<Rightarrow> json option) \<Rightarrow> world prober" where
  "net_probe ping g w = (ping g, w)"

text \<open>What others do is a sequence of steps of the controller.\<close>

definition script_ok :: "world \<Rightarrow> bool" where
  "script_ok w = (\<forall>e \<in> set (wd_script w). \<forall>d. rtranclp controller_step d (ex_others e d))"

definition view :: "world \<Rightarrow> int list \<Rightarrow> (int \<times> report) list \<Rightarrow> sys" where
  "view w h out = \<lparr>sy_db = wd_db w, sy_hand = h, sy_outbox = out, sy_done = wd_done w\<rparr>"

definition agent_loop ::
  "gateway \<Rightarrow> agent_config \<Rightarrow> (agent_task \<Rightarrow> int list \<Rightarrow> (failure, fields) result) \<Rightarrow> (target \<Rightarrow> json option) \<Rightarrow>
    string \<Rightarrow> snapshot \<Rightarrow> nat \<Rightarrow> nat \<times> agent \<times> world \<Rightarrow> nat \<times> agent \<times> world" where
  "agent_loop gw cf machine ping hostname sn n s =
     (main_turn (net_post gw cf) (net_exec machine) (net_probe ping) hostname sn ^^ n) s"

section \<open>The network is an outside\<close>

lemma others_steps:
  "rtranclp controller_step d d' \<Longrightarrow>
    rtranclp (system_step gw cf) \<lparr>sy_db = d, sy_hand = h, sy_outbox = out, sy_done = l\<rparr>
      \<lparr>sy_db = d', sy_hand = h, sy_outbox = out, sy_done = l\<rparr>"
  by (induction rule: rtranclp_induct) (auto intro: rtranclp.rtrancl_into_rtrancl system_step.others)

lemma deliver_cases:
  assumes "deliver gw cf e r d = (x, d')"
  shows "(d' = ex_others e d \<and> x = Inl ConnectionError) \<or>
    (\<exists>y. serve gw cf (ex_env e) r (ex_others e d) = (y, d') \<and>
      (x = client_answer y \<or> x = Inl ConnectionError \<or> x = Inl OtherError))"
  using assms unfolding deliver_def Let_def by (cases "ex_fate e") (auto split: prod.splits)

lemma net_post_cases:
  assumes "net_post gw cf r w = (x, w')"
  obtains "w' = w" "x = Inl ConnectionError"
    | e es d where "wd_script w = e # es" "deliver gw cf e r (wd_db w) = (x, d)"
      "w' = w\<lparr>wd_db := d, wd_script := es\<rparr>"
  using assms unfolding net_post_def by (cases "wd_script w") (auto split: prod.splits)

lemma view_db: "view (w\<lparr>wd_db := d, wd_script := es\<rparr>) h out =
    \<lparr>sy_db = d, sy_hand = h, sy_outbox = out, sy_done = wd_done w\<rparr>"
  by (simp add: view_def)

text \<open>One exchange seen by the abstract machine: first the others, then the answer of the
  controller, a step unless it changes nothing.\<close>

lemma exchange_steps:
  assumes "script_ok w" "net_post gw cf r w = (x, w')"
    and "\<And>en d y d'. serve gw cf en r d = (y, d') \<Longrightarrow> x = client_answer y \<Longrightarrow>
      rtranclp (system_step gw cf) \<lparr>sy_db = d, sy_hand = h, sy_outbox = out, sy_done = wd_done w\<rparr>
        \<lparr>sy_db = d', sy_hand = h', sy_outbox = out', sy_done = wd_done w\<rparr>"
    and "x = Inl ConnectionError \<or> x = Inl OtherError \<Longrightarrow> h' = h \<and> out' = out"
  shows "rtranclp (system_step gw cf) (view w h out) (view w' h' out')"
  using assms(2)
proof (cases rule: net_post_cases)
  case 1
  then show ?thesis using assms(4) by simp
next
  case (2 e es d)
  let ?s = "\<lambda>d. \<lparr>sy_db = d, sy_hand = h, sy_outbox = out, sy_done = wd_done w\<rparr>"
  have o: "rtranclp (system_step gw cf) (view w h out) (?s (ex_others e (wd_db w)))"
    unfolding view_def by (rule others_steps) (use assms(1) 2(1) in \<open>simp add: script_ok_def\<close>)
  have v: "view w' h' out' = \<lparr>sy_db = d, sy_hand = h', sy_outbox = out', sy_done = wd_done w\<rparr>"
    using 2(3) view_db by simp
  have quiet_case: "rtranclp (system_step gw cf) (?s d1) (?s d2)"
    if "serve gw cf (ex_env e) r d1 = (y, d2)" for y d1 d2
    using serve_step [OF that] by (auto intro: others_steps)
  from deliver_cases [OF 2(2)] show ?thesis
  proof (elim disjE exE conjE)
    assume "d = ex_others e (wd_db w)" "x = Inl ConnectionError"
    then show ?thesis using o v assms(4) by simp
  next
    fix y assume "serve gw cf (ex_env e) r (ex_others e (wd_db w)) = (y, d)" "x = client_answer y"
    then show ?thesis using o v assms(3) by (metis rtranclp_trans)
  next
    fix y assume "serve gw cf (ex_env e) r (ex_others e (wd_db w)) = (y, d)" "x = Inl ConnectionError"
    then show ?thesis using o v assms(4) quiet_case by (metis rtranclp_trans)
  next
    fix y assume "serve gw cf (ex_env e) r (ex_others e (wd_db w)) = (y, d)" "x = Inl OtherError"
    then show ?thesis using o v assms(4) quiet_case by (metis rtranclp_trans)
  qed
qed

lemma poll_answer:
  assumes "serve gw cf en (PollTasks sn) d = (y, d')" "client_answer y = Inr (Tasks ts)"
  shows "\<exists>us. agent_poll (gw_verify gw) (en_now en) (agent_call_of cf sn) d = Inr (us, d') \<and> map at_id ts = map tk_id us"
proof -
  have y: "y = Inr (Tasks ts)" using assms(2) by (cases y) (simp_all add: client_answer_def)
  then have "answer_pair (\<lambda>ts. Tasks (map to_wire ts)) d
      (agent_poll (gw_verify gw) (en_now en) (agent_call_of cf sn) d) = (Inr (Tasks ts), d')"
    using assms(1) unfolding serve_def serve_valid_def by (simp split: if_splits)
  then show ?thesis unfolding answer_pair_def by (auto simp: to_wire_def split: sum.splits)
qed

interpretation network: outside "net_post gw cf" "net_exec machine" "net_probe ping" script_ok view "system_step gw cf"
proof
  fix w w' :: world and x r h out
  assume ok: "script_ok w" and p: "net_post gw cf r w = (x, w')"
  show "script_ok w'"
    using p ok by (elim net_post_cases) (auto simp: script_ok_def)
  show "rtranclp (system_step gw cf) (view w h out) (view w' h out)"
    by (rule exchange_steps [OF ok p]) (auto dest: serve_step intro: others_steps)
next
  fix w w' :: world and sn ts
  assume ok: "script_ok w" and p: "net_post gw cf (PollTasks sn) w = (Inr (Tasks ts), w')"
  show "rtranclp (system_step gw cf) (view w [] []) (view w' (map at_id ts) [])"
  proof (rule exchange_steps [OF ok p])
    fix en d y d'
    assume "serve gw cf en (PollTasks sn) d = (y, d')" "Inr (Tasks ts) = client_answer y"
    from poll_answer [OF this(1) this(2) [symmetric]]
    show "rtranclp (system_step gw cf) \<lparr>sy_db = d, sy_hand = [], sy_outbox = [], sy_done = wd_done w\<rparr>
        \<lparr>sy_db = d', sy_hand = map at_id ts, sy_outbox = [], sy_done = wd_done w\<rparr>"
      using system_step.take_work [of gw "en_now en" cf sn d] by (auto intro!: r_into_rtranclp)
  qed auto
next
  fix w w' :: world and k rp x h and out :: "(int \<times> report) list"
  assume ok: "script_ok w" and p: "net_post gw cf (ReportTask k rp) w = (x, w')" and a: "answered x" "(k, rp) \<in> set out"
  show "rtranclp (system_step gw cf) (view w h out) (view w' h (AList.delete k out))"
  proof (rule exchange_steps [OF ok p])
    fix en d y d'
    assume "serve gw cf en (ReportTask k rp) d = (y, d')" "x = client_answer y"
    then show "rtranclp (system_step gw cf) \<lparr>sy_db = d, sy_hand = h, sy_outbox = out, sy_done = wd_done w\<rparr>
        \<lparr>sy_db = d', sy_hand = h, sy_outbox = AList.delete k out, sy_done = wd_done w\<rparr>"
      using a by (intro r_into_rtranclp system_step.confirm) simp_all
  qed (use a(1) in \<open>auto simp: answered_def\<close>)
next
  fix w w' :: world and t y h out rp
  assume ok: "script_ok w" and e: "net_exec machine t w = (y, w')"
  show "script_ok w'" using ok e by (auto simp: net_exec_def script_ok_def)
  show "rtranclp (system_step gw cf) (view w (at_id t # h) out) (view w' h (AList.update (at_id t) rp out))"
    using e by (auto simp: net_exec_def view_def intro!: r_into_rtranclp system_step.run_next)
qed (auto simp: net_probe_def)

section \<open>Properties\<close>

definition start :: agent where "start = \<lparr>ag_outbox = []\<rparr>"

text \<open>Two turns after a plan was confirmed: the answer to the first report is lost, so the report
  is sent again in the second turn, and the task is run once.\<close>

definition sample_config :: agent_config where
  "sample_config = \<lparr>cf_node_id = 1, cf_token = ''t'', cf_poll_interval = 5\<rparr>"

definition sample_gateway :: gateway where
  "sample_gateway = \<lparr>gw_verify = \<lambda>_ _. True, gw_schema_ok = \<lambda>_. True, gw_probes = \<lambda>_. []\<rparr>"

definition sample_snapshot :: snapshot where
  "sample_snapshot = \<lparr>sn_capabilities = [''wireguard''], sn_platform = []\<rparr>"

definition sample_exchange :: "fate \<Rightarrow> exchange" where
  "sample_exchange f = \<lparr>ex_others = \<lambda>d. d, ex_env = sample_env, ex_fate = f\<rparr>"

definition sample_world :: world where
  "sample_world = \<lparr>wd_db = run2, wd_script = map sample_exchange
     [Delivered, Delivered, Delivered, LostAnswer, Delivered, Delivered, Delivered, Delivered], wd_done = []\<rparr>"

definition sample_loop :: "nat \<Rightarrow> nat \<times> agent \<times> world" where
  "sample_loop n = agent_loop sample_gateway sample_config (\<lambda>_ _. Inr [(''applied'', JBool True)]) (\<lambda>_. None)
     ''host'' sample_snapshot n (0, start, sample_world)"

definition loop_summary :: "nat \<times> agent \<times> world \<Rightarrow> nat \<times> int list \<times> int list \<times> task_status list" where
  "loop_summary s = (case s of (f, a, w) \<Rightarrow>
     (f, map fst (ag_outbox a), wd_done w, map tk_status (db_tasks (wd_db w))))"

lemma sample_loop_evaluated:
  "map (\<lambda>n. loop_summary (sample_loop n)) [1, 2] = [(0, [1], [1], [Succeeded]), (1, [], [1], [Succeeded])]"
  by code_simp

lemma sample_world_ok: "script_ok sample_world" "reachable (wd_db sample_world)" "wd_done sample_world = []"
  using reachable_run2 by (auto simp: script_ok_def sample_world_def sample_exchange_def)

lemma sample_loop_run:
  "agent_loop sample_gateway sample_config (\<lambda>_ _. Inr [(''applied'', JBool True)]) (\<lambda>_. None)
     ''host'' sample_snapshot n (0, start, sample_world) =
   (fst (sample_loop n), fst (snd (sample_loop n)), snd (snd (sample_loop n)))"
  by (simp add: sample_loop_def)

text \<open>C13: the loop of the agent refines the abstract machine: whatever the network does to its
  requests and whatever others do in between, its turns are steps of \<open>system_step\<close>.\<close>

theorem agent_loop_refines_system:
  assumes "script_ok w" "distinct (map fst (ag_outbox a))"
    and "agent_loop gw cf machine ping hostname sn n (f, a, w) = (f', a', w')"
  shows "rtranclp (system_step gw cf) (view w [] (ag_outbox a)) (view w' [] (ag_outbox a'))"
  using network.main_turns_reach [where gw = gw and cf = cf and machine = machine and ping = ping and s = "(a, w)"
      and hostname = hostname and sn = sn and n = n and f = f] assms
  by (simp add: agent_loop_def network.reaches_def)

theorem agent_loop_refines_system_witness:
  "rtranclp (system_step sample_gateway sample_config) (view sample_world [] [])
     (view (snd (snd (sample_loop 1))) [] (ag_outbox (fst (snd (sample_loop 1))))) \<and>
   wd_done (snd (snd (sample_loop 1))) = [1]"
proof
  show "wd_done (snd (snd (sample_loop 1))) = [1]"
    using sample_loop_evaluated by (simp add: loop_summary_def split: prod.splits)
  have "distinct (map fst (ag_outbox start))" by (simp add: start_def)
  from agent_loop_refines_system [OF sample_world_ok(1) this sample_loop_run]
  show "rtranclp (system_step sample_gateway sample_config) (view sample_world [] [])
      (view (snd (snd (sample_loop 1))) [] (ag_outbox (fst (snd (sample_loop 1)))))"
    by (simp add: start_def)
qed

text \<open>C6: however many turns the agent takes, and however often requests, answers and reports are
  lost and sent again, it runs no task twice; every task it ran has left the queue of the
  controller; and at most five results wait for confirmation.\<close>

theorem tasks_run_at_most_once:
  assumes "script_ok w" "reachable (wd_db w)" "wd_done w = []"
    and "agent_loop gw cf machine ping hostname sn n (0, start, w) = (f', a', w')"
  shows "distinct (wd_done w') \<and>
    (\<forall>k \<in> set (wd_done w'). \<exists>t. get_task k (wd_db w') = Some t \<and> tk_status t \<noteq> Pending) \<and>
    length (ag_outbox a') \<le> 5 \<and> fst ` set (ag_outbox a') \<subseteq> set (wd_done w')"
proof -
  have "rtranclp (system_step gw cf) (view w [] []) (view w' [] (ag_outbox a'))"
    using network.main_turns_reach [where gw = gw and cf = cf and machine = machine and ping = ping and s = "(start, w)"
        and hostname = hostname and sn = sn and n = n and f = 0] assms(1,4)
    by (simp add: agent_loop_def network.reaches_def start_def)
  moreover have "system_init (view w [] [])" using assms(2,3) by (simp add: system_init_def view_def)
  ultimately have "system_inv (view w' [] (ag_outbox a'))" using system.from_init_inv by blast
  then show ?thesis
    by (simp add: system_inv_def view_def taken_def agent_task_poll_batch_size_def)
qed

theorem tasks_run_at_most_once_witness:
  "wd_done (snd (snd (sample_loop 2))) = [1] \<and> ag_outbox (fst (snd (sample_loop 2))) = [] \<and>
   (\<exists>t. get_task 1 (wd_db (snd (snd (sample_loop 2)))) = Some t \<and> tk_status t \<noteq> Pending)"
proof -
  have e: "wd_done (snd (snd (sample_loop 2))) = [1]" "ag_outbox (fst (snd (sample_loop 2))) = []"
    using sample_loop_evaluated by (simp_all add: loop_summary_def split: prod.splits)
  from tasks_run_at_most_once [OF sample_world_ok sample_loop_run [of 2]] e show ?thesis by simp
qed

end
