(* ===== verification/Auth.thy ===== *)
theory Auth
  imports Models IpAddress
begin

text \<open>
  Who may call the controller (main.py): the source of a request, the limit on failed logins,
  the single web session of the administrator, the paths that need none, and the settings that
  hold the credentials. Hashing, the generation of tokens and the text of a time stamp are
  parameters.
\<close>

section \<open>Requests and their source\<close>

text \<open>Header names are in lower case, as the framework gives them.\<close>

record web_request =
  wr_method :: string
  wr_path :: string
  wr_scheme :: string
  wr_headers :: "(string \<times> string) list"
  wr_cookie :: "string option"
  wr_client :: "string option"

definition header_or :: "string \<Rightarrow> web_request \<Rightarrow> string" where
  "header_or name r = the_or [] (map_of (wr_headers r) name)"

definition normalized_header_ip :: "string \<Rightarrow> string option" where
  "normalized_header_ip value = (let candidate = strip_by (\<lambda>c. c = CHR 0x22) (strip value) in
     if candidate = [] then None
     else let host = (if starts_with candidate ''['' \<and> CHR '']'' \<in> set candidate
              then takeWhile (\<lambda>c. c \<noteq> CHR '']'') (tl candidate)
              else if count_char CHR '':'' candidate = 1 \<and> CHR ''.'' \<in> set candidate
              then fst (split_first CHR '':'' candidate) else candidate) in
       map_option compressed (ip_address host))"

text \<open>The prefix length of a mask text, for which a net mask and a host mask are read too.\<close>

definition mask_prefix :: "int \<Rightarrow> int option" where
  "mask_prefix m = map_option int (find (\<lambda>p. m = 2 ^ 32 - 2 ^ (32 - p)) [0 ..< 33])"

definition ipv4_prefix :: "string \<Rightarrow> int option" where
  "ipv4_prefix s = (if prefix_text_ok 32 s then Some (dec_value 0 s)
     else (case parse_ipv4 s of None \<Rightarrow> None
       | Some m \<Rightarrow> (case mask_prefix m of Some p \<Rightarrow> Some p | None \<Rightarrow> mask_prefix (2 ^ 32 - 1 - m))))"

text \<open>\<open>ip_network(value, strict=False)\<close>: version, address and prefix length.\<close>

definition network_of :: "string \<Rightarrow> (int \<times> int \<times> int) option" where
  "network_of value = (case split_on CHR ''/'' value of
      [a] \<Rightarrow> (case ip_address a of None \<Rightarrow> None
        | Some (IPv4 n) \<Rightarrow> Some (4, n, 32) | Some (IPv6 n z) \<Rightarrow> Some (6, n, 128))
    | [a, m] \<Rightarrow> (case ip_address a of None \<Rightarrow> None
        | Some (IPv4 n) \<Rightarrow> map_option (\<lambda>p. (4, n, p)) (ipv4_prefix m)
        | Some (IPv6 n z) \<Rightarrow> if prefix_text_ok 128 m then Some (6, n, dec_value 0 m) else None)
    | _ \<Rightarrow> None)"

definition in_network :: "ip_addr \<Rightarrow> int \<times> int \<times> int \<Rightarrow> bool" where
  "in_network address net = (case net of (v, n, p) \<Rightarrow> (case address of
      IPv4 a \<Rightarrow> v = 4 \<and> a div 2 ^ nat (32 - p) = n div 2 ^ nat (32 - p)
    | IPv6 a z \<Rightarrow> v = 6 \<and> a div 2 ^ nat (128 - p) = n div 2 ^ nat (128 - p)))"

text \<open>\<open>cidrs\<close> is the setting \<open>trusted_proxy_cidrs\<close>; an entry that is no network is passed over.\<close>

definition request_direct_peer_is_trusted :: "string \<Rightarrow> web_request \<Rightarrow> bool" where
  "request_direct_peer_is_trusted cidrs r =
     (case Option.bind (wr_client r) normalized_header_ip of None \<Rightarrow> False
      | Some ip \<Rightarrow> (case ip_address ip of None \<Rightarrow> False
        | Some address \<Rightarrow> list_ex (\<lambda>v. v \<noteq> [] \<and>
            (case network_of v of None \<Rightarrow> False | Some net \<Rightarrow> in_network address net))
            (map strip (split_on CHR '','' cidrs))))"

fun first_ip :: "string list \<Rightarrow> string option" where
  "first_ip [] = None"
| "first_ip (v # vs) = (case normalized_header_ip v of Some ip \<Rightarrow> Some ip | None \<Rightarrow> first_ip vs)"

definition forwarded_values :: "string \<Rightarrow> string list" where
  "forwarded_values forwarded = concat (map (\<lambda>section.
     concat (map (\<lambda>item. case split_first CHR ''='' (strip item) of
        (key, value) \<Rightarrow> if lower key = ''for'' then [value] else []) (split_on CHR '';'' section)))
     (split_on CHR '','' forwarded))"

definition request_source_ip :: "string \<Rightarrow> web_request \<Rightarrow> string option" where
  "request_source_ip cidrs r =
     (let direct = (case Option.bind (wr_client r) normalized_header_ip of
            Some ip \<Rightarrow> Some ip | None \<Rightarrow> wr_client r) in
      if request_direct_peer_is_trusted cidrs r then
        (let candidates = (if header_or ''x-forwarded-for'' r = [] then []
              else split_on CHR '','' (header_or ''x-forwarded-for'' r)) @
            [header_or ''x-real-ip'' r, header_or ''cf-connecting-ip'' r] @
            (if header_or ''forwarded'' r = [] then [] else forwarded_values (header_or ''forwarded'' r)) in
         case first_ip candidates of Some ip \<Rightarrow> Some ip | None \<Rightarrow> direct)
      else direct)"

section \<open>The limit on failed logins\<close>

definition login_failure_limit :: nat where "login_failure_limit = 5"
definition login_failure_window :: time where "login_failure_window = seconds (5 * 60)"

type_synonym rate_key = "string \<times> string"

text \<open>The dictionary of the failures in the order of insertion, each entry with its times, the
  oldest first.\<close>

type_synonym failures = "(rate_key \<times> time list) list"

text \<open>Below 256 \<open>casefold\<close> differs from \<open>lower\<close> only in the sharp s and the micro sign; the
  latter leaves the range and is kept.\<close>

definition casefold :: "string \<Rightarrow> string" where
  "casefold s = concat (map (\<lambda>c. if code c = 0xDF then ''ss'' else [lower_char c]) s)"

definition login_rate_key :: "string \<Rightarrow> web_request \<Rightarrow> string \<Rightarrow> rate_key" where
  "login_rate_key cidrs r username =
     ((case request_source_ip cidrs r of None \<Rightarrow> ''unknown'' | Some ip \<Rightarrow> if ip = [] then ''unknown'' else ip),
      take 80 (casefold (strip username)))"

definition rate_keys :: "rate_key \<Rightarrow> rate_key list" where
  "rate_keys key = [key, (fst key, ''*''), (''*'', snd key)]"

definition recent :: "time \<Rightarrow> time list \<Rightarrow> time list" where
  "recent now ts = dropWhile (\<lambda>t. login_failure_window \<le> now - t) ts"

definition failures_of :: "failures \<Rightarrow> rate_key \<Rightarrow> time list" where
  "failures_of fs k = the_or [] (map_of fs k)"

definition wait_seconds :: "time \<Rightarrow> time list \<Rightarrow> int" where
  "wait_seconds now ts = max 1 ((login_failure_window - (now - hd ts)) div 1000000)"

definition check_rate_key :: "time \<Rightarrow> rate_key \<Rightarrow> failures \<times> int \<Rightarrow> failures \<times> int" where
  "check_rate_key now k acc = (case acc of (fs, retry_after) \<Rightarrow>
     (let ts = recent now (failures_of fs k) in
      if ts = [] then (AList.delete k fs, retry_after)
      else (AList.update k ts fs,
        if login_failure_limit \<le> length ts then max retry_after (wait_seconds now ts) else retry_after)))"

definition login_retry_after :: "time \<Rightarrow> rate_key \<Rightarrow> failures \<Rightarrow> failures \<times> int" where
  "login_retry_after now key fs = fold (check_rate_key now) (rate_keys key) (fs, 0)"

definition note_failure :: "time \<Rightarrow> rate_key \<Rightarrow> failures \<Rightarrow> failures" where
  "note_failure now k fs = AList.update k (recent now (failures_of fs k) @ [now]) fs"

definition max_rate_keys :: nat where "max_rate_keys = 4096"
definition evicted_rate_keys :: nat where "evicted_rate_keys = 1024"

definition record_login_failure :: "time \<Rightarrow> rate_key \<Rightarrow> failures \<Rightarrow> failures" where
  "record_login_failure now key fs =
     (let fs1 = fold (note_failure now) (rate_keys key) fs in
      if max_rate_keys < length fs1
      then fold (\<lambda>k. if k = key then id else AList.delete k) (map fst (take evicted_rate_keys fs1)) fs1
      else fs1)"

definition clear_login_failures :: "rate_key \<Rightarrow> failures \<Rightarrow> failures" where
  "clear_login_failures key fs = fold AList.delete (rate_keys key) fs"

section \<open>The web session\<close>

definition setting_text :: "string \<Rightarrow> db \<Rightarrow> string" where
  "setting_text k d = the_or [] (get_setting k d)"

text \<open>The parts of the program outside this repository: hashes, tokens and the text of a time;
  \<open>cr_read_time\<close> is \<open>float\<close> on a text, \<open>None\<close> its \<open>ValueError\<close>.\<close>

record crypto =
  cr_verify_token :: "string \<Rightarrow> string \<Rightarrow> bool"
  cr_hash_token :: "string \<Rightarrow> string"
  cr_verify_password :: "string \<Rightarrow> string \<Rightarrow> bool"
  cr_hash_password :: "string \<Rightarrow> string"
  cr_needs_update :: "string \<Rightarrow> bool"
  cr_show_time :: "time \<Rightarrow> string"
  cr_read_time :: "string \<Rightarrow> time option"

record session_limits =
  sl_absolute :: int
  sl_idle :: int

definition admin_username :: "db \<Rightarrow> string" where
  "admin_username d = (if setting_text ''admin_username'' d = [] then ''pmman''
     else setting_text ''admin_username'' d)"

definition bearer_token_from_request :: "web_request \<Rightarrow> string option" where
  "bearer_token_from_request r = (case split_first CHR '' '' (header_or ''authorization'' r) of (scheme, token) \<Rightarrow>
     if lower scheme \<noteq> ''bearer'' \<or> strip token = [] then None else Some (strip token))"

definition web_session_token_from_request :: "web_request \<Rightarrow> string option" where
  "web_session_token_from_request r = (case bearer_token_from_request r of
      Some token \<Rightarrow> Some token
    | None \<Rightarrow> (let cookie = strip (the_or [] (wr_cookie r)) in if cookie = [] then None else Some cookie))"

definition request_uses_cookie_session :: "web_request \<Rightarrow> bool" where
  "request_uses_cookie_session r = (bearer_token_from_request r = None \<and> the_or [] (wr_cookie r) \<noteq> [])"

definition task_result_path :: "string \<Rightarrow> bool" where
  "task_result_path path = (starts_with path ''/api/agent/tasks/'' \<and> ends_with path ''/result'' \<and>
     length ''/api/agent/tasks/'' + length ''/result'' < length path \<and>
     list_all is_dec (drop (length ''/api/agent/tasks/'') (take (length path - length ''/result'') path)))"

definition is_api_auth_exempt :: "string \<Rightarrow> bool" where
  "is_api_auth_exempt path =
     (List.member [''/api/health'', ''/api/auth/login'', ''/api/branding'', ''/api/agent/register'',
        ''/api/agent/heartbeat'', ''/api/agent/tasks/poll'', ''/api/agent/link-monitors/poll'',
        ''/api/agent/link-monitors/result''] path \<or>
      task_result_path path \<or> starts_with path ''/api/agent/releases/'' \<or>
      starts_with path ''/api/agent/plugins/udp2raw/assets/'')"

definition clear_web_session :: "db \<Rightarrow> db" where
  "clear_web_session d = put_setting ''admin_session_last_used_at'' []
     (put_setting ''admin_session_issued_at'' [] (put_setting ''admin_session_hash'' [] d))"

text \<open>\<open>issued_at\<close> and \<open>last_used_at\<close> as the session check reads them.\<close>

definition session_times :: "crypto \<Rightarrow> time \<Rightarrow> db \<Rightarrow> time \<times> time" where
  "session_times cr now d =
     (let issued = (if setting_text ''admin_session_issued_at'' d = [] then Some now
            else cr_read_time cr (setting_text ''admin_session_issued_at'' d));
          used = (if setting_text ''admin_session_last_used_at'' d = [] then issued
            else cr_read_time cr (setting_text ''admin_session_last_used_at'' d)) in
      case (issued, used) of (Some i, Some u) \<Rightarrow> (i, u) | _ \<Rightarrow> (now, now))"

definition require_web_session :: "crypto \<Rightarrow> session_limits \<Rightarrow> time \<Rightarrow> web_request \<Rightarrow> db \<Rightarrow> unit reply \<times> db" where
  "require_web_session cr sl now r d =
     (let hash = setting_text ''admin_session_hash'' d in
      case web_session_token_from_request r of
        None \<Rightarrow> (Inl (HTTP 401 ''not authenticated''), d)
      | Some token \<Rightarrow>
          if hash = [] \<or> \<not> cr_verify_token cr token hash then (Inl (HTTP 401 ''not authenticated''), d)
          else (case session_times cr now d of (issued, used) \<Rightarrow>
            if seconds (sl_absolute sl) < now - issued \<or> seconds (sl_idle sl) < now - used
            then (Inl (HTTP 401 ''session expired''), clear_web_session d)
            else if seconds 60 \<le> now - used \<or> setting_text ''admin_session_issued_at'' d = []
            then (Inr (), put_setting ''admin_session_last_used_at'' (cr_show_time cr now)
              (put_setting ''admin_session_issued_at'' (cr_show_time cr issued) d))
            else (Inr (), d)))"

text \<open>The middleware before the handlers: \<open>Inr\<close> lets the request through.\<close>

definition require_api_authentication ::
  "crypto \<Rightarrow> session_limits \<Rightarrow> time \<Rightarrow> web_request \<Rightarrow> db \<Rightarrow> unit reply \<times> db" where
  "require_api_authentication cr sl now r d =
     (if wr_method r = ''OPTIONS'' then (Inr (), d)
      else if starts_with (wr_path r) ''/api/'' \<and> \<not> is_api_auth_exempt (wr_path r) then
        (if \<not> List.member [''GET'', ''HEAD'', ''OPTIONS''] (wr_method r) \<and> request_uses_cookie_session r \<and>
            map_of (wr_headers r) ''x-link42-csrf'' \<noteq> Some ''1''
         then (Inl (HTTP 403 ''CSRF validation failed''), d)
         else require_web_session cr sl now r d)
      else (Inr (), d))"

section \<open>Login and settings\<close>

text \<open>\<open>token\<close> is the fresh token of the session.\<close>

definition login :: "crypto \<Rightarrow> time \<Rightarrow> string \<Rightarrow> string \<Rightarrow> string \<Rightarrow> db \<Rightarrow> (string \<times> db) reply" where
  "login cr now token username password d =
     (let hash = setting_text ''admin_password_hash'' d in
      if username \<noteq> admin_username d \<or> hash = [] \<or> \<not> cr_verify_password cr password hash
      then Inl (HTTP 401 ''invalid username or password'')
      else (let d1 = (if cr_needs_update cr hash
              then put_setting ''admin_password_hash'' (cr_hash_password cr password) d else d) in
        Inr (token, put_setting ''admin_session_last_used_at'' (cr_show_time cr now)
          (put_setting ''admin_session_issued_at'' (cr_show_time cr now)
            (put_setting ''admin_session_hash'' (cr_hash_token cr token) d1)))))"

text \<open>\<open>free\<close> tells whether a place of the login semaphore is free; \<open>ticks\<close> is the monotonic clock
  of the limit, \<open>now\<close> the clock of the session.\<close>

definition login_endpoint ::
  "crypto \<Rightarrow> string \<Rightarrow> bool \<Rightarrow> time \<Rightarrow> time \<Rightarrow> string \<Rightarrow> web_request \<Rightarrow> string \<Rightarrow> string \<Rightarrow> failures \<times> db \<Rightarrow>
    string reply \<times> failures \<times> db" where
  "login_endpoint cr cidrs free ticks now token r username password s = (case s of (fs, d) \<Rightarrow>
     (let key = login_rate_key cidrs r username in
      case login_retry_after ticks key fs of (fs1, retry_after) \<Rightarrow>
        if retry_after \<noteq> 0 then (Inl (HTTP 429 ''too many login attempts''), fs1, d)
        else if \<not> free then (Inl (HTTP 429 ''too many concurrent login attempts''), fs1, d)
        else (case login cr now token username password d of
            Inl e \<Rightarrow> (Inl e, record_login_failure ticks key fs1, d)
          | Inr (t, d1) \<Rightarrow> (Inr t, clear_login_failures key fs1, d1))))"

definition logout :: "db \<Rightarrow> db" where
  "logout d = clear_web_session d"

definition cookie_should_be_secure :: "string \<Rightarrow> string \<Rightarrow> web_request \<Rightarrow> bool" where
  "cookie_should_be_secure web_cookie_secure cidrs r = (let configured = lower (strip web_cookie_secure) in
     if List.member [''1'', ''true'', ''yes'', ''on''] configured then True
     else if List.member [''0'', ''false'', ''no'', ''off''] configured then False
     else wr_scheme r = ''https'' \<or>
       (request_direct_peer_is_trusted cidrs r \<and>
        strip (fst (split_first CHR '','' (header_or ''x-forwarded-proto'' r))) = ''https''))"

record settings_update =
  su_controller_url :: string
  su_username :: string
  su_site_title :: string
  su_site_logo_url :: "string option"
  su_new_password :: "string option"

definition update_controller_settings :: "crypto \<Rightarrow> settings_update \<Rightarrow> db \<Rightarrow> db reply" where
  "update_controller_settings cr su d =
     (let url = strip (su_controller_url su); username = strip (su_username su) in
      if url = [] then Inl (HTTP 400 ''controller url is required'')
      else if username = [] then Inl (HTTP 400 ''username is required'')
      else (let d1 = put_setting ''site_title''
              (if strip (su_site_title su) = [] then ''Link42'' else strip (su_site_title su))
              (put_setting ''admin_username'' username (put_setting ''controller_url'' url d));
            d2 = (case su_site_logo_url su of None \<Rightarrow> d1
              | Some u \<Rightarrow> put_setting ''site_logo_url'' (if strip u = [] then ''/logo.png'' else strip u) d1) in
        Inr (case su_new_password su of None \<Rightarrow> d2
          | Some p \<Rightarrow> if p = [] then d2
              else clear_web_session (put_setting ''admin_initial_password_pending'' []
                (put_setting ''admin_password_hash'' (cr_hash_password cr p) d2)))))"

end
