(* ===== verification/AuthLaws.thy ===== *)
theory AuthLaws
  imports Auth Samples
begin

text \<open>
  The laws of authentication: an account sees at most five wrong passwords in five minutes, the
  table behind that limit is bounded, and what passes the session check holds the session of the
  last login, within its lifetime and before a logout or a change of the password.
\<close>

section \<open>The table of failures\<close>

lemma failures_of_update: "failures_of (AList.update k ts fs) j = (if j = k then ts else failures_of fs j)"
  by (simp add: failures_of_def update_conv')

lemma failures_of_delete: "failures_of (AList.delete k fs) j = (if j = k then [] else failures_of fs j)"
  by (simp add: failures_of_def delete_conv')

lemma update_length_le:
  "length (AList.update k v xs) \<le> Suc (length xs)"
  "k \<in> fst ` set xs \<Longrightarrow> length (AList.update k v xs) = length xs"
  by (induction xs) auto

lemma failures_of_key: "failures_of fs k \<noteq> [] \<Longrightarrow> k \<in> fst ` set fs"
  by (auto simp: failures_of_def the_or_def map_of_eq_None_iff split: option.splits dest!: map_of_SomeD intro: rev_image_eqI)

lemma recent_nil [simp]: "recent now [] = []"
  by (simp add: recent_def)

lemma check_rate_key_table:
  "fst (check_rate_key now k (fs, r)) =
    (if recent now (failures_of fs k) = [] then AList.delete k fs else AList.update k (recent now (failures_of fs k)) fs)"
  by (simp add: check_rate_key_def Let_def)

lemma check_rate_key_failures:
  "failures_of (fst (check_rate_key now k (fs, r))) j =
    (if j = k then recent now (failures_of fs k) else failures_of fs j)"
  by (simp add: check_rate_key_table failures_of_update failures_of_delete)

lemma check_rate_key_length: "length (fst (check_rate_key now k (fs, r))) \<le> length fs"
proof (cases "recent now (failures_of fs k) = []")
  case True
  then show ?thesis by (simp add: check_rate_key_table AList.delete_eq)
next
  case False
  then have "failures_of fs k \<noteq> []" by auto
  then show ?thesis using False update_length_le(2) [OF failures_of_key]
    by (simp add: check_rate_key_table)
qed

lemma check_rate_key_distinct: "distinct (map fst fs) \<Longrightarrow> distinct (map fst (fst (check_rate_key now k (fs, r))))"
  by (simp add: check_rate_key_table distinct_update distinct_delete)

lemma check_rate_key_retry:
  "r \<le> snd (check_rate_key now k (fs, r))"
  "login_failure_limit \<le> length (recent now (failures_of fs k)) \<Longrightarrow> 1 \<le> snd (check_rate_key now k (fs, r))"
  by (auto simp: check_rate_key_def Let_def wait_seconds_def login_failure_limit_def)

text \<open>The three keys of an attempt, one after the other.\<close>

lemma login_retry_after_unfold:
  "login_retry_after now key fs = check_rate_key now (''*'', snd key)
     (check_rate_key now (fst key, ''*'') (check_rate_key now key (fs, 0)))"
  by (simp add: login_retry_after_def rate_keys_def)

lemma login_retry_after_table:
  "length (fst (login_retry_after now key fs)) \<le> length fs"
  "distinct (map fst fs) \<Longrightarrow> distinct (map fst (fst (login_retry_after now key fs)))"
proof -
  obtain f1 r1 where c1: "check_rate_key now key (fs, 0) = (f1, r1)" by (rule prod.exhaust)
  obtain f2 r2 where c2: "check_rate_key now (fst key, ''*'') (f1, r1) = (f2, r2)" by (rule prod.exhaust)
  note l = check_rate_key_length [of now key fs 0] check_rate_key_length [of now "(fst key, ''*'')" f1 r1]
    check_rate_key_length [of now "(''*'', snd key)" f2 r2]
  show "length (fst (login_retry_after now key fs)) \<le> length fs"
    using l unfolding login_retry_after_unfold c1 c2 fst_conv by linarith
  show "distinct (map fst (fst (login_retry_after now key fs)))" if "distinct (map fst fs)"
    using check_rate_key_distinct [of f2 now "(''*'', snd key)" r2]
      check_rate_key_distinct [of f1 now "(fst key, ''*'')" r1] check_rate_key_distinct [of fs now key 0] that
    unfolding login_retry_after_unfold c1 c2 fst_conv by blast
qed

text \<open>The failures of an account since a time, which no check within the window forgets.\<close>

definition since :: "time \<Rightarrow> string \<Rightarrow> failures \<Rightarrow> nat" where
  "since start u fs = length (filter (\<lambda>t. start \<le> t) (failures_of fs (''*'', u)))"

lemma recent_keeps:
  assumes "now < start + login_failure_window"
  shows "filter (\<lambda>t. start \<le> t) (recent now ts) = filter (\<lambda>t. start \<le> t) ts"
  unfolding recent_def
proof (induction ts)
  case (Cons t ts)
  then show ?case using assms by auto
qed simp

lemma check_rate_key_since:
  "now < start + login_failure_window \<Longrightarrow> since start u (fst (check_rate_key now k (fs, r))) = since start u fs"
  by (simp add: since_def check_rate_key_failures recent_keeps)

lemma login_retry_after_since:
  assumes "now < start + login_failure_window"
  shows "since start u (fst (login_retry_after now key fs)) = since start u fs"
    "snd key = u \<Longrightarrow> login_failure_limit \<le> since start u fs \<Longrightarrow> 1 \<le> snd (login_retry_after now key fs)"
proof -
  obtain f1 r1 where c1: "check_rate_key now key (fs, 0) = (f1, r1)" by (rule prod.exhaust)
  obtain f2 r2 where c2: "check_rate_key now (fst key, ''*'') (f1, r1) = (f2, r2)" by (rule prod.exhaust)
  have f: "since start u f1 = since start u fs" "since start u f2 = since start u f1"
    using check_rate_key_since [OF assms, of u key fs 0] c1
      check_rate_key_since [OF assms, of u "(fst key, ''*'')" f1 r1] c2 by simp_all
  show "since start u (fst (login_retry_after now key fs)) = since start u fs"
    using check_rate_key_since [OF assms, of u "(''*'', snd key)" f2 r2] f
    unfolding login_retry_after_unfold c1 c2 by simp
  assume u: "snd key = u" and l: "login_failure_limit \<le> since start u fs"
  have "since start u f2 \<le> length (recent now (failures_of f2 (''*'', u)))"
    unfolding since_def recent_keeps [OF assms, of "failures_of f2 (''*'', u)", symmetric] by (rule length_filter_le)
  then show "1 \<le> snd (login_retry_after now key fs)"
    using check_rate_key_retry(2) [where now = now and k = "(''*'', u)" and fs = f2 and r = r2] f l u
    unfolding login_retry_after_unfold c1 c2 by simp
qed

lemma note_failure_since:
  assumes "now < start + login_failure_window" "start \<le> now"
  shows "since start u fs \<le> since start u (note_failure now k fs)"
    "since start u (note_failure now (''*'', u) fs) = Suc (since start u fs)"
  using assms by (simp_all add: note_failure_def since_def failures_of_update recent_keeps)

lemma note_failure_length: "length (note_failure now k fs) \<le> Suc (length fs)"
  unfolding note_failure_def by (rule update_length_le)

lemma record_login_failure_unfold:
  "length fs + 3 \<le> max_rate_keys \<Longrightarrow> record_login_failure now key fs =
    note_failure now (''*'', snd key) (note_failure now (fst key, ''*'') (note_failure now key fs))"
  using note_failure_length [of now key fs] note_failure_length [of now "(fst key, ''*'')" "note_failure now key fs"]
    note_failure_length [of now "(''*'', snd key)" "note_failure now (fst key, ''*'') (note_failure now key fs)"]
  by (simp add: record_login_failure_def rate_keys_def Let_def)

lemma record_login_failure_since:
  assumes "length fs + 3 \<le> max_rate_keys" "now < start + login_failure_window" "start \<le> now"
  shows "Suc (since start (snd key) fs) \<le> since start (snd key) (record_login_failure now key fs)"
    "length (record_login_failure now key fs) \<le> length fs + 3"
proof -
  let ?f1 = "note_failure now key fs" and ?f2 = "note_failure now (fst key, ''*'') (note_failure now key fs)"
  show "Suc (since start (snd key) fs) \<le> since start (snd key) (record_login_failure now key fs)"
    using note_failure_since(1) [OF assms(2,3), of "snd key" fs key]
      note_failure_since(1) [OF assms(2,3), of "snd key" ?f1 "(fst key, ''*'')"]
      note_failure_since(2) [OF assms(2,3), of "snd key" ?f2] record_login_failure_unfold [OF assms(1), of now key]
    by simp
  show "length (record_login_failure now key fs) \<le> length fs + 3"
    using note_failure_length [of now key fs] note_failure_length [of now "(fst key, ''*'')" ?f1]
      note_failure_length [of now "(''*'', snd key)" ?f2] record_login_failure_unfold [OF assms(1), of now key]
    by simp
qed

section \<open>Attempts\<close>

record attempt =
  am_free :: bool
  am_ticks :: time
  am_now :: time
  am_token :: string
  am_request :: web_request
  am_username :: string
  am_password :: string

definition try_login :: "crypto \<Rightarrow> string \<Rightarrow> attempt \<Rightarrow> failures \<times> db \<Rightarrow> string reply \<times> failures \<times> db" where
  "try_login cr cidrs a s = login_endpoint cr cidrs (am_free a) (am_ticks a) (am_now a) (am_token a)
     (am_request a) (am_username a) (am_password a) s"

fun try_logins :: "crypto \<Rightarrow> string \<Rightarrow> attempt list \<Rightarrow> failures \<times> db \<Rightarrow> string reply list \<times> failures \<times> db" where
  "try_logins cr cidrs [] s = ([], s)"
| "try_logins cr cidrs (a # as) s = (case try_login cr cidrs a s of (x, s1) \<Rightarrow>
     (case try_logins cr cidrs as s1 of (xs, s2) \<Rightarrow> (x # xs, s2)))"

text \<open>The password was compared and found wrong.\<close>

definition wrong_password :: "string reply \<Rightarrow> bool" where
  "wrong_password x = (case x of Inl (HTTP c _) \<Rightarrow> c = 401 | Inr _ \<Rightarrow> False)"

lemma login_error: "login cr now token u p d = Inl e \<Longrightarrow> e = HTTP 401 ''invalid username or password''"
  by (simp add: login_def Let_def split: if_splits)

lemma try_login_wrong:
  assumes x: "try_login cr cidrs a (fs, d) = (x, fs', d')" and e: "\<not> is_ok x"
    and t: "start \<le> am_ticks a" "am_ticks a < start + login_failure_window"
    and u: "snd (login_rate_key cidrs (am_request a) (am_username a)) = u"
    and room: "length fs + 3 \<le> max_rate_keys"
  shows "length fs' \<le> length fs + 3 \<and> since start u fs \<le> since start u fs' \<and>
    (wrong_password x \<longrightarrow> Suc (since start u fs) \<le> since start u fs' \<and> since start u fs < login_failure_limit)"
proof -
  let ?key = "login_rate_key cidrs (am_request a) (am_username a)"
  obtain fs1 r where c: "login_retry_after (am_ticks a) ?key fs = (fs1, r)" by (rule prod.exhaust)
  have len: "length fs1 \<le> length fs" using login_retry_after_table(1) [of "am_ticks a" ?key fs] c by simp
  have keep: "since start u fs1 = since start u fs"
    and stop: "login_failure_limit \<le> since start u fs \<Longrightarrow> r \<noteq> 0"
    using login_retry_after_since [OF t(2), where u = u and key = ?key and fs = fs] c u by auto
  have room1: "length fs1 + 3 \<le> max_rate_keys" using len room by simp
  note r = record_login_failure_since [OF room1 t(2,1), of ?key]
  consider (refused) c m where "x = Inl (HTTP c m)" "c = 429" "fs' = fs1"
    | (wrong) "wrong_password x" "fs' = record_login_failure (am_ticks a) ?key fs1" "r = 0"
  proof (cases "r \<noteq> 0 \<or> \<not> am_free a")
    case True
    then show thesis using x c refused
      unfolding try_login_def login_endpoint_def Let_def prod.case by (auto split: if_splits)
  next
    case False
    then obtain e where l: "login cr (am_now a) (am_token a) (am_username a) (am_password a) d = Inl e"
      using x c e unfolding try_login_def login_endpoint_def Let_def prod.case
      by (auto split: sum.splits prod.splits)
    then have "(Inl e, record_login_failure (am_ticks a) ?key fs1, d) = (x, fs', d')"
      using x c False unfolding try_login_def login_endpoint_def Let_def prod.case by simp
    then have "x = Inl e" "fs' = record_login_failure (am_ticks a) ?key fs1" by blast+
    then show thesis using wrong False login_error [OF l] by (simp add: wrong_password_def)
  qed
  then show ?thesis
  proof cases
    case refused
    then show ?thesis using len keep by (simp add: wrong_password_def)
  next
    case wrong
    then show ?thesis using len keep stop r u by (auto simp: not_le [symmetric])
  qed
qed

lemma try_logins_wrong:
  assumes "try_logins cr cidrs as (fs, d) = (xs, fs', d')" "\<forall>x \<in> set xs. \<not> is_ok x"
    and "\<forall>a \<in> set as. start \<le> am_ticks a \<and> am_ticks a < start + login_failure_window \<and>
      snd (login_rate_key cidrs (am_request a) (am_username a)) = u"
    and "length fs + 3 * length as \<le> max_rate_keys"
  shows "length (filter wrong_password xs) \<le> login_failure_limit - since start u fs"
  using assms
proof (induction as arbitrary: fs d xs)
  case Nil
  then show ?case by simp
next
  case (Cons a as)
  obtain x f1 d1 where x: "try_login cr cidrs a (fs, d) = (x, f1, d1)" by (metis prod.exhaust)
  obtain ys where y: "try_logins cr cidrs as (f1, d1) = (ys, fs', d')" "xs = x # ys"
    using Cons.prems(1) x by (auto split: prod.splits)
  have one: "length f1 \<le> length fs + 3 \<and> since start u fs \<le> since start u f1 \<and>
    (wrong_password x \<longrightarrow> Suc (since start u fs) \<le> since start u f1 \<and> since start u fs < login_failure_limit)"
    by (rule try_login_wrong [OF x]) (use Cons.prems y(2) in auto)
  have "length (filter wrong_password ys) \<le> login_failure_limit - since start u f1"
    by (rule Cons.IH [OF y(1)]) (use Cons.prems one y(2) in auto)
  then show ?case using one y(2) by auto
qed

section \<open>The size of the table\<close>

lemma fold_delete:
  "fold (\<lambda>k. if k = key then id else AList.delete k) ks fs = filter (\<lambda>e. fst e = key \<or> fst e \<notin> set ks) fs"
proof (induction ks arbitrary: fs)
  case (Cons k ks)
  then show ?case by (auto simp: AList.delete_eq intro!: filter_cong)
qed simp

lemma one_entry: "distinct (map fst xs) \<Longrightarrow> length (filter (\<lambda>e. fst e = key) xs) \<le> 1"
proof (induction xs)
  case (Cons x xs)
  have "filter (\<lambda>e. fst e = key) xs = []" if "fst x = key"
    using that Cons.prems unfolding filter_empty_conv by (metis distinct.simps(2) image_eqI list.map(2) set_map)
  then show ?case using Cons by simp
qed simp

lemma eviction_length:
  assumes "distinct (map fst fs)" "n \<le> length fs"
  shows "length (fold (\<lambda>k. if k = key then id else AList.delete k) (map fst (take n fs)) fs) \<le> length fs - n + 1"
proof -
  let ?P = "\<lambda>e. fst e = key \<or> fst e \<notin> set (map fst (take n fs))"
  have "filter ?P fs = filter ?P (take n fs) @ filter ?P (drop n fs)"
    unfolding filter_append [symmetric] by simp
  moreover have "filter ?P (take n fs) = filter (\<lambda>e. fst e = key) (take n fs)" by (rule filter_cong) auto
  moreover have "length (filter (\<lambda>e. fst e = key) (take n fs)) \<le> 1"
    by (rule one_entry) (use assms(1) in \<open>simp add: take_map [symmetric]\<close>)
  moreover have "length (filter ?P (drop n fs)) \<le> length fs - n"
    using length_filter_le [of ?P "drop n fs"] by simp
  ultimately show ?thesis unfolding fold_delete by simp
qed

lemma note_failure_distinct: "distinct (map fst fs) \<Longrightarrow> distinct (map fst (note_failure now k fs))"
  by (simp add: note_failure_def distinct_update)

lemma record_login_failure_bounded:
  assumes "distinct (map fst fs)" "length fs \<le> max_rate_keys"
  shows "distinct (map fst (record_login_failure now key fs)) \<and> length (record_login_failure now key fs) \<le> max_rate_keys"
proof -
  define f1 where "f1 = fold (note_failure now) (rate_keys key) fs"
  have f1: "distinct (map fst f1)" "length f1 \<le> length fs + 3"
    using note_failure_length [of now key fs] note_failure_length [of now "(fst key, ''*'')" "note_failure now key fs"]
      note_failure_length [of now "(''*'', snd key)" "note_failure now (fst key, ''*'') (note_failure now key fs)"]
      note_failure_distinct [OF note_failure_distinct [OF note_failure_distinct [OF assms(1)]]]
    by (simp_all add: f1_def rate_keys_def)
  show ?thesis
  proof (cases "max_rate_keys < length f1")
    case False
    then show ?thesis using f1(1) by (simp add: record_login_failure_def f1_def [symmetric] Let_def)
  next
    case True
    let ?f2 = "fold (\<lambda>k. if k = key then id else AList.delete k) (map fst (take evicted_rate_keys f1)) f1"
    have "evicted_rate_keys \<le> length f1" using True by (simp add: max_rate_keys_def evicted_rate_keys_def)
    from eviction_length [OF f1(1) this, of key] have "length ?f2 \<le> max_rate_keys"
      using f1(2) assms(2) by (simp add: max_rate_keys_def evicted_rate_keys_def)
    moreover have "distinct (map fst ?f2)" unfolding fold_delete using f1(1) by (simp add: distinct_map_filter)
    ultimately show ?thesis using True by (simp add: record_login_failure_def f1_def [symmetric] Let_def)
  qed
qed

section \<open>Sessions\<close>

lemma setting_text_put [simp]: "setting_text k (put_setting j v d) = (if j = k then v else setting_text k d)"
  by (simp add: setting_text_def get_setting_def put_setting_def update_conv' the_or_def)

datatype auth_event = Call time web_request | Logout | Update settings_update

definition auth_step :: "crypto \<Rightarrow> session_limits \<Rightarrow> auth_event \<Rightarrow> db \<Rightarrow> db" where
  "auth_step cr sl e d = (case e of
      Call now r \<Rightarrow> snd (require_api_authentication cr sl now r d)
    | Logout \<Rightarrow> logout d
    | Update su \<Rightarrow> (case update_controller_settings cr su d of Inl _ \<Rightarrow> d | Inr d1 \<Rightarrow> d1))"

text \<open>The events that end the session: a logout, and a change of the password that is accepted.\<close>

definition ends_session :: "auth_event \<Rightarrow> bool" where
  "ends_session e = (case e of Call _ _ \<Rightarrow> False | Logout \<Rightarrow> True
    | Update su \<Rightarrow> the_or [] (su_new_password su) \<noteq> [] \<and> strip (su_controller_url su) \<noteq> [] \<and> strip (su_username su) \<noteq> [])"

definition guarded :: "web_request \<Rightarrow> bool" where
  "guarded r = (wr_method r \<noteq> ''OPTIONS'' \<and> starts_with (wr_path r) ''/api/'' \<and> \<not> is_api_auth_exempt (wr_path r))"

definition clock_law :: "crypto \<Rightarrow> bool" where
  "clock_law cr = (\<forall>t. cr_show_time cr t \<noteq> [] \<and> cr_read_time cr (cr_show_time cr t) = Some t)"

definition session_ended :: "db \<Rightarrow> bool" where
  "session_ended d = (setting_text ''admin_session_hash'' d = [])"

text \<open>The session of a login at \<open>t\<close>, last used at a time of \<open>us\<close>, or no session.\<close>

definition session_of :: "crypto \<Rightarrow> string \<Rightarrow> time \<Rightarrow> time set \<Rightarrow> db \<Rightarrow> bool" where
  "session_of cr hash t us d = (session_ended d \<or>
     (setting_text ''admin_session_hash'' d = hash \<and>
      setting_text ''admin_session_issued_at'' d = cr_show_time cr t \<and>
      (\<exists>u \<in> us. setting_text ''admin_session_last_used_at'' d = cr_show_time cr u)))"

lemma clear_web_session_ends [simp]: "session_ended (clear_web_session d)"
  by (simp add: session_ended_def clear_web_session_def)

lemma session_times_of:
  assumes "clock_law cr" "setting_text ''admin_session_issued_at'' d = cr_show_time cr t"
    "setting_text ''admin_session_last_used_at'' d = cr_show_time cr u"
  shows "session_times cr now d = (t, u)"
  using assms by (simp add: session_times_def clock_law_def)

lemma require_web_session_cases:
  assumes "clock_law cr" "session_of cr hash t us d" "require_web_session cr sl now r d = (x, d')"
  shows "session_of cr hash t (insert now us) d' \<and> (session_ended d \<longrightarrow> session_ended d') \<and>
    (x = Inr () \<longrightarrow> \<not> session_ended d \<and> now - t \<le> seconds (sl_absolute sl) \<and> (\<exists>u \<in> us. now - u \<le> seconds (sl_idle sl)) \<and>
      (\<exists>token. web_session_token_from_request r = Some token \<and> cr_verify_token cr token hash))"
proof (cases "session_ended d \<or> (\<exists>e. x = Inl e \<and> d' = d)")
  case True
  have "session_ended d \<Longrightarrow> d' = d \<and> x \<noteq> Inr ()"
    using assms(3) by (auto simp: require_web_session_def session_ended_def Let_def split: option.splits)
  then show ?thesis using True assms(2) by (auto simp: session_of_def)
next
  case False
  obtain u where u: "setting_text ''admin_session_hash'' d = hash" "u \<in> us"
    "setting_text ''admin_session_issued_at'' d = cr_show_time cr t"
    "setting_text ''admin_session_last_used_at'' d = cr_show_time cr u"
    using False assms(2) unfolding session_of_def by blast
  obtain token where k: "web_session_token_from_request r = Some token" "cr_verify_token cr token hash" "hash \<noteq> []"
    using False assms(3) u(1) by (auto simp: require_web_session_def Let_def split: option.splits if_splits)
  have e: "(x, d') = (if seconds (sl_absolute sl) < now - t \<or> seconds (sl_idle sl) < now - u
      then (Inl (HTTP 401 ''session expired''), clear_web_session d)
      else if seconds 60 \<le> now - u \<or> setting_text ''admin_session_issued_at'' d = []
      then (Inr (), put_setting ''admin_session_last_used_at'' (cr_show_time cr now)
        (put_setting ''admin_session_issued_at'' (cr_show_time cr t) d))
      else (Inr (), d))"
    using assms(3) k u(1) session_times_of [OF assms(1) u(3,4), of now]
    by (simp add: require_web_session_def Let_def)
  show ?thesis
  proof (cases "seconds (sl_absolute sl) < now - t \<or> seconds (sl_idle sl) < now - u")
    case True
    then show ?thesis using e by (simp add: session_of_def)
  next
    case alive: False
    then have "x = Inr ()" using e by (simp split: if_splits)
    moreover have "session_of cr hash t (insert now us) d'"
      using e alive u by (auto simp: session_of_def split: if_splits)
    ultimately show ?thesis using alive k u(2) False by (auto simp: not_less)
  qed
qed

lemma authentication_cases:
  "require_api_authentication cr sl now r d = (x, d') \<Longrightarrow>
    (d' = d \<and> (guarded r \<longrightarrow> (\<exists>e. x = Inl e))) \<or> (guarded r \<and> require_web_session cr sl now r d = (x, d') \<and>
      (wr_method r \<in> {''GET'', ''HEAD''} \<or> bearer_token_from_request r \<noteq> None \<or>
       map_of (wr_headers r) ''x-link42-csrf'' = Some ''1'' \<or> the_or [] (wr_cookie r) = []))"
  unfolding require_api_authentication_def guarded_def request_uses_cookie_session_def
  by (simp only: split: if_splits) auto

text \<open>The times of the calls among the events.\<close>

definition call_times :: "auth_event list \<Rightarrow> time set" where
  "call_times es = {t. \<exists>r. Call t r \<in> set es}"

lemma update_settings_session:
  assumes "update_controller_settings cr su d = Inr d'"
  shows "if ends_session (Update su) then session_ended d'
    else session_ended d' = session_ended d \<and> (session_of cr hash t us d \<longrightarrow> session_of cr hash t us d')"
proof -
  define kept where "kept = (\<lambda>e. \<forall>k \<in> {''admin_session_hash'', ''admin_session_issued_at'', ''admin_session_last_used_at''}.
    setting_text k e = setting_text k d)"
  have named: "kept (put_setting k v e) = kept e" if "k \<in> {''site_title'', ''admin_username'', ''controller_url'', ''site_logo_url''}" for k v e
    using that by (auto simp: kept_def)
  have start: "kept d" by (simp add: kept_def)
  have same: "session_ended e = session_ended d \<and> (session_of cr hash t us d \<longrightarrow> session_of cr hash t us e)" if "kept e" for e
    using that by (simp add: kept_def session_ended_def session_of_def)
  define e1 where "e1 = put_setting ''site_title'' (if strip (su_site_title su) = [] then ''Link42'' else strip (su_site_title su))
    (put_setting ''admin_username'' (strip (su_username su)) (put_setting ''controller_url'' (strip (su_controller_url su)) d))"
  define e where "e = (case su_site_logo_url su of None \<Rightarrow> e1
    | Some u \<Rightarrow> put_setting ''site_logo_url'' (if strip u = [] then ''/logo.png'' else strip u) e1)"
  have "kept e1" by (simp only: e1_def named insertI1 insertI2 start)
  then have k: "kept e" by (cases "su_site_logo_url su") (simp_all only: e_def option.case named insertI1 insertI2)
  have e: "d' = (case su_new_password su of None \<Rightarrow> e | Some p \<Rightarrow> if p = [] then e
      else clear_web_session (put_setting ''admin_initial_password_pending'' [] (put_setting ''admin_password_hash'' (cr_hash_password cr p) e)))"
    and asked: "strip (su_controller_url su) \<noteq> []" "strip (su_username su) \<noteq> []"
    using assms unfolding update_controller_settings_def Let_def e_def [unfolded e1_def, symmetric]
    by (auto split: if_splits)
  show ?thesis
  proof (cases "the_or [] (su_new_password su) = []")
    case True
    then have "d' = e" using e by (cases "su_new_password su") auto
    then show ?thesis using True same [OF k] by (simp add: ends_session_def)
  next
    case False
    then have "ends_session (Update su)" "session_ended d'" using asked e by (cases "su_new_password su"; simp add: ends_session_def)+
    then show ?thesis by simp
  qed
qed

lemma auth_step_session:
  assumes "clock_law cr" "session_of cr hash t us d"
  shows "session_of cr hash t (us \<union> call_times [e]) (auth_step cr sl e d) \<and>
    (session_ended d \<or> ends_session e \<longrightarrow> session_ended (auth_step cr sl e d))"
proof (cases e)
  case (Call now r)
  obtain x d' where x: "require_api_authentication cr sl now r d = (x, d')" by (rule prod.exhaust)
  have "call_times [e] = {now}" by (simp add: call_times_def Call)
  then have "us \<union> call_times [e] = insert now us" by blast
  moreover have "session_of cr hash t (insert now us) d' \<and> (session_ended d \<longrightarrow> session_ended d')"
    using authentication_cases [OF x]
  proof (elim disjE conjE)
    assume "d' = d"
    then show ?thesis using assms(2) by (auto simp: session_of_def)
  qed (use require_web_session_cases [OF assms] in blast)+
  ultimately show ?thesis using x Call by (simp add: auth_step_def ends_session_def)
next
  case Logout
  then show ?thesis by (simp add: auth_step_def logout_def session_of_def)
next
  case (Update su)
  have c: "call_times [e] = {}" by (simp add: call_times_def Update)
  show ?thesis
  proof (cases "update_controller_settings cr su d")
    case (Inl m)
    have "\<not> ends_session e"
      using Inl Update by (auto simp: update_controller_settings_def ends_session_def Let_def split: if_splits)
    then show ?thesis using Inl Update assms(2) c by (simp add: auth_step_def)
  next
    case (Inr d')
    then show ?thesis using update_settings_session [OF Inr, where hash = hash and t = t and us = us]
        Update assms(2) c by (auto simp: auth_step_def session_of_def split: if_splits)
  qed
qed

lemma auth_run_session:
  assumes "clock_law cr" "session_of cr hash t us d"
  shows "session_of cr hash t (us \<union> call_times es) (fold (auth_step cr sl) es d) \<and>
    (session_ended d \<or> list_ex ends_session es \<longrightarrow> session_ended (fold (auth_step cr sl) es d))"
  using assms(2)
proof (induction es arbitrary: us d)
  case Nil
  then show ?case by (simp add: call_times_def)
next
  case (Cons e es)
  have one: "session_of cr hash t (us \<union> call_times [e]) (auth_step cr sl e d) \<and>
    (session_ended d \<or> ends_session e \<longrightarrow> session_ended (auth_step cr sl e d))"
    by (rule auth_step_session [OF assms(1) Cons.prems])
  have "us \<union> call_times [e] \<union> call_times es = us \<union> call_times (e # es)" by (auto simp: call_times_def)
  then show ?case using Cons.IH [OF conjunct1 [OF one]] one by auto
qed

lemma login_session:
  assumes "clock_law cr" "login cr t token username password d = Inr (token', d')"
  shows "session_of cr (cr_hash_token cr token) t {t} d'"
proof -
  have "setting_text ''admin_session_hash'' d' = cr_hash_token cr token \<and>
      setting_text ''admin_session_issued_at'' d' = cr_show_time cr t \<and>
      setting_text ''admin_session_last_used_at'' d' = cr_show_time cr t"
    using assms(2) by (auto simp: login_def Let_def split: if_splits)
  then show ?thesis by (auto simp: session_of_def)
qed

section \<open>A sample installation\<close>

text \<open>A time is written as a sign and as many strokes.\<close>

definition sample_crypto :: crypto where
  "sample_crypto = \<lparr>cr_verify_token = (\<lambda>token hash. hash = CHR ''#'' # token), cr_hash_token = (\<lambda>token. CHR ''#'' # token),
     cr_verify_password = (\<lambda>p hash. hash = CHR ''#'' # p), cr_hash_password = (\<lambda>p. CHR ''#'' # p), cr_needs_update = (\<lambda>_. False),
     cr_show_time = (\<lambda>t. (if 0 \<le> t then CHR ''+'' else CHR ''-'') # replicate (nat \<bar>t\<bar>) CHR ''1''),
     cr_read_time = (\<lambda>s. Some (if hd s = CHR ''+'' then int (length (tl s)) else - int (length (tl s))))\<rparr>"

lemma sample_clock: "clock_law sample_crypto"
  by (simp add: clock_law_def sample_crypto_def)

definition sample_admin :: db where
  "sample_admin = put_setting ''admin_password_hash'' ''#secret'' empty_db"

definition sample_limits :: session_limits where
  "sample_limits = \<lparr>sl_absolute = 604800, sl_idle = 28800\<rparr>"

definition sample_web_request :: web_request where
  "sample_web_request = \<lparr>wr_method = ''POST'', wr_path = ''/api/nodes'', wr_scheme = ''https'',
     wr_headers = [(''x-link42-csrf'', ''1'')], wr_cookie = Some ''l42web_a'', wr_client = Some ''192.0.2.7''\<rparr>"

definition sample_session :: db where
  "sample_session = snd (ok_value (login sample_crypto 3 ''l42web_a'' ''pmman'' ''secret'' sample_admin))"

lemma sample_session_evaluated:
  "is_ok (login sample_crypto 3 ''l42web_a'' ''pmman'' ''secret'' sample_admin)"
  "is_ok (fst (require_api_authentication sample_crypto sample_limits 9 sample_web_request
     (fold (auth_step sample_crypto sample_limits) [Call 5 sample_web_request] sample_session)))"
  "guarded sample_web_request"
  by code_simp+

definition sample_attempt :: "time \<Rightarrow> attempt" where
  "sample_attempt t = \<lparr>am_free = True, am_ticks = t, am_now = t, am_token = ''x'', am_request = sample_web_request,
     am_username = '' PMMAN'', am_password = ''guess''\<rparr>"

definition sample_attack :: "string reply list \<times> failures \<times> db" where
  "sample_attack = try_logins sample_crypto [] (map sample_attempt [1, 2, 3, 4, 5, 6, 7]) ([], sample_admin)"

lemma sample_attack_evaluated:
  "map wrong_password (fst sample_attack) = [True, True, True, True, True, False, False]"
  "list_all (\<lambda>x. \<not> is_ok x) (fst sample_attack)"
  "list_all (\<lambda>a. snd (login_rate_key [] (am_request a) (am_username a)) = ''pmman'') (map sample_attempt [1, 2, 3, 4, 5, 6, 7])"
  "map fst (fst (snd sample_attack)) = [(''192.0.2.7'', ''pmman''), (''192.0.2.7'', ''*''), (''*'', ''pmman'')]"
  by code_simp+

section \<open>Properties\<close>

text \<open>C22: whatever is called after a login, a request that passes the session check brings the
  token of that login, at most the absolute lifetime after it and at most the idle time after
  some call; no logout and no change of the password lies between; and a request that changes
  something by the cookie alone carries the CSRF header.\<close>

theorem admitted_requests_hold_the_live_session:
  assumes "clock_law cr" "login cr t token username password d = Inr (token', d0)"
    and "require_api_authentication cr sl now r (fold (auth_step cr sl) es d0) = (Inr (), d')" "guarded r"
  shows "(\<exists>k. web_session_token_from_request r = Some k \<and> cr_verify_token cr k (cr_hash_token cr token)) \<and>
    now - t \<le> seconds (sl_absolute sl) \<and> (\<exists>u \<in> insert t (call_times es). now - u \<le> seconds (sl_idle sl)) \<and>
    \<not> list_ex ends_session es \<and>
    (wr_method r \<in> {''GET'', ''HEAD''} \<or> bearer_token_from_request r \<noteq> None \<or>
     map_of (wr_headers r) ''x-link42-csrf'' = Some ''1'' \<or> the_or [] (wr_cookie r) = [])"
proof -
  let ?d = "fold (auth_step cr sl) es d0"
  have s: "session_of cr (cr_hash_token cr token) t (insert t (call_times es)) ?d"
    "list_ex ends_session es \<longrightarrow> session_ended ?d"
    using auth_run_session [OF assms(1) login_session [OF assms(1,2)], of es sl] by auto
  have w: "require_web_session cr sl now r ?d = (Inr (), d')"
    "wr_method r \<in> {''GET'', ''HEAD''} \<or> bearer_token_from_request r \<noteq> None \<or>
     map_of (wr_headers r) ''x-link42-csrf'' = Some ''1'' \<or> the_or [] (wr_cookie r) = []"
    using authentication_cases [OF assms(3)] assms(4) by blast+
  from require_web_session_cases [OF assms(1) s(1) w(1)] s(2) w(2) show ?thesis by blast
qed

theorem admitted_requests_hold_the_live_session_witness:
  "cr_verify_token sample_crypto ''l42web_a'' (cr_hash_token sample_crypto ''l42web_a'') \<and>
   \<not> list_ex ends_session [Call 5 sample_web_request] \<and> 9 - 3 \<le> seconds (sl_absolute sample_limits)"
proof -
  have l: "login sample_crypto 3 ''l42web_a'' ''pmman'' ''secret'' sample_admin =
      Inr (fst (ok_value (login sample_crypto 3 ''l42web_a'' ''pmman'' ''secret'' sample_admin)), sample_session)"
    using ok_value_Inr [OF sample_session_evaluated(1)] unfolding sample_session_def by simp
  obtain x d' where x: "require_api_authentication sample_crypto sample_limits 9 sample_web_request
      (fold (auth_step sample_crypto sample_limits) [Call 5 sample_web_request] sample_session) = (x, d')"
    by (rule prod.exhaust)
  have "x = Inr ()" using sample_session_evaluated(2) unfolding x by (cases x) (simp_all add: is_ok_def)
  note r = x [unfolded this]
  from admitted_requests_hold_the_live_session [OF sample_clock l r sample_session_evaluated(3)]
  show ?thesis by (simp add: sample_crypto_def)
qed



text \<open>the table of failed logins keeps one entry per key and never more than 4096 entries,
  whatever names and sources attempts come with.\<close>

theorem login_table_is_bounded:
  assumes "distinct (map fst fs)" "length fs \<le> 4096"
    and "login_endpoint cr cidrs free ticks now token r username password (fs, d) = (x, fs', d')"
  shows "distinct (map fst fs') \<and> length fs' \<le> 4096"
proof -
  let ?key = "login_rate_key cidrs r username"
  obtain f1 w where c: "login_retry_after ticks ?key fs = (f1, w)" by (rule prod.exhaust)
  have f1: "distinct (map fst f1)" "length f1 \<le> max_rate_keys"
    using login_retry_after_table [where now = ticks and key = ?key and fs = fs] assms(1,2) c by (auto simp: max_rate_keys_def)
  have "length (AList.delete k f) \<le> length f" for k and f :: failures
    by (simp add: AList.delete_eq)
  then have cleared: "distinct (map fst (clear_login_failures ?key f1)) \<and> length (clear_login_failures ?key f1) \<le> length f1"
    unfolding clear_login_failures_def rate_keys_def fold_simps
    by (intro conjI distinct_delete f1(1)) (blast intro: order_trans)
  have "fs' = f1 \<or> fs' = record_login_failure ticks ?key f1 \<or> fs' = clear_login_failures ?key f1"
    using assms(3) c unfolding login_endpoint_def Let_def prod.case
    by (auto split: if_splits sum.splits prod.splits)
  then show ?thesis
    using f1 cleared record_login_failure_bounded [OF f1, where now = ticks and key = ?key] by (auto simp: max_rate_keys_def)
qed

end
