(* ===== verification/Bird.thy ===== *)
theory Bird
  imports AgentText "HOL-Library.Sublist"
begin

text \<open>
  The BIRD plugin of an agent (plugins/bird.py): which files may be edited, the check of a
  content, and the change of one or several files with a backup of each, a check of the whole
  configuration and the return to the backups when something fails. The disk is a map from paths
  to files; a script of faults makes single writes fail half-way.
\<close>

section \<open>Paths\<close>

text \<open>\<open>Path(s)\<close>: its root, empty for a relative path, and its parts without the empty ones and
  the dots. A resolved path is absolute and is given by its parts.\<close>

type_synonym path = "string list"

definition path_root :: "string \<Rightarrow> string" where
  "path_root s = (if starts_with s ''//'' \<and> \<not> starts_with s ''///'' then ''//''
     else if starts_with s ''/'' then ''/'' else [])"

definition path_parts :: "string \<Rightarrow> path" where
  "path_parts s = filter (\<lambda>p. p \<noteq> [] \<and> p \<noteq> ''.'') (split_on CHR ''/'' s)"

definition show_path :: "path \<Rightarrow> string" where
  "show_path p = CHR ''/'' # join ''/'' p"

definition path_suffix :: "path \<Rightarrow> string" where
  "path_suffix p = (if p = [] then [] else
     (let name = last p; (stem, ext) = split_last CHR ''.'' name in
      if CHR ''.'' \<in> set name \<and> stem \<noteq> [] \<and> ext \<noteq> [] then CHR ''.'' # ext else []))"

definition bird_root :: path where "bird_root = [''etc'', ''bird'']"
definition bird_legacy_main :: path where "bird_legacy_main = [''etc'', ''bird.conf'']"
definition bird_default_main :: path where "bird_default_main = [''etc'', ''bird'', ''bird.conf'']"
definition bird_backup_dir :: path where "bird_backup_dir = [''var'', ''lib'', ''link42'', ''backups'', ''bird'']"
definition bird_max_file_bytes :: int where "bird_max_file_bytes = 512 * 1024"
definition max_existing_file_bytes :: int where "max_existing_file_bytes = 4 * 1024 * 1024"

section \<open>The disk\<close>

record disk_file =
  fl_content :: string
  fl_regular :: bool
  fl_mode :: int
  fl_owner :: int
  fl_mtime :: int

text \<open>A fault \<open>Some n\<close> breaks the next write after \<open>n\<close> bytes.\<close>

record disk =
  dk_files :: "path \<Rightarrow> disk_file option"
  dk_faults :: "nat option list"
  dk_now :: int
  dk_count :: nat

text \<open>An operation on a state of the outside world: its value or an error, and the state after it.\<close>

type_synonym ('d, 'a) dio = "'d \<Rightarrow> (string, 'a) result \<times> 'd"
type_synonym 'a io = "(disk, 'a) dio"

definition dreturn :: "'a \<Rightarrow> ('d, 'a) dio" where
  "dreturn x d = (Inr x, d)"

definition draise :: "string \<Rightarrow> ('d, 'a) dio" where
  "draise msg d = (Inl msg, d)"

definition dbind :: "('d, 'a) dio \<Rightarrow> ('a \<Rightarrow> ('d, 'b) dio) \<Rightarrow> ('d, 'b) dio" where
  "dbind m f d = (case m d of (Inl e, d1) \<Rightarrow> (Inl e, d1) | (Inr x, d1) \<Rightarrow> f x d1)"

text \<open>\<open>except Exception: h; raise\<close>, and \<open>finally: h\<close>.\<close>

definition dexcept :: "('d, 'a) dio \<Rightarrow> ('d, unit) dio \<Rightarrow> ('d, 'a) dio" where
  "dexcept m h d = (case m d of
      (Inl e, d1) \<Rightarrow> (case h d1 of (Inl e1, d2) \<Rightarrow> (Inl e1, d2) | (Inr _, d2) \<Rightarrow> (Inl e, d2))
    | (Inr x, d1) \<Rightarrow> (Inr x, d1))"

definition dfinally :: "('d, 'a) dio \<Rightarrow> ('d, unit) dio \<Rightarrow> ('d, 'a) dio" where
  "dfinally m h d = (case m d of (x, d1) \<Rightarrow>
     (case h d1 of (Inl e, d2) \<Rightarrow> (Inl e, d2) | (Inr _, d2) \<Rightarrow> (x, d2)))"

text \<open>The bytes of a text, as a text of bytes.\<close>

definition encode_text :: "string \<Rightarrow> string" where
  "encode_text s = map char_of (utf8_encode s)"

definition put_file :: "path \<Rightarrow> disk_file \<Rightarrow> disk \<Rightarrow> disk" where
  "put_file p f d = d\<lparr>dk_files := (dk_files d)(p \<mapsto> f)\<rparr>"

definition next_fault :: "disk \<Rightarrow> nat option \<times> disk" where
  "next_fault d = (case dk_faults d of [] \<Rightarrow> (None, d) | f # fs \<Rightarrow> (f, d\<lparr>dk_faults := fs\<rparr>))"

definition read_existing_bytes :: "path \<Rightarrow> string io" where
  "read_existing_bytes p d = (case dk_files d p of
      None \<Rightarrow> (Inl ''no such file'', d)
    | Some f \<Rightarrow>
        if \<not> fl_regular f then (Inl ''managed file must be a regular file'', d)
        else if max_existing_file_bytes < int (length (fl_content f)) then (Inl ''managed file is too large'', d)
        else (Inr (fl_content f), d))"

text \<open>The file is opened for writing and cut to nothing before its content is written; its mode
  and owner stay.\<close>

definition write_existing_file :: "path \<Rightarrow> string \<Rightarrow> unit io" where
  "write_existing_file p content d = (case dk_files d p of
      None \<Rightarrow> (Inl ''no such file'', d)
    | Some f \<Rightarrow>
        if \<not> fl_regular f then (Inl ''BIRD resource must be a regular file'', d)
        else (case next_fault d of
            (None, d1) \<Rightarrow> (Inr (), put_file p (f\<lparr>fl_content := content, fl_mtime := dk_now d\<rparr>) d1)
          | (Some n, d1) \<Rightarrow> (Inl ''write failed'',
              put_file p (f\<lparr>fl_content := take n content, fl_mtime := dk_now d\<rparr>) d1)))"

text \<open>A temporary file is written and then renamed: all or nothing.\<close>

definition atomic_write_bytes :: "path \<Rightarrow> string \<Rightarrow> int \<Rightarrow> unit io" where
  "atomic_write_bytes p content mode d = (case next_fault d of
      (None, d1) \<Rightarrow> (Inr (), put_file p \<lparr>fl_content = content, fl_regular = True, fl_mode = mode,
        fl_owner = 0, fl_mtime = dk_now d\<rparr> d1)
    | (Some _, d1) \<Rightarrow> (Inl ''write failed'', d1))"

section \<open>Resources\<close>

text \<open>What lies outside: the resolution of symbolic links, the two BIRD commands with their exit
  code and the result they report, the SHA-256 of a content, and the time stamp and the random
  token in the name of the n-th backup.\<close>

record command_result =
  cm_returncode :: int
  cm_report :: json

record bird_env =
  be_resolve :: "path \<Rightarrow> path"
  be_is_symlink :: "path \<Rightarrow> bool"
  be_check :: "path \<Rightarrow> (path \<Rightarrow> disk_file option) \<Rightarrow> (string, command_result) result"
  be_configure :: "(path \<Rightarrow> disk_file option) \<Rightarrow> (string, command_result) result"
  be_sha :: "string \<Rightarrow> string"
  be_stamp :: "nat \<Rightarrow> string"
  be_token :: "nat \<Rightarrow> string"

definition path_exists :: "path \<Rightarrow> disk \<Rightarrow> bool" where
  "path_exists p d = (dk_files d p \<noteq> None)"

definition path_is_file :: "path \<Rightarrow> disk \<Rightarrow> bool" where
  "path_is_file p d = (case dk_files d p of None \<Rightarrow> False | Some f \<Rightarrow> fl_regular f)"

definition default_main_config :: "disk \<Rightarrow> path option" where
  "default_main_config d =
     (if path_exists bird_default_main d then Some bird_default_main
      else if path_exists bird_legacy_main d then Some bird_legacy_main
      else if path_exists bird_root d then Some bird_default_main else None)"

definition is_bird_config_file :: "bird_env \<Rightarrow> path \<Rightarrow> bool" where
  "is_bird_config_file be p =
     (p = bird_legacy_main \<or> be_resolve be p = be_resolve be bird_default_main \<or>
      path_suffix (be_resolve be p) = ''.conf'')"

definition inside :: "path \<Rightarrow> path \<Rightarrow> bool" where
  "inside root p = strict_prefix root p"

definition resolve_bird_resource :: "bird_env \<Rightarrow> string \<Rightarrow> (string, path) result" where
  "resolve_bird_resource be resource_key =
     (let p = path_parts resource_key; root = be_resolve be bird_root in
      if resource_key = [] then Inl ''resource_key is required''
      else if path_root resource_key = [] then Inl ''resource_key must be an absolute path''
      else if path_root resource_key = ''/'' \<and> p = bird_legacy_main then
        (let resolved = be_resolve be p in
         if be_is_symlink be p \<and> resolved \<noteq> root \<and> \<not> inside root resolved
         then Inl ''legacy BIRD resource must resolve inside BIRD configuration roots'' else Inr resolved)
      else (let resolved = be_resolve be p in
        if \<not> inside root resolved then Inl ''resource is outside BIRD configuration roots''
        else if \<not> is_bird_config_file be resolved then Inl ''resource is not a BIRD configuration file''
        else Inr resolved))"

definition lift_error :: "(string, 'a) result \<Rightarrow> ('d, 'a) dio" where
  "lift_error x d = (x, d)"

definition ensure_bird_file_size :: "path \<Rightarrow> unit io" where
  "ensure_bird_file_size p d = (case dk_files d p of
      None \<Rightarrow> (Inl ''no such file'', d)
    | Some f \<Rightarrow>
        if \<not> fl_regular f then (Inl ''BIRD resource must be a regular file'', d)
        else if bird_max_file_bytes < int (length (fl_content f)) then (Inl ''BIRD config file is too large'', d)
        else (Inr (), d))"

definition file_sha256 :: "bird_env \<Rightarrow> path \<Rightarrow> string io" where
  "file_sha256 be p = dbind (ensure_bird_file_size p) (\<lambda>_. dbind (read_existing_bytes p) (\<lambda>content.
     if bird_max_file_bytes < int (length content) then draise ''BIRD config file is too large''
     else dreturn (be_sha be content)))"

definition run_bird_config_check :: "bird_env \<Rightarrow> command_result io" where
  "run_bird_config_check be d = (case default_main_config d of
      None \<Rightarrow> (Inl ''BIRD main config was not found'', d)
    | Some main \<Rightarrow> (be_check be main (dk_files d), d))"

definition run_bird_configure :: "bird_env \<Rightarrow> command_result io" where
  "run_bird_configure be d = (be_configure be (dk_files d), d)"

text \<open>Every backup has a name of its own.\<close>

definition safe_name :: "path \<Rightarrow> string" where
  "safe_name p = join ''__'' p"

definition backup_name :: "bird_env \<Rightarrow> path \<Rightarrow> nat \<Rightarrow> path" where
  "backup_name be p n = bird_backup_dir @ [safe_name p @ ''.'' @ be_stamp be n @ ''.'' @ be_token be n @ ''.bak'']"

definition bird_backup_path :: "bird_env \<Rightarrow> path \<Rightarrow> path io" where
  "bird_backup_path be p d = (Inr (backup_name be p (dk_count d)), d\<lparr>dk_count := Suc (dk_count d)\<rparr>)"

section \<open>Checking a content\<close>

definition restore_metadata :: "path \<Rightarrow> disk_file \<Rightarrow> unit io" where
  "restore_metadata p f d = (case dk_files d p of
      None \<Rightarrow> (Inl ''no such file'', d)
    | Some g \<Rightarrow> (Inr (), put_file p (g\<lparr>fl_owner := fl_owner f, fl_mode := fl_mode f, fl_mtime := fl_mtime f\<rparr>) d))"

definition validate_bird_resource :: "bird_env \<Rightarrow> string \<Rightarrow> string \<Rightarrow> bool \<Rightarrow> fields io" where
  "validate_bird_resource be resource_key content dry_run =
     dbind (lift_error (resolve_bird_resource be resource_key)) (\<lambda>p.
     if bird_max_file_bytes < utf8_length content then draise ''BIRD config content is too large''
     else if dry_run then dreturn [(''valid'', JBool True), (''dry_run'', JBool True), (''resource_key'', JStr (show_path p))]
     else (\<lambda>d. case dk_files d p of
         None \<Rightarrow> (Inl ''BIRD resource does not exist'', d)
       | Some original_stat \<Rightarrow>
           dbind (ensure_bird_file_size p) (\<lambda>_. dbind (read_existing_bytes p) (\<lambda>original.
           dbind (dfinally
               (dbind (write_existing_file p (encode_text content)) (\<lambda>_. run_bird_config_check be))
               (dbind (write_existing_file p original) (\<lambda>_. restore_metadata p original_stat))) (\<lambda>result.
           dreturn [(''valid'', JBool (cm_returncode result = 0)), (''resource_key'', JStr (show_path p)),
             (''check'', cm_report result)]))) d))"

section \<open>Changing several files\<close>

record change =
  ch_path :: path
  ch_content :: string
  ch_sha :: string

text \<open>The checks of one entry, before anything is written; \<open>changes\<close> holds the entries so far.\<close>

definition check_entry :: "bird_env \<Rightarrow> json \<Rightarrow> change list \<Rightarrow> change io" where
  "check_entry be item changes = (case item of
      JObj entry \<Rightarrow>
        dbind (lift_error (resolve_bird_resource be (str_or_empty (dget entry ''resource_key'')))) (\<lambda>p.
        if p \<in> ch_path ` set changes then draise (''duplicate BIRD resource: '' @ show_path p)
        else (\<lambda>d. if \<not> path_is_file p d then (Inl (''BIRD resource does not exist: '' @ show_path p), d) else
          dbind (ensure_bird_file_size p) (\<lambda>_. dbind (file_sha256 be p) (\<lambda>current_sha.
          let base_sha = str_or_empty (dget entry ''base_sha256'') in
          if base_sha \<noteq> [] \<and> current_sha \<noteq> base_sha
          then draise (''BIRD resource changed on node: '' @ show_path p)
          else (case dget entry ''content'' of
              JStr content \<Rightarrow>
                if bird_max_file_bytes < utf8_length content then draise ''BIRD config content is too large''
                else dreturn \<lparr>ch_path = p, ch_content = content, ch_sha = current_sha\<rparr>
            | _ \<Rightarrow> draise ''BIRD resource content must be a string''))) d))
    | _ \<Rightarrow> draise ''BIRD resource entry must be an object'')"

fun check_entries :: "bird_env \<Rightarrow> json list \<Rightarrow> change list \<Rightarrow> change list io" where
  "check_entries be [] changes = dreturn changes"
| "check_entries be (item # items) changes =
     dbind (check_entry be item changes) (\<lambda>c. check_entries be items (changes @ [c]))"

text \<open>Backups made so far, in the order of the dictionary.\<close>

type_synonym backups = "(path \<times> path) list"

text \<open>One turn of the loop that writes: the backup is recorded before the file is changed, so an
  exception finds it; a failed turn leaves the record of the turns before it.\<close>

fun write_changes :: "bird_env \<Rightarrow> change list \<Rightarrow> backups \<Rightarrow> disk \<Rightarrow> backups \<times> (string, unit) result \<times> disk" where
  "write_changes be [] bs d = (bs, Inr (), d)"
| "write_changes be (c # cs) bs d =
     (case dbind (bird_backup_path be (ch_path c)) (\<lambda>backup. dbind (read_existing_bytes (ch_path c)) (\<lambda>old.
         dbind (atomic_write_bytes backup old 0x180) (\<lambda>_. dreturn backup))) d of
       (Inl e, d1) \<Rightarrow> (bs, Inl e, d1)
     | (Inr backup, d1) \<Rightarrow> (case write_existing_file (ch_path c) (encode_text (ch_content c)) d1 of
         (Inl e, d2) \<Rightarrow> (bs @ [(ch_path c, backup)], Inl e, d2)
       | (Inr _, d2) \<Rightarrow> write_changes be cs (bs @ [(ch_path c, backup)]) d2))"

fun restore_backups :: "backups \<Rightarrow> unit io" where
  "restore_backups [] = dreturn ()"
| "restore_backups ((p, b) # bs) =
     dbind (read_existing_bytes b) (\<lambda>content. dbind (write_existing_file p content) (\<lambda>_. restore_backups bs))"

text \<open>The handler of exceptions passes over a backup that does not exist.\<close>

fun restore_existing_backups :: "backups \<Rightarrow> unit io" where
  "restore_existing_backups [] = dreturn ()"
| "restore_existing_backups ((p, b) # bs) = dbind
     (\<lambda>d. if path_exists b d then dbind (read_existing_bytes b) (write_existing_file p) d else (Inr (), d))
     (\<lambda>_. restore_existing_backups bs)"

fun change_reports :: "bird_env \<Rightarrow> backups \<Rightarrow> change list \<Rightarrow> json list io" where
  "change_reports be bs [] = dreturn []"
| "change_reports be bs (c # cs) = dbind (file_sha256 be (ch_path c)) (\<lambda>sha.
     dbind (change_reports be bs cs) (\<lambda>rest. dreturn (JObj [(''resource_key'', JStr (show_path (ch_path c))),
       (''sha256'', JStr sha), (''backup_ref'', jopt_str (map_option show_path (map_of bs (ch_path c))))] # rest)))"

definition refused_changes :: "bool \<Rightarrow> change list \<Rightarrow> backups \<Rightarrow> fields \<Rightarrow> fields" where
  "refused_changes valid cs bs rest =
     [(''applied'', JBool False), (''valid'', JBool valid),
      (''files'', JList (map (\<lambda>c. JObj [(''resource_key'', JStr (show_path (ch_path c)))]) cs)),
      (''backups'', JObj (map (\<lambda>(p, b). (show_path p, JStr (show_path b))) bs))] @ rest @ [(''restored'', JBool True)]"

text \<open>What both changes do once the files are written: the check of the whole configuration and the
  reload, each with the return to the backups when it fails. \<open>refused\<close> and \<open>accept\<close> build the two
  results.\<close>

definition check_then_reload ::
  "bird_env \<Rightarrow> bool \<Rightarrow> backups \<Rightarrow> (bool \<Rightarrow> fields \<Rightarrow> fields) \<Rightarrow> (fields \<Rightarrow> fields io) \<Rightarrow> fields io" where
  "check_then_reload be reload bs refused accept =
     dbind (run_bird_config_check be) (\<lambda>check.
     if cm_returncode check \<noteq> 0
     then dbind (restore_backups bs) (\<lambda>_. dreturn (refused False [(''check'', cm_report check)]))
     else if reload then dbind (run_bird_configure be) (\<lambda>result.
       if cm_returncode result \<noteq> 0
       then dbind (restore_backups bs) (\<lambda>_.
         dreturn (refused True [(''check'', cm_report check), (''reload'', cm_report result)]))
       else accept [(''check'', cm_report check), (''reload'', cm_report result)])
     else accept [(''check'', cm_report check), (''reload'', JNull)])"

definition accepted_changes :: "bird_env \<Rightarrow> change list \<Rightarrow> backups \<Rightarrow> fields \<Rightarrow> fields io" where
  "accepted_changes be cs bs rest = dbind (change_reports be bs cs) (\<lambda>files.
     dreturn ([(''applied'', JBool True), (''valid'', JBool True), (''files'', JList files)] @ rest))"

definition apply_changes :: "bird_env \<Rightarrow> bool \<Rightarrow> change list \<Rightarrow> fields io" where
  "apply_changes be reload cs d = (case write_changes be cs [] d of
     (bs, written, d1) \<Rightarrow>
       dexcept (dbind (lift_error written) (\<lambda>_.
           check_then_reload be reload bs (\<lambda>valid. refused_changes valid cs bs) (accepted_changes be cs bs)))
         (restore_existing_backups bs) d1)"

definition apply_bird_resources :: "bird_env \<Rightarrow> json list \<Rightarrow> bool \<Rightarrow> bool \<Rightarrow> fields io" where
  "apply_bird_resources be files reload dry_run =
     (if files = [] then draise ''BIRD resources are required''
      else dbind (check_entries be files []) (\<lambda>cs.
        if dry_run then dreturn [(''applied'', JBool False), (''dry_run'', JBool True),
          (''files'', JList (map (\<lambda>c. JObj [(''resource_key'', JStr (show_path (ch_path c))), (''sha256'', JStr (ch_sha c))]) cs))]
        else apply_changes be reload cs))"

section \<open>Changing one file\<close>

definition refused_change :: "bool \<Rightarrow> path \<Rightarrow> path \<Rightarrow> fields \<Rightarrow> fields" where
  "refused_change valid p backup rest =
     [(''applied'', JBool False), (''valid'', JBool valid), (''resource_key'', JStr (show_path p)),
      (''backup_ref'', JStr (show_path backup))] @ rest @ [(''restored'', JBool True)]"

definition accepted_change :: "bird_env \<Rightarrow> path \<Rightarrow> path \<Rightarrow> fields \<Rightarrow> fields io" where
  "accepted_change be p backup rest = dbind (file_sha256 be p) (\<lambda>sha.
     dreturn ([(''applied'', JBool True), (''valid'', JBool True), (''resource_key'', JStr (show_path p)),
       (''sha256'', JStr sha), (''backup_ref'', JStr (show_path backup))] @ rest))"

definition apply_bird_resource :: "bird_env \<Rightarrow> string \<Rightarrow> string \<Rightarrow> string \<Rightarrow> bool \<Rightarrow> bool \<Rightarrow> fields io" where
  "apply_bird_resource be resource_key content base_sha256 reload dry_run =
     dbind (lift_error (resolve_bird_resource be resource_key)) (\<lambda>p.
     if bird_max_file_bytes < utf8_length content then draise ''BIRD config content is too large''
     else (\<lambda>d. if \<not> path_is_file p d then (Inl ''BIRD resource does not exist'', d) else
       dbind (ensure_bird_file_size p) (\<lambda>_. dbind (file_sha256 be p) (\<lambda>current_sha.
       if base_sha256 \<noteq> [] \<and> current_sha \<noteq> base_sha256
       then draise ''BIRD resource changed on node, please read it again''
       else if dry_run then dreturn [(''applied'', JBool False), (''dry_run'', JBool True),
         (''resource_key'', JStr (show_path p)), (''sha256'', JStr current_sha)]
       else dbind (bird_backup_path be p) (\<lambda>backup. dbind (read_existing_bytes p) (\<lambda>old.
         dbind (atomic_write_bytes backup old 0x180) (\<lambda>_.
         dexcept (dbind (write_existing_file p (encode_text content)) (\<lambda>_.
             check_then_reload be reload [(p, backup)] (\<lambda>valid. refused_change valid p backup)
               (accepted_change be p backup)))
           (restore_existing_backups [(p, backup)]))))))  d))"

section \<open>The plugin\<close>

text \<open>\<open>BirdAgentPlugin.execute\<close>; listing, reading and the status only look and are parameters.\<close>

definition bird_execute ::
  "bird_env \<Rightarrow> (string \<Rightarrow> fields \<Rightarrow> fields io) \<Rightarrow> bool \<Rightarrow> string \<Rightarrow> fields \<Rightarrow> fields io" where
  "bird_execute be look dry_run action payload =
     (let key = str_or_empty (dget payload ''resource_key''); content = str_or_empty (dget payload ''content'');
          reload = (if dhas payload ''reload'' then truthy (dget payload ''reload'') else True) in
      if List.member [''list'', ''read'', ''status''] action then look action payload
      else if action = ''validate'' then validate_bird_resource be key content dry_run
      else if action = ''apply'' then
        apply_bird_resource be key content (str_or_empty (dget payload ''base_sha256'')) reload dry_run
      else if action = ''apply_many'' then
        apply_bird_resources be (case dget payload ''files'' of JList items \<Rightarrow> items | _ \<Rightarrow> []) reload dry_run
      else draise (''unsupported bird action: '' @ action))"

end
