(* ===== verification/BirdLaws.thy ===== *)
theory BirdLaws
  imports Bird
begin

text \<open>
  A change of BIRD files is all or nothing: with at most one failing write, wherever it happens,
  either every file has its new content and the whole configuration passed the check, or every
  file has the content, mode and owner it had.
\<close>

section \<open>Faults and file states\<close>

definition fault_count :: "disk \<Rightarrow> nat" where
  "fault_count d = length (filter (\<lambda>f. f \<noteq> None) (dk_faults d))"

definition same_file :: "disk_file \<Rightarrow> disk_file \<Rightarrow> bool" where
  "same_file f g = (fl_content g = fl_content f \<and> fl_regular g = fl_regular f \<and>
     fl_mode g = fl_mode f \<and> fl_owner g = fl_owner f)"

definition same_at :: "disk \<Rightarrow> disk \<Rightarrow> path \<Rightarrow> bool" where
  "same_at d d' p = (\<forall>f. dk_files d p = Some f \<longrightarrow> (\<exists>g. dk_files d' p = Some g \<and> same_file f g))"

definition unchanged :: "disk \<Rightarrow> disk \<Rightarrow> bool" where
  "unchanged d d' = (\<forall>p. same_at d d' p)"

lemma same_file_refl [simp]: "same_file f f"
  by (simp add: same_file_def)

lemma unchanged_refl [simp]: "unchanged d d"
  by (auto simp: unchanged_def same_at_def)

text \<open>The names of the backups still to come are new.\<close>

definition fresh_backups :: "bird_env \<Rightarrow> disk \<Rightarrow> bool" where
  "fresh_backups be d = (\<forall>p n. dk_count d \<le> n \<longrightarrow> dk_files d (backup_name be p n) = None)"

text \<open>The random tokens have no dot and do not repeat.\<close>

definition tokens_ok :: "bird_env \<Rightarrow> bool" where
  "tokens_ok be = ((\<forall>n. CHR ''.'' \<notin> set (be_token be n)) \<and> inj (be_token be))"

lemma last_segment:
  assumes "CHR ''.'' \<notin> set t" "CHR ''.'' \<notin> set u" "a @ CHR ''.'' # t = b @ CHR ''.'' # u"
  shows "t = u"
proof -
  have "takeWhile (\<lambda>c. c \<noteq> CHR ''.'') (rev (x @ CHR ''.'' # v)) = rev v" if v: "CHR ''.'' \<notin> set v" for x v
  proof -
    have "c \<noteq> CHR ''.''" if "c \<in> set (rev v)" for c using v that by auto
    from takeWhile_append2 [of "rev v" "\<lambda>c. c \<noteq> CHR ''.''", OF this] show ?thesis by simp
  qed
  from this [OF assms(1), of a] this [OF assms(2), of b] show ?thesis using assms(3) by simp
qed

lemma backup_name_inj:
  assumes "tokens_ok be" "backup_name be p n = backup_name be q m"
  shows "n = m"
proof -
  have "(safe_name p @ ''.'' @ be_stamp be n) @ CHR ''.'' # be_token be n =
      (safe_name q @ ''.'' @ be_stamp be m) @ CHR ''.'' # be_token be m"
    using assms(2) by (simp add: backup_name_def)
  from last_segment [OF _ _ this] have "be_token be n = be_token be m"
    using assms(1) by (simp add: tokens_ok_def)
  then show ?thesis using assms(1) by (simp add: tokens_ok_def inj_def)
qed

section \<open>The operations on the disk\<close>

lemma io_simps [simp]:
  "dreturn x d = (Inr x, d)" "draise msg d = (Inl msg, d)" "lift_error y d = (y, d)"
  by (simp_all add: dreturn_def draise_def lift_error_def)

lemma dbind_split:
  "dbind m f d = (x, d') \<longleftrightarrow>
    (\<exists>e. m d = (Inl e, d') \<and> x = Inl e) \<or> (\<exists>y d1. m d = (Inr y, d1) \<and> f y d1 = (x, d'))"
  by (auto simp: dbind_def split: prod.splits sum.splits)

lemma put_file_simps [simp]:
  "dk_files (put_file p f d) = (dk_files d)(p \<mapsto> f)" "dk_faults (put_file p f d) = dk_faults d"
  "dk_count (put_file p f d) = dk_count d" "fault_count (put_file p f d) = fault_count d"
  by (simp_all add: put_file_def fault_count_def)

lemma next_fault_files:
  assumes "next_fault d = (f, d1)"
  shows "dk_files d1 = dk_files d" "dk_count d1 = dk_count d"
    "fault_count d = (if f = None then 0 else 1) + fault_count d1"
  using assms by (auto simp: next_fault_def fault_count_def split: list.splits)

lemma read_existing_same:
  "read_existing_bytes p d = (x, d') \<Longrightarrow> d' = d"
  "read_existing_bytes p d = (Inr c, d') \<Longrightarrow> \<exists>f. dk_files d p = Some f \<and> fl_content f = c \<and> fl_regular f"
  by (auto simp: read_existing_bytes_def split: option.splits if_splits)

lemma readable: "dk_files d p = Some f \<Longrightarrow> fl_regular f \<Longrightarrow>
    int (length (fl_content f)) \<le> max_existing_file_bytes \<Longrightarrow> read_existing_bytes p d = (Inr (fl_content f), d)"
  by (simp add: read_existing_bytes_def)

text \<open>A write to an existing file either succeeds or uses up a fault; either way only that file
  changes, and it keeps its kind, mode and owner.\<close>

lemma write_existing:
  assumes "write_existing_file p c d = (x, d')" "dk_files d p = Some f" "fl_regular f"
  shows "\<exists>g. dk_files d' = (dk_files d)(p \<mapsto> g) \<and> fl_regular g \<and> fl_mode g = fl_mode f \<and> fl_owner g = fl_owner f \<and>
      (x = Inr () \<longrightarrow> fl_content g = c) \<and> (length (fl_content g) \<le> length c)"
    "dk_count d' = dk_count d" "fault_count d = (if x = Inr () then 0 else 1) + fault_count d'"
proof -
  obtain fault d1 where f: "next_fault d = (fault, d1)" by (rule prod.exhaust)
  note n = next_fault_files [OF f]
  have w: "(x, d') = (case fault of
      None \<Rightarrow> (Inr (), put_file p (f\<lparr>fl_content := c, fl_mtime := dk_now d\<rparr>) d1)
    | Some n \<Rightarrow> (Inl ''write failed'', put_file p (f\<lparr>fl_content := take n c, fl_mtime := dk_now d\<rparr>) d1))"
    using assms f by (simp add: write_existing_file_def split: option.splits)
  show "\<exists>g. dk_files d' = (dk_files d)(p \<mapsto> g) \<and> fl_regular g \<and> fl_mode g = fl_mode f \<and> fl_owner g = fl_owner f \<and>
      (x = Inr () \<longrightarrow> fl_content g = c) \<and> (length (fl_content g) \<le> length c)"
    using w n(1) assms(3) by (cases fault) auto
  show "dk_count d' = dk_count d" using w n(2) by (cases fault) auto
  show "fault_count d = (if x = Inr () then 0 else 1) + fault_count d'" using w n(3) by (cases fault) auto
qed

lemma atomic_write:
  assumes "atomic_write_bytes p c mode d = (x, d')"
  shows "dk_count d' = dk_count d" "fault_count d = (if x = Inr () then 0 else 1) + fault_count d'"
    "x = Inr () \<Longrightarrow> \<exists>f. dk_files d' = (dk_files d)(p \<mapsto> f) \<and> fl_content f = c \<and> fl_regular f"
    "x \<noteq> Inr () \<Longrightarrow> dk_files d' = dk_files d"
proof -
  obtain fault d1 where f: "next_fault d = (fault, d1)" by (rule prod.exhaust)
  note n = next_fault_files [OF f]
  have w: "(x, d') = (case fault of
      None \<Rightarrow> (Inr (), put_file p \<lparr>fl_content = c, fl_regular = True, fl_mode = mode,
        fl_owner = 0, fl_mtime = dk_now d\<rparr> d1)
    | Some _ \<Rightarrow> (Inl ''write failed'', d1))"
    using assms f by (simp add: atomic_write_bytes_def split: option.splits)
  show "dk_count d' = dk_count d" "fault_count d = (if x = Inr () then 0 else 1) + fault_count d'"
    using w n by (cases fault; simp)+
  show "\<exists>f. dk_files d' = (dk_files d)(p \<mapsto> f) \<and> fl_content f = c \<and> fl_regular f" if "x = Inr ()"
    using w n that by (cases fault) auto
  show "dk_files d' = dk_files d" if "x \<noteq> Inr ()" using w n that by (cases fault) auto
qed

section \<open>Work in progress\<close>

text \<open>\<open>d0\<close> is the disk before; each recorded pair is a file of it with a backup of its content.\<close>

definition backed_up :: "disk \<Rightarrow> disk \<Rightarrow> path \<times> path \<Rightarrow> bool" where
  "backed_up d0 d pb = (\<exists>f g h. dk_files d0 (fst pb) = Some f \<and> fl_regular f \<and>
     int (length (fl_content f)) \<le> max_existing_file_bytes \<and>
     dk_files d (fst pb) = Some g \<and> fl_regular g \<and> fl_mode g = fl_mode f \<and> fl_owner g = fl_owner f \<and>
     dk_files d0 (snd pb) = None \<and> dk_files d (snd pb) = Some h \<and> fl_regular h \<and> fl_content h = fl_content f)"

definition working :: "disk \<Rightarrow> backups \<Rightarrow> disk \<Rightarrow> bool" where
  "working d0 bs d = ((\<forall>pb \<in> set bs. backed_up d0 d pb) \<and>
     (\<forall>p. p \<notin> fst ` set bs \<longrightarrow> same_at d0 d p))"

lemma working_unchanged: "working d0 bs d \<Longrightarrow> \<forall>p \<in> fst ` set bs. same_at d0 d p \<Longrightarrow> unchanged d0 d"
  unfolding working_def unchanged_def by blast

lemma working_write:
  assumes w: "working d0 bs d" and b: "pb \<in> set bs" and x: "write_existing_file (fst pb) c d = (x, d')"
  shows "working d0 bs d'" "x = Inr () \<Longrightarrow> \<forall>f. dk_files d0 (fst pb) = Some f \<longrightarrow> c = fl_content f \<Longrightarrow>
      same_at d0 d' (fst pb)" "q \<noteq> fst pb \<Longrightarrow> same_at d0 d q \<Longrightarrow> same_at d0 d' q"
    "fault_count d = (if x = Inr () then 0 else 1) + fault_count d'"
proof -
  obtain f g where f: "dk_files d0 (fst pb) = Some f" "fl_regular f" "dk_files d (fst pb) = Some g" "fl_regular g"
    "fl_mode g = fl_mode f" "fl_owner g = fl_owner f"
    using w b unfolding working_def backed_up_def by blast
  obtain k where k: "dk_files d' = (dk_files d)(fst pb \<mapsto> k)" "fl_regular k" "fl_mode k = fl_mode f"
    "fl_owner k = fl_owner f" "x = Inr () \<longrightarrow> fl_content k = c"
    using write_existing(1) [OF x f(3,4)] f(5,6) by auto
  have old: "fst pb \<noteq> snd qb" if "backed_up d0 d qb" for qb
    using that f(1) unfolding backed_up_def by auto
  have "backed_up d0 d' qb" if "qb \<in> set bs" for qb
  proof -
    have q: "backed_up d0 d qb" using w that unfolding working_def by blast
    show ?thesis
    proof (cases "fst qb = fst pb")
      case True
      then show ?thesis using q old [OF q] k f unfolding backed_up_def by auto
    next
      case False
      then show ?thesis using q old [OF q] k(1) unfolding backed_up_def by auto
    qed
  qed
  moreover have "same_at d0 d' p" if "p \<notin> fst ` set bs" for p
  proof -
    have "p \<noteq> fst pb" using that b by blast
    then show ?thesis using w that k(1) unfolding working_def same_at_def by auto
  qed
  ultimately show "working d0 bs d'" unfolding working_def by blast
  show "same_at d0 d' (fst pb)" if "x = Inr ()" "\<forall>f. dk_files d0 (fst pb) = Some f \<longrightarrow> c = fl_content f"
    using that k f unfolding same_at_def same_file_def by auto
  show "same_at d0 d' q" if "q \<noteq> fst pb" "same_at d0 d q"
    using that k(1) unfolding same_at_def by auto
  show "fault_count d = (if x = Inr () then 0 else 1) + fault_count d'"
    using write_existing(3) [OF x f(3,4)] .
qed

section \<open>The return to the backups\<close>

lemma restore_one:
  assumes w: "working d0 bs d" and b: "(p, b) \<in> set bs"
    and x: "dbind (read_existing_bytes b) (write_existing_file p) d = (x, d')"
  shows "working d0 bs d' \<and> fault_count d = (if x = Inr () then 0 else 1) + fault_count d' \<and>
    (x = Inr () \<longrightarrow> same_at d0 d' p \<and> (\<forall>q. same_at d0 d q \<longrightarrow> same_at d0 d' q))"
proof -
  obtain f h where f: "dk_files d0 p = Some f" "dk_files d b = Some h" "fl_regular h" "fl_content h = fl_content f"
    "int (length (fl_content f)) \<le> max_existing_file_bytes"
    using w b unfolding working_def backed_up_def by force
  have "read_existing_bytes b d = (Inr (fl_content f), d)" using readable [OF f(2,3)] f(4,5) by simp
  then have x': "write_existing_file (fst (p, b)) (fl_content f) d = (x, d')"
    using x by (simp add: dbind_def)
  note ww = working_write [OF w b x']
  have "same_at d0 d' q" if "x = Inr ()" "same_at d0 d q" for q
    using ww(2,3) that f(1) by (cases "q = p") auto
  moreover have "x = Inr () \<Longrightarrow> same_at d0 d' p" using ww(2) f(1) by simp
  ultimately show ?thesis using ww(1,4) by blast
qed

lemma restore_backups_spec:
  assumes "working d0 bs d" "set todo \<subseteq> set bs" "restore_backups todo d = (x, d')"
  shows "working d0 bs d' \<and> (x = Inr () \<or> Suc (fault_count d') \<le> fault_count d) \<and> fault_count d' \<le> fault_count d \<and>
    (x = Inr () \<longrightarrow> (\<forall>p \<in> fst ` set todo. same_at d0 d' p) \<and> (\<forall>q. same_at d0 d q \<longrightarrow> same_at d0 d' q))"
  using assms
proof (induction todo arbitrary: d)
  case Nil
  then show ?case by simp
next
  case (Cons t todo)
  obtain p b where t: "t = (p, b)" by (cases t)
  have split: "restore_backups (t # todo) d =
      dbind (dbind (read_existing_bytes b) (write_existing_file p)) (\<lambda>_. restore_backups todo) d"
    by (simp add: t dbind_def split: prod.splits sum.splits)
  obtain y d1 where y: "dbind (read_existing_bytes b) (write_existing_file p) d = (y, d1)" by (rule prod.exhaust)
  have pb: "(p, b) \<in> set bs" using Cons.prems(2) t by simp
  note one = restore_one [OF Cons.prems(1) pb y]
  show ?case
  proof (cases y)
    case (Inl e)
    then have "x = Inl e \<and> d' = d1" using Cons.prems(3) split y by (auto simp: dbind_def)
    then show ?thesis using one Inl by auto
  next
    case (Inr u)
    then have r: "restore_backups todo d1 = (x, d')" using Cons.prems(3) split y by (simp add: dbind_def)
    have "working d0 bs d1" "set todo \<subseteq> set bs" using one Cons.prems(2) by auto
    from Cons.IH [OF this r] show ?thesis using one Inr t by auto
  qed
qed

lemma restore_existing_eq:
  assumes "working d0 bs d" "set todo \<subseteq> set bs"
  shows "restore_existing_backups todo d = restore_backups todo d"
  using assms
proof (induction todo arbitrary: d)
  case (Cons t todo)
  obtain p b where t: "t = (p, b)" by (cases t)
  obtain y d1 where y: "dbind (read_existing_bytes b) (write_existing_file p) d = (y, d1)" by (rule prod.exhaust)
  have pb: "(p, b) \<in> set bs" using Cons.prems(2) t by simp
  have ex: "path_exists b d" using Cons.prems(1) pb unfolding working_def backed_up_def path_exists_def by force
  have "working d0 bs d1" using restore_one [OF Cons.prems(1) pb y] by blast
  then have "restore_existing_backups todo d1 = restore_backups todo d1" using Cons.IH Cons.prems(2) by simp
  moreover have "restore_backups (t # todo) d = (case y of Inl e \<Rightarrow> (Inl e, d1) | Inr _ \<Rightarrow> restore_backups todo d1)"
    using y by (auto simp: t dbind_def split: prod.splits sum.splits)
  ultimately show ?case using y ex by (auto simp: t dbind_def split: sum.splits)
qed simp

text \<open>The handler of exceptions, when no fault is left.\<close>

lemma handler_restores:
  assumes "working d0 bs d" "fault_count d = 0" "restore_existing_backups bs d = (x, d')"
  shows "x = Inr () \<and> unchanged d0 d'"
proof -
  have "restore_backups bs d = (x, d')" using restore_existing_eq [OF assms(1), of bs] assms(3) by simp
  from restore_backups_spec [OF assms(1) _ this] show ?thesis using assms(2) working_unchanged by auto
qed

section \<open>Check and reload\<close>

lemma run_bird_config_check_same: "run_bird_config_check be d = (x, d') \<Longrightarrow> d' = d"
  by (auto simp: run_bird_config_check_def split: option.splits)

lemma run_bird_configure_same: "run_bird_configure be d = (x, d') \<Longrightarrow> d' = d"
  by (auto simp: run_bird_configure_def)

definition checked :: "bird_env \<Rightarrow> disk \<Rightarrow> bool" where
  "checked be d = (\<exists>main r. default_main_config d = Some main \<and> be_check be main (dk_files d) = Inr r \<and> cm_returncode r = 0)"

definition refused_shape :: "(bool \<Rightarrow> fields \<Rightarrow> fields) \<Rightarrow> bool" where
  "refused_shape refused = (\<forall>v rest. dget (refused v rest) ''applied'' = JBool False)"

text \<open>What may raise after the files are written.\<close>

definition raising :: "bird_env \<Rightarrow> (fields \<Rightarrow> fields io) \<Rightarrow> disk \<Rightarrow> bool" where
  "raising be accept d = ((\<exists>e. run_bird_config_check be d = (Inl e, d)) \<or>
     (\<exists>e. run_bird_configure be d = (Inl e, d)) \<or> (\<exists>rest e. accept rest d = (Inl e, d)))"

text \<open>After the files are written: an accepted change leaves the disk alone and passed the check;
  otherwise the backups are back, or an exception is on its way to the handler.\<close>

lemma check_then_reload_spec:
  assumes w: "working d0 bs d" and x: "check_then_reload be reload bs refused accept d = (x, d')"
    and acc: "\<And>rest y e. accept rest d = (y, e) \<Longrightarrow> e = d \<and> (\<forall>r. y = Inr r \<longrightarrow> dget r ''applied'' = JBool True)"
    and ref: "refused_shape refused"
  shows "working d0 bs d' \<and> fault_count d' \<le> fault_count d \<and>
    (case x of Inl e \<Rightarrow> (d' = d \<and> raising be accept d) \<or> Suc (fault_count d') \<le> fault_count d
     | Inr r \<Rightarrow> (dget r ''applied'' = JBool True \<and> d' = d \<and> checked be d) \<or>
         (dget r ''applied'' = JBool False \<and> unchanged d0 d'))"
proof -
  have undone: "working d0 bs d' \<and> fault_count d' \<le> fault_count d \<and>
    (case x of Inl e \<Rightarrow> (d' = d \<and> raising be accept d) \<or> Suc (fault_count d') \<le> fault_count d
     | Inr r \<Rightarrow> dget r ''applied'' = JBool False \<and> unchanged d0 d')"
    if r: "dbind (restore_backups bs) (\<lambda>_. dreturn (refused v rest)) d = (x, d')" for v rest
  proof -
    obtain y d1 where y: "restore_backups bs d = (y, d1)" by (rule prod.exhaust)
    have "d' = d1 \<and> x = (case y of Inl e \<Rightarrow> Inl e | Inr _ \<Rightarrow> Inr (refused v rest))"
      using r y by (auto simp: dbind_def split: sum.splits)
    then show ?thesis
      using restore_backups_spec [OF w order_refl y] working_unchanged ref
      by (cases y) (auto simp: refused_shape_def)
  qed
  have good: "working d0 bs d' \<and> fault_count d' \<le> fault_count d \<and>
    (case x of Inl e \<Rightarrow> (d' = d \<and> raising be accept d) \<or> Suc (fault_count d') \<le> fault_count d
     | Inr r \<Rightarrow> dget r ''applied'' = JBool True \<and> d' = d)" if "accept rest d = (x, d')" for rest
    using acc [OF that] w that by (auto simp: raising_def split: sum.split)
  obtain c d1 where c: "run_bird_config_check be d = (c, d1)" by (rule prod.exhaust)
  have d1: "d1 = d" using run_bird_config_check_same [OF c] .
  show ?thesis
  proof (cases c)
    case (Inl e)
    then have "x = Inl e \<and> d' = d" using x c d1 by (simp add: check_then_reload_def dbind_def)
    then show ?thesis using Inl c d1 w by (simp add: raising_def)
  next
    case ci: (Inr check)
    have ok: "cm_returncode check = 0 \<Longrightarrow> checked be d"
      using c d1 ci by (auto simp: run_bird_config_check_def checked_def split: option.splits)
    obtain q d2 where q: "run_bird_configure be d = (q, d2)" by (rule prod.exhaust)
    have d2: "d2 = d" using run_bird_configure_same [OF q] .
    consider "cm_returncode check \<noteq> 0" | "cm_returncode check = 0" "reload" | "cm_returncode check = 0" "\<not> reload" by blast
    then show ?thesis
    proof cases
      case 1
      then have "dbind (restore_backups bs) (\<lambda>_. dreturn (refused False [(''check'', cm_report check)])) d = (x, d')"
        using x c d1 ci by (simp add: check_then_reload_def dbind_def)
      from undone [OF this] show ?thesis by (auto split: sum.split)
    next
      case 2
      show ?thesis
      proof (cases q)
        case (Inl e)
        then have "x = Inl e \<and> d' = d" using x c d1 2 q d2 ci by (simp add: check_then_reload_def dbind_def)
        then show ?thesis using Inl q d2 w by (simp add: raising_def)
      next
        case (Inr result)
        show ?thesis
        proof (cases "cm_returncode result = 0")
          case True
          then have "accept [(''check'', cm_report check), (''reload'', cm_report result)] d = (x, d')"
            using x c d1 Inr 2 q d2 ci by (simp add: check_then_reload_def dbind_def)
          from good [OF this] ok [OF 2(1)] show ?thesis by (auto split: sum.split)
        next
          case False
          then have "dbind (restore_backups bs) (\<lambda>_.
              dreturn (refused True [(''check'', cm_report check), (''reload'', cm_report result)])) d = (x, d')"
            using x c d1 Inr 2 q d2 ci by (simp add: check_then_reload_def dbind_def)
          from undone [OF this] show ?thesis by (auto split: sum.split)
        qed
      qed
    next
      case 3
      then have "accept [(''check'', cm_report check), (''reload'', JNull)] d = (x, d')"
        using x c d1 ci by (simp add: check_then_reload_def dbind_def)
      from good [OF this] ok [OF 3(1)] show ?thesis by (auto split: sum.split)
    qed
  qed
qed

section \<open>Writing the changes\<close>

text \<open>A file that can be backed up.\<close>

definition editable :: "disk \<Rightarrow> path \<Rightarrow> bool" where
  "editable d p = (\<exists>f. dk_files d p = Some f \<and> fl_regular f \<and> int (length (fl_content f)) \<le> bird_max_file_bytes)"

lemma bird_max_le: "bird_max_file_bytes \<le> max_existing_file_bytes"
  by (simp add: bird_max_file_bytes_def max_existing_file_bytes_def)

lemma working_backup:
  assumes w: "working d0 bs d" and p: "editable d0 p" "p \<notin> fst ` set bs"
    and b: "dk_files d0 b = None" "dk_files d b = None"
    and d': "dk_files d' = (dk_files d)(b \<mapsto> h)" "fl_regular h"
    and h: "\<And>f. dk_files d0 p = Some f \<Longrightarrow> fl_content h = fl_content f"
  shows "working d0 (bs @ [(p, b)]) d'"
proof -
  obtain f where f: "dk_files d0 p = Some f" "fl_regular f" "int (length (fl_content f)) \<le> max_existing_file_bytes"
    using p(1) bird_max_le unfolding editable_def by force
  have "same_at d0 d p" using w p(2) unfolding working_def by blast
  then obtain g where g: "dk_files d p = Some g" "same_file f g" using f(1) unfolding same_at_def by blast
  have pb: "p \<noteq> b" using f(1) b(1) by auto
  have "backed_up d0 d' (p, b)"
    using f g pb b(1) d' h [OF f(1)] unfolding backed_up_def same_file_def by auto
  moreover have "backed_up d0 d' qb" if "qb \<in> set bs" for qb
  proof -
    have q: "backed_up d0 d qb" using w that unfolding working_def by blast
    then have "fst qb \<noteq> b" "snd qb \<noteq> b" using b unfolding backed_up_def by auto
    then show ?thesis using q d'(1) unfolding backed_up_def by auto
  qed
  moreover have "same_at d0 d' q" if "q \<notin> fst ` set bs" for q
    using w that d'(1) b(1) unfolding working_def same_at_def by (cases "q = b") auto
  ultimately show ?thesis unfolding working_def by auto
qed

lemma write_changes_spec:
  assumes "tokens_ok be" "fresh_backups be d" "\<forall>p n. dk_count d \<le> n \<longrightarrow> dk_files d0 (backup_name be p n) = None"
    and "working d0 bs d" "\<forall>c \<in> set cs. editable d0 (ch_path c) \<and> ch_path c \<notin> fst ` set bs"
    and "distinct (map ch_path cs)" "write_changes be cs bs d = (bs', w, d')"
  shows "working d0 bs' d' \<and> fault_count d' \<le> fault_count d \<and>
    (case w of Inl e \<Rightarrow> Suc (fault_count d') \<le> fault_count d
     | Inr _ \<Rightarrow> (\<forall>c \<in> set cs. \<exists>f. dk_files d' (ch_path c) = Some f \<and> fl_content f = encode_text (ch_content c)) \<and>
         (\<forall>q. q \<notin> ch_path ` set cs \<longrightarrow> dk_files d0 q \<noteq> None \<longrightarrow> dk_files d' q = dk_files d q))"
  using assms(2-)
proof (induction cs arbitrary: bs d)
  case Nil
  then show ?case by auto
next
  case (Cons c cs)
  let ?p = "ch_path c" and ?b = "backup_name be (ch_path c) (dk_count d)"
  obtain f where f: "dk_files d0 ?p = Some f" "fl_regular f" "int (length (fl_content f)) \<le> max_existing_file_bytes"
    using Cons.prems(4) bird_max_le unfolding editable_def by force
  have p: "?p \<notin> fst ` set bs" using Cons.prems(4) by simp
  then obtain g where g: "dk_files d ?p = Some g" "same_file f g"
    using Cons.prems(3) f(1) unfolding working_def same_at_def by blast
  define d1 where "d1 = d\<lparr>dk_count := Suc (dk_count d)\<rparr>"
  have d1: "dk_files d1 = dk_files d" "fault_count d1 = fault_count d" by (simp_all add: d1_def fault_count_def)
  have rd: "read_existing_bytes ?p d1 = (Inr (fl_content f), d1)"
    using readable [of d1 ?p g] d1(1) g f(2,3) unfolding same_file_def by simp
  obtain y d2 where y: "atomic_write_bytes ?b (fl_content f) 0x180 d1 = (y, d2)" by (rule prod.exhaust)
  note a = atomic_write [OF y]
  have turn: "dbind (bird_backup_path be ?p) (\<lambda>backup. dbind (read_existing_bytes ?p) (\<lambda>old.
         dbind (atomic_write_bytes backup old 0x180) (\<lambda>_. dreturn backup))) d =
      (case y of Inl e \<Rightarrow> (Inl e, d2) | Inr _ \<Rightarrow> (Inr ?b, d2))"
    using rd y by (simp add: dbind_def bird_backup_path_def d1_def split: sum.split)
  show ?case
  proof (cases y)
    case (Inl e)
    then have r: "bs' = bs" "w = Inl e" "d' = d2" using Cons.prems(6) turn by simp_all
    have "dk_files d2 = dk_files d" using a(4) Inl d1(1) by simp
    then have "working d0 bs d2" using Cons.prems(3) unfolding working_def backed_up_def same_at_def by simp
    then show ?thesis using r a(2) Inl d1(2) by simp
  next
    case (Inr u)
    then have y: "y = Inr ()" by simp
    obtain h where h: "dk_files d2 = (dk_files d)(?b \<mapsto> h)" "fl_content h = fl_content f" "fl_regular h"
      using a(3) y d1(1) by auto
    have b: "dk_files d0 ?b = None" "dk_files d ?b = None"
      using Cons.prems(1,2) unfolding fresh_backups_def by blast+
    have w2: "working d0 (bs @ [(?p, ?b)]) d2"
      by (rule working_backup [OF Cons.prems(3) _ p b h(1,3)])
        (use Cons.prems(4) f(1) h(2) in simp_all)
    obtain z d3 where z: "write_existing_file ?p (encode_text (ch_content c)) d2 = (z, d3)" by (rule prod.exhaust)
    have pb: "(?p, ?b) \<in> set (bs @ [(?p, ?b)])" by simp
    have z': "write_existing_file (fst (?p, ?b)) (encode_text (ch_content c)) d2 = (z, d3)" using z by simp
    note ww = working_write [OF w2 pb z']
    have n: "?p \<noteq> ?b" using f(1) b(1) by auto
    have p2: "dk_files d2 ?p = Some g" "fl_regular g" using h(1) g n f(2) by (auto simp: same_file_def)
    note we = write_existing [OF z p2]
    show ?thesis
    proof (cases z)
      case (Inl e)
      then have r: "bs' = bs @ [(?p, ?b)]" "w = Inl e" "d' = d3" using Cons.prems(6) turn y z by simp_all
      show ?thesis using r ww(1,4) Inl a(2) y d1(2) by simp
    next
      case (Inr v)
      then have z: "z = Inr ()" by simp
      then have r: "write_changes be cs (bs @ [(?p, ?b)]) d3 = (bs', w, d')"
        using Cons.prems(6) turn y \<open>write_existing_file ?p (encode_text (ch_content c)) d2 = (z, d3)\<close> by simp
      obtain k where k: "dk_files d3 = (dk_files d2)(?p \<mapsto> k)" "fl_content k = encode_text (ch_content c)"
        using we(1) z by blast
      have count: "dk_count d3 = Suc (dk_count d)" using we(2) a(1) by (simp add: d1_def)
      have fresh: "fresh_backups be d3"
        unfolding fresh_backups_def
      proof (intro allI impI)
        fix q m assume m: "dk_count d3 \<le> m"
        have "backup_name be q m \<noteq> ?b" using backup_name_inj [OF assms(1)] m count by fastforce
        moreover have "dk_files d (backup_name be q m) = None"
          using Cons.prems(1) m count unfolding fresh_backups_def by simp
        moreover have "backup_name be q m \<noteq> ?p"
          using Cons.prems(2) m count f(1) by (metis Suc_leD option.distinct(1))
        ultimately show "dk_files d3 (backup_name be q m) = None" using k(1) h(1) by simp
      qed
      have olds: "\<forall>q n. dk_count d3 \<le> n \<longrightarrow> dk_files d0 (backup_name be q n) = None"
        using Cons.prems(2) count by simp
      have ne: "?p \<notin> ch_path ` set cs" using Cons.prems(5) by auto
      have rest: "\<forall>c' \<in> set cs. editable d0 (ch_path c') \<and> ch_path c' \<notin> fst ` set (bs @ [(?p, ?b)])"
      proof
        fix c' assume c': "c' \<in> set cs"
        have "ch_path c' \<noteq> ?p" using c' ne by (metis image_eqI)
        then show "editable d0 (ch_path c') \<and> ch_path c' \<notin> fst ` set (bs @ [(?p, ?b)])"
          using Cons.prems(4) c' by simp
      qed
      have dist: "distinct (map ch_path cs)" using Cons.prems(5) by simp
      note ih = Cons.IH [OF fresh olds ww(1) rest dist r]
      have fc: "fault_count d3 = fault_count d" using ww(4) z a(2) y d1(2) by simp
      show ?thesis
      proof (cases w)
        case (Inl e)
        then show ?thesis using ih fc by simp
      next
        case (Inr v)
        have keep: "dk_files d' q = dk_files d3 q" if "q \<notin> ch_path ` set cs" "dk_files d0 q \<noteq> None" for q
          using ih that Inr by simp
        have "dk_files d' ?p = Some k" using keep ne f(1) k(1) by simp
        moreover have "dk_files d' q = dk_files d q" if "q \<notin> ch_path ` set (c # cs)" "dk_files d0 q \<noteq> None" for q
          using keep [of q] that k(1) h(1) b(1) by auto
        ultimately show ?thesis using ih fc Inr k(2) by auto
      qed
    qed
  qed
qed

section \<open>The checks before\<close>

lemma ensure_size_cases:
  "ensure_bird_file_size p d = (x, d') \<Longrightarrow> d' = d \<and> (x = Inr () \<longrightarrow> editable d p)"
  by (auto simp: ensure_bird_file_size_def editable_def split: option.splits if_splits)

lemma file_sha256_same: "file_sha256 be p d = (x, d') \<Longrightarrow> d' = d"
  using ensure_size_cases read_existing_same(1)
  unfolding file_sha256_def dbind_split by (fastforce split: if_splits)

lemma check_entry_cases:
  assumes "check_entry be item acc d = (x, d')"
  shows "d' = d \<and> (\<forall>c. x = Inr c \<longrightarrow> editable d (ch_path c) \<and> ch_path c \<notin> ch_path ` set acc \<and>
    utf8_length (ch_content c) \<le> bird_max_file_bytes)"
proof (cases item)
  case (JObj entry)
  let ?key = "str_or_empty (dget entry ''resource_key'')" and ?base = "str_or_empty (dget entry ''base_sha256'')"
  show ?thesis
  proof (cases "resolve_bird_resource be ?key")
    case (Inl e)
    then show ?thesis using assms JObj by (auto simp: check_entry_def dbind_def)
  next
    case (Inr p)
    obtain s d1 where s: "ensure_bird_file_size p d = (s, d1)" by (rule prod.exhaust)
    obtain k d2 where k: "file_sha256 be p d = (k, d2)" by (rule prod.exhaust)
    have same: "d1 = d" "d2 = d" "s = Inr () \<longrightarrow> editable d p"
      using ensure_size_cases [OF s] file_sha256_same [OF k] by blast+
    consider "p \<in> ch_path ` set acc" | "p \<notin> ch_path ` set acc" "\<not> path_is_file p d"
      | "p \<notin> ch_path ` set acc \<and> path_is_file p d" by blast
    then show ?thesis
    proof cases
      case 1
      then show ?thesis using assms JObj Inr by (auto simp: check_entry_def dbind_def)
    next
      case 2
      then have "check_entry be item acc d = (Inl (''BIRD resource does not exist: '' @ show_path p), d)"
        using JObj Inr by (simp add: check_entry_def dbind_def)
      then show ?thesis using assms by simp
    next
      case False: 3
      have "check_entry be item acc d = (case s of Inl e \<Rightarrow> (Inl e, d) | Inr _ \<Rightarrow> (case k of Inl e \<Rightarrow> (Inl e, d)
          | Inr current_sha \<Rightarrow>
              (if ?base \<noteq> [] \<and> current_sha \<noteq> ?base then draise (''BIRD resource changed on node: '' @ show_path p)
               else (case dget entry ''content'' of
                   JStr content \<Rightarrow> if bird_max_file_bytes < utf8_length content
                     then draise ''BIRD config content is too large''
                     else dreturn \<lparr>ch_path = p, ch_content = content, ch_sha = current_sha\<rparr>
                 | _ \<Rightarrow> draise ''BIRD resource content must be a string'')) d))"
        using JObj Inr False s k same by (simp add: check_entry_def dbind_def Let_def split: sum.split)
      then show ?thesis using assms same False
        by (auto split: sum.splits if_splits json.splits)
    qed
  qed
qed (use assms in \<open>auto simp: check_entry_def\<close>)

lemma check_entries_cases:
  assumes "check_entries be items acc d = (x, d')" "distinct (map ch_path acc)"
    "\<forall>c \<in> set acc. editable d (ch_path c) \<and> utf8_length (ch_content c) \<le> bird_max_file_bytes"
  shows "d' = d \<and> (\<forall>cs. x = Inr cs \<longrightarrow> distinct (map ch_path cs) \<and>
    (\<forall>c \<in> set cs. editable d (ch_path c) \<and> utf8_length (ch_content c) \<le> bird_max_file_bytes))"
  using assms
proof (induction items arbitrary: acc)
  case Nil
  then show ?case by auto
next
  case (Cons item items)
  obtain y d1 where y: "check_entry be item acc d = (y, d1)" by (rule prod.exhaust)
  note c = check_entry_cases [OF y]
  show ?case
  proof (cases y)
    case (Inl e)
    then show ?thesis using Cons.prems(1) y c by (auto simp: dbind_def)
  next
    case (Inr ch)
    then have r: "check_entries be items (acc @ [ch]) d = (x, d')" using Cons.prems(1) y c by (simp add: dbind_def)
    show ?thesis by (rule Cons.IH [OF r]) (use Cons.prems(2,3) c Inr in auto)
  qed
qed

section \<open>All or nothing\<close>

definition all_or_nothing :: "bird_env \<Rightarrow> change list \<Rightarrow> disk \<Rightarrow> (string, fields) result \<Rightarrow> disk \<Rightarrow> bool" where
  "all_or_nothing be cs d x d' =
     ((\<exists>r. x = Inr r \<and> dget r ''applied'' = JBool True \<and> checked be d' \<and>
        (\<forall>c \<in> set cs. \<exists>f. dk_files d' (ch_path c) = Some f \<and> fl_content f = encode_text (ch_content c)) \<and>
        (\<forall>q. q \<notin> ch_path ` set cs \<longrightarrow> dk_files d q \<noteq> None \<longrightarrow> dk_files d' q = dk_files d q)) \<or>
      (unchanged d d' \<and> (\<forall>r. x = Inr r \<longrightarrow> dget r ''applied'' = JBool False)))"

lemma working_start: "working d [] d"
  by (auto simp: working_def same_at_def)

text \<open>Both changes end alike: from files written with their backups made.\<close>

lemma guarded_change:
  assumes w: "working d0 bs d" and f: "fault_count d \<le> 1"
    and written: "\<And>e. written = Inl e \<Longrightarrow> fault_count d = 0"
    and calm: "written = Inr () \<Longrightarrow> fault_count d = 0 \<or> \<not> raising be accept d"
    and acc: "\<And>rest e y e'. accept rest e = (y, e') \<Longrightarrow> e' = e \<and> (\<forall>r. y = Inr r \<longrightarrow> dget r ''applied'' = JBool True)"
    and ref: "refused_shape refused"
    and x: "dexcept (dbind (lift_error written) (\<lambda>_. check_then_reload be reload bs refused accept))
      (restore_existing_backups bs) d = (x, d')"
  shows "(\<exists>r. x = Inr r \<and> dget r ''applied'' = JBool True \<and> d' = d \<and> checked be d \<and> written = Inr ()) \<or>
    (unchanged d0 d' \<and> (\<forall>r. x = Inr r \<longrightarrow> dget r ''applied'' = JBool False))"
proof -
  have handled: "unchanged d0 d' \<and> (\<forall>r. x = Inr r \<longrightarrow> dget r ''applied'' = JBool False)"
    if m: "dbind (lift_error written) (\<lambda>_. check_then_reload be reload bs refused accept) d = (Inl e, d1)"
      and w1: "working d0 bs d1" and f1: "fault_count d1 = 0" for e d1
  proof -
    obtain h d2 where h: "restore_existing_backups bs d1 = (h, d2)" by (rule prod.exhaust)
    have r: "h = Inr () \<and> unchanged d0 d2" by (rule handler_restores [OF w1 f1 h])
    then have "(Inl e, d2) = (x, d')" using x m h by (simp add: dexcept_def)
    then show ?thesis using r by auto
  qed
  show ?thesis
  proof (cases written)
    case (Inl e)
    then have "dbind (lift_error written) (\<lambda>_. check_then_reload be reload bs refused accept) d = (Inl e, d)"
      by (simp add: dbind_def)
    from handled [OF this w written [OF Inl]] show ?thesis by blast
  next
    case (Inr u)
    then have ok: "written = Inr ()" by simp
    obtain y d1 where y: "check_then_reload be reload bs refused accept d = (y, d1)" by (rule prod.exhaust)
    have m: "dbind (lift_error written) (\<lambda>_. check_then_reload be reload bs refused accept) d = (y, d1)"
      using ok y by (simp add: dbind_def)
    have spec: "working d0 bs d1 \<and> fault_count d1 \<le> fault_count d \<and>
      (case y of Inl e \<Rightarrow> (d1 = d \<and> raising be accept d) \<or> Suc (fault_count d1) \<le> fault_count d
       | Inr r \<Rightarrow> (dget r ''applied'' = JBool True \<and> d1 = d \<and> checked be d) \<or>
           (dget r ''applied'' = JBool False \<and> unchanged d0 d1))"
      by (rule check_then_reload_spec [OF w y _ ref]) (rule acc)
    show ?thesis
    proof (cases y)
      case (Inl e)
      have "fault_count d1 = 0" using spec Inl calm [OF ok] f by auto
      then show ?thesis using handled [of e d1] m Inl spec by auto
    next
      case (Inr r)
      have "x = Inr r \<and> d' = d1" using x m Inr by (simp add: dexcept_def)
      then show ?thesis using spec Inr ok by auto
    qed
  qed
qed

lemma file_sha256_editable: "editable d p \<Longrightarrow> \<exists>s. file_sha256 be p d = (Inr s, d)"
  using bird_max_le
  by (auto simp: editable_def file_sha256_def dbind_def ensure_bird_file_size_def read_existing_bytes_def)

lemma change_reports_same: "change_reports be bs cs d = (x, d') \<Longrightarrow> d' = d"
proof (induction cs arbitrary: x d')
  case (Cons c cs)
  obtain y d1 where y: "file_sha256 be (ch_path c) d = (y, d1)" by (rule prod.exhaust)
  obtain z d2 where z: "change_reports be bs cs d = (z, d2)" by (rule prod.exhaust)
  show ?case using Cons.prems y z file_sha256_same [OF y] Cons.IH [OF z]
    by (auto simp: dbind_def split: sum.splits)
qed simp

lemma change_reports_editable:
  "\<forall>c \<in> set cs. editable d (ch_path c) \<Longrightarrow> \<exists>rs. change_reports be bs cs d = (Inr rs, d)"
proof (induction cs)
  case (Cons c cs)
  then obtain rs where "change_reports be bs cs d = (Inr rs, d)" by auto
  moreover obtain s where "file_sha256 be (ch_path c) d = (Inr s, d)"
    using file_sha256_editable Cons.prems by (metis list.set_intros(1))
  ultimately show ?case by (simp add: dbind_def)
qed simp

lemma accepted_changes_cases:
  "accepted_changes be cs bs rest d = (x, d') \<Longrightarrow> d' = d \<and> (\<forall>r. x = Inr r \<longrightarrow> dget r ''applied'' = JBool True)"
  using change_reports_same unfolding accepted_changes_def dbind_split by fastforce

lemma accepted_changes_returns:
  "\<forall>c \<in> set cs. editable d (ch_path c) \<Longrightarrow> accepted_changes be cs bs rest d \<noteq> (Inl e, d)"
  using change_reports_editable [of cs d be bs] by (auto simp: accepted_changes_def dbind_def)

lemma refused_changes_shape: "refused_shape (\<lambda>valid. refused_changes valid cs bs)"
  by (simp add: refused_shape_def refused_changes_def)

text \<open>The two commands can be run and a main configuration exists.\<close>

definition commands_return :: "bird_env \<Rightarrow> disk \<Rightarrow> bool" where
  "commands_return be d = ((\<forall>main fs. \<exists>r. be_check be main fs = Inr r) \<and> (\<forall>fs. \<exists>r. be_configure be fs = Inr r) \<and>
     default_main_config d \<noteq> None)"

lemma working_exists: "working d0 bs d \<Longrightarrow> path_exists p d0 \<Longrightarrow> path_exists p d"
  unfolding working_def backed_up_def same_at_def path_exists_def by force

lemma commands_do_not_raise:
  assumes "commands_return be d0" "working d0 bs d" "\<And>rest e. accept rest d \<noteq> (Inl e, d)"
  shows "\<not> raising be accept d"
proof -
  have "default_main_config d \<noteq> None"
    using assms(1) working_exists [OF assms(2)] by (auto simp: commands_return_def default_main_config_def split: if_splits)
  then obtain main where "default_main_config d = Some main" by blast
  moreover obtain r where "be_check be main (dk_files d) = Inr r" using assms(1) unfolding commands_return_def by blast
  moreover obtain k where "be_configure be (dk_files d) = Inr k" using assms(1) unfolding commands_return_def by blast
  ultimately have "run_bird_config_check be d = (Inr r, d)" "run_bird_configure be d = (Inr k, d)"
    by (simp_all add: run_bird_config_check_def run_bird_configure_def)
  then show ?thesis using assms(3) unfolding raising_def by auto
qed

text \<open>The files that were written are regular and small enough to be hashed.\<close>

lemma written_editable:
  assumes "working d0 bs d" "editable d0 p" "dk_files d p = Some f" "fl_content f = encode_text c"
    and "utf8_length c \<le> bird_max_file_bytes"
  shows "editable d p"
proof -
  obtain f0 where "dk_files d0 p = Some f0" "fl_regular f0" using assms(2) unfolding editable_def by blast
  then have "fl_regular f"
    using assms(1,3) unfolding working_def backed_up_def same_at_def same_file_def
    by (cases "p \<in> fst ` set bs") force+
  moreover have "int (length (encode_text c)) = utf8_length c" by (simp add: encode_text_def utf8_encode_length)
  ultimately show ?thesis using assms(3-5) unfolding editable_def by simp
qed

lemma apply_changes_all_or_nothing:
  assumes env: "tokens_ok be" "fresh_backups be d"
    and faults: "fault_count d \<le> 1" "fault_count d = 0 \<or> commands_return be d"
    and cs: "distinct (map ch_path cs)"
      "\<forall>c \<in> set cs. editable d (ch_path c) \<and> utf8_length (ch_content c) \<le> bird_max_file_bytes"
    and x: "apply_changes be reload cs d = (x, d')"
  shows "all_or_nothing be cs d x d'"
proof -
  obtain bs w d1 where w: "write_changes be cs [] d = (bs, w, d1)" by (metis prod.exhaust)
  have olds: "\<forall>p n. dk_count d \<le> n \<longrightarrow> dk_files d (backup_name be p n) = None"
    using env(2) by (simp add: fresh_backups_def)
  have each: "\<forall>c \<in> set cs. editable d (ch_path c) \<and> ch_path c \<notin> fst ` set []" using cs(2) by simp
  note spec = write_changes_spec [OF env(1,2) olds working_start each cs(1) w]
  have e: "editable d1 (ch_path c)" if "w = Inr ()" "c \<in> set cs" for c
    using spec that cs(2) written_editable [of d bs d1 "ch_path c"] by fastforce
  have calm: "fault_count d1 = 0 \<or> \<not> raising be (accepted_changes be cs bs) d1" if ok: "w = Inr ()"
  proof (cases "fault_count d = 0")
    case True
    then show ?thesis using spec by simp
  next
    case False
    then have "commands_return be d" using faults(2) by auto
    from commands_do_not_raise [OF this] spec accepted_changes_returns [of cs d1] e [OF ok] show ?thesis by blast
  qed
  have r: "(\<exists>r. x = Inr r \<and> dget r ''applied'' = JBool True \<and> d' = d1 \<and> checked be d1 \<and> w = Inr ()) \<or>
    (unchanged d d' \<and> (\<forall>r. x = Inr r \<longrightarrow> dget r ''applied'' = JBool False))"
  proof (rule guarded_change)
    show "working d bs d1" using spec by blast
    show "fault_count d1 \<le> 1" using spec faults(1) by linarith
    show "fault_count d1 = 0" if "w = Inl e" for e using spec that faults(1) by simp
    show "fault_count d1 = 0 \<or> \<not> raising be (accepted_changes be cs bs) d1" if "w = Inr ()" using calm that .
    show "refused_shape (\<lambda>valid. refused_changes valid cs bs)" by (rule refused_changes_shape)
    show "dexcept (dbind (lift_error w) (\<lambda>_. check_then_reload be reload bs
        (\<lambda>valid. refused_changes valid cs bs) (accepted_changes be cs bs))) (restore_existing_backups bs) d1 = (x, d')"
      using x w by (simp add: apply_changes_def)
  qed (rule accepted_changes_cases)
  then show ?thesis unfolding all_or_nothing_def using spec by auto
qed

section \<open>A sample node\<close>

definition sample_bird_env :: bird_env where
  "sample_bird_env = \<lparr>be_resolve = (\<lambda>p. p), be_is_symlink = (\<lambda>_. False),
     be_check = (\<lambda>main fs. Inr \<lparr>cm_returncode = (case fs main of None \<Rightarrow> 1
       | Some f \<Rightarrow> if fl_content f = ''bad'' then 1 else 0), cm_report = JNull\<rparr>),
     be_configure = (\<lambda>_. Inr \<lparr>cm_returncode = 0, cm_report = JNull\<rparr>), be_sha = (\<lambda>c. c),
     be_stamp = (\<lambda>_. ''0''), be_token = (\<lambda>n. replicate n CHR ''1'')\<rparr>"

definition sample_file :: "string \<Rightarrow> disk_file" where
  "sample_file c = \<lparr>fl_content = c, fl_regular = True, fl_mode = 420, fl_owner = 0, fl_mtime = 1\<rparr>"

definition sample_disk :: "nat option list \<Rightarrow> disk" where
  "sample_disk faults = \<lparr>dk_files = [bird_default_main \<mapsto> sample_file ''old'',
     [''etc'', ''bird'', ''peers.conf''] \<mapsto> sample_file ''peers''], dk_faults = faults, dk_now = 9, dk_count = 0\<rparr>"

lemma sample_bird_tokens: "tokens_ok sample_bird_env"
  by (simp add: tokens_ok_def sample_bird_env_def inj_def)

lemma sample_bird_fresh: "fresh_backups sample_bird_env (sample_disk faults)"
  by (simp add: fresh_backups_def sample_disk_def backup_name_def bird_backup_dir_def bird_default_main_def)

lemma sample_bird_commands: "commands_return sample_bird_env (sample_disk faults)"
  by (simp add: commands_return_def sample_bird_env_def sample_disk_def default_main_config_def path_exists_def)

definition sample_changes :: "json list" where
  "sample_changes = [JObj [(''resource_key'', JStr ''/etc/bird/bird.conf''), (''content'', JStr ''new'')],
     JObj [(''resource_key'', JStr ''/etc/bird/peers.conf''), (''content'', JStr ''more peers'')]]"

text \<open>The second file breaks after three bytes.\<close>

definition sample_run :: "(string, fields) result \<times> disk" where
  "sample_run = apply_bird_resources sample_bird_env sample_changes True False (sample_disk [None, None, None, Some 3])"

lemma sample_runs_evaluated:
  "is_ok (fst sample_run) = False"
  "map_option fl_content (dk_files (snd sample_run) [''etc'', ''bird'', ''peers.conf'']) = Some ''peers''"
  by code_simp+

section \<open>Properties\<close>

text \<open>C15: a change of several BIRD files is all or nothing. With at most one failing write,
  wherever it happens, either every file has its new content, the other files are as they were
  and the configuration now on the disk passed the check of BIRD, or every file that existed
  has the content, mode and owner it had, and the result does not claim success.\<close>

theorem bird_changes_are_all_or_nothing:
  assumes "tokens_ok be" "fresh_backups be d"
    and "fault_count d \<le> 1" "fault_count d = 0 \<or> commands_return be d"
    and "apply_bird_resources be files reload dry_run d = (x, d')"
  shows "(\<exists>cs. check_entries be files [] d = (Inr cs, d) \<and> all_or_nothing be cs d x d') \<or>
    (unchanged d d' \<and> (\<exists>e. x = Inl e))"
proof (cases "files = []")
  case True
  then show ?thesis using assms(5) by (auto simp: apply_bird_resources_def)
next
  case False
  obtain y d1 where y: "check_entries be files [] d = (y, d1)" by (rule prod.exhaust)
  have c: "d1 = d \<and> (\<forall>cs. y = Inr cs \<longrightarrow> distinct (map ch_path cs) \<and>
      (\<forall>c \<in> set cs. editable d (ch_path c) \<and> utf8_length (ch_content c) \<le> bird_max_file_bytes))"
    by (rule check_entries_cases [OF y]) simp_all
  show ?thesis
  proof (cases y)
    case (Inl e)
    then show ?thesis using assms(5) False y c by (auto simp: apply_bird_resources_def dbind_def)
  next
    case (Inr cs)
    show ?thesis
    proof (cases dry_run)
      case True
      then show ?thesis using assms(5) False y c Inr
        by (auto simp: apply_bird_resources_def dbind_def all_or_nothing_def)
    next
      case no_dry: False
      then have "apply_changes be reload cs d = (x, d')"
        using assms(5) False y c Inr by (simp add: apply_bird_resources_def dbind_def)
      from apply_changes_all_or_nothing [OF assms(1-4) _ _ this] c Inr y show ?thesis by auto
    qed
  qed
qed

theorem bird_changes_are_all_or_nothing_witness:
  "unchanged (sample_disk [None, None, None, Some 3]) (snd sample_run)"
proof -
  have run: "apply_bird_resources sample_bird_env sample_changes True False (sample_disk [None, None, None, Some 3]) =
      (fst sample_run, snd sample_run)"
    by (simp add: sample_run_def)
  have f: "fault_count (sample_disk [None, None, None, Some 3]) \<le> 1" by (simp add: fault_count_def sample_disk_def)
  have "\<not> (\<exists>r. fst sample_run = Inr r)" using sample_runs_evaluated(1) by (auto simp: is_ok_def)
  then show ?thesis
    using bird_changes_are_all_or_nothing [OF sample_bird_tokens sample_bird_fresh [of "[None, None, None, Some 3]"] f _ run]
      sample_bird_commands [of "[None, None, None, Some 3]"]
    unfolding all_or_nothing_def by blast
qed

lemma single_change_tail:
  assumes w: "write_changes be [\<lparr>ch_path = p, ch_content = content, ch_sha = sha\<rparr>] [] d = (bs, w, d1)"
  shows "dbind (bird_backup_path be p) (\<lambda>backup. dbind (read_existing_bytes p) (\<lambda>old.
      dbind (atomic_write_bytes backup old 0x180) (\<lambda>_.
      dexcept (dbind (write_existing_file p (encode_text content)) (\<lambda>_. f backup)) (restore_existing_backups [(p, backup)])))) d =
    (if bs = [] then (case w of Inl e \<Rightarrow> (Inl e, d1) | Inr _ \<Rightarrow> undefined)
     else dexcept (dbind (lift_error w) (\<lambda>_. f (snd (hd bs)))) (restore_existing_backups bs) d1) \<and>
    (bs = [] \<longrightarrow> w \<noteq> Inr ()) \<and> (bs \<noteq> [] \<longrightarrow> bs = [(p, snd (hd bs))])"
proof -
  let ?b = "backup_name be p (dk_count d)" and ?d = "d\<lparr>dk_count := Suc (dk_count d)\<rparr>"
  obtain r dr where r: "read_existing_bytes p ?d = (r, dr)" by (rule prod.exhaust)
  show ?thesis
  proof (cases r)
    case (Inl e)
    then show ?thesis using w r by (auto simp: dbind_def bird_backup_path_def)
  next
    case old: (Inr old)
    obtain a da where a: "atomic_write_bytes ?b old 0x180 dr = (a, da)" by (rule prod.exhaust)
    show ?thesis
    proof (cases a)
      case (Inl e)
      then show ?thesis using w r old a by (auto simp: dbind_def bird_backup_path_def)
    next
      case (Inr u)
      obtain z dz where z: "write_existing_file p (encode_text content) da = (z, dz)" by (rule prod.exhaust)
      have "bs = [(p, ?b)] \<and> w = z \<and> d1 = dz"
        using w r old a Inr z by (cases z) (auto simp: dbind_def bird_backup_path_def)
      then show ?thesis using r old a Inr z by (cases z) (simp_all add: dbind_def dexcept_def bird_backup_path_def)
    qed
  qed
qed

text \<open>the change of one BIRD file is all or nothing in the same sense.\<close>

theorem bird_change_is_all_or_nothing:
  assumes env: "tokens_ok be" "fresh_backups be d"
    and faults: "fault_count d \<le> 1" "fault_count d = 0 \<or> commands_return be d"
    and x: "apply_bird_resource be key content base_sha reload dry_run d = (x, d')"
  shows "(\<exists>p. resolve_bird_resource be key = Inr p \<and> editable d p \<and>
      all_or_nothing be [\<lparr>ch_path = p, ch_content = content, ch_sha = []\<rparr>] d x d') \<or> (unchanged d d' \<and> (\<exists>e. x = Inl e))"
proof (cases "resolve_bird_resource be key")
  case (Inl e)
  then show ?thesis using x by (auto simp: apply_bird_resource_def dbind_def)
next
  case p: (Inr p)
  obtain s ds where s: "ensure_bird_file_size p d = (s, ds)" by (rule prod.exhaust)
  obtain k dk where k: "file_sha256 be p d = (k, dk)" by (rule prod.exhaust)
  have same: "ds = d" "dk = d" "s = Inr () \<longrightarrow> editable d p"
    using ensure_size_cases [OF s] file_sha256_same [OF k] by blast+
  show ?thesis
  proof (cases "utf8_length content \<le> bird_max_file_bytes \<and> path_is_file p d \<and> s = Inr () \<and>
      (\<exists>h. k = Inr h \<and> (base_sha = [] \<or> h = base_sha)) \<and> \<not> dry_run")
    case False
    then have "d' = d \<and> ((\<exists>e. x = Inl e) \<or> (s = Inr () \<and> (\<exists>r. x = Inr r \<and> dget r ''applied'' = JBool False)))"
      using x p s k same by (cases s; cases k) (auto simp: apply_bird_resource_def dbind_def split: if_splits)
    then show ?thesis using p same(3) by (auto simp: all_or_nothing_def)
  next
    case True
    let ?c = "\<lparr>ch_path = p, ch_content = content, ch_sha = []\<rparr>"
    have ed: "editable d p" using True same(3) by blast
    obtain bs w d1 where w: "write_changes be [?c] [] d = (bs, w, d1)" by (metis prod.exhaust)
    note tail = single_change_tail [OF w]
    have olds: "\<forall>p n. dk_count d \<le> n \<longrightarrow> dk_files d (backup_name be p n) = None"
      using env(2) by (simp add: fresh_backups_def)
    have spec: "working d bs d1 \<and> fault_count d1 \<le> fault_count d \<and>
      (case w of Inl e \<Rightarrow> Suc (fault_count d1) \<le> fault_count d
       | Inr _ \<Rightarrow> (\<forall>c \<in> set [?c]. \<exists>f. dk_files d1 (ch_path c) = Some f \<and> fl_content f = encode_text (ch_content c)) \<and>
         (\<forall>q. q \<notin> ch_path ` set [?c] \<longrightarrow> dk_files d q \<noteq> None \<longrightarrow> dk_files d1 q = dk_files d q))"
      by (rule write_changes_spec [OF env(1,2) olds working_start _ _ w]) (simp_all add: ed)
    let ?refused = "\<lambda>backup valid. refused_change valid p backup" and ?accept = "accepted_change be p"
    have run: "(x, d') = (if bs = [] then (case w of Inl e \<Rightarrow> (Inl e, d1) | Inr _ \<Rightarrow> undefined)
       else dexcept (dbind (lift_error w) (\<lambda>_. check_then_reload be reload [(p, snd (hd bs))]
         (?refused (snd (hd bs))) (?accept (snd (hd bs))))) (restore_existing_backups bs) d1)"
      using x p s k same True tail [of "\<lambda>backup. check_then_reload be reload [(p, backup)] (?refused backup) (?accept backup)"]
      by (auto simp: apply_bird_resource_def dbind_def)
    show ?thesis
    proof (cases "bs = []")
      case True
      then have "unchanged d d1" using spec working_unchanged [of d "[]" d1] by simp
      then show ?thesis using True run tail by (cases w) auto
    next
      case False
      then have bs: "bs = [(p, snd (hd bs))]" using tail by blast
      have r: "(\<exists>r. x = Inr r \<and> dget r ''applied'' = JBool True \<and> d' = d1 \<and> checked be d1 \<and> w = Inr ()) \<or>
        (unchanged d d' \<and> (\<forall>r. x = Inr r \<longrightarrow> dget r ''applied'' = JBool False))"
      proof (rule guarded_change)
        show "working d bs d1" using spec by blast
        show "fault_count d1 \<le> 1" using spec faults(1) by linarith
        show "fault_count d1 = 0" if "w = Inl e" for e using spec that faults(1) by simp
        show "fault_count d1 = 0 \<or> \<not> raising be (?accept (snd (hd bs))) d1" if ok: "w = Inr ()"
        proof (cases "fault_count d = 0")
          case True
          then show ?thesis using spec by simp
        next
          case False
          then have c: "commands_return be d" using faults(2) by auto
          have "editable d1 p"
            using spec ok True ed written_editable [of d bs d1 p] by fastforce
          then have "?accept (snd (hd bs)) rest d1 \<noteq> (Inl e, d1)" for rest e
            using file_sha256_editable [of d1 p be] by (auto simp: accepted_change_def dbind_def)
          then show ?thesis using commands_do_not_raise [OF c] spec by blast
        qed
        show "refused_shape (?refused (snd (hd bs)))" by (simp add: refused_shape_def refused_change_def)
        show "dexcept (dbind (lift_error w) (\<lambda>_. check_then_reload be reload bs (?refused (snd (hd bs)))
            (?accept (snd (hd bs))))) (restore_existing_backups bs) d1 = (x, d')"
          using run False bs by simp
        show "e' = e \<and> (\<forall>r. y = Inr r \<longrightarrow> dget r ''applied'' = JBool True)"
          if "?accept (snd (hd bs)) rest e = (y, e')" for rest e y e'
          using that file_sha256_same unfolding accepted_change_def dbind_split by fastforce
      qed
      then have "all_or_nothing be [?c] d x d'" unfolding all_or_nothing_def using spec by auto
      then show ?thesis using p ed by blast
    qed
  qed
qed

text \<open>checking a content leaves no trace: whatever BIRD says, and even when writing the content
  breaks half-way, the file has its content, mode, owner and time stamp again. Only the write
  that restores it must not fail.\<close>

theorem validation_leaves_no_trace:
  assumes "\<forall>f \<in> set (tl (dk_faults d)). f = None"
    and "validate_bird_resource be key content dry_run d = (x, d')"
  shows "dk_files d' = dk_files d"
proof (cases "resolve_bird_resource be key")
  case (Inl e)
  then show ?thesis using assms(2) by (auto simp: validate_bird_resource_def dbind_def)
next
  case p: (Inr p)
  obtain s ds where s: "ensure_bird_file_size p d = (s, ds)" by (rule prod.exhaust)
  have same: "ds = d" "s = Inr () \<longrightarrow> editable d p" using ensure_size_cases [OF s] by blast+
  show ?thesis
  proof (cases "utf8_length content \<le> bird_max_file_bytes \<and> \<not> dry_run \<and> s = Inr () \<and> path_exists p d")
    case False
    then show ?thesis using assms(2) p s same
      by (cases s) (auto simp: validate_bird_resource_def dbind_def path_exists_def split: if_splits option.splits)
  next
    case True
    obtain f where f: "dk_files d p = Some f" "fl_regular f" "int (length (fl_content f)) \<le> max_existing_file_bytes"
      using True same(2) bird_max_le unfolding editable_def by force
    have rd: "read_existing_bytes p d = (Inr (fl_content f), d)" by (rule readable [OF f])
    obtain y d1 where y: "write_existing_file p (encode_text content) d = (y, d1)" by (rule prod.exhaust)
    obtain g where g: "dk_files d1 = (dk_files d)(p \<mapsto> g)" "fl_regular g" using write_existing(1) [OF y f(1,2)] by blast
    have quiet: "next_fault d1 = (None, d1\<lparr>dk_faults := tl (dk_faults d1)\<rparr>)"
      using y f(1,2) assms(1) by (cases "dk_faults d"; cases "tl (dk_faults d)")
        (auto simp: write_existing_file_def next_fault_def put_file_def split: option.splits)
    obtain z d2 where z: "dbind (write_existing_file p (encode_text content)) (\<lambda>_. run_bird_config_check be) d = (z, d2)"
      by (rule prod.exhaust)
    have d2: "d2 = d1" using z y run_bird_config_check_same by (auto simp: dbind_def split: sum.splits)
    let ?restore = "dbind (write_existing_file p (fl_content f)) (\<lambda>_. restore_metadata p f)"
    obtain u d3 where u: "?restore d1 = (u, d3)" by (rule prod.exhaust)
    have "dk_files d3 = (dk_files d1)(p \<mapsto> g\<lparr>fl_content := fl_content f, fl_owner := fl_owner f, fl_mode := fl_mode f,
        fl_mtime := fl_mtime f\<rparr>)"
      using u g quiet by (auto simp: dbind_def write_existing_file_def restore_metadata_def put_file_def)
    moreover have "g\<lparr>fl_content := fl_content f, fl_owner := fl_owner f, fl_mode := fl_mode f, fl_mtime := fl_mtime f\<rparr> = f"
      by (rule disk_file.equality) (use f(2) g(2) in simp_all)
    ultimately have "dk_files d3 = (dk_files d)(p \<mapsto> f)" using g(1) by simp
    then have "dk_files d3 = dk_files d" using f(1) by (simp add: fun_upd_idem)
    moreover have "d' = d3"
      using assms(2) p s same True f(1) rd z d2 u
      by (cases z; cases u) (auto simp: validate_bird_resource_def dbind_def dfinally_def)
    ultimately show ?thesis by simp
  qed
qed

end
