(* ===== verification/AgentIo.thy ===== *)
theory AgentIo
  imports Bird
begin

text \<open>
  What the back ends of an agent share: the checked names (validation.py), the managed files of
  middleware.py and validation.py, and the commands of system.py. Commands are answered by the
  environment, which sees how many were run before and the files at that moment; they do not
  write the managed files themselves. There are no symbolic links among those, and directories
  need no creation.
\<close>

section \<open>Values of a payload\<close>

text \<open>\<open>payload[key]\<close>, whose \<open>KeyError\<close> shows the key.\<close>

definition required :: "string \<Rightarrow> fields \<Rightarrow> (string, json) result" where
  "required key p = (case map_of p key of None \<Rightarrow> Inl (repr_str key) | Some v \<Rightarrow> Inr v)"

text \<open>\<open>int(value)\<close>: a float loses its fraction; one of \<open>10 ^ 16\<close> and more is refused here, where
  the code refuses it by the bounds of the callers.\<close>

definition float_to_int :: "string \<Rightarrow> int option" where
  "float_to_int t = (if has_sub ''e-'' t then Some 0 else py_int (takeWhile (\<lambda>c. c \<noteq> CHR ''.'') t))"

definition json_to_int :: "json \<Rightarrow> int option" where
  "json_to_int v = (case v of JInt n \<Rightarrow> Some n | JBool b \<Rightarrow> Some (if b then 1 else 0)
     | JStr s \<Rightarrow> py_int s | JFloat t \<Rightarrow> float_to_int t | _ \<Rightarrow> None)"

text \<open>\<open>str(value or default)\<close>\<close>

definition text_or :: "string \<Rightarrow> json \<Rightarrow> string" where
  "text_or dflt v = (if truthy v then py_str v else dflt)"

text \<open>The parts of a text before and behind the first occurrence of another one, and the last.\<close>

fun split_sub :: "string \<Rightarrow> string \<Rightarrow> (string \<times> string) option" where
  "split_sub p [] = (if p = [] then Some ([], []) else None)"
| "split_sub p (c # cs) = (if starts_with (c # cs) p then Some ([], drop (length p) (c # cs))
     else map_option (\<lambda>(a, b). (c # a, b)) (split_sub p cs))"

definition rsplit_sub :: "string \<Rightarrow> string \<Rightarrow> (string \<times> string) option" where
  "rsplit_sub p s = map_option (\<lambda>(a, b). (rev b, rev a)) (split_sub (rev p) (rev s))"

section \<open>Names\<close>

definition name_char :: "char \<Rightarrow> bool" where
  "name_char c = (is_alnum c \<or> c \<in> {CHR ''_'', CHR ''.'', CHR ''-''})"

definition instance_char :: "char \<Rightarrow> bool" where
  "instance_char c = (name_char c \<or> c = CHR '':'')"

definition checked_name :: "(char \<Rightarrow> bool) \<Rightarrow> nat \<Rightarrow> string \<Rightarrow> bool" where
  "checked_name ok limit name = (name \<noteq> ''.'' \<and> name \<noteq> ''..'' \<and> name \<noteq> [] \<and> length name \<le> limit \<and> list_all ok name)"

definition agent_interface_name :: "string \<Rightarrow> string \<Rightarrow> (string, string) result" where
  "agent_interface_name label value = (if checked_name name_char 15 (strip value) then Inr (strip value)
     else Inl (label @ '' contains unsupported characters or exceeds 15 characters''))"

definition agent_instance_name :: "string \<Rightarrow> string \<Rightarrow> (string, string) result" where
  "agent_instance_name label value = (if checked_name instance_char 63 (strip value) then Inr (strip value)
     else Inl (label @ '' contains unsupported characters or exceeds 63 characters''))"

section \<open>Managed files\<close>

definition file_exists :: "path \<Rightarrow> bool io" where
  "file_exists p d = (Inr (path_exists p d), d)"

text \<open>The bytes of a file as a text; other bytes than those of a text are an error.\<close>

definition decode_text :: "string \<Rightarrow> (string, string) result" where
  "decode_text content = (let bs = map code content; s = utf8_decode bs in
     if utf8_encode s = bs then Inr s else Inl ''invalid utf-8'')"

definition read_existing_text :: "path \<Rightarrow> string io" where
  "read_existing_text p = dbind (read_existing_bytes p) (\<lambda>content. lift_error (decode_text content))"

definition max_managed_middleware_config_bytes :: int where "max_managed_middleware_config_bytes = 256 * 1024"

definition file_size :: "path \<Rightarrow> int io" where
  "file_size p d = (case dk_files d p of None \<Rightarrow> (Inl ''no such file'', d) | Some f \<Rightarrow> (Inr (int (length (fl_content f))), d))"

definition read_managed_middleware_text :: "path \<Rightarrow> string io" where
  "read_managed_middleware_text p = dbind (file_size p) (\<lambda>n.
     if max_managed_middleware_config_bytes < n then draise (''managed middleware config is too large: '' @ last p)
     else read_existing_text p)"

text \<open>\<open>read(path) if path.exists() else None\<close>\<close>

definition read_if_exists :: "path \<Rightarrow> string option io" where
  "read_if_exists p = dbind (file_exists p) (\<lambda>b. if b then dbind (read_managed_middleware_text p) (\<lambda>s. dreturn (Some s))
     else dreturn None)"

definition atomic_write_text :: "path \<Rightarrow> string \<Rightarrow> int \<Rightarrow> unit io" where
  "atomic_write_text p s mode = atomic_write_bytes p (encode_text s) mode"

text \<open>\<open>unlink(missing_ok=True)\<close>\<close>

definition remove_file :: "path \<Rightarrow> unit io" where
  "remove_file p d = (Inr (), d\<lparr>dk_files := (dk_files d)(p := None)\<rparr>)"

definition restore_text :: "path \<Rightarrow> string option \<Rightarrow> int \<Rightarrow> unit io" where
  "restore_text p old mode = (case old of None \<Rightarrow> remove_file p | Some s \<Rightarrow> atomic_write_text p s mode)"

text \<open>\<open>except Exception: pass\<close>\<close>

definition dignore :: "('d, 'a) dio \<Rightarrow> ('d, unit) dio" where
  "dignore m d = (Inr (), snd (m d))"

fun dmap :: "('a \<Rightarrow> ('d, 'b) dio) \<Rightarrow> 'a list \<Rightarrow> ('d, 'b list) dio" where
  "dmap f [] = dreturn []"
| "dmap f (x # xs) = dbind (f x) (\<lambda>y. dbind (dmap f xs) (\<lambda>ys. dreturn (y # ys)))"

section \<open>Commands\<close>

text \<open>\<open>or_failure\<close> is the text of the error when the failure is not allowed: the output of the
  command, or the time it was given.\<close>

record command_run =
  cr_returncode :: int
  cr_stdout :: string
  cr_stderr :: string
  cr_truncated :: bool
  cr_failure :: string

record agent_env =
  ae_run :: "nat \<Rightarrow> string list \<Rightarrow> (path \<Rightarrow> disk_file option) \<Rightarrow> command_run"
  ae_backend :: string
  ae_prefix :: string

text \<open>The secrets among the arguments are not shown.\<close>

definition sensitive_flags :: "string list" where
  "sensitive_flags = [''-k'', ''--key'', ''--password'', ''--token'']"

definition sensitive_fragments :: "string list" where
  "sensitive_fragments = [''private_key='', ''preshared_key='', ''password='', ''token='']"

fun sanitize_from :: "bool \<Rightarrow> string list \<Rightarrow> string list" where
  "sanitize_from hide [] = []"
| "sanitize_from hide (x # xs) =
     (if hide then ''***'' # sanitize_from False xs
      else if List.member sensitive_flags (lower x) then x # sanitize_from True xs
      else if list_ex (\<lambda>f. has_sub f (lower x)) sensitive_fragments
        then (fst (split_first CHR ''='' x) @ ''=***'') # sanitize_from False xs
      else x # sanitize_from False xs)"

definition sanitize_command_for_log :: "string list \<Rightarrow> string list" where
  "sanitize_command_for_log = sanitize_from False"

record command_report =
  rp_command :: "string list"
  rp_returncode :: int
  rp_stdout :: string
  rp_stderr :: string
  rp_truncated :: bool

definition report_json :: "command_report \<Rightarrow> json" where
  "report_json r = JObj [(''command'', JList (map JStr (rp_command r))), (''returncode'', JInt (rp_returncode r)),
     (''stdout'', JStr (rp_stdout r)), (''stderr'', JStr (rp_stderr r)), (''truncated'', JBool (rp_truncated r))]"

definition command_result_of :: "string list \<Rightarrow> bool \<Rightarrow> command_run \<Rightarrow> (string, command_report) result" where
  "command_result_of command allow_failure r =
     (if cr_returncode r \<noteq> 0 \<and> \<not> allow_failure then Inl (cr_failure r)
      else Inr \<lparr>rp_command = sanitize_command_for_log command, rp_returncode = cr_returncode r,
        rp_stdout = cr_stdout r, rp_stderr = cr_stderr r, rp_truncated = cr_truncated r\<rparr>)"

definition run_command :: "agent_env \<Rightarrow> string list \<Rightarrow> bool \<Rightarrow> command_report io" where
  "run_command ae command allow_failure d =
     (command_result_of command allow_failure (ae_run ae (dk_count d) command (dk_files d)), d\<lparr>dk_count := Suc (dk_count d)\<rparr>)"

text \<open>\<open>command_failure_message\<close>\<close>

definition command_failure_message :: "command_report \<Rightarrow> string" where
  "command_failure_message r =
     (let output = join [CHR 0x0A] (map strip (filter (\<lambda>s. s \<noteq> []) [rp_stdout r, rp_stderr r])) in
      ''command failed: '' @ join '' '' (rp_command r) @ (if output = [] then [] else CHR 0x0A # output))"

definition ensure_success :: "command_report \<Rightarrow> ('d, unit) dio" where
  "ensure_success r = (if rp_returncode r \<noteq> 0 then draise (command_failure_message r) else dreturn ())"

section \<open>Facts\<close>

lemma checked_name_ascii:
  assumes "checked_name instance_char limit name"
  shows "list_all (\<lambda>c. 32 < code c \<and> code c < 127) name"
proof -
  have one: "32 < code c \<and> code c < 127" if "instance_char c" for c
  proof -
    have "is_alnum c \<or> c = CHR ''_'' \<or> c = CHR ''.'' \<or> c = CHR ''-'' \<or> c = CHR '':''"
      using that by (auto simp: instance_char_def name_char_def)
    moreover have "code (CHR ''_'') = 95" "code (CHR ''.'') = 46" "code (CHR ''-'') = 45" "code (CHR '':'') = 58" by code_simp+
    ultimately show ?thesis by (auto simp: is_alnum_def is_dec_def is_lower_az_def is_upper_az_def)
  qed
  then show ?thesis using assms by (auto simp: checked_name_def list_all_iff)
qed

lemma utf8_encode_bytes: "list_all (\<lambda>b. 0 \<le> b \<and> b < 256) (utf8_encode s)"
proof (induction s)
  case (Cons c s)
  have "0 \<le> code c div 64" "code c div 64 < 4" using code_range [of c] by (simp, linarith)
  moreover have "code c mod 64 < 128" using pos_mod_bound [of 64 "code c"] by linarith
  ultimately show ?case using Cons code_range [of c] by (simp add: utf8_char_def)
qed simp

lemma decode_encode [simp]: "decode_text (encode_text s) = Inr s"
proof -
  have "map code (encode_text s) = utf8_encode s"
    unfolding encode_text_def map_map by (rule map_idI)
      (use utf8_encode_bytes [of s] in \<open>auto simp: list_all_iff code_def\<close>)
  then show ?thesis by (simp add: decode_text_def utf8_round_trip)
qed

end
