(* ===== verification/Udp2raw.thy ===== *)
theory Udp2raw
  imports AgentIo IpAddress
begin

text \<open>
  The udp2raw back end of an agent (middleware.py): the instance files of the two roles, one line
  per instance with its command line, and the services started on them. An instance file is the
  concrete form of a map from instance names to command lines.
\<close>

section \<open>Constants\<close>

definition udp2raw_bin :: path where "udp2raw_bin = [''usr'', ''local'', ''bin'', ''udp2raw'']"
definition udp2raw_config_dir :: path where "udp2raw_config_dir = [''etc'', ''link42'', ''middleware'', ''udp2raw'']"
definition udp2raw_libexec :: path where "udp2raw_libexec = [''usr'', ''local'', ''libexec'', ''link42-udp2raw-systemd'']"
definition openwrt_init_dir :: path where "openwrt_init_dir = [''etc'', ''init.d'']"

definition unit_path :: "agent_env \<Rightarrow> string \<Rightarrow> path" where
  "unit_path ae mode = [''etc'', ''systemd'', ''system'', ae_prefix ae @ ''-'' @ mode @ ''@.service'']"

section \<open>The command line\<close>

definition validate_mode :: "string \<Rightarrow> (string, string) result" where
  "validate_mode mode = (if mode \<in> {''server'', ''client''} then Inr mode else Inl ''udp2raw mode must be server or client'')"

definition agent_udp2raw_ip :: "string \<Rightarrow> string \<Rightarrow> (string, string) result" where
  "agent_udp2raw_ip value field_name = (case ip_address (strip value) of
      None \<Rightarrow> Inl (field_name @ '' must be an IPv4 or IPv6 address'')
    | Some (IPv6 n (Some z)) \<Rightarrow> rbind (agent_interface_name (field_name @ '' IPv6 zone'') z) (\<lambda>_.
        Inr (compressed (IPv6 n (Some z))))
    | Some a \<Rightarrow> Inr (compressed a))"

definition agent_udp2raw_port :: "json \<Rightarrow> string \<Rightarrow> (string, int) result" where
  "agent_udp2raw_port value field_name = (case json_to_int value of
      None \<Rightarrow> Inl ''invalid integer''
    | Some port \<Rightarrow> if port < 1 \<or> 65535 < port then Inl (field_name @ '' must be between 1 and 65535'') else Inr port)"

definition udp2raw_raw_mode :: "string \<Rightarrow> (string, string) result" where
  "udp2raw_raw_mode value = (if value \<in> {''faketcp'', ''udp'', ''icmp''} then Inr value
     else Inl ''udp2raw raw mode must be faketcp, udp, or icmp'')"

definition udp2raw_cipher_mode :: "string \<Rightarrow> (string, string) result" where
  "udp2raw_cipher_mode value = (if value \<in> {''xor'', ''aes128cbc'', ''none''} then Inr value
     else Inl ''udp2raw cipher mode must be xor, aes128cbc, or none'')"

definition udp2raw_auth_mode :: "string \<Rightarrow> (string, string) result" where
  "udp2raw_auth_mode value = (if value \<in> {''hmac_sha1'', ''md5'', ''crc32'', ''simple'', ''none''} then Inr value
     else Inl ''udp2raw auth mode must be hmac_sha1, md5, crc32, simple, or none'')"

definition format_udp2raw_endpoint :: "string \<Rightarrow> int \<Rightarrow> (string, string) result" where
  "format_udp2raw_endpoint host port = (case ip_address host of
      None \<Rightarrow> Inl ''does not appear to be an IPv4 or IPv6 address''
    | Some a \<Rightarrow> Inr ((if ip_version a = 6 then ''['' @ compressed a @ '']'' else compressed a) @ '':'' @ show_int port))"

definition shell_quote :: "string \<Rightarrow> (string, string) result" where
  "shell_quote value = (if list_ex is_control value then Inl ''udp2raw password must not contain control characters''
     else Inr ([CHR 0x27] @ concat (map (\<lambda>c. if c = CHR 0x27 then [CHR 0x27, CHR 0x5C, CHR 0x27, CHR 0x27] else [c]) value)
       @ [CHR 0x27]))"

definition auto_rule_arg :: string where "auto_rule_arg = ''-a''"

text \<open>The parts that depend on the role, and on the wish for firewall rules (the default).\<close>

definition mode_flag :: "string \<Rightarrow> string" where
  "mode_flag mode = (if mode = ''server'' then ''-s'' else ''-c'')"

definition rule_args :: "fields \<Rightarrow> string list" where
  "rule_args p = (case map_of p ''auto_rule'' of None \<Rightarrow> [auto_rule_arg] | Some v \<Rightarrow> if truthy v then [auto_rule_arg] else [])"

definition build_udp2raw_args :: "fields \<Rightarrow> (string, string) result" where
  "build_udp2raw_args p =
     rbind (rbind (required ''mode'' p) (\<lambda>v. validate_mode (py_str v))) (\<lambda>mode.
     rbind (rbind (required ''listen_host'' p) (\<lambda>v. agent_udp2raw_ip (py_str v) ''udp2raw listen host'')) (\<lambda>listen_host.
     rbind (rbind (required ''listen_port'' p) (\<lambda>v. agent_udp2raw_port v ''udp2raw listen port'')) (\<lambda>listen_port.
     rbind (rbind (required ''remote_host'' p) (\<lambda>v. agent_udp2raw_ip (py_str v) ''udp2raw remote host'')) (\<lambda>remote_host.
     rbind (rbind (required ''remote_port'' p) (\<lambda>v. agent_udp2raw_port v ''udp2raw remote port'')) (\<lambda>remote_port.
     rbind (rbind (required ''password'' p) (\<lambda>v. shell_quote (py_str v))) (\<lambda>password.
     rbind (udp2raw_raw_mode (text_or ''faketcp'' (dget p ''raw_mode''))) (\<lambda>raw_mode.
     rbind (udp2raw_cipher_mode (text_or ''xor'' (dget p ''cipher_mode''))) (\<lambda>cipher_mode.
     rbind (udp2raw_auth_mode (text_or ''md5'' (dget p ''auth_mode''))) (\<lambda>auth_mode.
     rbind (format_udp2raw_endpoint listen_host listen_port) (\<lambda>listen.
     rbind (format_udp2raw_endpoint remote_host remote_port) (\<lambda>remote.
       Inr (join '' '' ([mode_flag mode, ''-l'' @ listen, ''-r'' @ remote, ''-k '' @ password,
         ''--raw-mode '' @ raw_mode, ''--cipher-mode '' @ cipher_mode, ''--auth-mode '' @ auth_mode] @
         rule_args p)))))))))))))"

section \<open>Names of files and services\<close>

definition config_file_for_mode :: "string \<Rightarrow> path" where
  "config_file_for_mode mode = udp2raw_config_dir @ [mode]"

definition middleware_instance_name :: "fields \<Rightarrow> (string, string) result" where
  "middleware_instance_name p = rbind (required ''instance'' p) (\<lambda>v. agent_instance_name ''udp2raw instance'' (py_str v))"

definition service_prefix :: "agent_env \<Rightarrow> (string, string) result" where
  "service_prefix ae = (let s = ae_prefix ae in
     if s \<noteq> [] \<and> is_alnum (hd s) \<and> length s \<le> 64 \<and> list_all name_char s then Inr s
     else Inl ''udp2raw service prefix contains unsupported characters'')"

definition unit_name :: "agent_env \<Rightarrow> string \<Rightarrow> string \<Rightarrow> (string, string) result" where
  "unit_name ae mode i = rbind (service_prefix ae) (\<lambda>pre. rbind (validate_mode mode) (\<lambda>m.
     rbind (agent_instance_name ''udp2raw instance'' i) (\<lambda>i. Inr (pre @ ''-'' @ m @ ''@'' @ i @ ''.service''))))"

definition init_name :: "agent_env \<Rightarrow> string \<Rightarrow> string \<Rightarrow> (string, string) result" where
  "init_name ae mode i = rbind (service_prefix ae) (\<lambda>pre. rbind (validate_mode mode) (\<lambda>m.
     rbind (agent_instance_name ''udp2raw instance'' i) (\<lambda>i. Inr (pre @ ''-'' @ m @ ''-'' @ i))))"

definition init_path :: "agent_env \<Rightarrow> string \<Rightarrow> string \<Rightarrow> (string, path) result" where
  "init_path ae mode i = rbind (init_name ae mode i) (\<lambda>n. Inr (openwrt_init_dir @ [n]))"

section \<open>Instance files\<close>

text \<open>The name at the head of a line, without the equals sign after it; no name on a blank line.\<close>

definition drop_equals :: "string \<Rightarrow> string" where
  "drop_equals s = (if ends_with s ''='' then butlast s else s)"

definition line_key :: "string \<Rightarrow> string" where
  "line_key line = (case split_words line of [] \<Rightarrow> [] | w # _ \<Rightarrow> drop_equals w)"

text \<open>\<open>line.split(maxsplit=1)[1]\<close>, if there is one.\<close>

definition line_rest :: "string \<Rightarrow> string option" where
  "line_rest line = (let rest = dropWhile is_space (dropWhile (\<lambda>c. \<not> is_space c) (dropWhile is_space line)) in
     if rest = [] then None else Some rest)"

definition other_lines :: "string \<Rightarrow> string \<Rightarrow> string list" where
  "other_lines i text = filter (\<lambda>line. line_key line \<noteq> i) (split_lines text)"

definition lines_text :: "string list \<Rightarrow> string" where
  "lines_text lines = rstrip (join [CHR 0x0A] lines) @ [CHR 0x0A]"

definition upsert_text :: "string \<Rightarrow> string \<Rightarrow> string \<Rightarrow> string" where
  "upsert_text i args text = lines_text (other_lines i text @ [i @ '' '' @ args])"

definition upsert_instance :: "path \<Rightarrow> string \<Rightarrow> string \<Rightarrow> unit io" where
  "upsert_instance p i args = dbind (read_if_exists p) (\<lambda>old.
     atomic_write_text p (upsert_text i args (the_or [] old)) 384)"

text \<open>The file goes with its last line.\<close>

definition remove_text :: "string \<Rightarrow> string \<Rightarrow> string option" where
  "remove_text i text = (let lines = other_lines i text in if lines \<noteq> [] then Some (lines_text lines) else None)"

definition remove_instance :: "path \<Rightarrow> string \<Rightarrow> unit io" where
  "remove_instance p i = dbind (read_if_exists p) (\<lambda>old. case old of None \<Rightarrow> dreturn ()
     | Some text \<Rightarrow> (case remove_text i text of Some t \<Rightarrow> atomic_write_text p t 384 | None \<Rightarrow> remove_file p))"

definition text_has_instance :: "string \<Rightarrow> string \<Rightarrow> bool" where
  "text_has_instance text i = list_ex (\<lambda>line. line_key line = i) (split_lines text)"

definition instance_exists :: "path \<Rightarrow> string \<Rightarrow> bool io" where
  "instance_exists p i = dbind (read_if_exists p) (\<lambda>old. dreturn (case old of None \<Rightarrow> False
     | Some text \<Rightarrow> text_has_instance text i))"

text \<open>The command line of an instance: that of the first line with its name and something behind.\<close>

definition instance_args :: "string \<Rightarrow> string \<Rightarrow> string option" where
  "instance_args text i = first_of (concat (map (\<lambda>line. if line_key line = i
     then (case line_rest line of None \<Rightarrow> [] | Some r \<Rightarrow> [r]) else []) (split_lines text)))"

definition instance_args_from_config :: "path \<Rightarrow> string \<Rightarrow> string option io" where
  "instance_args_from_config p i = dbind (read_if_exists p) (\<lambda>old.
     dreturn (case old of None \<Rightarrow> None | Some text \<Rightarrow> instance_args text i))"

section \<open>Texts of the services\<close>

definition unlines :: "string list \<Rightarrow> string" where
  "unlines lines = concat (map (\<lambda>l. l @ [CHR 0x0A]) lines)"

text \<open>The awk program that prints the command line of an instance.\<close>

definition awk_script :: string where
  "awk_script = ''NF && $1 !~ /^#/ { key=$1; sub(/=$/, '' @ [CHR 0x22, CHR 0x22] @ '', key); if (key == name) { '' @
     ''sub(/^[[:space:]]*[^[:space:]=]+[[:space:]]*=?[[:space:]]*/, '' @ [CHR 0x22, CHR 0x22] @
     ''); print; found=1; exit } } END { if (!found) exit 1 }''"

definition quoted :: "string \<Rightarrow> string" where
  "quoted s = [CHR 0x22] @ s @ [CHR 0x22]"

definition single_quoted :: "string \<Rightarrow> string" where
  "single_quoted s = [CHR 0x27] @ s @ [CHR 0x27]"

definition wrapper_text :: string where
  "wrapper_text = unlines [''#!/bin/sh'', ''set -eu'', ''mode='' @ quoted ''$1'', ''instance='' @ quoted ''$2'',
     ''config_dir='' @ single_quoted (show_path udp2raw_config_dir), ''config='' @ quoted ''$config_dir/$mode'',
     ''line=$(awk -v name='' @ quoted ''$instance'' @ '' '' @ single_quoted awk_script @ '' '' @ quoted ''$config'' @ '')'',
     ''eval '' @ quoted ''set -- $line'',
     ''exec '' @ single_quoted (show_path udp2raw_bin) @ '' '' @ quoted ''$@'']"

definition write_wrapper :: "unit io" where
  "write_wrapper = atomic_write_text udp2raw_libexec wrapper_text 448"

definition unit_text :: "string \<Rightarrow> string" where
  "unit_text mode = unlines [''[Unit]'', ''Description=Link42 udp2raw '' @ mode @ '' instance %i'', ''After=network.target'',
     ''Wants=network.target'', [], ''[Service]'', ''Type=simple'',
     ''ExecStart='' @ show_path udp2raw_libexec @ '' '' @ mode @ '' %i'', ''User=root'', ''Group=root'',
     ''Restart=on-failure'', ''RestartSec=5s'', [], ''[Install]'', ''WantedBy=multi-user.target'']"

definition write_units :: "agent_env \<Rightarrow> unit io" where
  "write_units ae = dbind (atomic_write_text (unit_path ae ''server'') (unit_text ''server'') 420) (\<lambda>_.
     atomic_write_text (unit_path ae ''client'') (unit_text ''client'') 420)"

definition openwrt_init_text :: "string \<Rightarrow> string \<Rightarrow> string" where
  "openwrt_init_text mode i = unlines [''#!/bin/sh /etc/rc.common'', [], ''START=95'', ''STOP=10'', ''USE_PROCD=1'', [],
     ''MODE='' @ single_quoted mode, ''INSTANCE='' @ single_quoted i,
     ''CONFIG='' @ single_quoted (show_path (config_file_for_mode mode)),
     ''UDP2RAW_BIN='' @ single_quoted (show_path udp2raw_bin), [], ''start_service() {'',
     ''  procd_open_instance '' @ quoted ''$MODE-$INSTANCE'',
     ''  procd_set_param command /bin/sh -c '' @ [CHR 0x27] @ ''set -eu'',
     ''bin='' @ quoted ''$3'',
     ''line=$(awk -v name='' @ quoted ''$1'' @ '' '' @ single_quoted (quoted (single_quoted (quoted
        (single_quoted awk_script)))) @ '' '' @ quoted ''$2'' @ '')'',
     ''eval '' @ quoted ''set -- $line'',
     ''exec '' @ quoted ''$bin'' @ '' '' @ quoted ''$@'' @ [CHR 0x27] @ '' -- '' @ quoted ''$INSTANCE'' @ '' '' @
       quoted ''$CONFIG'' @ '' '' @ quoted ''$UDP2RAW_BIN'',
     ''  procd_set_param respawn 10 5 5'', ''  procd_set_param stdout 1'', ''  procd_set_param stderr 1'',
     ''  procd_close_instance'', ''}'', [], ''stop_service() {'', ''  return 0'', ''}'', [], ''reload_service() {'',
     ''  stop'', ''  start'', ''}'', [], ''status_service() {'',
     ''  if service_running '' @ quoted ''$MODE-$INSTANCE'' @ ''; then'', ''    echo '' @ quoted ''running'', ''    return 0'',
     ''  fi'', ''  echo '' @ quoted ''inactive'', ''  return 3'', ''}'']"

definition write_openwrt_init :: "agent_env \<Rightarrow> string \<Rightarrow> string \<Rightarrow> unit io" where
  "write_openwrt_init ae mode i = dbind (lift_error (init_path ae mode i)) (\<lambda>p.
     atomic_write_text p (openwrt_init_text mode i) 493)"

section \<open>Services\<close>

definition openwrt :: "agent_env \<Rightarrow> bool" where
  "openwrt ae = (ae_backend ae = ''openwrt-procd'')"

definition init_command :: "agent_env \<Rightarrow> string \<Rightarrow> string \<Rightarrow> string \<Rightarrow> (string, string list) result" where
  "init_command ae mode i action = rbind (init_path ae mode i) (\<lambda>p. Inr [show_path p, action])"

definition service_command :: "agent_env \<Rightarrow> string \<Rightarrow> string \<Rightarrow> string \<Rightarrow> (string, string list) result" where
  "service_command ae mode i action = (if openwrt ae then init_command ae mode i action
     else rbind (unit_name ae mode i) (\<lambda>u. Inr [''systemctl'', action, u]))"

text \<open>\<open>rstrip(".")\<close> takes all the dots.\<close>

definition normalize_openwrt_result :: "command_report \<Rightarrow> command_report" where
  "normalize_openwrt_result r =
     (if rp_returncode r = 0 \<and> rev (dropWhile (\<lambda>c. c = CHR ''.'') (rev (strip (rp_stderr r)))) = ''Command failed: Not found''
      then r\<lparr>rp_stderr := []\<rparr> else r)"

definition run_init_command :: "agent_env \<Rightarrow> string \<Rightarrow> string \<Rightarrow> bool \<Rightarrow> string \<Rightarrow> command_report io" where
  "run_init_command ae mode i allow action = dbind (lift_error (init_command ae mode i action)) (\<lambda>c.
     dbind (run_command ae c allow) (\<lambda>r. dreturn (normalize_openwrt_result r)))"

definition run_unit_command :: "agent_env \<Rightarrow> string \<Rightarrow> string \<Rightarrow> bool \<Rightarrow> string list \<Rightarrow> command_report io" where
  "run_unit_command ae mode i allow args = dbind (lift_error (unit_name ae mode i)) (\<lambda>u.
     run_command ae (''systemctl'' # args @ [u]) allow)"

definition daemon_reload :: "agent_env \<Rightarrow> bool \<Rightarrow> command_report io" where
  "daemon_reload ae allow = run_command ae [''systemctl'', ''daemon-reload''] allow"

definition apply_service :: "agent_env \<Rightarrow> string \<Rightarrow> string \<Rightarrow> command_report list io" where
  "apply_service ae mode i =
     (if openwrt ae then dbind (write_openwrt_init ae mode i) (\<lambda>_.
        dmap (run_init_command ae mode i False) [''enable'', ''restart''])
      else dbind (daemon_reload ae False) (\<lambda>r.
        dbind (dmap (\<lambda>action. run_unit_command ae mode i False [action]) [''enable'', ''restart'']) (\<lambda>rs. dreturn (r # rs))))"

text \<open>On OpenWrt both commands run before the first failure is raised.\<close>

definition delete_service :: "agent_env \<Rightarrow> string \<Rightarrow> string \<Rightarrow> command_report list io" where
  "delete_service ae mode i =
     (if openwrt ae then dbind (dmap (run_init_command ae mode i True) [''stop'', ''disable'']) (\<lambda>rs.
        case first_of (filter (\<lambda>r. rp_returncode r \<noteq> 0) rs) of
          None \<Rightarrow> dreturn rs | Some r \<Rightarrow> draise (command_failure_message r))
      else dbind (run_unit_command ae mode i True [''disable'', ''--now'']) (\<lambda>r.
        dbind (ensure_success r) (\<lambda>_. dreturn [r])))"

definition reload_services :: "agent_env \<Rightarrow> command_report list io" where
  "reload_services ae = (if ae_backend ae = ''systemd'' then dbind (daemon_reload ae False) (\<lambda>r. dreturn [r]) else dreturn [])"

definition service_status :: "agent_env \<Rightarrow> string \<Rightarrow> string \<Rightarrow> command_report io" where
  "service_status ae mode i = (if openwrt ae then run_init_command ae mode i True ''status''
     else run_unit_command ae mode i True [''is-active''])"

text \<open>The role of a task, or the roles whose files have the instance, or both.\<close>

definition payload_modes :: "fields \<Rightarrow> string list io" where
  "payload_modes p =
     (if truthy (dget p ''mode'') then dbind (lift_error (validate_mode (py_str (dget p ''mode'')))) (\<lambda>m. dreturn [m])
      else dbind (lift_error (middleware_instance_name p)) (\<lambda>i.
        dbind (instance_exists (config_file_for_mode ''server'') i) (\<lambda>s.
        dbind (instance_exists (config_file_for_mode ''client'') i) (\<lambda>c.
          dreturn (if \<not> s \<and> \<not> c then [''server'', ''client'']
            else (if s then [''server''] else []) @ (if c then [''client''] else []))))))"

section \<open>Operations\<close>

definition ensure_udp2raw_layout :: "unit io" where
  "ensure_udp2raw_layout = dbind (dmap (\<lambda>mode. let p = config_file_for_mode mode in
     dbind (file_exists p) (\<lambda>b. if b then dreturn () else atomic_write_text p [] 384)) [''server'', ''client'']) (\<lambda>_. dreturn ())"

text \<open>The service is restarted with the old file; whatever happens then is ignored.\<close>

definition revive_service :: "agent_env \<Rightarrow> string \<Rightarrow> string \<Rightarrow> unit io" where
  "revive_service ae mode i = dignore (if openwrt ae then dbind (lift_error (init_command ae mode i ''restart'')) (\<lambda>c. run_command ae c True)
     else dbind (daemon_reload ae True) (\<lambda>_. run_unit_command ae mode i True [''restart'']))"

definition reports_json :: "command_report list \<Rightarrow> json" where
  "reports_json rs = JList (map report_json rs)"

definition apply_udp2raw :: "agent_env \<Rightarrow> bool \<Rightarrow> fields \<Rightarrow> fields io" where
  "apply_udp2raw ae dry_run p =
     dbind (lift_error (build_udp2raw_args p)) (\<lambda>args.
     dbind (lift_error (rbind (required ''mode'' p) (\<lambda>v. validate_mode (py_str v)))) (\<lambda>mode.
     dbind (lift_error (middleware_instance_name p)) (\<lambda>i.
     let f = config_file_for_mode mode in
     if dry_run then dreturn [(''changed'', JBool False), (''dry_run'', JBool True), (''args'', JStr args),
       (''config_file'', JStr (show_path f))]
     else
       dbind ensure_udp2raw_layout (\<lambda>_.
       dbind (read_if_exists f) (\<lambda>old_config.
       dbind (upsert_instance f i args) (\<lambda>_.
       dbind (dexcept (apply_service ae mode i)
           (dbind (restore_text f old_config 384) (\<lambda>_. revive_service ae mode i))) (\<lambda>commands.
       dreturn [(''changed'', JBool True), (''mode'', JStr mode), (''instance'', JStr i),
         (''config_file'', JStr (show_path f)), (''commands'', reports_json commands)])))))))"

definition service_action :: "agent_env \<Rightarrow> bool \<Rightarrow> string \<Rightarrow> fields \<Rightarrow> fields io" where
  "service_action ae dry_run action p =
     dbind (lift_error (middleware_instance_name p)) (\<lambda>i.
     dbind (payload_modes p) (\<lambda>modes.
     dbind (dmap (\<lambda>mode. dbind (lift_error (service_command ae mode i action)) (\<lambda>c.
         if dry_run then dreturn (False, JObj [(''command'', JList (map JStr c)), (''dry_run'', JBool True)])
         else dbind (run_command ae c True) (\<lambda>r. let r1 = (if openwrt ae then normalize_openwrt_result r else r) in
           dreturn (rp_returncode r1 = 0, report_json r1)))) modes) (\<lambda>rs.
     dreturn [(''changed'', JBool (list_ex fst rs)), (''instance'', JStr i), (''modes'', JList (map JStr modes)),
       (''commands'', JList (map snd rs))])))"

definition start_udp2raw :: "agent_env \<Rightarrow> bool \<Rightarrow> fields \<Rightarrow> fields io" where
  "start_udp2raw ae dry_run p = service_action ae dry_run ''start'' p"

definition stop_udp2raw :: "agent_env \<Rightarrow> bool \<Rightarrow> fields \<Rightarrow> fields io" where
  "stop_udp2raw ae dry_run p = service_action ae dry_run ''stop'' p"

definition delete_udp2raw :: "agent_env \<Rightarrow> bool \<Rightarrow> fields \<Rightarrow> fields io" where
  "delete_udp2raw ae dry_run p =
     dbind (lift_error (middleware_instance_name p)) (\<lambda>i.
     dbind (payload_modes p) (\<lambda>modes.
     if dry_run then dreturn [(''changed'', JBool False), (''dry_run'', JBool True), (''instance'', JStr i),
       (''modes'', JList (map JStr modes))]
     else
       dbind (dmap (\<lambda>mode. delete_service ae mode i) modes) (\<lambda>rs.
       dbind (dmap (\<lambda>mode. dbind (remove_instance (config_file_for_mode mode) i) (\<lambda>_.
           if openwrt ae then dbind (lift_error (init_path ae mode i)) remove_file else dreturn ())) modes) (\<lambda>_.
       dbind (reload_services ae) (\<lambda>r.
       dreturn [(''changed'', JBool True), (''instance'', JStr i), (''modes'', JList (map JStr modes)),
         (''commands'', reports_json (concat rs @ r))])))))"

definition status_udp2raw :: "agent_env \<Rightarrow> fields \<Rightarrow> fields io" where
  "status_udp2raw ae p =
     dbind (lift_error (middleware_instance_name p)) (\<lambda>i.
     dbind (payload_modes p) (\<lambda>modes.
       dmap (\<lambda>mode. dbind (service_status ae mode i) (\<lambda>r. dreturn (mode, report_json r))) modes))"

section \<open>Reading a command line back\<close>

definition split_host_port :: "string \<Rightarrow> (string, string \<times> int) result" where
  "split_host_port value =
     (case (if starts_with value ''['' \<and> has_sub '']:'' value then rsplit_sub '']:'' (tl value) else rsplit_sub '':'' value) of
        None \<Rightarrow> Inl ''not enough values to unpack''
      | Some (host, port) \<Rightarrow> (case py_int port of None \<Rightarrow> Inl ''invalid integer'' | Some n \<Rightarrow> Inr (host, n)))"

text \<open>The fields of the tokens, in order; the value of a mode is the token behind it.\<close>

fun parse_tokens :: "string list \<Rightarrow> fields \<Rightarrow> (string, fields) result" where
  "parse_tokens [] p = Inr p"
| "parse_tokens (t # ts) p =
     (if starts_with t ''-l'' then rbind (split_host_port (drop 2 t)) (\<lambda>(h, n).
        parse_tokens ts (dset ''listen_port'' (JInt n) (dset ''listen_host'' (JStr h) p)))
      else if starts_with t ''-r'' then rbind (split_host_port (drop 2 t)) (\<lambda>(h, n).
        parse_tokens ts (dset ''remote_port'' (JInt n) (dset ''remote_host'' (JStr h) p)))
      else if t \<in> {''--raw-mode'', ''--cipher-mode'', ''--auth-mode''} then
        (case ts of [] \<Rightarrow> Inr p | v # vs \<Rightarrow> parse_tokens vs
          (dset (if t = ''--raw-mode'' then ''raw_mode'' else if t = ''--cipher-mode'' then ''cipher_mode'' else ''auth_mode'') (JStr v) p))
      else parse_tokens ts p)"

definition parse_udp2raw_args :: "string \<Rightarrow> string \<Rightarrow> string \<Rightarrow> (string, fields) result" where
  "parse_udp2raw_args mode i args = parse_tokens (split_words args)
     [(''mode'', JStr mode), (''instance'', JStr i), (''auto_rule'', JBool (has_sub ''-a'' args \<or> has_sub ''--keep-rule'' args))]"

definition payload_from_config :: "string \<Rightarrow> string \<Rightarrow> fields option io" where
  "payload_from_config mode i = dbind (lift_error (validate_mode mode)) (\<lambda>mode.
     dbind (instance_args_from_config (config_file_for_mode mode) i) (\<lambda>args.
       if the_or [] args = [] then dreturn None
       else dbind (lift_error (parse_udp2raw_args mode i (the_or [] args))) (\<lambda>p. dreturn (Some p))))"

section \<open>Installation\<close>

text \<open>The machine, the answer of the controller to the request for an asset, and the SHA-256 of its
  body.\<close>

record asset_answer =
  an_sha :: "string option"
  an_length :: "string option"
  an_body :: string

record udp2raw_host =
  uh_machine :: string
  uh_cpuinfo :: "string option"
  uh_little_endian :: bool
  uh_fetch :: "string \<Rightarrow> (string, asset_answer) result"
  uh_sha256 :: "string \<Rightarrow> string"

definition cpu_has_aes :: "udp2raw_host \<Rightarrow> bool" where
  "cpu_has_aes h = (case uh_cpuinfo h of None \<Rightarrow> False | Some t \<Rightarrow> has_sub '' aes '' ('' '' @ lower t @ '' ''))"

definition detect_udp2raw_asset :: "udp2raw_host \<Rightarrow> (string, string) result" where
  "detect_udp2raw_asset h = (let machine = lower (uh_machine h) in
     if machine \<in> {''x86_64'', ''amd64''} then Inr (if cpu_has_aes h then ''udp2raw_amd64_hw_aes'' else ''udp2raw_amd64'')
     else if machine \<in> {''i386'', ''i486'', ''i586'', ''i686''}
       then Inr (if cpu_has_aes h then ''udp2raw_x86_asm_aes'' else ''udp2raw_x86'')
     else if machine \<in> {''aarch64'', ''arm64''} \<or> starts_with machine ''arm'' then Inr ''udp2raw_arm''
     else if starts_with machine ''mips'' then Inr (if uh_little_endian h then ''udp2raw_mips24kc_le'' else ''udp2raw_mips24kc_be'')
     else Inl (''unsupported udp2raw architecture: '' @ machine))"

definition max_udp2raw_asset_bytes :: int where "max_udp2raw_asset_bytes = 512 * 1024 * 1024"

definition is_sha256_text :: "string \<Rightarrow> bool" where
  "is_sha256_text s = (length s = 64 \<and> list_all (\<lambda>c. is_dec c \<or> (97 \<le> code c \<and> code c \<le> 102)) s)"

definition advertised_size :: "asset_answer \<Rightarrow> (string, int option) result" where
  "advertised_size an = (case an_length an of None \<Rightarrow> Inr None | Some t \<Rightarrow> (case py_int t of
      None \<Rightarrow> Inl ''invalid udp2raw asset Content-Length''
    | Some n \<Rightarrow> if n < 0 \<or> max_udp2raw_asset_bytes < n then Inl ''udp2raw asset is too large'' else Inr (Some n)))"

definition checked_asset :: "udp2raw_host \<Rightarrow> asset_answer \<Rightarrow> (string, string) result" where
  "checked_asset h an =
     (let expected = lower (strip (the_or [] (an_sha an))); body = an_body an in
      if \<not> is_sha256_text expected then Inl ''udp2raw asset response is missing a valid SHA-256''
      else rbind (advertised_size an) (\<lambda>size.
        if max_udp2raw_asset_bytes < int (length body) then Inl ''udp2raw asset is too large''
        else if size \<noteq> None \<and> size \<noteq> Some (int (length body)) then Inl ''udp2raw asset Content-Length mismatch''
        else if uh_sha256 h body \<noteq> expected then Inl ''udp2raw asset sha256 mismatch''
        else Inr body))"

definition download_asset :: "udp2raw_host \<Rightarrow> string \<Rightarrow> path \<Rightarrow> unit io" where
  "download_asset h asset target = dbind (lift_error (rbind (uh_fetch h asset) (checked_asset h))) (\<lambda>body.
     atomic_write_bytes target body 384)"

definition set_mode :: "path \<Rightarrow> int \<Rightarrow> unit io" where
  "set_mode p mode d = (case dk_files d p of None \<Rightarrow> (Inl ''no such file'', d)
     | Some f \<Rightarrow> (Inr (), put_file p (f\<lparr>fl_mode := mode\<rparr>) d))"

text \<open>A backup is a copy of the file, or the knowledge that there was none; a copy back that fails
  half-way is ignored.\<close>

definition copy_back :: "path \<Rightarrow> disk_file \<Rightarrow> unit io" where
  "copy_back p f d = (case next_fault d of
      (None, d1) \<Rightarrow> (Inr (), put_file p f d1)
    | (Some n, d1) \<Rightarrow> (Inl ''write failed'', put_file p (f\<lparr>fl_content := take n (fl_content f)\<rparr>) d1))"

fun restore_files :: "(path \<times> disk_file option) list \<Rightarrow> unit io" where
  "restore_files [] = dreturn ()"
| "restore_files ((p, old) # bs) = dbind (dignore (case old of None \<Rightarrow> remove_file p | Some f \<Rightarrow> copy_back p f)) (\<lambda>_. restore_files bs)"

definition install_touched :: "agent_env \<Rightarrow> path list" where
  "install_touched ae = udp2raw_bin # (if ae_backend ae = ''systemd''
     then [udp2raw_libexec, unit_path ae ''server'', unit_path ae ''client''] else [])"

definition install_steps :: "agent_env \<Rightarrow> udp2raw_host \<Rightarrow> string \<Rightarrow> command_report list io" where
  "install_steps ae h asset = dbind (download_asset h asset udp2raw_bin) (\<lambda>_. dbind (set_mode udp2raw_bin 493) (\<lambda>_.
     dbind (if ae_backend ae = ''systemd'' then dbind write_wrapper (\<lambda>_. write_units ae) else dreturn ()) (\<lambda>_.
       reload_services ae)))"

definition install_udp2raw :: "agent_env \<Rightarrow> udp2raw_host \<Rightarrow> bool \<Rightarrow> fields io" where
  "install_udp2raw ae h dry_run =
     (if ae_backend ae \<notin> {''systemd'', ''openwrt-procd''}
      then draise ''udp2raw middleware requires systemd or OpenWrt procd''
      else dbind (lift_error (detect_udp2raw_asset h)) (\<lambda>asset.
        if dry_run then dreturn [(''changed'', JBool False), (''dry_run'', JBool True), (''asset'', JStr asset),
          (''backend'', JStr (ae_backend ae))]
        else dbind ensure_udp2raw_layout (\<lambda>_ d.
          let backups = map (\<lambda>p. (p, dk_files d p)) (install_touched ae) in
          dbind (dexcept (install_steps ae h asset) (restore_files backups)) (\<lambda>r.
            dreturn [(''changed'', JBool True), (''asset'', JStr asset), (''binary'', JStr (show_path udp2raw_bin)),
              (''backend'', JStr (ae_backend ae)), (''service_reload'', reports_json r)]) d)))"

end
