(* ===== verification/UdpLaws.thy ===== *)
theory UdpLaws
  imports Udp2raw
begin

text \<open>
  The instance file of udp2raw is a map: looking up a name after writing, replacing and removing
  lines gives what the map of the same orders gives. Applying an instance changes that entry
  alone, and leaves the file as it was when the service does not start.
\<close>

section \<open>Lines\<close>

lemma rstrip_space: "is_space c \<Longrightarrow> rstrip (s @ [c]) = rstrip s"
  by (simp add: rstrip_def)

lemma rstrip_end: "\<not> is_space c \<Longrightarrow> rstrip (s @ [c]) = s @ [c]"
  by (simp add: rstrip_def)

lemma lf_space: "is_space (CHR 0x0A)"
  by (simp add: is_space_def)

definition no_break :: "string \<Rightarrow> bool" where
  "no_break s = list_all (\<lambda>c. \<not> is_break c) s"

text \<open>A line without white space at its end.\<close>

definition clean_line :: "string \<Rightarrow> bool" where
  "clean_line l = (l = [] \<or> \<not> is_space (last l))"

definition drop_blank_end :: "string list \<Rightarrow> string list" where
  "drop_blank_end ls = rev (dropWhile (\<lambda>l. l = []) (rev ls))"

lemma rstrip_join:
  assumes "list_all clean_line ls"
  shows "rstrip (join [CHR 0x0A] ls) = join [CHR 0x0A] (drop_blank_end ls)"
  using assms
proof (induction ls rule: rev_induct)
  case (snoc l ls)
  show ?case
  proof (cases "l = []")
    case True
    then show ?thesis using snoc rstrip_space [OF lf_space]
      by (cases "ls = []") (simp_all add: join_snoc drop_blank_end_def rstrip_def)
  next
    case False
    then obtain k c where l: "l = k @ [c]" by (metis rev_exhaust)
    then have "\<not> is_space c" using snoc.prems False by (simp add: clean_line_def)
    then show ?thesis using rstrip_end [of c "join [CHR 0x0A] ls @ [CHR 0x0A] @ k"] rstrip_end [of c k]
      by (simp add: join_snoc drop_blank_end_def l)
  qed
qed (simp add: drop_blank_end_def rstrip_def)

lemma split_lines_lf: "split_lines [CHR 0x0A] = [[]]"
  by (simp add: is_break_def)

lemma split_lines_no_break: "list_all no_break (split_lines s)"
proof (induction s rule: split_lines.induct)
  case (2 c cs)
  then show ?case by (auto simp: no_break_def split: list.splits)
qed simp

lemma split_joined:
  assumes "list_all no_break ls"
  shows "split_lines (join [CHR 0x0A] ls @ [CHR 0x0A]) = (if ls = [] then [[]] else ls)"
  using assms split_lines_join [of ls] split_lines_lf by (auto simp: no_break_def [abs_def])

section \<open>Entries\<close>

definition line_entry :: "string \<Rightarrow> string \<Rightarrow> string list" where
  "line_entry i line = (if line_key line = i then (case line_rest line of None \<Rightarrow> [] | Some r \<Rightarrow> [r]) else [])"

definition lines_args :: "string list \<Rightarrow> string \<Rightarrow> string option" where
  "lines_args ls i = first_of (concat (map (line_entry i) ls))"

lemma instance_args_lines: "instance_args t i = lines_args (split_lines t) i"
  by (simp add: instance_args_def lines_args_def line_entry_def [abs_def])

lemma first_of_append: "first_of (xs @ ys) = (case first_of xs of Some x \<Rightarrow> Some x | None \<Rightarrow> first_of ys)"
  by (cases xs) auto

lemma lines_args_append:
  "lines_args (ls @ ks) i = (case lines_args ls i of Some a \<Rightarrow> Some a | None \<Rightarrow> lines_args ks i)"
  unfolding lines_args_def map_append concat_append first_of_append ..

lemma entry_other: "line_key l \<noteq> k \<Longrightarrow> line_entry k l = []"
  by (simp add: line_entry_def)

lemma lines_args_filter:
  "lines_args (filter (\<lambda>l. line_key l \<noteq> i) ls) k = (if k = i then None else lines_args ls k)"
proof -
  have "concat (map (line_entry k) (filter (\<lambda>l. line_key l \<noteq> i) ls)) = (if k = i then [] else concat (map (line_entry k) ls))"
    by (induction ls) (auto simp: entry_other)
  then show ?thesis by (simp add: lines_args_def)
qed

lemma blank_entry: "line_entry i [] = []"
  by (simp add: line_entry_def line_rest_def)

lemma lines_args_blank_end: "lines_args (drop_blank_end ls) i = lines_args ls i"
proof (induction ls rule: rev_induct)
  case (snoc l ls)
  have "lines_args [[]] i = None" by (simp add: lines_args_def blank_entry)
  then show ?case using snoc
    by (cases "l = []") (simp_all add: drop_blank_end_def lines_args_append split: option.split)
qed (simp add: drop_blank_end_def)

text \<open>The names and command lines that the orders carry.\<close>

definition instance_ok :: "string \<Rightarrow> bool" where
  "instance_ok i = checked_name instance_char 63 i"

definition args_ok :: "string \<Rightarrow> bool" where
  "args_ok a = (a \<noteq> [] \<and> trimmed a \<and> no_break a)"

lemma ascii_not_space:
  assumes "32 < code c \<and> code c < 127"
  shows "\<not> is_space c" "\<not> is_break c"
proof -
  let ?cs = "[CHR 0x20, CHR 0x09, CHR 0x0A, CHR 0x0B, CHR 0x0C, CHR 0x0D, CHR 0x1C, CHR 0x1D, CHR 0x1E, CHR 0x1F, CHR 0x85, CHR 0xA0]"
  let ?bs = "[CHR 0x0A, CHR 0x0B, CHR 0x0C, CHR 0x0D, CHR 0x1C, CHR 0x1D, CHR 0x1E, CHR 0x85]"
  have l: "list_all (\<lambda>d. \<not> (32 < code d \<and> code d < 127)) ?cs" "list_all (\<lambda>d. \<not> (32 < code d \<and> code d < 127)) ?bs"
    by code_simp+
  have s: "is_space c \<Longrightarrow> c \<in> set ?cs" "is_break c \<Longrightarrow> c \<in> set ?bs"
    unfolding is_space_def is_break_def list.set by assumption+
  show "\<not> is_space c" using l(1) assms s(1) unfolding list_all_iff by blast
  show "\<not> is_break c" using l(2) assms s(2) unfolding list_all_iff by blast
qed

lemma instance_visible:
  assumes "instance_ok i"
  shows "i \<noteq> []" "list_all (\<lambda>c. \<not> is_space c) i" "no_break i" "\<not> ends_with i ''=''"
proof -
  have v: "list_all (\<lambda>c. 32 < code c \<and> code c < 127) i" using checked_name_ascii assms unfolding instance_ok_def by blast
  show "i \<noteq> []" using assms by (simp add: instance_ok_def checked_name_def)
  show "list_all (\<lambda>c. \<not> is_space c) i" "no_break i" using v ascii_not_space by (auto simp: list_all_iff no_break_def)
  have "\<not> instance_char (CHR ''='')" by code_simp
  then have "CHR ''='' \<notin> set i" using assms by (auto simp: instance_ok_def checked_name_def list_all_iff)
  then show "\<not> ends_with i ''=''" using \<open>i \<noteq> []\<close>
    by (cases i rule: rev_cases) (auto simp: ends_with_def starts_with_def)
qed

lemma entry_line:
  assumes "instance_ok i" "args_ok a"
  shows "line_key (i @ '' '' @ a) = i" "line_rest (i @ '' '' @ a) = Some a"
    "no_break (i @ '' '' @ a)" "clean_line (i @ '' '' @ a)"
proof -
  note v = instance_visible [OF assms(1)]
  have sp: "is_space (CHR '' '')" by (simp add: is_space_def)
  have nb: "\<not> is_break (CHR '' '')" by (simp add: is_break_def)
  have ns: "\<And>c. c \<in> set i \<Longrightarrow> \<not> is_space c" using v(2) by (simp add: list_all_iff)
  obtain c k where i: "i = c # k" using v(1) by (cases i) auto
  have a: "a \<noteq> []" "\<not> is_space (hd a)" "\<not> is_space (last a)" using assms(2) by (auto simp: args_ok_def trimmed_def)
  have d: "dropWhile is_space (i @ '' '' @ a) = i @ '' '' @ a" using ns i by simp
  have t: "takeWhile (\<lambda>c. \<not> is_space c) (k @ '' '' @ a) = k" using ns i sp by (simp add: takeWhile_append2)
  have r: "dropWhile (\<lambda>c. \<not> is_space c) (i @ '' '' @ a) = CHR '' '' # a" using ns sp by (simp add: dropWhile_append2)
  show "line_key (i @ '' '' @ a) = i"
    unfolding line_key_def split_words.simps [of "i @ '' '' @ a"] d using t i v(4) by (simp add: drop_equals_def)
  show "line_rest (i @ '' '' @ a) = Some a"
    unfolding line_rest_def d r using sp a(1,2) by (simp add: dropWhile_id)
  show "no_break (i @ '' '' @ a)" using v(3) assms(2) nb by (simp add: no_break_def args_ok_def)
  show "clean_line (i @ '' '' @ a)" using a by (simp add: clean_line_def)
qed

section \<open>The file as a map\<close>

text \<open>A store of named texts, empty or not: what is read after writing and after removing, on the
  states that are well-formed.\<close>

locale named_store =
  fixes look :: "'s \<Rightarrow> string \<Rightarrow> string option"
    and put :: "string \<Rightarrow> string \<Rightarrow> 's \<Rightarrow> 's"
    and remove :: "string \<Rightarrow> 's \<Rightarrow> 's"
    and start :: 's
    and good :: "'s \<Rightarrow> bool"
    and name_ok :: "string \<Rightarrow> bool"
    and value_ok :: "string \<Rightarrow> bool"
  assumes start_good: "good start" and start_empty: "look start = Map.empty"
    and put_good: "good s \<Longrightarrow> name_ok i \<Longrightarrow> value_ok a \<Longrightarrow> good (put i a s)"
    and put_look: "good s \<Longrightarrow> name_ok i \<Longrightarrow> value_ok a \<Longrightarrow> look (put i a s) = (look s)(i \<mapsto> a)"
    and remove_good: "good s \<Longrightarrow> name_ok i \<Longrightarrow> good (remove i s)"
    and remove_look: "good s \<Longrightarrow> name_ok i \<Longrightarrow> look (remove i s) = (look s)(i := None)"
begin

definition order :: "string \<times> string option \<Rightarrow> 's \<Rightarrow> 's" where
  "order x s = (case x of (i, Some a) \<Rightarrow> put i a s | (i, None) \<Rightarrow> remove i s)"

definition order_ok :: "string \<times> string option \<Rightarrow> bool" where
  "order_ok x = (name_ok (fst x) \<and> (case snd x of None \<Rightarrow> True | Some a \<Rightarrow> value_ok a))"

lemma order_step:
  assumes "good s" "order_ok x"
  shows "good (order x s) \<and> look (order x s) = (look s)(fst x := snd x)"
  using assms by (cases x; cases "snd x")
    (auto simp: order_def order_ok_def put_good put_look remove_good remove_look)

lemma history:
  assumes "list_all order_ok xs" "good s"
  shows "good (fold order xs s) \<and> look (fold order xs s) = fold (\<lambda>x m. m(fst x := snd x)) xs (look s)"
  using assms
proof (induction xs arbitrary: s)
  case (Cons x xs)
  have step: "good (order x s)" "look (order x s) = (look s)(fst x := snd x)"
    using order_step [of s x] Cons.prems by simp_all
  show ?case using Cons.IH [of "order x s"] Cons.prems step by simp
qed simp

end

text \<open>The content of an instance file, \<open>None\<close> when there is none, and the well-formed ones: no
  line ends with white space.\<close>

definition look_file :: "string option \<Rightarrow> string \<Rightarrow> string option" where
  "look_file t i = (case t of None \<Rightarrow> None | Some t \<Rightarrow> instance_args t i)"

definition put_line :: "string \<Rightarrow> string \<Rightarrow> string option \<Rightarrow> string option" where
  "put_line i a t = Some (upsert_text i a (the_or [] t))"

definition remove_line :: "string \<Rightarrow> string option \<Rightarrow> string option" where
  "remove_line i t = (case t of None \<Rightarrow> None | Some t \<Rightarrow> remove_text i t)"

definition clean_file :: "string option \<Rightarrow> bool" where
  "clean_file t = (case t of None \<Rightarrow> True | Some t \<Rightarrow> list_all clean_line (split_lines t))"

lemma other_lines_ok:
  "list_all no_break (other_lines i t)" "list_all clean_line (split_lines t) \<Longrightarrow> list_all clean_line (other_lines i t)"
  using split_lines_no_break [of t] by (auto simp: other_lines_def list_all_iff)

lemma upsert_lines:
  assumes "instance_ok i" "args_ok a"
  shows "split_lines (upsert_text i a t) = other_lines i t @ [i @ '' '' @ a]"
proof -
  let ?l = "i @ '' '' @ a"
  note l = entry_line [OF assms]
  have ne: "?l \<noteq> []" using instance_visible(1) [OF assms(1)] by simp
  then obtain k c where kc: "?l = k @ [c]" by (metis rev_exhaust)
  then have "last ?l = c" by (metis last_snoc)
  then have c: "\<not> is_space c" using l(4) ne unfolding clean_line_def by blast
  have "rstrip (join [CHR 0x0A] (other_lines i t @ [?l])) = join [CHR 0x0A] (other_lines i t @ [?l])"
    using rstrip_end [OF c, of k] rstrip_end [OF c, of "join [CHR 0x0A] (other_lines i t) @ [CHR 0x0A] @ k"]
    unfolding join_snoc kc by simp
  then show ?thesis
    using split_joined [of "other_lines i t @ [?l]"] other_lines_ok(1) [of i t] l(3)
    by (simp add: upsert_text_def lines_text_def)
qed

lemma upsert_args:
  assumes "instance_ok i" "args_ok a"
  shows "instance_args (upsert_text i a t) = (instance_args t)(i \<mapsto> a)"
proof
  fix k
  have last: "lines_args [i @ '' '' @ a] k = (if k = i then Some a else None)"
    using entry_line(1,2) [OF assms] by (simp add: lines_args_def line_entry_def)
  show "instance_args (upsert_text i a t) k = ((instance_args t)(i \<mapsto> a)) k"
    unfolding instance_args_lines upsert_lines [OF assms] lines_args_append last other_lines_def lines_args_filter
    by (simp split: option.split)
qed

lemma lines_text_args:
  assumes "list_all no_break ls" "list_all clean_line ls"
  shows "instance_args (lines_text ls) i = lines_args ls i" "list_all clean_line (split_lines (lines_text ls))"
proof -
  have sub: "set (drop_blank_end ls) \<subseteq> set ls" by (auto simp: drop_blank_end_def dest: set_dropWhileD)
  then have n: "list_all no_break (drop_blank_end ls)" using assms(1) by (auto simp: list_all_iff)
  have s: "split_lines (lines_text ls) = (if drop_blank_end ls = [] then [[]] else drop_blank_end ls)"
    unfolding lines_text_def rstrip_join [OF assms(2)] using split_joined [OF n] by simp
  have "lines_args [[]] i = None" by (simp add: lines_args_def blank_entry)
  then show "instance_args (lines_text ls) i = lines_args ls i"
    using lines_args_blank_end [of ls i] unfolding instance_args_lines s by (auto simp: lines_args_def)
  show "list_all clean_line (split_lines (lines_text ls))"
    unfolding s using sub assms(2) by (auto simp: list_all_iff clean_line_def)
qed

interpretation instances: named_store look_file put_line remove_line None clean_file instance_ok args_ok
proof
  show "clean_file None" "look_file None = Map.empty" by (simp_all add: clean_file_def look_file_def fun_eq_iff)
next
  fix t i a assume g: "clean_file t" and i: "instance_ok i" and a: "args_ok a"
  have c: "list_all clean_line (other_lines i (the_or [] t))"
    using other_lines_ok(2) g by (cases t) (auto simp: clean_file_def)
  show "clean_file (put_line i a t)"
    using c entry_line(4) [OF i a] by (simp add: clean_file_def put_line_def upsert_lines [OF i a])
  show "look_file (put_line i a t) = (look_file t)(i \<mapsto> a)"
    using upsert_args [OF i a] by (cases t) (auto simp: look_file_def put_line_def instance_args_def)
next
  fix t i assume g: "clean_file t" and i: "instance_ok i"
  have l: "list_all no_break (other_lines i u)" "list_all clean_line (other_lines i u)" if "t = Some u" for u
    using other_lines_ok g that by (simp_all add: clean_file_def)
  show "clean_file (remove_line i t)"
    using lines_text_args(2) [OF l] by (cases t) (auto simp: clean_file_def remove_line_def remove_text_def Let_def)
  have f: "lines_args (other_lines i u) k = (if k = i then None else instance_args u k)" for u k
    unfolding other_lines_def lines_args_filter instance_args_lines ..
  have e: "lines_args [] k = None" for k by (simp add: lines_args_def)
  show "look_file (remove_line i t) = (look_file t)(i := None)"
  proof
    fix k
    show "look_file (remove_line i t) k = ((look_file t)(i := None)) k"
    proof (cases t)
      case (Some u)
      have "look_file (remove_text i u) k = lines_args (other_lines i u) k"
        using lines_text_args(1) [OF l [OF Some]] e by (simp add: look_file_def remove_text_def Let_def)
      then show ?thesis unfolding f by (simp add: Some remove_line_def look_file_def)
    qed (simp add: look_file_def remove_line_def)
  qed
qed

section \<open>The command line is one line\<close>

definition visible :: "char \<Rightarrow> bool" where
  "visible c = (32 < code c \<and> code c < 127)"

lemma visible_not: "visible c \<Longrightarrow> \<not> is_space c" "visible c \<Longrightarrow> \<not> is_break c"
  using ascii_not_space [of c] by (simp_all add: visible_def)

lemma show_nat_visible: "0 \<le> n \<Longrightarrow> list_all visible (show_nat n)"
  using show_nat_dec [of n] by (auto simp: list_all_iff is_dec_def visible_def)

lemma hex_char_visible: "0 \<le> n \<Longrightarrow> n < 16 \<Longrightarrow> visible (hex_char n)"
  by (auto simp: hex_char_def visible_def code_def)

lemma show_hex_visible: "0 \<le> n \<Longrightarrow> list_all visible (show_hex n)"
proof (induction n rule: show_hex.induct)
  case (1 n)
  then show ?case using hex_char_visible [of n] hex_char_visible [of "n mod 16"]
    by (subst show_hex.simps) (simp add: div_int_pos_iff)
qed

lemma hextets_nonneg: "list_all (\<lambda>h. 0 \<le> h) (hextets_of n)"
  by (simp add: hextets_of_def)

lemma colon_visible: "visible (CHR '':'')" "visible (CHR ''.'')" "visible (CHR ''%'')" "visible (CHR ''['')" "visible (CHR '']'')"
  "visible (CHR ''-'')" "visible (CHR ''a'')" "visible (CHR 0x27)"
  by code_simp+

lemma show_ipv4_visible: "list_all visible (show_ipv4 n)"
  unfolding show_ipv4_def by (intro join_all) (simp_all add: show_nat_visible colon_visible)

lemma show_ipv6_visible: "list_all visible (show_ipv6 n)"
proof -
  have m: "list_all (list_all visible) (map show_hex hs)" if "set hs \<subseteq> set (hextets_of n)" for hs
    using hextets_nonneg [of n] that show_hex_visible by (auto simp: list_all_iff)
  have p: "list_all visible (join '':'' (map show_hex hs))" if "set hs \<subseteq> set (hextets_of n)" for hs
    by (intro join_all m that) (simp add: colon_visible)
  show ?thesis
    unfolding show_ipv6_def Let_def case_prod_beta
    using p [OF order.refl] p [OF set_take_subset] p [OF set_drop_subset] by (simp add: colon_visible)
qed

lemma checked_visible: "checked_name name_char n z \<Longrightarrow> list_all visible z"
  using checked_name_ascii [of n z] by (auto simp: checked_name_def list_all_iff instance_char_def visible_def)

lemma strip_no_space: "list_all (\<lambda>c. \<not> is_space c) s \<Longrightarrow> strip s = s"
  by (rule strip_trimmed) (auto simp: trimmed_def list_all_iff)

lemma zone_chars: "ip_address s = Some (IPv6 n (Some z)) \<Longrightarrow> set z \<subseteq> set s"
  unfolding ip_address_def parse_ipv6_def split_scope_def split_first_def
  by (auto split: if_splits option.splits prod.splits dest!: in_set_dropD set_dropWhileD)

lemma agent_ip_visible:
  assumes "agent_udp2raw_ip v l = Inr h" "list_all (\<lambda>c. \<not> is_space c) v"
  shows "\<exists>a. h = compressed a \<and> list_all visible h"
proof -
  have sv: "strip v = v" by (rule strip_no_space [OF assms(2)])
  obtain a where a: "ip_address v = Some a" "h = compressed a"
    using assms(1) by (auto simp: agent_udp2raw_ip_def sv res_simps split: option.splits ip_addr.splits)
  have zone: "list_all visible z" if "a = IPv6 n (Some z)" for n z
  proof -
    have "list_all (\<lambda>c. \<not> is_space c) z" using zone_chars a(1) assms(2) that by (fastforce simp: list_all_iff)
    then have "strip z = z" by (rule strip_no_space)
    moreover have "checked_name name_char 15 (strip z)"
      using assms(1) a(1) that by (auto simp: agent_udp2raw_ip_def sv agent_interface_name_def res_simps split: if_splits)
    ultimately show ?thesis using checked_visible by metis
  qed
  have "list_all visible (compressed a)"
  proof (cases a)
    case (IPv6 n z)
    then show ?thesis using zone show_ipv6_visible by (cases z) (simp_all add: colon_visible)
  qed (simp add: show_ipv4_visible)
  then show ?thesis using a(2) by blast
qed

lemma visible_no_break: "list_all visible s \<Longrightarrow> no_break s"
  using visible_not(2) by (auto simp: no_break_def list_all_iff)

lemma endpoint_visible:
  assumes "format_udp2raw_endpoint h k = Inr e" "list_all visible h" "0 \<le> k"
  shows "list_all visible e"
proof -
  obtain a where a: "ip_address h = Some a"
    "e = (if ip_version a = 6 then ''['' @ compressed a @ '']'' else compressed a) @ '':'' @ show_int k"
    using assms(1) by (auto simp: format_udp2raw_endpoint_def split: option.splits)
  have zone: "list_all visible z" if "a = IPv6 n (Some z)" for n z
    using zone_chars a(1) assms(2) that by (fastforce simp: list_all_iff)
  have "list_all visible (compressed a)"
  proof (cases a)
    case (IPv6 n z)
    then show ?thesis using zone show_ipv6_visible by (cases z) (simp_all add: colon_visible)
  qed (simp add: show_ipv4_visible)
  moreover have "list_all visible (show_int k)" using assms(3) show_nat_visible by (simp add: show_int_def)
  ultimately show ?thesis by (simp add: a(2) colon_visible)
qed

lemma quote_no_break:
  assumes "shell_quote s = Inr q" "CHR 0x85 \<notin> set s"
  shows "no_break q"
proof -
  have c: "is_control c" if "is_break c" "c \<noteq> CHR 0x85" for c
  proof -
    let ?bs = "[CHR 0x0A, CHR 0x0B, CHR 0x0C, CHR 0x0D, CHR 0x1C, CHR 0x1D, CHR 0x1E, CHR 0x85]"
    have "list_all (\<lambda>d. d = CHR 0x85 \<or> is_control d) ?bs" by code_simp
    moreover have "c \<in> set ?bs" using that(1) unfolding is_break_def list.set .
    ultimately show ?thesis using that(2) unfolding list_all_iff by blast
  qed
  have nb: "\<not> is_break (CHR 0x27)" "\<not> is_break (CHR 0x5C)" using visible_not(2) by code_simp+
  have "\<not> list_ex is_control s" using assms(1) by (auto simp: shell_quote_def split: if_splits)
  then have "\<not> is_break d" if "d \<in> set s" for d using c assms(2) that by (auto simp: list_ex_iff)
  then show ?thesis using assms(1) nb by (auto simp: shell_quote_def no_break_def list_all_iff split: if_splits)
qed

lemma joined_args_ok:
  assumes "list_all no_break ls" "ls = (c # cs) # ks" "visible c" "last ls \<noteq> []" "visible (last (last ls))"
  shows "args_ok (join '' '' ls)"
proof -
  have "no_break '' ''" by code_simp
  then have "no_break (join '' '' ls)"
    using join_all [of "\<lambda>c. \<not> is_break c" "'' ''" ls] assms(1) unfolding no_break_def [abs_def] by blast
  moreover have "last (join '' '' ls) = last (last ls) \<and> join '' '' ls \<noteq> []" by (rule join_last) (use assms in simp_all)
  moreover have "hd (join '' '' ls) = c" unfolding assms(2) using hd_join [of "c # cs"] by simp
  ultimately show ?thesis using visible_not(1) [OF assms(3)] visible_not(1) [OF assms(5)]
    by (simp add: args_ok_def trimmed_def)
qed

definition plain_hosts :: "fields \<Rightarrow> bool" where
  "plain_hosts p = (list_all (\<lambda>c. \<not> is_space c) (py_str (dget p ''listen_host'')) \<and>
     list_all (\<lambda>c. \<not> is_space c) (py_str (dget p ''remote_host'')) \<and> CHR 0x85 \<notin> set (py_str (dget p ''password'')))"

lemma required_Inr: "required k p = Inr v \<Longrightarrow> dget p k = v"
  by (auto simp: required_def dget_def split: option.splits)

text \<open>The parts of a command line that was built.\<close>

lemma built_parts:
  assumes "build_udp2raw_args p = Inr a"
  obtains mode lh lk rh rk pw raw cip au l r where
    "agent_udp2raw_ip (py_str (dget p ''listen_host'')) ''udp2raw listen host'' = Inr lh"
    "agent_udp2raw_port (dget p ''listen_port'') ''udp2raw listen port'' = Inr lk"
    "agent_udp2raw_ip (py_str (dget p ''remote_host'')) ''udp2raw remote host'' = Inr rh"
    "agent_udp2raw_port (dget p ''remote_port'') ''udp2raw remote port'' = Inr rk"
    "shell_quote (py_str (dget p ''password'')) = Inr pw" "udp2raw_raw_mode raw = Inr raw" "udp2raw_cipher_mode cip = Inr cip"
    "udp2raw_auth_mode au = Inr au" "format_udp2raw_endpoint lh lk = Inr l" "format_udp2raw_endpoint rh rk = Inr r"
    "a = join '' '' ([mode_flag mode, ''-l'' @ l, ''-r'' @ r, ''-k '' @ pw, ''--raw-mode '' @ raw,
       ''--cipher-mode '' @ cip, ''--auth-mode '' @ au] @ rule_args p)"
    "validate_mode mode = Inr mode" "validate_mode (py_str (dget p ''mode'')) = Inr mode"
    "raw = text_or ''faketcp'' (dget p ''raw_mode'')" "cip = text_or ''xor'' (dget p ''cipher_mode'')"
    "au = text_or ''md5'' (dget p ''auth_mode'')"
proof -
  have same: "udp2raw_raw_mode x = Inr y \<Longrightarrow> y = x" "udp2raw_cipher_mode x = Inr y \<Longrightarrow> y = x"
    "udp2raw_auth_mode x = Inr y \<Longrightarrow> y = x" "validate_mode x = Inr y \<Longrightarrow> y = x" for x y
    by (simp_all only: udp2raw_raw_mode_def udp2raw_cipher_mode_def udp2raw_auth_mode_def validate_mode_def split: if_splits)
      simp_all
  obtain mode lh lk rh rk pw raw cip au l r vm vlh vlk vrh vrk vp where
    b: "required ''mode'' p = Inr vm" "validate_mode (py_str vm) = Inr mode"
    "required ''listen_host'' p = Inr vlh" "agent_udp2raw_ip (py_str vlh) ''udp2raw listen host'' = Inr lh"
    "required ''listen_port'' p = Inr vlk" "agent_udp2raw_port vlk ''udp2raw listen port'' = Inr lk"
    "required ''remote_host'' p = Inr vrh" "agent_udp2raw_ip (py_str vrh) ''udp2raw remote host'' = Inr rh"
    "required ''remote_port'' p = Inr vrk" "agent_udp2raw_port vrk ''udp2raw remote port'' = Inr rk"
    "required ''password'' p = Inr vp" "shell_quote (py_str vp) = Inr pw"
    "udp2raw_raw_mode (text_or ''faketcp'' (dget p ''raw_mode'')) = Inr raw"
    "udp2raw_cipher_mode (text_or ''xor'' (dget p ''cipher_mode'')) = Inr cip"
    "udp2raw_auth_mode (text_or ''md5'' (dget p ''auth_mode'')) = Inr au"
    "format_udp2raw_endpoint lh lk = Inr l" "format_udp2raw_endpoint rh rk = Inr r"
    "a = join '' '' ([mode_flag mode, ''-l'' @ l, ''-r'' @ r, ''-k '' @ pw, ''--raw-mode '' @ raw,
       ''--cipher-mode '' @ cip, ''--auth-mode '' @ au] @ rule_args p)"
    using assms unfolding build_udp2raw_args_def by (elim rbindE Inr_E) (rule that, assumption+)
  note d = b(1,3,5,7,9,11) [THEN required_Inr] and m = same(1) [OF b(13)] same(2) [OF b(14)] same(3) [OF b(15)] same(4) [OF b(2)]
  show ?thesis
    by (rule that [of lh lk rh rk pw raw cip au l r mode])
      (use b(2,4,6,8,10,12-18) d m in \<open>simp_all only: simp_thms\<close>)
qed

lemma text_no_break:
  "no_break ''-l''" "no_break ''-r''" "no_break ''-k ''" "no_break ''--raw-mode ''" "no_break ''--cipher-mode ''"
  "no_break ''--auth-mode ''"
  by code_simp+

lemma no_break_append [simp]: "no_break (s @ t) \<longleftrightarrow> no_break s \<and> no_break t"
  by (simp add: no_break_def)

lemma if_Inr_cond: "(if b then Inr x else Inl er) = Inr y \<Longrightarrow> b"
  by (simp split: if_splits)

lemma mode_texts:
  assumes "udp2raw_raw_mode raw = Inr raw'" "udp2raw_cipher_mode cip = Inr cip'" "udp2raw_auth_mode au = Inr au'"
  shows "list_all visible raw" "list_all visible cip" "list_all visible au \<and> au \<noteq> []"
proof -
  have l: "list_all (list_all visible) [''faketcp'', ''udp'', ''icmp'']" "list_all (list_all visible) [''xor'', ''aes128cbc'', ''none'']"
    "list_all (\<lambda>s. list_all visible s \<and> s \<noteq> []) [''hmac_sha1'', ''md5'', ''crc32'', ''simple'', ''none'']" by code_simp+
  note m = assms [unfolded udp2raw_raw_mode_def udp2raw_cipher_mode_def udp2raw_auth_mode_def, THEN if_Inr_cond]
  show "list_all visible raw" by (rule iffD1 [OF list_all_iff l(1), unfolded list.set, THEN bspec, OF m(1)])
  show "list_all visible cip" by (rule iffD1 [OF list_all_iff l(2), unfolded list.set, THEN bspec, OF m(2)])
  show "list_all visible au \<and> au \<noteq> []" by (rule iffD1 [OF list_all_iff l(3), unfolded list.set, THEN bspec, OF m(3)])
qed

lemma port_range:
  assumes "agent_udp2raw_port v l = Inr k"
  shows "1 \<le> k" "k \<le> 65535"
  using assms by (auto simp: agent_udp2raw_port_def split: option.splits if_splits)

lemma built_args_ok:
  assumes "build_udp2raw_args p = Inr a" "plain_hosts p"
  shows "args_ok a"
proof -
  obtain mode lh lk rh rk pw raw cip au l r where
    lh: "agent_udp2raw_ip (py_str (dget p ''listen_host'')) ''udp2raw listen host'' = Inr lh"
    and lk: "agent_udp2raw_port (dget p ''listen_port'') ''udp2raw listen port'' = Inr lk"
    and rh: "agent_udp2raw_ip (py_str (dget p ''remote_host'')) ''udp2raw remote host'' = Inr rh"
    and rk: "agent_udp2raw_port (dget p ''remote_port'') ''udp2raw remote port'' = Inr rk"
    and pw: "shell_quote (py_str (dget p ''password'')) = Inr pw"
    and ms: "udp2raw_raw_mode raw = Inr raw" "udp2raw_cipher_mode cip = Inr cip" "udp2raw_auth_mode au = Inr au"
    and le: "format_udp2raw_endpoint lh lk = Inr l" and re: "format_udp2raw_endpoint rh rk = Inr r"
    and a: "a = join '' '' ([mode_flag mode, ''-l'' @ l, ''-r'' @ r, ''-k '' @ pw, ''--raw-mode '' @ raw,
       ''--cipher-mode '' @ cip, ''--auth-mode '' @ au] @ rule_args p)"
    by (rule built_parts [OF assms(1)])
  note plain = assms(2) [unfolded plain_hosts_def]
  have "list_all visible lh" "list_all visible rh" using agent_ip_visible [OF lh] agent_ip_visible [OF rh] plain by blast+
  then have "list_all visible l" "list_all visible r"
    using endpoint_visible [OF le] endpoint_visible [OF re] port_range(1) [OF lk] port_range(1) [OF rk] by simp_all
  then have ends: "no_break l" "no_break r" by (simp_all add: visible_no_break)
  have q: "no_break pw" using quote_no_break [OF pw] plain by blast
  have modes: "no_break raw" "no_break cip" "no_break au" "au \<noteq> []" "visible (last au)"
    using mode_texts [OF ms] visible_no_break by (auto simp: list_all_iff)
  have flag: "mode_flag mode = CHR ''-'' # tl (mode_flag mode)" "no_break (mode_flag mode)"
    using visible_no_break by (simp_all add: mode_flag_def no_break_def) (code_simp+)
  have ra: "rule_args p = [] \<or> rule_args p = [''-a'']" by (auto simp: rule_args_def auto_rule_arg_def split: option.split)
  have na: "no_break ''-a''" by code_simp
  show ?thesis
    unfolding a
  proof (rule joined_args_ok)
    show "list_all no_break ([mode_flag mode, ''-l'' @ l, ''-r'' @ r, ''-k '' @ pw, ''--raw-mode '' @ raw,
       ''--cipher-mode '' @ cip, ''--auth-mode '' @ au] @ rule_args p)"
      using ra na ends q modes flag(2) text_no_break by (elim disjE) (simp_all only: list.pred_inject list_all_append append_Nil2
        no_break_append simp_thms)
    show "[mode_flag mode, ''-l'' @ l, ''-r'' @ r, ''-k '' @ pw, ''--raw-mode '' @ raw,
       ''--cipher-mode '' @ cip, ''--auth-mode '' @ au] @ rule_args p = (CHR ''-'' # tl (mode_flag mode)) #
         [''-l'' @ l, ''-r'' @ r, ''-k '' @ pw, ''--raw-mode '' @ raw, ''--cipher-mode '' @ cip, ''--auth-mode '' @ au] @ rule_args p"
      unfolding flag(1) [symmetric] append_Cons append_Nil ..
    show "visible (CHR ''-'')" by (rule colon_visible(6))
    show "last ([mode_flag mode, ''-l'' @ l, ''-r'' @ r, ''-k '' @ pw, ''--raw-mode '' @ raw,
       ''--cipher-mode '' @ cip, ''--auth-mode '' @ au] @ rule_args p) \<noteq> []" using ra modes(4) by (elim disjE) simp_all
    show "visible (last (last ([mode_flag mode, ''-l'' @ l, ''-r'' @ r, ''-k '' @ pw, ''--raw-mode '' @ raw,
       ''--cipher-mode '' @ cip, ''--auth-mode '' @ au] @ rule_args p)))"
      using ra modes(4,5) colon_visible(7) by (elim disjE) simp_all
  qed
qed

section \<open>A history of orders\<close>

text \<open>An order for an instance: the payload to apply, or its deletion.\<close>

definition file_order :: "string \<times> fields option \<Rightarrow> string option \<Rightarrow> string option" where
  "file_order x t = (case snd x of Some p \<Rightarrow> put_line (fst x) (projr (build_udp2raw_args p)) t | None \<Rightarrow> remove_line (fst x) t)"

definition order_accepted :: "string \<times> fields option \<Rightarrow> bool" where
  "order_accepted x = (instance_ok (fst x) \<and> (case snd x of None \<Rightarrow> True
     | Some p \<Rightarrow> is_ok (build_udp2raw_args p) \<and> plain_hosts p))"


section \<open>Files an operation may touch\<close>

text \<open>As long as no write fails, an operation changes files of a given set only.\<close>

definition touches :: "(path \<Rightarrow> bool) \<Rightarrow> 'a io \<Rightarrow> bool" where
  "touches P m = (\<forall>d. dk_faults d = [] \<longrightarrow> dk_faults (snd (m d)) = [] \<and>
     (\<forall>q. \<not> P q \<longrightarrow> dk_files (snd (m d)) q = dk_files d q))"

named_theorems touch "operations and the files they touch"

lemma touchesI:
  "(\<And>d. dk_faults d = [] \<Longrightarrow> dk_faults (snd (m d)) = [] \<and> (\<forall>q. \<not> P q \<longrightarrow> dk_files (snd (m d)) q = dk_files d q)) \<Longrightarrow> touches P m"
  by (simp add: touches_def)

lemma touches_dreturn [touch]: "touches P (dreturn x)" "touches P (draise e)" "touches P (lift_error r)"
  by (simp_all add: touches_def dreturn_def draise_def lift_error_def)

lemma touches_dbind [touch]:
  assumes "touches P m" "\<And>x. touches P (f x)"
  shows "touches P (dbind m f)"
proof (rule touchesI)
  fix d :: disk assume d: "dk_faults d = []"
  obtain x e where m: "m d = (x, e)" by (rule prod.exhaust)
  have e: "dk_faults e = []" "\<forall>q. \<not> P q \<longrightarrow> dk_files e q = dk_files d q"
    using assms(1) d m unfolding touches_def by (metis snd_conv)+
  show "dk_faults (snd (dbind m f d)) = [] \<and> (\<forall>q. \<not> P q \<longrightarrow> dk_files (snd (dbind m f d)) q = dk_files d q)"
  proof (cases x)
    case (Inr y)
    then show ?thesis using assms(2) [of y] e unfolding touches_def dbind_def m by simp
  qed (use e in \<open>simp add: dbind_def m\<close>)
qed

lemma touches_dignore [touch]: "touches P m \<Longrightarrow> touches P (dignore m)"
  by (simp add: touches_def dignore_def)

lemma touches_dmap [touch]: "(\<And>x. touches P (f x)) \<Longrightarrow> touches P (dmap f xs)"
  by (induction xs) (simp_all add: touch)

lemma touches_run [touch]: "touches P (run_command ae c allow)"
  by (simp add: touches_def run_command_def)

lemma write_result:
  assumes "dk_faults d = []"
  shows "atomic_write_text p s m d = (Inr (), put_file p \<lparr>fl_content = encode_text s, fl_regular = True, fl_mode = m,
     fl_owner = 0, fl_mtime = dk_now d\<rparr> d)"
  using assms by (simp add: atomic_write_text_def atomic_write_bytes_def next_fault_def)

lemma touches_write [touch]: "P p \<Longrightarrow> touches P (atomic_write_text p s m)"
  by (rule touchesI) (auto simp: write_result put_file_def)

lemma touches_remove [touch]: "P p \<Longrightarrow> touches P (remove_file p)"
  by (rule touchesI) (auto simp: remove_file_def)

lemma read_if_exists_state: "snd (read_if_exists p d) = d"
  by (auto simp: read_if_exists_def dbind_def file_exists_def read_managed_middleware_text_def file_size_def
      read_existing_text_def read_existing_bytes_def dreturn_def draise_def lift_error_def split: option.split sum.split)

lemma touches_read [touch]: "touches P (read_if_exists p)"
  by (rule touchesI) (simp add: read_if_exists_state)

lemma touches_if [touch]: "(b \<Longrightarrow> touches P m) \<Longrightarrow> (\<not> b \<Longrightarrow> touches P n) \<Longrightarrow> touches P (if b then m else n)"
  by simp

lemma touches_restore [touch]: "P p \<Longrightarrow> touches P (restore_text p old m)"
  by (auto simp: restore_text_def touch split: option.split)

lemma touches_except [touch]: "touches P m \<Longrightarrow> touches P h \<Longrightarrow> touches P (dexcept m h)"
  unfolding touches_def dexcept_def by (auto split: prod.split sum.split) (metis snd_conv)+

section \<open>Applying an instance\<close>

definition content :: "path \<Rightarrow> disk \<Rightarrow> string option" where
  "content q d = map_option fl_content (dk_files d q)"

lemma dbind_cases:
  assumes "dbind m f d = (r, e)"
  obtains (refused) msg where "m d = (Inl msg, e)" "r = Inl msg" | (passed) x d1 where "m d = (Inr x, d1)" "f x d1 = (r, e)"
  using assms by (cases "m d"; cases "fst (m d)") (auto simp: dbind_def)

lemma dexcept_cases:
  assumes "dexcept m h d = (r, e)"
  obtains (passed) x where "m d = (Inr x, e)" "r = Inr x"
  | (handled) msg d1 where "m d = (Inl msg, d1)" "snd (h d1) = e" "\<exists>msg. r = Inl msg"
  using assms by (cases "m d"; cases "fst (m d)") (auto simp: dexcept_def split: prod.splits sum.splits)

lemma lift_cases: "lift_error x d = (Inr y, e) \<longleftrightarrow> x = Inr y \<and> e = d" "lift_error x d = (Inl y, e) \<longleftrightarrow> x = Inl y \<and> e = d"
  by (auto simp: lift_error_def)

lemma encode_decode: "decode_text c = Inr s \<Longrightarrow> encode_text s = c"
  by (auto simp: decode_text_def encode_text_def Let_def comp_def split: if_splits)

lemma read_content:
  assumes "read_if_exists q d = (Inr old, e)"
  shows "e = d" "content q d = map_option encode_text old"
proof -
  show "e = d" using read_if_exists_state [of q d] assms by simp
  show "content q d = map_option encode_text old"
    using assms encode_decode
    by (auto simp: read_if_exists_def dbind_def file_exists_def path_exists_def read_managed_middleware_text_def file_size_def
        read_existing_text_def read_existing_bytes_def dreturn_def draise_def lift_error_def content_def
        split: option.splits sum.splits if_splits)
qed

definition role_file :: "path \<Rightarrow> bool" where
  "role_file q = (q = config_file_for_mode ''server'' \<or> q = config_file_for_mode ''client'')"

lemma layout_effect:
  assumes "dk_faults d = []"
  shows "\<exists>e. ensure_udp2raw_layout d = (Inr (), e) \<and> dk_faults e = [] \<and>
    (\<forall>q. content q e = (if role_file q \<and> content q d = None then Some [] else content q d))"
proof -
  have ne: "config_file_for_mode ''server'' \<noteq> config_file_for_mode ''client''" by (simp add: config_file_for_mode_def)
  have z: "encode_text [] = []" by (simp add: encode_text_def)
  show ?thesis
    using assms ne
    by (simp add: ensure_udp2raw_layout_def dbind_def file_exists_def path_exists_def dreturn_def write_result put_file_def
        role_file_def content_def Let_def z split: option.split) blast
qed

lemma put_content: "content q (put_file p f d) = (if q = p then Some (fl_content f) else content q d)"
  by (simp add: content_def put_file_def)

definition init_file :: "agent_env \<Rightarrow> fields \<Rightarrow> path \<Rightarrow> bool" where
  "init_file ae p q = (openwrt ae \<and> (\<exists>mode i. init_path ae mode i = Inr q \<and> middleware_instance_name p = Inr i))"

lemma touches_init:
  "openwrt ae \<Longrightarrow> middleware_instance_name p = Inr i \<Longrightarrow> touches (init_file ae p) (write_openwrt_init ae mode i)"
  by (cases "init_path ae mode i")
    (auto simp: write_openwrt_init_def dbind_def lift_error_def touches_def write_result put_file_def init_file_def)

lemma touches_service:
  assumes "middleware_instance_name p = Inr i"
  shows "touches (init_file ae p) (apply_service ae mode i)"
proof -
  have c: "touches (init_file ae p) (run_init_command ae mode i b a)" "touches (init_file ae p) (run_unit_command ae mode i b as)"
    "touches (init_file ae p) (daemon_reload ae b)" for b a as
    unfolding run_init_command_def run_unit_command_def daemon_reload_def by (intro touch)+
  show ?thesis
    unfolding apply_service_def by (rule touches_if; intro touches_dbind touches_dmap touches_init c touch assms; assumption)
qed

lemma touches_revive: "touches P (revive_service ae mode i)"
  unfolding revive_service_def run_unit_command_def daemon_reload_def by (intro touch)

lemma touches_content:
  assumes "touches P m" "dk_faults d = []" "m d = (r, e)"
  shows "dk_faults e = []" "\<not> P q \<Longrightarrow> content q e = content q d"
  using assms unfolding touches_def content_def by (metis snd_conv)+

lemma restore_result:
  assumes "dk_faults d = []" "restore_text f old m d = (r, e)"
  shows "r = Inr ()" "dk_faults e = []" "content f e = map_option encode_text old" "q \<noteq> f \<Longrightarrow> content q e = content q d"
  using assms by (cases old; auto simp: restore_text_def remove_file_def write_result content_def put_file_def)+

lemma service_or_rollback:
  assumes d: "dk_faults d = []" and i: "middleware_instance_name p = Inr i"
    and old: "content f d = Some c" "map_option encode_text old = content f d0" "\<And>q. q \<noteq> f \<Longrightarrow> content q d = content q d0"
    and r: "dexcept (apply_service ae mode i) (dbind (restore_text f old 384) (\<lambda>_. revive_service ae mode i)) d = (r, e)"
    and q: "\<not> init_file ae p q" and f: "\<not> init_file ae p f"
  shows "content q e = (if is_ok r then content q d else content q d0)"
  using r
proof (cases rule: dexcept_cases)
  case (passed x)
  then show ?thesis using touches_content(2) [OF touches_service [OF i] d passed(1) q] by simp
next
  case (handled msg d1)
  have d1: "dk_faults d1 = []" "content q d1 = content q d"
    using touches_content [OF touches_service [OF i] d handled(1)] q by simp_all
  obtain r2 d2 where r2: "restore_text f old 384 d1 = (r2, d2)" by (rule prod.exhaust)
  note res = restore_result [OF d1(1) r2]
  obtain r3 where r3: "revive_service ae mode i d2 = (r3, e)"
    using handled(2) res(1) r2 by (cases "revive_service ae mode i d2") (simp add: dbind_def)
  have "content q e = content q d2" by (rule touches_content(2) [OF touches_revive res(2) r3, of "\<lambda>_. False"]) simp
  also have "\<dots> = content q d0" using res(3) res(4) [of q] old d1(2) by (cases "q = f") simp_all
  finally show ?thesis using handled(3) by auto
qed

lemma role_not_init: "role_file f \<Longrightarrow> \<not> init_file ae p f"
  by (auto simp: role_file_def init_file_def init_path_def res_simps openwrt_init_dir_def config_file_for_mode_def udp2raw_config_dir_def)

lemma mode_role: "validate_mode m = Inr mode \<Longrightarrow> role_file (config_file_for_mode mode)"
  by (auto simp: validate_mode_def role_file_def split: if_splits)

lemma encode_Nil: "encode_text s = [] \<longleftrightarrow> s = []"
  using decode_encode [of s] decode_encode [of "[]"] by (auto simp: encode_text_def)

lemma Nil_eq_encode: "[] = encode_text s \<longleftrightarrow> s = []"
  using encode_Nil by metis

lemma upsert_result:
  assumes "dk_faults d = []" "read_if_exists f d = (Inr old, d)"
  shows "\<exists>e. upsert_instance f i a d = (Inr (), e) \<and> dk_faults e = [] \<and>
     (\<forall>q. content q e = (if q = f then Some (encode_text (upsert_text i a (the_or [] old))) else content q d))"
  using assms by (simp add: upsert_instance_def dbind_def write_result put_content)
    (simp add: put_file_def)

text \<open>applying an instance, with no write failing, is all or nothing: when it succeeds the file of
  the payload's role is its old text with the instance's line replaced or added, and no other file
  is changed but for an empty file for a role that had none and the init script of the service;
  when it is refused or the service does not start, every file has the content it had, but for
  these same two.\<close>

theorem apply_udp2raw_all_or_nothing:
  assumes "dk_faults d = []" "apply_udp2raw ae False p d = (r, e)" "\<not> init_file ae p q"
  shows "content q e = content q d \<or> (role_file q \<and> content q d = None \<and> content q e = Some []) \<or>
    (\<exists>mode i args old. is_ok r \<and> validate_mode (py_str (dget p ''mode'')) = Inr mode \<and> middleware_instance_name p = Inr i \<and>
       build_udp2raw_args p = Inr args \<and> q = config_file_for_mode mode \<and> content q d = map_option encode_text old \<and>
       content q e = Some (encode_text (upsert_text i args (the_or [] old))))"
    (is "?same \<or> ?empty \<or> ?new")
  using assms(2) unfolding apply_udp2raw_def
proof (cases rule: dbind_cases)
  case (passed args d1)
  note args = passed(1) [unfolded lift_cases]
  from passed(2) [unfolded conjunct2 [OF args]] show ?thesis
  proof (cases rule: dbind_cases)
    case (passed mode d2)
    note mode = passed(1) [unfolded lift_cases]
    have mp: "validate_mode (py_str (dget p ''mode'')) = Inr mode" using mode required_Inr unfolding rbind_eq_Inr by metis
    from passed(2) [unfolded conjunct2 [OF mode]] show ?thesis
    proof (cases rule: dbind_cases)
      case (passed i d3)
      note i = passed(1) [unfolded lift_cases]
      let ?f = "config_file_for_mode mode"
      note rest = passed(2) [unfolded conjunct2 [OF i] Let_def if_False]
      obtain d4 where lay: "ensure_udp2raw_layout d = (Inr (), d4)" "dk_faults d4 = []"
        "\<And>q. content q d4 = (if role_file q \<and> content q d = None then Some [] else content q d)"
        using layout_effect [OF assms(1)] by blast
      have kept: "content q e = content q d4 \<Longrightarrow> ?same \<or> ?empty \<or> ?new" using lay(3) [of q] by auto
      from rest lay(1) have "dbind (read_if_exists ?f) (\<lambda>old. dbind (upsert_instance ?f i args) (\<lambda>_.
          dbind (dexcept (apply_service ae mode i) (dbind (restore_text ?f old 384) (\<lambda>_. revive_service ae mode i))) (\<lambda>commands.
          dreturn [(''changed'', JBool True), (''mode'', JStr mode), (''instance'', JStr i),
            (''config_file'', JStr (show_path ?f)), (''commands'', reports_json commands)]))) d4 = (r, e)"
        by (simp add: dbind_def)
      then show ?thesis
      proof (cases rule: dbind_cases)
        case (refused msg)
        then have "e = d4" using read_if_exists_state [of ?f d4] by simp
        then show ?thesis using kept by simp
      next
        case (passed old d5)
        note old = read_content [OF passed(1)]
        obtain d6 where up: "upsert_instance ?f i args d4 = (Inr (), d6)" "dk_faults d6 = []"
          "\<And>q. content q d6 = (if q = ?f then Some (encode_text (upsert_text i args (the_or [] old))) else content q d4)"
          using upsert_result [OF lay(2) passed(1) [unfolded old(1)]] by blast
        obtain r1 where s: "dexcept (apply_service ae mode i) (dbind (restore_text ?f old 384) (\<lambda>_. revive_service ae mode i)) d6 = (r1, e)"
          and ok: "is_ok r = is_ok r1"
          using passed(2) unfolding old(1)
          by (cases "dexcept (apply_service ae mode i) (dbind (restore_text ?f old 384) (\<lambda>_. revive_service ae mode i)) d6")
            (auto simp: dbind_def up(1) dreturn_def is_ok_def split: sum.splits)
        have "content q e = (if is_ok r1 then content q d6 else content q d4)"
          by (rule service_or_rollback [OF up(2) conjunct1 [OF i] _ _ _ s assms(3) role_not_init [OF mode_role [OF mp]]])
            (simp_all add: up(3) old(2))
        then show ?thesis
        proof (cases "is_ok r1 \<and> q = ?f")
          case True
          then have rq: "role_file q" using mode_role [OF mp] by blast
          have o: "(if content q d = None then Some [] else content q d) = map_option encode_text old"
            using old(2) lay(3) [of q] True rq by simp
          have "content q d = map_option encode_text (if content q d = None then None else old)" using o by (simp split: if_splits)
          moreover have "the_or [] (if content q d = None then None else old) = the_or [] old"
            using o by (cases old) (auto simp: Nil_eq_encode encode_Nil split: if_splits)
          moreover have "content q e = Some (encode_text (upsert_text i args (the_or [] old)))"
            using up(3) [of q] True \<open>content q e = _\<close> by simp
          ultimately have "content q e = Some (encode_text (upsert_text i args (the_or [] (if content q d = None then None else old))))"
            by simp
          then have ?new using \<open>content q d = _\<close> True ok mp conjunct1 [OF i] conjunct1 [OF args] by blast
          then show ?thesis by blast
        next
          case False
          then have "content q e = content q d4" using up(3) [of q] \<open>content q e = _\<close> by (simp split: if_splits)
          then show ?thesis by (rule kept)
        qed
      qed
    qed (auto simp: lift_cases)
  qed (auto simp: lift_cases)
qed (auto simp: lift_cases)

end
