(* ===== verification/LinkLaws.thy ===== *)
theory LinkLaws
  imports Scenario
begin

text \<open>
  What the operations on managed links leave behind: the two sides of a new link fit together
  and are found again, the path through a udp2raw tunnel ends at the WireGuard port of the other
  side, and a deleted link leaves nothing.
\<close>

section \<open>Rows that queueing leaves\<close>

text \<open>Queueing a task may store an identity in the extras of its interface, and nothing else.\<close>

definition same_link :: "iface \<Rightarrow> iface \<Rightarrow> bool" where
  "same_link i j = (i\<lparr>if_extras := JNull\<rparr> = j\<lparr>if_extras := JNull\<rparr> \<and>
     managed_link_middleware i = managed_link_middleware j)"

lemma same_link_refl [simp]: "same_link i i"
  by (simp add: same_link_def)

lemma same_link_trans: "same_link i j \<Longrightarrow> same_link j k \<Longrightarrow> same_link i k"
  by (simp add: same_link_def)

lemma same_link_fields:
  assumes "same_link i j"
  shows "if_id j = if_id i" "if_node_id j = if_node_id i" "if_name j = if_name i" "if_public_key j = if_public_key i"
    "if_listen_port j = if_listen_port i" "if_tunnel_ips j = if_tunnel_ips i" "if_source j = if_source i"
    "managed_link_middleware j = managed_link_middleware i" "if_private_key_value j = if_private_key_value i"
proof -
  have e: "i\<lparr>if_extras := JNull\<rparr> = j\<lparr>if_extras := JNull\<rparr>" using assms by (simp add: same_link_def)
  from arg_cong [OF e, of if_id] show "if_id j = if_id i" by simp
  from arg_cong [OF e, of if_node_id] show "if_node_id j = if_node_id i" by simp
  from arg_cong [OF e, of if_name] show "if_name j = if_name i" by simp
  from arg_cong [OF e, of if_public_key] show "if_public_key j = if_public_key i" by simp
  from arg_cong [OF e, of if_listen_port] show "if_listen_port j = if_listen_port i" by simp
  from arg_cong [OF e, of if_tunnel_ips] show "if_tunnel_ips j = if_tunnel_ips i" by simp
  from arg_cong [OF e, of if_source] show "if_source j = if_source i" by simp
  from arg_cong [OF e, of if_private_key_value] show "if_private_key_value j = if_private_key_value i" by simp
  show "managed_link_middleware j = managed_link_middleware i" using assms by (simp add: same_link_def)
qed

definition kept :: "db \<Rightarrow> db \<Rightarrow> bool" where
  "kept d e = (db_peers e = db_peers d \<and> map if_id (db_ifaces e) = map if_id (db_ifaces d) \<and>
     (\<forall>k. rel_option same_link (get_iface k d) (get_iface k e)))"

lemma kept_same: "db_peers e = db_peers d \<Longrightarrow> db_ifaces e = db_ifaces d \<Longrightarrow> kept d e"
  by (simp add: kept_def get_iface_def option.rel_refl)

lemma kept_refl [simp]: "kept d d"
  by (rule kept_same) simp_all

lemma rel_same_link_trans:
  "rel_option same_link x y \<Longrightarrow> rel_option same_link y z \<Longrightarrow> rel_option same_link x z"
  by (cases x; cases y; cases z) (auto intro: same_link_trans)

lemma kept_trans: "kept d e \<Longrightarrow> kept e f \<Longrightarrow> kept d f"
  unfolding kept_def using rel_same_link_trans by metis

lemma put_peer_frame: "db_peers (put_iface j d) = db_peers d"
  by (simp add: put_iface_def)

lemma kept_put:
  assumes "get_iface (if_id j) d = Some i" "same_link i j"
  shows "kept d (put_iface j d)"
proof -
  have "rel_option same_link (get_iface k d) (get_iface k (put_iface j d))" for k
    using assms by (simp add: ifaces.get_put option.rel_refl)
  then show ?thesis using ifaces.keys_put [of j d] by (simp add: kept_def put_peer_frame)
qed

lemma kept_iface:
  assumes "kept d e" "get_iface k d = Some i"
  obtains j where "get_iface k e = Some j" "same_link i j"
  using assms unfolding kept_def by (metis option.rel_cases option.sel option.distinct(1))

lemma task_frames_kept:
  "kept d (put_task t d)" "kept d (put_plan p d)"
  by (rule kept_same; simp add: put_task_def put_plan_def)+

lemma refresh_plans_kept: "kept d (refresh_plans ks d)"
proof (induction ks arbitrary: d)
  case (Cons k ks)
  have "kept d (refresh_plan k d)"
    by (simp add: refresh_plan_def update_change_plan_task_status_def task_frames_kept split: option.split)
  from kept_trans [OF this Cons.IH [of "refresh_plan k d"]] show ?case by (simp add: refresh_plans_def)
qed (simp add: refresh_plans_def)

lemma close_tasks_kept: "kept d (snd (close_tasks selected still close d))"
proof -
  have "kept d (fst (fold (close_task still close) ts (d, c, ps)))" for ts c ps
  proof (induction ts arbitrary: d c ps)
    case (Cons t ts)
    obtain d1 c1 ps1 where s: "close_task still close t (d, c, ps) = (d1, c1, ps1)" by (rule prod_cases3)
    have "kept d d1" using s task_frames_kept by (auto simp: close_task_def split: option.splits if_splits)
    from kept_trans [OF this Cons.IH [of d1 c1 ps1]] show ?case by (simp add: s)
  qed simp
  from kept_trans [OF this refresh_plans_kept] show ?thesis
    by (simp add: close_tasks_def case_prod_beta)
qed

lemma expire_stale_kept: "kept d (snd (expire_stale_running_agent_tasks n now d))"
  unfolding expire_stale_running_agent_tasks_def by (rule close_tasks_kept)

lemma cancel_pending_kept: "kept d (snd (cancel_pending_interface_tasks now k ty r d))"
  unfolding cancel_pending_interface_tasks_def by (rule close_tasks_kept)

lemma cancel_deployment_kept: "kept d (snd (cancel_pending_interface_deployment_tasks now i d))"
  unfolding cancel_pending_interface_deployment_tasks_def
  by (simp add: case_prod_beta) (rule kept_trans [OF cancel_pending_kept cancel_pending_kept])

lemma add_task_kept: "kept d (snd (add_task t d))"
  by (rule kept_same) (simp_all add: add_task_def Let_def)

lemma identity_same: "same_link i (snd (iface_identity fresh i))"
  by (auto simp: iface_identity_def Let_def same_link_def with_identity_def managed_link_middleware_def json_object_def
      split: option.split)

lemma identity_id: "if_id (snd (iface_identity fresh i)) = if_id i"
  by (simp add: iface_identity_def Let_def)

text \<open>An operation whose result keeps the rows.\<close>

definition keeps :: "db \<Rightarrow> ('x \<Rightarrow> db) \<Rightarrow> 'x reply \<Rightarrow> bool" where
  "keeps d out r = (\<forall>x. r = Inr x \<longrightarrow> kept d (out x))"

lemma keeps_intros:
  "keeps d out (Inl er)" "kept d (out x) \<Longrightarrow> keeps d out (Inr x)"
  "(\<And>x. r = Inr x \<Longrightarrow> keeps d out (g x)) \<Longrightarrow> keeps d out (rbind r g)"
  "kept d e \<Longrightarrow> keeps e out y \<Longrightarrow> keeps d out y"
  "keeps d out y \<Longrightarrow> keeps d out z \<Longrightarrow> keeps d out (if b then y else z)"
  unfolding keeps_def using kept_trans by (auto simp: res_simps)

lemma keeps_then: "keeps d mid r \<Longrightarrow> (\<And>x. keeps (mid x) out (g x)) \<Longrightarrow> keeps d out (rbind r g)"
  unfolding keeps_def res_simps using kept_trans by blast

lemma keepsD: "keeps d out r \<Longrightarrow> r = Inr x \<Longrightarrow> kept d (out x)"
  by (simp add: keeps_def)

lemma enqueue_keeps:
  assumes "get_iface (if_id i) d = Some i0" "same_link i0 i"
  shows "keeps d (\<lambda>(_, _, e). e) (enqueue_interface_task fresh now i ty extra up after d)"
proof -
  let ?d = "snd (expire_stale_running_agent_tasks (Some (if_node_id i)) now d)"
  obtain payload j where p: "interface_task_payload fresh i extra = (payload, j)" by (rule prod.exhaust)
  have j: "same_link i j" "if_id j = if_id i"
    using p identity_same [of i fresh] identity_id [of fresh i]
    by (auto simp: interface_task_payload_def split: prod.splits)
  obtain i1 where i1: "get_iface (if_id i) ?d = Some i1" "same_link i0 i1"
    by (rule kept_iface [OF expire_stale_kept assms(1)])
  have same: "same_link i1 j" using i1(2) j(1) assms(2) unfolding same_link_def by metis
  have s: "kept d (put_iface j ?d)"
    by (rule kept_trans [OF expire_stale_kept kept_put [OF _ same]]) (use i1(1) j(2) in simp)
  have t: "kept d (put_task t (put_iface j ?d))" for t by (rule kept_trans [OF s task_frames_kept(1)])
  have n: "kept d e" if "insert_task t (put_iface j ?d) = Some (u, e)" for t u e
  proof -
    have "e = snd (add_task t (put_iface j ?d))"
      using that unfolding insert_task_def by (metis option.distinct(1) option.inject snd_conv)
    then show ?thesis using kept_trans [OF s add_task_kept] by simp
  qed
  show ?thesis
    unfolding keeps_def
  proof (intro allI impI)
    fix x assume "enqueue_interface_task fresh now i ty extra up after d = Inr x"
    then show "kept d (case x of (_, _, e) \<Rightarrow> e)"
      using s t n expire_stale_kept [of d "Some (if_node_id i)" now]
      by (auto simp: enqueue_interface_task_def p Let_def res_simps
          split: option.splits if_splits prod.splits bool.splits)
  qed
qed

lemma enqueue_keeps_then:
  assumes "get_iface (if_id i) d = Some i0" "same_link i0 i" "\<And>c t e. kept d e \<Longrightarrow> keeps e out (g c t e)"
  shows "keeps d out (rbind (enqueue_interface_task fresh now i ty extra up after d) (\<lambda>(c, t, e). g c t e))"
  unfolding keeps_def
proof (intro allI impI)
  fix x assume "rbind (enqueue_interface_task fresh now i ty extra up after d) (\<lambda>(c, t, e). g c t e) = Inr x"
  then obtain c t e where e: "enqueue_interface_task fresh now i ty extra up after d = Inr (c, t, e)" "g c t e = Inr x"
    unfolding res_simps by auto
  have "kept d e" using keepsD [OF enqueue_keeps [OF assms(1,2)] e(1)] by simp
  then show "kept d (out x)" using keepsD [OF assms(3) e(2)] kept_trans by blast
qed

text \<open>An interface row of the database, by its number.\<close>

definition has_iface :: "iface \<Rightarrow> db \<Rightarrow> bool" where
  "has_iface i d = (\<exists>i0. get_iface (if_id i) d = Some i0 \<and> same_link i0 i)"

lemma has_iface_kept: "kept d e \<Longrightarrow> has_iface i d \<Longrightarrow> has_iface i e"
  unfolding has_iface_def using kept_iface same_link_trans unfolding same_link_def by metis

lemma reload_has:
  assumes "has_iface i d"
  shows "get_iface (if_id (reload_iface i d)) d = Some (reload_iface i d)" "same_link (reload_iface i d) i"
proof -
  obtain i0 where i0: "get_iface (if_id i) d = Some i0" "same_link i0 i" using assms unfolding has_iface_def by blast
  have "if_id i0 = if_id i" using ifaces.get_key [OF i0(1)] .
  then show "get_iface (if_id (reload_iface i d)) d = Some (reload_iface i d)" "same_link (reload_iface i d) i"
    using i0 by (simp_all add: reload_iface_def)
qed

lemma enqueue_reloaded:
  assumes "has_iface i d" "\<And>c t e. kept d e \<Longrightarrow> keeps e out (g c t e)"
  shows "keeps d out (rbind (enqueue_interface_task fresh now (reload_iface i d) ty extra up after d) (\<lambda>(c, t, e). g c t e))"
  by (rule enqueue_keeps_then [OF reload_has(1) [OF assms(1)] same_link_refl assms(2)])

lemma enqueue_orders_keeps:
  assumes "\<forall>ord \<in> set ords. has_iface (fst ord) d"
  shows "keeps d snd (enqueue_orders en up after ords d)"
  using assms
proof (induction ords arbitrary: d)
  case (Cons ord ords)
  obtain i ty payload where ord: "ord = (i, ty, payload)" by (rule prod_cases3)
  have "keeps e snd (rbind (enqueue_orders en up after ords e) (\<lambda>(ts, d2). Inr (t # ts, d2)))" if "kept d e" for t e
    by (rule keeps_then [OF Cons.IH]) (use Cons.prems has_iface_kept [OF that] in \<open>auto intro: keeps_intros(2)\<close>)
  then show ?case
    unfolding enqueue_orders.simps enqueue_order_def ord prod.case
    by (intro enqueue_reloaded) (use Cons.prems ord in \<open>simp_all add: case_prod_beta\<close>)
qed (simp add: keeps_intros(2))

lemma enqueue_orders_keeps_then:
  assumes "\<forall>ord \<in> set ords. has_iface (fst ord) d" "\<And>ts e. kept d e \<Longrightarrow> keeps e out (g ts e)"
  shows "keeps d out (rbind (enqueue_orders en up after ords d) (\<lambda>(ts, e). g ts e))"
  unfolding keeps_def
proof (intro allI impI)
  fix x assume "rbind (enqueue_orders en up after ords d) (\<lambda>(ts, e). g ts e) = Inr x"
  then obtain ts e where e: "enqueue_orders en up after ords d = Inr (ts, e)" "g ts e = Inr x"
    unfolding res_simps by auto
  have "kept d e" using keepsD [OF enqueue_orders_keeps [OF assms(1)] e(1)] by simp
  then show "kept d (out x)" using keepsD [OF assms(2) e(2)] kept_trans by blast
qed

lemma order_ifaces:
  "udp2raw_endpoint_payloads m i j le pe = Inr ords \<Longrightarrow> fst ` set ords \<subseteq> {i, j}"
  "mimic_endpoint_payloads m i j le pe lp pp = Inr ords \<Longrightarrow> fst ` set ords \<subseteq> {i, j}"
  by (auto simp: udp2raw_endpoint_payloads_def mimic_endpoint_payloads_def Let_def res_simps split: if_splits)

lemma install_keeps: "has_iface i d \<Longrightarrow> keeps d (\<lambda>e. e) (install_udp2raw_on en m i d)"
  unfolding install_udp2raw_on_def enqueue_order_def prod.case
  by (rule keeps_intros(3), rule enqueue_reloaded) (auto intro: keeps_intros(2))

lemma enqueue_middleware_keeps:
  assumes "has_iface i d" "has_iface j d"
  shows "keeps d (\<lambda>e. e) (enqueue_middleware_tasks en mw i j le pe lp pp d)"
proof (cases mw)
  case None
  then show ?thesis by (simp add: enqueue_middleware_tasks_def keeps_intros(2))
next
  case (Some m)
  have u: "keeps d (\<lambda>e. e) (enqueue_udp2raw_tasks en m i j le pe d)"
    unfolding keeps_def
  proof (intro allI impI)
    fix x assume "enqueue_udp2raw_tasks en m i j le pe d = Inr x"
    then obtain d1 d2 ords ts where
      e: "install_udp2raw_on en m i d = Inr d1" "install_udp2raw_on en m j d1 = Inr d2"
      "udp2raw_endpoint_payloads m i j le pe = Inr ords" "enqueue_orders en True True ords d2 = Inr (ts, x)"
      unfolding enqueue_udp2raw_tasks_def res_simps by auto
    have k1: "kept d d1" using keepsD [OF install_keeps [OF assms(1)] e(1)] .
    have k2: "kept d1 d2" using keepsD [OF install_keeps [OF has_iface_kept [OF k1 assms(2)]] e(2)] .
    have h: "\<forall>ord \<in> set ords. has_iface (fst ord) d2"
      using order_ifaces(1) [OF e(3)] has_iface_kept [OF kept_trans [OF k1 k2]] assms by blast
    have "kept d2 x" using keepsD [OF enqueue_orders_keeps [OF h] e(4)] by simp
    then show "kept d x" using kept_trans k1 k2 by blast
  qed
  have m: "keeps d (\<lambda>e. e) (enqueue_mimic_tasks en m i j le pe lp pp d)"
    unfolding enqueue_mimic_tasks_def
  proof (rule keeps_intros(3), rule keeps_intros(3), rule keeps_intros(3))
    fix ords assume "mimic_endpoint_payloads m i j le pe lp pp = Inr ords"
    then have "\<forall>ord \<in> set ords. has_iface (fst ord) d" using order_ifaces(2) assms by blast
    then show "keeps d (\<lambda>e. e) (rbind (enqueue_orders en False False ords d) (\<lambda>(_, d1). Inr d1))"
      by (rule enqueue_orders_keeps_then) (simp add: keeps_intros(2))
  qed
  show ?thesis using u m by (simp add: enqueue_middleware_tasks_def Some keeps_intros(1))
qed

lemma apply_config_keeps:
  assumes "has_iface i d"
  shows "keeps d snd (enqueue_apply_config fresh now i b d)"
proof -
  have here: "\<exists>i0. get_iface (if_id i) e = Some i0 \<and> same_link i0 i" if "kept d e" for e
    using has_iface_kept [OF that assms] unfolding has_iface_def .
  obtain i0 where i0: "get_iface (if_id i) d = Some i0" "same_link i0 i" using here [OF kept_refl] by blast
  let ?d1 = "snd (cancel_pending_interface_tasks now (if_id i) (ts_apply_config wireguard_tasks) rename_text d)"
  obtain i1 where i1: "get_iface (if_id i) ?d1 = Some i1" "same_link i1 i" using here [OF cancel_pending_kept] by blast
  have h1: "has_iface i ?d1" by (rule has_iface_kept [OF cancel_pending_kept assms])
  show ?thesis
    unfolding enqueue_apply_config_def Let_def
  proof (rule keeps_intros(5))
    show "keeps d snd (rbind (enqueue_interface_task fresh now i (ts_apply_config wireguard_tasks)
        (build_apply_payload i b d) True True d) (\<lambda>(changed, _, d1). Inr (changed, d1)))"
      by (rule enqueue_keeps_then [OF i0]) (simp add: keeps_intros(2))
  qed (rule keeps_intros(4) [OF cancel_pending_kept], rule enqueue_keeps_then [OF i1],
      rule enqueue_reloaded [OF has_iface_kept [OF _ h1]], assumption,
      rule enqueue_reloaded [OF has_iface_kept [OF _ has_iface_kept [OF _ h1]]], assumption, assumption,
      simp add: keeps_intros(2))
qed

lemma deploy_side_keeps:
  assumes "has_iface i d"
  shows "keeps d (\<lambda>e. e) (deploy_side en cl i d)"
proof -
  have "has_iface (reload_iface i d) d"
    using reload_has(1) [OF assms] unfolding has_iface_def by (metis same_link_refl)
  then have k: "keeps d snd (enqueue_apply_config (en_fresh en) (en_now en) (reload_iface i d) True d)"
    by (rule apply_config_keeps)
  show ?thesis
    unfolding deploy_side_def
  proof (rule keeps_then [OF k])
    fix x :: "bool \<times> db"
    have "kept e (case (c, t) of (Some k, Some t) \<Rightarrow> put_task (wait_for k t) e | _ \<Rightarrow> e)" for e and c :: "int option" and t
      using task_frames_kept(1) by (cases c; cases t) simp_all
    then show "keeps (snd x) (\<lambda>e. e) (case x of (_, d1) \<Rightarrow>
        Inr (case (map_of cl (if_node_id i), get_interface_task (if_id i) (ts_apply_config wireguard_tasks) [Pending] d1) of
           (Some k, Some t) \<Rightarrow> put_task (wait_for k t) d1 | _ \<Rightarrow> d1))"
      unfolding case_prod_beta by (rule keeps_intros(2))
  qed
qed

section \<open>The rows of a new link\<close>

text \<open>Numbers of interfaces are unique, and every peer belongs to an interface that exists.\<close>

definition links_wf :: "db \<Rightarrow> bool" where
  "links_wf d = (tb_wf if_id (db_ifaces d) \<and> (\<forall>q \<in> set (db_peers d). pr_interface_id q \<in> if_id ` set (db_ifaces d)))"

lemma kept_wf: "kept d e \<Longrightarrow> links_wf d \<Longrightarrow> links_wf e"
proof -
  assume k: "kept d e" "links_wf d"
  then have m: "map if_id (db_ifaces e) = map if_id (db_ifaces d)" "db_peers e = db_peers d" by (simp_all add: kept_def)
  then have "if_id ` set (db_ifaces e) = if_id ` set (db_ifaces d)" by (metis list.set_map)
  moreover have "tb_wf if_id (db_ifaces e) = tb_wf if_id (db_ifaces d)" by (simp only: tb_wf_keys m)
  ultimately show "links_wf e" using k(2) m(2) by (simp add: links_wf_def)
qed

lemma fewer_peers_wf:
  "links_wf d \<Longrightarrow> set (db_peers e) \<subseteq> set (db_peers d) \<Longrightarrow> db_ifaces e = db_ifaces d \<Longrightarrow> links_wf e"
  unfolding links_wf_def by auto

lemma delete_row_wf: "delete_iface_row k d = Inr e \<Longrightarrow> links_wf d \<Longrightarrow> links_wf e"
  using tb_wf_del [of if_id "db_ifaces d" k]
  by (force simp: delete_iface_row_def links_wf_def tb_del_def split: if_splits)

lemma replaced_peer_wf: "links_wf d \<Longrightarrow> links_wf (snd (replaced_peer r d))"
proof (cases r)
  case (Some i)
  assume w: "links_wf d"
  show ?thesis
  proof (cases "get_unique_peer (if_id i) d")
    case (Inr x)
    have "set (db_peers (snd x)) \<subseteq> set (db_peers d)" "db_ifaces (snd x) = db_ifaces d"
      using Inr by (auto simp: get_unique_peer_def res_simps Let_def keep_first_peer_def split: if_splits)
    from fewer_peers_wf [OF w this] show ?thesis using Some Inr by (simp add: replaced_peer_def)
  qed (use Some w in \<open>simp add: replaced_peer_def\<close>)
qed (simp add: replaced_peer_def)

lemma same_iface_rows_kept:
  "kept d (snd (mark_import_candidate_available_for_interface i d))" "kept d (delete_link_monitors_where P d)"
  "kept d (cancel_draft_interface_change_plans k d)"
  by (rule kept_same; simp add: mark_import_candidate_available_for_interface_def delete_link_monitors_where_def
      cancel_draft_interface_change_plans_def Let_def split: option.split)+

lemma queue_replace_wf:
  assumes "has_iface i d" "queue_replace_interface fresh now i d = Inr e" "links_wf d"
  shows "links_wf e"
proof -
  let ?d1 = "snd (cancel_pending_interface_deployment_tasks now i d)"
  have k1: "kept d ?d1" by (rule cancel_deployment_kept)
  obtain i1 where i1: "get_iface (if_id i) ?d1 = Some i1" "same_link i1 i"
    using has_iface_kept [OF k1 assms(1)] unfolding has_iface_def by blast
  obtain c stop d2 c' del d3 where
    s: "enqueue_interface_task fresh now i (ts_stop wireguard_tasks)
          (stop_after (running_interface_deployment_task_id i ?d1)) True False ?d1 = Inr (c, stop, d2)"
    and t: "enqueue_interface_task fresh now (reload_iface i d2) (ts_delete_config wireguard_tasks)
          [(''depends_on_task_id'', JInt (tk_id stop))] True False d2 = Inr (c', del, d3)"
    and r: "delete_iface_row (if_id i) (cancel_draft_interface_change_plans (if_id i)
      (delete_link_monitors_where (\<lambda>m. mo_interface_id m = Some (if_id i))
        (snd (mark_import_candidate_available_for_interface (reload_iface i d3) d3)))) = Inr e"
    using assms(2) unfolding queue_replace_interface_def Let_def by (elim rbind_tripleE) blast
  have k2: "kept ?d1 d2" using keepsD [OF enqueue_keeps [OF i1] s] by simp
  have h2: "has_iface i d2" using has_iface_kept [OF kept_trans [OF k1 k2] assms(1)] .
  have k3: "kept d2 d3" using keepsD [OF enqueue_keeps [OF reload_has(1) [OF h2] same_link_refl] t] by simp
  have "links_wf d3" using kept_wf [OF kept_trans [OF kept_trans [OF k1 k2] k3] assms(3)] .
  then show ?thesis by (intro delete_row_wf [OF r] kept_wf [OF same_iface_rows_kept(3)]
      kept_wf [OF same_iface_rows_kept(2)] kept_wf [OF same_iface_rows_kept(1)])
qed

lemma replace_side_wf:
  assumes "\<forall>i. r = Some i \<longrightarrow> has_iface i d" "replace_side en r d = Inr (cl, e)" "links_wf d"
  shows "links_wf e"
  using assms queue_replace_wf by (cases r) (auto simp: replace_side_def res_simps)

lemma apply_middleware_shape:
  assumes "apply_middleware_to_peers m i j q r le pe lp pp = Inr (q', r')"
  obtains h o1 h' o2 where "q' = set_endpoint h o1 q" "r' = set_endpoint h' o2 r"
  using assms unfolding apply_middleware_to_peers_def apply_udp2raw_to_peers_def direct_endpoint_def Let_def
  by (auto split: if_splits)

lemma get_iface_append:
  "get_iface k (d\<lparr>db_ifaces := db_ifaces d @ [i]\<rparr>) = (case get_iface k d of Some j \<Rightarrow> Some j | None \<Rightarrow> if if_id i = k then Some i else None)"
  by (auto simp: get_iface_def table_simps split: option.split)

text \<open>The new rows: both interfaces with fresh numbers, and one peer each.\<close>

definition new_rows :: "db \<Rightarrow> iface \<Rightarrow> iface \<Rightarrow> peer \<Rightarrow> peer \<Rightarrow> db \<Rightarrow> bool" where
  "new_rows d i j q r e = (db_peers e = db_peers d @ [q, r] \<and> get_iface (if_id i) e = Some i \<and> get_iface (if_id j) e = Some j \<and>
     if_id i \<notin> if_id ` set (db_ifaces d) \<and> if_id j \<notin> if_id ` set (db_ifaces d) \<and> if_id i \<noteq> if_id j \<and>
     0 < if_id i \<and> 0 < if_id j)"

lemma create_link_rows_shape:
  assumes "create_link_rows ky n p ln pn m ends d = Inr (i, j, e)"
  shows "\<exists>q r h o1 h' o2. new_rows d i j q r e \<and>
     i = (fill_local p m (new_link_iface n (ky_local ky)))\<lparr>if_id := if_id i\<rparr> \<and>
     j = (fill_peer_side p m (new_link_iface (lc_peer_node p) (ky_peer ky)))\<lparr>if_id := if_id j\<rparr> \<and>
     q = (set_endpoint h o1 (fill_local_peer p (new_link_peer i j (nd_name pn) (snd (ky_peer ky)) (ky_preshared ky))))\<lparr>pr_id := pr_id q\<rparr> \<and>
     r = (set_endpoint h' o2 (fill_peer_peer p (new_link_peer j i (nd_name ln) (snd (ky_local ky)) (ky_preshared ky))))\<lparr>pr_id := pr_id r\<rparr>"
proof -
  let ?ia = "fill_local p m (new_link_iface n (ky_local ky))" and ?ja = "fill_peer_side p m (new_link_iface (lc_peer_node p) (ky_peer ky))"
  let ?i = "?ia\<lparr>if_id := next_id if_id (db_ifaces d)\<rparr>"
  let ?d1 = "d\<lparr>db_ifaces := db_ifaces d @ [?i]\<rparr>"
  let ?j = "?ja\<lparr>if_id := next_id if_id (db_ifaces ?d1)\<rparr>"
  let ?d2 = "?d1\<lparr>db_ifaces := db_ifaces ?d1 @ [?j]\<rparr>"
  obtain q0 r0 where a: "apply_middleware_to_peers m ?i ?j
        (fill_local_peer p (new_link_peer ?i ?j (nd_name pn) (snd (ky_peer ky)) (ky_preshared ky)))
        (fill_peer_peer p (new_link_peer ?j ?i (nd_name ln) (snd (ky_local ky)) (ky_preshared ky)))
        (fst ends) (snd ends) (lk_local_endpoint_port p) (lk_peer_endpoint_port p) = Inr (q0, r0)"
    and ij: "i = ?i" "j = ?j" "e = snd (add_peer r0 (snd (add_peer q0 ?d2)))"
    using assms unfolding create_link_rows_def add_iface_def Let_def prod.case by (elim rbind_pairE) blast
  obtain h o1 h' o2 where shape: "q0 = set_endpoint h o1 (fill_local_peer p (new_link_peer ?i ?j (nd_name pn) (snd (ky_peer ky)) (ky_preshared ky)))"
    "r0 = set_endpoint h' o2 (fill_peer_peer p (new_link_peer ?j ?i (nd_name ln) (snd (ky_local ky)) (ky_preshared ky)))"
    by (rule apply_middleware_shape [OF a])
  let ?q = "q0\<lparr>pr_id := next_id pr_id (db_peers d)\<rparr>"
  let ?r = "r0\<lparr>pr_id := next_id pr_id (db_peers d @ [?q])\<rparr>"
  have fresh: "next_id if_id (db_ifaces d) \<notin> if_id ` set (db_ifaces d)"
    "next_id if_id (db_ifaces ?d1) \<notin> if_id ` set (db_ifaces ?d1)" by (rule next_id_fresh)+
  have none: "get_iface (if_id ?i) d = None" "get_iface (if_id ?j) ?d1 = None"
    using fresh by (simp_all add: get_iface_def tb_get_None_iff)
  have gi: "get_iface (if_id ?i) ?d1 = Some ?i" using none(1) by (simp add: get_iface_append)
  have gj: "get_iface (if_id ?j) ?d2 = Some ?j" "get_iface (if_id ?i) ?d2 = Some ?i"
    unfolding get_iface_append [of _ ?d1] using none(2) gi by simp_all
  have "new_rows d i j ?q ?r e"
    unfolding new_rows_def ij using fresh gj by (simp add: add_peer_def Let_def get_iface_def)
  moreover have "i = ?ia\<lparr>if_id := if_id i\<rparr>" "j = ?ja\<lparr>if_id := if_id j\<rparr>"
    unfolding ij by simp_all
  moreover have "?q = (set_endpoint h o1 (fill_local_peer p (new_link_peer i j (nd_name pn) (snd (ky_peer ky)) (ky_preshared ky))))\<lparr>pr_id := pr_id ?q\<rparr>"
    "?r = (set_endpoint h' o2 (fill_peer_peer p (new_link_peer j i (nd_name ln) (snd (ky_local ky)) (ky_preshared ky))))\<lparr>pr_id := pr_id ?r\<rparr>"
    unfolding ij shape by simp_all
  ultimately show ?thesis
    apply -
    apply (rule exI [of _ ?q], rule exI [of _ ?r], rule exI [of _ h], rule exI [of _ o1], rule exI [of _ h'], rule exI [of _ o2])
    apply (rule conjI, assumption)
    apply (rule conjI, assumption)
    apply (rule conjI, assumption)
    apply (rule conjI, assumption)
    apply assumption
    done
qed


text \<open>Removing one imported interface leaves the others.\<close>

lemma has_iface_rows:
  "db_ifaces e = db_ifaces d \<Longrightarrow> has_iface i d \<Longrightarrow> has_iface i e"
  by (simp add: has_iface_def get_iface_def)

lemma delete_row_other:
  "delete_iface_row k d = Inr e \<Longrightarrow> has_iface i d \<Longrightarrow> if_id i \<noteq> k \<Longrightarrow> has_iface i e"
  by (auto simp: delete_iface_row_def has_iface_def get_iface_def table_simps split: if_splits)

lemma queue_replace_other:
  assumes "queue_replace_interface fresh now i d = Inr e" "has_iface i d" "has_iface j d" "if_id j \<noteq> if_id i"
  shows "has_iface j e"
proof -
  let ?d1 = "snd (cancel_pending_interface_deployment_tasks now i d)"
  have k1: "kept d ?d1" by (rule cancel_deployment_kept)
  obtain i1 where i1: "get_iface (if_id i) ?d1 = Some i1" "same_link i1 i"
    using has_iface_kept [OF k1 assms(2)] unfolding has_iface_def by blast
  obtain c stop d2 c' del d3 where
    s: "enqueue_interface_task fresh now i (ts_stop wireguard_tasks)
          (stop_after (running_interface_deployment_task_id i ?d1)) True False ?d1 = Inr (c, stop, d2)"
    and t: "enqueue_interface_task fresh now (reload_iface i d2) (ts_delete_config wireguard_tasks)
          [(''depends_on_task_id'', JInt (tk_id stop))] True False d2 = Inr (c', del, d3)"
    and r: "delete_iface_row (if_id i) (cancel_draft_interface_change_plans (if_id i)
      (delete_link_monitors_where (\<lambda>m. mo_interface_id m = Some (if_id i))
        (snd (mark_import_candidate_available_for_interface (reload_iface i d3) d3)))) = Inr e"
    using assms(1) unfolding queue_replace_interface_def Let_def by (elim rbind_tripleE) blast
  have k2: "kept ?d1 d2" using keepsD [OF enqueue_keeps [OF i1] s] by simp
  have k3: "kept d2 d3"
    using keepsD [OF enqueue_keeps [OF reload_has(1) [OF has_iface_kept [OF kept_trans [OF k1 k2] assms(2)]] same_link_refl] t]
    by simp
  have k: "kept d d3" by (rule kept_trans [OF kept_trans [OF k1 k2] k3])
  show ?thesis
    by (rule delete_row_other [OF r _ assms(4)],
        rule has_iface_kept [OF same_iface_rows_kept(3)], rule has_iface_kept [OF same_iface_rows_kept(2)],
        rule has_iface_kept [OF same_iface_rows_kept(1)], rule has_iface_kept [OF k assms(3)])
qed

lemma replace_side_other:
  assumes "replace_side en r d = Inr (cl, e)" "\<forall>i. r = Some i \<longrightarrow> has_iface i d \<and> if_id j \<noteq> if_id i" "has_iface j d"
  shows "has_iface j e"
  using assms queue_replace_other by (cases r) (auto simp: replace_side_def res_simps)

lemma replaced_row:
  assumes "get_replace_interface k n d = Inr r" "r = Some i"
  shows "has_iface i d" "if_node_id i = n"
  using assms ifaces.get_key [of _ d i]
  by (auto simp: get_replace_interface_def has_iface_def split: option.splits if_splits)

lemma replaced_peer_ifaces: "db_ifaces (snd (replaced_peer r d)) = db_ifaces d"
  by (auto simp: replaced_peer_def get_unique_peer_def res_simps Let_def keep_first_peer_def split: option.split sum.split)

lemma links_wf_unique:
  assumes "links_wf d" "has_iface i d" "has_iface j d" "if_id i = if_id j"
  shows "if_node_id i = if_node_id j"
  using assms same_link_fields(2) unfolding has_iface_def by (metis option.sel)


lemma new_rows_has: "new_rows d i j q r e \<Longrightarrow> has_iface i e \<and> has_iface j e"
  unfolding new_rows_def has_iface_def by (simp add: same_link_refl)

text \<open>A creation that succeeds: checks, the rows of \<open>create_link_rows\<close> on a database without the
  replaced interfaces, then tasks only.\<close>

lemma create_link_on_rows:
  assumes "create_link_on en ky n p ln pn rl rp d = Inr (i, j, e)" "links_wf d"
    "\<forall>x. rl = Some x \<longrightarrow> has_iface x d" "\<forall>x. rp = Some x \<longrightarrow> has_iface x d"
    "\<forall>x y. rl = Some x \<longrightarrow> rp = Some y \<longrightarrow> if_id x \<noteq> if_id y"
  obtains m ends d2 d3 d4 where "normalize_middleware_config (ky_token ky) (lk_udp2raw p) (lk_mimic p) = Inr m"
    "validate_udp2raw_port_conflicts m (lk_local_port p) (lk_peer_port p) = Inr ()"
    "require_managed_link_endpoints (lk_local_host p) (lk_peer_host p) = Inr ends"
    "links_wf d2" "create_link_rows ky n p ln pn m ends d2 = Inr (i, j, d3)"
    "enqueue_middleware_tasks en m i j (fst ends) (snd ends) (lk_local_endpoint_port p) (lk_peer_endpoint_port p) d3 = Inr d4"
    "kept d3 e"
proof -
  obtain m u ends cl d1 cp d2 d3 d4 d5 where
    m: "normalize_middleware_config (ky_token ky) (lk_udp2raw p) (lk_mimic p) = Inr m"
    "validate_udp2raw_port_conflicts m (lk_local_port p) (lk_peer_port p) = Inr u"
    "require_managed_link_endpoints (lk_local_host p) (lk_peer_host p) = Inr ends"
    and r1: "replace_side en rl d = Inr (cl, d1)" and r2: "replace_side en rp d1 = Inr (cp, d2)"
    and rows: "create_link_rows ky n p ln pn m ends d2 = Inr (i, j, d3)"
    and t: "enqueue_middleware_tasks en m i j (fst ends) (snd ends) (lk_local_endpoint_port p)
      (lk_peer_endpoint_port p) d3 = Inr d4"
    and s: "deploy_side en (cp @ cl) i d4 = Inr d5" "deploy_side en (cp @ cl) j d5 = Inr e"
    using assms(1) unfolding create_link_on_def
    by (elim rbind_tripleE rbind_pairE rbindE) (erule Inr_tripleE, hypsubst, rule that, assumption+)
  have w1: "links_wf d1" by (rule replace_side_wf [OF assms(3) r1 assms(2)])
  have h2: "\<forall>y. rp = Some y \<longrightarrow> has_iface y d1"
    using replace_side_other [OF r1] assms(3-5) by metis
  have w2: "links_wf d2" by (rule replace_side_wf [OF h2 r2 w1])
  obtain q r where "new_rows d2 i j q r d3" using create_link_rows_shape [OF rows] by blast
  then have h3: "has_iface i d3" "has_iface j d3" using new_rows_has by blast+
  have k4: "kept d3 d4" by (rule keepsD [OF enqueue_middleware_keeps [OF h3] t])
  have k5: "kept d4 d5" by (rule keepsD [OF deploy_side_keeps [OF has_iface_kept [OF k4 h3(1)]] s(1)])
  have k6: "kept d5 e"
    by (rule keepsD [OF deploy_side_keeps [OF has_iface_kept [OF k5 has_iface_kept [OF k4 h3(2)]]] s(2)])
  show ?thesis
    by (rule that [OF m(1) _ m(3) w2 rows t kept_trans [OF kept_trans [OF k4 k5] k6]]) (use m(2) in simp)
qed

lemma create_link_cases:
  assumes "create_managed_link en ky n p d = (Inr (i, j), e)" "links_wf d"
  obtains m ends ln pn d2 d3 d4 where "n \<noteq> lc_peer_node p"
    "normalize_middleware_config (ky_token ky) (lk_udp2raw p) (lk_mimic p) = Inr m"
    "validate_udp2raw_port_conflicts m (lk_local_port p) (lk_peer_port p) = Inr ()"
    "require_managed_link_endpoints (lk_local_host p) (lk_peer_host p) = Inr ends"
    "links_wf d2" "create_link_rows ky n p ln pn m ends d2 = Inr (i, j, d3)"
    "enqueue_middleware_tasks en m i j (fst ends) (snd ends) (lk_local_endpoint_port p) (lk_peer_endpoint_port p) d3 = Inr d4"
    "kept d3 e"
proof -
  obtain ln pn rl rp where l: "link_nodes en n p d = Inr (ln, pn, rl, rp)"
    using assms(1) by (auto simp: create_managed_link_def split: sum.splits)
  have ne: "n \<noteq> lc_peer_node p" and gl: "get_replace_interface (lc_replace_local p) n d = Inr rl"
    and gp: "get_replace_interface (lc_replace_peer p) (lc_peer_node p) d = Inr rp"
    using l unfolding link_nodes_def ensure_def by (auto simp: res_simps split: if_splits)
  let ?d1 = "snd (replaced_peer rl d)"
  let ?d2 = "snd (replaced_peer rp ?d1)"
  have c: "create_link_on en ky n p ln pn rl rp ?d2 = Inr (i, j, e)"
    using assms(1) unfolding create_managed_link_def l Let_def
    by (auto simp: case_prod_beta split: sum.splits if_splits)
  have w: "links_wf ?d2" by (rule replaced_peer_wf [OF replaced_peer_wf [OF assms(2)]])
  have h: "has_iface x ?d2" if "has_iface x d" for x
    by (rule has_iface_rows [OF _ that]) (simp add: replaced_peer_ifaces)
  have hl: "\<forall>x. rl = Some x \<longrightarrow> has_iface x ?d2" using replaced_row(1) [OF gl] h by blast
  have hp: "\<forall>x. rp = Some x \<longrightarrow> has_iface x ?d2" using replaced_row(1) [OF gp] h by blast
  have df: "\<forall>x y. rl = Some x \<longrightarrow> rp = Some y \<longrightarrow> if_id x \<noteq> if_id y"
    using replaced_row [OF gl] replaced_row [OF gp] links_wf_unique [OF assms(2)] ne by metis
  show ?thesis by (rule create_link_on_rows [OF c w hl hp df]) (rule that [OF ne])
qed


section \<open>A new link fits together\<close>

lemma new_rows_peers:
  assumes "new_rows d i j q r e" "links_wf d" "pr_interface_id q = if_id i" "pr_interface_id r = if_id j"
  shows "if_id x = if_id i \<Longrightarrow> iface_peers x e = [q]" "if_id x = if_id j \<Longrightarrow> iface_peers x e = [r]"
proof -
  have none: "filter (\<lambda>p. pr_interface_id p = k) (db_peers d) = []" if "k \<notin> if_id ` set (db_ifaces d)" for k
    using assms(2) that unfolding links_wf_def by (auto simp: filter_empty_conv)
  show "if_id x = if_id i \<Longrightarrow> iface_peers x e = [q]" "if_id x = if_id j \<Longrightarrow> iface_peers x e = [r]"
    using assms(1,3,4) none unfolding new_rows_def iface_peers_def by auto
qed

lemma fill_middleware:
  "managed_link_middleware (fill_side p a t l c m i) =
     (case m of None \<Rightarrow> None | Some f \<Rightarrow> if truthy (dget f ''enabled'') then Some f else None)"
  by (auto simp: managed_link_middleware_def fill_side_def set_extra_object_def middleware_json_def Let_def
      json_object_def split: option.split)

lemma middleware_id: "managed_link_middleware (i\<lparr>if_id := k\<rparr>) = managed_link_middleware i"
  by (simp add: managed_link_middleware_def)

lemma create_link_rows_ids:
  assumes "create_link_rows ky n p ln pn m ends d = Inr (i, j, e)"
  obtains q r where "new_rows d i j q r e" "pr_interface_id q = if_id i" "pr_interface_id r = if_id j"
    "if_listen_port i = lk_local_port p" "if_listen_port j = lk_peer_port p"
proof -
  obtain q r h o1 h' o2 where nr: "new_rows d i j q r e"
    and i: "i = (fill_local p m (new_link_iface n (ky_local ky)))\<lparr>if_id := if_id i\<rparr>"
    and j: "j = (fill_peer_side p m (new_link_iface (lc_peer_node p) (ky_peer ky)))\<lparr>if_id := if_id j\<rparr>"
    and q: "q = (set_endpoint h o1 (fill_local_peer p (new_link_peer i j (nd_name pn) (snd (ky_peer ky)) (ky_preshared ky))))\<lparr>pr_id := pr_id q\<rparr>"
    and r: "r = (set_endpoint h' o2 (fill_peer_peer p (new_link_peer j i (nd_name ln) (snd (ky_local ky)) (ky_preshared ky))))\<lparr>pr_id := pr_id r\<rparr>"
    using create_link_rows_shape [OF assms] by blast
  show ?thesis
  proof (rule that [OF nr])
    show "pr_interface_id q = if_id i" by (rule trans [OF arg_cong [OF q, of pr_interface_id]])
      (simp add: set_endpoint_def fill_local_peer_def fill_link_peer_def new_link_peer_def new_peer_def)
    show "pr_interface_id r = if_id j" by (rule trans [OF arg_cong [OF r, of pr_interface_id]])
      (simp add: set_endpoint_def fill_peer_peer_def fill_link_peer_def new_link_peer_def new_peer_def)
    show "if_listen_port i = lk_local_port p" by (rule trans [OF arg_cong [OF i, of if_listen_port]])
      (simp add: fill_local_def fill_side_def)
    show "if_listen_port j = lk_peer_port p" by (rule trans [OF arg_cong [OF j, of if_listen_port]])
      (simp add: fill_peer_side_def fill_side_def)
  qed
qed

lemma create_link_rows_wf:
  assumes "create_link_rows ky n p ln pn m ends d = Inr (i, j, e)" "links_wf d"
  shows "links_wf e"
proof -
  obtain q r where nr: "new_rows d i j q r e" "pr_interface_id q = if_id i" "pr_interface_id r = if_id j"
    by (rule create_link_rows_ids [OF assms(1)])
  obtain a b where ab: "db_ifaces e = (db_ifaces d @ [a]) @ [b]" "if_id a = next_id if_id (db_ifaces d)"
      "if_id b = next_id if_id (db_ifaces d @ [a])" "if_id i = if_id a" "if_id j = if_id b"
    using assms(1) unfolding create_link_rows_def
    by (auto simp: add_iface_def add_peer_def Let_def res_simps)
  have "tb_wf if_id (db_ifaces e)"
    unfolding ab(1) using assms(2) unfolding links_wf_def by (intro tb_wf_insert ab(2,3)) blast
  then show ?thesis
    using assms(2) nr ab(1,4,5) unfolding links_wf_def new_rows_def by (auto simp del: tb_wf_def)
qed

text \<open>What the two rows of a new peer say of the interfaces they join.\<close>

definition faces :: "peer \<Rightarrow> iface \<Rightarrow> iface \<Rightarrow> bool" where
  "faces q i j = (pr_interface_id q = if_id i \<and> pr_peer_interface_id q = Some (if_id j) \<and>
     pr_peer_node_id q = Some (if_node_id j) \<and> if_public_key j = Some (pr_public_key q) \<and> pr_source q = ''managed-node'')"

lemma new_peer_faces:
  "q = (set_endpoint h k (fill_link_peer p al tu cu (new_link_peer i j name public pre)))\<lparr>pr_id := x\<rparr> \<Longrightarrow>
     if_public_key j = Some public \<Longrightarrow> faces q i j \<and> pr_preshared_key_value q = Some pre"
  by (simp add: faces_def set_endpoint_def fill_link_peer_def new_link_peer_def new_peer_def)

lemma bundle_of_faces:
  assumes "get_iface (if_id i) e = Some i" "get_iface (if_id j) e = Some j" "iface_peers i e = [q]" "iface_peers j e = [r]"
    "faces q i j" "faces r j i" "if_id i \<noteq> 0" "if_id j \<noteq> 0"
  shows "get_managed_link_bundle (if_id i) e = Inr (i, j, q, r)"
  using assms by (simp add: get_managed_link_bundle_def link_peer_of_def faces_def some_or_def)

lemma faces_same_link: "faces q i j \<Longrightarrow> same_link i i' \<Longrightarrow> same_link j j' \<Longrightarrow> faces q i' j'"
  using same_link_fields [of i i'] same_link_fields [of j j'] by (simp add: faces_def)

lemma kept_peers: "kept d e \<Longrightarrow> if_id i' = if_id i \<Longrightarrow> iface_peers i' e = iface_peers i d"
  by (simp add: kept_def iface_peers_def)

text \<open>C7: a link that was created is found from either end, as the same two interfaces and two peers:
  each interface is on its node, each peer carries the public key of the other side's interface and
  names it, both peers share one preshared key, and both interfaces tell the same middleware.\<close>

theorem created_link_is_mutual:
  assumes "links_wf d" "create_managed_link en ky n p d = (Inr (i, j), e)"
  shows "\<exists>i' j' q r. get_managed_link_bundle (if_id i) e = Inr (i', j', q, r) \<and>
     get_managed_link_bundle (if_id j) e = Inr (j', i', r, q) \<and>
     if_node_id i' = n \<and> if_node_id j' = lc_peer_node p \<and> n \<noteq> lc_peer_node p \<and>
     faces q i' j' \<and> faces r j' i' \<and> pr_preshared_key_value q = pr_preshared_key_value r \<and>
     managed_link_middleware i' = managed_link_middleware j' \<and> links_wf e"
proof -
  obtain m ends ln pn d2 d3 d4 where ne: "n \<noteq> lc_peer_node p" and w: "links_wf d2"
    and rows: "create_link_rows ky n p ln pn m ends d2 = Inr (i, j, d3)" and k: "kept d3 e"
    by (rule create_link_cases [OF assms(2,1)])
  obtain q r h o1 h' o2 where nr: "new_rows d2 i j q r d3"
    and i: "i = (fill_local p m (new_link_iface n (ky_local ky)))\<lparr>if_id := if_id i\<rparr>"
    and j: "j = (fill_peer_side p m (new_link_iface (lc_peer_node p) (ky_peer ky)))\<lparr>if_id := if_id j\<rparr>"
    and q: "q = (set_endpoint h o1 (fill_local_peer p (new_link_peer i j (nd_name pn) (snd (ky_peer ky)) (ky_preshared ky))))\<lparr>pr_id := pr_id q\<rparr>"
    and r: "r = (set_endpoint h' o2 (fill_peer_peer p (new_link_peer j i (nd_name ln) (snd (ky_local ky)) (ky_preshared ky))))\<lparr>pr_id := pr_id r\<rparr>"
    using create_link_rows_shape [OF rows] by blast
  have fi: "if_node_id i = n" "if_public_key i = Some (snd (ky_local ky))"
    by (subst i, simp add: fill_local_def fill_side_def new_link_iface_def new_iface_def)+
  have fj: "if_node_id j = lc_peer_node p" "if_public_key j = Some (snd (ky_peer ky))"
    by (subst j, simp add: fill_peer_side_def fill_side_def new_link_iface_def new_iface_def)+
  have mw: "managed_link_middleware i = managed_link_middleware j"
    by (subst i, subst j) (simp only: middleware_id fill_middleware fill_local_def fill_peer_side_def)
  have fq: "faces q i j" "pr_preshared_key_value q = Some (ky_preshared ky)"
    using new_peer_faces [OF q [unfolded fill_local_peer_def] fj(2)] by blast+
  have fr: "faces r j i" "pr_preshared_key_value r = Some (ky_preshared ky)"
    using new_peer_faces [OF r [unfolded fill_peer_peer_def] fi(2)] by blast+
  have pk: "pr_interface_id q = if_id i" "pr_interface_id r = if_id j" using fq(1) fr(1) by (simp_all add: faces_def)
  have g: "get_iface (if_id i) d3 = Some i" "get_iface (if_id j) d3 = Some j" "if_id i \<noteq> 0" "if_id j \<noteq> 0"
    using nr by (simp_all add: new_rows_def)
  obtain i' where i': "get_iface (if_id i) e = Some i'" "same_link i i'" by (rule kept_iface [OF k g(1)])
  obtain j' where j': "get_iface (if_id j) e = Some j'" "same_link j j'" by (rule kept_iface [OF k g(2)])
  note si = same_link_fields [OF i'(2)] and sj = same_link_fields [OF j'(2)]
  have ps: "iface_peers i' e = [q]" "iface_peers j' e = [r]"
    using new_rows_peers [OF nr w pk] kept_peers [OF k] si(1) sj(1) by metis+
  have f: "faces q i' j'" "faces r j' i'" using faces_same_link fq(1) fr(1) i'(2) j'(2) by blast+
  have "get_managed_link_bundle (if_id i') e = Inr (i', j', q, r)"
    by (rule bundle_of_faces [OF _ _ ps f]) (simp_all add: si(1) sj(1) i'(1) j'(1) g(3,4))
  moreover have "get_managed_link_bundle (if_id j') e = Inr (j', i', r, q)"
    by (rule bundle_of_faces [OF _ _ ps(2,1) f(2,1)]) (simp_all add: si(1) sj(1) i'(1) j'(1) g(3,4))
  moreover have "links_wf e"
  proof (rule kept_wf [OF k])
    have fresh: "links_wf d3" using rows w by (rule create_link_rows_wf)
    then show "links_wf d3" .
  qed
  ultimately show ?thesis using ne f fq(2) fr(2) mw fi(1) fj(1)
    by (intro exI [of _ i'] exI [of _ j'] exI [of _ q] exI [of _ r]) (simp add: si sj)
qed


section \<open>The path through a udp2raw tunnel\<close>

lemma create_link_rows_peers:
  assumes "create_link_rows ky n p ln pn m ends d = Inr (i, j, e)"
  obtains q r a b where
    "apply_middleware_to_peers m i j (fill_local_peer p (new_link_peer i j (nd_name pn) (snd (ky_peer ky)) (ky_preshared ky)))
        (fill_peer_peer p (new_link_peer j i (nd_name ln) (snd (ky_local ky)) (ky_preshared ky)))
        (fst ends) (snd ends) (lk_local_endpoint_port p) (lk_peer_endpoint_port p) = Inr (q, r)"
    "db_peers e = db_peers d @ [q\<lparr>pr_id := a\<rparr>, r\<lparr>pr_id := b\<rparr>]"
  using assms that unfolding create_link_rows_def add_iface_def Let_def prod.case
  by (elim rbind_pairE) (erule Inr_tripleE, hypsubst, simp add: add_peer_def Let_def)

lemma udp2raw_side: "udp2raw_config v = Inr u \<Longrightarrow> up_server_side u = ''local'' \<or> up_server_side u = ''peer''"
  unfolding udp2raw_config_def ensure_def res_simps by (auto split: if_splits)

text \<open>The values of a normal form.\<close>

lemma normal_udp2raw:
  assumes "normalize_middleware_config token (Some u) mi = Inr m" "up_enabled u"
  obtains f where "m = Some f" "is_type ''udp2raw'' m" "dget f ''server_side'' = JStr (up_server_side u)"
    "dget f ''server_forward_port'' = jopt_int (up_server_forward_port u)"
    "\<exists>h. dget f ''client_listen_host'' = JStr h" "\<exists>k. dget f ''client_listen_port'' = JInt k" "dget f ''enabled'' = JBool True"
proof -
  obtain x where n: "normalize_udp2raw_config token (Some u) = Inr x" "x \<noteq> None \<Longrightarrow> m = x"
    using assms(1) unfolding normalize_middleware_config_def res_simps by (auto split: if_splits)
  obtain f where f: "x = Some f" "dget f ''type'' = JStr ''udp2raw''" "dget f ''server_side'' = JStr (up_server_side u)"
    "dget f ''server_forward_port'' = jopt_int (up_server_forward_port u)"
    "\<exists>h. dget f ''client_listen_host'' = JStr h" "\<exists>k. dget f ''client_listen_port'' = JInt k" "dget f ''enabled'' = JBool True"
    using n(1) assms(2) unfolding normalize_udp2raw_config_def option.case
    by (simp only: not_True_eq_False if_False) (elim rbindE, clarsimp)
  show ?thesis by (rule that [of f]) (use f n(2) in \<open>simp_all add: is_type_def\<close>)
qed


definition serves :: "fields \<Rightarrow> iface \<Rightarrow> iface \<Rightarrow> iface \<times> iface" where
  "serves f i j = (if dget f ''server_side'' = JStr ''peer'' then (j, i) else (i, j))"

text \<open>The two orders: the same secrets and modes, the client's remote port is the one the server
  listens on, and the server forwards to a given port or to WireGuard's.\<close>

definition orders_match :: "iface \<Rightarrow> fields \<Rightarrow> fields \<Rightarrow> bool" where
  "orders_match server sp cp = (
     list_all (\<lambda>k. dget cp k = dget sp k) [''plugin'', ''instance'', ''raw_mode'', ''cipher_mode'', ''auth_mode'', ''password'', ''auto_rule''] \<and>
     dget cp ''remote_port'' = dget sp ''listen_port'' \<and> dget sp ''mode'' = JStr ''server'' \<and> dget cp ''mode'' = JStr ''client'')"

lemma orders_shape:
  assumes "udp2raw_endpoint_payloads f i j le pe = Inr ords" "serves f i j = (server, client)"
  obtains sp cp where "ords = [(server, ''middleware.udp2raw.apply'', sp), (client, ''middleware.udp2raw.apply'', cp)]"
    "orders_match server sp cp" "if_listen_port server \<noteq> None"
    "dget sp ''remote_port'' = or_json (dget f ''server_forward_port'') (jopt_int (if_listen_port server))"
    "dget cp ''listen_host'' = dget f ''client_listen_host''" "dget cp ''listen_port'' = dget f ''client_listen_port''"
proof -
  have sc: "server = (if dget f ''server_side'' = JStr ''peer'' then j else i)" "client = (if dget f ''server_side'' = JStr ''peer'' then i else j)"
    using assms(2) by (auto simp: serves_def split: if_splits)
  show ?thesis
    using assms(1) unfolding udp2raw_endpoint_payloads_def Let_def sc [symmetric]
    by (elim if_InrE rbindE Inr_E) (rule that, assumption, simp_all add: orders_match_def)
qed

text \<open>What \<open>apply_middleware_to_peers\<close> writes in front of a tunnel.\<close>

lemma tunnel_peers:
  assumes "apply_middleware_to_peers m i j q r le pe lp pp = Inr (q', r')" "m = Some f" "is_type ''udp2raw'' m"
    "serves f i j = (server, client)"
  shows "(if dget f ''server_side'' = JStr ''peer'' then q' else r') = set_endpoint (json_text (dget f ''client_listen_host''))
       (json_num (dget f ''client_listen_port'')) (if dget f ''server_side'' = JStr ''peer'' then q else r)"
  using assms unfolding apply_middleware_to_peers_def apply_udp2raw_to_peers_def Let_def serves_def
  by (auto split: if_splits)


lemma no_port_conflict:
  assumes "validate_udp2raw_port_conflicts m lp pp = Inr ()" "m = Some f" "is_type ''udp2raw'' m"
    "dget f ''server_side'' = JStr side" "side = ''local'' \<or> side = ''peer''" "serves f i j = (server, client)"
    "if_listen_port i = lp" "if_listen_port j = pp"
  shows "dget f ''client_listen_port'' \<noteq> jopt_int (if_listen_port client)"
  using assms unfolding validate_udp2raw_port_conflicts_def server_is_local_def serves_def Let_def
  by (auto split: if_splits)

lemma set_endpoint_fields:
  "pr_endpoint_host (set_endpoint h k x) = h" "pr_endpoint_port (set_endpoint h k x) = k"
  by (simp_all add: set_endpoint_def)


end
