(* ===== verification/IpRound.thy ===== *)
theory IpRound
  imports IpAddress
begin

text \<open>
  The compressed text of an address is read back as that address, for both versions and with a
  zone: what the agents write into commands and files, and read again.
\<close>

section \<open>Splitting\<close>

lemma split_on_sep: "split_on d (a @ d # b) = split_on d a @ split_on d b"
proof (induction a)
  case (Cons c a)
  then show ?case by (cases "split_on d a") (auto split: list.split)
qed simp

lemma split_on_join:
  assumes "\<forall>x \<in> set xs. d \<notin> set x"
  shows "split_on d (join [d] xs) = (if xs = [] then [[]] else xs)"
  using assms
proof (induction "[d]" xs rule: join.induct)
  case (3 x y ys)
  then show ?case using split_on_append [of d x "join [d] (y # ys)"] by simp
qed (simp_all add: split_on_no)

section \<open>Hexadecimal digits\<close>

lemma hex_char_facts:
  assumes "0 \<le> n" "n < 16"
  shows "is_hex (hex_char n)" "hex_value (hex_char n) = n"
proof -
  have "n \<in> set [0..15]" using assms by simp
  moreover have "list_all (\<lambda>n. is_hex (hex_char n) \<and> hex_value (hex_char n) = n) [0..15]" by code_simp
  ultimately show "is_hex (hex_char n)" "hex_value (hex_char n) = n" unfolding list_all_iff by blast+
qed

lemma hex_number_append: "hex_number acc (s @ t) = hex_number (hex_number acc s) t"
  by (induction s arbitrary: acc) simp_all

lemma show_hex_facts:
  "0 \<le> n \<Longrightarrow> list_all is_hex (show_hex n) \<and> show_hex n \<noteq> [] \<and> hex_number 0 (show_hex n) = n"
proof (induction n rule: show_hex.induct)
  case (1 n)
  show ?case
  proof (cases "n < 16")
    case True
    then show ?thesis using 1 hex_char_facts [of n] by (subst (1 2 3) show_hex.simps) simp
  next
    case False
    have m: "is_hex (hex_char (n mod 16))" "hex_value (hex_char (n mod 16)) = n mod 16"
      using hex_char_facts [of "n mod 16"] by simp_all
    have "list_all is_hex (show_hex (n div 16)) \<and> show_hex (n div 16) \<noteq> [] \<and> hex_number 0 (show_hex (n div 16)) = n div 16"
      using 1 False by (simp add: div_int_pos_iff)
    then show ?thesis using False m by (subst (1 2 3) show_hex.simps) (simp add: hex_number_append)
  qed
qed

lemma show_hex_length: "0 \<le> n \<Longrightarrow> n < 16 ^ k \<Longrightarrow> 0 < k \<Longrightarrow> length (show_hex n) \<le> k"
proof (induction n arbitrary: k rule: show_hex.induct)
  case (1 n)
  show ?case
  proof (cases "n < 16")
    case True
    then show ?thesis using 1 by (subst show_hex.simps) simp
  next
    case False
    have "k \<noteq> 1" using False "1.prems" by auto
    then obtain j where j: "k = Suc j" "0 < j" using "1.prems"(3) by (cases k) auto
    have "n div 16 < 16 ^ j" using "1.prems" j by (simp add: div_less_iff_less_mult)
    then have "length (show_hex (n div 16)) \<le> j" using 1 False j by (simp add: div_int_pos_iff)
    then show ?thesis using False j by (subst show_hex.simps) simp
  qed
qed

lemma parse_show_hextet: "0 \<le> h \<Longrightarrow> h < 65536 \<Longrightarrow> parse_hextet (show_hex h) = Some h"
  using show_hex_facts [of h] show_hex_length [of h 4] by (simp add: parse_hextet_def)

lemma parse_show_hextets: "list_all (\<lambda>h. 0 \<le> h \<and> h < 65536) hs \<Longrightarrow> parse_hextets (map show_hex hs) = Some hs"
  by (induction hs) (simp_all add: parse_show_hextet)

lemma not_hex: "\<not> is_hex (CHR '':'')" "\<not> is_hex (CHR ''.'')" "\<not> is_hex (CHR ''%'')" "\<not> is_hex (CHR ''/'')"
  by code_simp+

section \<open>Hextets\<close>

lemma hextets_range: "list_all (\<lambda>h. 0 \<le> h \<and> h < 65536) (hextets_of n)"
  by (simp add: hextets_of_def)

lemma hextets_length: "length (hextets_of n) = 8"
  by (simp add: hextets_of_def)

lemma hextets_value:
  assumes "0 \<le> n" "n < 2 ^ 128"
  shows "foldl (\<lambda>acc h. acc * 65536 + h) 0 (hextets_of n) = n"
proof -
  have step: "n div 2 ^ j * 65536 + n div 2 ^ k mod 65536 = n div 2 ^ k" if "j = k + 16" for j k :: nat
  proof -
    have "n div 2 ^ j = n div 2 ^ k div 65536" by (simp add: that power_add zdiv_zmult2_eq)
    then show ?thesis by (simp only: div_mult_mod_eq)
  qed
  have steps: "n div 2 ^ 112 * 65536 + n div 2 ^ 96 mod 65536 = n div 2 ^ 96"
    "n div 2 ^ 96 * 65536 + n div 2 ^ 80 mod 65536 = n div 2 ^ 80" "n div 2 ^ 80 * 65536 + n div 2 ^ 64 mod 65536 = n div 2 ^ 64"
    "n div 2 ^ 64 * 65536 + n div 2 ^ 48 mod 65536 = n div 2 ^ 48" "n div 2 ^ 48 * 65536 + n div 2 ^ 32 mod 65536 = n div 2 ^ 32"
    "n div 2 ^ 32 * 65536 + n div 2 ^ 16 mod 65536 = n div 2 ^ 16" "n div 2 ^ 16 * 65536 + n div 2 ^ 0 mod 65536 = n div 2 ^ 0"
    by (rule step, simp)+
  have top: "n div 2 ^ 112 mod 65536 = n div 2 ^ 112"
    using assms by (intro mod_pos_pos_trivial) (auto simp: div_int_pos_iff div_less_iff_less_mult)
  have h: "hextets_of n = map (\<lambda>k. n div 2 ^ k mod 65536) [112, 96, 80, 64, 48, 32, 16, 0]"
    by (simp add: hextets_of_def)
  have "foldl (\<lambda>acc h. acc * 65536 + h) 0 (hextets_of n) = n div 2 ^ 0"
    unfolding h by (simp only: list.map foldl_Nil foldl_Cons mult_zero_left add_0 top steps)
  then show ?thesis by simp
qed

lemma zero_run_spec: "take (zero_run hs i) (drop i hs) = replicate (zero_run hs i) 0"
  unfolding zero_run_def by (metis (mono_tags, lifting) replicate_length_same set_takeWhileD takeWhile_eq_take)

lemma best_run_spec: "best_run hs = (s, l) \<Longrightarrow> l = 0 \<or> l = zero_run hs s"
proof -
  let ?ok = "\<lambda>x. snd x = 0 \<or> snd x = zero_run hs (fst x)"
  let ?f = "\<lambda>(s, l) i. if l < zero_run hs i then (i, zero_run hs i) else (s, l)"
  have "?ok (foldl ?f x ks)" if "?ok x" for x ks
    using that
  proof (induction ks arbitrary: x)
    case (Cons k ks)
    have "?ok (?f x k)" using Cons.prems by (cases x) simp
    then show ?case using Cons.IH [of "?f x k"] by simp
  qed simp
  from this [of "(0, 0)" "[0 ..< length hs]"] show "best_run hs = (s, l) \<Longrightarrow> l = 0 \<or> l = zero_run hs s"
    unfolding best_run_def by simp
qed

lemma run_split:
  assumes "best_run hs = (s, l)" "1 < l"
  shows "hs = take s hs @ replicate l 0 @ drop (s + l) hs" "s + l \<le> length hs"
proof -
  have l: "l = zero_run hs s" using best_run_spec [OF assms(1)] assms(2) by simp
  then have t: "take l (drop s hs) = replicate l 0" using zero_run_spec by metis
  have "l \<le> length (drop s hs)" unfolding l zero_run_def by (rule length_takeWhile_le)
  then show "s + l \<le> length hs" using assms(2) by simp
  show "hs = take s hs @ replicate l 0 @ drop (s + l) hs"
    using t by (metis append_take_drop_id drop_drop add.commute)
qed

section \<open>IPv6\<close>

definition colon_parts :: "string list \<Rightarrow> string list" where
  "colon_parts xs = (if xs = [] then [[]] else xs)"

lemma hex_texts:
  assumes "list_all (\<lambda>h. 0 \<le> h \<and> h < 65536) hs" "x \<in> set (map show_hex hs)"
  shows "x \<noteq> []" "list_all is_hex x"
  using assms show_hex_facts by (auto simp: list_all_iff)

lemma skip_compressed:
  assumes "\<forall>x \<in> set xs \<union> set ys. x \<noteq> []"
  shows "skip_positions (colon_parts xs @ [] # colon_parts ys) = [length (colon_parts xs)]"
proof -
  let ?P = "colon_parts xs @ [] # colon_parts ys" and ?k = "length (colon_parts xs)"
  have k: "1 \<le> ?k" "?k < length ?P - 1" by (auto simp: colon_parts_def Suc_le_eq)
  have only: "?P ! i = [] \<longleftrightarrow> i = ?k" if "i \<in> set [1 ..< length ?P - 1]" for i
  proof -
    have i: "1 \<le> i" "i < length ?P - 1" using that by simp_all
    consider "i < ?k" | "i = ?k" | j where "i = Suc (?k + j)" by (metis less_imp_Suc_add linorder_neqE_nat)
    then show ?thesis
    proof cases
      case 1
      then have "colon_parts xs ! i \<in> set xs" using i(1) by (auto simp: colon_parts_def split: if_splits)
      then show ?thesis using 1 assms by (auto simp: nth_append)
    next
      case 3
      then have "colon_parts ys ! j \<in> set ys" using i(2) by (auto simp: colon_parts_def split: if_splits)
      then show ?thesis using 3 assms by (auto simp: nth_append)
    qed (simp add: nth_append)
  qed
  have "skip_positions ?P = filter (\<lambda>i. i = ?k) [1 ..< length ?P - 1]"
    unfolding skip_positions_def by (rule filter_cong [OF refl]) (rule only)
  also have "[1 ..< length ?P - 1] = [1 ..< ?k] @ ?k # [Suc ?k ..< length ?P - 1]"
    using k upt_add_eq_append [of 1 ?k "length ?P - 1 - ?k"] upt_conv_Cons [of ?k "length ?P - 1"] by simp
  finally show ?thesis by (simp add: filter_empty_conv)
qed

lemma hextets_compressed:
  assumes "list_all (\<lambda>h. 0 \<le> h \<and> h < 65536) hs" "list_all (\<lambda>h. 0 \<le> h \<and> h < 65536) ls" "length hs + length ls \<le> 7"
  shows "hextets_of_parts (colon_parts (map show_hex hs) @ [] # colon_parts (map show_hex ls)) =
    Some (hs @ replicate (8 - (length hs + length ls)) 0 @ ls)"
proof -
  let ?x = "map show_hex hs" and ?y = "map show_hex ls"
  let ?P = "colon_parts ?x @ [] # colon_parts ?y" and ?k = "length (colon_parts ?x)"
  have ne: "\<forall>x \<in> set ?x \<union> set ?y. x \<noteq> []" using hex_texts(1) assms(1,2) by blast
  have hd: "hd ?P = [] \<longleftrightarrow> hs = []" using ne by (cases hs) (auto simp: colon_parts_def)
  have la: "last ?P = [] \<longleftrightarrow> ls = []" using ne by (cases ls rule: rev_cases) (auto simp: colon_parts_def)
  have hi: "(if hd ?P = [] then ?k - 1 else ?k) = length hs" unfolding hd by (simp add: colon_parts_def)
  have lo: "(if last ?P = [] then length ?P - ?k - 2 else length ?P - ?k - 1) = length ls" unfolding la by (simp add: colon_parts_def)
  have t: "take (length hs) ?P = ?x" by (cases hs) (auto simp: colon_parts_def)
  have d: "drop (length ?P - length ls) ?P = ?y" by (cases ls) (auto simp: colon_parts_def)
  show ?thesis
    unfolding hextets_of_parts_def skip_compressed [OF ne] list.case Let_def hi lo t d
      parse_show_hextets [OF assms(1)] parse_show_hextets [OF assms(2)] option.case prod.case
    using assms(3) hd la by simp
qed

lemma hextets_full:
  assumes "list_all (\<lambda>h. 0 \<le> h \<and> h < 65536) hs" "length hs = 8"
  shows "hextets_of_parts (map show_hex hs) = Some hs"
proof -
  have ne: "map show_hex hs ! i \<noteq> []" if "i < 8" for i using hex_texts(1) [OF assms(1)] that assms(2) by (metis length_map nth_mem)
  then have "skip_positions (map show_hex hs) = []" using assms(2) by (auto simp: skip_positions_def filter_empty_conv)
  moreover have "hd (map show_hex hs) \<in> set (map show_hex hs)" "last (map show_hex hs) \<in> set (map show_hex hs)"
    using assms(2) by (intro hd_in_set last_in_set; auto)+
  then have "hd (map show_hex hs) \<noteq> []" "last (map show_hex hs) \<noteq> []" using hex_texts(1) [OF assms(1)] by blast+
  ultimately show ?thesis using assms parse_show_hextets [OF assms(1)] by (simp add: hextets_of_parts_def)
qed

lemma hex_no_char:
  assumes "list_all (\<lambda>h. 0 \<le> h \<and> h < 65536) hs" "x \<in> set (map show_hex hs)" "\<not> is_hex c"
  shows "c \<notin> set x"
  using hex_texts(2) [OF assms(1,2)] assms(3) unfolding list_all_iff by blast

lemma split_join_hex:
  assumes "list_all (\<lambda>h. 0 \<le> h \<and> h < 65536) hs"
  shows "split_on (CHR '':'') (join '':'' (map show_hex hs)) = colon_parts (map show_hex hs)"
proof -
  have "\<forall>x \<in> set (map show_hex hs). CHR '':'' \<notin> set x" using hex_no_char [OF assms _ not_hex(1)] by blast
  then show ?thesis unfolding colon_parts_def by (rule split_on_join)
qed

lemma last_part_plain:
  assumes "list_all (\<lambda>h. 0 \<le> h \<and> h < 65536) hs"
  shows "CHR ''.'' \<notin> set (last (colon_parts (map show_hex hs)))"
proof (cases "hs = []")
  case False
  then have "last (map show_hex hs) \<in> set (map show_hex hs)" by (intro last_in_set) simp
  then show ?thesis using hex_no_char [OF assms _ not_hex(2)] False by (simp add: colon_parts_def)
qed (simp add: colon_parts_def)

lemma parse_show_ipv6_int:
  assumes "0 \<le> n" "n < 2 ^ 128"
  shows "parse_ipv6_int (show_ipv6 n) = Some n"
proof -
  obtain s l where run: "best_run (hextets_of n) = (s, l)" by (rule prod.exhaust)
  let ?hs = "hextets_of n"
  note r = hextets_range [of n] and len = hextets_length [of n]
  show ?thesis
  proof (cases "1 < l")
    case True
    let ?a = "take s ?hs" and ?b = "drop (s + l) ?hs"
    note rs = run_split [OF run True]
    have ab: "list_all (\<lambda>h. 0 \<le> h \<and> h < 65536) ?a" "list_all (\<lambda>h. 0 \<le> h \<and> h < 65536) ?b"
      using r by (auto simp: list_all_iff dest: in_set_takeD in_set_dropD)
    have ls: "length ?a + length ?b = 8 - l" "length ?a + length ?b \<le> 7" using rs(2) len True by simp_all
    have tx: "show_ipv6 n = join '':'' (map show_hex ?a) @ CHR '':'' # CHR '':'' # join '':'' (map show_hex ?b)"
      using True by (simp add: show_ipv6_def run Let_def)
    have sp: "split_on (CHR '':'') (show_ipv6 n) = colon_parts (map show_hex ?a) @ [] # colon_parts (map show_hex ?b)"
      unfolding tx split_on_sep split_join_hex [OF ab(1)]
      using split_on_append [of "CHR '':''" "[]" "join '':'' (map show_hex ?b)"] split_join_hex [OF ab(2)] by simp
    have lp: "last (colon_parts (map show_hex ?a) @ [] # colon_parts (map show_hex ?b)) = last (colon_parts (map show_hex ?b))"
      by (simp add: colon_parts_def)
    have ex: "expand_ipv4_tail (colon_parts (map show_hex ?a) @ [] # colon_parts (map show_hex ?b)) =
        Some (colon_parts (map show_hex ?a) @ [] # colon_parts (map show_hex ?b))"
      using last_part_plain [OF ab(2)] unfolding expand_ipv4_tail_def lp by (rule if_not_P)
    have cl: "1 \<le> length (colon_parts xs) \<and> length (colon_parts xs) = max 1 (length xs)" for xs
      by (cases xs) (simp_all add: colon_parts_def)
    have num: "\<not> length (colon_parts (map show_hex ?a) @ [] # colon_parts (map show_hex ?b)) < 3"
      "\<not> 9 < length (colon_parts (map show_hex ?a) @ [] # colon_parts (map show_hex ?b))"
      using ls(2) cl [of "map show_hex ?a"] cl [of "map show_hex ?b"] unfolding length_append list.size length_map by linarith+
    have ne: "show_ipv6 n \<noteq> []" by (simp add: tx)
    have l8: "8 - (length ?a + length ?b) = l" using ls(1) rs(2) len by simp
    show ?thesis
      unfolding parse_ipv6_int_def Let_def sp ex option.case hextets_compressed [OF ab ls(2)] l8 rs(1) [symmetric]
      using num ne hextets_value [OF assms] by simp
  next
    case False
    have tx: "show_ipv6 n = join '':'' (map show_hex ?hs)" using False by (simp add: show_ipv6_def run Let_def)
    have cp: "colon_parts (map show_hex ?hs) = map show_hex ?hs" using len by (auto simp: colon_parts_def)
    have sp: "split_on (CHR '':'') (show_ipv6 n) = map show_hex ?hs" unfolding tx split_join_hex [OF r] cp ..
    have ex: "expand_ipv4_tail (map show_hex ?hs) = Some (map show_hex ?hs)"
      using last_part_plain [OF r] unfolding expand_ipv4_tail_def cp by (rule if_not_P)
    have ne: "show_ipv6 n \<noteq> []" using arg_cong [OF sp, of length] len by (intro notI) simp
    show ?thesis
      unfolding parse_ipv6_int_def Let_def sp ex option.case hextets_full [OF r len]
      using ne len hextets_value [OF assms] by simp
  qed
qed

section \<open>Which characters\<close>

lemma set_join: "set (join sep xs) \<subseteq> set sep \<union> \<Union> (set ` set xs)"
  by (induction sep xs rule: join.induct) auto

lemma set_split_on: "set s \<subseteq> insert d (\<Union> (set ` set (split_on d s)))"
proof (induction s)
  case (Cons c s)
  then show ?case by (cases "split_on d s") (auto split: if_splits)
qed simp

lemma show_ipv6_chars:
  assumes "c \<in> set (show_ipv6 n)"
  shows "is_hex c \<or> c = CHR '':''"
proof -
  obtain s l where run: "best_run (hextets_of n) = (s, l)" by (rule prod.exhaust)
  have hx: "is_hex c" if "x \<in> set (map show_hex (hextets_of n))" "c \<in> set x" for x
    using hex_texts(2) [OF hextets_range that(1)] that(2) unfolding list_all_iff by blast
  have j: "is_hex c \<or> c = CHR '':''" if "c \<in> set (join '':'' (map show_hex xs))" "set xs \<subseteq> set (hextets_of n)" for xs
  proof -
    have "c \<in> set '':'' \<or> (\<exists>x \<in> set (map show_hex xs). c \<in> set x)" using that(1) set_join by fastforce
    then show ?thesis using hx that(2) by auto
  qed
  have "c = CHR '':'' \<or> (\<exists>xs. set xs \<subseteq> set (hextets_of n) \<and> c \<in> set (join '':'' (map show_hex xs)))"
  proof (cases "1 < l")
    case True
    then have "show_ipv6 n = join '':'' (map show_hex (take s (hextets_of n))) @ '':'' @ '':'' @
        join '':'' (map show_hex (drop (s + l) (hextets_of n)))" by (simp add: show_ipv6_def run Let_def)
    then show ?thesis using assms set_take_subset [of s "hextets_of n"] set_drop_subset [of "s + l" "hextets_of n"] by auto
  next
    case False
    then show ?thesis using assms by (auto simp: show_ipv6_def run Let_def)
  qed
  then show ?thesis using j by blast
qed

lemma parse_ipv4_chars:
  assumes "parse_ipv4 s = Some n" "c \<in> set s"
  shows "is_dec c \<or> c = CHR ''.''"
proof -
  have "None \<notin> set (map parse_octet (split_on (CHR ''.'') s))"
    using assms(1) by (auto simp: parse_ipv4_def split: list.splits option.splits)
  then have "list_all is_dec x" if "x \<in> set (split_on (CHR ''.'') s)" for x
    using that by (fastforce simp: parse_octet_def is_dec_text_def split: if_splits)
  then show ?thesis using assms(2) set_split_on [of s "CHR ''.''"] unfolding list_all_iff by blast
qed

lemma ipv6_colon: "parse_ipv6_int s = Some n \<Longrightarrow> CHR '':'' \<in> set s"
  using split_on_no [of "CHR '':''" s] by (rule_tac ccontr) (simp add: parse_ipv6_int_def)

lemma not_ipv4: "CHR '':'' \<in> set s \<Longrightarrow> parse_ipv4 s = None"
proof (rule ccontr)
  assume c: "CHR '':'' \<in> set s" and "parse_ipv4 s \<noteq> None"
  then obtain n where "parse_ipv4 s = Some n" by blast
  then have "is_dec (CHR '':'') \<or> CHR '':'' = CHR ''.''" using c by (rule parse_ipv4_chars)
  moreover have "\<not> (is_dec (CHR '':'') \<or> CHR '':'' = CHR ''.'')" by code_simp
  ultimately show False by blast
qed

section \<open>Bounds\<close>

lemma parse_hextet_range: "parse_hextet s = Some h \<Longrightarrow> 0 \<le> h \<and> h < 65536"
proof -
  have v: "0 \<le> hex_value c \<and> hex_value c < 16" if "is_hex c" for c
    using that by (auto simp: is_hex_def is_dec_def hex_value_def)
  have *: "0 \<le> acc \<Longrightarrow> list_all is_hex s \<Longrightarrow> 0 \<le> hex_number acc s \<and> hex_number acc s < (acc + 1) * 16 ^ length s" for acc
  proof (induction s arbitrary: acc)
    case (Cons c s)
    let ?v = "hex_value c"
    have h: "0 \<le> ?v" "?v < 16" using v [of c] Cons.prems by simp_all
    then have n: "0 \<le> hex_number (16 * acc + ?v) s" "hex_number (16 * acc + ?v) s < (16 * acc + ?v + 1) * 16 ^ length s"
      using Cons by simp_all
    have "(16 * acc + ?v + 1) * 16 ^ length s \<le> (16 * acc + 16) * 16 ^ length s" using h by (intro mult_right_mono) auto
    also have "\<dots> = (acc + 1) * 16 ^ length (c # s)" by (simp add: algebra_simps)
    finally have "hex_number (16 * acc + ?v) s < (acc + 1) * 16 ^ length (c # s)" by (rule less_le_trans [OF n(2)])
    then show ?case using n(1) by simp
  qed simp
  assume a: "parse_hextet s = Some h"
  then have s: "list_all is_hex s" "length s \<le> 4" "h = hex_number 0 s" by (auto simp: parse_hextet_def split: if_splits)
  have "(16 :: int) ^ length s \<le> 16 ^ 4" using s(2) by (intro power_increasing) auto
  then show ?thesis using * [of 0] s by simp
qed

lemma parse_hextets_range:
  "parse_hextets ps = Some hs \<Longrightarrow> length hs = length ps \<and> list_all (\<lambda>h. 0 \<le> h \<and> h < 65536) hs"
  by (induction ps arbitrary: hs) (auto simp: parse_hextet_range split: option.splits)

lemma hextets_of_parts_range:
  assumes "hextets_of_parts ps = Some hs"
  shows "length hs = 8 \<and> list_all (\<lambda>h. 0 \<le> h \<and> h < 65536) hs"
proof -
  have z: "list_all (\<lambda>h. 0 \<le> h \<and> h < (65536 :: int)) (replicate k 0)" for k by (simp add: list_all_iff)
  consider "skip_positions ps = []" | k where "skip_positions ps = [k]" | "hextets_of_parts ps = None"
    by (cases "skip_positions ps" rule: remdups_adj.cases) (auto simp: hextets_of_parts_def)
  then show ?thesis
  proof cases
    case 1
    then show ?thesis using assms parse_hextets_range by (auto simp: hextets_of_parts_def split: if_splits)
  next
    case 2
    have k: "1 \<le> k" "k < length ps - 1"
    proof -
      have "k \<in> set (skip_positions ps)" using 2 by simp
      then show "1 \<le> k" "k < length ps - 1" by (auto simp: skip_positions_def)
    qed
    then show ?thesis using assms 2 z
      by (auto simp: hextets_of_parts_def Let_def split: if_splits option.splits dest!: parse_hextets_range)
  qed (use assms in simp)
qed

lemma parse_ipv6_int_range:
  assumes "parse_ipv6_int s = Some n"
  shows "0 \<le> n \<and> n < 2 ^ 128"
proof -
  obtain hs where hs: "length hs = 8" "list_all (\<lambda>h. 0 \<le> h \<and> h < 65536) hs" and n: "n = foldl (\<lambda>acc h. acc * 65536 + h) 0 hs"
    using assms hextets_of_parts_range by (auto simp: parse_ipv6_int_def Let_def split: if_splits option.splits)
  have "0 \<le> acc \<Longrightarrow> list_all (\<lambda>h. 0 \<le> h \<and> h < 65536) hs \<Longrightarrow>
      0 \<le> foldl (\<lambda>acc h. acc * 65536 + h) acc hs \<and> foldl (\<lambda>acc h. acc * 65536 + h) acc hs < (acc + 1) * 65536 ^ length hs" for acc :: int
  proof (induction hs arbitrary: acc)
    case (Cons h hs)
    let ?a = "acc * 65536 + h"
    have h: "0 \<le> h" "h < 65536" "0 \<le> ?a" using Cons.prems by simp_all
    have n: "0 \<le> foldl (\<lambda>acc h. acc * 65536 + h) ?a hs" "foldl (\<lambda>acc h. acc * 65536 + h) ?a hs < (?a + 1) * 65536 ^ length hs"
      using Cons.IH [of ?a] Cons.prems h(3) by simp_all
    have "(?a + 1) * 65536 ^ length hs \<le> (acc * 65536 + 65536) * 65536 ^ length hs" using h by (intro mult_right_mono) auto
    also have "\<dots> = (acc + 1) * 65536 ^ length (h # hs)" by (simp add: algebra_simps)
    finally have "foldl (\<lambda>acc h. acc * 65536 + h) ?a hs < (acc + 1) * 65536 ^ length (h # hs)" by (rule less_le_trans [OF n(2)])
    then show ?case using n(1) by simp
  qed simp
  from this [of 0] show ?thesis using hs n by simp
qed

section \<open>Round trip\<close>

text \<open>What \<open>ip_address\<close> yields.\<close>

fun ip_in_range :: "ip_addr \<Rightarrow> bool" where
  "ip_in_range (IPv4 n) = (0 \<le> n \<and> n < 2 ^ 32)"
| "ip_in_range (IPv6 n None) = (0 \<le> n \<and> n < 2 ^ 128)"
| "ip_in_range (IPv6 n (Some z)) = (0 \<le> n \<and> n < 2 ^ 128 \<and> z \<noteq> [] \<and> CHR ''%'' \<notin> set z \<and> CHR ''/'' \<notin> set z)"

lemma parse_ipv6_plain:
  assumes "parse_ipv6_int t = Some n" "CHR ''%'' \<notin> set t" "CHR ''/'' \<notin> set t"
  shows "ip_address t = Some (IPv6 n None)"
  using assms not_ipv4 [OF ipv6_colon [OF assms(1)]] by (simp add: ip_address_def parse_ipv6_def split_scope_def)

lemma parse_ipv6_zone:
  assumes "parse_ipv6_int t = Some n" "CHR ''%'' \<notin> set t" "CHR ''/'' \<notin> set t"
    "z \<noteq> []" "CHR ''%'' \<notin> set z" "CHR ''/'' \<notin> set z"
  shows "ip_address (t @ CHR ''%'' # z) = Some (IPv6 n (Some z))"
proof -
  have "parse_ipv4 (t @ CHR ''%'' # z) = None" using ipv6_colon [OF assms(1)] by (intro not_ipv4) simp
  then show ?thesis using assms by (simp add: ip_address_def parse_ipv6_def split_scope_def split_first_append)
qed

lemma show_ipv6_plain: "CHR ''%'' \<notin> set (show_ipv6 n)" "CHR ''/'' \<notin> set (show_ipv6 n)"
proof -
  have "c \<notin> set (show_ipv6 n)" if "\<not> is_hex c" "c \<noteq> CHR '':''" for c using show_ipv6_chars that by blast
  then show "CHR ''%'' \<notin> set (show_ipv6 n)" "CHR ''/'' \<notin> set (show_ipv6 n)" using not_hex(3,4) by simp_all
qed

text \<open>An address in range is read back from its compressed text.\<close>

lemma ip_address_compressed: "ip_in_range a \<Longrightarrow> ip_address (compressed a) = Some a"
proof (induction a rule: ip_in_range.induct)
  case (1 n)
  have "\<not> (is_dec (CHR ''/'') \<or> CHR ''/'' = CHR ''.'')" by code_simp
  then have "CHR ''/'' \<notin> set (show_ipv4 n)" using show_ipv4_chars by blast
  then show ?case using 1 by (simp add: ip_address_def parse_show_ipv4)
next
  case (2 n)
  then show ?case using parse_ipv6_plain [OF parse_show_ipv6_int show_ipv6_plain] by simp
next
  case (3 n z)
  then show ?case using parse_ipv6_zone [OF parse_show_ipv6_int show_ipv6_plain, of n z] by simp
qed

lemma split_first_parts: "d \<in> set s \<Longrightarrow> split_first d s = (a, b) \<Longrightarrow> s = a @ d # b \<and> d \<notin> set a"
proof -
  assume d: "d \<in> set s" "split_first d s = (a, b)"
  then obtain x y where s: "s = x @ d # y" "d \<notin> set x" by (metis split_list_first)
  then show ?thesis using d split_first_append [of d x y] by simp
qed

text \<open>What is read is in range, and what is written for it is read as the same address again.\<close>

lemma ip_address_in_range: "ip_address s = Some a \<Longrightarrow> ip_in_range a"
proof -
  assume a: "ip_address s = Some a"
  then have sl: "CHR ''/'' \<notin> set s" by (auto simp: ip_address_def split: if_splits)
  show ?thesis
  proof (cases "parse_ipv4 s")
    case (Some n)
    then show ?thesis using a sl parse_ipv4_bounds by (auto simp: ip_address_def)
  next
    case None
    then obtain t z n where p: "split_scope s = Some (t, z)" "parse_ipv6_int t = Some n" "a = IPv6 n z"
      using a sl by (auto simp: ip_address_def parse_ipv6_def split: option.splits)
    have r: "0 \<le> n" "n < 2 ^ 128" using parse_ipv6_int_range [OF p(2)] by simp_all
    show ?thesis
    proof (cases z)
      case (Some w)
      then have c: "CHR ''%'' \<in> set s" "split_first (CHR ''%'') s = (t, w)" "w \<noteq> []" "CHR ''%'' \<notin> set w"
        using p(1) by (auto simp: split_scope_def split: if_splits prod.splits)
      have "CHR ''/'' \<notin> set w" using split_first_parts [OF c(1,2)] sl by auto
      then show ?thesis using p(3) Some r c by simp
    qed (use p(3) r in simp)
  qed
qed

lemma compressed_again: "ip_address s = Some a \<Longrightarrow> ip_address (compressed a) = Some a"
  by (intro ip_address_compressed ip_address_in_range)

end
