(* ===== verification/UdpOrders.thy ===== *)
theory UdpOrders
  imports UdpLaws LinkLaws IpRound Validators
begin

text \<open>
  The two ends of the udp2raw settings: what the controller has checked and sends to the nodes, the
  agents accept. The checks are written twice in the program, in schemas.py and main.py and in the
  agent's middleware.py; here they are compared.
\<close>

section \<open>Addresses\<close>

text \<open>An address with nothing around it, whose zone is the name of an interface.\<close>

definition agent_host :: "string \<Rightarrow> bool" where
  "agent_host h = (trimmed h \<and> (case ip_address h of None \<Rightarrow> False
     | Some (IPv6 n (Some z)) \<Rightarrow> is_ok (validate_linux_interface_name z) | Some _ \<Rightarrow> True))"

lemma checked_zone: "validate_linux_interface_name z = Inr r \<Longrightarrow> agent_interface_name l z = Inr r"
  by (auto simp: validate_linux_interface_name_def agent_interface_name_def checked_name_def Let_def list_all_iff
      is_name_char_def name_char_def split: if_splits)

lemma agent_takes_host:
  assumes "agent_host h"
  obtains a where "ip_address h = Some a" "agent_udp2raw_ip h l = Inr (compressed a)"
proof -
  have s: "strip h = h" using assms strip_trimmed by (simp add: agent_host_def)
  obtain a where a: "ip_address h = Some a" using assms by (auto simp: agent_host_def split: option.splits)
  have "agent_udp2raw_ip h l = Inr (compressed a)"
  proof (cases a rule: compressed.cases)
    case (3 n z)
    then obtain r where "validate_linux_interface_name z = Inr r" using assms a by (auto simp: agent_host_def is_ok_def split: sum.splits)
    then show ?thesis using a 3 checked_zone by (simp add: agent_udp2raw_ip_def s)
  qed (use a in \<open>simp_all add: agent_udp2raw_ip_def s\<close>)
  then show ?thesis using that a by blast
qed

lemma agent_endpoint: "ip_address h = Some a \<Longrightarrow> \<exists>t. format_udp2raw_endpoint (compressed a) k = Inr t"
  using compressed_again [of h a] by (simp add: format_udp2raw_endpoint_def)

lemma standard_hosts:
  "agent_host ''0.0.0.0''" "agent_host ''::''" "agent_host ''127.0.0.1''"
  by code_simp+

lemma any_agent_host: "agent_host (any_host a)"
  using standard_hosts by (simp add: any_host_def)

lemma checked_ip:
  assumes "validate_udp2raw_ip v = Inr w" "strip w \<noteq> []"
  shows "agent_host (strip w)"
proof (cases "strip v = []")
  case False
  then have "w = strip v \<and> agent_host (strip v)" using assms(1) trimmed_strip [of v]
    by (auto simp: validate_udp2raw_ip_def agent_host_def is_ok_def split: if_splits option.splits ip_addr.splits elim!: rbindE)
  then show ?thesis by (simp add: text_simps)
qed (use assms in \<open>auto simp: validate_udp2raw_ip_def\<close>)

lemma checked_or_default: "validate_udp2raw_ip v = Inr w \<Longrightarrow> agent_host t \<Longrightarrow> agent_host (or_default (strip w) t)"
  using checked_ip by (simp add: or_default_def)

lemma checked_optional:
  assumes "validate_optional_udp2raw_ip v = Inr w" "require_optional_udp2raw_ip w l = Inr x" "x = Some h"
  shows "agent_host h"
proof -
  have w: "the_or [] w \<noteq> []" "h = strip (the_or [] w)" "ip_address h \<noteq> None"
    using assms(2,3) by (auto simp: require_optional_udp2raw_ip_def require_udp2raw_ip_def split: if_splits)
  then obtain u where u: "w = Some u" by (cases w) simp_all
  then obtain v' where "validate_udp2raw_ip v' = Inr u" using assms(1)
    by (auto simp: validate_optional_udp2raw_ip_def split: option.splits elim!: rbindE)
  moreover have "strip u \<noteq> []"
  proof
    assume "strip u = []"
    moreover have "ip_address [] = None" by code_simp
    ultimately show False using w u by simp
  qed
  ultimately show ?thesis using checked_ip w(2) u by simp
qed

section \<open>Checked settings\<close>

definition port_ok :: "int \<Rightarrow> bool" where
  "port_ok n = (1 \<le> n \<and> n \<le> 65535)"

definition host_field :: "fields \<Rightarrow> string \<Rightarrow> bool" where
  "host_field f k = (\<exists>h. dget f k = JStr h \<and> agent_host h)"

definition port_field :: "fields \<Rightarrow> string \<Rightarrow> bool" where
  "port_field f k = (\<exists>n. dget f k = JInt n \<and> port_ok n)"

definition clean_password :: "string \<Rightarrow> bool" where
  "clean_password s = (\<not> list_ex is_control s)"

definition modes_ok :: "fields \<Rightarrow> bool" where
  "modes_ok f = (\<exists>r c a. dget f ''raw_mode'' = JStr r \<and> udp2raw_raw_mode r = Inr r \<and> dget f ''cipher_mode'' = JStr c \<and>
     udp2raw_cipher_mode c = Inr c \<and> dget f ''auth_mode'' = JStr a \<and> udp2raw_auth_mode a = Inr a)"

definition settings_ok :: "fields \<Rightarrow> bool" where
  "settings_ok f = (host_field f ''server_listen_host'' \<and> host_field f ''client_listen_host'' \<and>
     (dget f ''server_connect_host'' = JNull \<or> host_field f ''server_connect_host'') \<and>
     (dget f ''server_forward_host'' = JNull \<or> host_field f ''server_forward_host'') \<and>
     port_field f ''server_listen_port'' \<and> port_field f ''client_listen_port'' \<and>
     (dget f ''server_forward_port'' = JNull \<or> port_field f ''server_forward_port'') \<and> modes_ok f \<and>
     (\<exists>s. dget f ''password'' = JStr s \<and> clean_password s))"

lemma checked_modes:
  "List.member [''faketcp'', ''udp'', ''icmp''] r \<Longrightarrow> udp2raw_raw_mode r = Inr r"
  "List.member [''xor'', ''aes128cbc'', ''none''] c \<Longrightarrow> udp2raw_cipher_mode c = Inr c"
  "List.member [''hmac_sha1'', ''md5'', ''crc32'', ''simple'', ''none''] a \<Longrightarrow> udp2raw_auth_mode a = Inr a"
  unfolding udp2raw_raw_mode_def udp2raw_cipher_mode_def udp2raw_auth_mode_def List.member_iff list.set
  by (rule if_P, assumption)+

lemma checked_port: "validate_port x = Inr y \<Longrightarrow> x = Some n \<Longrightarrow> port_ok n"
  by (auto simp: validate_port_def port_ok_def split: if_splits)

lemma settings_checked:
  assumes "udp2raw_config given = Inr u" "up_enabled u" "normalize_udp2raw_config token (Some u) = Inr (Some f)" "clean_password token"
  shows "settings_ok f"
proof -
  obtain listen connect forward client x sp fp cp r c a pw where u: "u = given\<lparr>up_server_listen_host := listen,
      up_server_connect_host := connect, up_server_forward_host := forward, up_client_listen_host := client\<rparr>"
    and "ensure (List.member [''local'', ''peer''] (up_server_side given)) ''server_side must be local or peer'' = Inr x"
    and hosts: "validate_udp2raw_ip (up_server_listen_host given) = Inr listen" "validate_udp2raw_ip (up_client_listen_host given) = Inr client"
      "validate_optional_udp2raw_ip (up_server_connect_host given) = Inr connect" "validate_optional_udp2raw_ip (up_server_forward_host given) = Inr forward"
    and ports: "validate_port (up_server_listen_port given) = Inr sp" "validate_port (up_server_forward_port given) = Inr fp"
      "validate_port (up_client_listen_port given) = Inr cp"
    and modes: "ensure (List.member [''faketcp'', ''udp'', ''icmp''] (up_raw_mode given)) ''raw_mode must be faketcp, udp, or icmp'' = Inr r"
      "ensure (List.member [''xor'', ''aes128cbc'', ''none''] (up_cipher_mode given)) ''cipher_mode must be xor, aes128cbc, or none'' = Inr c"
      "ensure (List.member [''hmac_sha1'', ''md5'', ''crc32'', ''simple'', ''none''] (up_auth_mode given))
        ''auth_mode must be hmac_sha1, md5, crc32, simple, or none'' = Inr a"
    and pw: "validate_password (up_password given) = Inr pw"
    using assms(1) unfolding udp2raw_config_def by (elim rbindE Inr_E) (rule that, assumption+)
  note modes = checked_modes(1) [OF modes(1) [unfolded ensure_eq_Inr]] checked_modes(2) [OF modes(2) [unfolded ensure_eq_Inr]]
    checked_modes(3) [OF modes(3) [unfolded ensure_eq_Inr]]
  obtain sport cport sl co fo cl where n: "up_server_listen_port u = Some sport" "up_client_listen_port u = Some cport"
    and h: "require_udp2raw_ip (or_default (strip (up_server_listen_host u)) ''0.0.0.0'') ''udp2raw server listen host'' = Inr sl"
      "require_optional_udp2raw_ip (up_server_connect_host u) ''udp2raw server connect host'' = Inr co"
      "require_optional_udp2raw_ip (up_server_forward_host u) ''udp2raw server forward host'' = Inr fo"
      "require_udp2raw_ip (or_default (strip (up_client_listen_host u)) ''127.0.0.1'') ''udp2raw client listen host'' = Inr cl"
    and f: "f = [(''type'', JStr ''udp2raw''), (''enabled'', JBool True), (''server_side'', JStr (up_server_side u)),
         (''server_listen_host'', JStr sl), (''server_connect_host'', jopt_str co),
         (''server_listen_port'', JInt sport), (''server_forward_host'', jopt_str fo),
         (''server_forward_port'', jopt_int (up_server_forward_port u)),
         (''client_listen_host'', JStr cl), (''client_listen_port'', JInt cport),
         (''raw_mode'', JStr (up_raw_mode u)), (''cipher_mode'', JStr (up_cipher_mode u)),
         (''auth_mode'', JStr (up_auth_mode u)),
         (''password'', JStr (if set_text (up_password u) then the_or [] (up_password u) else token)),
         (''auto_rule'', JBool (up_auto_rule u))]"
    using assms(3) unfolding normalize_udp2raw_config_def option.case if_not_P [OF not_not [THEN iffD2, OF assms(2)]]
    by (elim rbindE Inr_E) (rule that, simp_all only: some_or_eq_Inr option.inject)
  have ur: "up_server_listen_host u = listen" "up_server_connect_host u = connect" "up_server_forward_host u = forward"
    "up_client_listen_host u = client" "up_server_listen_port u = up_server_listen_port given" "up_client_listen_port u = up_client_listen_port given"
    "up_server_forward_port u = up_server_forward_port given" "up_raw_mode u = up_raw_mode given" "up_cipher_mode u = up_cipher_mode given"
    "up_auth_mode u = up_auth_mode given" "up_password u = up_password given"
    unfolding u by simp_all
  have hl: "agent_host sl" "agent_host cl"
    using h(1,4) checked_or_default hosts(1,2) standard_hosts(1,3) unfolding require_udp2raw_ip_def ur by (auto split: if_splits)
  have ho: "co = None \<or> agent_host (the co)" "fo = None \<or> agent_host (the fo)"
    using checked_optional [OF hosts(3) h(2) [unfolded ur]] checked_optional [OF hosts(4) h(3) [unfolded ur]] by (cases co; cases fo; simp)+
  have po: "port_ok sport" "port_ok cport" "up_server_forward_port u = None \<or> port_ok (the (up_server_forward_port u))"
    using checked_port [OF ports(1)] checked_port [OF ports(3)] checked_port [OF ports(2)] n unfolding ur by (simp_all) (cases "up_server_forward_port given"; simp)
  have cl: "clean_password (if set_text (up_password u) then the_or [] (up_password u) else token)"
    using pw assms(4) unfolding ur validate_password_def ensure_eq_Inr clean_password_def is_control_def by simp
  have g: "dget f ''server_listen_host'' = JStr sl" "dget f ''client_listen_host'' = JStr cl" "dget f ''server_connect_host'' = jopt_str co"
    "dget f ''server_forward_host'' = jopt_str fo" "dget f ''server_listen_port'' = JInt sport" "dget f ''client_listen_port'' = JInt cport"
    "dget f ''server_forward_port'' = jopt_int (up_server_forward_port u)" "dget f ''raw_mode'' = JStr (up_raw_mode given)"
    "dget f ''cipher_mode'' = JStr (up_cipher_mode given)" "dget f ''auth_mode'' = JStr (up_auth_mode given)"
    "dget f ''password'' = JStr (if set_text (up_password u) then the_or [] (up_password u) else token)"
    unfolding f ur by (simp_all add: dget_def)
  show ?thesis
    unfolding settings_ok_def host_field_def port_field_def modes_ok_def g
    using hl ho po cl modes by (cases co; cases fo; cases "up_server_forward_port u"; simp add: jopt_str_def jopt_int_def)
qed

section \<open>Orders\<close>

lemma mode_nonempty:
  "udp2raw_raw_mode r = Inr r \<Longrightarrow> r \<noteq> []" "udp2raw_cipher_mode r = Inr r \<Longrightarrow> r \<noteq> []" "udp2raw_auth_mode r = Inr r \<Longrightarrow> r \<noteq> []"
  by (rule notI, simp add: udp2raw_raw_mode_def udp2raw_cipher_mode_def udp2raw_auth_mode_def)+

text \<open>An order has everything the agent asks for, in the form it asks for it.\<close>

definition order_fields :: "string \<Rightarrow> fields \<Rightarrow> bool" where
  "order_fields mode p = (map_of p ''mode'' = Some (JStr mode) \<and>
     (\<exists>h. map_of p ''listen_host'' = Some (JStr h) \<and> agent_host h) \<and> (\<exists>h. map_of p ''remote_host'' = Some (JStr h) \<and> agent_host h) \<and>
     (\<exists>n. map_of p ''listen_port'' = Some (JInt n) \<and> port_ok n) \<and> (\<exists>n. map_of p ''remote_port'' = Some (JInt n) \<and> port_ok n) \<and>
     (\<exists>s. map_of p ''password'' = Some (JStr s) \<and> clean_password s) \<and> modes_ok p)"

lemma order_built:
  assumes "order_fields mode p" "validate_mode mode = Inr mode"
  shows "is_ok (build_udp2raw_args p)"
proof -
  obtain lh rh lk rk pw r c a where p: "map_of p ''mode'' = Some (JStr mode)" "map_of p ''listen_host'' = Some (JStr lh)"
      "map_of p ''remote_host'' = Some (JStr rh)" "map_of p ''listen_port'' = Some (JInt lk)" "map_of p ''remote_port'' = Some (JInt rk)"
      "map_of p ''password'' = Some (JStr pw)" "dget p ''raw_mode'' = JStr r" "dget p ''cipher_mode'' = JStr c" "dget p ''auth_mode'' = JStr a"
    and h: "agent_host lh" "agent_host rh" and k: "port_ok lk" "port_ok rk" and s: "clean_password pw"
    and m: "udp2raw_raw_mode r = Inr r" "udp2raw_cipher_mode c = Inr c" "udp2raw_auth_mode a = Inr a"
    using assms(1) unfolding order_fields_def modes_ok_def by blast
  obtain la where l: "ip_address lh = Some la" "agent_udp2raw_ip lh ''udp2raw listen host'' = Inr (compressed la)" by (rule agent_takes_host [OF h(1)])
  obtain ra where ra: "ip_address rh = Some ra" "agent_udp2raw_ip rh ''udp2raw remote host'' = Inr (compressed ra)" by (rule agent_takes_host [OF h(2)])
  obtain lt rt where e: "format_udp2raw_endpoint (compressed la) lk = Inr lt" "format_udp2raw_endpoint (compressed ra) rk = Inr rt"
    using agent_endpoint [OF l(1)] agent_endpoint [OF ra(1)] by blast
  obtain q where q: "shell_quote pw = Inr q" using s by (simp add: shell_quote_def clean_password_def)
  have ports: "agent_udp2raw_port (JInt n) lab = Inr n" if "port_ok n" for n lab
    using that by (simp add: agent_udp2raw_port_def json_to_int_def port_ok_def)
  have t: "text_or d (JStr x) = x" if "x \<noteq> []" for d x using that by (simp add: text_or_def py_str_def)
  show ?thesis
    unfolding build_udp2raw_args_def required_def p option.case rbind_Inr json.case py_str_def assms(2) l(2) ra(2) ports [OF k(1)] ports [OF k(2)] q
      t [OF mode_nonempty(1) [OF m(1)]] t [OF mode_nonempty(2) [OF m(2)]] t [OF mode_nonempty(3) [OF m(3)]] m e
    by (simp add: is_ok_def)
qed

text \<open>The numbers SQLite gives rows are below two to the 63.\<close>

definition row_id :: "int \<Rightarrow> bool" where
  "row_id k = (0 < k \<and> k < 2 ^ 63)"

lemma name_parts: "instance_char (CHR ''-'')" "list_all instance_char ''link42-''"
  by code_simp+

lemma instance_name_accepted:
  assumes "row_id (if_id i)" "row_id (if_id j)" "map_of p ''instance'' = Some (JStr (udp2raw_instance_name i j))"
  shows "is_ok (middleware_instance_name p)"
proof -
  let ?a = "min (if_id i) (if_id j)" and ?b = "max (if_id i) (if_id j)" and ?n = "udp2raw_instance_name i j"
  have ids: "0 \<le> ?a" "0 \<le> ?b" "?a < 10 ^ 19" "?b < 10 ^ 19" using assms(1,2) by (auto simp: row_id_def)
  have dig: "list_all instance_char (show_nat k)" if "0 \<le> k" for k
    using show_nat_dec [OF that] by (auto simp: list_all_iff instance_char_def name_char_def is_alnum_def)
  have "show_int k = show_nat k" if "0 \<le> k" for k using that by (simp add: show_int_def)
  then have n: "?n = ''link42-'' @ show_nat ?a @ [CHR ''-''] @ show_nat ?b" using ids(1,2) unfolding udp2raw_instance_name_def by simp
  have c: "list_all instance_char ?n" unfolding n using dig ids name_parts by simp
  have len: "length ?n \<le> 63" using length_show_nat [OF ids(1,3)] length_show_nat [OF ids(2,4)] unfolding n by simp
  have ck: "checked_name instance_char 63 ?n" unfolding checked_name_def using c len by (simp add: n)
  have "list_all (\<lambda>c. \<not> is_space c) ?n" using checked_name_ascii [OF ck] visible_not(1) by (auto simp: list_all_iff visible_def)
  then have "strip ?n = ?n" using strip_trimmed [of ?n] hd_in_set last_in_set unfolding trimmed_def list_all_iff by metis
  then show ?thesis using ck assms(3) by (simp add: middleware_instance_name_def required_def py_str_def agent_instance_name_def is_ok_def)
qed

definition agent_accepts :: "fields \<Rightarrow> bool" where
  "agent_accepts p = (is_ok (build_udp2raw_args p) \<and> is_ok (middleware_instance_name p))"

definition side_ok :: "iface \<Rightarrow> bool" where
  "side_ok i = (row_id (if_id i) \<and> (case if_listen_port i of None \<Rightarrow> True | Some n \<Rightarrow> port_ok n))"

text \<open>What is given as the address of a node is a name, or an address the agent takes.\<close>

definition endpoint_ok :: "string option \<Rightarrow> bool" where
  "endpoint_ok h = (case h of None \<Rightarrow> True | Some h \<Rightarrow> ip_address h = None \<or> agent_host h)"

lemma agent_host_nonempty: "agent_host h \<Longrightarrow> h \<noteq> []"
  by (rule notI) (simp, code_simp)

lemma host_text: "dget f k = JNull \<or> host_field f k \<Longrightarrow> str_or_empty (dget f k) \<noteq> [] \<Longrightarrow> agent_host (str_or_empty (dget f k))"
  by (auto simp: host_field_def str_or_empty_def py_str_def)

lemma listen_host_ok:
  assumes "settings_ok f" "agent_host connect" "udp2raw_listen_host f connect outer = Inr listen"
  shows "agent_host listen"
proof -
  have h: "host_field f ''server_listen_host''" using assms(1) by (simp add: settings_ok_def)
  have "agent_host (or_default (str_or_empty (dget f ''server_listen_host'')) (any_host outer))"
    using host_text h any_agent_host by (simp add: or_default_def)
  then show ?thesis using assms(2,3) any_agent_host
    unfolding udp2raw_listen_host_def Let_def by (elim rbindE) (auto simp: require_udp2raw_ip_def split: if_splits)
qed

definition order_common :: "fields \<Rightarrow> iface \<Rightarrow> iface \<Rightarrow> fields" where
  "order_common f i j = [(''plugin'', JStr ''udp2raw''), (''instance'', JStr (udp2raw_instance_name i j)),
     (''raw_mode'', dget f ''raw_mode''), (''cipher_mode'', dget f ''cipher_mode''),
     (''auth_mode'', or_json (dget f ''auth_mode'') (JStr ''md5'')), (''password'', dget f ''password''),
     (''auto_rule'', dget f ''auto_rule'')]"

lemma order_accepted_when:
  assumes "settings_ok f" "row_id (if_id i)" "row_id (if_id j)" "validate_mode mode = Inr mode" "agent_host lh" "agent_host rh"
    "\<exists>n. lk = JInt n \<and> port_ok n" "\<exists>n. rk = JInt n \<and> port_ok n"
    "p = order_common f i j @ [(''mode'', JStr mode), (''listen_host'', JStr lh), (''listen_port'', lk), (''remote_host'', JStr rh), (''remote_port'', rk)]"
  shows "agent_accepts p"
proof -
  have m: "map_of p ''instance'' = Some (JStr (udp2raw_instance_name i j))" "map_of p ''mode'' = Some (JStr mode)"
    "map_of p ''listen_host'' = Some (JStr lh)" "map_of p ''listen_port'' = Some lk" "map_of p ''remote_host'' = Some (JStr rh)"
    "map_of p ''remote_port'' = Some rk" "map_of p ''password'' = Some (dget f ''password'')" "dget p ''raw_mode'' = dget f ''raw_mode''"
    "dget p ''cipher_mode'' = dget f ''cipher_mode''" "dget p ''auth_mode'' = or_json (dget f ''auth_mode'') (JStr ''md5'')"
    unfolding assms(9) order_common_def by (simp_all add: dget_def)
  have "modes_ok f" using assms(1) by (simp add: settings_ok_def)
  then have "modes_ok p" unfolding modes_ok_def m using mode_nonempty(3) by (auto simp: or_json_def)
  moreover have "\<exists>s. dget f ''password'' = JStr s \<and> clean_password s" using assms(1) by (simp add: settings_ok_def)
  ultimately have "order_fields mode p" unfolding order_fields_def m using assms(5-8) by simp
  then show ?thesis unfolding agent_accepts_def using order_built assms(4) instance_name_accepted [OF assms(2,3) m(1)] by blast
qed

text \<open>C9: every order for a udp2raw tunnel that the controller derives from checked settings is
  accepted by the agent it goes to: the command line is built and the instance has a valid name,
  for interfaces with a valid port and the numbers of the database, when the address of the server
  is given as a host name or as an address whose zone, if any, is the name of an interface.\<close>

theorem agent_accepts_udp2raw_orders:
  assumes "udp2raw_config given = Inr u" "up_enabled u" "normalize_udp2raw_config token (Some u) = Inr (Some f)"
    "clean_password token" "side_ok i" "side_ok j" "endpoint_ok le" "endpoint_ok pe"
    "udp2raw_endpoint_payloads f i j le pe = Inr orders"
  shows "list_all (\<lambda>(side, ty, p). ty = ''middleware.udp2raw.apply'' \<and> agent_accepts p) orders"
proof -
  let ?server = "if dget f ''server_side'' = JStr ''peer'' then j else i" and ?public = "the_or [] (if dget f ''server_side'' = JStr ''peer'' then pe else le)"
  have f: "settings_ok f" by (rule settings_checked [OF assms(1-4)])
  obtain connect listen forward where pub: "\<not> (?public = [] \<and> str_or_empty (dget f ''server_connect_host'') = [])"
    and port: "if_listen_port ?server \<noteq> None"
    and c: "require_udp2raw_ip (or_default (str_or_empty (dget f ''server_connect_host'')) ?public) ''udp2raw server connect host'' = Inr connect"
    and l: "udp2raw_listen_host f connect (the (ip_address connect)) = Inr listen"
    and w: "require_udp2raw_ip (or_default (str_or_empty (dget f ''server_forward_host'')) ''127.0.0.1'') ''udp2raw server forward host'' = Inr forward"
    and o: "orders = [(?server, ''middleware.udp2raw.apply'', order_common f i j @ [(''mode'', JStr ''server''),
          (''listen_host'', JStr listen), (''listen_port'', dget f ''server_listen_port''), (''remote_host'', JStr forward),
          (''remote_port'', or_json (dget f ''server_forward_port'') (jopt_int (if_listen_port ?server)))]),
        (if dget f ''server_side'' = JStr ''peer'' then i else j, ''middleware.udp2raw.apply'', order_common f i j @ [(''mode'', JStr ''client''),
          (''listen_host'', dget f ''client_listen_host''), (''listen_port'', dget f ''client_listen_port''),
          (''remote_host'', JStr connect), (''remote_port'', dget f ''server_listen_port'')])]"
    using assms(9) unfolding udp2raw_endpoint_payloads_def Let_def
    by (elim if_InrE rbindE Inr_E) (rule that, assumption+, unfold order_common_def, assumption)
  note fs = f [unfolded settings_ok_def] and ids = assms(5,6) [unfolded side_ok_def]
  have "agent_host ?public" if "?public \<noteq> []" "ip_address ?public \<noteq> None"
    using assms(7,8) that by (auto simp: endpoint_ok_def split: if_splits option.splits)
  then have hc: "agent_host connect" using c pub host_text [of f "''server_connect_host''"] fs
    by (auto simp: or_default_def require_udp2raw_ip_def split: if_splits)
  have hl: "agent_host listen" by (rule listen_host_ok [OF f hc l])
  have hf: "agent_host forward" using w host_text [of f "''server_forward_host''"] fs standard_hosts(3)
    by (auto simp: or_default_def require_udp2raw_ip_def split: if_splits)
  obtain ch where ch: "dget f ''client_listen_host'' = JStr ch" "agent_host ch" using fs by (auto simp: host_field_def)
  have sp: "\<exists>n. dget f ''server_listen_port'' = JInt n \<and> port_ok n" "\<exists>n. dget f ''client_listen_port'' = JInt n \<and> port_ok n"
    using fs by (auto simp: port_field_def)
  have "\<exists>n. if_listen_port ?server = Some n \<and> port_ok n"
    using port ids by (cases "dget f ''server_side'' = JStr ''peer''") (auto split: option.splits)
  then have rp: "\<exists>n. or_json (dget f ''server_forward_port'') (jopt_int (if_listen_port ?server)) = JInt n \<and> port_ok n"
    using fs by (auto simp: or_json_def port_field_def jopt_int_def port_ok_def)
  have modes: "validate_mode ''server'' = Inr ''server''" "validate_mode ''client'' = Inr ''client''" by (simp_all add: validate_mode_def)
  note acc = order_accepted_when [OF f conjunct1 [OF ids(1)] conjunct1 [OF ids(2)]]
  show ?thesis
    unfolding o ch(1) using acc [OF modes(1) hl hf sp(1) rp refl] acc [OF modes(2) ch(2) hc sp(2) sp(1) refl] by simp
qed

end
