(* ===== verification/UdpSamples.thy ===== *)
theory UdpSamples
  imports UdpOrders
begin

text \<open>
  Concrete orders and instance files, to which the properties
  of UdpLaws and UdpOrders are applied.
\<close>

section \<open>Orders\<close>

definition sample_tunnel :: udp2raw_payload where
  "sample_tunnel = \<lparr>up_enabled = True, up_server_side = ''peer'', up_server_listen_host = [], up_server_connect_host = None,
     up_server_listen_port = Some 4000, up_server_forward_host = None, up_server_forward_port = None,
     up_client_listen_host = ''127.0.0.1'', up_client_listen_port = Some 4001, up_raw_mode = ''faketcp'',
     up_cipher_mode = ''xor'', up_auth_mode = ''md5'', up_password = Some ''secret'', up_auto_rule = True\<rparr>"

lemma sample_tunnel_checked: "udp2raw_config sample_tunnel = Inr sample_tunnel"
  by code_simp

definition link_end :: "int \<Rightarrow> iface" where
  "link_end k = (new_iface k ''wg1'')\<lparr>if_id := k, if_listen_port := Some (51820 + k)\<rparr>"

definition sample_settings :: fields where
  "sample_settings = the (ok_value (normalize_udp2raw_config ''t'' (Some sample_tunnel)))"

definition sample_orders :: "task_order list" where
  "sample_orders = ok_value (udp2raw_endpoint_payloads sample_settings (link_end 1) (link_end 2) None (Some ''192.0.2.2''))"

lemma sample_orders_evaluated:
  "is_ok (normalize_udp2raw_config ''t'' (Some sample_tunnel))"
  "ok_value (normalize_udp2raw_config ''t'' (Some sample_tunnel)) \<noteq> None"
  "is_ok (udp2raw_endpoint_payloads sample_settings (link_end 1) (link_end 2) None (Some ''192.0.2.2''))"
  "clean_password ''t''" "endpoint_ok None" "endpoint_ok (Some ''192.0.2.2'')" "length sample_orders = 2"
  by code_simp+

lemma link_ends: "side_ok (link_end 1)" "side_ok (link_end 2)"
  by (simp_all add: link_end_def side_ok_def row_id_def port_ok_def)

theorem agent_accepts_udp2raw_orders_witness:
  "list_all (\<lambda>(side, ty, p). ty = ''middleware.udp2raw.apply'' \<and> agent_accepts p) sample_orders \<and> length sample_orders = 2"
proof -
  have n: "normalize_udp2raw_config ''t'' (Some sample_tunnel) = Inr (Some sample_settings)"
    using ok_value_Inr [OF sample_orders_evaluated(1)] sample_orders_evaluated(2) by (simp add: sample_settings_def)
  have e: "up_enabled sample_tunnel" by (simp add: sample_tunnel_def)
  show ?thesis
    using agent_accepts_udp2raw_orders [OF sample_tunnel_checked e n sample_orders_evaluated(4) link_ends sample_orders_evaluated(5,6)
      ok_value_Inr [OF sample_orders_evaluated(3)]] sample_orders_evaluated(7) unfolding sample_orders_def by blast
qed

section \<open>Files\<close>

definition server_order :: fields where
  "server_order = [(''mode'', JStr ''server''), (''instance'', JStr ''link42-1-2''), (''listen_host'', JStr ''0.0.0.0''), (''listen_port'', JInt 4000),
     (''remote_host'', JStr ''127.0.0.1''), (''remote_port'', JInt 51821), (''password'', JStr ''secret'')]"

lemma sample_history: "list_all order_accepted [(''a'', Some server_order), (''b'', Some server_order), (''a'', None)]"
  by code_simp


end
