(* ===== verification/LinkSamples.thy ===== *)
theory LinkSamples
  imports UdpSamples
begin

text \<open>
  A link between two nodes made on a concrete database, directly and through a udp2raw tunnel,
  to which the properties of LinkLaws are applied.
\<close>

section \<open>A link made on a concrete database\<close>

definition linking_node :: "int \<Rightarrow> node" where
  "linking_node k = (sample_node k)\<lparr>nd_agent_capabilities := [''wireguard'', ''middleware.install'', ''middleware.udp2raw'']\<rparr>"

definition linking_db :: db where
  "linking_db = empty_db\<lparr>db_nodes := [linking_node 1, linking_node 2]\<rparr>"

definition sample_link :: link_create where
  "sample_link = \<lparr>lk_local_name = ''wg1'', lk_peer_name = None, lk_local_tunnel = [''10.0.0.1/32''],
     lk_peer_tunnel = [''10.0.0.2/32''], lk_local_allowed = None, lk_peer_allowed = None,
     lk_local_host = None, lk_local_endpoint_port = None, lk_peer_host = Some ''192.0.2.2'', lk_peer_endpoint_port = None,
     lk_local_port = Some 51820, lk_peer_port = Some 51821, lk_mtu = Some 1420, lk_table = None, lk_keepalive = Some 25,
     lk_local_custom = None, lk_local_peer_custom = None, lk_peer_custom = None, lk_peer_peer_custom = None,
     lk_udp2raw = Some sample_tunnel, lk_mimic = None,
     lc_peer_node = 2, lc_replace_local = None, lc_replace_peer = None, lc_force = False\<rparr>"

definition sample_keys :: link_keys where
  "sample_keys = \<lparr>ky_local = (''a'', ''A''), ky_peer = (''b'', ''B''), ky_preshared = ''s'', ky_token = ''t''\<rparr>"

definition sample_creation :: "(iface \<times> iface) reply \<times> db" where
  "sample_creation = create_managed_link sample_env sample_keys 1 sample_link linking_db"

definition direct_creation :: "(iface \<times> iface) reply \<times> db" where
  "direct_creation = create_managed_link sample_env sample_keys 1 (sample_link\<lparr>lk_udp2raw := None\<rparr>) linking_db"

text \<open>The creation through the tunnel is evaluated step by step.\<close>

definition tunnel_config :: "fields option" where
  "tunnel_config = ok_value (normalize_middleware_config ''t'' (Some sample_tunnel) None)"

definition tunnel_rows :: "iface \<times> iface \<times> db" where
  "tunnel_rows = ok_value (create_link_rows sample_keys 1 sample_link (linking_node 1) (linking_node 2) tunnel_config
     (None, Some ''192.0.2.2'') linking_db)"

definition tunnel_orders :: db where
  "tunnel_orders = ok_value (enqueue_middleware_tasks sample_env tunnel_config (fst tunnel_rows) (fst (snd tunnel_rows))
     None (Some ''192.0.2.2'') None None (snd (snd tunnel_rows)))"

definition tunnel_deployed :: db where
  "tunnel_deployed = ok_value (deploy_side sample_env [] (fst tunnel_rows) tunnel_orders)"

definition tunnel_done :: db where
  "tunnel_done = ok_value (deploy_side sample_env [] (fst (snd tunnel_rows)) tunnel_deployed)"

lemma tunnel_evaluated:
  "link_nodes sample_env 1 sample_link linking_db = Inr (linking_node 1, linking_node 2, None, None)"
  "is_ok (normalize_middleware_config ''t'' (Some sample_tunnel) None)"
  "validate_udp2raw_port_conflicts tunnel_config (Some 51820) (Some 51821) = Inr ()"
  "require_managed_link_endpoints None (Some ''192.0.2.2'') = Inr (None, Some ''192.0.2.2'')"
  "ensure_unique_interface_name 1 ''wg1'' None None linking_db = Inr ()"
  "ensure_unique_interface_name 2 ''wg1'' None None linking_db = Inr ()"
  by code_simp+

lemma tunnel_rows_evaluated:
  "is_ok (create_link_rows sample_keys 1 sample_link (linking_node 1) (linking_node 2) tunnel_config
     (None, Some ''192.0.2.2'') linking_db)"
  by code_simp

text \<open>The orders and both deployments in one evaluation, so that no step is computed twice.\<close>

lemma tunnel_chain:
  "case tunnel_rows of (i, j, d0) \<Rightarrow>
     (case enqueue_middleware_tasks sample_env tunnel_config i j None (Some ''192.0.2.2'') None None d0 of
        Inl _ \<Rightarrow> False
      | Inr d1 \<Rightarrow> (case deploy_side sample_env [] i d1 of Inl _ \<Rightarrow> False | Inr d2 \<Rightarrow> is_ok (deploy_side sample_env [] j d2)))"
  by code_simp

lemma tunnel_orders_evaluated:
  "is_ok (enqueue_middleware_tasks sample_env tunnel_config (fst tunnel_rows) (fst (snd tunnel_rows))
     None (Some ''192.0.2.2'') None None (snd (snd tunnel_rows)))"
proof -
  obtain i j d0 where r: "tunnel_rows = (i, j, d0)" by (rule prod_cases3)
  show ?thesis using tunnel_chain unfolding r is_ok_iff by (auto split: sum.splits)
qed

lemma tunnel_local_evaluated:
  "is_ok (deploy_side sample_env [] (fst tunnel_rows) tunnel_orders)"
proof -
  obtain i j d0 where r: "tunnel_rows = (i, j, d0)" by (rule prod_cases3)
  show ?thesis using tunnel_chain unfolding r is_ok_iff tunnel_orders_def ok_value_def by (auto split: sum.splits)
qed

lemma tunnel_peer_evaluated:
  "is_ok (deploy_side sample_env [] (fst (snd tunnel_rows)) tunnel_deployed)"
proof -
  obtain i j d0 where r: "tunnel_rows = (i, j, d0)" by (rule prod_cases3)
  show ?thesis using tunnel_chain unfolding r is_ok_iff tunnel_orders_def tunnel_deployed_def ok_value_def by (auto split: sum.splits)
qed

lemma direct_evaluated:
  "is_ok (fst direct_creation)"
  by code_simp

lemma linking_db_wf: "links_wf linking_db"
  by code_simp

lemma sample_link_fields:
  "lk_local_name sample_link = ''wg1''" "peer_name sample_link = ''wg1''" "lk_udp2raw sample_link = Some sample_tunnel"
  "lk_mimic sample_link = None" "lk_local_port sample_link = Some 51820" "lk_peer_port sample_link = Some 51821"
  "lk_local_host sample_link = None" "lk_peer_host sample_link = Some ''192.0.2.2''" "lk_local_endpoint_port sample_link = None"
  "lk_peer_endpoint_port sample_link = None" "lc_peer_node sample_link = 2" "ky_token sample_keys = ''t''"
  by code_simp+

lemma sample_creation_Inr:
  "\<exists>e. sample_creation = (Inr (fst tunnel_rows, fst (snd tunnel_rows)), e)"
proof -
  obtain i j d3 where rows: "tunnel_rows = (i, j, d3)" by (rule prod_cases3)
  note orders = ok_value_Inr [OF tunnel_orders_evaluated, folded tunnel_orders_def, unfolded rows fst_conv snd_conv]
    and local_side = ok_value_Inr [OF tunnel_local_evaluated, folded tunnel_deployed_def, unfolded rows fst_conv]
    and peer_side = ok_value_Inr [OF tunnel_peer_evaluated, folded tunnel_done_def, unfolded rows fst_conv snd_conv]
  have c: "create_link_on sample_env sample_keys 1 sample_link (linking_node 1) (linking_node 2) None None linking_db =
      Inr (i, j, tunnel_done)"
    unfolding create_link_on_def sample_link_fields tunnel_evaluated(4)
      ok_value_Inr [OF tunnel_evaluated(2), folded tunnel_config_def] rbind_Inr tunnel_evaluated(3,5,6) option.map
      replace_side_def option.case prod.case ok_value_Inr [OF tunnel_rows_evaluated, folded tunnel_rows_def] rows
      fst_conv snd_conv orders append_Nil local_side peer_side ..
  show ?thesis
    unfolding sample_creation_def create_managed_link_def tunnel_evaluated(1) sum.case prod.case replaced_peer_def
      option.case Let_def points_elsewhere_def simp_thms if_False c rows fst_conv snd_conv by blast
qed

theorem created_link_is_mutual_witness:
  "\<exists>i j q r. get_managed_link_bundle (if_id (fst (ok_value (fst direct_creation)))) (snd direct_creation) = Inr (i, j, q, r) \<and>
     if_node_id i = 1 \<and> if_public_key j = Some (pr_public_key q) \<and> if_public_key i = Some (pr_public_key r)"
proof -
  have "direct_creation = (Inr (fst (ok_value (fst direct_creation)), snd (ok_value (fst direct_creation))), snd direct_creation)"
    using ok_value_Inr [OF direct_evaluated] by (metis prod.collapse)
  from created_link_is_mutual [OF linking_db_wf this [unfolded direct_creation_def]]
  show ?thesis unfolding direct_creation_def faces_def by blast
qed


end
