(* ===== verification/Mimic.thy ===== *)
theory Mimic
  imports AgentIo IpAddress "HOL-Library.List_Lexorder" "HOL-Library.Char_ord"
begin

text \<open>
  The mimic back end of an agent (middleware.py). Every link has a snippet of its own in the
  directory of its network interface; the configuration of the interface is what its administrator
  wrote followed by a marked block with all the snippets, and one service per interface reads it.
\<close>

section \<open>Files\<close>

text \<open>The snippets by interface and file name, the configurations by interface; \<open>True\<close> makes the
  next write fail.\<close>

record mimic_disk =
  md_snippets :: "((string \<times> string) \<times> string) list"
  md_system :: "string \<Rightarrow> string option"
  md_faults :: "bool list"
  md_count :: nat

type_synonym 'a mio = "(mimic_disk, 'a) dio"

record mimic_env =
  me_run :: "nat \<Rightarrow> string list \<Rightarrow> mimic_disk \<Rightarrow> command_run"
  me_systemd :: bool
  me_installed :: bool

definition run_mimic_command :: "mimic_env \<Rightarrow> string list \<Rightarrow> bool \<Rightarrow> command_report mio" where
  "run_mimic_command me command allow_failure d =
     (command_result_of command allow_failure (me_run me (md_count d) command d), d\<lparr>md_count := Suc (md_count d)\<rparr>)"

definition checked_size :: "string \<Rightarrow> string \<Rightarrow> (string, string) result" where
  "checked_size name t = (if max_managed_middleware_config_bytes < utf8_length t
     then Inl (''managed middleware config is too large: '' @ name) else Inr t)"

definition read_snippet :: "string \<times> string \<Rightarrow> string option mio" where
  "read_snippet key d = ((case map_of (md_snippets d) key of None \<Rightarrow> Inr None
     | Some t \<Rightarrow> rbind (checked_size (snd key) t) (\<lambda>t. Inr (Some t))), d)"

definition read_system :: "string \<Rightarrow> string option mio" where
  "read_system bind d = ((case md_system d bind of None \<Rightarrow> Inr None
     | Some t \<Rightarrow> rbind (checked_size (bind @ ''.conf'') t) (\<lambda>t. Inr (Some t))), d)"

definition faulty :: "(mimic_disk \<Rightarrow> mimic_disk) \<Rightarrow> unit mio" where
  "faulty f d = (case md_faults d of
      True # bs \<Rightarrow> (Inl ''write failed'', d\<lparr>md_faults := bs\<rparr>)
    | False # bs \<Rightarrow> (Inr (), f (d\<lparr>md_faults := bs\<rparr>))
    | [] \<Rightarrow> (Inr (), f d))"

definition put_snippet :: "string \<times> string \<Rightarrow> string \<Rightarrow> mimic_disk \<Rightarrow> mimic_disk" where
  "put_snippet key t d = d\<lparr>md_snippets := AList.update key t (md_snippets d)\<rparr>"

definition del_snippet :: "string \<times> string \<Rightarrow> mimic_disk \<Rightarrow> mimic_disk" where
  "del_snippet key d = d\<lparr>md_snippets := AList.delete key (md_snippets d)\<rparr>"

definition put_system :: "string \<Rightarrow> string option \<Rightarrow> mimic_disk \<Rightarrow> mimic_disk" where
  "put_system bind t d = d\<lparr>md_system := (md_system d)(bind := t)\<rparr>"

definition write_snippet :: "string \<times> string \<Rightarrow> string \<Rightarrow> unit mio" where
  "write_snippet key t = faulty (put_snippet key t)"

definition write_mimic_system_config :: "string \<Rightarrow> string \<Rightarrow> unit mio" where
  "write_mimic_system_config bind t = faulty (put_system bind (Some t))"

definition unlink_snippet :: "string \<times> string \<Rightarrow> unit mio" where
  "unlink_snippet key d = (Inr (), del_snippet key d)"

definition unlink_system :: "string \<Rightarrow> unit mio" where
  "unlink_system bind d = (Inr (), put_system bind None d)"

section \<open>Snippets\<close>

definition validate_mimic_interface :: "string \<Rightarrow> (string, string) result" where
  "validate_mimic_interface name = agent_interface_name ''mimic bind interface'' name"

definition mimic_unit_name :: "string \<Rightarrow> string" where
  "mimic_unit_name bind = ''mimic@'' @ bind @ ''.service''"

definition format_mimic_endpoint :: "string \<Rightarrow> int \<Rightarrow> (string, string) result" where
  "format_mimic_endpoint host port = (case ip_address host of
      None \<Rightarrow> Inl ''does not appear to be an IPv4 or IPv6 address''
    | Some a \<Rightarrow> rbind (case a of IPv6 _ (Some z) \<Rightarrow> agent_interface_name ''mimic IPv6 zone'' z | _ \<Rightarrow> Inr []) (\<lambda>_.
        Inr ((if ip_version a = 6 then ''['' @ compressed a @ '']'' else compressed a) @ '':'' @ show_int port)))"

definition json_int_or_error :: "json \<Rightarrow> (string, int) result" where
  "json_int_or_error v = (case json_to_int v of None \<Rightarrow> Inl ''invalid integer'' | Some n \<Rightarrow> Inr n)"

text \<open>A line for an optional number, with what stands around it.\<close>

definition number_line :: "string \<Rightarrow> string \<Rightarrow> json \<Rightarrow> (string, string list) result" where
  "number_line before behind v = (if v = JNull then Inr []
     else rbind (json_int_or_error v) (\<lambda>n. Inr [before @ show_int n @ behind]))"

definition mimic_lines :: "string list \<Rightarrow> string" where
  "mimic_lines lines = rstrip (join [CHR 0x0A] lines) @ [CHR 0x0A]"

definition choice :: "string list \<Rightarrow> string \<Rightarrow> string \<Rightarrow> (string, string) result" where
  "choice allowed msg v = (if List.member allowed v then Inr v else Inl msg)"

definition mimic_instance_name :: "fields \<Rightarrow> (string, string) result" where
  "mimic_instance_name p = rbind (required ''instance'' p) (\<lambda>v. agent_instance_name ''udp2raw instance'' (py_str v))"

definition mimic_bind_interface :: "fields \<Rightarrow> (string, string) result" where
  "mimic_bind_interface p = rbind (required ''bind_interface'' p) (\<lambda>v. validate_mimic_interface (py_str v))"

definition build_mimic_snippet :: "fields \<Rightarrow> (string, string) result" where
  "build_mimic_snippet p =
     rbind (choice [''eth'', ''none''] ''mimic link_type must be eth or none'' (text_or ''eth'' (dget p ''link_type''))) (\<lambda>link_type.
     rbind (choice [''auto'', ''native'', ''skb''] ''mimic xdp_mode must be auto, native, or skb''
       (text_or ''skb'' (dget p ''xdp_mode''))) (\<lambda>xdp_mode.
     rbind (required ''peer_host'' p) (\<lambda>peer_host.
     rbind (rbind (required ''peer_port'' p) json_int_or_error) (\<lambda>peer_port.
     rbind (choice [''local'', ''remote''] ''mimic filter_origin must be local or remote''
       (text_or ''remote'' (dget p ''filter_origin''))) (\<lambda>filter_origin.
     rbind (mimic_instance_name p) (\<lambda>i.
     rbind (number_line ''handshake = '' '':'' (dget p ''handshake_interval'')) (\<lambda>handshake.
     rbind (number_line ''keepalive = '' '':::'' (dget p ''keepalive_interval'')) (\<lambda>keepalive.
     rbind (number_line ''padding = '' [] (dget p ''padding'')) (\<lambda>padding.
     rbind (format_mimic_endpoint (py_str peer_host) peer_port) (\<lambda>endpoint.
       Inr (mimic_lines ([''# instance '' @ i, ''link_type = '' @ link_type, ''xdp_mode = '' @ xdp_mode] @
         handshake @ keepalive @ padding @ [''filter = '' @ filter_origin @ ''='' @ endpoint]))))))))))))"

section \<open>The configuration of an interface\<close>

definition mimic_block_begin :: string where "mimic_block_begin = ''# BEGIN Link42 managed mimic filters''"
definition mimic_block_end :: string where "mimic_block_end = ''# END Link42 managed mimic filters''"

lemma split_sub_length: "split_sub p s = Some (a, b) \<Longrightarrow> length s = length a + length p + length b"
proof (induction p s arbitrary: a rule: split_sub.induct)
  case (2 p c cs)
  then show ?case
    by (auto simp: starts_with_def split: if_splits) (metis length_Cons length_take min.absorb_iff2 le_add_diff_inverse
      add_Suc length_append append_take_drop_id length_drop)+
qed (simp split: if_splits)

text \<open>The regular expression: from a first mark to the next second mark, and a newline behind it.\<close>

function strip_blocks :: "string \<Rightarrow> string" where
  "strip_blocks s = (case split_sub mimic_block_begin s of None \<Rightarrow> s
     | Some (before, rest) \<Rightarrow> (case split_sub mimic_block_end rest of None \<Rightarrow> s
       | Some (_, behind) \<Rightarrow> before @ strip_blocks (drop_lf behind)))"
  by auto

termination
proof (relation "measure length")
  fix s x before rest y b behind
  assume "split_sub mimic_block_begin s = Some x" "(before, rest) = x" "split_sub mimic_block_end rest = Some y" "(b, behind) = y"
  then have "length behind < length s"
    using split_sub_length [of mimic_block_begin s before rest] split_sub_length [of mimic_block_end rest b behind]
    by (simp add: mimic_block_begin_def)
  then show "(drop_lf behind, s) \<in> measure length" using length_drop_lf [of behind] by simp
qed simp

declare strip_blocks.simps [simp del]

definition strip_mimic_link42_block :: "string \<Rightarrow> string" where
  "strip_mimic_link42_block content = strip (strip_blocks content) @ (if strip content \<noteq> [] then [CHR 0x0A] else [])"

definition link42_block :: "string list \<Rightarrow> string" where
  "link42_block snippets = (if snippets = [] then []
     else mimic_block_begin @ [CHR 0x0A] @ strip (join [CHR 0x0A, CHR 0x0A] snippets) @ [CHR 0x0A] @ mimic_block_end @ [CHR 0x0A])"

definition merge_mimic_config :: "string \<Rightarrow> string list \<Rightarrow> string" where
  "merge_mimic_config base snippets =
     (let parts = filter (\<lambda>part. part \<noteq> []) [strip (strip_mimic_link42_block base), strip (link42_block snippets)] in
      rstrip (join [CHR 0x0A, CHR 0x0A] parts) @ (if parts \<noteq> [] then [CHR 0x0A] else []))"

definition snippet_files :: "string \<Rightarrow> mimic_disk \<Rightarrow> (string \<times> string) list" where
  "snippet_files bind d = sort_key fst (map (\<lambda>((b, n), t). (n, t)) (filter (\<lambda>((b, n), t). b = bind) (md_snippets d)))"

definition read_snippets :: "string \<Rightarrow> string list mio" where
  "read_snippets bind d =
     (rfold (\<lambda>(n, t) acc. rbind (checked_size n t) (\<lambda>t. Inr (acc @ [strip t]))) (snippet_files bind d) [], d)"

definition instance_file :: "string \<Rightarrow> string" where
  "instance_file i = i @ ''.conf''"

text \<open>With an instance and its snippet the result is a preview: the snippet takes the place of the
  stored one.\<close>

definition render_mimic_config :: "string \<Rightarrow> (string \<times> string) option \<Rightarrow> string mio" where
  "render_mimic_config bind preview = dbind (read_snippets bind) (\<lambda>stored.
     dbind (case preview of None \<Rightarrow> dreturn stored
       | Some (i, snippet) \<Rightarrow> dbind (read_snippet (bind, instance_file i)) (\<lambda>old.
           dreturn (filter (\<lambda>item. case old of None \<Rightarrow> True | Some t \<Rightarrow> item \<noteq> strip t) stored @ [strip snippet]))) (\<lambda>snippets.
     dbind (read_system bind) (\<lambda>base. dreturn (merge_mimic_config (the_or [] base) snippets))))"

section \<open>Operations\<close>

definition mimic_command :: "mimic_env \<Rightarrow> string \<Rightarrow> string list \<Rightarrow> bool \<Rightarrow> command_report mio" where
  "mimic_command me bind args allow = run_mimic_command me (''systemctl'' # args @ [mimic_unit_name bind]) allow"

definition mimic_daemon_reload :: "mimic_env \<Rightarrow> bool \<Rightarrow> command_report mio" where
  "mimic_daemon_reload me allow = run_mimic_command me [''systemctl'', ''daemon-reload''] allow"

text \<open>Both files as they were, then the service with the old configuration, whatever comes of it.\<close>

definition restore_mimic :: "mimic_env \<Rightarrow> string \<Rightarrow> string \<times> string \<Rightarrow> string option \<Rightarrow> string option \<Rightarrow> unit mio" where
  "restore_mimic me bind key old_instance old_system =
     dbind (case old_instance of None \<Rightarrow> unlink_snippet key | Some t \<Rightarrow> write_snippet key t) (\<lambda>_.
     dbind (case old_system of None \<Rightarrow> unlink_system bind | Some t \<Rightarrow> write_mimic_system_config bind t) (\<lambda>_.
     dignore (dbind (mimic_daemon_reload me True) (\<lambda>_.
       mimic_command me bind [if the_or [] old_system \<noteq> [] then ''restart'' else ''stop''] True))))"

definition mimic_reports :: "command_report list \<Rightarrow> json" where
  "mimic_reports rs = JList (map report_json rs)"

definition config_path_text :: "string \<Rightarrow> json" where
  "config_path_text bind = JStr (''/etc/mimic/'' @ bind @ ''.conf'')"

definition apply_mimic :: "mimic_env \<Rightarrow> bool \<Rightarrow> fields \<Rightarrow> fields mio" where
  "apply_mimic me dry_run p =
     (if \<not> me_systemd me then draise ''mimic middleware requires a systemd Linux node''
      else dbind (lift_error (mimic_instance_name p)) (\<lambda>i. dbind (lift_error (mimic_bind_interface p)) (\<lambda>bind.
        dbind (lift_error (build_mimic_snippet p)) (\<lambda>snippet.
        if dry_run then dbind (render_mimic_config bind (Some (i, snippet))) (\<lambda>config. dreturn
          [(''changed'', JBool False), (''dry_run'', JBool True), (''instance'', JStr i), (''bind_interface'', JStr bind),
           (''config_path'', config_path_text bind), (''config'', JStr config)])
        else if \<not> me_installed me then draise ''mimic is not installed on this node''
        else let key = (bind, instance_file i) in
          dbind (read_snippet key) (\<lambda>old_instance. dbind (read_system bind) (\<lambda>old_system.
          dbind (dexcept
              (dbind (write_snippet key snippet) (\<lambda>_. dbind (render_mimic_config bind None) (\<lambda>config.
               dbind (write_mimic_system_config bind config) (\<lambda>_. dbind (mimic_daemon_reload me False) (\<lambda>r.
               dbind (dmap (\<lambda>action. mimic_command me bind [action] False) [''enable'', ''restart'']) (\<lambda>rs. dreturn (r # rs)))))))
              (restore_mimic me bind key old_instance old_system)) (\<lambda>commands. dreturn
          [(''changed'', JBool True), (''instance'', JStr i), (''bind_interface'', JStr bind),
           (''config_path'', config_path_text bind), (''commands'', mimic_reports commands)])))))))"

definition delete_mimic :: "mimic_env \<Rightarrow> bool \<Rightarrow> fields \<Rightarrow> fields mio" where
  "delete_mimic me dry_run p =
     dbind (lift_error (mimic_instance_name p)) (\<lambda>i. dbind (lift_error (mimic_bind_interface p)) (\<lambda>bind.
     if dry_run then dreturn [(''changed'', JBool False), (''dry_run'', JBool True), (''instance'', JStr i), (''bind_interface'', JStr bind)]
     else let key = (bind, instance_file i) in
       dbind (read_snippet key) (\<lambda>old_instance. dbind (read_system bind) (\<lambda>old_system.
       dbind (dexcept
           (dbind (unlink_snippet key) (\<lambda>_. dbind (render_mimic_config bind None) (\<lambda>rendered.
            dbind (if strip rendered \<noteq> []
                then dbind (write_mimic_system_config bind rendered) (\<lambda>_. mimic_command me bind [''restart''] True)
                else dbind (unlink_system bind) (\<lambda>_. mimic_command me bind [''disable'', ''--now''] True)) (\<lambda>r.
            dbind (ensure_success r) (\<lambda>_. dreturn [r])))))
           (restore_mimic me bind key old_instance old_system)) (\<lambda>commands. dreturn
       [(''changed'', JBool True), (''instance'', JStr i), (''bind_interface'', JStr bind), (''commands'', mimic_reports commands)])))))"

definition mimic_service_action :: "mimic_env \<Rightarrow> bool \<Rightarrow> string \<Rightarrow> fields \<Rightarrow> fields mio" where
  "mimic_service_action me dry_run action p = dbind (lift_error (mimic_bind_interface p)) (\<lambda>bind.
     if dry_run then dreturn [(''changed'', JBool False), (''dry_run'', JBool True), (''bind_interface'', JStr bind),
       (''command'', JList [JStr ''systemctl'', JStr action, JStr (mimic_unit_name bind)])]
     else dbind (mimic_command me bind [action] True) (\<lambda>r. dreturn
       [(''changed'', JBool (rp_returncode r = 0)), (''bind_interface'', JStr bind), (''command'', report_json r)]))"

definition start_mimic :: "mimic_env \<Rightarrow> bool \<Rightarrow> fields \<Rightarrow> fields mio" where
  "start_mimic me dry_run p = mimic_service_action me dry_run ''start'' p"

definition stop_mimic :: "mimic_env \<Rightarrow> bool \<Rightarrow> fields \<Rightarrow> fields mio" where
  "stop_mimic me dry_run p = mimic_service_action me dry_run ''stop'' p"

definition status_mimic :: "mimic_env \<Rightarrow> fields \<Rightarrow> json mio" where
  "status_mimic me p = dbind (lift_error (mimic_bind_interface p)) (\<lambda>bind.
     dbind (mimic_command me bind [''is-active''] True) (\<lambda>r. dreturn (report_json r)))"

end
