(* ===== verification/MimicLaws.thy ===== *)
theory MimicLaws
  imports Mimic UdpLaws IpRound
begin

text \<open>
  The configuration of a network interface that mimic reads is shared between its administrator and
  the agent: what the administrator wrote survives every rendering, and a change of one link is
  applied whole or undone whole.
\<close>

section \<open>Searching for a mark\<close>

lemma split_sub_None_iff: "split_sub p s = None \<longleftrightarrow> (\<forall>a b. s \<noteq> a @ p @ b)"
proof (induction s)
  case (Cons c s)
  have "starts_with (c # s) p \<longleftrightarrow> (\<exists>b. c # s = p @ b)"
    unfolding starts_with_def by (metis append_eq_conv_conj append_take_drop_id)
  then show ?case using Cons by (auto simp: Cons_eq_append_conv)
qed simp

lemma starts_with_barrier:
  assumes "c \<notin> set p" "starts_with (a @ c # s) p"
  shows "starts_with a p"
proof (cases "length p \<le> length a")
  case False
  then obtain k where "length p - length a = Suc k" by (metis Suc_diff_Suc linorder_not_le)
  then have "c \<in> set (take (length p) (a @ c # s))" by simp
  then show ?thesis using assms unfolding starts_with_def by metis
qed (use assms in \<open>simp add: starts_with_def\<close>)

lemma split_sub_barrier:
  assumes "p \<noteq> []" "c \<notin> set p" "split_sub p a = None"
  shows "split_sub p (a @ c # s) = map_option (\<lambda>(x, y). (a @ c # x, y)) (split_sub p s)"
  using assms(3)
proof (induction a)
  case Nil
  have "\<not> starts_with (c # s) p" using assms(1,2) starts_with_barrier [OF assms(2), of "[]" s] by (auto simp: starts_with_def)
  then show ?case by simp
next
  case (Cons d a)
  have n: "\<not> starts_with (d # a) p" "split_sub p a = None" using Cons.prems by (auto split: if_splits)
  then have "\<not> starts_with (d # a @ c # s) p" using starts_with_barrier [OF assms(2), of "d # a" s] by auto
  then show ?case using Cons.IH [OF n(2)] by (cases "split_sub p s") auto
qed

lemma split_sub_here: "p \<noteq> [] \<Longrightarrow> split_sub p (p @ s) = Some ([], s)"
  by (cases p) (simp_all add: starts_with_def)

lemma split_sub_join:
  assumes "p \<noteq> []" "c \<notin> set p" "\<forall>x \<in> set xs. split_sub p x = None"
  shows "split_sub p (join [c, c] xs) = None"
  using assms(3)
proof (induction "[c, c]" xs rule: join.induct)
  case 1
  show ?case using assms(1) by simp
next
  case (3 x y ys)
  have "split_sub p ([c] @ join [c, c] (y # ys)) = None"
    using 3 split_sub_barrier [OF assms(1,2), of "[]" "join [c, c] (y # ys)"] assms(1) by simp
  then show ?case using 3 split_sub_barrier [OF assms(1,2), of x "[c] @ join [c, c] (y # ys)"] by simp
qed simp

lemma strip_infix: "\<exists>a b. s = a @ strip s @ b \<and> list_all is_space a \<and> list_all is_space b"
proof -
  let ?t = "dropWhile is_space s"
  have "s = takeWhile is_space s @ ?t" by simp
  moreover have "?t = strip s @ rev (takeWhile is_space (rev ?t))"
    unfolding strip_def strip_by_def by (metis rev_append rev_rev_ident takeWhile_dropWhile_id)
  moreover have "list_all is_space (takeWhile is_space u)" for u by (auto simp: list_all_iff dest: set_takeWhileD)
  ultimately show ?thesis by (metis list_all_rev)
qed

lemma split_sub_strip: "split_sub p s = None \<Longrightarrow> split_sub p (strip s) = None"
  using strip_infix [of s] unfolding split_sub_None_iff by (metis append.assoc)

lemma strip_snoc_space: "is_space c \<Longrightarrow> strip (s @ [c]) = strip s"
proof (cases "dropWhile is_space s = []")
  case True
  then show "is_space c \<Longrightarrow> strip (s @ [c]) = strip s" by (auto simp: strip_def strip_by_def dest: set_dropWhileD)
next
  case False
  then have "dropWhile is_space (s @ [c]) = dropWhile is_space s @ [c]" by (auto simp: dropWhile_append3)
  then show "is_space c \<Longrightarrow> strip (s @ [c]) = strip s" by (simp add: strip_def strip_by_def)
qed

lemma rstrip_plain: "s = [] \<or> \<not> is_space (last s) \<Longrightarrow> rstrip s = s"
  by (auto simp: rstrip_def dropWhile_id hd_rev)

section \<open>The administrator's text\<close>

lemma mark_facts:
  "mimic_block_begin \<noteq> []" "mimic_block_end \<noteq> []" "CHR 0x0A \<notin> set mimic_block_begin" "CHR 0x0A \<notin> set mimic_block_end"
  "\<not> is_space (hd mimic_block_begin)" "\<not> is_space (last mimic_block_end)" "is_space (CHR 0x0A)"
  by code_simp+

definition own_text :: "string \<Rightarrow> string" where
  "own_text t = strip (strip_blocks t)"

lemma strip_stripped_config: "strip (strip_mimic_link42_block t) = own_text t"
  using strip_snoc_space [OF mark_facts(7), of "strip (strip_blocks t)"]
  by (simp add: strip_mimic_link42_block_def own_text_def text_simps)

definition block_text :: "string list \<Rightarrow> string" where
  "block_text snippets = mimic_block_begin @ [CHR 0x0A] @ strip (join [CHR 0x0A, CHR 0x0A] snippets) @ [CHR 0x0A] @ mimic_block_end"

lemma strip_link42_block: "snippets \<noteq> [] \<Longrightarrow> strip (link42_block snippets) = block_text snippets"
proof -
  assume "snippets \<noteq> []"
  then have "strip (link42_block snippets) = strip (block_text snippets)"
    using strip_snoc_space [OF mark_facts(7), of "block_text snippets"] by (simp add: link42_block_def block_text_def)
  moreover have "trimmed (block_text snippets)" using mark_facts(1,2,5,6) by (simp add: trimmed_def block_text_def)
  ultimately show ?thesis by (simp add: text_simps)
qed

lemma merged_text:
  "merge_mimic_config base snippets =
     (if snippets = [] then if own_text base = [] then [] else own_text base @ [CHR 0x0A]
      else (if own_text base = [] then [] else own_text base @ [CHR 0x0A, CHR 0x0A]) @ block_text snippets @ [CHR 0x0A])"
proof -
  let ?o = "own_text base" and ?b = "block_text snippets"
  have o: "?o = [] \<or> \<not> is_space (last ?o)" using trimmed_strip [of "strip_blocks base"] unfolding own_text_def trimmed_def by blast
  have b: "?b \<noteq> []" "\<not> is_space (last ?b)" using mark_facts(2,6) by (simp_all add: block_text_def)
  show ?thesis
  proof (cases "snippets = []")
    case True
    then have "strip (link42_block snippets) = []" by (simp add: link42_block_def strip_def strip_by_def)
    then show ?thesis using True rstrip_plain [OF o]
      by (auto simp: merge_mimic_config_def strip_stripped_config Let_def rstrip_plain)
  next
    case False
    have "rstrip ?b = ?b" "rstrip (?o @ [CHR 0x0A, CHR 0x0A] @ ?b) = ?o @ [CHR 0x0A, CHR 0x0A] @ ?b"
      using b by (auto intro!: rstrip_plain)
    then show ?thesis using False b(1)
      by (auto simp: merge_mimic_config_def strip_stripped_config strip_link42_block Let_def)
  qed
qed

lemma strip_blocks_plain: "split_sub mimic_block_begin s = None \<Longrightarrow> strip_blocks s = s"
  by (subst strip_blocks.simps) simp

lemma strip_blocks_block:
  assumes "split_sub mimic_block_begin a = None" "\<forall>x \<in> set snippets. split_sub mimic_block_end x = None"
  shows "strip_blocks (a @ [CHR 0x0A, CHR 0x0A] @ block_text snippets @ [CHR 0x0A]) = a @ [CHR 0x0A, CHR 0x0A]"
    "strip_blocks (block_text snippets @ [CHR 0x0A]) = []"
proof -
  let ?x = "strip (join [CHR 0x0A, CHR 0x0A] snippets)"
  let ?r = "[CHR 0x0A] @ ?x @ [CHR 0x0A] @ mimic_block_end @ [CHR 0x0A]"
  have e: "strip_blocks [] = []" using mark_facts(1) by (intro strip_blocks_plain) simp
  have "split_sub mimic_block_end ?x = None" using split_sub_strip split_sub_join mark_facts(2,4) assms(2) by blast
  then have "split_sub mimic_block_end ?r = Some ([CHR 0x0A] @ ?x @ [CHR 0x0A], [CHR 0x0A])"
    using split_sub_barrier [OF mark_facts(2,4), of "[]" "?x @ [CHR 0x0A] @ mimic_block_end @ [CHR 0x0A]"]
      split_sub_barrier [OF mark_facts(2,4), of ?x "mimic_block_end @ [CHR 0x0A]"] split_sub_here [OF mark_facts(2)] mark_facts(2)
    by simp
  moreover have b: "split_sub mimic_block_begin (block_text snippets @ [CHR 0x0A]) = Some ([], ?r)"
    using split_sub_here [OF mark_facts(1), of ?r] by (simp add: block_text_def)
  moreover have "split_sub mimic_block_begin (a @ [CHR 0x0A, CHR 0x0A] @ block_text snippets @ [CHR 0x0A]) =
      Some (a @ [CHR 0x0A, CHR 0x0A], ?r)"
    using split_sub_barrier [OF mark_facts(1,3) assms(1), of "CHR 0x0A # block_text snippets @ [CHR 0x0A]"]
      split_sub_barrier [OF mark_facts(1,3), of "[]" "block_text snippets @ [CHR 0x0A]"] b mark_facts(1) by simp
  ultimately show "strip_blocks (a @ [CHR 0x0A, CHR 0x0A] @ block_text snippets @ [CHR 0x0A]) = a @ [CHR 0x0A, CHR 0x0A]"
    "strip_blocks (block_text snippets @ [CHR 0x0A]) = []"
    by (subst strip_blocks.simps; simp add: drop_lf_def e)+
qed

text \<open>A text without a mark that begins a block and is not closed.\<close>

definition well_marked :: "string \<Rightarrow> bool" where
  "well_marked t = (split_sub mimic_block_begin (strip_blocks t) = None)"

lemma merge_keeps_own_text:
  assumes "well_marked base" "\<forall>x \<in> set snippets. split_sub mimic_block_end x = None"
  shows "own_text (merge_mimic_config base snippets) = own_text base" "well_marked (merge_mimic_config base snippets)"
proof -
  let ?o = "own_text base" and ?m = "merge_mimic_config base snippets"
  have o: "split_sub mimic_block_begin ?o = None" unfolding own_text_def by (rule split_sub_strip) (use assms(1) in \<open>simp add: well_marked_def\<close>)
  have n: "split_sub mimic_block_begin (?o @ CHR 0x0A # s) = None" if "s = [] \<or> s = [CHR 0x0A]" for s
    using split_sub_barrier [OF mark_facts(1,3) o, of s] split_sub_barrier [OF mark_facts(1,3), of "[]" "[]"] that mark_facts(1) by auto
  have z: "split_sub mimic_block_begin [] = None" using mark_facts(1) by simp
  have s: "strip_blocks ?m = (if snippets = [] then if ?o = [] then [] else ?o @ [CHR 0x0A] else if ?o = [] then [] else ?o @ [CHR 0x0A, CHR 0x0A])"
    using strip_blocks_block [OF o assms(2)] strip_blocks_plain [OF z] strip_blocks_plain [OF n, of "[]"] by (auto simp: merged_text)
  have so: "strip ?o = ?o" by (simp add: own_text_def text_simps)
  have sp: "strip (?o @ [CHR 0x0A]) = ?o" "strip (?o @ [CHR 0x0A, CHR 0x0A]) = ?o"
    using strip_snoc_space [OF mark_facts(7), of ?o] strip_snoc_space [OF mark_facts(7), of "?o @ [CHR 0x0A]"] so by simp_all
  show "own_text ?m = ?o" unfolding own_text_def [of ?m] s using sp by (auto simp: strip_def strip_by_def)
  show "well_marked ?m" unfolding well_marked_def s using n [of "[]"] n [of "[CHR 0x0A]"] z by auto
qed

section \<open>No mark in a snippet\<close>

lemma no_hash:
  "\<not> is_dec (CHR ''#'')" "\<not> is_hex (CHR ''#'')" "\<not> is_space (CHR ''#'')" "\<not> name_char (CHR ''#'')" "\<not> instance_char (CHR ''#'')"
  by code_simp+

abbreviation plain :: "string \<Rightarrow> bool" where
  "plain s \<equiv> CHR ''#'' \<notin> set s"

lemma plain_show_int: "plain (show_int n)"
  using show_nat_dec [of n] show_nat_dec [of "- n"] no_hash(1) by (auto simp: show_int_def list_all_iff)

lemma plain_unstripped: "plain (strip s) \<Longrightarrow> plain s"
  using strip_infix [of s] no_hash(3) unfolding list_all_iff by (metis Un_iff set_append)

lemma plain_names:
  "agent_interface_name l v = Inr r \<Longrightarrow> plain v" "agent_instance_name l v = Inr r \<Longrightarrow> plain r"
  using no_hash(4,5) plain_unstripped
  by (auto simp: agent_interface_name_def agent_instance_name_def checked_name_def list_all_iff split: if_splits)

lemma plain_compressed:
  assumes "\<And>n z. a = IPv6 n (Some z) \<Longrightarrow> plain z"
  shows "plain (compressed a)"
proof -
  have "CHR ''#'' \<noteq> CHR '':''" "CHR ''#'' \<noteq> CHR ''.''" by simp_all
  then have "plain (show_ipv6 n)" "plain (show_ipv4 n)" for n using show_ipv6_chars show_ipv4_chars no_hash(1,2) by blast+
  then show ?thesis using assms by (cases a rule: compressed.cases) simp_all
qed

lemma plain_endpoint: "format_mimic_endpoint h k = Inr t \<Longrightarrow> plain t"
  using plain_compressed [of "the (ip_address h)"] plain_show_int plain_names(1)
  by (auto simp: format_mimic_endpoint_def split: option.splits ip_addr.splits elim!: rbindE)

lemma plain_choice: "choice xs msg v = Inr w \<Longrightarrow> list_all plain xs \<Longrightarrow> plain w"
  by (auto simp: choice_def list_all_iff split: if_splits)

lemma plain_join: "plain sep \<Longrightarrow> list_all plain xs \<Longrightarrow> plain (join sep xs)"
  using set_join [of sep xs] by (auto simp: list_all_iff)

lemma plain_number: "number_line b e v = Inr ls \<Longrightarrow> plain b \<Longrightarrow> plain e \<Longrightarrow> list_all plain ls"
  using plain_show_int by (auto simp: number_line_def split: if_splits elim!: rbindE)

lemma mark_free:
  assumes "plain y"
  shows "split_sub mimic_block_end (''# instance '' @ y) = None"
  unfolding split_sub_None_iff
proof (intro allI notI)
  fix a b assume e: "''# instance '' @ y = a @ mimic_block_end @ b"
  show False
  proof (cases a)
    case Nil
    then show False using e by (simp add: mimic_block_end_def)
  next
    case (Cons c t)
    then have "'' instance '' @ y = t @ mimic_block_end @ b" using e by simp
    then have "CHR ''#'' \<in> set ('' instance '' @ y)" by (simp add: mimic_block_end_def)
    then show False using assms by simp
  qed
qed

lemma rstrip_prefix: "\<exists>b. s = rstrip s @ b"
  unfolding rstrip_def by (metis rev_append rev_rev_ident takeWhile_dropWhile_id)

lemma built_snippet_unmarked:
  assumes "build_mimic_snippet p = Inr s"
  shows "split_sub mimic_block_end s = None"
proof -
  obtain link xdp origin i hs ks ps h k e where c: "choice [''eth'', ''none''] ''mimic link_type must be eth or none'' (text_or ''eth'' (dget p ''link_type'')) = Inr link"
    "choice [''auto'', ''native'', ''skb''] ''mimic xdp_mode must be auto, native, or skb'' (text_or ''skb'' (dget p ''xdp_mode'')) = Inr xdp"
    "choice [''local'', ''remote''] ''mimic filter_origin must be local or remote'' (text_or ''remote'' (dget p ''filter_origin'')) = Inr origin"
    and i: "mimic_instance_name p = Inr i"
    and n: "number_line ''handshake = '' '':'' (dget p ''handshake_interval'') = Inr hs"
      "number_line ''keepalive = '' '':::'' (dget p ''keepalive_interval'') = Inr ks" "number_line ''padding = '' [] (dget p ''padding'') = Inr ps"
    and e: "format_mimic_endpoint h k = Inr e"
    and s: "s = mimic_lines ([''# instance '' @ i, ''link_type = '' @ link, ''xdp_mode = '' @ xdp] @ hs @ ks @ ps @ [''filter = '' @ origin @ ''='' @ e])"
    using assms unfolding build_mimic_snippet_def by (elim rbindE Inr_E) (rule that, assumption+)
  have lits: "list_all plain [''eth'', ''none'']" "list_all plain [''auto'', ''native'', ''skb'']" "list_all plain [''local'', ''remote'']"
    "list_all plain [''link_type = '', ''xdp_mode = '', ''filter = '', ''='', ''handshake = '', ''keepalive = '', ''padding = '', '':'', '':::'', [CHR 0x0A]]"
    by code_simp+
  let ?rest = "[''link_type = '' @ link, ''xdp_mode = '' @ xdp] @ hs @ ks @ ps @ [''filter = '' @ origin @ ''='' @ e]"
  have "plain link" "plain xdp" "plain origin" using plain_choice c lits(1-3) by blast+
  moreover have "list_all plain hs" "list_all plain ks" "list_all plain ps" using plain_number n lits(4) by (simp_all add: list_all_iff)
  moreover have "plain e" using plain_endpoint e by blast
  ultimately have rest: "list_all plain ?rest" using lits(4) by simp
  have "plain i" using i plain_names(2) by (auto simp: mimic_instance_name_def elim!: rbindE)
  then have y: "plain (i @ [CHR 0x0A] @ join [CHR 0x0A] ?rest)" using plain_join [OF _ rest, of "[CHR 0x0A]"] by simp
  let ?x = "''# instance '' @ i @ [CHR 0x0A] @ join [CHR 0x0A] ?rest"
  have sx: "s = rstrip ?x @ CHR 0x0A # []" unfolding s mimic_lines_def by simp
  have "split_sub mimic_block_end ?x = None" using mark_free [OF y] .
  then have "split_sub mimic_block_end (rstrip ?x) = None" using rstrip_prefix [of ?x] unfolding split_sub_None_iff by (metis append.assoc)
  then show ?thesis unfolding sx using split_sub_barrier [OF mark_facts(2,4)] mark_facts(2) by simp
qed

section \<open>Reading and commands\<close>

definition viewed :: "mimic_disk \<Rightarrow> ((string \<times> string) \<Rightarrow> string option) \<times> (string \<Rightarrow> string option)" where
  "viewed d = (map_of (md_snippets d), md_system d)"

definition same_files :: "mimic_disk \<Rightarrow> mimic_disk \<Rightarrow> bool" where
  "same_files d e = (md_snippets e = md_snippets d \<and> md_system e = md_system d \<and> md_faults e = md_faults d)"

definition reads :: "'a mio \<Rightarrow> bool" where
  "reads m = (\<forall>d. same_files d (snd (m d)))"

named_theorems reading "operations that change no file"

lemma readsD: "reads m \<Longrightarrow> m d = (r, e) \<Longrightarrow> same_files d e"
  unfolding reads_def by (metis snd_conv)

lemma reads_dbind [reading]: "reads m \<Longrightarrow> (\<And>x. reads (f x)) \<Longrightarrow> reads (dbind m f)"
  by (auto simp: reads_def dbind_def same_files_def split: prod.split sum.split) (metis snd_conv)+

lemma reads_simple [reading]:
  "reads (dreturn x)" "reads (draise msg)" "reads (lift_error r)" "reads (read_snippet key)" "reads (read_system bind)"
  "reads (read_snippets bind)" "reads (run_mimic_command me c allow)"
  by (simp_all add: reads_def same_files_def dreturn_def draise_def lift_error_def read_snippet_def read_system_def read_snippets_def
      run_mimic_command_def)

lemma reads_dmap [reading]: "(\<And>x. reads (f x)) \<Longrightarrow> reads (dmap f xs)"
  by (induction xs) (simp_all add: reading)

lemma reads_dignore [reading]: "reads m \<Longrightarrow> reads (dignore m)"
  by (simp add: reads_def dignore_def)

lemma reads_commands [reading]:
  "reads (mimic_command me bind args allow)" "reads (mimic_daemon_reload me allow)" "reads (ensure_success r :: unit mio)"
  by (simp_all add: mimic_command_def mimic_daemon_reload_def ensure_success_def reading)

lemma read_result:
  "read_snippet key d = (Inr t, e) \<Longrightarrow> t = map_of (md_snippets d) key \<and> e = d"
  "read_system bind d = (Inr u, e) \<Longrightarrow> u = md_system d bind \<and> e = d"
  by (auto simp: read_snippet_def read_system_def checked_size_def split: option.splits if_splits)

lemma read_system_text:
  "(case md_system d bind of None \<Rightarrow> Inr None | Some t \<Rightarrow> rbind (checked_size l t) (\<lambda>t. Inr (Some t))) = Inr u \<Longrightarrow> u = md_system d bind"
  by (auto simp: checked_size_def split: option.splits if_splits)

lemma read_all: "rfold (\<lambda>(n, t) acc. rbind (checked_size n t) (\<lambda>t. Inr (acc @ [strip t]))) fs acc = Inr r \<Longrightarrow>
    r = acc @ map (\<lambda>(n, t). strip t) fs"
proof (induction fs arbitrary: acc)
  case (Cons x fs)
  obtain n t where x: "x = (n, t)" by (cases x)
  have "rfold (\<lambda>(n, t) acc. rbind (checked_size n t) (\<lambda>t. Inr (acc @ [strip t]))) fs (acc @ [strip t]) = Inr r"
    using Cons.prems by (simp add: x checked_size_def split: if_splits)
  then show ?case using Cons.IH x by fastforce
qed simp

text \<open>What a rendering yields, and that it changes nothing.\<close>

definition rendered :: "string \<Rightarrow> mimic_disk \<Rightarrow> string" where
  "rendered bind d = merge_mimic_config (the_or [] (md_system d bind)) (map (\<lambda>(n, t). strip t) (snippet_files bind d))"

lemma render_result:
  assumes "render_mimic_config bind None d = (r, e)"
  shows "e = d" "r = Inr c \<Longrightarrow> c = rendered bind d"
  using assms unfolding render_mimic_config_def rendered_def read_snippets_def
  by (auto simp: dbind_def dreturn_def read_system_def split: prod.splits sum.splits dest!: read_all read_system_text)

section \<open>Writing\<close>

lemma write_result_mimic:
  assumes "md_faults d = []"
  shows "write_snippet key t d = (Inr (), put_snippet key t d)" "write_mimic_system_config bind t d = (Inr (), put_system bind (Some t) d)"
  using assms by (simp_all add: write_snippet_def write_mimic_system_config_def faulty_def)

lemma viewed_put:
  "viewed (put_snippet key t d) = ((map_of (md_snippets d))(key \<mapsto> t), md_system d)"
  "viewed (del_snippet key d) = ((map_of (md_snippets d))(key := None), md_system d)"
  "viewed (put_system bind u d) = (map_of (md_snippets d), (md_system d)(bind := u))"
  by (simp_all add: viewed_def put_snippet_def del_snippet_def put_system_def update_conv' delete_conv')

lemma faults_put [simp]:
  "md_faults (put_snippet key t d) = md_faults d" "md_faults (del_snippet key d) = md_faults d" "md_faults (put_system bind u d) = md_faults d"
  by (simp_all add: put_snippet_def del_snippet_def put_system_def)

lemma same_viewed: "same_files d e \<Longrightarrow> viewed e = viewed d \<and> md_faults e = md_faults d"
  by (simp add: same_files_def viewed_def)

text \<open>The way back: both files as given.\<close>

lemma restore_effect:
  assumes "md_faults d = []"
  shows "\<exists>e. restore_mimic me bind key old sys d = (Inr (), e) \<and> md_faults e = [] \<and>
    viewed e = ((map_of (md_snippets d))(key := old), (md_system d)(bind := sys))"
proof -
  obtain d1 where a: "(case old of None \<Rightarrow> unlink_snippet key | Some t \<Rightarrow> write_snippet key t) d = (Inr (), d1)"
    "md_faults d1 = []" "viewed d1 = ((map_of (md_snippets d))(key := old), md_system d)"
    using assms write_result_mimic(1) viewed_put(1,2) by (cases old) (simp_all add: unlink_snippet_def)
  obtain d2 where b: "(case sys of None \<Rightarrow> unlink_system bind | Some t \<Rightarrow> write_mimic_system_config bind t) d1 = (Inr (), d2)"
    "md_faults d2 = []" "viewed d2 = (fst (viewed d1), (snd (viewed d1))(bind := sys))"
    using a(2) write_result_mimic(2) viewed_put(3) by (cases sys) (simp_all add: unlink_system_def viewed_def)
  let ?m = "dignore (dbind (mimic_daemon_reload me True) (\<lambda>_. mimic_command me bind [if the_or [] sys \<noteq> [] then ''restart'' else ''stop''] True))"
  have "reads ?m" by (intro reading)
  then have c: "same_files d2 (snd (?m d2))" by (simp add: reads_def)
  have "restore_mimic me bind key old sys d = ?m d2" using a(1) b(1) by (simp add: restore_mimic_def dbind_def)
  then show ?thesis using same_viewed [OF c] a b by (simp add: dignore_def)
qed

text \<open>A guarded change: done, or undone.\<close>

lemma undone_change:
  assumes "dexcept m (restore_mimic me bind key (map_of (md_snippets d) key) (md_system d bind)) d = (r, e)"
    "m d = (r1, d1)" "md_faults d1 = []" "viewed d1 = ((map_of (md_snippets d))(key := x), (md_system d)(bind := y))"
  shows "(is_ok r1 \<and> r = r1 \<and> e = d1) \<or> (\<not> is_ok r \<and> viewed e = viewed d)"
proof (cases r1)
  case (Inl msg)
  obtain e' where "restore_mimic me bind key (map_of (md_snippets d) key) (md_system d bind) d1 = (Inr (), e')"
    "viewed e' = ((map_of (md_snippets d1))(key := map_of (md_snippets d) key), (md_system d1)(bind := md_system d bind))"
    using restore_effect [OF assms(3)] by blast
  moreover have "map_of (md_snippets d1) = (map_of (md_snippets d))(key := x)" "md_system d1 = (md_system d)(bind := y)"
    using assms(4) by (simp_all add: viewed_def)
  ultimately show ?thesis using assms(1,2) Inl by (auto simp: dexcept_def is_ok_def viewed_def)
next
  case (Inr v)
  then show ?thesis using assms(1,2) by (auto simp: dexcept_def is_ok_def)
qed

section \<open>All or nothing\<close>

text \<open>What a change leaves: the snippet, and the configuration rendered with it, or no file when it
  is blank.\<close>

definition with_config :: "string \<Rightarrow> bool \<Rightarrow> mimic_disk \<Rightarrow> mimic_disk" where
  "with_config bind blank_removed d =
     put_system bind (if blank_removed \<and> strip (rendered bind d) = [] then None else Some (rendered bind d)) d"

lemma apply_body:
  assumes "md_faults d = []" "reads rest"
    "dbind (write_snippet key snippet) (\<lambda>_. dbind (render_mimic_config bind None) (\<lambda>config.
       dbind (write_mimic_system_config bind config) (\<lambda>_. rest))) d = (r1, d1)"
  shows "md_faults d1 = []" "\<exists>y. viewed d1 = ((map_of (md_snippets d))(key := Some snippet), (md_system d)(bind := y))"
    "is_ok r1 \<Longrightarrow> viewed d1 = viewed (with_config bind False (put_snippet key snippet d))"
proof -
  let ?d = "put_snippet key snippet d"
  have f: "md_faults ?d = []" using assms(1) by simp
  have m: "dbind (render_mimic_config bind None) (\<lambda>config. dbind (write_mimic_system_config bind config) (\<lambda>_. rest)) ?d = (r1, d1)"
    using assms(3) write_result_mimic(1) [OF assms(1)] by (simp add: dbind_def)
  have "md_faults d1 = [] \<and> (\<exists>y. viewed d1 = ((map_of (md_snippets d))(key := Some snippet), (md_system d)(bind := y))) \<and>
      (is_ok r1 \<longrightarrow> viewed d1 = viewed (with_config bind False ?d))"
    using m
  proof (cases rule: dbind_cases)
    case (refused msg)
    then have "d1 = ?d" "\<not> is_ok r1" using render_result(1) by (auto simp: is_ok_def)
    moreover have "viewed ?d = ((map_of (md_snippets d))(key := Some snippet), (md_system d)(bind := md_system d bind))" by (simp add: viewed_put)
    ultimately show ?thesis using f by blast
  next
    case (passed c d2)
    have c: "d2 = ?d" "c = rendered bind ?d" using render_result [OF passed(1)] by simp_all
    have "rest (put_system bind (Some c) ?d) = (r1, d1)" using passed(2) write_result_mimic(2) [OF f] by (simp add: c(1) dbind_def)
    then have "same_files (put_system bind (Some c) ?d) d1" by (rule readsD [OF assms(2)])
    then have "viewed d1 = viewed (put_system bind (Some c) ?d)" "md_faults d1 = []" using same_viewed f by auto
    moreover have "viewed (put_system bind (Some c) ?d) = ((map_of (md_snippets d))(key := Some snippet), (md_system d)(bind := Some c))"
      using viewed_put(1,3) by (simp add: viewed_def)
    ultimately show ?thesis using c(2) by (auto simp: with_config_def)
  qed
  then show "md_faults d1 = []" "\<exists>y. viewed d1 = ((map_of (md_snippets d))(key := Some snippet), (md_system d)(bind := y))"
    "is_ok r1 \<Longrightarrow> viewed d1 = viewed (with_config bind False ?d)" by blast+
qed

lemma lift_bind: "dbind (lift_error x) f d = (case x of Inl msg \<Rightarrow> (Inl msg, d) | Inr y \<Rightarrow> f y d)"
  by (simp add: dbind_def lift_error_def)

lemma read_bind:
  "dbind (read_snippet key) f d = (r, e) \<Longrightarrow> (\<not> is_ok r \<and> e = d) \<or> f (map_of (md_snippets d) key) d = (r, e)"
  "dbind (read_system bind) g d = (r, e) \<Longrightarrow> (\<not> is_ok r \<and> e = d) \<or> g (md_system d bind) d = (r, e)"
  using read_result(1) [of key d] read_result(2) [of bind d] readsD [OF reads_simple(4)] readsD [OF reads_simple(5)]
  by (auto simp: dbind_def is_ok_def read_snippet_def read_system_def split: prod.splits sum.splits)

lemma bind_return: "dbind m (\<lambda>x. dreturn (g x)) d = (r, e) \<Longrightarrow> \<exists>r0. m d = (r0, e) \<and> is_ok r = is_ok r0"
  by (auto simp: dbind_def dreturn_def is_ok_def split: prod.splits sum.splits)

lemma guarded_bind:
  assumes "dbind (read_snippet key) (\<lambda>old. dbind (read_system bind) (\<lambda>sys.
      dbind (dexcept m (restore_mimic me bind key old sys)) (\<lambda>x. dreturn (g x)))) d = (r, e)"
    "m d = (r1, d1)" "md_faults d1 = []" "viewed d1 = ((map_of (md_snippets d))(key := x), (md_system d)(bind := y))"
  shows "(\<not> is_ok r \<and> viewed e = viewed d) \<or> (is_ok r \<and> is_ok r1 \<and> e = d1)"
proof (cases "\<not> is_ok r \<and> e = d")
  case False
  let ?m = "dexcept m (restore_mimic me bind key (map_of (md_snippets d) key) (md_system d bind))"
  from False read_bind(1) [OF assms(1)] have 1: "dbind (read_system bind) (\<lambda>sys. dbind (dexcept m (restore_mimic me bind key
      (map_of (md_snippets d) key) sys)) (\<lambda>x. dreturn (g x))) d = (r, e)" by blast
  from False read_bind(2) [OF 1] have 2: "dbind ?m (\<lambda>x. dreturn (g x)) d = (r, e)" by blast
  obtain r0 where r0: "?m d = (r0, e)" "is_ok r = is_ok r0" using bind_return [OF 2] by blast
  from undone_change [OF r0(1) assms(2-4)] r0(2) show ?thesis by auto
qed simp

text \<open>adding a link to a mimic configuration, with no write failing, is all or nothing: either every
  snippet and every configuration is as before, and the change is refused; or it succeeds, the
  snippet is stored, and the configuration is the one rendered with it.\<close>

theorem apply_mimic_all_or_nothing:
  assumes "md_faults d = []" "apply_mimic me False p d = (r, e)"
  shows "(\<not> is_ok r \<and> viewed e = viewed d) \<or> (\<exists>i bind snippet. is_ok r \<and> mimic_instance_name p = Inr i \<and>
    mimic_bind_interface p = Inr bind \<and> build_mimic_snippet p = Inr snippet \<and>
    viewed e = viewed (with_config bind False (put_snippet (bind, instance_file i) snippet d)))"
proof (cases "me_systemd me \<and> me_installed me \<and> is_ok (mimic_instance_name p) \<and> is_ok (mimic_bind_interface p) \<and> is_ok (build_mimic_snippet p)")
  case True
  then obtain i bind snippet where p: "mimic_instance_name p = Inr i" "mimic_bind_interface p = Inr bind" "build_mimic_snippet p = Inr snippet"
    by (auto simp: is_ok_def split: sum.splits)
  have t: "me_systemd me" "me_installed me" using True by simp_all
  let ?key = "(bind, instance_file i)"
  let ?rest = "dbind (mimic_daemon_reload me False) (\<lambda>r. dbind (dmap (\<lambda>action. mimic_command me bind [action] False) [''enable'', ''restart'']) (\<lambda>rs. dreturn (r # rs)))"
  let ?m = "dbind (write_snippet ?key snippet) (\<lambda>_. dbind (render_mimic_config bind None) (\<lambda>config. dbind (write_mimic_system_config bind config) (\<lambda>_. ?rest)))"
  obtain r1 d1 where m: "?m d = (r1, d1)" by (rule prod.exhaust)
  have "reads ?rest" by (intro reading)
  note b = apply_body [OF assms(1) this m]
  obtain y where y: "viewed d1 = ((map_of (md_snippets d))(?key := Some snippet), (md_system d)(bind := y))" using b(2) by blast
  have g: "\<exists>f. dbind (read_snippet ?key) (\<lambda>old. dbind (read_system bind) (\<lambda>sys. dbind (dexcept ?m (restore_mimic me bind ?key old sys)) (\<lambda>x. dreturn (f x)))) d = (r, e)"
    using assms(2) unfolding apply_mimic_def Let_def by (simp only: t lift_bind p sum.case if_False not_True_eq_False) (rule exI, assumption)
  then obtain f where f: "dbind (read_snippet ?key) (\<lambda>old. dbind (read_system bind) (\<lambda>sys. dbind (dexcept ?m (restore_mimic me bind ?key old sys)) (\<lambda>x. dreturn (f x)))) d = (r, e)" ..
  from guarded_bind [where m = ?m, OF f m b(1) y] show ?thesis using b(3) p by blast
next
  case False
  then have "\<not> is_ok r \<and> e = d" using assms(2) unfolding apply_mimic_def Let_def
    by (auto simp: lift_bind draise_def is_ok_def split: sum.splits if_splits)
  then show ?thesis by simp
qed

lemma delete_body:
  assumes "md_faults d = []" "\<And>x. reads (after x)" "\<And>x. reads (gone x)" "\<And>x. reads (check x)"
    "dbind (unlink_snippet key) (\<lambda>_. dbind (render_mimic_config bind None) (\<lambda>config.
       dbind (if strip config \<noteq> [] then dbind (write_mimic_system_config bind config) after
           else dbind (unlink_system bind) gone) check)) d = (r1, d1)"
  shows "md_faults d1 = []" "\<exists>y. viewed d1 = ((map_of (md_snippets d))(key := None), (md_system d)(bind := y))"
    "is_ok r1 \<Longrightarrow> viewed d1 = viewed (with_config bind True (del_snippet key d))"
proof -
  let ?d = "del_snippet key d"
  have f: "md_faults ?d = []" using assms(1) by simp
  let ?f = "\<lambda>config. dbind (if strip config \<noteq> [] then dbind (write_mimic_system_config bind config) after
           else dbind (unlink_system bind) gone) check"
  have m: "dbind (render_mimic_config bind None) ?f ?d = (r1, d1)"
    using assms(5) by (simp add: dbind_def unlink_snippet_def)
  have "md_faults d1 = [] \<and> (\<exists>y. viewed d1 = ((map_of (md_snippets d))(key := None), (md_system d)(bind := y))) \<and>
      (is_ok r1 \<longrightarrow> viewed d1 = viewed (with_config bind True ?d))"
    using m
  proof (cases rule: dbind_cases)
    case (refused msg)
    then have "d1 = ?d" "\<not> is_ok r1" using render_result(1) by (auto simp: is_ok_def)
    moreover have "viewed ?d = ((map_of (md_snippets d))(key := None), (md_system d)(bind := md_system d bind))" by (simp add: viewed_put)
    ultimately show ?thesis using f by blast
  next
    case (passed c d2)
    have c: "d2 = ?d" "c = rendered bind ?d" using render_result [OF passed(1)] by simp_all
    let ?u = "if strip c = [] then None else Some c"
    have "\<exists>m. reads m \<and> m (put_system bind ?u ?d) = (r1, d1)"
    proof (cases "strip c = []")
      case True
      then have "dbind (dbind (unlink_system bind) gone) check ?d = (r1, d1)" using passed(2) c(1) by simp
      then have "dbind (gone ()) check (put_system bind ?u ?d) = (r1, d1)" using True by (simp add: dbind_def unlink_system_def)
      then show ?thesis using assms(3,4) reads_dbind by blast
    next
      case False
      then have "dbind (dbind (write_mimic_system_config bind c) after) check ?d = (r1, d1)" using passed(2) c(1) by simp
      then have "dbind (after ()) check (put_system bind ?u ?d) = (r1, d1)" using False write_result_mimic(2) [OF f] by (simp add: dbind_def)
      then show ?thesis using assms(2,4) reads_dbind by blast
    qed
    then have "same_files (put_system bind ?u ?d) d1" using readsD by blast
    then have "viewed d1 = viewed (put_system bind ?u ?d)" "md_faults d1 = []" using same_viewed f by auto
    moreover have "viewed (put_system bind ?u ?d) = ((map_of (md_snippets d))(key := None), (md_system d)(bind := ?u))"
      using viewed_put(2,3) by (simp add: viewed_def)
    ultimately show ?thesis using c(2) by (auto simp: with_config_def)
  qed
  then show "md_faults d1 = []" "\<exists>y. viewed d1 = ((map_of (md_snippets d))(key := None), (md_system d)(bind := y))"
    "is_ok r1 \<Longrightarrow> viewed d1 = viewed (with_config bind True ?d)" by blast+
qed

text \<open>so is taking a link out: either nothing has changed and the request is refused, or the snippet
  is gone and the configuration is the one rendered without it, or no file when that is blank.\<close>

theorem delete_mimic_all_or_nothing:
  assumes "md_faults d = []" "delete_mimic me False p d = (r, e)"
  shows "(\<not> is_ok r \<and> viewed e = viewed d) \<or> (\<exists>i bind. is_ok r \<and> mimic_instance_name p = Inr i \<and>
    mimic_bind_interface p = Inr bind \<and> viewed e = viewed (with_config bind True (del_snippet (bind, instance_file i) d)))"
proof (cases "is_ok (mimic_instance_name p) \<and> is_ok (mimic_bind_interface p)")
  case True
  then obtain i bind where p: "mimic_instance_name p = Inr i" "mimic_bind_interface p = Inr bind"
    by (auto simp: is_ok_def split: sum.splits)
  let ?key = "(bind, instance_file i)" and ?after = "\<lambda>_ :: unit. mimic_command me bind [''restart''] True"
    and ?gone = "\<lambda>_ :: unit. mimic_command me bind [''disable'', ''--now''] True"
    and ?check = "\<lambda>r. dbind (ensure_success r) (\<lambda>_. dreturn [r])"
  let ?m = "dbind (unlink_snippet ?key) (\<lambda>_. dbind (render_mimic_config bind None) (\<lambda>config.
       dbind (if strip config \<noteq> [] then dbind (write_mimic_system_config bind config) ?after
           else dbind (unlink_system bind) ?gone) ?check))"
  obtain r1 d1 where m: "?m d = (r1, d1)" by (rule prod.exhaust)
  have rd: "reads (?after x)" "reads (?gone x)" "reads (?check y)" for x y by (intro reading)+
  note b = delete_body [OF assms(1) rd m]
  obtain y where y: "viewed d1 = ((map_of (md_snippets d))(?key := None), (md_system d)(bind := y))" using b(2) by blast
  have g: "\<exists>f. dbind (read_snippet ?key) (\<lambda>old. dbind (read_system bind) (\<lambda>sys. dbind (dexcept ?m (restore_mimic me bind ?key old sys)) (\<lambda>x. dreturn (f x)))) d = (r, e)"
    using assms(2) unfolding delete_mimic_def Let_def by (simp only: lift_bind p sum.case if_False) (rule exI, assumption)
  then obtain f where f: "dbind (read_snippet ?key) (\<lambda>old. dbind (read_system bind) (\<lambda>sys. dbind (dexcept ?m (restore_mimic me bind ?key old sys)) (\<lambda>x. dreturn (f x)))) d = (r, e)" ..
  from guarded_bind [where m = ?m, OF f m b(1) y] show ?thesis using b(3) p by blast
next
  case False
  then have "\<not> is_ok r \<and> e = d" using assms(2) unfolding delete_mimic_def Let_def
    by (auto simp: lift_bind is_ok_def split: sum.splits if_splits)
  then show ?thesis by simp
qed

section \<open>The administrator's text survives\<close>

text \<open>Nothing stored has a mark of its own, and no configuration a block that is not closed.\<close>

definition shared_ok :: "mimic_disk \<Rightarrow> bool" where
  "shared_ok d = (list_all (\<lambda>(key, t). split_sub mimic_block_end t = None) (md_snippets d) \<and>
     (\<forall>bind. well_marked (the_or [] (md_system d bind))))"

definition own_of :: "mimic_disk \<Rightarrow> string \<Rightarrow> string" where
  "own_of d bind = own_text (the_or [] (md_system d bind))"

definition preserves :: "(string \<Rightarrow> string) \<Rightarrow> 'a mio \<Rightarrow> bool" where
  "preserves own m = (\<forall>d. shared_ok d \<longrightarrow> own_of d = own \<longrightarrow> shared_ok (snd (m d)) \<and> own_of (snd (m d)) = own)"

named_theorems preserving "operations that keep the administrator's text"

lemma reads_preserves: "reads m \<Longrightarrow> preserves own m"
  by (simp add: reads_def preserves_def same_files_def shared_ok_def own_of_def fun_eq_iff)

lemma preserves_dbind [preserving]: "preserves own m \<Longrightarrow> (\<And>x. preserves own (f x)) \<Longrightarrow> preserves own (dbind m f)"
  unfolding preserves_def
proof (intro allI impI)
  fix d assume p: "\<forall>d. shared_ok d \<longrightarrow> own_of d = own \<longrightarrow> shared_ok (snd (m d)) \<and> own_of (snd (m d)) = own"
    "\<And>x. \<forall>d. shared_ok d \<longrightarrow> own_of d = own \<longrightarrow> shared_ok (snd (f x d)) \<and> own_of (snd (f x d)) = own" and d: "shared_ok d" "own_of d = own"
  obtain r1 d1 where m: "m d = (r1, d1)" by (rule prod.exhaust)
  have "shared_ok d1 \<and> own_of d1 = own" using p(1) d m by (metis snd_conv)
  then show "shared_ok (snd (dbind m f d)) \<and> own_of (snd (dbind m f d)) = own"
    using p(2) by (simp add: dbind_def m split: sum.split)
qed

lemma preserves_dexcept [preserving]: "preserves own m \<Longrightarrow> preserves own h \<Longrightarrow> preserves own (dexcept m h)"
  unfolding preserves_def
proof (intro allI impI)
  fix d assume p: "\<forall>d. shared_ok d \<longrightarrow> own_of d = own \<longrightarrow> shared_ok (snd (m d)) \<and> own_of (snd (m d)) = own"
    "\<forall>d. shared_ok d \<longrightarrow> own_of d = own \<longrightarrow> shared_ok (snd (h d)) \<and> own_of (snd (h d)) = own" and d: "shared_ok d" "own_of d = own"
  obtain r1 d1 where m: "m d = (r1, d1)" by (rule prod.exhaust)
  obtain r2 d2 where h: "h d1 = (r2, d2)" by (rule prod.exhaust)
  have "shared_ok d1 \<and> own_of d1 = own" using p(1) d m by (metis snd_conv)
  moreover from this have "shared_ok d2 \<and> own_of d2 = own" using p(2) h by (metis snd_conv)
  ultimately show "shared_ok (snd (dexcept m h d)) \<and> own_of (snd (dexcept m h d)) = own"
    by (simp add: dexcept_def m h split: sum.split)
qed

lemma preserves_faulty:
  assumes "\<And>d. shared_ok d \<Longrightarrow> own_of d = own \<Longrightarrow> shared_ok (f d) \<and> own_of (f d) = own"
  shows "preserves own (faulty f)"
proof -
  have "shared_ok (d\<lparr>md_faults := bs\<rparr>) = shared_ok d \<and> own_of (d\<lparr>md_faults := bs\<rparr>) = own_of d" for d bs
    by (simp add: shared_ok_def own_of_def fun_eq_iff)
  then show ?thesis using assms by (auto simp: preserves_def faulty_def split: list.split bool.split)
qed

lemma update_all: "list_all P al \<Longrightarrow> P (k, v) \<Longrightarrow> list_all P (AList.update k v al)"
  by (induction al) auto

lemma preserves_snippet [preserving]:
  "split_sub mimic_block_end t = None \<Longrightarrow> preserves own (write_snippet key t)" "preserves own (unlink_snippet key)"
  unfolding write_snippet_def
  by (rule preserves_faulty; simp add: put_snippet_def shared_ok_def own_of_def fun_eq_iff update_all)
    (auto simp: preserves_def unlink_snippet_def del_snippet_def shared_ok_def own_of_def fun_eq_iff list_all_iff AList.delete_eq)

lemma empty_text: "well_marked []" "own_text [] = []"
  using strip_blocks_plain [of "[]"] mark_facts(1) by (simp_all add: well_marked_def own_text_def strip_def strip_by_def)

lemma preserves_system [preserving]:
  "well_marked t \<Longrightarrow> own_text t = own bind \<Longrightarrow> preserves own (write_mimic_system_config bind t)"
  "own bind = [] \<Longrightarrow> preserves own (unlink_system bind)"
  unfolding write_mimic_system_config_def
  by (rule preserves_faulty; auto simp: put_system_def shared_ok_def own_of_def fun_eq_iff)
    (auto simp: preserves_def unlink_system_def put_system_def shared_ok_def own_of_def fun_eq_iff empty_text)

text \<open>What is read may be used.\<close>

lemma preserves_bind_result:
  assumes "reads m" "\<And>d x e. shared_ok d \<Longrightarrow> own_of d = own \<Longrightarrow> m d = (Inr x, e) \<Longrightarrow> P x" "\<And>x. P x \<Longrightarrow> preserves own (f x)"
  shows "preserves own (dbind m f)"
  unfolding preserves_def
proof (intro allI impI)
  fix d assume d: "shared_ok d" "own_of d = own"
  have s: "same_files d (snd (m d))" using assms(1) by (simp add: reads_def)
  then have e: "shared_ok (snd (m d))" "own_of (snd (m d)) = own" using d by (simp_all add: same_files_def shared_ok_def own_of_def fun_eq_iff)
  show "shared_ok (snd (dbind m f d)) \<and> own_of (snd (dbind m f d)) = own"
  proof (cases "fst (m d)")
    case (Inl msg)
    then show ?thesis using e by (cases "m d") (simp add: dbind_def)
  next
    case (Inr x)
    then have m: "m d = (Inr x, snd (m d))" by (cases "m d") simp
    have "dbind m f d = f x (snd (m d))" unfolding dbind_def by (subst m) simp
    then show ?thesis using assms(3) [OF assms(2) [OF d m]] e by (simp add: preserves_def)
  qed
qed

lemma preserves_lift: "(\<And>y. x = Inr y \<Longrightarrow> preserves own (f y)) \<Longrightarrow> preserves own (dbind (lift_error x) f)"
  by (cases x) (simp_all add: preserves_def lift_bind)

definition fit :: "(string \<Rightarrow> string) \<Rightarrow> string \<Rightarrow> string \<Rightarrow> bool" where
  "fit own bind t = (well_marked t \<and> own_text t = own bind)"

lemma preserves_read_snippet:
  "(\<And>old. (\<And>t. old = Some t \<Longrightarrow> split_sub mimic_block_end t = None) \<Longrightarrow> preserves own (f old)) \<Longrightarrow> preserves own (dbind (read_snippet key) f)"
  by (rule preserves_bind_result [where P = "\<lambda>old. \<forall>t. old = Some t \<longrightarrow> split_sub mimic_block_end t = None"])
    (auto simp: reading shared_ok_def list_all_iff dest!: read_result(1) [THEN conjunct1] map_of_SomeD)

lemma preserves_read_system:
  "(\<And>sys. fit own bind (the_or [] sys) \<Longrightarrow> preserves own (f sys)) \<Longrightarrow> preserves own (dbind (read_system bind) f)"
  by (rule preserves_bind_result [where P = "\<lambda>sys. fit own bind (the_or [] sys)"])
    (auto simp: reading shared_ok_def fit_def own_of_def dest!: read_result(2))

lemma preserves_render:
  "(\<And>c. fit own bind c \<Longrightarrow> preserves own (f c)) \<Longrightarrow> preserves own (dbind (render_mimic_config bind None) f)"
proof (rule preserves_bind_result [where P = "fit own bind"])
  show "reads (render_mimic_config bind None)" unfolding render_mimic_config_def option.case by (intro reading)
  fix d c e assume d: "shared_ok d" "own_of d = own" and "render_mimic_config bind None d = (Inr c, e)"
  then have c: "c = rendered bind d" by (auto dest!: render_result(2))
  have "split_sub mimic_block_end x = None" if "x \<in> set (map (\<lambda>(n, t). strip t) (snippet_files bind d))" for x
    using that d(1) split_sub_strip by (fastforce simp: snippet_files_def shared_ok_def list_all_iff)
  then show "fit own bind c" unfolding c fit_def rendered_def using merge_keeps_own_text d by (auto simp: shared_ok_def own_of_def)
qed

lemma blank_is_empty: "strip c = [] \<Longrightarrow> own_text c = []"
proof -
  assume b: "strip c = []"
  then have sp: "list_all is_space c" using strip_infix [of c] by auto
  have "mimic_block_begin = CHR ''#'' # tl mimic_block_begin" by code_simp
  then have "CHR ''#'' \<in> set (x @ mimic_block_begin @ y)" for x y by (metis Un_iff list.set_intros(1) set_append)
  then have "split_sub mimic_block_begin c = None" unfolding split_sub_None_iff using sp no_hash(3) by (metis list_all_iff)
  then show ?thesis using b by (simp add: own_text_def strip_blocks_plain)
qed

lemma restore_preserves:
  assumes "\<And>t. old = Some t \<Longrightarrow> split_sub mimic_block_end t = None" "fit own bind (the_or [] sys)"
  shows "preserves own (restore_mimic me bind key old sys)"
proof -
  have a: "preserves own (case old of None \<Rightarrow> unlink_snippet key | Some t \<Rightarrow> write_snippet key t)"
    using assms(1) by (cases old) (simp_all add: preserving)
  have b: "preserves own (case sys of None \<Rightarrow> unlink_system bind | Some t \<Rightarrow> write_mimic_system_config bind t)"
    using assms(2) empty_text by (cases sys) (simp_all add: preserving fit_def)
  have c: "preserves own (dignore (dbind (mimic_daemon_reload me True) (\<lambda>_. mimic_command me bind args True)))" for args
    by (intro reads_preserves reading)
  show ?thesis unfolding restore_mimic_def by (intro preserves_dbind a b c)
qed

lemma preserves_report [preserving]: "preserves own (dreturn x)"
  by (intro reads_preserves reading)

lemma apply_preserves: "preserves own (apply_mimic me False p)"
proof (cases "me_systemd me")
  case True
  have r: "preserves own (dbind (mimic_daemon_reload me False) (\<lambda>r. dbind (dmap (\<lambda>action. mimic_command me bind [action] False) acts) (\<lambda>rs. dreturn (r # rs))))" for bind acts
    by (intro reads_preserves reading)
  show ?thesis
  proof (cases "me_installed me")
    case i: True
    have core: "preserves own (dbind (read_snippet key) (\<lambda>old. dbind (read_system bind) (\<lambda>sys. dbind (dexcept
        (dbind (write_snippet key snippet) (\<lambda>_. dbind (render_mimic_config bind None) (\<lambda>config. dbind (write_mimic_system_config bind config)
           (\<lambda>_. dbind (mimic_daemon_reload me False) (\<lambda>r. dbind (dmap (\<lambda>action. mimic_command me bind [action] False) acts) (\<lambda>rs. dreturn (r # rs)))))))
        (restore_mimic me bind key old sys)) (\<lambda>commands. dreturn (g commands)))))"
      if "split_sub mimic_block_end snippet = None" for key bind snippet acts g
      by (intro preserves_read_snippet preserves_read_system preserves_dbind preserves_dexcept preserves_render restore_preserves
          preserves_report preserves_snippet(1) preserves_system(1) r that; (assumption | simp add: fit_def))
    show ?thesis
      unfolding apply_mimic_def Let_def if_not_P [OF not_not [THEN iffD2, OF True]] if_not_P [OF not_not [THEN iffD2, OF i]] if_False
      by (intro preserves_lift, drule built_snippet_unmarked, rule core, assumption)
  next
    case False
    then show ?thesis unfolding apply_mimic_def Let_def if_False
      by (simp add: True) (intro preserves_lift reads_preserves reading)
  qed
qed (simp add: apply_mimic_def reads_preserves reading)

lemma delete_preserves: "preserves own (delete_mimic me False p)"
proof -
  have u: "preserves own (unlink_system bind)" if "fit own bind c" "\<not> strip c \<noteq> []" for bind c
    using that blank_is_empty by (intro preserves_system(2)) (simp add: fit_def)
  have c: "preserves own (mimic_command me bind args True)" "preserves own (ensure_success r :: unit mio)" for bind args r
    by (intro reads_preserves reading)+
  have "preserves own (if strip c \<noteq> [] then dbind (write_mimic_system_config bind c) (\<lambda>_. mimic_command me bind a1 True)
      else dbind (unlink_system bind) (\<lambda>_. mimic_command me bind a2 True))" if "fit own bind c" for bind c a1 a2
    using u [OF that] preserves_system(1) [of c own bind] that c(1) by (auto simp: fit_def intro: preserves_dbind)
  note body = this
  show ?thesis
    unfolding delete_mimic_def Let_def if_False
    by (intro preserves_lift preserves_read_snippet preserves_read_system)
      (intro preserves_dbind [OF preserves_dexcept] preserves_report restore_preserves preserves_dbind [OF preserves_snippet(2)]
        preserves_render preserves_dbind [OF body] preserves_dbind [OF c(2)]; assumption)
qed

text \<open>A history of changes, each on an environment of its own.\<close>

definition mimic_change :: "mimic_env \<times> (fields + fields) \<Rightarrow> mimic_disk \<Rightarrow> mimic_disk" where
  "mimic_change x d = (case snd x of Inl p \<Rightarrow> snd (apply_mimic (fst x) False p d) | Inr p \<Rightarrow> snd (delete_mimic (fst x) False p d))"

text \<open>C10: whatever links are added to and taken out of the mimic configurations of a node, and whatever
  writes and commands fail meanwhile, what the administrator wrote outside the marked block of each
  configuration stays: every configuration still has the same text outside the block.\<close>

theorem administrator_text_survives:
  assumes "shared_ok d"
  shows "own_of (fold mimic_change xs d) bind = own_of d bind"
proof -
  have "shared_ok d \<Longrightarrow> shared_ok (fold mimic_change xs d) \<and> own_of (fold mimic_change xs d) = own_of d" for d
  proof (induction xs arbitrary: d)
    case (Cons x xs)
    have "shared_ok (mimic_change x d) \<and> own_of (mimic_change x d) = own_of d"
      using Cons.prems apply_preserves [of "own_of d" "fst x"] delete_preserves [of "own_of d" "fst x"]
      by (cases "snd x") (simp_all add: mimic_change_def preserves_def)
    then show ?case using Cons.IH [of "mimic_change x d"] by simp
  qed simp
  then show ?thesis using assms by simp
qed

end
