(* ===== verification/MimicSamples.thy ===== *)
theory MimicSamples
  imports MimicLaws
begin

text \<open>
  A configuration with a text of its administrator and the filter of one link, to which the
  properties of MimicLaws are applied.
\<close>

definition mimic_order :: "string \<Rightarrow> fields" where
  "mimic_order i = [(''instance'', JStr i), (''bind_interface'', JStr ''eth0''), (''peer_host'', JStr ''192.0.2.2''), (''peer_port'', JInt 51820)]"

definition admin_text :: string where
  "admin_text = ''log.verbosity = info'' @ [CHR 0x0A]"

definition mimic_sample :: mimic_disk where
  "mimic_sample = \<lparr>md_snippets = [((''eth0'', ''a.conf''), ''filter = remote=192.0.2.3:5'')], md_system = [''eth0'' \<mapsto> admin_text],
     md_faults = [], md_count = 0\<rparr>"

text \<open>An agent on which every command ends with the given code.\<close>

definition mimic_agent :: "int \<Rightarrow> mimic_env" where
  "mimic_agent rc = \<lparr>me_run = (\<lambda>n c d. \<lparr>cr_returncode = rc, cr_stdout = [], cr_stderr = [], cr_truncated = False, cr_failure = ''failed''\<rparr>),
     me_systemd = True, me_installed = True\<rparr>"

lemma mimic_sample_shared: "shared_ok mimic_sample"
proof -
  have a: "list_all (\<lambda>(key, t). split_sub mimic_block_end t = None) (md_snippets mimic_sample)" "well_marked admin_text" by code_simp+
  have "well_marked (the_or [] (md_system mimic_sample bind))" for bind
    using a(2) empty_text(1) by (simp add: mimic_sample_def)
  then show ?thesis using a(1) by (simp add: shared_ok_def)
qed

lemma admin_own: "own_text admin_text = ''log.verbosity = info''"
  by code_simp

theorem administrator_text_survives_witness:
  "own_of (fold mimic_change [(mimic_agent 0, Inl (mimic_order ''b'')), (mimic_agent 1, Inr (mimic_order ''a''))] mimic_sample) ''eth0'' =
     ''log.verbosity = info''"
  unfolding administrator_text_survives [OF mimic_sample_shared] using admin_own by (simp add: own_of_def mimic_sample_def)

end
