(* ===== verification/AgentGre.thy ===== *)
theory AgentGre
  imports AgentIo WgService JsonText "HOL-Library.List_Lexorder" "HOL-Library.Char_ord" "HOL-Library.Product_Lexorder"
begin

text \<open>
  The GRE back end of an agent (gre.py): the normal form of a task's payload, the configuration file
  of an interface, the command sequences of iproute2, systemd and OpenWrt's netifd, and the
  operations that write, start, stop and remove a tunnel.
\<close>

section \<open>Addresses with a prefix\<close>

definition netmask_length :: "int \<Rightarrow> int option" where
  "netmask_length m = map_option int (first_of (filter (\<lambda>p. m = 2 ^ 32 - 2 ^ (32 - p)) [0 ..< 33]))"

definition ipv4_prefix_length :: "string \<Rightarrow> int option" where
  "ipv4_prefix_length s = (if prefix_text_ok 32 s then Some (dec_value 0 s)
     else case parse_ipv4 s of None \<Rightarrow> None
       | Some m \<Rightarrow> (case netmask_length m of Some p \<Rightarrow> Some p | None \<Rightarrow> netmask_length (2 ^ 32 - 1 - m)))"

text \<open>\<open>ipaddress.ip_interface\<close>: the address and the length of its prefix.\<close>

definition ip_interface :: "string \<Rightarrow> (ip_addr \<times> int) option" where
  "ip_interface s = (case split_on (CHR ''/'') s of
      [a] \<Rightarrow> (case parse_ipv4 a of Some n \<Rightarrow> Some (IPv4 n, 32)
        | None \<Rightarrow> map_option (\<lambda>(n, z). (IPv6 n z, 128)) (parse_ipv6 a))
    | [a, m] \<Rightarrow> (case (parse_ipv4 a, ipv4_prefix_length m) of
          (Some n, Some p) \<Rightarrow> Some (IPv4 n, p)
        | _ \<Rightarrow> (case parse_ipv6 a of None \<Rightarrow> None
            | Some (n, z) \<Rightarrow> if prefix_text_ok 128 m then Some (IPv6 n z, dec_value 0 m) else None))
    | _ \<Rightarrow> None)"

fun network_of_interface :: "ip_addr \<times> int \<Rightarrow> ip_addr \<times> int" where
  "network_of_interface (IPv4 n, p) = (IPv4 (n - n mod 2 ^ nat (32 - p)), p)"
| "network_of_interface (IPv6 n z, p) = (IPv6 (n - n mod 2 ^ nat (128 - p)) z, p)"

definition with_prefix :: "ip_addr \<times> int \<Rightarrow> string" where
  "with_prefix x = compressed (fst x) @ ''/'' @ show_nat (snd x)"

text \<open>\<open>ip_network(s, strict=False)\<close>\<close>

definition ip_network :: "string \<Rightarrow> (ip_addr \<times> int) option" where
  "ip_network s = map_option network_of_interface (ip_interface s)"

section \<open>The payload\<close>

record gre_config =
  gc_interface_name :: string
  gc_previous_interface_name :: "string option"
  gc_outer_local_ip :: string
  gc_outer_remote_ip :: string
  gc_outer_ip_version :: int
  gc_tunnel_ips :: "string list"
  gc_routes :: "string list"
  gc_mtu :: int
  gc_key :: "string option"
  gc_ttl :: "int option"
  gc_pmtudisc :: bool
  gc_encaplimit :: "int option"

definition gre_outer_address :: "string \<Rightarrow> string \<Rightarrow> (string, ip_addr) result" where
  "gre_outer_address value label = (case ip_address (strip value) of
      None \<Rightarrow> Inl (label @ '' must be an IPv4 or IPv6 address'')
    | Some (IPv6 n (Some z)) \<Rightarrow> if length z \<le> 15 \<and> list_all name_char z then Inr (IPv6 n (Some z))
        else Inl (label @ '' has an invalid IPv6 zone'')
    | Some a \<Rightarrow> Inr a)"

fun ip_zone :: "ip_addr \<Rightarrow> string option" where
  "ip_zone (IPv6 n z) = z"
| "ip_zone (IPv4 n) = None"

text \<open>The addresses without a zone, and the zone of either.\<close>

definition gre_outer_address_parts :: "gre_config \<Rightarrow> (string, string \<times> string \<times> string option) result" where
  "gre_outer_address_parts c =
     rbind (gre_outer_address (gc_outer_local_ip c) ''GRE outer local address'') (\<lambda>l.
     rbind (gre_outer_address (gc_outer_remote_ip c) ''GRE outer remote address'') (\<lambda>r.
     if ip_version l \<noteq> ip_version r then Inl ''GRE outer addresses must use the same IP version''
     else Inr (fst (split_first (CHR ''%'') (compressed l)), fst (split_first (CHR ''%'') (compressed r)),
       if ip_zone l \<noteq> None then ip_zone l else ip_zone r)))"

definition gre_cidr_chars :: "string \<Rightarrow> bool" where
  "gre_cidr_chars t = (t \<noteq> [] \<and> list_all (\<lambda>c. 0x21 \<le> code c \<and> code c \<noteq> 0x7F) t \<and> CHR ''%'' \<notin> set t)"

definition gre_cidr :: "(string \<Rightarrow> (ip_addr \<times> int) option) \<Rightarrow> string \<Rightarrow> json \<Rightarrow> (string, string) result" where
  "gre_cidr parse label value = (let t = strip (py_str value) in
     if \<not> gre_cidr_chars t then Inl (label @ '' contains unsupported characters'')
     else case parse t of None \<Rightarrow> Inl (''invalid '' @ label) | Some x \<Rightarrow> Inr (with_prefix x))"

text \<open>Iteration over \<open>value or []\<close>: the characters of a text, the keys of a dictionary.\<close>

definition iterate_json :: "json \<Rightarrow> (string, json list) result" where
  "iterate_json v = (if \<not> truthy v then Inr []
     else case v of JList xs \<Rightarrow> Inr xs | JStr s \<Rightarrow> Inr (map (\<lambda>c. JStr [c]) s) | JObj d \<Rightarrow> Inr (map (JStr \<circ> fst) d)
       | _ \<Rightarrow> Inl ''object is not iterable'')"

definition gre_cidrs :: "(string \<Rightarrow> (ip_addr \<times> int) option) \<Rightarrow> string \<Rightarrow> json \<Rightarrow> (string, string list) result" where
  "gre_cidrs parse label v = rbind (iterate_json v) (\<lambda>xs.
     rmap (gre_cidr parse label) (filter (\<lambda>x. strip (py_str x) \<noteq> []) xs))"

definition required_text :: "string \<Rightarrow> fields \<Rightarrow> (string, string) result" where
  "required_text k p = rbind (required k p) (\<lambda>v. Inr (strip (py_str v)))"

text \<open>\<open>int(v)\<close> within bounds, with \<open>None\<close> for an absent value.\<close>

definition bounded_int :: "int \<Rightarrow> int \<Rightarrow> string \<Rightarrow> json \<Rightarrow> (string, int option) result" where
  "bounded_int lo hi msg v = (if v = JNull then Inr None else case json_to_int v of None \<Rightarrow> Inl ''invalid integer''
     | Some n \<Rightarrow> if lo \<le> n \<and> n \<le> hi then Inr (Some n) else Inl msg)"

definition gre_key :: "json \<Rightarrow> (string, string option) result" where
  "gre_key v = (let k = strip (str_or_empty v) in
     if k = [] then Inr None
     else if is_dec_text k \<and> length k \<le> max_int_digits \<and> dec_value 0 k \<le> 4294967295 then Inr (Some k)
     else Inl ''GRE key must be between 0 and 4294967295'')"

definition previous_name_of :: "fields \<Rightarrow> (string, string option) result" where
  "previous_name_of p = (let v = strip (str_or_empty (dget p ''previous_interface_name'')) in
     if v = [] then Inr None else rbind (agent_interface_name ''previous interface name'' v) (\<lambda>n. Inr (Some n)))"

definition interface_name_of :: "fields \<Rightarrow> (string, string) result" where
  "interface_name_of p = rbind (required ''interface_name'' p) (\<lambda>v. agent_interface_name ''interface name'' (str_or_empty v))"

definition pmtudisc_of :: "fields \<Rightarrow> bool" where
  "pmtudisc_of p = (if dhas p ''pmtudisc'' then truthy (dget p ''pmtudisc'') else True)"

definition normalize_gre_payload :: "fields \<Rightarrow> (string, gre_config) result" where
  "normalize_gre_payload p =
     rbind (required_text ''outer_local_ip'' p) (\<lambda>local_text.
     rbind (required_text ''outer_remote_ip'' p) (\<lambda>remote_text.
     rbind (gre_outer_address local_text ''GRE outer local address'') (\<lambda>l.
     rbind (gre_outer_address remote_text ''GRE outer remote address'') (\<lambda>r.
     rbind (ensure (ip_version l = ip_version r) ''GRE outer addresses must use the same IP version'') (\<lambda>_.
     rbind (gre_cidrs ip_interface ''GRE tunnel address'' (dget p ''tunnel_ips'')) (\<lambda>tunnel_ips.
     rbind (gre_cidrs ip_network ''GRE route'' (dget p ''routes'')) (\<lambda>routes.
     rbind (bounded_int 576 9000 ''GRE MTU must be between 576 and 9000''
       (if truthy (dget p ''mtu'') then dget p ''mtu'' else JInt (if ip_version l = 6 then 1456 else 1476))) (\<lambda>mtu.
     rbind (bounded_int 1 255 ''GRE TTL must be between 1 and 255'' (dget p ''ttl'')) (\<lambda>ttl.
     rbind (gre_key (dget p ''key'')) (\<lambda>key.
     rbind (interface_name_of p) (\<lambda>name.
     rbind (previous_name_of p) (\<lambda>previous.
     let pmtudisc = pmtudisc_of p in
     rbind (if dget p ''encaplimit'' = JNull then Inr None
       else case json_to_int (dget p ''encaplimit'') of None \<Rightarrow> Inl ''invalid integer'' | Some n \<Rightarrow> Inr (Some n)) (\<lambda>encaplimit.
     rbind (ensure (\<not> (ip_version l = 4 \<and> ttl \<noteq> None \<and> \<not> pmtudisc)) ''GRE ttl requires PMTU discovery'') (\<lambda>_.
     rbind (ensure (\<not> (ip_version l = 4 \<and> encaplimit \<noteq> None)) ''encaplimit is only supported by GRE over IPv6'') (\<lambda>_.
     rbind (ensure (0 \<le> the_or 0 encaplimit \<and> the_or 0 encaplimit \<le> 255) ''encaplimit must be between 0 and 255'') (\<lambda>_.
       Inr \<lparr>gc_interface_name = name, gc_previous_interface_name = previous, gc_outer_local_ip = local_text,
         gc_outer_remote_ip = remote_text, gc_outer_ip_version = ip_version l, gc_tunnel_ips = tunnel_ips,
         gc_routes = routes, gc_mtu = the_or 0 mtu, gc_key = key, gc_ttl = ttl, gc_pmtudisc = pmtudisc,
         gc_encaplimit = encaplimit\<rparr>))))))))))))))))"

section \<open>The configuration file\<close>

definition jtexts :: "string list \<Rightarrow> json" where
  "jtexts xs = JList (map JStr xs)"

definition gre_fields :: "gre_config \<Rightarrow> fields" where
  "gre_fields c = [(''interface_name'', JStr (gc_interface_name c)),
     (''previous_interface_name'', jopt_str (gc_previous_interface_name c)),
     (''outer_local_ip'', JStr (gc_outer_local_ip c)), (''outer_remote_ip'', JStr (gc_outer_remote_ip c)),
     (''outer_ip_version'', JInt (gc_outer_ip_version c)), (''tunnel_ips'', jtexts (gc_tunnel_ips c)),
     (''routes'', jtexts (gc_routes c)), (''mtu'', JInt (gc_mtu c)), (''key'', jopt_str (gc_key c)),
     (''ttl'', jopt_int (gc_ttl c)), (''pmtudisc'', JBool (gc_pmtudisc c)), (''encaplimit'', jopt_int (gc_encaplimit c))]"

definition gre_dir :: path where "gre_dir = [''etc'', ''link42'', ''gre'']"
definition gre_config_max_bytes :: int where "gre_config_max_bytes = 256 * 1024"

definition gre_config_path :: "string \<Rightarrow> (string, path) result" where
  "gre_config_path name = rbind (agent_interface_name ''interface name'' name) (\<lambda>n. Inr (gre_dir @ [n @ ''.json'']))"

definition gre_config_text :: "gre_config \<Rightarrow> string" where
  "gre_config_text c = indented 0 (JObj (sort_key fst (gre_fields c))) @ [CHR 0x0A]"

definition write_gre_config :: "gre_config \<Rightarrow> path io" where
  "write_gre_config c = dbind (lift_error (gre_config_path (gc_interface_name c))) (\<lambda>p.
     if gre_config_max_bytes < utf8_length (gre_config_text c) then draise ''GRE config is too large''
     else dbind (atomic_write_text p (gre_config_text c) 384) (\<lambda>_. dreturn p))"

definition read_gre_config_snapshot :: "path \<Rightarrow> string option io" where
  "read_gre_config_snapshot p = dbind (file_exists p) (\<lambda>b. if \<not> b then dreturn None
     else dbind (file_size p) (\<lambda>n. if gre_config_max_bytes < n then draise ''GRE config file is too large''
       else dbind (read_existing_text p) (\<lambda>t. dreturn (Some t))))"

definition restore_gre_config :: "path \<Rightarrow> string option \<Rightarrow> unit io" where
  "restore_gre_config p old = restore_text p old 384"

text \<open>The answer of a deletion: the name, the path and whether a file went.\<close>

type_synonym gre_deletion = "string option \<times> path option \<times> bool"

definition delete_gre_config_file :: "string option \<Rightarrow> bool \<Rightarrow> gre_deletion io" where
  "delete_gre_config_file name dry_run = (let cleaned = strip (the_or [] name) in
     if cleaned = [] then dreturn (None, None, False)
     else dbind (lift_error (gre_config_path cleaned)) (\<lambda>p. dbind (file_exists p) (\<lambda>b.
       if \<not> dry_run \<and> b then dbind (remove_file p) (\<lambda>_. dreturn (Some cleaned, Some p, True))
       else dreturn (Some cleaned, Some p, False))))"

text \<open>\<open>None\<close> for a missing file; a text that is no JSON is an error.\<close>

definition read_gre_config :: "string \<Rightarrow> json option io" where
  "read_gre_config interface_name =
     dbind (lift_error (agent_interface_name ''interface name'' interface_name)) (\<lambda>name.
     dbind (lift_error (gre_config_path name)) (\<lambda>p.
     dbind (read_gre_config_snapshot p) (\<lambda>old. case old of None \<Rightarrow> dreturn None
       | Some t \<Rightarrow> (case loads t of None \<Rightarrow> draise ''invalid JSON'' | Some v \<Rightarrow> dreturn (Some v)))))"

section \<open>Commands\<close>

text \<open>\<open>ge_tool\<close> is the path of a program, \<open>ge_network\<close> what a command makes of the configuration of
  the network (uci and netifd write it), \<open>ge_binary\<close> and \<open>ge_pythonpath\<close> the command line of the
  agent and where its modules lie when it is not installed as a program.\<close>

record gre_env =
  ge_agent :: agent_env
  ge_tool :: "string \<Rightarrow> string"
  ge_network :: "nat \<Rightarrow> string list \<Rightarrow> (path \<Rightarrow> disk_file option) \<Rightarrow> disk_file option"
  ge_systemd :: bool
  ge_openwrt :: bool
  ge_openwrt_ipv6 :: bool
  ge_binary :: string
  ge_pythonpath :: "string option"

definition network_config :: path where "network_config = [''etc'', ''config'', ''network'']"
definition network_config_max_bytes :: int where "network_config_max_bytes = 512 * 1024"

definition run_gre :: "gre_env \<Rightarrow> string list \<Rightarrow> bool \<Rightarrow> command_report io" where
  "run_gre ge command allow d = (case run_command (ge_agent ge) command allow d of (r, e) \<Rightarrow>
     (r, e\<lparr>dk_files := (dk_files e)(network_config := ge_network ge (dk_count d) command (dk_files d))\<rparr>))"

definition ip_command :: "gre_env \<Rightarrow> string" where "ip_command ge = ge_tool ge ''ip''"
definition uci_command :: "gre_env \<Rightarrow> string" where "uci_command ge = ge_tool ge ''uci''"
definition ifup_command :: "gre_env \<Rightarrow> string" where "ifup_command ge = ge_tool ge ''ifup''"
definition ifdown_command :: "gre_env \<Rightarrow> string" where "ifdown_command ge = ge_tool ge ''ifdown''"
definition systemctl_command :: "gre_env \<Rightarrow> string" where "systemctl_command ge = ge_tool ge ''systemctl''"

definition gre_systemd_unit_name :: "string \<Rightarrow> (string, string) result" where
  "gre_systemd_unit_name name = rbind (agent_interface_name ''interface name'' name) (\<lambda>n. Inr (''link42-gre@'' @ n @ ''.service''))"

definition gre_tunnel_add_command :: "gre_env \<Rightarrow> gre_config \<Rightarrow> (string, string list) result" where
  "gre_tunnel_add_command ge c = rbind (gre_outer_address_parts c) (\<lambda>(l, r, dev). let six = (gc_outer_ip_version c = 6) in
     Inr ([ip_command ge] @ (if six then [''-6''] else []) @
       [''tunnel'', ''add'', gc_interface_name c, ''mode'', if six then ''ip6gre'' else ''gre'', ''local'', l, ''remote'', r] @
       (if set_text dev then [''dev'', the_or [] dev] else []) @
       (if set_text (gc_key c) then [''key'', the_or [] (gc_key c)] else []) @
       (case gc_ttl c of None \<Rightarrow> [] | Some t \<Rightarrow> [if six then ''hoplimit'' else ''ttl'', show_int t]) @
       (if six then [''encaplimit'', case gc_encaplimit c of None \<Rightarrow> ''none'' | Some n \<Rightarrow> show_int n] else []) @
       (if gc_outer_ip_version c = 4 then [if gc_pmtudisc c then ''pmtudisc'' else ''nopmtudisc''] else [])))"

definition network_version :: "string \<Rightarrow> (string, int) result" where
  "network_version route = (case ip_network route of None \<Rightarrow> Inl ''does not appear to be an IPv4 or IPv6 network''
     | Some x \<Rightarrow> Inr (ip_version (fst x)))"

definition gre_route_replace_command :: "gre_env \<Rightarrow> string \<Rightarrow> string \<Rightarrow> (string, string list) result" where
  "gre_route_replace_command ge interface_name route = rbind (network_version route) (\<lambda>v.
     Inr ([ip_command ge] @ (if v = 6 then [''-6''] else []) @ [''route'', ''replace'', route, ''dev'', interface_name]))"

definition renamed :: "gre_config \<Rightarrow> bool" where
  "renamed c = (set_text (gc_previous_interface_name c) \<and> gc_previous_interface_name c \<noteq> Some (gc_interface_name c))"

definition link_del :: "gre_env \<Rightarrow> string \<Rightarrow> string list" where
  "link_del ge name = [ip_command ge, ''link'', ''del'', name]"

definition gre_start_commands :: "gre_env \<Rightarrow> gre_config \<Rightarrow> (string, string list list) result" where
  "gre_start_commands ge c = (let name = gc_interface_name c in
     rbind (gre_tunnel_add_command ge c) (\<lambda>add.
     rbind (rmap (gre_route_replace_command ge name) (gc_routes c)) (\<lambda>routes.
       Inr ((if renamed c then [link_del ge (the_or [] (gc_previous_interface_name c))] else []) @
         [link_del ge name, add] @
         map (\<lambda>ip. [ip_command ge, ''addr'', ''add'', ip, ''dev'', name]) (gc_tunnel_ips c) @
         [[ip_command ge, ''link'', ''set'', ''dev'', name, ''mtu'', show_int (gc_mtu c), ''up'']] @ routes))))"

definition gre_systemd_start_commands :: "gre_env \<Rightarrow> gre_config \<Rightarrow> (string, string list list) result" where
  "gre_systemd_start_commands ge c = (let previous = the_or [] (gc_previous_interface_name c) in
     rbind (if renamed c then rbind (gre_systemd_unit_name previous) (\<lambda>u.
         Inr [[systemctl_command ge, ''disable'', ''--now'', u], link_del ge previous]) else Inr []) (\<lambda>cleanup.
     rbind (gre_systemd_unit_name (gc_interface_name c)) (\<lambda>unit.
       Inr (cleanup @ [[systemctl_command ge, ''daemon-reload''], [systemctl_command ge, ''enable'', unit],
         [systemctl_command ge, ''restart'', unit]]))))"

definition gre_systemd_stop_commands :: "gre_env \<Rightarrow> string \<Rightarrow> (string, string list list) result" where
  "gre_systemd_stop_commands ge name = rbind (gre_systemd_unit_name name) (\<lambda>u.
     Inr [[systemctl_command ge, ''disable'', ''--now'', u], link_del ge name])"

text \<open>Each command in order, until one fails that must not.\<close>

definition run_all :: "gre_env \<Rightarrow> (string list \<Rightarrow> bool) \<Rightarrow> string list list \<Rightarrow> command_report list io" where
  "run_all ge allow commands = dmap (\<lambda>c. run_gre ge c (allow c)) commands"

section \<open>The systemd unit\<close>

definition gre_systemd_unit_path :: path where
  "gre_systemd_unit_path = [''etc'', ''systemd'', ''system'', ''link42-gre@.service'']"

definition env_name_ok :: "string \<Rightarrow> bool" where
  "env_name_ok s = (s \<noteq> [] \<and> \<not> is_dec (hd s) \<and> list_all (\<lambda>c. is_alnum c \<or> c = CHR ''_'') s)"

definition env_plain_char :: "char \<Rightarrow> bool" where
  "env_plain_char c = (is_alnum c \<or> List.member ''_/:.+=@%,-'' c)"

text \<open>Percent signs are doubled; a value with other characters is quoted, backslashes and quotes
  escaped.\<close>

definition double_percent :: "string \<Rightarrow> string" where
  "double_percent s = concat (map (\<lambda>c. if c = CHR ''%'' then ''%%'' else [c]) s)"

definition systemd_environment_line :: "string \<Rightarrow> string \<Rightarrow> (string, string) result" where
  "systemd_environment_line name value =
     (if \<not> env_name_ok name then Inl ''invalid systemd environment variable name''
      else if list_ex is_control value then Inl ''systemd environment value contains control characters''
      else if value \<noteq> [] \<and> list_all env_plain_char value then Inr (''Environment='' @ name @ ''='' @ double_percent value)
      else Inr (''Environment='' @ [CHR 0x22] @ name @ ''='' @
        double_percent (concat (map (\<lambda>c. if c = CHR 0x5C \<or> c = CHR 0x22 then [CHR 0x5C, c] else [c]) value)) @ [CHR 0x22]))"

definition render_gre_systemd_unit :: "gre_env \<Rightarrow> (string, string) result" where
  "render_gre_systemd_unit ge =
     rbind (systemd_environment_line ''LINK42_GRE_DIR'' (show_path gre_dir)) (\<lambda>dir.
     rbind (case ge_pythonpath ge of None \<Rightarrow> Inr [] | Some p \<Rightarrow> rbind (systemd_environment_line ''PYTHONPATH'' p) (\<lambda>l. Inr [l])) (\<lambda>py.
       Inr (join [CHR 0x0A] ([''[Unit]'', ''Description=Link42 GRE tunnel %i'', ''After=network-online.target'',
         ''Wants=network-online.target'', [], ''[Service]'', ''Type=oneshot'', ''RemainAfterExit=yes'', dir] @ py @
         [''ExecStart='' @ ge_binary ge @ '' gre-start %i'', ''ExecStop=-'' @ ip_command ge @ '' link del %i'', [],
          ''[Install]'', ''WantedBy=multi-user.target'', []]))))"

definition install_gre_systemd_unit :: "gre_env \<Rightarrow> unit io" where
  "install_gre_systemd_unit ge = dbind (lift_error (render_gre_systemd_unit ge)) (\<lambda>t. atomic_write_text gre_systemd_unit_path t 420)"

section \<open>OpenWrt\<close>

definition require_openwrt_gre_family :: "gre_env \<Rightarrow> gre_config \<Rightarrow> (string, unit) result" where
  "require_openwrt_gre_family ge c = ensure (\<not> (gc_outer_ip_version c = 6 \<and> \<not> ge_openwrt_ipv6 ge)) ''OpenWrt does not support GRE over IPv6''"

definition addr_section :: "string \<Rightarrow> string" where
  "addr_section name = name @ ''_addr''"

text \<open>The sections of a tunnel: its own two, and those marked with its name, which are deleted first.\<close>

definition marked_section :: "string \<Rightarrow> string \<Rightarrow> string list" where
  "marked_section name line =
     (if starts_with line ''network.'' \<and> has_sub (''.link42_gre_name='' @ [CHR 0x27] @ name @ [CHR 0x27]) line
      then filter (\<lambda>s. s \<noteq> []) [fst (split_first (CHR ''.'') (drop 8 line))] else [])"

definition openwrt_gre_managed_sections :: "string \<Rightarrow> string \<Rightarrow> string list" where
  "openwrt_gre_managed_sections shown name = (let own = [name, addr_section name] in
     sort_key (\<lambda>s. (List.member own s, s)) (remdups (own @ concat (map (marked_section name) (split_lines shown)))))"

definition openwrt_delete_gre_config_commands :: "gre_env \<Rightarrow> string \<Rightarrow> string list list io" where
  "openwrt_delete_gre_config_commands ge name = dbind (run_gre ge [uci_command ge, ''-q'', ''show'', ''network''] True) (\<lambda>r.
     dreturn (map (\<lambda>s. [uci_command ge, ''-q'', ''delete'', ''network.'' @ s]) (openwrt_gre_managed_sections (rp_stdout r) name)))"

definition uci_set :: "gre_env \<Rightarrow> string \<Rightarrow> string list" where
  "uci_set ge what = [uci_command ge, ''set'', ''network.'' @ what]"

definition openwrt_route_section :: "string \<Rightarrow> int \<Rightarrow> nat \<Rightarrow> string" where
  "openwrt_route_section name version index = name @ ''_'' @ (if version = 6 then ''r6'' else ''r4'') @ ''_'' @ show_nat (int index)"

definition netmask_text :: "int \<Rightarrow> string" where
  "netmask_text p = show_ipv4 (2 ^ 32 - 2 ^ nat (32 - p))"

text \<open>The routes of each family are counted for themselves.\<close>

fun openwrt_routes :: "gre_env \<Rightarrow> string \<Rightarrow> nat \<Rightarrow> nat \<Rightarrow> string list \<Rightarrow> (string, string list list) result" where
  "openwrt_routes ge name i j [] = Inr []"
| "openwrt_routes ge name i j (route # routes) = (case ip_network route of
      None \<Rightarrow> Inl ''does not appear to be an IPv4 or IPv6 network''
    | Some (a, p) \<Rightarrow>
        let six = (ip_version a = 6);
            s = openwrt_route_section name (ip_version a) (if six then j else i);
            mark = uci_set ge (s @ ''.link42_gre_name='' @ name);
            via = uci_set ge (s @ ''.interface='' @ addr_section name) in
        rbind (openwrt_routes ge name (if six then i else Suc i) (if six then Suc j else j) routes) (\<lambda>rest.
          Inr ((if six then [uci_set ge (s @ ''=route6''), via, uci_set ge (s @ ''.target='' @ with_prefix (a, p)), mark]
            else [uci_set ge (s @ ''=route''), via, uci_set ge (s @ ''.target='' @ compressed a),
              uci_set ge (s @ ''.netmask='' @ netmask_text p), mark]) @ rest)))"

definition openwrt_route_set_commands :: "gre_env \<Rightarrow> string \<Rightarrow> string list \<Rightarrow> (string, string list list) result" where
  "openwrt_route_set_commands ge name routes = openwrt_routes ge name 0 0 routes"

definition tunnel_ip_command :: "gre_env \<Rightarrow> string \<Rightarrow> string \<Rightarrow> (string, string list) result" where
  "tunnel_ip_command ge section ip = (case ip_interface ip of None \<Rightarrow> Inl ''does not appear to be an IPv4 or IPv6 interface''
     | Some (a, p) \<Rightarrow> Inr [uci_command ge, ''add_list'',
         ''network.'' @ section @ ''.'' @ (if ip_version a = 6 then ''ip6addr'' else ''ipaddr'') @ ''='' @ ip])"

definition openwrt_apply_gre_commands :: "gre_env \<Rightarrow> gre_config \<Rightarrow> string list list io" where
  "openwrt_apply_gre_commands ge c = (let name = gc_interface_name c; addr = addr_section name; six = (gc_outer_ip_version c = 6) in
     dbind (lift_error (gre_outer_address_parts c)) (\<lambda>(l, r, dev).
     dbind (openwrt_delete_gre_config_commands ge name) (\<lambda>deletions.
     dbind (lift_error (rmap (tunnel_ip_command ge addr) (gc_tunnel_ips c))) (\<lambda>ips.
     dbind (lift_error (openwrt_route_set_commands ge name (gc_routes c))) (\<lambda>routes.
     dreturn (deletions @ map (uci_set ge)
       ([name @ ''=interface'', name @ ''.proto='' @ (if six then ''grev6'' else ''gre''),
         name @ ''.'' @ (if six then ''ip6addr'' else ''ipaddr'') @ ''='' @ l,
         name @ ''.'' @ (if six then ''peer6addr'' else ''peeraddr'') @ ''='' @ r,
         name @ ''.mtu='' @ show_int (gc_mtu c), name @ ''.auto=1'', name @ ''.link42_managed=1'', name @ ''.link42_gre_name='' @ name,
         addr @ ''=interface'', addr @ ''.proto=static'', addr @ ''.device=@'' @ name, addr @ ''.auto=1'',
         addr @ ''.link42_managed=1'', addr @ ''.link42_gre_name='' @ name] @
        (if set_text dev then [name @ ''.tunlink='' @ the_or [] dev] else []) @
        (if gc_outer_ip_version c = 4 then [name @ ''.df='' @ (if gc_pmtudisc c then ''1'' else ''0'')] else []) @
        (case gc_ttl c of None \<Rightarrow> [] | Some t \<Rightarrow> [name @ ''.ttl='' @ show_int t]) @
        (if six then [name @ ''.encaplimit='' @ (case gc_encaplimit c of None \<Rightarrow> ''none'' | Some n \<Rightarrow> show_int n)] else []) @
        (if set_text (gc_key c) then [name @ ''.ikey='' @ the_or [] (gc_key c), name @ ''.okey='' @ the_or [] (gc_key c)] else [])) @
       ips @ routes @ [[uci_command ge, ''commit'', ''network'']]))))))"

text \<open>Deletions and \<open>ifdown\<close> may fail; after another failure what is pending is dropped.\<close>

definition openwrt_may_fail :: "gre_env \<Rightarrow> string list \<Rightarrow> bool" where
  "openwrt_may_fail ge c = (take 3 c = [uci_command ge, ''-q'', ''delete''] \<or> hd c = ifdown_command ge)"

definition uci_revert :: "gre_env \<Rightarrow> unit io" where
  "uci_revert ge = dignore (run_gre ge [uci_command ge, ''revert'', ''network''] True)"

definition run_openwrt_gre_commands :: "gre_env \<Rightarrow> string list list \<Rightarrow> command_report list io" where
  "run_openwrt_gre_commands ge commands = dexcept (run_all ge (openwrt_may_fail ge) commands) (uci_revert ge)"

definition file_mode :: "path \<Rightarrow> int io" where
  "file_mode p d = (case dk_files d p of None \<Rightarrow> (Inl ''no such file'', d) | Some f \<Rightarrow> (Inr (fl_mode f), d))"

definition chmod :: "path \<Rightarrow> int \<Rightarrow> unit io" where
  "chmod p m d = (case dk_files d p of None \<Rightarrow> (Inl ''no such file'', d)
     | Some f \<Rightarrow> (Inr (), d\<lparr>dk_files := (dk_files d)(p \<mapsto> f\<lparr>fl_mode := m\<rparr>)\<rparr>))"

definition network_snapshot :: "string \<Rightarrow> (string \<times> int) option io" where
  "network_snapshot msg = dbind (file_exists network_config) (\<lambda>b. if \<not> b then dreturn None
     else dbind (file_size network_config) (\<lambda>n. if network_config_max_bytes < n then draise msg
       else dbind (read_existing_bytes network_config) (\<lambda>content. dbind (file_mode network_config) (\<lambda>m. dreturn (Some (content, m))))))"

text \<open>\<open>except: raise RuntimeError(msg)\<close>\<close>

definition or_message :: "string \<Rightarrow> 'a io \<Rightarrow> 'a io" where
  "or_message msg m d = (case m d of (Inl _, e) \<Rightarrow> (Inl msg, e) | x \<Rightarrow> x)"

definition restore_network :: "string \<Rightarrow> (string \<times> int) option \<Rightarrow> unit io" where
  "restore_network msg snapshot = (case snapshot of None \<Rightarrow> dreturn () | Some (content, m) \<Rightarrow>
     or_message msg (dbind (atomic_write_bytes network_config content (if m = 0 then 420 else m)) (\<lambda>_. chmod network_config m)))"

definition guarded_openwrt :: "gre_env \<Rightarrow> string \<Rightarrow> path \<Rightarrow> string option \<Rightarrow> (string \<times> int) option \<Rightarrow> string list list \<Rightarrow>
    command_report list io" where
  "guarded_openwrt ge msg p old snapshot commands = dexcept (run_openwrt_gre_commands ge commands)
     (dbind (restore_gre_config p old) (\<lambda>_. restore_network msg snapshot))"

definition commands_json :: "string list list \<Rightarrow> json" where
  "commands_json cs = JList (map (\<lambda>c. JList (map JStr c)) cs)"

definition gre_reports :: "command_report list \<Rightarrow> json" where
  "gre_reports rs = JList (map report_json rs)"

definition path_json :: "path option \<Rightarrow> json" where
  "path_json p = (case p of None \<Rightarrow> JNull | Some p \<Rightarrow> JStr (show_path p))"

text \<open>The change of a tunnel by \<open>apply\<close> and \<open>start\<close>: with \<open>extra\<close> commands after the configuration.\<close>

definition change_openwrt :: "gre_env \<Rightarrow> bool \<Rightarrow> string \<Rightarrow> string list list \<Rightarrow> gre_config \<Rightarrow> (path \<times> string list list \<times> command_report list) io" where
  "change_openwrt ge dry_run msg extra c =
     dbind (lift_error (require_openwrt_gre_family ge c)) (\<lambda>_. dbind (lift_error (gre_config_path (gc_interface_name c))) (\<lambda>p.
     dbind (if dry_run then dreturn None else network_snapshot ''OpenWrt network config is too large'') (\<lambda>snapshot.
     dbind (openwrt_apply_gre_commands ge c) (\<lambda>commands.
     if dry_run then dreturn (p, commands @ extra, [])
     else dbind (read_gre_config_snapshot p) (\<lambda>old. dbind (write_gre_config c) (\<lambda>_.
       dbind (guarded_openwrt ge msg p old snapshot (commands @ extra)) (\<lambda>results. dreturn (p, commands @ extra, results))))))))"

definition openwrt_result :: "bool \<Rightarrow> path \<times> string list list \<times> command_report list \<Rightarrow> fields" where
  "openwrt_result dry_run x = (case x of (p, commands, results) \<Rightarrow>
     [(''changed'', JBool True)] @ (if dry_run then [(''dry_run'', JBool True)] else []) @
     [(''service_backend'', JStr ''openwrt-uci''), (''config_path'', path_json (Some p)),
      (''commands'', if dry_run then commands_json commands else gre_reports results)])"

definition apply_openwrt_gre_config :: "gre_env \<Rightarrow> bool \<Rightarrow> gre_config \<Rightarrow> fields io" where
  "apply_openwrt_gre_config ge dry_run c =
     dbind (change_openwrt ge dry_run ''OpenWrt GRE apply failed and UCI config restore failed'' [] c) (\<lambda>x.
       dreturn (openwrt_result dry_run x))"

definition stop_openwrt_gre_interface :: "gre_env \<Rightarrow> bool \<Rightarrow> string \<Rightarrow> fields io" where
  "stop_openwrt_gre_interface ge dry_run name = (let addr = addr_section name;
       commands = [[ifdown_command ge, addr], [ifdown_command ge, name],
         [uci_command ge, ''-q'', ''set'', ''network.'' @ name @ ''.auto=0''],
         [uci_command ge, ''-q'', ''set'', ''network.'' @ addr @ ''.auto=0''], [uci_command ge, ''commit'', ''network'']] in
     if dry_run then dreturn [(''changed'', JBool True), (''dry_run'', JBool True), (''service_backend'', JStr ''openwrt-uci''),
       (''commands'', commands_json commands), (''runtime_status'', JStr ''stopped'')]
     else dbind (dexcept (run_all ge (\<lambda>c. hd c = ifdown_command ge) commands) (uci_revert ge)) (\<lambda>results. dreturn
       [(''changed'', JBool True), (''service_backend'', JStr ''openwrt-uci''), (''commands'', gre_reports results),
        (''runtime_status'', JStr ''stopped'')]))"

text \<open>The name, the commands or their reports, the path and whether a file went.\<close>

definition delete_openwrt_gre_config_file :: "gre_env \<Rightarrow> bool \<Rightarrow> string option \<Rightarrow> (json \<times> gre_deletion) io" where
  "delete_openwrt_gre_config_file ge dry_run name = (let cleaned = strip (the_or [] name) in
     if cleaned = [] then dreturn (JNull, None, None, False)
     else dbind (openwrt_delete_gre_config_commands ge cleaned) (\<lambda>deletions.
       let commands = deletions @ [[uci_command ge, ''commit'', ''network'']] in
       if dry_run then dbind (delete_gre_config_file (Some cleaned) True) (\<lambda>x. dreturn (commands_json commands, x))
       else dbind (lift_error (gre_config_path cleaned)) (\<lambda>p. dbind (read_gre_config_snapshot p) (\<lambda>old.
         dbind (network_snapshot ''OpenWrt network config is invalid'') (\<lambda>snapshot. dbind (delete_gre_config_file (Some cleaned) False) (\<lambda>x.
         dbind (guarded_openwrt ge ''OpenWrt GRE delete failed and UCI config restore failed'' p old snapshot commands) (\<lambda>results.
           dreturn (gre_reports results, x))))))))"

definition deletion_json :: "bool \<Rightarrow> json \<times> gre_deletion \<Rightarrow> json" where
  "deletion_json dry_run x = (case x of (commands, name, p, deleted) \<Rightarrow> JObj ([(''interface_name'', jopt_str name)] @
     (if commands = JNull then [] else [(''service_backend'', JStr ''openwrt-uci''), (''commands'', commands)]) @
     [(''config_path'', path_json p), (''deleted'', JBool deleted)] @
     (if name = None \<or> (commands \<noteq> JNull \<and> \<not> dry_run) then [] else [(''dry_run'', JBool dry_run)])))"

definition start_openwrt_gre_interface :: "gre_env \<Rightarrow> bool \<Rightarrow> gre_config \<Rightarrow> fields io" where
  "start_openwrt_gre_interface ge dry_run c = (let name = gc_interface_name c; addr = addr_section name in
     dbind (change_openwrt ge dry_run ''OpenWrt GRE start failed and UCI config restore failed''
       [[ifdown_command ge, addr], [ifdown_command ge, name], [ifup_command ge, name], [ifup_command ge, addr]] c) (\<lambda>x.
     if dry_run then dreturn (openwrt_result True x @ [(''runtime_status'', JStr ''running'')])
     else dbind (delete_openwrt_gre_config_file ge False (gc_previous_interface_name c)) (\<lambda>y.
       dreturn (openwrt_result False x @ [(''previous_config_cleanup'', deletion_json False y), (''runtime_status'', JStr ''running'')]))))"

section \<open>Operations\<close>

definition apply_gre_config :: "gre_env \<Rightarrow> bool \<Rightarrow> fields \<Rightarrow> fields io" where
  "apply_gre_config ge dry_run p = dbind (lift_error (normalize_gre_payload p)) (\<lambda>c.
     if ge_openwrt ge then apply_openwrt_gre_config ge dry_run c
     else dbind (lift_error (gre_config_path (gc_interface_name c))) (\<lambda>q.
       dbind (if dry_run then dreturn q else write_gre_config c) (\<lambda>_. dreturn
         [(''changed'', JBool True), (''config_path'', path_json (Some q)), (''config'', JObj (gre_fields c)), (''dry_run'', JBool dry_run)])))"

definition link_may_fail :: "gre_env \<Rightarrow> string list \<Rightarrow> bool" where
  "link_may_fail ge c = (take 3 c = [ip_command ge, ''link'', ''del''])"

definition service_may_fail :: "gre_env \<Rightarrow> string list \<Rightarrow> bool" where
  "service_may_fail ge c = (take 3 c = [systemctl_command ge, ''disable'', ''--now''] \<or> link_may_fail ge c)"

text \<open>With a service the unit is written too, and the command that starts the tunnel is the unit's.\<close>

definition start_gre_service :: "gre_env \<Rightarrow> bool \<Rightarrow> gre_config \<Rightarrow> path \<Rightarrow> fields io" where
  "start_gre_service ge dry_run c q = dbind (lift_error (gre_systemd_start_commands ge c)) (\<lambda>commands.
     if dry_run then dbind (lift_error (render_gre_systemd_unit ge)) (\<lambda>content. dreturn
       [(''changed'', JBool True), (''dry_run'', JBool True), (''service_backend'', JStr ''systemd''),
        (''unit'', JObj [(''changed'', JBool True), (''unit_path'', path_json (Some gre_systemd_unit_path)), (''content'', JStr content), (''dry_run'', JBool True)]),
        (''commands'', commands_json commands), (''runtime_status'', JStr ''running''), (''config_path'', path_json (Some q))])
     else dbind (read_gre_config_snapshot q) (\<lambda>old.
       dbind (dexcept (dbind (write_gre_config c) (\<lambda>_. dbind (install_gre_systemd_unit ge) (\<lambda>_.
           run_all ge (service_may_fail ge) commands))) (restore_gre_config q old)) (\<lambda>results.
       dbind (delete_gre_config_file (gc_previous_interface_name c) False) (\<lambda>x. dreturn
       [(''changed'', JBool True), (''service_backend'', JStr ''systemd''),
        (''unit'', JObj [(''changed'', JBool True), (''unit_path'', path_json (Some gre_systemd_unit_path))]),
        (''commands'', gre_reports results), (''previous_config_cleanup'', deletion_json False (JNull, x)),
        (''runtime_status'', JStr ''running'')]))))"

definition start_gre_link :: "gre_env \<Rightarrow> bool \<Rightarrow> gre_config \<Rightarrow> path \<Rightarrow> fields io" where
  "start_gre_link ge dry_run c q =
     (if dry_run then dbind (lift_error (gre_start_commands ge c)) (\<lambda>commands. dreturn
       [(''changed'', JBool True), (''dry_run'', JBool True), (''commands'', commands_json commands),
        (''config_path'', path_json (Some q)), (''runtime_status'', JStr ''running'')])
     else dbind (read_gre_config_snapshot q) (\<lambda>old. dbind (write_gre_config c) (\<lambda>_.
       dbind (dexcept (dbind (lift_error (gre_start_commands ge c)) (\<lambda>commands. run_all ge (link_may_fail ge) commands))
           (dbind (restore_gre_config q old) (\<lambda>_. dignore (run_gre ge (link_del ge (gc_interface_name c)) True)))) (\<lambda>results.
       dbind (delete_gre_config_file (gc_previous_interface_name c) False) (\<lambda>x. dreturn
       [(''changed'', JBool True), (''commands'', gre_reports results), (''previous_config_cleanup'', deletion_json False (JNull, x)),
        (''runtime_status'', JStr ''running'')])))))"

definition start_gre_interface :: "gre_env \<Rightarrow> bool \<Rightarrow> bool \<Rightarrow> fields \<Rightarrow> fields io" where
  "start_gre_interface ge dry_run use_service p = dbind (lift_error (normalize_gre_payload p)) (\<lambda>c.
     if use_service \<and> ge_openwrt ge then start_openwrt_gre_interface ge dry_run c
     else dbind (lift_error (gre_config_path (gc_interface_name c))) (\<lambda>q.
       if use_service \<and> ge_systemd ge then start_gre_service ge dry_run c q else start_gre_link ge dry_run c q))"

text \<open>What the unit of an interface runs.\<close>

definition start_gre_from_config :: "gre_env \<Rightarrow> bool \<Rightarrow> string \<Rightarrow> fields io" where
  "start_gre_from_config ge dry_run name = dbind (read_gre_config name) (\<lambda>v. case v of
      Some (JObj p) \<Rightarrow> start_gre_interface ge dry_run False p
    | _ \<Rightarrow> draise (''GRE config not found: '' @ name))"

definition stop_gre_interface :: "gre_env \<Rightarrow> bool \<Rightarrow> fields \<Rightarrow> fields io" where
  "stop_gre_interface ge dry_run p = dbind (lift_error (interface_name_of p)) (\<lambda>name.
     if ge_openwrt ge then stop_openwrt_gre_interface ge dry_run name
     else if ge_systemd ge then dbind (lift_error (gre_systemd_stop_commands ge name)) (\<lambda>commands.
       if dry_run then dreturn [(''changed'', JBool True), (''dry_run'', JBool True), (''service_backend'', JStr ''systemd''),
         (''commands'', commands_json commands), (''runtime_status'', JStr ''stopped'')]
       else dbind (run_all ge (\<lambda>_. True) commands) (\<lambda>results. dreturn
         [(''changed'', JBool (list_ex (\<lambda>r. rp_returncode r = 0) results)), (''service_backend'', JStr ''systemd''),
          (''commands'', gre_reports results), (''runtime_status'', JStr ''stopped'')]))
     else if dry_run then dreturn [(''changed'', JBool True), (''dry_run'', JBool True),
       (''commands'', commands_json [link_del ge name]), (''runtime_status'', JStr ''stopped'')]
     else dbind (run_gre ge (link_del ge name) True) (\<lambda>r. dreturn
       [(''changed'', JBool (rp_returncode r = 0)), (''delete'', report_json r), (''runtime_status'', JStr ''stopped'')]))"

text \<open>A tunnel that was renamed goes under both names.\<close>

definition delete_gre_config :: "gre_env \<Rightarrow> bool \<Rightarrow> fields \<Rightarrow> fields io" where
  "delete_gre_config ge dry_run p = (let stop = (\<lambda>name. stop_gre_interface ge dry_run [(''interface_name'', JStr name)]);
       remove = (\<lambda>name. if ge_openwrt ge then delete_openwrt_gre_config_file ge dry_run (Some name)
         else dbind (delete_gre_config_file (Some name) dry_run) (\<lambda>x. dreturn (JNull, x))) in
     dbind (lift_error (interface_name_of p)) (\<lambda>name.
     dbind (stop name) (\<lambda>stopped. dbind (remove name) (\<lambda>current.
     dbind (lift_error (previous_name_of p)) (\<lambda>previous.
     dbind (case previous of None \<Rightarrow> dreturn None
       | Some old \<Rightarrow> if old = name then dreturn None
           else dbind (stop old) (\<lambda>s. dbind (remove old) (\<lambda>x. dreturn (Some (s, x))))) (\<lambda>other.
     dreturn ([(''changed'', JBool (truthy (dget stopped ''changed'') \<or> snd (snd (snd current)) \<or>
         (case other of None \<Rightarrow> False | Some (s, x) \<Rightarrow> truthy (dget s ''changed'') \<or> snd (snd (snd x)))))] @
       (if ge_openwrt ge then [(''service_backend'', JStr ''openwrt-uci'')] else []) @
       [(''stop'', JObj stopped), (''config_path'', path_json (fst (snd (snd current)))), (''deleted'', JBool (snd (snd (snd current)))),
        (''previous_stop'', case other of None \<Rightarrow> JNull | Some (s, x) \<Rightarrow> JObj s),
        (''previous_config'', case other of None \<Rightarrow> JNull | Some (s, x) \<Rightarrow> deletion_json dry_run x),
        (''runtime_status'', JStr ''stopped'')])))))))"

section \<open>Status\<close>

definition gre_link_is_running :: "string \<Rightarrow> bool" where
  "gre_link_is_running shown = (has_sub ''state UP'' shown \<or>
     (case split_lines shown of [] \<Rightarrow> False | line # _ \<Rightarrow>
        CHR ''<'' \<in> set line \<and> CHR ''>'' \<in> set line \<and>
        ''UP'' \<in> set (map strip (split_on (CHR '','') (fst (split_first (CHR ''>'') (snd (split_first (CHR ''<'') line))))))))"

text \<open>The version of the outer addresses of a payload as it came.\<close>

definition payload_outer_version :: "fields \<Rightarrow> (string, int) result" where
  "payload_outer_version p =
     (if truthy (dget p ''outer_ip_version'') then (case json_to_int (dget p ''outer_ip_version'') of None \<Rightarrow> Inl ''invalid integer'' | Some n \<Rightarrow> Inr n)
      else if truthy (dget p ''outer_local_ip'') then
        rbind (gre_outer_address (py_str (dget p ''outer_local_ip'')) ''GRE outer local address'') (\<lambda>a. Inr (ip_version a))
      else Inr 4)"

definition openwrt_gre_device_name :: "string \<Rightarrow> int \<Rightarrow> string" where
  "openwrt_gre_device_name name version = (if version = 6 then ''gre6-'' else ''gre4-'') @ name"

definition gre_status :: "gre_env \<Rightarrow> fields \<Rightarrow> fields io" where
  "gre_status ge p = (let state = (\<lambda>up. (''runtime_status'', JStr (if up then ''running'' else ''stopped'')));
       shown = (\<lambda>r. rp_returncode r = 0 \<and> gre_link_is_running (rp_stdout r)) in
     dbind (lift_error (interface_name_of p)) (\<lambda>name.
     if ge_openwrt ge then
       dbind (run_gre ge [''ifstatus'', name] True) (\<lambda>s. dbind (lift_error (payload_outer_version p)) (\<lambda>v.
       dbind (run_gre ge [ip_command ge, ''link'', ''show'', ''dev'', openwrt_gre_device_name name v] True) (\<lambda>r.
       let up = (rp_returncode s = 0 \<and> (case loads (if rp_stdout s = [] then ''{}'' else rp_stdout s) of
             Some (JObj d) \<Rightarrow> truthy (dget d ''up'') | _ \<Rightarrow> False)) in
       dreturn [state (up \<or> shown r), (''service_backend'', JStr ''openwrt-uci''), (''ifstatus'', report_json s), (''link'', report_json r)])))
     else dbind (run_gre ge [ip_command ge, ''link'', ''show'', ''dev'', name] True) (\<lambda>r.
       dreturn [state (shown r), (''link'', report_json r)])))"

end
