(* ===== verification/JsonRound.thy ===== *)
theory JsonRound
  imports JsonText IpRound
begin

text \<open>
  What is written is read back: every value without floats, with distinct keys and with numbers of
  at most 4300 digits is the one \<open>json.loads\<close> reads from its indented text.
\<close>

section \<open>Texts\<close>

lemma hex_digit_facts: "0 \<le> n \<Longrightarrow> n < 16 \<Longrightarrow> is_hex (hex_digit n) \<and> hex_value (hex_digit n) = n"
  using hex_char_facts [of n] by (simp add: hex_digit_def hex_char_def)

lemma read_dumped_char: "read_text (dump_char c @ r) = map_option (\<lambda>(t, u). (c # t, u)) (read_text r)"
proof -
  have hx: "is_hex (CHR ''0'')" by code_simp
  consider "c \<in> {CHR 0x22, CHR 0x5C, CHR 0x0A, CHR 0x0D, CHR 0x09, CHR 0x0C, CHR 0x08}"
    | "c \<notin> {CHR 0x22, CHR 0x5C, CHR 0x0A, CHR 0x0D, CHR 0x09, CHR 0x0C, CHR 0x08}" "code c < 0x20"
    | "c \<notin> {CHR 0x22, CHR 0x5C, CHR 0x0A, CHR 0x0D, CHR 0x09, CHR 0x0C, CHR 0x08}" "\<not> code c < 0x20" by blast
  then show ?thesis
  proof cases
    case 1
    then show ?thesis by (auto simp: dump_char_def unescape_def)
  next
    case 2
    have r: "0 \<le> code c" by (rule code_bounds)
    have h: "is_hex (hex_digit (code c div 16))" "hex_value (hex_digit (code c div 16)) = code c div 16"
      "is_hex (hex_digit (code c mod 16))" "hex_value (hex_digit (code c mod 16)) = code c mod 16"
      using hex_digit_facts [of "code c div 16"] hex_digit_facts [of "code c mod 16"] 2 r by (simp_all add: div_int_pos_iff)
    have "unescape ([CHR ''u'', CHR ''0'', CHR ''0'', hex_digit (code c div 16), hex_digit (code c mod 16)] @ r) =
        Some (char_of (code c div 16 * 16 + code c mod 16), r)"
      using h hx by (simp add: unescape_def)
    moreover have "char_of (code c div 16 * 16 + code c mod 16) = c" by (simp add: code_def)
    ultimately show ?thesis using 2 by (simp add: dump_char_def)
  next
    case 3
    then show ?thesis by (simp add: dump_char_def)
  qed
qed

lemma read_dumped: "read_text (concat (map dump_char s) @ CHR 0x22 # r) = Some (s, r)"
proof (induction s)
  case (Cons c s)
  then show ?case using read_dumped_char [of c "concat (map dump_char s) @ CHR 0x22 # r"] by simp
qed simp

section \<open>Numbers\<close>

text \<open>What cannot continue a number.\<close>

definition delim :: "string \<Rightarrow> bool" where
  "delim r = (case r of [] \<Rightarrow> True | c # _ \<Rightarrow> \<not> is_dec c \<and> c \<notin> {CHR ''.'', CHR ''e'', CHR ''E''})"

lemma no_more: "delim r \<Longrightarrow> takeWhile is_dec r = [] \<and> read_fraction r = [] \<and> read_exponent r = []"
  by (cases r) (auto simp: delim_def read_fraction_def read_exponent_def)

lemma digits_first:
  assumes "0 \<le> m" "delim r"
  shows "takeWhile is_dec (show_nat m @ r) = show_nat m" "show_nat m \<noteq> []" "starts_with (show_nat m) ''0'' \<longleftrightarrow> show_nat m = ''0''"
proof -
  have d: "list_all is_dec (show_nat m)" using show_nat_dec assms(1) by blast
  then show "takeWhile is_dec (show_nat m @ r) = show_nat m" using no_more [OF assms(2)] by (simp add: list_all_iff takeWhile_append)
  show ne: "show_nat m \<noteq> []" by simp
  show "starts_with (show_nat m) ''0'' \<longleftrightarrow> show_nat m = ''0''"
  proof (cases "m = 0")
    case True
    then have "show_nat m = ''0''" by (subst show_nat.simps) (simp add: digit_char_def char_of_def)
    then show ?thesis by (simp add: starts_with_def)
  next
    case False
    then have "hd (show_nat m) \<noteq> CHR ''0''" using show_nat_lead assms(1) by simp
    then show ?thesis using ne by (cases "show_nat m") (auto simp: starts_with_def)
  qed
qed

lemma read_digits:
  assumes "takeWhile is_dec t = ds" "starts_with ds ''0'' \<longleftrightarrow> ds = ''0''" "ds \<noteq> []" "drop (length ds) t = r"
    "read_fraction r = []" "read_exponent r = []" "length ds \<le> max_int_digits"
  shows "read_number (CHR ''-'' # t) = Some (JInt (- dec_value 0 ds), r)"
    "\<not> starts_with t ''-'' \<Longrightarrow> read_number t = Some (JInt (dec_value 0 ds), r)"
proof -
  have ip: "(if starts_with ds ''0'' then ''0'' else ds) = ds" using assms(2) by simp
  have m: "starts_with (CHR ''-'' # t) ''-''" by (simp add: starts_with_def)
  show "read_number (CHR ''-'' # t) = Some (JInt (- dec_value 0 ds), r)"
    unfolding read_number_def Let_def if_P [OF m] list.sel(3) assms(1) ip assms(4) using assms m by simp
  show "read_number t = Some (JInt (dec_value 0 ds), r)" if "\<not> starts_with t ''-''"
    unfolding read_number_def Let_def if_not_P [OF that] assms(1) ip assms(4) using assms that by simp
qed

lemma read_shown_number:
  assumes "delim r" "length (show_nat \<bar>n\<bar>) \<le> max_int_digits"
  shows "read_number (show_int n @ r) = Some (JInt n, r)"
proof -
  have m: "0 \<le> \<bar>n\<bar>" by simp
  note f = digits_first [OF m assms(1)] and z = no_more [OF assms(1)]
  have v: "dec_value 0 (show_nat \<bar>n\<bar>) = \<bar>n\<bar>" using dec_value_show_nat by simp
  have d: "is_dec (hd (show_nat \<bar>n\<bar>))" using show_nat_dec [OF m] f(2) by (cases "show_nat \<bar>n\<bar>") simp_all
  have nd: "\<not> is_dec (CHR ''-'')" by code_simp
  have ns: "\<not> starts_with (show_nat \<bar>n\<bar> @ r) ''-''"
    using d nd f(2) by (cases "show_nat \<bar>n\<bar>") (auto simp: starts_with_def)
  have dr: "drop (length (show_nat \<bar>n\<bar>)) (show_nat \<bar>n\<bar> @ r) = r" by simp
  note p = read_digits [OF f(1) f(3) f(2) dr conjunct1 [OF conjunct2 [OF z]] conjunct2 [OF conjunct2 [OF z]] assms(2)]
  show ?thesis
  proof (cases "n < 0")
    case True
    then show ?thesis using p(1) v by (simp add: show_int_def)
  next
    case False
    then show ?thesis using p(2) [OF ns] v by (simp add: show_int_def)
  qed
qed

section \<open>Values\<close>

fun plain_json :: "json \<Rightarrow> bool" where
  "plain_json (JInt n) = (length (show_nat \<bar>n\<bar>) \<le> max_int_digits)"
| "plain_json (JFloat t) = False"
| "plain_json (JList xs) = list_all plain_json xs"
| "plain_json (JObj d) = (distinct (map fst d) \<and> list_all plain_json (map snd d))"
| "plain_json v = True"

text \<open>How many values the reader looks at.\<close>

fun read_size :: "json \<Rightarrow> nat" where
  "read_size (JList xs) = Suc (sum_list (map (\<lambda>x. Suc (read_size x)) xs))"
| "read_size (JObj d) = Suc (sum_list (map (\<lambda>x. Suc (read_size (snd x))) d))"
| "read_size v = 1"

definition solid :: "string \<Rightarrow> bool" where
  "solid s = (s \<noteq> [] \<and> \<not> json_space (hd s) \<and> hd s \<noteq> CHR '']'')"

lemma skip_solid: "solid s \<Longrightarrow> skip (s @ r) = s @ r"
  by (cases s) (simp_all add: solid_def skip_def)

lemma skip_new_line: "skip (new_line l @ s) = skip s"
  by (simp add: skip_def new_line_def json_space_def dropWhile_append)

lemma spaces_first:
  "\<not> json_space (CHR '','')" "\<not> json_space (CHR '']'')" "\<not> json_space (CHR ''}'')" "\<not> json_space (CHR '':'')" "\<not> json_space (CHR 0x22)"
  by code_simp+

lemma skip_char: "\<not> json_space c \<Longrightarrow> skip (c # s) = c # s"
  by (simp add: skip_def)

lemma dec_solid: "is_dec c \<Longrightarrow> \<not> json_space c"
proof -
  have "list_all (\<lambda>c. \<not> is_dec c) [CHR '' '', CHR 0x09, CHR 0x0A, CHR 0x0D]" by code_simp
  then show "is_dec c \<Longrightarrow> \<not> json_space c" unfolding json_space_def by auto
qed

lemma solid_int: "solid (show_int n)"
proof -
  have m: "\<not> json_space (CHR ''-'')" "\<not> is_dec (CHR '']'')" by code_simp+
  have d: "is_dec (hd (show_nat m))" if "0 \<le> m" for m using show_nat_dec [OF that] by (cases "show_nat m") simp_all
  show ?thesis
  proof (cases "n < 0")
    case True
    then show ?thesis using m(1) by (simp add: show_int_def solid_def)
  next
    case False
    then have h: "is_dec (hd (show_nat n))" using d by simp
    then have "hd (show_nat n) \<noteq> CHR '']''" using m(2) by metis
    then show ?thesis using False dec_solid [OF h] by (simp add: show_int_def solid_def)
  qed
qed

lemma solid_indented: "plain_json v \<Longrightarrow> solid (indented l v)"
proof (cases v)
  case (JInt n)
  then show ?thesis using solid_int by simp
qed (simp_all add: solid_def dump_str_def json_space_def)

lemma delim_new_line: "delim (new_line l @ s)" "delim (CHR '','' # s)"
  by (simp_all add: delim_def new_line_def) (code_simp+)

lemma read_joined_items:
  assumes "\<And>x n r. x \<in> set xs \<Longrightarrow> read_size x \<le> n \<Longrightarrow> delim r \<Longrightarrow> read_value n (f x @ r) = Some (x, r)"
    "\<And>x. x \<in> set xs \<Longrightarrow> solid (f x)" "xs \<noteq> []" "sum_list (map (\<lambda>x. Suc (read_size x)) xs) \<le> n"
  shows "read_items n (join ('','' @ new_line l) (map f xs) @ new_line k @ '']'' @ r) = Some (xs, r)"
  using assms
proof (induction xs arbitrary: n)
  case (Cons x xs)
  obtain m where n: "n = Suc m" using Cons.prems(4) by (cases n) simp_all
  have m: "read_size x \<le> m" "sum_list (map (\<lambda>x. Suc (read_size x)) xs) \<le> m" using Cons.prems(4) by (simp_all add: n)
  show ?case
  proof (cases xs)
    case Nil
    then show ?thesis using Cons.prems(1) [of x m "new_line k @ '']'' @ r"] m(1) delim_new_line(1)
      by (simp add: n skip_new_line skip_char spaces_first starts_with_def)
  next
    case (Cons y ys)
    let ?t = "join ('','' @ new_line l) (map f xs) @ new_line k @ '']'' @ r"
    have t: "join ('','' @ new_line l) (map f (x # xs)) @ new_line k @ '']'' @ r = f x @ CHR '','' # new_line l @ ?t"
      unfolding Cons by simp
    have v: "read_value m (f x @ CHR '','' # new_line l @ ?t) = Some (x, CHR '','' # new_line l @ ?t)"
      by (rule Cons.prems(1)) (use m(1) delim_new_line(2) in simp_all)
    have "solid (f y)" using Cons.prems(2) [of y] Cons by simp
    then have sk: "skip ?t = ?t" using skip_solid [of "f y"] unfolding Cons by (cases ys) (simp_all add: append_assoc)
    have i: "read_items m ?t = Some (xs, r)"
      using Cons.IH [of m] Cons.prems(1,2) m(2) Cons by simp
    show ?thesis unfolding t n read_items.simps v option.case prod.case
      using sk i by (simp add: skip_char spaces_first(1) starts_with_def skip_new_line)
  qed
qed simp

lemma read_joined_members:
  assumes "\<And>k x n r. (k, x) \<in> set d \<Longrightarrow> read_size x \<le> n \<Longrightarrow> delim r \<Longrightarrow> read_value n (f x @ r) = Some (x, r)"
    "\<And>k x. (k, x) \<in> set d \<Longrightarrow> solid (f x)" "d \<noteq> []" "sum_list (map (\<lambda>x. Suc (read_size (snd x))) d) \<le> n"
  shows "read_members n (join ('','' @ new_line l) (map (\<lambda>(k, x). dump_str k @ '': '' @ f x) d) @ new_line k @ ''}'' @ r) = Some (d, r)"
  using assms
proof (induction d arbitrary: n)
  case (Cons e d)
  obtain key x where e: "e = (key, x)" by (cases e)
  obtain m where n: "n = Suc m" using Cons.prems(4) by (cases n) simp_all
  have m: "read_size x \<le> m" "sum_list (map (\<lambda>x. Suc (read_size (snd x))) d) \<le> m" using Cons.prems(4) by (simp_all add: n e)
  let ?g = "\<lambda>(k, x). dump_str k @ '': '' @ f x"
  have head: "read_members n (dump_str key @ '': '' @ f x @ u) =
      (if starts_with (skip u) '','' then map_option (\<lambda>(d, w). ((key, x) # d, w)) (read_members m (skip (tl (skip u))))
       else if starts_with (skip u) ''}'' then Some ([(key, x)], tl (skip u)) else None)" if "delim u" for u
  proof -
    have v: "read_value m (f x @ u) = Some (x, u)" using Cons.prems(1) [of key x m u] m(1) that e by simp
    have "solid (f x)" using Cons.prems(2) [of key x] e by simp
    then have sk: "skip (CHR '' '' # f x @ u) = f x @ u" using skip_solid [of "f x" u] by (simp add: skip_def json_space_def)
    have k: "read_text (concat (map dump_char key) @ CHR 0x22 # '': '' @ f x @ u) = Some (key, '': '' @ f x @ u)" by (rule read_dumped)
    show ?thesis
      using k by (simp add: n dump_str_def starts_with_def skip_char spaces_first(4) sk v)
  qed
  show ?case
  proof (cases d)
    case Nil
    then show ?thesis using head [of "new_line k @ ''}'' @ r"] delim_new_line(1)
      by (simp add: e skip_new_line skip_char spaces_first starts_with_def)
  next
    case (Cons y ys)
    let ?t = "join ('','' @ new_line l) (map ?g d) @ new_line k @ ''}'' @ r"
    have t: "join ('','' @ new_line l) (map ?g (e # d)) @ new_line k @ ''}'' @ r = dump_str key @ '': '' @ f x @ CHR '','' # new_line l @ ?t"
      unfolding Cons e by simp
    have sk: "skip ?t = ?t" unfolding Cons by (cases ys; cases y) (simp_all add: dump_str_def skip_char spaces_first(5))
    have i: "read_members m ?t = Some (d, r)"
    proof (rule Cons.IH)
      show "read_value n (f x @ r) = Some (x, r)" if "(k, x) \<in> set d" "read_size x \<le> n" "delim r" for k x n r
        by (rule Cons.prems(1) [of k]) (use that in simp_all)
      show "solid (f x)" if "(k, x) \<in> set d" for k x by (rule Cons.prems(2) [of k]) (use that in simp)
    qed (use Cons m(2) in simp_all)
    show ?thesis unfolding t using head [OF delim_new_line(2)] sk i
      by (simp add: skip_char spaces_first(1) starts_with_def skip_new_line e)
  qed
qed simp

lemma update_new: "k \<notin> fst ` set al \<Longrightarrow> AList.update k v al = al @ [(k, v)]"
  by (induction al) auto

lemma fold_dset: "distinct (map fst (acc @ d)) \<Longrightarrow> fold (\<lambda>(k, v). dset k v) d acc = acc @ d"
proof (induction d arbitrary: acc)
  case (Cons x d)
  obtain k v where x: "x = (k, v)" by (cases x)
  have "dset k v acc = acc @ [(k, v)]" using Cons.prems unfolding dset_def by (intro update_new) (auto simp: x)
  then show ?case using Cons.IH [of "acc @ [(k, v)]"] Cons.prems by (simp add: x)
qed simp

lemma int_first:
  assumes "c # cs = show_int n @ r"
  shows "is_dec c \<or> (c = CHR ''-'' \<and> cs \<noteq> [] \<and> is_dec (hd cs))"
proof -
  have d: "is_dec (hd (show_nat m))" if "0 \<le> m" for m using show_nat_dec [OF that] by (cases "show_nat m") simp_all
  show ?thesis
  proof (cases "n < 0")
    case True
    then show ?thesis using assms d [of "- n"] by (simp add: show_int_def)
  next
    case False
    then have "c = hd (show_nat n)" using assms by (cases "show_nat n") (auto simp: show_int_def)
    then show ?thesis using d False by simp
  qed
qed

lemma literal_int:
  assumes "c # cs = show_int n @ r"
  shows "read_literal (c # cs) = read_number (c # cs)" "c \<noteq> CHR 0x22" "c \<noteq> CHR ''[''" "c \<noteq> CHR ''{''"
proof -
  have n: "list_all (\<lambda>c. \<not> is_dec c \<and> c \<noteq> CHR ''-'') [CHR ''n'', CHR ''t'', CHR ''f'', CHR ''N'', CHR ''I'', CHR 0x22, CHR ''['', CHR ''{'']" by code_simp
  have m: "\<not> is_dec (CHR ''-'')" by code_simp
  from n have c: "c \<noteq> CHR ''n''" "c \<noteq> CHR ''t''" "c \<noteq> CHR ''f''" "c \<noteq> CHR ''N''" "c \<noteq> CHR ''I''" "c \<noteq> CHR 0x22" "c \<noteq> CHR ''[''" "c \<noteq> CHR ''{''"
    using int_first [OF assms] by auto
  have i: "c \<noteq> CHR ''-'' \<or> (cs \<noteq> [] \<and> hd cs \<noteq> CHR ''I'')" using int_first [OF assms] n m by auto
  show "read_literal (c # cs) = read_number (c # cs)" unfolding read_literal_def using c i by (cases cs) (auto simp: starts_with_def)
  show "c \<noteq> CHR 0x22" "c \<noteq> CHR ''[''" "c \<noteq> CHR ''{''" by fact+
qed

lemma read_literals:
  "read_literal (''null'' @ r) = Some (JNull, r)" "read_literal (''true'' @ r) = Some (JBool True, r)"
  "read_literal (''false'' @ r) = Some (JBool False, r)"
  by (simp_all add: read_literal_def starts_with_def)

text \<open>A value is read behind its text, whatever cannot continue a number comes after it.\<close>

lemma read_indented:
  "plain_json v \<Longrightarrow> read_size v \<le> n \<Longrightarrow> delim r \<Longrightarrow> read_value n (indented l v @ r) = Some (v, r)"
proof (induction v arbitrary: l n r)
  case (JInt k)
  obtain m where n: "n = Suc m" using JInt.prems(2) by (cases n) simp_all
  obtain c cs where t: "show_int k @ r = c # cs" using solid_int [of k] by (cases "show_int k") (auto simp: solid_def)
  note li = literal_int [OF t [symmetric]]
  have "read_number (c # cs) = Some (JInt k, r)" unfolding t [symmetric]
    by (rule read_shown_number) (use JInt.prems in simp_all)
  then show ?case using li by (simp add: n t)
next
  case (JStr s)
  then show ?case using read_dumped [of s r] by (cases n) (simp_all add: dump_str_def)
next
  case (JList xs)
  obtain m where n: "n = Suc m" using JList.prems(2) by (cases n) simp_all
  show ?case
  proof (cases xs)
    case Nil
    then show ?thesis by (simp add: n skip_char spaces_first starts_with_def)
  next
    case (Cons y ys)
    let ?t = "join ('','' @ new_line (Suc l)) (map (indented (Suc l)) xs) @ new_line l @ '']'' @ r"
    have p: "\<And>x. x \<in> set xs \<Longrightarrow> plain_json x" using JList.prems(1) by (simp add: list_all_iff)
    have i: "read_items m ?t = Some (xs, r)"
      using JList.IH p JList.prems(2) solid_indented Cons by (intro read_joined_items) (auto simp: n)
    have y: "solid (indented (Suc l) y)" using solid_indented p Cons by simp
    have sk: "skip ?t = ?t" using skip_solid [OF y] unfolding Cons by (cases ys) simp_all
    have ns: "\<not> starts_with ?t '']''" using y unfolding Cons
      by (cases ys; cases "indented (Suc l) y") (auto simp: starts_with_def solid_def)
    have "indented l (JList xs) @ r = CHR ''['' # new_line (Suc l) @ ?t" using Cons by simp
    then show ?thesis using i sk ns by (simp add: n skip_new_line)
  qed
next
  case (JObj d)
  obtain m where n: "n = Suc m" using JObj.prems(2) by (cases n) simp_all
  show ?case
  proof (cases d)
    case Nil
    then show ?thesis by (simp add: n skip_char spaces_first starts_with_def)
  next
    case (Cons y ys)
    let ?g = "\<lambda>(k, v). dump_str k @ '': '' @ indented (Suc l) v"
    let ?t = "join ('','' @ new_line (Suc l)) (map ?g d) @ new_line l @ ''}'' @ r"
    have p: "\<And>k x. (k, x) \<in> set d \<Longrightarrow> plain_json x" using JObj.prems(1) by (auto simp: list_all_iff)
    have i: "read_members m ?t = Some (d, r)"
      using JObj.IH p JObj.prems(2) solid_indented Cons by (intro read_joined_members) (fastforce simp: n)+
    have sk: "skip ?t = ?t" "\<not> starts_with ?t ''}''" unfolding Cons
      by (cases ys; cases y; simp add: dump_str_def skip_char spaces_first(5) starts_with_def)+
    have "indented l (JObj d) @ r = CHR ''{'' # new_line (Suc l) @ ?t" using Cons by simp
    moreover have "fold (\<lambda>(k, v). dset k v) d [] = d" using fold_dset [of "[]" d] JObj.prems(1) by simp
    ultimately show ?thesis using i sk by (simp add: n skip_new_line)
  qed
next
  case JNull
  then obtain m where n: "n = Suc m" by (cases n) simp_all
  have "read_value n (CHR ''n'' # ''ull'' @ r) = read_literal (''null'' @ r)" by (simp add: n)
  then show ?case using read_literals(1) by simp
next
  case (JBool b)
  then obtain m where n: "n = Suc m" by (cases n) simp_all
  have "read_value n (CHR ''t'' # ''rue'' @ r) = read_literal (''true'' @ r)" "read_value n (CHR ''f'' # ''alse'' @ r) = read_literal (''false'' @ r)"
    by (simp_all add: n)
  then show ?case using read_literals(2,3) by (cases b) simp_all
next
  case (JFloat t)
  then show ?case by simp
qed

lemma join_length: "length (join sep xs) + length sep = sum_list (map (\<lambda>x. length x + length sep) xs) \<or> xs = []"
  by (induction sep xs rule: join.induct) auto

lemma sum_le_map: "(\<And>x. x \<in> set xs \<Longrightarrow> f x \<le> (g x :: nat)) \<Longrightarrow> sum_list (map f xs) \<le> sum_list (map g xs)"
  by (induction xs) (auto intro: add_mono)

lemma read_size_text: "plain_json v \<Longrightarrow> read_size v \<le> length (indented l v)"
proof (induction v arbitrary: l)
  case (JInt n)
  then show ?case using solid_int [of n] by (cases "show_int n") (simp_all add: solid_def)
next
  case (JList xs)
  have "sum_list (map (\<lambda>x. Suc (read_size x)) xs) \<le> sum_list (map (\<lambda>x. length (indented (Suc l) x) + length ('','' @ new_line (Suc l))) xs)"
    using JList by (intro sum_le_map) (auto simp: list_all_iff new_line_def intro!: le_SucI trans_le_add1)
  then show ?case using join_length [of "'','' @ new_line (Suc l)" "map (indented (Suc l)) xs"] by (auto simp: comp_def new_line_def)
next
  case (JObj d)
  let ?g = "\<lambda>(k, v). dump_str k @ '': '' @ indented (Suc l) v"
  have "sum_list (map (\<lambda>x. Suc (read_size (snd x))) d) \<le> sum_list (map (\<lambda>x. length (?g x) + length ('','' @ new_line (Suc l))) d)"
  proof (rule sum_le_map)
    fix x assume x: "x \<in> set d"
    then have "plain_json (snd x)" using JObj.prems by (simp add: list_all_iff)
    then have "read_size (snd x) \<le> length (indented (Suc l) (snd x))" by (intro JObj.IH [OF x]) (cases x; simp)+
    then show "Suc (read_size (snd x)) \<le> length (?g x) + length ('','' @ new_line (Suc l))" by (cases x) (simp add: new_line_def)
  qed
  then show ?case using join_length [of "'','' @ new_line (Suc l)" "map ?g d"] by (auto simp: comp_def new_line_def)
qed (simp_all add: dump_str_def)

lemma loads_indented: "plain_json v \<Longrightarrow> loads (indented 0 v @ [CHR 0x0A]) = Some v"
proof -
  assume p: "plain_json v"
  have d: "delim [CHR 0x0A]" using delim_new_line(1) [of 0 "[]"] by (simp add: new_line_def)
  have "read_value (Suc (length (indented 0 v @ [CHR 0x0A]))) (indented 0 v @ [CHR 0x0A]) = Some (v, [CHR 0x0A])"
    using read_indented [OF p _ d] read_size_text [OF p, of 0] by (simp del: read_value.simps)
  moreover have "skip (indented 0 v @ [CHR 0x0A]) = indented 0 v @ [CHR 0x0A]" by (rule skip_solid [OF solid_indented [OF p]])
  moreover have "skip [CHR 0x0A] = []" by code_simp
  ultimately show ?thesis by (simp add: loads_def)
qed

end
