(* ===== verification/AgentGreLaws.thy ===== *)
theory AgentGreLaws
  imports AgentGre JsonRound UdpLaws
begin

text \<open>
  The configuration of a GRE tunnel that the agent writes is the one its service reads: the normal
  form of a payload is its own normal form, and it survives the way through the file. A tunnel whose
  start fails on OpenWrt leaves the configuration as it was.
\<close>

section \<open>Addresses with a prefix\<close>

fun cidr_ok :: "ip_addr \<times> int \<Rightarrow> bool" where
  "cidr_ok (IPv4 n, p) = (0 \<le> n \<and> n < 2 ^ 32 \<and> 0 \<le> p \<and> p \<le> 32)"
| "cidr_ok (IPv6 n z, p) = (z = None \<and> 0 \<le> n \<and> n < 2 ^ 128 \<and> 0 \<le> p \<and> p \<le> 128)"

lemma dec_value_nonneg: "0 \<le> acc \<Longrightarrow> list_all is_dec s \<Longrightarrow> 0 \<le> dec_value acc s"
  by (induction s arbitrary: acc) (auto simp: is_dec_def digit_value_def)

lemma prefix_text_range: "prefix_text_ok m s \<Longrightarrow> 0 \<le> dec_value 0 s \<and> dec_value 0 s \<le> m"
  using dec_value_nonneg [of 0 s] by (simp add: prefix_text_ok_def is_dec_text_def)

lemma netmask_length_range: "netmask_length m = Some p \<Longrightarrow> 0 \<le> p \<and> p \<le> 32"
proof -
  assume "netmask_length m = Some p"
  then obtain k where k: "first_of (filter (\<lambda>p. m = 2 ^ 32 - 2 ^ (32 - p)) [0 ..< 33]) = Some k" "p = int k"
    by (auto simp: netmask_length_def)
  have "k \<in> set (filter (\<lambda>p. m = 2 ^ 32 - 2 ^ (32 - p)) [0 ..< 33])"
    using k(1) by (cases "filter (\<lambda>p. m = 2 ^ 32 - 2 ^ (32 - p)) [0 ..< 33]") auto
  then show ?thesis using k(2) by auto
qed

lemma ipv4_prefix_length_range: "ipv4_prefix_length s = Some p \<Longrightarrow> 0 \<le> p \<and> p \<le> 32"
  using prefix_text_range [of 32 s] netmask_length_range
  by (auto simp: ipv4_prefix_length_def split: if_splits option.splits)

lemma parse_ipv6_cidr: "parse_ipv6 s = Some (n, z) \<Longrightarrow> CHR ''%'' \<notin> set s \<Longrightarrow> z = None \<and> 0 \<le> n \<and> n < 2 ^ 128"
  using parse_ipv6_int_range by (fastforce simp: parse_ipv6_def split_scope_def split: option.splits)

lemma split_on_subset: "x \<in> set (split_on d s) \<Longrightarrow> set x \<subseteq> set s"
proof (induction s arbitrary: x)
  case (Cons c s)
  obtain a l where sp: "split_on d s = a # l" by (cases "split_on d s") simp_all
  have h: "y = a \<or> y \<in> set l \<Longrightarrow> set y \<subseteq> set s" for y using Cons.IH [of y] sp by simp
  show ?case using Cons.prems sp h [of a] h [of x] by (auto split: if_splits)
qed simp

lemma interface_cidr:
  assumes "ip_interface s = Some x" "CHR ''%'' \<notin> set s"
  shows "cidr_ok x"
proof -
  have no: "CHR ''%'' \<notin> set t" if "t \<in> set (split_on (CHR ''/'') s)" for t using split_on_subset [OF that] assms(2) by auto
  consider a where "split_on (CHR ''/'') s = [a]" | a m where "split_on (CHR ''/'') s = [a, m]"
    using assms(1) by (auto simp: ip_interface_def split: list.splits)
  then show ?thesis
  proof cases
    case 1
    then show ?thesis using assms(1) no parse_ipv4_bounds [of a] parse_ipv6_cidr [of a]
      by (fastforce simp: ip_interface_def split: option.splits)
  next
    case 2
    have m: "ipv4_prefix_length m = Some p \<Longrightarrow> 0 \<le> p \<and> p \<le> 32" for p by (rule ipv4_prefix_length_range)
    show ?thesis using assms(1) no 2 m parse_ipv4_bounds [of a] parse_ipv6_cidr [of a] prefix_text_range [of 128 m]
      by (fastforce simp: ip_interface_def split: option.splits if_splits)
  qed
qed

lemma compressed_no_slash: "ip_in_range a \<Longrightarrow> CHR ''/'' \<notin> set (compressed a)"
  using ip_address_compressed [of a] by (auto simp: ip_address_def split: if_splits)

lemma show_nat_prefix:
  assumes "0 \<le> p" "p \<le> m" "m < 1000"
  shows "prefix_text_ok m (show_nat p)" "dec_value 0 (show_nat p) = p" "CHR ''/'' \<notin> set (show_nat p)"
proof -
  have d: "list_all is_dec (show_nat p)" using show_nat_dec assms(1) by blast
  have "length (show_nat p) \<le> 3" using length_show_nat [of p 3] assms by simp
  then show "prefix_text_ok m (show_nat p)" using d assms dec_value_show_nat [OF assms(1)]
    by (simp add: prefix_text_ok_def is_dec_text_def max_int_digits_def)
  show "dec_value 0 (show_nat p) = p" by (rule dec_value_show_nat [OF assms(1)])
  have "\<not> is_dec (CHR ''/'')" by code_simp
  then show "CHR ''/'' \<notin> set (show_nat p)" using d by (auto simp: list_all_iff)
qed

lemma cidr_split:
  assumes "cidr_ok x"
  shows "split_on (CHR ''/'') (with_prefix x) = [compressed (fst x), show_nat (snd x)]"
proof -
  have "ip_in_range (fst x)" "0 \<le> snd x" "snd x \<le> 128" using assms by (cases x rule: cidr_ok.cases; simp)+
  then show ?thesis using compressed_no_slash show_nat_prefix(3) [of "snd x" 128]
    by (simp add: with_prefix_def split_on_append split_on_no)
qed

lemma cidr_interface: "cidr_ok x \<Longrightarrow> ip_interface (with_prefix x) = Some x"
proof -
  assume ok: "cidr_ok x"
  note s = cidr_split [OF ok]
  show ?thesis
  proof (cases x rule: cidr_ok.cases)
    case (1 n p)
    then have "parse_ipv4 (show_ipv4 n) = Some n" "ipv4_prefix_length (show_nat p) = Some p"
      using ok parse_show_ipv4 [of n] show_nat_prefix [of p 32] by (simp_all add: ipv4_prefix_length_def)
    then show ?thesis using s 1 by (simp add: ip_interface_def)
  next
    case (2 n z p)
    then have a: "ip_address (show_ipv6 n) = Some (IPv6 n None)" "prefix_text_ok 128 (show_nat p)" "dec_value 0 (show_nat p) = p"
      using ok ip_address_compressed [of "IPv6 n None"] show_nat_prefix [of p 128] by simp_all
    then have "parse_ipv4 (show_ipv6 n) = None" "parse_ipv6 (show_ipv6 n) = Some (n, None)"
      by (auto simp: ip_address_def split: if_splits option.splits)
    then show ?thesis using s 2 ok a(2,3) by (simp add: ip_interface_def)
  qed
qed

lemma masked_again:
  assumes "0 \<le> (n :: int)" "n < 2 ^ k"
  shows "0 \<le> n - n mod 2 ^ j" "n - n mod 2 ^ j < 2 ^ k" "(n - n mod 2 ^ j) - (n - n mod 2 ^ j) mod 2 ^ j = n - n mod 2 ^ j"
proof -
  have "n mod 2 ^ j \<le> n" "0 \<le> n mod 2 ^ j" using assms(1) by (simp_all add: zmod_le_nonneg_dividend)
  then show "0 \<le> n - n mod 2 ^ j" "n - n mod 2 ^ j < 2 ^ k" using assms by linarith+
  have "(n - n mod 2 ^ j) mod 2 ^ j = 0" by (simp add: minus_mod_eq_mult_div)
  then show "(n - n mod 2 ^ j) - (n - n mod 2 ^ j) mod 2 ^ j = n - n mod 2 ^ j" by simp
qed

lemma network_cidr: "cidr_ok x \<Longrightarrow> cidr_ok (network_of_interface x) \<and> network_of_interface (network_of_interface x) = network_of_interface x"
proof (cases x rule: cidr_ok.cases)
  case (1 n p)
  then show "cidr_ok x \<Longrightarrow> ?thesis" using masked_again [of n 32 "nat (32 - p)"] by simp
next
  case (2 n z p)
  then show "cidr_ok x \<Longrightarrow> ?thesis" using masked_again [of n 128 "nat (128 - p)"] by simp
qed

lemma cidr_chars: "cidr_ok x \<Longrightarrow> gre_cidr_chars (with_prefix x) \<and> strip (with_prefix x) = with_prefix x"
proof -
  assume ok: "cidr_ok x"
  have one: "is_dec c \<or> is_hex c \<or> c \<in> {CHR '':'', CHR ''.'', CHR ''/''}" if c: "c \<in> set (with_prefix x)" for c
  proof (cases x rule: cidr_ok.cases)
    case (1 n p)
    then show ?thesis using c ok show_ipv4_chars [of c n] show_nat_dec [of p] by (auto simp: with_prefix_def list_all_iff)
  next
    case (2 n z p)
    then show ?thesis using c ok show_ipv6_chars [of c n] show_nat_dec [of p] by (auto simp: with_prefix_def list_all_iff)
  qed
  have good: "0x21 \<le> code c \<and> code c \<noteq> 0x7F \<and> c \<noteq> CHR ''%'' \<and> \<not> is_space c" if "is_dec c \<or> is_hex c \<or> c \<in> {CHR '':'', CHR ''.'', CHR ''/''}" for c
  proof -
    have sp: "\<not> is_space c" if r: "48 \<le> code c" "code c \<le> 102"
    proof
      let ?ws = "[CHR 0x20, CHR 0x09, CHR 0x0A, CHR 0x0B, CHR 0x0C, CHR 0x0D, CHR 0x1C, CHR 0x1D, CHR 0x1E, CHR 0x1F, CHR 0x85, CHR 0xA0]"
      assume "is_space c"
      then have m: "c \<in> set ?ws" by (simp add: is_space_def)
      have "list_all (\<lambda>c. code c < 48 \<or> 102 < code c) ?ws" by code_simp
      then have "code c < 48 \<or> 102 < code c" using m unfolding list_all_iff by (rule bspec)
      then show False using r by linarith
    qed
    have pc: "c \<noteq> CHR ''%''" if "48 \<le> code c"
    proof
      assume "c = CHR ''%''"
      moreover have "code (CHR ''%'') = 37" by code_simp
      ultimately show False using that by simp
    qed
    have h: "48 \<le> code c \<and> code c \<le> 102 \<Longrightarrow> 0x21 \<le> code c \<and> code c \<noteq> 0x7F \<and> c \<noteq> CHR ''%'' \<and> \<not> is_space c"
      using sp pc by linarith
    have k: "list_all (\<lambda>c. 0x21 \<le> code c \<and> code c \<noteq> 0x7F \<and> c \<noteq> CHR ''%'' \<and> \<not> is_space c) [CHR '':'', CHR ''.'', CHR ''/'']" by code_simp
    have "is_dec c \<or> is_hex c \<Longrightarrow> 48 \<le> code c \<and> code c \<le> 102" by (auto simp: is_hex_def is_dec_def)
    moreover have "0x21 \<le> code c \<and> code c \<noteq> 0x7F \<and> c \<noteq> CHR ''%'' \<and> \<not> is_space c" if "c \<in> {CHR '':'', CHR ''.'', CHR ''/''}"
      using k that by (elim insertE emptyE) simp_all
    ultimately show ?thesis using that h by blast
  qed
  have all: "\<forall>c \<in> set (with_prefix x). 0x21 \<le> code c \<and> code c \<noteq> 0x7F \<and> c \<noteq> CHR ''%'' \<and> \<not> is_space c"
    using one good by blast
  have ne: "with_prefix x \<noteq> []" unfolding with_prefix_def by simp
  have "list_all (\<lambda>c. 0x21 \<le> code c \<and> code c \<noteq> 0x7F) (with_prefix x)" "CHR ''%'' \<notin> set (with_prefix x)"
    "list_all (\<lambda>c. \<not> is_space c) (with_prefix x)" unfolding list_all_iff using all by blast+
  then show ?thesis unfolding gre_cidr_chars_def using ne strip_no_space by blast
qed

section \<open>The normal form of a payload\<close>

lemma gre_cidr_again:
  assumes "gre_cidr parse l v = Inr t" "\<And>s x. parse s = Some x \<Longrightarrow> CHR ''%'' \<notin> set s \<Longrightarrow> cidr_ok x \<and> parse (with_prefix x) = Some x"
  shows "gre_cidr parse l (JStr t) = Inr t" "strip t \<noteq> []"
proof -
  let ?s = "strip (py_str v)"
  obtain x where x: "gre_cidr_chars ?s" "parse ?s = Some x" "t = with_prefix x"
    using assms(1) by (auto simp: gre_cidr_def Let_def split: if_splits option.splits)
  have "CHR ''%'' \<notin> set ?s" using x(1) by (simp add: gre_cidr_chars_def)
  note p = assms(2) [OF x(2) this]
  show "gre_cidr parse l (JStr t) = Inr t" "strip t \<noteq> []"
    using p cidr_chars [of x] by (auto simp: gre_cidr_def py_str_def x(3) gre_cidr_chars_def)
qed

lemma interface_again: "ip_interface s = Some x \<Longrightarrow> CHR ''%'' \<notin> set s \<Longrightarrow> cidr_ok x \<and> ip_interface (with_prefix x) = Some x"
  using interface_cidr cidr_interface by blast

lemma network_again: "ip_network s = Some x \<Longrightarrow> CHR ''%'' \<notin> set s \<Longrightarrow> cidr_ok x \<and> ip_network (with_prefix x) = Some x"
proof -
  assume "ip_network s = Some x" "CHR ''%'' \<notin> set s"
  then obtain y where "ip_interface s = Some y" "x = network_of_interface y" "CHR ''%'' \<notin> set s" by (auto simp: ip_network_def)
  then have "cidr_ok x" "network_of_interface x = x" using interface_cidr network_cidr by simp_all
  then show ?thesis using cidr_interface by (simp add: ip_network_def)
qed

lemma rmap_again: "rmap f xs = Inr ys \<Longrightarrow> (\<And>x y. x \<in> set xs \<Longrightarrow> f x = Inr y \<Longrightarrow> f (g y) = Inr y) \<Longrightarrow> rmap f (map g ys) = Inr ys"
proof (induction xs arbitrary: ys)
  case (Cons x xs)
  obtain y zs where y: "f x = Inr y" "rmap f xs = Inr zs" "ys = y # zs" using Cons.prems(1) by (auto simp: res_simps)
  have "f (g y) = Inr y" by (rule Cons.prems(2) [of x]) (use y in simp_all)
  moreover have "rmap f (map g zs) = Inr zs" 
  proof (rule Cons.IH [OF y(2)])
    show "f (g v) = Inr v" if "u \<in> set xs" "f u = Inr v" for u v using Cons.prems(2) [of u v] that by simp
  qed
  ultimately show ?case using y(3) by simp
qed simp

lemma gre_cidrs_again:
  assumes "gre_cidrs parse l v = Inr ts" "\<And>s x. parse s = Some x \<Longrightarrow> CHR ''%'' \<notin> set s \<Longrightarrow> cidr_ok x \<and> parse (with_prefix x) = Some x"
  shows "gre_cidrs parse l (jtexts ts) = Inr ts"
proof -
  obtain xs where xs: "rmap (gre_cidr parse l) xs = Inr ts" using assms(1) by (auto simp: gre_cidrs_def res_simps)
  have "strip t \<noteq> []" if "t \<in> set ts" for t using rmap_set [OF xs that] gre_cidr_again(2) assms(2) by blast
  then have f: "filter (\<lambda>x. strip (py_str x) \<noteq> []) (map JStr ts) = map JStr ts" by (simp add: filter_id_conv py_str_def)
  have "rmap (gre_cidr parse l) (map JStr ts) = Inr ts" by (rule rmap_again [OF xs]) (use gre_cidr_again(1) assms(2) in blast)
  moreover have "iterate_json (jtexts ts) = Inr (map JStr ts)" by (simp add: iterate_json_def jtexts_def)
  ultimately show ?thesis by (simp add: gre_cidrs_def f)
qed

lemma outer_again: "gre_outer_address (strip s) l = gre_outer_address s l"
  by (simp add: gre_outer_address_def strip_strip)

lemma bounded_again: "bounded_int lo hi m v = Inr x \<Longrightarrow> bounded_int lo hi m (jopt_int x) = Inr x \<and> (\<forall>n. x = Some n \<longrightarrow> lo \<le> n \<and> n \<le> hi)"
  by (auto simp: bounded_int_def jopt_int_def json_to_int_def split: if_splits option.splits)

lemma key_again: "gre_key v = Inr k \<Longrightarrow> gre_key (jopt_str k) = Inr k"
  by (auto simp: gre_key_def Let_def jopt_str_def str_or_empty_def py_str_def strip_strip split: if_splits)

lemma interface_name_again: "agent_interface_name l v = Inr n \<Longrightarrow> agent_interface_name k n = Inr n \<and> n \<noteq> [] \<and> strip n = n"
  by (auto simp: agent_interface_name_def strip_strip checked_name_def split: if_splits)

lemma map_of_sort_key: "distinct (map fst d) \<Longrightarrow> map_of (sort_key fst d) = map_of d"
  by (rule map_of_inject_set [THEN iffD2]) (auto simp: distinct_map intro: inj_on_subset)

lemma sorted_fields: "distinct (map fst d) \<Longrightarrow> dget (sort_key fst d) k = dget d k \<and> dhas (sort_key fst d) k = dhas d k \<and>
    required k (sort_key fst d) = required k d"
  by (simp add: dget_def dhas_def required_def map_of_sort_key)

lemma gre_fields_distinct: "distinct (map fst (gre_fields c))"
  unfolding gre_fields_def by (simp only: list.map fst_conv) code_simp

lemma gre_gets:
  "dget (gre_fields c) ''outer_local_ip'' = JStr (gc_outer_local_ip c)" "dget (gre_fields c) ''outer_remote_ip'' = JStr (gc_outer_remote_ip c)"
  "dget (gre_fields c) ''tunnel_ips'' = jtexts (gc_tunnel_ips c)" "dget (gre_fields c) ''routes'' = jtexts (gc_routes c)"
  "dget (gre_fields c) ''mtu'' = JInt (gc_mtu c)" "dget (gre_fields c) ''ttl'' = jopt_int (gc_ttl c)"
  "dget (gre_fields c) ''key'' = jopt_str (gc_key c)" "dget (gre_fields c) ''encaplimit'' = jopt_int (gc_encaplimit c)"
  "dget (gre_fields c) ''previous_interface_name'' = jopt_str (gc_previous_interface_name c)"
  "dget (gre_fields c) ''pmtudisc'' = JBool (gc_pmtudisc c)" "dhas (gre_fields c) ''pmtudisc''"
  "required ''outer_local_ip'' (gre_fields c) = Inr (JStr (gc_outer_local_ip c))"
  "required ''outer_remote_ip'' (gre_fields c) = Inr (JStr (gc_outer_remote_ip c))"
  "required ''interface_name'' (gre_fields c) = Inr (JStr (gc_interface_name c))"
  by (simp_all add: gre_fields_def dhas_def required_def)

lemma normalize_name:
  assumes "normalize_gre_payload p = Inr c"
  shows "\<exists>v. agent_interface_name ''interface name'' v = Inr (gc_interface_name c)"
proof -
  have "interface_name_of p = Inr (gc_interface_name c)"
    using assms unfolding normalize_gre_payload_def Let_def by (elim rbindE Inr_E) simp
  then show ?thesis by (auto simp: interface_name_of_def res_simps)
qed

text \<open>The normal form of a payload is what the code makes of itself: also once its fields are sorted.\<close>

lemma normalize_again:
  assumes n: "normalize_gre_payload p = Inr c" and d: "\<And>k. dget q k = dget (gre_fields c) k \<and> dhas q k = dhas (gre_fields c) k \<and> required k q = required k (gre_fields c)"
  shows "normalize_gre_payload q = Inr c"
proof -
  obtain lt rt l r ips rs mtu ttl key nm pv enc where
    lt: "required_text ''outer_local_ip'' p = Inr lt" and rt: "required_text ''outer_remote_ip'' p = Inr rt" and
    l: "gre_outer_address lt ''GRE outer local address'' = Inr l" and r: "gre_outer_address rt ''GRE outer remote address'' = Inr r" and
    v: "ip_version l = ip_version r" and
    ips: "gre_cidrs ip_interface ''GRE tunnel address'' (dget p ''tunnel_ips'') = Inr ips" and
    rs: "gre_cidrs ip_network ''GRE route'' (dget p ''routes'') = Inr rs" and
    mtu: "bounded_int 576 9000 ''GRE MTU must be between 576 and 9000''
       (if truthy (dget p ''mtu'') then dget p ''mtu'' else JInt (if ip_version l = 6 then 1456 else 1476)) = Inr mtu" and
    ttl: "bounded_int 1 255 ''GRE TTL must be between 1 and 255'' (dget p ''ttl'') = Inr ttl" and
    key: "gre_key (dget p ''key'') = Inr key" and nm: "interface_name_of p = Inr nm" and pv: "previous_name_of p = Inr pv" and
    e: "\<not> (ip_version l = 4 \<and> ttl \<noteq> None \<and> \<not> pmtudisc_of p)" "\<not> (ip_version l = 4 \<and> enc \<noteq> None)" "0 \<le> the_or 0 enc \<and> the_or 0 enc \<le> 255" and
    c: "c = \<lparr>gc_interface_name = nm, gc_previous_interface_name = pv, gc_outer_local_ip = lt,
         gc_outer_remote_ip = rt, gc_outer_ip_version = ip_version l, gc_tunnel_ips = ips,
         gc_routes = rs, gc_mtu = the_or 0 mtu, gc_key = key, gc_ttl = ttl, gc_pmtudisc = pmtudisc_of p,
         gc_encaplimit = enc\<rparr>"
    using n unfolding normalize_gre_payload_def Let_def ensure_eq_Inr
    by (elim rbindE Inr_E) (unfold ensure_eq_Inr, rule that, assumption+)
  note g = d [THEN conjunct1] d [THEN conjunct2, THEN conjunct1] d [THEN conjunct2, THEN conjunct2]
  have sl: "strip lt = lt" "strip rt = rt" using lt rt by (auto simp: required_text_def res_simps strip_strip)
  have names: "nm \<noteq> []" "agent_interface_name ''interface name'' nm = Inr nm" "interface_name_of q = Inr nm"
  proof -
    obtain w where "agent_interface_name ''interface name'' w = Inr nm" using nm by (auto simp: interface_name_of_def res_simps)
    note a = interface_name_again [OF this, of "''interface name''"]
    then show "nm \<noteq> []" "agent_interface_name ''interface name'' nm = Inr nm" by simp_all
    then show "interface_name_of q = Inr nm" by (simp add: interface_name_of_def g gre_gets c str_or_empty_def py_str_def)
  qed
  have pv': "previous_name_of q = Inr pv"
  proof (cases pv)
    case None
    have "strip [] = []" by code_simp
    then show ?thesis using None by (simp add: previous_name_of_def g gre_gets c jopt_str_def str_or_empty_def)
  next
    case (Some w)
    then obtain u where "agent_interface_name ''previous interface name'' u = Inr w"
      using pv by (auto simp: previous_name_of_def Let_def res_simps split: if_splits)
    note a = interface_name_again [OF this, of "''previous interface name''"]
    then show ?thesis using Some by (simp add: previous_name_of_def g gre_gets c jopt_str_def str_or_empty_def py_str_def)
  qed
  have lr: "required_text ''outer_local_ip'' q = Inr lt" "required_text ''outer_remote_ip'' q = Inr rt"
    using sl by (simp_all add: required_text_def g gre_gets c py_str_def)
  have lists: "gre_cidrs ip_interface ''GRE tunnel address'' (dget q ''tunnel_ips'') = Inr ips"
    "gre_cidrs ip_network ''GRE route'' (dget q ''routes'') = Inr rs"
    using gre_cidrs_again [OF ips interface_again] gre_cidrs_again [OF rs network_again] by (simp_all add: g gre_gets c)
  have pm: "pmtudisc_of q = pmtudisc_of p" by (simp add: pmtudisc_of_def [of q] g gre_gets c)
  obtain k where k: "mtu = Some k" "576 \<le> k" "k \<le> 9000"
    using mtu by (cases mtu) (auto simp: bounded_int_def split: if_splits option.splits)
  have m: "bounded_int 576 9000 ''GRE MTU must be between 576 and 9000''
       (if truthy (dget q ''mtu'') then dget q ''mtu'' else JInt (if ip_version l = 6 then 1456 else 1476)) = Inr mtu"
    using k by (simp add: g gre_gets c bounded_int_def json_to_int_def)
  have t: "bounded_int 1 255 ''GRE TTL must be between 1 and 255'' (dget q ''ttl'') = Inr ttl" using bounded_again [OF ttl] by (simp add: g gre_gets c)
  have ky: "gre_key (dget q ''key'') = Inr key" using key_again [OF key] by (simp add: g gre_gets c)
  have en: "(if dget q ''encaplimit'' = JNull then Inr None
       else case json_to_int (dget q ''encaplimit'') of None \<Rightarrow> Inl ''invalid integer'' | Some n \<Rightarrow> Inr (Some n)) = Inr enc"
    by (cases enc) (simp_all add: g gre_gets c jopt_int_def json_to_int_def)
  show ?thesis unfolding normalize_gre_payload_def Let_def lr rbind_Inr l r lists m t ky names(3) pv' en pm
    using v e by (simp add: c)
qed

section \<open>The configuration file\<close>

lemma gre_bounds:
  assumes "normalize_gre_payload p = Inr c"
  shows "gc_outer_ip_version c = 4 \<or> gc_outer_ip_version c = 6" "576 \<le> gc_mtu c" "gc_mtu c \<le> 9000"
    "\<And>n. gc_ttl c = Some n \<Longrightarrow> 1 \<le> n \<and> n \<le> 255" "\<And>n. gc_encaplimit c = Some n \<Longrightarrow> 0 \<le> n \<and> n \<le> 255"
proof -
  obtain l mtu ttl enc v w where b: "bounded_int 576 9000 ''GRE MTU must be between 576 and 9000'' v = Inr mtu"
      "bounded_int 1 255 ''GRE TTL must be between 1 and 255'' w = Inr ttl" "v \<noteq> JNull"
      "0 \<le> the_or 0 enc \<and> the_or 0 enc \<le> 255" and
    c: "gc_outer_ip_version c = ip_version l" "gc_mtu c = the_or 0 mtu" "gc_ttl c = ttl" "gc_encaplimit c = enc"
  proof -
    have ne: "(if truthy (dget p ''mtu'') then dget p ''mtu'' else JInt x) \<noteq> JNull" for x by (cases "dget p ''mtu''") simp_all
    show ?thesis using assms unfolding normalize_gre_payload_def Let_def ensure_eq_Inr
      by (elim rbindE Inr_E) (unfold ensure_eq_Inr, rule that, assumption, assumption, rule ne, assumption, simp_all)
  qed
  show "gc_outer_ip_version c = 4 \<or> gc_outer_ip_version c = 6" unfolding c by (cases l) simp_all
  show "576 \<le> gc_mtu c" "gc_mtu c \<le> 9000" using b(1,3) unfolding c
    by (cases "json_to_int v"; auto simp: bounded_int_def the_or_def split: if_splits)+
  show "1 \<le> n \<and> n \<le> 255" if "gc_ttl c = Some n" for n using b(2) that unfolding c by (auto simp: bounded_int_def split: if_splits option.splits)
  show "0 \<le> n \<and> n \<le> 255" if "gc_encaplimit c = Some n" for n using b(4) that unfolding c by (simp add: the_or_def)
qed

lemma short_number: "0 \<le> n \<Longrightarrow> n \<le> 9000 \<Longrightarrow> plain_json (JInt n)"
  using length_show_nat [of n 4] by (simp add: max_int_digits_def)

lemma gre_fields_plain:
  assumes "normalize_gre_payload p = Inr c"
  shows "plain_json (JObj (sort_key fst (gre_fields c)))"
proof -
  note b = gre_bounds [OF assms]
  have "list_all plain_json (map snd (gre_fields c))"
  proof -
    have "plain_json (jopt_int (gc_ttl c))" "plain_json (jopt_int (gc_encaplimit c))" "plain_json (jopt_str (gc_key c))"
      "plain_json (jopt_str (gc_previous_interface_name c))"
      using b(4,5) short_number
      by (cases "gc_ttl c"; cases "gc_encaplimit c"; cases "gc_key c"; cases "gc_previous_interface_name c"; force simp: jopt_int_def jopt_str_def)+
    moreover have "plain_json (JInt (gc_mtu c))" "plain_json (JInt (gc_outer_ip_version c))"
      using b(1-3) short_number [of "gc_mtu c"] short_number [of 4] short_number [of 6] by (auto simp del: plain_json.simps)
    moreover have "plain_json (jtexts xs)" for xs by (simp add: jtexts_def list_all_iff)
    ultimately show ?thesis by (simp add: gre_fields_def del: plain_json.simps(1))
  qed
  then have "\<forall>v \<in> snd ` set (gre_fields c). plain_json v" by (simp add: list_all_iff)
  then show ?thesis using gre_fields_distinct [of c] by (simp add: list_all_iff distinct_map)
qed

text \<open>What is written is read back.\<close>

lemma written_config:
  assumes "write_gre_config c d = (Inr q, e)"
  shows "gre_config_path (gc_interface_name c) = Inr q"
    "\<exists>f. dk_files e q = Some f \<and> fl_regular f \<and> fl_content f = encode_text (gre_config_text c) \<and>
      int (length (fl_content f)) \<le> gre_config_max_bytes"
proof -
  obtain r where r: "gre_config_path (gc_interface_name c) = Inr r" using assms by (auto simp: write_gre_config_def dbind_def lift_error_def split: sum.splits)
  have u: "int (length (encode_text (gre_config_text c))) = utf8_length (gre_config_text c)" by (simp add: encode_text_def utf8_encode_length)
  have w: "utf8_length (gre_config_text c) \<le> gre_config_max_bytes" "dbind (atomic_write_text r (gre_config_text c) 384) (\<lambda>_. dreturn r) d = (Inr q, e)"
    using assms by (auto simp: write_gre_config_def dbind_def lift_error_def draise_def r split: if_splits)
  then have q: "q = r" by (auto simp: dbind_def dreturn_def split: prod.splits sum.splits)
  have "dk_files e r = Some \<lparr>fl_content = encode_text (gre_config_text c), fl_regular = True, fl_mode = 384, fl_owner = 0, fl_mtime = dk_now d\<rparr>"
    using w(2) by (auto simp: dbind_def dreturn_def atomic_write_text_def atomic_write_bytes_def put_file_def next_fault_def split: prod.splits sum.splits option.splits list.splits)
  then show "\<exists>f. dk_files e q = Some f \<and> fl_regular f \<and> fl_content f = encode_text (gre_config_text c) \<and>
      int (length (fl_content f)) \<le> gre_config_max_bytes" using u w(1) q by simp
  show "gre_config_path (gc_interface_name c) = Inr q" using r q by simp
qed

lemma read_written:
  assumes "normalize_gre_payload p = Inr c" "write_gre_config c d = (Inr q, e)"
  shows "read_gre_config (gc_interface_name c) e = (Inr (Some (JObj (sort_key fst (gre_fields c)))), e)"
proof -
  let ?n = "gc_interface_name c"
  note w = written_config [OF assms(2)]
  obtain f where f: "dk_files e q = Some f" "fl_regular f" "fl_content f = encode_text (gre_config_text c)"
    "int (length (fl_content f)) \<le> gre_config_max_bytes" using w(2) by blast
  obtain m where m: "agent_interface_name ''interface name'' ?n = Inr m" using w(1) by (auto simp: gre_config_path_def res_simps)
  have "strip ?n = ?n"
  proof -
    obtain v where "agent_interface_name ''interface name'' v = Inr ?n" using normalize_name [OF assms(1)] by blast
    then show ?thesis using interface_name_again by blast
  qed
  then have mn: "m = ?n" using m by (auto simp: agent_interface_name_def split: if_splits)
  have lim: "gre_config_max_bytes \<le> max_existing_file_bytes" by code_simp
  have rd: "read_gre_config_snapshot q e = (Inr (Some (gre_config_text c)), e)"
    using f lim by (simp add: read_gre_config_snapshot_def dbind_def file_exists_def path_exists_def file_size_def
      read_existing_text_def read_existing_bytes_def lift_error_def dreturn_def)
  have "loads (gre_config_text c) = Some (JObj (sort_key fst (gre_fields c)))"
    unfolding gre_config_text_def by (rule loads_indented [OF gre_fields_plain [OF assms(1)]])
  then show ?thesis using m mn w(1) rd by (simp add: read_gre_config_def dbind_def lift_error_def dreturn_def)
qed

text \<open>C12: what the systemd unit of a tunnel runs starts the tunnel that was written: the configuration is
  read back from its file, brought to normal form, and is the one the agent had.\<close>

theorem gre_service_starts_what_was_written:
  assumes "normalize_gre_payload p = Inr c" "write_gre_config c d = (Inr q, e)"
  shows "start_gre_from_config ge dry_run (gc_interface_name c) e = start_gre_link ge dry_run c q e"
proof -
  let ?q = "sort_key fst (gre_fields c)"
  have "normalize_gre_payload ?q = Inr c"
    by (rule normalize_again [OF assms(1)]) (rule sorted_fields [OF gre_fields_distinct])
  then have "start_gre_interface ge dry_run False ?q e = start_gre_link ge dry_run c q e"
    using written_config(1) [OF assms(2)] by (simp add: start_gre_interface_def dbind_def lift_error_def)
  then show ?thesis using read_written [OF assms] by (simp add: start_gre_from_config_def dbind_def)
qed

end
