(* ===== verification/GreUndo.thy ===== *)
theory GreUndo
  imports AgentGreLaws
begin

text \<open>
  What a change of a GRE tunnel that fails leaves on the disk: on OpenWrt both the configuration of
  the tunnel and the one of the network are put back.
\<close>

section \<open>Files the operations touch\<close>

lemma touches_run_gre [touch]: "P network_config \<Longrightarrow> touches P (run_gre ge c allow)"
  by (rule touchesI) (auto simp: run_gre_def run_command_def)

lemma touches_reading [touch]:
  "touches P (file_exists p)" "touches P (file_size p)" "touches P (read_existing_bytes p)" "touches P (file_mode p)"
  by (simp_all add: touches_def file_exists_def file_size_def read_existing_bytes_def file_mode_def split: option.split)

lemma touches_read_text [touch]: "touches P (read_existing_text p)"
  by (simp add: read_existing_text_def touch)

lemma touches_snapshot [touch]: "touches P (read_gre_config_snapshot p)"
  by (simp add: read_gre_config_snapshot_def touch)

lemma touches_run_all [touch]: "P network_config \<Longrightarrow> touches P (run_all ge allow cs)"
  by (simp add: run_all_def touch)

lemma touches_openwrt [touch]: "P network_config \<Longrightarrow> touches P (run_openwrt_gre_commands ge cs)"
  by (simp add: run_openwrt_gre_commands_def uci_revert_def touch)

section \<open>Snapshots\<close>

lemma network_snapshot_result:
  assumes "network_snapshot msg d = (Inr s, e)"
  shows "e = d" "dk_files d network_config = None \<Longrightarrow> s = None"
    "dk_files d network_config = Some f \<Longrightarrow> s = Some (fl_content f, fl_mode f)"
  using assms by (auto simp: network_snapshot_def dbind_def dreturn_def draise_def file_exists_def path_exists_def file_size_def
      read_existing_bytes_def file_mode_def split: option.splits if_splits)

lemma network_snapshot_state: "network_snapshot msg d = (x, e) \<Longrightarrow> e = d"
  by (auto simp: network_snapshot_def dbind_def dreturn_def draise_def file_exists_def path_exists_def file_size_def
      read_existing_bytes_def file_mode_def split: option.splits if_splits)

lemma decoded: "decode_text bs = Inr s \<Longrightarrow> encode_text s = bs"
proof -
  assume "decode_text bs = Inr s"
  then have "utf8_encode s = map code bs" by (auto simp: decode_text_def Let_def split: if_splits)
  then have "encode_text s = map (char_of \<circ> code) bs" by (simp add: encode_text_def)
  then show ?thesis by (simp add: comp_def code_def)
qed

lemma snapshot_result:
  assumes "read_gre_config_snapshot p d = (x, e)"
  shows "e = d" "x = Inr s \<Longrightarrow> content p d = map_option encode_text s"
  using assms decoded by (auto simp: read_gre_config_snapshot_def dbind_def dreturn_def draise_def file_exists_def path_exists_def
      file_size_def read_existing_text_def read_existing_bytes_def lift_error_def content_def
      split: option.splits if_splits sum.splits)

lemma restore_config_result:
  assumes "dk_faults d = []"
  obtains e where "restore_gre_config p old d = (Inr (), e)" "dk_faults e = []"
    "\<And>q. content q e = (if q = p then map_option encode_text old else content q d)" "\<And>q. q \<noteq> p \<Longrightarrow> dk_files e q = dk_files d q"
proof (cases old)
  case None
  show ?thesis by (rule that [of "snd (restore_gre_config p old d)"])
    (use assms None in \<open>simp_all add: restore_gre_config_def restore_text_def remove_file_def content_def\<close>)
next
  case (Some s)
  show ?thesis by (rule that [of "snd (restore_gre_config p old d)"])
    (use assms Some in \<open>simp_all add: restore_gre_config_def restore_text_def write_result content_def put_file_def\<close>)
qed

lemma restore_network_result:
  assumes "dk_faults d = []"
  obtains e where "restore_network msg (Some (t, m)) d = (Inr (), e)" "dk_faults e = []"
    "\<And>q. content q e = (if q = network_config then Some t else content q d)"
    "map_option fl_mode (dk_files e network_config) = Some m"
proof -
  show ?thesis by (rule that [of "snd (restore_network msg (Some (t, m)) d)"])
    (use assms in \<open>simp_all add: restore_network_def or_message_def dbind_def atomic_write_bytes_def next_fault_def chmod_def
      content_def put_file_def\<close>)
qed

lemma normalize_previous: "normalize_gre_payload p = Inr c \<Longrightarrow> previous_name_of p = Inr (gc_previous_interface_name c)"
  unfolding normalize_gre_payload_def Let_def by (elim rbindE Inr_E) simp

section \<open>All or nothing\<close>

text \<open>What a file holds, and the mode of the network's configuration.\<close>

definition left_alone :: "disk \<Rightarrow> disk \<Rightarrow> bool" where
  "left_alone d e = ((\<forall>q. content q e = content q d) \<and>
     map_option fl_mode (dk_files e network_config) = map_option fl_mode (dk_files d network_config))"

lemma guarded_result:
  assumes "dk_faults d = []" "guarded_openwrt ge msg p old (Some (t, m)) cs d = (r, e)" "p \<noteq> network_config"
  shows "is_ok r \<or> ((\<forall>q. content q e = (if q = network_config then Some t else if q = p then map_option encode_text old else content q d)) \<and>
    map_option fl_mode (dk_files e network_config) = Some m)"
  using assms(2) unfolding guarded_openwrt_def
proof (cases rule: dexcept_cases)
  case (handled er d1)
  have "touches (\<lambda>q. q = network_config) (run_openwrt_gre_commands ge cs)" by (intro touch) simp
  then have d1: "dk_faults d1 = []" "\<And>q. q \<noteq> network_config \<Longrightarrow> dk_files d1 q = dk_files d q"
    using assms(1) handled(1) unfolding touches_def by (metis snd_conv)+
  obtain d2 where d2: "restore_gre_config p old d1 = (Inr (), d2)" "dk_faults d2 = []"
    "\<And>q. content q d2 = (if q = p then map_option encode_text old else content q d1)" using restore_config_result [OF d1(1)] by metis
  obtain d3 where d3: "restore_network msg (Some (t, m)) d2 = (Inr (), d3)"
    "\<And>q. content q d3 = (if q = network_config then Some t else content q d2)"
    "map_option fl_mode (dk_files d3 network_config) = Some m" using restore_network_result [OF d2(2)] by metis
  have "e = d3" using handled(2) d2(1) d3(1) by (simp add: dbind_def)
  moreover have "content q d1 = content q d" if "q \<noteq> network_config" for q using d1(2) [OF that] by (simp add: content_def)
  ultimately show ?thesis using d2(3) d3(2,3) by simp
qed simp

text \<open>The uci command that shows the configuration does not change it.\<close>

definition show_is_harmless :: "gre_env \<Rightarrow> bool" where
  "show_is_harmless ge = (\<forall>n files. ge_network ge n [uci_command ge, ''-q'', ''show'', ''network''] files = files network_config)"

lemma shown_same: "show_is_harmless ge \<Longrightarrow> dk_files (snd (run_gre ge [uci_command ge, ''-q'', ''show'', ''network''] allow d)) = dk_files d"
  by (auto simp: show_is_harmless_def run_gre_def run_command_def)

text \<open>Steps that change nothing on the disk.\<close>

definition calm :: "'a io \<Rightarrow> bool" where
  "calm m = (\<forall>d. dk_files (snd (m d)) = dk_files d \<and> dk_faults (snd (m d)) = dk_faults d)"

named_theorems calming "operations that change nothing"

lemma calm_lift [calming]: "calm (lift_error x)" "calm (dreturn y)"
  by (simp_all add: calm_def lift_error_def dreturn_def)

lemma calm_bind [calming]: "calm m \<Longrightarrow> (\<And>x. calm (f x)) \<Longrightarrow> calm (dbind m f)"
  unfolding calm_def dbind_def by (auto split: prod.split sum.split) (metis snd_conv)+

lemma calm_shown [calming]: "show_is_harmless ge \<Longrightarrow> calm (run_gre ge [uci_command ge, ''-q'', ''show'', ''network''] allow)"
  using shown_same [of ge allow] by (simp add: calm_def) (simp add: run_gre_def run_command_def)

lemma calm_deletions [calming]: "show_is_harmless ge \<Longrightarrow> calm (openwrt_delete_gre_config_commands ge name)"
  unfolding openwrt_delete_gre_config_commands_def by (intro calming)

lemma calm_commands [calming]: "show_is_harmless ge \<Longrightarrow> calm (openwrt_apply_gre_commands ge c)"
  unfolding openwrt_apply_gre_commands_def Let_def case_prod_beta by (intro calming)

text \<open>Run on the files \<open>F\<close>, an operation succeeds or leaves them as they were.\<close>

definition undone :: "(path \<Rightarrow> disk_file option) \<Rightarrow> 'a io \<Rightarrow> bool" where
  "undone F m = (\<forall>d. dk_files d = F \<longrightarrow> dk_faults d = [] \<longrightarrow> is_ok (fst (m d)) \<or> left_alone d (snd (m d)))"

lemma undoneI: "(\<And>d r e. dk_files d = F \<Longrightarrow> dk_faults d = [] \<Longrightarrow> m d = (r, e) \<Longrightarrow> is_ok r \<or> left_alone d e) \<Longrightarrow> undone F m"
  unfolding undone_def by (metis prod.collapse)

lemma undoneD: "undone F m \<Longrightarrow> dk_files d = F \<Longrightarrow> dk_faults d = [] \<Longrightarrow> m d = (r, e) \<Longrightarrow> is_ok r \<or> left_alone d e"
  unfolding undone_def by (metis fst_conv snd_conv)

lemma left_same: "dk_files e = dk_files d \<Longrightarrow> left_alone d e" "dk_files d1 = dk_files d \<Longrightarrow> left_alone d1 e = left_alone d e"
  by (simp_all add: left_alone_def content_def)

lemma undone_calm:
  assumes "calm m" "\<And>d x d1. m d = (Inr x, d1) \<Longrightarrow> dk_files d = F \<Longrightarrow> undone F (f x)"
  shows "undone F (dbind m f)"
proof (rule undoneI)
  fix d r e assume d: "dk_files d = F" "dk_faults d = []" and m: "dbind m f d = (r, e)"
  have c: "dk_files d1 = dk_files d \<and> dk_faults d1 = dk_faults d" if "m d = (x, d1)" for x d1
    using assms(1) that unfolding calm_def by (metis snd_conv)
  from m show "is_ok r \<or> left_alone d e"
  proof (cases rule: dbind_cases)
    case (refused msg)
    then show ?thesis using c left_same(1) by blast
  next
    case (passed x d1)
    then have "is_ok r \<or> left_alone d1 e" using undoneD [OF assms(2) [OF passed(1) d(1)], of d1] c d by simp
    then show ?thesis using c [OF passed(1)] left_same(2) by blast
  qed
qed

lemma undone_lift: "(\<And>x. r = Inr x \<Longrightarrow> undone F (f x)) \<Longrightarrow> undone F (dbind (lift_error r) f)"
  by (rule undone_calm) (auto simp: lift_error_def intro: calming)

lemma undone_network:
  assumes "F network_config = Some f" "undone F (g (Some (fl_content f, fl_mode f)))"
  shows "undone F (dbind (network_snapshot msg) g)"
proof (rule undone_calm)
  show "calm (network_snapshot msg)" unfolding calm_def
  proof
    fix d
    obtain x e where n: "network_snapshot msg d = (x, e)" by (rule prod.exhaust)
    then show "dk_files (snd (network_snapshot msg d)) = dk_files d \<and> dk_faults (snd (network_snapshot msg d)) = dk_faults d"
      using network_snapshot_state [OF n] by simp
  qed
  show "undone F (g s)" if "network_snapshot msg d = (Inr s, e)" "dk_files d = F" for d s e
    using network_snapshot_result(3) [OF that(1)] that(2) assms by simp
qed

lemma undone_snapshot:
  assumes "\<And>old. map_option fl_content (F p) = map_option encode_text old \<Longrightarrow> undone F (g old)"
  shows "undone F (dbind (read_gre_config_snapshot p) g)"
proof (rule undone_calm)
  show "calm (read_gre_config_snapshot p)" using snapshot_result(1) unfolding calm_def by (metis prod.collapse)
  show "undone F (g s)" if "read_gre_config_snapshot p d = (Inr s, e)" "dk_files d = F" for d s e
    using snapshot_result(2) [OF that(1)] that(2) assms by (simp add: content_def)
qed

lemma config_path_facts: "gre_config_path n = Inr p \<Longrightarrow> p \<noteq> network_config"
  by (auto simp: gre_config_path_def res_simps gre_dir_def network_config_def)

text \<open>A guarded change after the configuration of the tunnel was written or removed.\<close>

lemma undone_guarded:
  assumes "p \<noteq> network_config" "F network_config = Some f" "map_option fl_content (F p) = map_option encode_text old"
    "\<And>d x e. dk_files d = F \<Longrightarrow> dk_faults d = [] \<Longrightarrow> m d = (x, e) \<Longrightarrow>
      dk_faults e = [] \<and> (if is_ok x then \<forall>q. q \<noteq> p \<longrightarrow> dk_files e q = F q else dk_files e = F)"
  shows "undone F (dbind m (\<lambda>y. dbind (guarded_openwrt ge msg p old (Some (fl_content f, fl_mode f)) cs) (\<lambda>x. dreturn (g y x))))"
proof (rule undoneI)
  fix d r e assume d: "dk_files d = F" "dk_faults d = []" and
    m: "dbind m (\<lambda>y. dbind (guarded_openwrt ge msg p old (Some (fl_content f, fl_mode f)) cs) (\<lambda>x. dreturn (g y x))) d = (r, e)"
  from m show "is_ok r \<or> left_alone d e"
  proof (cases rule: dbind_cases)
    case (refused er)
    then show ?thesis using assms(4) [OF d refused(1)] left_same(1) d by simp
  next
    case (passed y d1)
    have d1: "dk_faults d1 = []" "\<And>q. q \<noteq> p \<Longrightarrow> content q d1 = content q d" using assms(4) [OF d passed(1)] d(1) by (simp_all add: content_def)
    from passed(2) show ?thesis
    proof (cases rule: dbind_cases)
      case (refused er)
      then have "\<forall>q. content q e = (if q = network_config then Some (fl_content f) else if q = p then map_option encode_text old else content q d1)"
        "map_option fl_mode (dk_files e network_config) = Some (fl_mode f)"
        using guarded_result [OF d1(1) refused(1) assms(1)] by (simp_all add: is_ok_def)
      then show ?thesis using assms(2,3) d d1(2) by (auto simp: left_alone_def content_def)
    qed (auto simp: dreturn_def is_ok_def)
  qed
qed

lemma write_config_effect:
  assumes "gre_config_path (gc_interface_name c) = Inr p" "dk_faults d = []" "write_gre_config c d = (x, e)"
  shows "dk_faults e = [] \<and> (if is_ok x then \<forall>q. q \<noteq> p \<longrightarrow> dk_files e q = dk_files d q else dk_files e = dk_files d)"
  using assms(2,3) by (auto simp: assms(1) write_gre_config_def dbind_def lift_error_def draise_def dreturn_def write_result
      put_file_def is_ok_def split: if_splits)

lemma change_openwrt_undone:
  assumes "show_is_harmless ge" "F network_config = Some f"
  shows "undone F (change_openwrt ge False msg extra c)"
  unfolding change_openwrt_def if_False
  by (intro undone_lift undone_network [where F = F, OF assms(2)] undone_calm [OF calm_commands [OF assms(1)]] undone_snapshot undone_guarded assms(2))
    (auto dest: config_path_facts write_config_effect)

lemma undone_return: "undone F (dreturn x)"
  by (simp add: undone_def dreturn_def)

lemma delete_config_effect:
  assumes "gre_config_path (strip name) = Inr p" "strip name \<noteq> []" "dk_faults d = []" "delete_gre_config_file (Some name) False d = (x, e)"
  shows "dk_faults e = [] \<and> (if is_ok x then \<forall>q. q \<noteq> p \<longrightarrow> dk_files e q = dk_files d q else dk_files e = dk_files d)"
  using assms(2-4) by (auto simp: assms(1) delete_gre_config_file_def Let_def the_or_def dbind_def lift_error_def dreturn_def file_exists_def
      remove_file_def is_ok_def split: if_splits)

lemma delete_openwrt_undone:
  assumes "show_is_harmless ge" "F network_config = Some f"
  shows "undone F (delete_openwrt_gre_config_file ge False name)"
proof (cases "strip (the_or [] name) = []")
  case True
  then show ?thesis by (simp add: delete_openwrt_gre_config_file_def undone_return)
next
  case False
  show ?thesis
    unfolding delete_openwrt_gre_config_file_def Let_def if_not_P [OF False] if_False
    by (intro undone_lift undone_network [where F = F, OF assms(2)] undone_calm [OF calm_deletions [OF assms(1)]] undone_snapshot undone_guarded assms(2))
      (use False in \<open>auto dest: config_path_facts delete_config_effect [rotated 2] simp: strip_strip\<close>)
qed

lemma undone_map: "undone F m \<Longrightarrow> undone F (dbind m (\<lambda>x. dreturn (g x)))"
proof (rule undoneI)
  fix d r e assume u: "undone F m" "dk_files d = F" "dk_faults d = []" and m: "dbind m (\<lambda>x. dreturn (g x)) d = (r, e)"
  from m show "is_ok r \<or> left_alone d e"
  proof (cases rule: dbind_cases)
    case (refused msg)
    then show ?thesis using undoneD [OF u refused(1)] by (simp add: is_ok_def)
  qed (auto simp: dreturn_def is_ok_def)
qed

lemma dbind_dreturn: "dbind (dreturn x) f = f x"
  by (simp add: dbind_def dreturn_def fun_eq_iff)

text \<open>C16: on OpenWrt, with no write failing and a tunnel that is not renamed, starting a tunnel succeeds or
  leaves every file with the content it had, the configurations of the tunnel and of the network
  included, and the latter with its mode.\<close>

theorem gre_start_all_or_nothing:
  assumes "ge_openwrt ge" "show_is_harmless ge" "dk_faults d = []" "dk_files d network_config = Some f"
    "previous_name_of p = Inr None" "start_gre_interface ge False True p d = (Inl msg, e)"
  shows "left_alone d e"
proof -
  have "undone (dk_files d) (start_gre_interface ge False True p)"
    unfolding start_gre_interface_def
  proof (rule undone_lift)
    fix c assume "normalize_gre_payload p = Inr c"
    then have pv: "gc_previous_interface_name c = None" using assms(5) normalize_previous by fastforce
    have "delete_openwrt_gre_config_file ge False None = dreturn (JNull, None, None, False)"
      by (simp add: delete_openwrt_gre_config_file_def the_or_def strip_def strip_by_def)
    then have "start_openwrt_gre_interface ge False c = dbind (change_openwrt ge False ''OpenWrt GRE start failed and UCI config restore failed''
       [[ifdown_command ge, addr_section (gc_interface_name c)], [ifdown_command ge, gc_interface_name c],
        [ifup_command ge, gc_interface_name c], [ifup_command ge, addr_section (gc_interface_name c)]] c) (\<lambda>x. dreturn
       (openwrt_result False x @ [(''previous_config_cleanup'', deletion_json False (JNull, None, None, False)), (''runtime_status'', JStr ''running'')]))"
      by (simp add: start_openwrt_gre_interface_def Let_def pv dbind_dreturn)
    then show "undone (dk_files d) (if True \<and> ge_openwrt ge then start_openwrt_gre_interface ge False c
     else dbind (lift_error (gre_config_path (gc_interface_name c))) (\<lambda>q.
       if True \<and> ge_systemd ge then start_gre_service ge False c q else start_gre_link ge False c q))"
      using assms(1) undone_map [OF change_openwrt_undone [where F = "dk_files d", OF assms(2,4)]] by simp
  qed
  from undoneD [OF this refl assms(3,6)] show ?thesis by (simp add: is_ok_def)
qed

end
