(* ===== verification/GreSamples.thy ===== *)
theory GreSamples
  imports GreUndo
begin

text \<open>
  A tunnel on which the properties of the GRE back end are applied.
\<close>

section \<open>Samples\<close>

text \<open>A tunnel over IPv6 with a zone, a key and a route whose address has host bits.\<close>

definition tunnel_payload :: fields where
  "tunnel_payload = [(''interface_name'', JStr ''gre1''), (''outer_local_ip'', JStr '' fe80::1%eth0''), (''outer_remote_ip'', JStr ''fe80:0::2''),
     (''tunnel_ips'', JList [JStr ''10.0.0.1/30'']), (''routes'', JList [JStr ''10.9.0.7/16'', JStr ''2001:DB8::1/32'']), (''key'', JInt 7),
     (''ttl'', JStr ''64'')]"

definition tunnel_normal :: gre_config where
  "tunnel_normal = projr (normalize_gre_payload tunnel_payload)"

definition gre_disk :: disk where
  "gre_disk = \<lparr>dk_files = [network_config \<mapsto> \<lparr>fl_content = ''config'', fl_regular = True, fl_mode = 384, fl_owner = 0, fl_mtime = 0\<rparr>],
     dk_faults = [], dk_now = 0, dk_count = 0\<rparr>"

text \<open>An agent on which every command fails, and each but the one that shows the configuration writes it.\<close>

definition gre_sample :: gre_env where
  "gre_sample = \<lparr>ge_agent = \<lparr>ae_run = (\<lambda>n c fs. \<lparr>cr_returncode = 1, cr_stdout = [], cr_stderr = [], cr_truncated = False,
       cr_failure = ''failed''\<rparr>), ae_backend = ''openwrt'', ae_prefix = ''link42''\<rparr>,
     ge_tool = (\<lambda>t. t), ge_network = (\<lambda>n c fs. if List.member c ''show'' then fs network_config else
       Some \<lparr>fl_content = ''changed'', fl_regular = True, fl_mode = 420, fl_owner = 0, fl_mtime = 1\<rparr>),
     ge_systemd = False, ge_openwrt = True, ge_openwrt_ipv6 = True, ge_binary = ''link42-agent'', ge_pythonpath = None\<rparr>"

definition plain_tunnel :: fields where
  "plain_tunnel = [(''interface_name'', JStr ''g''), (''outer_local_ip'', JStr ''1.0.0.1''), (''outer_remote_ip'', JStr ''1.0.0.2'')]"

lemma gre_evaluated:
  "is_ok (normalize_gre_payload tunnel_payload)"
  "gc_interface_name tunnel_normal = ''gre1''" "gc_outer_ip_version tunnel_normal = 6"
  "gc_routes tunnel_normal = [''10.9.0.0/16'', ''2001:db8::/32'']"
  by code_simp+

lemma tunnel_normalized: "normalize_gre_payload tunnel_payload = Inr tunnel_normal"
  using gre_evaluated(1) by (auto simp: tunnel_normal_def is_ok_iff)

lemma tunnel_written: "is_ok (fst (write_gre_config tunnel_normal gre_disk))"
  by code_simp

theorem gre_service_starts_what_was_written_witness:
  "start_gre_from_config gre_sample False ''gre1'' (snd (write_gre_config tunnel_normal gre_disk)) =
     start_gre_link gre_sample False tunnel_normal (projr (fst (write_gre_config tunnel_normal gre_disk))) (snd (write_gre_config tunnel_normal gre_disk))"
proof -
  have "write_gre_config tunnel_normal gre_disk = (Inr (projr (fst (write_gre_config tunnel_normal gre_disk))), snd (write_gre_config tunnel_normal gre_disk))"
    using tunnel_written by (cases "write_gre_config tunnel_normal gre_disk") (auto simp: is_ok_iff)
  from gre_service_starts_what_was_written [OF tunnel_normalized this] show ?thesis unfolding gre_evaluated(2) .
qed

lemma gre_start_refused: "\<not> is_ok (fst (start_gre_interface gre_sample False True plain_tunnel gre_disk))"
  by code_simp

theorem gre_start_all_or_nothing_witness:
  "left_alone gre_disk (snd (start_gre_interface gre_sample False True plain_tunnel gre_disk)) \<and>
     \<not> is_ok (fst (start_gre_interface gre_sample False True plain_tunnel gre_disk))"
proof -
  obtain msg e where m: "start_gre_interface gre_sample False True plain_tunnel gre_disk = (Inl msg, e)"
    using gre_start_refused by (cases "start_gre_interface gre_sample False True plain_tunnel gre_disk"; cases "fst (start_gre_interface gre_sample False True plain_tunnel gre_disk)")
      (auto simp: is_ok_def)
  have h: "show_is_harmless gre_sample" by (simp add: show_is_harmless_def gre_sample_def)
  have p: "previous_name_of plain_tunnel = Inr None" by code_simp
  have f: "dk_faults gre_disk = []" "ge_openwrt gre_sample" by (simp_all add: gre_disk_def gre_sample_def)
  have n: "dk_files gre_disk network_config = Some \<lparr>fl_content = ''config'', fl_regular = True, fl_mode = 384, fl_owner = 0, fl_mtime = 0\<rparr>"
    by (simp add: gre_disk_def)
  show ?thesis using gre_start_all_or_nothing [OF f(2) h f(1) n p m] gre_start_refused by (simp add: m)
qed

end
