(* ===== verification/Topology.thy ===== *)
theory Topology
  imports Complex_Main ManagedLinks GreController Monitors
begin

text \<open>
  What the controller shows of links and connections: the summary of a monitor's samples, the connections
  of a node with their ends, and the topology of nodes and links (main.py). A latency and what is computed of
  it is an exact number of milliseconds where the code has floats. Notices in Chinese are given in English.
\<close>

section \<open>Summaries of monitors\<close>

definition monitor_summary_window :: time where "monitor_summary_window = seconds 3600"

record monitor_summary =
  ms_monitor_id :: int
  ms_target_host :: string
  ms_last_latency :: "rat option"
  ms_avg_latency :: "rat option"
  ms_min_latency :: "rat option"
  ms_max_latency :: "rat option"
  ms_jitter :: "rat option"
  ms_packet_loss :: rat
  ms_stability :: int
  ms_status :: string
  ms_sample_count :: nat
  ms_last_checked_at :: "time option"

definition monitor_status :: "rat option \<Rightarrow> rat \<Rightarrow> int \<Rightarrow> nat \<Rightarrow> string" where
  "monitor_status latency loss stability count =
     (if count = 0 then ''unknown''
      else if 5 / 100 < loss \<or> stability < 70 \<or> 180 < the_or 0 latency then ''critical''
      else if 1 / 100 < loss \<or> stability < 90 \<or> 80 < the_or 0 latency then ''warning'' else ''healthy'')"

text \<open>\<open>round\<close>: to the nearest whole number, a half to the even one.\<close>

definition round_even :: "rat \<Rightarrow> int" where
  "round_even x = (let n = \<lfloor>x\<rfloor>; r = x - of_int n in
     if r < 1 / 2 then n else if 1 / 2 < r then n + 1 else if even n then n else n + 1)"

definition mean :: "rat list \<Rightarrow> rat" where
  "mean xs = sum_list xs / of_nat (length xs)"

definition differences :: "rat list \<Rightarrow> rat list" where
  "differences xs = map (\<lambda>(p, c). \<bar>c - p\<bar>) (zip xs (tl xs))"

definition some_mean :: "rat list \<Rightarrow> rat option" where
  "some_mean xs = (if xs = [] then None else Some (mean xs))"

definition jitter_of :: "rat list \<Rightarrow> rat option" where
  "jitter_of xs = (if xs = [] then None else if length xs = 1 then Some 0 else Some (mean (differences xs)))"

definition stability_of :: "rat \<Rightarrow> rat option \<Rightarrow> rat option \<Rightarrow> int" where
  "stability_of loss avg jitter = max 0 (min 100 (round_even (100 - loss * 100 - min (the_or 0 avg / 20) 20 - min (the_or 0 jitter / 5) 20)))"

definition latency_ms :: "sample \<Rightarrow> rat option" where
  "latency_ms s = (if sa_success s then map_option (\<lambda>n. of_int n / 1000) (sa_latency s) else None)"

definition summarize_monitor :: "time \<Rightarrow> time \<Rightarrow> monitor \<Rightarrow> db \<Rightarrow> monitor_summary" where
  "summarize_monitor now window m d = (let samples = window_samples now window (mo_id m) d in
     if samples = [] then \<lparr>ms_monitor_id = mo_id m, ms_target_host = mo_target_host m, ms_last_latency = None, ms_avg_latency = None,
       ms_min_latency = None, ms_max_latency = None, ms_jitter = None, ms_packet_loss = 0, ms_stability = 0, ms_status = ''unknown'',
       ms_sample_count = 0, ms_last_checked_at = mo_last_checked_at m\<rparr>
     else let latencies = List.map_filter latency_ms samples; n = length samples;
         loss = of_nat (n - length latencies) / of_nat n; avg = some_mean latencies; jitter = jitter_of latencies;
         latest = latency_ms (last samples); stability = stability_of loss avg jitter in
       \<lparr>ms_monitor_id = mo_id m, ms_target_host = mo_target_host m, ms_last_latency = latest, ms_avg_latency = avg,
        ms_min_latency = (if latencies = [] then None else Some (Min (set latencies))),
        ms_max_latency = (if latencies = [] then None else Some (Max (set latencies))),
        ms_jitter = jitter, ms_packet_loss = loss, ms_stability = stability, ms_status = monitor_status latest loss stability n,
        ms_sample_count = n, ms_last_checked_at = Some (sa_checked_at (last samples))\<rparr>)"

definition interface_monitor :: "int \<Rightarrow> db \<Rightarrow> monitor option" where
  "interface_monitor k d = first_of (sort_key mo_id (filter (\<lambda>m. mo_interface_id m = Some k) (db_monitors d)))"

definition connection_endpoint_monitor :: "int \<Rightarrow> db \<Rightarrow> monitor option" where
  "connection_endpoint_monitor k d = first_of (sort_key mo_id (filter (\<lambda>m. mo_connection_endpoint_id m = Some k) (db_monitors d)))"

definition interface_summary :: "time \<Rightarrow> int \<Rightarrow> db \<Rightarrow> monitor_summary option" where
  "interface_summary now k d = map_option (\<lambda>m. summarize_monitor now monitor_summary_window m d) (interface_monitor k d)"

definition endpoint_summary :: "time \<Rightarrow> int \<Rightarrow> db \<Rightarrow> monitor_summary option" where
  "endpoint_summary now k d = map_option (\<lambda>m. summarize_monitor now monitor_summary_window m d) (connection_endpoint_monitor k d)"

section \<open>Connections\<close>

definition connection_ref :: "string \<Rightarrow> int \<Rightarrow> string" where
  "connection_ref protocol k = protocol @ '':'' @ show_int k"

record endpoint_read =
  er_id :: int
  er_ref :: string
  er_node_id :: int
  er_node_name :: "string option"
  er_role :: string
  er_interface_name :: string
  er_tunnel_ips :: "string list"
  er_mtu :: "int option"
  er_routes :: "string list"
  er_runtime_status :: string
  er_protocol_config :: fields
  er_last_error :: "string option"
  er_summary :: "monitor_summary option"

record connection_read =
  cr_id :: int
  cr_ref :: string
  cr_protocol_type :: string
  cr_protocol_label :: string
  cr_name :: string
  cr_source :: string
  cr_managed :: bool
  cr_status :: string
  cr_endpoints :: "endpoint_read list"
  cr_warnings :: "string list"

definition primary_peer_allowed_ips :: "iface \<Rightarrow> db \<Rightarrow> string list" where
  "primary_peer_allowed_ips i d = the_or [] (first_of (filter (\<lambda>ips. ips \<noteq> []) (map pr_allowed_ips (iface_peers i d))))"

definition interface_end :: "time \<Rightarrow> string \<Rightarrow> iface \<Rightarrow> db \<Rightarrow> endpoint_read" where
  "interface_end now role i d = \<lparr>er_id = if_id i, er_ref = connection_ref ''wireguard'' (if_id i), er_node_id = if_node_id i,
     er_node_name = map_option nd_name (get_node (if_node_id i) d), er_role = role, er_interface_name = if_name i,
     er_tunnel_ips = if_tunnel_ips i, er_mtu = if_mtu i, er_routes = primary_peer_allowed_ips i d, er_runtime_status = if_runtime_status i,
     er_protocol_config = [(''listen_port'', jopt_int (if_listen_port i))], er_last_error = None, er_summary = interface_summary now (if_id i) d\<rparr>"

definition wireguard_connection_read :: "time \<Rightarrow> iface \<Rightarrow> db \<Rightarrow> connection_read" where
  "wireguard_connection_read now i d =
     (let other = Option.bind (link_peer_of i (\<lambda>k. k \<noteq> 0) d) (\<lambda>q. get_iface (the_or 0 (pr_peer_interface_id q)) d) in
      \<lparr>cr_id = if_id i, cr_ref = connection_ref ''wireguard'' (if_id i), cr_protocol_type = ''wireguard'', cr_protocol_label = ''WireGuard'',
       cr_name = if_name i, cr_source = if_source i, cr_managed = if_managed i, cr_status = if_runtime_status i,
       cr_endpoints = interface_end now ''local'' i d # (case other of None \<Rightarrow> [] | Some j \<Rightarrow> [interface_end now ''peer'' j d]),
       cr_warnings = []\<rparr>)"

definition endpoint_error :: "endpoint \<Rightarrow> string" where
  "endpoint_error e = strip (str_or_empty (dget (json_object (ep_extras e)) ''last_error''))"

definition connection_endpoint_ref :: "conn \<Rightarrow> endpoint \<Rightarrow> string" where
  "connection_endpoint_ref c e = co_protocol_type c @ '':'' @ show_int (ep_id e)"

definition connection_endpoint_read :: "time \<Rightarrow> conn \<Rightarrow> endpoint \<Rightarrow> db \<Rightarrow> endpoint_read" where
  "connection_endpoint_read now c e d = \<lparr>er_id = ep_id e, er_ref = connection_endpoint_ref c e, er_node_id = ep_node_id e,
     er_node_name = map_option nd_name (get_node (ep_node_id e) d), er_role = ep_role e, er_interface_name = ep_interface_name e,
     er_tunnel_ips = ep_tunnel_ips e, er_mtu = ep_mtu e, er_routes = ep_routes e, er_runtime_status = ep_runtime_status e,
     er_protocol_config = json_object (ep_protocol_config e),
     er_last_error = (if endpoint_error e = [] then None else Some (endpoint_error e)), er_summary = endpoint_summary now (ep_id e) d\<rparr>"

definition gre_notices :: "string list" where
  "gre_notices = [''GRE is not encrypted'', ''GRE needs protocol 47 in the network below'', ''on OpenWrt the interface has to join a firewall zone'']"

definition gre_connection_read :: "time \<Rightarrow> conn \<Rightarrow> db \<Rightarrow> connection_read" where
  "gre_connection_read now c d = (let es = sort_key role_order (conn_endpoints (co_id c) d) in
     \<lparr>cr_id = co_id c, cr_ref = connection_ref ''gre'' (co_id c), cr_protocol_type = ''gre'', cr_protocol_label = ''GRE'',
      cr_name = co_name c, cr_source = co_source c, cr_managed = co_managed c, cr_status = gre_connection_status (co_id c) d,
      cr_endpoints = map (\<lambda>e. connection_endpoint_read now c e d) es,
      cr_warnings = (if length es = 1 then [''only this node is managed, the other end is not''] else []) @ gre_notices @
        map (\<lambda>e. the_or (ep_interface_name e) (map_option nd_name (get_node (ep_node_id e) d)) @ '': '' @ endpoint_error e)
          (filter (\<lambda>e. endpoint_error e \<noteq> []) es)\<rparr>)"

definition list_node_connections :: "time \<Rightarrow> int \<Rightarrow> db \<Rightarrow> connection_read list reply" where
  "list_node_connections now node_id d = (case get_node node_id d of None \<Rightarrow> Inl (HTTP 404 ''node not found'') | Some _ \<Rightarrow>
     Inr (map (\<lambda>i. wireguard_connection_read now i d) (sort_key if_name (filter (\<lambda>i. if_node_id i = node_id) (db_ifaces d))) @
       concat (map (\<lambda>c. map (\<lambda>_. gre_connection_read now c d) (filter (\<lambda>e. ep_node_id e = node_id) (conn_endpoints (co_id c) d)))
         (sort_key co_id (filter (\<lambda>c. co_protocol_type c = ''gre'') (db_conns d))))))"

section \<open>Topology\<close>

record topology_node =
  tn_id :: int
  tn_name :: string
  tn_status :: string
  tn_hostname :: "string option"
  tn_region :: "string option"
  tn_endpoint_ips :: "string list"
  tn_topology_endpoint :: "string option"
  tn_agent_version :: "string option"
  tn_agent_platform :: fields

record topology_edge =
  te_id :: string
  te_ref :: string
  te_protocol_type :: string
  te_protocol_label :: string
  te_local_node_id :: int
  te_peer_node_id :: int
  te_local_interface_id :: int
  te_peer_interface_id :: int
  te_local_interface_name :: string
  te_peer_interface_name :: string
  te_local_status :: string
  te_peer_status :: string
  te_middleware_type :: "json option"
  te_local_monitor :: "monitor_summary option"
  te_peer_monitor :: "monitor_summary option"

definition topology_ifaces :: "db \<Rightarrow> iface list" where
  "topology_ifaces d = sort_key if_id (filter (\<lambda>i. if_source i = ''managed-node'') (db_ifaces d))"

definition pair_of :: "int \<Rightarrow> int \<Rightarrow> int \<times> int" where
  "pair_of a b = (min a b, max a b)"

definition wireguard_edge :: "time \<Rightarrow> iface \<Rightarrow> iface \<Rightarrow> db \<Rightarrow> topology_edge" where
  "wireguard_edge now i j d = \<lparr>te_id = ''wg-'' @ show_int (fst (pair_of (if_id i) (if_id j))) @ ''-'' @ show_int (snd (pair_of (if_id i) (if_id j))),
     te_ref = connection_ref ''wireguard'' (if_id i), te_protocol_type = ''wireguard'', te_protocol_label = ''WireGuard'',
     te_local_node_id = if_node_id i, te_peer_node_id = if_node_id j, te_local_interface_id = if_id i, te_peer_interface_id = if_id j,
     te_local_interface_name = if_name i, te_peer_interface_name = if_name j, te_local_status = if_runtime_status i,
     te_peer_status = if_runtime_status j,
     te_middleware_type = map_option (\<lambda>m. dget m ''type'') (case managed_link_middleware i of None \<Rightarrow> managed_link_middleware j | Some m \<Rightarrow> Some m),
     te_local_monitor = interface_summary now (if_id i) d, te_peer_monitor = interface_summary now (if_id j) d\<rparr>"

text \<open>The interface at the other end, when both point to each other.\<close>

definition other_end :: "db \<Rightarrow> iface list \<Rightarrow> iface \<Rightarrow> iface option" where
  "other_end d ifaces i = Option.bind (link_peer_of i (\<lambda>k. k \<noteq> 0) d) (\<lambda>q.
     Option.bind (find (\<lambda>j. pr_peer_interface_id q = Some (if_id j)) ifaces) (\<lambda>j.
     Option.bind (link_peer_of j (\<lambda>k. k = if_id i) d) (\<lambda>_. Some j)))"

fun wireguard_edges :: "time \<Rightarrow> db \<Rightarrow> iface list \<Rightarrow> (int \<times> int) list \<Rightarrow> iface list \<Rightarrow> topology_edge list" where
  "wireguard_edges now d ifaces seen [] = []"
| "wireguard_edges now d ifaces seen (i # is) = (case other_end d ifaces i of
      None \<Rightarrow> wireguard_edges now d ifaces seen is
    | Some j \<Rightarrow> (let pair = pair_of (if_id i) (if_id j) in
        if List.member seen pair then wireguard_edges now d ifaces seen is
        else wireguard_edge now i j d # wireguard_edges now d ifaces (pair # seen) is))"

definition gre_edge :: "time \<Rightarrow> conn \<Rightarrow> db \<Rightarrow> topology_edge list" where
  "gre_edge now c d = (case sort_key role_order (conn_endpoints (co_id c) d) of
      [l, p] \<Rightarrow> [\<lparr>te_id = ''gre-'' @ show_int (co_id c), te_ref = connection_ref ''gre'' (co_id c), te_protocol_type = ''gre'',
        te_protocol_label = ''GRE'', te_local_node_id = ep_node_id l, te_peer_node_id = ep_node_id p, te_local_interface_id = ep_id l,
        te_peer_interface_id = ep_id p, te_local_interface_name = ep_interface_name l, te_peer_interface_name = ep_interface_name p,
        te_local_status = ep_runtime_status l, te_peer_status = ep_runtime_status p, te_middleware_type = None,
        te_local_monitor = endpoint_summary now (ep_id l) d, te_peer_monitor = endpoint_summary now (ep_id p) d\<rparr>]
    | _ \<Rightarrow> [])"

definition topology_node_of :: "env \<Rightarrow> node \<Rightarrow> topology_node" where
  "topology_node_of en n = \<lparr>tn_id = nd_id n, tn_name = nd_name n, tn_status = node_runtime_status (en_offline_after en) (en_now en) n,
     tn_hostname = nd_hostname n, tn_region = nd_region n, tn_endpoint_ips = read_string_list (nd_endpoint_ips n),
     tn_topology_endpoint = nd_topology_endpoint n, tn_agent_version = nd_agent_version n, tn_agent_platform = json_object (nd_agent_platform n)\<rparr>"

definition build_topology :: "env \<Rightarrow> db \<Rightarrow> topology_node list \<times> topology_edge list" where
  "build_topology en d = (let is = topology_ifaces d in
     (map (topology_node_of en) (sort_key nd_id (db_nodes d)),
      wireguard_edges (en_now en) d is [] is @
      concat (map (\<lambda>c. gre_edge (en_now en) c d) (sort_key co_id (filter (\<lambda>c. co_protocol_type c = ''gre'') (db_conns d))))))"

end
