(* ===== verification/TopologyLaws.thy ===== *)
theory TopologyLaws
  imports Topology
begin

text \<open>
  Facts on what is shown: the figures of a monitor's summary are within their bounds and agree with each
  other, and the topology draws each managed link exactly once.
\<close>

section \<open>Summaries\<close>

lemma mean_between:
  assumes "xs \<noteq> []" "\<forall>x \<in> set xs. lo \<le> x \<and> x \<le> (hi :: rat)"
  shows "lo \<le> mean xs \<and> mean xs \<le> hi"
proof -
  have "of_nat (length xs) * lo \<le> sum_list xs \<and> sum_list xs \<le> of_nat (length xs) * hi"
    using assms(2) by (induction xs) (auto simp: algebra_simps)
  then show ?thesis using assms(1) by (simp add: mean_def field_simps)
qed

lemma differences_between:
  "\<forall>x \<in> set xs. lo \<le> x \<and> x \<le> hi \<Longrightarrow> y \<in> set (differences xs) \<Longrightarrow> 0 \<le> y \<and> y \<le> hi - lo"
proof -
  assume all: "\<forall>x \<in> set xs. lo \<le> x \<and> x \<le> hi" and "y \<in> set (differences xs)"
  then obtain p c where pc: "(p, c) \<in> set (zip xs (tl xs))" "y = \<bar>c - p\<bar>" by (auto simp: differences_def)
  then have "p \<in> set xs" "c \<in> set xs" using set_zip_leftD set_zip_rightD by (fastforce dest: list.set_sel(2) [rotated])+
  then have "lo \<le> p" "p \<le> hi" "lo \<le> c" "c \<le> hi" using all by simp_all
  then show ?thesis using pc(2) by simp
qed

lemma jitter_between:
  assumes "\<forall>x \<in> set xs. lo \<le> x \<and> x \<le> hi" "lo \<le> hi" "jitter_of xs = Some j"
  shows "0 \<le> j \<and> j \<le> hi - lo"
proof (cases "length xs \<le> 1")
  case True
  then show ?thesis using assms(2,3) by (cases xs) (auto simp: jitter_of_def)
next
  case False
  then have "differences xs \<noteq> []" "j = mean (differences xs)" using assms(3) by (cases xs; cases "tl xs"; auto simp: jitter_of_def differences_def)+
  then show ?thesis using mean_between [of "differences xs" 0 "hi - lo"] differences_between [OF assms(1)] by blast
qed

definition lies_in :: "rat \<Rightarrow> rat \<Rightarrow> rat option \<Rightarrow> bool" where
  "lies_in lo hi x = (case x of None \<Rightarrow> True | Some v \<Rightarrow> lo \<le> v \<and> v \<le> hi)"

lemma map_filter_set: "set (List.map_filter f xs) = {y. \<exists>x \<in> set xs. f x = Some y}"
  by (induction xs) (auto simp: map_filter_simps split: option.splits)

lemma map_filter_length: "length (List.map_filter f xs) \<le> length xs"
  by (induction xs) (auto simp: map_filter_simps split: option.splits)

lemma min_max_of:
  "xs \<noteq> [] \<Longrightarrow> x \<in> set xs \<Longrightarrow> Min (set xs) \<le> x \<and> x \<le> (Max (set xs) :: rat)"
  by simp


section \<open>The topology\<close>

definition edge_pair :: "topology_edge \<Rightarrow> int \<times> int" where
  "edge_pair e = pair_of (te_local_interface_id e) (te_peer_interface_id e)"

definition edge_of :: "db \<Rightarrow> iface list \<Rightarrow> iface \<Rightarrow> (int \<times> int) option" where
  "edge_of d ifs i = map_option (\<lambda>j. pair_of (if_id i) (if_id j)) (other_end d ifs i)"

lemma edge_pair_of [simp]: "edge_pair (wireguard_edge now i j d) = pair_of (if_id i) (if_id j)"
  by (simp add: edge_pair_def wireguard_edge_def)

text \<open>The pairs drawn are those not seen before, each once.\<close>

lemma edges_once:
  "distinct (map edge_pair (wireguard_edges now d ifs seen rows)) \<and>
   set (map edge_pair (wireguard_edges now d ifs seen rows)) = {p. \<exists>i \<in> set rows. edge_of d ifs i = Some p} - set seen"
proof (induction rows arbitrary: seen)
  case Nil
  then show ?case by simp
next
  case (Cons i rows)
  show ?case
  proof (cases "other_end d ifs i")
    case None
    then show ?thesis using Cons.IH [of seen] by (auto simp: edge_of_def)
  next
    case (Some j)
    let ?p = "pair_of (if_id i) (if_id j)"
    have "edge_of d ifs i = Some ?p" using Some by (simp add: edge_of_def)
    then show ?thesis using Some Cons.IH [of seen] Cons.IH [of "?p # seen"]
      by (auto simp: Let_def)
  qed
qed

lemma edges_of_links:
  "e \<in> set (wireguard_edges now d ifs seen rows) \<Longrightarrow> \<exists>i \<in> set rows. \<exists>j. other_end d ifs i = Some j \<and> e = wireguard_edge now i j d"
proof (induction rows arbitrary: seen)
  case Nil
  then show ?case by simp
next
  case (Cons i rows)
  then show ?case by (fastforce simp: Let_def split: option.splits if_splits)
qed

lemma gre_edges_type: "e \<in> set (gre_edge now c d) \<Longrightarrow> te_protocol_type e = ''gre''"
  by (auto simp: gre_edge_def split: list.splits)

lemma wireguard_edges_type: "e \<in> set (wireguard_edges now d ifs seen rows) \<Longrightarrow> te_protocol_type e = ''wireguard''"
  using edges_of_links by (fastforce simp: wireguard_edge_def)

definition drawn_links :: "env \<Rightarrow> db \<Rightarrow> topology_edge list" where
  "drawn_links en d = filter (\<lambda>e. te_protocol_type e = ''wireguard'') (snd (build_topology en d))"

lemma drawn_links_are:
  "drawn_links en d = wireguard_edges (en_now en) d (topology_ifaces d) [] (topology_ifaces d)"
proof -
  have "filter (\<lambda>e. te_protocol_type e = ''wireguard'') (wireguard_edges (en_now en) d (topology_ifaces d) [] (topology_ifaces d)) =
      wireguard_edges (en_now en) d (topology_ifaces d) [] (topology_ifaces d)"
    using wireguard_edges_type by (intro filter_True) blast
  moreover have "filter (\<lambda>e. te_protocol_type e = ''wireguard'') (concat (map (\<lambda>c. gre_edge (en_now en) c d) cs)) = []" for cs
    using gre_edges_type by (fastforce simp: filter_empty_conv)
  ultimately show ?thesis by (simp add: drawn_links_def build_topology_def Let_def)
qed

lemma link_peer_points: "link_peer_of i ok d = Some q \<Longrightarrow> \<exists>k. pr_peer_interface_id q = Some k \<and> ok k"
proof -
  assume "link_peer_of i ok d = Some q"
  then have "q \<in> set (filter (\<lambda>q. (case pr_peer_interface_id q of None \<Rightarrow> False | Some k \<Rightarrow> ok k) \<and> pr_source q = ''managed-node'') (iface_peers i d))"
    unfolding link_peer_of_def by (rule first_of_Some)
  then show ?thesis by (auto split: option.splits)
qed

text \<open>Two managed interfaces are drawn as linked exactly when the handlers of managed links accept the pair.\<close>

lemma other_end_is_bundle:
  assumes "tb_wf if_id (db_ifaces d)" "i \<in> set (topology_ifaces d)"
  shows "other_end d (topology_ifaces d) i = Some j \<longleftrightarrow>
    if_source j = ''managed-node'' \<and> (\<exists>q r. get_managed_link_bundle (if_id i) d = Inr (i, j, q, r))"
proof -
  have ti: "set (topology_ifaces d) = {i \<in> set (db_ifaces d). if_source i = ''managed-node''}" by (auto simp: topology_ifaces_def)
  have dist: "distinct (map if_id (db_ifaces d))" using assms(1) by (simp add: tb_wf_def)
  then have get: "get_iface k d = Some x \<longleftrightarrow> x \<in> set (db_ifaces d) \<and> if_id x = k" for k x
    by (simp add: get_iface_def tb_get_Some_iff)
  have uniq: "x \<in> set (db_ifaces d) \<Longrightarrow> y \<in> set (db_ifaces d) \<Longrightarrow> if_id x = if_id y \<Longrightarrow> x = y" for x y
    using get by (metis option.inject)
  have find: "find (\<lambda>j. pr_peer_interface_id q = Some (if_id j)) (topology_ifaces d) = Some x \<longleftrightarrow>
      x \<in> set (topology_ifaces d) \<and> pr_peer_interface_id q = Some (if_id x)" for q x
  proof
    assume "find (\<lambda>j. pr_peer_interface_id q = Some (if_id j)) (topology_ifaces d) = Some x"
    then show "x \<in> set (topology_ifaces d) \<and> pr_peer_interface_id q = Some (if_id x)"
      by (auto simp: find_Some_iff)
  next
    assume x: "x \<in> set (topology_ifaces d) \<and> pr_peer_interface_id q = Some (if_id x)"
    then obtain y where y: "find (\<lambda>j. pr_peer_interface_id q = Some (if_id j)) (topology_ifaces d) = Some y"
      by (cases "find (\<lambda>j. pr_peer_interface_id q = Some (if_id j)) (topology_ifaces d)") (auto simp: find_None_iff)
    then have "y \<in> set (topology_ifaces d)" "if_id y = if_id x" using x by (auto simp: find_Some_iff)
    then have "y = x" using x ti uniq by blast
    then show "find (\<lambda>j. pr_peer_interface_id q = Some (if_id j)) (topology_ifaces d) = Some x" using y by simp
  qed
  have i: "get_iface (if_id i) d = Some i" using assms(2) ti get by simp
  show ?thesis
  proof (cases "link_peer_of i (\<lambda>k. k \<noteq> 0) d")
    case None
    then show ?thesis using i by (simp add: other_end_def get_managed_link_bundle_def some_or_def rbind_def)
  next
    case (Some q)
    then obtain k where k: "pr_peer_interface_id q = Some k" "k \<noteq> 0" using link_peer_points by blast
    have "other_end d (topology_ifaces d) i = Some j \<longleftrightarrow>
        j \<in> set (topology_ifaces d) \<and> k = if_id j \<and> link_peer_of j (\<lambda>k. k = if_id i) d \<noteq> None"
      using Some k find [of q j] by (auto simp: other_end_def Option.bind_eq_Some_conv)
    also have "\<dots> \<longleftrightarrow> if_source j = ''managed-node'' \<and> get_iface k d = Some j \<and> link_peer_of j (\<lambda>k. k = if_id i) d \<noteq> None"
      using ti get by auto
    also have "\<dots> \<longleftrightarrow> if_source j = ''managed-node'' \<and> (\<exists>q r. get_managed_link_bundle (if_id i) d = Inr (i, j, q, r))"
    proof (cases "get_iface k d")
      case None
      then show ?thesis using i Some k by (simp add: get_managed_link_bundle_def some_or_def rbind_def)
    next
      case (Some x)
      then show ?thesis using i k \<open>link_peer_of i (\<lambda>k. k \<noteq> 0) d = Some q\<close>
        by (cases "link_peer_of x (\<lambda>k. k = if_id i) d") (auto simp: get_managed_link_bundle_def some_or_def rbind_def)
    qed
    finally show ?thesis .
  qed
qed

text \<open>C30: the topology draws every managed link exactly once: no two of its WireGuard edges join the same two interfaces, an edge is drawn for every pair of managed interfaces that the handlers of managed links accept as a link, from whichever end, and every edge is such a link.\<close>

theorem topology_draws_each_link_once:
  assumes "tb_wf if_id (db_ifaces d)"
  shows "distinct (map edge_pair (drawn_links en d)) \<and>
    set (map edge_pair (drawn_links en d)) = {pair_of (if_id i) (if_id j) | i j.
      if_source i = ''managed-node'' \<and> if_source j = ''managed-node'' \<and>
      (\<exists>q r. get_managed_link_bundle (if_id i) d = Inr (i, j, q, r))}"
proof -
  let ?ifs = "topology_ifaces d"
  have acc: "i \<in> set (db_ifaces d)" if "get_managed_link_bundle (if_id i) d = Inr (i, j, q, r)" for i j q r
    using that by (auto simp: get_managed_link_bundle_def some_or_def rbind_def dest: ifaces.get_SomeD split: option.splits sum.splits)
  have ti: "i \<in> set ?ifs \<longleftrightarrow> i \<in> set (db_ifaces d) \<and> if_source i = ''managed-node''" for i by (auto simp: topology_ifaces_def)
  have key: "i \<in> set ?ifs \<and> other_end d ?ifs i = Some j \<longleftrightarrow> if_source i = ''managed-node'' \<and> if_source j = ''managed-node'' \<and>
      (\<exists>q r. get_managed_link_bundle (if_id i) d = Inr (i, j, q, r))" for i j
  proof (cases "i \<in> set ?ifs")
    case True
    then show ?thesis using other_end_is_bundle [OF assms True, of j] ti [of i] by simp
  next
    case False
    then show ?thesis using acc [of i j] ti [of i] by auto
  qed
  have pairs: "edge_of d ?ifs i = Some p \<longleftrightarrow> (\<exists>j. other_end d ?ifs i = Some j \<and> p = pair_of (if_id i) (if_id j))" for i p
    by (auto simp: edge_of_def)
  have "set (map edge_pair (drawn_links en d)) = {p. \<exists>i \<in> set ?ifs. edge_of d ?ifs i = Some p}"
    using edges_once [of "en_now en" d ?ifs "[]" ?ifs] by (simp add: drawn_links_are)
  also have "\<dots> = {pair_of (if_id i) (if_id j) | i j. i \<in> set ?ifs \<and> other_end d ?ifs i = Some j}"
    unfolding pairs by blast
  also have "\<dots> = {pair_of (if_id i) (if_id j) | i j. if_source i = ''managed-node'' \<and> if_source j = ''managed-node'' \<and>
      (\<exists>q r. get_managed_link_bundle (if_id i) d = Inr (i, j, q, r))}"
    by (simp only: key)
  finally show ?thesis using edges_once [of "en_now en" d ?ifs "[]" ?ifs] by (simp add: drawn_links_are)
qed

end
