(* ===== verification/LgNodes.thy ===== *)
theory LgNodes
  imports LookingGlass
begin

text \<open>
  The node list of the third-party looking glass API (main.py): what a node shows of itself, and the pages
  of the list. Whether a node is online is not in the query of the database, so the handler scans
  the table in batches until a page is full.
\<close>

section \<open>A node\<close>

record lg_node_capabilities =
  lc_bird :: bool
  lc_bird_route_lookup :: bool
  lc_bird_routes_by_origin_as :: bool
  lc_bird_protocols :: bool
  lc_ping :: bool
  lc_traceroute :: bool

record lg_node_read =
  ln_node_ref :: string
  ln_name :: string
  ln_region :: "string option"
  ln_online :: bool
  ln_last_seen_at :: "time option"
  ln_management_ip :: "string option"
  ln_public_ip :: "string option"
  ln_endpoint_ips :: "string list"
  ln_capabilities :: lg_node_capabilities

definition has_capability :: "string \<Rightarrow> node \<Rightarrow> bool" where
  "has_capability c n = List.member (nd_agent_capabilities n) c"

definition node_supports_bird_route_lookup :: "node \<Rightarrow> bool" where
  "node_supports_bird_route_lookup = has_capability ''looking_glass.bird.route_lookup''"

definition node_supports_bird_routes_by_origin_as :: "node \<Rightarrow> bool" where
  "node_supports_bird_routes_by_origin_as = has_capability ''looking_glass.bird.routes_by_origin_as''"

definition node_supports_bird_protocols :: "node \<Rightarrow> bool" where
  "node_supports_bird_protocols = has_capability ''looking_glass.bird.protocols''"

definition node_supports_looking_glass_ping :: "node \<Rightarrow> bool" where
  "node_supports_looking_glass_ping = has_capability ''looking_glass.ping''"

definition node_supports_looking_glass_traceroute :: "node \<Rightarrow> bool" where
  "node_supports_looking_glass_traceroute = has_capability ''looking_glass.traceroute''"

definition looking_glass_node_read :: "int \<Rightarrow> time \<Rightarrow> node \<Rightarrow> lg_node_read" where
  "looking_glass_node_read offline_after now n = \<lparr>ln_node_ref = node_ref (nd_id n), ln_name = nd_name n,
     ln_region = nd_region n, ln_online = is_node_online offline_after now n, ln_last_seen_at = nd_last_seen_at n,
     ln_management_ip = nd_management_ip n, ln_public_ip = nd_public_ip n,
     ln_endpoint_ips = read_string_list (nd_endpoint_ips n),
     ln_capabilities = \<lparr>
       lc_bird = list_ex (\<lambda>c. has_capability c n) [''bird'', ''looking_glass.bird.route_lookup'',
         ''looking_glass.bird.routes_by_origin_as'', ''looking_glass.bird.protocols''],
       lc_bird_route_lookup = node_supports_bird_route_lookup n,
       lc_bird_routes_by_origin_as = node_supports_bird_routes_by_origin_as n,
       lc_bird_protocols = node_supports_bird_protocols n,
       lc_ping = node_supports_looking_glass_ping n,
       lc_traceroute = node_supports_looking_glass_traceroute n\<rparr>\<rparr>"

section \<open>The pages\<close>

definition in_region :: "string option \<Rightarrow> node \<Rightarrow> bool" where
  "in_region region n = (case region of None \<Rightarrow> True | Some r \<Rightarrow> nd_region n = Some r)"

definition nodes_after :: "string option \<Rightarrow> int \<Rightarrow> node list \<Rightarrow> node list" where
  "nodes_after region k ns = sort_key nd_id (filter (\<lambda>n. k < nd_id n \<and> in_region region n) ns)"

definition node_batch :: "nat \<Rightarrow> string option \<Rightarrow> int \<Rightarrow> node list \<Rightarrow> node list" where
  "node_batch batch_size region k ns = take batch_size (nodes_after region k ns)"

definition online_matches :: "int \<Rightarrow> time \<Rightarrow> bool option \<Rightarrow> node \<Rightarrow> bool" where
  "online_matches offline_after now online n = (case online of None \<Rightarrow> True | Some b \<Rightarrow> is_node_online offline_after now n = b)"

fun collect_nodes :: "(node \<Rightarrow> bool) \<Rightarrow> nat \<Rightarrow> node list \<Rightarrow> node list \<Rightarrow> node list" where
  "collect_nodes ok limit acc [] = acc"
| "collect_nodes ok limit acc (n # ns) =
     (if \<not> ok n then collect_nodes ok limit acc ns
      else if limit < length (acc @ [n]) then acc @ [n]
      else collect_nodes ok limit (acc @ [n]) ns)"

lemma batch_advances:
  assumes "node_batch batch_size region k ns \<noteq> []"
  shows "length (nodes_after region (nd_id (last (node_batch batch_size region k ns))) ns) < length (nodes_after region k ns)"
proof -
  let ?l = "last (node_batch batch_size region k ns)"
  have "?l \<in> set (node_batch batch_size region k ns)" by (rule last_in_set [OF assms])
  then have "?l \<in> set (nodes_after region k ns)" unfolding node_batch_def by (rule in_set_takeD)
  then have l: "?l \<in> set ns" "k < nd_id ?l" "in_region region ?l" by (auto simp: nodes_after_def)
  let ?all = "filter (\<lambda>n. k < nd_id n \<and> in_region region n) ns"
  have "filter (\<lambda>n. nd_id ?l < nd_id n \<and> in_region region n) ns = filter (\<lambda>n. nd_id ?l < nd_id n) ?all"
    using l(2) by (auto intro: filter_cong)
  moreover have "length (filter (\<lambda>n. nd_id ?l < nd_id n) ?all) < length ?all"
    using l by (intro length_filter_less [of ?l]) simp_all
  ultimately have "length (filter (\<lambda>n. nd_id ?l < nd_id n \<and> in_region region n) ns) < length ?all" by simp
  then show ?thesis by (simp add: nodes_after_def)
qed

function scan_nodes :: "(node \<Rightarrow> bool) \<Rightarrow> nat \<Rightarrow> nat \<Rightarrow> string option \<Rightarrow> node list \<Rightarrow> int \<Rightarrow> node list \<Rightarrow> node list" where
  "scan_nodes ok limit batch_size region ns k acc =
     (if limit < length acc then acc
      else let batch = node_batch batch_size region k ns in
        if batch = [] then acc
        else let acc1 = collect_nodes ok limit acc batch in
          if length batch < batch_size then acc1
          else scan_nodes ok limit batch_size region ns (nd_id (last batch)) acc1)"
  by pat_completeness auto

termination
  by (relation "measure (\<lambda>(ok, limit, batch_size, region, ns, k, acc). length (nodes_after region k ns))") (auto simp: batch_advances)

declare scan_nodes.simps [simp del]

definition node_read_scope :: string where "node_read_scope = ''looking_glass.nodes.read''"

definition page_limit :: "int \<Rightarrow> nat" where
  "page_limit limit = nat (max 1 (min (if limit = 0 then 100 else limit) 500))"

text \<open>The cursor of a page; a number that does not fit the column's type fails in the database.\<close>

definition cursor_start :: "string option \<Rightarrow> int reply" where
  "cursor_start cursor = (if \<not> set_text cursor then Inr 0
     else case py_int (the_or [] cursor) of
         None \<Rightarrow> Inl (api_error 400 ''invalid_request'')
       | Some k \<Rightarrow> if 2 ^ 63 \<le> k then Inl (HTTP 500 ''integer out of range'') else Inr (max 0 k))"

definition list_looking_glass_nodes ::
  "env \<Rightarrow> string option \<Rightarrow> bool option \<Rightarrow> int \<Rightarrow> string option \<Rightarrow> api_key \<Rightarrow> db \<Rightarrow> (lg_node_read list \<times> string option) reply" where
  "list_looking_glass_nodes en region online limit cursor key d =
     rbind (require_looking_glass_scope key node_read_scope) (\<lambda>_.
     rbind (cursor_start cursor) (\<lambda>k.
       let lim = page_limit limit; batch_size = min 500 (max (lim + 1) 100);
           found = scan_nodes (online_matches (en_offline_after en) (en_now en) online) lim batch_size region (db_nodes d) k [];
           page = take lim found in
       Inr (map (looking_glass_node_read (en_offline_after en) (en_now en)) page,
            if lim < length found \<and> page \<noteq> [] then Some (show_int (nd_id (last page))) else None)))"

definition get_looking_glass_node :: "env \<Rightarrow> string \<Rightarrow> api_key \<Rightarrow> db \<Rightarrow> lg_node_read reply" where
  "get_looking_glass_node en ref key d =
     rbind (require_looking_glass_scope key node_read_scope) (\<lambda>_.
     rbind (parse_node_ref ref) (\<lambda>node_id.
     rbind (some_or (get_node node_id d) (api_error 404 ''node_not_found'')) (\<lambda>n.
       Inr (looking_glass_node_read (en_offline_after en) (en_now en) n))))"

section \<open>A query\<close>

record lg_query_read =
  qr_query_id :: string
  qr_status :: query_status
  qr_node_ref :: string
  qr_operation :: string
  qr_request :: json
  qr_created_at :: time
  qr_started_at :: "time option"
  qr_finished_at :: "time option"
  qr_deadline_at :: "time option"
  qr_expires_at :: "time option"
  qr_result :: "json option"
  qr_error :: "(string \<times> string) option"

definition looking_glass_query_read :: "lg_query \<Rightarrow> lg_query_read" where
  "looking_glass_query_read q = \<lparr>qr_query_id = lq_public_id q, qr_status = lq_status q, qr_node_ref = node_ref (lq_node_id q),
     qr_operation = lq_operation q, qr_request = or_json (lq_request q) (JObj []), qr_created_at = lq_created_at q,
     qr_started_at = lq_started_at q, qr_finished_at = lq_finished_at q, qr_deadline_at = lq_deadline_at q,
     qr_expires_at = lq_expires_at q, qr_result = lq_result q,
     qr_error = (if set_text (lq_error_code q) \<or> set_text (lq_error_message q)
       then Some (if set_text (lq_error_code q) then the_or [] (lq_error_code q) else ''query_failed'',
                  if set_text (lq_error_message q) then the_or [] (lq_error_message q) else ''query failed'')
       else None)\<rparr>"

end
