(* ===== verification/LgNodesLaws.thy ===== *)
theory LgNodesLaws
  imports LgNodes
begin

text \<open>
  Facts on the node list of the looking glass API: the scan in batches finds what one query over the whole
  table would, and following the cursors of the pages meets every matching node once.
\<close>

section \<open>The scan\<close>

lemma collect_takes:
  "length acc \<le> limit \<Longrightarrow> collect_nodes ok limit acc ns = take (Suc limit) (acc @ filter ok ns)"
  by (induction ok limit acc ns rule: collect_nodes.induct) (auto simp: take_Cons')

lemma take_take_append: "take n (take n xs @ ys) = take n (xs @ ys)"
  by (cases "n \<le> length xs") auto

lemma last_greatest: "sorted (map f xs) \<Longrightarrow> x \<in> set xs \<Longrightarrow> f x \<le> (f (last xs) :: 'a :: linorder)"
  by (induction xs) auto

lemma drop_is_filter:
  assumes "sorted (map f xs)" "distinct (map f xs)" "take n xs \<noteq> []"
  shows "filter (\<lambda>x. f (last (take n xs)) < (f x :: 'a :: linorder)) xs = drop n xs"
proof -
  let ?a = "take n xs" and ?b = "drop n xs"
  have s: "sorted (map f (?a @ ?b))" and d: "distinct (map f (?a @ ?b))" using assms(1,2) by (simp_all only: append_take_drop_id)
  have m: "last ?a \<in> set ?a" using assms(3) by simp
  have le: "\<forall>x \<in> set ?a. f x \<le> f (last ?a)"
    using last_greatest [of f ?a] s by (simp add: sorted_append del: append_take_drop_id)
  have gt: "\<forall>x \<in> set ?b. f (last ?a) < f x"
  proof
    fix x assume x: "x \<in> set ?b"
    have "f (last ?a) \<le> f x" using s m x by (auto simp: sorted_append simp del: append_take_drop_id)
    moreover have "f (last ?a) \<noteq> f x" using d m x by (auto simp del: append_take_drop_id)
    ultimately show "f (last ?a) < f x" by simp
  qed
  have "filter (\<lambda>x. f (last ?a) < f x) (?a @ ?b) = ?b"
    using le gt by (auto simp: filter_empty_conv filter_id_conv simp del: append_take_drop_id)
  then show ?thesis by simp
qed

lemma after_sorted: "sorted (map nd_id (nodes_after region k ns))"
  by (simp add: nodes_after_def)

lemma after_distinct: "distinct (map nd_id ns) \<Longrightarrow> distinct (map nd_id (nodes_after region k ns))"
  by (simp add: nodes_after_def distinct_map inj_on_def)

lemma after_later: "k \<le> j \<Longrightarrow> nodes_after region j ns = filter (\<lambda>m. j < nd_id m) (nodes_after region k ns)"
  by (auto simp: nodes_after_def filter_sort intro!: arg_cong [where f = "sort_key nd_id"] filter_cong)

text \<open>What comes after the last of the first nodes is the rest.\<close>

lemma after_last:
  assumes "distinct (map nd_id ns)" "take n (nodes_after region k ns) \<noteq> []"
  shows "nodes_after region (nd_id (last (take n (nodes_after region k ns)))) ns = drop n (nodes_after region k ns)"
proof -
  let ?l = "last (take n (nodes_after region k ns))"
  have "?l \<in> set (nodes_after region k ns)" by (rule in_set_takeD [OF last_in_set [OF assms(2)]])
  then have "k < nd_id ?l" by (auto simp: nodes_after_def)
  then have "nodes_after region (nd_id ?l) ns = filter (\<lambda>m. nd_id ?l < nd_id m) (nodes_after region k ns)"
    by (intro after_later) simp
  also have "\<dots> = drop n (nodes_after region k ns)"
    using drop_is_filter [OF after_sorted after_distinct [OF assms(1)] assms(2)] by simp
  finally show ?thesis .
qed

lemma scan_is_one_query:
  assumes "distinct (map nd_id ns)" "0 < sz" "length acc \<le> Suc limit"
  shows "scan_nodes ok limit sz region ns k acc = take (Suc limit) (acc @ filter ok (nodes_after region k ns))"
  using assms
proof (induction ok limit sz region ns k acc rule: scan_nodes.induct)
  case (1 ok limit sz region ns k acc)
  let ?rest = "nodes_after region k ns" and ?b = "node_batch sz region k ns"
  show ?case
  proof (cases "limit < length acc")
    case True
    then show ?thesis using 1 by (simp add: scan_nodes.simps [of _ _ _ _ _ _ acc])
  next
    case short: False
    let ?acc = "collect_nodes ok limit acc ?b"
    have acc: "?acc = take (Suc limit) (acc @ filter ok ?b)" using short by (simp add: collect_takes)
    consider (none) "?b = []" | (part) "?b \<noteq> []" "length ?b < sz" | (full) "?b \<noteq> []" "\<not> length ?b < sz" by blast
    then show ?thesis
    proof cases
      case none
      then show ?thesis using short 1(3) by (simp add: scan_nodes.simps [of _ _ _ _ _ _ acc] node_batch_def)
    next
      case part
      then have "?b = ?rest" by (simp add: node_batch_def)
      then show ?thesis using part short acc by (simp add: scan_nodes.simps [of _ _ _ _ _ _ acc] Let_def)
    next
      case full
      have "scan_nodes ok limit sz region ns (nd_id (last ?b)) ?acc =
          take (Suc limit) (?acc @ filter ok (nodes_after region (nd_id (last ?b)) ns))"
        using 1(1) [of ?b ?acc] short full 1(2,3) acc by simp
      also have "nodes_after region (nd_id (last ?b)) ns = drop sz ?rest"
        using after_last [OF 1(2)] full(1) unfolding node_batch_def by blast
      also have "take (Suc limit) (?acc @ filter ok (drop sz ?rest)) = take (Suc limit) ((acc @ filter ok ?b) @ filter ok (drop sz ?rest))"
        unfolding acc by (rule take_take_append)
      also have "(acc @ filter ok ?b) @ filter ok (drop sz ?rest) = acc @ filter ok ?rest"
        unfolding node_batch_def by (simp flip: filter_append)
      finally show ?thesis using full short by (simp add: scan_nodes.simps [of _ _ _ _ _ _ acc] Let_def)
    qed
  qed
qed

section \<open>The pages\<close>

text \<open>All nodes that a client asks for, after a given one: what the pages have to show.\<close>

definition asked_nodes :: "env \<Rightarrow> string option \<Rightarrow> bool option \<Rightarrow> int \<Rightarrow> db \<Rightarrow> node list" where
  "asked_nodes en region online k d =
     filter (online_matches (en_offline_after en) (en_now en) online) (nodes_after region k (db_nodes d))"

lemma asked_later:
  "k \<le> j \<Longrightarrow> asked_nodes en region online j d = filter (\<lambda>m. j < nd_id m) (asked_nodes en region online k d)"
  by (simp add: asked_nodes_def after_later conj_commute)

lemma asked_after:
  assumes "distinct (map nd_id (db_nodes d))" "take n (asked_nodes en region online k d) \<noteq> []"
  shows "asked_nodes en region online (nd_id (last (take n (asked_nodes en region online k d)))) d = drop n (asked_nodes en region online k d)"
proof -
  let ?ok = "online_matches (en_offline_after en) (en_now en) online" and ?xs = "asked_nodes en region online k d"
  let ?l = "last (take n ?xs)"
  have "?l \<in> set ?xs" by (rule in_set_takeD [OF last_in_set [OF assms(2)]])
  then have "k < nd_id ?l" by (auto simp: asked_nodes_def nodes_after_def)
  then have "asked_nodes en region online (nd_id ?l) d = filter (\<lambda>m. nd_id ?l < nd_id m) ?xs"
    by (intro asked_later) simp
  moreover have "sorted (map nd_id ?xs)" "distinct (map nd_id ?xs)"
    using sorted_filter [OF after_sorted] distinct_map_filter [OF after_distinct [OF assms(1)]] by (simp_all add: asked_nodes_def)
  ultimately show ?thesis using drop_is_filter [of nd_id ?xs n] assms(2) by simp
qed

definition ids_fit :: "db \<Rightarrow> bool" where
  "ids_fit d = (tb_wf nd_id (db_nodes d) \<and> list_all (\<lambda>n. nd_id n < 2 ^ 63) (db_nodes d))"

lemma cursor_of_id:
  assumes "0 < k" "k < 2 ^ 63"
  shows "cursor_start (Some (show_int k)) = Inr k"
proof -
  have "(2 :: int) ^ 63 \<le> 10 ^ 19" by simp
  also have "(10 :: int) ^ 19 \<le> 10 ^ max_int_digits" by (intro power_increasing) (simp_all add: max_int_digits_def)
  finally have v: "py_int (show_int k) = Some k" using assms by (intro py_int_show_int) simp
  moreover from this have "show_int k \<noteq> []" by (auto simp: py_int_def strip_by_def)
  ultimately have "py_int (show_int k) = Some k" "show_int k \<noteq> []" by simp_all
  then show ?thesis using assms by (simp add: cursor_start_def set_text_def)
qed

text \<open>C31: the list of nodes pages through exactly the nodes a client asks for. A page holds at most the limit of nodes; without a next cursor it holds all matching nodes after its own cursor, in the order of their ids; with one, the nodes it shows followed by those the next cursor starts at are all of them, so that following the cursors meets every matching node once and none twice, although the handler scans the table in batches and filters them afterwards.\<close>

theorem looking_glass_pages_are_exact:
  assumes "ids_fit d" "cursor_start cursor = Inr k"
    and "list_looking_glass_nodes en region online limit cursor key d = Inr (items, next)"
  shows "length items \<le> 500 \<and> (\<exists>page.
    items = map (looking_glass_node_read (en_offline_after en) (en_now en)) page \<and>
    (case next of None \<Rightarrow> page = asked_nodes en region online k d
     | Some c \<Rightarrow> page \<noteq> [] \<and> (\<exists>k1 > k. cursor_start (Some c) = Inr k1 \<and>
         asked_nodes en region online k d = page @ asked_nodes en region online k1 d)))"
proof -
  let ?xs = "asked_nodes en region online k d" and ?n = "page_limit limit"
  let ?page = "take ?n ?xs"
  have wf: "distinct (map nd_id (db_nodes d))" "list_all (\<lambda>n. 0 < nd_id n) (db_nodes d)" "list_all (\<lambda>n. nd_id n < 2 ^ 63) (db_nodes d)"
    using assms(1) by (simp_all add: ids_fit_def tb_wf_def)
  have n: "0 < ?n" "?n \<le> 500" by (auto simp: page_limit_def)
  have found: "scan_nodes (online_matches (en_offline_after en) (en_now en) online) ?n (min 500 (max (?n + 1) 100)) region (db_nodes d) k []
      = take (Suc ?n) ?xs"
    using scan_is_one_query [OF wf(1), of "min 500 (max (?n + 1) 100)" "[]" ?n] by (simp add: asked_nodes_def)
  have res: "items = map (looking_glass_node_read (en_offline_after en) (en_now en)) ?page"
    "next = (if ?n < length ?xs then Some (show_int (nd_id (last ?page))) else None)"
    using assms(2,3) found n
    by (auto simp: list_looking_glass_nodes_def Let_def rbind_def min_def split: sum.splits if_splits)
  show ?thesis
  proof (cases "?n < length ?xs")
    case True
    let ?l = "last ?page"
    have "?page \<noteq> []" using True n by auto
    moreover from this have "?l \<in> set ?xs" by (intro in_set_takeD [OF last_in_set])
    then have "?l \<in> set (db_nodes d)" "k < nd_id ?l" by (auto simp: asked_nodes_def nodes_after_def)
    moreover from this have "cursor_start (Some (show_int (nd_id ?l))) = Inr (nd_id ?l)"
      using wf(2,3) by (intro cursor_of_id) (auto simp: list_all_iff)
    moreover have "?xs = ?page @ asked_nodes en region online (nd_id ?l) d"
      using asked_after [OF wf(1)] \<open>?page \<noteq> []\<close> by (metis append_take_drop_id)
    ultimately show ?thesis using res True n by auto
  next
    case False
    then show ?thesis using res n by auto
  qed
qed

end
