(* ===== verification/TopologySamples.thy ===== *)
theory TopologySamples
  imports LinkSamples TopologyLaws LgNodesLaws
begin

text \<open>
  The link of LinkSamples as the topology draws it, and two pages of a list of three nodes.
\<close>

lemma direct_link_drawn:
  "map edge_pair (drawn_links sample_env (snd direct_creation)) = [(1, 2)]" "tb_wf if_id (db_ifaces (snd direct_creation))"
  by code_simp+

theorem topology_draws_each_link_once_witness:
  "{(1, 2)} = {pair_of (if_id i) (if_id j) | i j. if_source i = ''managed-node'' \<and> if_source j = ''managed-node'' \<and>
     (\<exists>q r. get_managed_link_bundle (if_id i) (snd direct_creation) = Inr (i, j, q, r))}"
  using topology_draws_each_link_once [OF direct_link_drawn(2), of sample_env] by (simp add: direct_link_drawn(1))

definition three_nodes :: db where
  "three_nodes = empty_db\<lparr>db_nodes := [linking_node 4, linking_node 7, linking_node 9]\<rparr>"

definition reading_key :: api_key where
  "reading_key = \<lparr>ak_id = 1, ak_name = ''k'', ak_token_prefix = ''p'', ak_token_hash = ''h'', ak_token_hint = ''t'',
     ak_scopes = [''looking_glass.nodes.read''], ak_enabled = True, ak_expires_at = None, ak_last_used_at = None,
     ak_last_used_ip = None, ak_revoked_at = None\<rparr>"

lemma first_page:
  "ids_fit three_nodes" "cursor_start None = Inr 0"
  "is_ok (list_looking_glass_nodes sample_env None None 2 None reading_key three_nodes)"
  "snd (ok_value (list_looking_glass_nodes sample_env None None 2 None reading_key three_nodes)) = Some ''7''"
  "cursor_start (Some ''7'') = Inr 7"
  by code_simp+

theorem looking_glass_pages_are_exact_witness:
  "\<exists>page. page \<noteq> [] \<and> asked_nodes sample_env None None 0 three_nodes = page @ asked_nodes sample_env None None 7 three_nodes"
proof -
  let ?r = "list_looking_glass_nodes sample_env None None 2 None reading_key three_nodes"
  obtain items where "?r = Inr (items, Some ''7'')"
    using first_page(3,4) ok_value_Inr [of ?r] by (metis prod.collapse)
  from looking_glass_pages_are_exact [OF first_page(1,2) this] show ?thesis using first_page(5) by auto
qed

end
