(* ===== verification/AgentWg.thy ===== *)
theory AgentWg
  imports AgentGre WgConfig
begin

text \<open>
  The WireGuard back end of an agent: the service managers (service_manager.py) and the operations on
  interfaces (system.py). As in the GRE back end commands are answered by the environment, which also
  says what each of them makes of OpenWrt's network configuration; symbolic links do not occur, except
  that a service of OpenRC may be a link: an entry that is no regular file, with its target as content.
\<close>

section \<open>Environment\<close>

text \<open>\<open>we_have\<close> are the programs on the path, \<open>we_polls\<close> how often the state of an interface is read again
  before the five seconds an OpenWrt interface has to stop are over, \<open>we_configs\<close> the sorted names of
  the files \<open>*.conf\<close> of the WireGuard directory.\<close>

record wg_env =
  we_agent :: agent_env
  we_network :: "nat \<Rightarrow> string list \<Rightarrow> (path \<Rightarrow> disk_file option) \<Rightarrow> disk_file option"
  we_have :: "string \<Rightarrow> bool"
  we_polls :: nat
  we_configs :: "string list"

definition run_wg :: "wg_env \<Rightarrow> string list \<Rightarrow> bool \<Rightarrow> command_report io" where
  "run_wg we command allow d = (case run_command (we_agent we) command allow d of (r, e) \<Rightarrow>
     (r, e\<lparr>dk_files := (dk_files e)(network_config := we_network we (dk_count d) command (dk_files d))\<rparr>))"

definition reported :: "command_report io \<Rightarrow> json io" where
  "reported m = dbind m (\<lambda>r. dreturn (report_json r))"

section \<open>Service managers\<close>

datatype service_manager = Systemd | OpenRC | OpenWrtUci | DirectWgQuick | Unsupported

fun manager_name :: "service_manager \<Rightarrow> string" where
  "manager_name Systemd = ''systemd''"
| "manager_name OpenRC = ''openrc''"
| "manager_name OpenWrtUci = ''openwrt-uci''"
| "manager_name DirectWgQuick = ''direct''"
| "manager_name Unsupported = ''unsupported''"

definition openwrt_wireguard_proto :: path where
  "openwrt_wireguard_proto = [''lib'', ''netifd'', ''proto'', ''wireguard.sh'']"

definition detect_service_manager :: "wg_env \<Rightarrow> service_manager io" where
  "detect_service_manager we d = (Inr (
     if we_have we ''systemctl'' then Systemd
     else if we_have we ''rc-service'' \<and> we_have we ''rc-update'' then OpenRC
     else if we_have we ''uci'' \<and> we_have we ''ifup'' \<and> path_exists openwrt_wireguard_proto d then OpenWrtUci
     else if we_have we ''wg-quick'' then DirectWgQuick else Unsupported), d)"

record service_state =
  sv_manager :: string
  sv_unit :: "string option"
  sv_managed :: bool
  sv_active_state :: string
  sv_enabled_state :: string
  sv_reports :: "(command_report \<times> command_report) option"
  sv_message :: "string option"

definition state_json :: "service_state \<Rightarrow> json" where
  "state_json s = JObj ([(''manager'', JStr (sv_manager s)), (''unit'', jopt_str (sv_unit s)), (''managed'', JBool (sv_managed s)),
     (''active_state'', JStr (sv_active_state s)), (''enabled_state'', JStr (sv_enabled_state s))] @
     (case sv_reports s of None \<Rightarrow> [] | Some (a, e) \<Rightarrow> [(''active'', report_json a), (''enabled'', report_json e)]) @
     (case sv_message s of None \<Rightarrow> [] | Some m \<Rightarrow> [(''message'', JStr m)]))"

definition or_unknown :: "string \<Rightarrow> string" where
  "or_unknown s = (if s = [] then ''unknown'' else s)"

subsection \<open>systemd\<close>

definition systemd_enabled_states :: "string list" where
  "systemd_enabled_states = [''enabled'', ''enabled-runtime'', ''linked'', ''linked-runtime'', ''alias'']"

definition wg_unit :: "string \<Rightarrow> string" where
  "wg_unit name = ''wg-quick@'' @ name @ ''.service''"

definition systemd_state :: "wg_env \<Rightarrow> string \<Rightarrow> service_state io" where
  "systemd_state we name =
     dbind (run_wg we [''systemctl'', ''is-active'', wg_unit name] True) (\<lambda>a.
     dbind (run_wg we [''systemctl'', ''is-enabled'', wg_unit name] True) (\<lambda>e.
     let active = strip (rp_stdout a); enabled = strip (rp_stdout e) in
     dreturn \<lparr>sv_manager = ''systemd'', sv_unit = Some (wg_unit name),
       sv_managed = (active = ''active'' \<or> List.member systemd_enabled_states enabled),
       sv_active_state = or_unknown active, sv_enabled_state = or_unknown enabled, sv_reports = Some (a, e), sv_message = None\<rparr>))"

subsection \<open>OpenRC\<close>

definition init_dir :: path where "init_dir = [''etc'', ''init.d'']"

fun first_existing :: "wg_env \<Rightarrow> string list \<Rightarrow> string option io" where
  "first_existing we [] = dreturn None"
| "first_existing we (c # cs) = dbind (run_wg we [''rc-service'', ''--exists'', c] True) (\<lambda>r.
     if rp_returncode r = 0 then dreturn (Some c) else first_existing we cs)"

definition openrc_unit :: "wg_env \<Rightarrow> string \<Rightarrow> string io" where
  "openrc_unit we name =
     dbind (first_existing we [''wg-quick@'' @ name, ''wg-quick.'' @ name, ''link42-wg-quick.'' @ name]) (\<lambda>u. case u of
         Some c \<Rightarrow> dreturn c
       | None \<Rightarrow> dbind (file_exists (init_dir @ [''wg-quick''])) (\<lambda>b.
           dreturn ((if b then ''wg-quick.'' else ''link42-wg-quick.'') @ name)))"

definition openrc_script :: "string \<Rightarrow> string" where
  "openrc_script name = (let q = [CHR 0x22] in concat (map (\<lambda>l. l @ [CHR 0x0A]) [
     ''#!/sbin/openrc-run'', ''name='' @ q @ ''Link42 WireGuard '' @ name @ q,
     ''description='' @ q @ ''Link42 managed WireGuard interface '' @ name @ q, [],
     ''depend() {'', ''  need net'', ''  after firewall'', ''}'', [],
     ''start() {'', ''  ebegin '' @ q @ ''Starting WireGuard '' @ name @ q, ''  wg-quick up '' @ name, ''  eend $?'', ''}'', [],
     ''stop() {'', ''  ebegin '' @ q @ ''Stopping WireGuard '' @ name @ q, ''  wg-quick down '' @ name, ''  eend $?'', ''}'', [],
     ''status() {'', ''  wg show '' @ name @ '' >/dev/null 2>&1'', ''}'']))"

text \<open>\<open>path.symlink_to(target)\<close>\<close>

definition put_link :: "path \<Rightarrow> path \<Rightarrow> unit io" where
  "put_link p target d = (Inr (), put_file p \<lparr>fl_content = show_path target, fl_regular = False, fl_mode = 511,
     fl_owner = 0, fl_mtime = dk_now d\<rparr> d)"

definition ensure_link42_unit :: "wg_env \<Rightarrow> string \<Rightarrow> string io" where
  "ensure_link42_unit we name = dbind (openrc_unit we name) (\<lambda>u d.
     let p = init_dir @ [u]; target = init_dir @ [''wg-quick''] in
     if starts_with u ''wg-quick.'' then (case dk_files d p of
         None \<Rightarrow> dbind (put_link p target) (\<lambda>_. dreturn u) d
       | Some f \<Rightarrow> if \<not> fl_regular f \<and> fl_content f \<noteq> show_path target
           then draise ''OpenRC wg-quick service link points outside the standard script'' d else dreturn u d)
     else if \<not> starts_with u ''link42-wg-quick.'' then dreturn u d
     else (case dk_files d p of
         None \<Rightarrow> dbind (atomic_write_text p (openrc_script name) 493) (\<lambda>_. dreturn u) d
       | Some f \<Rightarrow> if \<not> fl_regular f then draise ''Link42 OpenRC service path must not be a symbolic link'' d else dreturn u d))"

text \<open>Whether a line of the run level names the unit.\<close>

definition openrc_state :: "wg_env \<Rightarrow> string \<Rightarrow> service_state io" where
  "openrc_state we name =
     dbind (openrc_unit we name) (\<lambda>u.
     dbind (run_wg we [''rc-service'', u, ''status''] True) (\<lambda>a.
     dbind (run_wg we [''rc-update'', ''show'', ''default''] True) (\<lambda>e.
     let active = (rp_returncode a = 0);
         enabled = (rp_returncode e = 0 \<and> list_ex (\<lambda>l. strip (fst (split_first (CHR ''|'') l)) = u) (split_lines (rp_stdout e))) in
     dreturn \<lparr>sv_manager = ''openrc'', sv_unit = Some u, sv_managed = (active \<or> enabled),
       sv_active_state = (if active then ''active'' else ''inactive''),
       sv_enabled_state = (if enabled then ''enabled'' else ''disabled''), sv_reports = Some (a, e), sv_message = None\<rparr>)))"

subsection \<open>OpenWrt, wg-quick alone, and none\<close>

definition openwrt_state :: "wg_env \<Rightarrow> string \<Rightarrow> service_state io" where
  "openwrt_state we name =
     dbind (run_wg we [''wg'', ''show'', name] True) (\<lambda>a.
     dbind (run_wg we [''uci'', ''-q'', ''show'', ''network.'' @ name @ ''.proto''] True) (\<lambda>c.
     let managed = (rp_returncode c = 0 \<and> has_sub ''wireguard'' (rp_stdout c)) in
     dreturn \<lparr>sv_manager = ''openwrt-uci'', sv_unit = Some (''network.'' @ name), sv_managed = managed,
       sv_active_state = (if rp_returncode a = 0 then ''active'' else ''inactive''),
       sv_enabled_state = (if managed then ''enabled'' else ''disabled''), sv_reports = Some (a, c), sv_message = None\<rparr>))"

definition unmanaged_state :: "service_manager \<Rightarrow> string option \<Rightarrow> service_state" where
  "unmanaged_state m message = \<lparr>sv_manager = manager_name m, sv_unit = None, sv_managed = False, sv_active_state = ''unknown'',
     sv_enabled_state = ''unsupported'', sv_reports = None, sv_message = message\<rparr>"

definition unsupported_message :: string where
  "unsupported_message = ''no supported wg-quick, systemd, OpenRC, or OpenWrt UCI backend was detected''"

section \<open>Operations of a service manager\<close>

fun manager_state :: "wg_env \<Rightarrow> service_manager \<Rightarrow> string \<Rightarrow> service_state io" where
  "manager_state we Systemd name = systemd_state we name"
| "manager_state we OpenRC name = openrc_state we name"
| "manager_state we OpenWrtUci name = openwrt_state we name"
| "manager_state we DirectWgQuick name = dreturn (unmanaged_state DirectWgQuick None)"
| "manager_state we Unsupported name = dreturn (unmanaged_state Unsupported (Some unsupported_message))"

definition no_command :: "int \<Rightarrow> string \<Rightarrow> (string \<times> json) list \<Rightarrow> json" where
  "no_command rc err extra = JObj ([(''command'', JList []), (''returncode'', JInt rc), (''stdout'', JStr []), (''stderr'', JStr err)] @ extra)"

fun manager_enable :: "wg_env \<Rightarrow> service_manager \<Rightarrow> string \<Rightarrow> json io" where
  "manager_enable we Systemd name = reported (run_wg we [''systemctl'', ''enable'', wg_unit name] False)"
| "manager_enable we OpenRC name = dbind (ensure_link42_unit we name) (\<lambda>u. reported (run_wg we [''rc-update'', ''add'', u, ''default''] False))"
| "manager_enable we OpenWrtUci name = dreturn (no_command 0 []
     [(''message'', JStr ''OpenWrt network interfaces are enabled through committed UCI network config'')])"
| "manager_enable we DirectWgQuick name = dreturn (no_command 1 ''boot enable is unsupported without an init service manager'' [])"
| "manager_enable we Unsupported name = draise ''boot enable is unsupported on this host''"

definition service_refused :: "'a io" where
  "service_refused = draise ''WireGuard service management is unsupported on this host''"

text \<open>Down, which may fail, and up again.\<close>

definition down_and_up :: "wg_env \<Rightarrow> string list \<Rightarrow> string list \<Rightarrow> json io" where
  "down_and_up we down up = dbind (run_wg we down True) (\<lambda>a. dbind (run_wg we up False) (\<lambda>b.
     dreturn (JObj [(''down'', report_json a), (''up'', report_json b)])))"

fun manager_restart :: "wg_env \<Rightarrow> service_manager \<Rightarrow> string \<Rightarrow> json io" where
  "manager_restart we Systemd name = reported (run_wg we [''systemctl'', ''restart'', wg_unit name] False)"
| "manager_restart we OpenRC name = dbind (ensure_link42_unit we name) (\<lambda>u. reported (run_wg we [''rc-service'', u, ''restart''] False))"
| "manager_restart we OpenWrtUci name = down_and_up we [''ifdown'', name] [''ifup'', name]"
| "manager_restart we DirectWgQuick name = down_and_up we [''wg-quick'', ''down'', name] [''wg-quick'', ''up'', name]"
| "manager_restart we Unsupported name = service_refused"

fun manager_start :: "wg_env \<Rightarrow> service_manager \<Rightarrow> string \<Rightarrow> json io" where
  "manager_start we Systemd name = reported (run_wg we [''systemctl'', ''start'', wg_unit name] False)"
| "manager_start we OpenRC name = dbind (ensure_link42_unit we name) (\<lambda>u. reported (run_wg we [''rc-service'', u, ''start''] False))"
| "manager_start we OpenWrtUci name = reported (run_wg we [''ifup'', name] False)"
| "manager_start we DirectWgQuick name = reported (run_wg we [''wg-quick'', ''up'', name] False)"
| "manager_start we Unsupported name = service_refused"

fun manager_stop :: "wg_env \<Rightarrow> service_manager \<Rightarrow> string \<Rightarrow> json io" where
  "manager_stop we Systemd name = reported (run_wg we [''systemctl'', ''stop'', wg_unit name] False)"
| "manager_stop we OpenRC name = dbind (openrc_unit we name) (\<lambda>u. reported (run_wg we [''rc-service'', u, ''stop''] False))"
| "manager_stop we OpenWrtUci name = reported (run_wg we [''ifdown'', name] True)"
| "manager_stop we DirectWgQuick name = reported (run_wg we [''wg-quick'', ''down'', name] True)"
| "manager_stop we Unsupported name = service_refused"

section \<open>The UCI configuration\<close>

text \<open>\<open>run_uci\<close>: a failure drops what is pending.\<close>

definition run_uci :: "wg_env \<Rightarrow> string list \<Rightarrow> command_report io" where
  "run_uci we command = dexcept (run_wg we command False) (dignore (run_wg we [''uci'', ''revert'', ''network''] True))"

text \<open>The host and the port of an endpoint.\<close>

definition uci_split_endpoint :: "string option \<Rightarrow> string option \<times> int option" where
  "uci_split_endpoint endpoint = (case endpoint of None \<Rightarrow> (None, None) | Some e \<Rightarrow>
     let with_port = (\<lambda>(h, p). (Some h, py_int p)) in
     if e = [] then (None, None)
     else if starts_with e ''['' \<and> has_sub '']:'' e then with_port (the_or ([], []) (rsplit_sub '']:'' (tl e)))
     else if starts_with e ''['' \<and> ends_with e '']'' then (Some (butlast (tl e)), None)
     else if 1 < count_char (CHR '':'') e then (Some e, None)
     else if CHR '':'' \<in> set e then with_port (split_last (CHR '':'') e)
     else (Some e, None))"

text \<open>The sections of the peers, the last one first, so that deleting one does not renumber another.\<close>

definition peer_section_index :: "string \<Rightarrow> string \<Rightarrow> int list" where
  "peer_section_index name line = (let prefix = ''network.@wireguard_'' @ name @ ''['' in
     if starts_with line prefix \<and> has_sub '']='' line
     then (case py_int (fst (split_first (CHR '']'') (drop (length prefix) line))) of None \<Rightarrow> [] | Some i \<Rightarrow> [i]) else [])"

definition wireguard_peer_sections :: "string \<Rightarrow> string \<Rightarrow> string list" where
  "wireguard_peer_sections shown name = map (\<lambda>i. ''@wireguard_'' @ name @ ''['' @ show_int i @ '']'')
     (rev (sort (concat (map (peer_section_index name) (split_lines shown)))))"

definition delete_existing_config :: "wg_env \<Rightarrow> string \<Rightarrow> command_report list io" where
  "delete_existing_config we name = dbind (run_wg we [''uci'', ''-q'', ''show'', ''network''] True) (\<lambda>r.
     dmap (\<lambda>s. run_wg we [''uci'', ''-q'', ''delete'', ''network.'' @ s] True) (wireguard_peer_sections (rp_stdout r) name @ [name]))"

definition uci_write :: "string \<Rightarrow> string \<Rightarrow> string list" where
  "uci_write verb what = [''uci'', verb, ''network.'' @ what]"

definition uci_interface_commands :: "string \<Rightarrow> parsed_interface \<Rightarrow> string list list" where
  "uci_interface_commands name p =
     [uci_write ''set'' (name @ ''=interface''), uci_write ''set'' (name @ ''.proto=wireguard''),
      uci_write ''set'' (name @ ''.private_key='' @ the_or [] (pi_private_key p))] @
     map (\<lambda>a. uci_write ''add_list'' (name @ ''.addresses='' @ a)) (pi_addresses p) @
     (case pi_listen_port p of None \<Rightarrow> [] | Some n \<Rightarrow> [uci_write ''set'' (name @ ''.listen_port='' @ show_int n)]) @
     (case pi_mtu p of None \<Rightarrow> [] | Some n \<Rightarrow> [uci_write ''set'' (name @ ''.mtu='' @ show_int n)]) @
     (if set_text (pi_fwmark p) then [uci_write ''set'' (name @ ''.fwmark='' @ the_or [] (pi_fwmark p))] else [])"

definition uci_peer_commands :: "string \<Rightarrow> string \<Rightarrow> parsed_peer \<Rightarrow> string list list" where
  "uci_peer_commands section route p = (case uci_split_endpoint (pp_endpoint p) of (host, port) \<Rightarrow>
     [uci_write ''set'' (section @ ''.public_key='' @ the_or [] (pp_public_key p))] @
     (if set_text (pp_preshared_key p) then [uci_write ''set'' (section @ ''.preshared_key='' @ the_or [] (pp_preshared_key p))] else []) @
     map (\<lambda>a. uci_write ''add_list'' (section @ ''.allowed_ips='' @ a)) (pp_allowed_ips p) @
     [uci_write ''set'' (section @ ''.route_allowed_ips='' @ route)] @
     (if set_text host then [uci_write ''set'' (section @ ''.endpoint_host='' @ the_or [] host)] else []) @
     (if the_or 0 port \<noteq> 0 then [uci_write ''set'' (section @ ''.endpoint_port='' @ show_int (the_or 0 port))] else []) @
     (case pp_persistent_keepalive p of None \<Rightarrow> []
      | Some n \<Rightarrow> [uci_write ''set'' (section @ ''.persistent_keepalive='' @ show_int n)]))"

definition uci_peer :: "wg_env \<Rightarrow> string \<Rightarrow> string \<Rightarrow> parsed_peer \<Rightarrow> command_report list io" where
  "uci_peer we name route p = dbind (run_uci we [''uci'', ''add'', ''network'', ''wireguard_'' @ name]) (\<lambda>r.
     let added = strip (rp_stdout r); section = (if added = [] then ''@wireguard_'' @ name @ ''[-1]'' else added) in
     dbind (dmap (run_uci we) (uci_peer_commands section route p)) (\<lambda>rs. dreturn (r # rs)))"

definition config_warnings :: "parsed_interface \<Rightarrow> string list" where
  "config_warnings p = pi_warnings p @ concat (map pp_warnings (pi_peers p))"

definition apply_uci_config :: "wg_env \<Rightarrow> string \<Rightarrow> string \<Rightarrow> bool \<Rightarrow> fields io" where
  "apply_uci_config we name config enable_on_boot = (let p = parse_wg_quick config name;
       route = (if lower (the_or [] (pi_table p)) = ''off'' then ''0'' else ''1'') in
     if \<not> set_text (pi_private_key p) then draise ''OpenWrt UCI deployment requires Interface.PrivateKey''
     else if list_ex (\<lambda>q. \<not> set_text (pp_public_key q)) (pi_peers p) then draise ''OpenWrt UCI deployment requires every Peer.PublicKey''
     else dbind (network_snapshot ''OpenWrt network config is too large'') (\<lambda>snapshot.
       dbind (delete_existing_config we name) (\<lambda>deleted.
       dbind (dmap (run_uci we) (uci_interface_commands name p)) (\<lambda>set.
       dbind (dmap (uci_peer we name route) (pi_peers p)) (\<lambda>peers.
       dbind (run_uci we [''uci'', ''commit'', ''network'']) (\<lambda>commit.
       dbind (dexcept (manager_restart we OpenWrtUci name)
           (dbind (dignore (run_wg we [''uci'', ''revert'', ''network''] True)) (\<lambda>_.
             restore_network ''OpenWrt restart failed and UCI config restore failed'' snapshot))) (\<lambda>restart.
       dreturn [(''changed'', JBool True), (''manager'', JStr ''openwrt-uci''), (''config_backend'', JStr ''uci''),
         (''enable_on_boot'', JBool enable_on_boot), (''warnings'', jstrs (config_warnings p)),
         (''commands'', gre_reports (deleted @ set @ concat peers @ [commit])), (''restart'', restart)])))))))"

definition delete_uci_config :: "wg_env \<Rightarrow> string \<Rightarrow> fields io" where
  "delete_uci_config we name = dbind (delete_existing_config we name) (\<lambda>deleted.
     dbind (run_wg we [''uci'', ''commit'', ''network''] False) (\<lambda>commit.
     dreturn [(''changed'', JBool True), (''manager'', JStr ''openwrt-uci''), (''commands'', gre_reports (deleted @ [commit]))]))"

section \<open>State of an interface\<close>

record wg_status =
  ws_running :: bool
  ws_show :: command_report
  ws_service :: service_state

definition wg_status_json :: "wg_status \<Rightarrow> json" where
  "wg_status_json s = JObj [(''runtime_status'', JStr (if ws_running s then ''running'' else ''stopped'')),
     (''status'', report_json (ws_show s)), (''service'', state_json (ws_service s))]"

definition wireguard_status :: "wg_env \<Rightarrow> string \<Rightarrow> wg_status io" where
  "wireguard_status we name = dbind (run_wg we [''wg'', ''show'', name] True) (\<lambda>r.
     dbind (detect_service_manager we) (\<lambda>m. dbind (manager_state we m name) (\<lambda>s.
     dreturn \<lparr>ws_running = (rp_returncode r = 0), ws_show = r, ws_service = s\<rparr>)))"

definition get_wireguard_status :: "wg_env \<Rightarrow> fields \<Rightarrow> json io" where
  "get_wireguard_status we p = dbind (lift_error (interface_name_of p)) (\<lambda>name.
     dbind (wireguard_status we name) (\<lambda>s. dreturn (wg_status_json s)))"

text \<open>What the command that should have stopped the interface said.\<close>

definition stop_detail :: "fields \<Rightarrow> string" where
  "stop_detail r = (let failed = (if truthy (dget r ''down'') then dget r ''down'' else if truthy (dget r ''stop'') then dget r ''stop'' else JObj r) in
     case failed of JObj d \<Rightarrow> strip (str_or_empty (if truthy (dget d ''stderr'') then dget d ''stderr'' else dget d ''stdout'')) | _ \<Rightarrow> [])"

fun assert_wireguard_stopped :: "wg_env \<Rightarrow> nat \<Rightarrow> string \<Rightarrow> fields \<Rightarrow> wg_status io" where
  "assert_wireguard_stopped we polls name r = dbind (wireguard_status we name) (\<lambda>s.
     if \<not> ws_running s then dreturn s
     else case polls of
       0 \<Rightarrow> draise (''wireguard interface '' @ name @ '' is still running after stop'' @ (if stop_detail r = [] then [] else '': '' @ stop_detail r))
     | Suc n \<Rightarrow> assert_wireguard_stopped we n name r)"

section \<open>Files\<close>

definition wireguard_dir :: path where "wireguard_dir = [''etc'', ''wireguard'']"
definition wireguard_config_max_bytes :: int where "wireguard_config_max_bytes = 512 * 1024"

definition wireguard_config_path :: "string \<Rightarrow> path" where
  "wireguard_config_path name = wireguard_dir @ [name @ ''.conf'']"

text \<open>One backup remains: those with a date in their names are removed.\<close>

definition backup_path_of :: "path \<Rightarrow> path" where
  "backup_path_of target = butlast target @ [last target @ ''.link42-backup'']"

definition dated_backup :: "path \<Rightarrow> path \<Rightarrow> bool" where
  "dated_backup target q = (q \<noteq> [] \<and> butlast q = butlast target \<and> starts_with (last q) (last target @ ''.link42-backup-''))"

definition rotate_wireguard_backup :: "path \<Rightarrow> path io" where
  "rotate_wireguard_backup target d = (Inr (backup_path_of target),
     d\<lparr>dk_files := (\<lambda>q. if dated_backup target q \<or> q = backup_path_of target then None else dk_files d q)\<rparr>)"

text \<open>\<open>copystat\<close>\<close>

definition copy_stat :: "path \<Rightarrow> path \<Rightarrow> unit io" where
  "copy_stat p q d = (case (dk_files d p, dk_files d q) of
      (Some f, Some g) \<Rightarrow> (Inr (), put_file q (g\<lparr>fl_mode := fl_mode f, fl_mtime := fl_mtime f\<rparr>) d)
    | _ \<Rightarrow> (Inl ''no such file'', d))"

definition backup_config :: "path \<Rightarrow> path option io" where
  "backup_config target = dbind (file_exists target) (\<lambda>b. if \<not> b then dreturn None
     else dbind (file_size target) (\<lambda>n. if wireguard_config_max_bytes < n then draise ''WireGuard config file is too large''
       else dbind (rotate_wireguard_backup target) (\<lambda>backup. dbind (read_existing_bytes target) (\<lambda>content.
         dbind (atomic_write_bytes backup content 384) (\<lambda>_. dbind (copy_stat target backup) (\<lambda>_. dreturn (Some backup)))))))"

section \<open>Operations\<close>

definition dry_result :: "string \<Rightarrow> (string \<times> json) list \<Rightarrow> fields" where
  "dry_result msg extra = [(''changed'', JBool False), (''dry_run'', JBool True)] @ extra @ [(''message'', JStr msg)]"

definition opt_json :: "('a \<Rightarrow> json) \<Rightarrow> 'a option \<Rightarrow> json" where
  "opt_json f x = (case x of None \<Rightarrow> JNull | Some y \<Rightarrow> f y)"

text \<open>A renamed interface: what is left of the old name is stopped, disabled and deleted.\<close>

definition cleanup_openwrt :: "wg_env \<Rightarrow> string \<Rightarrow> fields io" where
  "cleanup_openwrt we old = dbind (manager_state we OpenWrtUci old) (\<lambda>s.
     dbind (if sv_active_state s = ''active'' then dbind (manager_stop we OpenWrtUci old) (\<lambda>j. dreturn (Some j)) else dreturn None) (\<lambda>stop.
     dbind (case stop of None \<Rightarrow> dreturn None
       | Some j \<Rightarrow> dbind (assert_wireguard_stopped we 0 old [(''stop'', j)]) (\<lambda>t. dreturn (Some t))) (\<lambda>after.
     dbind (delete_uci_config we old) (\<lambda>deleted. dreturn
       [(''previous_interface_name'', JStr old), (''service'', state_json s), (''stop'', opt_json (\<lambda>x. x) stop),
        (''runtime'', opt_json wg_status_json after), (''delete_config'', JObj deleted)]))))"

definition disable_old_service :: "wg_env \<Rightarrow> service_manager \<Rightarrow> service_state \<Rightarrow> string \<Rightarrow> command_report option io" where
  "disable_old_service we m s old = (case m of
      Systemd \<Rightarrow> dbind (run_wg we [''systemctl'', ''disable'', the_or (wg_unit old) (sv_unit s)] True) (\<lambda>r. dreturn (Some r))
    | OpenRC \<Rightarrow> dbind (run_wg we [''rc-update'', ''del'', the_or (''wg-quick.'' @ old) (sv_unit s)] True) (\<lambda>r. dreturn (Some r))
    | _ \<Rightarrow> dreturn None)"

definition cleanup_wg_quick :: "wg_env \<Rightarrow> service_manager \<Rightarrow> string \<Rightarrow> fields io" where
  "cleanup_wg_quick we m old = (let target = wireguard_config_path old in
     dbind (manager_state we m old) (\<lambda>s.
     dbind (run_wg we [''wg'', ''show'', old] True) (\<lambda>w.
     dbind (if sv_active_state s = ''active'' then dbind (manager_stop we m old) (\<lambda>j. dreturn (Some j))
       else if rp_returncode w = 0 then dbind (manager_stop we DirectWgQuick old) (\<lambda>j. dreturn (Some j)) else dreturn None) (\<lambda>stop.
     dbind (case stop of None \<Rightarrow> dreturn None
       | Some j \<Rightarrow> dbind (assert_wireguard_stopped we 0 old [(''stop'', j)]) (\<lambda>t. dreturn (Some t))) (\<lambda>after.
     dbind (disable_old_service we m s old) (\<lambda>disable.
     dbind (file_exists target) (\<lambda>b. dbind (if b then remove_file target else dreturn ()) (\<lambda>_. dreturn
       [(''previous_interface_name'', JStr old), (''config_path'', path_json (Some target)), (''service'', state_json s),
        (''wg'', report_json w), (''stop'', opt_json (\<lambda>x. x) stop), (''runtime'', opt_json wg_status_json after),
        (''disable'', opt_json report_json disable), (''delete_config'', JObj [(''changed'', JBool b)])]))))))))"

definition cleanup_previous_wireguard_interface :: "wg_env \<Rightarrow> service_manager \<Rightarrow> bool \<Rightarrow> string option \<Rightarrow> string \<Rightarrow> fields option io" where
  "cleanup_previous_wireguard_interface we m dry_run previous name = (case previous of None \<Rightarrow> dreturn None | Some old \<Rightarrow>
     if old = name then dreturn None
     else if dry_run then dreturn (Some (dry_result ''dry-run enabled, previous interface was not cleaned''
       [(''previous_interface_name'', JStr old), (''config_path'', path_json (Some (wireguard_config_path old)))]))
     else case m of
         OpenWrtUci \<Rightarrow> dbind (cleanup_openwrt we old) (\<lambda>x. dreturn (Some x))
       | Unsupported \<Rightarrow> dreturn None
       | _ \<Rightarrow> dbind (cleanup_wg_quick we m old) (\<lambda>x. dreturn (Some x)))"

text \<open>A managed interface is restarted by its service, another one brought up by \<open>wg-quick\<close>, unless it is
  to start with the host.\<close>

definition activate_config :: "wg_env \<Rightarrow> service_manager \<Rightarrow> service_state \<Rightarrow> bool \<Rightarrow> string \<Rightarrow> (string \<times> json) list io" where
  "activate_config we m s on_boot name =
     (if sv_managed s then dbind (manager_restart we m name) (\<lambda>r.
        dbind (if on_boot then manager_enable we m name else dreturn JNull) (\<lambda>e. dreturn [(''restart'', r), (''enable'', e)]))
      else if on_boot then dbind (manager_enable we m name) (\<lambda>e. dbind (manager_restart we m name) (\<lambda>r.
        dreturn [(''enable'', e), (''restart'', r)]))
      else dbind (manager_restart we DirectWgQuick name) (\<lambda>r. dreturn (json_object r)))"

text \<open>After a failure the old configuration is put back and its interface restarted, or stopped when it
  was inactive; without an old one the interface is stopped and the configuration removed.\<close>

definition undo_config :: "wg_env \<Rightarrow> service_manager \<Rightarrow> service_state \<Rightarrow> string \<Rightarrow> path option \<Rightarrow> path \<Rightarrow> unit io" where
  "undo_config we m s name backup target = (
     let stop = dbind (manager_stop we m name) (\<lambda>_. dreturn ()); restart = dbind (manager_restart we m name) (\<lambda>_. dreturn ()) in
     dbind (case backup of None \<Rightarrow> dreturn False | Some q \<Rightarrow> file_exists q) (\<lambda>b.
     if b then dbind (read_existing_text (the_or [] backup)) (\<lambda>t. dbind (atomic_write_text target t 384) (\<lambda>_.
       if m = DirectWgQuick then restart else if sv_active_state s = ''inactive'' then stop else restart))
     else dfinally stop (remove_file target)))"

definition apply_wg_quick :: "wg_env \<Rightarrow> service_manager \<Rightarrow> bool \<Rightarrow> bool \<Rightarrow> string \<Rightarrow> string \<Rightarrow> fields option \<Rightarrow> (fields \<times> bool) io" where
  "apply_wg_quick we m dry_run on_boot name config cleanup = (let target = wireguard_config_path name in
     dbind (manager_state we m name) (\<lambda>s.
     dbind (backup_config target) (\<lambda>backup.
     let m' = (if sv_managed s \<or> on_boot then m else DirectWgQuick);
         paths = [(''config_path'', path_json (Some target)), (''backup_path'', path_json backup)] in
     dbind (atomic_write_text target config 384) (\<lambda>_.
     if dry_run then dreturn ([(''changed'', JBool True), (''dry_run'', JBool True)] @ paths @
       [(''rename_cleanup'', opt_json JObj cleanup), (''message'', JStr ''dry-run enabled, wg-quick was not executed'')], False)
     else dbind (dexcept (activate_config we m s on_boot name) (dignore (undo_config we m' s name backup target))) (\<lambda>r.
       dreturn ([(''changed'', JBool True)] @ paths @ [(''service'', state_json s)] @ r, True))))))"

definition config_text_of :: "fields \<Rightarrow> (string, string) result" where
  "config_text_of p = rbind (required ''config'' p) (\<lambda>v. case v of
      JStr t \<Rightarrow> if wireguard_config_max_bytes < utf8_length t then Inl ''WireGuard config is too large'' else Inr t
    | _ \<Rightarrow> Inl ''WireGuard config must be text'')"

definition apply_wireguard_config :: "wg_env \<Rightarrow> bool \<Rightarrow> fields \<Rightarrow> fields io" where
  "apply_wireguard_config we dry_run p =
     dbind (lift_error (interface_name_of p)) (\<lambda>name. dbind (lift_error (config_text_of p)) (\<lambda>config.
     let on_boot = truthy (dget p ''enable_on_boot'') in
     dbind (detect_service_manager we) (\<lambda>m. dbind (lift_error (previous_name_of p)) (\<lambda>previous.
     if m = OpenWrtUci \<and> dry_run then dreturn (dry_result ''dry-run enabled, UCI and network state were not changed''
       [(''manager'', JStr ''openwrt-uci''), (''config_backend'', JStr ''uci''), (''warnings'', jstrs (config_warnings (parse_wg_quick config name)))])
     else dbind (if dry_run then cleanup_previous_wireguard_interface we m True previous name else dreturn None) (\<lambda>planned.
     if m = OpenWrtUci then dbind (apply_uci_config we name config on_boot) (\<lambda>r.
       dbind (cleanup_previous_wireguard_interface we m False previous name) (\<lambda>c.
       dreturn (r @ (case c of None \<Rightarrow> [] | Some x \<Rightarrow> [(''rename_cleanup'', JObj x)]))))
     else if m = Unsupported then draise unsupported_message
     else dbind (apply_wg_quick we m dry_run on_boot name config planned) (\<lambda>(r, real).
       if \<not> real then dreturn r
       else dbind (cleanup_previous_wireguard_interface we m False previous name) (\<lambda>c.
         dreturn (r @ [(''rename_cleanup'', opt_json JObj c)]))))))))"

definition read_wireguard_config :: "wg_env \<Rightarrow> fields \<Rightarrow> fields io" where
  "read_wireguard_config we p = dbind (lift_error (interface_name_of p)) (\<lambda>name. let target = wireguard_config_path name in
     dbind (detect_service_manager we) (\<lambda>m.
     if m = OpenWrtUci then dbind (manager_state we m name) (\<lambda>s. dreturn
       [(''exists'', JBool False), (''config'', JStr []), (''config_backend'', JStr (manager_name m)), (''config_path'', JNull),
        (''service'', state_json s), (''message'', JStr ''OpenWrt UCI backend does not expose a wg-quick config file'')])
     else dbind (file_exists target) (\<lambda>b. if \<not> b then dreturn [(''exists'', JBool False), (''config'', JStr []), (''config_path'', path_json (Some target))]
       else dbind (file_size target) (\<lambda>n. if wireguard_config_max_bytes < n then draise ''WireGuard config file is too large''
         else dbind (read_existing_text target) (\<lambda>t. dreturn
           [(''exists'', JBool True), (''config'', JStr t), (''config_path'', path_json (Some target))])))))"

definition start_wireguard_interface :: "wg_env \<Rightarrow> bool \<Rightarrow> fields \<Rightarrow> fields io" where
  "start_wireguard_interface we dry_run p = dbind (lift_error (interface_name_of p)) (\<lambda>name.
     if dry_run then dreturn (dry_result ''dry-run enabled, wg-quick up was not executed'' [])
     else dbind (wireguard_status we name) (\<lambda>s.
       if ws_running s then dreturn [(''changed'', JBool False), (''runtime_status'', JStr ''running''), (''message'', JStr ''interface already running'')]
       else dbind (detect_service_manager we) (\<lambda>m.
         if sv_managed (ws_service s) \<or> m = OpenWrtUci then dbind (manager_start we m name) (\<lambda>j. dreturn
           [(''changed'', JBool True), (''service'', state_json (ws_service s)), (''start'', j)])
         else dbind (run_wg we [''wg-quick'', ''up'', name] False) (\<lambda>r. dreturn [(''changed'', JBool True), (''up'', report_json r)]))))"

definition stop_wireguard_interface :: "wg_env \<Rightarrow> bool \<Rightarrow> fields \<Rightarrow> fields io" where
  "stop_wireguard_interface we dry_run p = dbind (lift_error (interface_name_of p)) (\<lambda>name.
     if dry_run then dreturn (dry_result ''dry-run enabled, wg-quick down was not executed'' [])
     else dbind (wireguard_status we name) (\<lambda>s.
       if \<not> ws_running s then dreturn [(''changed'', JBool False), (''runtime_status'', JStr ''stopped''), (''message'', JStr ''interface already stopped'')]
       else dbind (detect_service_manager we) (\<lambda>m.
         dbind (if sv_managed (ws_service s) \<or> m = OpenWrtUci then dbind (manager_stop we m name) (\<lambda>j. dreturn
             [(''changed'', JBool True), (''service'', state_json (ws_service s)), (''stop'', j)])
           else dbind (run_wg we [''wg-quick'', ''down'', name] True) (\<lambda>r. dreturn [(''changed'', JBool True), (''down'', report_json r)])) (\<lambda>r.
         dbind (assert_wireguard_stopped we (if m = OpenWrtUci then we_polls we else 0) name r) (\<lambda>t.
           dreturn (r @ [(''runtime'', wg_status_json t)]))))))"

definition disable_wireguard_service :: "wg_env \<Rightarrow> string \<Rightarrow> service_manager \<Rightarrow> service_state \<Rightarrow> command_report option io" where
  "disable_wireguard_service we name m s = (if \<not> sv_managed s then dreturn None else case m of
      Systemd \<Rightarrow> dbind (run_wg we [''systemctl'', ''disable'', ''--now'', the_or (wg_unit name) (sv_unit s)] True) (\<lambda>r. dreturn (Some r))
    | OpenRC \<Rightarrow> dbind (run_wg we [''rc-update'', ''del'', the_or (''wg-quick.'' @ name) (sv_unit s), ''default''] True) (\<lambda>r. dreturn (Some r))
    | _ \<Rightarrow> dreturn None)"

definition delete_wireguard_config :: "wg_env \<Rightarrow> bool \<Rightarrow> fields \<Rightarrow> fields io" where
  "delete_wireguard_config we dry_run p = dbind (lift_error (interface_name_of p)) (\<lambda>name.
     let target = wireguard_config_path name; path = (''config_path'', path_json (Some target)) in
     dbind (detect_service_manager we) (\<lambda>m.
     if dry_run then dreturn (dry_result ''dry-run enabled, config file was not deleted'' [path])
     else dbind (wireguard_status we name) (\<lambda>s.
       if ws_running s then draise (''wireguard interface '' @ name @ '' must be stopped before deleting config'')
       else if m = OpenWrtUci then delete_uci_config we name
       else if m = Unsupported then draise unsupported_message
       else dbind (disable_wireguard_service we name m (ws_service s)) (\<lambda>disabled. dbind (file_exists target) (\<lambda>b.
         if b then dbind (remove_file target) (\<lambda>_. dreturn
           [(''changed'', JBool True), path, (''service_disable'', opt_json report_json disabled)])
         else dreturn [(''changed'', JBool (case disabled of None \<Rightarrow> False | Some r \<Rightarrow> rp_returncode r = 0)), path,
           (''service_disable'', opt_json report_json disabled), (''message'', JStr ''config file did not exist'')])))))"

section \<open>Scanning for configurations\<close>

definition import_scan_max_candidates :: nat where "import_scan_max_candidates = 100"
definition import_scan_max_bytes :: int where "import_scan_max_bytes = 768 * 1024"

text \<open>\<open>Path.stem\<close>: the name of a file without its suffix, which is \<open>.conf\<close>.\<close>

definition stem :: "string \<Rightarrow> string" where
  "stem name = take (length name - 5) name"

record scan_candidate =
  sc_path :: path
  sc_content :: string
  sc_parsed :: fields

fun scan_configs :: "string list \<Rightarrow> int \<Rightarrow> scan_candidate list \<Rightarrow> scan_candidate list io" where
  "scan_configs [] used found d = dreturn found d"
| "scan_configs (n # ns) used found d = (let p = wireguard_dir @ [n] in
     case read_existing_text p d of
         (Inl _, e) \<Rightarrow> scan_configs ns used found e
       | (Inr t, e) \<Rightarrow> (let size = utf8_length t in
           if import_scan_max_candidates \<le> length found \<or> import_scan_max_bytes \<le> used then (Inr found, e)
           else if import_scan_max_bytes < used + size then scan_configs ns used found e
           else scan_configs ns (used + size)
             (found @ [\<lparr>sc_path = p, sc_content = t, sc_parsed = parsed_interface_to_dict (parse_wg_quick t (stem n))\<rparr>]) e))"

definition scan_wg_quick_configs :: "wg_env \<Rightarrow> scan_candidate list io" where
  "scan_wg_quick_configs we = (if \<not> we_have we ''wg-quick'' then dreturn [] else scan_configs (we_configs we) 0 [])"

definition candidate_json :: "scan_candidate \<Rightarrow> json" where
  "candidate_json c = JObj [(''path'', path_json (Some (sc_path c))), (''content'', JStr (sc_content c)),
     (''parsed'', JObj (sc_parsed c)), (''warnings'', dget (sc_parsed c) ''warnings'')]"

end
