(* ===== verification/PortScan.thy ===== *)
theory PortScan
  imports AgentWg AgentText
begin

text \<open>
  The port inventory plugin of the agent (plugins/port_inventory.py): the listening ports of a node,
  read from ss or netstat and, for WireGuard, from wg, from the wg-quick files and from OpenWrt's
  network configuration. Texts are searched as the regular expressions of the source do.
\<close>

definition port_scan_max_results :: nat where "port_scan_max_results = 2000"

record listener =
  li_protocol :: string
  li_port :: int
  li_process :: "string option"
  li_pid :: "string option"
  li_source :: string

section \<open>Sockets\<close>

definition protocol_from_token :: "string \<Rightarrow> string option" where
  "protocol_from_token token = (let t = lower token in
     if starts_with t ''tcp'' then Some ''TCP'' else if starts_with t ''udp'' then Some ''UDP'' else None)"

text \<open>\<open>isdigit\<close> holds of superscripts too, of which \<open>int\<close> makes an error.\<close>

definition port_from_address :: "string \<Rightarrow> (string, int option) result" where
  "port_from_address value =
     (let v = strip_by (\<lambda>c. c = CHR '','') (strip value); candidate = snd (split_last CHR '':'' v) in
      if CHR '':'' \<notin> set v \<or> \<not> is_digit_text candidate then Inr None
      else case py_int candidate of None \<Rightarrow> Inl ''invalid literal for int()'' | Some n \<Rightarrow> Inr (Some n))"

text \<open>The text that follows the first occurrence of a mark for which something acceptable follows.\<close>

fun search_after :: "string \<Rightarrow> (string \<Rightarrow> 'a option) \<Rightarrow> string \<Rightarrow> 'a option" where
  "search_after mark f [] = (if mark = [] then f [] else None)"
| "search_after mark f (c # cs) = (case (if starts_with (c # cs) mark then f (drop (length mark) (c # cs)) else None) of
      Some x \<Rightarrow> Some x
    | None \<Rightarrow> search_after mark f cs)"

text \<open>\<open>users:\(\("([^"]+)"\<close> and \<open>pid=(\d+)\<close>\<close>

definition quoted_name :: "string \<Rightarrow> string option" where
  "quoted_name s = (let a = takeWhile (\<lambda>c. c \<noteq> CHR 0x22) s in if a = [] \<or> a = s then None else Some a)"

definition leading_digits :: "string \<Rightarrow> string option" where
  "leading_digits s = (let a = takeWhile is_dec s in if a = [] then None else Some a)"

definition parse_process_info :: "string \<Rightarrow> string option \<times> string option" where
  "parse_process_info line =
     (search_after (''users:(('' @ [CHR 0x22]) quoted_name line, search_after ''pid='' leading_digits line)"

definition port_in_range :: "int \<Rightarrow> int \<Rightarrow> int \<Rightarrow> bool" where
  "port_in_range lo hi p = (lo \<le> p \<and> p \<le> hi)"

definition socket_entry :: "string \<Rightarrow> int \<Rightarrow> string option \<times> string option \<Rightarrow> listener" where
  "socket_entry protocol port info = \<lparr>li_protocol = protocol, li_port = port, li_process = fst info, li_pid = snd info,
     li_source = ''socket''\<rparr>"

definition ss_line :: "int \<Rightarrow> int \<Rightarrow> string \<Rightarrow> (string, listener option) result" where
  "ss_line lo hi line = (let parts = split_words line in
     if length parts < 6 then Inr None
     else case protocol_from_token (hd parts) of None \<Rightarrow> Inr None
     | Some protocol \<Rightarrow> rbind (port_from_address (parts ! 4)) (\<lambda>port. (case port of None \<Rightarrow> Inr None
       | Some p \<Rightarrow> Inr (if port_in_range lo hi p then Some (socket_entry protocol p (parse_process_info line)) else None))))"

definition netstat_process :: "string \<Rightarrow> string option \<times> string option" where
  "netstat_process part = (if CHR ''/'' \<in> set part
     then (case split_first CHR ''/'' part of (pid, process) \<Rightarrow> (Some process, Some pid)) else (None, None))"

definition netstat_line :: "int \<Rightarrow> int \<Rightarrow> string \<Rightarrow> (string, listener option) result" where
  "netstat_line lo hi line = (let parts = split_words line in
     if length parts < 4 then Inr None
     else case protocol_from_token (hd parts) of None \<Rightarrow> Inr None
     | Some protocol \<Rightarrow> rbind (port_from_address (parts ! 3)) (\<lambda>port. (case port of None \<Rightarrow> Inr None
       | Some p \<Rightarrow> Inr (if port_in_range lo hi p then Some (socket_entry protocol p (netstat_process (last parts))) else None))))"

fun collect_lines :: "(string \<Rightarrow> (string, 'a option) result) \<Rightarrow> string list \<Rightarrow> (string, 'a list) result" where
  "collect_lines f [] = Inr []"
| "collect_lines f (l # ls) = rbind (f l) (\<lambda>x. rbind (collect_lines f ls) (\<lambda>xs.
     Inr (case x of None \<Rightarrow> xs | Some e \<Rightarrow> e # xs)))"

definition parse_ss_output :: "string \<Rightarrow> int \<Rightarrow> int \<Rightarrow> (string, listener list) result" where
  "parse_ss_output out lo hi = collect_lines (ss_line lo hi) (split_lines out)"

definition parse_netstat_output :: "string \<Rightarrow> int \<Rightarrow> int \<Rightarrow> (string, listener list) result" where
  "parse_netstat_output out lo hi = collect_lines (netstat_line lo hi) (split_lines out)"

text \<open>The output of a program, when it is there and succeeds.\<close>

definition output_of :: "wg_env \<Rightarrow> string list \<Rightarrow> string option io" where
  "output_of we command = (if \<not> we_have we (hd command) then dreturn None
     else dbind (run_wg we command True) (\<lambda>r. dreturn (if rp_returncode r = 0 then Some (rp_stdout r) else None)))"

definition scan_socket_listeners :: "wg_env \<Rightarrow> int \<Rightarrow> int \<Rightarrow> listener list io" where
  "scan_socket_listeners we lo hi = dbind (output_of we [''ss'', ''-H'', ''-lntup'']) (\<lambda>ss. (case ss of
      Some out \<Rightarrow> lift_error (parse_ss_output out lo hi)
    | None \<Rightarrow> dbind (output_of we [''netstat'', ''-lntup'']) (\<lambda>ns. (case ns of
        Some out \<Rightarrow> lift_error (parse_netstat_output out lo hi)
      | None \<Rightarrow> dreturn []))))"

section \<open>WireGuard\<close>

definition wireguard_entry :: "int \<Rightarrow> string \<Rightarrow> listener" where
  "wireguard_entry port source = \<lparr>li_protocol = ''UDP'', li_port = port, li_process = Some ''wireguard'', li_pid = None,
     li_source = source\<rparr>"

definition wg_show_line :: "int \<Rightarrow> int \<Rightarrow> string \<Rightarrow> listener option" where
  "wg_show_line lo hi line = (let parts = split_words line in
     if length parts < 2 then None
     else case py_int (parts ! 1) of None \<Rightarrow> None
       | Some p \<Rightarrow> if port_in_range lo hi p then Some (wireguard_entry p (''wg:'' @ hd parts)) else None)"

definition scan_wg_show_ports :: "wg_env \<Rightarrow> int \<Rightarrow> int \<Rightarrow> listener list io" where
  "scan_wg_show_ports we lo hi = dbind (output_of we [''wg'', ''show'', ''all'', ''listen-port'']) (\<lambda>r.
     dreturn (case r of None \<Rightarrow> [] | Some out \<Rightarrow> List.map_filter (wg_show_line lo hi) (split_lines out)))"

text \<open>\<open>(?im)^\s*ListenPort\s*=\s*(\d+)\s*$\<close>: the spaces may run over line breaks.\<close>

definition listen_port_here :: "string \<Rightarrow> string option" where
  "listen_port_here s =
     (let a = dropWhile is_space s; b = dropWhile is_space (drop 10 a); c = dropWhile is_space (tl b);
          digits = takeWhile is_dec c; rest = dropWhile is_dec c in
      if starts_with (lower a) ''listenport'' \<and> b \<noteq> [] \<and> hd b = CHR ''='' \<and> digits \<noteq> [] \<and>
         (list_all is_space rest \<or> CHR 0x0A \<in> set (takeWhile is_space rest)) then Some digits else None)"

fun listen_port_from :: "bool \<Rightarrow> string \<Rightarrow> string option" where
  "listen_port_from start [] = None"
| "listen_port_from start (c # cs) = (case (if start then listen_port_here (c # cs) else None) of
      Some p \<Rightarrow> Some p
    | None \<Rightarrow> listen_port_from (c = CHR 0x0A) cs)"

text \<open>A file that cannot be read is passed over; a number too long to be read ends the scan.\<close>

definition quick_text :: "path \<Rightarrow> string io" where
  "quick_text p = dbind (file_size p) (\<lambda>n. if wireguard_config_max_bytes < n then draise ''skipped'' else read_existing_text p)"

definition quick_entry :: "int \<Rightarrow> int \<Rightarrow> path \<Rightarrow> string \<Rightarrow> (string, listener list) result" where
  "quick_entry lo hi p text = (case listen_port_from True text of None \<Rightarrow> Inr []
     | Some digits \<Rightarrow> (case py_int digits of None \<Rightarrow> Inl ''Exceeds the limit for integer string conversion''
       | Some n \<Rightarrow> Inr (if port_in_range lo hi n then [wireguard_entry n (show_path p)] else [])))"

fun scan_wg_quick_files :: "int \<Rightarrow> int \<Rightarrow> string list \<Rightarrow> listener list io" where
  "scan_wg_quick_files lo hi [] = dreturn []"
| "scan_wg_quick_files lo hi (n # ns) = (\<lambda>d. case quick_text (wireguard_dir @ [n]) d of
      (Inl _, d1) \<Rightarrow> scan_wg_quick_files lo hi ns d1
    | (Inr text, d1) \<Rightarrow> dbind (lift_error (quick_entry lo hi (wireguard_dir @ [n]) text)) (\<lambda>xs.
        dbind (scan_wg_quick_files lo hi ns) (\<lambda>ys. dreturn (xs @ ys))) d1)"

definition scan_wg_quick_config_ports :: "wg_env \<Rightarrow> int \<Rightarrow> int \<Rightarrow> listener list io" where
  "scan_wg_quick_config_ports we lo hi = scan_wg_quick_files lo hi (we_configs we)"

text \<open>The three patterns of a line of \<open>uci show network\<close>: a section that is an interface, its
  protocol, and its port; a value may stand in quotes.\<close>

datatype uci_line = UciInterface string | UciProto string string | UciPort string string | UciOther

definition unquoted :: "string \<Rightarrow> string" where
  "unquoted s = (let a = (case s of [] \<Rightarrow> [] | c # cs \<Rightarrow> if c = CHR 0x27 then cs else s) in
     if a \<noteq> [] \<and> last a = CHR 0x27 then butlast a else a)"

definition uci_line_of :: "string \<Rightarrow> uci_line" where
  "uci_line_of line = (if \<not> starts_with line ''network.'' then UciOther
     else let rest = drop 8 line; section = takeWhile (\<lambda>c. c \<noteq> CHR ''.'') rest; key = drop (length section + 1) rest in
       if CHR ''.'' \<notin> set rest then
         (if ends_with rest ''=interface'' \<and> 10 < length rest then UciInterface (take (length rest - 10) rest) else UciOther)
       else if section = [] then UciOther
       else if starts_with key ''proto='' then (let v = unquoted (drop 6 key) in
         if v = [] \<or> CHR 0x27 \<in> set v then UciOther else UciProto section v)
       else if starts_with key ''listen_port='' then (let v = unquoted (drop 12 key) in
         if is_dec_text v then UciPort section v else UciOther)
       else UciOther)"

record uci_sections =
  us_interfaces :: "string list"
  us_protos :: "(string \<times> string) list"
  us_ports :: "(string \<times> int) list"

definition uci_step :: "string \<Rightarrow> uci_sections \<Rightarrow> (string, uci_sections) result" where
  "uci_step line u = (case uci_line_of line of
      UciInterface s \<Rightarrow> Inr (u\<lparr>us_interfaces := s # us_interfaces u\<rparr>)
    | UciProto s v \<Rightarrow> Inr (u\<lparr>us_protos := AList.update s v (us_protos u)\<rparr>)
    | UciPort s v \<Rightarrow> (case py_int v of None \<Rightarrow> Inl ''Exceeds the limit for integer string conversion''
        | Some n \<Rightarrow> Inr (u\<lparr>us_ports := AList.update s n (us_ports u)\<rparr>))
    | UciOther \<Rightarrow> Inr u)"

fun uci_scan :: "string list \<Rightarrow> uci_sections \<Rightarrow> (string, uci_sections) result" where
  "uci_scan [] u = Inr u"
| "uci_scan (l # ls) u = rbind (uci_step l u) (uci_scan ls)"

definition uci_entries :: "int \<Rightarrow> int \<Rightarrow> uci_sections \<Rightarrow> listener list" where
  "uci_entries lo hi u = map (\<lambda>(s, p). wireguard_entry p (''uci:network.'' @ s @ ''.listen_port''))
     (filter (\<lambda>(s, p). List.member (us_interfaces u) s \<and> map_of (us_protos u) s = Some ''wireguard'' \<and> port_in_range lo hi p) (us_ports u))"

definition scan_openwrt_uci_wireguard_ports :: "wg_env \<Rightarrow> int \<Rightarrow> int \<Rightarrow> listener list io" where
  "scan_openwrt_uci_wireguard_ports we lo hi = dbind (output_of we [''uci'', ''show'', ''network'']) (\<lambda>r. (case r of
      None \<Rightarrow> dreturn []
    | Some out \<Rightarrow> lift_error (rbind (uci_scan (split_lines out) \<lparr>us_interfaces = [], us_protos = [], us_ports = []\<rparr>)
        (\<lambda>u. Inr (uci_entries lo hi u)))))"

definition scan_wireguard_ports :: "wg_env \<Rightarrow> int \<Rightarrow> int \<Rightarrow> listener list io" where
  "scan_wireguard_ports we lo hi = dbind (scan_wg_show_ports we lo hi) (\<lambda>xs. dbind (scan_wg_quick_config_ports we lo hi) (\<lambda>ys.
     dbind (scan_openwrt_uci_wireguard_ports we lo hi) (\<lambda>zs. dreturn (xs @ ys @ zs))))"

section \<open>The scan\<close>

definition entry_key :: "listener \<Rightarrow> string \<times> int \<times> string" where
  "entry_key e = (li_protocol e, li_port e, li_source e)"

definition by_key :: "listener list \<Rightarrow> ((string \<times> int \<times> string) \<times> listener) list" where
  "by_key es = fold (\<lambda>e. AList.update (entry_key e) e) es []"

definition ordered_entries :: "listener list \<Rightarrow> listener list" where
  "ordered_entries es = sort_key li_port (sort_key li_protocol (sort_key li_source es))"

definition scan_ports :: "wg_env \<Rightarrow> int \<Rightarrow> int \<Rightarrow> listener list io" where
  "scan_ports we lo hi = dbind (scan_socket_listeners we lo hi) (\<lambda>xs. dbind (scan_wireguard_ports we lo hi) (\<lambda>ys.
     dreturn (take port_scan_max_results (ordered_entries (map snd (by_key (xs @ ys)))))))"

definition text_opt :: "string option \<Rightarrow> json" where
  "text_opt x = (case x of None \<Rightarrow> JNull | Some s \<Rightarrow> JStr s)"

definition listener_json :: "listener \<Rightarrow> json" where
  "listener_json e = JObj [(''protocol'', JStr (li_protocol e)), (''port'', JInt (li_port e)), (''purpose'', JStr []),
     (''source'', JStr ''scan''), (''detected_process'', text_opt (li_process e)), (''detected_pid'', text_opt (li_pid e)),
     (''detected_source'', JStr (li_source e))]"

definition port_scan_result :: "int \<Rightarrow> int \<Rightarrow> listener list \<Rightarrow> fields" where
  "port_scan_result lo hi ports = [(''plugin_type'', JStr ''port-inventory''), (''action'', JStr ''scan''), (''range_start'', JInt lo),
     (''range_end'', JInt hi), (''ports'', JList (map listener_json ports)),
     (''truncated'', JBool (port_scan_max_results \<le> length ports))]"

definition int_or_zero :: "json \<Rightarrow> (string, int) result" where
  "int_or_zero v = (if \<not> truthy v then Inr 0 else case json_to_int v of None \<Rightarrow> Inl ''invalid literal for int()'' | Some n \<Rightarrow> Inr n)"

definition port_inventory_execute :: "wg_env \<Rightarrow> string \<Rightarrow> fields \<Rightarrow> fields io" where
  "port_inventory_execute we action p =
     (if action \<noteq> ''scan'' then draise (''unsupported port inventory action: '' @ action)
      else dbind (lift_error (int_or_zero (dget p ''range_start''))) (\<lambda>lo. dbind (lift_error (int_or_zero (dget p ''range_end''))) (\<lambda>hi.
        if \<not> (1 \<le> lo \<and> lo \<le> 65535) \<or> \<not> (1 \<le> hi \<and> hi \<le> 65535) \<or> hi < lo then draise ''invalid port range''
        else dbind (scan_ports we lo hi) (\<lambda>ports. dreturn (port_scan_result lo hi ports)))))"

definition port_inventory_detect :: "wg_env \<Rightarrow> bool \<Rightarrow> fields" where
  "port_inventory_detect we directory_exists = [(''plugin_type'', JStr ''port-inventory''),
     (''available'', JBool (list_ex (we_have we) [''ss'', ''netstat'', ''wg'', ''uci''] \<or> directory_exists))]"

end
