(* ===== verification/PortScanLaws.thy ===== *)
theory PortScanLaws
  imports PortScan JsonLimits
begin

text \<open>
  Facts on the port scan of an agent: what it reports lies in the range asked for, in order and without
  repetition; and how long a report the controller accepts.
\<close>

section \<open>What is found\<close>

lemma collect_lines_all:
  "collect_lines f ls = Inr xs \<Longrightarrow> (\<And>l x. f l = Inr (Some x) \<Longrightarrow> P x) \<Longrightarrow> list_all P xs"
  by (induction ls arbitrary: xs) (auto simp: rbind_def split: sum.splits option.splits)

lemma ss_line_in_range: "ss_line lo hi l = Inr (Some e) \<Longrightarrow> port_in_range lo hi (li_port e)"
  by (auto simp: ss_line_def Let_def rbind_def socket_entry_def split: if_splits option.splits sum.splits)

lemma netstat_line_in_range: "netstat_line lo hi l = Inr (Some e) \<Longrightarrow> port_in_range lo hi (li_port e)"
  by (auto simp: netstat_line_def Let_def rbind_def socket_entry_def split: if_splits option.splits sum.splits)

definition ports_in_range :: "int \<Rightarrow> int \<Rightarrow> listener list \<Rightarrow> bool" where
  "ports_in_range lo hi es = list_all (\<lambda>e. port_in_range lo hi (li_port e)) es"

definition yields :: "listener list io \<Rightarrow> int \<Rightarrow> int \<Rightarrow> bool" where
  "yields m lo hi = (\<forall>d es d1. m d = (Inr es, d1) \<longrightarrow> ports_in_range lo hi es)"

lemma yieldsI: "(\<And>d es d1. m d = (Inr es, d1) \<Longrightarrow> ports_in_range lo hi es) \<Longrightarrow> yields m lo hi"
  by (auto simp: yields_def)

lemma yieldsD: "yields m lo hi \<Longrightarrow> m d = (Inr es, d1) \<Longrightarrow> ports_in_range lo hi es"
  by (auto simp: yields_def)

named_theorems yield_rules

lemma yields_nil [yield_rules]: "yields (dreturn []) lo hi"
  by (auto simp: yields_def dreturn_def ports_in_range_def)

lemma yields_lift [yield_rules]: "(\<And>xs. r = Inr xs \<Longrightarrow> ports_in_range lo hi xs) \<Longrightarrow> yields (lift_error r) lo hi"
  by (auto simp: yields_def lift_error_def draise_def dreturn_def split: sum.splits)

lemma yields_bind: "(\<And>x. yields (f x) lo hi) \<Longrightarrow> yields (dbind m f) lo hi"
  by (auto simp: yields_def dbind_def split: prod.splits sum.splits)

lemma yields_append:
  assumes "yields m lo hi" "\<And>xs. yields (f xs) lo hi"
  shows "yields (dbind m (\<lambda>xs. dbind (f xs) (\<lambda>ys. dreturn (xs @ ys)))) lo hi"
proof (rule yieldsI)
  fix d es d1 assume "dbind m (\<lambda>xs. dbind (f xs) (\<lambda>ys. dreturn (xs @ ys))) d = (Inr es, d1)"
  then obtain xs d2 ys where "m d = (Inr xs, d2)" "f xs d2 = (Inr ys, d1)" "es = xs @ ys"
    by (auto simp: dbind_def dreturn_def split: prod.splits sum.splits)
  then show "ports_in_range lo hi es" using yieldsD [OF assms(1)] yieldsD [OF assms(2)] by (simp add: ports_in_range_def)
qed

lemma sockets_in_range: "yields (scan_socket_listeners we lo hi) lo hi"
  unfolding scan_socket_listeners_def
proof (rule yields_bind)
  have ss: "yields (lift_error (parse_ss_output out lo hi)) lo hi" for out
    by (intro yields_lift) (simp only: parse_ss_output_def ports_in_range_def, erule collect_lines_all, erule ss_line_in_range)
  have ns: "yields (lift_error (parse_netstat_output out lo hi)) lo hi" for out
    by (intro yields_lift) (simp only: parse_netstat_output_def ports_in_range_def, erule collect_lines_all, erule netstat_line_in_range)
  have inner: "yields (case n of Some out \<Rightarrow> lift_error (parse_netstat_output out lo hi) | None \<Rightarrow> dreturn []) lo hi" for n
    by (cases n) (simp_all add: ns yields_nil)
  show "yields (case s of Some out \<Rightarrow> lift_error (parse_ss_output out lo hi)
      | None \<Rightarrow> dbind (output_of we [''netstat'', ''-lntup'']) (\<lambda>n. case n of
          Some out \<Rightarrow> lift_error (parse_netstat_output out lo hi) | None \<Rightarrow> dreturn [])) lo hi" for s
    by (cases s) (simp_all add: ss yields_bind [OF inner])
qed

lemma wg_show_in_range: "yields (scan_wg_show_ports we lo hi) lo hi"
proof (rule yieldsI)
  fix d es d1 assume "scan_wg_show_ports we lo hi d = (Inr es, d1)"
  then obtain r where "es = (case r of None \<Rightarrow> [] | Some out \<Rightarrow> List.map_filter (wg_show_line lo hi) (split_lines out))"
    by (auto simp: scan_wg_show_ports_def dbind_def dreturn_def split: prod.splits sum.splits)
  moreover have "wg_show_line lo hi l = Some e \<Longrightarrow> port_in_range lo hi (li_port e)" for l e
    by (auto simp: wg_show_line_def Let_def wireguard_entry_def split: if_splits option.splits)
  ultimately show "ports_in_range lo hi es"
    by (auto simp: ports_in_range_def list_all_iff List.map_filter_def split: option.splits)
qed

lemma quick_entry_in_range: "quick_entry lo hi p t = Inr xs \<Longrightarrow> ports_in_range lo hi xs"
  by (auto simp: quick_entry_def ports_in_range_def wireguard_entry_def split: option.splits if_splits)

lemma quick_files_in_range: "yields (scan_wg_quick_files lo hi ns) lo hi"
proof (induction ns)
  case Nil
  then show ?case using yields_nil by simp
next
  case (Cons n ns)
  show ?case
  proof (rule yieldsI)
    fix d es d1 assume run: "scan_wg_quick_files lo hi (n # ns) d = (Inr es, d1)"
    obtain r e where q: "quick_text (wireguard_dir @ [n]) d = (r, e)" by fastforce
    show "ports_in_range lo hi es"
    proof (cases r)
      case (Inl x)
      then show ?thesis using run q yieldsD [OF Cons.IH] by auto
    next
      case (Inr t)
      have "yields (dbind (lift_error (quick_entry lo hi (wireguard_dir @ [n]) t)) (\<lambda>xs.
          dbind (scan_wg_quick_files lo hi ns) (\<lambda>ys. dreturn (xs @ ys)))) lo hi"
        using quick_entry_in_range Cons.IH by (intro yields_append yields_lift) auto
      then show ?thesis using run q Inr yieldsD by fastforce
    qed
  qed
qed

lemma uci_in_range: "yields (scan_openwrt_uci_wireguard_ports we lo hi) lo hi"
proof -
  have "ports_in_range lo hi (uci_entries lo hi u)" for u
    by (auto simp: uci_entries_def ports_in_range_def list_all_iff wireguard_entry_def)
  then show ?thesis unfolding scan_openwrt_uci_wireguard_ports_def
    by (intro yields_bind) (auto split: option.split sum.splits intro!: yield_rules simp: rbind_def)
qed

lemma wireguard_in_range: "yields (scan_wireguard_ports we lo hi) lo hi"
proof (rule yieldsI)
  fix d es d1 assume "scan_wireguard_ports we lo hi d = (Inr es, d1)"
  then obtain xs d2 ys d3 zs where "scan_wg_show_ports we lo hi d = (Inr xs, d2)"
      "scan_wg_quick_config_ports we lo hi d2 = (Inr ys, d3)"
      "scan_openwrt_uci_wireguard_ports we lo hi d3 = (Inr zs, d1)" "es = xs @ ys @ zs"
    by (auto simp: scan_wireguard_ports_def dbind_def dreturn_def split: prod.splits sum.splits)
  then show "ports_in_range lo hi es"
    using yieldsD [OF wg_show_in_range] yieldsD [OF quick_files_in_range] yieldsD [OF uci_in_range]
    by (fastforce simp: ports_in_range_def scan_wg_quick_config_ports_def)
qed

section \<open>Order\<close>

definition entry_le :: "listener \<Rightarrow> listener \<Rightarrow> bool" where
  "entry_le a b = (li_port a < li_port b \<or> (li_port a = li_port b \<and> (li_protocol a < li_protocol b \<or>
     (li_protocol a = li_protocol b \<and> li_source a \<le> li_source b))))"

lemma insert_moves: "A \<subseteq> B \<union> S \<Longrightarrow> B \<subseteq> insert e C \<Longrightarrow> A \<subseteq> C \<union> insert e S"
  by blast

lemma by_key_invariant:
  assumes "list_all (\<lambda>(k, e). k = entry_key e) acc" "distinct (map fst acc)"
  shows "list_all (\<lambda>(k, e). k = entry_key e) (fold (\<lambda>e. AList.update (entry_key e) e) es acc) \<and>
    distinct (map fst (fold (\<lambda>e. AList.update (entry_key e) e) es acc)) \<and>
    snd ` set (fold (\<lambda>e. AList.update (entry_key e) e) es acc) \<subseteq> snd ` set acc \<union> set es"
  using assms
proof (induction es arbitrary: acc)
  case Nil
  then show ?case by simp
next
  case (Cons e es)
  have set: "set (AList.update k v xs) \<subseteq> insert (k, v) (set xs)" for k :: "string \<times> int \<times> string" and v :: listener and xs
    by (induction xs) auto
  have "list_all (\<lambda>(k, e). k = entry_key e) (AList.update (entry_key e) e acc)"
    using Cons.prems(1) set [of "entry_key e" e acc] by (auto simp: list_all_iff)
  moreover have "distinct (map fst (AList.update (entry_key e) e acc))" using Cons.prems(2) by (rule distinct_update)
  moreover have "snd ` set (AList.update (entry_key e) e acc) \<subseteq> insert e (snd ` set acc)" using set [of "entry_key e" e acc] by force
  moreover note Cons.IH [of "AList.update (entry_key e) e acc"]
  ultimately show ?case using insert_moves by (simp only: fold.simps list.simps comp_apply) blast
qed

lemma distinct_keys: "distinct (map entry_key (map snd (by_key es)))"
proof -
  have "list_all (\<lambda>(k, e). k = entry_key e) (by_key es) \<and> distinct (map fst (by_key es))"
    using by_key_invariant [of "[]" es] by (simp add: by_key_def)
  moreover from this have "map entry_key (map snd (by_key es)) = map fst (by_key es)" by (auto simp: list_all_iff)
  ultimately show ?thesis by presburger
qed

lemma ordered_distinct: "distinct (map entry_key xs) \<Longrightarrow> distinct (map entry_key (ordered_entries xs))"
  by (simp add: ordered_entries_def distinct_map)

lemma sort_key_stable_order:
  "sorted_wrt R xs \<Longrightarrow> transp R \<Longrightarrow> sorted_wrt (\<lambda>a b. f a < f b \<or> (f a = (f b :: 'k :: linorder) \<and> R a b)) (sort_key f xs)"
proof (induction xs)
  case Nil
  then show ?case by simp
next
  case (Cons x xs)
  have all: "\<forall>y \<in> set (sort_key f xs). R x y" using Cons.prems(1) by simp
  have "sorted_wrt (\<lambda>a b. f a < f b \<or> (f a = f b \<and> R a b)) ys \<Longrightarrow> \<forall>y \<in> set ys. R x y \<Longrightarrow>
      sorted_wrt (\<lambda>a b. f a < f b \<or> (f a = f b \<and> R a b)) (insort_key f x ys)" for ys
    by (induction ys) (auto simp: set_insort_key)
  then show ?case using Cons all by simp
qed

lemma ordered_sorted: "sorted_wrt entry_le (ordered_entries es)"
proof -
  let ?R1 = "\<lambda>a b. li_source a \<le> li_source b"
  let ?R2 = "\<lambda>a b. li_protocol a < li_protocol b \<or> (li_protocol a = li_protocol b \<and> ?R1 a b)"
  have "sorted_wrt ?R1 (sort_key li_source es)" using sorted_sort_key [of li_source es] by (simp add: sorted_map)
  moreover have "transp ?R1" by (auto intro!: transpI)
  ultimately have "sorted_wrt ?R2 (sort_key li_protocol (sort_key li_source es))" by (rule sort_key_stable_order)
  moreover have "transp ?R2" by (auto intro!: transpI)
  ultimately have "sorted_wrt (\<lambda>a b. li_port a < li_port b \<or> (li_port a = li_port b \<and> ?R2 a b)) (ordered_entries es)"
    unfolding ordered_entries_def by (rule sort_key_stable_order)
  then show ?thesis by (simp add: entry_le_def [abs_def])
qed

text \<open>A port scan reports only listeners within the range it was asked for, at most two thousand of them, ordered by port, protocol and place, none twice, and it asks for a range of real ports before it runs any program; it says that the list is cut when the limit is reached.\<close>

theorem port_scan_reports_the_range:
  assumes "port_inventory_execute we action p d = (Inr r, d1)"
  shows "\<exists>lo hi ports. r = port_scan_result lo hi ports \<and> 1 \<le> lo \<and> lo \<le> hi \<and> hi \<le> 65535 \<and> length ports \<le> port_scan_max_results \<and>
    ports_in_range lo hi ports \<and> sorted_wrt entry_le ports \<and> distinct (map entry_key ports)"
proof -
  obtain lo hi ports where r: "r = port_scan_result lo hi ports" "1 \<le> lo" "lo \<le> hi" "hi \<le> 65535"
    and run: "scan_ports we lo hi d = (Inr ports, d1)"
    using assms by (fastforce simp: port_inventory_execute_def dbind_def lift_error_def dreturn_def draise_def split: prod.splits sum.splits if_splits)
  then obtain xs d2 ys where found: "scan_socket_listeners we lo hi d = (Inr xs, d2)" "scan_wireguard_ports we lo hi d2 = (Inr ys, d1)"
    and ports: "ports = take port_scan_max_results (ordered_entries (map snd (by_key (xs @ ys))))"
    by (auto simp: scan_ports_def dbind_def dreturn_def split: prod.splits sum.splits)
  let ?all = "ordered_entries (map snd (by_key (xs @ ys)))"
  have "ports_in_range lo hi (xs @ ys)"
    using yieldsD [OF sockets_in_range found(1)] yieldsD [OF wireguard_in_range found(2)] by (simp add: ports_in_range_def)
  moreover have "snd ` set (by_key (xs @ ys)) \<subseteq> set (xs @ ys)" using by_key_invariant [of "[]" "xs @ ys"] by (simp add: by_key_def)
  ultimately have "ports_in_range lo hi ?all" by (auto simp: ports_in_range_def list_all_iff ordered_entries_def)
  then have "ports_in_range lo hi ports" using set_take_subset by (fastforce simp: ports ports_in_range_def list_all_iff)
  moreover have "sorted_wrt entry_le ports" unfolding ports using ordered_sorted by (rule sorted_wrt_take)
  moreover have "distinct (map entry_key ?all)"
    by (rule ordered_distinct [OF distinct_keys])
  then have "distinct (map entry_key ports)" unfolding ports by (simp add: take_map [symmetric])
  ultimately show ?thesis using r ports by fastforce
qed

text \<open>A node on which ss shows two listeners.\<close>

definition scan_sample :: wg_env where
  "scan_sample = \<lparr>we_agent = \<lparr>ae_run = (\<lambda>n c fs. \<lparr>cr_returncode = 0,
       cr_stdout = ''udp UNCONN 0 0 *:67 *:*'' @ [CHR 0x0A] @ ''tcp LISTEN 0 9 *:53 *:*'', cr_stderr = [], cr_truncated = False,
       cr_failure = []\<rparr>), ae_backend = ''systemd'', ae_prefix = ''link42''\<rparr>, we_network = (\<lambda>n c fs. None),
     we_have = (\<lambda>c. c = ''ss''), we_polls = 0, we_configs = []\<rparr>"

definition scan_disk :: disk where
  "scan_disk = \<lparr>dk_files = (\<lambda>p. None), dk_faults = [], dk_now = 0, dk_count = 0\<rparr>"

definition scan_payload :: fields where
  "scan_payload = [(''range_start'', JInt 50), (''range_end'', JInt 70)]"

lemma scan_sample_result:
  "(case port_inventory_execute scan_sample ''scan'' scan_payload scan_disk of (r, _) \<Rightarrow> r) = Inr (port_scan_result 50 70
     [\<lparr>li_protocol = ''TCP'', li_port = 53, li_process = None, li_pid = None, li_source = ''socket''\<rparr>,
      \<lparr>li_protocol = ''UDP'', li_port = 67, li_process = None, li_pid = None, li_source = ''socket''\<rparr>])"
  by code_simp

theorem port_scan_reports_the_range_witness:
  "\<exists>lo hi ports. projr (fst (port_inventory_execute scan_sample ''scan'' scan_payload scan_disk)) = port_scan_result lo hi ports \<and>
     ports_in_range lo hi ports \<and> distinct (map entry_key ports)"
proof -
  let ?run = "port_inventory_execute scan_sample ''scan'' scan_payload scan_disk"
  obtain r where "fst ?run = Inr r" using scan_sample_result by (auto split: prod.splits)
  then have "?run = (Inr r, snd ?run)" by (simp add: prod_eq_iff)
  then show ?thesis using port_scan_reports_the_range [of scan_sample "''scan''" scan_payload scan_disk r "snd ?run"] \<open>fst ?run = Inr r\<close>
    by auto
qed

section \<open>The report\<close>

definition text_fits :: "string \<Rightarrow> bool" where
  "text_fits s = (utf8_length s \<le> 1048576)"

definition entry_fits :: "listener \<Rightarrow> bool" where
  "entry_fits e = (text_fits (li_protocol e) \<and> 0 \<le> li_port e \<and> li_port e \<le> 65535 \<and> text_fits (the_or [] (li_process e)) \<and>
     text_fits (the_or [] (li_pid e)) \<and> text_fits (li_source e))"

lemma plain_keys:
  "\<not> key_has_control ''protocol''" "\<not> key_has_control ''port''" "\<not> key_has_control ''purpose''" "\<not> key_has_control ''source''"
  "\<not> key_has_control ''detected_process''" "\<not> key_has_control ''detected_pid''" "\<not> key_has_control ''detected_source''"
  "\<not> key_has_control ''plugin_type''" "\<not> key_has_control ''action''" "\<not> key_has_control ''range_start''"
  "\<not> key_has_control ''range_end''" "\<not> key_has_control ''ports''" "\<not> key_has_control ''truncated''"
  by code_simp+

lemma short_port_number: "0 \<le> n \<Longrightarrow> n \<le> 65535 \<Longrightarrow> length (show_int \<bar>n\<bar>) \<le> 128"
proof -
  assume "0 \<le> n" "n \<le> 65535"
  then have "length (show_nat n) \<le> 5" by (intro length_show_nat) auto
  then show ?thesis using \<open>0 \<le> n\<close> by (simp add: show_int_def)
qed

text \<open>An entry costs eight of the values a result may have.\<close>

lemma entry_cost:
  assumes "entry_fits e"
  shows "validate_agent_result_json 2 (listener_json e) b =
    (if 8 \<le> b then Inr (b - 8) else Inl ''agent task result is too deeply nested or too large'')"
  using assms short_port_number [of "li_port e"]
  by (auto simp: listener_json_def text_opt_def entry_fits_def text_fits_def plain_keys rbind_def Let_def not_le
      simp del: show_int_def split: option.splits)

lemma entries_cost:
  assumes "list_all entry_fits es" "0 \<le> b"
  shows "validate_agent_result_items 2 (map listener_json es) b =
    (if 8 * int (length es) \<le> b then Inr (b - 8 * int (length es)) else Inl ''agent task result is too deeply nested or too large'')"
  using assms by (induction es arbitrary: b) (auto simp: entry_cost rbind_def simp del: validate_agent_result_json.simps)

definition too_large :: string where "too_large = ''agent task result is too deeply nested or too large''"

text \<open>The steps of the walk over a result that is an object of plain values and one list.\<close>

lemma plain_values:
  assumes "1 \<le> b" "depth \<le> 16"
  shows "utf8_length s \<le> 1048576 \<Longrightarrow> validate_agent_result_json depth (JStr s) b = Inr (b - 1)"
    "length (show_int \<bar>n\<bar>) \<le> 128 \<Longrightarrow> validate_agent_result_json depth (JInt n) b = Inr (b - 1)"
    "length xs \<le> 2000 \<Longrightarrow> validate_agent_result_json depth (JList xs) b = validate_agent_result_items (depth + 1) xs (b - 1)"
    "length d \<le> 2000 \<Longrightarrow> validate_agent_result_json depth (JObj d) b = validate_agent_result_fields (depth + 1) d (b - 1)"
  using assms by simp_all

lemma last_flag:
  "validate_agent_result_json 1 (JBool x) b = (if b < 1 then Inl too_large else Inr (b - 1))"
  by (simp add: too_large_def)

lemma field_step:
  assumes "length k \<le> 256" "\<not> key_has_control k"
  shows "validate_agent_result_fields depth ((k, v) # d) b = rbind (validate_agent_result_json depth v b) (validate_agent_result_fields depth d)"
  using assms by (simp add: rbind_def)

lemma report_cost:
  assumes "1 \<le> lo" "lo \<le> 65535" "1 \<le> hi" "hi \<le> 65535" "length ports \<le> 2000"
  shows "validate_agent_result_json 0 (JObj (port_scan_result lo hi ports)) agent_result_budget =
    rbind (validate_agent_result_items 2 (map listener_json ports) 9994) (\<lambda>left. if left < 1 then Inl too_large else Inr (left - 1))"
proof -
  have n: "length (show_int \<bar>lo\<bar>) \<le> 128" "length (show_int \<bar>hi\<bar>) \<le> 128" using short_port_number [of lo] short_port_number [of hi] assms by simp_all
  have t: "validate_agent_result_json 1 (JStr ''port-inventory'') 9999 = Inr 9998"
    "validate_agent_result_json 1 (JStr ''scan'') 9998 = Inr 9997" by code_simp+
  have flag: "validate_agent_result_fields 1 [(''truncated'', JBool x)] b = (if b < 1 then Inl too_large else Inr (b - 1))" for x b
    by (simp add: field_step plain_keys last_flag rbind_def del: validate_agent_result_json.simps)
  show ?thesis
    unfolding port_scan_result_def agent_result_budget_def
    by (simp add: plain_values field_step plain_keys n t assms(5) flag rbind_def
        del: validate_agent_result_json.simps validate_agent_result_fields.simps(2) split del: if_split cong: sum.case_cong)
qed

text \<open>C33: what the agent may report of a port scan and what the controller accepts do not fit each other: a scan lists up to two thousand listeners, and the controller accepts its report exactly when it lists at most 1249, since each listener takes eight of the ten thousand values a result may have. A node with more listeners in the range cannot be scanned: its report is refused and the task fails.\<close>

theorem port_scan_report_limit:
  assumes "1 \<le> lo" "lo \<le> hi" "hi \<le> 65535" "length ports \<le> port_scan_max_results" "list_all entry_fits ports"
  shows "(\<exists>left. validate_agent_result_json 0 (JObj (port_scan_result lo hi ports)) agent_result_budget = Inr left)
    \<longleftrightarrow> length ports \<le> 1249"
proof -
  have "length ports \<le> 2000" using assms(4) by (simp add: port_scan_max_results_def)
  then have "validate_agent_result_json 0 (JObj (port_scan_result lo hi ports)) agent_result_budget =
      rbind (validate_agent_result_items 2 (map listener_json ports) 9994) (\<lambda>left. if left < 1 then Inl too_large else Inr (left - 1))"
    using assms(1-3) by (intro report_cost) simp_all
  moreover have "validate_agent_result_items 2 (map listener_json ports) 9994 =
      (if 8 * int (length ports) \<le> 9994 then Inr (9994 - 8 * int (length ports)) else Inl ''agent task result is too deeply nested or too large'')"
    using entries_cost [OF assms(5), of 9994] by simp
  moreover have "8 * int (length ports) \<le> 9993 \<longleftrightarrow> length ports \<le> 1249" by presburger
  ultimately show ?thesis by (auto simp: rbind_def not_le simp del: validate_agent_result_json.simps)
qed

definition sample_listener :: listener where
  "sample_listener = \<lparr>li_protocol = ''UDP'', li_port = 53, li_process = None, li_pid = None, li_source = ''socket''\<rparr>"

theorem port_scan_report_limit_witness:
  "\<not> (\<exists>left. validate_agent_result_json 0 (JObj (port_scan_result 1 65535 (replicate 1250 sample_listener))) agent_result_budget = Inr left)"
proof -
  have "entry_fits sample_listener" by code_simp
  then have "list_all entry_fits (replicate 1250 sample_listener)" by (simp add: list_all_iff)
  then show ?thesis using port_scan_report_limit [of 1 65535 "replicate 1250 sample_listener"] by (simp add: port_scan_max_results_def)
qed

end
