(* ===== verification/AgentWgLaws.thy ===== *)
theory AgentWgLaws
  imports AgentWg GreUndo
begin

text \<open>
  What the operations on WireGuard interfaces promise: a deployment that fails leaves the configuration
  as it was, an interface that runs keeps its configuration and is reported stopped only when it is gone,
  and the scan stays within its bounds.
\<close>

section \<open>Files the service managers touch\<close>

definition service_file :: "path \<Rightarrow> bool" where
  "service_file q = (q = network_config \<or> (\<exists>u. q = init_dir @ [u]))"

lemma service_file_simps [simp]: "service_file network_config" "service_file (init_dir @ [u])" "\<not> service_file (wireguard_config_path name)"
  by (simp_all add: service_file_def network_config_def wireguard_config_path_def wireguard_dir_def init_dir_def)

lemma touches_run_wg [touch]: "P network_config \<Longrightarrow> touches P (run_wg we c allow)"
  by (rule touchesI) (auto simp: run_wg_def run_command_def)

lemma touches_reported [touch]: "touches P m \<Longrightarrow> touches P (reported m)"
  by (simp add: reported_def touch)

lemma touches_down_and_up [touch]: "P network_config \<Longrightarrow> touches P (down_and_up we a b)"
  by (simp add: down_and_up_def touch)

lemma touches_first [touch]: "P network_config \<Longrightarrow> touches P (first_existing we cs)"
  by (induction cs) (simp_all add: touch)

lemma touches_unit [touch]: "P network_config \<Longrightarrow> touches P (openrc_unit we name)"
  unfolding openrc_unit_def by (intro touch) (auto simp: touch split: option.split)

lemma touches_link [touch]: "P p \<Longrightarrow> touches P (put_link p t)"
  by (rule touchesI) (auto simp: put_link_def put_file_def)

lemma touches_atomic [touch]: "P p \<Longrightarrow> touches P (atomic_write_bytes p s m)"
  by (rule touchesI) (auto simp: atomic_write_bytes_def next_fault_def put_file_def)

lemma touches_ensure [touch]: "touches service_file (ensure_link42_unit we name)"
proof -
  have c: "touches service_file (dbind (put_link (init_dir @ [u]) t) (\<lambda>_. dreturn v))"
    "touches service_file (dbind (atomic_write_text (init_dir @ [u]) s m) (\<lambda>_. dreturn v))" for u t v s m
    by (intro touch; simp)+
  have s: "touches service_file (\<lambda>d. if b then (case dk_files d p of None \<Rightarrow> f d | Some x \<Rightarrow> if P x then draise e d else dreturn u d)
      else if b' then dreturn u d else (case dk_files d p of None \<Rightarrow> g d | Some x \<Rightarrow> if Q x then draise e' d else dreturn u d))"
    if "touches service_file f" "touches service_file g" for b p f P e u b' g Q e'
    using that by (auto simp: touches_def draise_def dreturn_def split: option.split)
  show ?thesis unfolding ensure_link42_unit_def Let_def
    by (intro touches_dbind touches_unit s c) simp
qed

lemma touches_manager [touch]:
  "touches service_file (manager_state we m name)" "touches service_file (manager_enable we m name)"
  "touches service_file (manager_restart we m name)" "touches service_file (manager_start we m name)"
  "touches service_file (manager_stop we m name)"
proof -
  have n: "service_file network_config" by simp
  show "touches service_file (manager_state we m name)"
    by (cases m) (simp_all add: systemd_state_def openrc_state_def openwrt_state_def Let_def touch)
  show "touches service_file (manager_enable we m name)" by (cases m) (simp_all add: touch)
  show "touches service_file (manager_restart we m name)" by (cases m) (simp_all add: touch service_refused_def)
  show "touches service_file (manager_start we m name)" by (cases m) (simp_all add: touch service_refused_def)
  show "touches service_file (manager_stop we m name)" by (cases m) (simp_all add: touch service_refused_def)
qed

lemma touches_detect [touch]: "touches P (detect_service_manager we)"
  by (simp add: touches_def detect_service_manager_def)

lemma touches_activate [touch]: "touches service_file (activate_config we m s on_boot name)"
  unfolding activate_config_def by (intro touch)

section \<open>A deployment that fails\<close>

text \<open>The backup is kept beside the configuration.\<close>

definition backup_file :: "path \<Rightarrow> path \<Rightarrow> bool" where
  "backup_file target q = (q = backup_path_of target \<or> dated_backup target q)"

lemma backup_is_other: "\<not> backup_file (wireguard_config_path name) (wireguard_config_path name)"
proof -
  have "length (name @ ''.conf'') < length (name @ ''.conf'' @ ''.link42-backup'')" by simp
  moreover have "starts_with s p \<Longrightarrow> length p \<le> length s" for s p :: string by (auto simp: starts_with_def dest: arg_cong [of _ _ length])
  ultimately show ?thesis
    by (auto simp: backup_file_def dated_backup_def backup_path_of_def wireguard_config_path_def starts_with_def
        dest: arg_cong [of _ _ length])
qed

lemma backup_not_service: "\<not> service_file (backup_path_of (wireguard_config_path name))"
  by (simp add: service_file_def backup_path_of_def network_config_def wireguard_config_path_def wireguard_dir_def init_dir_def)

lemma touches_rotate [touch]: "touches (backup_file target) (rotate_wireguard_backup target)"
  by (rule touchesI) (auto simp: rotate_wireguard_backup_def backup_file_def)

lemma touches_copy_stat [touch]: "P q \<Longrightarrow> touches P (copy_stat p q)"
  by (rule touchesI) (auto simp: copy_stat_def put_file_def split: option.split)

lemma touches_backup [touch]: "touches (backup_file target) (backup_config target)"
proof -
  have c: "touches (backup_file target) (atomic_write_bytes b s m)" "touches (backup_file target) (copy_stat target b)"
    if "b = backup_path_of target" for b s m using that by (auto intro: touch simp: backup_file_def)
  have r: "fst (rotate_wireguard_backup target d) = Inr (backup_path_of target)" for d by (simp add: rotate_wireguard_backup_def)
  have "touches (backup_file target) (dbind (rotate_wireguard_backup target) (\<lambda>b. dbind (read_existing_bytes target) (\<lambda>x.
      dbind (atomic_write_bytes b x 384) (\<lambda>_. dbind (copy_stat target b) (\<lambda>_. dreturn (Some b))))))"
    (is "touches _ (dbind _ ?f)")
  proof (rule touchesI, goal_cases)
    case (1 d)
    have f: "touches (backup_file target) (?f (backup_path_of target))" by (intro touch c refl)
    obtain e where e: "rotate_wireguard_backup target d = (Inr (backup_path_of target), e)" using r [of d] by (metis prod.collapse)
    have "dk_faults e = []" "\<forall>q. \<not> backup_file target q \<longrightarrow> dk_files e q = dk_files d q"
      using touches_rotate [of target] 1 e unfolding touches_def by (metis snd_conv)+
    then show ?case using f unfolding touches_def dbind_def e by simp
  qed
  then show ?thesis unfolding backup_config_def
    by (rule touches_dbind [OF touches_reading(1) touches_if [OF touches_dreturn(1) touches_dbind [OF touches_reading(2) touches_if [OF touches_dreturn(2)]]]])
qed

text \<open>What a backup holds.\<close>

lemma backup_result:
  assumes "dk_faults d = []" "backup_config target d = (Inr b, e)" "\<not> backup_file target target"
  shows "content target d = None \<Longrightarrow> b = None" "content target d = Some c \<Longrightarrow> b = Some (backup_path_of target) \<and> content (backup_path_of target) e = Some c \<and>
    (\<exists>f. dk_files e (backup_path_of target) = Some f \<and> fl_regular f) \<and> int (length c) \<le> wireguard_config_max_bytes"
proof -
  have n: "backup_path_of target \<noteq> target" using assms(3) by (auto simp: backup_file_def)
  show "content target d = None \<Longrightarrow> b = None"
    using assms(2) by (auto simp: backup_config_def content_def dbind_def file_exists_def path_exists_def dreturn_def)
  show "content target d = Some c \<Longrightarrow> b = Some (backup_path_of target) \<and> content (backup_path_of target) e = Some c \<and>
    (\<exists>f. dk_files e (backup_path_of target) = Some f \<and> fl_regular f) \<and> int (length c) \<le> wireguard_config_max_bytes"
    using assms n by (auto simp: backup_config_def content_def dbind_def file_exists_def path_exists_def dreturn_def draise_def file_size_def
      rotate_wireguard_backup_def read_existing_bytes_def atomic_write_bytes_def next_fault_def put_file_def copy_stat_def backup_file_def
      split: option.splits if_splits)
qed

text \<open>The undoing of a change puts the content of the backup back, or removes the configuration.\<close>

lemma undo_result:
  assumes d: "dk_faults d = []" and t: "target = wireguard_config_path name"
    and b: "case b of None \<Rightarrow> old = None | Some q \<Rightarrow> \<exists>f s. dk_files d q = Some f \<and> fl_regular f \<and> old = Some (fl_content f)
      \<and> decode_text (fl_content f) = Inr s \<and> int (length (fl_content f)) \<le> wireguard_config_max_bytes"
    and u: "undo_config we m s name b target d = (r, e)"
  shows "content target e = old"
proof -
  have q: "\<not> service_file target" by (simp add: t)
  show ?thesis
  proof (cases b)
    case None
    have f: "snd (dfinally (dbind (manager_stop we m name) (\<lambda>_. dreturn ())) (remove_file target) d) = e"
      using u by (simp add: undo_config_def None dbind_def dreturn_def Let_def)
    then have "content target e = None"
      by (auto simp: dfinally_def remove_file_def content_def split: prod.splits)
    then show ?thesis using b None by simp
  next
    case (Some p)
    then obtain f t where f: "dk_files d p = Some f" "fl_regular f" "old = Some (fl_content f)" "decode_text (fl_content f) = Inr t"
      "int (length (fl_content f)) \<le> wireguard_config_max_bytes" using b by auto
    have "read_existing_text p d = (Inr t, d)"
      using f by (simp add: read_existing_text_def dbind_def read_existing_bytes_def lift_error_def wireguard_config_max_bytes_def max_existing_file_bytes_def)
    moreover obtain d1 where w: "atomic_write_text target t 384 d = (Inr (), d1)" "content target d1 = old" "dk_faults d1 = []"
      using f(3) encode_decode [OF f(4)] d by (simp add: write_result content_def put_file_def)
    moreover have "touches service_file (if m = DirectWgQuick then dbind (manager_restart we m name) (\<lambda>_. dreturn ())
      else if sv_active_state s = ''inactive'' then dbind (manager_stop we m name) (\<lambda>_. dreturn ()) else dbind (manager_restart we m name) (\<lambda>_. dreturn ()))"
      by (intro touch)
    ultimately show ?thesis using u touches_content(2) [of service_file _ d1 r e target] q f(1)
      by (simp add: undo_config_def Some dbind_def file_exists_def path_exists_def dreturn_def the_or_def Let_def)
  qed
qed

lemma apply_file_kept:
  assumes d: "dk_faults d = []" and t: "target = wireguard_config_path name"
    and old: "case content target d of None \<Rightarrow> True | Some c \<Rightarrow> \<exists>s. decode_text c = Inr s"
    and a: "apply_wg_quick we m dry on_boot name config cl d = (Inl msg, e)"
  shows "content target e = content target d"
proof -
  have q: "\<not> service_file target" "\<not> backup_file target target" "\<not> service_file (backup_path_of target)"
    using backup_is_other backup_not_service by (simp_all add: t)
  from a obtain x d1 where x: "manager_state we m name d = (x, d1)" by (cases "manager_state we m name d")
  have d1: "dk_faults d1 = []" "content target d1 = content target d"
    using touches_content(1) [OF touches_manager(1) d x] touches_content(2) [OF touches_manager(1) d x q(1)] by auto
  from a show ?thesis unfolding apply_wg_quick_def Let_def t [symmetric]
  proof (cases rule: dbind_cases)
    case (refused msg)
    then show ?thesis using x d1 by simp
  next
    case (passed s d1')
    then have s: "d1' = d1" using x by simp
    from passed(2) show ?thesis
    proof (cases rule: dbind_cases)
      case (refused msg)
      then show ?thesis using touches_content(2) [OF touches_backup d1(1) _ q(2)] d1(2) s by simp
    next
      case (passed b d2)
      have d2: "dk_faults d2 = []" "content target d2 = content target d"
        using touches_content(1) [OF touches_backup d1(1)] touches_content(2) [OF touches_backup d1(1) _ q(2)] passed(1) d1(2) s by auto
      have b: "content target d1 = None \<Longrightarrow> b = None" "content target d1 = Some c \<Longrightarrow> b = Some (backup_path_of target) \<and>
        content (backup_path_of target) d2 = Some c \<and> (\<exists>f. dk_files d2 (backup_path_of target) = Some f \<and> fl_regular f) \<and>
        int (length c) \<le> wireguard_config_max_bytes" for c
        using backup_result [OF d1(1) _ q(2)] passed(1) s by auto
      obtain d3 where w: "atomic_write_text target config 384 d2 = (Inr (), d3)" "dk_faults d3 = []"
        "\<And>p. p \<noteq> target \<Longrightarrow> dk_files d3 p = dk_files d2 p"
        using d2(1) by (simp add: write_result put_file_def)
      have "\<not> dry" "\<exists>msg. dexcept (activate_config we m s on_boot name) (dignore (undo_config we (if sv_managed s \<or> on_boot then m else DirectWgQuick) s name b target)) d3 = (Inl msg, e)"
        using passed(2) unfolding dbind_def by (auto simp: w(1) dreturn_def split: if_splits prod.splits sum.splits)
      then obtain msg where f: "dexcept (activate_config we m s on_boot name) (dignore (undo_config we (if sv_managed s \<or> on_boot then m else DirectWgQuick) s name b target)) d3 = (Inl msg, e)"
        by auto
      from f show ?thesis
      proof (cases rule: dexcept_cases)
        case (handled msg d4)
        have d4: "dk_faults d4 = []" "dk_files d4 (backup_path_of target) = dk_files d3 (backup_path_of target)"
          using touches_activate w(2) handled(1) q(3) unfolding touches_def by (metis snd_conv)+
        have n: "backup_path_of target \<noteq> target" using q(2) by (auto simp: backup_file_def)
        obtain r where u: "undo_config we (if sv_managed s \<or> on_boot then m else DirectWgQuick) s name b target d4 = (r, e)"
          using handled(2) by (cases "undo_config we (if sv_managed s \<or> on_boot then m else DirectWgQuick) s name b target d4") (simp add: dignore_def)
        have "case b of None \<Rightarrow> content target d = None | Some q \<Rightarrow> \<exists>f s. dk_files d4 q = Some f \<and> fl_regular f \<and> content target d = Some (fl_content f)
          \<and> decode_text (fl_content f) = Inr s \<and> int (length (fl_content f)) \<le> wireguard_config_max_bytes"
        proof (cases "content target d1")
          case None
          then show ?thesis using b(1) d1(2) by simp
        next
          case (Some c)
          then have c: "content target d = Some c" using d1(2) by simp
          obtain f where f: "dk_files d2 (backup_path_of target) = Some f" "fl_regular f" using b(2) [OF Some] by auto
          then have "fl_content f = c" using b(2) [OF Some] by (simp add: content_def)
          then show ?thesis using b(2) [OF Some] old f d4(2) w(3) [OF n] unfolding c by simp
        qed
        from undo_result [OF d4(1) t this u] show ?thesis .
      qed simp
    qed
  qed
qed

text \<open>C17: A deployment of a WireGuard interface that fails leaves its configuration file as it was, or absent
  when there was none: whatever step failed, the state of the service, the backup, the change of the service
  or the restart. The node is no OpenWrt one, the interface was not renamed, no write of the disk fails, and
  the old configuration, if any, is a UTF-8 text.
\<close>

theorem failed_deployment_keeps_configuration:
  assumes "dk_faults d = []" "interface_name_of p = Inr name" "previous_name_of p = Inr None"
    and "fst (detect_service_manager we d) \<noteq> Inr OpenWrtUci"
    and "case content (wireguard_config_path name) d of None \<Rightarrow> True | Some c \<Rightarrow> \<exists>s. decode_text c = Inr s"
    and "apply_wireguard_config we dry p d = (Inl msg, e)"
  shows "content (wireguard_config_path name) e = content (wireguard_config_path name) d"
proof -
  obtain m where m: "detect_service_manager we d = (Inr m, d)" "m \<noteq> OpenWrtUci"
    using assms(4) by (auto simp: detect_service_manager_def)
  show ?thesis
  proof (cases "config_text_of p")
    case (Inl x)
    then show ?thesis using assms(6) by (simp add: apply_wireguard_config_def dbind_def lift_error_def assms(2) Inl)
  next
    case (Inr config)
    let ?apply = "apply_wg_quick we m dry (truthy (dget p ''enable_on_boot'')) name config None"
    show ?thesis
    proof (cases "m = Unsupported")
      case True
      then show ?thesis using assms(6)
        by (cases dry) (simp_all add: apply_wireguard_config_def dbind_def lift_error_def assms(2,3) Inr m cleanup_previous_wireguard_interface_def dreturn_def draise_def Let_def)
    next
      case False
      obtain x d1 where x: "?apply d = (x, d1)" by (cases "?apply d")
      have "(x, d1) = (Inl msg, e)"
      proof (cases x)
        case (Inl y)
        then show ?thesis using assms(6) x m False
          by (cases dry) (simp_all add: apply_wireguard_config_def dbind_def lift_error_def assms(2,3) Inr cleanup_previous_wireguard_interface_def dreturn_def Let_def)
      next
        case (Inr y)
        then show ?thesis using assms(6) x m False \<open>config_text_of p = Inr config\<close>
          by (cases y; cases "snd y"; cases dry)
            (simp_all add: apply_wireguard_config_def dbind_def lift_error_def assms(2,3) cleanup_previous_wireguard_interface_def dreturn_def Let_def)
      qed
      then have "?apply d = (Inl msg, e)" using x by simp
      from apply_file_kept [OF assms(1) refl assms(5) this] show ?thesis .
    qed
  qed
qed

section \<open>An interface that does not go away\<close>

definition keeps_running :: "wg_env \<Rightarrow> string \<Rightarrow> bool" where
  "keeps_running we name = (\<forall>d. \<exists>r. fst (run_wg we [''wg'', ''show'', name] True d) = Inr r \<and> rp_returncode r = 0)"

lemma show_running: "keeps_running we name \<Longrightarrow> \<exists>r e. run_wg we [''wg'', ''show'', name] True d = (Inr r, e) \<and> rp_returncode r = 0"
  unfolding keeps_running_def by (metis prod.collapse)

lemma status_running: "keeps_running we name \<Longrightarrow> wireguard_status we name d = (Inr s, e) \<Longrightarrow> ws_running s"
  using show_running [of we name d] by (auto simp: wireguard_status_def dbind_def dreturn_def split: prod.splits sum.splits)

lemma touches_status [touch]: "touches service_file (wireguard_status we name)"
  unfolding wireguard_status_def by (intro touch) simp

lemma touches_assert [touch]: "touches service_file (assert_wireguard_stopped we n name r)"
proof (induction n)
  case 0
  show ?case by (subst assert_wireguard_stopped.simps) (simp add: touch)
next
  case (Suc n)
  then show ?case by (subst assert_wireguard_stopped.simps) (simp add: touch)
qed

lemma dbind_okE:
  assumes "dbind m f d = (Inr y, e)"
  obtains x d1 where "m d = (Inr x, d1)" "f x d1 = (Inr y, e)"
  using assms by (auto elim: dbind_cases)

lemma assert_stuck: "keeps_running we name \<Longrightarrow> assert_wireguard_stopped we n name r d \<noteq> (Inr t, e)"
proof (induction n arbitrary: d)
  case 0
  show ?case
  proof
    assume "assert_wireguard_stopped we 0 name r d = (Inr t, e)"
    then obtain s d1 where s: "wireguard_status we name d = (Inr s, d1)"
      "(if \<not> ws_running s then dreturn s else draise (''wireguard interface '' @ name @ '' is still running after stop''
        @ (if stop_detail r = [] then [] else '': '' @ stop_detail r))) d1 = (Inr t, e)"
      unfolding assert_wireguard_stopped.simps [of we 0] nat.case by (elim dbind_okE)
    then show False using status_running [OF 0 s(1)] by (simp add: draise_def)
  qed
next
  case (Suc n)
  show ?case
  proof
    assume "assert_wireguard_stopped we (Suc n) name r d = (Inr t, e)"
    then obtain s d1 where s: "wireguard_status we name d = (Inr s, d1)"
      "(if \<not> ws_running s then dreturn s else assert_wireguard_stopped we n name r) d1 = (Inr t, e)"
      unfolding assert_wireguard_stopped.simps [of we "Suc n"] nat.case by (elim dbind_okE)
    then show False using status_running [OF Suc.prems s(1)] Suc.IH [OF Suc.prems, of d1] by simp
  qed
qed

declare assert_wireguard_stopped.simps [simp del]

lemma openwrt_active: "keeps_running we name \<Longrightarrow> openwrt_state we name d = (Inr s, e) \<Longrightarrow> sv_active_state s = ''active''"
  using show_running [of we name d] by (auto simp: openwrt_state_def dbind_def dreturn_def Let_def split: prod.splits sum.splits)

lemma cleanup_refused:
  assumes r: "keeps_running we old" and m: "m \<noteq> Unsupported" "old \<noteq> name"
  shows "cleanup_previous_wireguard_interface we m False (Some old) name d \<noteq> (Inr y, e)"
proof
  assume c: "cleanup_previous_wireguard_interface we m False (Some old) name d = (Inr y, e)"
  show False
  proof (cases "m = OpenWrtUci")
    case True
    then have "\<exists>x. cleanup_openwrt we old d = (Inr x, e)" using c m(2) by (auto simp: cleanup_previous_wireguard_interface_def elim!: dbind_okE simp: dreturn_def)
    then obtain x where "cleanup_openwrt we old d = (Inr x, e)" ..
    then show False unfolding cleanup_openwrt_def
      by (auto elim!: dbind_okE dest!: openwrt_active [OF r] simp: dreturn_def assert_stuck [OF r] split: if_splits)
  next
    case False
    then have "\<exists>x. cleanup_wg_quick we m old d = (Inr x, e)" using c m
      by (cases m) (auto simp: cleanup_previous_wireguard_interface_def elim!: dbind_okE simp: dreturn_def)
    then obtain x where "cleanup_wg_quick we m old d = (Inr x, e)" ..
    then obtain d1 w d2 stop d3 after d4 and s :: service_state where w: "run_wg we [''wg'', ''show'', old] True d1 = (Inr w, d2)"
      and s: "(if sv_active_state s = ''active'' then dbind (manager_stop we m old) (\<lambda>j. dreturn (Some j))
       else if rp_returncode w = 0 then dbind (manager_stop we DirectWgQuick old) (\<lambda>j. dreturn (Some j)) else dreturn None) d2 = (Inr stop, d3)"
      and a: "(case stop of None \<Rightarrow> dreturn None
       | Some j \<Rightarrow> dbind (assert_wireguard_stopped we 0 old [(''stop'', j)]) (\<lambda>t. dreturn (Some t))) d3 = (Inr after, d4)"
      unfolding cleanup_wg_quick_def Let_def by (elim dbind_okE) (rule that, assumption+)
    have "rp_returncode w = 0" using show_running [OF r, of d1] w by auto
    then obtain j where j: "stop = Some j" using s by (auto simp: dreturn_def elim!: dbind_okE split: if_splits)
    have "dbind (assert_wireguard_stopped we 0 old [(''stop'', j)]) (\<lambda>t. dreturn (Some t)) d3 = (Inr after, d4)" using a j by simp
    then show False by (elim dbind_okE) (simp add: assert_stuck [OF r])
  qed
qed

lemma stop_refused: "keeps_running we name \<Longrightarrow> interface_name_of p = Inr name \<Longrightarrow> stop_wireguard_interface we False p d \<noteq> (Inr y, e)"
  unfolding stop_wireguard_interface_def
  by (auto elim!: dbind_okE simp: lift_error_def dreturn_def assert_stuck dest: status_running split: if_splits)

lemma delete_refused: "keeps_running we name \<Longrightarrow> interface_name_of p = Inr name \<Longrightarrow> delete_wireguard_config we False p d \<noteq> (Inr y, e)"
  unfolding delete_wireguard_config_def Let_def
  by (auto elim!: dbind_okE simp: lift_error_def dreturn_def draise_def dest: status_running split: if_splits)

text \<open>An operation that fails, with the files it does not touch as they were.\<close>

definition fails_keeping :: "(path \<Rightarrow> bool) \<Rightarrow> 'a io \<Rightarrow> bool" where
  "fails_keeping P m = (\<forall>d. dk_faults d = [] \<longrightarrow> (\<exists>msg e. m d = (Inl msg, e) \<and> dk_faults e = [] \<and> (\<forall>q. \<not> P q \<longrightarrow> dk_files e q = dk_files d q)))"

named_theorems stuck "operations that fail"

lemma fails_later [stuck]: "touches P m \<Longrightarrow> (\<And>x. fails_keeping P (f x)) \<Longrightarrow> fails_keeping P (dbind m f)"
  unfolding fails_keeping_def touches_def dbind_def by (auto split: prod.split sum.split) (metis snd_conv)+

lemma fails_now: "fails_keeping P m \<Longrightarrow> fails_keeping P (dbind m f)"
  unfolding fails_keeping_def dbind_def by fastforce

lemma fails_raise [stuck]: "fails_keeping P (draise msg)"
  by (simp add: fails_keeping_def draise_def)

lemma fails_if_ok: "touches P m \<Longrightarrow> (\<And>d y e. m d \<noteq> (Inr y, e)) \<Longrightarrow> fails_keeping P m"
  unfolding fails_keeping_def touches_def by (metis prod.collapse old.sum.exhaust snd_conv)

lemma assert_keeps: "keeps_running we name \<Longrightarrow> fails_keeping service_file (assert_wireguard_stopped we n name r)"
  by (rule fails_if_ok [OF touches_assert assert_stuck])

lemma stop_keeps: "keeps_running we name \<Longrightarrow> interface_name_of p = Inr name \<Longrightarrow> fails_keeping service_file (stop_wireguard_interface we False p)"
proof (rule fails_if_ok [OF _ stop_refused])
  show "touches service_file (stop_wireguard_interface we False p)" unfolding stop_wireguard_interface_def by (intro touch) simp
qed

lemma bind_known: "dbind (lift_error (Inr y)) f = f y"
  by (rule ext) (simp add: dbind_def lift_error_def)

lemma delete_keeps:
  assumes "keeps_running we name" "interface_name_of p = Inr name"
  shows "fails_keeping service_file (delete_wireguard_config we False p)"
proof -
  have "fails_keeping service_file (dbind (wireguard_status we name) (\<lambda>s. if ws_running s then draise msg else f s))" for f msg
    unfolding fails_keeping_def
  proof (intro allI impI)
    fix d :: disk assume d: "dk_faults d = []"
    obtain x e where w: "wireguard_status we name d = (x, e)" by (cases "wireguard_status we name d")
    have "dk_faults e = []" "\<forall>q. \<not> service_file q \<longrightarrow> dk_files e q = dk_files d q"
      using touches_status [of we name] d w unfolding touches_def by (metis snd_conv)+
    then show "\<exists>msg' e. dbind (wireguard_status we name) (\<lambda>s. if ws_running s then draise msg else f s) d = (Inl msg', e) \<and>
        dk_faults e = [] \<and> (\<forall>q. \<not> service_file q \<longrightarrow> dk_files e q = dk_files d q)"
      using w status_running [OF assms(1)] by (cases x) (auto simp: dbind_def draise_def)
  qed
  from fails_later [OF touches_detect this] show ?thesis unfolding delete_wireguard_config_def Let_def assms(2) bind_known by simp
qed

lemma shown_then: "keeps_running we name \<Longrightarrow> (\<And>w. rp_returncode w = 0 \<Longrightarrow> fails_keeping service_file (f w)) \<Longrightarrow>
  fails_keeping service_file (dbind (run_wg we [''wg'', ''show'', name] True) f)"
proof -
  assume k: "keeps_running we name" and f: "\<And>w. rp_returncode w = 0 \<Longrightarrow> fails_keeping service_file (f w)"
  show ?thesis unfolding fails_keeping_def
  proof (intro allI impI)
    fix d :: disk assume d: "dk_faults d = []"
    obtain w e where w: "run_wg we [''wg'', ''show'', name] True d = (Inr w, e)" "rp_returncode w = 0" using show_running [OF k] by blast
    have "dk_faults e = []" "\<forall>q. \<not> service_file q \<longrightarrow> dk_files e q = dk_files d q"
      using touches_run_wg [of service_file we "[''wg'', ''show'', name]" True, OF service_file_simps(1)] d w(1) unfolding touches_def by (metis snd_conv)+
    then show "\<exists>msg e. dbind (run_wg we [''wg'', ''show'', name] True) f d = (Inl msg, e) \<and> dk_faults e = [] \<and>
        (\<forall>q. \<not> service_file q \<longrightarrow> dk_files e q = dk_files d q)"
      using f [OF w(2), unfolded fails_keeping_def, rule_format, of e] unfolding dbind_def w(1) by simp
  qed
qed

lemma stop_then:
  assumes "keeps_running we name" "touches service_file m"
  shows "fails_keeping service_file (dbind (dbind m (\<lambda>j. dreturn (Some j))) (\<lambda>stop. dbind (case stop of None \<Rightarrow> dreturn None
    | Some j \<Rightarrow> dbind (assert_wireguard_stopped we n name (r j)) (\<lambda>t. dreturn (Some t))) (g stop)))"
proof -
  have a: "dbind (dbind m (\<lambda>j. dreturn (Some j))) F = dbind m (\<lambda>j. F (Some j))" for F :: "_ \<Rightarrow> _ io"
    by (rule ext) (simp add: dbind_def dreturn_def split: prod.split sum.split)
  show ?thesis unfolding a option.case by (intro fails_later [OF assms(2)] fails_now assert_keeps assms(1))
qed

lemma cleanup_keeps:
  assumes "keeps_running we old" "m \<noteq> Unsupported" "old \<noteq> name"
  shows "fails_keeping service_file (cleanup_previous_wireguard_interface we m False (Some old) name)"
proof (cases "m = OpenWrtUci")
  case True
  have "touches service_file (delete_uci_config we old)"
    unfolding delete_uci_config_def delete_existing_config_def by (intro touch) simp_all
  then have "touches service_file (cleanup_openwrt we old)"
    unfolding cleanup_openwrt_def by (intro touch) (auto intro: touch split: option.split)
  then show ?thesis using fails_if_ok [OF _ cleanup_refused [OF assms]] True assms(3)
    by (simp add: cleanup_previous_wireguard_interface_def touch)
next
  case False
  have "fails_keeping service_file (cleanup_wg_quick we m old)"
    unfolding cleanup_wg_quick_def Let_def
    by (intro fails_later [OF touches_manager(1)] shown_then [OF assms(1)]) (auto intro!: stop_then [OF assms(1)] touch)
  then have "fails_keeping service_file (dbind (cleanup_wg_quick we m old) (\<lambda>x. dreturn (Some x)))" by (rule fails_now)
  then show ?thesis using assms False by (cases m) (simp_all add: cleanup_previous_wireguard_interface_def)
qed


section \<open>The scan\<close>

definition scan_size :: "scan_candidate list \<Rightarrow> int" where
  "scan_size cs = sum_list (map (\<lambda>c. utf8_length (sc_content c)) cs)"

definition found_on :: "disk \<Rightarrow> scan_candidate \<Rightarrow> bool" where
  "found_on d c = (content (sc_path c) d = Some (encode_text (sc_content c)) \<and>
     sc_parsed c = parsed_interface_to_dict (parse_wg_quick (sc_content c) (stem (last (sc_path c)))))"

lemma read_text_result: "read_existing_text p d = (x, e) \<Longrightarrow> e = d" "read_existing_text p d = (Inr t, e) \<Longrightarrow> content p d = Some (encode_text t)"
  using encode_decode by (auto simp: read_existing_text_def read_existing_bytes_def dbind_def lift_error_def content_def split: option.splits if_splits)

lemma scan_spec:
  assumes "length found \<le> import_scan_max_candidates" "scan_size found = used" "used \<le> import_scan_max_bytes" "list_all (found_on d) found"
  shows "\<exists>cs. scan_configs ns used found d = (Inr cs, d) \<and> length cs \<le> import_scan_max_candidates \<and> scan_size cs \<le> import_scan_max_bytes \<and>
    list_all (found_on d) cs"
  using assms
proof (induction ns arbitrary: used found)
  case (Cons n ns)
  obtain x where x: "read_existing_text (wireguard_dir @ [n]) d = (x, d)"
    using read_text_result(1) [of "wireguard_dir @ [n]" d] by (cases "read_existing_text (wireguard_dir @ [n]) d") auto
  show ?case
  proof (cases x)
    case (Inl y)
    then show ?thesis using Cons x by simp
  next
    case (Inr t)
    let ?c = "\<lparr>sc_path = wireguard_dir @ [n], sc_content = t, sc_parsed = parsed_interface_to_dict (parse_wg_quick t (stem n))\<rparr>"
    have c: "found_on d ?c" using read_text_result(2) [of "wireguard_dir @ [n]" d t d] x Inr by (simp add: found_on_def)
    show ?thesis using Cons.prems Cons.IH [of found used] Cons.IH [of "found @ [?c]" "used + utf8_length t"] x Inr c
      by (auto simp: scan_size_def Let_def)
  qed
qed (simp add: dreturn_def)

text \<open>A scan for configurations changes nothing, always returns, and reports at most 100 files with at most
  768 KiB of text, each with the content it has on the disk and the interface the parser makes of it.
\<close>

theorem scan_is_bounded:
  "\<exists>cs. scan_wg_quick_configs we d = (Inr cs, d) \<and> length cs \<le> 100 \<and> scan_size cs \<le> 768 * 1024 \<and> list_all (found_on d) cs"
  using scan_spec [of "[]" 0 d "we_configs we"]
  by (auto simp: scan_wg_quick_configs_def dreturn_def import_scan_max_candidates_def import_scan_max_bytes_def scan_size_def)

end
