(* ===== verification/WgSamples.thy ===== *)
theory WgSamples
  imports AgentWgLaws
begin

text \<open>
  A node with \<open>wg-quick\<close> alone on which the properties of the WireGuard back end are applied.
\<close>

definition wg_run :: "int \<Rightarrow> wg_env" where
  "wg_run shown = \<lparr>we_agent = \<lparr>ae_run = (\<lambda>n c fs. \<lparr>cr_returncode = (if take 2 c = [''wg'', ''show''] then shown else 1), cr_stdout = [], cr_stderr = [],
       cr_truncated = False, cr_failure = ''failed''\<rparr>), ae_backend = ''direct'', ae_prefix = ''link42''\<rparr>,
     we_network = (\<lambda>n c fs. fs network_config), we_have = (\<lambda>c. c = ''wg-quick''), we_polls = 0, we_configs = [''w.conf'']\<rparr>"

definition wg_disk :: disk where
  "wg_disk = \<lparr>dk_files = [wireguard_dir @ [''w.conf''] \<mapsto> \<lparr>fl_content = ''old'', fl_regular = True, fl_mode = 384, fl_owner = 0, fl_mtime = 0\<rparr>],
     dk_faults = [], dk_now = 0, dk_count = 0\<rparr>"

definition wg_order :: fields where
  "wg_order = [(''interface_name'', JStr ''w''), (''config'', JStr ''new'')]"

lemma wg_evaluated:
  "interface_name_of wg_order = Inr ''w''" "previous_name_of wg_order = Inr None"
  "\<not> is_ok (fst (apply_wireguard_config (wg_run 1) False wg_order wg_disk))"
  "wireguard_config_path ''w'' = wireguard_dir @ [''w.conf'']" "decode_text ''old'' = Inr ''old''"
  "fst (detect_service_manager (wg_run 1) wg_disk) = Inr DirectWgQuick"
  by code_simp+

lemma wg_running: "keeps_running (wg_run 0) ''w''"
  by (simp add: keeps_running_def run_wg_def run_command_def command_result_of_def wg_run_def)

lemma wg_content: "content (wireguard_config_path ''w'') wg_disk = Some ''old''"
  unfolding wg_evaluated(4) by (simp add: content_def wg_disk_def)

lemma failed_deployment_keeps_configuration_witness:
  "\<not> is_ok (fst (apply_wireguard_config (wg_run 1) False wg_order wg_disk)) \<and>
     content (wireguard_config_path ''w'') (snd (apply_wireguard_config (wg_run 1) False wg_order wg_disk)) = Some ''old''"
proof -
  obtain msg e where a: "apply_wireguard_config (wg_run 1) False wg_order wg_disk = (Inl msg, e)"
    using wg_evaluated(3) by (cases "apply_wireguard_config (wg_run 1) False wg_order wg_disk"; cases "fst (apply_wireguard_config (wg_run 1) False wg_order wg_disk)")
      (auto simp: is_ok_def)
  have f: "dk_faults wg_disk = []" by (simp add: wg_disk_def)
  have m: "fst (detect_service_manager (wg_run 1) wg_disk) \<noteq> Inr OpenWrtUci" unfolding wg_evaluated(6) by simp
  have o: "case content (wireguard_config_path ''w'') wg_disk of None \<Rightarrow> True | Some c \<Rightarrow> \<exists>s. decode_text c = Inr s"
    unfolding wg_content using wg_evaluated(5) by simp
  from failed_deployment_keeps_configuration [OF f wg_evaluated(1,2) m o a] show ?thesis
    using wg_evaluated(3) unfolding a snd_conv wg_content by simp
qed


end
