(* ===== verification/Base64.thy ===== *)
theory Base64
  imports AgentText
begin

text \<open>
  The URL-safe base 64 of the Python library: \<open>base64.urlsafe_b64encode\<close> and the decoder of \<open>binascii\<close>
  with the two ways the program calls it, strictly (\<open>b64decode(.., altchars=b"-_", validate=True)\<close>)
  and leniently (\<open>urlsafe_b64decode\<close>), both of which read \<open>+\<close> and \<open>/\<close> too. Texts decode what was encoded.
\<close>

section \<open>Encoding\<close>

definition base64_alphabet :: string where
  "base64_alphabet = ''ABCDEFGHIJKLMNOPQRSTUVWXYZabcdefghijklmnopqrstuvwxyz0123456789-_''"

definition base64_char :: "int \<Rightarrow> char" where
  "base64_char n = base64_alphabet ! nat n"

fun urlsafe_b64encode :: "bytes \<Rightarrow> string" where
  "urlsafe_b64encode [] = []"
| "urlsafe_b64encode [a] = [base64_char (a div 4), base64_char (16 * (a mod 4)), CHR ''='', CHR ''='']"
| "urlsafe_b64encode [a, b] =
     [base64_char (a div 4), base64_char (16 * (a mod 4) + b div 16), base64_char (4 * (b mod 16)), CHR ''='']"
| "urlsafe_b64encode (a # b # c # bs) =
     [base64_char (a div 4), base64_char (16 * (a mod 4) + b div 16), base64_char (4 * (b mod 16) + c div 64), base64_char (c mod 64)]
     @ urlsafe_b64encode bs"

section \<open>Decoding\<close>

definition base64_value :: "char \<Rightarrow> int option" where
  "base64_value c = (let n = code c in
     if 65 \<le> n \<and> n \<le> 90 then Some (n - 65)
     else if 97 \<le> n \<and> n \<le> 122 then Some (n - 71)
     else if 48 \<le> n \<and> n \<le> 57 then Some (n + 4)
     else if c = CHR ''-'' \<or> c = CHR ''+'' then Some 62
     else if c = CHR ''_'' \<or> c = CHR ''/'' then Some 63 else None)"

text \<open>The loop of \<open>a2b_base64\<close>: the position in a group of four, the bits left over, the padding
  counted since the last digit and whether any was seen. A group that is complete with its padding ends
  the input, after which strictly nothing may follow; other padding and, leniently, other characters are skipped.\<close>

fun a2b_base64 :: "bool \<Rightarrow> nat \<Rightarrow> int \<Rightarrow> nat \<Rightarrow> bool \<Rightarrow> string \<Rightarrow> bytes option" where
  "a2b_base64 strict quad left pads padding [] = (if quad = 0 then Some [] else None)"
| "a2b_base64 strict quad left pads padding (c # s) =
     (if c = CHR ''='' then
        if 2 \<le> quad \<and> 4 \<le> quad + Suc pads then (if strict \<and> s \<noteq> [] then None else Some [])
        else a2b_base64 strict quad left (if 2 \<le> quad then Suc pads else pads) True s
      else case base64_value c of
        None \<Rightarrow> if strict then None else a2b_base64 strict quad left pads padding s
      | Some v \<Rightarrow>
          if strict \<and> padding then None
          else if quad = 0 then a2b_base64 strict 1 v 0 padding s
          else if quad = 1 then map_option (Cons (4 * left + v div 16)) (a2b_base64 strict 2 (v mod 16) 0 padding s)
          else if quad = 2 then map_option (Cons (16 * left + v div 4)) (a2b_base64 strict 3 (v mod 4) 0 padding s)
          else map_option (Cons (64 * left + v)) (a2b_base64 strict 0 0 0 padding s))"

definition is_ascii :: "string \<Rightarrow> bool" where
  "is_ascii s = list_all (\<lambda>c. code c < 128) s"

definition b64decode :: "bool \<Rightarrow> string \<Rightarrow> bytes option" where
  "b64decode strict s = (if strict \<and> starts_with s ''='' then None else a2b_base64 strict 0 0 0 False s)"

section \<open>What is encoded is decoded\<close>

definition are_bytes :: "bytes \<Rightarrow> bool" where
  "are_bytes bs = list_all (\<lambda>b. 0 \<le> b \<and> b < 256) bs"

lemma base64_digits:
  "list_all (\<lambda>n. base64_value (base64_char n) = Some n \<and> base64_char n \<noteq> CHR ''='' \<and> code (base64_char n) < 128
     \<and> \<not> is_space (base64_char n)) [0..63]"
  by code_simp

lemma base64_digit:
  assumes "0 \<le> n" "n < 64"
  shows "base64_value (base64_char n) = Some n" "base64_char n \<noteq> CHR ''=''" "code (base64_char n) < 128" "\<not> is_space (base64_char n)"
proof -
  have "n \<in> set [0..63]" using assms by (simp only: set_upto) simp
  then show "base64_value (base64_char n) = Some n" "base64_char n \<noteq> CHR ''=''" "code (base64_char n) < 128" "\<not> is_space (base64_char n)"
    using base64_digits [unfolded list_all_iff] by blast+
qed

lemma base64_step:
  assumes "0 \<le> n" "n < 64"
  shows "a2b_base64 strict quad left pads False (base64_char n # s) =
     (if quad = 0 then a2b_base64 strict 1 n 0 False s
      else if quad = 1 then map_option (Cons (4 * left + n div 16)) (a2b_base64 strict 2 (n mod 16) 0 False s)
      else if quad = 2 then map_option (Cons (16 * left + n div 4)) (a2b_base64 strict 3 (n mod 4) 0 False s)
      else map_option (Cons (64 * left + n)) (a2b_base64 strict 0 0 0 False s))"
  using base64_digit [OF assms] by simp

lemma byte_bounds:
  fixes a :: int
  assumes "0 \<le> a" "a < 256"
  shows "0 \<le> a div 4" "a div 4 < 64" "0 \<le> a div 16" "a div 16 < 16" "0 \<le> a div 64" "a div 64 < 4"
    "0 \<le> a mod 4" "a mod 4 < 4" "0 \<le> a mod 16" "a mod 16 < 16" "0 \<le> a mod 64" "a mod 64 < 64"
  using assms by (simp_all add: pos_imp_zdiv_nonneg_iff)

lemma shifted:
  fixes x y k :: int
  assumes "0 \<le> y" "y < k"
  shows "(k * x + y) div k = x" "(k * x + y) mod k = y"
  using assms by (simp_all add: div_pos_pos_trivial mod_pos_pos_trivial)

lemma joined:
  fixes x y :: int
  shows "0 \<le> x \<Longrightarrow> x < 4 \<Longrightarrow> 0 \<le> y \<Longrightarrow> y < 16 \<Longrightarrow> 0 \<le> 16 * x + y \<and> 16 * x + y < 64"
    "0 \<le> x \<Longrightarrow> x < 16 \<Longrightarrow> 0 \<le> y \<Longrightarrow> y < 4 \<Longrightarrow> 0 \<le> 4 * x + y \<and> 4 * x + y < 64"
  by simp_all

lemma digit_parts:
  fixes a b :: int
  assumes "0 \<le> a" "a < 256" "0 \<le> b" "b < 256"
  shows "0 \<le> a div 4" "a div 4 < 64" "0 \<le> 16 * (a mod 4) + b div 16" "16 * (a mod 4) + b div 16 < 64"
    "0 \<le> 4 * (a mod 16) + b div 64" "4 * (a mod 16) + b div 64 < 64" "0 \<le> a mod 64" "a mod 64 < 64"
    "4 * (a div 4) + (16 * (a mod 4) + b div 16) div 16 = a" "(16 * (a mod 4) + b div 16) mod 16 = b div 16"
    "16 * (b div 16) + (4 * (b mod 16) + a div 64) div 4 = b" "(4 * (b mod 16) + a div 64) mod 4 = a div 64"
    "64 * (a div 64) + a mod 64 = a"
proof -
  note A = byte_bounds [OF assms(1,2)] and B = byte_bounds [OF assms(3,4)]
  show "0 \<le> a div 4" "a div 4 < 64" "0 \<le> a mod 64" "a mod 64 < 64" by (fact A)+
  show "0 \<le> 16 * (a mod 4) + b div 16" "16 * (a mod 4) + b div 16 < 64" using joined(1) [OF A(7,8) B(3,4)] by blast+
  show "0 \<le> 4 * (a mod 16) + b div 64" "4 * (a mod 16) + b div 64 < 64" using joined(2) [OF A(9,10) B(5,6)] by blast+
  show "(16 * (a mod 4) + b div 16) mod 16 = b div 16" by (rule shifted(2) [OF B(3,4)])
  show "(4 * (b mod 16) + a div 64) mod 4 = a div 64" by (rule shifted(2) [OF A(5,6)])
  show "4 * (a div 4) + (16 * (a mod 4) + b div 16) div 16 = a" unfolding shifted(1) [OF B(3,4)] by simp
  show "16 * (b div 16) + (4 * (b mod 16) + a div 64) div 4 = b" unfolding shifted(1) [OF A(5,6)] by simp
  show "64 * (a div 64) + a mod 64 = a" by simp
qed

lemma digit_ends:
  fixes a :: int
  assumes "0 \<le> a" "a < 256"
  shows "0 \<le> 16 * (a mod 4)" "16 * (a mod 4) < 64" "4 * (a div 4) + (16 * (a mod 4)) div 16 = a"
    "0 \<le> 4 * (a mod 16)" "4 * (a mod 16) < 64" "16 * (a div 16) + (4 * (a mod 16)) div 4 = a"
  using byte_bounds(7-10) [OF assms] by simp_all

lemma digit_rests:
  fixes a b :: int
  assumes "0 \<le> a" "a < 256" "0 \<le> b" "b < 256"
  shows "b div 16 div 16 = 0" "a div 64 div 4 = 0" "16 * (b div 16 mod 16) + b mod 16 = b" "64 * (a div 64 mod 4) + a mod 64 = a"
  using byte_bounds(5,6) [OF assms(1,2)] byte_bounds(3,4) [OF assms(3,4)]
  by (simp_all add: div_pos_pos_trivial mod_pos_pos_trivial)
lemma decode_encoded: "are_bytes bs \<Longrightarrow> a2b_base64 strict 0 l p False (urlsafe_b64encode bs) = Some bs"
proof (induction bs arbitrary: l p rule: urlsafe_b64encode.induct)
  case (2 a)
  then have a: "0 \<le> a" "a < 256" by (auto simp: are_bytes_def)
  note d = digit_parts [OF a a] digit_ends [OF a]
  show ?case by (simp add: base64_step d del: a2b_base64.simps(2)) simp
next
  case (3 a b)
  then have a: "0 \<le> a" "a < 256" and b: "0 \<le> b" "b < 256" by (auto simp: are_bytes_def)
  note d = digit_parts [OF a b] digit_ends [OF b]
  show ?case by (simp add: base64_step d del: a2b_base64.simps(2)) (simp add: digit_rests [OF b b])
next
  case (4 a b c bs)
  then have a: "0 \<le> a" "a < 256" and b: "0 \<le> b" "b < 256" and c: "0 \<le> c" "c < 256" and r: "are_bytes bs"
    by (auto simp: are_bytes_def)
  note d = digit_parts [OF a b] digit_parts [OF b c] digit_parts [OF c b]
  show ?case by (simp add: base64_step d 4(1) [OF r] del: a2b_base64.simps(2)) (simp add: digit_rests [OF c b])
qed (simp add: are_bytes_def)

lemma encoded_ascii: "are_bytes bs \<Longrightarrow> is_ascii (urlsafe_b64encode bs)"
proof (induction bs rule: urlsafe_b64encode.induct)
  case (2 a)
  then have a: "0 \<le> a" "a < 256" by (auto simp: are_bytes_def)
  then show ?case by (simp add: is_ascii_def base64_digit digit_parts [OF a a] digit_ends [OF a]) (simp add: code_def)
next
  case (3 a b)
  then have a: "0 \<le> a" "a < 256" and b: "0 \<le> b" "b < 256" by (auto simp: are_bytes_def)
  then show ?case by (simp add: is_ascii_def base64_digit digit_parts [OF a b] digit_ends [OF b]) (simp add: code_def)
next
  case (4 a b c bs)
  then have a: "0 \<le> a" "a < 256" and b: "0 \<le> b" "b < 256" and c: "0 \<le> c" "c < 256" and r: "are_bytes bs"
    by (auto simp: are_bytes_def)
  then show ?case using 4(1) [OF r]
    by (simp add: is_ascii_def base64_digit digit_parts [OF a b] digit_parts [OF b c] digit_parts [OF c c])
qed (simp add: is_ascii_def)

lemma encoded_first: "are_bytes bs \<Longrightarrow> \<not> starts_with (urlsafe_b64encode bs) ''=''"
  by (induction bs rule: urlsafe_b64encode.induct)
    (auto simp: are_bytes_def starts_with_Cons base64_digit digit_parts(1,2))

lemma b64_round_trip: "are_bytes bs \<Longrightarrow> b64decode strict (urlsafe_b64encode bs) = Some bs"
  by (simp add: b64decode_def encoded_first decode_encoded)

end
