(* ===== verification/SecretStore.thy ===== *)
theory SecretStore
  imports Base64 JsonText
begin

text \<open>
  Secrets in the controller's database (\<open>secret_store.py\<close>, and the migration of \<open>database.py\<close>): the master
  key and its file, texts and JSON values as they are stored and read back, and the encryption of the
  plain values an older release left. The cipher (AES-GCM of the package cryptography) is a parameter:
  what it makes of a key, a nonce, a text and the associated data, and what it recovers when the
  authentication succeeds. Random nonces are drawn from a supply by number.
\<close>

section \<open>Texts\<close>

record vault =
  vt_encrypt :: "bytes \<Rightarrow> bytes \<Rightarrow> bytes \<Rightarrow> bytes \<Rightarrow> bytes"
  vt_decrypt :: "bytes \<Rightarrow> bytes \<Rightarrow> bytes \<Rightarrow> bytes \<Rightarrow> bytes option"
  vt_key :: bytes
  vt_nonces :: "nat \<Rightarrow> bytes"

definition encrypted_prefix :: string where "encrypted_prefix = ''l42enc:v1:''"
definition associated_data :: bytes where "associated_data = utf8_encode ''link42-controller-secret:v1''"

definition sealed :: "string \<Rightarrow> bool" where
  "sealed s = starts_with s encrypted_prefix"

definition encrypt_text :: "vault \<Rightarrow> string \<Rightarrow> nat \<Rightarrow> string \<times> nat" where
  "encrypt_text v s n = (if sealed s then (s, n)
     else (encrypted_prefix @ urlsafe_b64encode (vt_nonces v n @ vt_encrypt v (vt_key v) (vt_nonces v n) (utf8_encode s) associated_data), Suc n))"

definition authentication_failed :: string where
  "authentication_failed = ''encrypted database value authentication failed''"

definition decode_utf8 :: "bytes \<Rightarrow> string option" where
  "decode_utf8 bs = (let s = utf8_decode bs in if utf8_encode s = bs then Some s else None)"

definition decrypt_text :: "vault \<Rightarrow> string \<Rightarrow> (string, string) result" where
  "decrypt_text v s = (if \<not> sealed s then Inr s
     else let t = drop (length encrypted_prefix) s in
       case (if is_ascii t then b64decode False t else None) of None \<Rightarrow> Inl authentication_failed
       | Some p \<Rightarrow> (case vt_decrypt v (vt_key v) (take 12 p) (drop 12 p) associated_data of None \<Rightarrow> Inl authentication_failed
         | Some bs \<Rightarrow> some_or (decode_utf8 bs) authentication_failed))"

section \<open>JSON values\<close>

fun smap :: "('a \<Rightarrow> nat \<Rightarrow> 'b \<times> nat) \<Rightarrow> 'a list \<Rightarrow> nat \<Rightarrow> 'b list \<times> nat" where
  "smap f [] n = ([], n)"
| "smap f (x # xs) n = (case f x n of (y, m) \<Rightarrow> case smap f xs m of (ys, k) \<Rightarrow> (y # ys, k))"

lemma smap_cong [fundef_cong]:
  "xs = ys \<Longrightarrow> (\<And>x n. x \<in> set ys \<Longrightarrow> f x n = g x n) \<Longrightarrow> smap f xs n = smap g ys n"
proof (induction ys arbitrary: xs n)
  case (Cons y ys)
  then show ?case by (auto split: prod.split)
qed simp

lemma rmap_cong [fundef_cong]:
  "xs = ys \<Longrightarrow> (\<And>x. x \<in> set ys \<Longrightarrow> f x = g x) \<Longrightarrow> rmap f xs = rmap g ys"
proof (induction ys arbitrary: xs)
  case (Cons y ys)
  then show ?case by simp
qed simp

fun protect_json_value :: "vault \<Rightarrow> json \<Rightarrow> nat \<Rightarrow> json \<times> nat" where
  "protect_json_value v (JStr s) n = (case encrypt_text v s n of (t, m) \<Rightarrow> (JStr t, m))"
| "protect_json_value v (JList xs) n = (case smap (protect_json_value v) xs n of (ys, m) \<Rightarrow> (JList ys, m))"
| "protect_json_value v (JObj d) n = (case smap (\<lambda>x n. case protect_json_value v (snd x) n of (y, m) \<Rightarrow> ((fst x, y), m)) d n of (e, m) \<Rightarrow> (JObj e, m))"
| "protect_json_value v x n = (x, n)"

fun reveal_json_value :: "vault \<Rightarrow> json \<Rightarrow> (string, json) result" where
  "reveal_json_value v (JStr s) = rbind (decrypt_text v s) (\<lambda>t. Inr (JStr t))"
| "reveal_json_value v (JList xs) = rbind (rmap (reveal_json_value v) xs) (\<lambda>ys. Inr (JList ys))"
| "reveal_json_value v (JObj d) = rbind (rmap (\<lambda>x. rbind (reveal_json_value v (snd x)) (\<lambda>y. Inr (fst x, y))) d) (\<lambda>e. Inr (JObj e))"
| "reveal_json_value v x = Inr x"

section \<open>Columns\<close>

text \<open>\<open>EncryptedText\<close> and \<open>EncryptedJSON\<close>: what is bound to a statement and what a row gives back.\<close>

definition bind_encrypted_text :: "vault \<Rightarrow> string option \<Rightarrow> nat \<Rightarrow> string option \<times> nat" where
  "bind_encrypted_text v x n = (case x of None \<Rightarrow> (None, n) | Some s \<Rightarrow> (case encrypt_text v s n of (t, m) \<Rightarrow> (Some t, m)))"

definition encrypted_text_result :: "vault \<Rightarrow> string option \<Rightarrow> (string, string option) result" where
  "encrypted_text_result v x = (case x of None \<Rightarrow> Inr None | Some s \<Rightarrow> rbind (decrypt_text v s) (\<lambda>t. Inr (Some t)))"

definition encrypted_json_result :: "vault \<Rightarrow> json \<Rightarrow> (string, json) result" where
  "encrypted_json_result v x = (case x of
      JStr s \<Rightarrow> if sealed s then rbind (decrypt_text v s) (\<lambda>t. Inr (the_or (JStr t) (loads t))) else reveal_json_value v x
    | _ \<Rightarrow> reveal_json_value v x)"

section \<open>The master key\<close>

definition decode_master_key :: "string \<Rightarrow> (string, bytes) result" where
  "decode_master_key s = (let t = strip s in
     case (if is_ascii t then b64decode True t else None) of None \<Rightarrow> Inl ''LINK42_MASTER_KEY must be URL-safe base64''
     | Some key \<Rightarrow> if length key \<noteq> 32 then Inl ''LINK42_MASTER_KEY must decode to exactly 32 bytes'' else Inr key)"

definition max_master_key_file_bytes :: nat where "max_master_key_file_bytes = 4096"

text \<open>The bytes of the file, when it is a regular one.\<close>

definition read_master_key_file :: "string option \<Rightarrow> (string, bytes) result" where
  "read_master_key_file file = (case file of None \<Rightarrow> Inl ''Link42 master key path must be a regular file''
     | Some content \<Rightarrow> if max_master_key_file_bytes < length content then Inl ''Link42 master key file is too large''
         else if \<not> is_ascii content then Inl ''Link42 master key file must be ASCII base64'' else decode_master_key content)"

definition master_key_text :: "bytes \<Rightarrow> string" where
  "master_key_text key = urlsafe_b64encode key @ [CHR 0x0A]"

text \<open>\<open>load_master_key\<close> of a process alone: the environment's key, the file's, or a new one and its file.\<close>

definition load_master_key :: "string \<Rightarrow> string option \<Rightarrow> bytes \<Rightarrow> (string, bytes) result \<times> string option" where
  "load_master_key configured file drawn = (let c = strip configured in
     if c \<noteq> [] then (decode_master_key c, file)
     else case file of None \<Rightarrow> (Inr drawn, Some (master_key_text drawn)) | Some f \<Rightarrow> (read_master_key_file file, file))"

text \<open>Several processes may start at once. Each finds the file or draws a key, publishes its own by a hard
  link that never replaces a file, and reads the published one when another was first.\<close>

datatype starter = Starting | Drawn bytes | Reading | Holding bytes | Refused string

record key_world =
  kw_file :: "string option"
  kw_starters :: "nat \<Rightarrow> starter"

definition read_step :: "string option \<Rightarrow> starter" where
  "read_step file = (case read_master_key_file file of Inl e \<Rightarrow> Refused e | Inr key \<Rightarrow> Holding key)"

definition becomes :: "nat \<Rightarrow> starter \<Rightarrow> key_world \<Rightarrow> key_world" where
  "becomes i x w = w\<lparr>kw_starters := (kw_starters w)(i := x)\<rparr>"

inductive key_step :: "key_world \<Rightarrow> key_world \<Rightarrow> bool" where
  found: "kw_starters w i = Starting \<Longrightarrow> kw_file w = Some f \<Longrightarrow> key_step w (becomes i Reading w)"
| draw: "kw_starters w i = Starting \<Longrightarrow> kw_file w = None \<Longrightarrow> length key = 32 \<Longrightarrow> are_bytes key \<Longrightarrow> key_step w (becomes i (Drawn key) w)"
| publish: "kw_starters w i = Drawn key \<Longrightarrow> kw_file w = None \<Longrightarrow>
    key_step w (becomes i (Holding key) (w\<lparr>kw_file := Some (master_key_text key)\<rparr>))"
| too_late: "kw_starters w i = Drawn key \<Longrightarrow> kw_file w = Some f \<Longrightarrow> key_step w (becomes i Reading w)"
| read_key: "kw_starters w i = Reading \<Longrightarrow> key_step w (becomes i (read_step (kw_file w)) w)"

section \<open>Migration of plain values\<close>

text \<open>A table of the database file: its columns and its rows, each an identifier with the texts of its columns.\<close>

record stored_table =
  st_columns :: "string list"
  st_rows :: "(int \<times> (string \<Rightarrow> string option)) list"

type_synonym stored = "string \<Rightarrow> stored_table option"

definition sensitive_text_columns :: "(string \<times> string) list" where
  "sensitive_text_columns = [(''wg_interfaces'', ''private_key_value''), (''wg_interfaces'', ''deployed_config''), (''wg_peers'', ''preshared_key_value'')]"

definition sensitive_json_columns :: "(string \<times> string) list" where
  "sensitive_json_columns = [(''import_candidates'', ''parsed''), (''change_plans'', ''diff''), (''change_plans'', ''payload''),
     (''agent_tasks'', ''payload''), (''agent_tasks'', ''result'')]"

text \<open>\<open>json.dumps(v, ensure_ascii=False, separators=(",", ":"))\<close>\<close>

fun compact :: "json \<Rightarrow> string" where
  "compact (JList xs) = ''['' @ join '','' (map compact xs) @ '']''"
| "compact (JObj d) = ''{'' @ join '','' (map (\<lambda>x. dump_str (fst x) @ '':'' @ compact (snd x)) d) @ ''}''"
| "compact v = dump_text v"

text \<open>The new value of a cell, if it changes.\<close>

definition protect_text_cell :: "vault \<Rightarrow> string \<Rightarrow> nat \<Rightarrow> string option \<times> nat" where
  "protect_text_cell v s n = (if sealed s then (None, n) else case encrypt_text v s n of (t, m) \<Rightarrow> (Some t, m))"

definition protect_json_cell :: "vault \<Rightarrow> string \<Rightarrow> nat \<Rightarrow> string option \<times> nat" where
  "protect_json_cell v s n = (let parsed = the_or (JStr s) (loads s) in
     case protect_json_value v parsed n of (p, m) \<Rightarrow> (if p = parsed then None else Some (compact p), m))"

fun protect_rows :: "(string \<Rightarrow> nat \<Rightarrow> string option \<times> nat) \<Rightarrow> string \<Rightarrow> (int \<times> (string \<Rightarrow> string option)) list \<Rightarrow> nat \<Rightarrow> nat
     \<Rightarrow> (int \<times> (string \<Rightarrow> string option)) list \<times> nat \<times> nat" where
  "protect_rows f c [] n changed = ([], n, changed)"
| "protect_rows f c ((i, r) # rows) n changed = (case r c of
      None \<Rightarrow> (case protect_rows f c rows n changed of (rs, m) \<Rightarrow> ((i, r) # rs, m))
    | Some s \<Rightarrow> (case f s n of
        (None, k) \<Rightarrow> (case protect_rows f c rows k changed of (rs, m) \<Rightarrow> ((i, r) # rs, m))
      | (Some t, k) \<Rightarrow> (case protect_rows f c rows k (Suc changed) of (rs, m) \<Rightarrow> ((i, r(c := Some t)) # rs, m))))"

definition protect_column :: "(string \<Rightarrow> nat \<Rightarrow> string option \<times> nat) \<Rightarrow> string \<times> string \<Rightarrow> stored \<times> nat \<times> nat \<Rightarrow> stored \<times> nat \<times> nat" where
  "protect_column f tc s = (case s of (db, n, changed) \<Rightarrow> case db (fst tc) of None \<Rightarrow> s
     | Some t \<Rightarrow> if snd tc \<notin> set (st_columns t) then s
         else (case protect_rows f (snd tc) (st_rows t) n changed of (rows, m) \<Rightarrow> (db(fst tc \<mapsto> t\<lparr>st_rows := rows\<rparr>), m)))"

text \<open>Recoverable tokens of agents are erased.\<close>

definition erase_tokens :: "stored \<Rightarrow> stored \<times> nat" where
  "erase_tokens db = (case db ''nodes'' of None \<Rightarrow> (db, 0)
     | Some t \<Rightarrow> if ''agent_token_value'' \<notin> set (st_columns t) then (db, 0)
         else (db(''nodes'' \<mapsto> t\<lparr>st_rows := map (\<lambda>(i, r). (i, r(''agent_token_value'' := None))) (st_rows t)\<rparr>),
           length (filter (\<lambda>(i, r). r ''agent_token_value'' \<noteq> None) (st_rows t))))"

definition protect_sqlite_sensitive_values :: "vault \<Rightarrow> stored \<Rightarrow> nat \<Rightarrow> stored \<times> nat \<times> nat" where
  "protect_sqlite_sensitive_values v db n = (case erase_tokens db of (db1, erased) \<Rightarrow>
     fold (protect_column (protect_json_cell v)) sensitive_json_columns
       (fold (protect_column (protect_text_cell v)) sensitive_text_columns (db1, n, erased)))"

end
