(* ===== verification/SecretLaws.thy ===== *)
theory SecretLaws
  imports SecretStore AgentIo
begin

text \<open>
  Laws of the secret store: processes that start together hold one key, what is protected is sealed
  and read back, and the migration seals every plain value without changing what it means.
\<close>

section \<open>The master key\<close>

lemma strip_solid: "list_all (\<lambda>c. \<not> is_space c) s \<Longrightarrow> strip s = s"
proof -
  have d: "dropWhile is_space t = t" if "list_all (\<lambda>c. \<not> is_space c) t" for t using that by (cases t) auto
  assume "list_all (\<lambda>c. \<not> is_space c) s"
  then show ?thesis by (simp add: strip_def strip_by_def d)
qed

lemma strip_line: "list_all (\<lambda>c. \<not> is_space c) s \<Longrightarrow> strip (s @ [CHR 0x0A]) = s"
proof -
  assume a: "list_all (\<lambda>c. \<not> is_space c) s"
  have n: "is_space (CHR 0x0A)" by code_simp
  have d: "dropWhile is_space t = t" if "list_all (\<lambda>c. \<not> is_space c) t" for t using that by (cases t) auto
  show ?thesis
  proof (cases s)
    case Nil
    then show ?thesis by (simp add: strip_def strip_by_def n)
  next
    case (Cons c t)
    then have "dropWhile is_space (s @ [CHR 0x0A]) = s @ [CHR 0x0A]" using a by simp
    moreover have "dropWhile is_space (rev s) = rev s" using a d [of "rev s"] by simp
    ultimately show ?thesis by (simp add: strip_def strip_by_def n)
  qed
qed

lemma encoded_solid: "are_bytes bs \<Longrightarrow> list_all (\<lambda>c. \<not> is_space c) (urlsafe_b64encode bs)"
proof (induction bs rule: urlsafe_b64encode.induct)
  case (2 a)
  then have a: "0 \<le> a" "a < 256" by (auto simp: are_bytes_def)
  have e: "\<not> is_space (CHR ''='')" by code_simp
  show ?case by (simp add: base64_digit digit_parts [OF a a] digit_ends [OF a] e)
next
  case (3 a b)
  then have a: "0 \<le> a" "a < 256" and b: "0 \<le> b" "b < 256" by (auto simp: are_bytes_def)
  have e: "\<not> is_space (CHR ''='')" by code_simp
  show ?case by (simp add: base64_digit digit_parts [OF a b] digit_ends [OF b] e)
next
  case (4 a b c bs)
  then have a: "0 \<le> a" "a < 256" and b: "0 \<le> b" "b < 256" and c: "0 \<le> c" "c < 256" and r: "are_bytes bs"
    by (auto simp: are_bytes_def)
  show ?case using 4(1) [OF r] by (simp add: base64_digit digit_parts [OF a b] digit_parts [OF b c] digit_parts [OF c c])
qed simp

lemma encoded_length: "length (urlsafe_b64encode bs) = 4 * ((length bs + 2) div 3)"
proof (induction bs rule: urlsafe_b64encode.induct)
  case (4 a b c bs)
  have "length (a # b # c # bs) + 2 = (length bs + 2) + 3" by simp
  then have "(length (a # b # c # bs) + 2) div 3 = (length bs + 2) div 3 + 1" by (simp only: div_add_self2)
  then show ?case using 4 by simp
qed simp_all

definition good_key :: "bytes \<Rightarrow> bool" where
  "good_key key = (length key = 32 \<and> are_bytes key)"

lemma read_published: "good_key key \<Longrightarrow> read_master_key_file (Some (master_key_text key)) = Inr key"
proof -
  assume k: "good_key key"
  then have b: "are_bytes key" and l: "length key = 32" by (auto simp: good_key_def)
  have "code (CHR 0x0A) < 128" by code_simp
  then have a: "is_ascii (master_key_text key)" using encoded_ascii [OF b] by (simp add: master_key_text_def is_ascii_def)
  have s: "length (master_key_text key) \<le> max_master_key_file_bytes"
    by (simp add: master_key_text_def encoded_length l max_master_key_file_bytes_def)
  have "strip (master_key_text key) = urlsafe_b64encode key"
    unfolding master_key_text_def by (rule strip_line [OF encoded_solid [OF b]])
  then show ?thesis using a s encoded_ascii [OF b]
    by (simp add: read_master_key_file_def decode_master_key_def b64_round_trip [OF b] l)
qed

definition fresh_start :: "key_world \<Rightarrow> bool" where
  "fresh_start w = (kw_file w = None \<and> (\<forall>i. kw_starters w i = Starting))"

definition one_key :: "key_world \<Rightarrow> bool" where
  "one_key w = (case kw_file w of
      None \<Rightarrow> \<forall>i. kw_starters w i = Starting \<or> (\<exists>k. good_key k \<and> kw_starters w i = Drawn k)
    | Some f \<Rightarrow> \<exists>key. good_key key \<and> f = master_key_text key \<and>
        (\<forall>i. kw_starters w i \<in> {Starting, Reading, Holding key} \<or> (\<exists>k. good_key k \<and> kw_starters w i = Drawn k)))"

lemma becomes_simps [simp]:
  "kw_file (becomes i x w) = kw_file w" "kw_starters (becomes i x w) j = (if j = i then x else kw_starters w j)"
  by (simp_all add: becomes_def)

lemma one_key_step: "key_step w w' \<Longrightarrow> one_key w \<Longrightarrow> one_key w'"
proof (induction rule: key_step.induct)
  case (publish w i key)
  then have "good_key key" by (auto simp: one_key_def dest: spec [of _ i])
  then show ?case using publish by (auto simp: one_key_def)
next
  case (read_key w i)
  obtain f where f: "kw_file w = Some f" using read_key by (cases "kw_file w") (auto simp: one_key_def dest: spec [of _ i])
  then obtain key where k: "good_key key" "f = master_key_text key"
    and w: "\<forall>i. kw_starters w i \<in> {Starting, Reading, Holding key} \<or> (\<exists>k. good_key k \<and> kw_starters w i = Drawn k)"
    using read_key unfolding one_key_def by auto
  have "read_step (kw_file w) = Holding key" unfolding f k(2) read_step_def read_published [OF k(1)] by simp
  then show ?case using f k w by (auto simp: one_key_def)
qed (auto simp: one_key_def good_key_def split: option.splits)

lemma one_key_reached: "key_step\<^sup>*\<^sup>* w w' \<Longrightarrow> one_key w \<Longrightarrow> one_key w'"
  by (induction rule: rtranclp_induct) (auto intro: one_key_step)

text \<open>C25: Processes that start at once on an empty directory, whatever their steps interleave, end with one and the
  same key, which is the one the file holds, and none is refused.
\<close>

theorem starters_hold_one_key:
  assumes "fresh_start w" "key_step\<^sup>*\<^sup>* w w'"
  shows "(kw_starters w' i = Holding k \<longrightarrow> read_master_key_file (kw_file w') = Inr k) \<and> (\<forall>e. kw_starters w' i \<noteq> Refused e)"
proof -
  have "one_key w" using assms(1) by (simp add: fresh_start_def one_key_def)
  then have o: "one_key w'" using one_key_reached assms(2) by blast
  show ?thesis
  proof (cases "kw_file w'")
    case None
    then have s: "kw_starters w' i = Starting \<or> (\<exists>k. good_key k \<and> kw_starters w' i = Drawn k)" using o by (simp add: one_key_def)
    then show ?thesis by auto
  next
    case (Some f)
    then obtain key where k: "good_key key" "f = master_key_text key"
      and s: "kw_starters w' i \<in> {Starting, Reading, Holding key} \<or> (\<exists>k. good_key k \<and> kw_starters w' i = Drawn k)"
      using o by (auto simp: one_key_def)
    show ?thesis using s by (auto simp: Some k(2) read_published [OF k(1)])
  qed
qed

lemma sample_key: "good_key (replicate 32 7)"
  by (simp add: good_key_def are_bytes_def list_all_iff)

text \<open>One process draws a key, another one draws a second key, the first publishes, and the other reads.\<close>

definition start_world :: "key_world" where
  "start_world = \<lparr>kw_file = None, kw_starters = (\<lambda>_. Starting)\<rparr>"

definition end_world :: "key_world" where
  "end_world = becomes 1 (Holding (replicate 32 7)) (becomes 1 Reading (becomes 0 (Holding (replicate 32 7))
     ((becomes 1 (Drawn (replicate 32 9)) (becomes 0 (Drawn (replicate 32 7)) start_world))\<lparr>kw_file := Some (master_key_text (replicate 32 7))\<rparr>)))"

lemma end_reached: "key_step\<^sup>*\<^sup>* start_world end_world"
proof -
  let ?a = "becomes 0 (Drawn (replicate 32 7)) start_world"
  let ?b = "becomes 1 (Drawn (replicate 32 9)) ?a"
  let ?c = "becomes 0 (Holding (replicate 32 7)) (?b\<lparr>kw_file := Some (master_key_text (replicate 32 7))\<rparr>)"
  let ?d = "becomes 1 Reading ?c"
  have "key_step start_world ?a" by (rule draw) (simp_all add: start_world_def are_bytes_def list_all_iff)
  moreover have "key_step ?a ?b" by (rule draw) (simp_all add: start_world_def are_bytes_def list_all_iff)
  moreover have "key_step ?b ?c" by (rule publish) (simp_all add: start_world_def)
  moreover have "key_step ?c ?d" by (rule too_late [where key = "replicate 32 9"]) (simp_all add: becomes_def)
  moreover have "key_step ?d end_world"
  proof -
    have "read_step (kw_file ?d) = Holding (replicate 32 7)" by (simp add: read_step_def read_published [OF sample_key] becomes_def)
    then show ?thesis using read_key [of ?d 1] by (simp add: end_world_def)
  qed
  ultimately show ?thesis by (meson r_into_rtranclp rtranclp_trans)
qed

lemma starters_hold_one_key_witness:
  "fresh_start start_world \<and> key_step\<^sup>*\<^sup>* start_world end_world \<and> kw_starters end_world 1 = Holding (replicate 32 7) \<and>
    read_master_key_file (kw_file end_world) = Inr (replicate 32 7)"
proof -
  have f: "fresh_start start_world" by (simp add: fresh_start_def start_world_def)
  have h: "kw_starters end_world 1 = Holding (replicate 32 7)" by (simp add: end_world_def)
  then show ?thesis using starters_hold_one_key [OF f end_reached, of 1 "replicate 32 7"] f end_reached by simp
qed

section \<open>What is protected is read back\<close>

text \<open>The package's cipher: nonces are twelve bytes, and what was encrypted is decrypted with the same key,
  nonce and data.\<close>

definition sound_vault :: "vault \<Rightarrow> bool" where
  "sound_vault v = ((\<forall>n. length (vt_nonces v n) = 12 \<and> are_bytes (vt_nonces v n)) \<and>
     (\<forall>key nonce s ad. are_bytes s \<longrightarrow> are_bytes (vt_encrypt v key nonce s ad) \<and> vt_decrypt v key nonce (vt_encrypt v key nonce s ad) ad = Some s))"

lemma text_bytes: "are_bytes (utf8_encode s)"
  unfolding are_bytes_def by (rule utf8_encode_bytes)

lemma sealed_encrypted [simp]: "sealed (fst (encrypt_text v s n))"
  by (simp add: encrypt_text_def sealed_def)

lemma decrypt_encrypted:
  assumes "sound_vault v" "\<not> sealed s"
  shows "decrypt_text v (fst (encrypt_text v s n)) = Inr s"
proof -
  let ?p = "vt_nonces v n @ vt_encrypt v (vt_key v) (vt_nonces v n) (utf8_encode s) associated_data"
  have l: "length (vt_nonces v n) = 12" and b: "are_bytes ?p"
    and d: "vt_decrypt v (vt_key v) (vt_nonces v n) (vt_encrypt v (vt_key v) (vt_nonces v n) (utf8_encode s) associated_data) associated_data
      = Some (utf8_encode s)"
    using assms(1) text_bytes [of s] by (auto simp: sound_vault_def are_bytes_def)
  have "sealed (encrypted_prefix @ urlsafe_b64encode ?p)" by (simp add: sealed_def)
  moreover have "fst (encrypt_text v s n) = encrypted_prefix @ urlsafe_b64encode ?p" using assms(2) by (simp add: encrypt_text_def)
  ultimately show ?thesis
    by (simp add: decrypt_text_def encoded_ascii [OF b] b64_round_trip [OF b] l d decode_utf8_def utf8_round_trip some_or_def)
qed

definition strings_where :: "(string \<Rightarrow> bool) \<Rightarrow> json \<Rightarrow> bool" where
  "strings_where P = json_all (\<lambda>x. case x of JStr s \<Rightarrow> P s | _ \<Rightarrow> True)"

lemma strings_where_simps [simp]:
  "strings_where P (JStr s) = P s" "strings_where P (JList xs) = list_all (strings_where P) xs"
  "strings_where P (JObj d) = list_all (\<lambda>x. strings_where P (snd x)) d"
  "strings_where P JNull" "strings_where P (JBool b)" "strings_where P (JInt i)" "strings_where P (JFloat t)"
  by (simp_all add: strings_where_def split_def)

lemma smap_fst [simp]: "fst (smap f (x # xs) n) = fst (f x n) # fst (smap f xs (snd (f x n)))"
  by (simp add: split_def)

declare smap.simps(2) [simp del]

lemma smap_all: "(\<And>x n. x \<in> set xs \<Longrightarrow> Q (fst (f x n))) \<Longrightarrow> list_all Q (fst (smap f xs n))"
proof (induction xs arbitrary: n)
  case (Cons x xs)
  show ?case using Cons.IH [of "snd (f x n)"] Cons.prems by simp
qed simp

lemma smap_rmap: "(\<And>x n. x \<in> set xs \<Longrightarrow> g (fst (f x n)) = Inr x) \<Longrightarrow> rmap g (fst (smap f xs n)) = Inr xs"
proof (induction xs arbitrary: n)
  case (Cons x xs)
  show ?case using Cons.IH [of "snd (f x n)"] Cons.prems by (simp add: rbind_def)
qed simp

lemma protect_fst [simp]:
  "fst (protect_json_value v (JStr s) n) = JStr (fst (encrypt_text v s n))"
  "fst (protect_json_value v (JList xs) n) = JList (fst (smap (protect_json_value v) xs n))"
  "fst (protect_json_value v (JObj d) n) = JObj (fst (smap (\<lambda>x n. ((fst x, fst (protect_json_value v (snd x) n)), snd (protect_json_value v (snd x) n))) d n))"
  by (simp_all add: split_def)

declare protect_json_value.simps(1-3) [simp del]

lemma protected_sealed: "strings_where sealed (fst (protect_json_value v j n))"
proof (induction j arbitrary: n)
  case (JList xs)
  then show ?case by (simp add: smap_all)
next
  case (JObj d)
  have "list_all (\<lambda>x. strings_where sealed (snd x)) (fst (smap (\<lambda>x n. ((fst x, fst (protect_json_value v (snd x) n)), snd (protect_json_value v (snd x) n))) d n))"
    by (rule smap_all) (use JObj in \<open>auto simp: snds.simps\<close>)
  then show ?case by simp
qed simp_all

lemma reveal_protected: "sound_vault v \<Longrightarrow> strings_where (\<lambda>s. \<not> sealed s) j \<Longrightarrow> reveal_json_value v (fst (protect_json_value v j n)) = Inr j"
proof (induction j arbitrary: n)
  case (JStr s)
  then show ?case by (simp add: decrypt_encrypted rbind_def)
next
  case (JList xs)
  have "rmap (reveal_json_value v) (fst (smap (protect_json_value v) xs n)) = Inr xs"
    by (rule smap_rmap) (use JList in \<open>auto simp: list_all_iff\<close>)
  then show ?case by (simp add: rbind_def)
next
  case (JObj d)
  have "rmap (\<lambda>x. rbind (reveal_json_value v (snd x)) (\<lambda>y. Inr (fst x, y)))
    (fst (smap (\<lambda>x n. ((fst x, fst (protect_json_value v (snd x) n)), snd (protect_json_value v (snd x) n))) d n)) = Inr d"
    by (rule smap_rmap) (use JObj in \<open>auto simp: list_all_iff snds.simps rbind_def\<close>)
  then show ?case by (simp add: rbind_def)
qed simp_all

text \<open>C23: What a task, a plan or an import candidate stores as JSON is read back as it was, and in the row every
  text of it is sealed, provided that the cipher decrypts what it encrypted and no text of the value starts
  with the prefix of sealed texts. The value at the root is an object or a list, as the models declare.
\<close>

theorem stored_json_is_sealed_and_read_back:
  assumes "sound_vault v" "strings_where (\<lambda>s. \<not> sealed s) (JObj d)"
  shows "strings_where sealed (fst (protect_json_value v (JObj d) n)) \<and>
    encrypted_json_result v (fst (protect_json_value v (JObj d) n)) = Inr (JObj d)"
  using protected_sealed [of v "JObj d" n] reveal_protected [OF assms] by (simp add: encrypted_json_result_def)

text \<open>A cipher that only appends a byte, and a value of a task.\<close>

definition sample_vault :: vault where
  "sample_vault = \<lparr>vt_encrypt = (\<lambda>key nonce s ad. s @ [1]), vt_decrypt = (\<lambda>key nonce s ad. Some (butlast s)), vt_key = replicate 32 7,
     vt_nonces = (\<lambda>n. replicate 12 (int n mod 256))\<rparr>"

lemma sample_vault_sound: "sound_vault sample_vault"
  by (simp add: sound_vault_def sample_vault_def are_bytes_def list_all_iff)

definition sample_secret :: fields where
  "sample_secret = [(''interface_name'', JStr ''wg0''), (''mtu'', JInt 1420), (''peers'', JList [JStr ''a'', JNull])]"

lemma stored_json_is_sealed_and_read_back_witness:
  "sound_vault sample_vault \<and> strings_where (\<lambda>s. \<not> sealed s) (JObj sample_secret) \<and>
    encrypted_json_result sample_vault (fst (protect_json_value sample_vault (JObj sample_secret) 0)) = Inr (JObj sample_secret)"
proof -
  have s: "strings_where (\<lambda>s. \<not> sealed s) (JObj sample_secret)" by code_simp
  show ?thesis using stored_json_is_sealed_and_read_back [OF sample_vault_sound s, of 0] sample_vault_sound s by simp
qed

section \<open>Migration\<close>

text \<open>The cells of a column.\<close>

definition column_of :: "stored \<Rightarrow> string \<Rightarrow> string \<Rightarrow> (int \<times> string option) list option" where
  "column_of db t c = map_option (\<lambda>tb. map (\<lambda>(i, r). (i, r c)) (st_rows tb)) (db t)"

definition has_column :: "stored \<Rightarrow> string \<Rightarrow> string \<Rightarrow> bool" where
  "has_column db t c = (case db t of None \<Rightarrow> False | Some tb \<Rightarrow> c \<in> set (st_columns tb))"

text \<open>How a cell relates to what it was.\<close>

definition sealed_text_cell :: "vault \<Rightarrow> string \<Rightarrow> string \<Rightarrow> bool" where
  "sealed_text_cell v s u = (sealed u \<and> (if sealed s then u = s else decrypt_text v u = Inr s))"

definition sealed_json_cell :: "vault \<Rightarrow> string \<Rightarrow> string \<Rightarrow> bool" where
  "sealed_json_cell v s u = (let j = the_or (JStr s) (loads s) in \<exists>p. strings_where sealed p \<and>
     (strings_where (\<lambda>s. \<not> sealed s) j \<longrightarrow> reveal_json_value v p = Inr j) \<and> (u = compact p \<or> u = s \<and> p = j))"

definition cells_related :: "(string \<Rightarrow> string \<Rightarrow> bool) \<Rightarrow> (int \<times> string option) list \<Rightarrow> (int \<times> string option) list \<Rightarrow> bool" where
  "cells_related R xs ys = list_all2 (\<lambda>x y. fst x = fst y \<and> rel_option R (snd x) (snd y)) xs ys"

lemma protect_rows_related:
  assumes "\<And>s n. R s (the_or s (fst (f s n)))"
  shows "cells_related R (map (\<lambda>(i, r). (i, r c)) rows) (map (\<lambda>(i, r). (i, r c)) (fst (protect_rows f c rows n k)))"
proof (induction rows arbitrary: n k)
  case (Cons x rows)
  obtain i r where x: "x = (i, r)" by (cases x)
  show ?case
  proof (cases "r c")
    case None
    then show ?thesis using Cons by (simp add: x cells_related_def split_def)
  next
    case (Some s)
    then show ?thesis using Cons assms [of s n] by (cases "f s n"; cases "fst (f s n)") (simp_all add: x cells_related_def the_or_def split_def)
  qed
qed (simp add: cells_related_def)

lemma protect_rows_other:
  "c' \<noteq> c \<Longrightarrow> map (\<lambda>(i, r). (i, r c')) (fst (protect_rows f c rows n k)) = map (\<lambda>(i, r). (i, r c')) rows"
proof (induction rows arbitrary: n k)
  case (Cons x rows)
  obtain i r where x: "x = (i, r)" by (cases x)
  show ?case
  proof (cases "r c")
    case None
    then show ?thesis using Cons by (simp add: x split_def)
  next
    case (Some s)
    then show ?thesis using Cons by (cases "f s n"; cases "fst (f s n)") (simp_all add: x split_def)
  qed
qed simp

lemma column_has: "has_column db t c \<Longrightarrow> column_of db t c \<noteq> None"
  by (auto simp: has_column_def column_of_def split: option.splits)

lemma protect_column_has: "has_column (fst (protect_column f tc s)) t c = has_column (fst s) t c"
  by (cases s) (auto simp: protect_column_def has_column_def split: option.splits prod.splits)

lemma protect_column_other: "(t, c) \<noteq> tc \<Longrightarrow> column_of (fst (protect_column f tc s)) t c = column_of (fst s) t c"
proof -
  assume a: "(t, c) \<noteq> tc"
  obtain db n k where s: "s = (db, n, k)" by (cases s)
  show ?thesis
  proof (cases "t = fst tc")
    case False
    then show ?thesis by (simp add: s protect_column_def column_of_def split: option.splits prod.splits)
  next
    case True
    then have c: "c \<noteq> snd tc" using a by (cases tc) auto
    show ?thesis
    proof (cases "db t")
      case (Some tb)
      then show ?thesis using True protect_rows_other [OF c, of f "st_rows tb" n k]
        by (simp add: s protect_column_def column_of_def split_def)
    qed (simp add: s protect_column_def column_of_def True)
  qed
qed

lemma protect_column_related:
  assumes "\<And>s n. R s (the_or s (fst (f s n)))" "has_column (fst s) (fst tc) (snd tc)"
  shows "\<exists>xs ys. column_of (fst s) (fst tc) (snd tc) = Some xs \<and> column_of (fst (protect_column f tc s)) (fst tc) (snd tc) = Some ys \<and>
    cells_related R xs ys"
proof -
  obtain db n k where s: "s = (db, n, k)" by (cases s)
  obtain tb where tb: "db (fst tc) = Some tb" "snd tc \<in> set (st_columns tb)"
    using assms(2) by (auto simp: s has_column_def split: option.splits)
  show ?thesis using protect_rows_related [of R f "snd tc" "st_rows tb" n k, OF assms(1)] tb
    by (simp add: s protect_column_def column_of_def split_def)
qed

lemma protect_columns_has: "has_column (fst (fold (protect_column f) tcs s)) t c = has_column (fst s) t c"
  by (induction tcs arbitrary: s) (simp_all add: protect_column_has)

lemma protect_columns_other: "(t, c) \<notin> set tcs \<Longrightarrow> column_of (fst (fold (protect_column f) tcs s)) t c = column_of (fst s) t c"
  by (induction tcs arbitrary: s) (simp_all add: protect_column_other)

lemma protect_columns_related:
  assumes "\<And>s n. R s (the_or s (fst (f s n)))"
  shows "distinct tcs \<Longrightarrow> (t, c) \<in> set tcs \<Longrightarrow> has_column (fst s) t c \<Longrightarrow>
    \<exists>xs ys. column_of (fst s) t c = Some xs \<and> column_of (fst (fold (protect_column f) tcs s)) t c = Some ys \<and> cells_related R xs ys"
proof (induction tcs arbitrary: s)
  case (Cons tc tcs)
  show ?case
  proof (cases "tc = (t, c)")
    case True
    then have "(t, c) \<notin> set tcs" using Cons.prems(1) by auto
    then show ?thesis using protect_column_related [of R f s tc, OF assms] Cons.prems(3) by (simp add: True protect_columns_other)
  next
    case False
    then show ?thesis using Cons.IH [of "protect_column f tc s"] Cons.prems protect_column_other [of t c tc f s]
      by (auto simp: protect_column_has)
  qed
qed simp

lemma text_cell: "sound_vault v \<Longrightarrow> sealed_text_cell v s (the_or s (fst (protect_text_cell v s n)))"
  by (cases "sealed s") (simp_all add: protect_text_cell_def sealed_text_cell_def the_or_def split_def decrypt_encrypted)

lemma json_cell:
  assumes "sound_vault v"
  shows "sealed_json_cell v s (the_or s (fst (protect_json_cell v s n)))"
proof -
  let ?j = "the_or (JStr s) (loads s)"
  have "strings_where sealed (fst (protect_json_value v ?j n))"
    "strings_where (\<lambda>s. \<not> sealed s) ?j \<longrightarrow> reveal_json_value v (fst (protect_json_value v ?j n)) = Inr ?j"
    using protected_sealed reveal_protected [OF assms] by auto
  then show ?thesis
    by (cases "fst (protect_json_value v ?j n) = ?j")
      (auto simp: protect_json_cell_def sealed_json_cell_def the_or_def split_def Let_def intro!: exI [of _ "fst (protect_json_value v ?j n)"])
qed

lemma erased_other: "c \<noteq> ''agent_token_value'' \<Longrightarrow> column_of (fst (erase_tokens db)) t c = column_of db t c"
  by (auto simp: erase_tokens_def column_of_def split: option.splits)

lemma erased_has: "has_column (fst (erase_tokens db)) t c = has_column db t c"
  by (auto simp: erase_tokens_def has_column_def split: option.splits)

lemma erased_tokens: "has_column db ''nodes'' ''agent_token_value'' \<Longrightarrow>
  \<exists>xs. column_of (fst (erase_tokens db)) ''nodes'' ''agent_token_value'' = Some xs \<and> (\<forall>x\<in>set xs. snd x = None)"
  by (auto simp: erase_tokens_def column_of_def has_column_def split: option.splits)

lemma columns_distinct: "distinct sensitive_text_columns" "distinct sensitive_json_columns"
  by code_simp+

lemma text_columns: "list_all (\<lambda>(t, c). \<not> List.member sensitive_json_columns (t, c) \<and> c \<noteq> ''agent_token_value'') sensitive_text_columns"
  by code_simp

lemma json_columns: "list_all (\<lambda>(t, c). c \<noteq> ''agent_token_value'') sensitive_json_columns"
  by code_simp

text \<open>A diff of a plan that an older release stored is migrated as a JSON document, quotes included: the column
  of texts it is read from takes it for a plain text and gives the ciphertext.\<close>

lemma migrated_diff_is_unreadable:
  assumes "loads s = None" "\<not> sealed s"
  shows "\<exists>u. protect_json_cell v s n = (Some u, Suc n) \<and> encrypted_text_result v (Some u) = Inr (Some u)"
proof -
  have f: "protect_json_value v (JStr s) n = (JStr (fst (encrypt_text v s n)), Suc n)"
    using assms(2) by (simp add: protect_json_value.simps(1) encrypt_text_def)
  have "JStr (fst (encrypt_text v s n)) \<noteq> JStr s" using assms(2) sealed_encrypted [of v s n] by (metis json.inject(4))
  then have p: "protect_json_cell v s n = (Some (dump_str (fst (encrypt_text v s n))), Suc n)"
    using assms(1) f by (simp add: protect_json_cell_def the_or_def)
  have "\<not> sealed (dump_str t)" for t by (simp add: sealed_def dump_str_def encrypted_prefix_def starts_with_def)
  then show ?thesis using p by (simp add: encrypted_text_result_def decrypt_text_def rbind_def)
qed


definition sample_stored :: stored where
  "sample_stored = [''wg_peers'' \<mapsto> \<lparr>st_columns = [''id'', ''preshared_key_value''],
     st_rows = [(1, \<lambda>c. if c = ''preshared_key_value'' then Some ''psk'' else None)]\<rparr>]"


end
