(* ===== verification/AgentLg.thy ===== *)
theory AgentLg
  imports LookingGlass AgentIo IpRound
begin

text \<open>
  The Looking Glass of an agent (\<open>looking_glass.py\<close>): the arguments of its queries, the commands they
  become and their results; and the way a command's output is kept while it runs (\<open>commands.py\<close>). The
  programs on the path and what they answer are the environment's, and so is the text of a time limit.
\<close>

section \<open>Output kept within a limit\<close>

definition max_command_output_bytes :: nat where "max_command_output_bytes = 256 * 1024"

datatype pipe = Out | Err

record captured =
  cp_out :: bytes
  cp_err :: bytes
  cp_truncated :: bool

definition kept_of :: "pipe \<Rightarrow> captured \<Rightarrow> bytes" where
  "kept_of p c = (case p of Out \<Rightarrow> cp_out c | Err \<Rightarrow> cp_err c)"

definition keep :: "pipe \<Rightarrow> bytes \<Rightarrow> captured \<Rightarrow> captured" where
  "keep p bs c = (case p of Out \<Rightarrow> c\<lparr>cp_out := bs\<rparr> | Err \<Rightarrow> c\<lparr>cp_err := bs\<rparr>)"

text \<open>One turn of the loop: a chunk is read from a pipe, and what fits is kept.\<close>

definition capture_chunk :: "nat \<Rightarrow> pipe \<times> bytes \<Rightarrow> captured \<Rightarrow> captured" where
  "capture_chunk limit pc c = (case pc of (p, chunk) \<Rightarrow>
     let output = kept_of p c; available = limit - length output in
     (keep p (output @ take available chunk) c)\<lparr>cp_truncated := cp_truncated c \<or> available < length chunk\<rparr>)"

definition output_bound :: "int \<Rightarrow> nat" where
  "output_bound output_limit = nat (max 1 (min output_limit (int max_command_output_bytes)))"

definition capture_output :: "int \<Rightarrow> (pipe \<times> bytes) list \<Rightarrow> captured" where
  "capture_output output_limit chunks = fold (capture_chunk (output_bound output_limit)) chunks \<lparr>cp_out = [], cp_err = [], cp_truncated = False\<rparr>"

section \<open>Arguments\<close>

definition normalized_ip :: "json \<Rightarrow> (string, string) result" where
  "normalized_ip v = (case ip_address (strip (str_or_empty v)) of
      None \<Rightarrow> Inl ''ip must be a valid IPv4 or IPv6 address'' | Some a \<Rightarrow> Inr (compressed a))"

definition rstrip_dots :: "string \<Rightarrow> string" where
  "rstrip_dots s = rev (dropWhile (\<lambda>c. c = CHR ''.'') (rev s))"

definition normalized_target :: "json \<Rightarrow> (string, string) result" where
  "normalized_target v = (let s = strip (str_or_empty v) in
     if s = [] then Inl ''target is required''
     else case ip_address s of Some a \<Rightarrow> Inr (compressed a)
       | None \<Rightarrow> if hostname_ok s \<and> \<not> has_sub ''..'' s then Inr (lower (rstrip_dots s))
           else Inl ''target must be a valid IP address or hostname'')"

definition protocol_char :: "char \<Rightarrow> bool" where
  "protocol_char c = (is_alnum c \<or> c = CHR ''_'' \<or> c = CHR ''.'' \<or> c = CHR '':'' \<or> c = CHR ''-'')"

definition normalized_protocol_name :: "json \<Rightarrow> (string, string) result" where
  "normalized_protocol_name v = (let s = strip (str_or_empty v) in
     if s \<noteq> [] \<and> length s \<le> 64 \<and> (is_alnum (hd s) \<or> hd s = CHR ''_'') \<and> list_all protocol_char (tl s) then Inr s
     else Inl ''protocol_name must use 1-64 characters: letters, numbers, _, ., :, -'')"

definition asn_refused :: string where
  "asn_refused = ''asn must be an integer between 1 and 4294967295''"

definition normalized_bgp_asn :: "json \<Rightarrow> (string, int) result" where
  "normalized_bgp_asn v = (let s = strip (str_or_empty v) in
     if \<not> is_dec_text s then Inl asn_refused
     else case py_int s of None \<Rightarrow> Inl ''int: too many digits''
       | Some n \<Rightarrow> if 1 \<le> n \<and> n \<le> 4294967295 then Inr n else Inl asn_refused)"

text \<open>\<open>int\<close> of an infinite number is an \<open>OverflowError\<close>, which the function does not catch.\<close>

definition positive_int :: "json \<Rightarrow> int \<Rightarrow> (string, int) result" where
  "positive_int v d = (if v = JFloat ''inf'' \<or> v = JFloat ''-inf'' then Inl ''cannot convert float infinity to integer''
     else case json_to_int v of None \<Rightarrow> Inr d | Some n \<Rightarrow> Inr (if 0 < n then n else d))"

definition lg_bounded_int :: "json \<Rightarrow> int \<Rightarrow> int \<Rightarrow> int \<Rightarrow> (string, int) result" where
  "lg_bounded_int v d lo hi = rbind (positive_int v d) (\<lambda>n. Inr (max lo (min hi n)))"

definition default_output_limit_bytes :: int where "default_output_limit_bytes = 256 * 1024"

definition bounded_output_limit :: "json \<Rightarrow> (string, int) result" where
  "bounded_output_limit v = rbind (positive_int v default_output_limit_bytes) (\<lambda>n. Inr (min n default_output_limit_bytes))"

section \<open>Commands\<close>

datatype lg_answer =
    LgTimeout string string
  | LgDone int string string bool

text \<open>\<open>le_seconds\<close>: the text of \<open>positive_float(v, default)\<close>, where the default is given by its text.\<close>

record lg_env =
  le_which :: "string \<Rightarrow> string option"
  le_run :: "string list \<Rightarrow> string \<Rightarrow> int \<Rightarrow> lg_answer"
  le_seconds :: "json \<Rightarrow> string \<Rightarrow> string"
  le_duration :: "string list \<Rightarrow> int"

definition required_binary :: "lg_env \<Rightarrow> string \<Rightarrow> (string, string) result" where
  "required_binary le name = some_or (case le_which le name of None \<Rightarrow> None | Some [] \<Rightarrow> None | Some p \<Rightarrow> Some p) (name @ '' was not found'')"

definition run_fixed_command :: "lg_env \<Rightarrow> string list \<Rightarrow> string \<Rightarrow> int \<Rightarrow> string \<Rightarrow> fields" where
  "run_fixed_command le command timeout limit timeout_message = (let shown = JStr (join '' '' (tl command)) in
     case le_run le command timeout limit of
       LgTimeout out err \<Rightarrow> [(''command'', shown), (''exit_code'', JNull), (''stdout'', JStr out),
         (''stderr'', JStr (if err = [] then ''command timed out after '' @ timeout @ ''s'' else err)), (''truncated'', JBool True),
         (''duration_ms'', JInt (le_duration le command)), (''error_code'', JStr ''timeout''), (''error'', JStr timeout_message)]
     | LgDone rc out err over \<Rightarrow> [(''command'', shown), (''exit_code'', JInt rc), (''stdout'', JStr out), (''stderr'', JStr err),
         (''truncated'', JBool over), (''duration_ms'', JInt (le_duration le command))] @
         (if rc \<noteq> 0 then [(''error_code'', JStr ''command_failed''), (''error'', JStr ''command failed'')] else []))"

text \<open>A query: the name it has in messages, its default time limit, the program and its arguments.\<close>

record lookup =
  lk_failed :: string
  lk_slow :: string
  lk_timeout :: string
  lk_binary :: string
  lk_arguments :: "string list"

definition route_arguments :: "fields \<Rightarrow> (string, lookup) result" where
  "route_arguments p = rbind (normalized_ip (dget p ''ip'')) (\<lambda>ip.
     Inr \<lparr>lk_failed = ''BIRD query failed'', lk_slow = ''BIRD query'', lk_timeout = ''8'', lk_binary = ''birdc'',
       lk_arguments = [''show'', ''route'', ''for'', ip, ''all'']\<rparr>)"

definition origin_arguments :: "fields \<Rightarrow> (string, lookup) result" where
  "origin_arguments p = rbind (normalized_bgp_asn (dget p ''asn'')) (\<lambda>asn.
     Inr \<lparr>lk_failed = ''BIRD ASN query failed'', lk_slow = ''BIRD ASN query'', lk_timeout = ''8'', lk_binary = ''birdc'',
       lk_arguments = [''show'', ''route'', ''where'', ''bgp_path.last'', ''='', show_int asn, ''all'', ''primary'']\<rparr>)"

definition protocols_arguments :: "fields \<Rightarrow> (string, lookup) result" where
  "protocols_arguments p = Inr \<lparr>lk_failed = ''BIRD protocols failed'', lk_slow = ''BIRD protocols'', lk_timeout = ''8'', lk_binary = ''birdc'',
     lk_arguments = [''show'', ''protocols'']\<rparr>"

definition protocol_arguments :: "fields \<Rightarrow> (string, lookup) result" where
  "protocol_arguments p = rbind (normalized_protocol_name (dget p ''protocol_name'')) (\<lambda>name.
     Inr \<lparr>lk_failed = ''BIRD protocol failed'', lk_slow = ''BIRD protocol'', lk_timeout = ''8'', lk_binary = ''birdc'',
       lk_arguments = [''show'', ''protocols'', ''all'', name]\<rparr>)"

definition ping_arguments :: "fields \<Rightarrow> (string, lookup) result" where
  "ping_arguments p = rbind (normalized_target (dget p ''target'')) (\<lambda>target.
     rbind (lg_bounded_int (dget p ''count'') 4 1 10) (\<lambda>count.
     rbind (lg_bounded_int (dget p ''per_probe_timeout_seconds'') 2 1 10) (\<lambda>wait.
     Inr \<lparr>lk_failed = ''ping failed'', lk_slow = ''ping'', lk_timeout = ''12'', lk_binary = ''ping'',
       lk_arguments = [''-c'', show_int count, ''-W'', show_int wait, target]\<rparr>)))"

definition traceroute_arguments :: "fields \<Rightarrow> (string, lookup) result" where
  "traceroute_arguments p = rbind (normalized_target (dget p ''target'')) (\<lambda>target.
     rbind (lg_bounded_int (dget p ''max_hops'') 30 1 64) (\<lambda>hops.
     rbind (lg_bounded_int (dget p ''wait_seconds'') 3 1 10) (\<lambda>wait.
     rbind (lg_bounded_int (dget p ''queries'') 3 1 5) (\<lambda>queries.
     Inr \<lparr>lk_failed = ''traceroute failed'', lk_slow = ''traceroute'', lk_timeout = ''20'', lk_binary = ''traceroute'',
       lk_arguments = [''-n'', ''-m'', show_int hops, ''-w'', show_int wait, ''-q'', show_int queries, target]\<rparr>))))"

definition execute_lookup :: "lg_env \<Rightarrow> (fields \<Rightarrow> (string, lookup) result) \<Rightarrow> fields \<Rightarrow> (string, fields) result" where
  "execute_lookup le arguments p = rbind (arguments p) (\<lambda>k.
     rbind (bounded_output_limit (dget p ''output_limit_bytes'')) (\<lambda>limit.
     rbind (required_binary le (lk_binary k)) (\<lambda>binary.
     let timeout = le_seconds le (dget p ''command_timeout_seconds'') (lk_timeout k);
         r = dset ''command'' (JStr (join '' '' (lk_binary k # lk_arguments k)))
           (run_fixed_command le (binary # lk_arguments k) timeout limit (lk_slow k @ '' exceeded '' @ timeout @ '' seconds'')) in
     Inr (if dget r ''error_code'' = JStr ''command_failed'' then dset ''error'' (JStr (lk_failed k)) r else r))))"

definition lookup_handlers :: "(string \<times> (fields \<Rightarrow> (string, lookup) result)) list" where
  "lookup_handlers = [(''looking_glass.bird.route_lookup'', route_arguments), (''looking_glass.bird.routes_by_origin_as'', origin_arguments),
     (''looking_glass.bird.protocols'', protocols_arguments), (''looking_glass.bird.protocol_detail'', protocol_arguments),
     (''looking_glass.ping'', ping_arguments), (''looking_glass.traceroute'', traceroute_arguments)]"

end
