(* ===== verification/AgentLgLaws.thy ===== *)
theory AgentLgLaws
  imports AgentLg
begin

text \<open>
  What of a command's output is kept, and what a Looking Glass query can put on a command line.
\<close>

section \<open>Output\<close>

definition written_to :: "pipe \<Rightarrow> (pipe \<times> bytes) list \<Rightarrow> bytes" where
  "written_to p chunks = concat (map snd (filter (\<lambda>x. fst x = p) chunks))"

lemma kept_keep [simp]: "kept_of p (keep q bs c) = (if p = q then bs else kept_of p c)" "cp_truncated (keep q bs c) = cp_truncated c"
  "kept_of p (c\<lparr>cp_truncated := b\<rparr>) = kept_of p c"
  by (cases p; cases q; simp add: kept_of_def keep_def)+

definition captures :: "nat \<Rightarrow> (pipe \<times> bytes) list \<Rightarrow> captured \<Rightarrow> bool" where
  "captures limit chunks c = ((\<forall>p. kept_of p c = take limit (written_to p chunks)) \<and>
     (cp_truncated c \<longleftrightarrow> (\<exists>p. limit < length (written_to p chunks))))"

lemma capture_step: "captures limit cs c \<Longrightarrow> captures limit (cs @ [x]) (capture_chunk limit x c)"
proof -
  assume a: "captures limit cs c"
  obtain q chunk where x: "x = (q, chunk)" by (cases x)
  have w: "written_to p (cs @ [x]) = written_to p cs @ (if p = q then chunk else [])" for p by (simp add: written_to_def x)
  have k: "kept_of p c = take limit (written_to p cs)" for p using a by (simp add: captures_def)
  have t: "cp_truncated c \<longleftrightarrow> (\<exists>p. limit < length (written_to p cs))" using a by (simp add: captures_def)
  have n: "limit < length (written_to q cs @ chunk) \<longleftrightarrow> limit < length (written_to q cs) \<or> limit - length (take limit (written_to q cs)) < length chunk"
    by auto
  have "(\<exists>p. limit < length (written_to p (cs @ [x]))) \<longleftrightarrow> cp_truncated c \<or> limit - length (kept_of q c) < length chunk"
    unfolding w t k using n by (metis append_Nil2)
  moreover have "cp_truncated (capture_chunk limit x c) \<longleftrightarrow> cp_truncated c \<or> limit - length (kept_of q c) < length chunk"
    by (simp add: capture_chunk_def x Let_def)
  moreover have "kept_of p (capture_chunk limit x c) = take limit (written_to p (cs @ [x]))" for p
  proof -
    have "limit - length (take limit (written_to q cs)) = limit - length (written_to q cs)" by simp
    then show ?thesis unfolding w by (simp add: capture_chunk_def x Let_def k)
  qed
  ultimately show ?thesis unfolding captures_def by blast
qed

lemma capture_all: "captures limit prior c \<Longrightarrow> captures limit (prior @ cs) (fold (capture_chunk limit) cs c)"
proof (induction cs arbitrary: prior c)
  case (Cons x cs)
  show ?case using Cons.IH [OF capture_step [OF Cons.prems, of x]] by simp
qed simp

text \<open>C40: However the output of a command comes in chunks from its two pipes, what is kept of each is the first
  part of all it wrote, at most the limit and never more than 256 KiB, and the result says that it was cut exactly
  if one of them wrote more.\<close>

theorem captured_output_is_a_prefix:
  "capture_output limit chunks = \<lparr>cp_out = take (output_bound limit) (written_to Out chunks),
     cp_err = take (output_bound limit) (written_to Err chunks),
     cp_truncated = (output_bound limit < length (written_to Out chunks) \<or> output_bound limit < length (written_to Err chunks))\<rparr> \<and>
   1 \<le> output_bound limit \<and> output_bound limit \<le> 256 * 1024"
proof -
  have "captures (output_bound limit) ([] @ chunks) (capture_output limit chunks)"
    unfolding capture_output_def by (rule capture_all) (simp add: captures_def written_to_def kept_of_def split: pipe.split)
  then have c: "kept_of p (capture_output limit chunks) = take (output_bound limit) (written_to p chunks)"
    "cp_truncated (capture_output limit chunks) \<longleftrightarrow> (\<exists>p. output_bound limit < length (written_to p chunks))" for p
    by (simp_all add: captures_def)
  have t: "cp_truncated (capture_output limit chunks) =
      (output_bound limit < length (written_to Out chunks) \<or> output_bound limit < length (written_to Err chunks))"
    unfolding c(2) by (metis pipe.exhaust)
  have k: "cp_out (capture_output limit chunks) = take (output_bound limit) (written_to Out chunks)"
    "cp_err (capture_output limit chunks) = take (output_bound limit) (written_to Err chunks)"
    using c(1) [of Out] c(1) [of Err] by (simp_all add: kept_of_def)
  show ?thesis
    by (intro conjI captured.equality) (simp_all add: k t, simp_all add: output_bound_def max_command_output_bytes_def)
qed

section \<open>Arguments\<close>

definition target_char :: "char \<Rightarrow> bool" where
  "target_char c = (is_alnum c \<or> c = CHR ''.'' \<or> c = CHR '':'' \<or> c = CHR ''-'')"

text \<open>A name or an address, with a zone perhaps: it is no option, and only the zone can hold other characters.\<close>

definition plain_argument :: "string \<Rightarrow> bool" where
  "plain_argument s = (s \<noteq> [] \<and> hd s \<noteq> CHR ''-'' \<and> list_all target_char (takeWhile (\<lambda>c. c \<noteq> CHR ''%'') s))"

lemma target_chars: "is_hex c \<Longrightarrow> target_char c" "is_dec c \<Longrightarrow> target_char c"
  by (auto simp: target_char_def is_alnum_def is_hex_def is_lower_az_def is_upper_az_def)

lemma minus_chars: "\<not> is_hex (CHR ''-'')" "\<not> is_dec (CHR ''-'')" "\<not> is_alnum (CHR ''-'')"
  by code_simp+

lemma takeWhile_all: "list_all P s \<Longrightarrow> list_all P (takeWhile Q s)"
  by (induction s) auto

lemma compressed_argument:
  assumes "ip_address s = Some a"
  shows "plain_argument (compressed a)"
proof -
  have r: "ip_in_range a" by (rule ip_address_in_range [OF assms])
  have six: "list_all target_char (show_ipv6 n) \<and> show_ipv6 n \<noteq> [] \<and> hd (show_ipv6 n) \<noteq> CHR ''-''" if "CHR '':'' \<in> set (show_ipv6 n)" for n
  proof -
    have c: "target_char c \<and> c \<noteq> CHR ''-''" if "c \<in> set (show_ipv6 n)" for c
      using show_ipv6_chars [OF that] target_chars minus_chars by (auto simp: target_char_def)
    then show ?thesis using that by (cases "show_ipv6 n") (auto simp: list_all_iff)
  qed
  have w: "list_all target_char (takeWhile (\<lambda>c. c \<noteq> CHR ''%'') (t @ z))" if "list_all target_char t" "z = [] \<or> hd z = CHR ''%''" for t z
  proof -
    have "takeWhile (\<lambda>c. c \<noteq> CHR ''%'') z = []" using that(2) by (cases z) auto
    then show ?thesis using that(1) by (induction t) auto
  qed
  show ?thesis
  proof (cases a)
    case (IPv4 n)
    have "parse_ipv4 (show_ipv4 n) = Some n" using r IPv4 by (simp add: parse_show_ipv4)
    then have c: "is_dec c \<or> c = CHR ''.''" if "c \<in> set (show_ipv4 n)" for c using parse_ipv4_chars that by blast
    have ne: "show_ipv4 n \<noteq> []" by (simp add: show_ipv4_def)
    have h: "hd (show_ipv4 n) \<noteq> CHR ''-''" using c [OF hd_in_set [OF ne]] minus_chars(2) by auto
    have "list_all target_char (show_ipv4 n)" using c target_chars(2) by (auto simp: list_all_iff target_char_def)
    then show ?thesis using ne h takeWhile_all by (simp add: plain_argument_def IPv4)
  next
    case (IPv6 n z)
    have "0 \<le> n" "n < 2 ^ 128" using r IPv6 by (cases z; simp)+
    then have "CHR '':'' \<in> set (show_ipv6 n)" using ipv6_colon parse_show_ipv6_int by blast
    then show ?thesis using six w [of "show_ipv6 n"] by (cases z) (auto simp: plain_argument_def IPv6 w takeWhile_all)
  qed
qed

lemma split_on_first: "split_on d s = x # xs \<Longrightarrow> x \<noteq> [] \<Longrightarrow> hd s = hd x"
  by (cases s) (auto split: if_splits list.splits)

lemma rstrip_dots_parts: "\<exists>r. s = rstrip_dots s @ r \<and> (r = [] \<or> hd r = CHR ''.'')"
proof -
  have "rev s = takeWhile (\<lambda>c. c = CHR ''.'') (rev s) @ dropWhile (\<lambda>c. c = CHR ''.'') (rev s)" by simp
  then have s: "s = rstrip_dots s @ rev (takeWhile (\<lambda>c. c = CHR ''.'') (rev s))" unfolding rstrip_dots_def by (metis rev_append rev_rev_ident)
  have "hd r = CHR ''.''" if "r = rev (takeWhile (\<lambda>c. c = CHR ''.'') (rev s))" "r \<noteq> []" for r
    using that set_takeWhileD [of "hd r" "\<lambda>c. c = CHR ''.''" "rev s"] hd_in_set [of r] by auto
  then show ?thesis using s by blast
qed

lemma dot_char: "\<not> is_alnum (CHR ''.'')"
  by code_simp

lemma minus_lower: "lower_char (CHR ''-'') = CHR ''-''" "lower_char (CHR ''.'') = CHR ''.''"
  by code_simp+

lemma alnum_lower: "is_alnum c \<Longrightarrow> is_alnum (lower_char c)"
proof (cases "is_upper_az c")
  case True
  then have "code (char_of (code c + 32)) = code c + 32" by (simp add: is_upper_az_def code_char_of)
  then show ?thesis using True by (simp add: lower_char_def is_alnum_def is_lower_az_def is_upper_az_def)
next
  case False
  assume "is_alnum c"
  then have "code c \<le> 122" using False by (auto simp: is_alnum_def is_dec_def is_lower_az_def)
  then show ?thesis using False \<open>is_alnum c\<close> by (simp add: lower_char_def)
qed

lemma hostname_chars:
  assumes "hostname_ok s"
  shows "s \<noteq> []" "is_alnum (hd s)" "c \<in> set s \<Longrightarrow> is_alnum c \<or> c = CHR ''-'' \<or> c = CHR ''.''"
proof -
  let ?b = "drop_trailing_dot s"
  have b: "?b \<noteq> []" and l: "list_all label_ok (split_on (CHR ''.'') ?b)" using assms by (simp_all add: hostname_ok_def Let_def)
  have s: "s = ?b \<or> s = ?b @ ''.''" using append_butlast_last_id [of s] by (cases "s \<noteq> [] \<and> last s = CHR ''.''") (auto simp: drop_trailing_dot_def)
  show "s \<noteq> []" using b s by auto
  obtain x xs where x: "split_on (CHR ''.'') ?b = x # xs" by (cases "split_on (CHR ''.'') ?b") simp_all
  have "label_ok x" using l x by simp
  then have h: "x \<noteq> []" "is_alnum (hd x)" by (simp_all add: label_ok_def)
  have "hd ?b = hd x" using split_on_first [OF x h(1)] .
  then show "is_alnum (hd s)" using h s b by (metis hd_append2)
  have "c \<in> set ?b \<Longrightarrow> is_alnum c \<or> c = CHR ''-'' \<or> c = CHR ''.''"
    using l set_split_on [of ?b "CHR ''.''"] by (fastforce simp: list_all_iff label_ok_def)
  then show "c \<in> set s \<Longrightarrow> is_alnum c \<or> c = CHR ''-'' \<or> c = CHR ''.''" using s by (metis UnE append.simps list.set(1) list.set(2) set_append singletonD empty_set insertE emptyE)
qed

lemma plain_target:
  assumes "normalized_target v = Inr t"
  shows "plain_argument t"
proof -
  let ?s = "strip (str_or_empty v)"
  show ?thesis
  proof (cases "ip_address ?s")
    case (Some a)
    then show ?thesis using compressed_argument [OF Some] assms by (auto simp: normalized_target_def Let_def split: if_splits)
  next
    case None
    then have h: "hostname_ok ?s" "t = lower (rstrip_dots ?s)" using assms by (auto simp: normalized_target_def Let_def split: if_splits)
    obtain r where r: "?s = rstrip_dots ?s @ r" "r = [] \<or> hd r = CHR ''.''" using rstrip_dots_parts by blast
    have "rstrip_dots ?s \<noteq> []"
    proof
      assume "rstrip_dots ?s = []"
      then have "hd ?s = CHR ''.''" using r hostname_chars(1) [OF h(1)] by auto
      then show False using hostname_chars(2) [OF h(1)] dot_char by simp
    qed
    moreover have "hd (rstrip_dots ?s) = hd ?s" using r(1) calculation by (metis hd_append2)
    moreover have "is_alnum (lower_char c)" if "is_alnum c" for c using that alnum_lower by blast
    moreover have "target_char (lower_char c)" if "c \<in> set (rstrip_dots ?s)" for c
    proof -
      have "c \<in> set ?s" using that r(1) by (metis Un_iff set_append)
      then have "is_alnum c \<or> c = CHR ''-'' \<or> c = CHR ''.''" using hostname_chars(3) [OF h(1)] by blast
      then show ?thesis using alnum_lower [of c] minus_lower by (auto simp: target_char_def)
    qed
    ultimately show ?thesis unfolding plain_argument_def h(2) using alnum_lower [OF hostname_chars(2) [OF h(1)]] minus_chars(3)
      by (intro conjI takeWhile_all) (auto simp: lower_def hd_map list_all_iff)
  qed
qed

lemma plain_protocol:
  assumes "normalized_protocol_name v = Inr t"
  shows "t \<noteq> [] \<and> length t \<le> 64 \<and> hd t \<noteq> CHR ''-'' \<and> list_all protocol_char t"
proof -
  have s: "t \<noteq> []" "length t \<le> 64" "is_alnum (hd t) \<or> hd t = CHR ''_''" "list_all protocol_char (tl t)"
    using assms by (auto simp: normalized_protocol_name_def Let_def split: if_splits)
  then show ?thesis using minus_chars(3) by (cases t) (auto simp: protocol_char_def)
qed

lemma bounded_lookup: "lg_bounded_int v d lo hi = Inr n \<Longrightarrow> lo \<le> hi \<Longrightarrow> lo \<le> n \<and> n \<le> hi"
  by (auto simp: lg_bounded_int_def elim: rbindE)

text \<open>C39: Whatever a task of the Looking Glass carries, the command it becomes has a fixed form: a query
  contributes one address, name or number at a fixed place, which is no option and holds the characters of
  addresses and names only (the zone of an IPv6 address excepted), and counts within their bounds.\<close>

theorem lookup_commands_are_fixed:
  "(route_arguments p = Inr k \<longrightarrow> (\<exists>ip. lk_binary k = ''birdc'' \<and> lk_arguments k = [''show'', ''route'', ''for'', ip, ''all''] \<and> plain_argument ip)) \<and>
   (origin_arguments p = Inr k \<longrightarrow> (\<exists>n. lk_binary k = ''birdc'' \<and> 1 \<le> n \<and> n \<le> 4294967295 \<and>
     lk_arguments k = [''show'', ''route'', ''where'', ''bgp_path.last'', ''='', show_int n, ''all'', ''primary''])) \<and>
   (protocol_arguments p = Inr k \<longrightarrow> (\<exists>t. lk_binary k = ''birdc'' \<and> lk_arguments k = [''show'', ''protocols'', ''all'', t] \<and>
     t \<noteq> [] \<and> length t \<le> 64 \<and> hd t \<noteq> CHR ''-'' \<and> list_all protocol_char t)) \<and>
   (ping_arguments p = Inr k \<longrightarrow> (\<exists>c w t. lk_binary k = ''ping'' \<and> lk_arguments k = [''-c'', show_int c, ''-W'', show_int w, t] \<and>
     1 \<le> c \<and> c \<le> 10 \<and> 1 \<le> w \<and> w \<le> 10 \<and> plain_argument t)) \<and>
   (traceroute_arguments p = Inr k \<longrightarrow> (\<exists>h w q t. lk_binary k = ''traceroute'' \<and>
     lk_arguments k = [''-n'', ''-m'', show_int h, ''-w'', show_int w, ''-q'', show_int q, t] \<and>
     1 \<le> h \<and> h \<le> 64 \<and> 1 \<le> w \<and> w \<le> 10 \<and> 1 \<le> q \<and> q \<le> 5 \<and> plain_argument t))"
proof (intro conjI impI, goal_cases)
  case 1
  then show ?case using compressed_argument by (auto simp: route_arguments_def normalized_ip_def split: option.splits elim!: rbindE)
next
  case 2
  then show ?case by (auto simp: origin_arguments_def normalized_bgp_asn_def Let_def split: option.splits if_splits elim!: rbindE)
next
  case 3
  then show ?case using plain_protocol by (auto simp: protocol_arguments_def elim!: rbindE)
next
  case 4
  then obtain t c w where a: "normalized_target (dget p ''target'') = Inr t" "lg_bounded_int (dget p ''count'') 4 1 10 = Inr c"
    "lg_bounded_int (dget p ''per_probe_timeout_seconds'') 2 1 10 = Inr w" and k: "lk_binary k = ''ping''"
    "lk_arguments k = [''-c'', show_int c, ''-W'', show_int w, t]"
    unfolding ping_arguments_def by (elim rbindE) auto
  then show ?case using plain_target [OF a(1)] bounded_lookup [OF a(2)] bounded_lookup [OF a(3)] by auto
next
  case 5
  then obtain t h w q where a: "normalized_target (dget p ''target'') = Inr t" "lg_bounded_int (dget p ''max_hops'') 30 1 64 = Inr h"
    "lg_bounded_int (dget p ''wait_seconds'') 3 1 10 = Inr w" "lg_bounded_int (dget p ''queries'') 3 1 5 = Inr q"
    and k: "lk_binary k = ''traceroute''" "lk_arguments k = [''-n'', ''-m'', show_int h, ''-w'', show_int w, ''-q'', show_int q, t]"
    unfolding traceroute_arguments_def by (elim rbindE) auto
  then show ?case using plain_target [OF a(1)] bounded_lookup [OF a(2)] bounded_lookup [OF a(3)] bounded_lookup [OF a(4)] by auto
qed

lemma ping_sample: "is_ok (ping_arguments [(''target'', JStr ''a.b'')])"
  by code_simp

lemma lookup_commands_are_fixed_witness:
  "\<exists>k c w t. ping_arguments [(''target'', JStr ''a.b'')] = Inr k \<and> lk_arguments k = [''-c'', show_int c, ''-W'', show_int w, t] \<and> c \<le> 10 \<and> plain_argument t"
proof -
  obtain k where k: "ping_arguments [(''target'', JStr ''a.b'')] = Inr k" using ping_sample unfolding is_ok_iff by blast
  from lookup_commands_are_fixed [of "[(''target'', JStr ''a.b'')]" k] k show ?thesis by blast
qed

text \<open>The zone of an IPv6 address is passed to \<open>birdc\<close> as it came, a line break in it included, on both sides.\<close>

lemma zone_reaches_birdc:
  "normalize_looking_glass_target (''fe80::1%a'' @ [CHR 0x0A] @ ''b'') = Inr (''fe80::1%a'' @ [CHR 0x0A] @ ''b'')"
  "map_option lk_arguments (case route_arguments [(''ip'', JStr (''fe80::1%a'' @ [CHR 0x0A] @ ''b''))] of Inr k \<Rightarrow> Some k | Inl _ \<Rightarrow> None) =
     Some [''show'', ''route'', ''for'', ''fe80::1%a'' @ [CHR 0x0A] @ ''b'', ''all'']"
  by code_simp+

end
