(* ===== verification/AgentUpgrade.thy ===== *)
theory AgentUpgrade
  imports AgentWg Auth
begin

text \<open>
  The upgrade an agent makes of itself (\<open>upgrade.py\<close>): the checks of the task and of the URL, the bounded
  download, the check of the digest, of the version and of a source archive, and the two shell scripts that
  replace the program, as machines whose commands may fail and between whose commands a signal may come. The
  answers of the network, SHA-256, the reading of a tar file and the text of the scripts are the environment's.
\<close>

section \<open>URLs\<close>

text \<open>\<open>urllib.parse.urlparse\<close>, the parts the check looks at; the port is read when it is asked for.\<close>

record url_parts =
  ur_scheme :: string
  ur_user :: "string option"
  ur_password :: "string option"
  ur_host :: "string option"
  ur_port :: "(string, int option) result"

definition scheme_char :: "char \<Rightarrow> bool" where
  "scheme_char c = (is_alnum c \<or> c = CHR ''+'' \<or> c = CHR ''-'' \<or> c = CHR ''.'')"

definition url_scheme :: "string \<Rightarrow> string \<times> string" where
  "url_scheme s = (case split_first (CHR '':'') s of (a, b) \<Rightarrow>
     if CHR '':'' \<in> set s \<and> a \<noteq> [] \<and> (is_lower_az (hd a) \<or> is_upper_az (hd a)) \<and> list_all scheme_char a then (lower a, b) else ([], s))"

definition url_port :: "string \<Rightarrow> (string, int option) result" where
  "url_port t = (if t = [] then Inr None
     else if \<not> is_dec_text t then Inl ''Port could not be cast to integer value''
     else case py_int t of None \<Rightarrow> Inl ''Port could not be cast to integer value''
       | Some n \<Rightarrow> if n \<le> 65535 then Inr (Some n) else Inl ''Port out of range 0-65535'')"

definition url_host :: "string \<Rightarrow> string option" where
  "url_host h = (if h = [] then None else Some (case split_first (CHR ''%'') h of (a, z) \<Rightarrow>
     lower a @ (if CHR ''%'' \<in> set h then CHR ''%'' # z else [])))"

definition urlparse :: "string \<Rightarrow> (string, url_parts) result" where
  "urlparse url = (let s = filter (\<lambda>c. c \<notin> {CHR 0x09, CHR 0x0A, CHR 0x0D}) (dropWhile (\<lambda>c. code c \<le> 0x20) url) in
     case url_scheme s of (scheme, rest) \<Rightarrow>
     let netloc = (if starts_with rest ''//'' then takeWhile (\<lambda>c. c \<noteq> CHR ''/'' \<and> c \<noteq> CHR ''?'' \<and> c \<noteq> CHR ''#'') (drop 2 rest) else []);
         has_user = CHR ''@'' \<in> set netloc; (userinfo, hostinfo) = (if has_user then split_last (CHR ''@'') netloc else ([], netloc));
         bracket = CHR ''['' \<in> set hostinfo;
         (host, tail) = (if bracket then split_first (CHR '']'') (snd (split_first (CHR ''['') hostinfo)) else split_first (CHR '':'') hostinfo);
         port = (if bracket then snd (split_first (CHR '':'') tail) else tail) in
     if (CHR ''['' \<in> set netloc) \<noteq> (CHR '']'' \<in> set netloc) then Inl ''Invalid IPv6 URL''
     else Inr \<lparr>ur_scheme = scheme, ur_user = (if has_user then Some (fst (split_first (CHR '':'') userinfo)) else None),
       ur_password = (if has_user \<and> CHR '':'' \<in> set userinfo then Some (snd (split_first (CHR '':'') userinfo)) else None),
       ur_host = url_host host, ur_port = url_port port\<rparr>)"

definition controller_url_refused :: string where
  "controller_url_refused = ''agent upgrade download url must belong to the configured controller''"

definition http_scheme :: "string \<Rightarrow> bool" where
  "http_scheme s = (s = ''http'' \<or> s = ''https'')"

definition ensure_controller_url :: "string \<Rightarrow> string \<Rightarrow> (string, unit) result" where
  "ensure_controller_url download_url server_url = rbind (urlparse download_url) (\<lambda>u. rbind (urlparse server_url) (\<lambda>v.
     if \<not> http_scheme (ur_scheme u) \<or> \<not> http_scheme (ur_scheme v) \<or> ur_host u = None \<or> ur_host v = None \<or>
        set_text (ur_user u) \<or> set_text (ur_password u) \<or> set_text (ur_user v) \<or> set_text (ur_password v) \<or>
        ur_scheme u \<noteq> ur_scheme v \<or> casefold (the_or [] (ur_host u)) \<noteq> casefold (the_or [] (ur_host v)) then Inl controller_url_refused
     else rbind (ur_port u) (\<lambda>a. rbind (ur_port v) (\<lambda>b. ensure (a = b) controller_url_refused))))"

section \<open>Download\<close>

datatype member_kind = Directory | Regular | OtherKind

record archive_member =
  am_name :: string
  am_kind :: member_kind
  am_size :: int
  am_content :: string
  am_executable :: bool

text \<open>The response is its \<open>Content-Length\<close> and the chunks it is read in, one of which may be an error.\<close>

record upgrade_env =
  ug_wg :: wg_env
  ug_server :: string
  ug_service :: string
  ug_source_dir :: bool
  ug_response :: "string \<Rightarrow> (string, string option \<times> (string, string) result list) result"
  ug_sha256 :: "string \<Rightarrow> string"
  ug_version :: "string list \<Rightarrow> (int \<times> string \<times> string) option"
  ug_archive :: "string \<Rightarrow> (string, archive_member list) result"
  ug_script :: "string list \<Rightarrow> string"
  ug_schedule :: "(string, unit) result"

definition max_download_size :: int where "max_download_size = 512 * 1024 * 1024"

definition upgrade_size :: "json \<Rightarrow> (string, int option) result" where
  "upgrade_size v = (case v of JNull \<Rightarrow> Inr None
     | JInt n \<Rightarrow> if n < 0 then Inl ''agent upgrade asset size must be a non-negative integer''
         else if max_download_size < n then Inl ''agent upgrade asset exceeds maximum download size'' else Inr (Some n)
     | _ \<Rightarrow> Inl ''agent upgrade asset size must be a non-negative integer'')"

definition response_size :: "int option \<Rightarrow> string option \<Rightarrow> (string, int option) result" where
  "response_size expected header = (case header of None \<Rightarrow> Inr None | Some h \<Rightarrow>
     (case py_int h of None \<Rightarrow> Inl ''invalid agent upgrade Content-Length''
      | Some n \<Rightarrow> if n < 0 \<or> max_download_size < n then Inl ''agent upgrade response exceeds maximum download size''
          else if expected \<noteq> None \<and> expected \<noteq> Some n then Inl ''agent upgrade response size mismatch'' else Inr (Some n)))"

fun read_chunks :: "int \<Rightarrow> string \<Rightarrow> (string, string) result list \<Rightarrow> (string, string) result" where
  "read_chunks limit got [] = Inr got"
| "read_chunks limit got (Inl e # cs) = Inl e"
| "read_chunks limit got (Inr c # cs) = (if c = [] then Inr got
     else if limit < int (length (got @ c)) then Inl ''agent upgrade download exceeds expected size'' else read_chunks limit (got @ c) cs)"

definition fetched :: "upgrade_env \<Rightarrow> string \<Rightarrow> json \<Rightarrow> (string, string) result" where
  "fetched ug url asked = rbind (upgrade_size asked) (\<lambda>expected. rbind (ug_response ug url) (\<lambda>(header, chunks).
     rbind (response_size expected header) (\<lambda>advertised. rbind (read_chunks (the_or max_download_size expected) [] chunks) (\<lambda>content.
     let n = Some (int (length content)) in
     if expected \<noteq> None \<and> n \<noteq> expected then Inl ''agent upgrade download size mismatch''
     else if advertised \<noteq> None \<and> n \<noteq> advertised then Inl ''agent upgrade Content-Length mismatch'' else Inr content))))"

definition read_whole :: "path \<Rightarrow> string io" where
  "read_whole p d = (case dk_files d p of None \<Rightarrow> (Inl ''no such file'', d) | Some f \<Rightarrow> (Inr (fl_content f), d))"

definition upgrade_dir :: path where "upgrade_dir = [''var'', ''lib'', ''link42'', ''agent'']"
definition new_binary :: path where "new_binary = upgrade_dir @ [''link42-agent.new'']"
definition new_source_archive :: path where "new_source_archive = upgrade_dir @ [''link42-agent-source.new.tar.gz'']"
definition upgrade_script :: path where "upgrade_script = upgrade_dir @ [''upgrade.sh'']"
definition upgrade_state_file :: path where "upgrade_state_file = upgrade_dir @ [''upgrade-state.json'']"
definition staged_source :: path where "staged_source = [''opt'', ''link42-agent'', ''.link42-agent-src.new'']"

definition download_file :: "upgrade_env \<Rightarrow> string \<Rightarrow> path \<Rightarrow> json \<Rightarrow> unit io" where
  "download_file ug url target asked = dbind (lift_error (fetched ug url asked)) (\<lambda>content.
     atomic_write_bytes target content (if target = new_binary then 493 else 384))"

section \<open>Checks of what was downloaded\<close>

definition verify_binary_version :: "upgrade_env \<Rightarrow> path \<Rightarrow> string \<Rightarrow> string list \<Rightarrow> (string, unit) result" where
  "verify_binary_version ug p target_version args = (case ug_version ug (show_path p # args) of
      None \<Rightarrow> Inl ''downloaded agent version command failed''
    | Some (rc, out, err) \<Rightarrow> if rc \<noteq> 0 then Inl (''downloaded agent version command failed: '' @ take 500 err)
        else let output = strip (out @ [CHR 0x0A] @ err) in
          if output \<noteq> target_version then Inl (''downloaded agent version mismatch: '' @ output) else Inr ())"

text \<open>\<open>PurePosixPath(name).parts\<close> of a relative name, and what a member may not be.\<close>

definition posix_parts :: "string \<Rightarrow> string list" where
  "posix_parts name = filter (\<lambda>p. p \<noteq> [] \<and> p \<noteq> ''.'') (split_on (CHR ''/'') name)"

definition unsafe_member :: "archive_member \<Rightarrow> bool" where
  "unsafe_member m = (starts_with (am_name m) ''/'' \<or> List.member (posix_parts (am_name m)) ''..'' \<or> posix_parts (am_name m) = [] \<or>
     am_kind m = OtherKind)"

definition proper_prefixes :: "'a list \<Rightarrow> 'a list list" where
  "proper_prefixes xs = map (\<lambda>n. take n xs) [1..<length xs]"

text \<open>Members are written one after the other; \<open>dirs\<close> are the directories made, \<open>seen\<close> the names that came. A file
  stands in the way of a directory, and anything in the way of a file.\<close>

fun extract_members :: "path \<Rightarrow> string list list \<Rightarrow> string list list \<Rightarrow> archive_member list \<Rightarrow> unit io" where
  "extract_members destination dirs seen [] = dreturn ()"
| "extract_members destination dirs seen (m # ms) = (let parts = posix_parts (am_name m); target = destination @ parts in
     if unsafe_member m then draise (''unsafe agent source archive member: '' @ am_name m)
     else if List.member seen parts then draise (''duplicate agent source archive member: '' @ am_name m)
     else (\<lambda>d.
       let above = proper_prefixes parts; blocked = list_ex (\<lambda>q. dk_files d (destination @ q) \<noteq> None) in
       if am_kind m = Directory then
         (if blocked (above @ [parts]) then draise ''managed directory is a file'' d
          else extract_members destination (dirs @ above @ [parts]) (seen @ [parts]) ms d)
       else if blocked above then draise ''managed directory is a file'' d
       else if dk_files d target \<noteq> None \<or> List.member dirs parts then draise (''cannot create agent source archive member: '' @ am_name m) d
       else extract_members destination (dirs @ above) (seen @ [parts]) ms
         (put_file target \<lparr>fl_content = am_content m, fl_regular = True, fl_mode = (if am_executable m then 493 else 420),
            fl_owner = 0, fl_mtime = dk_now d\<rparr> d)))"

definition within :: "path \<Rightarrow> path \<Rightarrow> bool" where
  "within root q = (take (length root) q = root \<and> length root < length q)"

definition remove_tree :: "path \<Rightarrow> unit io" where
  "remove_tree root d = (Inr (), d\<lparr>dk_files := (\<lambda>q. if within root q then None else dk_files d q)\<rparr>)"

text \<open>The first match of \<open>AGENT_VERSION\s*=\s*"([^"]+)"\<close>.\<close>

definition version_at :: "string \<Rightarrow> string option" where
  "version_at s = (let r = dropWhile is_space (drop 13 s); q = dropWhile is_space (tl r); v = takeWhile (\<lambda>c. c \<noteq> CHR 0x22) (tl q) in
     if starts_with s ''AGENT_VERSION'' \<and> starts_with r ''='' \<and> starts_with q [CHR 0x22] \<and> v \<noteq> [] \<and> CHR 0x22 \<in> set (tl q)
     then Some v else None)"

fun find_version :: "string \<Rightarrow> string option" where
  "find_version [] = None"
| "find_version (c # cs) = (case version_at (c # cs) of Some v \<Rightarrow> Some v | None \<Rightarrow> find_version cs)"

definition version_file :: "path \<Rightarrow> path" where
  "version_file destination = destination @ [''packages'', ''link42_common'', ''version.py'']"

definition check_source_version :: "path \<Rightarrow> string \<Rightarrow> unit io" where
  "check_source_version destination target_version d = (case dk_files d (version_file destination) of
      None \<Rightarrow> (Inl ''agent source archive is missing version metadata'', d)
    | Some f \<Rightarrow> (case decode_text (fl_content f) of Inl e \<Rightarrow> (Inl e, d) | Inr t \<Rightarrow>
        if find_version t = Some target_version then (Inr (), d)
        else (Inl (''downloaded agent source version mismatch: '' @ the_or ''unknown'' (find_version t)), d)))"

definition extract_source_archive :: "upgrade_env \<Rightarrow> path \<Rightarrow> path \<Rightarrow> string \<Rightarrow> unit io" where
  "extract_source_archive ug archive destination target_version =
     dbind (remove_tree destination) (\<lambda>_. dbind (read_whole archive) (\<lambda>content. dbind (lift_error (ug_archive ug content)) (\<lambda>ms.
     if 10000 < length ms \<or> 64 * 1024 * 1024 < sum_list (map am_size ms) then draise ''agent source archive exceeds safety limits''
     else dbind (extract_members destination [] [] ms) (\<lambda>_. check_source_version destination target_version))))"

section \<open>The task\<close>

text \<open>\<open>except Exception as exc: h(exc); raise\<close>\<close>

definition catching :: "'a io \<Rightarrow> (string \<Rightarrow> unit io) \<Rightarrow> 'a io" where
  "catching m h d = (case m d of
      (Inl e, d1) \<Rightarrow> (case h e d1 of (Inl e1, d2) \<Rightarrow> (Inl e1, d2) | (Inr _, d2) \<Rightarrow> (Inl e, d2))
    | (Inr x, d1) \<Rightarrow> (Inr x, d1))"

definition write_upgrade_state :: "fields \<Rightarrow> unit io" where
  "write_upgrade_state data = atomic_write_text upgrade_state_file (dump_text (JObj data) @ [CHR 0x0A]) 384"

definition service_name_ok :: "string \<Rightarrow> bool" where
  "service_name_ok s = (s \<noteq> [] \<and> length s \<le> 64 \<and> is_alnum (hd s) \<and>
     list_all (\<lambda>c. is_alnum c \<or> c = CHR ''_'' \<or> c = CHR ''.'' \<or> c = CHR ''-'') (tl s))"

definition default_install_path :: string where "default_install_path = ''/usr/local/bin/link42-agent''"

text \<open>\<open>str(Path(s))\<close>: two leading slashes are kept.\<close>

definition normal_path :: "string \<Rightarrow> string" where
  "normal_path s = (let root = (if \<not> starts_with s ''/'' then [] else if starts_with s ''//'' \<and> \<not> starts_with s ''///'' then ''//'' else ''/'') in
     root @ join ''/'' (posix_parts s))"

record upgrade_task =
  ut_url :: string
  ut_version :: string
  ut_sha256 :: string
  ut_mode :: string

definition check_upgrade :: "upgrade_env \<Rightarrow> bool \<Rightarrow> service_manager \<Rightarrow> fields \<Rightarrow> (string, upgrade_task) result" where
  "check_upgrade ug dry_run m p =
     rbind (ensure (m = Systemd \<or> m = OpenWrtUci) ''agent self upgrade requires systemd or OpenWrt procd'') (\<lambda>_.
     rbind (required ''download_url'' p) (\<lambda>url. rbind (ensure_controller_url (py_str url) (ug_server ug)) (\<lambda>_.
     rbind (required ''target_version'' p) (\<lambda>version. rbind (required ''sha256'' p) (\<lambda>digest.
     let mode = text_or ''binary'' (dget p ''upgrade_mode''); install = text_or default_install_path (dget p ''install_path'') in
     rbind (ensure (service_name_ok (ug_service ug)) ''unsupported agent service name'') (\<lambda>_.
     rbind (ensure (\<not> (m = Systemd \<and> mode \<noteq> ''binary'')) ''systemd agent upgrade requires binary asset'') (\<lambda>_.
     rbind (ensure (\<not> (m = OpenWrtUci \<and> mode \<noteq> ''source'')) ''OpenWrt agent upgrade requires source asset'') (\<lambda>_.
     rbind (ensure (\<not> (mode = ''binary'' \<and> normal_path install \<noteq> default_install_path)) ''unsupported agent install path'') (\<lambda>_.
     rbind (ensure (\<not> (mode = ''source'' \<and> \<not> dry_run \<and> \<not> ug_source_dir ug)) ''current agent source directory is missing'') (\<lambda>_.
     Inr \<lparr>ut_url = py_str url, ut_version = py_str version, ut_sha256 = py_str digest, ut_mode = mode\<rparr>))))))))))"

definition upgrade_target :: "string \<Rightarrow> path" where
  "upgrade_target mode = (if mode = ''source'' then new_source_archive else new_binary)"

definition version_arguments :: "json \<Rightarrow> (string, string list) result" where
  "version_arguments v = (if truthy v then rbind (iterate_json v) (\<lambda>xs. Inr (map py_str xs)) else Inr [''--version''])"

definition prepare_upgrade :: "upgrade_env \<Rightarrow> fields \<Rightarrow> upgrade_task \<Rightarrow> unit io" where
  "prepare_upgrade ug p t = (let target = upgrade_target (ut_mode t) in
     if ut_mode t = ''source'' then dbind (extract_source_archive ug target staged_source (ut_version t)) (\<lambda>_.
       atomic_write_text upgrade_script (ug_script ug [''openwrt'', ug_service ug, ut_version t]) 448)
     else dbind (lift_error (version_arguments (dget p ''binary_args''))) (\<lambda>args.
       dbind (lift_error (verify_binary_version ug target (ut_version t) args)) (\<lambda>_.
       atomic_write_text upgrade_script (ug_script ug [''systemd'', ug_service ug]) 448)))"

definition self_upgrade :: "upgrade_env \<Rightarrow> bool \<Rightarrow> fields \<Rightarrow> fields io" where
  "self_upgrade ug dry_run p = dbind (detect_service_manager (ug_wg ug)) (\<lambda>m. dbind (lift_error (check_upgrade ug dry_run m p)) (\<lambda>t.
     let about = [(''target_version'', JStr (ut_version t)), (''upgrade_mode'', JStr (ut_mode t))]; target = upgrade_target (ut_mode t) in
     if dry_run then dreturn ([(''status'', JStr ''staged''), (''dry_run'', JBool True)] @ about)
     else dbind (catching
       (dbind (write_upgrade_state ((''status'', JStr ''downloading'') # about)) (\<lambda>_.
        dbind (download_file ug (ut_url t) target (dget p ''size'')) (\<lambda>_.
        dbind (read_whole target) (\<lambda>content. let actual = ug_sha256 ug content in
        if actual \<noteq> ut_sha256 t then draise ''agent upgrade sha256 mismatch''
        else dbind (write_upgrade_state ((''status'', JStr ''verified'') # about)) (\<lambda>_.
          dbind (prepare_upgrade ug p t) (\<lambda>_. dbind (lift_error (ug_schedule ug)) (\<lambda>_.
          dbind (write_upgrade_state ((''status'', JStr ''staged'') # about)) (\<lambda>_. dreturn actual))))))))
       (\<lambda>e. dbind (if ut_mode t = ''source'' then remove_tree staged_source else dreturn ()) (\<lambda>_.
          write_upgrade_state ([(''status'', JStr ''failed''), (''error'', JStr e)] @ about))))
     (\<lambda>actual. dreturn [(''status'', JStr ''staged''), (''target_version'', JStr (ut_version t)), (''sha256'', JStr actual),
        (''upgrade_mode'', JStr (ut_mode t)), (''upgrade_script'', path_json (Some upgrade_script))])))"

end
