(* ===== verification/UpgradeScript.thy ===== *)
theory UpgradeScript
  imports Prelude
begin

text \<open>
  The two shell scripts of an upgrade (\<open>write_systemd_upgrade_script\<close> and \<open>write_openwrt_upgrade_script\<close>
  of upgrade.py) as machines. A script is a list of instructions run under \<open>set -e\<close>: a command that fails, or a
  signal that is handled after an instruction, leads to the trap, which is the function \<open>rollback\<close>. Which
  commands fail and where signals come is given by predicates on the number of the instruction, for the
  rollback on the number of its command; whether the new version crashes before it is checked is given too.
\<close>

section \<open>Scripts\<close>

datatype 's instr = Do "'s \<Rightarrow> 's option" | Note "'s \<Rightarrow> 's"

fun run_script :: "(nat \<Rightarrow> bool) \<Rightarrow> (nat \<Rightarrow> bool) \<Rightarrow> nat \<Rightarrow> 's instr list \<Rightarrow> 's \<Rightarrow> bool \<times> 's" where
  "run_script ok sig n [] s = (True, s)"
| "run_script ok sig n (Note f # is) s = (if sig n then (False, f s) else run_script ok sig (Suc n) is (f s))"
| "run_script ok sig n (Do f # is) s = (case (if ok n then f s else None) of
      None \<Rightarrow> (False, s)
    | Some t \<Rightarrow> if sig n then (False, t) else run_script ok sig (Suc n) is t)"

section \<open>systemd\<close>

text \<open>The versions of the program at its place, in the backup and beside the place, the version the service
  runs, the last state written, and the two flags.\<close>

record binary_site =
  bs_installed :: string
  bs_backup_tmp :: "string option"
  bs_backup :: "string option"
  bs_temp :: "string option"
  bs_running :: "string option"
  bs_status :: string
  bs_stopped :: bool
  bs_replaced :: bool

definition bs_start :: "binary_site \<Rightarrow> binary_site" where
  "bs_start s = (if bs_running s = None then s\<lparr>bs_running := Some (bs_installed s)\<rparr> else s)"

definition systemd_script :: "string \<Rightarrow> bool \<Rightarrow> binary_site instr list" where
  "systemd_script new crash =
    [Do (\<lambda>s. Some (s\<lparr>bs_backup_tmp := Some (bs_installed s)\<rparr>)),
     Do (\<lambda>s. Some (s\<lparr>bs_backup := bs_backup_tmp s, bs_backup_tmp := None\<rparr>)),
     Do (\<lambda>s. Some (s\<lparr>bs_temp := Some new\<rparr>)),
     Do (\<lambda>s. Some (s\<lparr>bs_status := ''restarting''\<rparr>)),
     Note (\<lambda>s. s\<lparr>bs_stopped := True\<rparr>),
     Do (\<lambda>s. Some (s\<lparr>bs_running := None\<rparr>)),
     Do (\<lambda>s. map_option (\<lambda>v. s\<lparr>bs_installed := v, bs_temp := None\<rparr>) (bs_temp s)),
     Note (\<lambda>s. s\<lparr>bs_replaced := True\<rparr>),
     Do (\<lambda>s. Some (bs_start s)),
     Note (\<lambda>s. if crash then s\<lparr>bs_running := None\<rparr> else s),
     Do (\<lambda>s. if bs_running s = None then None else Some s),
     Do (\<lambda>s. Some (s\<lparr>bs_status := ''healthy''\<rparr>))]"

definition systemd_rollback :: "(nat \<Rightarrow> bool) \<Rightarrow> binary_site \<Rightarrow> binary_site" where
  "systemd_rollback ok s =
    (if bs_replaced s \<and> \<not> (ok 0 \<and> ok 1 \<and> bs_backup s \<noteq> None) then s\<lparr>bs_temp := None, bs_status := ''failed''\<rparr>
     else let t = (if bs_replaced s then s\<lparr>bs_installed := the_or (bs_installed s) (bs_backup s)\<rparr> else s)\<lparr>bs_temp := None\<rparr> in
       if bs_stopped s \<and> \<not> ok 2 then t\<lparr>bs_status := ''failed''\<rparr>
       else (if bs_stopped s then bs_start t else t)\<lparr>bs_status := ''rolled_back''\<rparr>)"

definition systemd_upgrade :: "(nat \<Rightarrow> bool) \<Rightarrow> (nat \<Rightarrow> bool) \<Rightarrow> bool \<Rightarrow> (nat \<Rightarrow> bool) \<Rightarrow> string \<Rightarrow> binary_site \<Rightarrow> binary_site" where
  "systemd_upgrade ok sig crash rok new s = (case run_script ok sig 0 (systemd_script new crash) s of
      (True, t) \<Rightarrow> t | (False, t) \<Rightarrow> systemd_rollback rok t)"

definition binary_installed :: "string \<Rightarrow> binary_site" where
  "binary_installed v = \<lparr>bs_installed = v, bs_backup_tmp = None, bs_backup = None, bs_temp = None, bs_running = Some v, bs_status = [],
     bs_stopped = False, bs_replaced = False\<rparr>"

section \<open>OpenWrt\<close>

text \<open>The versions in the directories of the source, the backup and the new source, and three flags.\<close>

record source_site =
  ss_source :: "string option"
  ss_backup :: "string option"
  ss_new :: "string option"
  ss_running :: "string option"
  ss_status :: string
  ss_stopped :: bool
  ss_moved :: bool
  ss_replaced :: bool

definition ss_start :: "source_site \<Rightarrow> source_site option" where
  "ss_start s = (if ss_source s = None then None else Some (if ss_running s = None then s\<lparr>ss_running := ss_source s\<rparr> else s))"

definition openwrt_script :: "bool \<Rightarrow> source_site instr list" where
  "openwrt_script crash =
    [Do (\<lambda>s. if ss_source s = None then None else Some s),
     Do (\<lambda>s. if ss_new s = None then None else Some s),
     Do (\<lambda>s. Some (s\<lparr>ss_backup := None\<rparr>)),
     Do (\<lambda>s. Some (s\<lparr>ss_status := ''restarting''\<rparr>)),
     Note (\<lambda>s. s\<lparr>ss_stopped := True\<rparr>),
     Do (\<lambda>s. Some (s\<lparr>ss_running := None\<rparr>)),
     Do (\<lambda>s. Some (s\<lparr>ss_backup := ss_source s, ss_source := None\<rparr>)),
     Note (\<lambda>s. s\<lparr>ss_moved := True\<rparr>),
     Do (\<lambda>s. Some (s\<lparr>ss_source := ss_new s, ss_new := None\<rparr>)),
     Note (\<lambda>s. s\<lparr>ss_replaced := True\<rparr>),
     Do ss_start,
     Note (\<lambda>s. if crash then s\<lparr>ss_running := None\<rparr> else s),
     Do (\<lambda>s. if ss_running s = None then None else Some s),
     Do (\<lambda>s. Some (s\<lparr>ss_status := ''healthy''\<rparr>))]"

text \<open>\<open>mv BACKUP SOURCE\<close> puts the backup inside the source when that is still there.\<close>

definition openwrt_rollback :: "(nat \<Rightarrow> bool) \<Rightarrow> source_site \<Rightarrow> source_site" where
  "openwrt_rollback ok s =
    (let a = (if ss_replaced s \<and> ok 0 then s\<lparr>ss_running := None\<rparr> else s);
         b = (if ss_replaced s then a\<lparr>ss_source := None\<rparr> else a);
         c = (if ss_moved s then (if ss_source b = None then b\<lparr>ss_source := ss_backup b, ss_backup := None\<rparr> else b\<lparr>ss_backup := None\<rparr>) else b) in
     if ss_replaced s \<and> \<not> ok 1 then a\<lparr>ss_status := ''failed''\<rparr>
     else if ss_moved s \<and> \<not> ok 2 then b\<lparr>ss_status := ''failed''\<rparr>
     else if \<not> ss_stopped s then c\<lparr>ss_status := ''rolled_back''\<rparr>
     else (case (if ok 3 then ss_start c else None) of
         None \<Rightarrow> c\<lparr>ss_status := ''failed''\<rparr> | Some e \<Rightarrow> e\<lparr>ss_status := ''rolled_back''\<rparr>))"

definition openwrt_upgrade :: "(nat \<Rightarrow> bool) \<Rightarrow> (nat \<Rightarrow> bool) \<Rightarrow> bool \<Rightarrow> (nat \<Rightarrow> bool) \<Rightarrow> source_site \<Rightarrow> source_site" where
  "openwrt_upgrade ok sig crash rok s = (case run_script ok sig 0 (openwrt_script crash) s of
      (True, t) \<Rightarrow> t | (False, t) \<Rightarrow> openwrt_rollback rok t)"

definition source_installed :: "string \<Rightarrow> string \<Rightarrow> source_site" where
  "source_installed old new = \<lparr>ss_source = Some old, ss_backup = None, ss_new = Some new, ss_running = Some old, ss_status = [],
     ss_stopped = False, ss_moved = False, ss_replaced = False\<rparr>"

section \<open>An upgrade is done or undone\<close>

text \<open>C19: Whichever commands of an upgrade script fail, and whether or not the new version crashes, the node ends
  with a running agent: either the new version is installed, runs and was found healthy, or the old version is
  back in its place and an agent runs. The agent that runs then is the old one, on OpenWrt always, under systemd
  unless the check of the service or the writing of its last state failed. No signal comes, and the commands of
  the rollback succeed.\<close>

theorem upgrade_is_done_or_undone:
  assumes "\<And>n. \<not> sig n" "\<And>n. rok n"
  shows "(let t = systemd_upgrade ok sig crash rok new (binary_installed old) in
      (bs_status t = ''healthy'' \<and> bs_installed t = new \<and> bs_running t = Some new) \<or>
      (bs_status t = ''rolled_back'' \<and> bs_installed t = old \<and> bs_running t \<noteq> None \<and> (ok 10 \<and> ok 11 \<longrightarrow> bs_running t = Some old))) \<and>
    (let t = openwrt_upgrade ok sig crash rok (source_installed old new) in
      (ss_status t = ''healthy'' \<and> ss_source t = Some new \<and> ss_running t = Some new) \<or>
      (ss_status t = ''rolled_back'' \<and> ss_source t = Some old \<and> ss_running t = Some old))"
proof (intro conjI)
  show "let t = systemd_upgrade ok sig crash rok new (binary_installed old) in
      (bs_status t = ''healthy'' \<and> bs_installed t = new \<and> bs_running t = Some new) \<or>
      (bs_status t = ''rolled_back'' \<and> bs_installed t = old \<and> bs_running t \<noteq> None \<and> (ok 10 \<and> ok 11 \<longrightarrow> bs_running t = Some old))"
    using assms by (simp add: systemd_upgrade_def systemd_script_def binary_installed_def systemd_rollback_def bs_start_def the_or_def Let_def numeral_eq_Suc)
  show "let t = openwrt_upgrade ok sig crash rok (source_installed old new) in
      (ss_status t = ''healthy'' \<and> ss_source t = Some new \<and> ss_running t = Some new) \<or>
      (ss_status t = ''rolled_back'' \<and> ss_source t = Some old \<and> ss_running t = Some old)"
    using assms by (simp add: openwrt_upgrade_def openwrt_script_def source_installed_def openwrt_rollback_def ss_start_def Let_def)
qed

lemma upgrade_is_done_or_undone_witness:
  "bs_running (systemd_upgrade (\<lambda>_. True) (\<lambda>_. False) True (\<lambda>_. True) ''new'' (binary_installed ''old'')) = Some ''old'' \<and>
   ss_source (openwrt_upgrade (\<lambda>n. n \<noteq> 8) (\<lambda>_. False) False (\<lambda>_. True) (source_installed ''old'' ''new'')) = Some ''old''"
proof -
  have s: "bs_status (systemd_upgrade (\<lambda>_. True) (\<lambda>_. False) True (\<lambda>_. True) ''new'' (binary_installed ''old'')) = ''rolled_back''"
    "ss_status (openwrt_upgrade (\<lambda>n. n \<noteq> 8) (\<lambda>_. False) False (\<lambda>_. True) (source_installed ''old'' ''new'')) = ''rolled_back''"
    by code_simp+
  show ?thesis
    using conjunct1 [OF upgrade_is_done_or_undone [of "\<lambda>_. False" "\<lambda>_. True" "\<lambda>_. True" True "''new''" "''old''"]]
      conjunct2 [OF upgrade_is_done_or_undone [of "\<lambda>_. False" "\<lambda>_. True" "\<lambda>n. n \<noteq> 8" False "''new''" "''old''"]] s
    by (auto simp: Let_def)
qed

text \<open>Under systemd the rollback starts a service that still runs: when the last state cannot be written, the old
  program is installed and the new one runs on. A signal while the new program is put in its place finds the flag
  not yet set, and the new program stays, with the state of an upgrade that was undone; on OpenWrt a signal between
  the two moves leaves no source at all, and no agent.\<close>

lemma undone_upgrades:
  "(let t = systemd_upgrade (\<lambda>n. n \<noteq> 11) (\<lambda>_. False) False (\<lambda>_. True) ''new'' (binary_installed ''old'') in
     bs_status t = ''rolled_back'' \<and> bs_installed t = ''old'' \<and> bs_running t = Some ''new'')"
  "(let t = systemd_upgrade (\<lambda>_. True) (\<lambda>n. n = 6) False (\<lambda>_. True) ''new'' (binary_installed ''old'') in
     bs_status t = ''rolled_back'' \<and> bs_installed t = ''new'' \<and> bs_running t = Some ''new'')"
  "(let t = openwrt_upgrade (\<lambda>_. True) (\<lambda>n. n = 6) False (\<lambda>_. True) (source_installed ''old'' ''new'') in
     ss_status t = ''failed'' \<and> ss_source t = None \<and> ss_running t = None)"
  by code_simp+

end
