(* ===== verification/AgentUpgradeLaws.thy ===== *)
theory AgentUpgradeLaws
  imports AgentUpgrade AgentWgLaws UpgradeScript
begin

text \<open>
  What the task of an upgrade promises before any script runs: nothing outside the directories of the upgrade
  is touched, and what is staged is what the controller named.
\<close>

definition upgrade_file :: "path \<Rightarrow> bool" where
  "upgrade_file q = (within upgrade_dir q \<or> within staged_source q)"

lemma upgrade_files [simp]:
  "upgrade_file new_binary" "upgrade_file new_source_archive" "upgrade_file upgrade_script" "upgrade_file upgrade_state_file"
  "upgrade_file (upgrade_target m)"
  by (simp_all add: upgrade_file_def within_def new_binary_def new_source_archive_def upgrade_script_def upgrade_state_file_def upgrade_dir_def
      upgrade_target_def)

lemma staged_below [simp]: "within staged_source q \<Longrightarrow> upgrade_file q"
  by (simp add: upgrade_file_def)

lemma touches_catching [touch]: "touches P m \<Longrightarrow> (\<And>e. touches P (h e)) \<Longrightarrow> touches P (catching m h)"
  unfolding touches_def catching_def by (auto split: prod.split sum.split) (metis snd_conv)+

lemma touches_whole [touch]: "touches P (read_whole p)"
  by (simp add: touches_def read_whole_def split: option.split)

lemma touches_tree [touch]: "(\<And>q. within root q \<Longrightarrow> P q) \<Longrightarrow> touches P (remove_tree root)"
  by (rule touchesI) (auto simp: remove_tree_def)

lemma touches_check [touch]: "touches P (check_source_version p v)"
  by (auto simp: touches_def check_source_version_def split: option.split sum.split)

lemma touches_members [touch]: "touches (within root) (extract_members root dirs seen ms)"
proof (induction ms arbitrary: dirs seen)
  case (Cons m ms)
  have w: "within root (root @ posix_parts (am_name m))" if "\<not> unsafe_member m"
    using that by (simp add: within_def unsafe_member_def)
  show ?case
  proof (rule touchesI, goal_cases)
    case (1 d)
    have p: "dk_faults (put_file q f d) = []" for q f using 1 by (simp add: put_file_def)
    show ?case using Cons.IH [unfolded touches_def] 1 p w
      by (simp add: draise_def Let_def) (auto simp: put_file_def)
  qed
qed (simp add: touch)

lemma touches_extract [touch]: "touches (within root) (extract_source_archive ug archive root v)"
  unfolding extract_source_archive_def by (intro touch) simp

lemma touches_weaker: "touches P m \<Longrightarrow> (\<And>q. P q \<Longrightarrow> Q q) \<Longrightarrow> touches Q m"
  unfolding touches_def by blast

text \<open>The files of the last steps, which are not the downloaded one.\<close>

definition later_file :: "path \<Rightarrow> bool" where
  "later_file q = (within staged_source q \<or> q = upgrade_script \<or> q = upgrade_state_file)"

lemma later_files [simp]: "later_file upgrade_script" "later_file upgrade_state_file" "within staged_source q \<Longrightarrow> later_file q"
  "\<not> later_file (upgrade_target m)"
  by (simp_all add: later_file_def within_def new_binary_def new_source_archive_def upgrade_script_def upgrade_state_file_def upgrade_dir_def
      upgrade_target_def staged_source_def)

lemma later_upgrade: "later_file q \<Longrightarrow> upgrade_file q"
  by (auto simp: later_file_def)

lemma touches_prepare [touch]: "touches later_file (prepare_upgrade ug p t)"
proof -
  have "touches later_file (extract_source_archive ug a staged_source v)" for a v
    by (rule touches_weaker [OF touches_extract]) simp
  then show ?thesis unfolding prepare_upgrade_def Let_def by (intro touch) simp_all
qed

lemma touches_upgrade: "touches upgrade_file (self_upgrade ug dry p)"
proof -
  have "touches upgrade_file (remove_tree staged_source)" "touches upgrade_file (prepare_upgrade ug p t)" for t
    using touches_weaker [OF touches_prepare later_upgrade] by (auto intro: touches_tree)
  then show ?thesis unfolding self_upgrade_def Let_def write_upgrade_state_def download_file_def
    by (intro touch) (simp_all add: touch)
qed

definition source_version_of :: "disk \<Rightarrow> string option" where
  "source_version_of d = (case content (version_file staged_source) d of None \<Rightarrow> None
     | Some c \<Rightarrow> (case decode_text c of Inl _ \<Rightarrow> None | Inr s \<Rightarrow> find_version s))"

lemma prepared:
  assumes "prepare_upgrade ug p t d = (Inr x, e)" "dk_faults d = []"
  shows "if ut_mode t = ''source'' then source_version_of e = Some (ut_version t)
    else \<exists>args out err. ug_version ug (show_path new_binary # args) = Some (0, out, err) \<and> strip (out @ [CHR 0x0A] @ err) = ut_version t"
proof (cases "ut_mode t = ''source''")
  case True
  then obtain y d1 where d1: "extract_source_archive ug new_source_archive staged_source (ut_version t) d = (Inr y, d1)"
    "atomic_write_text upgrade_script (ug_script ug [''openwrt'', ug_service ug, ut_version t]) 448 d1 = (Inr x, e)"
    using assms(1) by (auto simp: prepare_upgrade_def upgrade_target_def Let_def elim: dbind_okE)
  have f: "dk_faults d1 = []" using touches_content(1) [OF touches_extract assms(2) d1(1)] .
  have "source_version_of d1 = Some (ut_version t)"
    using d1(1) by (auto simp: extract_source_archive_def check_source_version_def source_version_of_def content_def draise_def
        elim!: dbind_okE split: if_splits option.splits sum.splits)
  moreover have "content (version_file staged_source) e = content (version_file staged_source) d1"
    by (rule touches_content(2) [OF touches_write [of "\<lambda>q. q = upgrade_script"] f d1(2)])
      (simp_all add: version_file_def upgrade_script_def upgrade_dir_def staged_source_def)
  ultimately show ?thesis using True by (simp add: source_version_of_def)
next
  case False
  then show ?thesis using assms(1)
    by (auto simp: prepare_upgrade_def upgrade_target_def Let_def lift_error_def verify_binary_version_def
        elim!: dbind_okE split: option.splits if_splits) blast
qed

lemma fetched_bounded: "fetched ug url v = Inr c \<Longrightarrow> int (length c) \<le> max_download_size"
proof -
  have r: "read_chunks limit got cs = Inr c \<Longrightarrow> int (length got) \<le> limit \<Longrightarrow> int (length c) \<le> limit" for limit got cs
    by (induction limit got cs rule: read_chunks.induct) (auto split: if_splits)
  assume "fetched ug url v = Inr c"
  then obtain n cs where n: "upgrade_size v = Inr n" "read_chunks (the_or max_download_size n) [] cs = Inr c"
    by (auto simp: fetched_def Let_def elim!: rbindE split: if_splits)
  have "the_or max_download_size n \<le> max_download_size \<and> 0 \<le> the_or max_download_size n"
    using n(1) by (auto simp: upgrade_size_def max_download_size_def split: json.splits if_splits)
  then show ?thesis using r [OF n(2)] by simp
qed

text \<open>The steps of an upgrade that reaches its end, with the disk after each.\<close>

definition upgrade_note :: "string \<Rightarrow> upgrade_task \<Rightarrow> fields" where
  "upgrade_note status t = [(''status'', JStr status), (''target_version'', JStr (ut_version t)), (''upgrade_mode'', JStr (ut_mode t))]"

lemma staged_run:
  assumes "self_upgrade ug False p d = (Inr x, e)"
  obtains m t u1 d1 u2 d2 c d3 u3 d4 u4 d5 u5 d6 u6 where "check_upgrade ug False m p = Inr t" "ug_sha256 ug c = ut_sha256 t"
    "write_upgrade_state (upgrade_note ''downloading'' t) d = (Inr u1, d1)"
    "download_file ug (ut_url t) (upgrade_target (ut_mode t)) (dget p ''size'') d1 = (Inr u2, d2)"
    "read_whole (upgrade_target (ut_mode t)) d2 = (Inr c, d3)"
    "write_upgrade_state (upgrade_note ''verified'' t) d3 = (Inr u3, d4)" "prepare_upgrade ug p t d4 = (Inr u4, d5)"
    "lift_error (ug_schedule ug) d5 = (Inr u5, d6)" "write_upgrade_state (upgrade_note ''staged'' t) d6 = (Inr u6, e)"
proof -
  obtain m where m: "detect_service_manager (ug_wg ug) d = (Inr m, d)" by (simp add: detect_service_manager_def)
  obtain t where t: "check_upgrade ug False m p = Inr t"
    using assms m unfolding self_upgrade_def by (auto simp: lift_error_def elim!: dbind_okE)
  let ?target = "upgrade_target (ut_mode t)"
  let ?last = "\<lambda>actual. dbind (write_upgrade_state (upgrade_note ''verified'' t)) (\<lambda>_.
          dbind (prepare_upgrade ug p t) (\<lambda>_. dbind (lift_error (ug_schedule ug)) (\<lambda>_.
          dbind (write_upgrade_state (upgrade_note ''staged'' t)) (\<lambda>_. dreturn actual))))"
  let ?check = "\<lambda>content. let actual = ug_sha256 ug content in
        if actual \<noteq> ut_sha256 t then draise ''agent upgrade sha256 mismatch'' else ?last actual"
  obtain a where steps: "dbind (write_upgrade_state (upgrade_note ''downloading'' t)) (\<lambda>_.
        dbind (download_file ug (ut_url t) ?target (dget p ''size'')) (\<lambda>_. dbind (read_whole ?target) ?check)) d = (Inr a, e)"
    using assms m t unfolding self_upgrade_def upgrade_note_def
    by (auto simp: lift_error_def dreturn_def catching_def Let_def elim!: dbind_okE split: prod.splits sum.splits)
  then obtain d1 u1 d2 u2 c d3 where w1: "write_upgrade_state (upgrade_note ''downloading'' t) d = (Inr u1, d1)"
    "download_file ug (ut_url t) ?target (dget p ''size'') d1 = (Inr u2, d2)" "read_whole ?target d2 = (Inr c, d3)"
    and rest: "?check c d3 = (Inr a, e)"
    by (elim dbind_okE) (rule that, assumption+)
  have sha: "ug_sha256 ug c = ut_sha256 t" using rest by (auto simp: Let_def draise_def split: if_splits)
  then have "?last (ut_sha256 t) d3 = (Inr a, e)" using rest by (simp add: Let_def)
  then show thesis
    by (elim dbind_okE) (rule that [OF t sha w1], assumption+, simp add: dreturn_def)
qed

text \<open>A download leaves the bytes it fetched at its place.\<close>

lemma download_kept:
  assumes "download_file ug url target size_of d = (Inr u, e)" "dk_faults d = []"
  shows "\<exists>b. content target e = Some b \<and> int (length b) \<le> 512 * 1024 * 1024 \<and> dk_faults e = []"
proof -
  obtain b where b: "fetched ug url size_of = Inr b"
    "atomic_write_bytes target b (if target = new_binary then 493 else 384) d = (Inr u, e)"
    using assms(1) by (auto simp: download_file_def lift_error_def elim!: dbind_okE)
  show ?thesis using b(2) assms(2) fetched_bounded [OF b(1)]
    by (auto simp: atomic_write_bytes_def next_fault_def content_def put_file_def max_download_size_def)
qed

text \<open>C20: An upgrade that is reported staged is the one that was asked for: the file at its place has the digest the
  controller named and at most 512 MiB, the program answered with the version that was named, or the version in the
  extracted source is that one, and the address passed the check against the controller's. Whether it succeeds or
  not, the task touches no file outside its own directory and the directory of the staged source.\<close>

theorem staged_upgrade_is_verified:
  assumes "dk_faults d = []" "self_upgrade ug False p d = (r, e)"
  shows "(\<forall>q. \<not> upgrade_file q \<longrightarrow> dk_files e q = dk_files d q) \<and>
    (is_ok r \<longrightarrow> (\<exists>m t c. check_upgrade ug False m p = Inr t \<and> ensure_controller_url (ut_url t) (ug_server ug) = Inr () \<and>
      content (upgrade_target (ut_mode t)) e = Some c \<and> ug_sha256 ug c = ut_sha256 t \<and> int (length c) \<le> 512 * 1024 * 1024 \<and>
      (if ut_mode t = ''source'' then source_version_of e = Some (ut_version t)
       else \<exists>args out err. ug_version ug (show_path new_binary # args) = Some (0, out, err) \<and> strip (out @ [CHR 0x0A] @ err) = ut_version t)))"
proof (intro conjI impI)
  show "\<forall>q. \<not> upgrade_file q \<longrightarrow> dk_files e q = dk_files d q"
    using touches_upgrade [of ug False p] assms unfolding touches_def by (metis snd_conv)
next
  assume "is_ok r"
  then obtain x where r: "r = Inr x" by (auto simp: is_ok_iff)
  obtain m t u1 d1 u2 d2 c d3 u3 d4 u4 d5 u5 d6 u6 where t: "check_upgrade ug False m p = Inr t" and sha: "ug_sha256 ug c = ut_sha256 t"
    and w1: "write_upgrade_state (upgrade_note ''downloading'' t) d = (Inr u1, d1)"
    and dl: "download_file ug (ut_url t) (upgrade_target (ut_mode t)) (dget p ''size'') d1 = (Inr u2, d2)"
    and rd: "read_whole (upgrade_target (ut_mode t)) d2 = (Inr c, d3)"
    and w2: "write_upgrade_state (upgrade_note ''verified'' t) d3 = (Inr u3, d4)" and pr: "prepare_upgrade ug p t d4 = (Inr u4, d5)"
    and sc: "lift_error (ug_schedule ug) d5 = (Inr u5, d6)" and w3: "write_upgrade_state (upgrade_note ''staged'' t) d6 = (Inr u6, e)"
    using staged_run [OF assms(2) [unfolded r]] by metis
  let ?target = "upgrade_target (ut_mode t)"
  have url: "ensure_controller_url (ut_url t) (ug_server ug) = Inr ()"
    using t unfolding check_upgrade_def Let_def by (elim rbindE) auto
  have st: "touches (\<lambda>q. q = upgrade_state_file) (write_upgrade_state y)" for y unfolding write_upgrade_state_def by (intro touch) simp
  have nt: "?target \<noteq> upgrade_state_file" "version_file staged_source \<noteq> upgrade_state_file"
    using later_files(2,4) by metis (simp add: version_file_def upgrade_state_file_def upgrade_dir_def staged_source_def)
  obtain b where b: "content ?target d2 = Some b" "int (length b) \<le> 512 * 1024 * 1024" "dk_faults d2 = []"
    using download_kept [OF dl touches_content(1) [OF st assms(1) w1]] by blast
  then have d3: "content ?target d3 = Some c" "dk_faults d3 = []" "int (length c) \<le> 512 * 1024 * 1024"
    using rd by (auto simp: read_whole_def content_def split: option.splits)
  have d4: "content ?target d4 = Some c" "dk_faults d4 = []"
    using touches_content(2) [OF st d3(2) w2] touches_content(1) [OF st d3(2) w2] nt d3(1) by simp_all
  have d5: "content ?target d5 = Some c" "dk_faults d5 = []"
    using touches_content(2) [OF touches_prepare d4(2) pr] touches_content(1) [OF touches_prepare d4(2) pr] d4(1) by simp_all
  have e: "content q e = content q d5" if "q \<noteq> upgrade_state_file" for q
    using touches_content(2) [OF st _ w3, of q] sc d5(2) that by (simp add: lift_error_def)
  then have v: "source_version_of e = source_version_of d5" using nt(2) by (simp add: source_version_of_def)
  show "\<exists>m t c. check_upgrade ug False m p = Inr t \<and> ensure_controller_url (ut_url t) (ug_server ug) = Inr () \<and>
      content (upgrade_target (ut_mode t)) e = Some c \<and> ug_sha256 ug c = ut_sha256 t \<and> int (length c) \<le> 512 * 1024 * 1024 \<and>
      (if ut_mode t = ''source'' then source_version_of e = Some (ut_version t)
       else \<exists>args out err. ug_version ug (show_path new_binary # args) = Some (0, out, err) \<and> strip (out @ [CHR 0x0A] @ err) = ut_version t)"
    using t url sha d3(3) d5(1) e [OF nt(1)] prepared [OF pr d4(2)] v by metis
qed

text \<open>An upgrade of a node with systemd.\<close>

definition upgrade_sample :: upgrade_env where
  "upgrade_sample = \<lparr>ug_wg = \<lparr>we_agent = \<lparr>ae_run = (\<lambda>n c fs. \<lparr>cr_returncode = 0, cr_stdout = [], cr_stderr = [], cr_truncated = False,
       cr_failure = []\<rparr>), ae_backend = ''systemd'', ae_prefix = ''link42''\<rparr>, we_network = (\<lambda>n c fs. fs network_config),
       we_have = (\<lambda>c. c = ''systemctl''), we_polls = 0, we_configs = []\<rparr>,
     ug_server = ''http://c:80'', ug_service = ''a'', ug_source_dir = False, ug_response = (\<lambda>u. Inr (None, [Inr ''bin''])),
     ug_sha256 = (\<lambda>c. ''f''), ug_version = (\<lambda>c. Some (0, ''1'', [])), ug_archive = (\<lambda>c. Inl []), ug_script = (\<lambda>x. ''s''),
     ug_schedule = Inr ()\<rparr>"

definition upgrade_order :: fields where
  "upgrade_order = [(''download_url'', JStr ''http://C:80/x''), (''target_version'', JStr ''1''), (''sha256'', JStr ''f''), (''size'', JInt 3)]"

definition upgrade_disk :: disk where
  "upgrade_disk = \<lparr>dk_files = (\<lambda>_. None), dk_faults = [], dk_now = 0, dk_count = 0\<rparr>"

lemma upgrade_sample_ok: "is_ok (fst (self_upgrade upgrade_sample False upgrade_order upgrade_disk))"
  by code_simp

lemma staged_upgrade_is_verified_witness:
  "\<exists>m t c. check_upgrade upgrade_sample False m upgrade_order = Inr t \<and>
     content (upgrade_target (ut_mode t)) (snd (self_upgrade upgrade_sample False upgrade_order upgrade_disk)) = Some c \<and> ug_sha256 upgrade_sample c = ut_sha256 t"
proof -
  have f: "dk_faults upgrade_disk = []" by (simp add: upgrade_disk_def)
  from staged_upgrade_is_verified [OF f, of upgrade_sample upgrade_order, OF prod.collapse [symmetric]] upgrade_sample_ok
  show ?thesis by blast
qed

end
