(* ===== verification/Spec2Isabelle.thy ===== *)
theory Spec2Isabelle
  imports JsonLimits WgRoundTrip Validators DeployLaws Network AuthLaws BirdLaws LinkSamples MimicSamples GreSamples TopologySamples PortScanLaws WgSamples SecretLaws AgentLgLaws AgentUpgradeLaws
begin

text \<open>
  Link42 manages WireGuard interfaces and GRE tunnels on a set of nodes. A controller (\<open>apps/api\<close>, FastAPI
  over SQLAlchemy) keeps the desired state in a database and turns every change into tasks; an agent on each
  node (\<open>apps/agent\<close>) polls the controller, runs the tasks it is handed and reports their results; the
  packages they share (\<open>packages\<close>) hold the wg-quick parser and renderer, the table of task types and the
  token hash. This development models the controller, the agent and the shared packages as functions over
  explicit state, and proves what makes them correct alone and together.

  \<^bold>\<open>How the parts interact.\<close> A handler of the controller is a function from the database to a reply with a
  new database (an error leaves it as it was: the session closes without a commit). Handlers insert tasks; the
  poll hands them to the agent of their node; the agent dispatches each to a back end, which works on a disk
  and on commands answered by the environment, and keeps the result in an outbox until the controller
  confirms it; the report ends the task and is carried into the rows the task was about. \<open>Protocol\<close> closes the
  handlers of the controller under one step relation, \<open>System\<close> and \<open>Network\<close> put one agent beside it, over a
  network that loses requests and answers.

  \<^bold>\<open>Conventions.\<close> Python's \<open>str\<close> is \<open>string\<close> (code points below 256), \<open>int\<close> is \<open>int\<close>, a float is carried by
  its \<open>repr\<close> text, a dictionary is an association list where its order shows and a map where it does not, a
  datetime is a number of microseconds. Exceptions are the left side of \<open>('e, 'a) result\<close>. Randomness,
  clocks, hashes, ciphers, commands and the network are parameters of the definitions that use them.

  \<^bold>\<open>Foundations.\<close>
  \<^item> \<open>Prelude\<close>: the result monad, tables of rows by key, facts on lists and options, and the collections
    \<open>res_simps\<close>, \<open>table_simps\<close>, \<open>table_intros\<close>.
  \<^item> \<open>PyText\<close>: the operations of \<open>str\<close> and \<open>int\<close>. \<open>IpAddress\<close>, \<open>IpRound\<close>: Python's \<open>ipaddress\<close>, and that the
    text of an address is read back as that address.
  \<^item> \<open>Json\<close>, \<open>JsonText\<close>, \<open>JsonRound\<close>: JSON values, the text \<open>json.dumps\<close> writes and \<open>json.loads\<close> reads, and
    that what is written is read back. \<open>JsonLimits\<close>: the three recursive validators of received JSON
    (main.py, schemas.py) under the locales \<open>tree_validator\<close> and \<open>exact_validator\<close>.
  \<^item> \<open>AgentText\<close>: UTF-8 and its bounded cuts. \<open>Base64\<close>: the URL-safe base 64 of the sealed texts.

  \<^bold>\<open>The controller\<close> (\<open>apps/api/link42_api\<close>).
  \<^item> \<open>Models\<close> (models.py): one record per table and the database as a record of tables; the locale \<open>store\<close>
    is interpreted on the eight tables that are searched by key. \<open>Samples\<close>: small rows for witnesses.
  \<^item> \<open>ConnTypes\<close> (connection_types.py, main.py): task types, the version and capability gate, registration and
    heartbeat. \<open>TaskEngine\<close>: recovery of tasks, dependency chains, aggregation of plans and the poll;
    \<open>TaskLaws\<close> and \<open>QueueLaws\<close>: what a poll may hand out, that cycles are broken and that a waiting task
    waits for work that can go on.
  \<^item> \<open>Validators\<close> (schemas.py): the field validators. \<open>WgConfig\<close> (\<open>packages/link42_wireguard\<close>): parser and
    renderer of wg-quick files; \<open>WgRoundTrip\<close>: parsing reads back what was rendered.
  \<^item> \<open>WgService\<close> (wireguard_service.py, task_identity.py), \<open>InterfaceTasks\<close>, \<open>WgHandlers\<close> (main.py):
    rendering of rows, the idempotent tasks of an interface, and the handlers of WireGuard configurations,
    deployment plans and imports. \<open>GreController\<close>: schemas and handlers of GRE connections.
    \<open>Monitors\<close>: link monitors and their results.
  \<^item> \<open>LookingGlass\<close>, \<open>LgNodes\<close>, \<open>LgNodesLaws\<close>: the third-party API, its queries and the pages of its node
    list. \<open>Topology\<close>, \<open>TopologyLaws\<close>, \<open>TopologySamples\<close>: what is shown of monitors, connections and links.
  \<^item> \<open>Middleware\<close>, \<open>ManagedLinks\<close>: the udp2raw and mimic settings and the links between two nodes;
    \<open>LinkLaws\<close>, \<open>LinkSamples\<close>: the two ends of a link fit together. \<open>NodeTasks\<close> (node_plugins and main.py):
    plugins, upgrades, port inventory and the deletion of a node.
  \<^item> \<open>TaskResult\<close>: \<open>agent_task_result\<close>, the one place where a report ends a task; \<open>ReportLaws\<close>: reports may be
    repeated, refused ones change nothing. \<open>DeployLaws\<close>: what starting and stopping queues.
  \<^item> \<open>Safety\<close>, \<open>SafeHandlers\<close>, \<open>SafeResult\<close>, \<open>SafeGre\<close>, \<open>SafeLinks\<close>: every handler meets the contract
    \<open>safe_step\<close>. \<open>Protocol\<close>: the controller as the relation \<open>controller_step\<close>, with its invariant by rule
    induction through the locale \<open>transition_system\<close>; \<open>Scenario\<close>: a concrete run.
  \<^item> \<open>Auth\<close>, \<open>AuthLaws\<close>: login, its limits and the web session. \<open>HttpFront\<close> (http_security.py): bounded
    bodies. \<open>SecretStore\<close>, \<open>SecretLaws\<close> (secret_store.py, database.py): the master key, sealed texts and JSON,
    and the migration of an old database.

  \<^bold>\<open>The agent\<close> (\<open>apps/agent/link42_agent\<close>).
  \<^item> \<open>Agent\<close>, \<open>AgentLaws\<close> (client.py, task_handlers.py, main.py): the outbox, the dispatch and a round of the
    main loop. \<open>System\<close>: controller and agent as the abstract machine \<open>system_step\<close>, and the locale \<open>outside\<close>
    with the simulation; \<open>Network\<close>: its interpretation over a lossy network.
  \<^item> \<open>AgentIo\<close> (validation.py, system.py): names, files with scripted faults and commands. \<open>Bird\<close>, \<open>BirdLaws\<close>
    (plugins/bird.py): changes of BIRD files, whole or not at all.
  \<^item> \<open>Udp2raw\<close>, \<open>UdpLaws\<close>, \<open>UdpOrders\<close>, \<open>UdpSamples\<close> (middleware.py): the instance file as a map (locale
    \<open>named_store\<close>), and the orders of the controller accepted by the agent. \<open>Mimic\<close>, \<open>MimicLaws\<close>,
    \<open>MimicSamples\<close>: the configuration shared with an administrator.
  \<^item> \<open>AgentGre\<close>, \<open>AgentGreLaws\<close>, \<open>GreUndo\<close>, \<open>GreSamples\<close> (gre.py): payloads, files and commands of a tunnel,
    the round trip to its service and the undoing of a failed start.
  \<^item> \<open>AgentWg\<close>, \<open>AgentWgLaws\<close>, \<open>WgSamples\<close> (service_manager.py, system.py): service managers and WireGuard
    interfaces. \<open>AgentLg\<close>, \<open>AgentLgLaws\<close> (looking_glass.py, commands.py): the commands of queries and the
    bounded capture of output. \<open>PortScan\<close>, \<open>PortScanLaws\<close> (plugins/port_inventory.py): listening ports.
  \<^item> \<open>AgentUpgrade\<close>, \<open>UpgradeScript\<close>, \<open>AgentUpgradeLaws\<close> (upgrade.py): the checks of an upgrade and the two
    shell scripts as machines whose commands fail and that signals interrupt.

  \<^bold>\<open>Bounds and termination.\<close> Loops are structural recursion, or \<open>function\<close> with a measure: the validators
  descend the JSON value, the scanners of texts consume characters, and the batches of the node list
  (\<open>scan_nodes\<close>) advance in the table. Three definitions count down: \<open>walk_dependencies\<close> from 64, which is
  the depth the code itself refuses to exceed, \<open>assert_wireguard_stopped\<close> from the number of polls the code
  makes, and the reader of JSON, for which the length of the text is
  enough (\<open>JsonRound\<close> proves that it reads back every value written). The agent's main loop is unbounded: it
  is a sequence of rounds of arbitrary length. Faults come from a script of failing writes; a property that
  bounds their number says so.

  \<^bold>\<open>Not modelled.\<close> The SQL repairs of old SQLite files and the engine itself (database.py), the serving of
  static files, branding and release files, URL parsing (\<open>urllib.parse\<close>) beyond the checks of the upgrade, the
  redaction of responses, logging; on the agent the reading of its configuration from the environment, the
  probes of capabilities at start, the installation of mimic from GitHub, symbolic links, directory creation
  and process groups. These are input and output around the logic, or statements against systems whose
  behaviour is not in the source. The scheduling of an upgrade script, tar, SHA-256, Argon2id and AES-GCM are
  parameters with the documented behaviour as named hypotheses.
\<close>

end
